(* ===== verification/Prelude.thy ===== *)
theory Prelude
  imports Main "HOL-Library.Word"
begin

text \<open>
  The vocabulary shared by every component of the development: machine integers at the
  width the C sources give them, the two helpers every memory-mapped register file uses
  (\<^verbatim>\<open>masked_write\<close> of \<^verbatim>\<open>src/src/device/memory/memory.h\<close> and the byte swap \<^verbatim>\<open>tohl\<close> of
  \<^verbatim>\<open>src/src/osal/preproc.h\<close>), the C view of a byte buffer inside a word buffer, and generic
  facts on bits, lists and list updates that the component proofs share.

  The model fixes a little-endian host (\<^verbatim>\<open>M64P_BIG_ENDIAN\<close> undefined), so the byte-lane
  constants of \<^verbatim>\<open>preproc.h\<close> are \<^verbatim>\<open>S8 = 3\<close>, \<^verbatim>\<open>S16 = 2\<close> and \<^verbatim>\<open>Sh16 = 1\<close>.
\<close>

unbundle bit_operations_syntax

section \<open>Types\<close>

type_synonym u8 = "8 word"
type_synonym u16 = "16 word"
type_synonym u32 = "32 word"
type_synonym u64 = "64 word"

text \<open>
  A register file indexed by the enumerators of its C \<^verbatim>\<open>enum\<close>; the memory accessors of the
  components prove separately that the index they compute is below the declared size.
\<close>

type_synonym regfile = "nat \<Rightarrow> u32"

named_theorems reg_defs \<open>register and bit-field constants of the C headers\<close>
named_theorems frame \<open>fields an operation leaves alone\<close>

section \<open>Register helpers\<close>

definition masked_write :: "u32 \<Rightarrow> u32 \<Rightarrow> u32 \<Rightarrow> u32" where
  "masked_write dst value msk = (dst AND NOT msk) OR (value AND msk)"

definition tohl :: "u32 \<Rightarrow> u32" where
  "tohl x =
     push_bit 24 (x AND 0x000000FF) OR
     push_bit 8 (x AND 0x0000FF00) OR
     drop_bit 8 (x AND 0x00FF0000) OR
     drop_bit 24 (x AND 0xFF000000)"

definition S8 :: u32 where "S8 = 3"
definition S16 :: u32 where "S16 = 2"
definition Sh16 :: u32 where "Sh16 = 1"

lemma masked_write_bit:
  "bit (masked_write dst value msk) n = (if bit msk n then bit value n else bit dst n)"
  by (cases "n < 32") (auto simp: masked_write_def bit_simps dest: bit_imp_le_length)

lemma masked_write_full [simp]: "masked_write dst value (- 1) = value"
  by (rule bit_word_eqI) (simp add: masked_write_bit)

lemma masked_write_none [simp]: "masked_write dst value 0 = dst"
  by (rule bit_word_eqI) (simp add: masked_write_bit)

lemma masked_write_idem [simp]:
  "masked_write (masked_write dst v msk) w msk = masked_write dst w msk"
  by (rule bit_word_eqI) (simp add: masked_write_bit)

lemma and_ones32 [simp]: "(x :: u32) AND 0xFFFFFFFF = x"
proof -
  have "(0xFFFFFFFF :: u32) = - 1" by simp
  then show ?thesis by (simp only: and.right_neutral)
qed

lemma masked_write_ones [simp]: "masked_write dst value 0xFFFFFFFF = value"
proof -
  have "(0xFFFFFFFF :: u32) = - 1" by simp
  then show ?thesis by (simp only: masked_write_full)
qed

lemma tohl_bit:
  "n < 32 \<Longrightarrow> bit (tohl x) n = bit x (8 * (3 - n div 8) + n mod 8)"
proof -
  assume "n < 32"
  then have "n \<in> set [0..<32]" by simp
  moreover have "\<forall>n \<in> set [0..<32]. bit (tohl x) n = bit x (8 * (3 - n div 8) + n mod 8)"
    by (simp add: tohl_def bit_simps upt_rec) (simp add: eval_nat_numeral)
  ultimately show ?thesis by blast
qed

lemma tohl_tohl [simp]: "tohl (tohl x) = x"
proof (rule bit_word_eqI)
  fix n assume "n < LENGTH(32)"
  then have n: "n < 32" by simp
  have m: "8 * (3 - n div 8) + n mod 8 < 32" by auto
  have e: "8 * (3 - (8 * (3 - n div 8) + n mod 8) div 8) + (8 * (3 - n div 8) + n mod 8) mod 8 = n"
    using n by auto
  show "bit (tohl (tohl x)) n = bit x n"
    by (simp only: tohl_bit [OF n] tohl_bit [OF m] e)
qed

section \<open>Testing bits through masks\<close>

text \<open>The C idiom \<^verbatim>\<open>if (w & 0x80)\<close> is a test of one bit.\<close>

lemma and_exp_nonzero: "(w AND 2 ^ n \<noteq> (0::u32)) = bit w n"
  by (simp add: and_exp_eq_0_iff_not_bit)

lemma unat_and_le: "unat (x AND y :: u32) \<le> unat y"
  using word_and_le1 [of x y] by (simp add: word_le_nat_alt)

lemma unat_and_le2: "unat (x AND y :: u32) \<le> unat x"
  by (subst and.commute) (rule unat_and_le)

lemma unat_and_mask: "unat (x AND mask n :: u32) = unat x mod 2 ^ n"
  unfolding take_bit_eq_mask [symmetric] unsigned_take_bit_eq by (rule take_bit_eq_mod)

text \<open>The register index \<^verbatim>\<open>(address & m) >> 2\<close> of every memory-mapped register file.\<close>

definition reg_index :: "u32 \<Rightarrow> u32 \<Rightarrow> nat" where
  "reg_index m address = unat (drop_bit 2 (address AND m))"

lemma reg_index_le: "reg_index m address \<le> unat m div 4"
  using div_le_mono [OF unat_and_le [of address m], of 4]
  by (simp add: reg_index_def drop_bit_eq_div unat_div)

section \<open>Signed and unsigned readings of a 32-bit value\<close>

lemma sint32: "sint (x :: u32) = (if uint x < 2 ^ 31 then uint x else uint x - 2 ^ 32)"
proof -
  have "sint x = (uint x + 2 ^ 31) mod 2 ^ 32 - 2 ^ 31"
    using signed_take_bit_eq_take_bit_shift [of 31 "uint x"]
    by (simp add: sint_uint take_bit_eq_mod add.commute eval_nat_numeral)
  moreover have u: "uint x < 2 ^ 32" "0 \<le> uint x" using unsigned_less [of x, where ?'a = int] by simp_all
  moreover have "(uint x + 2 ^ 31) mod 2 ^ 32 = (if uint x < 2 ^ 31 then uint x + 2 ^ 31 else uint x - 2 ^ 31)"
  proof (cases "uint x < 2 ^ 31")
    case False
    have "uint x + 2 ^ 31 = uint x - 2 ^ 31 + 2 ^ 32" by simp
    then have "(uint x + 2 ^ 31) mod 2 ^ 32 = (uint x - 2 ^ 31) mod 2 ^ 32"
      by (simp only: mod_add_self2)
    then show ?thesis using False u by simp
  qed (use u in simp)
  ultimately show ?thesis by auto
qed

lemma sint_pos_iff: "0 < sint (x :: u32) \<longleftrightarrow> 0 < unat x \<and> unat x < 2 ^ 31"
proof -
  obtain n where n: "n = unat x" by simp
  then have "uint x = int n" "n < 2 ^ 32"
    using unsigned_less [of x, where ?'a = nat] by simp_all
  then show ?thesis unfolding sint32 n [symmetric] by simp
qed

lemma unat_uminus: "unat (- x :: u32) = (if x = 0 then 0 else 2 ^ 32 - unat x)"
proof (cases "x = 0")
  case False
  have "uint x < 2 ^ 32" using unsigned_less [of x, where ?'a = int] by simp
  moreover have "0 < uint x" using False by (simp add: order_less_le uint_0_iff)
  ultimately have "uint (- x) = 2 ^ 32 - uint x"
    by (simp add: uint_word_ariths zmod_zminus1_eq_if)
  then have "unat (- x) = nat (2 ^ 32 - uint x)" by (simp only: unat_eq_nat_uint)
  also have "\<dots> = 2 ^ 32 - unat x" by (simp add: nat_diff_distrib')
  finally show ?thesis using False by simp
qed simp

lemma unat_add_small: "unat x + unat y < 2 ^ 32 \<Longrightarrow> unat (x + y :: u32) = unat x + unat y"
  by (simp add: unat_word_ariths)

lemma unat_plus_one: "x + 1 \<noteq> 0 \<Longrightarrow> unat (x + 1 :: u32) = unat x + 1"
proof -
  assume n: "x + 1 \<noteq> 0"
  have x: "unat x < 2 ^ 32" using unsigned_less [of x, where ?'a = nat] by simp
  have "unat (x + 1) = (unat x + 1) mod 2 ^ 32" by (simp add: unat_word_ariths)
  moreover have "unat (x + 1) \<noteq> 0" using n by (simp add: unat_eq_0)
  ultimately show ?thesis using x by (cases "unat x + 1 = 2 ^ 32") simp_all
qed

section \<open>Lists\<close>

lemma last_Cons_takeWhile_in:
  "last (x # takeWhile P xs) \<in> set (x # xs)"
  by (metis last_in_set list.distinct(1) set_takeWhileD set_ConsD list.set_intros)

lemma list_update_twice_commute:
  "i \<noteq> j \<Longrightarrow> (xs[i := a])[j := b] = (xs[j := b])[i := a]"
  by (rule list_update_swap)

lemma upd_conv_nth_in: "i < length xs \<Longrightarrow> (xs[i := a]) ! j = (if i = j then a else xs ! j)"
  by (simp add: nth_list_update)

text \<open>Bounded quantifiers over table indices.\<close>

lemma less16: "(\<forall>i < 16. P i) \<longleftrightarrow> P 0 \<and> P 1 \<and> P 2 \<and> P 3 \<and> P 4 \<and> P 5 \<and> P 6 \<and> P 7 \<and>
    P 8 \<and> P 9 \<and> P 10 \<and> P 11 \<and> P 12 \<and> P 13 \<and> P 14 \<and> P (15 :: nat)"
  by (simp add: numeral_eq_Suc All_less_Suc) (auto simp: numeral_eq_Suc)

end
