(* ===== verification/Host.thy ===== *)
theory Host
  imports Prelude
begin

text \<open>
  What the machine shares with the host. The emulated hardware calls out to plugins and to
  the front end (graphics, audio, input and storage back ends): those programs are not part of
  the sources, so every such call is recorded in \<open>ext_log\<close> in the order in which the code makes it,
  and calls that return something take their result from a function in the state.

  \<open>fault\<close> is set where the C program would dereference \<^verbatim>\<open>NULL\<close>, index outside an array, divide
  by zero, fail an \<^verbatim>\<open>assert\<close> or loop forever: what follows such a point has no meaning in C, and
  the theorems about an operation show that it leaves \<open>fault\<close> alone.
\<close>

datatype ext_call =
    Gfx_ViStatusChanged
  | Gfx_ViWidthChanged
  | Gfx_UpdateScreen
  | Gfx_ShowCFB
  | Gfx_ProcessRDPList
  | Gfx_FBRead u32
  | Gfx_FBWrite u32 u32
  | New_vi
  | Audio_set_format u32 u32
  | Audio_push_samples u32 u32
  | Audio_set_frequency u32
  | Rsp_cycles u32
  | Storage_save nat nat nat
  | Rumble_exec nat bool
  | Debug_print "u8 list"
  | Vru_send_word u16 "u16 list" u8
  | Vru_mic_state bool
  | Vru_read_results
  | Vru_clear_words u8
  | New_frame

record host =
  fault :: bool
  ext_log :: "ext_call list"
  rand_seq :: "nat \<Rightarrow> u32"
  rand_pos :: nat
  gs_vi_counter :: u32

definition set_fault :: "'a host_scheme \<Rightarrow> 'a host_scheme" where
  "set_fault s = s\<lparr>fault := True\<rparr>"

definition call_out :: "ext_call \<Rightarrow> 'a host_scheme \<Rightarrow> 'a host_scheme" where
  "call_out c s = s\<lparr>ext_log := ext_log s @ [c]\<rparr>"

definition host_rand :: "'a host_scheme \<Rightarrow> u32 \<times> 'a host_scheme" where
  "host_rand s = (rand_seq s (rand_pos s), s\<lparr>rand_pos := rand_pos s + 1\<rparr>)"

lemma set_fault_simps [simp]:
  "fault (set_fault s)" "ext_log (set_fault s) = ext_log s"
  by (simp_all add: set_fault_def)

lemma call_out_simps [simp]:
  "fault (call_out c s) = fault s" "ext_log (call_out c s) = ext_log s @ [c]"
  by (simp_all add: call_out_def)

end
