(* ===== verification/Event_Queue_Spec.thy ===== *)
theory Event_Queue_Spec
  imports Prelude
begin

text \<open>
  What the interrupt queue promises, independently of how it is stored: a bounded list of
  \<open>(type, count)\<close> events. \<open>ins_event\<close> puts an event behind every event that is not after it,
  \<open>del_event\<close> drops the first event of a type, look-up is \<^const>\<open>map_of\<close>. Counts are 32-bit and wrap
  around, so the order of two counts is the order of their distances from a base count
  (\<open>before_at\<close>, the comparison of \<^verbatim>\<open>before_event\<close> in \<^verbatim>\<open>src/src/device/r4300/interrupt.c\<close>).

  The locale \<open>event_queue\<close> states these laws of the operations as an interface; the lemmas
  proved inside it are what the clients of the queue use. \<^verbatim>\<open>Event_Queue\<close> interprets it on the
  pool-allocated linked list of the code.
\<close>

section \<open>Order of counts on the 32-bit circle\<close>

definition before_at :: "u32 \<Rightarrow> u32 \<Rightarrow> u32 \<Rightarrow> bool" where
  "before_at base c x \<longleftrightarrow> c - base < x - base"

definition in_order :: "u32 \<Rightarrow> (u32 \<times> u32) list \<Rightarrow> bool" where
  "in_order base es \<longleftrightarrow> sorted (map (\<lambda>e. snd e - base) es)"

lemma before_at_irrefl [simp]: "\<not> before_at base c c"
  by (simp add: before_at_def)

lemma in_order_Nil [simp]: "in_order b []"
  and in_order_Cons: "in_order b (e # es) \<longleftrightarrow> (\<forall>x \<in> set es. snd e - b \<le> snd x - b) \<and> in_order b es"
  by (simp_all add: in_order_def)

text \<open>Distances that do not go below zero can be measured from a later base.\<close>

lemma word_diff_mono: "d \<le> x \<Longrightarrow> x \<le> y \<Longrightarrow> x - d \<le> (y - d :: u32)"
  by (simp add: word_le_nat_alt unat_sub)

lemma in_order_rebase:
  assumes "in_order b es" "\<And>e es'. es = e # es' \<Longrightarrow> d \<le> snd e - b"
  shows "in_order (b + d) es"
proof (cases es)
  case (Cons e es')
  have d: "d \<le> snd x - b" if "x \<in> set es" for x
    using that assms Cons by (auto simp: in_order_Cons intro: order_trans)
  have "sorted (map (\<lambda>x. (snd x - b) - d) es)"
    using assms(1) d unfolding in_order_def sorted_map
    by (elim sorted_wrt_mono_rel [rotated]) (simp add: word_diff_mono)
  then show ?thesis by (simp add: in_order_def algebra_simps)
qed simp

lemma in_order_first: "in_order b (e # es) \<Longrightarrow> in_order (snd e) (e # es)"
  using in_order_rebase [of b "e # es" "snd e - b"] by simp

section \<open>Abstract operations\<close>

definition ins_event :: "(u32 \<Rightarrow> bool) \<Rightarrow> (u32 \<times> u32) \<Rightarrow> (u32 \<times> u32) list \<Rightarrow> (u32 \<times> u32) list" where
  "ins_event before x es =
     takeWhile (\<lambda>e. \<not> before (snd e)) es @ x # dropWhile (\<lambda>e. \<not> before (snd e)) es"

fun del_event :: "u32 \<Rightarrow> (u32 \<times> u32) list \<Rightarrow> (u32 \<times> u32) list" where
  "del_event t [] = []"
| "del_event t (e # es) = (if fst e = t then es else e # del_event t es)"

lemma ins_event_not_Nil [simp]: "ins_event P x es \<noteq> []"
  by (simp add: ins_event_def)

lemma ins_event_Cons: "ins_event P x (e # es) = (if P (snd e) then x # e # es else e # ins_event P x es)"
  by (simp add: ins_event_def)

lemma ins_event_Nil [simp]: "ins_event P x [] = [x]"
  by (simp add: ins_event_def)

lemma ins_event_set [simp]: "set (ins_event P x es) = insert x (set es)"
  by (induction es) (auto simp: ins_event_Cons)

lemma ins_event_length [simp]: "length (ins_event P x es) = Suc (length es)"
  by (induction es) (auto simp: ins_event_Cons)

lemma ins_event_in_order: "in_order b es \<Longrightarrow> in_order b (ins_event (before_at b c) (t, c) es)"
proof (induction es)
  case (Cons e es)
  then show ?case
    by (auto simp: ins_event_Cons in_order_Cons before_at_def intro: order_trans less_imp_le)
qed (simp add: in_order_def)

lemma del_event_none_t: "t \<notin> fst ` set es \<Longrightarrow> del_event t es = es"
  by (induction es) auto

lemma del_ins_event: "t \<notin> fst ` set es \<Longrightarrow> del_event t (ins_event P (t, c) es) = es"
  by (induction es) (auto simp: ins_event_Cons)

lemma map_of_ins_event:
  "t \<notin> fst ` set es \<Longrightarrow> map_of (ins_event P (t, c) es) = (map_of es)(t \<mapsto> c)"
  by (induction es) (auto simp: ins_event_Cons)

lemma map_of_del_event:
  "distinct (map fst es) \<Longrightarrow> map_of (del_event t es) = (map_of es)(t := None)"
proof (induction es)
  case (Cons e es)
  then show ?case by (cases e) (auto simp: map_of_eq_None_iff fun_eq_iff)
qed auto

lemma del_event_subset: "set (del_event t es) \<subseteq> set es"
  by (induction es) auto

lemma del_event_length: "length (del_event t es) \<le> length es"
  by (induction es) auto

lemma del_event_in_order: "in_order b es \<Longrightarrow> in_order b (del_event t es)"
  using del_event_subset by (induction es) (fastforce simp: in_order_Cons)+

lemma del_event_distinct: "distinct (map fst es) \<Longrightarrow> distinct (map fst (del_event t es))"
proof (induction es)
  case (Cons e es)
  then show ?case using del_event_subset [of t es] by (auto simp: image_iff)
qed simp

lemma ins_event_distinct:
  "distinct (map fst es) \<Longrightarrow> t \<notin> fst ` set es \<Longrightarrow> distinct (map fst (ins_event P (t, c) es))"
  by (induction es) (auto simp: ins_event_Cons)

lemma del_event_other: "t \<noteq> u \<Longrightarrow> (u \<in> fst ` set (del_event t es)) = (u \<in> fst ` set es)"
  by (induction es) auto

lemma del_event_gone: "distinct (map fst es) \<Longrightarrow> t \<notin> fst ` set (del_event t es)"
  by (induction es) auto

lemma ins_event_commute_hd:
  "es \<noteq> [] \<Longrightarrow> hd (ins_event P x es) = (if P (snd (hd es)) then x else hd es)"
  by (cases es) (simp_all add: ins_event_Cons)

text \<open>Events put back one after the other into an empty queue come out in the same order.\<close>

lemma ins_event_append: "in_order b (es @ [(t, c)]) \<Longrightarrow> ins_event (before_at b c) (t, c) es = es @ [(t, c)]"
  by (induction es) (auto simp: ins_event_Cons in_order_Cons before_at_def)

section \<open>The interface\<close>

locale event_queue =
  fixes inv :: "'q \<Rightarrow> bool"
    and events :: "'q \<Rightarrow> (u32 \<times> u32) list"
    and capacity :: nat
    and insert_op :: "(u32 \<Rightarrow> bool) \<Rightarrow> u32 \<Rightarrow> u32 \<Rightarrow> 'q \<Rightarrow> 'q option option"
    and push_op :: "u32 \<Rightarrow> u32 \<Rightarrow> 'q \<Rightarrow> 'q option"
    and pop_op :: "'q \<Rightarrow> 'q option"
    and remove_op :: "'q \<Rightarrow> u32 \<Rightarrow> 'q option"
    and lookup_op :: "'q \<Rightarrow> u32 \<Rightarrow> u32 option option"
  assumes within: "inv q \<Longrightarrow> length (events q) \<le> capacity"
    and insert_room: "inv q \<Longrightarrow> length (events q) < capacity \<Longrightarrow> \<not> before c \<Longrightarrow>
        \<exists>q'. insert_op before t c q = Some (Some q') \<and> inv q' \<and>
          events q' = ins_event before (t, c) (events q)"
    and insert_full: "inv q \<Longrightarrow> length (events q) = capacity \<Longrightarrow> insert_op before t c q = Some None"
    and push_room: "inv q \<Longrightarrow> length (events q) < capacity \<Longrightarrow>
        \<exists>q'. push_op t c q = Some q' \<and> inv q' \<and> events q' = (t, c) # events q"
    and push_full: "inv q \<Longrightarrow> length (events q) = capacity \<Longrightarrow> push_op t c q = None"
    and pop_some: "inv q \<Longrightarrow> events q \<noteq> [] \<Longrightarrow>
        \<exists>q'. pop_op q = Some q' \<and> inv q' \<and> events q' = tl (events q)"
    and pop_empty: "inv q \<Longrightarrow> events q = [] \<Longrightarrow> pop_op q = None"
    and remove_law: "inv q \<Longrightarrow>
        \<exists>q'. remove_op q t = Some q' \<and> inv q' \<and> events q' = del_event t (events q)"
    and lookup_law: "inv q \<Longrightarrow> lookup_op q t = Some (map_of (events q) t)"
begin

text \<open>What a look-up finds after an insertion and after a removal.\<close>

lemma lookup_insert:
  assumes "inv q" "length (events q) < capacity" "t \<notin> fst ` set (events q)"
  shows "\<exists>q'. insert_op (before_at b c) t c q = Some (Some q') \<and> inv q' \<and>
    (\<forall>u. lookup_op q' u = (if u = t then Some (Some c) else lookup_op q u))"
proof -
  obtain q' where "insert_op (before_at b c) t c q = Some (Some q')" "inv q'"
    "events q' = ins_event (before_at b c) (t, c) (events q)"
    using insert_room [OF assms(1,2), of "before_at b c" c t] by auto
  then show ?thesis
    using assms by (auto simp: lookup_law map_of_ins_event)
qed

lemma lookup_remove:
  assumes "inv q" "distinct (map fst (events q))"
  shows "\<exists>q'. remove_op q t = Some q' \<and> inv q' \<and>
    (\<forall>u. lookup_op q' u = (if u = t then Some None else lookup_op q u))"
  using remove_law [OF assms(1), of t] assms by (auto simp: lookup_law map_of_del_event)

text \<open>Removing an event that was just inserted gives the old events back.\<close>

lemma remove_insert:
  assumes "inv q" "length (events q) < capacity" "t \<notin> fst ` set (events q)" "\<not> before c"
  shows "\<exists>q1 q2. insert_op before t c q = Some (Some q1) \<and> remove_op q1 t = Some q2 \<and>
    inv q2 \<and> events q2 = events q"
  using insert_room [of q before c t] assms(1,2,4) remove_law [where t = t] assms(3)
  by (metis del_ins_event)

text \<open>Insertion keeps the events in order, and popping removes the earliest one.\<close>

lemma insert_in_order:
  assumes "inv q" "length (events q) < capacity" "in_order b (events q)"
  shows "\<exists>q'. insert_op (before_at b c) t c q = Some (Some q') \<and> inv q' \<and> in_order b (events q')"
  using insert_room [OF assms(1,2), of "before_at b c" c t] ins_event_in_order [OF assms(3)] by auto

lemma pop_earliest:
  assumes "inv q" "events q \<noteq> []" "in_order b (events q)"
  shows "\<exists>q'. pop_op q = Some q' \<and> inv q' \<and> in_order b (events q') \<and>
    (\<forall>e \<in> set (events q'). snd (hd (events q)) - b \<le> snd e - b)"
  using pop_some [OF assms(1,2)] assms(2,3) by (cases "events q") (auto simp: in_order_Cons)

end

end
