(* ===== verification/Event_Queue.thy ===== *)
theory Event_Queue
  imports Event_Queue_Spec
begin

text \<open>
  The interrupt queue of \<^verbatim>\<open>src/src/device/r4300/interrupt.c\<close> as the code has it: a pool of 16
  nodes with a stack of free nodes, and a singly linked list threaded through the pool.
  Node addresses are indices into the pool, \<open>None\<close> is \<^verbatim>\<open>NULL\<close>.

  A list walk is a loop over \<^verbatim>\<open>next\<close> pointers; it is given fuel \<open>INTERRUPT_NODES_POOL_CAPACITY\<close>,
  and both running out of fuel (a cyclic list) and following \<^verbatim>\<open>NULL\<close> make the operation
  return \<open>None\<close>. The well-formedness invariant \<open>wf_queue\<close> rules both out; the lemmas show that every
  operation keeps it and acts on the list of events as the abstract operation of its name.
\<close>

section \<open>The pool and the queue\<close>

definition INTERRUPT_NODES_POOL_CAPACITY :: nat where
  "INTERRUPT_NODES_POOL_CAPACITY = 16"

record interrupt_event =
  ev_type :: u32
  ev_count :: u32

record node =
  data :: interrupt_event
  next_ptr :: "nat option"

record pool =
  nodes :: "node list"
  stack :: "nat list"
  index :: nat

record interrupt_queue =
  q_pool :: pool
  first :: "nat option"

definition alloc_node :: "pool \<Rightarrow> (nat \<times> pool) option" where
  "alloc_node p =
     (if index p \<ge> INTERRUPT_NODES_POOL_CAPACITY then None
      else Some (stack p ! index p, p\<lparr>index := index p + 1\<rparr>))"

definition free_node :: "pool \<Rightarrow> nat option \<Rightarrow> pool" where
  "free_node p nd =
     (if index p = 0 then p
      else case nd of None \<Rightarrow> p
        | Some i \<Rightarrow> p\<lparr>stack := (stack p)[index p - 1 := i], index := index p - 1\<rparr>)"

definition clear_pool :: "pool \<Rightarrow> pool" where
  "clear_pool p = p\<lparr>stack := [0..<INTERRUPT_NODES_POOL_CAPACITY], index := 0\<rparr>"

definition clear_queue :: "interrupt_queue \<Rightarrow> interrupt_queue" where
  "clear_queue q = q\<lparr>first := None, q_pool := clear_pool (q_pool q)\<rparr>"

definition node_at :: "interrupt_queue \<Rightarrow> nat \<Rightarrow> node" where
  "node_at q i = nodes (q_pool q) ! i"

definition set_node :: "nat \<Rightarrow> node \<Rightarrow> interrupt_queue \<Rightarrow> interrupt_queue" where
  "set_node i n q = q\<lparr>q_pool := (q_pool q)\<lparr>nodes := (nodes (q_pool q))[i := n]\<rparr>\<rparr>"

section \<open>List walks\<close>

text \<open>\<^verbatim>\<open>for (; e->next != NULL && P(e->next); e = e->next);\<close>\<close>

fun seek :: "nat \<Rightarrow> interrupt_queue \<Rightarrow> (node \<Rightarrow> bool) \<Rightarrow> nat \<Rightarrow> nat option" where
  "seek 0 q P e = None"
| "seek (Suc fuel) q P e =
     (case next_ptr (node_at q e) of
        None \<Rightarrow> Some e
      | Some n \<Rightarrow> if P (node_at q n) then seek fuel q P n else Some e)"

text \<open>\<^verbatim>\<open>for (e = p; e != NULL; e = e->next)\<close>: the nodes visited.\<close>

fun walk :: "nat \<Rightarrow> interrupt_queue \<Rightarrow> nat option \<Rightarrow> nat list option" where
  "walk 0 q p = (if p = None then Some [] else None)"
| "walk (Suc fuel) q p =
     (case p of None \<Rightarrow> Some []
      | Some i \<Rightarrow> map_option (Cons i) (walk fuel q (next_ptr (node_at q i))))"

section \<open>Operations on the queue\<close>

definition get_event_node :: "interrupt_queue \<Rightarrow> u32 \<Rightarrow> nat option option" where
  "get_event_node q type =
     (case first q of None \<Rightarrow> Some None
      | Some e \<Rightarrow>
          if ev_type (data (node_at q e)) = type then Some (Some e)
          else case seek INTERRUPT_NODES_POOL_CAPACITY q (\<lambda>n. ev_type (data n) \<noteq> type) e of
                 None \<Rightarrow> None
               | Some e' \<Rightarrow> Some (next_ptr (node_at q e')))"

text \<open>
  \<^verbatim>\<open>get_event\<close> returns a pointer to the count of the event; its callers read it, so the model
  returns the count itself. The outer \<open>None\<close> is a walk that does not end.
\<close>

definition get_event :: "interrupt_queue \<Rightarrow> u32 \<Rightarrow> u32 option option" where
  "get_event q type =
     map_option (map_option (\<lambda>i. ev_count (data (node_at q i)))) (get_event_node q type)"

definition get_next_event_type :: "interrupt_queue \<Rightarrow> u32" where
  "get_next_event_type q = (case first q of None \<Rightarrow> 0 | Some e \<Rightarrow> ev_type (data (node_at q e)))"

definition remove_event :: "interrupt_queue \<Rightarrow> u32 \<Rightarrow> interrupt_queue option" where
  "remove_event q type =
     (case first q of None \<Rightarrow> Some q
      | Some e \<Rightarrow>
          if ev_type (data (node_at q e)) = type
          then Some (q\<lparr>first := next_ptr (node_at q e), q_pool := free_node (q_pool q) (Some e)\<rparr>)
          else case seek INTERRUPT_NODES_POOL_CAPACITY q (\<lambda>n. ev_type (data n) \<noteq> type) e of
                 None \<Rightarrow> None
               | Some e' \<Rightarrow>
                   (case next_ptr (node_at q e') of
                      None \<Rightarrow> Some q
                    | Some to_del \<Rightarrow>
                        let q1 = set_node e' ((node_at q e')\<lparr>next_ptr := next_ptr (node_at q to_del)\<rparr>) q in
                        Some (q1\<lparr>q_pool := free_node (q_pool q1) (Some to_del)\<rparr>)))"

text \<open>
  The list part of \<^verbatim>\<open>add_interrupt_event_count\<close>, once a node \<open>event\<close> has been allocated:
  \<open>before\<close> is \<^verbatim>\<open>before_event(cp0, count, _, _)\<close>.
\<close>

definition link_node :: "(u32 \<Rightarrow> bool) \<Rightarrow> nat \<Rightarrow> u32 \<Rightarrow> u32 \<Rightarrow> interrupt_queue \<Rightarrow> interrupt_queue option" where
  "link_node before event type count q =
     (let new = (\<lambda>nxt. \<lparr>data = \<lparr>ev_type = type, ev_count = count\<rparr>, next_ptr = nxt\<rparr>) in
      case first q of
        None \<Rightarrow> Some (set_node event (new None) (q\<lparr>first := Some event\<rparr>))
      | Some f \<Rightarrow>
          if before (ev_count (data (node_at q f)))
          then Some (set_node event (new (first q)) (q\<lparr>first := Some event\<rparr>))
          else case seek INTERRUPT_NODES_POOL_CAPACITY q (\<lambda>n. \<not> before (ev_count (data n))) f of
                 None \<Rightarrow> None
               | Some e \<Rightarrow>
                   if next_ptr (node_at q e) = None
                   then Some (set_node event (new None)
                          (set_node e ((node_at q e)\<lparr>next_ptr := Some event\<rparr>) q))
                   else case seek INTERRUPT_NODES_POOL_CAPACITY q (\<lambda>n. ev_count (data n) = count) e of
                          None \<Rightarrow> None
                        | Some e2 \<Rightarrow>
                            Some (set_node e2 ((node_at q e2)\<lparr>next_ptr := Some event\<rparr>)
                              (set_node event (new (next_ptr (node_at q e2))) q)))"

text \<open>\<open>Some None\<close> is the early return when no node is left.\<close>

definition insert_node :: "(u32 \<Rightarrow> bool) \<Rightarrow> u32 \<Rightarrow> u32 \<Rightarrow> interrupt_queue \<Rightarrow> interrupt_queue option option" where
  "insert_node before type count q =
     (case alloc_node (q_pool q) of
        None \<Rightarrow> Some None
      | Some (event, p) \<Rightarrow> map_option Some (link_node before event type count (q\<lparr>q_pool := p\<rparr>)))"

text \<open>The list part of \<^verbatim>\<open>r4300_check_interrupt\<close>: a new node in front of the list.\<close>

definition push_node :: "u32 \<Rightarrow> u32 \<Rightarrow> interrupt_queue \<Rightarrow> interrupt_queue option" where
  "push_node type count q =
     (case alloc_node (q_pool q) of
        None \<Rightarrow> None
      | Some (event, p) \<Rightarrow>
          Some (set_node event \<lparr>data = \<lparr>ev_type = type, ev_count = count\<rparr>, next_ptr = first q\<rparr>
            (q\<lparr>q_pool := p, first := Some event\<rparr>)))"

text \<open>The list part of \<^verbatim>\<open>remove_interrupt_event\<close>; \<open>None\<close> is \<^verbatim>\<open>e->next\<close> on \<^verbatim>\<open>NULL\<close>.\<close>

definition pop_node :: "interrupt_queue \<Rightarrow> interrupt_queue option" where
  "pop_node q =
     (case first q of None \<Rightarrow> None
      | Some e \<Rightarrow>
          Some (q\<lparr>first := next_ptr (node_at q e), q_pool := free_node (q_pool q) (Some e)\<rparr>))"

text \<open>The loop of \<^verbatim>\<open>translate_event_queue\<close> that rewrites every count.\<close>

definition map_counts :: "(u32 \<Rightarrow> u32) \<Rightarrow> interrupt_queue \<Rightarrow> interrupt_queue option" where
  "map_counts f q =
     map_option
       (\<lambda>is. fold (\<lambda>i q. set_node i
           ((node_at q i)\<lparr>data := (data (node_at q i))\<lparr>ev_count := f (ev_count (data (node_at q i)))\<rparr>\<rparr>) q) is q)
       (walk INTERRUPT_NODES_POOL_CAPACITY q (first q))"

section \<open>Well-formedness and the abstract queue\<close>

definition q_ids :: "interrupt_queue \<Rightarrow> nat list option" where
  "q_ids q = walk INTERRUPT_NODES_POOL_CAPACITY q (first q)"

definition q_events :: "interrupt_queue \<Rightarrow> (u32 \<times> u32) list" where
  "q_events q = map (\<lambda>i. (ev_type (data (node_at q i)), ev_count (data (node_at q i))))
     (case q_ids q of None \<Rightarrow> [] | Some is \<Rightarrow> is)"

definition wf_queue :: "interrupt_queue \<Rightarrow> bool" where
  "wf_queue q \<longleftrightarrow>
     length (nodes (q_pool q)) = 16 \<and> length (stack (q_pool q)) = 16 \<and> index (q_pool q) \<le> 16 \<and>
     (case q_ids q of None \<Rightarrow> False
      | Some is \<Rightarrow> distinct (is @ drop (index (q_pool q)) (stack (q_pool q))) \<and>
          set (is @ drop (index (q_pool q)) (stack (q_pool q))) = set [0..<16])"

section \<open>List segments\<close>

text \<open>\<open>links q p is r\<close>: following \<^verbatim>\<open>next\<close> from \<open>p\<close> visits the nodes \<open>is\<close> and arrives at \<open>r\<close>.\<close>

fun links :: "interrupt_queue \<Rightarrow> nat option \<Rightarrow> nat list \<Rightarrow> nat option \<Rightarrow> bool" where
  "links q p [] r \<longleftrightarrow> p = r"
| "links q p (i # is) r \<longleftrightarrow> p = Some i \<and> links q (next_ptr (node_at q i)) is r"

lemma links_append: "links q p (xs @ ys) r = (\<exists>m. links q p xs m \<and> links q m ys r)"
  by (induction xs arbitrary: p) auto

lemma node_at_set_node:
  "node_at (set_node i n q) j = (if j = i \<and> i < length (nodes (q_pool q)) then n else node_at q j)"
  by (auto simp: node_at_def set_node_def nth_list_update list_update_beyond)

lemma set_node_simps [simp]:
  "first (set_node i n q) = first q"
  "stack (q_pool (set_node i n q)) = stack (q_pool q)"
  "index (q_pool (set_node i n q)) = index (q_pool q)"
  "length (nodes (q_pool (set_node i n q))) = length (nodes (q_pool q))"
  by (simp_all add: set_node_def)

text \<open>Fields of the queue that a list segment does not look at.\<close>

lemma node_at_cong: "nodes (q_pool q) = nodes (q_pool q') \<Longrightarrow> node_at q i = node_at q' i"
  by (simp add: node_at_def)

lemma links_frame:
  "(\<And>i. i \<in> set is \<Longrightarrow> next_ptr (node_at q i) = next_ptr (node_at q' i)) \<Longrightarrow>
   links q p is r = links q' p is r"
  by (induction "is" arbitrary: p) auto

lemma links_set_node: "i \<notin> set is \<Longrightarrow> links (set_node i n q) p is r = links q p is r"
  by (rule links_frame) (auto simp: node_at_set_node)

lemma walk_iff: "length is \<le> fuel \<Longrightarrow> walk fuel q p = Some is \<longleftrightarrow> links q p is None"
proof (induction "is" arbitrary: fuel p)
  case Nil
  then show ?case by (cases fuel) (auto split: option.splits)
next
  case (Cons i "is")
  then obtain f where f: "fuel = Suc f" by (cases fuel) auto
  with Cons show ?case by (auto split: option.splits)
qed

lemma walk_length: "walk fuel q p = Some is \<Longrightarrow> length is \<le> fuel"
  by (induction fuel arbitrary: p "is") (auto split: option.splits if_splits)

lemma seek_links:
  assumes "links q (Some e) (e # is) None" "length is < fuel"
  shows "seek fuel q P e = Some (last (e # takeWhile (\<lambda>i. P (node_at q i)) is))"
  using assms
proof (induction "is" arbitrary: e fuel)
  case Nil
  then obtain f where "fuel = Suc f" by (cases fuel) auto
  with Nil show ?case by simp
next
  case (Cons i "is")
  then obtain f where "fuel = Suc f" by (cases fuel) auto
  with Cons show ?case by auto
qed

section \<open>The invariant, split into the nodes in use and the free nodes\<close>

definition perm16 :: "nat list \<Rightarrow> bool" where
  "perm16 is \<longleftrightarrow> distinct is \<and> set is = {0..<16}"

lemma perm16_move: "perm16 (xs @ ys @ e # zs) = perm16 (xs @ e # ys @ zs)"
  by (auto simp: perm16_def)

lemma perm16_append_Cons: "perm16 (xs @ e # zs) = perm16 (e # xs @ zs)"
  using perm16_move [of "[]"] by simp

lemma perm16D: "perm16 is \<Longrightarrow> distinct is" "perm16 is \<Longrightarrow> i \<in> set is \<Longrightarrow> i < 16"
  by (auto simp: perm16_def)

definition queue_ids :: "interrupt_queue \<Rightarrow> nat list \<Rightarrow> bool" where
  "queue_ids q is \<longleftrightarrow>
     length (nodes (q_pool q)) = 16 \<and> length (stack (q_pool q)) = 16 \<and> index (q_pool q) \<le> 16 \<and>
     links q (first q) is None \<and>
     perm16 (is @ drop (index (q_pool q)) (stack (q_pool q)))"

abbreviation event_at :: "interrupt_queue \<Rightarrow> nat \<Rightarrow> u32 \<times> u32" where
  "event_at q i \<equiv> (ev_type (data (node_at q i)), ev_count (data (node_at q i)))"

lemma queue_ids_length: "queue_ids q is \<Longrightarrow> length is = index (q_pool q)"
proof -
  assume a: "queue_ids q is"
  let ?l = "is @ drop (index (q_pool q)) (stack (q_pool q))"
  have "length ?l = card (set ?l)"
    using a by (intro distinct_card [symmetric]) (simp add: queue_ids_def perm16_def)
  also have "set ?l = {0..<16}" using a by (simp add: queue_ids_def perm16_def)
  finally show ?thesis using a by (auto simp: queue_ids_def)
qed

lemma queue_ids_walk: "queue_ids q is \<Longrightarrow> q_ids q = Some is"
  using queue_ids_length [of q "is"]
  by (simp add: q_ids_def walk_iff queue_ids_def INTERRUPT_NODES_POOL_CAPACITY_def)

lemma wf_queue_iff: "wf_queue q \<longleftrightarrow> (\<exists>is. queue_ids q is)"
proof
  assume w: "wf_queue q"
  then obtain "is" where i: "q_ids q = Some is" by (auto simp: wf_queue_def split: option.splits)
  have "links q (first q) is None"
    using i walk_iff walk_length by (metis q_ids_def)
  with w i show "\<exists>is. queue_ids q is" by (auto simp: wf_queue_def queue_ids_def perm16_def)
next
  assume "\<exists>is. queue_ids q is"
  then obtain "is" where i: "queue_ids q is" by blast
  with queue_ids_walk [OF i] show "wf_queue q" by (auto simp: wf_queue_def queue_ids_def perm16_def)
qed

lemma q_events_ids: "queue_ids q is \<Longrightarrow> q_events q = map (event_at q) is"
  by (simp add: q_events_def queue_ids_walk)

lemma queue_ids_bound: "queue_ids q is \<Longrightarrow> i \<in> set is \<Longrightarrow> i < 16"
  by (auto simp: queue_ids_def perm16_def)

lemma queue_ids_distinct: "queue_ids q is \<Longrightarrow> distinct is"
  by (auto simp: queue_ids_def perm16_def)

lemma queue_ids_first: "queue_ids q is \<Longrightarrow> first q = (case is of [] \<Rightarrow> None | i # _ \<Rightarrow> Some i)"
  by (cases "is") (simp_all add: queue_ids_def)

lemma queue_events_length: "wf_queue q \<Longrightarrow> length (q_events q) = index (q_pool q)"
  by (auto simp: wf_queue_iff q_events_ids queue_ids_length)

section \<open>Allocating and freeing\<close>

lemma alloc_full: "queue_ids q is \<Longrightarrow> length is = 16 \<Longrightarrow> alloc_node (q_pool q) = None"
  using queue_ids_length [of q "is"] by (simp add: alloc_node_def INTERRUPT_NODES_POOL_CAPACITY_def)

text \<open>A queue from whose pool the node \<open>e\<close> has been taken but not linked yet.\<close>

definition reserved :: "interrupt_queue \<Rightarrow> nat \<Rightarrow> nat list \<Rightarrow> bool" where
  "reserved q e is \<longleftrightarrow>
     length (nodes (q_pool q)) = 16 \<and> length (stack (q_pool q)) = 16 \<and> index (q_pool q) \<le> 16 \<and>
     links q (first q) is None \<and> length is < 16 \<and>
     perm16 (e # is @ drop (index (q_pool q)) (stack (q_pool q)))"

lemma reservedD:
  "reserved q e is \<Longrightarrow> e < 16" "reserved q e is \<Longrightarrow> e \<notin> set is" "reserved q e is \<Longrightarrow> distinct is"
  "reserved q e is \<Longrightarrow> i \<in> set is \<Longrightarrow> i < 16" "reserved q e is \<Longrightarrow> length (nodes (q_pool q)) = 16"
  "reserved q e is \<Longrightarrow> links q (first q) is None" "reserved q e is \<Longrightarrow> length is < 16"
  by (auto simp: reserved_def perm16_def)

lemma alloc_some:
  assumes q: "queue_ids q is" and len: "length is < 16"
  obtains e p where "alloc_node (q_pool q) = Some (e, p)" "reserved (q\<lparr>q_pool := p\<rparr>) e is"
    "nodes p = nodes (q_pool q)"
proof -
  let ?i = "index (q_pool q)" and ?s = "stack (q_pool q)"
  let ?p = "(q_pool q)\<lparr>index := ?i + 1\<rparr>"
  have i: "?i < 16" using queue_ids_length [OF q] len by simp
  have d: "drop ?i ?s = ?s ! ?i # drop (?i + 1) ?s"
    using i q Cons_nth_drop_Suc [of ?i ?s] by (simp add: queue_ids_def)
  have "links (q\<lparr>q_pool := ?p\<rparr>) (first q) is None"
    using q links_frame [of "is" "q\<lparr>q_pool := ?p\<rparr>" q] by (simp add: queue_ids_def node_at_def)
  then have "reserved (q\<lparr>q_pool := ?p\<rparr>) (?s ! ?i) is"
    using q i len perm16_append_Cons [of "is"] d by (simp add: queue_ids_def reserved_def)
  moreover have "alloc_node (q_pool q) = Some (?s ! ?i, ?p)"
    using i by (simp add: alloc_node_def INTERRUPT_NODES_POOL_CAPACITY_def)
  ultimately show ?thesis by (intro that [of "?s ! ?i" ?p]) simp_all
qed

text \<open>
  Linking the reserved node \<open>e\<close> behind \<open>a\<close>: the resulting queue is described by its nodes, so
  that the lemma covers both orders in which the code writes the two pointers.
\<close>

lemma link_after:
  assumes q: "reserved q e (xs @ a # ys)"
    and q': "first q' = first q" "stack (q_pool q') = stack (q_pool q)"
      "index (q_pool q') = index (q_pool q)" "length (nodes (q_pool q')) = length (nodes (q_pool q))"
    and n: "\<And>j. node_at q' j = (if j = e then \<lparr>data = d, next_ptr = next_ptr (node_at q a)\<rparr>
        else if j = a then (node_at q a)\<lparr>next_ptr := Some e\<rparr> else node_at q j)"
  shows "queue_ids q' (xs @ a # e # ys)"
    and "q_events q' = map (event_at q) (xs @ [a]) @ (ev_type d, ev_count d) # map (event_at q) ys"
proof -
  note e = reservedD(1,2,3) [OF q]
  obtain m where m: "links q (first q) xs m" "links q m (a # ys) None"
    using reservedD(6) [OF q] by (auto simp: links_append)
  have "links q' (first q) xs m"
    using m(1) e by (subst links_frame [where q' = q]) (auto simp: n)
  moreover have "links q' (next_ptr (node_at q a)) ys None"
    using m(2) e by (subst links_frame [where q' = q]) (auto simp: n)
  ultimately have l: "links q' (first q') (xs @ a # e # ys) None"
    using m(2) e q'(1) by (auto simp: links_append n)
  have "perm16 ((xs @ a # e # ys) @ drop (index (q_pool q)) (stack (q_pool q)))"
    using q perm16_append_Cons [of "xs @ [a]" e] by (simp add: reserved_def)
  then show 1: "queue_ids q' (xs @ a # e # ys)"
    using q l q' by (simp add: queue_ids_def reserved_def)
  show "q_events q' = map (event_at q) (xs @ [a]) @ (ev_type d, ev_count d) # map (event_at q) ys"
    using e by (auto simp: q_events_ids [OF 1] n)
qed

lemma link_front:
  assumes q: "reserved q e ys"
    and q': "q' = set_node e \<lparr>data = d, next_ptr = first q\<rparr> (q\<lparr>first := Some e\<rparr>)"
  shows "queue_ids q' (e # ys)"
    and "q_events q' = (ev_type d, ev_count d) # map (event_at q) ys"
proof -
  note e = reservedD(1,2,3) [OF q]
  have n: "node_at q' j = (if j = e then \<lparr>data = d, next_ptr = first q\<rparr> else node_at q j)" for j
    using e reservedD(5) [OF q] by (simp add: q' node_at_set_node) (simp add: node_at_def)
  have "links q' (first q) ys None"
    using reservedD(6) [OF q] e by (subst links_frame [where q' = q]) (auto simp: n)
  then have "links q' (Some e) (e # ys) None" by (simp add: n)
  then show 1: "queue_ids q' (e # ys)"
    using q by (simp add: queue_ids_def reserved_def q')
  show "q_events q' = (ev_type d, ev_count d) # map (event_at q) ys"
    using e by (auto simp: q_events_ids [OF 1] n)
qed

lemma nodes_free_node [simp]: "nodes (free_node p i) = nodes p"
  by (simp add: free_node_def split: option.split)

lemma free_node_drop:
  assumes "queue_ids q is" "is \<noteq> []"
  shows "drop (index (free_node (q_pool q) (Some d))) (stack (free_node (q_pool q) (Some d)))
      = d # drop (index (q_pool q)) (stack (q_pool q))"
    and "length (stack (free_node (q_pool q) (Some d))) = 16"
    and "index (free_node (q_pool q) (Some d)) \<le> 16"
proof -
  let ?i = "index (q_pool q)" and ?s = "stack (q_pool q)"
  have i: "0 < ?i" "?i \<le> 16" "length ?s = 16"
    using assms queue_ids_length [OF assms(1)] by (auto simp: queue_ids_def simp flip: length_greater_0_conv)
  then have "drop (?i - 1) (?s[?i - 1 := d]) = d # drop ?i ?s"
    using Cons_nth_drop_Suc [of "?i - 1" "?s[?i - 1 := d]"] by simp
  with i show "drop (index (free_node (q_pool q) (Some d))) (stack (free_node (q_pool q) (Some d)))
      = d # drop ?i ?s" "length (stack (free_node (q_pool q) (Some d))) = 16"
    "index (free_node (q_pool q) (Some d)) \<le> 16"
    by (auto simp: free_node_def)
qed

text \<open>Unlinking the first node, and the node behind \<open>a\<close>.\<close>

lemma unlink_front:
  assumes q: "queue_ids q (d # ys)"
    and q': "q' = q\<lparr>first := next_ptr (node_at q d), q_pool := free_node (q_pool q) (Some d)\<rparr>"
  shows "queue_ids q' ys" and "q_events q' = map (event_at q) ys"
proof -
  note fr = free_node_drop [OF q, of d, simplified]
  have n: "node_at q' j = node_at q j" for j by (rule node_at_cong) (simp add: q')
  have f: "first q' = next_ptr (node_at q d)" by (simp add: q')
  have "links q' (first q') ys None"
    using q links_frame [of ys q' q] by (simp add: n f queue_ids_def)
  moreover have "perm16 (ys @ d # drop (index (q_pool q)) (stack (q_pool q)))"
    using q perm16_append_Cons [of ys d] by (simp add: queue_ids_def)
  ultimately show 1: "queue_ids q' ys"
    using q by (simp add: queue_ids_def fr q')
  show "q_events q' = map (event_at q) ys"
    by (simp add: q_events_ids [OF 1] n)
qed

lemma unlink_after:
  assumes q: "queue_ids q (xs @ a # d # ys)"
    and q1_def: "q1 = set_node a ((node_at q a)\<lparr>next_ptr := next_ptr (node_at q d)\<rparr>) q"
    and q': "q' = q1\<lparr>q_pool := free_node (q_pool q1) (Some d)\<rparr>"
  shows "queue_ids q' (xs @ a # ys)"
    and "q_events q' = map (event_at q) (xs @ a # ys)"
proof -
  have dist: "distinct (xs @ a # d # ys)" by (rule queue_ids_distinct [OF q])
  have a: "a < 16" using queue_ids_bound [OF q] by simp
  have p1: "stack (q_pool q1) = stack (q_pool q)" "index (q_pool q1) = index (q_pool q)"
    "length (nodes (q_pool q1)) = 16" "first q1 = first q"
    using q by (simp_all add: q1_def queue_ids_def)
  have fe: "stack (free_node (q_pool q1) (Some d)) = stack (free_node (q_pool q) (Some d))"
    "index (free_node (q_pool q1) (Some d)) = index (free_node (q_pool q) (Some d))"
    "nodes (free_node (q_pool q1) (Some d)) = nodes (q_pool q1)"
    by (simp_all add: free_node_def p1)
  note fr = free_node_drop [OF q, of d, simplified]
  have n: "node_at q' j = (if j = a then (node_at q a)\<lparr>next_ptr := next_ptr (node_at q d)\<rparr> else node_at q j)" for j
    using q a node_at_cong [of q' q1 j] by (simp add: q' q1_def node_at_set_node queue_ids_def)
  have f: "first q' = first q" by (simp add: q' p1)
  obtain m where m: "links q (first q) xs m" "links q m (a # d # ys) None"
    using q by (auto simp: queue_ids_def links_append)
  have "links q' (first q) xs m"
    using m(1) dist by (subst links_frame [where q' = q]) (auto simp: n)
  moreover have "links q' (next_ptr (node_at q d)) ys None"
    using m(2) dist by (subst links_frame [where q' = q]) (auto simp: n)
  ultimately have "links q' (first q') (xs @ a # ys) None"
    using m(2) f by (auto simp: links_append n)
  moreover have "perm16 ((xs @ a # ys) @ d # drop (index (q_pool q)) (stack (q_pool q)))"
    using q perm16_move [of "xs @ [a]" ys d] by (simp add: queue_ids_def)
  ultimately show 1: "queue_ids q' (xs @ a # ys)"
    using q by (simp add: queue_ids_def fe fr p1 q')
  show "q_events q' = map (event_at q) (xs @ a # ys)"
    using dist by (auto simp: q_events_ids [OF 1] n)
qed

section \<open>What each operation does to the list of events\<close>

lemma clear_queue_ids: "length (nodes (q_pool q)) = 16 \<Longrightarrow> queue_ids (clear_queue q) []"
  by (auto simp: queue_ids_def clear_queue_def clear_pool_def INTERRUPT_NODES_POOL_CAPACITY_def perm16_def)

lemma takeWhile_map_split:
  assumes "i # is = ns" "\<not> P i"
  obtains xs a ys where "ns = xs @ a # ys" "a = last (i # takeWhile (\<lambda>j. \<not> P j) is)"
    "takeWhile (\<lambda>j. \<not> P j) ns = xs @ [a]" "dropWhile (\<lambda>j. \<not> P j) ns = ys"
proof -
  let ?t = "takeWhile (\<lambda>j. \<not> P j) ns"
  have t: "?t = i # takeWhile (\<lambda>j. \<not> P j) is" using assms by auto
  have "?t = butlast ?t @ [last ?t]" by (rule append_butlast_last_id [symmetric]) (simp add: t)
  moreover have "ns = ?t @ dropWhile (\<lambda>j. \<not> P j) ns" by simp
  ultimately have "ns = butlast ?t @ last ?t # dropWhile (\<lambda>j. \<not> P j) ns"
    by (metis append.assoc append_Cons append_Nil)
  with \<open>?t = butlast ?t @ [last ?t]\<close> t show ?thesis by (intro that) auto
qed

lemma links_tail: "links q p (xs @ a # ys) None \<Longrightarrow> links q (Some a) (a # ys) None"
  by (auto simp: links_append)

lemma next_of_split: "links q p (xs @ a # ys) None \<Longrightarrow>
    next_ptr (node_at q a) = (case ys of [] \<Rightarrow> None | y # _ \<Rightarrow> Some y)"
  by (cases ys) (auto simp: links_append)

lemma map_takeWhile_event:
  "map (event_at q) (takeWhile (\<lambda>i. P (node_at q i)) is) =
     takeWhile (\<lambda>e. P' e) (map (event_at q) is)" if "\<And>i. P (node_at q i) = P' (event_at q i)"
  by (simp add: takeWhile_map comp_def that)

lemma map_dropWhile_event:
  "map (event_at q) (dropWhile (\<lambda>i. P (node_at q i)) is) =
     dropWhile (\<lambda>e. P' e) (map (event_at q) is)" if "\<And>i. P (node_at q i) = P' (event_at q i)"
  by (simp add: dropWhile_map comp_def that)

lemma link_node_front:
  assumes q: "reserved q e is" and b: "\<And>i is'. is = i # is' \<Longrightarrow> before (ev_count (data (node_at q i)))"
  shows "\<exists>q' is'. link_node before e t c q = Some q' \<and> queue_ids q' is' \<and>
     q_events q' = ins_event before (t, c) (map (event_at q) is)"
proof -
  let ?d = "\<lparr>ev_type = t, ev_count = c\<rparr>"
  let ?q' = "set_node e \<lparr>data = ?d, next_ptr = first q\<rparr> (q\<lparr>first := Some e\<rparr>)"
  have "link_node before e t c q = Some ?q'"
    using reservedD(6) [OF q] b by (cases "is") (auto simp: link_node_def Let_def)
  moreover have "ins_event before (t, c) (map (event_at q) is) = (t, c) # map (event_at q) is"
    using b by (cases "is") (auto simp: ins_event_def)
  ultimately show ?thesis
    using link_front [OF q, of ?q' ?d] by auto
qed

text \<open>
  When the event does not go in front, the first loop stops at the last node that is not after
  it, and the second loop, which skips events of equal count, never moves.
\<close>

lemma second_loop_idle:
  assumes "next_ptr (node_at q a) = (case ys of [] \<Rightarrow> None | y # _ \<Rightarrow> Some y)"
    and "\<And>y ys'. ys = y # ys' \<Longrightarrow> ev_count (data (node_at q y)) \<noteq> c"
  shows "seek INTERRUPT_NODES_POOL_CAPACITY q (\<lambda>n. ev_count (data n) = c) a = Some a"
  using assms by (cases ys) (auto simp: numeral_eq_Suc INTERRUPT_NODES_POOL_CAPACITY_def)

lemma link_node_behind:
  assumes q: "reserved q e (i # is)" and b: "\<not> before (ev_count (data (node_at q i)))" "\<not> before c"
  shows "\<exists>q' is'. link_node before e t c q = Some q' \<and> queue_ids q' is' \<and>
     q_events q' = ins_event before (t, c) (map (event_at q) (i # is))"
proof -
  let ?new = "\<lambda>nxt. \<lparr>data = \<lparr>ev_type = t, ev_count = c\<rparr>, next_ptr = nxt\<rparr>"
  let ?B = "\<lambda>i. before (ev_count (data (node_at q i)))"
  obtain xs a ys where sp: "i # is = xs @ a # ys" "a = last (i # takeWhile (\<lambda>j. \<not> ?B j) is)"
      "takeWhile (\<lambda>j. \<not> ?B j) (i # is) = xs @ [a]" "dropWhile (\<lambda>j. \<not> ?B j) (i # is) = ys"
    using takeWhile_map_split [of i "is" "i # is" ?B, OF refl b(1)] by metis
  have l: "links q (first q) (xs @ a # ys) None" using reservedD(6) [OF q] sp(1) by simp
  note nx = next_of_split [OF l]
  have f: "first q = Some i" and len: "length is < 16" using reservedD(6,7) [OF q] by auto
  have s1: "seek INTERRUPT_NODES_POOL_CAPACITY q (\<lambda>n. \<not> before (ev_count (data n))) i = Some a"
    using seek_links [of q i "is" 16 "\<lambda>n. \<not> before (ev_count (data n))"] reservedD(6) [OF q] len sp(2)
    by (simp add: INTERRUPT_NODES_POOL_CAPACITY_def)
  have "ys = y # ys' \<Longrightarrow> ev_count (data (node_at q y)) \<noteq> c" for y ys'
    using hd_dropWhile [of "\<lambda>j. \<not> ?B j" "i # is"] b(2) unfolding sp(4) by fastforce
  note s2 = second_loop_idle [OF nx this]
  define r where "r = (if next_ptr (node_at q a) = None
    then set_node e (?new None) (set_node a ((node_at q a)\<lparr>next_ptr := Some e\<rparr>) q)
    else set_node a ((node_at q a)\<lparr>next_ptr := Some e\<rparr>) (set_node e (?new (next_ptr (node_at q a))) q))"
  have r: "link_node before e t c q = Some r"
    using f s1 s2 b(1) by (simp add: link_node_def r_def)
  have ae: "a \<noteq> e" "a < 16" "e < 16" "length (nodes (q_pool q)) = 16"
    using sp(1) reservedD(1,2,4,5) [OF q] by auto
  then have "node_at r j = (if j = e then ?new (next_ptr (node_at q a))
        else if j = a then (node_at q a)\<lparr>next_ptr := Some e\<rparr> else node_at q j)" for j
    by (simp add: r_def node_at_set_node)
  note L = link_after [OF q [unfolded sp(1)], of r, OF _ _ _ _ this]
  have "ins_event before (t, c) (map (event_at q) (i # is)) =
        map (event_at q) (xs @ [a]) @ (t, c) # map (event_at q) ys"
    unfolding ins_event_def takeWhile_map dropWhile_map comp_def by (simp only: sp(3,4) snd_conv)
  then show ?thesis using r L by (auto simp: r_def)
qed

lemma insert_node_full: "queue_ids q is \<Longrightarrow> length is = 16 \<Longrightarrow> insert_node before t c q = Some None"
  by (simp add: insert_node_def alloc_full)

lemma insert_node_ids:
  assumes q: "queue_ids q is" and len: "length is < 16" and irrefl: "\<not> before c"
  shows "\<exists>q' is'. insert_node before t c q = Some (Some q') \<and> queue_ids q' is' \<and>
     q_events q' = ins_event before (t, c) (q_events q)"
proof -
  obtain e p where al: "alloc_node (q_pool q) = Some (e, p)" and r: "reserved (q\<lparr>q_pool := p\<rparr>) e is"
    and n: "nodes p = nodes (q_pool q)"
    using alloc_some [OF q len] .
  have ev: "map (event_at (q\<lparr>q_pool := p\<rparr>)) is = q_events q"
    using n by (simp add: q_events_ids [OF q] node_at_def)
  have "\<exists>q' is'. link_node before e t c (q\<lparr>q_pool := p\<rparr>) = Some q' \<and> queue_ids q' is' \<and>
     q_events q' = ins_event before (t, c) (q_events q)"
  proof (cases "\<exists>i is'. is = i # is' \<and> \<not> before (ev_count (data (node_at (q\<lparr>q_pool := p\<rparr>) i)))")
    case True
    then obtain i is' where "is = i # is'" "\<not> before (ev_count (data (node_at (q\<lparr>q_pool := p\<rparr>) i)))" by blast
    with link_node_behind [of "q\<lparr>q_pool := p\<rparr>" e i is'] r irrefl ev show ?thesis by metis
  next
    case False
    with link_node_front [OF r, of before] ev show ?thesis by metis
  qed
  then show ?thesis by (auto simp: insert_node_def al)
qed

lemma push_node_ids:
  assumes q: "queue_ids q is" and len: "length is < 16"
  shows "\<exists>q' is'. push_node t c q = Some q' \<and> queue_ids q' is' \<and> q_events q' = (t, c) # q_events q"
proof -
  obtain e p where al: "alloc_node (q_pool q) = Some (e, p)" and r: "reserved (q\<lparr>q_pool := p\<rparr>) e is"
    and n: "nodes p = nodes (q_pool q)"
    using alloc_some [OF q len] .
  have "map (event_at (q\<lparr>q_pool := p\<rparr>)) is = q_events q"
    using n by (simp add: q_events_ids [OF q] node_at_def)
  with link_front [OF r refl, of "\<lparr>ev_type = t, ev_count = c\<rparr>"] show ?thesis
    by (auto simp: push_node_def al)
qed

lemma push_node_full: "queue_ids q is \<Longrightarrow> length is = 16 \<Longrightarrow> push_node t c q = None"
  by (simp add: push_node_def alloc_full)

lemma pop_node_ids:
  assumes q: "queue_ids q (i # is)"
  shows "\<exists>q'. pop_node q = Some q' \<and> queue_ids q' is \<and> q_events q' = tl (q_events q)"
  using unlink_front [OF q refl] queue_ids_first [OF q] q_events_ids [OF q]
  by (auto simp: pop_node_def)

lemma pop_node_empty: "queue_ids q [] \<Longrightarrow> pop_node q = None"
  by (simp add: pop_node_def queue_ids_first)

text \<open>The common walk of \<^verbatim>\<open>get_event\<close> and \<^verbatim>\<open>remove_event\<close>: the node before the first one of the type.\<close>

lemma del_event_split:
  "dropWhile (\<lambda>e. fst e \<noteq> t) es = (x # ys) \<Longrightarrow> del_event t es = takeWhile (\<lambda>e. fst e \<noteq> t) es @ ys"
  by (induction es) (auto split: if_splits)

lemma del_event_none: "dropWhile (\<lambda>e. fst e \<noteq> t) es = [] \<Longrightarrow> del_event t es = es"
  by (induction es) (auto split: if_splits)

lemma map_of_dropWhile:
  "map_of es t = (case dropWhile (\<lambda>e. fst e \<noteq> t) es of [] \<Rightarrow> None | e # _ \<Rightarrow> Some (snd e))"
  by (induction es) auto

lemma type_seek:
  assumes q: "queue_ids q (i # is)" and t: "ev_type (data (node_at q i)) \<noteq> t"
  obtains xs a ys where "i # is = xs @ a # ys"
    "seek INTERRUPT_NODES_POOL_CAPACITY q (\<lambda>n. ev_type (data n) \<noteq> t) i = Some a"
    "next_ptr (node_at q a) = (case ys of [] \<Rightarrow> None | y # _ \<Rightarrow> Some y)"
    "takeWhile (\<lambda>e. fst e \<noteq> t) (q_events q) = map (event_at q) (xs @ [a])"
    "dropWhile (\<lambda>e. fst e \<noteq> t) (q_events q) = map (event_at q) ys"
proof -
  let ?T = "\<lambda>i. ev_type (data (node_at q i)) = t"
  obtain xs a ys where sp: "i # is = xs @ a # ys" "a = last (i # takeWhile (\<lambda>j. \<not> ?T j) is)"
      "takeWhile (\<lambda>j. \<not> ?T j) (i # is) = xs @ [a]" "dropWhile (\<lambda>j. \<not> ?T j) (i # is) = ys"
    using takeWhile_map_split [of i "is" "i # is" ?T, OF refl t] by metis
  have l: "links q (first q) (i # is) None" "length is < 16"
    using q queue_ids_length [OF q] by (simp_all add: queue_ids_def)
  have "seek INTERRUPT_NODES_POOL_CAPACITY q (\<lambda>n. ev_type (data n) \<noteq> t) i = Some a"
    using seek_links [of q i "is" 16 "\<lambda>n. ev_type (data n) \<noteq> t"] l sp(2)
    by (simp add: INTERRUPT_NODES_POOL_CAPACITY_def)
  then show ?thesis
    using sp(1,3,4) next_of_split [OF l(1) [unfolded sp(1)]]
    by (intro that [of xs a ys])
      (simp_all only: q_events_ids [OF q] takeWhile_map dropWhile_map comp_def fst_conv)
qed

lemma get_event_ids: "queue_ids q is \<Longrightarrow> get_event q t = Some (map_of (q_events q) t)"
proof (cases "is")
  case (Cons i is')
  assume q: "queue_ids q is"
  show ?thesis
  proof (cases "ev_type (data (node_at q i)) = t")
    case True
    then show ?thesis using q Cons queue_ids_first [OF q]
      by (simp add: get_event_def get_event_node_def q_events_ids)
  next
    case False
    obtain xs a ys where a: "i # is' = xs @ a # ys"
      "seek INTERRUPT_NODES_POOL_CAPACITY q (\<lambda>n. ev_type (data n) \<noteq> t) i = Some a"
      "next_ptr (node_at q a) = (case ys of [] \<Rightarrow> None | y # _ \<Rightarrow> Some y)"
      "dropWhile (\<lambda>e. fst e \<noteq> t) (q_events q) = map (event_at q) ys"
      using type_seek [OF q [unfolded Cons] False] .
    have "map_of (q_events q) t = map_option (\<lambda>i. ev_count (data (node_at q i))) (next_ptr (node_at q a))"
      unfolding map_of_dropWhile a(3,4) by (simp split: list.split)
    then show ?thesis using False a(2) queue_ids_first [OF q [unfolded Cons]]
      by (simp add: get_event_def get_event_node_def)
  qed
qed (simp add: get_event_def get_event_node_def queue_ids_first q_events_ids)

lemma remove_event_ids:
  "queue_ids q is \<Longrightarrow> \<exists>q' is'. remove_event q t = Some q' \<and> queue_ids q' is' \<and>
     q_events q' = del_event t (q_events q)"
proof (cases "is")
  case (Cons i is')
  assume q: "queue_ids q is"
  show ?thesis
  proof (cases "ev_type (data (node_at q i)) = t")
    case True
    then show ?thesis using queue_ids_first [OF q] Cons q_events_ids [OF q] unlink_front [OF q [unfolded Cons] refl]
      by (auto simp: remove_event_def)
  next
    case False
    obtain xs a ys where a: "i # is' = xs @ a # ys"
      "seek INTERRUPT_NODES_POOL_CAPACITY q (\<lambda>n. ev_type (data n) \<noteq> t) i = Some a"
      "next_ptr (node_at q a) = (case ys of [] \<Rightarrow> None | y # _ \<Rightarrow> Some y)"
      "takeWhile (\<lambda>e. fst e \<noteq> t) (q_events q) = map (event_at q) (xs @ [a])"
      "dropWhile (\<lambda>e. fst e \<noteq> t) (q_events q) = map (event_at q) ys"
      using type_seek [OF q [unfolded Cons] False] .
    show ?thesis
    proof (cases ys)
      case Nil
      then have "remove_event q t = Some q"
        using a(2,3) False queue_ids_first [OF q [unfolded \<open>is = _\<close>]] by (simp add: remove_event_def)
      then show ?thesis using q del_event_none [of t "q_events q"] a(5) Nil by auto
    next
      case (Cons y ys')
      let ?q1 = "set_node a ((node_at q a)\<lparr>next_ptr := next_ptr (node_at q y)\<rparr>) q"
      have "queue_ids q (xs @ a # y # ys')" using q \<open>is = _\<close> a(1) Cons by simp
      note U = unlink_after [OF this refl refl]
      have "remove_event q t = Some (?q1\<lparr>q_pool := free_node (q_pool ?q1) (Some y)\<rparr>)"
        using a(2,3) Cons False queue_ids_first [OF q [unfolded \<open>is = _\<close>]] by (simp add: remove_event_def Let_def)
      moreover have "del_event t (q_events q) = map (event_at q) (xs @ a # ys')"
        using del_event_split [of t "q_events q"] a(4,5) Cons by simp
      ultimately show ?thesis using U by auto
    qed
  qed
qed (auto simp: remove_event_def queue_ids_first q_events_ids)

text \<open>Rewriting the counts of all events in place.\<close>

abbreviation recount :: "(u32 \<Rightarrow> u32) \<Rightarrow> nat \<Rightarrow> interrupt_queue \<Rightarrow> interrupt_queue" where
  "recount f i q \<equiv> set_node i
     ((node_at q i)\<lparr>data := (data (node_at q i))\<lparr>ev_count := f (ev_count (data (node_at q i)))\<rparr>\<rparr>) q"

lemma fold_recount:
  assumes "distinct is" "\<And>i. i \<in> set is \<Longrightarrow> i < length (nodes (q_pool q))"
  shows "node_at (fold (recount f) is q) j =
      (if j \<in> set is then (node_at q j)\<lparr>data := (data (node_at q j))\<lparr>ev_count := f (ev_count (data (node_at q j)))\<rparr>\<rparr>
       else node_at q j)"
    and "first (fold (recount f) is q) = first q"
    and "stack (q_pool (fold (recount f) is q)) = stack (q_pool q)"
    and "index (q_pool (fold (recount f) is q)) = index (q_pool q)"
    and "length (nodes (q_pool (fold (recount f) is q))) = length (nodes (q_pool q))"
  using assms by (induction "is" arbitrary: q) (simp_all add: node_at_set_node)

lemma map_counts_ids:
  assumes q: "queue_ids q is"
  shows "\<exists>q'. map_counts f q = Some q' \<and> queue_ids q' is \<and>
     q_events q' = map (\<lambda>(t, c). (t, f c)) (q_events q)"
proof -
  let ?q' = "fold (recount f) is q"
  have d: "distinct is" "\<And>i. i \<in> set is \<Longrightarrow> i < length (nodes (q_pool q))"
    using q queue_ids_distinct [OF q] queue_ids_bound [OF q] by (simp_all add: queue_ids_def)
  note r = fold_recount [OF d, of f]
  have "links ?q' (first q) is None"
    using q links_frame [of "is" ?q' q] by (simp add: r queue_ids_def)
  then have 1: "queue_ids ?q' is" using q by (simp add: queue_ids_def r)
  moreover have "map_counts f q = Some ?q'"
    using queue_ids_walk [OF q] by (simp add: map_counts_def q_ids_def)
  ultimately show ?thesis by (auto simp: q_events_ids [OF 1] q_events_ids [OF q] r)
qed

section \<open>The pool-allocated list implements the interface\<close>

interpretation iq: event_queue wf_queue q_events INTERRUPT_NODES_POOL_CAPACITY
  insert_node push_node pop_node remove_event get_event
proof unfold_locales
  fix q before c t
  assume w: "wf_queue q"
  then obtain "is" where i: "queue_ids q is" by (auto simp: wf_queue_iff)
  note ev = q_events_ids [OF i] and cap = INTERRUPT_NODES_POOL_CAPACITY_def
  show "length (q_events q) \<le> INTERRUPT_NODES_POOL_CAPACITY"
    using i queue_ids_length [OF i] by (simp add: ev cap queue_ids_def)
  show "length (q_events q) < INTERRUPT_NODES_POOL_CAPACITY \<Longrightarrow> \<not> before c \<Longrightarrow>
      \<exists>q'. insert_node before t c q = Some (Some q') \<and> wf_queue q' \<and>
        q_events q' = ins_event before (t, c) (q_events q)"
    using insert_node_ids [OF i] by (auto simp: ev cap wf_queue_iff)
  show "length (q_events q) = INTERRUPT_NODES_POOL_CAPACITY \<Longrightarrow> insert_node before t c q = Some None"
    using insert_node_full [OF i] by (simp add: ev cap)
  show "length (q_events q) < INTERRUPT_NODES_POOL_CAPACITY \<Longrightarrow>
      \<exists>q'. push_node t c q = Some q' \<and> wf_queue q' \<and> q_events q' = (t, c) # q_events q"
    using push_node_ids [OF i] by (auto simp: ev cap wf_queue_iff)
  show "length (q_events q) = INTERRUPT_NODES_POOL_CAPACITY \<Longrightarrow> push_node t c q = None"
    using push_node_full [OF i] by (simp add: ev cap)
  show "q_events q \<noteq> [] \<Longrightarrow> \<exists>q'. pop_node q = Some q' \<and> wf_queue q' \<and> q_events q' = tl (q_events q)"
    using i pop_node_ids [of q "hd is" "tl is"] by (cases "is") (auto simp: ev wf_queue_iff)
  show "q_events q = [] \<Longrightarrow> pop_node q = None"
    using i pop_node_empty by (simp add: ev)
  show "\<exists>q'. remove_event q t = Some q' \<and> wf_queue q' \<and> q_events q' = del_event t (q_events q)"
    using remove_event_ids [OF i] by (auto simp: wf_queue_iff)
  show "get_event q t = Some (map_of (q_events q) t)"
    by (rule get_event_ids [OF i])
qed

lemma clear_queue_wf:
  "length (nodes (q_pool q)) = 16 \<Longrightarrow> wf_queue (clear_queue q) \<and> q_events (clear_queue q) = []"
  using clear_queue_ids [of q] by (auto simp: wf_queue_iff q_events_ids)

lemma map_counts_wf:
  "wf_queue q \<Longrightarrow> \<exists>q'. map_counts f q = Some q' \<and> wf_queue q' \<and>
     q_events q' = map (\<lambda>(t, c). (t, f c)) (q_events q)"
  using map_counts_ids by (force simp: wf_queue_iff)

lemma first_event:
  "wf_queue q \<Longrightarrow> first q = None \<longleftrightarrow> q_events q = []"
  "wf_queue q \<Longrightarrow> first q = Some i \<Longrightarrow> event_at q i = hd (q_events q)"
proof -
  assume "wf_queue q"
  then obtain "is" where i: "queue_ids q is" by (auto simp: wf_queue_iff)
  note f = queue_ids_first [OF i] and e = q_events_ids [OF i]
  show "first q = None \<longleftrightarrow> q_events q = []" using f e by (simp split: list.split)
  show "first q = Some i \<Longrightarrow> event_at q i = hd (q_events q)" for i using f e by (cases "is") simp_all
qed

lemma next_event_type: "wf_queue q \<Longrightarrow>
    get_next_event_type q = (case q_events q of [] \<Rightarrow> 0 | e # _ \<Rightarrow> fst e)"
proof (cases "first q")
  case None
  then show "wf_queue q \<Longrightarrow> ?thesis" using first_event(1) [of q] by (simp add: get_next_event_type_def)
next
  case (Some i)
  moreover assume w: "wf_queue q"
  ultimately have "q_events q \<noteq> []" "event_at q i = hd (q_events q)" using first_event [OF w] by auto
  then show ?thesis using Some by (cases "q_events q") (auto simp: get_next_event_type_def)
qed

lemma wf_queue_nodes: "wf_queue q \<Longrightarrow> length (nodes (q_pool q)) = 16"
  by (simp add: wf_queue_def)

end
