(* ===== verification/Tlb.thy ===== *)
theory Tlb
  imports Prelude
begin

text \<open>
  The translation look-aside buffer of the R4300 (\<^verbatim>\<open>src/src/device/r4300/tlb.c\<close>,
  \<^verbatim>\<open>tlb.h\<close>): 32 entries and two page-indexed look-up tables \<open>LUT_r\<close> and \<open>LUT_w\<close> that cache
  the translation of every 4 KiB page for reads and for writes.

  The loops of \<^verbatim>\<open>tlb_map\<close> and \<^verbatim>\<open>tlb_unmap\<close> advance a 32-bit address by \<^verbatim>\<open>0x1000\<close> until it
  reaches the end of the page; the address wraps around, so the loop is a
  \<^theory_text>\<open>partial_function\<close> whose value \<open>None\<close> means that it never returns. The lemmas give the
  exact condition under which it returns, and what the tables hold then.
\<close>

unbundle bit_operations_syntax

section \<open>State\<close>

record tlb_entry =
  te_mask :: u16
  vpn2 :: u32
  te_g :: u8
  asid :: u8
  pfn_even :: u32
  c_even :: u8
  d_even :: u8
  v_even :: u8
  pfn_odd :: u32
  c_odd :: u8
  d_odd :: u8
  v_odd :: u8
  te_r :: u8
  start_even :: u32
  end_even :: u32
  phys_even :: u32
  start_odd :: u32
  end_odd :: u32
  phys_odd :: u32

record tlb =
  entries :: "tlb_entry list"
  LUT_r :: "u32 \<Rightarrow> u32"
  LUT_w :: "u32 \<Rightarrow> u32"

definition tlb_entry_zero :: tlb_entry where
  "tlb_entry_zero =
     \<lparr>te_mask = 0, vpn2 = 0, te_g = 0, asid = 0,
      pfn_even = 0, c_even = 0, d_even = 0, v_even = 0,
      pfn_odd = 0, c_odd = 0, d_odd = 0, v_odd = 0, te_r = 0,
      start_even = 0, end_even = 0, phys_even = 0,
      start_odd = 0, end_odd = 0, phys_odd = 0\<rparr>"

definition poweron_tlb :: "tlb \<Rightarrow> tlb" where
  "poweron_tlb t = t\<lparr>entries := replicate 32 tlb_entry_zero, LUT_r := (\<lambda>_. 0), LUT_w := (\<lambda>_. 0)\<rparr>"

definition wf_tlb :: "tlb \<Rightarrow> bool" where
  "wf_tlb t \<longleftrightarrow> length (entries t) = 32"

section \<open>Filling a range of a table\<close>

text \<open>\<^verbatim>\<open>for (i = start; i < end; i += 0x1000) lut[i>>12] = val(i);\<close> on 32-bit addresses.\<close>

partial_function (option) fill_lut ::
    "(u32 \<Rightarrow> u32) \<Rightarrow> u32 \<Rightarrow> u32 \<Rightarrow> (u32 \<Rightarrow> u32) \<Rightarrow> (u32 \<Rightarrow> u32) option" where
  "fill_lut val i e lut =
     (if i < e then fill_lut val (i + 0x1000) e (lut(drop_bit 12 i := val i)) else Some lut)"

text \<open>One half (even or odd page) of an entry.\<close>

definition unmap_page :: "bool \<Rightarrow> bool \<Rightarrow> u32 \<Rightarrow> u32 \<Rightarrow> tlb \<Rightarrow> tlb option" where
  "unmap_page v d s e t =
     (if \<not> v then Some t
      else case fill_lut (\<lambda>_. 0) s e (LUT_r t) of None \<Rightarrow> None
        | Some r \<Rightarrow>
            if \<not> d then Some (t\<lparr>LUT_r := r\<rparr>)
            else case fill_lut (\<lambda>_. 0) s e (LUT_w t) of None \<Rightarrow> None
              | Some w \<Rightarrow> Some (t\<lparr>LUT_r := r, LUT_w := w\<rparr>))"

definition lut_value :: "u32 \<Rightarrow> u32 \<Rightarrow> u32 \<Rightarrow> u32" where
  "lut_value phys s i = 0x80000000 OR (phys + (i - s) + 0xFFF)"

definition map_page :: "bool \<Rightarrow> bool \<Rightarrow> u32 \<Rightarrow> u32 \<Rightarrow> u32 \<Rightarrow> tlb \<Rightarrow> tlb option" where
  "map_page v d s e phys t =
     (if \<not> v then Some t
      else if \<not> (s < e \<and> \<not> (s \<ge> 0x80000000 \<and> e < 0xC0000000) \<and> phys < 0x20000000) then Some t
      else case fill_lut (lut_value phys s) s e (LUT_r t) of None \<Rightarrow> None
        | Some r \<Rightarrow>
            if \<not> d then Some (t\<lparr>LUT_r := r\<rparr>)
            else case fill_lut (lut_value phys s) s e (LUT_w t) of None \<Rightarrow> None
              | Some w \<Rightarrow> Some (t\<lparr>LUT_r := r, LUT_w := w\<rparr>))"

section \<open>The two operations\<close>

text \<open>\<open>None\<close> stands for \<^verbatim>\<open>assert(entry < 32)\<close> failing or for a loop that does not end.\<close>

definition tlb_unmap :: "tlb \<Rightarrow> nat \<Rightarrow> tlb option" where
  "tlb_unmap t entry =
     (if \<not> entry < 32 then None
      else let e = entries t ! entry in
        case unmap_page (v_even e \<noteq> 0) (d_even e \<noteq> 0) (start_even e) (end_even e) t of
          None \<Rightarrow> None
        | Some t1 \<Rightarrow> unmap_page (v_odd e \<noteq> 0) (d_odd e \<noteq> 0) (start_odd e) (end_odd e) t1)"

definition tlb_map :: "tlb \<Rightarrow> nat \<Rightarrow> tlb option" where
  "tlb_map t entry =
     (if \<not> entry < 32 then None
      else let e = entries t ! entry in
        case map_page (v_even e \<noteq> 0) (d_even e \<noteq> 0) (start_even e) (end_even e) (phys_even e) t of
          None \<Rightarrow> None
        | Some t1 \<Rightarrow>
            map_page (v_odd e \<noteq> 0) (d_odd e \<noteq> 0) (start_odd e) (end_odd e) (phys_odd e) t1)"

text \<open>
  The table half of \<^verbatim>\<open>virtual_to_physical_address\<close>: \<open>None\<close> is the branch that calls
  \<^verbatim>\<open>TLB_refill_exception\<close> and returns 0.
\<close>

definition lut_translate :: "tlb \<Rightarrow> u32 \<Rightarrow> nat \<Rightarrow> u32 option" where
  "lut_translate t address w =
     (let addr = drop_bit 12 address; l = (if w = 1 then LUT_w t addr else LUT_r t addr) in
      if l \<noteq> 0 then Some ((l AND 0xFFFFF000) OR (address AND 0xFFF)) else None)"

section \<open>When the loop ends\<close>

lemma fill_lut_step: "i < e \<Longrightarrow> fill_lut val i e lut = fill_lut val (i + 0x1000) e (lut(drop_bit 12 i := val i))"
  by (subst fill_lut.simps) simp

lemma fill_lut_stop: "\<not> i < e \<Longrightarrow> fill_lut val i e lut = Some lut"
  by (subst fill_lut.simps) simp

text \<open>
  A loop bound in the last page of the address space is never reached: the address wraps
  to 0 and the loop starts over.
\<close>

lemma page_below_last:
  fixes i e :: u32
  assumes "i AND 0xFFF = 0" "0xFFFFF000 < e"
  shows "i < e"
proof -
  have "i \<le> 0xFFFFF000"
  proof -
    have "i = i AND 0xFFFFF000"
    proof (rule bit_word_eqI)
      fix n assume n: "n < LENGTH(32)"
      have "bit (i AND 0xFFF) n = False" using assms(1) by simp
      then have "bit i n \<Longrightarrow> \<not> bit (0xFFF :: u32) n" by (simp add: bit_and_iff)
      moreover have "\<not> bit (0xFFF :: u32) n \<Longrightarrow> bit (0xFFFFF000 :: u32) n"
      proof -
        assume a: "\<not> bit (0xFFF :: u32) n"
        have "(0xFFFFF000 :: u32) = NOT 0xFFF" by simp
        then show ?thesis using a n by (simp only: bit_not_iff) simp
      qed
      ultimately show "bit i n = bit (i AND 0xFFFFF000) n" by (auto simp: bit_and_iff)
    qed
    then show ?thesis using word_and_le1 [of i "0xFFFFF000"] by simp
  qed
  with assms(2) show ?thesis by simp
qed

lemma unat_and_FFF: "unat ((x :: u32) AND 0xFFF) = unat x mod 4096"
  using unat_and_mask [of x 12] by (simp add: mask_eq_exp_minus_1)

lemma page_add_aligned: "((i :: u32) + 0x1000) AND 0xFFF = i AND 0xFFF"
proof -
  have "(unat i + 4096) mod 4294967296 mod 4096 = (unat i + 4096) mod 4096"
    by (rule mod_mod_cancel) simp
  then show ?thesis by (simp add: word_unat_eq_iff unat_and_FFF unat_word_ariths)
qed

lemma unat_page_address: "p < 0x100000 \<Longrightarrow> unat (push_bit 12 p :: u32) = unat p * 4096"
  by (simp add: push_bit_eq_mult unat_word_ariths word_less_nat_alt)

lemma unat_page_index: "unat (drop_bit 12 (i :: u32)) = unat i div 4096"
  by (simp add: drop_bit_eq_div unat_div)

lemma page_index_bound: "drop_bit 12 (i :: u32) < 0x100000"
  using unsigned_less [of i, where ?'a = nat] by (simp add: word_less_nat_alt unat_page_index less_mult_imp_div_less)

lemma aligned_dvd: "(s :: u32) AND 0xFFF = 0 \<Longrightarrow> 4096 dvd unat s"
  using unat_and_FFF [of s] by (simp add: mod_eq_0_iff_dvd)

text \<open>Otherwise the loop returns, and it has rewritten exactly the pages of the range.\<close>

lemma fill_lut_returns:
  assumes "s AND 0xFFF = 0" "e \<le> 0xFFFFF000"
  shows "fill_lut val s e lut =
    Some (\<lambda>p. if p < 0x100000 \<and> s \<le> push_bit 12 p \<and> push_bit 12 p < e
              then val (push_bit 12 p) else lut p)"
  using assms(1)
proof (induction "unat e - unat s" arbitrary: s lut rule: less_induct)
  case less
  show ?case
  proof (cases "s < e")
    case False
    then have "(if p < 0x100000 \<and> s \<le> push_bit 12 p \<and> push_bit 12 p < e
        then val (push_bit 12 p) else lut p) = lut p" for p
      by (meson le_less_trans)
    with False show ?thesis by (simp add: fill_lut_stop)
  next
    case True
    let ?s = "s + 0x1000" and ?l = "lut(drop_bit 12 s := val s)"
    have se: "unat s < unat e" "unat e \<le> 0xFFFFF000"
      using True assms(2) by (simp_all add: word_less_nat_alt word_le_nat_alt)
    then have s': "unat ?s = unat s + 4096" by (simp add: unat_word_ariths)
    have IH: "fill_lut val ?s e ?l = Some (\<lambda>p. if p < 0x100000 \<and> ?s \<le> push_bit 12 p \<and> push_bit 12 p < e
        then val (push_bit 12 p) else ?l p)"
      using less.hyps [of ?s ?l] less.prems se s' by (simp add: page_add_aligned)
    from aligned_dvd [OF less.prems] obtain k where k: "unat s = 4096 * k" by (rule dvdE)
    have pg: "(if p < 0x100000 \<and> ?s \<le> push_bit 12 p \<and> push_bit 12 p < e
          then val (push_bit 12 p) else ?l p) =
        (if p < 0x100000 \<and> s \<le> push_bit 12 p \<and> push_bit 12 p < e
          then val (push_bit 12 p) else lut p)" for p
    proof (cases "p < 0x100000")
      case False
      then show ?thesis using page_index_bound [of s] by auto
    next
      case True
      note u = unat_page_address [OF True]
      have kp: "(p = drop_bit 12 s) = (unat p = k)"
        using k by (simp add: word_unat_eq_iff unat_page_index)
      have "unat p = k \<Longrightarrow> push_bit 12 p = s"
        using u k by (simp add: word_unat_eq_iff)
      then show ?thesis
        using True u k s' se by (auto simp: kp word_le_nat_alt word_less_nat_alt)
    qed
    show ?thesis unfolding fill_lut_step [OF True] IH by (simp only: pg)
  qed
qed

lemma fill_lut_diverges:
  assumes "s AND 0xFFF = 0" "0xFFFFF000 < e"
  shows "fill_lut val s e lut = None"
proof (rule ccontr)
  assume "fill_lut val s e lut \<noteq> None"
  then obtain r where ret: "fill_lut val s e lut = Some r" by auto
  have "s AND 0xFFF = 0 \<longrightarrow> \<not> 0xFFFFF000 < e"
  proof (rule fill_lut.raw_induct
      [where P = "\<lambda>val i e lut r. i AND 0xFFF = 0 \<longrightarrow> \<not> 0xFFFFF000 < e", OF _ ret])
    fix f val i e lut r
    assume IH: "\<And>val i e lut r. f val i e lut = Some r \<Longrightarrow> i AND 0xFFF = 0 \<longrightarrow> \<not> 0xFFFFF000 < (e::u32)"
      and eq: "(if i < e then f val (i + 0x1000) e (lut(drop_bit 12 i := val i)) else Some lut) = Some r"
    show "i AND 0xFFF = 0 \<longrightarrow> \<not> 0xFFFFF000 < e"
    proof (cases "i < e")
      case True
      with eq have "f val (i + 0x1000) e (lut(drop_bit 12 i := val i)) = Some r" by simp
      then show ?thesis using IH [of val "i + 0x1000"] by (simp add: page_add_aligned)
    next
      case False
      then show ?thesis using page_below_last by blast
    qed
  qed
  with assms show False by simp
qed

section \<open>What a translation yields\<close>

lemma FFF_bit_int: "bit (0xFFF :: int) n = (n < 12)"
  using bit_mask_iff [of 12 n, where ?'a = int] by (simp add: mask_eq_exp_minus_1)

lemma FFFFF000_bit_int: "bit (0xFFFFF000 :: int) n = (n < 32 \<and> \<not> n < 12)"
proof -
  have "(0xFFFFF000 :: int) = push_bit 12 (mask 20)"
    by (simp add: mask_eq_exp_minus_1 push_bit_eq_mult)
  then show ?thesis by (simp only: bit_push_bit_iff bit_mask_iff) auto
qed

lemma FFF_bit: "bit (0xFFF :: u32) n = (n < 12)"
  by (auto simp: FFF_bit_int)

lemma FFFFF000_bit: "bit (0xFFFFF000 :: u32) n = (n < 32 \<and> \<not> n < 12)"
  by (auto simp: FFFFF000_bit_int)

lemma bit31_int: "bit (0x80000000 :: int) n = (n = 31)"
  using bit_exp_iff [of 31 n, where ?'a = int] by simp

lemmas page_bits = FFF_bit_int FFFFF000_bit_int bit31_int

lemma aligned_bit: "(x :: u32) AND 0xFFF = 0 \<Longrightarrow> bit x n \<Longrightarrow> 12 \<le> n"
  by (metis FFF_bit bit_and_iff bit_0_eq bot_apply bot_bool_def not_less)

lemma aligned_iff: "((x :: u32) AND 0xFFF = 0) = (\<exists>k. x = k * 4096)"
proof
  assume a: "x AND 0xFFF = 0"
  have "x = push_bit 12 (drop_bit 12 x)"
    using aligned_bit [OF a] by (intro bit_word_eqI) (fastforce simp: bit_simps)
  then have "x = drop_bit 12 x * 4096" by (simp add: push_bit_eq_mult)
  then show "\<exists>k. x = k * 4096" by (rule exI)
next
  assume "\<exists>k. x = k * 4096"
  then obtain k where "x = push_bit 12 k" by (auto simp: push_bit_eq_mult)
  then show "x AND 0xFFF = 0"
    by (intro bit_word_eqI) (simp add: bit_and_iff page_bits bit_push_bit_iff)
qed

lemma aligned_add: "(a :: u32) AND 0xFFF = 0 \<Longrightarrow> b AND 0xFFF = 0 \<Longrightarrow> (a + b) AND 0xFFF = 0"
  unfolding aligned_iff by (metis distrib_right)

lemma aligned_diff: "(a :: u32) AND 0xFFF = 0 \<Longrightarrow> b AND 0xFFF = 0 \<Longrightarrow> (a - b) AND 0xFFF = 0"
  unfolding aligned_iff by (metis left_diff_distrib)

lemma page_aligned: "push_bit 12 p AND 0xFFF = (0 :: u32)"
  by (rule aligned_iff [THEN iffD2]) (auto simp: push_bit_eq_mult)

lemma aligned_plus_offset:
  "(x :: u32) AND 0xFFF = 0 \<Longrightarrow> (\<And>n. bit y n \<Longrightarrow> n < 12) \<Longrightarrow> x + y = x OR y"
  by (rule disjunctive_add) (meson aligned_bit not_less)

lemma offset_bit: "bit ((a :: u32) AND 0xFFF) n \<Longrightarrow> n < 12"
  by (metis FFF_bit bit_and_iff)

text \<open>Page base and offset of an address.\<close>

lemma page_split: "(a :: u32) = push_bit 12 (drop_bit 12 a) + (a AND 0xFFF)"
proof -
  have "push_bit 12 (drop_bit 12 a) + (a AND 0xFFF) = push_bit 12 (drop_bit 12 a) OR (a AND 0xFFF)"
    by (rule aligned_plus_offset [OF page_aligned offset_bit])
  also have "\<dots> = a"
    by (rule bit_word_eqI) (fastforce simp: bit_simps page_bits)
  finally show ?thesis by simp
qed

lemma lut_value_nonzero: "lut_value phys s i \<noteq> 0"
proof -
  have "bit (lut_value phys s i) 31" by (simp add: lut_value_def bit_or_iff)
  then show ?thesis by auto
qed

lemma lut_value_translate:
  assumes "phys AND 0xFFF = 0" "s AND 0xFFF = 0"
  shows "(lut_value phys s (push_bit 12 (drop_bit 12 a)) AND 0xFFFFF000) OR (a AND 0xFFF)
    = 0x80000000 OR (phys + (a - s))"
proof -
  let ?p = "push_bit 12 (drop_bit 12 a)"
  let ?x = "phys + (?p - s)"
  have x: "?x AND 0xFFF = 0"
    by (intro aligned_add aligned_diff assms page_aligned)
  have "phys + (a - s) = ?x + (a AND 0xFFF)"
    using page_split [of a] by (simp add: algebra_simps)
  also have "\<dots> = ?x OR (a AND 0xFFF)"
    by (rule aligned_plus_offset [OF x offset_bit])
  finally have r: "phys + (a - s) = ?x OR (a AND 0xFFF)" .
  have l: "?x + 0xFFF = ?x OR 0xFFF"
    by (rule aligned_plus_offset [OF x]) (simp add: page_bits)
  show ?thesis unfolding r lut_value_def l
    by (rule bit_word_eqI)
      (auto simp: bit_simps page_bits dest: aligned_bit [OF x])
qed

section \<open>Mapping and unmapping as table updates\<close>

definition in_pages :: "u32 \<Rightarrow> u32 \<Rightarrow> u32 \<Rightarrow> bool" where
  "in_pages s e a \<longleftrightarrow> s \<le> push_bit 12 (drop_bit 12 a) \<and> push_bit 12 (drop_bit 12 a) < e"

definition paint :: "(u32 \<Rightarrow> u32) \<Rightarrow> u32 \<Rightarrow> u32 \<Rightarrow> (u32 \<Rightarrow> u32) \<Rightarrow> u32 \<Rightarrow> u32" where
  "paint val s e lut p =
     (if p < 0x100000 \<and> s \<le> push_bit 12 p \<and> push_bit 12 p < e then val (push_bit 12 p) else lut p)"

definition mappable :: "u32 \<Rightarrow> u32 \<Rightarrow> u32 \<Rightarrow> bool" where
  "mappable s e phys \<longleftrightarrow> s AND 0xFFF = 0 \<and> phys AND 0xFFF = 0 \<and> e \<le> 0xFFFFF000 \<and> s < e \<and>
     \<not> (s \<ge> 0x80000000 \<and> e < 0xC0000000) \<and> phys < 0x20000000"

lemma fill_lut_paint: "s AND 0xFFF = 0 \<Longrightarrow> e \<le> 0xFFFFF000 \<Longrightarrow> fill_lut val s e lut = Some (paint val s e lut)"
  by (simp add: fill_lut_returns paint_def [abs_def])

lemma paint_at:
  "paint val s e lut (drop_bit 12 a) =
     (if in_pages s e a then val (push_bit 12 (drop_bit 12 a)) else lut (drop_bit 12 a))"
  by (simp add: paint_def in_pages_def page_index_bound)

lemma map_page_eq:
  "mappable s e phys \<Longrightarrow> map_page v d s e phys t = Some
     (if v then t\<lparr>LUT_r := paint (lut_value phys s) s e (LUT_r t),
                  LUT_w := (if d then paint (lut_value phys s) s e (LUT_w t) else LUT_w t)\<rparr> else t)"
  by (auto simp: mappable_def map_page_def fill_lut_paint)

lemma unmap_page_eq:
  "s AND 0xFFF = 0 \<Longrightarrow> e \<le> 0xFFFFF000 \<Longrightarrow> unmap_page v d s e t = Some
     (if v then t\<lparr>LUT_r := paint (\<lambda>_. 0) s e (LUT_r t),
                  LUT_w := (if d then paint (\<lambda>_. 0) s e (LUT_w t) else LUT_w t)\<rparr> else t)"
  by (auto simp: unmap_page_def fill_lut_paint)

lemma map_page_invalid [simp]: "map_page False d s e phys t = Some t"
  by (simp add: map_page_def)

text \<open>
  An entry is well formed when each valid half names an aligned page range that the tables
  accept, and the halves do not overlap; \<^verbatim>\<open>TLBWrite\<close> builds the odd half right behind the
  even one.
\<close>

definition wf_entry :: "tlb_entry \<Rightarrow> bool" where
  "wf_entry e \<longleftrightarrow>
     mappable (start_even e) (end_even e) (phys_even e) \<and>
     mappable (start_odd e) (end_odd e) (phys_odd e) \<and>
     end_even e \<le> start_odd e"

lemma halves_disjoint:
  "wf_entry e \<Longrightarrow> in_pages (start_even e) (end_even e) a \<Longrightarrow> \<not> in_pages (start_odd e) (end_odd e) a"
  unfolding wf_entry_def in_pages_def by (meson leD less_le_trans)

definition entry_translate :: "tlb_entry \<Rightarrow> nat \<Rightarrow> u32 \<Rightarrow> u32 option" where
  "entry_translate e w a =
     (if v_even e \<noteq> 0 \<and> (w = 1 \<longrightarrow> d_even e \<noteq> 0) \<and> in_pages (start_even e) (end_even e) a
      then Some (0x80000000 OR (phys_even e + (a - start_even e)))
      else if v_odd e \<noteq> 0 \<and> (w = 1 \<longrightarrow> d_odd e \<noteq> 0) \<and> in_pages (start_odd e) (end_odd e) a
      then Some (0x80000000 OR (phys_odd e + (a - start_odd e)))
      else None)"

lemma map_page_translate:
  assumes m: "mappable s e phys" and r: "map_page v d s e phys t = Some t'"
  shows "lut_translate t' a w =
      (if v \<and> (w = 1 \<longrightarrow> d) \<and> in_pages s e a
       then Some (0x80000000 OR (phys + (a - s))) else lut_translate t a w)"
    and "entries t' = entries t"
proof -
  have al: "phys AND 0xFFF = 0" "s AND 0xFFF = 0" using m by (simp_all add: mappable_def)
  have t': "t' = (if v then t\<lparr>LUT_r := paint (lut_value phys s) s e (LUT_r t),
      LUT_w := (if d then paint (lut_value phys s) s e (LUT_w t) else LUT_w t)\<rparr> else t)"
    using r by (simp add: map_page_eq [OF m])
  show "entries t' = entries t" by (simp add: t')
  show "lut_translate t' a w =
      (if v \<and> (w = 1 \<longrightarrow> d) \<and> in_pages s e a
       then Some (0x80000000 OR (phys + (a - s))) else lut_translate t a w)"
    by (simp add: t' lut_translate_def paint_at Let_def lut_value_nonzero lut_value_translate [OF al])
qed

lemma unmap_page_translate:
  assumes m: "mappable s e phys" and r: "unmap_page v d s e t = Some t'"
  shows "lut_translate t' a w =
      (if v \<and> (w = 1 \<longrightarrow> d) \<and> in_pages s e a then None else lut_translate t a w)"
    and "entries t' = entries t"
proof -
  have al: "s AND 0xFFF = 0" "e \<le> 0xFFFFF000" using m by (simp_all add: mappable_def)
  have t': "t' = (if v then t\<lparr>LUT_r := paint (\<lambda>_. 0) s e (LUT_r t),
      LUT_w := (if d then paint (\<lambda>_. 0) s e (LUT_w t) else LUT_w t)\<rparr> else t)"
    using r by (simp add: unmap_page_eq [OF al])
  show "entries t' = entries t" by (simp add: t')
  show "lut_translate t' a w =
      (if v \<and> (w = 1 \<longrightarrow> d) \<and> in_pages s e a then None else lut_translate t a w)"
    by (simp add: t' lut_translate_def paint_at Let_def)
qed

lemma map_page_returns: "mappable s e phys \<Longrightarrow> \<exists>t'. map_page v d s e phys t = Some t'"
  by (simp add: map_page_eq)

lemma unmap_page_returns: "mappable s e phys \<Longrightarrow> \<exists>t'. unmap_page v d s e t = Some t'"
  by (simp add: unmap_page_eq mappable_def)

text \<open>The two halves of an entry in sequence.\<close>

lemma tlb_map_effect:
  assumes "entry < 32" "wf_entry (entries t ! entry)"
  shows "\<exists>t'. tlb_map t entry = Some t' \<and> entries t' = entries t \<and>
    (\<forall>a w. lut_translate t' a w =
      (case entry_translate (entries t ! entry) w a of
         Some p \<Rightarrow> Some p | None \<Rightarrow> lut_translate t a w))"
proof -
  let ?e = "entries t ! entry"
  have me: "mappable (start_even ?e) (end_even ?e) (phys_even ?e)"
    and mo: "mappable (start_odd ?e) (end_odd ?e) (phys_odd ?e)"
    using assms(2) by (simp_all add: wf_entry_def)
  obtain t1 where t1: "map_page (v_even ?e \<noteq> 0) (d_even ?e \<noteq> 0) (start_even ?e) (end_even ?e) (phys_even ?e) t = Some t1"
    using map_page_returns [OF me] by blast
  obtain t2 where t2: "map_page (v_odd ?e \<noteq> 0) (d_odd ?e \<noteq> 0) (start_odd ?e) (end_odd ?e) (phys_odd ?e) t1 = Some t2"
    using map_page_returns [OF mo] by blast
  have "tlb_map t entry = Some t2"
    using assms(1) t1 t2 by (simp add: tlb_map_def Let_def)
  moreover have "lut_translate t2 a w =
      (case entry_translate ?e w a of Some p \<Rightarrow> Some p | None \<Rightarrow> lut_translate t a w)" for a w
    using halves_disjoint [OF assms(2), of a]
    by (auto simp: map_page_translate(1) [OF me t1] map_page_translate(1) [OF mo t2] entry_translate_def)
  ultimately show ?thesis
    using map_page_translate(2) [OF me t1] map_page_translate(2) [OF mo t2] by auto
qed

lemma tlb_unmap_effect:
  assumes "entry < 32" "wf_entry (entries t ! entry)"
  shows "\<exists>t'. tlb_unmap t entry = Some t' \<and> entries t' = entries t \<and>
    (\<forall>a w. lut_translate t' a w =
      (if entry_translate (entries t ! entry) w a \<noteq> None then None else lut_translate t a w))"
proof -
  let ?e = "entries t ! entry"
  have me: "mappable (start_even ?e) (end_even ?e) (phys_even ?e)"
    and mo: "mappable (start_odd ?e) (end_odd ?e) (phys_odd ?e)"
    using assms(2) by (simp_all add: wf_entry_def)
  obtain t1 where t1: "unmap_page (v_even ?e \<noteq> 0) (d_even ?e \<noteq> 0) (start_even ?e) (end_even ?e) t = Some t1"
    using unmap_page_returns [OF me] by blast
  obtain t2 where t2: "unmap_page (v_odd ?e \<noteq> 0) (d_odd ?e \<noteq> 0) (start_odd ?e) (end_odd ?e) t1 = Some t2"
    using unmap_page_returns [OF mo] by blast
  have "tlb_unmap t entry = Some t2"
    using assms(1) t1 t2 by (simp add: tlb_unmap_def Let_def)
  moreover have "lut_translate t2 a w =
      (if entry_translate ?e w a \<noteq> None then None else lut_translate t a w)" for a w
    by (auto simp: unmap_page_translate(1) [OF me t1] unmap_page_translate(1) [OF mo t2] entry_translate_def)
  ultimately show ?thesis
    using unmap_page_translate(2) [OF me t1] unmap_page_translate(2) [OF mo t2] by auto
qed

lemma map_page_hangs:
  assumes "s AND 0xFFF = 0" "0xFFFFF000 < e" "phys < 0x20000000" "v"
  shows "map_page v d s e phys t = None"
proof -
  have "s < e" using page_below_last [OF assms(1,2)] .
  moreover have "\<not> e < 0xC0000000" using assms(2) by (simp add: word_less_nat_alt)
  ultimately show ?thesis
    using assms by (simp add: map_page_def fill_lut_diverges)
qed

section \<open>Properties\<close>

text \<open>
  C12. Mapping a well-formed entry returns, and afterwards every address of the two valid
  pages translates to the physical address of its page plus the offset inside it (for
  writes only when the page is dirty), while every other address translates as before.
\<close>

theorem tlb_map_translates:
  assumes "entry < 32" and "wf_entry (entries t ! entry)"
  shows "\<exists>t'. tlb_map t entry = Some t' \<and> entries t' = entries t \<and>
    (\<forall>a w. lut_translate t' a w =
      (case entry_translate (entries t ! entry) w a of
         Some p \<Rightarrow> Some p | None \<Rightarrow> lut_translate t a w))"
  by (rule tlb_map_effect [OF assms])

definition sample_entry :: tlb_entry where
  "sample_entry = tlb_entry_zero\<lparr>v_even := 1, d_even := 1, start_even := 0x1000, end_even := 0x1FFF,
     phys_even := 0x5000, v_odd := 1, start_odd := 0x2000, end_odd := 0x2FFF, phys_odd := 0x8000\<rparr>"

definition sample_tlb :: tlb where
  "sample_tlb = \<lparr>entries = replicate 32 sample_entry, LUT_r = (\<lambda>_. 0), LUT_w = (\<lambda>_. 0)\<rparr>"

lemma sample_entry_wf: "wf_entry (entries sample_tlb ! 3)"
  by (simp add: sample_tlb_def sample_entry_def tlb_entry_zero_def wf_entry_def mappable_def)

theorem tlb_map_translates_witness:
  "\<exists>t'. tlb_map sample_tlb 3 = Some t' \<and>
     lut_translate t' 0x1234 0 = Some 0x80005234 \<and> lut_translate t' 0x2345 1 = None"
proof -
  obtain t' where "tlb_map sample_tlb 3 = Some t'" and a: "\<forall>a w. lut_translate t' a w =
      (case entry_translate (entries sample_tlb ! 3) w a of
         Some p \<Rightarrow> Some p | None \<Rightarrow> lut_translate sample_tlb a w)"
    using tlb_map_translates [of 3 sample_tlb, OF _ sample_entry_wf] by auto
  moreover have "entry_translate (entries sample_tlb ! 3) 0 0x1234 = Some 0x80005234"
    by (simp add: sample_tlb_def sample_entry_def tlb_entry_zero_def entry_translate_def in_pages_def
        drop_bit_eq_div push_bit_eq_mult)
  moreover have "entry_translate (entries sample_tlb ! 3) 1 0x2345 = None"
    "lut_translate sample_tlb 0x2345 1 = None"
    by (simp_all add: sample_tlb_def sample_entry_def tlb_entry_zero_def entry_translate_def in_pages_def
        drop_bit_eq_div push_bit_eq_mult lut_translate_def)
  ultimately show ?thesis by (metis option.simps(4,5))
qed

text \<open>
  C13. Unmapping an entry right after mapping it returns; no address of its pages is
  translated any more, and all the others are translated as before the mapping.
\<close>

theorem tlb_unmap_after_map:
  assumes "entry < 32" and "wf_entry (entries t ! entry)"
  shows "\<exists>t' t''. tlb_map t entry = Some t' \<and> tlb_unmap t' entry = Some t'' \<and> entries t'' = entries t \<and>
    (\<forall>a w. lut_translate t'' a w =
      (if entry_translate (entries t ! entry) w a \<noteq> None then None else lut_translate t a w))"
proof -
  obtain t' where t': "tlb_map t entry = Some t'" "entries t' = entries t"
    "\<forall>a w. lut_translate t' a w = (case entry_translate (entries t ! entry) w a of
         Some p \<Rightarrow> Some p | None \<Rightarrow> lut_translate t a w)"
    using tlb_map_effect [OF assms] by auto
  moreover obtain t'' where "tlb_unmap t' entry = Some t''" "entries t'' = entries t'"
    "\<forall>a w. lut_translate t'' a w = (if entry_translate (entries t' ! entry) w a \<noteq> None then None
       else lut_translate t' a w)"
    using tlb_unmap_effect [of entry t'] assms t'(2) by auto
  ultimately show ?thesis by (intro exI [of _ t'] exI [of _ t'']) auto
qed

theorem tlb_unmap_after_map_witness:
  "\<exists>t' t''. tlb_map sample_tlb 3 = Some t' \<and> tlb_unmap t' 3 = Some t'' \<and>
     lut_translate t'' 0x1234 0 = None"
proof -
  obtain t' t'' where "tlb_map sample_tlb 3 = Some t'" "tlb_unmap t' 3 = Some t''"
    and a: "\<forall>a w. lut_translate t'' a w = (if entry_translate (entries sample_tlb ! 3) w a \<noteq> None
       then None else lut_translate sample_tlb a w)"
    using tlb_unmap_after_map [of 3 sample_tlb, OF _ sample_entry_wf] by auto
  moreover have "lut_translate sample_tlb 0x1234 0 = None"
    by (simp add: sample_tlb_def lut_translate_def)
  ultimately show ?thesis by auto
qed

text \<open>
  C14. Mapping a valid page whose range ends in the last page of the address space never
  returns: the 32-bit loop counter wraps to 0 before it reaches the bound, so a guest that
  writes such an entry hangs the emulator.
\<close>

theorem tlb_map_hangs:
  assumes "entry < 32" "v_odd (entries t ! entry) \<noteq> 0" "phys_odd (entries t ! entry) < 0x20000000"
    and "start_odd (entries t ! entry) AND 0xFFF = 0" "0xFFFFF000 < end_odd (entries t ! entry)"
  shows "tlb_map t entry = None"
  using assms by (simp add: tlb_map_def Let_def map_page_hangs split: option.split)

definition hanging_entry :: tlb_entry where
  "hanging_entry = tlb_entry_zero\<lparr>v_odd := 1, start_odd := 0xFFFFF000, end_odd := 0xFFFFFFFF\<rparr>"

theorem tlb_map_hangs_witness: "tlb_map (sample_tlb\<lparr>entries := replicate 32 hanging_entry\<rparr>) 0 = None"
  by (rule tlb_map_hangs) (simp_all add: hanging_entry_def tlb_entry_zero_def)

end
