(* ===== verification/Cp1.thy ===== *)
theory Cp1
  imports Prelude
begin

text \<open>
  The state of the floating point coprocessor (\<^verbatim>\<open>src/src/device/r4300/cp1.c\<close>, \<^verbatim>\<open>cp1.h\<close>) in the build without
  \<^verbatim>\<open>OSAL_SSE\<close>. The 32 registers are 64-bit unions. Instructions reach them through two tables of pointers, which
  \<^verbatim>\<open>set_fpr_pointers\<close> rebuilds when the \<^verbatim>\<open>FR\<close> bit of the status register changes: a pointer to a single is the
  index of a register with a half of it (0 is the low one), a pointer to a double is an index. \<open>fe_round\<close> is
  the rounding direction of the host, which \<^verbatim>\<open>fesetround\<close> sets.
\<close>

record cp1 =
  fpr :: "nat \<Rightarrow> u64"
  fcr0 :: u32
  fcr31 :: u32
  regs_simple :: "nat \<Rightarrow> nat \<times> nat"
  regs_double :: "nat \<Rightarrow> nat"
  rounding_mode :: u32
  fe_round :: u32

section \<open>Register tables\<close>

definition fr32_simple :: "nat \<Rightarrow> nat \<times> nat" where
  "fr32_simple i = (i - i mod 2, i mod 2)"

definition fr32_double :: "nat \<Rightarrow> nat" where
  "fr32_double i = i - i mod 2"

definition set_fpr_pointers :: "u32 \<Rightarrow> cp1 \<Rightarrow> cp1" where
  "set_fpr_pointers newStatus c =
     (if newStatus AND 0x04000000 = 0
      then c\<lparr>regs_simple := (\<lambda>i. if i < 32 then fr32_simple i else regs_simple c i),
             regs_double := (\<lambda>i. if i < 32 then fr32_double i else regs_double c i)\<rparr>
      else c\<lparr>regs_simple := (\<lambda>i. if i < 32 then (i, 0) else regs_simple c i),
             regs_double := (\<lambda>i. if i < 32 then i else regs_double c i)\<rparr>)"

definition update_x86_rounding_mode :: "cp1 \<Rightarrow> cp1" where
  "update_x86_rounding_mode c =
     (let m = fcr31 c AND 3 in
      c\<lparr>rounding_mode := (if m = 0 then 0x33F else if m = 1 then 0xF3F else if m = 2 then 0xB3F else 0x73F)\<rparr>)"

definition poweron_cp1 :: "cp1 \<Rightarrow> cp1" where
  "poweron_cp1 c =
     update_x86_rounding_mode
       (set_fpr_pointers 0x34000000
         (c\<lparr>fpr := (\<lambda>i. if i < 32 then 0 else fpr c i), fcr0 := 0xA00, fcr31 := 0\<rparr>))"

section \<open>Reading and writing through the tables\<close>

definition half :: "nat \<Rightarrow> u64 \<Rightarrow> u32" where
  "half h w = ucast (drop_bit (32 * h) w)"

definition set_half :: "nat \<Rightarrow> u32 \<Rightarrow> u64 \<Rightarrow> u64" where
  "set_half h v w = (if h = 0 then (w AND 0xFFFFFFFF00000000) OR ucast v
                     else (w AND 0xFFFFFFFF) OR push_bit 32 (ucast v))"

definition get_simple :: "nat \<Rightarrow> cp1 \<Rightarrow> u32" where
  "get_simple i c = (let (r, h) = regs_simple c i in half h (fpr c r))"

definition put_simple :: "nat \<Rightarrow> u32 \<Rightarrow> cp1 \<Rightarrow> cp1" where
  "put_simple i v c = (let (r, h) = regs_simple c i in c\<lparr>fpr := (fpr c)(r := set_half h v (fpr c r))\<rparr>)"

definition get_double :: "nat \<Rightarrow> cp1 \<Rightarrow> u64" where
  "get_double i c = fpr c (regs_double c i)"

definition put_double :: "nat \<Rightarrow> u64 \<Rightarrow> cp1 \<Rightarrow> cp1" where
  "put_double i v c = c\<lparr>fpr := (fpr c)(regs_double c i := v)\<rparr>"

section \<open>The tables\<close>

text \<open>The tables are the ones of a status word when every index below 32 is mapped as \<^verbatim>\<open>FR\<close> says.\<close>

definition fpr_tables :: "u32 \<Rightarrow> cp1 \<Rightarrow> bool" where
  "fpr_tables status c \<longleftrightarrow>
     (\<forall>i < 32. if status AND 0x04000000 = 0
               then regs_simple c i = fr32_simple i \<and> regs_double c i = fr32_double i
               else regs_simple c i = (i, 0) \<and> regs_double c i = i)"

lemma set_fpr_pointers_tables: "fpr_tables status (set_fpr_pointers status c)"
  by (simp add: fpr_tables_def set_fpr_pointers_def)

lemma fpr_tables_cong:
  "regs_simple c' = regs_simple c \<Longrightarrow> regs_double c' = regs_double c \<Longrightarrow> fpr_tables st c' = fpr_tables st c"
  by (simp add: fpr_tables_def)

lemma fpr_tables_frame [simp]:
  "fpr_tables st (put_simple i v c) = fpr_tables st c" "fpr_tables st (put_double i w c) = fpr_tables st c"
  "fpr_tables st (update_x86_rounding_mode c) = fpr_tables st c"
  by (simp_all add: fpr_tables_def put_simple_def put_double_def update_x86_rounding_mode_def split_beta Let_def)

lemma poweron_cp1_tables: "fpr_tables 0x34000000 (poweron_cp1 c)"
  by (simp add: poweron_cp1_def set_fpr_pointers_tables)

section \<open>Halves\<close>

lemma lower_half_bit: "bit (0xFFFFFFFF :: u64) n \<longleftrightarrow> n < 32"
proof -
  have m: "(0xFFFFFFFF :: u64) = mask 32" by (simp add: mask_eq_exp_minus_1)
  show ?thesis unfolding m by (auto simp: bit_mask_iff)
qed

lemma upper_half_bit: "bit (0xFFFFFFFF00000000 :: u64) n \<longleftrightarrow> 32 \<le> n \<and> n < 64"
proof -
  have m: "(0xFFFFFFFF00000000 :: u64) = push_bit 32 (mask 32)" by (simp add: mask_eq_exp_minus_1 push_bit_eq_mult)
  show ?thesis unfolding m by (auto simp: bit_push_bit_iff bit_mask_iff)
qed

lemma set_half_bit:
  "h < 2 \<Longrightarrow> n < 64 \<Longrightarrow>
    bit (set_half h v w) n = (if 32 * h \<le> n \<and> n < 32 * h + 32 then bit v (n - 32 * h) else bit w n)"
  by (cases "h = 0"; cases "h = 1")
    (auto simp: set_half_def bit_or_iff bit_and_iff bit_push_bit_iff bit_ucast_iff lower_half_bit upper_half_bit
      simp del: bit_numeral_word_iff
      dest: bit_imp_le_length)

lemma half_bit: "n < 32 \<Longrightarrow> bit (half h w) n = bit w (32 * h + n)"
  by (simp add: half_def bit_simps)

lemma half_set_half: "h < 2 \<Longrightarrow> g < 2 \<Longrightarrow> half g (set_half h v w) = (if g = h then v else half g w)"
proof (rule bit_word_eqI)
  fix n assume a: "h < 2" "g < 2" and "n < LENGTH(32)"
  then have n: "n < 32" "32 * g + n < 64" by auto
  show "bit (half g (set_half h v w)) n = bit (if g = h then v else half g w) n"
    using a n by (auto simp: half_bit set_half_bit)
qed

end
