(* ===== verification/Cp0.thy ===== *)
theory Cp0
  imports Host Event_Queue Tlb Cp1
begin

text \<open>
  The system control coprocessor and the part of the R4300 core it needs
  (\<^verbatim>\<open>src/src/device/r4300/cp0.c\<close>, \<^verbatim>\<open>cp0.h\<close>, \<^verbatim>\<open>interrupt.c\<close>, \<^verbatim>\<open>r4300_core.c\<close>, \<^verbatim>\<open>tlb.c\<close>): the interrupt
  queue with its \<^verbatim>\<open>next_interrupt\<close> / \<^verbatim>\<open>cycle_count\<close> caches, the count register, and the exceptions.

  The build is the pure interpreter without the new dynarec (\<^verbatim>\<open>EMUMODE_PURE_INTERPRETER\<close>,
  \<^verbatim>\<open>NEW_DYNAREC\<close> undefined): \<^verbatim>\<open>generic_jump_to\<close> writes the program counter and
  \<^verbatim>\<open>invalidate_r4300_cached_code\<close> does nothing.

  The state is an extensible record: each component of the machine adds its fields to the one
  before it, and its operations are polymorphic in what comes after.
\<close>

section \<open>Register and bit names\<close>

abbreviation (input) CP0_INDEX_REG :: nat where "CP0_INDEX_REG \<equiv> 0"
abbreviation (input) CP0_RANDOM_REG :: nat where "CP0_RANDOM_REG \<equiv> 1"
abbreviation (input) CP0_ENTRYLO0_REG :: nat where "CP0_ENTRYLO0_REG \<equiv> 2"
abbreviation (input) CP0_ENTRYLO1_REG :: nat where "CP0_ENTRYLO1_REG \<equiv> 3"
abbreviation (input) CP0_CONTEXT_REG :: nat where "CP0_CONTEXT_REG \<equiv> 4"
abbreviation (input) CP0_PAGEMASK_REG :: nat where "CP0_PAGEMASK_REG \<equiv> 5"
abbreviation (input) CP0_WIRED_REG :: nat where "CP0_WIRED_REG \<equiv> 6"
abbreviation (input) CP0_BADVADDR_REG :: nat where "CP0_BADVADDR_REG \<equiv> 8"
abbreviation (input) CP0_COUNT_REG :: nat where "CP0_COUNT_REG \<equiv> 9"
abbreviation (input) CP0_ENTRYHI_REG :: nat where "CP0_ENTRYHI_REG \<equiv> 10"
abbreviation (input) CP0_COMPARE_REG :: nat where "CP0_COMPARE_REG \<equiv> 11"
abbreviation (input) CP0_STATUS_REG :: nat where "CP0_STATUS_REG \<equiv> 12"
abbreviation (input) CP0_CAUSE_REG :: nat where "CP0_CAUSE_REG \<equiv> 13"
abbreviation (input) CP0_EPC_REG :: nat where "CP0_EPC_REG \<equiv> 14"
abbreviation (input) CP0_PREVID_REG :: nat where "CP0_PREVID_REG \<equiv> 15"
abbreviation (input) CP0_CONFIG_REG :: nat where "CP0_CONFIG_REG \<equiv> 16"
abbreviation (input) CP0_LLADDR_REG :: nat where "CP0_LLADDR_REG \<equiv> 17"
abbreviation (input) CP0_WATCHLO_REG :: nat where "CP0_WATCHLO_REG \<equiv> 18"
abbreviation (input) CP0_WATCHHI_REG :: nat where "CP0_WATCHHI_REG \<equiv> 19"
abbreviation (input) CP0_XCONTEXT_REG :: nat where "CP0_XCONTEXT_REG \<equiv> 20"
abbreviation (input) CP0_PARITYERR_REG :: nat where "CP0_PARITYERR_REG \<equiv> 26"
abbreviation (input) CP0_CACHEERR_REG :: nat where "CP0_CACHEERR_REG \<equiv> 27"
abbreviation (input) CP0_TAGLO_REG :: nat where "CP0_TAGLO_REG \<equiv> 28"
abbreviation (input) CP0_TAGHI_REG :: nat where "CP0_TAGHI_REG \<equiv> 29"
abbreviation (input) CP0_ERROREPC_REG :: nat where "CP0_ERROREPC_REG \<equiv> 30"
abbreviation (input) CP0_REGS_COUNT :: nat where "CP0_REGS_COUNT \<equiv> 32"

abbreviation (input) CP0_STATUS_IE :: u32 where "CP0_STATUS_IE \<equiv> 0x00000001"
abbreviation (input) CP0_STATUS_EXL :: u32 where "CP0_STATUS_EXL \<equiv> 0x00000002"
abbreviation (input) CP0_STATUS_ERL :: u32 where "CP0_STATUS_ERL \<equiv> 0x00000004"
abbreviation (input) CP0_STATUS_SR :: u32 where "CP0_STATUS_SR \<equiv> 0x00100000"
abbreviation (input) CP0_STATUS_TS :: u32 where "CP0_STATUS_TS \<equiv> 0x00200000"
abbreviation (input) CP0_STATUS_BEV :: u32 where "CP0_STATUS_BEV \<equiv> 0x00400000"
abbreviation (input) CP0_STATUS_FR :: u32 where "CP0_STATUS_FR \<equiv> 0x04000000"
abbreviation (input) CP0_STATUS_CU1 :: u32 where "CP0_STATUS_CU1 \<equiv> 0x20000000"
abbreviation (input) CP0_STATUS_CU2 :: u32 where "CP0_STATUS_CU2 \<equiv> 0x40000000"
abbreviation (input) CP0_CAUSE_EXCCODE_TLBL :: u32 where "CP0_CAUSE_EXCCODE_TLBL \<equiv> 0x00000008"
abbreviation (input) CP0_CAUSE_EXCCODE_TLBS :: u32 where "CP0_CAUSE_EXCCODE_TLBS \<equiv> 0x0000000C"
abbreviation (input) CP0_CAUSE_EXCCODE_CPU :: u32 where "CP0_CAUSE_EXCCODE_CPU \<equiv> 0x0000002C"
abbreviation (input) CP0_CAUSE_EXCCODE_MASK :: u32 where "CP0_CAUSE_EXCCODE_MASK \<equiv> 0x0000007C"
abbreviation (input) CP0_CAUSE_IP0 :: u32 where "CP0_CAUSE_IP0 \<equiv> 0x00000100"
abbreviation (input) CP0_CAUSE_IP1 :: u32 where "CP0_CAUSE_IP1 \<equiv> 0x00000200"
abbreviation (input) CP0_CAUSE_IP2 :: u32 where "CP0_CAUSE_IP2 \<equiv> 0x00000400"
abbreviation (input) CP0_CAUSE_IP3 :: u32 where "CP0_CAUSE_IP3 \<equiv> 0x00000800"
abbreviation (input) CP0_CAUSE_IP4 :: u32 where "CP0_CAUSE_IP4 \<equiv> 0x00001000"
abbreviation (input) CP0_CAUSE_IP7 :: u32 where "CP0_CAUSE_IP7 \<equiv> 0x00008000"
abbreviation (input) CP0_CAUSE_CE1 :: u32 where "CP0_CAUSE_CE1 \<equiv> 0x10000000"
abbreviation (input) CP0_CAUSE_CE2 :: u32 where "CP0_CAUSE_CE2 \<equiv> 0x20000000"
abbreviation (input) CP0_CAUSE_BD :: u32 where "CP0_CAUSE_BD \<equiv> 0x80000000"

abbreviation (input) VI_INT :: u32 where "VI_INT \<equiv> 0x0001"
abbreviation (input) COMPARE_INT :: u32 where "COMPARE_INT \<equiv> 0x0002"
abbreviation (input) CHECK_INT :: u32 where "CHECK_INT \<equiv> 0x0004"
abbreviation (input) SI_INT :: u32 where "SI_INT \<equiv> 0x0008"
abbreviation (input) PI_INT :: u32 where "PI_INT \<equiv> 0x0010"
abbreviation (input) SPECIAL_INT :: u32 where "SPECIAL_INT \<equiv> 0x0020"
abbreviation (input) AI_INT :: u32 where "AI_INT \<equiv> 0x0040"
abbreviation (input) SP_INT :: u32 where "SP_INT \<equiv> 0x0080"
abbreviation (input) DP_INT :: u32 where "DP_INT \<equiv> 0x0100"
abbreviation (input) HW2_INT :: u32 where "HW2_INT \<equiv> 0x0200"
abbreviation (input) NMI_INT :: u32 where "NMI_INT \<equiv> 0x0400"
abbreviation (input) RSP_DMA_EVT :: u32 where "RSP_DMA_EVT \<equiv> 0x0800"
abbreviation (input) DD_MC_INT :: u32 where "DD_MC_INT \<equiv> 0x1000"
abbreviation (input) DD_BM_INT :: u32 where "DD_BM_INT \<equiv> 0x2000"
abbreviation (input) DD_DV_INT :: u32 where "DD_DV_INT \<equiv> 0x4000"

abbreviation (input) INTR_UNSAFE_R4300 :: u32 where "INTR_UNSAFE_R4300 \<equiv> 0x01"
abbreviation (input) INTR_UNSAFE_RSP :: u32 where "INTR_UNSAFE_RSP \<equiv> 0x02"

section \<open>State\<close>

record cp0 = host +
  cp0_regs :: regfile
  cp0_latch :: u64
  interrupt_unsafe_state :: u32
  cp0_q :: interrupt_queue
  next_interrupt :: u32
  cycle_count :: u32
  last_addr :: u32
  count_per_op :: u32
  count_per_op_denom_pot :: u32
  cp0_tlb :: tlb

record r4300_core = cp0 +
  gpr :: "nat \<Rightarrow> u64"
  mult_hi :: u64
  mult_lo :: u64
  llbit :: u32
  pc_addr :: u32
  delay_slot :: u32
  skip_jump :: u32
  stop :: u32
  reset_hard_job :: bool
  randomize_interrupt :: bool
  start_address :: u32
  cp1 :: cp1
  cp2_latch :: u64

abbreviation count_reg :: "'a cp0_scheme \<Rightarrow> u32" where
  "count_reg s \<equiv> cp0_regs s CP0_COUNT_REG"

definition set_cp0 :: "nat \<Rightarrow> u32 \<Rightarrow> 'a cp0_scheme \<Rightarrow> 'a cp0_scheme" where
  "set_cp0 r v s = s\<lparr>cp0_regs := (cp0_regs s)(r := v)\<rparr>"

definition head_count :: "interrupt_queue \<Rightarrow> u32 option" where
  "head_count q = map_option (\<lambda>i. ev_count (data (node_at q i))) (first q)"

section \<open>Interrupt events\<close>

definition before_event :: "'a cp0_scheme \<Rightarrow> u32 \<Rightarrow> u32 \<Rightarrow> bool" where
  "before_event s evt1 evt2 =
     (let count = (if 0 < sint (cycle_count s) then count_reg s - cycle_count s else count_reg s) in
      evt1 - count < evt2 - count)"

definition add_interrupt_event_count :: "u32 \<Rightarrow> u32 \<Rightarrow> 'a cp0_scheme \<Rightarrow> 'a cp0_scheme" where
  "add_interrupt_event_count type count s =
     (if get_event (cp0_q s) type = None then set_fault s
      else case insert_node (before_event s count) type count (cp0_q s) of
        None \<Rightarrow> set_fault s
      | Some None \<Rightarrow> s
      | Some (Some q') \<Rightarrow>
          (case head_count q' of None \<Rightarrow> set_fault s
           | Some c \<Rightarrow> s\<lparr>cp0_q := q', next_interrupt := c, cycle_count := count_reg s - c\<rparr>))"

definition add_interrupt_event :: "u32 \<Rightarrow> u32 \<Rightarrow> 'a cp0_scheme \<Rightarrow> 'a cp0_scheme" where
  "add_interrupt_event type delay s = add_interrupt_event_count type (count_reg s + delay) s"

definition remove_interrupt_event :: "'a cp0_scheme \<Rightarrow> 'a cp0_scheme" where
  "remove_interrupt_event s =
     (case pop_node (cp0_q s) of None \<Rightarrow> set_fault s
      | Some q' \<Rightarrow>
          (case head_count q' of
             None \<Rightarrow> s\<lparr>cp0_q := q', next_interrupt := 0, cycle_count := 0\<rparr>
           | Some c \<Rightarrow> s\<lparr>cp0_q := q', next_interrupt := c, cycle_count := count_reg s - c\<rparr>))"

definition remove_event_s :: "u32 \<Rightarrow> 'a cp0_scheme \<Rightarrow> 'a cp0_scheme" where
  "remove_event_s type s =
     (case remove_event (cp0_q s) type of None \<Rightarrow> set_fault s | Some q' \<Rightarrow> s\<lparr>cp0_q := q'\<rparr>)"

text \<open>\<^verbatim>\<open>((count & 0x80000000) ^ 0x80000000)\<close>: the next multiple of $2^{31}$.\<close>

definition special_count :: "u32 \<Rightarrow> u32" where
  "special_count count = (count AND 0x80000000) XOR 0x80000000"

text \<open>
  The sequence around \<^verbatim>\<open>COMPARE_INT\<close> that three callers share: the count is advanced by
  \<^verbatim>\<open>count_per_op\<close> while the event is inserted.
\<close>

definition resync_cycle_count :: "'a cp0_scheme \<Rightarrow> 'a cp0_scheme" where
  "resync_cycle_count s =
     (case head_count (cp0_q s) of None \<Rightarrow> set_fault s
      | Some c \<Rightarrow> s\<lparr>cycle_count := count_reg s - c\<rparr>)"

definition add_compare_event :: "u32 \<Rightarrow> 'a cp0_scheme \<Rightarrow> 'a cp0_scheme" where
  "add_compare_event compare s =
     (let s1 = set_cp0 CP0_COUNT_REG (count_reg s + count_per_op s) s;
          s2 = s1\<lparr>cycle_count := cycle_count s1 + count_per_op s1\<rparr>;
          s3 = add_interrupt_event_count COMPARE_INT compare s2;
          s4 = set_cp0 CP0_COUNT_REG (count_reg s3 - count_per_op s3) s3
      in resync_cycle_count s4)"

definition translate_event_queue :: "u32 \<Rightarrow> 'a cp0_scheme \<Rightarrow> 'a cp0_scheme" where
  "translate_event_queue base s =
     (let s1 = remove_event_s COMPARE_INT s;
          s2 = remove_event_s SPECIAL_INT s1;
          s3 = (case map_counts (\<lambda>c. (c - count_reg s2) + base) (cp0_q s2) of
                  None \<Rightarrow> set_fault s2 | Some q' \<Rightarrow> s2\<lparr>cp0_q := q'\<rparr>);
          s4 = set_cp0 CP0_COUNT_REG base s3;
          s5 = add_interrupt_event_count SPECIAL_INT (special_count (count_reg s4)) s4
      in add_compare_event (cp0_regs s5 CP0_COMPARE_REG) s5)"

text \<open>The queue as the words that \<^verbatim>\<open>save_eventqueue_infos\<close> writes, and reading them back.\<close>

definition save_eventqueue_infos :: "'a cp0_scheme \<Rightarrow> u32 list option" where
  "save_eventqueue_infos s =
     map_option
       (\<lambda>is. concat (map (\<lambda>i. [ev_type (data (node_at (cp0_q s) i)), ev_count (data (node_at (cp0_q s) i))]) is) @ [0xFFFFFFFF])
       (walk INTERRUPT_NODES_POOL_CAPACITY (cp0_q s) (first (cp0_q s)))"

text \<open>Reading past the end of the buffer is a fault.\<close>

fun load_events :: "u32 list \<Rightarrow> 'a cp0_scheme \<Rightarrow> 'a cp0_scheme" where
  "load_events [] s = set_fault s"
| "load_events [w] s = (if w = 0xFFFFFFFF then s else set_fault s)"
| "load_events (w # c # ws) s =
     (if w = 0xFFFFFFFF then s else load_events ws (add_interrupt_event_count w c s))"

definition load_eventqueue_infos :: "u32 list \<Rightarrow> 'a cp0_scheme \<Rightarrow> 'a cp0_scheme" where
  "load_eventqueue_infos buf s =
     (let s1 = load_events buf (s\<lparr>cp0_q := clear_queue (cp0_q s)\<rparr>);
          s2 = remove_event_s SPECIAL_INT s1
      in add_interrupt_event_count SPECIAL_INT (special_count (count_reg s2)) s2)"

definition init_interrupt :: "'a cp0_scheme \<Rightarrow> 'a cp0_scheme" where
  "init_interrupt s =
     add_interrupt_event_count COMPARE_INT 0
       (add_interrupt_event_count SPECIAL_INT 0x80000000 (s\<lparr>cp0_q := clear_queue (cp0_q s)\<rparr>))"

section \<open>The count register and exceptions\<close>

definition init_cp0 :: "u32 \<Rightarrow> u32 \<Rightarrow> 'a cp0_scheme \<Rightarrow> 'a cp0_scheme" where
  "init_cp0 cpo denom_pot s = s\<lparr>count_per_op := cpo, count_per_op_denom_pot := denom_pot\<rparr>"

definition poweron_cp0 :: "'a cp0_scheme \<Rightarrow> 'a cp0_scheme" where
  "poweron_cp0 s =
     (let regs = (\<lambda>_. 0 :: u32)
            (CP0_RANDOM_REG := 31, CP0_STATUS_REG := 0x34000000, CP0_CONFIG_REG := 0x6e463,
             CP0_PREVID_REG := 0xb10, CP0_COUNT_REG := 0x5000, CP0_CAUSE_REG := 0x5c,
             CP0_CONTEXT_REG := 0x7ffff0, CP0_EPC_REG := 0xffffffff,
             CP0_BADVADDR_REG := 0xffffffff, CP0_ERROREPC_REG := 0xffffffff);
          s1 = s\<lparr>cp0_regs := regs, interrupt_unsafe_state := 0, next_interrupt := 0,
                 cycle_count := 0, last_addr := 0xbfc00000\<rparr>;
          s2 = init_interrupt s1
      in s2\<lparr>cp0_tlb := poweron_tlb (cp0_tlb s2)\<rparr>)"

definition generic_jump_to :: "u32 \<Rightarrow> 'a r4300_core_scheme \<Rightarrow> 'a r4300_core_scheme" where
  "generic_jump_to address s = s\<lparr>pc_addr := address\<rparr>"

definition cp0_update_count :: "'a r4300_core_scheme \<Rightarrow> 'a r4300_core_scheme" where
  "cp0_update_count s =
     (let count = drop_bit 2 (pc_addr s - last_addr s) * count_per_op s;
          d = unat (count_per_op_denom_pot s);
          count = (if count_per_op_denom_pot s \<noteq> 0 then drop_bit d (count + (push_bit d 1 - 1)) else count)
      in s\<lparr>cp0_regs := (cp0_regs s)(CP0_COUNT_REG := count_reg s + count),
           cycle_count := cycle_count s + count, last_addr := pc_addr s\<rparr>)"

definition exception_epilog :: "'a r4300_core_scheme \<Rightarrow> 'a r4300_core_scheme" where
  "exception_epilog s =
     (if delay_slot s \<noteq> 0 then s\<lparr>skip_jump := pc_addr s, next_interrupt := 0, cycle_count := 0\<rparr> else s)"

definition in_delay_slot :: "'a r4300_core_scheme \<Rightarrow> bool" where
  "in_delay_slot s \<longleftrightarrow> delay_slot s = 1 \<or> delay_slot s = 3"

definition exception_general :: "'a r4300_core_scheme \<Rightarrow> 'a r4300_core_scheme" where
  "exception_general s0 =
     (let s = cp0_update_count s0;
          s = set_cp0 CP0_STATUS_REG (cp0_regs s CP0_STATUS_REG OR CP0_STATUS_EXL) s;
          s = set_cp0 CP0_EPC_REG (pc_addr s) s;
          s = (if in_delay_slot s
               then set_cp0 CP0_EPC_REG (cp0_regs s CP0_EPC_REG - 4)
                      (set_cp0 CP0_CAUSE_REG (cp0_regs s CP0_CAUSE_REG OR CP0_CAUSE_BD) s)
               else set_cp0 CP0_CAUSE_REG (cp0_regs s CP0_CAUSE_REG AND NOT CP0_CAUSE_BD) s);
          s = generic_jump_to 0x80000180 s;
          s = s\<lparr>last_addr := pc_addr s\<rparr>
      in exception_epilog s)"

definition refill_usual_handler :: "u32 \<Rightarrow> tlb \<Rightarrow> bool" where
  "refill_usual_handler address t \<longleftrightarrow>
     address \<ge> 0x80000000 \<and> address < 0xc0000000 \<or>
     (\<exists>e \<in> set (take 32 (entries t)).
        address \<ge> start_even e \<and> address \<le> end_even e \<or> address \<ge> start_odd e \<and> address \<le> end_odd e)"

definition TLB_refill_exception :: "u32 \<Rightarrow> nat \<Rightarrow> 'a r4300_core_scheme \<Rightarrow> 'a r4300_core_scheme" where
  "TLB_refill_exception address w s0 =
     (let s = (if w \<noteq> 2 then cp0_update_count s0 else s0);
          s = set_cp0 CP0_CAUSE_REG (if w = 1 then CP0_CAUSE_EXCCODE_TLBS else CP0_CAUSE_EXCCODE_TLBL) s;
          s = set_cp0 CP0_BADVADDR_REG address s;
          s = set_cp0 CP0_CONTEXT_REG ((cp0_regs s CP0_CONTEXT_REG AND 0xFF80000F)
                OR (drop_bit 9 address AND 0x007FFFF0)) s;
          s = set_cp0 CP0_ENTRYHI_REG (address AND 0xFFFFE000) s;
          s = (if cp0_regs s CP0_STATUS_REG AND CP0_STATUS_EXL \<noteq> 0
               then let s = generic_jump_to 0x80000180 s in
                    if in_delay_slot s
                    then set_cp0 CP0_CAUSE_REG (cp0_regs s CP0_CAUSE_REG OR CP0_CAUSE_BD) s
                    else set_cp0 CP0_CAUSE_REG (cp0_regs s CP0_CAUSE_REG AND NOT CP0_CAUSE_BD) s
               else let s = set_cp0 CP0_EPC_REG (pc_addr s) s;
                        s = set_cp0 CP0_CAUSE_REG (cp0_regs s CP0_CAUSE_REG AND NOT CP0_CAUSE_BD) s;
                        s = set_cp0 CP0_STATUS_REG (cp0_regs s CP0_STATUS_REG OR CP0_STATUS_EXL) s
                    in generic_jump_to
                         (if refill_usual_handler address (cp0_tlb s) then 0x80000180 else 0x80000000) s);
          s = (if in_delay_slot s
               then set_cp0 CP0_EPC_REG (cp0_regs s CP0_EPC_REG - 4)
                      (set_cp0 CP0_CAUSE_REG (cp0_regs s CP0_CAUSE_REG OR CP0_CAUSE_BD) s)
               else set_cp0 CP0_CAUSE_REG (cp0_regs s CP0_CAUSE_REG AND NOT CP0_CAUSE_BD) s);
          s = (if w \<noteq> 2 then set_cp0 CP0_EPC_REG (cp0_regs s CP0_EPC_REG - 4) s else s);
          s = s\<lparr>last_addr := pc_addr s\<rparr>
      in exception_epilog s)"

definition virtual_to_physical_address ::
    "u32 \<Rightarrow> nat \<Rightarrow> 'a r4300_core_scheme \<Rightarrow> u32 \<times> 'a r4300_core_scheme" where
  "virtual_to_physical_address address w s =
     (case lut_translate (cp0_tlb s) address w of
        Some p \<Rightarrow> (p, s)
      | None \<Rightarrow> (0, TLB_refill_exception address w s))"

definition check_cop1_unusable :: "'a r4300_core_scheme \<Rightarrow> bool \<times> 'a r4300_core_scheme" where
  "check_cop1_unusable s =
     (if cp0_regs s CP0_STATUS_REG AND CP0_STATUS_CU1 = 0
      then (True, exception_general (set_cp0 CP0_CAUSE_REG (CP0_CAUSE_EXCCODE_CPU OR CP0_CAUSE_CE1) s))
      else (False, s))"

definition check_cop2_unusable :: "'a r4300_core_scheme \<Rightarrow> bool \<times> 'a r4300_core_scheme" where
  "check_cop2_unusable s =
     (if cp0_regs s CP0_STATUS_REG AND CP0_STATUS_CU2 = 0
      then (True, exception_general (set_cp0 CP0_CAUSE_REG (CP0_CAUSE_EXCCODE_CPU OR CP0_CAUSE_CE2) s))
      else (False, s))"

definition add_random_interrupt_time :: "'a r4300_core_scheme \<Rightarrow> u32 \<times> 'a r4300_core_scheme" where
  "add_random_interrupt_time s =
     (if randomize_interrupt s
      then let (value, s') = host_rand s in (value mod 0x40, s')
      else (0, s))"

definition poweron_r4300 :: "'a r4300_core_scheme \<Rightarrow> 'a r4300_core_scheme" where
  "poweron_r4300 s0 =
     (let s = poweron_cp0 (s0\<lparr>gpr := (\<lambda>_. 0), mult_hi := 0, mult_lo := 0, llbit := 0,
                delay_slot := 0, skip_jump := 0, reset_hard_job := False\<rparr>);
          s = s\<lparr>cp1 := poweron_cp1 (cp1 s)\<rparr>
      in s\<lparr>cp2_latch := 0\<rparr>)"

section \<open>Raising interrupts\<close>

definition interrupts_enabled :: "'a cp0_scheme \<Rightarrow> bool" where
  "interrupts_enabled s \<longleftrightarrow>
     cp0_regs s CP0_STATUS_REG AND (CP0_STATUS_IE OR CP0_STATUS_EXL OR CP0_STATUS_ERL) = CP0_STATUS_IE"

definition r4300_check_interrupt :: "u32 \<Rightarrow> bool \<Rightarrow> 'a cp0_scheme \<Rightarrow> 'a cp0_scheme" where
  "r4300_check_interrupt cause_ip set_cause s0 =
     (let s = (if set_cause
               then set_cp0 CP0_CAUSE_REG ((cp0_regs s0 CP0_CAUSE_REG OR cause_ip) AND NOT CP0_CAUSE_EXCCODE_MASK) s0
               else set_cp0 CP0_CAUSE_REG (cp0_regs s0 CP0_CAUSE_REG AND NOT cause_ip) s0) in
      if \<not> interrupts_enabled s then s
      else if cp0_regs s CP0_STATUS_REG AND cp0_regs s CP0_CAUSE_REG AND 0xFF00 \<noteq> 0
      then case push_node CHECK_INT (count_reg s) (cp0_q s) of
             None \<Rightarrow> s
           | Some q' \<Rightarrow> s\<lparr>cp0_q := q', next_interrupt := count_reg s, cycle_count := 0\<rparr>
      else s)"

definition raise_maskable_interrupt :: "u32 \<Rightarrow> 'a r4300_core_scheme \<Rightarrow> 'a r4300_core_scheme" where
  "raise_maskable_interrupt cause_ip s0 =
     (let s = set_cp0 CP0_CAUSE_REG ((cp0_regs s0 CP0_CAUSE_REG OR cause_ip) AND NOT CP0_CAUSE_EXCCODE_MASK) s0 in
      if cp0_regs s CP0_STATUS_REG AND cp0_regs s CP0_CAUSE_REG AND 0xff00 = 0 then s
      else if \<not> interrupts_enabled s then s
      else exception_general s)"

definition compare_int_handler :: "'a r4300_core_scheme \<Rightarrow> 'a r4300_core_scheme" where
  "compare_int_handler s =
     raise_maskable_interrupt CP0_CAUSE_IP7 (add_compare_event (cp0_regs s CP0_COMPARE_REG) s)"

definition check_int_handler :: "'a r4300_core_scheme \<Rightarrow> 'a r4300_core_scheme" where
  "check_int_handler s = exception_general s"

definition special_int_handler :: "'a cp0_scheme \<Rightarrow> 'a cp0_scheme" where
  "special_int_handler s =
     (let s1 = remove_interrupt_event s
      in add_interrupt_event_count SPECIAL_INT (special_count (count_reg s1)) s1)"

end
