(* ===== verification/Events.thy ===== *)
theory Events
  imports Cp0
begin

text \<open>
  Correctness of the interrupt-event operations of \<^verbatim>\<open>src/src/device/r4300/interrupt.c\<close> on the CP0
  state: each acts on the list of pending events as the abstract operation of the queue
  interface, the events stay in the order in which they are due across the wrap-around of the
  32-bit count register, and \<^verbatim>\<open>next_interrupt\<close> / \<^verbatim>\<open>cycle_count\<close> describe the first event.
\<close>

section \<open>The state seen as a list of events\<close>

abbreviation pending :: "'a cp0_scheme \<Rightarrow> (u32 \<times> u32) list" where
  "pending s \<equiv> q_events (cp0_q s)"

definition event_base :: "'a cp0_scheme \<Rightarrow> u32" where
  "event_base s = (if 0 < sint (cycle_count s) then count_reg s - cycle_count s else count_reg s)"

definition in_sync :: "'a cp0_scheme \<Rightarrow> bool" where
  "in_sync s \<longleftrightarrow> (case pending s of [] \<Rightarrow> True
     | e # _ \<Rightarrow> next_interrupt s = snd e \<and> cycle_count s = count_reg s - snd e)"

lemma before_event_at: "before_event s c = before_at (event_base s) c"
  by (simp add: before_event_def event_base_def before_at_def fun_eq_iff Let_def)

lemma head_count_pending: "wf_queue q \<Longrightarrow>
    head_count q = (case q_events q of [] \<Rightarrow> None | e # _ \<Rightarrow> Some (snd e))"
proof (cases "first q")
  case None
  then show "wf_queue q \<Longrightarrow> ?thesis" using first_event(1) [of q] by (simp add: head_count_def)
next
  case (Some i)
  moreover assume w: "wf_queue q"
  ultimately have "q_events q \<noteq> []" "event_at q i = hd (q_events q)" using first_event [OF w] by auto
  then show ?thesis using Some by (cases "q_events q") (auto simp: head_count_def)
qed

lemma set_cp0_simps [simp]:
  "cp0_regs (set_cp0 r v s) = (cp0_regs s)(r := v)"
  "cp0_q (set_cp0 r v s) = cp0_q s" "next_interrupt (set_cp0 r v s) = next_interrupt s"
  "cycle_count (set_cp0 r v s) = cycle_count s" "fault (set_cp0 r v s) = fault s"
  "count_per_op (set_cp0 r v s) = count_per_op s" "last_addr (set_cp0 r v s) = last_addr s"
  "cp0_tlb (set_cp0 r v s) = cp0_tlb s" "ext_log (set_cp0 r v s) = ext_log s"
  "interrupt_unsafe_state (set_cp0 r v s) = interrupt_unsafe_state s"
  by (simp_all add: set_cp0_def)

lemma set_fault_cp0 [simp]:
  "cp0_regs (set_fault s) = cp0_regs s" "cp0_q (set_fault s) = cp0_q s"
  "next_interrupt (set_fault s) = next_interrupt s" "cycle_count (set_fault s) = cycle_count s"
  "count_per_op (set_fault s) = count_per_op s" "last_addr (set_fault s) = last_addr s"
  "cp0_tlb (set_fault s) = cp0_tlb s" "interrupt_unsafe_state (set_fault s) = interrupt_unsafe_state s"
  by (simp_all add: set_fault_def)

section \<open>Effect of the operations\<close>

text \<open>The state after writing back a queue and the caches of its first event.\<close>

definition with_queue :: "interrupt_queue \<Rightarrow> 'a cp0_scheme \<Rightarrow> 'a cp0_scheme" where
  "with_queue q s = (case q_events q of
      [] \<Rightarrow> s\<lparr>cp0_q := q, next_interrupt := 0, cycle_count := 0\<rparr>
    | e # _ \<Rightarrow> s\<lparr>cp0_q := q, next_interrupt := snd e, cycle_count := count_reg s - snd e\<rparr>)"

lemma with_queue_simps [simp]:
  "cp0_q (with_queue q s) = q" "cp0_regs (with_queue q s) = cp0_regs s"
  "fault (with_queue q s) = fault s" "count_per_op (with_queue q s) = count_per_op s"
  "cp0_tlb (with_queue q s) = cp0_tlb s" "last_addr (with_queue q s) = last_addr s"
  by (simp_all add: with_queue_def split: list.split)

lemma with_queue_sync [simp]: "in_sync (with_queue q s)"
  by (simp add: with_queue_def in_sync_def split: list.split)

lemma with_queue_cycle_count:
  "q_events q = e # es \<Longrightarrow> cycle_count (with_queue q s) = count_reg s - snd e"
  by (simp add: with_queue_def)

lemma add_event_effect:
  assumes "wf_queue (cp0_q s)" "length (pending s) < 16"
  obtains q' where "wf_queue q'" "q_events q' = ins_event (before_at (event_base s) c) (t, c) (pending s)"
    "add_interrupt_event_count t c s = with_queue q' s"
proof -
  obtain q' where q': "insert_node (before_event s c) t c (cp0_q s) = Some (Some q')" "wf_queue q'"
    "q_events q' = ins_event (before_event s c) (t, c) (pending s)"
    using iq.insert_room [OF assms(1), of "before_event s c" c t] assms(2)
    by (auto simp: before_event_at INTERRUPT_NODES_POOL_CAPACITY_def)
  have "q_events q' \<noteq> []" using q'(3) by simp
  then have "add_interrupt_event_count t c s = with_queue q' s"
    using q'(1,2) by (simp add: add_interrupt_event_count_def iq.lookup_law [OF assms(1)]
        head_count_pending with_queue_def split: list.split)
  then show ?thesis using q' that by (simp add: before_event_at)
qed

lemma add_event_full:
  "wf_queue (cp0_q s) \<Longrightarrow> length (pending s) = 16 \<Longrightarrow> add_interrupt_event_count t c s = s"
  by (simp add: add_interrupt_event_count_def iq.lookup_law iq.insert_full INTERRUPT_NODES_POOL_CAPACITY_def)

lemma remove_first_effect:
  assumes "wf_queue (cp0_q s)" "pending s \<noteq> []"
  obtains q' where "wf_queue q'" "q_events q' = tl (pending s)" "remove_interrupt_event s = with_queue q' s"
proof -
  obtain q' where q': "pop_node (cp0_q s) = Some q'" "wf_queue q'" "q_events q' = tl (pending s)"
    using iq.pop_some [OF assms] by auto
  then have "remove_interrupt_event s = with_queue q' s"
    by (simp add: remove_interrupt_event_def head_count_pending with_queue_def split: list.split)
  then show ?thesis using q' that by blast
qed

lemma remove_event_effect:
  assumes "wf_queue (cp0_q s)"
  obtains q' where "wf_queue q'" "q_events q' = del_event t (pending s)" "remove_event_s t s = s\<lparr>cp0_q := q'\<rparr>"
  using iq.remove_law [OF assms, of t] that by (auto simp: remove_event_s_def)

text \<open>Queue operations touch no register; this needs no invariant.\<close>

lemma event_ops_regs [simp]:
  "cp0_regs (add_interrupt_event_count t c s) = cp0_regs s"
  "cp0_regs (add_interrupt_event t d s) = cp0_regs s"
  "cp0_regs (remove_interrupt_event s) = cp0_regs s"
  "cp0_regs (remove_event_s t s) = cp0_regs s"
  "cp0_regs (resync_cycle_count s) = cp0_regs s"
  "count_per_op (add_interrupt_event_count t c s) = count_per_op s"
  "count_per_op (remove_event_s t s) = count_per_op s"
  "last_addr (add_interrupt_event_count t c s) = last_addr s"
  "cp0_tlb (add_interrupt_event_count t c s) = cp0_tlb s"
  by (simp_all add: add_interrupt_event_count_def add_interrupt_event_def remove_interrupt_event_def
      remove_event_s_def resync_cycle_count_def split: option.split)

section \<open>Due order across the wrap-around\<close>

lemma rebase_first:
  assumes o: "in_order (c - (if 0 < sint cc then cc else 0)) (e # es)"
  shows "in_order (c - (if 0 < sint (c - snd e) then c - snd e else 0)) (e # es)"
proof (cases "0 < sint (c - snd e)")
  case True
  then show ?thesis using in_order_first [OF o] by simp
next
  case late: False
  show ?thesis
  proof (cases "0 < sint cc")
    case True
    let ?x = "snd e - c"
    have "unat (- ?x) = 0 \<or> \<not> unat (- ?x) < 2 ^ 31" using late by (auto simp: sint_pos_iff)
    then have x: "unat ?x \<le> 2 ^ 31"
      using unsigned_less [of ?x, where ?'a = nat] unat_uminus [of ?x] by (auto split: if_splits)
    have "unat cc < 2 ^ 31" using True by (simp add: sint_pos_iff)
    then have "unat (?x + cc) = unat ?x + unat cc" using x by (intro unat_add_small) simp
    then have "cc \<le> ?x + cc" by (simp add: word_le_nat_alt)
    then have "cc \<le> snd e - (c - cc)" by (simp add: algebra_simps)
    then have "in_order ((c - cc) + cc) (e # es)"
      using in_order_rebase [of "c - cc" "e # es" cc] o True by auto
    then show ?thesis using late by simp
  qed (use o late in simp)
qed

text \<open>The invariant that the queue operations keep.\<close>

definition queue_ok :: "'a cp0_scheme \<Rightarrow> bool" where
  "queue_ok s \<longleftrightarrow> wf_queue (cp0_q s) \<and> in_order (event_base s) (pending s)"

lemma with_queue_ok:
  assumes "wf_queue q'" "in_order (event_base s) (q_events q')"
  shows "queue_ok (with_queue q' s)"
proof (cases "q_events q'")
  case Nil
  then show ?thesis using assms by (simp add: queue_ok_def)
next
  case (Cons e es)
  let ?cc = "count_reg s - snd e"
  have "in_order (count_reg s - (if 0 < sint (cycle_count s) then cycle_count s else 0)) (e # es)"
    using assms(2) Cons by (simp add: event_base_def split: if_splits)
  note rebase_first [OF this]
  moreover have "event_base (with_queue q' s) = count_reg s - (if 0 < sint ?cc then ?cc else 0)"
    using with_queue_cycle_count [OF Cons, of s] by (simp add: event_base_def)
  ultimately show ?thesis using assms Cons by (simp add: queue_ok_def)
qed

lemma add_event_ok:
  assumes "queue_ok s" "length (pending s) < 16"
  shows "queue_ok (add_interrupt_event_count t c s)" and "in_sync (add_interrupt_event_count t c s)"
    and "pending (add_interrupt_event_count t c s) = ins_event (before_at (event_base s) c) (t, c) (pending s)"
    and "fault (add_interrupt_event_count t c s) = fault s"
proof -
  obtain q' where q': "wf_queue q'" "q_events q' = ins_event (before_at (event_base s) c) (t, c) (pending s)"
    "add_interrupt_event_count t c s = with_queue q' s"
    using add_event_effect [of s c t] assms by (auto simp: queue_ok_def)
  then show "queue_ok (add_interrupt_event_count t c s)"
    using assms(1) with_queue_ok [of q' s] ins_event_in_order by (simp add: queue_ok_def)
  show "in_sync (add_interrupt_event_count t c s)"
    "pending (add_interrupt_event_count t c s) = ins_event (before_at (event_base s) c) (t, c) (pending s)"
    "fault (add_interrupt_event_count t c s) = fault s"
    using q' by simp_all
qed

lemma remove_first_ok:
  assumes "queue_ok s" "pending s \<noteq> []"
  shows "queue_ok (remove_interrupt_event s)" and "in_sync (remove_interrupt_event s)"
    and "pending (remove_interrupt_event s) = tl (pending s)"
    and "fault (remove_interrupt_event s) = fault s"
proof -
  obtain q' where q': "wf_queue q'" "q_events q' = tl (pending s)"
    "remove_interrupt_event s = with_queue q' s"
    using remove_first_effect [of s] assms by (auto simp: queue_ok_def)
  have "in_order (event_base s) (tl (pending s))"
    using assms by (cases "pending s") (simp_all add: queue_ok_def in_order_Cons)
  then show "queue_ok (remove_interrupt_event s)"
    using q' with_queue_ok [of q' s] by simp
  show "in_sync (remove_interrupt_event s)" "pending (remove_interrupt_event s) = tl (pending s)"
    "fault (remove_interrupt_event s) = fault s"
    using q' by simp_all
qed

section \<open>Time passing\<close>

text \<open>What \<^verbatim>\<open>cp0_update_count\<close> does to the count register and the cycle counter.\<close>

definition advance :: "u32 \<Rightarrow> 'a cp0_scheme \<Rightarrow> 'a cp0_scheme" where
  "advance d s = s\<lparr>cp0_regs := (cp0_regs s)(CP0_COUNT_REG := count_reg s + d), cycle_count := cycle_count s + d\<rparr>"

lemma advance_simps [simp]:
  "cp0_q (advance d s) = cp0_q s" "count_reg (advance d s) = count_reg s + d"
  "cycle_count (advance d s) = cycle_count s + d" "fault (advance d s) = fault s"
  "next_interrupt (advance d s) = next_interrupt s"
  by (simp_all add: advance_def)

lemma not_due_distance:
  assumes "\<not> 0 < sint (- y :: u32)"
  shows "unat y \<le> 2 ^ 31" and "sint (- y) = - int (unat y)"
proof -
  have "unat (- y) = 0 \<or> \<not> unat (- y) < 2 ^ 31" using assms by (auto simp: sint_pos_iff)
  then show y: "unat y \<le> 2 ^ 31"
    using unsigned_less [of y, where ?'a = nat] unat_uminus [of y] by (auto split: if_splits)
  obtain n where n: "n = unat y" by simp
  have "uint (- y) = int (unat (- y))" by simp
  also have "unat (- y) = (if n = 0 then 0 else 2 ^ 32 - n)" by (simp add: unat_uminus n unat_eq_zero)
  finally have "uint (- y) = (if n = 0 then 0 else int (2 ^ 32 - n))" by simp
  then show "sint (- y) = - int (unat y)" using y unfolding sint32 n [symmetric] by (auto simp: of_nat_diff)
qed

lemma advance_not_past:
  assumes "\<not> 0 < sint (- y :: u32)" "\<not> 0 < sint (d - y)" "sint (- y) + int (unat d) < 2 ^ 31"
  shows "d \<le> y"
proof (rule ccontr)
  assume "\<not> d \<le> y"
  then have l: "unat y < unat d" by (simp add: word_le_nat_alt)
  then have "unat (d - y) = unat d - unat y" by (simp add: unat_sub word_le_nat_alt)
  moreover have "int (unat d) < 2147483648 + int (unat y)" using assms(3) not_due_distance [OF assms(1)] by simp
  ultimately have "0 < unat (d - y)" "unat (d - y) < 2147483648" using l by linarith+
  then show False using assms(2) by (simp add: sint_pos_iff)
qed

lemma advance_ok:
  assumes "queue_ok s" "in_sync s" "sint (cycle_count s) + int (unat d) < 2 ^ 31"
  shows "queue_ok (advance d s)" and "in_sync (advance d s)"
proof -
  show "in_sync (advance d s)" using assms(2) by (auto simp: in_sync_def split: list.splits)
  show "queue_ok (advance d s)"
  proof (cases "pending s")
    case Nil
    then show ?thesis using assms(1) by (simp add: queue_ok_def)
  next
    case (Cons e es)
    let ?cc = "cycle_count s" and ?y = "snd e - count_reg s"
    have o: "in_order (event_base s) (e # es)" and cc: "?cc = - ?y"
      using assms(1,2) Cons by (simp_all add: queue_ok_def in_sync_def)
    have "in_order (event_base (advance d s)) (e # es)"
    proof (cases "0 < sint (?cc + d)")
      case True
      then have "event_base (advance d s) = snd e" by (simp add: event_base_def cc)
      then show ?thesis using in_order_first [OF o] by simp
    next
      case late: False
      show ?thesis
      proof (cases "0 < sint ?cc")
        case True
        then have c: "0 < unat ?cc" "unat ?cc < 2 ^ 31" by (simp_all add: sint_pos_iff)
        have "sint ?cc = int (unat ?cc)" using c unfolding sint32 by (simp add: uint_nat del: of_nat_unat)
        then have "int (unat ?cc) + int (unat d) < 2147483648" using assms(3) by simp
        then have "unat ?cc + unat d < 2147483648" by linarith
        then have "0 < sint (?cc + d)" using c unat_add_small [of ?cc d] by (simp add: sint_pos_iff)
        with late show ?thesis by simp
      next
        case False
        have "d \<le> ?y"
          using advance_not_past [of ?y d] late False assms(3) by (simp add: cc algebra_simps)
        then have "in_order (count_reg s + d) (e # es)"
          using in_order_rebase [of "count_reg s" "e # es" d] o False by (auto simp: event_base_def)
        then show ?thesis using late by (simp add: event_base_def)
      qed
    qed
    then show ?thesis using assms(1) Cons by (simp add: queue_ok_def)
  qed
qed

text \<open>\<^verbatim>\<open>cp0_update_count\<close> is such a step, by the cycles since the last update.\<close>

definition elapsed :: "'a r4300_core_scheme \<Rightarrow> u32" where
  "elapsed s =
     (let count = drop_bit 2 (pc_addr s - last_addr s) * count_per_op s;
          d = unat (count_per_op_denom_pot s)
      in if count_per_op_denom_pot s \<noteq> 0 then drop_bit d (count + (push_bit d 1 - 1)) else count)"

lemma cp0_update_count_advance:
  "cp0_update_count s = (advance (elapsed s) s)\<lparr>last_addr := pc_addr s\<rparr>"
  by (simp add: cp0_update_count_def advance_def elapsed_def Let_def)

section \<open>All sequences of queue operations\<close>

inductive event_step :: "'a cp0_scheme \<Rightarrow> 'a cp0_scheme \<Rightarrow> bool" where
  step_add: "event_step s (add_interrupt_event_count t c s)"
| step_pop: "pending s \<noteq> [] \<Longrightarrow> event_step s (remove_interrupt_event s)"
| step_time: "sint (cycle_count s) + int (unat d) < 2 ^ 31 \<Longrightarrow> event_step s (advance d s)"

inductive_cases event_stepE: "event_step s s'"

definition event_inv :: "'a cp0_scheme \<Rightarrow> bool" where
  "event_inv s \<longleftrightarrow> queue_ok s \<and> in_sync s"

lemma event_room: "queue_ok s \<Longrightarrow> length (pending s) < 16 \<or> length (pending s) = 16"
  using iq.within [of "cp0_q s"] by (auto simp: queue_ok_def INTERRUPT_NODES_POOL_CAPACITY_def)

lemma add_event_inv:
  "event_inv s \<Longrightarrow> event_inv (add_interrupt_event_count t c s)"
  "event_inv s \<Longrightarrow> fault (add_interrupt_event_count t c s) = fault s"
  using event_room [of s] add_event_ok [of s t c] add_event_full [of s t c]
  by (auto simp: event_inv_def queue_ok_def)

lemma event_step_inv: "event_step s s' \<Longrightarrow> event_inv s \<Longrightarrow> event_inv s' \<and> fault s' = fault s"
  by (erule event_stepE)
    (simp_all add: add_event_inv, simp_all add: event_inv_def remove_first_ok advance_ok)

lemma init_interrupt_inv:
  assumes "length (nodes (q_pool (cp0_q s))) = 16"
  shows "event_inv (init_interrupt s)" "fault (init_interrupt s) = fault s"
    and "set (pending (init_interrupt s)) = {(SPECIAL_INT, 0x80000000), (COMPARE_INT, 0)}"
proof -
  let ?s = "s\<lparr>cp0_q := clear_queue (cp0_q s)\<rparr>"
  have 0: "queue_ok ?s" "pending ?s = []"
    using clear_queue_wf [OF assms] by (simp_all add: queue_ok_def)
  note 1 = add_event_ok [OF 0(1), of SPECIAL_INT "0x80000000", simplified 0(2), simplified]
  note 2 = add_event_ok [OF 1(1), of COMPARE_INT 0, simplified 1(3), simplified]
  show "event_inv (init_interrupt s)" "fault (init_interrupt s) = fault s"
    "set (pending (init_interrupt s)) = {(SPECIAL_INT, 0x80000000), (COMPARE_INT, 0)}"
    using 1 2 by (auto simp: init_interrupt_def event_inv_def)
qed

lemma event_steps_inv:
  "event_step\<^sup>*\<^sup>* s s' \<Longrightarrow> event_inv s \<Longrightarrow> event_inv s' \<and> fault s' = fault s"
  by (induction rule: rtranclp_induct) (auto dest: event_step_inv)

section \<open>Saving and loading the queue\<close>

lemma save_eventqueue_words:
  "wf_queue (cp0_q s) \<Longrightarrow>
   save_eventqueue_infos s = Some (concat (map (\<lambda>e. [fst e, snd e]) (pending s)) @ [0xFFFFFFFF])"
  by (auto simp: wf_queue_iff save_eventqueue_infos_def q_events_ids comp_def
      queue_ids_walk [unfolded q_ids_def])

lemma event_base_same_head:
  assumes "in_sync s" "in_sync s'" "cp0_regs s' = cp0_regs s"
    and "pending s = e # es" "pending s' = e # es'"
  shows "event_base s' = event_base s"
  using assms by (simp add: in_sync_def event_base_def)

lemma load_events_append:
  assumes "event_inv s" "pending s \<noteq> []" "in_order (event_base s) (pending s @ ys)"
    and "length (pending s @ ys) \<le> 16" "0xFFFFFFFF \<notin> fst ` set ys"
  shows "let s' = load_events (concat (map (\<lambda>e. [fst e, snd e]) ys) @ [0xFFFFFFFF]) s in
    event_inv s' \<and> pending s' = pending s @ ys \<and> fault s' = fault s \<and> cp0_regs s' = cp0_regs s"
  using assms
proof (induction ys arbitrary: s)
  case (Cons y ys)
  let ?s = "add_interrupt_event_count (fst y) (snd y) s"
  have room: "length (pending s) < 16" and qs: "queue_ok s" "in_sync s"
    using Cons.prems by (simp_all add: event_inv_def)
  have "in_order (event_base s) (pending s @ [(fst y, snd y)])"
    using Cons.prems(3) by (auto simp: in_order_def sorted_append)
  note app = ins_event_append [OF this]
  note a = add_event_ok [OF qs(1) room, of "fst y" "snd y"]
  have p: "pending ?s = pending s @ [y]" using a(3) app by simp
  obtain e es where e: "pending s = e # es" using Cons.prems(2) by (cases "pending s") auto
  have "event_base ?s = event_base s"
    using event_base_same_head [OF qs(2) a(2)] e p by simp
  then show ?case
    using Cons.IH [of ?s] Cons.prems a(1,2,4) p by (simp add: event_inv_def Let_def)
qed (simp add: Let_def)

text \<open>Starting from the cleared queue, the saved words rebuild the same list.\<close>

lemma load_events_rebuild:
  assumes s: "event_inv s" and ne: "pending s \<noteq> []" and ty: "0xFFFFFFFF \<notin> fst ` set (pending s)"
    and s': "length (nodes (q_pool (cp0_q s'))) = 16" "cp0_regs s' = cp0_regs s"
  shows "let r = load_events (concat (map (\<lambda>e. [fst e, snd e]) (pending s)) @ [0xFFFFFFFF])
            (s'\<lparr>cp0_q := clear_queue (cp0_q s')\<rparr>) in
    event_inv r \<and> pending r = pending s \<and> fault r = fault s' \<and> cp0_regs r = cp0_regs s"
proof -
  obtain e es where e: "pending s = e # es" using ne by (cases "pending s") auto
  let ?c = "s'\<lparr>cp0_q := clear_queue (cp0_q s')\<rparr>"
  let ?s = "add_interrupt_event_count (fst e) (snd e) ?c"
  have 0: "queue_ok ?c" "pending ?c = []"
    using clear_queue_wf [OF s'(1)] by (simp_all add: queue_ok_def)
  note 1 = add_event_ok [OF 0(1), of "fst e" "snd e", simplified 0(2), simplified]
  have i: "queue_ok s" "in_sync s" using s by (simp_all add: event_inv_def)
  have b: "event_base ?s = event_base s"
    using event_base_same_head [OF i(2) 1(2) _ e] 1(3) s'(2) by simp
  have te: "fst e \<noteq> 0xFFFFFFFF" "0xFFFFFFFF \<notin> fst ` set es" using ty e by auto
  have o: "in_order (event_base s) (e # es)" and l: "length es \<le> 15"
    using event_room [OF i(1)] i(1) e by (auto simp: queue_ok_def)
  show ?thesis
    using load_events_append [of ?s es] 1 b e te l o s'(2) by (simp add: event_inv_def Let_def)
qed

lemma remove_event_ok:
  assumes "queue_ok s"
  shows "queue_ok (remove_event_s t s)" "pending (remove_event_s t s) = del_event t (pending s)"
    "event_base (remove_event_s t s) = event_base s" "fault (remove_event_s t s) = fault s"
proof -
  obtain q' where q': "wf_queue q'" "q_events q' = del_event t (pending s)"
    "remove_event_s t s = s\<lparr>cp0_q := q'\<rparr>"
    using remove_event_effect [of s t] assms by (auto simp: queue_ok_def)
  then show b: "event_base (remove_event_s t s) = event_base s" by (simp add: event_base_def)
  show "queue_ok (remove_event_s t s)" "pending (remove_event_s t s) = del_event t (pending s)"
    "fault (remove_event_s t s) = fault s"
    using q' assms b del_event_in_order by (simp_all add: queue_ok_def)
qed

lemma load_eventqueue_effect:
  assumes s: "event_inv s" and ne: "pending s \<noteq> []" and ty: "0xFFFFFFFF \<notin> fst ` set (pending s)"
    and sp: "SPECIAL_INT \<in> fst ` set (pending s)"
    and s': "length (nodes (q_pool (cp0_q s'))) = 16" "cp0_regs s' = cp0_regs s"
    and buf: "save_eventqueue_infos s = Some buf"
  shows "let r = load_eventqueue_infos buf s' in
    event_inv r \<and> fault r = fault s' \<and>
    pending r = ins_event (before_at (event_base s) (special_count (count_reg s)))
      (SPECIAL_INT, special_count (count_reg s)) (del_event SPECIAL_INT (pending s))"
proof -
  have w: "wf_queue (cp0_q s)" and len: "length (pending s) \<le> 16"
    using s event_room [of s] by (auto simp: event_inv_def queue_ok_def)
  define r where "r = load_events buf (s'\<lparr>cp0_q := clear_queue (cp0_q s')\<rparr>)"
  have r: "event_inv r" "pending r = pending s" "fault r = fault s'" "cp0_regs r = cp0_regs s"
    using load_events_rebuild [OF s ne ty s'] buf save_eventqueue_words [OF w]
    by (simp_all add: Let_def r_def)
  obtain e es where e: "pending s = e # es" using ne by (cases "pending s") auto
  have i: "queue_ok r" "in_sync r" "in_sync s" using r(1) s by (simp_all add: event_inv_def)
  have b: "event_base r = event_base s"
    using event_base_same_head [OF i(3,2) r(4) e] r(2) e by simp
  note d = remove_event_ok [OF i(1), of SPECIAL_INT]
  have "length (del_event SPECIAL_INT xs) < length xs" if "SPECIAL_INT \<in> fst ` set xs" for xs
    using that by (induction xs) auto
  then have "length (pending (remove_event_s SPECIAL_INT r)) < 16"
    using sp len by (simp only: d(2) r(2)) (meson less_le_trans)
  note a = add_event_ok [OF d(1) this, of SPECIAL_INT "special_count (count_reg r)"]
  show ?thesis
    using a by (simp add: load_eventqueue_infos_def Let_def r_def [symmetric] d b r event_inv_def)
qed

section \<open>The special event bounds every distance\<close>

lemma special_count_cases:
  "special_count c = (if unat c < 2 ^ 31 then 0x80000000 else 0)"
proof -
  have "unat c div 2 ^ 31 = (if unat c < 2 ^ 31 then 0 else 1)"
    using unsigned_less [of c, where ?'a = nat] by (simp add: div_nat_eqI)
  then have b: "bit c 31 \<longleftrightarrow> \<not> unat c < 2 ^ 31"
    using bit_unsigned_iff [of c 31, where ?'a = nat] bit_iff_odd [of "unat c" 31] by (simp split: if_splits)
  have "c AND 0x80000000 = (if bit c 31 then 0x80000000 else 0)"
    using and_exp_eq_0_iff_not_bit [of c 31] by (auto intro!: bit_word_eqI simp: bit_and_iff bit31_int)
  then show ?thesis using b by (simp add: special_count_def)
qed

lemma special_count_distance:
  "0 < unat (special_count c - c)" "unat (special_count c - c) \<le> 2 ^ 31"
proof -
  have c: "unat c < 2 ^ 32" using unsigned_less [of c, where ?'a = nat] by simp
  have "unat (special_count c - c) = (if unat c < 2 ^ 31 then 2 ^ 31 - unat c else 2 ^ 32 - unat c)"
    using unat_uminus [of c] by (auto simp: special_count_cases unat_sub word_le_nat_alt)
  then show "0 < unat (special_count c - c)" "unat (special_count c - c) \<le> 2 ^ 31"
    using c by auto
qed

lemma special_sooner:
  assumes "queue_ok s" "\<not> 0 < sint (cycle_count s)" "(SPECIAL_INT, special_count (count_reg s)) \<in> set (pending s)"
    and "pending s = e # es"
  shows "unat (snd e - count_reg s) \<le> 2 ^ 31"
proof -
  have "snd e - count_reg s \<le> special_count (count_reg s) - count_reg s"
    using assms by (auto simp: queue_ok_def event_base_def in_order_Cons)
  then show ?thesis using special_count_distance(2) [of "count_reg s"] by (simp add: word_le_nat_alt)
qed

section \<open>A concrete state\<close>

definition empty_queue :: interrupt_queue where
  "empty_queue = \<lparr>q_pool = \<lparr>nodes = replicate 16 \<lparr>data = \<lparr>ev_type = 0, ev_count = 0\<rparr>, next_ptr = None\<rparr>,
     stack = replicate 16 0, index = 0\<rparr>, first = None\<rparr>"

definition sample_cp0 :: cp0 where
  "sample_cp0 = \<lparr>fault = False, ext_log = [], rand_seq = (\<lambda>_. 0), rand_pos = 0, gs_vi_counter = 0,
     cp0_regs = (\<lambda>_. 0)(CP0_COUNT_REG := 0x5000), cp0_latch = 0, interrupt_unsafe_state = 0,
     cp0_q = empty_queue, next_interrupt = 0, cycle_count = 0, last_addr = 0, count_per_op = 2,
     count_per_op_denom_pot = 0, cp0_tlb = sample_tlb\<rparr>"

lemma sample_cp0_nodes: "length (nodes (q_pool (cp0_q sample_cp0))) = 16"
  by (simp add: sample_cp0_def empty_queue_def)

lemmas sample_inv = init_interrupt_inv [OF sample_cp0_nodes]

lemma sample_pending: "pending (init_interrupt sample_cp0) = [(SPECIAL_INT, 0x80000000), (COMPARE_INT, 0)]"
  by code_simp

section \<open>Properties\<close>

text \<open>
  C1. Adding an event to a well-formed queue with room inserts it into the list of pending
  events behind every event that is not due after it (so events of equal count keep their
  order of arrival), keeps the list in due order, makes \<^verbatim>\<open>next_interrupt\<close> and \<^verbatim>\<open>cycle_count\<close>
  describe the new first event, and neither follows a null pointer nor loops.
\<close>

theorem add_interrupt_event_count_inserts:
  assumes "queue_ok s" and "length (pending s) < 16"
  shows "let s' = add_interrupt_event_count t c s in
    queue_ok s' \<and> in_sync s' \<and> fault s' = fault s \<and>
    pending s' = ins_event (before_at (event_base s) c) (t, c) (pending s)"
  using add_event_ok [OF assms] by (simp add: Let_def)

theorem add_interrupt_event_count_inserts_witness:
  "let s' = add_interrupt_event_count VI_INT 0x9000 (init_interrupt sample_cp0) in
     \<not> fault s' \<and> in_sync s' \<and>
     pending s' = [(VI_INT, 0x9000), (SPECIAL_INT, 0x80000000), (COMPARE_INT, 0)]"
proof -
  let ?s = "init_interrupt sample_cp0"
  have "queue_ok ?s" "length (pending ?s) < 16"
    using sample_inv(1) by (simp_all add: event_inv_def sample_pending)
  note a = add_interrupt_event_count_inserts [OF this, of VI_INT "0x9000"]
  have "ins_event (before_at (event_base ?s) 0x9000) (VI_INT, 0x9000) (pending ?s)
     = [(VI_INT, 0x9000), (SPECIAL_INT, 0x80000000), (COMPARE_INT, 0)]"
    by code_simp
  moreover have "\<not> fault ?s" using sample_inv(2) by (simp add: sample_cp0_def)
  ultimately show ?thesis using a by (simp add: Let_def)
qed

text \<open>
  C9. Every sequence of insertions, removals of the first event and count updates that
  starts from \<^verbatim>\<open>init_interrupt\<close> keeps the pool-allocated list well formed and the events in due
  order across the wrap-around of the count register, keeps the caches of the first event
  exact, and never faults, as long as no single count update passes the signed range of the
  cycle counter.
\<close>

theorem event_sequences_keep_order:
  assumes "length (nodes (q_pool (cp0_q s0))) = 16" and "event_step\<^sup>*\<^sup>* (init_interrupt s0) s"
  shows "wf_queue (cp0_q s) \<and> in_order (event_base s) (pending s) \<and> in_sync s \<and> fault s = fault s0"
  using event_steps_inv [OF assms(2)] init_interrupt_inv(1,2) [OF assms(1)]
  by (simp add: event_inv_def queue_ok_def)

theorem event_sequences_keep_order_witness:
  "let s = remove_interrupt_event (advance 0x100 (add_interrupt_event_count AI_INT 0x6000 (init_interrupt sample_cp0))) in
     in_order (event_base s) (pending s) \<and> \<not> fault s"
proof -
  let ?a = "add_interrupt_event_count AI_INT 0x6000 (init_interrupt sample_cp0)"
  have p: "pending (advance 0x100 ?a) \<noteq> []" "sint (cycle_count ?a) + int (unat (0x100 :: u32)) < 2 ^ 31"
    by code_simp+
  have "event_step (init_interrupt sample_cp0) ?a" "event_step ?a (advance 0x100 ?a)"
    "event_step (advance 0x100 ?a) (remove_interrupt_event (advance 0x100 ?a))"
    by (rule step_add, rule step_time [OF p(2)], rule step_pop [OF p(1)])
  then have "event_step\<^sup>*\<^sup>* (init_interrupt sample_cp0) (remove_interrupt_event (advance 0x100 ?a))"
    by (meson converse_rtranclp_into_rtranclp r_into_rtranclp)
  note event_sequences_keep_order [OF sample_cp0_nodes this]
  then show ?thesis by (simp add: Let_def sample_cp0_def)
qed

text \<open>
  The first event is the one that is due first: in a well-formed queue, removing it
  leaves only events that are not due before it.
\<close>

theorem remove_interrupt_event_earliest:
  assumes "queue_ok s" and "pending s \<noteq> []"
  shows "let s' = remove_interrupt_event s in
    queue_ok s' \<and> in_sync s' \<and> fault s' = fault s \<and> pending s' = tl (pending s) \<and>
    (\<forall>e \<in> set (pending s'). snd (hd (pending s)) - event_base s \<le> snd e - event_base s)"
proof -
  have "\<forall>e \<in> set (tl (pending s)). snd (hd (pending s)) - event_base s \<le> snd e - event_base s"
    using assms by (cases "pending s") (auto simp: queue_ok_def in_order_Cons)
  then show ?thesis using remove_first_ok [OF assms] by (simp add: Let_def)
qed

theorem remove_interrupt_event_earliest_witness:
  "pending (remove_interrupt_event (init_interrupt sample_cp0)) = [(COMPARE_INT, 0)]"
  using remove_interrupt_event_earliest [of "init_interrupt sample_cp0"] sample_inv(1)
  by (simp add: event_inv_def sample_pending Let_def)

text \<open>
  C10. Saving the queue and loading it back into a machine with the same CP0 registers
  rebuilds the list of pending events, except that the special event is dropped and inserted
  again at the next multiple of $2^{31}$; the rebuilt queue satisfies the invariant.
\<close>

theorem load_after_save_eventqueue:
  assumes "event_inv s" "SPECIAL_INT \<in> fst ` set (pending s)" "0xFFFFFFFF \<notin> fst ` set (pending s)"
    and "length (nodes (q_pool (cp0_q s'))) = 16" "cp0_regs s' = cp0_regs s"
  shows "\<exists>buf. save_eventqueue_infos s = Some buf \<and>
    (let r = load_eventqueue_infos buf s' in
     event_inv r \<and> fault r = fault s' \<and>
     pending r = ins_event (before_at (event_base s) (special_count (count_reg s)))
       (SPECIAL_INT, special_count (count_reg s)) (del_event SPECIAL_INT (pending s)))"
proof -
  have "pending s \<noteq> []" using assms(2) by auto
  moreover have "save_eventqueue_infos s =
      Some (concat (map (\<lambda>e. [fst e, snd e]) (pending s)) @ [0xFFFFFFFF])"
    using save_eventqueue_words [of s] assms(1) by (simp add: event_inv_def queue_ok_def)
  ultimately show ?thesis
    using load_eventqueue_effect [OF assms(1) _ assms(3,2,4,5)] by blast
qed

theorem load_after_save_eventqueue_witness:
  "\<exists>buf. save_eventqueue_infos (init_interrupt sample_cp0) = Some buf \<and>
     pending (load_eventqueue_infos buf sample_cp0) = [(SPECIAL_INT, 0x80000000), (COMPARE_INT, 0)]"
proof -
  let ?s = "init_interrupt sample_cp0"
  have r: "cp0_regs sample_cp0 = cp0_regs ?s" by (simp add: init_interrupt_def)
  have m: "SPECIAL_INT \<in> fst ` set (pending ?s)" "0xFFFFFFFF \<notin> fst ` set (pending ?s)"
    by (simp_all add: sample_pending)
  have "ins_event (before_at (event_base ?s) (special_count (count_reg ?s)))
       (SPECIAL_INT, special_count (count_reg ?s)) (del_event SPECIAL_INT (pending ?s))
     = [(SPECIAL_INT, 0x80000000), (COMPARE_INT, 0)]" by code_simp
  then show ?thesis
    using load_after_save_eventqueue [OF sample_inv(1) m sample_cp0_nodes r] by (auto simp: Let_def)
qed

text \<open>
  C11. The purpose of the special event, as the comment on \<^verbatim>\<open>special_int_handler\<close> states it:
  while it is queued at the next multiple of $2^{31}$ and no event is overdue, the next
  interrupt is at most $2^{31}$ cycles away, so the signed cycle counter is exactly minus the
  distance to it and is never positive.
\<close>

theorem special_event_bounds_cycle_count:
  assumes "event_inv s" "\<not> 0 < sint (cycle_count s)"
    and "(SPECIAL_INT, special_count (count_reg s)) \<in> set (pending s)"
  shows "unat (snd (hd (pending s)) - count_reg s) \<le> 2 ^ 31 \<and>
    sint (cycle_count s) = - int (unat (snd (hd (pending s)) - count_reg s))"
proof -
  obtain e es where e: "pending s = e # es" using assms(3) by (cases "pending s") auto
  have "cycle_count s = - (snd e - count_reg s)"
    using assms(1) e by (simp add: event_inv_def in_sync_def)
  then show ?thesis
    using special_sooner [of s e es] not_due_distance(2) [of "snd e - count_reg s"] assms e
    by (simp add: event_inv_def)
qed

theorem special_event_bounds_cycle_count_witness:
  "sint (cycle_count (init_interrupt sample_cp0)) = - 0x7FFFB000"
proof -
  have "\<not> 0 < sint (cycle_count (init_interrupt sample_cp0))"
    "(SPECIAL_INT, special_count (count_reg (init_interrupt sample_cp0))) \<in> set (pending (init_interrupt sample_cp0))"
    "snd (hd (pending (init_interrupt sample_cp0))) - count_reg (init_interrupt sample_cp0) = 0x7FFFB000"
    by code_simp+
  then show ?thesis using special_event_bounds_cycle_count [OF sample_inv(1)] by simp
qed

end
