(* ===== verification/Interrupt.thy ===== *)
theory Interrupt
  imports Events
begin

text \<open>
  Dispatch of the first pending event (\<^verbatim>\<open>gen_interrupt\<close> of \<^verbatim>\<open>src/src/device/r4300/interrupt.c\<close>).
  The table of handlers and the save-state code are arguments: the table is filled in
  \<^verbatim>\<open>device.c\<close>, which \<^verbatim>\<open>Device\<close> models, and the save-state code is not part of the model.

  \<open>live\<close> is what keeps the dispatch safe: the queue is well formed and the special event is in
  it, so the queue is never empty. Every queue operation keeps it, full pool included; the
  locale \<open>interrupt_handlers\<close> lifts this from the handlers to \<^verbatim>\<open>gen_interrupt\<close>.
\<close>

datatype savestates_job = savestates_job_nothing | savestates_job_load | savestates_job_save

record 's gen_env =
  ge_handlers :: "nat \<Rightarrow> 's \<Rightarrow> 's"
  ge_job :: "'s \<Rightarrow> savestates_job"
  ge_load :: "'s \<Rightarrow> 's"
  ge_save :: "'s \<Rightarrow> 's"

definition call_interrupt_handler ::
    "('a r4300_core_scheme) gen_env \<Rightarrow> nat \<Rightarrow> 'a r4300_core_scheme \<Rightarrow> 'a r4300_core_scheme" where
  "call_interrupt_handler env idx s = (if idx < 16 then ge_handlers env idx s else set_fault s)"

text \<open>
  The cases of the \<^verbatim>\<open>switch\<close>: whether the event is removed before its handler runs, and the
  index of the handler; \<open>None\<close> is the \<^verbatim>\<open>default\<close> case.
\<close>

definition event_case :: "u32 \<Rightarrow> (bool \<times> nat) option" where
  "event_case type =
     (if type = VI_INT then Some (False, 0)
      else if type = COMPARE_INT then Some (True, 1)
      else if type = CHECK_INT then Some (True, 2)
      else if type = SI_INT then Some (True, 3)
      else if type = PI_INT then Some (True, 4)
      else if type = SPECIAL_INT then Some (False, 5)
      else if type = AI_INT then Some (True, 6)
      else if type = SP_INT then Some (True, 7)
      else if type = DP_INT then Some (True, 8)
      else if type = HW2_INT then Some (True, 9)
      else if type = NMI_INT then Some (True, 10)
      else if type = RSP_DMA_EVT then Some (True, 12)
      else if type = DD_MC_INT then Some (True, 13)
      else if type = DD_BM_INT then Some (True, 14)
      else if type = DD_DV_INT then Some (True, 15)
      else None)"

definition dispatch_event ::
    "('a r4300_core_scheme) gen_env \<Rightarrow> 'a r4300_core_scheme \<Rightarrow> 'a r4300_core_scheme" where
  "dispatch_event env s =
     (case first (cp0_q s) of
        None \<Rightarrow> set_fault s
      | Some i \<Rightarrow>
          (case event_case (ev_type (data (node_at (cp0_q s) i))) of
             Some (rm, idx) \<Rightarrow> call_interrupt_handler env idx (if rm then remove_interrupt_event s else s)
           | None \<Rightarrow> exception_general (remove_interrupt_event s)))"

definition take_skip_jump :: "'a r4300_core_scheme \<Rightarrow> 'a r4300_core_scheme" where
  "take_skip_jump s0 =
     (let dest = skip_jump s0;
          s = s0\<lparr>skip_jump := 0\<rparr>;
          s = (case head_count (cp0_q s) of
                 None \<Rightarrow> s\<lparr>next_interrupt := 0, cycle_count := 0\<rparr>
               | Some c \<Rightarrow> s\<lparr>next_interrupt := c, cycle_count := count_reg s - c\<rparr>)
      in generic_jump_to dest (s\<lparr>last_addr := dest\<rparr>))"

definition gen_interrupt ::
    "('a r4300_core_scheme) gen_env \<Rightarrow> 'a r4300_core_scheme \<Rightarrow> 'a r4300_core_scheme" where
  "gen_interrupt env s0 =
     (let s = (if stop s0 = 1 then s0\<lparr>gs_vi_counter := 0\<rparr> else s0) in
      if interrupt_unsafe_state s = 0 \<and> ge_job env s = savestates_job_load then ge_load env s
      else if interrupt_unsafe_state s = 0 \<and> reset_hard_job s then call_interrupt_handler env 11 s
      else if skip_jump s \<noteq> 0 then take_skip_jump s
      else
        let s = dispatch_event env s in
        if interrupt_unsafe_state s = 0 \<and> ge_job env s = savestates_job_save then ge_save env s else s)"

section \<open>The special event is never lost\<close>

definition live :: "'a cp0_scheme \<Rightarrow> bool" where
  "live s \<longleftrightarrow> wf_queue (cp0_q s) \<and> SPECIAL_INT \<in> fst ` set (pending s)"

lemma live_cong: "cp0_q s' = cp0_q s \<Longrightarrow> live s' = live s"
  by (simp add: live_def)

lemma live_first:
  assumes "live s"
  obtains i where "first (cp0_q s) = Some i" "event_at (cp0_q s) i = hd (pending s)" "pending s \<noteq> []"
proof -
  have w: "wf_queue (cp0_q s)" and ne: "pending s \<noteq> []" using assms by (auto simp: live_def)
  then obtain i where i: "first (cp0_q s) = Some i" using first_event(1) [OF w] by auto
  with first_event(2) [OF w] ne show ?thesis using that by blast
qed

lemma add_event_live: "live s \<Longrightarrow> live (add_interrupt_event_count t c s)"
proof (cases "length (pending s) < 16")
  case True
  assume l: "live s"
  then obtain q' where "wf_queue q'" "q_events q' = ins_event (before_at (event_base s) c) (t, c) (pending s)"
    "add_interrupt_event_count t c s = with_queue q' s"
    using add_event_effect [of s c t] True by (auto simp: live_def)
  then show ?thesis using l by (auto simp: live_def)
next
  case False
  assume l: "live s"
  then have "length (pending s) = 16"
    using False iq.within [of "cp0_q s"] by (simp add: live_def INTERRUPT_NODES_POOL_CAPACITY_def)
  then show ?thesis using l add_event_full [of s t c] by (simp add: live_def)
qed

lemma add_special_live:
  assumes "wf_queue (cp0_q s)" "length (pending s) < 16"
  shows "live (add_interrupt_event_count SPECIAL_INT c s)"
proof -
  obtain q' where "wf_queue q'" "q_events q' = ins_event (before_at (event_base s) c) (SPECIAL_INT, c) (pending s)"
    "add_interrupt_event_count SPECIAL_INT c s = with_queue q' s"
    using add_event_effect [OF assms, of c SPECIAL_INT] by auto
  then show ?thesis by (auto simp: live_def)
qed

lemma add_interrupt_event_live: "live s \<Longrightarrow> live (add_interrupt_event t d s)"
  by (simp add: add_interrupt_event_def add_event_live)

lemma remove_first_live:
  assumes "live s" "fst (hd (pending s)) \<noteq> SPECIAL_INT"
  shows "live (remove_interrupt_event s)"
proof -
  have ne: "pending s \<noteq> []" using assms(1) by (auto simp: live_def)
  then obtain q' where "wf_queue q'" "q_events q' = tl (pending s)" "remove_interrupt_event s = with_queue q' s"
    using remove_first_effect [of s] assms(1) by (auto simp: live_def)
  then show ?thesis using assms ne by (cases "pending s") (auto simp: live_def)
qed

lemma remove_event_live:
  assumes "live s" "t \<noteq> SPECIAL_INT"
  shows "live (remove_event_s t s)"
proof -
  obtain q' where "wf_queue q'" "q_events q' = del_event t (pending s)" "remove_event_s t s = s\<lparr>cp0_q := q'\<rparr>"
    using remove_event_effect [of s t] assms(1) unfolding live_def by blast
  then show ?thesis
    using assms del_event_other [of t SPECIAL_INT "pending s"] by (simp add: live_def)
qed

lemma special_int_handler_live:
  assumes "live s"
  shows "live (special_int_handler s)"
proof -
  have w: "wf_queue (cp0_q s)" and ne: "pending s \<noteq> []" using assms by (auto simp: live_def)
  then obtain q' where "wf_queue q'" "q_events q' = tl (pending s)" "remove_interrupt_event s = with_queue q' s"
    using remove_first_effect [of s] by auto
  moreover have "length (tl (pending s)) < 16"
    using iq.within [OF w] ne by (cases "pending s") (simp_all add: INTERRUPT_NODES_POOL_CAPACITY_def)
  ultimately show ?thesis
    by (simp add: special_int_handler_def Let_def add_special_live)
qed

lemma set_cp0_live [simp]: "live (set_cp0 r v s) = live s"
  by (simp add: live_def)

lemma resync_live [simp]: "live (resync_cycle_count s) = live s"
  by (simp add: live_def resync_cycle_count_def split: option.split)

lemma add_compare_event_live: "live s \<Longrightarrow> live (add_compare_event c s)"
  by (simp add: add_compare_event_def Let_def) (intro add_event_live, simp add: live_def)

lemma push_live:
  assumes "wf_queue q" "push_node t c q = Some q'" "SPECIAL_INT \<in> fst ` set (q_events q)"
  shows "wf_queue q' \<and> SPECIAL_INT \<in> fst ` set (q_events q')"
proof (cases "length (q_events q) < INTERRUPT_NODES_POOL_CAPACITY")
  case True
  then show ?thesis using iq.push_room [OF assms(1), of t c] assms(2,3) by auto
next
  case False
  then show ?thesis using iq.push_full [OF assms(1), of t c] iq.within [OF assms(1)] assms(2) by simp
qed

lemma r4300_check_interrupt_live: "live s \<Longrightarrow> live (r4300_check_interrupt ip b s)"
  by (auto simp: r4300_check_interrupt_def Let_def live_def dest: push_live split: option.split)

lemma cp0_update_count_live [simp]: "live (cp0_update_count s) = live s"
  by (simp add: live_def cp0_update_count_def Let_def)

lemma exception_general_live [simp]: "live (exception_general s) = live s"
  by (simp add: exception_general_def Let_def exception_epilog_def generic_jump_to_def live_def)
    (simp add: cp0_update_count_def Let_def)

lemma raise_maskable_live [simp]: "live (raise_maskable_interrupt ip s) = live s"
  by (simp add: raise_maskable_interrupt_def Let_def)

lemma compare_int_handler_live: "live s \<Longrightarrow> live (compare_int_handler s)"
  by (simp add: compare_int_handler_def add_compare_event_live)

lemma check_int_handler_live: "live s \<Longrightarrow> live (check_int_handler s)"
  by (simp add: check_int_handler_def)

lemma init_interrupt_live: "length (nodes (q_pool (cp0_q s))) = 16 \<Longrightarrow> live (init_interrupt s)"
  using init_interrupt_inv [of s] by (simp add: live_def event_inv_def queue_ok_def)

lemma take_skip_jump_live [simp]: "live (take_skip_jump s) = live s"
  by (simp add: take_skip_jump_def Let_def generic_jump_to_def live_def split: option.split)

lemma event_case_special: "event_case t = Some (True, i) \<Longrightarrow> t \<noteq> SPECIAL_INT"
  "event_case t = None \<Longrightarrow> t \<noteq> SPECIAL_INT"
  by (auto simp: event_case_def split: if_splits)

lemma event_case_index: "event_case t = Some (rm, i) \<Longrightarrow> i < 16 \<and> i \<noteq> 11"
  "event_case t = Some (rm, 0) \<Longrightarrow> t = VI_INT"
  by (auto simp: event_case_def split: if_splits)

lemma event_case_vi: "event_case t = Some (rm, 0) \<Longrightarrow> \<not> rm"
  by (auto simp: event_case_def split: if_splits)

locale interrupt_handlers =
  fixes env :: "('a r4300_core_scheme) gen_env"
  assumes vi_handler: "live s \<Longrightarrow> fst (hd (pending s)) = VI_INT \<Longrightarrow> live (ge_handlers env 0 s)"
    and handler: "live s \<Longrightarrow> 0 < i \<Longrightarrow> i < 16 \<Longrightarrow> live (ge_handlers env i s)"
    and load: "live s \<Longrightarrow> live (ge_load env s)"
    and save: "live s \<Longrightarrow> live (ge_save env s)"
begin

lemma dispatch_live:
  assumes l: "live s"
  shows "live (dispatch_event env s)"
proof -
  obtain i where i: "first (cp0_q s) = Some i" "event_at (cp0_q s) i = hd (pending s)"
    using live_first [OF l] .
  let ?t = "ev_type (data (node_at (cp0_q s) i))"
  have t: "fst (hd (pending s)) = ?t" by (simp flip: i(2))
  show ?thesis
  proof (cases "event_case ?t")
    case None
    then show ?thesis
      using i(1) l t event_case_special(2) by (simp add: dispatch_event_def remove_first_live)
  next
    case (Some p)
    obtain rm idx where p: "p = (rm, idx)" by force
    then have ix: "idx < 16" using event_case_index(1) Some by blast
    have "live (if rm then remove_interrupt_event s else s)"
      using l t event_case_special(1) [of ?t idx] Some p by (simp add: remove_first_live)
    moreover have "\<not> rm \<and> ?t = VI_INT" if "idx = 0"
      using Some p that event_case_index(2) [of ?t rm] event_case_vi [of ?t rm] by simp
    ultimately have "live (ge_handlers env idx (if rm then remove_interrupt_event s else s))"
      using ix vi_handler [OF l] handler t by (cases "idx = 0") simp_all
    then show ?thesis
      using i(1) ix Some p by (simp add: dispatch_event_def call_interrupt_handler_def)
  qed
qed

lemma gen_interrupt_live: "live s \<Longrightarrow> live (gen_interrupt env s)"
proof -
  assume l: "live s"
  define s1 where "s1 = (if stop s = 1 then s\<lparr>gs_vi_counter := 0\<rparr> else s)"
  have l1: "live s1" using l by (simp add: s1_def live_def)
  show ?thesis
    unfolding gen_interrupt_def Let_def s1_def [symmetric]
    using l1 load [OF l1] handler [OF l1, of 11] save [OF dispatch_live [OF l1]] dispatch_live [OF l1]
    by (simp add: call_interrupt_handler_def)
qed

text \<open>So the dispatch reads the type of a node that exists.\<close>

lemma gen_interrupt_finds_event:
  "live s \<Longrightarrow> \<exists>i. first (cp0_q (gen_interrupt env s)) = Some i"
  using gen_interrupt_live live_first by metis

end

end
