(* ===== verification/Mi.thy ===== *)
theory Mi
  imports Interrupt
begin

text \<open>
  The MIPS interface (\<^verbatim>\<open>src/src/device/rcp/mi/mi_controller.c\<close>, \<^verbatim>\<open>mi_controller.h\<close>): the register that
  collects the interrupts of the RCP devices, its mask, and the line to the CPU (bit IP2 of the
  cause register). \<^verbatim>\<open>write_mi_regs\<close> can run \<^verbatim>\<open>gen_interrupt\<close>, which is an argument here because
  its handlers belong to components that come later.
\<close>

abbreviation (input) MI_INIT_MODE_REG :: nat where "MI_INIT_MODE_REG \<equiv> 0"
abbreviation (input) MI_VERSION_REG :: nat where "MI_VERSION_REG \<equiv> 1"
abbreviation (input) MI_INTR_REG :: nat where "MI_INTR_REG \<equiv> 2"
abbreviation (input) MI_INTR_MASK_REG :: nat where "MI_INTR_MASK_REG \<equiv> 3"

abbreviation (input) MI_INTR_SP :: u32 where "MI_INTR_SP \<equiv> 0x01"
abbreviation (input) MI_INTR_SI :: u32 where "MI_INTR_SI \<equiv> 0x02"
abbreviation (input) MI_INTR_AI :: u32 where "MI_INTR_AI \<equiv> 0x04"
abbreviation (input) MI_INTR_VI :: u32 where "MI_INTR_VI \<equiv> 0x08"
abbreviation (input) MI_INTR_PI :: u32 where "MI_INTR_PI \<equiv> 0x10"
abbreviation (input) MI_INTR_DP :: u32 where "MI_INTR_DP \<equiv> 0x20"

record mi_controller = r4300_core +
  mi_regs :: regfile

definition set_mi :: "nat \<Rightarrow> u32 \<Rightarrow> 'a mi_controller_scheme \<Rightarrow> 'a mi_controller_scheme" where
  "set_mi r v s = s\<lparr>mi_regs := (mi_regs s)(r := v)\<rparr>"

text \<open>\<^verbatim>\<open>if (w & b) r &= ~m;\<close> and \<^verbatim>\<open>if (w & b) r |= m;\<close>, which the register writes chain.\<close>

definition clr_if :: "u32 \<Rightarrow> u32 \<Rightarrow> u32 \<Rightarrow> u32 \<Rightarrow> u32" where
  "clr_if w b m r = (if w AND b \<noteq> 0 then r AND NOT m else r)"

definition set_if :: "u32 \<Rightarrow> u32 \<Rightarrow> u32 \<Rightarrow> u32 \<Rightarrow> u32" where
  "set_if w b m r = (if w AND b \<noteq> 0 then r OR m else r)"

definition update_mi_init_mode :: "u32 \<Rightarrow> u32 \<Rightarrow> bool \<times> u32" where
  "update_mi_init_mode mi_init_mode w =
     (let r = (mi_init_mode AND NOT 0x7f) OR (w AND 0x7f);
          r = clr_if w 0x80 0x80 r;
          r = set_if w 0x100 0x80 r;
          r = clr_if w 0x200 0x100 r;
          r = set_if w 0x400 0x100 r;
          clear_dp = (w AND 0x800 \<noteq> 0);
          r = clr_if w 0x1000 0x200 r;
          r = set_if w 0x2000 0x200 r
      in (clear_dp, r))"

definition update_mi_intr_mask :: "u32 \<Rightarrow> u32 \<Rightarrow> u32" where
  "update_mi_intr_mask mi_intr_mask w =
     (let r = clr_if w 0x1 MI_INTR_SP mi_intr_mask;
          r = set_if w 0x2 MI_INTR_SP r;
          r = clr_if w 0x4 MI_INTR_SI r;
          r = set_if w 0x8 MI_INTR_SI r;
          r = clr_if w 0x10 MI_INTR_AI r;
          r = set_if w 0x20 MI_INTR_AI r;
          r = clr_if w 0x40 MI_INTR_VI r;
          r = set_if w 0x80 MI_INTR_VI r;
          r = clr_if w 0x100 MI_INTR_PI r;
          r = set_if w 0x200 MI_INTR_PI r;
          r = clr_if w 0x400 MI_INTR_DP r
      in set_if w 0x800 MI_INTR_DP r)"

definition poweron_mi :: "'a mi_controller_scheme \<Rightarrow> 'a mi_controller_scheme" where
  "poweron_mi s = s\<lparr>mi_regs := (\<lambda>_. 0)(MI_VERSION_REG := 0x02020102)\<rparr>"

definition mi_reg :: "u32 \<Rightarrow> nat" where
  "mi_reg address = reg_index 0xf address"

definition read_mi_regs :: "u32 \<Rightarrow> 'a mi_controller_scheme \<Rightarrow> u32" where
  "read_mi_regs address s = mi_regs s (mi_reg address)"

definition mi_line :: "'a mi_controller_scheme \<Rightarrow> bool" where
  "mi_line s \<longleftrightarrow> mi_regs s MI_INTR_REG AND mi_regs s MI_INTR_MASK_REG \<noteq> 0"

definition raise_rcp_interrupt :: "u32 \<Rightarrow> 'a mi_controller_scheme \<Rightarrow> 'a mi_controller_scheme" where
  "raise_rcp_interrupt mi_intr s0 =
     (let s = set_mi MI_INTR_REG (mi_regs s0 MI_INTR_REG OR mi_intr) s0 in
      if mi_line s then raise_maskable_interrupt CP0_CAUSE_IP2 s else s)"

definition signal_rcp_interrupt :: "u32 \<Rightarrow> 'a mi_controller_scheme \<Rightarrow> 'a mi_controller_scheme" where
  "signal_rcp_interrupt mi_intr s0 =
     (let s = set_mi MI_INTR_REG (mi_regs s0 MI_INTR_REG OR mi_intr) s0 in
      r4300_check_interrupt CP0_CAUSE_IP2 (mi_line s) s)"

definition clear_rcp_interrupt :: "u32 \<Rightarrow> 'a mi_controller_scheme \<Rightarrow> 'a mi_controller_scheme" where
  "clear_rcp_interrupt mi_intr s0 =
     (let s = set_mi MI_INTR_REG (mi_regs s0 MI_INTR_REG AND NOT mi_intr) s0 in
      r4300_check_interrupt CP0_CAUSE_IP2 (mi_line s) s)"

definition write_mi_regs ::
    "('a mi_controller_scheme \<Rightarrow> 'a mi_controller_scheme) \<Rightarrow> u32 \<Rightarrow> u32 \<Rightarrow> u32 \<Rightarrow>
     'a mi_controller_scheme \<Rightarrow> 'a mi_controller_scheme" where
  "write_mi_regs gen_int address value msk s =
     (let reg = mi_reg address in
      if reg = MI_INIT_MODE_REG then
        let (clear_dp, r) = update_mi_init_mode (mi_regs s MI_INIT_MODE_REG) (value AND msk);
            s = set_mi MI_INIT_MODE_REG r s
        in if clear_dp then clear_rcp_interrupt MI_INTR_DP s else s
      else if reg = MI_INTR_MASK_REG then
        let s = set_mi MI_INTR_MASK_REG (update_mi_intr_mask (mi_regs s MI_INTR_MASK_REG) (value AND msk)) s;
            s = r4300_check_interrupt CP0_CAUSE_IP2 (mi_line s) s;
            s = cp0_update_count s
        in if 0 \<le> sint (cycle_count s) then gen_int s else s
      else s)"

section \<open>Bits of the mask\<close>

lemma clr_set_bit:
  assumes "b = 2 ^ k" "b' = 2 ^ Suc k" "m = 2 ^ i" "i < 32"
  shows "bit (set_if w b' m (clr_if w b m r)) n =
    (if n = i then bit w (Suc k) \<or> bit r n \<and> \<not> bit w k else bit r n)"
proof -
  have "bit m n = (n = i)" using assms(3,4) by (auto simp: bit_exp_iff)
  moreover have "w AND b \<noteq> 0 \<longleftrightarrow> bit w k" "w AND b' \<noteq> 0 \<longleftrightarrow> bit w (Suc k)"
    unfolding assms(1,2) by (rule and_exp_nonzero)+
  moreover have "bit r n \<Longrightarrow> n < 32" using bit_imp_le_length [of r n] by simp
  ultimately show ?thesis
    by (auto simp: set_if_def clr_if_def bit_or_iff bit_and_iff bit_not_iff)
qed

lemmas clr_set_bits =
  clr_set_bit [of "0x1" 0 "0x2" "0x1" 0, simplified]
  clr_set_bit [of "0x4" 2 "0x8" "0x2" 1, simplified]
  clr_set_bit [of "0x10" 4 "0x20" "0x4" 2, simplified]
  clr_set_bit [of "0x40" 6 "0x80" "0x8" 3, simplified]
  clr_set_bit [of "0x100" 8 "0x200" "0x10" 4, simplified]
  clr_set_bit [of "0x400" 10 "0x800" "0x20" 5, simplified]

lemma intr_mask_bit:
  "bit (update_mi_intr_mask r w) n =
     (if n < 6 then bit w (2 * n + 1) \<or> bit r n \<and> \<not> bit w (2 * n) else bit r n)"
proof -
  consider "n = 0" | "n = 1" | "n = 2" | "n = 3" | "n = 4" | "n = 5" | "6 \<le> n" by linarith
  then show ?thesis
    unfolding update_mi_intr_mask_def Let_def by cases (simp_all add: clr_set_bits)
qed

section \<open>The interrupt line\<close>

lemma set_mi_simps [simp]:
  "mi_regs (set_mi r v s) = (mi_regs s)(r := v)" "cp0_regs (set_mi r v s) = cp0_regs s"
  "cp0_q (set_mi r v s) = cp0_q s" "fault (set_mi r v s) = fault s"
  by (simp_all add: set_mi_def)

lemma set_mi_live [simp]: "live (set_mi r v s) = live s"
  by (rule live_cong) simp

lemma mi_frame [simp]:
  "mi_regs (r4300_check_interrupt ip b s) = mi_regs s"
  "mi_regs (set_cp0 r v s) = mi_regs s"
  "mi_regs (cp0_update_count s) = mi_regs s"
  "mi_regs (exception_general s) = mi_regs s"
  "mi_regs (raise_maskable_interrupt ip s) = mi_regs s"
  by (simp_all add: r4300_check_interrupt_def set_cp0_def cp0_update_count_def exception_general_def
      raise_maskable_interrupt_def exception_epilog_def generic_jump_to_def Let_def split: option.split)

lemma check_interrupt_cause:
  "cp0_regs (r4300_check_interrupt ip b s) CP0_CAUSE_REG =
     (if b then (cp0_regs s CP0_CAUSE_REG OR ip) AND NOT CP0_CAUSE_EXCCODE_MASK
      else cp0_regs s CP0_CAUSE_REG AND NOT ip)"
  by (simp add: r4300_check_interrupt_def Let_def split: option.split)

lemma exception_general_cause:
  "cp0_regs (exception_general s) CP0_CAUSE_REG =
     (if in_delay_slot s then cp0_regs s CP0_CAUSE_REG OR CP0_CAUSE_BD
      else cp0_regs s CP0_CAUSE_REG AND NOT CP0_CAUSE_BD)"
  by (simp add: exception_general_def Let_def exception_epilog_def generic_jump_to_def in_delay_slot_def
      cp0_update_count_def set_cp0_def)

definition cause_ip2 :: "'a cp0_scheme \<Rightarrow> bool" where
  "cause_ip2 s \<longleftrightarrow> cp0_regs s CP0_CAUSE_REG AND CP0_CAUSE_IP2 \<noteq> 0"

lemma and_ip2: "(c AND CP0_CAUSE_IP2 \<noteq> 0) = bit c 10"
  using and_exp_nonzero [of c 10] by simp

lemma int_bits_7C: "\<not> bit (0x7C :: int) 10" and int_bits_400: "bit (0x400 :: int) 10"
  and int_bits_80: "\<not> bit (0x80000000 :: int) 10"
  by (simp_all add: bit_iff_odd)

lemma check_interrupt_ip2: "cause_ip2 (r4300_check_interrupt CP0_CAUSE_IP2 b s) = b"
  unfolding cause_ip2_def check_interrupt_cause and_ip2
  by (simp add: bit_or_iff bit_and_iff bit_not_iff int_bits_7C int_bits_400)

lemma exception_general_ip2: "cause_ip2 (exception_general s) = cause_ip2 s"
  unfolding cause_ip2_def exception_general_cause and_ip2
  by (simp add: bit_or_iff bit_and_iff bit_not_iff int_bits_80)

lemma raise_maskable_ip2: "cause_ip2 (raise_maskable_interrupt CP0_CAUSE_IP2 s)"
proof -
  have "cause_ip2 (set_cp0 CP0_CAUSE_REG ((cp0_regs s CP0_CAUSE_REG OR CP0_CAUSE_IP2) AND NOT CP0_CAUSE_EXCCODE_MASK) s)"
    unfolding cause_ip2_def and_ip2
    by (simp add: bit_or_iff bit_and_iff bit_not_iff int_bits_7C int_bits_400)
  then show ?thesis by (simp add: raise_maskable_interrupt_def Let_def exception_general_ip2)
qed

lemma mi_line_frame [simp]:
  "mi_line (r4300_check_interrupt ip b s) = mi_line s"
  "mi_line (raise_maskable_interrupt ip s) = mi_line s"
  by (simp_all add: mi_line_def)

lemma rcp_interrupt_live:
  "live s \<Longrightarrow> live (raise_rcp_interrupt i s)"
  "live s \<Longrightarrow> live (signal_rcp_interrupt i s)"
  "live s \<Longrightarrow> live (clear_rcp_interrupt i s)"
  by (simp_all add: raise_rcp_interrupt_def signal_rcp_interrupt_def clear_rcp_interrupt_def Let_def
      r4300_check_interrupt_live)

lemma write_mi_regs_live:
  assumes "live s" and gen: "\<And>s. live s \<Longrightarrow> live (gen_int s)"
  shows "live (write_mi_regs gen_int address value msk s)"
  using assms(1)
  by (simp add: write_mi_regs_def Let_def split_beta rcp_interrupt_live r4300_check_interrupt_live gen)

section \<open>Properties\<close>

text \<open>
  C24. The interrupt line follows the registers: after an RCP device signals or clears its
  interrupt, bit IP2 of the cause register is set exactly when some unmasked RCP interrupt is
  pending; raising an interrupt inside a handler keeps that agreement.
\<close>

theorem rcp_line_follows_registers:
  shows "cause_ip2 (signal_rcp_interrupt i s) = mi_line (signal_rcp_interrupt i s) \<and>
    cause_ip2 (clear_rcp_interrupt i s) = mi_line (clear_rcp_interrupt i s) \<and>
    (cause_ip2 s = mi_line s \<longrightarrow>
       cause_ip2 (raise_rcp_interrupt i s) = mi_line (raise_rcp_interrupt i s))"
proof -
  let ?s = "set_mi MI_INTR_REG (mi_regs s MI_INTR_REG OR i) s"
  have "mi_line s \<Longrightarrow> mi_line ?s"
    by (auto simp: mi_line_def bit_eq_iff bit_and_iff bit_or_iff)
  moreover have "cause_ip2 ?s = cause_ip2 s" by (simp add: cause_ip2_def)
  ultimately show ?thesis
    by (auto simp: signal_rcp_interrupt_def clear_rcp_interrupt_def raise_rcp_interrupt_def Let_def
        check_interrupt_ip2 raise_maskable_ip2)
qed

definition sample_cp1 :: cp1 where
  "sample_cp1 = poweron_cp1 \<lparr>fpr = (\<lambda>_. 0), fcr0 = 0, fcr31 = 0, regs_simple = (\<lambda>_. (0, 0)), regs_double = (\<lambda>_. 0),
     rounding_mode = 0, fe_round = 0\<rparr>"

definition sample_r4300 :: r4300_core where
  "sample_r4300 = cp0.extend (init_interrupt sample_cp0) (r4300_core.fields (\<lambda>_. 0) 0 0 0 0x80000400 0 0 0 False False 0xa4000040 sample_cp1 0)"

definition sample_mi :: mi_controller where
  "sample_mi = r4300_core.extend sample_r4300 (mi_controller.fields ((\<lambda>_. 0)(MI_INTR_MASK_REG := 0x3F)))"

lemma sample_mi_quiet: "\<not> cause_ip2 sample_mi" "\<not> mi_line sample_mi"
  by code_simp+

theorem rcp_line_follows_registers_witness:
  "cause_ip2 (raise_rcp_interrupt MI_INTR_AI sample_mi)"
proof -
  have "mi_line (raise_rcp_interrupt MI_INTR_AI sample_mi)" by code_simp
  then show ?thesis
    using rcp_line_follows_registers [of MI_INTR_AI sample_mi] sample_mi_quiet by simp
qed

text \<open>
  Writing the interrupt mask register sets and clears each of the six mask bits through
  its own pair of command bits, set winning over clear, and leaves every other bit alone.
\<close>

theorem update_mi_intr_mask_bits:
  "bit (update_mi_intr_mask r w) n =
     (if n < 6 then bit w (2 * n + 1) \<or> bit r n \<and> \<not> bit w (2 * n) else bit r n)"
  by (rule intr_mask_bit)

end
