(* ===== verification/Bytes.thy ===== *)
theory Bytes
  imports Prelude
begin

text \<open>
  Byte and word views of the memories. Guest memory is an array of 32-bit words in host order;
  the C code reads single bytes through \<^verbatim>\<open>(uint8_t*)mem\<close>, on a little-endian host. The locale
  \<open>byte_store\<close> is the interface of such an array of bytes; the copy loops of the DMA engines and of
  the storage devices are folds of single stores, and the lemmas proved inside the locale say what
  they leave in the array.
\<close>

section \<open>Bytes inside a word array\<close>

definition get8 :: "(nat \<Rightarrow> u32) \<Rightarrow> nat \<Rightarrow> u8" where
  "get8 m a = ucast (drop_bit (8 * (a mod 4)) (m (a div 4)))"

definition set8 :: "(nat \<Rightarrow> u32) \<Rightarrow> nat \<Rightarrow> u8 \<Rightarrow> (nat \<Rightarrow> u32)" where
  "set8 m a v = m(a div 4 :=
     (m (a div 4) AND NOT (push_bit (8 * (a mod 4)) 0xFF)) OR push_bit (8 * (a mod 4)) (ucast v))"

lemma bit_FF: "bit (0xFF :: int) n = (n < 8)"
  using bit_mask_iff [of 8 n, where ?'a = int] by (simp add: mask_eq_exp_minus_1)

lemma get8_bit: "bit (get8 m a) n = (n < 8 \<and> bit (m (a div 4)) (8 * (a mod 4) + n))"
  by (auto simp: get8_def bit_ucast_iff bit_drop_bit_eq)

lemma set8_bit:
  "bit (set8 m a v w) n =
     (if w = a div 4 \<and> 8 * (a mod 4) \<le> n \<and> n < 8 * (a mod 4) + 8 then bit v (n - 8 * (a mod 4))
      else bit (m w) n)"
proof -
  have "a mod 4 < 4" by simp
  then have "n < 8 * (a mod 4) + 8 \<Longrightarrow> n < 32" by linarith
  then show ?thesis
    by (auto simp: set8_def bit_or_iff bit_and_iff bit_not_iff bit_push_bit_iff bit_ucast_iff bit_FF
      dest: bit_imp_le_length)
qed

lemma get8_set8_same: "get8 (set8 m a v) a = v"
  by (rule bit_word_eqI) (simp add: get8_bit set8_bit)

lemma get8_set8_other: "a \<noteq> b \<Longrightarrow> get8 (set8 m a v) b = get8 m b"
proof (rule bit_word_eqI)
  fix n assume ab: "a \<noteq> b" and "n < LENGTH(8)"
  then have n: "n < 8" by simp
  have "\<not> (b div 4 = a div 4 \<and> 8 * (a mod 4) \<le> 8 * (b mod 4) + n \<and> 8 * (b mod 4) + n < 8 * (a mod 4) + 8)"
  proof
    assume h: "b div 4 = a div 4 \<and> 8 * (a mod 4) \<le> 8 * (b mod 4) + n \<and> 8 * (b mod 4) + n < 8 * (a mod 4) + 8"
    then have "a mod 4 = b mod 4" using n by linarith
    then show False using h ab by (metis div_mult_mod_eq)
  qed
  then show "bit (get8 (set8 m a v) b) n = bit (get8 m b) n"
    by (auto simp: get8_bit set8_bit)
qed

section \<open>Arrays of bytes\<close>

locale byte_store =
  fixes get :: "'m \<Rightarrow> nat \<Rightarrow> u8"
    and put :: "'m \<Rightarrow> nat \<Rightarrow> u8 \<Rightarrow> 'm"
    and valid :: "'m \<Rightarrow> nat \<Rightarrow> bool"
  assumes get_put_same: "valid m a \<Longrightarrow> get (put m a v) a = v"
    and get_put_other: "a \<noteq> b \<Longrightarrow> get (put m a v) b = get m b"
    and valid_put: "valid (put m a v) b = valid m b"
begin

text \<open>A copy loop stores \<open>f i\<close> at \<open>d i\<close> for every \<open>i\<close> below \<open>n\<close>.\<close>

definition scatter :: "(nat \<Rightarrow> nat) \<Rightarrow> (nat \<Rightarrow> u8) \<Rightarrow> nat \<Rightarrow> 'm \<Rightarrow> 'm" where
  "scatter d f n m = fold (\<lambda>i m. put m (d i) (f i)) [0..<n] m"

lemma scatter_Suc: "scatter d f (Suc n) m = put (scatter d f n m) (d n) (f n)"
  by (simp add: scatter_def)

lemma scatter_valid: "valid (scatter d f n m) b = valid m b"
  by (induction n) (simp_all add: scatter_def valid_put)

lemma scatter_other: "(\<And>i. i < n \<Longrightarrow> d i \<noteq> b) \<Longrightarrow> get (scatter d f n m) b = get m b"
  by (induction n) (simp_all add: scatter_def get_put_other)

lemma scatter_same:
  assumes "inj_on d {0..<n}" "i < n" "valid m (d i)"
  shows "get (scatter d f n m) (d i) = f i"
  using assms(1,2)
proof (induction n)
  case (Suc n)
  show ?case
  proof (cases "i = n")
    case True
    then show ?thesis
      using assms(3) get_put_same [of "scatter d f n m" "d n"] by (simp add: scatter_Suc scatter_valid)
  next
    case False
    then have "d n \<noteq> d i" using Suc.prems by (auto simp: inj_on_def)
    moreover have "inj_on d {0..<n}" using Suc.prems(1) by (rule inj_on_subset) auto
    ultimately show ?thesis using Suc False by (simp add: scatter_Suc get_put_other)
  qed
qed simp

end

interpretation words: byte_store get8 set8 "\<lambda>m a. True"
  by unfold_locales (simp_all add: get8_set8_same get8_set8_other)

interpretation fbytes: byte_store "\<lambda>m a. m a" "\<lambda>m a v. m(a := v)" "\<lambda>m a. True"
  by unfold_locales simp_all

text \<open>The big-endian byte lanes \<^verbatim>\<open>(addr + i) ^ S8\<close> of a block are distinct.\<close>

lemma xor_inj: "(a :: nat) XOR k = b XOR k \<Longrightarrow> a = b"
  by (metis xor.assoc xor.right_neutral xor_self_eq)

lemma lanes_inj: "inj_on (\<lambda>i. (a + i) XOR k) (S :: nat set)"
  by (auto simp: inj_on_def dest: xor_inj)

section \<open>Words inside a byte array\<close>

text \<open>\<^verbatim>\<open>*(uint32_t*)(mem + a)\<close> on a little-endian host.\<close>

definition load32 :: "(nat \<Rightarrow> u8) \<Rightarrow> nat \<Rightarrow> u32" where
  "load32 m a = ucast (m a) OR push_bit 8 (ucast (m (a + 1))) OR push_bit 16 (ucast (m (a + 2))) OR
     push_bit 24 (ucast (m (a + 3)))"

definition store32 :: "(nat \<Rightarrow> u8) \<Rightarrow> nat \<Rightarrow> u32 \<Rightarrow> (nat \<Rightarrow> u8)" where
  "store32 m a w = m(a := ucast w, a + 1 := ucast (drop_bit 8 w), a + 2 := ucast (drop_bit 16 w),
     a + 3 := ucast (drop_bit 24 w))"

lemma load32_bit: "bit (load32 m a) n = (n < 32 \<and> bit (m (a + n div 8)) (n mod 8))"
proof -
  consider "n < 8" | "8 \<le> n \<and> n < 16" | "16 \<le> n \<and> n < 24" | "24 \<le> n \<and> n < 32" | "32 \<le> n" by linarith
  then show ?thesis
  proof cases
    case 2
    then have "n div 8 = 1" "n mod 8 = n - 8" by presburger+
    then show ?thesis using 2 by (auto simp: load32_def bit_or_iff bit_push_bit_iff bit_ucast_iff dest: bit_imp_le_length)
  next
    case 3
    then have "n div 8 = 2" "n mod 8 = n - 16" by presburger+
    then show ?thesis using 3 by (auto simp: load32_def bit_or_iff bit_push_bit_iff bit_ucast_iff dest: bit_imp_le_length)
  next
    case 4
    then have "n div 8 = 3" "n mod 8 = n - 24" by presburger+
    then show ?thesis using 4 by (auto simp: load32_def bit_or_iff bit_push_bit_iff bit_ucast_iff dest: bit_imp_le_length)
  qed (auto simp: load32_def bit_or_iff bit_push_bit_iff bit_ucast_iff dest: bit_imp_le_length)
qed

lemma store32_byte: "i < 4 \<Longrightarrow> store32 m a w (a + i) = ucast (drop_bit (8 * i) w)"
  by (auto simp: store32_def numeral_eq_Suc less_Suc_eq)

lemma store32_other: "b < a \<or> a + 4 \<le> b \<Longrightarrow> store32 m a w b = m b"
  by (auto simp: store32_def)

lemma load32_store32 [simp]: "load32 (store32 m a w) a = w"
  by (rule bit_word_eqI) (simp add: load32_bit store32_byte bit_ucast_iff bit_drop_bit_eq)

lemma store32_load32 [simp]: "store32 m a (load32 m a) = m"
proof
  fix b
  show "store32 m a (load32 m a) b = m b"
  proof (cases "b < a \<or> a + 4 \<le> b")
    case False
    then obtain i where i: "b = a + i" "i < 4" by (metis add_diff_inverse_nat nat_add_left_cancel_less not_le)
    show ?thesis unfolding i(1) store32_byte [OF i(2)]
      using i(2) by (intro bit_word_eqI) (simp add: load32_bit bit_ucast_iff bit_drop_bit_eq)
  qed (simp add: store32_other)
qed

lemma load32_cong: "(\<And>i. i < 4 \<Longrightarrow> m (a + i) = m' (a + i)) \<Longrightarrow> load32 m a = load32 m' a"
  by (rule bit_word_eqI) (simp add: load32_bit)

lemma load32_store32_other: "b + 4 \<le> a \<or> a + 4 \<le> b \<Longrightarrow> load32 (store32 m a w) b = load32 m b"
  by (rule load32_cong, rule store32_other) auto

end
