(* ===== verification/Memory.thy ===== *)
theory Memory
  imports Mi Bytes
begin

text \<open>
  The memory map (\<^verbatim>\<open>src/src/device/memory/memory.c\<close>, \<^verbatim>\<open>memory.h\<close>): one handler per 64 KiB region of
  the physical address space. A handler is named by the pair of C functions it holds; the
  dispatch from names to the functions of the components is in \<^verbatim>\<open>Device\<close>. The build has no
  debugger (\<^verbatim>\<open>DBG\<close> undefined), so \<^verbatim>\<open>map_region\<close> only stores the handler.
\<close>

datatype mem_handler =
    H_open_bus | H_rdram_dram | H_rdram_dram_corrupted | H_rdram_fb | H_rdram_regs
  | H_rsp_mem | H_rsp_regs | H_rsp_regs2 | H_dpc_regs | H_dps_regs | H_mi_regs | H_vi_regs
  | H_ai_regs | H_pi_regs | H_ri_regs | H_si_regs | H_dd_regs | H_dd_rom | H_cart_dom2
  | H_is_viewer | H_cart_rom | H_pif_mem

record mem_mapping =
  map_begin :: u32
  map_end :: u32
  map_handler :: mem_handler

record memory = mi_controller +
  mem_handlers :: "nat \<Rightarrow> mem_handler"

definition region_of :: "u32 \<Rightarrow> nat" where
  "region_of address = unat (drop_bit 16 address)"

definition mem_get_handler :: "u32 \<Rightarrow> 'a memory_scheme \<Rightarrow> mem_handler" where
  "mem_get_handler address s = mem_handlers s (region_of address)"

definition map_region :: "nat \<Rightarrow> mem_handler \<Rightarrow> 'a memory_scheme \<Rightarrow> 'a memory_scheme" where
  "map_region region h s = s\<lparr>mem_handlers := (mem_handlers s)(region := h)\<rparr>"

definition apply_mem_mapping :: "mem_mapping \<Rightarrow> 'a memory_scheme \<Rightarrow> 'a memory_scheme" where
  "apply_mem_mapping m s =
     fold (\<lambda>i. map_region i (map_handler m))
       [region_of (map_begin m)..<Suc (region_of (map_end m))] s"

definition init_memory :: "mem_mapping list \<Rightarrow> 'a memory_scheme \<Rightarrow> 'a memory_scheme" where
  "init_memory mappings s = fold apply_mem_mapping mappings s"

section \<open>Lemmas\<close>

lemma region_bound: "region_of a < 0x10000"
  using unsigned_less [of a, where ?'a = nat]
  by (simp add: region_of_def drop_bit_eq_div unat_div less_mult_imp_div_less)

lemma fold_map_region:
  "mem_handlers (fold (\<lambda>i. map_region i h) is s) r = (if r \<in> set is then h else mem_handlers s r)"
  by (induction "is" arbitrary: s) (auto simp: map_region_def)

lemma apply_mem_mapping_handlers:
  "mem_handlers (apply_mem_mapping m s) r =
     (if region_of (map_begin m) \<le> r \<and> r \<le> region_of (map_end m) then map_handler m else mem_handlers s r)"
  by (auto simp: apply_mem_mapping_def fold_map_region)

text \<open>The last mapping of a table that covers a region determines its handler.\<close>

lemma init_memory_append:
  "init_memory (ms @ [m]) s = apply_mem_mapping m (init_memory ms s)"
  by (simp add: init_memory_def)

lemma map_region_frame [simp]:
  "cp0_regs (map_region r h s) = cp0_regs s" "cp0_q (map_region r h s) = cp0_q s"
  "fault (map_region r h s) = fault s" "mi_regs (map_region r h s) = mi_regs s"
  "ext_log (map_region r h s) = ext_log s"
  by (simp_all add: map_region_def)

lemma apply_mem_mapping_frame [simp]:
  "cp0_regs (apply_mem_mapping m s) = cp0_regs s" "cp0_q (apply_mem_mapping m s) = cp0_q s"
  "fault (apply_mem_mapping m s) = fault s" "mi_regs (apply_mem_mapping m s) = mi_regs s"
  "ext_log (apply_mem_mapping m s) = ext_log s"
proof -
  have "cp0_regs (fold (\<lambda>i. map_region i h) is s) = cp0_regs s \<and> cp0_q (fold (\<lambda>i. map_region i h) is s) = cp0_q s \<and>
    fault (fold (\<lambda>i. map_region i h) is s) = fault s \<and> mi_regs (fold (\<lambda>i. map_region i h) is s) = mi_regs s \<and>
    ext_log (fold (\<lambda>i. map_region i h) is s) = ext_log s" for h "is"
    by (induction "is" arbitrary: s) simp_all
  then show "cp0_regs (apply_mem_mapping m s) = cp0_regs s" "cp0_q (apply_mem_mapping m s) = cp0_q s"
    "fault (apply_mem_mapping m s) = fault s" "mi_regs (apply_mem_mapping m s) = mi_regs s"
    "ext_log (apply_mem_mapping m s) = ext_log s"
    by (simp_all add: apply_mem_mapping_def)
qed

lemma apply_mem_mapping_live [simp]: "live (apply_mem_mapping m s) = live s"
  by (rule live_cong) simp

end
