(* ===== verification/Rdram.thy ===== *)
theory Rdram
  imports Memory
begin

text \<open>
  RDRAM modules and the RDRAM interface (\<^verbatim>\<open>src/src/device/rdram/rdram.c\<close>, \<^verbatim>\<open>rdram.h\<close>,
  \<^verbatim>\<open>src/src/device/rcp/ri/ri_controller.c\<close>, \<^verbatim>\<open>ri_controller.h\<close>). The memory is a function from word
  indices; while some module is enabled but not calibrated, the memory map holds a read handler
  that returns zeroes (\<^verbatim>\<open>map_corrupt_rdram\<close>).
\<close>

abbreviation (input) RDRAM_CONFIG_REG :: nat where "RDRAM_CONFIG_REG \<equiv> 0"
abbreviation (input) RDRAM_DEVICE_ID_REG :: nat where "RDRAM_DEVICE_ID_REG \<equiv> 1"
abbreviation (input) RDRAM_DELAY_REG :: nat where "RDRAM_DELAY_REG \<equiv> 2"
abbreviation (input) RDRAM_MODE_REG :: nat where "RDRAM_MODE_REG \<equiv> 3"
abbreviation (input) RDRAM_REF_ROW_REG :: nat where "RDRAM_REF_ROW_REG \<equiv> 5"
abbreviation (input) RDRAM_MIN_INTERVAL_REG :: nat where "RDRAM_MIN_INTERVAL_REG \<equiv> 7"
abbreviation (input) RDRAM_ADDR_SELECT_REG :: nat where "RDRAM_ADDR_SELECT_REG \<equiv> 8"
abbreviation (input) RDRAM_DEVICE_MANUF_REG :: nat where "RDRAM_DEVICE_MANUF_REG \<equiv> 9"
abbreviation (input) RDRAM_REGS_COUNT :: nat where "RDRAM_REGS_COUNT \<equiv> 10"
abbreviation (input) RDRAM_MAX_MODULES_COUNT :: nat where "RDRAM_MAX_MODULES_COUNT \<equiv> 8"

record rdram = memory +
  rdram_regs :: "nat \<Rightarrow> regfile"
  dram :: "nat \<Rightarrow> u32"
  dram_size :: nat
  corrupted_handler :: bool
  ri_regs :: regfile

section \<open>The RDRAM interface\<close>

definition ri_reg :: "u32 \<Rightarrow> nat" where
  "ri_reg address = reg_index 0x1f address"

definition ri_address :: "u32 \<Rightarrow> u32" where
  "ri_address address =
     (if drop_bit 20 address = 0x03f
      then (address AND 0x3ff)
        OR push_bit 11 (drop_bit 10 address AND 0x1ff)
        OR push_bit 20 (drop_bit 10 address AND 0x1ff)
      else (address AND 0x7ff)
        OR push_bit 11 (drop_bit 11 address AND 0x1ff)
        OR push_bit 20 (drop_bit 20 address AND 0x03f))"

definition ri_address_to_id_field :: "u32 \<Rightarrow> u8 \<Rightarrow> u16" where
  "ri_address_to_id_field address swapfield =
     ucast ((ucast swapfield AND (drop_bit 11 address AND 0x1ff))
       OR (NOT (ucast swapfield) AND (drop_bit 20 address AND 0x1ff)) :: u32)"

definition poweron_ri :: "'a rdram_scheme \<Rightarrow> 'a rdram_scheme" where
  "poweron_ri s = s\<lparr>ri_regs := (\<lambda>_. 0)\<rparr>"

definition read_ri_regs :: "u32 \<Rightarrow> 'a rdram_scheme \<Rightarrow> u32" where
  "read_ri_regs address s = ri_regs s (ri_reg address)"

definition write_ri_regs :: "u32 \<Rightarrow> u32 \<Rightarrow> u32 \<Rightarrow> 'a rdram_scheme \<Rightarrow> 'a rdram_scheme" where
  "write_ri_regs address value msk s =
     (let reg = ri_reg address in
      s\<lparr>ri_regs := (ri_regs s)(reg := masked_write (ri_regs s reg) value msk)\<rparr>)"

section \<open>Modules and their registers\<close>

definition get_modules_count :: "'a rdram_scheme \<Rightarrow> nat" where
  "get_modules_count s = dram_size s div 0x200000"

definition cc_value :: "u32 \<Rightarrow> u8" where
  "cc_value mode_reg =
     ucast (drop_bit 6 (mode_reg AND 0x00000040)
       OR drop_bit 13 (mode_reg AND 0x00004000)
       OR drop_bit 20 (mode_reg AND 0x00400000)
       OR drop_bit 4 (mode_reg AND 0x00000080)
       OR drop_bit 11 (mode_reg AND 0x00008000)
       OR drop_bit 18 (mode_reg AND 0x00800000))"

definition idfield_value :: "u32 \<Rightarrow> u16" where
  "idfield_value device_id =
     ucast ((drop_bit 26 device_id AND 0x3f)
       OR push_bit 6 (drop_bit 23 device_id AND 0x01)
       OR push_bit 7 (drop_bit 8 device_id AND 0xff)
       OR push_bit 15 (drop_bit 7 device_id AND 0x01))"

definition swapfield_value :: "u32 \<Rightarrow> u8" where
  "swapfield_value address_select =
     ucast ((drop_bit 25 address_select AND 0x7f) OR push_bit 7 (drop_bit 15 address_select AND 0x01))"

definition module_answers :: "'a rdram_scheme \<Rightarrow> u32 \<Rightarrow> nat \<Rightarrow> bool" where
  "module_answers s address m \<longleftrightarrow>
     ri_address_to_id_field (ri_address address) (swapfield_value (rdram_regs s m RDRAM_ADDR_SELECT_REG))
     = idfield_value (rdram_regs s m RDRAM_DEVICE_ID_REG)"

definition get_module :: "'a rdram_scheme \<Rightarrow> u32 \<Rightarrow> nat" where
  "get_module s address =
     (case find (module_answers s address) [0..<get_modules_count s] of
        Some m \<Rightarrow> m | None \<Rightarrow> RDRAM_MAX_MODULES_COUNT)"

definition rdram_reg :: "u32 \<Rightarrow> nat" where
  "rdram_reg address = reg_index 0x3ff address"

definition rdram_dram_address :: "u32 \<Rightarrow> nat" where
  "rdram_dram_address address = reg_index 0xffffff address"

definition mode_corrupts :: "u32 \<Rightarrow> bool" where
  "mode_corrupts mode_reg =
     (let mode = mode_reg XOR 0xc0c0c0c0 in mode AND 0x80000000 \<noteq> 0 \<and> cc_value mode = 0)"

definition read_rdram_dram :: "u32 \<Rightarrow> 'a rdram_scheme \<Rightarrow> u32" where
  "read_rdram_dram address s =
     (if unat address < dram_size s then dram s (rdram_dram_address address) else 0)"

definition read_rdram_dram_corrupted :: "u32 \<Rightarrow> 'a rdram_scheme \<Rightarrow> u32" where
  "read_rdram_dram_corrupted address s =
     (let m = get_module s address in
      if m = RDRAM_MAX_MODULES_COUNT then 0
      else if mode_corrupts (rdram_regs s m RDRAM_MODE_REG) then 0
      else if unat address < dram_size s then dram s (rdram_dram_address address) else 0)"

definition write_rdram_dram :: "u32 \<Rightarrow> u32 \<Rightarrow> u32 \<Rightarrow> 'a rdram_scheme \<Rightarrow> 'a rdram_scheme" where
  "write_rdram_dram address value msk s =
     (let addr = rdram_dram_address address in
      if unat address < dram_size s
      then s\<lparr>dram := (dram s)(addr := masked_write (dram s addr) value msk)\<rparr> else s)"

definition map_corrupt_rdram :: "bool \<Rightarrow> 'a rdram_scheme \<Rightarrow> 'a rdram_scheme" where
  "map_corrupt_rdram corrupt s =
     apply_mem_mapping \<lparr>map_begin = 0, map_end = 0x3efffff,
       map_handler = (if corrupt then H_rdram_dram_corrupted else H_rdram_dram)\<rparr> s"

definition init_rdram :: "nat \<Rightarrow> 'a rdram_scheme \<Rightarrow> 'a rdram_scheme" where
  "init_rdram sz s = s\<lparr>dram_size := sz, corrupted_handler := False\<rparr>"

definition poweron_rdram :: "'a rdram_scheme \<Rightarrow> 'a rdram_scheme" where
  "poweron_rdram s =
     s\<lparr>rdram_regs := (\<lambda>m. if m < get_modules_count s
         then (\<lambda>_. 0)(RDRAM_CONFIG_REG := 0xb5190010, RDRAM_DEVICE_ID_REG := 0, RDRAM_DELAY_REG := 0x230b0223,
           RDRAM_MODE_REG := 0xc4c0c0c0, RDRAM_REF_ROW_REG := 0, RDRAM_MIN_INTERVAL_REG := 0x0040c0e0,
           RDRAM_ADDR_SELECT_REG := 0, RDRAM_DEVICE_MANUF_REG := 0x00000500)
         else (\<lambda>_. 0)),
       dram := (\<lambda>i. if i < dram_size s div 4 then 0 else dram s i)\<rparr>"

text \<open>\<open>None\<close> is the broadcast branch, which leaves the caller's value untouched.\<close>

definition read_rdram_regs :: "u32 \<Rightarrow> 'a rdram_scheme \<Rightarrow> u32 option" where
  "read_rdram_regs address s =
     (let reg = rdram_reg address in
      if address AND 0x00080000 \<noteq> 0 then None
      else let m = get_module s address in
        if m = RDRAM_MAX_MODULES_COUNT then Some 0
        else let value = (if reg < RDRAM_REGS_COUNT then rdram_regs s m reg else 0) in
          Some (if reg = RDRAM_MODE_REG then value XOR 0xc0c0c0c0 else value))"

definition write_module_reg :: "nat \<Rightarrow> nat \<Rightarrow> u32 \<Rightarrow> u32 \<Rightarrow> 'a rdram_scheme \<Rightarrow> 'a rdram_scheme" where
  "write_module_reg m reg value msk s =
     s\<lparr>rdram_regs := (rdram_regs s)(m := (rdram_regs s m)(reg := masked_write (rdram_regs s m reg) value msk))\<rparr>"

definition write_rdram_regs :: "u32 \<Rightarrow> u32 \<Rightarrow> u32 \<Rightarrow> 'a rdram_scheme \<Rightarrow> 'a rdram_scheme" where
  "write_rdram_regs address value msk s0 =
     (let reg = rdram_reg address in
      if reg \<ge> RDRAM_REGS_COUNT then s0
      else let s = (if address AND 0x00080000 \<noteq> 0
               then fold (\<lambda>m. write_module_reg m reg value msk) [0..<get_modules_count s0] s0
               else let m = get_module s0 address in
                 if m \<noteq> RDRAM_MAX_MODULES_COUNT then write_module_reg m reg value msk s0 else s0) in
        if reg = RDRAM_MODE_REG
        then let corrupted = (\<exists>m < get_modules_count s. mode_corrupts (rdram_regs s m RDRAM_MODE_REG)) in
          if corrupted_handler s \<noteq> corrupted
          then (map_corrupt_rdram corrupted s)\<lparr>corrupted_handler := corrupted\<rparr> else s
        else s)"

section \<open>Lemmas\<close>

lemma get_modules_bound: "dram_size s \<le> 0x1000000 \<Longrightarrow> get_modules_count s \<le> RDRAM_MAX_MODULES_COUNT"
  using div_le_mono [of "dram_size s" "0x1000000" "0x200000"] by (simp add: get_modules_count_def)

lemma get_module_cases:
  "get_module s address < get_modules_count s \<or> get_module s address = RDRAM_MAX_MODULES_COUNT"
  by (auto simp: get_module_def find_Some_iff split: option.split)

lemma dram_index:
  "unat address < n \<Longrightarrow> n \<le> 0x1000000 \<Longrightarrow> rdram_dram_address address = unat address div 4"
proof -
  assume a: "unat address < n" "n \<le> 0x1000000"
  have "unat (address AND mask 24) = unat address mod 2 ^ 24" by (rule unat_and_mask)
  then show ?thesis using a
    by (simp add: rdram_dram_address_def reg_index_def drop_bit_eq_div unat_div mask_eq_exp_minus_1)
qed

lemma write_module_reg_simps [simp]:
  "get_modules_count (write_module_reg m r v k s) = get_modules_count s"
  "corrupted_handler (write_module_reg m r v k s) = corrupted_handler s"
  "mem_handlers (write_module_reg m r v k s) = mem_handlers s"
  "dram (write_module_reg m r v k s) = dram s" "dram_size (write_module_reg m r v k s) = dram_size s"
  by (simp_all add: write_module_reg_def get_modules_count_def)

lemma map_corrupt_rdram_frame [simp]:
  "rdram_regs (map_corrupt_rdram b s) = rdram_regs s" "dram_size (map_corrupt_rdram b s) = dram_size s"
  "dram (map_corrupt_rdram b s) = dram s"
proof -
  have "rdram_regs (fold (\<lambda>i. map_region i h) is s) = rdram_regs s \<and>
    dram_size (fold (\<lambda>i. map_region i h) is s) = dram_size s \<and> dram (fold (\<lambda>i. map_region i h) is s) = dram s" for h "is"
    by (induction "is" arbitrary: s) (simp_all add: map_region_def)
  then show "rdram_regs (map_corrupt_rdram b s) = rdram_regs s" "dram_size (map_corrupt_rdram b s) = dram_size s"
    "dram (map_corrupt_rdram b s) = dram s"
    by (simp_all add: map_corrupt_rdram_def apply_mem_mapping_def)
qed

lemma fold_write_module_reg [simp]:
  "get_modules_count (fold (\<lambda>m. write_module_reg m r v k) ms s) = get_modules_count s"
  "corrupted_handler (fold (\<lambda>m. write_module_reg m r v k) ms s) = corrupted_handler s"
  "mem_handlers (fold (\<lambda>m. write_module_reg m r v k) ms s) = mem_handlers s"
  by (induction ms arbitrary: s) simp_all

definition some_module_corrupts :: "'a rdram_scheme \<Rightarrow> bool" where
  "some_module_corrupts s \<longleftrightarrow> (\<exists>m < get_modules_count s. mode_corrupts (rdram_regs s m RDRAM_MODE_REG))"

lemma some_module_corrupts_cong:
  "rdram_regs s' = rdram_regs s \<Longrightarrow> dram_size s' = dram_size s \<Longrightarrow>
   some_module_corrupts s' = some_module_corrupts s"
  by (simp add: some_module_corrupts_def get_modules_count_def)

lemma rdram_read_law:
  assumes "dram_size s \<le> 0x1000000" "unat a < dram_size s" "unat b < dram_size s"
  shows "read_rdram_dram b (write_rdram_dram a v msk s) =
    (if unat a div 4 = unat b div 4 then masked_write (read_rdram_dram b s) v msk else read_rdram_dram b s)"
  using assms by (simp add: read_rdram_dram_def write_rdram_dram_def Let_def dram_index)

section \<open>Properties\<close>

text \<open>
  Memory laws of the RDRAM handlers: with at most 16 MB of memory, a read inside the
  memory returns the masked write of the last value stored in the same word and is not
  affected by writes to other words.
\<close>

theorem rdram_read_after_write:
  assumes "dram_size s \<le> 0x1000000" "unat a < dram_size s" "unat b < dram_size s"
  shows "read_rdram_dram b (write_rdram_dram a v msk s) =
    (if unat a div 4 = unat b div 4 then masked_write (read_rdram_dram b s) v msk else read_rdram_dram b s)"
  by (rule rdram_read_law [OF assms])

definition sample_memory :: memory where
  "sample_memory = mi_controller.extend sample_mi (memory.fields (\<lambda>_. H_rdram_dram))"

definition sample_rdram :: rdram where
  "sample_rdram = memory.extend sample_memory
     (rdram.fields (\<lambda>_ _. 0) (\<lambda>_. 0) 0x800000 False (\<lambda>_. 0))"

lemma sample_rdram_size: "dram_size sample_rdram = 0x800000"
  by (simp add: sample_rdram_def rdram.defs memory.defs)

theorem rdram_read_after_write_witness:
  "read_rdram_dram 0x7FFFFC (write_rdram_dram 0x7FFFFC 0xDEADBEEF 0xFFFF sample_rdram) =
     masked_write (read_rdram_dram 0x7FFFFC sample_rdram) 0xDEADBEEF 0xFFFF"
  using rdram_read_after_write [of sample_rdram "0x7FFFFC" "0x7FFFFC"] by (simp add: sample_rdram_size)

text \<open>
  Writing the mode register of a module makes \<^verbatim>\<open>corrupted_handler\<close> say exactly whether some
  module is enabled without calibration, and when that changes the whole RDRAM range of the
  memory map is switched to the matching read handler; any other register leaves both alone.
\<close>

theorem write_rdram_regs_corruption:
  "let s' = write_rdram_regs address value msk s in
   if rdram_reg address = RDRAM_MODE_REG
   then corrupted_handler s' = some_module_corrupts s' \<and>
     (\<forall>r. mem_handlers s' r =
        (if corrupted_handler s' \<noteq> corrupted_handler s \<and> r \<le> 0x3ef
         then if corrupted_handler s' then H_rdram_dram_corrupted else H_rdram_dram
         else mem_handlers s r))
   else corrupted_handler s' = corrupted_handler s \<and> mem_handlers s' = mem_handlers s"
proof -
  define s1 where "s1 = (if address AND 0x00080000 \<noteq> 0
     then fold (\<lambda>m. write_module_reg m (rdram_reg address) value msk) [0..<get_modules_count s] s
     else let m = get_module s address in
       if m \<noteq> RDRAM_MAX_MODULES_COUNT then write_module_reg m (rdram_reg address) value msk s else s)"
  have c: "corrupted_handler s1 = corrupted_handler s" "mem_handlers s1 = mem_handlers s"
    by (simp_all add: s1_def Let_def)
  have m: "some_module_corrupts ((map_corrupt_rdram b s1)\<lparr>corrupted_handler := b\<rparr>) = some_module_corrupts s1" for b
    by (rule some_module_corrupts_cong) simp_all
  have h: "mem_handlers (map_corrupt_rdram b s1) r =
      (if r \<le> 0x3ef then if b then H_rdram_dram_corrupted else H_rdram_dram else mem_handlers s1 r)" for b r
    by (simp add: map_corrupt_rdram_def apply_mem_mapping_handlers region_of_def drop_bit_eq_div)
  have w: "write_rdram_regs address value msk s =
      (if rdram_reg address \<ge> RDRAM_REGS_COUNT then s
       else if rdram_reg address = RDRAM_MODE_REG \<and> corrupted_handler s1 \<noteq> some_module_corrupts s1
       then (map_corrupt_rdram (some_module_corrupts s1) s1)\<lparr>corrupted_handler := some_module_corrupts s1\<rparr>
       else s1)"
    unfolding write_rdram_regs_def Let_def s1_def some_module_corrupts_def by simp
  show ?thesis
    using c m h by (auto simp: w Let_def)
qed

end
