(* ===== verification/Rdp.thy ===== *)
theory Rdp
  imports Rdram
begin

text \<open>
  The RDP command interface and the frame-buffer protection
  (\<^verbatim>\<open>src/src/device/rcp/rdp/rdp_core.c\<close>, \<^verbatim>\<open>rdp_core.h\<close>, \<^verbatim>\<open>fb.c\<close>, \<^verbatim>\<open>fb.h\<close>). The graphics plugin is not part
  of the sources: what it does when it processes a command list, and the frame buffers it
  reports, are the argument \<open>gfx\<close>; the notifications it receives are recorded in \<open>ext_log\<close>.
\<close>

abbreviation (input) DPC_START_REG :: nat where "DPC_START_REG \<equiv> 0"
abbreviation (input) DPC_END_REG :: nat where "DPC_END_REG \<equiv> 1"
abbreviation (input) DPC_CURRENT_REG :: nat where "DPC_CURRENT_REG \<equiv> 2"
abbreviation (input) DPC_STATUS_REG :: nat where "DPC_STATUS_REG \<equiv> 3"
abbreviation (input) DPC_CLOCK_REG :: nat where "DPC_CLOCK_REG \<equiv> 4"
abbreviation (input) DPC_BUFBUSY_REG :: nat where "DPC_BUFBUSY_REG \<equiv> 5"
abbreviation (input) DPC_PIPEBUSY_REG :: nat where "DPC_PIPEBUSY_REG \<equiv> 6"
abbreviation (input) DPC_TMEM_REG :: nat where "DPC_TMEM_REG \<equiv> 7"
abbreviation (input) DPS_REGS_COUNT :: nat where "DPS_REGS_COUNT \<equiv> 4"

abbreviation (input) DPC_STATUS_XBUS_DMEM_DMA :: u32 where "DPC_STATUS_XBUS_DMEM_DMA \<equiv> 0x001"
abbreviation (input) DPC_STATUS_FREEZE :: u32 where "DPC_STATUS_FREEZE \<equiv> 0x002"
abbreviation (input) DPC_STATUS_FLUSH :: u32 where "DPC_STATUS_FLUSH \<equiv> 0x004"
abbreviation (input) DPC_STATUS_START_GCLK :: u32 where "DPC_STATUS_START_GCLK \<equiv> 0x008"

abbreviation (input) DELAY_DP_INT :: u8 where "DELAY_DP_INT \<equiv> 1"
abbreviation (input) DELAY_UPDATESCREEN :: u8 where "DELAY_UPDATESCREEN \<equiv> 2"

record fb_info =
  fb_addr :: u32
  fb_size :: u32
  fb_width :: u32
  fb_height :: u32

record rdp_core = rdram +
  dpc_regs :: regfile
  dps_regs :: regfile
  do_on_unfreeze :: u8
  fb_dirty :: "nat \<Rightarrow> bool"
  fb_infos :: "fb_info list"
  fb_once :: bool

text \<open>\<open>gfx_fb\<close> is \<open>None\<close> when the plugin lacks the frame-buffer functions.\<close>

record 's gfx_plugin =
  gfx_processRDPList :: "'s \<Rightarrow> 's"
  gfx_fb :: "'s \<Rightarrow> fb_info list option"

section \<open>Frame buffers\<close>

definition fb_buffer_size :: "fb_info \<Rightarrow> u32" where
  "fb_buffer_size i = fb_width i * fb_height i * fb_size i"

definition fb_end :: "fb_info \<Rightarrow> u32" where
  "fb_end i = fb_addr i + fb_buffer_size i - 1"

definition no_fb :: "'a rdp_core_scheme \<Rightarrow> bool" where
  "no_fb s \<longleftrightarrow> fb_addr (fb_infos s ! 0) = 0"

definition pre_read_one :: "u32 \<Rightarrow> fb_info \<Rightarrow> 'a rdp_core_scheme \<Rightarrow> 'a rdp_core_scheme" where
  "pre_read_one address i s =
     (let page = unat (drop_bit 12 address) in
      if fb_addr i = 0 then s
      else if address \<ge> fb_addr i \<and> address \<le> fb_end i
      then if page \<ge> 0x800 then set_fault s
        else if fb_dirty s page
        then (call_out (Gfx_FBRead address) s)\<lparr>fb_dirty := (fb_dirty s)(page := False)\<rparr> else s
      else s)"

definition pre_framebuffer_read :: "u32 \<Rightarrow> 'a rdp_core_scheme \<Rightarrow> 'a rdp_core_scheme" where
  "pre_framebuffer_read address s =
     (if no_fb s then s else fold (pre_read_one address) (fb_infos s) s)"

definition write_granule :: "nat \<Rightarrow> nat" where
  "write_granule len = (if len mod 4 = 0 then 4 else if len mod 2 = 0 then 2 else 1)"

definition post_write_one :: "u32 \<Rightarrow> nat \<Rightarrow> fb_info \<Rightarrow> 'a rdp_core_scheme \<Rightarrow> 'a rdp_core_scheme" where
  "post_write_one address len i s =
     (if fb_addr i = 0 then s
      else fold (\<lambda>j s. if unat (fb_addr i) \<le> unat address + j \<and> unat address + j \<le> unat (fb_end i)
             then call_out (Gfx_FBWrite (address + of_nat j) (of_nat (write_granule len))) s else s)
           (filter (\<lambda>j. j mod write_granule len = 0) [0..<len]) s)"

definition post_framebuffer_write :: "u32 \<Rightarrow> nat \<Rightarrow> 'a rdp_core_scheme \<Rightarrow> 'a rdp_core_scheme" where
  "post_framebuffer_write address len s =
     (if no_fb s then s else fold (post_write_one address len) (fb_infos s) s)"

definition poweron_fb :: "'a rdp_core_scheme \<Rightarrow> 'a rdp_core_scheme" where
  "poweron_fb s = s\<lparr>fb_dirty := (\<lambda>_. False),
     fb_infos := replicate 6 \<lparr>fb_addr = 0, fb_size = 0, fb_width = 0, fb_height = 0\<rparr>, fb_once := True\<rparr>"

definition read_rdram_fb :: "u32 \<Rightarrow> 'a rdp_core_scheme \<Rightarrow> u32 \<times> 'a rdp_core_scheme" where
  "read_rdram_fb address s0 =
     (let s = pre_framebuffer_read address s0 in (read_rdram_dram address s, s))"

text \<open>The byte lane and width of a masked store.\<close>

definition fb_write_lane :: "u32 \<Rightarrow> u32 \<times> nat" where
  "fb_write_lane msk =
     (if msk = 0x000000ff then (3 XOR S8, 1)
      else if msk = 0x0000ff00 then (2 XOR S8, 1)
      else if msk = 0x00ff0000 then (1 XOR S8, 1)
      else if msk = 0xff000000 then (0 XOR S8, 1)
      else if msk = 0x0000ffff then (2 XOR S16, 2)
      else if msk = 0xffff0000 then (0 XOR S16, 2)
      else if msk = 0xffffff00 then (0 XOR Sh16, 3)
      else if msk = 0x00ffffff then (1 XOR Sh16, 3)
      else (0, 4))"

definition write_rdram_fb :: "u32 \<Rightarrow> u32 \<Rightarrow> u32 \<Rightarrow> 'a rdp_core_scheme \<Rightarrow> 'a rdp_core_scheme" where
  "write_rdram_fb address value msk s0 =
     (let s = write_rdram_dram address value msk s0;
          (lane, sz) = fb_write_lane msk
      in post_framebuffer_write ((address AND NOT 3) + lane) sz s)"

definition fb_mapping :: "mem_handler \<Rightarrow> fb_info \<Rightarrow> mem_mapping" where
  "fb_mapping h i = \<lparr>map_begin = fb_addr i, map_end = fb_end i, map_handler = h\<rparr>"

text \<open>Marking pages: an index beyond the 0x800 pages of \<^verbatim>\<open>dirty_page\<close> is a fault.\<close>

definition mark_dirty :: "fb_info \<Rightarrow> 'a rdp_core_scheme \<Rightarrow> 'a rdp_core_scheme" where
  "mark_dirty i s =
     (let first_page = unat (drop_bit 12 (fb_addr i)); last_page = unat (drop_bit 12 (fb_end i)) in
      (if first_page \<le> last_page \<and> 0x800 \<le> last_page then set_fault s else s)
        \<lparr>fb_dirty := (\<lambda>p. if first_page \<le> p \<and> p \<le> last_page then True else fb_dirty s p)\<rparr>)"

definition protect_one :: "fb_info \<Rightarrow> 'a rdp_core_scheme \<Rightarrow> 'a rdp_core_scheme" where
  "protect_one i s0 =
     (if fb_addr i = 0 then s0
      else let s = apply_mem_mapping (fb_mapping H_rdram_fb i) s0;
               s = mark_dirty i s
           in s\<lparr>fb_once := False\<rparr>)"

definition protect_framebuffers ::
    "'a rdp_core_scheme gfx_plugin \<Rightarrow> 'a rdp_core_scheme \<Rightarrow> 'a rdp_core_scheme" where
  "protect_framebuffers gfx s0 =
     (case gfx_fb gfx s0 of
        None \<Rightarrow> s0
      | Some infos \<Rightarrow>
          let s = s0\<lparr>fb_infos := infos\<rparr> in
          if no_fb s then s else fold protect_one infos s)"

definition unprotect_one :: "fb_info \<Rightarrow> 'a rdp_core_scheme \<Rightarrow> 'a rdp_core_scheme" where
  "unprotect_one i s =
     (if fb_addr i = 0 then s else apply_mem_mapping (fb_mapping H_rdram_dram i) s)"

definition unprotect_framebuffers :: "'a rdp_core_scheme \<Rightarrow> 'a rdp_core_scheme" where
  "unprotect_framebuffers s = (if no_fb s then s else fold unprotect_one (fb_infos s) s)"

section \<open>Command registers\<close>

definition set_dpc :: "nat \<Rightarrow> u32 \<Rightarrow> 'a rdp_core_scheme \<Rightarrow> 'a rdp_core_scheme" where
  "set_dpc r v s = s\<lparr>dpc_regs := (dpc_regs s)(r := v)\<rparr>"

abbreviation dpc_status :: "'a rdp_core_scheme \<Rightarrow> u32" where
  "dpc_status s \<equiv> dpc_regs s DPC_STATUS_REG"

definition unfreeze :: "'a rdp_core_scheme \<Rightarrow> 'a rdp_core_scheme" where
  "unfreeze s0 =
     (let s = set_dpc DPC_STATUS_REG (dpc_status s0 AND NOT DPC_STATUS_FREEZE) s0;
          s = (if do_on_unfreeze s AND DELAY_DP_INT \<noteq> 0 then signal_rcp_interrupt MI_INTR_DP s else s);
          s = (if do_on_unfreeze s AND DELAY_UPDATESCREEN \<noteq> 0 then call_out Gfx_UpdateScreen s else s)
      in s\<lparr>do_on_unfreeze := 0\<rparr>)"

definition update_dpc_status :: "u32 \<Rightarrow> 'a rdp_core_scheme \<Rightarrow> 'a rdp_core_scheme" where
  "update_dpc_status w s0 =
     (let s = set_dpc DPC_STATUS_REG (clr_if w 0x001 DPC_STATUS_XBUS_DMEM_DMA (dpc_status s0)) s0;
          s = set_dpc DPC_STATUS_REG (set_if w 0x002 DPC_STATUS_XBUS_DMEM_DMA (dpc_status s)) s;
          s = (if w AND 0x004 \<noteq> 0 then unfreeze s else s);
          s = set_dpc DPC_STATUS_REG (set_if w 0x008 DPC_STATUS_FREEZE (dpc_status s)) s;
          s = set_dpc DPC_STATUS_REG (clr_if w 0x010 DPC_STATUS_FLUSH (dpc_status s)) s;
          s = set_dpc DPC_STATUS_REG (set_if w 0x020 DPC_STATUS_FLUSH (dpc_status s)) s
      in if w AND 0x200 \<noteq> 0 then set_dpc DPC_CLOCK_REG 0 s else s)"

definition poweron_rdp :: "'a rdp_core_scheme \<Rightarrow> 'a rdp_core_scheme" where
  "poweron_rdp s =
     poweron_fb (s\<lparr>dpc_regs := (\<lambda>_. 0)(DPC_STATUS_REG := DPC_STATUS_START_GCLK),
       dps_regs := (\<lambda>_. 0), do_on_unfreeze := 0\<rparr>)"

definition dpc_reg :: "u32 \<Rightarrow> nat" where
  "dpc_reg address = reg_index 0x1f address"

definition dps_reg :: "u32 \<Rightarrow> nat" where
  "dps_reg address = reg_index 0x1f address"

definition read_dpc_regs :: "u32 \<Rightarrow> 'a rdp_core_scheme \<Rightarrow> u32" where
  "read_dpc_regs address s = dpc_regs s (dpc_reg address)"

definition write_dpc_regs ::
    "'a rdp_core_scheme gfx_plugin \<Rightarrow> u32 \<Rightarrow> u32 \<Rightarrow> u32 \<Rightarrow> 'a rdp_core_scheme \<Rightarrow> 'a rdp_core_scheme" where
  "write_dpc_regs gfx address value msk s0 =
     (let reg = dpc_reg address in
      if reg = DPC_STATUS_REG then update_dpc_status (value AND msk) s0
      else if reg \<in> {DPC_CURRENT_REG, DPC_CLOCK_REG, DPC_BUFBUSY_REG, DPC_PIPEBUSY_REG, DPC_TMEM_REG} then s0
      else let s = set_dpc reg (masked_write (dpc_regs s0 reg) value msk) s0 in
        if reg = DPC_START_REG then set_dpc DPC_CURRENT_REG (dpc_regs s DPC_START_REG) s
        else if reg = DPC_END_REG then
          let s = unprotect_framebuffers s;
              s = call_out Gfx_ProcessRDPList (gfx_processRDPList gfx s);
              s = protect_framebuffers gfx s
          in signal_rcp_interrupt MI_INTR_DP s
        else s)"

text \<open>\<open>None\<close> leaves the caller's value untouched.\<close>

definition read_dps_regs :: "u32 \<Rightarrow> 'a rdp_core_scheme \<Rightarrow> u32 option" where
  "read_dps_regs address s =
     (let reg = dps_reg address in if reg < DPS_REGS_COUNT then Some (dps_regs s reg) else None)"

definition write_dps_regs :: "u32 \<Rightarrow> u32 \<Rightarrow> u32 \<Rightarrow> 'a rdp_core_scheme \<Rightarrow> 'a rdp_core_scheme" where
  "write_dps_regs address value msk s =
     (let reg = dps_reg address in
      if reg < DPS_REGS_COUNT
      then s\<lparr>dps_regs := (dps_regs s)(reg := masked_write (dps_regs s reg) value msk)\<rparr> else s)"

definition rdp_interrupt_event :: "'a rdp_core_scheme \<Rightarrow> 'a rdp_core_scheme" where
  "rdp_interrupt_event s = raise_rcp_interrupt MI_INTR_DP s"

section \<open>Lemmas\<close>

definition covers :: "fb_info \<Rightarrow> nat \<Rightarrow> bool" where
  "covers i r \<longleftrightarrow> fb_addr i \<noteq> 0 \<and> region_of (fb_addr i) \<le> r \<and> r \<le> region_of (fb_end i)"

lemma mark_dirty_frame [simp]:
  "mem_handlers (mark_dirty i s) = mem_handlers s" "fb_infos (mark_dirty i s) = fb_infos s"
  "cp0_q (mark_dirty i s) = cp0_q s"
  by (simp_all add: mark_dirty_def Let_def set_fault_def)

lemma fb_infos_mapping [simp]: "fb_infos (apply_mem_mapping m s) = fb_infos s"
proof -
  have "fb_infos (fold (\<lambda>i. map_region i h) is s) = fb_infos s" for h "is"
    by (induction "is" arbitrary: s) (simp_all add: map_region_def)
  then show ?thesis by (simp add: apply_mem_mapping_def)
qed

lemma protect_one_handlers:
  "mem_handlers (protect_one i s) r = (if covers i r then H_rdram_fb else mem_handlers s r)"
  "fb_infos (protect_one i s) = fb_infos s" "cp0_q (protect_one i s) = cp0_q s"
  by (auto simp: protect_one_def Let_def apply_mem_mapping_handlers covers_def fb_mapping_def)

lemma unprotect_one_handlers:
  "mem_handlers (unprotect_one i s) r = (if covers i r then H_rdram_dram else mem_handlers s r)"
  "cp0_q (unprotect_one i s) = cp0_q s"
  by (auto simp: unprotect_one_def apply_mem_mapping_handlers covers_def fb_mapping_def)

lemma fold_protect:
  "mem_handlers (fold protect_one is s) r =
     (if \<exists>i \<in> set is. covers i r then H_rdram_fb else mem_handlers s r)"
  "fb_infos (fold protect_one is s) = fb_infos s" "cp0_q (fold protect_one is s) = cp0_q s"
  by (induction "is" arbitrary: s) (auto simp: protect_one_handlers)

lemma fold_unprotect:
  "mem_handlers (fold unprotect_one is s) r =
     (if \<exists>i \<in> set is. covers i r then H_rdram_dram else mem_handlers s r)"
  "cp0_q (fold unprotect_one is s) = cp0_q s"
  by (induction "is" arbitrary: s) (auto simp: unprotect_one_handlers)

lemma protect_handlers:
  "gfx_fb gfx s = Some infos \<Longrightarrow> mem_handlers (protect_framebuffers gfx s) r =
     (if fb_addr (infos ! 0) \<noteq> 0 \<and> (\<exists>i \<in> set infos. covers i r) then H_rdram_fb else mem_handlers s r)"
  "gfx_fb gfx s = Some infos \<Longrightarrow> fb_infos (protect_framebuffers gfx s) = infos"
  by (simp_all add: protect_framebuffers_def Let_def no_fb_def fold_protect)

lemma fb_live:
  "live (protect_framebuffers gfx s) = live s" "live (unprotect_framebuffers s) = live s"
  by (auto simp: protect_framebuffers_def unprotect_framebuffers_def Let_def live_def
      fold_protect fold_unprotect split: option.split)

lemma set_dpc_live [simp]: "live (set_dpc r v s) = live s"
  by (simp add: set_dpc_def live_def)

lemma call_out_live [simp]: "live (call_out c s) = live s"
  by (simp add: call_out_def live_def)

lemma unfreeze_live: "live s \<Longrightarrow> live (unfreeze s)"
proof -
  have u: "live (s\<lparr>do_on_unfreeze := 0\<rparr>) = live s" for s :: "'b rdp_core_scheme"
    by (simp add: live_def)
  assume "live s"
  then show ?thesis by (simp add: unfreeze_def Let_def u rcp_interrupt_live)
qed

lemma update_dpc_status_live: "live s \<Longrightarrow> live (update_dpc_status w s)"
  by (simp add: update_dpc_status_def Let_def unfreeze_live)

lemma write_dpc_regs_live:
  assumes "live s" and gfx: "\<And>s. live s \<Longrightarrow> live (gfx_processRDPList gfx s)"
  shows "live (write_dpc_regs gfx address value msk s)"
  using assms(1)
  by (simp add: write_dpc_regs_def Let_def update_dpc_status_live rcp_interrupt_live fb_live gfx)

lemma rdp_interrupt_event_live: "live s \<Longrightarrow> live (rdp_interrupt_event s)"
  by (simp add: rdp_interrupt_event_def rcp_interrupt_live)

section \<open>Properties\<close>

text \<open>
  Protecting the frame buffers the plugin reports and unprotecting them again restores
  the memory map, provided the regions they cover were plain RDRAM before.
\<close>

theorem unprotect_after_protect:
  assumes "gfx_fb gfx s = Some infos" and "\<forall>i \<in> set infos. \<forall>r. covers i r \<longrightarrow> mem_handlers s r = H_rdram_dram"
  shows "mem_handlers (unprotect_framebuffers (protect_framebuffers gfx s)) = mem_handlers s"
proof
  fix r
  show "mem_handlers (unprotect_framebuffers (protect_framebuffers gfx s)) r = mem_handlers s r"
    using assms(2) by (auto simp: unprotect_framebuffers_def no_fb_def protect_handlers [OF assms(1)] fold_unprotect)
qed

definition sample_fb_info :: fb_info where
  "sample_fb_info = \<lparr>fb_addr = 0x100000, fb_size = 2, fb_width = 320, fb_height = 240\<rparr>"

definition sample_rdp :: rdp_core where
  "sample_rdp = rdram.extend sample_rdram
     (rdp_core.fields (\<lambda>_. 0) (\<lambda>_. 0) 0 (\<lambda>_. False) [] True)"

definition sample_gfx :: "rdp_core gfx_plugin" where
  "sample_gfx = \<lparr>gfx_processRDPList = (\<lambda>s. s), gfx_fb = (\<lambda>_. Some (replicate 6 sample_fb_info))\<rparr>"

theorem unprotect_after_protect_witness:
  "mem_handlers (unprotect_framebuffers (protect_framebuffers sample_gfx sample_rdp)) = mem_handlers sample_rdp \<and>
   mem_handlers (protect_framebuffers sample_gfx sample_rdp) 0x10 = H_rdram_fb"
proof
  have p: "gfx_fb sample_gfx sample_rdp = Some (replicate 6 sample_fb_info)" by (simp add: sample_gfx_def)
  have plain: "mem_handlers sample_rdp r = H_rdram_dram" for r
    by (simp add: sample_rdp_def rdram.defs rdp_core.defs sample_rdram_def sample_memory_def memory.defs mi_controller.defs)
  show "mem_handlers (unprotect_framebuffers (protect_framebuffers sample_gfx sample_rdp)) = mem_handlers sample_rdp"
    by (rule unprotect_after_protect [OF p]) (simp add: plain)
  have "covers sample_fb_info 0x10"
    by (simp add: covers_def sample_fb_info_def fb_end_def fb_buffer_size_def region_of_def drop_bit_eq_div)
  then show "mem_handlers (protect_framebuffers sample_gfx sample_rdp) 0x10 = H_rdram_fb"
    using protect_handlers(1) [OF p, of "0x10"] by (simp add: sample_fb_info_def)
qed

end
