(* ===== verification/Vi.thy ===== *)
theory Vi
  imports Rdp
begin

text \<open>
  The video interface (\<^verbatim>\<open>src/src/device/rcp/vi/vi_controller.c\<close>, \<^verbatim>\<open>vi_controller.h\<close>). The main module's
  hook \<^verbatim>\<open>new_vi\<close> (frame limiting, cheats) is an argument. Unsigned divisions by zero, which
  stop the C program, set \<open>fault\<close>.
\<close>

abbreviation (input) VI_STATUS_REG :: nat where "VI_STATUS_REG \<equiv> 0"
abbreviation (input) VI_ORIGIN_REG :: nat where "VI_ORIGIN_REG \<equiv> 1"
abbreviation (input) VI_WIDTH_REG :: nat where "VI_WIDTH_REG \<equiv> 2"
abbreviation (input) VI_V_INTR_REG :: nat where "VI_V_INTR_REG \<equiv> 3"
abbreviation (input) VI_CURRENT_REG :: nat where "VI_CURRENT_REG \<equiv> 4"
abbreviation (input) VI_V_SYNC_REG :: nat where "VI_V_SYNC_REG \<equiv> 6"
abbreviation (input) VI_REGS_COUNT :: nat where "VI_REGS_COUNT \<equiv> 14"

datatype system_type = SYSTEM_NTSC | SYSTEM_PAL | SYSTEM_MPAL

record vi_controller = rdp_core +
  vi_regs :: regfile
  vi_field :: u32
  vi_delay :: u32
  vi_clock :: u32
  vi_expected_refresh_rate :: u32
  vi_count_per_scanline :: u32

definition vi_clock_from_tv_standard :: "system_type \<Rightarrow> u32" where
  "vi_clock_from_tv_standard t =
     (case t of SYSTEM_PAL \<Rightarrow> 49656530 | SYSTEM_MPAL \<Rightarrow> 48628316 | SYSTEM_NTSC \<Rightarrow> 48681812)"

definition vi_expected_refresh_rate_from_tv_standard :: "system_type \<Rightarrow> u32" where
  "vi_expected_refresh_rate_from_tv_standard t = (case t of SYSTEM_PAL \<Rightarrow> 50 | _ \<Rightarrow> 60)"

definition set_vi :: "nat \<Rightarrow> u32 \<Rightarrow> 'a vi_controller_scheme \<Rightarrow> 'a vi_controller_scheme" where
  "set_vi r v s = s\<lparr>vi_regs := (vi_regs s)(r := v)\<rparr>"

definition vi_reg :: "u32 \<Rightarrow> nat" where
  "vi_reg address = reg_index 0x3f address"

definition set_vi_vertical_interrupt :: "'a vi_controller_scheme \<Rightarrow> 'a vi_controller_scheme" where
  "set_vi_vertical_interrupt s =
     (case get_event (cp0_q s) VI_INT of
        None \<Rightarrow> set_fault s
      | Some ev \<Rightarrow>
          if ev = None \<and> vi_regs s VI_V_INTR_REG < vi_regs s VI_V_SYNC_REG
          then let s = cp0_update_count s in add_interrupt_event VI_INT (vi_delay s) s
          else s)"

definition init_vi :: "u32 \<Rightarrow> u32 \<Rightarrow> 'a vi_controller_scheme \<Rightarrow> 'a vi_controller_scheme" where
  "init_vi clock rate s = s\<lparr>vi_clock := clock, vi_expected_refresh_rate := rate\<rparr>"

definition poweron_vi :: "'a vi_controller_scheme \<Rightarrow> 'a vi_controller_scheme" where
  "poweron_vi s = s\<lparr>vi_regs := (\<lambda>_. 0), vi_field := 0, vi_delay := 0, vi_count_per_scanline := 0\<rparr>"

text \<open>The current line, from the distance to the next vertical interrupt.\<close>

definition vi_current_line :: "u32 \<Rightarrow> 'a vi_controller_scheme \<Rightarrow> u32" where
  "vi_current_line next_vi s =
     (let line = (vi_delay s - (next_vi - count_reg s)) div vi_count_per_scanline s in
      if line \<ge> vi_regs s VI_V_SYNC_REG then line - vi_regs s VI_V_SYNC_REG else line)"

definition update_vi_current :: "'a vi_controller_scheme \<Rightarrow> 'a vi_controller_scheme" where
  "update_vi_current s0 =
     (let s = (case get_event (cp0_q s0) VI_INT of
                 None \<Rightarrow> set_fault s0
               | Some None \<Rightarrow> s0
               | Some (Some next_vi) \<Rightarrow>
                   let s = cp0_update_count s0 in
                   if vi_count_per_scanline s = 0 then set_fault s
                   else set_vi VI_CURRENT_REG (vi_current_line next_vi s) s)
      in set_vi VI_CURRENT_REG ((vi_regs s VI_CURRENT_REG AND NOT 1) OR vi_field s) s)"

text \<open>\<open>None\<close> leaves the caller's value untouched.\<close>

definition read_vi_regs :: "u32 \<Rightarrow> 'a vi_controller_scheme \<Rightarrow> u32 option \<times> 'a vi_controller_scheme" where
  "read_vi_regs address s0 =
     (let reg = vi_reg address;
          s = (if reg = VI_CURRENT_REG then update_vi_current s0 else s0)
      in (if reg < VI_REGS_COUNT then Some (vi_regs s reg) else None, s))"

definition write_vi_v_sync :: "u32 \<Rightarrow> u32 \<Rightarrow> 'a vi_controller_scheme \<Rightarrow> 'a vi_controller_scheme" where
  "write_vi_v_sync value msk s0 =
     (let s = set_vi VI_V_SYNC_REG (masked_write (vi_regs s0 VI_V_SYNC_REG) value msk) s0 in
      if vi_expected_refresh_rate s = 0 \<or> vi_regs s VI_V_SYNC_REG + 1 = 0 then set_fault s
      else let s = s\<lparr>vi_count_per_scanline :=
                       (vi_clock s div vi_expected_refresh_rate s) div (vi_regs s VI_V_SYNC_REG + 1)\<rparr>;
               s = s\<lparr>vi_delay := (vi_regs s VI_V_SYNC_REG + 1) * vi_count_per_scanline s\<rparr>
           in set_vi_vertical_interrupt s)"

definition write_vi_regs :: "u32 \<Rightarrow> u32 \<Rightarrow> u32 \<Rightarrow> 'a vi_controller_scheme \<Rightarrow> 'a vi_controller_scheme" where
  "write_vi_regs address value msk s =
     (let reg = vi_reg address;
          changed = (vi_regs s reg AND msk \<noteq> value AND msk);
          written = set_vi reg (masked_write (vi_regs s reg) value msk) s
      in if reg = VI_STATUS_REG then if changed then call_out Gfx_ViStatusChanged written else s
      else if reg = VI_WIDTH_REG then if changed then call_out Gfx_ViWidthChanged written else s
      else if reg = VI_CURRENT_REG then clear_rcp_interrupt MI_INTR_VI s
      else if reg = VI_V_SYNC_REG then if changed then write_vi_v_sync value msk s else s
      else if reg = VI_V_INTR_REG then set_vi_vertical_interrupt written
      else if reg < VI_REGS_COUNT then written
      else s)"

definition vi_vertical_interrupt_event ::
    "('a vi_controller_scheme \<Rightarrow> 'a vi_controller_scheme) \<Rightarrow> 'a vi_controller_scheme \<Rightarrow> 'a vi_controller_scheme" where
  "vi_vertical_interrupt_event new_vi s0 =
     (let s = (if do_on_unfreeze s0 AND DELAY_DP_INT \<noteq> 0
               then s0\<lparr>do_on_unfreeze := do_on_unfreeze s0 OR DELAY_UPDATESCREEN\<rparr>
               else call_out Gfx_UpdateScreen s0);
          s = new_vi s;
          s = s\<lparr>vi_field := vi_field s XOR (drop_bit 6 (vi_regs s VI_STATUS_REG) AND 1)\<rparr>;
          s = (case get_event (cp0_q s) VI_INT of
                 Some (Some c) \<Rightarrow>
                   let next_vi = c + vi_delay s
                   in add_interrupt_event_count VI_INT next_vi (remove_interrupt_event s)
               | _ \<Rightarrow> set_fault s)
      in raise_rcp_interrupt MI_INTR_VI s)"

section \<open>Lemmas\<close>

lemma set_vi_simps [simp]:
  "vi_regs (set_vi r v s) = (vi_regs s)(r := v)" "cp0_q (set_vi r v s) = cp0_q s"
  "vi_delay (set_vi r v s) = vi_delay s" "vi_count_per_scanline (set_vi r v s) = vi_count_per_scanline s"
  "fault (set_vi r v s) = fault s" "vi_field (set_vi r v s) = vi_field s"
  "vi_clock (set_vi r v s) = vi_clock s" "vi_expected_refresh_rate (set_vi r v s) = vi_expected_refresh_rate s"
  by (simp_all add: set_vi_def)

lemma set_vi_live [simp]: "live (set_vi r v s) = live s"
  by (rule live_cong) simp

lemma set_fault_live [simp]: "live (set_fault s) = live s"
  by (simp add: live_def)

lemma set_vi_vertical_interrupt_live: "live s \<Longrightarrow> live (set_vi_vertical_interrupt s)"
  by (simp add: set_vi_vertical_interrupt_def Let_def add_interrupt_event_live split: option.split)

lemma vi_update_live [simp]:
  "live (s\<lparr>vi_count_per_scanline := a\<rparr>) = live s" "live (s\<lparr>vi_delay := b\<rparr>) = live s"
  "live (s\<lparr>vi_field := c\<rparr>) = live s" "live (s\<lparr>do_on_unfreeze := d\<rparr>) = live s"
  by (simp_all add: live_def)

lemma write_vi_regs_live: "live s \<Longrightarrow> live (write_vi_regs address value msk s)"
  by (simp add: write_vi_regs_def Let_def rcp_interrupt_live set_vi_vertical_interrupt_live write_vi_v_sync_def)

lemma read_vi_regs_live: "live s \<Longrightarrow> live (snd (read_vi_regs address s))"
  by (simp add: read_vi_regs_def update_vi_current_def Let_def split: option.split)

text \<open>
  The vertical interrupt removes the first event, which is its own, and schedules the next one
  exactly one \<^verbatim>\<open>delay\<close> after it.
\<close>

lemma get_event_first:
  assumes "wf_queue (cp0_q s)" "pending s = (t, c) # es"
  shows "get_event (cp0_q s) t = Some (Some c)"
  using iq.lookup_law [OF assms(1), of t] assms(2) by simp

lemma vi_event_live:
  assumes l: "live s" and f: "fst (hd (pending s)) = VI_INT"
    and h: "\<And>s. live s \<Longrightarrow> live (new_vi s)" "\<And>s. cp0_q (new_vi s) = cp0_q s"
  shows "live (vi_vertical_interrupt_event new_vi s)"
proof -
  obtain c es where e: "pending s = (VI_INT, c) # es"
    using l f by (cases "pending s") (auto simp: live_def)
  define s1 where "s1 = (if do_on_unfreeze s AND DELAY_DP_INT \<noteq> 0
       then s\<lparr>do_on_unfreeze := do_on_unfreeze s OR DELAY_UPDATESCREEN\<rparr> else call_out Gfx_UpdateScreen s)"
  define s2 where "s2 = (new_vi s1)\<lparr>vi_field := vi_field (new_vi s1) XOR (drop_bit 6 (vi_regs (new_vi s1) VI_STATUS_REG) AND 1)\<rparr>"
  have q: "cp0_q s1 = cp0_q s" "cp0_q s2 = cp0_q s" by (simp_all add: s1_def s2_def h(2) call_out_def)
  have l2: "live s2" using l live_cong [OF q(2)] by simp
  have g: "get_event (cp0_q s2) VI_INT = Some (Some c)"
    using get_event_first [of s2 VI_INT c es] l2 q e by (simp add: live_def)
  have "live (remove_interrupt_event s2)" using l2 q f by (intro remove_first_live) simp_all
  moreover have "vi_vertical_interrupt_event new_vi s =
      raise_rcp_interrupt MI_INTR_VI
        (add_interrupt_event_count VI_INT (c + vi_delay s2) (remove_interrupt_event s2))"
    unfolding vi_vertical_interrupt_event_def Let_def s1_def [symmetric] s2_def [symmetric] g by simp
  ultimately show ?thesis by (simp add: rcp_interrupt_live add_event_live)
qed

section \<open>The current line stays on the screen\<close>

lemma line_before_sync:
  fixes d r cps v :: u32
  assumes "cps \<noteq> 0" "2 \<le> v" "d = (v + 1) * cps" "unat (v + 1) * unat cps < 2 ^ 32" "r \<le> d" "v + 1 \<noteq> 0"
  shows "unat ((d - r) div cps) \<le> unat v + 1"
proof -
  have d: "unat d = unat (v + 1) * unat cps" using assms(3,4) by (simp add: unat_word_ariths)
  have v1: "unat (v + 1) = unat v + 1"
    by (rule unat_plus_one [OF assms(6)])
  have "unat ((d - r) div cps) = unat (d - r) div unat cps" by (simp add: unat_div)
  also have "\<dots> \<le> unat d div unat cps"
    using assms(5) by (intro div_le_mono) (simp add: unat_sub)
  also have "\<dots> = unat v + 1" using d v1 assms(1) by (simp add: unat_eq_0)
  finally show ?thesis .
qed

lemma line_wraps:
  fixes line v :: u32
  assumes "2 \<le> v" "unat line \<le> unat v + 1"
  shows "(if line \<ge> v then line - v else line) < v"
proof (cases "line \<ge> v")
  case True
  then have "unat (line - v) = unat line - unat v" by (simp add: unat_sub)
  then show ?thesis using assms True by (simp add: word_less_nat_alt word_le_nat_alt)
qed (use assms in simp)

text \<open>What a write of the vertical sync register establishes and every other write keeps.\<close>

definition vi_timing_ok :: "'a vi_controller_scheme \<Rightarrow> bool" where
  "vi_timing_ok s \<longleftrightarrow>
     vi_expected_refresh_rate s \<noteq> 0 \<and> vi_regs s VI_V_SYNC_REG + 1 \<noteq> 0 \<and>
     vi_count_per_scanline s = (vi_clock s div vi_expected_refresh_rate s) div (vi_regs s VI_V_SYNC_REG + 1) \<and>
     vi_delay s = (vi_regs s VI_V_SYNC_REG + 1) * vi_count_per_scanline s"

lemma vi_timing_no_overflow:
  "vi_timing_ok s \<Longrightarrow> unat (vi_regs s VI_V_SYNC_REG + 1) * unat (vi_count_per_scanline s) < 2 ^ 32"
proof -
  assume "vi_timing_ok s"
  then have "unat (vi_count_per_scanline s) =
      unat (vi_clock s div vi_expected_refresh_rate s) div unat (vi_regs s VI_V_SYNC_REG + 1)"
    by (simp add: vi_timing_ok_def unat_div)
  then have "unat (vi_regs s VI_V_SYNC_REG + 1) * unat (vi_count_per_scanline s)
      \<le> unat (vi_clock s div vi_expected_refresh_rate s)"
    by (simp only: times_div_less_eq_dividend)
  also have "\<dots> < 2 ^ 32" using unsigned_less [of "vi_clock s div vi_expected_refresh_rate s", where ?'a = nat] by simp
  finally show ?thesis .
qed

lemma vi_frame [simp]:
  "vi_regs (cp0_update_count s) = vi_regs s" "vi_delay (cp0_update_count s) = vi_delay s"
  "vi_clock (cp0_update_count s) = vi_clock s"
  "vi_expected_refresh_rate (cp0_update_count s) = vi_expected_refresh_rate s"
  "vi_count_per_scanline (cp0_update_count s) = vi_count_per_scanline s"
  "vi_regs (add_interrupt_event t d s) = vi_regs s" "vi_delay (add_interrupt_event t d s) = vi_delay s"
  "vi_clock (add_interrupt_event t d s) = vi_clock s"
  "vi_expected_refresh_rate (add_interrupt_event t d s) = vi_expected_refresh_rate s"
  "vi_count_per_scanline (add_interrupt_event t d s) = vi_count_per_scanline s"
  "vi_regs (set_fault s) = vi_regs s" "vi_delay (set_fault s) = vi_delay s"
  "vi_clock (set_fault s) = vi_clock s" "vi_expected_refresh_rate (set_fault s) = vi_expected_refresh_rate s"
  "vi_count_per_scanline (set_fault s) = vi_count_per_scanline s"
  by (simp_all add: cp0_update_count_def Let_def add_interrupt_event_def add_interrupt_event_count_def
      set_fault_def split: option.split)

lemma vi_timing_set_vertical [simp]: "vi_timing_ok (set_vi_vertical_interrupt s) = vi_timing_ok s"
  by (simp add: set_vi_vertical_interrupt_def Let_def vi_timing_ok_def split: option.split)

lemma vi_timing_set_other: "r \<noteq> VI_V_SYNC_REG \<Longrightarrow> vi_timing_ok (set_vi r v s) = vi_timing_ok s"
  by (simp add: vi_timing_ok_def)

lemma vi_timing_log [simp]:
  "vi_timing_ok (call_out c s) = vi_timing_ok s"
  "vi_timing_ok (clear_rcp_interrupt i s) = vi_timing_ok s"
  by (simp_all add: vi_timing_ok_def call_out_def clear_rcp_interrupt_def r4300_check_interrupt_def set_mi_def
      set_cp0_def Let_def split: option.split)

lemma write_vi_v_sync_timing:
  "\<not> fault (write_vi_v_sync v m s) \<Longrightarrow> vi_timing_ok (write_vi_v_sync v m s)"
  by (simp add: write_vi_v_sync_def Let_def split: if_splits) (simp add: vi_timing_ok_def)

lemma write_vi_regs_timing:
  assumes "vi_timing_ok s" "\<not> fault (write_vi_regs a v m s)"
  shows "vi_timing_ok (write_vi_regs a v m s)"
proof (cases "vi_reg a = VI_V_SYNC_REG")
  case True
  then show ?thesis using assms write_vi_v_sync_timing [of v m s] by (auto simp: write_vi_regs_def Let_def)
next
  case False
  then show ?thesis using assms(1) by (simp add: write_vi_regs_def Let_def vi_timing_set_other)
qed

section \<open>Properties\<close>

text \<open>
  Reading the current line gives a line below the vertical sync register: this holds
  whenever the timing set up by a write of that register is in force, a scan line takes at
  least one count and the next vertical interrupt is no further away than one field. Every
  register write that does not divide by zero keeps that timing in force.
\<close>

theorem vi_current_line_in_range:
  assumes "vi_timing_ok s"
  shows "(vi_count_per_scanline s \<noteq> 0 \<and> 2 \<le> vi_regs s VI_V_SYNC_REG \<and>
      next_vi - count_reg s \<le> vi_delay s \<longrightarrow> vi_current_line next_vi s < vi_regs s VI_V_SYNC_REG) \<and>
    (\<not> fault (write_vi_regs a v m s) \<longrightarrow> vi_timing_ok (write_vi_regs a v m s))"
proof (intro conjI impI)
  assume a: "vi_count_per_scanline s \<noteq> 0 \<and> 2 \<le> vi_regs s VI_V_SYNC_REG \<and> next_vi - count_reg s \<le> vi_delay s"
  have "unat ((vi_delay s - (next_vi - count_reg s)) div vi_count_per_scanline s) \<le> unat (vi_regs s VI_V_SYNC_REG) + 1"
    using a assms vi_timing_no_overflow [OF assms]
    by (intro line_before_sync) (simp_all add: vi_timing_ok_def)
  then show "vi_current_line next_vi s < vi_regs s VI_V_SYNC_REG"
    using a line_wraps by (simp add: vi_current_line_def Let_def)
qed (rule write_vi_regs_timing [OF assms])

definition sample_vi :: vi_controller where
  "sample_vi = rdp_core.extend sample_rdp (vi_controller.fields ((\<lambda>_. 0)(VI_V_SYNC_REG := 525)) 0 811092 48681812 60 1542)"

lemma sample_vi_simps:
  "vi_regs sample_vi = (\<lambda>_. 0)(VI_V_SYNC_REG := 525)" "vi_delay sample_vi = 811092" "vi_clock sample_vi = 48681812"
  "vi_expected_refresh_rate sample_vi = 60" "vi_count_per_scanline sample_vi = 1542"
  by (simp_all add: sample_vi_def rdp_core.defs vi_controller.defs)

lemma sample_vi_timing: "vi_timing_ok sample_vi"
  by (simp add: vi_timing_ok_def sample_vi_simps)

theorem vi_current_line_in_range_witness:
  "vi_current_line (count_reg sample_vi + 5000) sample_vi < 525"
  using vi_current_line_in_range [OF sample_vi_timing, of "count_reg sample_vi + 5000"]
  by (simp add: sample_vi_simps)

text \<open>
  A guest that writes all ones to the vertical sync register makes the emulator divide
  by zero (the register plus one wraps to zero).
\<close>

theorem vi_v_sync_divides_by_zero:
  assumes "vi_regs s VI_V_SYNC_REG \<noteq> 0xFFFFFFFF"
  shows "fault (write_vi_regs 0x04400018 0xFFFFFFFF 0xFFFFFFFF s)"
proof -
  have "vi_reg 0x04400018 = VI_V_SYNC_REG" by (simp add: vi_reg_def reg_index_def drop_bit_eq_div)
  then show ?thesis using assms by (simp add: write_vi_regs_def write_vi_v_sync_def Let_def)
qed

theorem vi_v_sync_divides_by_zero_witness:
  "fault (write_vi_regs 0x04400018 0xFFFFFFFF 0xFFFFFFFF sample_vi)"
  by (rule vi_v_sync_divides_by_zero) (simp add: sample_vi_simps)

text \<open>
  The vertical interrupt is periodic: when its event is the first of a well-formed
  queue, handling it removes that event and queues the next one exactly one field later than
  the old one was due (not later than the time it was handled), so no drift accumulates.
\<close>

theorem vi_event_periodic:
  assumes "queue_ok s" "pending s = (VI_INT, c) # es" and "do_on_unfreeze s AND DELAY_DP_INT = 0"
    and hook: "\<And>s. cp0_q (new_vi s) = cp0_q s \<and> cp0_regs (new_vi s) = cp0_regs s \<and>
      cycle_count (new_vi s) = cycle_count s \<and> vi_delay (new_vi s) = vi_delay s \<and> fault (new_vi s) = fault s"
  shows "let s1 = new_vi (call_out Gfx_UpdateScreen s);
      s1 = s1\<lparr>vi_field := vi_field s1 XOR (drop_bit 6 (vi_regs s1 VI_STATUS_REG) AND 1)\<rparr>;
      s2 = remove_interrupt_event s1;
      s3 = add_interrupt_event_count VI_INT (c + vi_delay s) s2
    in vi_vertical_interrupt_event new_vi s = raise_rcp_interrupt MI_INTR_VI s3 \<and>
       queue_ok s3 \<and> in_sync s3 \<and> fault s3 = fault s \<and>
       pending s3 = ins_event (before_at (event_base s2) (c + vi_delay s)) (VI_INT, c + vi_delay s) es"
proof -
  define s0 where "s0 = new_vi (call_out Gfx_UpdateScreen s)"
  define s1 where "s1 = s0\<lparr>vi_field := vi_field s0 XOR (drop_bit 6 (vi_regs s0 VI_STATUS_REG) AND 1)\<rparr>"
  have q: "cp0_q s1 = cp0_q s" "event_base s1 = event_base s" "fault s1 = fault s" "vi_delay s1 = vi_delay s"
    using hook [of "call_out Gfx_UpdateScreen s"]
    by (simp_all add: s1_def s0_def event_base_def) (simp_all add: call_out_def)
  have o: "queue_ok s1" "pending s1 \<noteq> []" using assms(1,2) q by (simp_all add: queue_ok_def)
  note r = remove_first_ok [OF o]
  have len: "length (pending (remove_interrupt_event s1)) < 16"
    using iq.within [of "cp0_q s"] assms(1,2) r(3) q by (simp add: queue_ok_def INTERRUPT_NODES_POOL_CAPACITY_def)
  note a = add_event_ok [OF r(1) len, of VI_INT "c + vi_delay s"]
  have g: "get_event (cp0_q s1) VI_INT = Some (Some c)"
    using get_event_first [of s1 VI_INT c es] assms(1,2) q by (simp add: queue_ok_def)
  have "vi_vertical_interrupt_event new_vi s =
      raise_rcp_interrupt MI_INTR_VI (add_interrupt_event_count VI_INT (c + vi_delay s) (remove_interrupt_event s1))"
    unfolding vi_vertical_interrupt_event_def Let_def using assms(3) g q(4)
    by (simp add: s0_def [symmetric] s1_def [symmetric])
  then show ?thesis
    using a r q assms(2) by (simp add: Let_def s0_def [symmetric] s1_def [symmetric])
qed

lemma sample_vi_cp0:
  "cp0_q sample_vi = cp0_q (init_interrupt sample_cp0)" "cycle_count sample_vi = cycle_count (init_interrupt sample_cp0)"
  "cp0_regs sample_vi = cp0_regs (init_interrupt sample_cp0)" "do_on_unfreeze sample_vi = 0" "fault sample_vi = False"
  using sample_inv(2)
  by (simp_all add: sample_vi_def rdp_core.defs vi_controller.defs sample_rdp_def rdram.defs sample_rdram_def
      memory.defs sample_memory_def mi_controller.defs sample_mi_def r4300_core.defs sample_r4300_def cp0.defs sample_cp0_def)

lemma sample_vi_queue: "queue_ok sample_vi" "pending sample_vi = [(SPECIAL_INT, 0x80000000), (COMPARE_INT, 0)]"
proof -
  have "event_base sample_vi = event_base (init_interrupt sample_cp0)" by (simp add: event_base_def sample_vi_cp0)
  then show "queue_ok sample_vi" "pending sample_vi = [(SPECIAL_INT, 0x80000000), (COMPARE_INT, 0)]"
    using sample_inv(1) sample_pending by (simp_all add: event_inv_def queue_ok_def sample_vi_cp0)
qed

definition sample_vi_event :: vi_controller where
  "sample_vi_event = add_interrupt_event_count VI_INT 0x6000 sample_vi"

lemma sample_vi_event_queue:
  "queue_ok sample_vi_event"
  "pending sample_vi_event = [(VI_INT, 0x6000), (SPECIAL_INT, 0x80000000), (COMPARE_INT, 0)]"
  "do_on_unfreeze sample_vi_event = 0"
proof -
  have l: "length (pending sample_vi) < 16" by (simp add: sample_vi_queue)
  note a = add_event_ok [OF sample_vi_queue(1) l, of VI_INT "0x6000"]
  have "ins_event (before_at (event_base sample_vi) 0x6000) (VI_INT, 0x6000) (pending sample_vi)
      = [(VI_INT, 0x6000), (SPECIAL_INT, 0x80000000), (COMPARE_INT, 0)]"
  proof -
    have "event_base sample_vi = event_base (init_interrupt sample_cp0)" by (simp add: event_base_def sample_vi_cp0)
    moreover have "event_base (init_interrupt sample_cp0) = 0x5000" by code_simp
    ultimately show ?thesis by (simp add: sample_vi_queue ins_event_def before_at_def)
  qed
  then show "queue_ok sample_vi_event"
    "pending sample_vi_event = [(VI_INT, 0x6000), (SPECIAL_INT, 0x80000000), (COMPARE_INT, 0)]"
    using a by (simp_all add: sample_vi_event_def)
  show "do_on_unfreeze sample_vi_event = 0"
    by (simp add: sample_vi_event_def add_interrupt_event_count_def sample_vi_cp0 set_fault_def split: option.split)
qed

theorem vi_event_periodic_witness:
  "\<exists>s3. vi_vertical_interrupt_event (\<lambda>s. s) sample_vi_event = raise_rcp_interrupt MI_INTR_VI s3 \<and>
     (VI_INT, 0x6000 + vi_delay sample_vi_event) \<in> set (pending s3)"
proof -
  have "do_on_unfreeze sample_vi_event AND DELAY_DP_INT = 0" by (simp add: sample_vi_event_queue(3))
  note vi_event_periodic [OF sample_vi_event_queue(1,2) this, of "\<lambda>s. s", simplified, unfolded Let_def]
  then show ?thesis by (elim conjE) (rule exI, rule conjI, assumption, simp)
qed

end
