(* ===== verification/Ai.thy ===== *)
theory Ai
  imports Vi
begin

text \<open>
  The audio interface (\<^verbatim>\<open>src/src/device/rcp/ai/ai_controller.c\<close>, \<^verbatim>\<open>ai_controller.h\<close>): a two-entry DMA
  queue whose first entry is being played. The audio back end is the host: the blocks of memory
  pushed to it are recorded in \<open>ext_log\<close> as byte offset and length. \<^verbatim>\<open>dma_modifier\<close> is a \<^verbatim>\<open>float\<close> from
  the configuration; the model keeps the function \<^verbatim>\<open>d * dma_modifier\<close> (truncated) in the state.
\<close>

abbreviation (input) AI_DRAM_ADDR_REG :: nat where "AI_DRAM_ADDR_REG \<equiv> 0"
abbreviation (input) AI_LEN_REG :: nat where "AI_LEN_REG \<equiv> 1"
abbreviation (input) AI_CONTROL_REG :: nat where "AI_CONTROL_REG \<equiv> 2"
abbreviation (input) AI_STATUS_REG :: nat where "AI_STATUS_REG \<equiv> 3"
abbreviation (input) AI_DACRATE_REG :: nat where "AI_DACRATE_REG \<equiv> 4"
abbreviation (input) AI_REGS_COUNT :: nat where "AI_REGS_COUNT \<equiv> 6"
abbreviation (input) AI_STATUS_BUSY :: u32 where "AI_STATUS_BUSY \<equiv> 0x40000000"
abbreviation (input) AI_STATUS_FULL :: u32 where "AI_STATUS_FULL \<equiv> 0x80000000"

record ai_dma =
  dma_address :: u32
  dma_length :: u32
  dma_duration :: u32

record ai_controller = vi_controller +
  ai_regs :: regfile
  fifo0 :: ai_dma
  fifo1 :: ai_dma
  samples_format_changed :: bool
  last_read :: u32
  delayed_carry :: bool
  dma_modifier :: "u32 \<Rightarrow> u32"

definition set_ai :: "nat \<Rightarrow> u32 \<Rightarrow> 'a ai_controller_scheme \<Rightarrow> 'a ai_controller_scheme" where
  "set_ai r v s = s\<lparr>ai_regs := (ai_regs s)(r := v)\<rparr>"

definition ai_reg :: "u32 \<Rightarrow> nat" where
  "ai_reg address = reg_index 0x1f address"

definition get_remaining_dma_length :: "'a ai_controller_scheme \<Rightarrow> u32 \<times> 'a ai_controller_scheme" where
  "get_remaining_dma_length s0 =
     (if dma_duration (fifo0 s0) = 0 then (0, s0)
      else let s = cp0_update_count s0 in
        case get_event (cp0_q s) AI_INT of
          None \<Rightarrow> (0, set_fault s)
        | Some None \<Rightarrow> (0, s)
        | Some (Some next_ai_event) \<Rightarrow>
            if 0 \<le> sint (count_reg s - next_ai_event) then (0, s)
            else let remaining = next_ai_event - count_reg s;
                     len = (ucast remaining * ucast (dma_length (fifo0 s))) div ucast (dma_duration (fifo0 s)) :: u64
                 in (ucast (len AND NOT 7), s))"

text \<open>\<open>None\<close> is a division by zero.\<close>

definition get_dma_duration :: "'a ai_controller_scheme \<Rightarrow> u32 option" where
  "get_dma_duration s =
     (if 1 + ai_regs s AI_DACRATE_REG = 0 then None
      else let samples_per_sec = vi_clock s div (1 + ai_regs s AI_DACRATE_REG);
               bytes_per_sample = 4;
               cpu_counts_per_sec =
                 (if vi_delay s = 0 then vi_clock s else vi_delay s * vi_expected_refresh_rate s)
           in if bytes_per_sample * samples_per_sec = 0 then None
              else Some (ai_regs s AI_LEN_REG * (cpu_counts_per_sec div (bytes_per_sample * samples_per_sec))))"

definition update_samples_format :: "'a ai_controller_scheme \<Rightarrow> 'a ai_controller_scheme" where
  "update_samples_format s =
     (if samples_format_changed s
      then let rate = ai_regs s AI_DACRATE_REG in
        if rate \<noteq> 0 \<and> 1 + rate = 0 then set_fault s
        else (call_out (Audio_set_frequency (if rate = 0 then 44100 else vi_clock s div (1 + rate))) s)
          \<lparr>samples_format_changed := False\<rparr>
      else s)"

definition do_dma :: "'a ai_controller_scheme \<Rightarrow> 'a ai_controller_scheme" where
  "do_dma s0 =
     (let s = update_samples_format s0;
          s = s\<lparr>last_read := dma_length (fifo0 s)\<rparr>;
          s = (if delayed_carry s then s\<lparr>fifo0 := (fifo0 s)\<lparr>dma_address := dma_address (fifo0 s) + 0x2000\<rparr>\<rparr> else s);
          s = s\<lparr>delayed_carry := ((dma_address (fifo0 s) + dma_length (fifo0 s)) AND 0x1FFF = 0)\<rparr>;
          s = cp0_update_count s
      in add_interrupt_event AI_INT (dma_duration (fifo0 s)) s)"

definition fifo_push :: "'a ai_controller_scheme \<Rightarrow> 'a ai_controller_scheme" where
  "fifo_push s =
     (case get_dma_duration s of
        None \<Rightarrow> set_fault s
      | Some d \<Rightarrow>
          let dma = \<lparr>dma_address = ai_regs s AI_DRAM_ADDR_REG,
                     dma_length = ai_regs s AI_LEN_REG AND NOT 7, dma_duration = dma_modifier s d\<rparr> in
          if ai_regs s AI_STATUS_REG AND AI_STATUS_BUSY \<noteq> 0
          then set_ai AI_STATUS_REG (ai_regs s AI_STATUS_REG OR AI_STATUS_FULL) (s\<lparr>fifo1 := dma\<rparr>)
          else do_dma (set_ai AI_STATUS_REG (ai_regs s AI_STATUS_REG OR AI_STATUS_BUSY) (s\<lparr>fifo0 := dma\<rparr>)))"

definition fifo_pop :: "'a ai_controller_scheme \<Rightarrow> 'a ai_controller_scheme" where
  "fifo_pop s =
     (if ai_regs s AI_STATUS_REG AND AI_STATUS_FULL \<noteq> 0
      then do_dma (set_ai AI_STATUS_REG (ai_regs s AI_STATUS_REG AND NOT AI_STATUS_FULL) (s\<lparr>fifo0 := fifo1 s\<rparr>))
      else (set_ai AI_STATUS_REG (ai_regs s AI_STATUS_REG AND NOT AI_STATUS_BUSY) s)\<lparr>delayed_carry := False\<rparr>)"

definition poweron_ai :: "'a ai_controller_scheme \<Rightarrow> 'a ai_controller_scheme" where
  "poweron_ai s =
     (let z = \<lparr>dma_address = 0, dma_length = 0, dma_duration = 0\<rparr> in
      s\<lparr>ai_regs := (\<lambda>_. 0), fifo0 := z, fifo1 := z, samples_format_changed := False, last_read := 0,
        delayed_carry := False\<rparr>)"

text \<open>The block from \<^verbatim>\<open>diff = length - last_read\<close> on, \<open>n\<close> bytes long.\<close>

definition push_samples :: "u32 \<Rightarrow> 'a ai_controller_scheme \<Rightarrow> 'a ai_controller_scheme" where
  "push_samples n s =
     (let diff = dma_length (fifo0 s) - last_read s in
      call_out (Audio_push_samples (4 * (dma_address (fifo0 s) div 4) + diff) n) s)"

definition read_ai_regs :: "u32 \<Rightarrow> 'a ai_controller_scheme \<Rightarrow> u32 option \<times> 'a ai_controller_scheme" where
  "read_ai_regs address s0 =
     (let reg = ai_reg address in
      if reg = AI_LEN_REG
      then let (value, s) = get_remaining_dma_length s0 in
        (Some value, if value < last_read s
           then (push_samples (last_read s - value) s)\<lparr>last_read := value\<rparr> else s)
      else if reg < AI_REGS_COUNT then (Some (ai_regs s0 reg), s0)
      else (None, s0))"

definition write_ai_regs :: "u32 \<Rightarrow> u32 \<Rightarrow> u32 \<Rightarrow> 'a ai_controller_scheme \<Rightarrow> 'a ai_controller_scheme" where
  "write_ai_regs address value msk s =
     (let reg = ai_reg address;
          written = set_ai reg (masked_write (ai_regs s reg) value msk) s
      in if reg = AI_LEN_REG then if ai_regs written AI_LEN_REG \<noteq> 0 then fifo_push written else written
      else if reg = AI_STATUS_REG then clear_rcp_interrupt MI_INTR_AI s
      else if reg = AI_DACRATE_REG
      then if ai_regs s reg \<noteq> value AND msk then written\<lparr>samples_format_changed := True\<rparr> else written
      else if reg < AI_REGS_COUNT then written
      else s)"

definition ai_end_of_dma_event :: "'a ai_controller_scheme \<Rightarrow> 'a ai_controller_scheme" where
  "ai_end_of_dma_event s0 =
     (let s = (if last_read s0 \<noteq> 0 then (push_samples (last_read s0) s0)\<lparr>last_read := 0\<rparr> else s0);
          s = fifo_pop s
      in raise_rcp_interrupt MI_INTR_AI s)"

section \<open>Lemmas\<close>

lemma set_ai_simps [simp]:
  "ai_regs (set_ai r v s) = (ai_regs s)(r := v)" "cp0_q (set_ai r v s) = cp0_q s"
  "fifo0 (set_ai r v s) = fifo0 s" "fifo1 (set_ai r v s) = fifo1 s" "fault (set_ai r v s) = fault s"
  by (simp_all add: set_ai_def)

lemma ai_live_upd [simp]:
  "live (set_ai r v s) = live s" "live (s\<lparr>fifo0 := a\<rparr>) = live s" "live (s\<lparr>fifo1 := a\<rparr>) = live s"
  "live (s\<lparr>samples_format_changed := b\<rparr>) = live s" "live (s\<lparr>last_read := c\<rparr>) = live s"
  "live (s\<lparr>delayed_carry := b\<rparr>) = live s"
  by (simp_all add: live_def)

lemma do_dma_live: "live s \<Longrightarrow> live (do_dma s)"
  by (simp add: do_dma_def Let_def add_interrupt_event_live update_samples_format_def)

lemma fifo_push_live: "live s \<Longrightarrow> live (fifo_push s)"
  by (simp add: fifo_push_def Let_def do_dma_live split: option.split)

lemma fifo_pop_live: "live s \<Longrightarrow> live (fifo_pop s)"
  by (simp add: fifo_pop_def do_dma_live)

lemma write_ai_regs_live: "live s \<Longrightarrow> live (write_ai_regs address value msk s)"
  by (simp add: write_ai_regs_def Let_def fifo_push_live rcp_interrupt_live)

lemma read_ai_regs_live: "live s \<Longrightarrow> live (snd (read_ai_regs address s))"
  by (simp add: read_ai_regs_def Let_def get_remaining_dma_length_def push_samples_def split: option.split)

lemma ai_end_of_dma_event_live: "live s \<Longrightarrow> live (ai_end_of_dma_event s)"
  by (simp add: ai_end_of_dma_event_def Let_def push_samples_def fifo_pop_live rcp_interrupt_live)

section \<open>The DMA queue as a list\<close>

definition ai_busy :: "'a ai_controller_scheme \<Rightarrow> bool" where
  "ai_busy s \<longleftrightarrow> bit (ai_regs s AI_STATUS_REG) 30"

definition ai_full :: "'a ai_controller_scheme \<Rightarrow> bool" where
  "ai_full s \<longleftrightarrow> bit (ai_regs s AI_STATUS_REG) 31"

definition blocks :: "'a ai_controller_scheme \<Rightarrow> (u32 \<times> u32) list" where
  "blocks s = map (\<lambda>d. (dma_length d, dma_duration d))
     (if ai_busy s then if ai_full s then [fifo0 s, fifo1 s] else [fifo0 s] else [])"

lemma ai_status_bits:
  "(x AND AI_STATUS_BUSY \<noteq> 0) = bit x 30" "(x AND AI_STATUS_FULL \<noteq> 0) = bit (x :: u32) 31"
  using and_exp_nonzero [of x 30] and_exp_nonzero [of x 31] by simp_all

lemma status_bit_ints:
  "bit (0x40000000 :: int) 30" "\<not> bit (0x40000000 :: int) 31"
  "bit (0x80000000 :: int) 31" "\<not> bit (0x80000000 :: int) 30"
  by (simp_all add: bit_iff_odd)

lemma ai_frame_events [simp]:
  "ai_regs (add_interrupt_event t d s) = ai_regs s" "fifo0 (add_interrupt_event t d s) = fifo0 s"
  "fifo1 (add_interrupt_event t d s) = fifo1 s"
  by (simp_all add: add_interrupt_event_def add_interrupt_event_count_def set_fault_def split: option.split)

lemma ai_frame_count [simp]:
  "ai_regs (cp0_update_count s) = ai_regs s" "fifo0 (cp0_update_count s) = fifo0 s"
  "fifo1 (cp0_update_count s) = fifo1 s"
  by (simp_all add: cp0_update_count_def Let_def)

lemma ai_frame_format [simp]:
  "ai_regs (update_samples_format s) = ai_regs s" "fifo0 (update_samples_format s) = fifo0 s"
  "fifo1 (update_samples_format s) = fifo1 s"
  by (simp_all add: update_samples_format_def Let_def set_fault_def call_out_def)

lemma do_dma_frame [simp]:
  "ai_regs (do_dma s) = ai_regs s" "fifo1 (do_dma s) = fifo1 s"
  "dma_length (fifo0 (do_dma s)) = dma_length (fifo0 s)"
  "dma_duration (fifo0 (do_dma s)) = dma_duration (fifo0 s)"
  by (simp_all add: do_dma_def Let_def)

lemma blocks_do_dma [simp]: "blocks (do_dma s) = blocks s"
  by (simp add: blocks_def ai_busy_def ai_full_def)

lemma fifo_push_blocks:
  assumes "get_dma_duration s = Some d" "\<not> ai_full s"
  shows "blocks (fifo_push s) = blocks s @ [(ai_regs s AI_LEN_REG AND NOT 7, dma_modifier s d)]"
  using assms
  by (simp add: fifo_push_def Let_def ai_status_bits)
    (simp add: blocks_def ai_busy_def ai_full_def bit_or_iff status_bit_ints)

lemma fifo_pop_blocks:
  "ai_full s \<longrightarrow> ai_busy s \<Longrightarrow> blocks (fifo_pop s) = tl (blocks s)"
  by (simp add: fifo_pop_def ai_status_bits)
    (simp add: blocks_def ai_busy_def ai_full_def bit_and_iff bit_not_iff status_bit_ints)

lemma fifo_busy_when_full:
  "(ai_full s \<longrightarrow> ai_busy s) \<Longrightarrow> (ai_full (fifo_push s) \<longrightarrow> ai_busy (fifo_push s))"
  "(ai_full s \<longrightarrow> ai_busy s) \<Longrightarrow> (ai_full (fifo_pop s) \<longrightarrow> ai_busy (fifo_pop s))"
proof -
  assume a: "ai_full s \<longrightarrow> ai_busy s"
  have f: "ai_regs (set_fault s) = ai_regs s" by (simp add: set_fault_def)
  show "ai_full (fifo_push s) \<longrightarrow> ai_busy (fifo_push s)"
    using a by (auto simp: fifo_push_def Let_def ai_status_bits ai_full_def ai_busy_def bit_or_iff
      status_bit_ints f split: option.split)
  show "ai_full (fifo_pop s) \<longrightarrow> ai_busy (fifo_pop s)"
    using a by (auto simp: fifo_pop_def ai_status_bits ai_full_def ai_busy_def bit_and_iff bit_not_iff
      status_bit_ints)
qed

section \<open>Properties\<close>

text \<open>
  The busy and full flags with the two entries implement a bounded queue of DMA blocks:
  a push appends the block given by the length and DAC rate registers as long as the queue is
  not full, the end of a DMA drops the oldest block, and full always implies busy.
\<close>

theorem ai_fifo_is_queue:
  assumes "ai_full s \<longrightarrow> ai_busy s"
  shows "(get_dma_duration s = Some d \<and> \<not> ai_full s \<longrightarrow>
      blocks (fifo_push s) = blocks s @ [(ai_regs s AI_LEN_REG AND NOT 7, dma_modifier s d)]) \<and>
    blocks (fifo_pop s) = tl (blocks s) \<and>
    (ai_full (fifo_push s) \<longrightarrow> ai_busy (fifo_push s)) \<and> (ai_full (fifo_pop s) \<longrightarrow> ai_busy (fifo_pop s))"
  using assms fifo_push_blocks [of s d] fifo_pop_blocks [of s] fifo_busy_when_full [of s] by blast

definition sample_ai :: ai_controller where
  "sample_ai = vi_controller.extend sample_vi
     (ai_controller.fields ((\<lambda>_. 0)(AI_LEN_REG := 0x400, AI_DACRATE_REG := 1103))
       \<lparr>dma_address = 0, dma_length = 0, dma_duration = 0\<rparr> \<lparr>dma_address = 0, dma_length = 0, dma_duration = 0\<rparr>
       False 0 False (\<lambda>d. d))"

lemma sample_ai_simps:
  "ai_regs sample_ai = (\<lambda>_. 0)(AI_LEN_REG := 0x400, AI_DACRATE_REG := 1103)"
  "vi_clock sample_ai = 48681812" "vi_delay sample_ai = 811092" "vi_expected_refresh_rate sample_ai = 60"
  "dma_modifier sample_ai = (\<lambda>d. d)"
  by (simp_all add: sample_ai_def vi_controller.defs ai_controller.defs sample_vi_simps)

theorem ai_fifo_is_queue_witness:
  "blocks (fifo_push sample_ai) = [(0x400, 0x400 * 275)]"
proof -
  have e: "\<not> ai_full sample_ai" "\<not> ai_busy sample_ai" "blocks sample_ai = []"
    by (simp_all add: ai_full_def ai_busy_def blocks_def sample_ai_simps)
  have "get_dma_duration sample_ai = Some (0x400 * 275)"
    by (simp add: get_dma_duration_def sample_ai_simps)
  then show ?thesis
    using ai_fifo_is_queue [of sample_ai "0x400 * 275"] e by (simp add: sample_ai_simps)
qed

text \<open>
  A guest that programs a DAC rate of all ones, or one above the video clock, and then
  starts an audio DMA makes the emulator divide by zero.
\<close>

theorem ai_dma_divides_by_zero:
  assumes "ai_regs s AI_DACRATE_REG = 0xFFFFFFFF \<or> vi_clock s < 1 + ai_regs s AI_DACRATE_REG"
  shows "fault (fifo_push s)"
proof -
  have "vi_clock s div (1 + ai_regs s AI_DACRATE_REG) = 0" if "vi_clock s < 1 + ai_regs s AI_DACRATE_REG"
    using that by (simp add: word_arith_nat_div word_less_nat_alt)
  then show ?thesis using assms by (auto simp: fifo_push_def get_dma_duration_def Let_def)
qed

theorem ai_dma_divides_by_zero_witness:
  "fault (fifo_push (set_ai AI_DACRATE_REG 0xFFFFFFFF sample_ai))"
  by (rule ai_dma_divides_by_zero) simp

end
