(* ===== verification/Rsp.thy ===== *)
theory Rsp
  imports Ai
begin

text \<open>
  The signal processor's interface (\<^verbatim>\<open>src/src/device/rcp/rsp/rsp_core.c\<close>, \<^verbatim>\<open>rsp_core.h\<close>): status
  register, the two-entry DMA queue between DMEM/IMEM and RDRAM, the semaphore, and the start of
  a task. The processor itself is a plugin: what \<^verbatim>\<open>rsp.doRspCycles\<close> does to the machine is an
  argument, and so is the graphics plugin.
\<close>

abbreviation (input) SP_MEM_ADDR_REG :: nat where "SP_MEM_ADDR_REG \<equiv> 0"
abbreviation (input) SP_DRAM_ADDR_REG :: nat where "SP_DRAM_ADDR_REG \<equiv> 1"
abbreviation (input) SP_RD_LEN_REG :: nat where "SP_RD_LEN_REG \<equiv> 2"
abbreviation (input) SP_WR_LEN_REG :: nat where "SP_WR_LEN_REG \<equiv> 3"
abbreviation (input) SP_STATUS_REG :: nat where "SP_STATUS_REG \<equiv> 4"
abbreviation (input) SP_DMA_FULL_REG :: nat where "SP_DMA_FULL_REG \<equiv> 5"
abbreviation (input) SP_DMA_BUSY_REG :: nat where "SP_DMA_BUSY_REG \<equiv> 6"
abbreviation (input) SP_SEMAPHORE_REG :: nat where "SP_SEMAPHORE_REG \<equiv> 7"
abbreviation (input) SP_PC_REG :: nat where "SP_PC_REG \<equiv> 0"
abbreviation (input) SP_REGS2_COUNT :: nat where "SP_REGS2_COUNT \<equiv> 2"

abbreviation (input) SP_STATUS_HALT :: u32 where "SP_STATUS_HALT \<equiv> 0x0001"
abbreviation (input) SP_STATUS_BROKE :: u32 where "SP_STATUS_BROKE \<equiv> 0x0002"
abbreviation (input) SP_STATUS_DMA_BUSY :: u32 where "SP_STATUS_DMA_BUSY \<equiv> 0x0004"
abbreviation (input) SP_STATUS_DMA_FULL :: u32 where "SP_STATUS_DMA_FULL \<equiv> 0x0008"
abbreviation (input) SP_STATUS_SSTEP :: u32 where "SP_STATUS_SSTEP \<equiv> 0x0020"
abbreviation (input) SP_STATUS_INTR_BREAK :: u32 where "SP_STATUS_INTR_BREAK \<equiv> 0x0040"
abbreviation (input) SP_STATUS_TASKDONE :: u32 where "SP_STATUS_TASKDONE \<equiv> 0x0200"

datatype sp_dma_dir = SP_DMA_READ | SP_DMA_WRITE

record sp_dma =
  sd_dir :: sp_dma_dir
  sd_length :: u32
  sd_memaddr :: u32
  sd_dramaddr :: u32

record rsp_core = ai_controller +
  sp_mem :: "nat \<Rightarrow> u32"
  sp_regs :: regfile
  sp_regs2 :: regfile
  rsp_task_locked :: bool
  sp_fifo0 :: sp_dma
  sp_fifo1 :: sp_dma

definition set_sp :: "nat \<Rightarrow> u32 \<Rightarrow> 'a rsp_core_scheme \<Rightarrow> 'a rsp_core_scheme" where
  "set_sp r v s = s\<lparr>sp_regs := (sp_regs s)(r := v)\<rparr>"

definition set_sp2 :: "nat \<Rightarrow> u32 \<Rightarrow> 'a rsp_core_scheme \<Rightarrow> 'a rsp_core_scheme" where
  "set_sp2 r v s = s\<lparr>sp_regs2 := (sp_regs2 s)(r := v)\<rparr>"

definition rsp_mem_address :: "u32 \<Rightarrow> nat" where
  "rsp_mem_address address = reg_index 0x1fff address"

definition rsp_reg :: "u32 \<Rightarrow> nat" where
  "rsp_reg address = reg_index 0x1f address"

definition rsp_reg2 :: "u32 \<Rightarrow> nat" where
  "rsp_reg2 address = reg_index 0x1f address"

section \<open>DMA\<close>

text \<open>Byte positions \<^verbatim>\<open>(dramaddr^S8) & 0x7fffff\<close> and \<^verbatim>\<open>(memaddr^S8) & 0xfff\<close> (past \<^verbatim>\<open>memaddr & 0x1000\<close>).\<close>

definition dram_lane :: "u32 \<Rightarrow> nat" where
  "dram_lane a = unat ((a XOR S8) AND 0x7fffff)"

definition sp_lane :: "u32 \<Rightarrow> u32 \<Rightarrow> nat" where
  "sp_lane bank a = unat bank + unat ((a XOR S8) AND 0xfff)"

text \<open>One row of each direction; a row is \<open>(state, memaddr, dramaddr)\<close>.\<close>

definition sp_row_read ::
    "u32 \<Rightarrow> u32 \<Rightarrow> u32 \<Rightarrow> 'a rsp_core_scheme \<times> u32 \<times> u32 \<Rightarrow> 'a rsp_core_scheme \<times> u32 \<times> u32" where
  "sp_row_read bank len skip = (\<lambda>(s, memaddr, dramaddr).
     let s = s\<lparr>dram := fold (\<lambda>i m. set8 m (dram_lane (dramaddr + of_nat i)) (get8 (sp_mem s) (sp_lane bank (memaddr + of_nat i))))
                 [0..<unat len] (dram s)\<rparr>;
         memaddr = memaddr + len;
         dramaddr = dramaddr + len;
         s = (if dramaddr \<le> 0x800000 then post_framebuffer_write (dramaddr - len) (unat len) s else s)
     in (s, memaddr, dramaddr + skip))"

definition sp_row_write ::
    "u32 \<Rightarrow> u32 \<Rightarrow> u32 \<Rightarrow> 'a rsp_core_scheme \<times> u32 \<times> u32 \<Rightarrow> 'a rsp_core_scheme \<times> u32 \<times> u32" where
  "sp_row_write bank len skip = (\<lambda>(s, memaddr, dramaddr).
     let s = (if dramaddr < 0x800000 then pre_framebuffer_read dramaddr s else s);
         s = s\<lparr>sp_mem := fold (\<lambda>i m. set8 m (sp_lane bank (memaddr + of_nat i)) (get8 (dram s) (dram_lane (dramaddr + of_nat i))))
                 [0..<unat len] (sp_mem s)\<rparr>
     in (s, memaddr + len, dramaddr + len + skip))"

definition do_sp_dma :: "sp_dma \<Rightarrow> 'a rsp_core_scheme \<Rightarrow> 'a rsp_core_scheme" where
  "do_sp_dma dma s0 =
     (let l = sd_length dma;
          len = ((l AND 0xfff) OR 7) + 1;
          count = (drop_bit 12 l AND 0xff) + 1;
          skip = drop_bit 20 l AND 0xfff;
          memaddr = sd_memaddr dma AND 0xff8;
          dramaddr = sd_dramaddr dma AND 0xfffff8;
          bank = sd_memaddr dma AND 0x1000;
          row = (if sd_dir dma = SP_DMA_READ then sp_row_read bank len skip else sp_row_write bank len skip);
          (s, memaddr, dramaddr) = (row ^^ unat count) (s0, memaddr, dramaddr);
          s = set_sp SP_MEM_ADDR_REG (memaddr AND 0xfff) s;
          s = set_sp SP_DRAM_ADDR_REG (dramaddr AND 0xffffff) s;
          s = set_sp SP_RD_LEN_REG 0xff8 s;
          s = cp0_update_count s
      in add_interrupt_event RSP_DMA_EVT ((count * len) div 8) s)"

definition sp_request :: "sp_dma_dir \<Rightarrow> 'a rsp_core_scheme \<Rightarrow> sp_dma" where
  "sp_request dir s =
     \<lparr>sd_dir = dir,
      sd_length = (if dir = SP_DMA_READ then sp_regs s SP_WR_LEN_REG else sp_regs s SP_RD_LEN_REG),
      sd_memaddr = sp_regs s SP_MEM_ADDR_REG, sd_dramaddr = sp_regs s SP_DRAM_ADDR_REG\<rparr>"

definition sp_fifo_push :: "sp_dma_dir \<Rightarrow> 'a rsp_core_scheme \<Rightarrow> 'a rsp_core_scheme" where
  "sp_fifo_push dir s =
     (if sp_regs s SP_DMA_FULL_REG \<noteq> 0 then s
      else if sp_regs s SP_DMA_BUSY_REG \<noteq> 0
      then let s = s\<lparr>sp_fifo1 := sp_request dir s\<rparr>;
               s = set_sp SP_DMA_FULL_REG 1 s
           in set_sp SP_STATUS_REG (sp_regs s SP_STATUS_REG OR SP_STATUS_DMA_FULL) s
      else let s = s\<lparr>sp_fifo0 := sp_request dir s\<rparr>;
               s = set_sp SP_DMA_BUSY_REG 1 s;
               s = set_sp SP_STATUS_REG (sp_regs s SP_STATUS_REG OR SP_STATUS_DMA_BUSY) s
           in do_sp_dma (sp_fifo0 s) s)"

definition sp_fifo_pop :: "'a rsp_core_scheme \<Rightarrow> 'a rsp_core_scheme" where
  "sp_fifo_pop s =
     (if sp_regs s SP_DMA_FULL_REG \<noteq> 0
      then let s = s\<lparr>sp_fifo0 := sp_fifo1 s\<rparr>;
               s = set_sp SP_DMA_FULL_REG 0 s;
               s = set_sp SP_STATUS_REG (sp_regs s SP_STATUS_REG AND NOT SP_STATUS_DMA_FULL) s
           in do_sp_dma (sp_fifo0 s) s
      else let s = set_sp SP_DMA_BUSY_REG 0 s
           in set_sp SP_STATUS_REG (sp_regs s SP_STATUS_REG AND NOT SP_STATUS_DMA_BUSY) s)"

section \<open>Tasks\<close>

record 's rsp_plugin =
  rsp_doRspCycles :: "'s \<Rightarrow> 's"
  rsp_gfx :: "'s gfx_plugin"

definition run_rsp :: "'a rsp_core_scheme rsp_plugin \<Rightarrow> 'a rsp_core_scheme \<Rightarrow> 'a rsp_core_scheme" where
  "run_rsp p s0 =
     (let save_pc = sp_regs2 s0 SP_PC_REG AND NOT 0xfff;
          s = set_sp2 SP_PC_REG (sp_regs2 s0 SP_PC_REG AND 0xfff) s0;
          s = call_out (Rsp_cycles 0xffffffff) (rsp_doRspCycles p s)
      in set_sp2 SP_PC_REG (sp_regs2 s SP_PC_REG OR save_pc) s)"

text \<open>After a graphics task, the DP interrupt the plugin raised is delayed.\<close>

definition delay_dp_interrupt :: "'a rsp_core_scheme \<Rightarrow> 'a rsp_core_scheme" where
  "delay_dp_interrupt s0 =
     (if mi_regs s0 MI_INTR_REG AND MI_INTR_DP \<noteq> 0
      then let s = set_mi MI_INTR_REG (mi_regs s0 MI_INTR_REG AND NOT MI_INTR_DP) s0 in
        if dpc_status s AND DPC_STATUS_FREEZE \<noteq> 0
        then s\<lparr>do_on_unfreeze := do_on_unfreeze s OR DELAY_DP_INT\<rparr>
        else add_interrupt_event DP_INT 4000 (cp0_update_count s)
      else s0)"

definition set_task_locked :: "bool \<Rightarrow> 'a rsp_core_scheme \<Rightarrow> 'a rsp_core_scheme" where
  "set_task_locked b s =
     s\<lparr>rsp_task_locked := b, interrupt_unsafe_state :=
         (if b then interrupt_unsafe_state s OR INTR_UNSAFE_RSP else interrupt_unsafe_state s AND NOT INTR_UNSAFE_RSP)\<rparr>"

definition finish_sp_task :: "u32 \<Rightarrow> 'a rsp_core_scheme \<Rightarrow> 'a rsp_core_scheme" where
  "finish_sp_task sp_delay_time s0 =
     (let s = set_task_locked False s0;
          s = (if sp_regs s SP_STATUS_REG AND (SP_STATUS_HALT OR SP_STATUS_BROKE) = 0
               then let s = set_task_locked True s in set_mi MI_INTR_REG (mi_regs s MI_INTR_REG OR MI_INTR_SP) s
               else s);
          s = (if mi_regs s MI_INTR_REG AND MI_INTR_SP \<noteq> 0
               then let s = add_interrupt_event SP_INT sp_delay_time (cp0_update_count s)
                    in set_mi MI_INTR_REG (mi_regs s MI_INTR_REG AND NOT MI_INTR_SP) s
               else s)
      in set_sp SP_STATUS_REG
           (sp_regs s SP_STATUS_REG AND NOT (SP_STATUS_TASKDONE OR SP_STATUS_BROKE OR SP_STATUS_HALT)) s)"

definition do_SP_Task :: "'a rsp_core_scheme rsp_plugin \<Rightarrow> 'a rsp_core_scheme \<Rightarrow> 'a rsp_core_scheme" where
  "do_SP_Task p s =
     (if sp_mem s (0xfc0 div 4) = 1 then
        let s = unprotect_framebuffers s;
            s = call_out New_frame (run_rsp p s);
            s = delay_dp_interrupt s;
            s = protect_framebuffers (rsp_gfx p) s
        in finish_sp_task 1000 s
      else if sp_mem s (0xfc0 div 4) = 2 then finish_sp_task 4000 (run_rsp p s)
      else finish_sp_task 0 (run_rsp p s))"

section \<open>Registers\<close>

text \<open>\<^verbatim>\<open>if ((w & k) == c) r &= ~m; if ((w & k) == e) r |= m;\<close>\<close>

definition pair_update :: "u32 \<Rightarrow> u32 \<Rightarrow> u32 \<Rightarrow> u32 \<Rightarrow> u32 \<Rightarrow> u32 \<Rightarrow> u32" where
  "pair_update w k c e m r =
     (let r = (if w AND k = c then r AND NOT m else r) in if w AND k = e then r OR m else r)"

definition sp_status_bits1 :: "u32 \<Rightarrow> u32 \<Rightarrow> u32" where
  "sp_status_bits1 w r =
     (let r = pair_update w 0x3 0x1 0x2 SP_STATUS_HALT r in clr_if w 0x4 SP_STATUS_BROKE r)"

definition sp_status_bits2 :: "u32 \<Rightarrow> u32 \<Rightarrow> u32" where
  "sp_status_bits2 w r =
     (let r = pair_update w 0x60 0x20 0x40 SP_STATUS_SSTEP r;
          r = pair_update w 0x180 0x80 0x100 SP_STATUS_INTR_BREAK r;
          r = pair_update w 0x600 0x200 0x400 0x0080 r;
          r = pair_update w 0x1800 0x800 0x1000 0x0100 r;
          r = pair_update w 0x6000 0x2000 0x4000 0x0200 r;
          r = pair_update w 0x18000 0x8000 0x10000 0x0400 r;
          r = pair_update w 0x60000 0x20000 0x40000 0x0800 r;
          r = pair_update w 0x180000 0x80000 0x100000 0x1000 r;
          r = pair_update w 0x600000 0x200000 0x400000 0x2000 r
      in pair_update w 0x1800000 0x800000 0x1000000 0x4000 r)"

definition update_sp_status ::
    "'a rsp_core_scheme rsp_plugin \<Rightarrow> u32 \<Rightarrow> 'a rsp_core_scheme \<Rightarrow> 'a rsp_core_scheme" where
  "update_sp_status p w s0 =
     (let s = set_sp SP_STATUS_REG (sp_status_bits1 w (sp_regs s0 SP_STATUS_REG)) s0;
          s = (if w AND 0x18 = 0x8 then clear_rcp_interrupt MI_INTR_SP s else s);
          s = (if w AND 0x18 = 0x10 then signal_rcp_interrupt MI_INTR_SP s else s);
          s = set_sp SP_STATUS_REG (sp_status_bits2 w (sp_regs s SP_STATUS_REG)) s
      in if rsp_task_locked s \<and> get_event (cp0_q s) SP_INT = None then set_fault s
      else if rsp_task_locked s \<and> get_event (cp0_q s) SP_INT \<noteq> Some None then s
      else if \<not> w AND 0x3 = 1 \<and> w AND 0x4 = 0 \<and> \<not> rsp_task_locked s then s
      else if sp_regs s SP_STATUS_REG AND SP_STATUS_HALT = 0 then do_SP_Task p s
      else s)"

definition poweron_rsp :: "'a rsp_core_scheme \<Rightarrow> 'a rsp_core_scheme" where
  "poweron_rsp s =
     (let z = \<lparr>sd_dir = SP_DMA_READ, sd_length = 0, sd_memaddr = 0, sd_dramaddr = 0\<rparr>;
          s = s\<lparr>sp_mem := (\<lambda>_. 0), sp_regs := (\<lambda>_. 0), sp_regs2 := (\<lambda>_. 0), sp_fifo0 := z, sp_fifo1 := z\<rparr>;
          s = set_task_locked False s;
          s = set_sp SP_STATUS_REG 1 s;
          s = set_sp SP_RD_LEN_REG 0xff8 s
      in set_sp SP_WR_LEN_REG 0xff8 s)"

definition read_rsp_mem :: "u32 \<Rightarrow> 'a rsp_core_scheme \<Rightarrow> u32" where
  "read_rsp_mem address s = sp_mem s (rsp_mem_address address)"

definition write_rsp_mem :: "u32 \<Rightarrow> u32 \<Rightarrow> u32 \<Rightarrow> 'a rsp_core_scheme \<Rightarrow> 'a rsp_core_scheme" where
  "write_rsp_mem address value msk s =
     (let addr = rsp_mem_address address in
      s\<lparr>sp_mem := (sp_mem s)(addr := masked_write (sp_mem s addr) value msk)\<rparr>)"

definition read_rsp_regs :: "u32 \<Rightarrow> 'a rsp_core_scheme \<Rightarrow> u32 \<times> 'a rsp_core_scheme" where
  "read_rsp_regs address s =
     (let reg = rsp_reg address in
      (sp_regs s reg, if reg = SP_SEMAPHORE_REG then set_sp SP_SEMAPHORE_REG 1 s else s))"

definition write_rsp_regs ::
    "'a rsp_core_scheme rsp_plugin \<Rightarrow> u32 \<Rightarrow> u32 \<Rightarrow> u32 \<Rightarrow> 'a rsp_core_scheme \<Rightarrow> 'a rsp_core_scheme" where
  "write_rsp_regs p address value msk s0 =
     (let reg = rsp_reg address in
      if reg = SP_STATUS_REG then update_sp_status p (value AND msk) s0
      else if reg = SP_DMA_FULL_REG \<or> reg = SP_DMA_BUSY_REG then s0
      else let s = set_sp reg (masked_write (sp_regs s0 reg) value msk) s0 in
        if reg = SP_RD_LEN_REG then sp_fifo_push SP_DMA_WRITE s
        else if reg = SP_WR_LEN_REG then sp_fifo_push SP_DMA_READ s
        else if reg = SP_SEMAPHORE_REG then set_sp SP_SEMAPHORE_REG 0 s
        else s)"

definition read_rsp_regs2 :: "u32 \<Rightarrow> 'a rsp_core_scheme \<Rightarrow> u32 option" where
  "read_rsp_regs2 address s =
     (let reg = rsp_reg2 address in
      if reg = SP_PC_REG then Some (sp_regs2 s reg AND 0xffc)
      else if reg < SP_REGS2_COUNT then Some (sp_regs2 s reg) else None)"

definition write_rsp_regs2 :: "u32 \<Rightarrow> u32 \<Rightarrow> u32 \<Rightarrow> 'a rsp_core_scheme \<Rightarrow> 'a rsp_core_scheme" where
  "write_rsp_regs2 address value msk0 s =
     (let reg = rsp_reg2 address;
          msk = (if reg = SP_PC_REG then msk0 AND 0xffc else msk0)
      in if reg < SP_REGS2_COUNT then set_sp2 reg (masked_write (sp_regs2 s reg) value msk) s else s)"

definition rsp_interrupt_event :: "'a rsp_core_scheme \<Rightarrow> 'a rsp_core_scheme" where
  "rsp_interrupt_event s0 =
     (let s = (if \<not> rsp_task_locked s0
               then set_sp SP_STATUS_REG
                      (sp_regs s0 SP_STATUS_REG OR (SP_STATUS_TASKDONE OR SP_STATUS_BROKE OR SP_STATUS_HALT)) s0
               else s0)
      in if sp_regs s SP_STATUS_REG AND SP_STATUS_INTR_BREAK \<noteq> 0 then raise_rcp_interrupt MI_INTR_SP s else s)"

definition rsp_end_of_dma_event :: "'a rsp_core_scheme \<Rightarrow> 'a rsp_core_scheme" where
  "rsp_end_of_dma_event s = sp_fifo_pop s"

section \<open>Frames\<close>

lemma set_sp_simps [simp]:
  "sp_regs (set_sp r v s) = (sp_regs s)(r := v)" "cp0_q (set_sp r v s) = cp0_q s"
  "sp_mem (set_sp r v s) = sp_mem s" "dram (set_sp r v s) = dram s"
  "sp_fifo0 (set_sp r v s) = sp_fifo0 s" "sp_fifo1 (set_sp r v s) = sp_fifo1 s"
  "rsp_task_locked (set_sp r v s) = rsp_task_locked s"
  by (simp_all add: set_sp_def)

lemma sp_live_upd [simp]:
  "live (set_sp r v s) = live s" "live (set_sp2 r v s) = live s" "live (s\<lparr>sp_fifo0 := a\<rparr>) = live s"
  "live (s\<lparr>sp_fifo1 := a\<rparr>) = live s" "live (set_task_locked b s) = live s"
  "live (s\<lparr>do_on_unfreeze := d\<rparr>) = live s"
  by (simp_all add: live_def set_sp2_def set_task_locked_def)

lemma fold_frame: "(\<And>x s. f (g x s) = f s) \<Longrightarrow> f (fold g xs s) = f s"
  by (induction xs arbitrary: s) simp_all

lemma sp_log_frame [simp]:
  "cp0_q (call_out c s) = cp0_q s" "dram (call_out c s) = dram s" "sp_mem (call_out c s) = sp_mem s"
  "sp_regs (call_out c s) = sp_regs s" "sp_fifo0 (call_out c s) = sp_fifo0 s"
  "sp_fifo1 (call_out c s) = sp_fifo1 s"
  "cp0_q (set_fault s) = cp0_q s" "dram (set_fault s) = dram s" "sp_mem (set_fault s) = sp_mem s"
  "sp_regs (set_fault s) = sp_regs s" "sp_fifo0 (set_fault s) = sp_fifo0 s"
  "sp_fifo1 (set_fault s) = sp_fifo1 s"
  by (simp_all add: call_out_def set_fault_def)

lemma pre_read_frame [simp]:
  "cp0_q (pre_framebuffer_read a s) = cp0_q s" "dram (pre_framebuffer_read a s) = dram s"
  "sp_mem (pre_framebuffer_read a s) = sp_mem s" "sp_regs (pre_framebuffer_read a s) = sp_regs s"
  "sp_fifo0 (pre_framebuffer_read a s) = sp_fifo0 s" "sp_fifo1 (pre_framebuffer_read a s) = sp_fifo1 s"
  unfolding pre_framebuffer_read_def
  by (simp_all add: fold_frame pre_read_one_def Let_def)

lemma post_write_one_frame:
  "cp0_q (post_write_one a n i s) = cp0_q s" "dram (post_write_one a n i s) = dram s"
  "sp_mem (post_write_one a n i s) = sp_mem s" "sp_regs (post_write_one a n i s) = sp_regs s"
  "sp_fifo0 (post_write_one a n i s) = sp_fifo0 s" "sp_fifo1 (post_write_one a n i s) = sp_fifo1 s"
  unfolding post_write_one_def by (simp_all add: fold_frame)

lemma post_write_frame [simp]:
  "cp0_q (post_framebuffer_write a n s) = cp0_q s" "dram (post_framebuffer_write a n s) = dram s"
  "sp_mem (post_framebuffer_write a n s) = sp_mem s" "sp_regs (post_framebuffer_write a n s) = sp_regs s"
  "sp_fifo0 (post_framebuffer_write a n s) = sp_fifo0 s" "sp_fifo1 (post_framebuffer_write a n s) = sp_fifo1 s"
  unfolding post_framebuffer_write_def by (simp_all add: fold_frame post_write_one_frame)

lemma funpow_frame: "(\<And>x. f (g x) = f x) \<Longrightarrow> f ((g ^^ n) x) = f x"
  by (induction n) simp_all

lemma sp_row_frame:
  "cp0_q (fst (sp_row_read b l k x)) = cp0_q (fst x)" "cp0_q (fst (sp_row_write b l k x)) = cp0_q (fst x)"
  "sp_regs (fst (sp_row_read b l k x)) = sp_regs (fst x)" "sp_regs (fst (sp_row_write b l k x)) = sp_regs (fst x)"
  "sp_fifo0 (fst (sp_row_read b l k x)) = sp_fifo0 (fst x)" "sp_fifo0 (fst (sp_row_write b l k x)) = sp_fifo0 (fst x)"
  "sp_fifo1 (fst (sp_row_read b l k x)) = sp_fifo1 (fst x)" "sp_fifo1 (fst (sp_row_write b l k x)) = sp_fifo1 (fst x)"
  by (simp_all add: sp_row_read_def sp_row_write_def Let_def split_beta)

lemmas sp_rows_frame =
  funpow_frame [where f = "\<lambda>x. cp0_q (fst x)"] funpow_frame [where f = "\<lambda>x. sp_regs (fst x)"]
  funpow_frame [where f = "\<lambda>x. sp_fifo0 (fst x)"] funpow_frame [where f = "\<lambda>x. sp_fifo1 (fst x)"]

lemma sp_events_frame [simp]:
  "sp_regs (add_interrupt_event t d s) = sp_regs s" "sp_fifo0 (add_interrupt_event t d s) = sp_fifo0 s"
  "sp_fifo1 (add_interrupt_event t d s) = sp_fifo1 s"
  "dram (add_interrupt_event t d s) = dram s" "sp_mem (add_interrupt_event t d s) = sp_mem s"
  by (simp_all add: add_interrupt_event_def add_interrupt_event_count_def set_fault_def split: option.split)

lemma sp_count_frame [simp]:
  "sp_regs (cp0_update_count s) = sp_regs s" "sp_fifo0 (cp0_update_count s) = sp_fifo0 s"
  "sp_fifo1 (cp0_update_count s) = sp_fifo1 s"
  "dram (cp0_update_count s) = dram s" "sp_mem (cp0_update_count s) = sp_mem s"
  by (simp_all add: cp0_update_count_def Let_def)

section \<open>The queue stays well formed\<close>

lemma do_sp_dma_live: "live s \<Longrightarrow> live (do_sp_dma d s)"
proof -
  assume l: "live s"
  have r: "live (fst ((sp_row_read b n k ^^ m) (s, x))) = live s"
    "live (fst ((sp_row_write b n k ^^ m) (s, x))) = live s" for b n k m x
    by (simp_all add: live_def sp_rows_frame sp_row_frame)
  show ?thesis
    by (simp add: do_sp_dma_def Let_def split_beta add_interrupt_event_live r l)
qed

lemma sp_fifo_live: "live s \<Longrightarrow> live (sp_fifo_push dir s)" "live s \<Longrightarrow> live (sp_fifo_pop s)"
  by (simp_all add: sp_fifo_push_def sp_fifo_pop_def Let_def do_sp_dma_live)

lemma finish_sp_task_live: "live s \<Longrightarrow> live (finish_sp_task d s)"
  by (simp add: finish_sp_task_def Let_def add_interrupt_event_live)

lemma delay_dp_interrupt_live: "live s \<Longrightarrow> live (delay_dp_interrupt s)"
  by (simp add: delay_dp_interrupt_def Let_def add_interrupt_event_live)

text \<open>A task keeps the queue alive when the plugin does.\<close>

lemma do_SP_Task_live:
  assumes "live s" and rsp: "\<And>s. live s \<Longrightarrow> live (rsp_doRspCycles p s)"
  shows "live (do_SP_Task p s)"
proof -
  have run: "live s \<Longrightarrow> live (run_rsp p s)" for s by (simp add: run_rsp_def Let_def rsp)
  show ?thesis
    using assms(1) by (simp add: do_SP_Task_def Let_def run finish_sp_task_live delay_dp_interrupt_live fb_live)
qed

lemma update_sp_status_live:
  assumes "live s" and "\<And>s. live s \<Longrightarrow> live (rsp_doRspCycles p s)"
  shows "live (update_sp_status p w s)"
  using assms by (simp add: update_sp_status_def Let_def rcp_interrupt_live do_SP_Task_live)

lemma write_rsp_regs_live:
  assumes "live s" and "\<And>s. live s \<Longrightarrow> live (rsp_doRspCycles p s)"
  shows "live (write_rsp_regs p address value msk s)"
  using assms by (simp add: write_rsp_regs_def Let_def update_sp_status_live sp_fifo_live)

lemma rsp_interrupt_event_live: "live s \<Longrightarrow> live (rsp_interrupt_event s)"
  by (simp add: rsp_interrupt_event_def Let_def rcp_interrupt_live)

lemma rsp_end_of_dma_event_live: "live s \<Longrightarrow> live (rsp_end_of_dma_event s)"
  by (simp add: rsp_end_of_dma_event_def sp_fifo_live)

section \<open>What a DMA copies\<close>

lemma and_low_mask: "x AND 0x7fffff = take_bit 23 (x :: u32)" "x AND 0xfff = take_bit 12 x"
  by (simp_all add: take_bit_eq_mask mask_eq_exp_minus_1)

lemma unat_take_add: "n \<le> 32 \<Longrightarrow> unat (take_bit n (a + of_nat i :: u32)) = (unat a + i) mod 2 ^ n"
proof -
  assume "n \<le> 32"
  then have d: "(2 :: nat) ^ n dvd 2 ^ 32" by (rule le_imp_power_dvd)
  have "unat (a + of_nat i) = (unat a + i) mod 2 ^ 32"
    by (simp add: unat_word_ariths unsigned_of_nat take_bit_eq_mod mod_simps)
  moreover have "unat (take_bit n w) = unat w mod 2 ^ n" for w :: u32
    unfolding unsigned_take_bit_eq by (rule take_bit_eq_mod)
  ultimately show ?thesis by (simp only: mod_mod_cancel [OF d])
qed

lemma mod_add_inj: "(c + a) mod m = (c + b) mod m \<Longrightarrow> a < m \<Longrightarrow> b < m \<Longrightarrow> a = (b :: nat)"
proof -
  assume h: "(c + a) mod m = (c + b) mod m" "a < m" "b < m"
  have "int a mod int m = int b mod int m"
  proof -
    have "(int c + int a) mod int m = (int c + int b) mod int m"
      using h(1) by (metis of_nat_add of_nat_mod)
    then have "(int c + int a - int c) mod int m = (int c + int b - int c) mod int m"
      by (rule mod_diff_cong) simp
    then show ?thesis by simp
  qed
  then show ?thesis using h(2,3) by (metis mod_less of_nat_eq_iff of_nat_mod)
qed

lemma lane_inj:
  assumes "take_bit n ((a + of_nat i) XOR S8 :: u32) = take_bit n ((a + of_nat j) XOR S8)"
    and "n \<le> 32" "i < 2 ^ n" "j < 2 ^ n"
  shows "i = j"
proof -
  have x: "(x XOR k) XOR k = x" for x k :: u32 by (simp add: xor.assoc)
  have "take_bit n (a + of_nat i) XOR take_bit n S8 = take_bit n (a + of_nat j) XOR take_bit n S8"
    using assms(1) by (simp only: take_bit_xor)
  from arg_cong [OF this, of "\<lambda>y. y XOR take_bit n S8"]
  have "take_bit n (a + of_nat i) = take_bit n (a + of_nat j)" by (simp only: x)
  from arg_cong [OF this, of unat]
  have "(unat a + i) mod 2 ^ n = (unat a + j) mod 2 ^ n"
    by (simp only: unat_take_add [OF assms(2)])
  then show ?thesis using assms(3,4) by (rule mod_add_inj)
qed

lemma dram_lane_inj:
  "dram_lane (a + of_nat i) = dram_lane (a + of_nat j) \<Longrightarrow> i < 2 ^ 23 \<Longrightarrow> j < 2 ^ 23 \<Longrightarrow> i = j"
  using lane_inj [of 23 a i j] by (simp add: dram_lane_def and_low_mask word_unat_eq_iff)

lemma sp_lane_inj:
  "sp_lane b (a + of_nat i) = sp_lane b (a + of_nat j) \<Longrightarrow> i < 2 ^ 12 \<Longrightarrow> j < 2 ^ 12 \<Longrightarrow> i = j"
  using lane_inj [of 12 a i j] by (simp add: sp_lane_def and_low_mask word_unat_eq_iff)

text \<open>
  The \<open>k\<close>-th byte a transfer of rows of \<open>len\<close> bytes touches on the RDRAM side, the rows
  being \<open>skip\<close> bytes apart.
\<close>

definition strided :: "nat \<Rightarrow> nat \<Rightarrow> nat \<Rightarrow> nat" where
  "strided len skip k = (k div len) * (len + skip) + k mod len"

lemma strided_row [simp]: "i < len \<Longrightarrow> strided len skip (r * len + i) = r * (len + skip) + i"
  by (simp add: strided_def)

lemma strided_inj:
  assumes "strided len skip k = strided len skip k'" "0 < len"
  shows "k = k'"
proof -
  have m: "k mod len < len + skip" "k' mod len < len + skip"
    using mod_less_divisor [OF assms(2)] by (meson trans_less_add1)+
  then have "k div len = k' div len"
    using arg_cong [OF assms(1), of "\<lambda>x. x div (len + skip)"] assms(2) by (simp add: strided_def)
  moreover from this have "k mod len = k' mod len" using assms(1) by (simp add: strided_def)
  ultimately show ?thesis by (metis div_mult_mod_eq)
qed

lemma strided_less:
  assumes "k < n * len"
  shows "strided len skip k < n * (len + skip)"
proof -
  have l: "0 < len" using assms by (cases len) simp_all
  have "k div len < n" using assms l by (simp add: less_mult_imp_div_less)
  then have "(k div len + 1) * (len + skip) \<le> n * (len + skip)" by (intro mult_le_mono) simp_all
  moreover have "k mod len < len" using l by simp
  ultimately show ?thesis by (simp add: strided_def)
qed

lemma scatter_append:
  "words.scatter d f (n + m) x = words.scatter (\<lambda>i. d (n + i)) (\<lambda>i. f (n + i)) m (words.scatter d f n x)"
  by (induction m) (simp_all add: words.scatter_Suc words.scatter_def)

lemma scatter_cong:
  "(\<And>i. i < n \<Longrightarrow> d i = d' i) \<Longrightarrow> (\<And>i. i < n \<Longrightarrow> f i = f' i) \<Longrightarrow> words.scatter d f n x = words.scatter d' f' n x"
  by (induction n) (simp_all add: words.scatter_Suc words.scatter_def)

lemma row_scatter:
  "words.scatter (\<lambda>i. dram_lane (d + of_nat (strided (unat len) (unat skip) (n * unat len + i))))
      (\<lambda>i. get8 x (sp_lane bank (m + of_nat (n * unat len + i)))) (unat len) y =
    words.scatter (\<lambda>i. dram_lane (d + of_nat n * (len + skip) + of_nat i))
      (\<lambda>i. get8 x (sp_lane bank (m + of_nat n * len + of_nat i))) (unat len) y"
  "words.scatter (\<lambda>i. sp_lane bank (m + of_nat (n * unat len + i)))
      (\<lambda>i. get8 x (dram_lane (d + of_nat (strided (unat len) (unat skip) (n * unat len + i))))) (unat len) y =
    words.scatter (\<lambda>i. sp_lane bank (m + of_nat n * len + of_nat i))
      (\<lambda>i. get8 x (dram_lane (d + of_nat n * (len + skip) + of_nat i))) (unat len) y"
  by (rule scatter_cong; simp add: add.assoc)+

lemma sp_row_read_effect:
  "\<exists>s'. sp_row_read bank len skip (s, m, d) = (s', m + len, d + (len + skip)) \<and> sp_mem s' = sp_mem s \<and>
     dram s' = words.scatter (\<lambda>i. dram_lane (d + of_nat i)) (\<lambda>i. get8 (sp_mem s) (sp_lane bank (m + of_nat i)))
       (unat len) (dram s)"
  by (simp add: sp_row_read_def Let_def add.assoc flip: words.scatter_def)

lemma sp_row_write_effect:
  "\<exists>s'. sp_row_write bank len skip (s, m, d) = (s', m + len, d + (len + skip)) \<and> dram s' = dram s \<and>
     sp_mem s' = words.scatter (\<lambda>i. sp_lane bank (m + of_nat i)) (\<lambda>i. get8 (dram s) (dram_lane (d + of_nat i)))
       (unat len) (sp_mem s)"
  by (simp add: sp_row_write_def Let_def add.assoc flip: words.scatter_def)

lemma sp_rows_read:
  "\<exists>s'. (sp_row_read bank len skip ^^ n) (s, m, d) = (s', m + of_nat n * len, d + of_nat n * (len + skip)) \<and>
     sp_mem s' = sp_mem s \<and>
     dram s' = words.scatter (\<lambda>k. dram_lane (d + of_nat (strided (unat len) (unat skip) k)))
       (\<lambda>k. get8 (sp_mem s) (sp_lane bank (m + of_nat k))) (n * unat len) (dram s)"
proof (induction n)
  case (Suc n)
  then obtain s' where s': "(sp_row_read bank len skip ^^ n) (s, m, d) = (s', m + of_nat n * len, d + of_nat n * (len + skip))"
    "sp_mem s' = sp_mem s" "dram s' = words.scatter (\<lambda>k. dram_lane (d + of_nat (strided (unat len) (unat skip) k)))
       (\<lambda>k. get8 (sp_mem s) (sp_lane bank (m + of_nat k))) (n * unat len) (dram s)" by blast
  have e: "Suc n * unat len = n * unat len + unat len"
    "m + of_nat (Suc n) * len = m + of_nat n * len + len"
    "d + of_nat (Suc n) * (len + skip) = d + of_nat n * (len + skip) + (len + skip)" by (simp_all add: algebra_simps)
  show ?case
    using sp_row_read_effect [of bank len skip s' "m + of_nat n * len" "d + of_nat n * (len + skip)"]
    unfolding e scatter_append row_scatter by (simp add: s')
qed (simp add: words.scatter_def)

lemma sp_rows_write:
  "\<exists>s'. (sp_row_write bank len skip ^^ n) (s, m, d) = (s', m + of_nat n * len, d + of_nat n * (len + skip)) \<and>
     dram s' = dram s \<and>
     sp_mem s' = words.scatter (\<lambda>k. sp_lane bank (m + of_nat k))
       (\<lambda>k. get8 (dram s) (dram_lane (d + of_nat (strided (unat len) (unat skip) k)))) (n * unat len) (sp_mem s)"
proof (induction n)
  case (Suc n)
  then obtain s' where s': "(sp_row_write bank len skip ^^ n) (s, m, d) = (s', m + of_nat n * len, d + of_nat n * (len + skip))"
    "dram s' = dram s" "sp_mem s' = words.scatter (\<lambda>k. sp_lane bank (m + of_nat k))
       (\<lambda>k. get8 (dram s) (dram_lane (d + of_nat (strided (unat len) (unat skip) k)))) (n * unat len) (sp_mem s)" by blast
  have e: "Suc n * unat len = n * unat len + unat len"
    "m + of_nat (Suc n) * len = m + of_nat n * len + len"
    "d + of_nat (Suc n) * (len + skip) = d + of_nat n * (len + skip) + (len + skip)" by (simp_all add: algebra_simps)
  show ?case
    using sp_row_write_effect [of bank len skip s' "m + of_nat n * len" "d + of_nat n * (len + skip)"]
    unfolding e scatter_append row_scatter by (simp add: s')
qed (simp add: words.scatter_def)

text \<open>The number of rows, the bytes in a row and the gap between rows a length register asks for.\<close>

definition dma_rows :: "u32 \<Rightarrow> nat" where
  "dma_rows l = unat ((drop_bit 12 l AND 0xff) + 1)"

definition dma_row :: "u32 \<Rightarrow> nat" where
  "dma_row l = unat (((l AND 0xfff) OR 7) + 1)"

definition dma_skip :: "u32 \<Rightarrow> nat" where
  "dma_skip l = unat (drop_bit 20 l AND 0xfff)"

lemma dma_size_bounds: "dma_rows l \<le> 256" "dma_row l \<le> 4096" "dma_skip l \<le> 4095"
proof -
  have a: "unat (x AND 0xff :: u32) \<le> 255" "unat (y AND 0xfff :: u32) \<le> 4095" for x y
    using unat_and_le [of x "0xff"] unat_and_le [of y "0xfff"] by simp_all
  then show "dma_skip l \<le> 4095" by (simp add: dma_skip_def)
  show "dma_rows l \<le> 256" using a(1) [of "drop_bit 12 l"]
    unat_add_small [of "drop_bit 12 l AND 0xff" 1] by (simp add: dma_rows_def)
  have "(l AND 0xfff) OR 7 = ((l AND 0xfff) OR 7) AND 0xfff"
    by (rule bit_word_eqI) (auto simp: bit_or_iff bit_and_iff and_low_mask bit_take_bit_iff)
  then have "unat ((l AND 0xfff) OR 7) \<le> 4095" using a(2) by metis
  then show "dma_row l \<le> 4096" using unat_add_small [of "(l AND 0xfff) OR 7" 1] by (simp add: dma_row_def)
qed

lemma dma_span: "dma_rows l * (dma_row l + dma_skip l) \<le> 2 ^ 23"
  using mult_le_mono [OF dma_size_bounds(1) [of l], of "dma_row l + dma_skip l" "8192"] dma_size_bounds(2,3) [of l] by simp

lemma row_of_byte:
  assumes "k < n * len"
  obtains r i where "k = r * len + i" "r < n" "i < (len :: nat)"
proof
  have l: "0 < len" using assms by (cases len) simp_all
  show "k = k div len * len + k mod len" by simp
  show "k div len < n" using assms l by (simp add: less_mult_imp_div_less)
  show "k mod len < len" using l by simp
qed

lemma row_index_less: "r < n \<Longrightarrow> i < len \<Longrightarrow> r * len + i < n * (len :: nat)"
  using mult_le_mono1 [of "r + 1" n len] by simp

lemma do_sp_dma_read_mem:
  assumes "sd_dir d = SP_DMA_READ"
  shows "sp_mem (do_sp_dma d s) = sp_mem s"
    "dram (do_sp_dma d s) = words.scatter
       (\<lambda>k. dram_lane ((sd_dramaddr d AND 0xfffff8) + of_nat (strided (dma_row (sd_length d)) (dma_skip (sd_length d)) k)))
       (\<lambda>k. get8 (sp_mem s) (sp_lane (sd_memaddr d AND 0x1000) ((sd_memaddr d AND 0xff8) + of_nat k)))
       (dma_rows (sd_length d) * dma_row (sd_length d)) (dram s)"
  using sp_rows_read [where bank = "sd_memaddr d AND 0x1000" and len = "((sd_length d AND 0xfff) OR 7) + 1" and
      skip = "drop_bit 20 (sd_length d) AND 0xfff" and n = "dma_rows (sd_length d)" and s = s and
      m = "sd_memaddr d AND 0xff8" and d = "sd_dramaddr d AND 0xfffff8"] assms
  by (auto simp: do_sp_dma_def Let_def simp flip: dma_rows_def dma_row_def dma_skip_def)

lemma do_sp_dma_write_mem:
  assumes "sd_dir d = SP_DMA_WRITE"
  shows "dram (do_sp_dma d s) = dram s"
    "sp_mem (do_sp_dma d s) = words.scatter
       (\<lambda>k. sp_lane (sd_memaddr d AND 0x1000) ((sd_memaddr d AND 0xff8) + of_nat k))
       (\<lambda>k. get8 (dram s) (dram_lane ((sd_dramaddr d AND 0xfffff8) +
          of_nat (strided (dma_row (sd_length d)) (dma_skip (sd_length d)) k))))
       (dma_rows (sd_length d) * dma_row (sd_length d)) (sp_mem s)"
  using sp_rows_write [where bank = "sd_memaddr d AND 0x1000" and len = "((sd_length d AND 0xfff) OR 7) + 1" and
      skip = "drop_bit 20 (sd_length d) AND 0xfff" and n = "dma_rows (sd_length d)" and s = s and
      m = "sd_memaddr d AND 0xff8" and d = "sd_dramaddr d AND 0xfffff8"] assms
  by (auto simp: do_sp_dma_def Let_def simp flip: dma_rows_def dma_row_def dma_skip_def)

section \<open>The request queue as a list\<close>

definition sp_requests :: "'a rsp_core_scheme \<Rightarrow> sp_dma list" where
  "sp_requests s =
     (if sp_regs s SP_DMA_BUSY_REG \<noteq> 0
      then if sp_regs s SP_DMA_FULL_REG \<noteq> 0 then [sp_fifo0 s, sp_fifo1 s] else [sp_fifo0 s] else [])"

definition sp_flags_ok :: "'a rsp_core_scheme \<Rightarrow> bool" where
  "sp_flags_ok s \<longleftrightarrow> (sp_regs s SP_DMA_FULL_REG \<noteq> 0 \<longrightarrow> sp_regs s SP_DMA_BUSY_REG \<noteq> 0)"

lemma do_sp_dma_frame [simp]:
  "sp_fifo0 (do_sp_dma d s) = sp_fifo0 s" "sp_fifo1 (do_sp_dma d s) = sp_fifo1 s"
  "sp_regs (do_sp_dma d s) SP_DMA_BUSY_REG = sp_regs s SP_DMA_BUSY_REG"
  "sp_regs (do_sp_dma d s) SP_DMA_FULL_REG = sp_regs s SP_DMA_FULL_REG"
  by (simp_all add: do_sp_dma_def Let_def split_beta sp_rows_frame sp_row_frame)

section \<open>Properties\<close>

text \<open>
  C25. A DMA from the signal processor's memory to RDRAM copies every byte of every row to its
  place, rows apart by the skip length, and changes no other byte of RDRAM and no byte of the
  processor's memory. No transfer the length register can express overlaps itself.
\<close>

theorem sp_dma_to_rdram:
  assumes dir: "sd_dir d = SP_DMA_READ" and l: "l = sd_length d"
    and a: "a = (\<lambda>r i. dram_lane ((sd_dramaddr d AND 0xfffff8) + of_nat (r * (dma_row l + dma_skip l) + i)))"
  shows "(\<forall>r < dma_rows l. \<forall>i < dma_row l. get8 (dram (do_sp_dma d s)) (a r i) =
        get8 (sp_mem s) (sp_lane (sd_memaddr d AND 0x1000) ((sd_memaddr d AND 0xff8) + of_nat (r * dma_row l + i)))) \<and>
    (\<forall>b. (\<forall>r < dma_rows l. \<forall>i < dma_row l. a r i \<noteq> b) \<longrightarrow> get8 (dram (do_sp_dma d s)) b = get8 (dram s) b) \<and>
    sp_mem (do_sp_dma d s) = sp_mem s"
proof (intro conjI allI impI)
  let ?n = "dma_rows l * dma_row l"
  let ?d = "\<lambda>k. dram_lane ((sd_dramaddr d AND 0xfffff8) + of_nat (strided (dma_row l) (dma_skip l) k))"
  have small: "strided (dma_row l) (dma_skip l) k < 2 ^ 23" if "k < ?n" for k
    using strided_less [OF that, of "dma_skip l"] dma_span [of l] by linarith
  have inj: "inj_on ?d {0..<?n}"
  proof (rule inj_onI)
    fix k k' assume k: "k \<in> {0..<?n}" "k' \<in> {0..<?n}" "?d k = ?d k'"
    then have "0 < dma_row l" by (cases "dma_row l") simp_all
    then show "k = k'" using k small dram_lane_inj [OF k(3)] strided_inj by simp
  qed
  fix r i assume r: "r < dma_rows l" and i: "i < dma_row l"
  show "get8 (dram (do_sp_dma d s)) (a r i) =
      get8 (sp_mem s) (sp_lane (sd_memaddr d AND 0x1000) ((sd_memaddr d AND 0xff8) + of_nat (r * dma_row l + i)))"
    using words.scatter_same [OF inj row_index_less [OF r i]] i
    by (simp add: do_sp_dma_read_mem(2) [OF dir] a flip: l)
next
  fix b assume b: "\<forall>r < dma_rows l. \<forall>i < dma_row l. a r i \<noteq> b"
  have "dram_lane ((sd_dramaddr d AND 0xfffff8) + of_nat (strided (dma_row l) (dma_skip l) k)) \<noteq> b"
    if "k < dma_rows l * dma_row l" for k
    using that b by (elim row_of_byte) (simp only: a strided_row not_False_eq_True)
  then show "get8 (dram (do_sp_dma d s)) b = get8 (dram s) b"
    unfolding do_sp_dma_read_mem(2) [OF dir] l [symmetric] by (rule words.scatter_other)
qed (rule do_sp_dma_read_mem(1) [OF dir])

definition sample_rsp :: rsp_core where
  "sample_rsp = ai_controller.extend sample_ai
     (rsp_core.fields (\<lambda>w. of_nat w) (\<lambda>_. 0) (\<lambda>_. 0) False
        \<lparr>sd_dir = SP_DMA_READ, sd_length = 0, sd_memaddr = 0, sd_dramaddr = 0\<rparr>
        \<lparr>sd_dir = SP_DMA_READ, sd_length = 0, sd_memaddr = 0, sd_dramaddr = 0\<rparr>)"

lemma sample_rsp_mem: "sp_mem sample_rsp = (\<lambda>w. of_nat w)"
  by (simp add: sample_rsp_def ai_controller.defs rsp_core.defs)

theorem sp_dma_to_rdram_witness:
  "get8 (dram (do_sp_dma \<lparr>sd_dir = SP_DMA_READ, sd_length = 0x00801007, sd_memaddr = 0x20, sd_dramaddr = 0x1000\<rparr> sample_rsp))
     (dram_lane 0x1017) = 0x0b"
proof -
  let ?d = "\<lparr>sd_dir = SP_DMA_READ, sd_length = 0x00801007, sd_memaddr = 0x20, sd_dramaddr = 0x1000\<rparr>"
  have z: "dma_rows 0x00801007 = 2" "dma_row 0x00801007 = 8" "dma_skip 0x00801007 = 8"
    by (simp_all add: dma_rows_def dma_row_def dma_skip_def drop_bit_eq_div)
  have "get8 (sp_mem sample_rsp) (sp_lane 0 0x2f) = 0x0b"
    by (simp add: sample_rsp_mem sp_lane_def S8_def get8_def)
  then show ?thesis
    using sp_dma_to_rdram [where d = ?d and s = sample_rsp, OF _ refl refl, THEN conjunct1, rule_format, of 1 7]
    by (simp add: z)
qed

text \<open>
  A DMA from RDRAM that fits into the 4 KiB bank it targets gathers the rows back to back:
  byte \<open>i\<close> of row \<open>r\<close> lands behind the rows before it, every other byte of the processor's memory
  and all of RDRAM are left alone.
\<close>

theorem sp_dma_from_rdram:
  assumes dir: "sd_dir d = SP_DMA_WRITE" and l: "l = sd_length d" and fits: "dma_rows l * dma_row l \<le> 0x1000"
    and a: "a = (\<lambda>k. sp_lane (sd_memaddr d AND 0x1000) ((sd_memaddr d AND 0xff8) + of_nat k))"
  shows "(\<forall>r < dma_rows l. \<forall>i < dma_row l. get8 (sp_mem (do_sp_dma d s)) (a (r * dma_row l + i)) =
        get8 (dram s) (dram_lane ((sd_dramaddr d AND 0xfffff8) + of_nat (r * (dma_row l + dma_skip l) + i)))) \<and>
    (\<forall>b. (\<forall>k < dma_rows l * dma_row l. a k \<noteq> b) \<longrightarrow> get8 (sp_mem (do_sp_dma d s)) b = get8 (sp_mem s) b) \<and>
    dram (do_sp_dma d s) = dram s"
proof (intro conjI allI impI)
  have inj: "inj_on a {0..<dma_rows l * dma_row l}"
    using fits sp_lane_inj by (auto simp: a inj_on_def)
  fix r i assume r: "r < dma_rows l" and i: "i < dma_row l"
  show "get8 (sp_mem (do_sp_dma d s)) (a (r * dma_row l + i)) =
      get8 (dram s) (dram_lane ((sd_dramaddr d AND 0xfffff8) + of_nat (r * (dma_row l + dma_skip l) + i)))"
    using words.scatter_same [OF inj row_index_less [OF r i], where m = "sp_mem s"] i
    by (simp only: do_sp_dma_write_mem(2) [OF dir] strided_row flip: l a)
next
  fix b assume "\<forall>k < dma_rows l * dma_row l. a k \<noteq> b"
  then show "get8 (sp_mem (do_sp_dma d s)) b = get8 (sp_mem s) b"
    unfolding do_sp_dma_write_mem(2) [OF dir] l [symmetric] a [symmetric] by (intro words.scatter_other) blast
qed (rule do_sp_dma_write_mem(1) [OF dir])

theorem sp_dma_from_rdram_witness:
  "get8 (sp_mem (do_sp_dma \<lparr>sd_dir = SP_DMA_WRITE, sd_length = 0x1007, sd_memaddr = 0x1020, sd_dramaddr = 0x1000\<rparr>
      (sample_rsp\<lparr>dram := (\<lambda>w. of_nat w)\<rparr>))) (sp_lane 0x1000 0x2f) = 0x03"
proof -
  let ?d = "\<lparr>sd_dir = SP_DMA_WRITE, sd_length = 0x1007, sd_memaddr = 0x1020, sd_dramaddr = 0x1000\<rparr>"
  have z: "dma_rows 0x1007 = 2" "dma_row 0x1007 = 8" "dma_skip 0x1007 = 0"
    by (simp_all add: dma_rows_def dma_row_def dma_skip_def drop_bit_eq_div)
  have "get8 (\<lambda>w. of_nat w) (dram_lane 0x100f) = 0x03" by (simp add: dram_lane_def S8_def get8_def)
  then show ?thesis
    using sp_dma_from_rdram [where d = ?d and s = "sample_rsp\<lparr>dram := (\<lambda>w. of_nat w)\<rparr>", OF _ refl _ refl,
        THEN conjunct1, rule_format, of 1 7]
    by (simp add: z)
qed

text \<open>
  C26. The busy and full registers with the two entries implement a queue of at most two DMA
  requests: a push appends the request the registers describe, a push to a full queue is dropped,
  and the end of a DMA removes the oldest request. The flags stay consistent.
\<close>

theorem sp_fifo_is_queue:
  assumes "sp_flags_ok s"
  shows "sp_requests (sp_fifo_push dir s) =
      (if length (sp_requests s) < 2 then sp_requests s @ [sp_request dir s] else sp_requests s) \<and>
    sp_requests (sp_fifo_pop s) = tl (sp_requests s) \<and>
    sp_flags_ok (sp_fifo_push dir s) \<and> sp_flags_ok (sp_fifo_pop s)"
  using assms
  by (auto simp: sp_flags_ok_def sp_requests_def sp_fifo_push_def sp_fifo_pop_def Let_def)

theorem sp_fifo_is_queue_witness:
  "sp_requests (sp_fifo_push SP_DMA_WRITE sample_rsp) = [sp_request SP_DMA_WRITE sample_rsp]"
proof -
  have "sp_requests sample_rsp = []" "sp_flags_ok sample_rsp"
    by (simp_all add: sp_requests_def sp_flags_ok_def sample_rsp_def ai_controller.defs rsp_core.defs)
  then show ?thesis using sp_fifo_is_queue [of sample_rsp SP_DMA_WRITE] by simp
qed

text \<open>
  The semaphore register is a test-and-set lock: a read returns the old value and takes the
  lock, so the second of two reads sees it taken; a write, whatever its value, releases it.
\<close>

theorem sp_semaphore_test_and_set:
  assumes "rsp_reg address = SP_SEMAPHORE_REG"
  shows "fst (read_rsp_regs address s) = sp_regs s SP_SEMAPHORE_REG \<and>
    fst (read_rsp_regs address (snd (read_rsp_regs address s))) = 1 \<and>
    fst (read_rsp_regs address (write_rsp_regs p address value msk s)) = 0"
  using assms by (simp add: read_rsp_regs_def write_rsp_regs_def Let_def)

theorem sp_semaphore_test_and_set_witness:
  "fst (read_rsp_regs 0xa404001c (snd (read_rsp_regs 0xa404001c sample_rsp))) = 1"
proof -
  have "rsp_reg 0xa404001c = SP_SEMAPHORE_REG" by (simp add: rsp_reg_def reg_index_def drop_bit_eq_div)
  from sp_semaphore_test_and_set [OF this, of sample_rsp] show ?thesis by blast
qed

end
