(* ===== verification/Pif.thy ===== *)
theory Pif
  imports Rsp
begin

text \<open>
  The serial interface and the PIF (\<^verbatim>\<open>src/src/device/rcp/si/si_controller.c\<close>,
  \<^verbatim>\<open>src/src/device/pif/pif.c\<close>, \<^verbatim>\<open>cic.c\<close> and \<^verbatim>\<open>n64_cic_nus_6105.c\<close>). They point at each other in C and
  are one record here: the PIF memory (ROM and, from 0x7c0 on, 64 bytes of RAM), its five channels
  and the registers of the interface.

  A channel holds pointers into the PIF RAM, or into the static \<^verbatim>\<open>dummy_reset_buffer\<close>; the model keeps
  where they point and the offset of the receive buffer. A device sees the bytes from its \<^verbatim>\<open>tx\<close>
  pointer on, so that a command whose buffers overlap, or run past the RAM, acts as in C: the bytes
  behind the RAM are bytes of the block of memory the PIF memory lives in. The devices behind the
  channels are an argument (\<^verbatim>\<open>joybus_device_interface\<close>); so are the two calls of the input plugin at
  the end of a command. Net play is off.
\<close>

section \<open>The lock-out chip\<close>

datatype cic_version =
  CIC_X101 | CIC_X102 | CIC_X103 | CIC_X105 | CIC_X106 | CIC_5101 | CIC_5167 | CIC_8303 | CIC_8401 | CIC_8501

record cic =
  cic_version_of :: cic_version
  cic_seed :: u32

definition cics :: "cic list" where
  "cics = [\<lparr>cic_version_of = CIC_5101, cic_seed = 0xac\<rparr>, \<lparr>cic_version_of = CIC_X101, cic_seed = 0x3f\<rparr>,
     \<lparr>cic_version_of = CIC_X102, cic_seed = 0x3f\<rparr>, \<lparr>cic_version_of = CIC_X103, cic_seed = 0x78\<rparr>,
     \<lparr>cic_version_of = CIC_X105, cic_seed = 0x91\<rparr>, \<lparr>cic_version_of = CIC_X106, cic_seed = 0x85\<rparr>,
     \<lparr>cic_version_of = CIC_5167, cic_seed = 0xdd\<rparr>, \<lparr>cic_version_of = CIC_8303, cic_seed = 0xdd\<rparr>,
     \<lparr>cic_version_of = CIC_8401, cic_seed = 0xdd\<rparr>, \<lparr>cic_version_of = CIC_8501, cic_seed = 0xde\<rparr>]"

definition cic_of_crc :: "u64 \<Rightarrow> nat" where
  "cic_of_crc crc =
     (if crc = 0x000000D057C85244 then 2
      else if crc = 0x000000D0027FDF31 \<or> crc = 0x000000CFFB631223 then 1
      else if crc = 0x000000D6497E414B then 3
      else if crc = 0x0000011A49F60E96 then 4
      else if crc = 0x000000D6D5BE5580 then 5
      else if crc = 0x000001053BC19870 then 6
      else if crc = 0x000000A5F80BF620 then 0
      else if crc = 0x000000D2E53EF008 then 7
      else if crc = 0x000000D2E53EF39F then 8
      else if crc = 0x000000D2E53E5DDA then 9
      else 2)"

definition init_cic_using_ipl3 :: "(nat \<Rightarrow> u32) \<Rightarrow> cic" where
  "init_cic_using_ipl3 ipl3 = cics ! cic_of_crc (\<Sum>i \<leftarrow> [0..<0xfc0 div 4]. ucast (ipl3 i))"

text \<open>The challenge and response of the 6105 chip, nibble by nibble.\<close>

definition lut0 :: "u8 list" where
  "lut0 = [0x4, 0x7, 0xA, 0x7, 0xE, 0x5, 0xE, 0x1, 0xC, 0xF, 0x8, 0xF, 0x6, 0x3, 0x6, 0x9]"

definition lut1 :: "u8 list" where
  "lut1 = [0x4, 0x1, 0xA, 0x7, 0xE, 0x5, 0xE, 0x1, 0xC, 0x9, 0x8, 0x5, 0x6, 0x3, 0xC, 0x9]"

text \<open>The table to use next; \<open>l1\<close> says that the current one is \<^verbatim>\<open>lut1\<close>.\<close>

definition next_lut :: "bool \<Rightarrow> u8 \<Rightarrow> bool" where
  "next_lut l1 r =
     (let sgn = drop_bit 3 r AND 1;
          mag = (if sgn = 1 then NOT r else r) AND 7;
          md = (if mag mod 3 = 1 then sgn else 1 - sgn);
          md = (if l1 \<and> (r = 0x1 \<or> r = 0x9) then 1 else md);
          md = (if l1 \<and> (r = 0xB \<or> r = 0xE) then 0 else md)
      in md = 1)"

fun cic_6105_steps :: "u8 \<Rightarrow> bool \<Rightarrow> u8 list \<Rightarrow> u8 list" where
  "cic_6105_steps key l1 [] = []"
| "cic_6105_steps key l1 (c # cs) =
     (let r = (key + 5 * c) AND 0xF
      in r # cic_6105_steps ((if l1 then lut1 else lut0) ! unat r) (next_lut l1 r) cs)"

definition n64_cic_nus_6105 :: "u8 list \<Rightarrow> u8 list" where
  "n64_cic_nus_6105 chl = cic_6105_steps 0xB False chl"

section \<open>State\<close>

abbreviation (input) SI_DRAM_ADDR_REG :: nat where "SI_DRAM_ADDR_REG \<equiv> 0"
abbreviation (input) SI_PIF_ADDR_RD64B_REG :: nat where "SI_PIF_ADDR_RD64B_REG \<equiv> 1"
abbreviation (input) SI_PIF_ADDR_WR64B_REG :: nat where "SI_PIF_ADDR_WR64B_REG \<equiv> 4"
abbreviation (input) SI_STATUS_REG :: nat where "SI_STATUS_REG \<equiv> 6"
abbreviation (input) SI_REGS_COUNT :: nat where "SI_REGS_COUNT \<equiv> 7"
abbreviation (input) SI_STATUS_DMA_BUSY :: u32 where "SI_STATUS_DMA_BUSY \<equiv> 0x0001"
abbreviation (input) SI_STATUS_IO_BUSY :: u32 where "SI_STATUS_IO_BUSY \<equiv> 0x0002"
abbreviation (input) SI_STATUS_DMA_ERROR :: u32 where "SI_STATUS_DMA_ERROR \<equiv> 0x0008"
abbreviation (input) SI_STATUS_INTERRUPT :: u32 where "SI_STATUS_INTERRUPT \<equiv> 0x1000"
abbreviation (input) PIF_ROM_SIZE :: nat where "PIF_ROM_SIZE \<equiv> 0x7c0"
abbreviation (input) PIF_RAM_SIZE :: nat where "PIF_RAM_SIZE \<equiv> 0x40"
abbreviation (input) PIF_CHANNELS_COUNT :: nat where "PIF_CHANNELS_COUNT \<equiv> 5"

datatype si_dma_dir = SI_NO_DMA | SI_DMA_READ | SI_DMA_WRITE

text \<open>\<open>Chan_ram i\<close> is \<^verbatim>\<open>&pif->ram[i]\<close>, \<open>Chan_reset k\<close> is \<^verbatim>\<open>dummy_reset_buffer[k]\<close>.\<close>

datatype chan_ptr = Chan_null | Chan_ram nat | Chan_reset nat

record pif_channel =
  ch_tx :: chan_ptr
  ch_rx_off :: nat

record pif = rsp_core +
  si_regs :: regfile
  si_dma_dir_of :: si_dma_dir
  si_dma_duration :: u32
  pif_base :: "nat \<Rightarrow> u8"
  pif_channels :: "nat \<Rightarrow> pif_channel"
  pif_reset_buffer :: "nat \<Rightarrow> u8"
  pif_cic :: cic

text \<open>
  \<^verbatim>\<open>process\<close> and \<^verbatim>\<open>post_setup\<close> take the offset of \<^verbatim>\<open>rx_buf\<close> and the bytes from \<^verbatim>\<open>tx\<close> on: byte 0 is
  \<^verbatim>\<open>*tx\<close>, byte 1 \<^verbatim>\<open>*rx\<close>, byte 2 the first of \<^verbatim>\<open>tx_buf\<close>.
\<close>

type_synonym 's joybus_op = "nat \<Rightarrow> (nat \<Rightarrow> u8) \<times> 's \<Rightarrow> (nat \<Rightarrow> u8) \<times> 's"

record 's joybus_device =
  jd_process :: "'s joybus_op"
  jd_post_setup :: "'s joybus_op option"

record 's joybus =
  jb_device :: "nat \<Rightarrow> 's joybus_device option"
  jb_controllerCommand :: "'s \<Rightarrow> 's"
  jb_readController :: "'s \<Rightarrow> 's"

definition pif_ram :: "'a pif_scheme \<Rightarrow> nat \<Rightarrow> u8" where
  "pif_ram s i = pif_base s (PIF_ROM_SIZE + i)"

definition set_pif_ram :: "nat \<Rightarrow> u8 \<Rightarrow> 'a pif_scheme \<Rightarrow> 'a pif_scheme" where
  "set_pif_ram i v s = s\<lparr>pif_base := (pif_base s)(PIF_ROM_SIZE + i := v)\<rparr>"

definition set_si :: "nat \<Rightarrow> u32 \<Rightarrow> 'a pif_scheme \<Rightarrow> 'a pif_scheme" where
  "set_si r v s = s\<lparr>si_regs := (si_regs s)(r := v)\<rparr>"

section \<open>Channels\<close>

definition chan_view :: "chan_ptr \<Rightarrow> 'a pif_scheme \<Rightarrow> nat \<Rightarrow> u8" where
  "chan_view p s j =
     (case p of Chan_null \<Rightarrow> 0 | Chan_ram i \<Rightarrow> pif_ram s (i + j) | Chan_reset k \<Rightarrow> pif_reset_buffer s (6 * k + j))"

definition chan_store :: "chan_ptr \<Rightarrow> (nat \<Rightarrow> u8) \<Rightarrow> 'a pif_scheme \<Rightarrow> 'a pif_scheme" where
  "chan_store p v s =
     (case p of
        Chan_null \<Rightarrow> s
      | Chan_ram i \<Rightarrow> s\<lparr>pif_base := (\<lambda>a. if PIF_ROM_SIZE + i \<le> a then v (a - (PIF_ROM_SIZE + i)) else pif_base s a)\<rparr>
      | Chan_reset k \<Rightarrow> s\<lparr>pif_reset_buffer := (\<lambda>a. if 6 * k \<le> a then v (a - 6 * k) else pif_reset_buffer s a)\<rparr>)"

text \<open>Hand the channel's bytes to a device operation and put them back.\<close>

definition on_channel :: "nat \<Rightarrow> 'a pif_scheme joybus_op \<Rightarrow> 'a pif_scheme \<Rightarrow> 'a pif_scheme" where
  "on_channel k f s =
     (let c = pif_channels s k; (v, s') = f (ch_rx_off c) (chan_view (ch_tx c) s, s) in chan_store (ch_tx c) v s')"

definition process_channel :: "'a pif_scheme joybus \<Rightarrow> nat \<Rightarrow> 'a pif_scheme \<Rightarrow> 'a pif_scheme" where
  "process_channel jb k s =
     (if ch_tx (pif_channels s k) = Chan_null then s
      else on_channel k (\<lambda>rxo (v, s).
        let v = v(0 := v 0 AND 0x3f); v = v(1 := v 1 AND 0x3f) in
        case jb_device jb k of
          None \<Rightarrow> (v(1 := v 1 OR 0x80), s)
        | Some d \<Rightarrow> jd_process d rxo (v, s)) s)"

definition post_setup_channel :: "'a pif_scheme joybus \<Rightarrow> nat \<Rightarrow> 'a pif_scheme \<Rightarrow> 'a pif_scheme" where
  "post_setup_channel jb k s =
     (case jb_device jb k of
        None \<Rightarrow> s
      | Some d \<Rightarrow> (case jd_post_setup d of None \<Rightarrow> s | Some f \<Rightarrow> on_channel k f s))"

definition disable_pif_channel :: "nat \<Rightarrow> 'a pif_scheme \<Rightarrow> 'a pif_scheme" where
  "disable_pif_channel k s =
     s\<lparr>pif_channels := (pif_channels s)(k := \<lparr>ch_tx = Chan_null, ch_rx_off = 0\<rparr>)\<rparr>"

definition setup_pif_channel ::
    "'a pif_scheme joybus \<Rightarrow> nat \<Rightarrow> chan_ptr \<Rightarrow> 'a pif_scheme \<Rightarrow> nat \<times> 'a pif_scheme" where
  "setup_pif_channel jb k buf s =
     (let tx = unat (chan_view buf s 0 AND 0x3f);
          rx = unat (chan_view buf s 1 AND 0x3f);
          s = s\<lparr>pif_channels := (pif_channels s)(k := \<lparr>ch_tx = buf, ch_rx_off = 2 + tx\<rparr>)\<rparr>
      in (2 + tx + rx, post_setup_channel jb k s))"

definition setup_reset_channel :: "'a pif_scheme joybus \<Rightarrow> nat \<Rightarrow> 'a pif_scheme \<Rightarrow> 'a pif_scheme" where
  "setup_reset_channel jb k s =
     (let b = (pif_reset_buffer s)(6 * k := 0x01, 6 * k + 1 := 0x03, 6 * k + 2 := 0xff)
      in snd (setup_pif_channel jb k (Chan_reset k) (s\<lparr>pif_reset_buffer := b\<rparr>)))"

function setup_loop :: "'a pif_scheme joybus \<Rightarrow> nat \<Rightarrow> nat \<Rightarrow> 'a pif_scheme \<Rightarrow> 'a pif_scheme" where
  "setup_loop jb i k s =
     (if i < PIF_RAM_SIZE \<and> k < PIF_CHANNELS_COUNT then
        let b = pif_ram s i in
        if b = 0x00 then setup_loop jb (i + 1) (k + 1) (disable_pif_channel k s)
        else if b = 0xff then setup_loop jb (i + 1) k s
        else if b = 0xfe then fold disable_pif_channel [k..<PIF_CHANNELS_COUNT] s
        else if b = 0xfd then setup_loop jb (i + 1) (k + 1) (setup_reset_channel jb k s)
        else if i + 1 < PIF_RAM_SIZE \<and> pif_ram s (i + 1) = 0xfe then setup_loop jb (i + 1) k s
        else if i + 2 \<ge> PIF_RAM_SIZE then s
        else let (n, s') = setup_pif_channel jb k (Chan_ram i) s in setup_loop jb (i + n) (k + 1) s'
      else s)"
  by pat_completeness auto

termination
  by (relation "measure (\<lambda>(jb, i, k, s). (PIF_RAM_SIZE - i) + (PIF_CHANNELS_COUNT - k))") auto

declare setup_loop.simps [simp del]

definition setup_channels_format :: "'a pif_scheme joybus \<Rightarrow> 'a pif_scheme \<Rightarrow> 'a pif_scheme" where
  "setup_channels_format jb s = jb_controllerCommand jb (setup_loop jb 0 0 s)"

section \<open>PIF commands\<close>

definition cic_challenge :: "'a pif_scheme \<Rightarrow> u8 list" where
  "cic_challenge s = concat (map (\<lambda>i. [drop_bit 4 (pif_ram s (0x30 + i)) AND 0x0f, pif_ram s (0x30 + i) AND 0x0f]) [0..<15])"

definition process_cic_challenge :: "'a pif_scheme \<Rightarrow> 'a pif_scheme" where
  "process_cic_challenge s0 =
     (let response = n64_cic_nus_6105 (cic_challenge s0);
          s = set_pif_ram 0x2f 0 (set_pif_ram 0x2e 0 s0)
      in fold (\<lambda>i. set_pif_ram (0x30 + i) (push_bit 4 (response ! (2 * i)) + response ! (2 * i + 1))) [0..<15] s)"

definition process_pif_ram :: "'a pif_scheme joybus \<Rightarrow> 'a pif_scheme \<Rightarrow> 'a pif_scheme" where
  "process_pif_ram jb s0 =
     (let flags = pif_ram s0 0x3f in
      if flags = 0 then s0
      else
        let s = (if flags AND 0x01 \<noteq> 0 then setup_channels_format jb s0 else s0);
            clrmask = (if flags AND 0x01 \<noteq> 0 then 0x01 else 0x00);
            s = (if flags AND 0x02 \<noteq> 0
                 then process_cic_challenge (fold disable_pif_channel [0..<PIF_CHANNELS_COUNT] s) else s);
            clrmask = (if flags AND 0x02 \<noteq> 0 then clrmask OR 0x02 else clrmask);
            clrmask = (if flags AND 0x08 \<noteq> 0 then clrmask OR 0x08 else clrmask);
            s = (if flags AND 0x30 \<noteq> 0 then set_pif_ram 0x3f 0x80 s else s)
        in set_pif_ram 0x3f (pif_ram s 0x3f AND NOT clrmask) s)"

definition update_pif_ram :: "'a pif_scheme joybus \<Rightarrow> 'a pif_scheme \<Rightarrow> 'a pif_scheme" where
  "update_pif_ram jb s = jb_readController jb (fold (process_channel jb) [0..<PIF_CHANNELS_COUNT] s)"

definition hw2_int_handler :: "'a pif_scheme \<Rightarrow> 'a pif_scheme" where
  "hw2_int_handler s = raise_maskable_interrupt CP0_CAUSE_IP4 s"

definition reset_pif :: "u32 \<Rightarrow> 'a pif_scheme \<Rightarrow> 'a pif_scheme" where
  "reset_pif reset_type s0 =
     (let rom_type = (if cic_version_of (pif_cic s0) \<in> {CIC_8303, CIC_8401, CIC_8501} then 1 else 0);
          s = (if reset_type AND NOT 1 = 0 then s0 else set_fault s0);
          s = fold disable_pif_channel [0..<PIF_CHANNELS_COUNT] s;
          pif24 = push_bit 19 (rom_type AND 0x1) OR push_bit 17 (reset_type AND 0x1) OR
                  push_bit 8 (cic_seed (pif_cic s) AND 0xff) OR 0x3f;
          s = s\<lparr>pif_base := store32 (pif_base s) (PIF_ROM_SIZE + 0x24) (tohl pif24)\<rparr>
      in set_pif_ram 0x3f 0x00 s)"

definition poweron_pif :: "'a pif_scheme \<Rightarrow> 'a pif_scheme" where
  "poweron_pif s = reset_pif 0 (fold (\<lambda>i. set_pif_ram i 0) [0..<PIF_RAM_SIZE] s)"

definition pif_address :: "u32 \<Rightarrow> nat" where
  "pif_address address = unat (address AND 0xfffc)"

definition read_pif_mem :: "u32 \<Rightarrow> 'a pif_scheme \<Rightarrow> u32" where
  "read_pif_mem address s =
     (let addr = pif_address address; value = load32 (pif_base s) addr
      in if addr \<ge> PIF_ROM_SIZE then tohl value else value)"

definition write_pif_mem :: "u32 \<Rightarrow> u32 \<Rightarrow> u32 \<Rightarrow> 'a pif_scheme \<Rightarrow> 'a pif_scheme" where
  "write_pif_mem address value msk s0 =
     (let addr = pif_address address in
      if addr < PIF_ROM_SIZE then s0
      else
        let s = s0\<lparr>pif_base := store32 (pif_base s0) addr (masked_write (load32 (pif_base s0) addr) (tohl value) (tohl msk))\<rparr>;
            s = s\<lparr>si_dma_dir_of := SI_DMA_WRITE\<rparr>;
            s = cp0_update_count s;
            s = set_si SI_STATUS_REG (si_regs s SI_STATUS_REG OR (SI_STATUS_DMA_BUSY OR SI_STATUS_IO_BUSY)) s
        in add_interrupt_event SI_INT (si_dma_duration s) s)"

section \<open>The serial interface\<close>

definition validate_dma :: "nat \<Rightarrow> 'a pif_scheme \<Rightarrow> bool \<times> 'a pif_scheme" where
  "validate_dma reg s =
     (if si_regs s reg AND 0x1fffffff \<noteq> 0x1fc007c0 then (False, s)
      else if si_regs s SI_STATUS_REG AND SI_STATUS_DMA_BUSY \<noteq> 0
      then (False, set_si SI_STATUS_REG (si_regs s SI_STATUS_REG OR SI_STATUS_DMA_ERROR) s)
      else (True, s))"

definition copy_pif_rdram :: "'a pif_scheme \<Rightarrow> 'a pif_scheme" where
  "copy_pif_rdram s =
     (let d = rdram_dram_address (si_regs s SI_DRAM_ADDR_REG AND NOT 3) in
      case si_dma_dir_of s of
        SI_DMA_WRITE \<Rightarrow> s\<lparr>pif_base := fold (\<lambda>i b. store32 b (PIF_ROM_SIZE + 4 * i) (tohl (dram s (d + i))))
          [0..<PIF_RAM_SIZE div 4] (pif_base s)\<rparr>
      | SI_DMA_READ \<Rightarrow> s\<lparr>dram := fold (\<lambda>i m. m(d + i := tohl (load32 (pif_base s) (PIF_ROM_SIZE + 4 * i))))
          [0..<PIF_RAM_SIZE div 4] (dram s)\<rparr>
      | SI_NO_DMA \<Rightarrow> s)"

text \<open>The end of both DMA starts.\<close>

definition schedule_si :: "'a pif_scheme \<Rightarrow> 'a pif_scheme" where
  "schedule_si s0 =
     (let s = cp0_update_count s0;
          s = set_si SI_STATUS_REG (si_regs s SI_STATUS_REG OR SI_STATUS_DMA_BUSY) s;
          (r, s) = add_random_interrupt_time s
      in add_interrupt_event SI_INT (si_dma_duration s + r) s)"

definition dma_si_write :: "'a pif_scheme \<Rightarrow> 'a pif_scheme" where
  "dma_si_write s0 =
     (let (ok, s) = validate_dma SI_PIF_ADDR_WR64B_REG s0 in
      if ok then schedule_si (copy_pif_rdram (s\<lparr>si_dma_dir_of := SI_DMA_WRITE\<rparr>)) else s)"

definition dma_si_read :: "'a pif_scheme joybus \<Rightarrow> 'a pif_scheme \<Rightarrow> 'a pif_scheme" where
  "dma_si_read jb s0 =
     (let (ok, s) = validate_dma SI_PIF_ADDR_RD64B_REG s0 in
      if ok then schedule_si (update_pif_ram jb (s\<lparr>si_dma_dir_of := SI_DMA_READ\<rparr>)) else s)"

definition poweron_si :: "'a pif_scheme \<Rightarrow> 'a pif_scheme" where
  "poweron_si s = s\<lparr>si_regs := (\<lambda>_. 0), si_dma_dir_of := SI_NO_DMA\<rparr>"

definition si_reg :: "u32 \<Rightarrow> nat" where
  "si_reg address = reg_index 0x1f address"

definition read_si_regs :: "u32 \<Rightarrow> 'a pif_scheme \<Rightarrow> u32 option" where
  "read_si_regs address s =
     (let reg = si_reg address in if reg < SI_REGS_COUNT then Some (si_regs s reg) else None)"

definition write_si_regs ::
    "'a pif_scheme joybus \<Rightarrow> u32 \<Rightarrow> u32 \<Rightarrow> u32 \<Rightarrow> 'a pif_scheme \<Rightarrow> 'a pif_scheme" where
  "write_si_regs jb address value msk s =
     (let reg = si_reg address; written = set_si reg (masked_write (si_regs s reg) value msk) s in
      if reg = SI_DRAM_ADDR_REG then written
      else if reg = SI_PIF_ADDR_RD64B_REG then dma_si_read jb written
      else if reg = SI_PIF_ADDR_WR64B_REG then dma_si_write written
      else if reg = SI_STATUS_REG
      then clear_rcp_interrupt MI_INTR_SI (set_si SI_STATUS_REG (si_regs s SI_STATUS_REG AND NOT SI_STATUS_INTERRUPT) s)
      else s)"

definition si_end_of_dma_event :: "'a pif_scheme joybus \<Rightarrow> 'a pif_scheme \<Rightarrow> 'a pif_scheme" where
  "si_end_of_dma_event jb s0 =
     (let s = (case si_dma_dir_of s0 of
                 SI_DMA_WRITE \<Rightarrow> process_pif_ram jb s0 | SI_DMA_READ \<Rightarrow> copy_pif_rdram s0 | SI_NO_DMA \<Rightarrow> s0);
          s = s\<lparr>si_dma_dir_of := SI_NO_DMA\<rparr>;
          s = set_si SI_STATUS_REG (si_regs s SI_STATUS_REG AND NOT (SI_STATUS_DMA_BUSY OR SI_STATUS_IO_BUSY)) s;
          s = set_si SI_STATUS_REG (si_regs s SI_STATUS_REG OR SI_STATUS_INTERRUPT) s
      in raise_rcp_interrupt MI_INTR_SI s)"

section \<open>Frames\<close>

lemma set_si_simps [simp]:
  "si_regs (set_si r v s) = (si_regs s)(r := v)" "cp0_q (set_si r v s) = cp0_q s"
  "pif_base (set_si r v s) = pif_base s" "dram (set_si r v s) = dram s" "mi_regs (set_si r v s) = mi_regs s"
  "cp0_regs (set_si r v s) = cp0_regs s"
  "si_dma_dir_of (set_si r v s) = si_dma_dir_of s" "pif_channels (set_si r v s) = pif_channels s"
  by (simp_all add: set_si_def)

lemma set_pif_ram_simps [simp]:
  "pif_channels (set_pif_ram i v s) = pif_channels s" "si_regs (set_pif_ram i v s) = si_regs s"
  "pif_ram (set_pif_ram i v s) j = (if i = j then v else pif_ram s j)"
  by (simp_all add: set_pif_ram_def pif_ram_def)

lemma disable_simps [simp]:
  "pif_ram (disable_pif_channel k s) = pif_ram s" "si_regs (disable_pif_channel k s) = si_regs s"
  "pif_channels (disable_pif_channel k s) = (pif_channels s)(k := \<lparr>ch_tx = Chan_null, ch_rx_off = 0\<rparr>)"
  by (simp_all add: disable_pif_channel_def pif_ram_def fun_eq_iff)

lemma pif_live_upd [simp]:
  "live (set_si r v s) = live s" "live (set_pif_ram i b s) = live s" "live (disable_pif_channel k s) = live s"
  "live (chan_store p w s) = live s" "live (s\<lparr>pif_base := m\<rparr>) = live s" "live (s\<lparr>si_dma_dir_of := dd\<rparr>) = live s"
  "live (s\<lparr>pif_channels := ch\<rparr>) = live s" "live (s\<lparr>pif_reset_buffer := rb\<rparr>) = live s"
  "live (copy_pif_rdram s) = live s" "live (snd (add_random_interrupt_time s)) = live s"
  by (simp_all add: live_def set_pif_ram_def disable_pif_channel_def chan_store_def copy_pif_rdram_def Let_def
      add_random_interrupt_time_def host_rand_def split: chan_ptr.split si_dma_dir.split)

lemma fold_live: "(\<And>x s. live s \<Longrightarrow> live (g x s)) \<Longrightarrow> live s \<Longrightarrow> live (fold g xs s)"
  by (induction xs arbitrary: s) simp_all

lemma on_channel_live:
  "live s \<Longrightarrow> (\<And>v s. live s \<Longrightarrow> live (snd (f (ch_rx_off (pif_channels s k)) (v, s)))) \<Longrightarrow> live (on_channel k f s)"
  by (simp add: on_channel_def Let_def split_beta)

lemma schedule_si_live: "live s \<Longrightarrow> live (schedule_si s)"
  by (simp add: schedule_si_def Let_def split_beta add_interrupt_event_live)

lemma dma_si_write_live: "live s \<Longrightarrow> live (dma_si_write s)"
  by (simp add: dma_si_write_def validate_dma_def schedule_si_live)

lemma write_pif_mem_live: "live s \<Longrightarrow> live (write_pif_mem a v m s)"
  by (simp add: write_pif_mem_def Let_def add_interrupt_event_live)

lemma process_cic_live: "live s \<Longrightarrow> live (process_cic_challenge s)"
  by (simp add: process_cic_challenge_def Let_def fold_live)

lemma hw2_int_handler_live: "live s \<Longrightarrow> live (hw2_int_handler s)"
  by (simp add: hw2_int_handler_def)

text \<open>Every state the channel set-up goes through is made by three operations.\<close>

lemma setup_loop_inv:
  assumes "P s" and "\<And>k s. P s \<Longrightarrow> P (disable_pif_channel k s)"
    and "\<And>k s. k < 5 \<Longrightarrow> P s \<Longrightarrow> P (setup_reset_channel jb k s)"
    and "\<And>i k s. i + 2 < 64 \<Longrightarrow> k < 5 \<Longrightarrow> P s \<Longrightarrow> P (snd (setup_pif_channel jb k (Chan_ram i) s))"
  shows "P (setup_loop jb i k s)"
  using assms
proof (induction jb i k s rule: setup_loop.induct)
  case (1 jb i k s)
  have f: "P s \<Longrightarrow> P (fold disable_pif_channel ks s)" for ks s
    by (induction ks arbitrary: s) (simp_all add: 1(7))
  let ?b = "pif_ram s i"
  show ?case
  proof (cases "i < 64 \<and> k < 5")
    case c: True
    consider "?b = 0" | "?b = 0xff" | "?b = 0xfe" | "?b = 0xfd"
      | "?b \<noteq> 0" "?b \<noteq> 0xff" "?b \<noteq> 0xfe" "?b \<noteq> 0xfd" "i + 1 < 64 \<and> pif_ram s (i + 1) = 0xfe"
      | "?b \<noteq> 0" "?b \<noteq> 0xff" "?b \<noteq> 0xfe" "?b \<noteq> 0xfd" "\<not> (i + 1 < 64 \<and> pif_ram s (i + 1) = 0xfe)" "64 \<le> i + 2"
      | "?b \<noteq> 0" "?b \<noteq> 0xff" "?b \<noteq> 0xfe" "?b \<noteq> 0xfd" "\<not> (i + 1 < 64 \<and> pif_ram s (i + 1) = 0xfe)" "i + 2 < 64"
      by linarith
    then show ?thesis
    proof cases
      case 7
      obtain n s' where s': "setup_pif_channel jb k (Chan_ram i) s = (n, s')" by force
      then have "P s'" using 1(9) [OF 7(6), of k s] 1(6) c by simp
      then have "P (setup_loop jb (i + n) (k + 1) s')"
        using 1(5) [OF c refl 7(1-5) _ s' [symmetric] refl] 7(6) 1(7-9) s' by simp
      then show ?thesis using c 7 s' by (subst setup_loop.simps) simp
    qed (use c 1(1-4,6-9) f in \<open>subst setup_loop.simps, simp\<close>)+
  next
    case False
    then have "setup_loop jb i k s = s" by (subst setup_loop.simps) (simp only: if_False)
    then show ?thesis using 1(6) by simp
  qed
qed

section \<open>The devices on the bus\<close>

text \<open>
  What the interface relies on: a device, whatever bytes it is handed, leaves the interrupt queue
  well formed. The table of the machine's own devices is an instance.
\<close>

locale joybus_devices =
  fixes jb :: "'a pif_scheme joybus"
  assumes process: "jb_device jb k = Some d \<Longrightarrow> live s \<Longrightarrow> live (snd (jd_process d rxo (v, s)))"
    and post_setup: "jb_device jb k = Some d \<Longrightarrow> jd_post_setup d = Some f \<Longrightarrow> live s \<Longrightarrow> live (snd (f rxo (v, s)))"
    and command: "live s \<Longrightarrow> live (jb_controllerCommand jb s)"
    and read_controller: "live s \<Longrightarrow> live (jb_readController jb s)"
begin

lemma process_channel_live: "live s \<Longrightarrow> live (process_channel jb k s)"
  unfolding process_channel_def
  by (auto simp: Let_def process intro!: on_channel_live split: option.split)

lemma post_setup_channel_live: "live s \<Longrightarrow> live (post_setup_channel jb k s)"
  unfolding post_setup_channel_def by (auto intro!: on_channel_live simp: post_setup split: option.split)

lemma setup_pif_channel_live: "live s \<Longrightarrow> live (snd (setup_pif_channel jb k b s))"
  by (simp add: setup_pif_channel_def Let_def post_setup_channel_live)

lemma setup_reset_channel_live: "live s \<Longrightarrow> live (setup_reset_channel jb k s)"
  by (simp add: setup_reset_channel_def Let_def setup_pif_channel_live)

lemma setup_channels_format_live: "live s \<Longrightarrow> live (setup_channels_format jb s)"
  unfolding setup_channels_format_def
  by (rule command, rule setup_loop_inv [where P = live])
    (simp_all add: setup_reset_channel_live setup_pif_channel_live)

lemma process_pif_ram_live: "live s \<Longrightarrow> live (process_pif_ram jb s)"
  by (simp add: process_pif_ram_def Let_def setup_channels_format_live process_cic_live fold_live)

lemma update_pif_ram_live: "live s \<Longrightarrow> live (update_pif_ram jb s)"
  by (simp add: update_pif_ram_def read_controller fold_live process_channel_live)

lemma write_si_regs_live: "live s \<Longrightarrow> live (write_si_regs jb a v m s)"
  by (simp add: write_si_regs_def Let_def dma_si_write_live dma_si_read_def validate_dma_def schedule_si_live
      update_pif_ram_live rcp_interrupt_live)

lemma si_end_of_dma_event_live: "live s \<Longrightarrow> live (si_end_of_dma_event jb s)"
  by (simp add: si_end_of_dma_event_def Let_def process_pif_ram_live rcp_interrupt_live split: si_dma_dir.split)

end

section \<open>Challenge and response\<close>

lemma nibble_step:
  assumes "(key + 5 * a) AND 0xF = (key + 5 * b) AND (0xF :: u8)" "unat a < 16" "unat b < 16"
  shows "a = b"
proof -
  have m: "unat (x AND 0xF :: u8) = unat x mod 16" for x
  proof -
    have "x AND 0xF = take_bit 4 x" by (simp add: take_bit_eq_mask mask_eq_exp_minus_1)
    moreover have "unat (take_bit 4 x) = unat x mod 2 ^ 4"
      unfolding unsigned_take_bit_eq by (rule take_bit_eq_mod)
    ultimately show ?thesis by simp
  qed
  have u: "unat (key + 5 * c) mod 16 = (unat key + 5 * unat c) mod 16" for c
  proof -
    have "unat (key + 5 * c) = (unat key + 5 * unat c) mod 256"
      by (simp add: unat_word_ariths mod_simps)
    then show ?thesis by (simp add: mod_mod_cancel)
  qed
  have e: "(unat key + 5 * unat a) mod 16 = (unat key + 5 * unat b) mod 16"
    using arg_cong [OF assms(1), of unat] by (simp only: m u)
  have i: "(13 * unat key + n) mod 16 = 13 * ((unat key + 5 * n) mod 16) mod 16" for n :: nat
  proof -
    have "13 * (unat key + 5 * n) = (13 * unat key + n) + 4 * n * 16" by simp
    then show ?thesis by (simp only: mod_mult_right_eq mod_mult_self1)
  qed
  have "(13 * unat key + unat a) mod 16 = (13 * unat key + unat b) mod 16" by (simp only: i e)
  then have "unat a = unat b" using assms(2,3) by (rule mod_add_inj)
  then show ?thesis by (simp add: word_unat_eq_iff)
qed

lemma cic_steps_inj:
  assumes "cic_6105_steps key l1 as = cic_6105_steps key l1 bs"
    and "\<forall>c \<in> set as \<union> set bs. unat c < 16"
  shows "as = bs"
  using assms
proof (induction as arbitrary: bs key l1)
  case Nil
  then show ?case by (cases bs) (simp_all add: Let_def)
next
  case (Cons a as)
  then obtain b bs' where b: "bs = b # bs'" by (cases bs) (simp_all add: Let_def)
  then have "a = b" using Cons.prems nibble_step [of key a b] by (simp add: Let_def)
  with Cons b show ?case by (auto simp: Let_def)
qed

lemma cic_steps_length: "length (cic_6105_steps key l1 cs) = length cs"
  by (induction cs arbitrary: key l1) (simp_all add: Let_def)

lemma cic_steps_nibbles: "r \<in> set (cic_6105_steps key l1 cs) \<Longrightarrow> unat r < 16"
proof (induction cs arbitrary: key l1)
  case (Cons c cs)
  have "unat (x AND 0xF :: u8) < 16" for x
    using word_and_le1 [of x "0xF"] by (simp add: word_le_nat_alt)
  then show ?case using Cons by (auto simp: Let_def)
qed simp

section \<open>PIF memory as words\<close>

lemma stores_word:
  "load32 (fold (\<lambda>i b. store32 b (a + 4 * i) (f i)) [0..<n] m) (a + 4 * j) =
     (if j < n then f j else load32 m (a + 4 * j))"
proof (induction n)
  case (Suc n)
  then show ?case
    by (cases "j = n") (auto simp: load32_store32_other)
qed simp

lemma fold_upd_at:
  "fold (\<lambda>i m. m(d + i := f i)) [0..<n] m a = (if d \<le> a \<and> a < d + n then f (a - d) else m a)"
  by (induction n) auto

section \<open>The busy flag\<close>

definition si_busy :: "'a pif_scheme \<Rightarrow> bool" where
  "si_busy s \<longleftrightarrow> bit (si_regs s SI_STATUS_REG) 0"

lemma pif_events_frame [simp]:
  "si_regs (add_interrupt_event t d s) = si_regs s" "pif_base (add_interrupt_event t d s) = pif_base s"
  by (simp_all add: add_interrupt_event_def add_interrupt_event_count_def set_fault_def split: option.split)

lemma pif_count_frame [simp]:
  "si_regs (cp0_update_count s) = si_regs s" "pif_base (cp0_update_count s) = pif_base s"
  by (simp_all add: cp0_update_count_def Let_def)

lemma pif_random_frame [simp]: "si_regs (snd (add_random_interrupt_time s)) = si_regs s"
  by (simp add: add_random_interrupt_time_def host_rand_def Let_def)

lemma pif_raise_frame [simp]: "si_regs (raise_rcp_interrupt m s) = si_regs s"
  by (simp add: raise_rcp_interrupt_def raise_maskable_interrupt_def set_mi_def set_cp0_def exception_general_def
      exception_epilog_def generic_jump_to_def Let_def)

lemma schedule_si_busy: "bit (si_regs (schedule_si s) SI_STATUS_REG) 0"
  by (simp add: schedule_si_def Let_def split_beta bit_simps)

section \<open>Where the channels point\<close>

definition channels_ok :: "'a pif_scheme \<Rightarrow> bool" where
  "channels_ok s \<longleftrightarrow> (\<forall>k < PIF_CHANNELS_COUNT.
     case ch_tx (pif_channels s k) of
       Chan_null \<Rightarrow> True | Chan_ram i \<Rightarrow> i + 2 < PIF_RAM_SIZE | Chan_reset j \<Rightarrow> j = k)"

lemma setup_loop_skip:
  "i \<le> n \<Longrightarrow> n \<le> 63 \<Longrightarrow> k < 5 \<Longrightarrow> (\<And>j. i \<le> j \<Longrightarrow> j < n \<Longrightarrow> pif_ram s j = 0xff) \<Longrightarrow>
   setup_loop jb i k s = setup_loop jb n k s"
proof (induction "n - i" arbitrary: i)
  case (Suc m)
  then have "setup_loop jb i k s = setup_loop jb (i + 1) k s" by (subst setup_loop.simps) simp
  also have "\<dots> = setup_loop jb n k s" using Suc by simp
  finally show ?case .
qed simp

section \<open>Properties\<close>

text \<open>
  The 6105 challenge is answered nibble for nibble, and two different challenges never get
  the same answer.
\<close>

theorem cic_6105_injective:
  assumes "\<forall>c \<in> set as \<union> set bs. unat c < 16"
  shows "length (n64_cic_nus_6105 as) = length as \<and> (\<forall>r \<in> set (n64_cic_nus_6105 as). unat r < 16) \<and>
    (n64_cic_nus_6105 as = n64_cic_nus_6105 bs \<longrightarrow> as = bs)"
  using assms cic_steps_inj [of "0xB" False as bs] cic_steps_nibbles [of _ "0xB" False as]
  by (auto simp: n64_cic_nus_6105_def cic_steps_length)

theorem cic_6105_injective_witness:
  "n64_cic_nus_6105 [1, 2, 3] \<noteq> n64_cic_nus_6105 [1, 2, 4]"
  using cic_6105_injective [of "[1, 2, 3]" "[1, 2, 4]"] by simp

text \<open>
  A 64-byte transfer from RDRAM puts each word, bytes swapped, into the PIF RAM, and the
  transfer back to the same address restores RDRAM.
\<close>

theorem si_copy_roundtrip:
  assumes "si_dma_dir_of s = SI_DMA_WRITE" and "d = rdram_dram_address (si_regs s SI_DRAM_ADDR_REG AND NOT 3)"
  shows "(\<forall>i < 16. load32 (pif_base (copy_pif_rdram s)) (PIF_ROM_SIZE + 4 * i) = tohl (dram s (d + i))) \<and>
    dram (copy_pif_rdram ((copy_pif_rdram s)\<lparr>si_dma_dir_of := SI_DMA_READ\<rparr>)) = dram s"
  using assms by (auto simp: copy_pif_rdram_def stores_word fold_upd_at fun_eq_iff)

definition sample_pif :: pif where
  "sample_pif = rsp_core.extend sample_rsp
     (pif.fields ((\<lambda>_. 0)(SI_DRAM_ADDR_REG := 0x100, SI_PIF_ADDR_WR64B_REG := 0x1fc007c0)) SI_DMA_WRITE 0x900
        (\<lambda>a. of_nat a) (\<lambda>_. \<lparr>ch_tx = Chan_null, ch_rx_off = 0\<rparr>) (\<lambda>_. 0) \<lparr>cic_version_of = CIC_X102, cic_seed = 0x3f\<rparr>)"

lemma sample_pif_simps:
  "si_regs sample_pif = (\<lambda>_. 0)(SI_DRAM_ADDR_REG := 0x100, SI_PIF_ADDR_WR64B_REG := 0x1fc007c0)"
  "si_dma_dir_of sample_pif = SI_DMA_WRITE"
  "pif_base sample_pif = (\<lambda>a. of_nat a)" "pif_channels sample_pif = (\<lambda>_. \<lparr>ch_tx = Chan_null, ch_rx_off = 0\<rparr>)"
  by (simp_all add: sample_pif_def rsp_core.defs pif.defs)

theorem si_copy_roundtrip_witness:
  "dram (copy_pif_rdram ((copy_pif_rdram sample_pif)\<lparr>si_dma_dir_of := SI_DMA_READ\<rparr>)) = dram sample_pif"
  using si_copy_roundtrip [OF sample_pif_simps(2) refl] by blast

text \<open>
  A word written to the PIF RAM through the memory map is read back, the interface is busy
  until the event it schedules, and a write to the PIF ROM changes nothing.
\<close>

theorem pif_mem_read_after_write:
  "(pif_address address < PIF_ROM_SIZE \<longrightarrow> write_pif_mem address value msk s = s) \<and>
   (PIF_ROM_SIZE \<le> pif_address address \<longrightarrow>
      read_pif_mem address (write_pif_mem address value 0xFFFFFFFF s) = value \<and>
      si_busy (write_pif_mem address value 0xFFFFFFFF s))"
proof -
  have "tohl 0xFFFFFFFF = 0xFFFFFFFF" by (simp add: tohl_def drop_bit_eq_div push_bit_eq_mult)
  then show ?thesis by (simp add: write_pif_mem_def read_pif_mem_def Let_def si_busy_def bit_simps)
qed

theorem pif_mem_read_after_write_witness:
  "read_pif_mem 0x1fc007c8 (write_pif_mem 0x1fc007c8 0x12345678 0xFFFFFFFF sample_pif) = 0x12345678"
  using pif_mem_read_after_write [of "0x1fc007c8" "0x12345678" _ sample_pif]
  by (simp add: pif_address_def)

text \<open>
  The serial interface runs one transfer at a time: a request while one is under way only
  sets the error bit, an accepted request makes the interface busy, and the end of the transfer
  makes it free again and sets the interrupt bit.
\<close>

theorem si_one_transfer_at_a_time:
  assumes "si_regs s SI_PIF_ADDR_WR64B_REG AND 0x1fffffff = 0x1fc007c0"
    and "si_regs s SI_PIF_ADDR_RD64B_REG AND 0x1fffffff = 0x1fc007c0"
  shows "(si_busy s \<longrightarrow>
      dma_si_write s = set_si SI_STATUS_REG (si_regs s SI_STATUS_REG OR SI_STATUS_DMA_ERROR) s \<and>
      dma_si_read jb s = set_si SI_STATUS_REG (si_regs s SI_STATUS_REG OR SI_STATUS_DMA_ERROR) s) \<and>
    (\<not> si_busy s \<longrightarrow> si_busy (dma_si_write s) \<and> si_busy (dma_si_read jb s)) \<and>
    \<not> si_busy (si_end_of_dma_event jb s) \<and>
    si_regs (si_end_of_dma_event jb s) SI_STATUS_REG AND SI_STATUS_INTERRUPT \<noteq> 0"
proof -
  have b: "(x AND 1 \<noteq> 0) = bit (x :: u32) 0" "(x AND 0x1000 \<noteq> 0) = bit x 12" for x
    using and_exp_nonzero [of x 0] and_exp_nonzero [of x 12] by simp_all
  have i: "bit (0x1000 :: int) 12" "\<not> bit (0x1000 :: int) 0" "bit (3 :: int) 0" by (simp_all add: bit_iff_odd)
  show ?thesis using assms
    by (simp add: dma_si_write_def dma_si_read_def validate_dma_def si_busy_def b schedule_si_busy
        si_end_of_dma_event_def Let_def bit_simps i)
qed

definition no_joybus :: "pif joybus" where
  "no_joybus = \<lparr>jb_device = (\<lambda>_. None), jb_controllerCommand = (\<lambda>s. s), jb_readController = (\<lambda>s. s)\<rparr>"

theorem si_one_transfer_at_a_time_witness:
  "si_busy (dma_si_read no_joybus (set_si SI_PIF_ADDR_RD64B_REG 0x1fc007c0 sample_pif))"
proof -
  have "\<not> si_busy (set_si SI_PIF_ADDR_RD64B_REG 0x1fc007c0 sample_pif)"
    by (simp add: si_busy_def sample_pif_simps)
  then show ?thesis
    using si_one_transfer_at_a_time [of "set_si SI_PIF_ADDR_RD64B_REG 0x1fc007c0 sample_pif" no_joybus]
    by (simp add: sample_pif_simps)
qed

text \<open>
  However the guest fills the PIF RAM, the channel set-up ends and every channel it leaves
  enabled has its command bytes (lengths and first byte sent) inside the RAM or inside its own
  reset buffer, for devices that take no part in the set-up (those of the console take none).
\<close>

theorem channel_setup_in_ram:
  assumes "\<And>k d. jb_device jb k = Some d \<Longrightarrow> jd_post_setup d = None"
    and "\<And>s. pif_channels (jb_controllerCommand jb s) = pif_channels s" and "channels_ok s"
  shows "channels_ok (setup_channels_format jb s)"
proof -
  have p: "post_setup_channel jb k s = s" for k and s :: "'a pif_scheme"
    using assms(1) by (simp add: post_setup_channel_def split: option.split)
  have "channels_ok (setup_loop jb 0 0 s)"
    by (rule setup_loop_inv [where P = channels_ok])
      (use assms(3) in \<open>auto simp: channels_ok_def setup_reset_channel_def setup_pif_channel_def Let_def p\<close>)
  then show ?thesis by (simp add: setup_channels_format_def channels_ok_def assms(2))
qed

theorem channel_setup_in_ram_witness: "channels_ok (setup_channels_format no_joybus sample_pif)"
  by (rule channel_setup_in_ram) (simp_all add: no_joybus_def channels_ok_def sample_pif_simps)

text \<open>
  A status request in the last bytes of the PIF RAM is accepted and makes the device answer
  behind the RAM: its receive buffer starts at offset 64.
\<close>

theorem channel_answer_leaves_ram:
  assumes "\<forall>j < 61. pif_ram s j = 0xff" and "pif_ram s 61 = 1" and "pif_ram s 62 = 3"
    and "\<And>k d. jb_device jb k = Some d \<Longrightarrow> jd_post_setup d = None"
  shows "\<exists>c. pif_channels (setup_loop jb 0 0 s) 0 = c \<and> ch_tx c = Chan_ram 61 \<and> 61 + ch_rx_off c = PIF_RAM_SIZE"
proof -
  have p: "post_setup_channel jb k s = s" for k and s :: "'a pif_scheme"
    using assms(4) by (simp add: post_setup_channel_def split: option.split)
  have "setup_loop jb 0 0 s = setup_loop jb 61 0 s"
    using setup_loop_skip [where i = 0 and n = 61 and k = 0 and s = s and jb = jb] assms(1) by simp
  also have "\<dots> = snd (setup_pif_channel jb 0 (Chan_ram 61) s)"
    using assms(2,3)
    by (subst setup_loop.simps)
      (simp add: Let_def setup_pif_channel_def chan_view_def p, subst setup_loop.simps, simp)
  finally show ?thesis using assms(2) by (simp add: setup_pif_channel_def chan_view_def Let_def p)
qed

theorem channel_answer_leaves_ram_witness:
  "ch_tx (pif_channels (setup_loop no_joybus 0 0 (sample_pif\<lparr>pif_base := (\<lambda>_. 0xff)(0x7fd := 1, 0x7fe := 3)\<rparr>)) 0) = Chan_ram 61"
  using channel_answer_leaves_ram [of "sample_pif\<lparr>pif_base := (\<lambda>_. 0xff)(0x7fd := 1, 0x7fe := 3)\<rparr>" no_joybus]
  by (simp add: pif_ram_def no_joybus_def)

end
