(* ===== verification/Pi.thy ===== *)
theory Pi
  imports Pif
begin

text \<open>
  The peripheral interface (\<^verbatim>\<open>src/src/device/rcp/pi/pi_controller.c\<close>, \<^verbatim>\<open>pi_controller.h\<close>). What an
  address of the cartridge bus leads to is an argument, as in C (\<^verbatim>\<open>get_pi_dma_handler\<close>); the machine's
  own getter is modelled with the cartridge. A handler works on the state, which holds RDRAM, and
  returns the cycles the transfer takes.
\<close>

abbreviation (input) PI_DRAM_ADDR_REG :: nat where "PI_DRAM_ADDR_REG \<equiv> 0"
abbreviation (input) PI_CART_ADDR_REG :: nat where "PI_CART_ADDR_REG \<equiv> 1"
abbreviation (input) PI_RD_LEN_REG :: nat where "PI_RD_LEN_REG \<equiv> 2"
abbreviation (input) PI_WR_LEN_REG :: nat where "PI_WR_LEN_REG \<equiv> 3"
abbreviation (input) PI_STATUS_REG :: nat where "PI_STATUS_REG \<equiv> 4"
abbreviation (input) PI_BSD_DOM1_LAT_REG :: nat where "PI_BSD_DOM1_LAT_REG \<equiv> 5"
abbreviation (input) PI_BSD_DOM2_RLS_REG :: nat where "PI_BSD_DOM2_RLS_REG \<equiv> 12"
abbreviation (input) PI_REGS_COUNT :: nat where "PI_REGS_COUNT \<equiv> 13"
abbreviation (input) PI_STATUS_DMA_BUSY :: u32 where "PI_STATUS_DMA_BUSY \<equiv> 0x01"
abbreviation (input) PI_STATUS_IO_BUSY :: u32 where "PI_STATUS_IO_BUSY \<equiv> 0x02"
abbreviation (input) PI_STATUS_ERROR :: u32 where "PI_STATUS_ERROR \<equiv> 0x04"
abbreviation (input) PI_STATUS_INTERRUPT :: u32 where "PI_STATUS_INTERRUPT \<equiv> 0x08"
abbreviation (input) PI_STATUS_RESET :: u32 where "PI_STATUS_RESET \<equiv> 0x01"
abbreviation (input) PI_STATUS_CLR_INTR :: u32 where "PI_STATUS_CLR_INTR \<equiv> 0x02"

record pi_controller = pif +
  pi_regs :: regfile

type_synonym 's dma_op = "u32 \<Rightarrow> u32 \<Rightarrow> u32 \<Rightarrow> 's \<Rightarrow> u32 \<times> 's"

record 's pi_dma_handler =
  pi_dma_read :: "'s dma_op"
  pi_dma_write :: "'s dma_op"

type_synonym 's pi_dma_handler_getter = "u32 \<Rightarrow> 's \<Rightarrow> 's pi_dma_handler option"

definition set_pi :: "nat \<Rightarrow> u32 \<Rightarrow> 'a pi_controller_scheme \<Rightarrow> 'a pi_controller_scheme" where
  "set_pi r v s = s\<lparr>pi_regs := (pi_regs s)(r := v)\<rparr>"

definition validate_pi_request :: "'a pi_controller_scheme \<Rightarrow> bool \<times> 'a pi_controller_scheme" where
  "validate_pi_request s =
     (if pi_regs s PI_STATUS_REG AND (PI_STATUS_DMA_BUSY OR PI_STATUS_IO_BUSY) \<noteq> 0
      then (False, set_pi PI_STATUS_REG (pi_regs s PI_STATUS_REG OR PI_STATUS_ERROR) s)
      else (True, s))"

text \<open>Lengths: odd lengths from 0x7f on are rounded up; a short write loses the misaligned part.\<close>

definition pi_round_length :: "u32 \<Rightarrow> u32" where
  "pi_round_length len = (if 0x7f \<le> len \<and> len AND 1 \<noteq> 0 then len + 1 else len)"

definition pi_write_length :: "u32 \<Rightarrow> u32 \<Rightarrow> u32" where
  "pi_write_length dram_addr len =
     (let len = pi_round_length len in
      if len \<le> 0x80 then if dram_addr AND 0x7 \<le> len then len - (dram_addr AND 0x7) else 0 else len)"

text \<open>The common end of both transfers.\<close>

definition finish_pi_dma :: "u32 \<Rightarrow> u32 \<Rightarrow> 'a pi_controller_scheme \<Rightarrow> 'a pi_controller_scheme" where
  "finish_pi_dma cycles len s0 =
     (let s = set_pi PI_STATUS_REG (pi_regs s0 PI_STATUS_REG OR PI_STATUS_DMA_BUSY) s0;
          s = set_pi PI_DRAM_ADDR_REG ((pi_regs s PI_DRAM_ADDR_REG + len + 7) AND NOT 7) s;
          s = set_pi PI_CART_ADDR_REG ((pi_regs s PI_CART_ADDR_REG + len + 1) AND NOT 1) s
      in add_interrupt_event PI_INT cycles (cp0_update_count s))"

definition dma_pi_read ::
    "'a pi_controller_scheme pi_dma_handler_getter \<Rightarrow> 'a pi_controller_scheme \<Rightarrow> 'a pi_controller_scheme" where
  "dma_pi_read getter s0 =
     (let (ok, s) = validate_pi_request s0;
          cart_addr = pi_regs s PI_CART_ADDR_REG AND NOT 1;
          dram_addr = pi_regs s PI_DRAM_ADDR_REG AND 0xfffffe;
          len = (pi_regs s PI_RD_LEN_REG AND 0x00ffffff) + 1
      in if \<not> ok then s
         else case getter cart_addr s of
           None \<Rightarrow> s
         | Some h \<Rightarrow>
             let s = pre_framebuffer_read dram_addr s;
                 len = pi_round_length len;
                 (cycles, s) = pi_dma_read h dram_addr cart_addr len s
             in finish_pi_dma cycles len s)"

definition dma_pi_write ::
    "'a pi_controller_scheme pi_dma_handler_getter \<Rightarrow> 'a pi_controller_scheme \<Rightarrow> 'a pi_controller_scheme" where
  "dma_pi_write getter s0 =
     (let (ok, s) = validate_pi_request s0;
          cart_addr = pi_regs s PI_CART_ADDR_REG AND NOT 1;
          dram_addr = pi_regs s PI_DRAM_ADDR_REG AND 0xfffffe;
          len = (pi_regs s PI_WR_LEN_REG AND 0x00ffffff) + 1
      in if \<not> ok then s
         else case getter cart_addr s of
           None \<Rightarrow> s
         | Some h \<Rightarrow>
             let len = pi_write_length dram_addr len;
                 (cycles, s) = pi_dma_write h dram_addr cart_addr len s;
                 s = post_framebuffer_write dram_addr (unat len) s
             in finish_pi_dma cycles len s)"

definition poweron_pi :: "'a pi_controller_scheme \<Rightarrow> 'a pi_controller_scheme" where
  "poweron_pi s = s\<lparr>pi_regs := (\<lambda>_. 0)\<rparr>"

definition pi_reg :: "u32 \<Rightarrow> nat" where
  "pi_reg address = reg_index 0x3f address"

definition read_pi_regs :: "u32 \<Rightarrow> 'a pi_controller_scheme \<Rightarrow> u32 option" where
  "read_pi_regs address s =
     (let reg = pi_reg address in
      if reg < PI_REGS_COUNT
      then Some (if reg = PI_WR_LEN_REG \<or> reg = PI_RD_LEN_REG then 0x7F
                 else if reg = PI_CART_ADDR_REG then pi_regs s reg AND 0xFFFFFFFE
                 else if reg = PI_DRAM_ADDR_REG then pi_regs s reg AND 0xFFFFFE
                 else pi_regs s reg)
      else None)"

definition write_pi_status :: "u32 \<Rightarrow> 'a pi_controller_scheme \<Rightarrow> 'a pi_controller_scheme" where
  "write_pi_status w s0 =
     (let s = (if w AND PI_STATUS_CLR_INTR \<noteq> 0
               then clear_rcp_interrupt MI_INTR_PI
                      (set_pi PI_STATUS_REG (pi_regs s0 PI_STATUS_REG AND NOT PI_STATUS_INTERRUPT) s0)
               else s0)
      in if w AND PI_STATUS_RESET \<noteq> 0 then set_pi PI_STATUS_REG 0 s else s)"

text \<open>
  With a disk drive attached, a write to \<^verbatim>\<open>PI_CART_ADDR_REG\<close> returns early after the same masked write
  as without: one branch here.
\<close>

definition write_pi_regs ::
    "'a pi_controller_scheme pi_dma_handler_getter \<Rightarrow> u32 \<Rightarrow> u32 \<Rightarrow> u32 \<Rightarrow>
     'a pi_controller_scheme \<Rightarrow> 'a pi_controller_scheme" where
  "write_pi_regs getter address value msk s =
     (let reg = pi_reg address; written = set_pi reg (masked_write (pi_regs s reg) value msk) s in
      if reg = PI_RD_LEN_REG then dma_pi_read getter written
      else if reg = PI_WR_LEN_REG then dma_pi_write getter written
      else if reg = PI_STATUS_REG then write_pi_status (value AND msk) s
      else if PI_BSD_DOM1_LAT_REG \<le> reg \<and> reg \<le> PI_BSD_DOM2_RLS_REG
      then set_pi reg (masked_write (pi_regs s reg) (value AND 0xff) msk) s
      else if reg < PI_REGS_COUNT then written
      else s)"

definition pi_end_of_dma_event :: "'a pi_controller_scheme \<Rightarrow> 'a pi_controller_scheme" where
  "pi_end_of_dma_event s0 =
     (let s = set_pi PI_STATUS_REG (pi_regs s0 PI_STATUS_REG AND NOT (PI_STATUS_DMA_BUSY OR PI_STATUS_IO_BUSY)) s0;
          s = set_pi PI_STATUS_REG (pi_regs s PI_STATUS_REG OR PI_STATUS_INTERRUPT) s
      in raise_rcp_interrupt MI_INTR_PI s)"

section \<open>Frames\<close>

lemma set_pi_simps [simp]:
  "pi_regs (set_pi r v s) = (pi_regs s)(r := v)" "cp0_q (set_pi r v s) = cp0_q s" "dram (set_pi r v s) = dram s"
  "dram_size (set_pi r v s) = dram_size s" "fault (set_pi r v s) = fault s"
  by (simp_all add: set_pi_def)

lemma pi_events_frame [simp]:
  "pi_regs (add_interrupt_event t d s) = pi_regs s"
  by (simp_all add: add_interrupt_event_def add_interrupt_event_count_def set_fault_def split: option.split)

lemma pi_count_frame [simp]: "pi_regs (cp0_update_count s) = pi_regs s"
  by (simp_all add: cp0_update_count_def Let_def)

lemma pi_log_frame [simp]: "pi_regs (call_out c s) = pi_regs s" "pi_regs (set_fault s) = pi_regs s"
  by (simp_all add: call_out_def set_fault_def)

lemma pi_fb_frame [simp]:
  "pi_regs (pre_framebuffer_read a s) = pi_regs s" "pi_regs (post_framebuffer_write a n s) = pi_regs s"
proof -
  have "pi_regs (post_write_one a n i s) = pi_regs s" for i and s :: "'a pi_controller_scheme"
    unfolding post_write_one_def by (simp add: fold_frame)
  then show "pi_regs (post_framebuffer_write a n s) = pi_regs s"
    by (simp add: post_framebuffer_write_def fold_frame)
  show "pi_regs (pre_framebuffer_read a s) = pi_regs s"
    unfolding pre_framebuffer_read_def by (simp add: fold_frame pre_read_one_def Let_def)
qed

lemma pi_raise_frame [simp]: "pi_regs (raise_rcp_interrupt m s) = pi_regs s"
  by (simp add: raise_rcp_interrupt_def raise_maskable_interrupt_def set_mi_def set_cp0_def exception_general_def
      exception_epilog_def generic_jump_to_def Let_def)

lemma pi_live_upd [simp]:
  "live (set_pi r v s) = live s" "live (pre_framebuffer_read a s) = live s"
  "live (post_framebuffer_write a n s) = live s"
  by (simp_all add: live_def)

lemma finish_pi_dma_live: "live s \<Longrightarrow> live (finish_pi_dma c n s)"
  by (simp add: finish_pi_dma_def Let_def add_interrupt_event_live)

lemma finish_pi_dma_status:
  "pi_regs (finish_pi_dma c n s) PI_STATUS_REG = pi_regs s PI_STATUS_REG OR PI_STATUS_DMA_BUSY"
  by (simp add: finish_pi_dma_def Let_def)

lemma pi_end_of_dma_event_live: "live s \<Longrightarrow> live (pi_end_of_dma_event s)"
  by (simp add: pi_end_of_dma_event_def Let_def rcp_interrupt_live)


section \<open>The handlers behind the bus\<close>

text \<open>
  What the interface relies on of the handlers: a transfer leaves the interrupt queue well formed.
\<close>

locale pi_handlers =
  fixes getter :: "'a pi_controller_scheme pi_dma_handler_getter"
  assumes read_live: "getter a s' = Some h \<Longrightarrow> live s \<Longrightarrow> live (snd (pi_dma_read h d c n s))"
    and write_live: "getter a s' = Some h \<Longrightarrow> live s \<Longrightarrow> live (snd (pi_dma_write h d c n s))"
begin

lemma dma_pi_read_live: "live s \<Longrightarrow> live (dma_pi_read getter s)"
  using read_live
  by (auto simp: dma_pi_read_def validate_pi_request_def Let_def split_beta finish_pi_dma_live split: option.split)

lemma dma_pi_write_live: "live s \<Longrightarrow> live (dma_pi_write getter s)"
  using write_live
  by (auto simp: dma_pi_write_def validate_pi_request_def Let_def split_beta finish_pi_dma_live split: option.split)

lemma write_pi_regs_live: "live s \<Longrightarrow> live (write_pi_regs getter a v m s)"
  by (simp add: write_pi_regs_def write_pi_status_def Let_def dma_pi_read_live dma_pi_write_live rcp_interrupt_live)

end

section \<open>Properties\<close>

definition pi_busy :: "'a pi_controller_scheme \<Rightarrow> bool" where
  "pi_busy s \<longleftrightarrow> pi_regs s PI_STATUS_REG AND (PI_STATUS_DMA_BUSY OR PI_STATUS_IO_BUSY) \<noteq> 0"

lemma or_and_absorb:
  assumes "a \<noteq> 0"
  shows "(x OR a) AND (a OR b) \<noteq> (0 :: u32)"
proof -
  have "\<exists>n. bit a n" using assms by (auto simp: bit_eq_iff)
  then have "\<exists>n. bit ((x OR a) AND (a OR b)) n" by (auto simp: bit_and_iff bit_or_iff)
  then show ?thesis by (metis bit_0_eq bot_apply bot_bool_def)
qed

text \<open>
  The peripheral interface runs one transfer at a time: a DMA requested while it is busy
  only sets the error bit, a DMA whose bus address leads to a handler makes it busy, and the end
  event frees it.
\<close>

theorem pi_one_transfer_at_a_time:
  shows "(pi_busy s \<longrightarrow>
      dma_pi_read getter s = set_pi PI_STATUS_REG (pi_regs s PI_STATUS_REG OR PI_STATUS_ERROR) s \<and>
      dma_pi_write getter s = set_pi PI_STATUS_REG (pi_regs s PI_STATUS_REG OR PI_STATUS_ERROR) s) \<and>
    (\<not> pi_busy s \<and> getter (pi_regs s PI_CART_ADDR_REG AND NOT 1) s \<noteq> None \<longrightarrow>
      pi_busy (dma_pi_read getter s) \<and> pi_busy (dma_pi_write getter s)) \<and>
    \<not> pi_busy (pi_end_of_dma_event s)"
proof (intro conjI impI)
  assume b: "pi_busy s"
  then show "dma_pi_read getter s = set_pi PI_STATUS_REG (pi_regs s PI_STATUS_REG OR PI_STATUS_ERROR) s"
    "dma_pi_write getter s = set_pi PI_STATUS_REG (pi_regs s PI_STATUS_REG OR PI_STATUS_ERROR) s"
    by (simp_all add: pi_busy_def dma_pi_read_def dma_pi_write_def validate_pi_request_def Let_def)
next
  assume "\<not> pi_busy s \<and> getter (pi_regs s PI_CART_ADDR_REG AND NOT 1) s \<noteq> None"
  then show "pi_busy (dma_pi_read getter s)" "pi_busy (dma_pi_write getter s)"
    using or_and_absorb [of PI_STATUS_DMA_BUSY _ PI_STATUS_IO_BUSY]
    by (auto simp: pi_busy_def dma_pi_read_def dma_pi_write_def validate_pi_request_def Let_def split_beta
        finish_pi_dma_status)
next
  have "(x AND NOT 3 OR 8) AND 3 = (0 :: u32)" for x
    by (rule bit_word_eqI) (auto simp: bit_simps numeral_eq_Suc less_Suc_eq)
  then show "\<not> pi_busy (pi_end_of_dma_event s)"
    by (simp add: pi_busy_def pi_end_of_dma_event_def Let_def)
qed

definition sample_pi :: pi_controller where
  "sample_pi = pif.extend sample_pif (pi_controller.fields ((\<lambda>_. 0)(PI_WR_LEN_REG := 0xff, PI_CART_ADDR_REG := 0x10001000)))"

lemma sample_pi_regs: "pi_regs sample_pi = (\<lambda>_. 0)(PI_WR_LEN_REG := 0xff, PI_CART_ADDR_REG := 0x10001000)"
  by (simp add: sample_pi_def pif.defs pi_controller.defs)

theorem pi_one_transfer_at_a_time_witness:
  "pi_busy (dma_pi_write (\<lambda>a s. Some \<lparr>pi_dma_read = \<lambda>_ _ _ s. (0x1000, s), pi_dma_write = \<lambda>_ _ _ s. (0x1000, s)\<rparr>) sample_pi)"
proof -
  have "\<not> pi_busy sample_pi" by (simp add: pi_busy_def sample_pi_regs)
  then show ?thesis
    using pi_one_transfer_at_a_time [of sample_pi
      "\<lambda>a s. Some \<lparr>pi_dma_read = \<lambda>_ _ _ s. (0x1000, s), pi_dma_write = \<lambda>_ _ _ s. (0x1000, s)\<rparr>"] by simp
qed

end
