(* ===== verification/Cart.thy ===== *)
theory Cart
  imports Pi "HOL-Library.Signed_Division"
begin

text \<open>
  The cartridge (\<^verbatim>\<open>src/src/device/cart/\<close>): ROM, EEPROM, SRAM, FlashRAM, the real-time clock and the
  switch between SRAM and FlashRAM (\<^verbatim>\<open>cart.c\<close>). The storage back ends hold plain byte arrays; telling
  them what to write to disk is recorded in \<open>ext_log\<close>. An access outside an array of the declared size
  sets \<open>fault\<close>. The clock back end and \<^verbatim>\<open>localtime\<close> are arguments.
\<close>

abbreviation (input) SRAM_SIZE :: nat where "SRAM_SIZE \<equiv> 0x8000"
abbreviation (input) FLASHRAM_SIZE :: nat where "FLASHRAM_SIZE \<equiv> 0x20000"
abbreviation (input) EEPROM_BLOCK_SIZE :: nat where "EEPROM_BLOCK_SIZE \<equiv> 8"
abbreviation (input) FLASHRAM_TYPE_ID :: u32 where "FLASHRAM_TYPE_ID \<equiv> 0x11118001"
abbreviation (input) MX29L0000_ID :: u32 where "MX29L0000_ID \<equiv> 0x00c20000"
abbreviation (input) MX29L0001_ID :: u32 where "MX29L0001_ID \<equiv> 0x00c20001"
abbreviation (input) MX29L1100_ID :: u32 where "MX29L1100_ID \<equiv> 0x00c2001e"
abbreviation (input) STORE_EEPROM :: nat where "STORE_EEPROM \<equiv> 0"
abbreviation (input) STORE_FLASHRAM :: nat where "STORE_FLASHRAM \<equiv> 1"
abbreviation (input) STORE_SRAM :: nat where "STORE_SRAM \<equiv> 2"

datatype flashram_mode =
  FLASHRAM_MODE_READ_ARRAY | FLASHRAM_MODE_READ_SILICON_ID | FLASHRAM_MODE_STATUS |
  FLASHRAM_MODE_SECTOR_ERASE | FLASHRAM_MODE_CHIP_ERASE | FLASHRAM_MODE_PAGE_PROGRAM

record flashram =
  fl_page_buf :: "nat \<Rightarrow> u8"
  fl_id1 :: u32
  fl_status :: u32
  fl_erase_page :: u16
  fl_mode :: flashram_mode
  fl_mem :: "nat \<Rightarrow> u8"

record af_rtc =
  rtc_control :: u16
  rtc_now :: int
  rtc_last_update :: int

record cart = pi_controller +
  cart_rtc :: af_rtc
  rom :: "nat \<Rightarrow> u8"
  rom_size :: nat
  last_write :: u32
  eeprom_type :: u16
  eeprom_mem :: "nat \<Rightarrow> u8"
  eeprom_size :: nat
  cart_flash :: flashram
  sram_mem :: "nat \<Rightarrow> u8"
  use_flashram :: int

text \<open>\<open>blit v d f n\<close> is \<^verbatim>\<open>memcpy(v + d, f, n)\<close>.\<close>

definition blit :: "(nat \<Rightarrow> u8) \<Rightarrow> nat \<Rightarrow> (nat \<Rightarrow> u8) \<Rightarrow> nat \<Rightarrow> (nat \<Rightarrow> u8)" where
  "blit v d f n = (\<lambda>j. if d \<le> j \<and> j < d + n then f (j - d) else v j)"

text \<open>How often \<^verbatim>\<open>for (i = 0; i < length && (a + i) < limit; ++i)\<close> runs.\<close>

definition loop_count :: "nat \<Rightarrow> nat \<Rightarrow> u32 \<Rightarrow> nat" where
  "loop_count a limit len = min (unat len) (limit - a)"

text \<open>The copy loops \<^verbatim>\<open>dst[(d+i)^S8] = src[(c+i)^S8]\<close> in both directions.\<close>

definition to_dram :: "nat \<Rightarrow> (nat \<Rightarrow> u8) \<Rightarrow> nat \<Rightarrow> (nat \<Rightarrow> u32) \<Rightarrow> (nat \<Rightarrow> u32)" where
  "to_dram d f n m = fold (\<lambda>i m. set8 m ((d + i) XOR 3) (f i)) [0..<n] m"

definition from_dram :: "nat \<Rightarrow> (nat \<Rightarrow> u8) \<Rightarrow> nat \<Rightarrow> (nat \<Rightarrow> u8) \<Rightarrow> (nat \<Rightarrow> u8)" where
  "from_dram c f n m = fold (\<lambda>i m. m((c + i) XOR 3 := f i)) [0..<n] m"

definition check_bounds :: "bool \<Rightarrow> 'a host_scheme \<Rightarrow> 'a host_scheme" where
  "check_bounds ok s = (if ok then s else set_fault s)"

section \<open>SRAM\<close>

definition format_sram :: "(nat \<Rightarrow> u8) \<Rightarrow> (nat \<Rightarrow> u8)" where
  "format_sram m = blit m 0 (\<lambda>_. 0xff) SRAM_SIZE"

definition sram_dma_read :: "'a cart_scheme dma_op" where
  "sram_dma_read dram_addr cart_addr len s =
     (let c = unat (cart_addr AND 0xffff); n = loop_count c SRAM_SIZE len;
          s = s\<lparr>sram_mem := from_dram c (\<lambda>i. get8 (dram s) ((unat dram_addr + i) XOR 3)) n (sram_mem s)\<rparr>
      in (0x1000, call_out (Storage_save STORE_SRAM c (unat len)) s))"

definition sram_dma_write :: "'a cart_scheme dma_op" where
  "sram_dma_write dram_addr cart_addr len s =
     (let c = unat (cart_addr AND 0xffff); d = unat dram_addr; n = loop_count d (dram_size s) len;
          s = check_bounds (n = 0 \<or> c + n \<le> SRAM_SIZE) s
      in (0x1000, s\<lparr>dram := to_dram d (\<lambda>i. sram_mem s ((c + i) XOR 3)) n (dram s)\<rparr>))"

definition read_sram :: "u32 \<Rightarrow> 'a cart_scheme \<Rightarrow> u32 \<times> 'a cart_scheme" where
  "read_sram address s =
     (let a = unat (address AND 0xffff) in (load32 (sram_mem s) a, check_bounds (a + 4 \<le> SRAM_SIZE) s))"

definition write_sram :: "u32 \<Rightarrow> u32 \<Rightarrow> u32 \<Rightarrow> 'a cart_scheme \<Rightarrow> 'a cart_scheme" where
  "write_sram address value msk s =
     (let a = unat (address AND 0xffff);
          s = check_bounds (a + 4 \<le> SRAM_SIZE) s;
          s = s\<lparr>sram_mem := store32 (sram_mem s) a (masked_write (load32 (sram_mem s) a) value msk)\<rparr>
      in call_out (Storage_save STORE_SRAM a 4) s)"

section \<open>FlashRAM\<close>

definition upd_flash :: "(flashram \<Rightarrow> flashram) \<Rightarrow> 'a cart_scheme \<Rightarrow> 'a cart_scheme" where
  "upd_flash f s = s\<lparr>cart_flash := f (cart_flash s)\<rparr>"

definition flash_save :: "nat \<Rightarrow> nat \<Rightarrow> 'a cart_scheme \<Rightarrow> 'a cart_scheme" where
  "flash_save offset n s =
     call_out (Storage_save STORE_FLASHRAM offset n) (check_bounds (offset + n \<le> FLASHRAM_SIZE) s)"

definition flash_erase :: "'a cart_scheme \<Rightarrow> 'a cart_scheme" where
  "flash_erase s0 =
     (let s = upd_flash (\<lambda>f. f\<lparr>fl_status := fl_status f OR 0x02\<rparr>) s0;
          offset = unat (fl_erase_page (cart_flash s) AND 0xff80) * 128;
          s = (case fl_mode (cart_flash s) of
                 FLASHRAM_MODE_SECTOR_ERASE \<Rightarrow>
                   flash_save offset (128 * 128) (upd_flash (\<lambda>f. f\<lparr>fl_mem := blit (fl_mem f) offset (\<lambda>_. 0xff) (128 * 128)\<rparr>) s)
               | FLASHRAM_MODE_CHIP_ERASE \<Rightarrow>
                   flash_save 0 FLASHRAM_SIZE (upd_flash (\<lambda>f. f\<lparr>fl_mem := blit (fl_mem f) 0 (\<lambda>_. 0xff) FLASHRAM_SIZE\<rparr>) s)
               | _ \<Rightarrow> s)
      in upd_flash (\<lambda>f. f\<lparr>fl_status := (fl_status f AND NOT 0x02) OR 0x08, fl_mode := FLASHRAM_MODE_STATUS\<rparr>) s)"

definition flash_program :: "u32 \<Rightarrow> 'a cart_scheme \<Rightarrow> 'a cart_scheme" where
  "flash_program command s0 =
     (let s = upd_flash (\<lambda>f. f\<lparr>fl_status := fl_status f OR 0x01\<rparr>) s0;
          offset = unat (command AND 0xffff) * 128;
          s = flash_save offset 128 (upd_flash (\<lambda>f. f\<lparr>fl_mem := from_dram offset (fl_page_buf f) 128 (fl_mem f)\<rparr>) s)
      in upd_flash (\<lambda>f. f\<lparr>fl_status := (fl_status f AND NOT 0x01) OR 0x04, fl_mode := FLASHRAM_MODE_STATUS\<rparr>) s)"

definition flashram_command :: "u32 \<Rightarrow> 'a cart_scheme \<Rightarrow> 'a cart_scheme" where
  "flashram_command command s =
     (let c = command AND 0xff000000 in
      if c = 0x3c000000 then upd_flash (\<lambda>f. f\<lparr>fl_mode := FLASHRAM_MODE_CHIP_ERASE\<rparr>) s
      else if c = 0x4b000000
      then upd_flash (\<lambda>f. f\<lparr>fl_mode := FLASHRAM_MODE_SECTOR_ERASE, fl_erase_page := ucast (command AND 0xffff)\<rparr>) s
      else if c = 0x78000000 then flash_erase s
      else if c = 0xa5000000 then flash_program command s
      else if c = 0xb4000000 then upd_flash (\<lambda>f. f\<lparr>fl_mode := FLASHRAM_MODE_PAGE_PROGRAM\<rparr>) s
      else if c = 0xd2000000 then upd_flash (\<lambda>f. f\<lparr>fl_mode := FLASHRAM_MODE_STATUS\<rparr>) s
      else if c = 0xe1000000
      then upd_flash (\<lambda>f. f\<lparr>fl_mode := FLASHRAM_MODE_READ_SILICON_ID, fl_status := fl_status f OR 0x01\<rparr>) s
      else if c = 0xf0000000 then upd_flash (\<lambda>f. f\<lparr>fl_mode := FLASHRAM_MODE_READ_ARRAY\<rparr>) s
      else s)"

definition poweron_flashram :: "'a cart_scheme \<Rightarrow> 'a cart_scheme" where
  "poweron_flashram s =
     upd_flash (\<lambda>f. f\<lparr>fl_mode := FLASHRAM_MODE_READ_ARRAY, fl_status := 0, fl_erase_page := 0,
       fl_page_buf := (\<lambda>_. 0xff)\<rparr>) s"

definition format_flashram :: "(nat \<Rightarrow> u8) \<Rightarrow> (nat \<Rightarrow> u8)" where
  "format_flashram m = blit m 0 (\<lambda>_. 0xff) FLASHRAM_SIZE"

definition read_flashram :: "u32 \<Rightarrow> 'a cart_scheme \<Rightarrow> u32 option" where
  "read_flashram address s =
     (if address AND 0x1ffff = 0 \<and> fl_mode (cart_flash s) = FLASHRAM_MODE_STATUS then Some (fl_status (cart_flash s))
      else if address AND 0x1ffff = 0 \<and> fl_mode (cart_flash s) = FLASHRAM_MODE_READ_ARRAY then Some 0
      else None)"

definition write_flashram :: "u32 \<Rightarrow> u32 \<Rightarrow> u32 \<Rightarrow> 'a cart_scheme \<Rightarrow> 'a cart_scheme" where
  "write_flashram address value msk s =
     (if address AND 0x1ffff = 0 \<and> fl_mode (cart_flash s) = FLASHRAM_MODE_STATUS
      then upd_flash (\<lambda>f. f\<lparr>fl_status := (value AND msk) AND 0xff\<rparr>) s
      else if address AND 0x1ffff = 0x10000 then flashram_command (value AND msk) s
      else s)"

definition flash_dma_offset :: "flashram \<Rightarrow> u32 \<Rightarrow> nat" where
  "flash_dma_offset f cart_addr =
     (if fl_id1 f = MX29L1100_ID \<or> fl_id1 f = MX29L0000_ID \<or> fl_id1 f = MX29L0001_ID
      then unat ((cart_addr AND 0xffff) * 2) else unat (cart_addr AND 0xffff))"

definition flashram_dma_write :: "'a cart_scheme dma_op" where
  "flashram_dma_write dram_addr cart_addr len s =
     (let f = cart_flash s; d = unat dram_addr in
      if cart_addr AND 0x1ffff = 0 \<and> len = 8 \<and> fl_mode f = FLASHRAM_MODE_READ_SILICON_ID
      then (0x1000, s\<lparr>dram := (dram s)(d div 4 := FLASHRAM_TYPE_ID, d div 4 + 1 := fl_id1 f)\<rparr>)
      else if cart_addr AND 0x1ffff < 0x10000 \<and> fl_mode f = FLASHRAM_MODE_READ_ARRAY
      then let c = flash_dma_offset f cart_addr; n = loop_count d (dram_size s) len;
               s = check_bounds (n = 0 \<or> c + n \<le> FLASHRAM_SIZE) s
           in (0x1000, s\<lparr>dram := to_dram d (\<lambda>i. fl_mem f ((c + i) XOR 3)) n (dram s)\<rparr>)
      else (0x1000, s))"

definition flashram_dma_read :: "'a cart_scheme dma_op" where
  "flashram_dma_read dram_addr cart_addr len s =
     (if cart_addr AND 0x1ffff = 0 \<and> len = 128 \<and> fl_mode (cart_flash s) = FLASHRAM_MODE_PAGE_PROGRAM
      then (0x1000, upd_flash (\<lambda>f. f\<lparr>fl_page_buf := blit (fl_page_buf f) 0
              (\<lambda>i. get8 (dram s) ((unat dram_addr + i) XOR 3)) 128\<rparr>) s)
      else (0x1000, s))"

section \<open>EEPROM\<close>

definition format_eeprom :: "(nat \<Rightarrow> u8) \<Rightarrow> nat \<Rightarrow> (nat \<Rightarrow> u8)" where
  "format_eeprom m n = blit m 0 (\<lambda>_. 0xff) n"

text \<open>\<open>None\<close> leaves the destination of the read alone.\<close>

definition eeprom_read_block :: "u8 \<Rightarrow> 'a cart_scheme \<Rightarrow> (nat \<Rightarrow> u8) option \<times> 'a cart_scheme" where
  "eeprom_read_block block s =
     (let address = unat block * EEPROM_BLOCK_SIZE in
      if address < eeprom_size s
      then (Some (\<lambda>i. eeprom_mem s (address + i)), check_bounds (address + EEPROM_BLOCK_SIZE \<le> eeprom_size s) s)
      else (None, s))"

definition eeprom_write_block :: "u8 \<Rightarrow> (nat \<Rightarrow> u8) \<Rightarrow> 'a cart_scheme \<Rightarrow> u8 option \<times> 'a cart_scheme" where
  "eeprom_write_block block f s =
     (let address = unat block * EEPROM_BLOCK_SIZE in
      if address < eeprom_size s
      then let s = check_bounds (address + EEPROM_BLOCK_SIZE \<le> eeprom_size s) s;
               s = s\<lparr>eeprom_mem := blit (eeprom_mem s) address f EEPROM_BLOCK_SIZE\<rparr>
           in (Some 0x00, call_out (Storage_save STORE_EEPROM address EEPROM_BLOCK_SIZE) s)
      else (None, s))"

section \<open>Real-time clock\<close>

record tm =
  tm_sec :: int
  tm_min :: int
  tm_hour :: int
  tm_mday :: int
  tm_wday :: int
  tm_mon :: int
  tm_year :: int

record 's clock =
  clock_get_time :: "'s \<Rightarrow> int"
  clock_localtime :: "int \<Rightarrow> tm"

definition byte2bcd :: "int \<Rightarrow> u8" where
  "byte2bcd n = (let n = n smod 100 in word_of_int (push_bit 4 (n sdiv 10) OR (n smod 10)))"

definition time2data :: "tm \<Rightarrow> u8 list" where
  "time2data t = [byte2bcd (tm_sec t), byte2bcd (tm_min t), 0x80 + byte2bcd (tm_hour t), byte2bcd (tm_mday t),
     byte2bcd (tm_wday t), byte2bcd (tm_mon t + 1), byte2bcd (tm_year t), byte2bcd (tm_year t sdiv 100)]"

definition update_rtc :: "'a cart_scheme clock \<Rightarrow> 'a cart_scheme \<Rightarrow> 'a cart_scheme" where
  "update_rtc ck s =
     (let now = clock_get_time ck s; r = cart_rtc s in
      s\<lparr>cart_rtc := r\<lparr>rtc_now := rtc_now r + (now - rtc_last_update r), rtc_last_update := now\<rparr>\<rparr>)"

definition poweron_af_rtc :: "'a cart_scheme \<Rightarrow> 'a cart_scheme" where
  "poweron_af_rtc s = s\<lparr>cart_rtc := \<lparr>rtc_control = 0x0200, rtc_now = 0, rtc_last_update = 0\<rparr>\<rparr>"

text \<open>The bytes read, if any, and the status byte written with them.\<close>

definition af_rtc_read_block :: "'a cart_scheme clock \<Rightarrow> u8 \<Rightarrow> 'a cart_scheme \<Rightarrow> u8 list option \<times> 'a cart_scheme" where
  "af_rtc_read_block ck block s =
     (if block = 0
      then (Some [ucast (rtc_control (cart_rtc s)), ucast (drop_bit 8 (rtc_control (cart_rtc s)))], s)
      else if block = 2
      then let s = update_rtc ck s in (Some (time2data (clock_localtime ck (rtc_now (cart_rtc s)))), s)
      else (None, s))"

definition af_rtc_write_block :: "u8 \<Rightarrow> (nat \<Rightarrow> u8) \<Rightarrow> 'a cart_scheme \<Rightarrow> u8 option \<times> 'a cart_scheme" where
  "af_rtc_write_block block f s =
     (if block = 0
      then (Some 0x00, s\<lparr>cart_rtc := (cart_rtc s)\<lparr>rtc_control := push_bit 8 (ucast (f 1)) OR ucast (f 0)\<rparr>\<rparr>)
      else (None, s))"

section \<open>ROM\<close>

definition rom_address :: "u32 \<Rightarrow> nat" where
  "rom_address address = unat (address AND 0x0ffffffc)"

definition poweron_cart_rom :: "'a cart_scheme \<Rightarrow> 'a cart_scheme" where
  "poweron_cart_rom s = s\<lparr>last_write := 0\<rparr>"

definition read_cart_rom :: "u32 \<Rightarrow> 'a cart_scheme \<Rightarrow> u32" where
  "read_cart_rom address s =
     (let addr = rom_address address in
      if pi_regs s PI_STATUS_REG AND PI_STATUS_IO_BUSY \<noteq> 0 then last_write s
      else if addr < rom_size s then load32 (rom s) addr
      else 0)"

definition write_cart_rom :: "u32 \<Rightarrow> u32 \<Rightarrow> u32 \<Rightarrow> 'a cart_scheme \<Rightarrow> 'a cart_scheme" where
  "write_cart_rom address value msk s0 =
     (let (ok, s) = validate_pi_request (s0\<lparr>last_write := value AND msk\<rparr>) in
      if \<not> ok then s
      else let s = set_pi PI_STATUS_REG (pi_regs s PI_STATUS_REG OR PI_STATUS_IO_BUSY) s
           in add_interrupt_event PI_INT 0x1000 (cp0_update_count s))"

definition cart_rom_dma_read :: "'a cart_scheme dma_op" where
  "cart_rom_dma_read dram_addr cart_addr len s = (0x1000, s)"

definition cart_rom_dma_write :: "'a cart_scheme dma_op" where
  "cart_rom_dma_write dram_addr cart_addr0 len s0 =
     (let cart_addr = cart_addr0 AND 0xefffffff; c = unat cart_addr; d = unat dram_addr;
          src = (\<lambda>i. rom s0 ((c + i) XOR 3));
          s = (if unat (cart_addr + len) < rom_size s0
               then s0\<lparr>dram := to_dram d src (loop_count d (dram_size s0) len) (dram s0)\<rparr>
               else let diff = (if rom_size s0 \<le> c then 0 else rom_size s0 - c);
                        n = min diff (dram_size s0 - d);
                        m = to_dram d src n (dram s0);
                        total = max n (loop_count d (dram_size s0) len)
                    in s0\<lparr>dram := to_dram (d + n) (\<lambda>i. 0) (total - n) m\<rparr>);
          (r, s) = add_random_interrupt_time s
      in (len div 8 + r, s))"

section \<open>The cartridge\<close>

definition poweron_cart :: "'a cart_scheme \<Rightarrow> 'a cart_scheme" where
  "poweron_cart s = poweron_flashram (poweron_cart_rom (poweron_af_rtc s))"

definition read_cart_dom2 :: "u32 \<Rightarrow> 'a cart_scheme \<Rightarrow> u32 option \<times> 'a cart_scheme" where
  "read_cart_dom2 address s =
     (if use_flashram s = -1 then let (v, s) = read_sram address s in (Some v, s)
      else if address AND 0xffff \<noteq> 0 then (None, s)
      else let s = s\<lparr>use_flashram := 1\<rparr> in (read_flashram address s, s))"

definition write_cart_dom2 :: "u32 \<Rightarrow> u32 \<Rightarrow> u32 \<Rightarrow> 'a cart_scheme \<Rightarrow> 'a cart_scheme" where
  "write_cart_dom2 address value msk s =
     (if use_flashram s = -1 then write_sram address value msk s
      else if address AND 0xffff \<noteq> 0 then s
      else write_flashram address value msk (s\<lparr>use_flashram := 1\<rparr>))"

definition cart_dom2_dma_read :: "'a cart_scheme dma_op" where
  "cart_dom2_dma_read dram_addr cart_addr len s =
     (if use_flashram s \<noteq> 1
      then let (c, s) = sram_dma_read dram_addr cart_addr len s in (c, s\<lparr>use_flashram := -1\<rparr>)
      else flashram_dma_read dram_addr cart_addr len s)"

definition cart_dom2_dma_write :: "'a cart_scheme dma_op" where
  "cart_dom2_dma_write dram_addr cart_addr len s =
     (if use_flashram s \<noteq> 1
      then let (c, s) = sram_dma_write dram_addr cart_addr len s in (c, s\<lparr>use_flashram := -1\<rparr>)
      else flashram_dma_write dram_addr cart_addr len s)"

definition cart_dom3_dma_read :: "'a cart_scheme dma_op" where
  "cart_dom3_dma_read dram_addr cart_addr len s = cart_rom_dma_read dram_addr cart_addr len s"

definition cart_dom3_dma_write :: "'a cart_scheme dma_op" where
  "cart_dom3_dma_write dram_addr cart_addr len s = cart_rom_dma_write dram_addr cart_addr len s"

text \<open>
  The commands the cartridge answers on the joybus. \<open>expect t r v f\<close> is \<^verbatim>\<open>JOYBUS_CHECK_COMMAND_FORMAT\<close>.
\<close>

definition expect :: "u8 \<Rightarrow> u8 \<Rightarrow> ((nat \<Rightarrow> u8) \<times> 's \<Rightarrow> (nat \<Rightarrow> u8) \<times> 's) \<Rightarrow> (nat \<Rightarrow> u8) \<times> 's \<Rightarrow> (nat \<Rightarrow> u8) \<times> 's" where
  "expect t r f = (\<lambda>(v, s). if v 0 \<noteq> t \<or> v 1 \<noteq> r then (v(1 := v 1 OR 0x40), s) else f (v, s))"

definition put_bytes :: "nat \<Rightarrow> u8 list \<Rightarrow> (nat \<Rightarrow> u8) \<Rightarrow> (nat \<Rightarrow> u8)" where
  "put_bytes d bs v = blit v d (\<lambda>i. bs ! i) (length bs)"

definition cart_status :: "nat \<Rightarrow> (nat \<Rightarrow> u8) \<times> 'a cart_scheme \<Rightarrow> (nat \<Rightarrow> u8) \<times> 'a cart_scheme" where
  "cart_status rxo = (\<lambda>(v, s).
     if eeprom_type s \<noteq> 0
     then (put_bytes rxo [ucast (eeprom_type s), ucast (drop_bit 8 (eeprom_type s)), 0x00] v, s)
     else (v(1 := v 1 OR 0x80), s))"

definition process_cart_command :: "'a cart_scheme clock \<Rightarrow> 'a cart_scheme joybus_op" where
  "process_cart_command ck rxo = (\<lambda>(v, s).
     let cmd = v 2 in
     if cmd = 0xff \<or> cmd = 0x00 then expect 1 3 (cart_status rxo) (v, s)
     else if cmd = 0x04 then expect 2 8 (\<lambda>(v, s).
       let (r, s) = eeprom_read_block (v 3) s in
       (case r of None \<Rightarrow> v | Some f \<Rightarrow> blit v rxo f EEPROM_BLOCK_SIZE, s)) (v, s)
     else if cmd = 0x05 then expect 10 1 (\<lambda>(v, s).
       let (r, s) = eeprom_write_block (v 3) (\<lambda>i. v (4 + i)) s in
       (case r of None \<Rightarrow> v | Some b \<Rightarrow> v(rxo := b), s)) (v, s)
     else if cmd = 0x06 then expect 1 3 (\<lambda>(v, s). (put_bytes rxo [0x00, 0x10, 0x00] v, s)) (v, s)
     else if cmd = 0x07 then expect 2 9 (\<lambda>(v, s).
       let (r, s) = af_rtc_read_block ck (v 3) s in
       (case r of None \<Rightarrow> v | Some bs \<Rightarrow> (put_bytes rxo bs v)(rxo + 8 := 0x00), s)) (v, s)
     else if cmd = 0x08 then expect 10 1 (\<lambda>(v, s).
       let (r, s) = af_rtc_write_block (v 3) (\<lambda>i. v (4 + i)) s in
       (case r of None \<Rightarrow> v | Some b \<Rightarrow> v(rxo := b), s)) (v, s)
     else (v, s))"

section \<open>Copies\<close>

lemma xor_lanes_inj: "inj_on (\<lambda>i. (d + i) XOR 3) {0..<n :: nat}"
  by (rule lanes_inj)

lemma to_dram_same: "i < n \<Longrightarrow> get8 (to_dram d f n m) ((d + i) XOR 3) = f i"
  using words.scatter_same [OF xor_lanes_inj [of d n], where i = i and m = m and f = f] by (simp add: to_dram_def words.scatter_def)

lemma to_dram_other:
  assumes "\<not> (d \<le> b \<and> b < d + n)"
  shows "get8 (to_dram d f n m) (b XOR 3) = get8 m (b XOR 3)"
proof -
  have "(d + i) XOR 3 \<noteq> b XOR 3" if "i < n" for i using that assms xor_inj [of "d + i" 3 b] by auto
  then show ?thesis
    using words.scatter_other [of n "\<lambda>i. (d + i) XOR 3" "b XOR 3" f m] by (simp add: to_dram_def words.scatter_def)
qed

lemma from_dram_same: "i < n \<Longrightarrow> from_dram c f n m ((c + i) XOR 3) = f i"
  using fbytes.scatter_same [OF xor_lanes_inj [of c n], where i = i and m = m and f = f] by (simp add: from_dram_def fbytes.scatter_def)

lemma from_dram_other:
  assumes "\<not> (c \<le> b \<and> b < c + n)"
  shows "from_dram c f n m (b XOR 3) = m (b XOR 3)"
proof -
  have "(c + i) XOR 3 \<noteq> b XOR 3" if "i < n" for i using that assms xor_inj [of "c + i" 3 b] by auto
  then show ?thesis
    using fbytes.scatter_other [of n "\<lambda>i. (c + i) XOR 3" "b XOR 3" f m] by (simp add: from_dram_def fbytes.scatter_def)
qed

text \<open>So a copy is known at every byte, addressed in the order of the guest.\<close>

lemma to_dram_at:
  "get8 (to_dram d f n m) (b XOR 3) = (if d \<le> b \<and> b < d + n then f (b - d) else get8 m (b XOR 3))"
  using to_dram_same [of "b - d" n d f m] to_dram_other [of d b n f m] by auto

lemma from_dram_at:
  "from_dram c f n m (b XOR 3) = (if c \<le> b \<and> b < c + n then f (b - c) else m (b XOR 3))"
  using from_dram_same [of "b - c" n c f m] from_dram_other [of c b n f m] by auto

lemma blit_at: "blit v d f n j = (if d \<le> j \<and> j < d + n then f (j - d) else v j)"
  by (simp add: blit_def)

lemma check_bounds_simps [simp]:
  "fault (check_bounds ok s) = (fault s \<or> \<not> ok)" "check_bounds True s = s" "live (check_bounds ok s) = live s"
  by (simp_all add: check_bounds_def)

lemma check_bounds_frame [simp]:
  "sram_mem (check_bounds ok s) = sram_mem s" "dram (check_bounds ok s) = dram s"
  "dram_size (check_bounds ok s) = dram_size s" "cart_flash (check_bounds ok s) = cart_flash s"
  "eeprom_mem (check_bounds ok s) = eeprom_mem s" "eeprom_size (check_bounds ok s) = eeprom_size s"
  by (simp_all add: check_bounds_def set_fault_def)

lemma cart_log_frame [simp]:
  "sram_mem (call_out c s) = sram_mem s" "dram_size (call_out c s) = dram_size s"
  "cart_flash (call_out c s) = cart_flash s" "eeprom_mem (call_out c s) = eeprom_mem s"
  "eeprom_size (call_out c s) = eeprom_size s"
  by (simp_all add: call_out_def)

lemma upd_flash_simps [simp]:
  "cart_flash (upd_flash g s) = g (cart_flash s)" "fault (upd_flash g s) = fault s" "live (upd_flash g s) = live s"
  "dram (upd_flash g s) = dram s" "dram_size (upd_flash g s) = dram_size s"
  by (simp_all add: upd_flash_def live_def)

lemma flash_save_simps [simp]:
  "cart_flash (flash_save a n s) = cart_flash s"
  "fault (flash_save a n s) = (fault s \<or> \<not> a + n \<le> FLASHRAM_SIZE)" "live (flash_save a n s) = live s"
  by (simp_all add: flash_save_def)

lemma cart_live_upd [simp]:
  "live (s\<lparr>sram_mem := m\<rparr>) = live s" "live (s\<lparr>dram := w\<rparr>) = live s" "live (s\<lparr>use_flashram := u\<rparr>) = live s"
  "live (s\<lparr>eeprom_mem := m\<rparr>) = live s" "live (s\<lparr>cart_rtc := r\<rparr>) = live s" "live (s\<lparr>last_write := x\<rparr>) = live s"
  by (simp_all add: live_def)

section \<open>The queue stays well formed\<close>

lemma cart_dma_live:
  "live s \<Longrightarrow> live (snd (sram_dma_read d c n s))" "live s \<Longrightarrow> live (snd (sram_dma_write d c n s))"
  "live s \<Longrightarrow> live (snd (flashram_dma_read d c n s))" "live s \<Longrightarrow> live (snd (flashram_dma_write d c n s))"
  "live s \<Longrightarrow> live (snd (cart_rom_dma_write d c n s))"
  by (simp_all add: sram_dma_read_def sram_dma_write_def flashram_dma_read_def flashram_dma_write_def
      cart_rom_dma_write_def Let_def split_beta)

lemma cart_dom_dma_live:
  "live s \<Longrightarrow> live (snd (cart_dom2_dma_read d c n s))" "live s \<Longrightarrow> live (snd (cart_dom2_dma_write d c n s))"
  "live s \<Longrightarrow> live (snd (cart_dom3_dma_read d c n s))" "live s \<Longrightarrow> live (snd (cart_dom3_dma_write d c n s))"
  by (simp_all add: cart_dom2_dma_read_def cart_dom2_dma_write_def cart_dom3_dma_read_def cart_dom3_dma_write_def
      cart_rom_dma_read_def split_beta cart_dma_live)

lemma flashram_command_live: "live s \<Longrightarrow> live (flashram_command c s)"
  by (simp add: flashram_command_def flash_erase_def flash_program_def Let_def split: flashram_mode.split)

lemma cart_mem_live:
  "live s \<Longrightarrow> live (write_cart_dom2 a v m s)" "live s \<Longrightarrow> live (snd (read_cart_dom2 a s))"
  "live s \<Longrightarrow> live (write_cart_rom a v m s)"
  by (simp_all add: write_cart_dom2_def read_cart_dom2_def write_sram_def read_sram_def write_flashram_def
      flashram_command_live write_cart_rom_def validate_pi_request_def Let_def add_interrupt_event_live)

lemma expect_live:
  "live s \<Longrightarrow> (\<And>v s. live s \<Longrightarrow> live (snd (f (v, s)))) \<Longrightarrow> live (snd (expect t r f (v, s)))"
  by (simp add: expect_def)

lemma cart_command_live: "live s \<Longrightarrow> live (snd (process_cart_command ck rxo (v, s)))"
  by (simp add: process_cart_command_def Let_def expect_live cart_status_def eeprom_read_block_def
      eeprom_write_block_def af_rtc_read_block_def af_rtc_write_block_def update_rtc_def)

section \<open>Properties\<close>

lemma random_frame [simp]: "dram (snd (add_random_interrupt_time s)) = dram s"
  by (simp add: add_random_interrupt_time_def host_rand_def Let_def)

text \<open>
  C27. A ROM transfer fills the RDRAM block, cut off at the end of RDRAM, with the bytes of the
  ROM, and with zeros past its end; no other byte of RDRAM changes.
\<close>

theorem cart_rom_dma_copies:
  assumes c: "c = unat (cart_addr AND 0xefffffff)" and wrap: "c + unat len < 2 ^ 32"
    and d: "d = unat dram_addr" and n: "n = loop_count d (dram_size s) len"
  shows "get8 (dram (snd (cart_rom_dma_write dram_addr cart_addr len s))) (b XOR 3) =
    (if d \<le> b \<and> b < d + n then if c + (b - d) < rom_size s then rom s ((c + (b - d)) XOR 3) else 0
     else get8 (dram s) (b XOR 3))"
proof -
  have a: "unat ((cart_addr AND 0xefffffff) + len) = c + unat len"
    using wrap unfolding c by (rule unat_add_small)
  show ?thesis
  proof (cases "c + unat len < rom_size s")
    case True
    then show ?thesis
      by (auto simp: cart_rom_dma_write_def Let_def split_beta a to_dram_at n loop_count_def simp flip: c d)
  next
    case False
    then show ?thesis
      by (auto simp: cart_rom_dma_write_def Let_def split_beta a to_dram_at n loop_count_def simp flip: c d)
  qed
qed

text \<open>
  What a DMA stores in SRAM, a later DMA brings back, to any place in RDRAM that fits, and
  neither access leaves the SRAM.
\<close>

theorem sram_dma_roundtrip:
  assumes c: "c = unat (cart_addr AND 0xffff)" and fits: "c + unat len \<le> SRAM_SIZE"
    and room: "unat dst + unat len \<le> dram_size s" and i: "i < unat len"
  shows "get8 (dram (snd (sram_dma_write dst cart_addr len (snd (sram_dma_read src cart_addr len s)))))
      ((unat dst + i) XOR 3) = get8 (dram s) ((unat src + i) XOR 3) \<and>
    fault (snd (sram_dma_write dst cart_addr len (snd (sram_dma_read src cart_addr len s)))) = fault s"
  using assms
  by (simp add: sram_dma_write_def sram_dma_read_def Let_def loop_count_def to_dram_at from_dram_at)

text \<open>
  The 16-bit SRAM address is not checked against the 32 KiB of SRAM: a guest access in the
  upper half, by the processor or by DMA to RDRAM, leaves the array.
\<close>

theorem sram_access_out_of_bounds:
  assumes "SRAM_SIZE \<le> unat (address AND 0xffff)"
  shows "fault (snd (read_sram address s)) \<and> fault (write_sram address value msk s) \<and>
    (unat dst < dram_size s \<and> len \<noteq> 0 \<longrightarrow> fault (snd (sram_dma_write dst address len s)))"
  using assms unat_eq_0 [of len]
  by (auto simp: read_sram_def write_sram_def sram_dma_write_def Let_def loop_count_def)

text \<open>
  Programming a page of the FlashRAM that exists stores the page buffer there, changes no
  other byte, reports success in the status register and stays inside the array.
\<close>

theorem flash_program_stores_page:
  assumes p: "page = unat (command AND 0xffff)" and ok: "page < 1024" and op: "command AND 0xff000000 = 0xa5000000"
  shows "fl_mem (cart_flash (flashram_command command s)) (b XOR 3) =
      (if page * 128 \<le> b \<and> b < page * 128 + 128 then fl_page_buf (cart_flash s) (b - page * 128)
       else fl_mem (cart_flash s) (b XOR 3)) \<and>
    fl_mode (cart_flash (flashram_command command s)) = FLASHRAM_MODE_STATUS \<and>
    fl_status (cart_flash (flashram_command command s)) AND 0x05 = 0x04 \<and>
    fault (flashram_command command s) = fault s"
proof -
  have "(((x OR 1) AND NOT 1) OR 4) AND 5 = (4 :: u32)" for x
    by (rule bit_word_eqI) (auto simp: bit_simps numeral_eq_Suc less_Suc_eq)
  then show ?thesis using assms
    by (simp add: flashram_command_def flash_program_def Let_def from_dram_at)
qed

text \<open>
  The page number of a program command and the sector of an erase command are not checked:
  with a page beyond the 1024 pages of the chip the emulator writes outside its array.
\<close>

theorem flash_program_out_of_bounds:
  assumes "command AND 0xff000000 = 0xa5000000 \<and> 1024 \<le> unat (command AND 0xffff) \<or>
    command AND 0xff000000 = 0x78000000 \<and> fl_mode (cart_flash s) = FLASHRAM_MODE_SECTOR_ERASE \<and>
    1024 \<le> unat (fl_erase_page (cart_flash s) AND 0xff80)"
  shows "fault (flashram_command command s)"
  using assms
  by (auto simp: flashram_command_def flash_program_def flash_erase_def Let_def)

text \<open>
  A block written to the EEPROM over the joybus is read back by a read command of the same
  block, and the write leaves every other block alone.
\<close>

theorem eeprom_read_after_write:
  assumes sz: "eeprom_size s = 512 \<or> eeprom_size s = 2048" and blk: "unat block * 8 < eeprom_size s"
    and w: "w 0 = 10" "w 1 = 1" "w 2 = 5" "w 3 = block" and r: "r 0 = 2" "r 1 = 8" "r 2 = 4" "r 3 = block"
    and i: "i < 8" and s': "s' = snd (process_cart_command ck 12 (w, s))"
  shows "fst (process_cart_command ck 4 (r, s')) (4 + i) = w (4 + i) \<and> fault s' = fault s \<and>
    (\<forall>a. a div 8 \<noteq> unat block \<longrightarrow> eeprom_mem s' a = eeprom_mem s a)"
proof -
  have b: "unat block * 8 + 8 \<le> eeprom_size s" using sz blk by auto
  have d: "a div 8 = unat block" if "unat block * 8 \<le> a" "a < unat block * 8 + 8" for a
    using that by (simp add: div_nat_eqI)
  show ?thesis
    unfolding s' process_cart_command_def Let_def
    using assms b d
    by (auto simp: expect_def eeprom_write_block_def eeprom_read_block_def Let_def blit_at)
qed

text \<open>
  The clock digits are binary-coded decimals: for the values a clock shows, the two nibbles
  are the decimal digits.
\<close>

theorem byte2bcd_digits:
  assumes "0 \<le> n" and "n < 100"
  shows "uint (byte2bcd n) = 16 * (n div 10) + n mod 10"
proof -
  have "\<forall>n \<in> set [0..99]. uint (byte2bcd n) = 16 * (n div 10) + n mod 10" by code_simp
  then show ?thesis using assms by simp
qed

section \<open>Witnesses\<close>

definition sample_flash :: flashram where
  "sample_flash = \<lparr>fl_page_buf = (\<lambda>i. of_nat i), fl_id1 = MX29L1100_ID, fl_status = 0, fl_erase_page = 0,
     fl_mode = FLASHRAM_MODE_PAGE_PROGRAM, fl_mem = (\<lambda>_. 0xff)\<rparr>"

definition sample_cart :: cart where
  "sample_cart = pi_controller.extend sample_pi
     (cart.fields \<lparr>rtc_control = 0, rtc_now = 0, rtc_last_update = 0\<rparr> (\<lambda>a. of_nat a) 0x1000 0 0x8000 (\<lambda>_. 0xff) 512
        sample_flash (\<lambda>_. 0xff) 0)"

lemma sample_cart_simps:
  "rom sample_cart = (\<lambda>a. of_nat a)" "rom_size sample_cart = 0x1000" "eeprom_size sample_cart = 512"
  "cart_flash sample_cart = sample_flash" "dram_size sample_cart = 0x800000"
  by (simp_all add: sample_cart_def pi_controller.defs cart.defs sample_pi_def pif.defs sample_pif_def rsp_core.defs
      sample_rsp_def ai_controller.defs sample_ai_def vi_controller.defs sample_vi_def rdp_core.defs sample_rdp_def
      rdram.defs sample_rdram_def memory.defs)

theorem cart_rom_dma_copies_witness:
  "get8 (dram (snd (cart_rom_dma_write 0x400 0x10000ff0 0x20 sample_cart))) (0x408 XOR 3) = 0xfb"
  using cart_rom_dma_copies [OF refl _ refl refl, of "0x10000ff0" "0x20" "0x400" sample_cart "0x408"]
  by (simp add: sample_cart_simps loop_count_def)

theorem sram_dma_roundtrip_witness:
  "get8 (dram (snd (sram_dma_write 0x2000 0x08000100 0x40 (snd (sram_dma_read 0x1000 0x08000100 0x40 sample_cart)))))
     ((0x2000 + 5) XOR 3) = get8 (dram sample_cart) ((0x1000 + 5) XOR 3)"
  using sram_dma_roundtrip [OF refl, of "0x08000100" "0x40" "0x2000" sample_cart 5 "0x1000"]
  by (simp add: sample_cart_simps)

theorem sram_access_out_of_bounds_witness: "fault (write_sram 0x08008000 0 0xFFFFFFFF sample_cart)"
  using sram_access_out_of_bounds [of "0x08008000" sample_cart] by simp

theorem flash_program_stores_page_witness:
  "fl_mem (cart_flash (flashram_command 0xa5000003 sample_cart)) (0x185 XOR 3) = 5"
  using flash_program_stores_page [OF refl, of "0xa5000003" sample_cart "0x185"]
  by (simp add: sample_cart_simps sample_flash_def)

theorem flash_program_out_of_bounds_witness: "fault (flashram_command 0xa5000400 sample_cart)"
  by (rule flash_program_out_of_bounds) simp

definition sample_clock :: "cart clock" where
  "sample_clock = \<lparr>clock_get_time = (\<lambda>_. 0), clock_localtime =
     (\<lambda>_. \<lparr>tm_sec = 0, tm_min = 0, tm_hour = 0, tm_mday = 1, tm_wday = 4, tm_mon = 0, tm_year = 70\<rparr>)\<rparr>"

theorem eeprom_read_after_write_witness:
  "fst (process_cart_command sample_clock 4 ((\<lambda>_. 0)(0 := 2, Suc 0 := 8, 2 := 4, 3 := 7),
     snd (process_cart_command sample_clock 12 ((\<lambda>j. of_nat j)(0 := 10, Suc 0 := 1, 2 := 5, 3 := 7), sample_cart)))) (4 + 2) = 6"
  using eeprom_read_after_write [OF _ _ _ _ _ _ _ _ _ _ _ refl, of sample_cart 7
      "(\<lambda>j. of_nat j)(0 := 10, Suc 0 := 1, 2 := 5, 3 := 7)" "(\<lambda>_. 0)(0 := 2, Suc 0 := 8, 2 := 4, 3 := 7)" 2 sample_clock]
  by (simp add: sample_cart_simps)

theorem byte2bcd_digits_witness: "uint (byte2bcd 59) = 0x59"
  using byte2bcd_digits [of 59] by simp

end
