(* ===== verification/M64282fp.thy ===== *)
theory M64282fp
  imports Prelude "HOL-Library.Signed_Division"
begin

text \<open>
  The image sensor of the Game Boy camera (\<^verbatim>\<open>src/src/device/gb/m64282fp.c\<close>) and the conversion of its picture to
  Game Boy tiles (\<^verbatim>\<open>gb_cart.c\<close>). Pictures are functions of row and column. The C code computes in \<^verbatim>\<open>int\<close>:
  the values stay far inside 32 bits, so they are integers here, with division that truncates towards 0.
\<close>

type_synonym 'a image = "nat \<Rightarrow> nat \<Rightarrow> 'a"

abbreviation (input) M64282FP_SENSOR_W :: nat where "M64282FP_SENSOR_W \<equiv> 128"
abbreviation (input) M64282FP_SENSOR_H :: nat where "M64282FP_SENSOR_H \<equiv> 128"
abbreviation (input) M64282FP_Z_O :: nat where "M64282FP_Z_O \<equiv> 0"
abbreviation (input) M64282FP_N_VH_G :: nat where "M64282FP_N_VH_G \<equiv> 1"
abbreviation (input) M64282FP_C_LO :: nat where "M64282FP_C_LO \<equiv> 2"
abbreviation (input) M64282FP_C_HI :: nat where "M64282FP_C_HI \<equiv> 3"
abbreviation (input) M64282FP_P :: nat where "M64282FP_P \<equiv> 4"
abbreviation (input) M64282FP_M :: nat where "M64282FP_M \<equiv> 5"
abbreviation (input) M64282FP_X :: nat where "M64282FP_X \<equiv> 6"
abbreviation (input) M64282FP_E_I_V :: nat where "M64282FP_E_I_V \<equiv> 7"

definition clamp :: "int \<Rightarrow> int \<Rightarrow> int \<Rightarrow> int" where
  "clamp v low high = min high (max low v)"

text \<open>A double loop that replaces every pixel of the sensor by a function of itself.\<close>

definition each_pixel :: "(nat \<Rightarrow> nat \<Rightarrow> 'a \<Rightarrow> 'b) \<Rightarrow> 'a image \<Rightarrow> 'b image \<Rightarrow> 'b image" where
  "each_pixel f img dst y x = (if y < M64282FP_SENSOR_H \<and> x < M64282FP_SENSOR_W then f y x (img y x) else dst y x)"

section \<open>Filters\<close>

text \<open>
  The filters work in place. The one with a kernel keeps the previous values of the line above and, in the
  last cell of \<open>tmp\<close>, of the pixel to the left.
\<close>

definition kernel_pixel :: "int \<Rightarrow> int list \<Rightarrow> nat \<Rightarrow> nat \<Rightarrow> int image \<times> (nat \<Rightarrow> int) \<Rightarrow> int image \<times> (nat \<Rightarrow> int)" where
  "kernel_pixel a k y x = (\<lambda>(img, tmp).
     let px = img y x;
         ms = img (min (y + 1) (M64282FP_SENSOR_H - 1)) x;
         me = img y (min (x + 1) (M64282FP_SENSOR_W - 1));
         mn = tmp x;
         mw = tmp M64282FP_SENSOR_W;
         v = k ! 0 * px + (a * (k ! 1 * px + k ! 2 * mn + k ! 3 * mw + k ! 4 * me + k ! 5 * ms)) sdiv 4
     in (img(y := (img y)(x := v)), tmp(x := px, M64282FP_SENSOR_W := px)))"

definition kernel_row :: "int \<Rightarrow> int list \<Rightarrow> nat \<Rightarrow> int image \<times> (nat \<Rightarrow> int) \<Rightarrow> int image \<times> (nat \<Rightarrow> int)" where
  "kernel_row a k y = (\<lambda>(img, tmp).
     fold (kernel_pixel a k y) [0..<M64282FP_SENSOR_W] (img, tmp(M64282FP_SENSOR_W := img y 0)))"

definition do_kernel_filtering :: "int image \<Rightarrow> int \<Rightarrow> int list \<Rightarrow> int image" where
  "do_kernel_filtering img a k = fst (fold (kernel_row a k) [0..<M64282FP_SENSOR_H] (img, img 0))"

definition filter_1d_pixel :: "u8 \<Rightarrow> u8 \<Rightarrow> nat \<Rightarrow> nat \<Rightarrow> int image \<Rightarrow> int image" where
  "filter_1d_pixel P M y x img =
     (let px = img y x;
          s1 = img (min (y + 1) (M64282FP_SENSOR_H - 1)) x;
          s2 = img (min (y + 2) (M64282FP_SENSOR_H - 1)) x;
          s3 = img (min (y + 3) (M64282FP_SENSOR_H - 1)) x;
          value = 0;
          value = (if P AND 0x01 \<noteq> 0 then value + px else value);
          value = (if P AND 0x02 \<noteq> 0 then value + s1 else value);
          value = (if P AND 0x04 \<noteq> 0 then value + s2 else value);
          value = (if P AND 0x08 \<noteq> 0 then value + s3 else value);
          value = (if M AND 0x01 \<noteq> 0 then value - px else value);
          value = (if M AND 0x02 \<noteq> 0 then value - s1 else value);
          value = (if M AND 0x04 \<noteq> 0 then value - s2 else value);
          value = (if M AND 0x08 \<noteq> 0 then value - s3 else value)
      in img(y := (img y)(x := value)))"

definition do_1d_filtering :: "u8 \<Rightarrow> u8 \<Rightarrow> int image \<Rightarrow> int image" where
  "do_1d_filtering P M =
     fold (\<lambda>y. fold (filter_1d_pixel P M y) [0..<M64282FP_SENSOR_W]) [0..<M64282FP_SENSOR_H]"

definition kernels :: "int list list" where
  "kernels =
     [[1, 2, 0, - 1, - 1, 0], [0, 2, 0, - 1, - 1, 0],
      [1, 2, - 1, 0, 0, - 1], [0, 2, - 1, 0, 0, - 1],
      [1, 4, - 1, - 1, - 1, - 1], [0, 4, - 1, - 1, - 1, - 1]]"

text \<open>\<^verbatim>\<open>Q2(x)\<close> multiplies before the division in its argument happens.\<close>

definition alpha_lut :: "int list" where
  "alpha_lut = [4 * 2 div 4, 4 * 3 div 4, 4 * 1, 4 * 5 div 4, 4 * 2, 4 * 3, 4 * 4, 4 * 5]"

definition exposed :: "(nat \<Rightarrow> u8) \<Rightarrow> u8 \<Rightarrow> u8" where
  "exposed regs p =
     (let exposure = push_bit 8 (ucast (regs M64282FP_C_HI)) OR ucast (regs M64282FP_C_LO) :: u16;
          v = (uint p * uint exposure) sdiv 0x0300;
          v = (v - 128) sdiv 8 + 128
      in of_int (clamp v 0 255))"

definition sensor_mode :: "(nat \<Rightarrow> u8) \<Rightarrow> u8" where
  "sensor_mode regs =
     push_bit 3 (drop_bit 7 (regs M64282FP_N_VH_G AND 0x80)) OR
     push_bit 1 (drop_bit 5 (regs M64282FP_N_VH_G AND 0x60)) OR
     drop_bit 7 (regs M64282FP_E_I_V AND 0x80)"

definition sensor_filter :: "(nat \<Rightarrow> u8) \<Rightarrow> int image \<Rightarrow> int image" where
  "sensor_filter regs tmp =
     (let mode = sensor_mode regs;
          alpha = alpha_lut ! unat (drop_bit 4 (regs M64282FP_E_I_V AND 0x70));
          vertical = do_1d_filtering (regs M64282FP_P) (regs M64282FP_M)
      in if mode = 0x0 then vertical tmp
         else if mode = 0x1 then each_pixel (\<lambda>_ _ _. 0) tmp tmp
         else if mode = 0x2 then vertical (do_kernel_filtering tmp alpha (kernels ! 0))
         else if mode = 0x3 then vertical (do_kernel_filtering tmp alpha (kernels ! 1))
         else if mode = 0xc then do_kernel_filtering tmp alpha (kernels ! 2)
         else if mode = 0xd then do_kernel_filtering tmp alpha (kernels ! 3)
         else if mode = 0xe then do_kernel_filtering tmp alpha (kernels ! 4)
         else if mode = 0xf then do_kernel_filtering tmp alpha (kernels ! 5)
         else tmp)"

definition process_m64282fp_image :: "(nat \<Rightarrow> u8) \<Rightarrow> u8 image \<Rightarrow> u8 image" where
  "process_m64282fp_image regs img =
     (let img = each_pixel (\<lambda>_ _. exposed regs) img img;
          img = (if regs M64282FP_E_I_V AND 0x8 \<noteq> 0 then each_pixel (\<lambda>_ _ p. 255 - p) img img else img);
          tmp = each_pixel (\<lambda>_ _ p. uint p - 128) img (\<lambda>_ _. 0);
          tmp = sensor_filter regs tmp
      in each_pixel (\<lambda>_ _ v. of_int (clamp (128 + v) 0 255)) tmp img)"

section \<open>Tiles\<close>

definition apply_dithering_matrix :: "(nat \<Rightarrow> u8) \<Rightarrow> u8 \<Rightarrow> nat \<Rightarrow> nat \<Rightarrow> u8" where
  "apply_dithering_matrix regs v x y =
     (let d = 6 + (y mod 4 * 4 + x mod 4) * 3 in
      if v < regs d then 0x00 else if v < regs (d + 1) then 0x40 else if v < regs (d + 2) then 0x80 else 0xc0)"

text \<open>The place of a pixel in \<^verbatim>\<open>tiles[16][16][16]\<close>, laid out as it is copied to the RAM.\<close>

definition tile_base :: "nat \<Rightarrow> nat \<Rightarrow> nat" where
  "tile_base y x = (y div 8 * 16 + x div 8) * 16 + 2 * (y mod 8)"

definition encode_pixel :: "(nat \<Rightarrow> u8) \<Rightarrow> u8 image \<Rightarrow> nat \<times> nat \<Rightarrow> (nat \<Rightarrow> u8) \<Rightarrow> (nat \<Rightarrow> u8)" where
  "encode_pixel regs img = (\<lambda>(y, x) tiles.
     let c = 0xc0 - apply_dithering_matrix regs (img y x) x y;
         b = tile_base y x;
         m = push_bit (7 - x mod 8) 1;
         tiles = (if c AND 0x40 \<noteq> 0 then tiles(b := tiles b OR m) else tiles)
     in if c AND 0x80 \<noteq> 0 then tiles(b + 1 := tiles (b + 1) OR m) else tiles)"

definition encode_tiles :: "(nat \<Rightarrow> u8) \<Rightarrow> u8 image \<Rightarrow> (nat \<Rightarrow> u8)" where
  "encode_tiles regs img =
     fold (encode_pixel regs img) (List.product [0..<M64282FP_SENSOR_H] [0..<M64282FP_SENSOR_W]) (\<lambda>_. 0)"

text \<open>What a Game Boy shows for a pixel: the colour number from the two bit planes of its tile.\<close>

definition tile_pixel :: "(nat \<Rightarrow> u8) \<Rightarrow> nat \<Rightarrow> nat \<Rightarrow> nat" where
  "tile_pixel tiles y x =
     of_bool (bit (tiles (tile_base y x)) (7 - x mod 8)) + 2 * of_bool (bit (tiles (tile_base y x + 1)) (7 - x mod 8))"

section \<open>The filters against their mathematical definition\<close>

text \<open>The convolution the sensor's manual describes, with the border repeated.\<close>

definition convolution :: "int \<Rightarrow> int list \<Rightarrow> int image \<Rightarrow> int image" where
  "convolution a k img y x =
     k ! 0 * img y x + (a * (k ! 1 * img y x + k ! 2 * img (y - 1) x + k ! 3 * img y (x - 1) +
       k ! 4 * img y (min (x + 1) 127) + k ! 5 * img (min (y + 1) 127) x)) sdiv 4"

definition weight :: "u8 \<Rightarrow> u8 \<Rightarrow> nat \<Rightarrow> int" where
  "weight P M n = of_bool (bit P n) - of_bool (bit M n)"

definition vertical_filter :: "u8 \<Rightarrow> u8 \<Rightarrow> int image \<Rightarrow> int image" where
  "vertical_filter P M img y x = (\<Sum>n \<leftarrow> [0..<4]. weight P M n * img (min (y + n) 127) x)"

text \<open>The picture after \<open>y\<close> rows and \<open>x\<close> pixels of the next one, when each pixel became \<open>f\<close> of the original.\<close>

definition partly :: "int image \<Rightarrow> int image \<Rightarrow> nat \<Rightarrow> nat \<Rightarrow> int image" where
  "partly f img y x = (\<lambda>r c. if (r < y \<and> c < 128) \<or> (r = y \<and> c < x) then f r c else img r c)"

lemma partly_step: "(partly f img y x)(y := (partly f img y x y)(x := f y x)) = partly f img y (Suc x)"
  by (auto simp: partly_def fun_eq_iff)

lemma partly_row: "partly f img y 128 = partly f img (Suc y) 0"
  by (auto simp: partly_def fun_eq_iff)

lemma partly_0: "partly f img 0 0 = img"
  by (simp add: partly_def fun_eq_iff)

lemma partly_ahead: "y \<le> r \<Longrightarrow> x \<le> c \<Longrightarrow> partly f img y x r c = img r c"
  by (simp add: partly_def)

lemma kernel_pixels:
  assumes y: "y < 128" and t: "\<And>c. c < 128 \<Longrightarrow> tmp c = img (y - 1) c" "tmp 128 = img y 0" and x: "x \<le> 128"
  shows "\<exists>tmp'. fold (kernel_pixel a k y) [0..<x] (partly (convolution a k img) img y 0, tmp) =
      (partly (convolution a k img) img y x, tmp') \<and>
    (\<forall>c < 128. tmp' c = (if c < x then img y c else img (y - 1) c)) \<and> tmp' 128 = img y (x - 1)"
  using x
proof (induction x)
  case 0
  then show ?case using t by simp
next
  case (Suc x)
  let ?f = "convolution a k img"
  from Suc obtain tmp' where e: "fold (kernel_pixel a k y) [0..<x] (partly ?f img y 0, tmp) = (partly ?f img y x, tmp')"
    and c: "\<And>c. c < 128 \<Longrightarrow> tmp' c = (if c < x then img y c else img (y - 1) c)" and w: "tmp' 128 = img y (x - 1)" by auto
  have "kernel_pixel a k y x (partly ?f img y x, tmp') =
      ((partly ?f img y x)(y := (partly ?f img y x y)(x := ?f y x)), tmp'(x := img y x, 128 := img y x))"
    using y Suc.prems c [of x] w by (simp add: kernel_pixel_def Let_def partly_ahead convolution_def)
  then show ?case using e c Suc.prems by (auto simp: partly_step)
qed

lemma kernel_rows:
  assumes "y \<le> 128"
  shows "\<exists>tmp. fold (kernel_row a k) [0..<y] (img, img 0) = (partly (convolution a k img) img y 0, tmp) \<and>
    (\<forall>c < 128. tmp c = img (y - 1) c)"
  using assms
proof (induction y)
  case 0
  then show ?case by (simp add: partly_0)
next
  case (Suc y)
  then obtain tmp where e: "fold (kernel_row a k) [0..<y] (img, img 0) = (partly (convolution a k img) img y 0, tmp)"
    and c: "\<And>c. c < 128 \<Longrightarrow> tmp c = img (y - 1) c" by auto
  have "partly (convolution a k img) img y 0 y 0 = img y 0" by (simp add: partly_ahead)
  moreover obtain tmp' where "fold (kernel_pixel a k y) [0..<128] (partly (convolution a k img) img y 0, tmp(128 := img y 0)) =
      (partly (convolution a k img) img y 128, tmp')" "\<forall>c < 128. tmp' c = img y c"
    using kernel_pixels [of y "tmp(128 := img y 0)" img 128 a k] c Suc.prems by auto
  ultimately show ?case using e by (simp add: kernel_row_def [of a k y] partly_row)
qed

lemma low_bits:
  "(P AND 0x01 \<noteq> 0) = bit P 0" "(P AND 0x02 \<noteq> 0) = bit P 1" "(P AND 0x04 \<noteq> 0) = bit P 2" "(P AND 0x08 \<noteq> 0) = bit P 3"
  for P :: u8
  using and_exp_eq_0_iff_not_bit [of P 0] and_exp_eq_0_iff_not_bit [of P 1] and_exp_eq_0_iff_not_bit [of P 2]
    and_exp_eq_0_iff_not_bit [of P 3] by simp_all

lemma if_add: "(if b then v + p else v) = v + of_bool b * p" "(if b then v - p else v) = v - of_bool b * p" for v p :: int
  by simp_all

lemma filter_1d_value:
  assumes "y < 128"
  shows "filter_1d_pixel P M y x (partly (vertical_filter P M img) img y x) = partly (vertical_filter P M img) img y (Suc x)"
proof -
  let ?p = "partly (vertical_filter P M img) img y x"
  have u: "[0..<4] = [0, 1, 2, 3 :: nat]" by (simp add: upt_rec)
  have "filter_1d_pixel P M y x ?p = ?p(y := (?p y)(x := vertical_filter P M img y x))"
    using assms unfolding filter_1d_pixel_def Let_def low_bits if_add
    by (simp add: partly_ahead vertical_filter_def weight_def u algebra_simps del: of_bool_eq_iff)
  then show ?thesis by (simp add: partly_step)
qed

lemma filter_1d_row:
  assumes "y < 128"
  shows "fold (filter_1d_pixel P M y) [0..<x] (partly (vertical_filter P M img) img y 0) = partly (vertical_filter P M img) img y x"
  by (induction x) (simp_all add: filter_1d_value [OF assms])

lemma filter_1d_rows:
  "y \<le> 128 \<Longrightarrow> fold (\<lambda>y. fold (filter_1d_pixel P M y) [0..<128]) [0..<y] img = partly (vertical_filter P M img) img y 0"
proof (induction y)
  case (Suc y)
  then show ?case by (simp add: filter_1d_row partly_row)
qed (simp add: partly_0)

text \<open>
  C39. The filters of the image sensor, although they overwrite the picture while they read it, compute on every
  pixel the weighted sum of the original picture, with the pixels at the border repeated.
\<close>

theorem sensor_filters_exact:
  assumes "y < 128" "x < 128"
  shows "do_kernel_filtering img a k y x = convolution a k img y x \<and>
    do_1d_filtering P M img y x = vertical_filter P M img y x"
proof
  show "do_kernel_filtering img a k y x = convolution a k img y x"
    using kernel_rows [of 128 a k img] assms by (auto simp: do_kernel_filtering_def partly_def)
  show "do_1d_filtering P M img y x = vertical_filter P M img y x"
    using assms by (simp add: do_1d_filtering_def filter_1d_rows partly_def)
qed

theorem sensor_filters_exact_witness:
  "do_kernel_filtering (\<lambda>y x. int y * int x) 4 (kernels ! 4) 0 7 = - 7 \<and> do_1d_filtering 1 2 (\<lambda>y x. int y * int x) 5 7 = - 7"
  using sensor_filters_exact [of 0 7 "\<lambda>y x. int y * int x" 4 "kernels ! 4" 1 2]
    sensor_filters_exact [of 5 7 "\<lambda>y x. int y * int x" 4 "kernels ! 4" 1 2]
  by (simp add: convolution_def kernels_def vertical_filter_def weight_def upt_rec)

section \<open>Tiles hold the picture\<close>

lemma tile_base_split:
  assumes "y < 128" "x < 128"
  shows "tile_base y x div 256 = y div 8" "tile_base y x div 16 mod 16 = x div 8" "tile_base y x mod 16 = 2 * (y mod 8)"
proof -
  have b: "x div 8 < 16" "y mod 8 < 8" using assms by simp_all
  have e: "tile_base y x = 256 * (y div 8) + (16 * (x div 8) + 2 * (y mod 8))" by (simp add: tile_base_def)
  show "tile_base y x div 256 = y div 8" unfolding e using b by simp
  have "tile_base y x div 16 = 16 * (y div 8) + x div 8" unfolding e using b by simp
  then show "tile_base y x div 16 mod 16 = x div 8" using b by simp
  have "tile_base y x = 16 * (16 * (y div 8) + x div 8) + 2 * (y mod 8)" by (simp add: e)
  then show "tile_base y x mod 16 = 2 * (y mod 8)" using b by (simp only: mod_mult_self4) simp
qed

lemma tile_base_inj:
  assumes "y < 128" "x < 128" "y' < 128" "x' < 128" "tile_base y x = tile_base y' x'" "7 - x mod 8 = 7 - x' mod 8"
  shows "y = y' \<and> x = x'"
proof -
  have "y div 8 = y' div 8" "x div 8 = x' div 8" "y mod 8 = y' mod 8"
    using tile_base_split [OF assms(1,2)] tile_base_split [OF assms(3,4)] assms(5) by simp_all
  moreover have "x mod 8 = x' mod 8"
    using assms(6) mod_less_divisor [of 8 x] mod_less_divisor [of 8 x'] by linarith
  ultimately show ?thesis by (metis mult_div_mod_eq)
qed

lemma tile_base_even: "even (tile_base y x)"
  by (simp add: tile_base_def)

definition pixel_colour :: "(nat \<Rightarrow> u8) \<Rightarrow> u8 image \<Rightarrow> nat \<times> nat \<Rightarrow> u8" where
  "pixel_colour regs img = (\<lambda>(y, x). 0xc0 - apply_dithering_matrix regs (img y x) x y)"

lemma encode_pixel_bit:
  "n < 8 \<Longrightarrow> bit (encode_pixel regs img (y, x) t i) n \<longleftrightarrow> bit (t i) n \<or> (n = 7 - x mod 8 \<and>
     (i = tile_base y x \<and> bit (pixel_colour regs img (y, x)) 6 \<or> i = tile_base y x + 1 \<and> bit (pixel_colour regs img (y, x)) 7))"
proof -
  assume n: "n < 8"
  have t: "(c AND 0x40 \<noteq> 0) = bit c 6" "(c AND 0x80 \<noteq> 0) = bit c 7" for c :: u8
    using and_exp_eq_0_iff_not_bit [of c 6] and_exp_eq_0_iff_not_bit [of c 7] by simp_all
  have m: "bit (2 ^ (7 - x mod 8) :: u8) n = (n = 7 - x mod 8)"
    using n by (auto simp: bit_exp_iff)
  show ?thesis unfolding encode_pixel_def Let_def split t pixel_colour_def
    by (auto simp: bit_or_iff m)
qed

lemma encode_pixels_bit:
  "n < 8 \<Longrightarrow> bit (fold (encode_pixel regs img) ps t i) n \<longleftrightarrow> bit (t i) n \<or> (\<exists>(y, x) \<in> set ps. n = 7 - x mod 8 \<and>
     (i = tile_base y x \<and> bit (pixel_colour regs img (y, x)) 6 \<or> i = tile_base y x + 1 \<and> bit (pixel_colour regs img (y, x)) 7))"
proof (induction ps arbitrary: t)
  case (Cons p ps)
  obtain y x where "p = (y, x)" by force
  then show ?case using Cons by (auto simp: encode_pixel_bit)
qed simp

lemma encode_tiles_bit:
  assumes "y < 128" "x < 128"
  shows "bit (encode_tiles regs img (tile_base y x)) (7 - x mod 8) = bit (pixel_colour regs img (y, x)) 6"
    "bit (encode_tiles regs img (tile_base y x + 1)) (7 - x mod 8) = bit (pixel_colour regs img (y, x)) 7"
proof -
  have o: "tile_base y x \<noteq> Suc (tile_base y' x')" "Suc (tile_base y x) \<noteq> tile_base y' x'" for y' x'
    by (metis even_Suc tile_base_even)+
  have u: "tile_base y x = tile_base y' x' \<Longrightarrow> 7 - x mod 8 = 7 - x' mod 8 \<Longrightarrow> y' < 128 \<Longrightarrow> x' < 128 \<Longrightarrow> y' = y \<and> x' = x" for y' x'
    using tile_base_inj [OF assms, of y' x'] by simp
  show "bit (encode_tiles regs img (tile_base y x)) (7 - x mod 8) = bit (pixel_colour regs img (y, x)) 6"
    "bit (encode_tiles regs img (tile_base y x + 1)) (7 - x mod 8) = bit (pixel_colour regs img (y, x)) 7"
    unfolding encode_tiles_def using assms u
    by (fastforce simp: encode_pixels_bit o)+
qed

text \<open>
  The tiles hold the picture: the colour number a Game Boy reads for a pixel is 3 (black), 2, 1 or 0 (white), by
  where the brightness of the pixel lies among the three thresholds of the dithering matrix for its position.
\<close>

theorem tiles_hold_picture:
  assumes "y < 128" "x < 128"
  shows "tile_pixel (encode_tiles regs img) y x =
    (let d = 6 + 3 * (4 * (y mod 4) + x mod 4); v = img y x in
     if v < regs d then 3 else if v < regs (d + 1) then 2 else if v < regs (d + 2) then 1 else 0)"
proof -
  have d: "6 + (y mod 4 * 4 + x mod 4) * 3 = 6 + 3 * (4 * (y mod 4) + x mod 4)" by simp
  have b: "bit (0xc0 :: u8) 6" "bit (0xc0 :: u8) 7" "\<not> bit (0x80 :: u8) 6" "bit (0x80 :: u8) 7"
    "bit (0x40 :: u8) 6" "\<not> bit (0x40 :: u8) 7" by simp_all
  show ?thesis
    unfolding tile_pixel_def encode_tiles_bit [OF assms] pixel_colour_def split apply_dithering_matrix_def Let_def d
    by (simp add: b)
qed

theorem tiles_hold_picture_witness:
  "tile_pixel (encode_tiles (\<lambda>r. if r < 21 then 0 else 200) (\<lambda>y x. 100)) 5 9 = 3"
  using tiles_hold_picture [of 5 9 "\<lambda>r. if r < 21 then 0 else 200" "\<lambda>y x. 100"] by simp

end
