(* ===== verification/Mbc3_Rtc.thy ===== *)
theory Mbc3_Rtc
  imports Prelude
begin

text \<open>
  The real-time clock of the MBC3 Game Boy cartridges (\<^verbatim>\<open>src/src/device/gb/mbc3_rtc.c\<close>). The clock back end is the
  argument \<open>now\<close>, the time in seconds. The registers are bytes and wrap; the theorem at the end says what time they show.
\<close>

abbreviation (input) MBC3_RTC_SECONDS :: nat where "MBC3_RTC_SECONDS \<equiv> 0"
abbreviation (input) MBC3_RTC_MINUTES :: nat where "MBC3_RTC_MINUTES \<equiv> 1"
abbreviation (input) MBC3_RTC_HOURS :: nat where "MBC3_RTC_HOURS \<equiv> 2"
abbreviation (input) MBC3_RTC_DAYS_L :: nat where "MBC3_RTC_DAYS_L \<equiv> 3"
abbreviation (input) MBC3_RTC_DAYS_H :: nat where "MBC3_RTC_DAYS_H \<equiv> 4"

record mbc3_rtc =
  rtc_regs :: "nat \<Rightarrow> u8"
  rtc_latch :: u32
  rtc_latched_regs :: "nat \<Rightarrow> u8"
  rtc_last_time :: int

definition no_rtc :: mbc3_rtc where
  "no_rtc = \<lparr>rtc_regs = (\<lambda>_. 0), rtc_latch = 0, rtc_latched_regs = (\<lambda>_. 0), rtc_last_time = 0\<rparr>"

section \<open>Registers\<close>

definition carry_reg :: "nat \<Rightarrow> int \<Rightarrow> u8 \<Rightarrow> (nat \<Rightarrow> u8) \<Rightarrow> (nat \<Rightarrow> u8)" where
  "carry_reg r d n regs =
     (let regs = regs(r := regs r + of_int d)
      in if n \<le> regs r then let regs = regs(r := regs r - n) in regs(Suc r := regs (Suc r) + 1) else regs)"

definition update_rtc_regs :: "int \<Rightarrow> mbc3_rtc \<Rightarrow> mbc3_rtc" where
  "update_rtc_regs now rtc =
     (let diff = now - rtc_last_time rtc; rtc = rtc\<lparr>rtc_last_time := now\<rparr> in
      if 0 < diff
      then let regs = carry_reg MBC3_RTC_SECONDS (diff mod 60) 60 (rtc_regs rtc); diff = diff div 60;
               regs = carry_reg MBC3_RTC_MINUTES (diff mod 60) 60 regs; diff = diff div 60;
               regs = carry_reg MBC3_RTC_HOURS (diff mod 24) 24 regs; diff = diff div 24;
               days = (push_bit 8 (ucast (regs MBC3_RTC_DAYS_H AND 0x01)) OR ucast (regs MBC3_RTC_DAYS_L)) + of_int diff :: u32;
               regs = regs(MBC3_RTC_DAYS_L := ucast (days AND 0xff));
               regs = regs(MBC3_RTC_DAYS_H := ucast (ucast (regs MBC3_RTC_DAYS_H AND NOT 0x01) OR (days AND 0x100)));
               regs = (if 511 < days then regs(MBC3_RTC_DAYS_H := regs MBC3_RTC_DAYS_H OR 0x80) else regs)
           in rtc\<lparr>rtc_regs := regs\<rparr>
      else rtc)"

definition poweron_mbc3_rtc :: "mbc3_rtc \<Rightarrow> mbc3_rtc" where
  "poweron_mbc3_rtc rtc = rtc\<lparr>rtc_regs := (\<lambda>_. 0), rtc_latched_regs := (\<lambda>_. 0), rtc_latch := 0, rtc_last_time := 0\<rparr>"

definition read_mbc3_rtc_regs :: "int \<Rightarrow> nat \<Rightarrow> mbc3_rtc \<Rightarrow> u8 \<times> mbc3_rtc" where
  "read_mbc3_rtc_regs now reg rtc =
     (if rtc_latch rtc \<noteq> 0 then (rtc_latched_regs rtc reg, rtc)
      else let rtc = update_rtc_regs now rtc in (rtc_regs rtc reg, rtc))"

definition write_mbc3_rtc_regs :: "nat \<Rightarrow> u8 \<Rightarrow> mbc3_rtc \<Rightarrow> mbc3_rtc" where
  "write_mbc3_rtc_regs reg v rtc = rtc\<lparr>rtc_regs := (rtc_regs rtc)(reg := v)\<rparr>"

definition latch_mbc3_rtc_regs :: "int \<Rightarrow> u8 \<Rightarrow> mbc3_rtc \<Rightarrow> mbc3_rtc" where
  "latch_mbc3_rtc_regs now v rtc =
     (let rtc = (if rtc_latch rtc = 0 \<and> v = 1
                 then let rtc = update_rtc_regs now rtc in rtc\<lparr>rtc_latched_regs := rtc_regs rtc\<rparr> else rtc)
      in rtc\<lparr>rtc_latch := ucast (v AND 0x1)\<rparr>)"

section \<open>The time they show\<close>

lemma uint_add_of_int: "0 \<le> e \<Longrightarrow> uint w + e < 256 \<Longrightarrow> uint (w + of_int e) = uint w + e" for w :: u8
  by (simp add: uint_word_ariths uint_word_of_int mod_simps)

lemma carry_reg_value:
  assumes "uint (regs r) \<le> uint n" "0 \<le> d" "d < uint n" "uint n \<le> 100"
  shows "uint (carry_reg r d n regs r) = (uint (regs r) + d) mod uint n"
    "carry_reg r d n regs (Suc r) = regs (Suc r) + of_int ((uint (regs r) + d) div uint n)"
    "j \<noteq> r \<Longrightarrow> j \<noteq> Suc r \<Longrightarrow> carry_reg r d n regs j = regs j"
proof -
  let ?x = "uint (regs r) + d"
  have u: "uint (regs r + of_int d) = ?x"
    using assms by (intro uint_add_of_int) simp_all
  have c: "(n \<le> regs r + of_int d) = (uint n \<le> ?x)" by (simp add: word_le_def u)
  have q: "?x < uint n \<Longrightarrow> ?x div uint n = 0 \<and> ?x mod uint n = ?x" using assms by (simp add: div_pos_pos_trivial)
  have q': "uint n \<le> ?x \<Longrightarrow> ?x div uint n = 1 \<and> ?x mod uint n = ?x - uint n"
  proof -
    assume "uint n \<le> ?x"
    then have "?x = uint n * 1 + (?x - uint n)" "0 \<le> ?x - uint n" "?x - uint n < uint n" using assms by simp_all
    then show ?thesis by (metis div_pos_pos_trivial int_div_pos_eq int_mod_pos_eq)
  qed
  have s: "uint n \<le> ?x \<Longrightarrow> uint (regs r + of_int d - n) = ?x - uint n"
    using u assms by (simp add: uint_sub_if')
  show "uint (carry_reg r d n regs r) = ?x mod uint n"
    using q q' s u by (simp add: carry_reg_def Let_def c not_le)
  show "carry_reg r d n regs (Suc r) = regs (Suc r) + of_int (?x div uint n)"
    using q q' by (simp add: carry_reg_def Let_def c not_le)
  show "j \<noteq> r \<Longrightarrow> j \<noteq> Suc r \<Longrightarrow> carry_reg r d n regs j = regs j"
    by (simp add: carry_reg_def Let_def)
qed

lemma mixed_radix: "0 < n \<Longrightarrow> 0 < m \<Longrightarrow> x mod n + n * ((y + x div n) mod m) = (x + n * y) mod (n * m)" for x y n m :: int
  using zmod_zmult2_eq [of m "x + n * y" n] by (simp add: ac_simps)

lemma ucast_add8: "(ucast (x + y) :: u8) = ucast x + ucast y" for x y :: u32
proof -
  have "uint (ucast (x + y) :: u8) = uint (ucast x + ucast y :: u8)"
    by (simp add: uint_word_ariths unsigned_ucast_eq take_bit_eq_mod mod_mod_cancel mod_simps)
  then show ?thesis by (simp only: word_uint_eq_iff)
qed

lemma day_byte:
  "ucast (((push_bit 8 a OR ucast l) + of_int e :: u32) AND 0xff) = l + (of_int e :: u8)" for l :: u8
proof -
  have f: "(0xff :: u32) = mask 8" by (simp add: mask_eq_exp_minus_1)
  have "(ucast (w AND 0xff) :: u8) = ucast w" for w :: u32
    unfolding f by (rule bit_eqI) (auto simp: bit_simps)
  moreover have "(ucast (push_bit 8 a OR ucast l :: u32) :: u8) = l"
    by (rule bit_eqI) (auto simp: bit_simps)
  moreover have "(ucast (of_int e :: u32) :: u8) = of_int e"
    by (simp add: word_uint_eq_iff unsigned_ucast_eq uint_word_of_int take_bit_eq_mod mod_mod_cancel)
  ultimately show ?thesis by (simp add: ucast_add8)
qed

text \<open>The time in the registers, in seconds, with the day counter cut to its low byte.\<close>

definition rtc_seconds :: "(nat \<Rightarrow> u8) \<Rightarrow> int" where
  "rtc_seconds r = uint (r MBC3_RTC_SECONDS) + 60 * (uint (r MBC3_RTC_MINUTES) + 60 * (uint (r MBC3_RTC_HOURS) + 24 * uint (r MBC3_RTC_DAYS_L)))"

definition rtc_in_range :: "(nat \<Rightarrow> u8) \<Rightarrow> bool" where
  "rtc_in_range r \<longleftrightarrow> r MBC3_RTC_SECONDS < 60 \<and> r MBC3_RTC_MINUTES < 60 \<and> r MBC3_RTC_HOURS < 24"

lemma time_of_parts:
  "d mod 60 + 60 * (d div 60 mod 60 + 60 * (d div 60 div 60 mod 24 + 24 * (d div 60 div 60 div 24))) = d" for d :: int
  by (simp add: mult_div_mod_eq add.commute)

lemma carry_small: "0 \<le> p \<Longrightarrow> p < 120 \<Longrightarrow> 0 \<le> p div 60 \<and> p div 60 \<le> 1" for p :: int
  by presburger

lemma carry_reg_upd:
  assumes "uint n = N" "r' = Suc r" "uint (regs r) = v" "v \<le> N" "0 \<le> d" "d < N" "N \<le> 100" "v + d = x"
  shows "carry_reg r d n regs = regs(r := of_int (x mod N), r' := regs r' + of_int (x div N))"
proof
  fix j
  note c = carry_reg_value [of regs r n d]
  have "carry_reg r d n regs r = of_int (x mod N)"
    using c(1) assms word_of_int_uint [of "carry_reg r d n regs r"] by simp
  then show "carry_reg r d n regs j = (regs(r := of_int (x mod N), r' := regs r' + of_int (x div N))) j"
    using c(2) c(3) [of j] assms by (cases "j = r"; cases "j = r'") simp_all
qed

lemma uint_of_int_small: "0 \<le> e \<Longrightarrow> e < 256 \<Longrightarrow> uint (of_int e :: u8) = e"
  by (simp add: uint_word_of_int)

lemma rtc_carries:
  fixes d :: int
  assumes "rtc_in_range r" and x_def: "x = uint (r 0) + d mod 60" and y_def: "y = uint (r 1) + d div 60 mod 60 + x div 60"
    and z_def: "z = uint (r 2) + d div 60 div 60 mod 24 + y div 60"
  shows "carry_reg MBC3_RTC_HOURS (d div 60 div 60 mod 24) 24 (carry_reg MBC3_RTC_MINUTES (d div 60 mod 60) 60
      (carry_reg MBC3_RTC_SECONDS (d mod 60) 60 r)) =
    r(0 := of_int (x mod 60), 1 := of_int (y mod 60), 2 := of_int (z mod 24), 3 := r 3 + of_int (z div 24))"
proof -
  have r: "uint (r 0) < 60" "uint (r 1) < 60" "uint (r 2) < 24"
    using assms(1) by (simp_all add: rtc_in_range_def word_less_def)
  have x: "0 \<le> x div 60" "x div 60 \<le> 1"
    using carry_small [of x] r(1) pos_mod_bound [of 60 d] pos_mod_sign [of 60 d] by (simp_all add: x_def)
  have y: "0 \<le> y div 60" "y div 60 \<le> 1"
    using carry_small [of y] r(2) x pos_mod_bound [of 60 "d div 60"] pos_mod_sign [of 60 "d div 60"] by (simp_all add: y_def)
  have a: "carry_reg 0 (d mod 60) 60 r = r(0 := of_int (x mod 60), 1 := r 1 + of_int (x div 60))"
    using r(1) by (intro carry_reg_upd) (simp_all add: x_def)
  let ?a = "r(0 := of_int (x mod 60), 1 := r 1 + of_int (x div 60))"
  have "uint (?a 1) = uint (r 1) + x div 60" unfolding fun_upd_same using r(2) x by (intro uint_add_of_int) linarith+
  then have b: "carry_reg 1 (d div 60 mod 60) 60 ?a = ?a(1 := of_int (y mod 60), 2 := ?a 2 + of_int (y div 60))"
    using r(2) x(2) by (intro carry_reg_upd) (simp_all add: y_def)
  let ?b = "?a(1 := of_int (y mod 60), 2 := ?a 2 + of_int (y div 60))"
  have "uint (?b 2) = uint (r 2) + y div 60" using r(3) y by (simp add: uint_add_of_int)
  then have c: "carry_reg 2 (d div 60 div 60 mod 24) 24 ?b = ?b(2 := of_int (z mod 24), 3 := ?b 3 + of_int (z div 24))"
    using r(3) y(2) by (intro carry_reg_upd) (simp_all add: z_def)
  show ?thesis unfolding a b c by (simp add: fun_eq_iff)
qed

lemma rtc_carry_seconds:
  fixes d :: int
  assumes x: "x = s + d mod 60" and y: "y = m + d div 60 mod 60 + x div 60" and z: "z = h + d div 60 div 60 mod 24 + y div 60"
    and e: "e = d div 60 div 60 div 24"
  shows "x mod 60 + 60 * (y mod 60 + 60 * (z mod 24 + 24 * ((t + z div 24 + e) mod 256))) =
    (s + 60 * (m + 60 * (h + 24 * t)) + d) mod (256 * 86400)"
proof -
  define Y Z D where "Y = m + d div 60 mod 60" and "Z = h + d div 60 div 60 mod 24" and "D = t + e"
  have z': "z + 24 * D = (Z + 24 * D) + y div 60" and y': "y + 60 * (Z + 24 * D) = (Y + 60 * (Z + 24 * D)) + x div 60"
    by (simp_all add: z y Z_def Y_def)
  have "z mod 24 + 24 * ((D + z div 24) mod 256) = ((Z + 24 * D) + y div 60) mod (24 * 256)"
    unfolding z' [symmetric] by (rule mixed_radix) simp_all
  moreover have "y mod 60 + 60 * (((Z + 24 * D) + y div 60) mod (24 * 256)) = ((Y + 60 * (Z + 24 * D)) + x div 60) mod (60 * (24 * 256))"
    unfolding y' [symmetric] by (rule mixed_radix) simp_all
  moreover have "x mod 60 + 60 * (((Y + 60 * (Z + 24 * D)) + x div 60) mod (60 * (24 * 256))) =
      (x + 60 * (Y + 60 * (Z + 24 * D))) mod (60 * (60 * (24 * 256)))"
    by (rule mixed_radix) simp_all
  moreover have "t + z div 24 + e = D + z div 24" by (simp add: D_def)
  moreover have "x + 60 * (Y + 60 * (Z + 24 * D)) = s + 60 * (m + 60 * (h + 24 * t)) +
      (d mod 60 + 60 * (d div 60 mod 60 + 60 * (d div 60 div 60 mod 24 + 24 * (d div 60 div 60 div 24))))"
    by (simp only: x e Y_def Z_def D_def distrib_left mult.assoc [symmetric] add_ac)
  moreover have "(60 * (60 * (24 * 256)) :: int) = 256 * 86400" by simp
  ultimately show ?thesis by (simp only: time_of_parts)
qed

lemma days_high_bit:
  "\<not> bit (ucast (ucast (h AND NOT 0x01 :: u8) OR (w AND 0x100 :: u32)) :: u8) 0" "\<not> bit (v :: u8) 0 \<Longrightarrow> \<not> bit (v OR 0x80) 0"
  by (simp_all add: bit_simps)

lemma update_rtc_days:
  assumes "rtc_last_time rtc < now"
  defines "d \<equiv> now - rtc_last_time rtc"
  defines "c \<equiv> carry_reg MBC3_RTC_HOURS (d div 60 div 60 mod 24) 24 (carry_reg MBC3_RTC_MINUTES (d div 60 mod 60) 60
      (carry_reg MBC3_RTC_SECONDS (d mod 60) 60 (rtc_regs rtc)))"
  shows "\<exists>v. rtc_regs (update_rtc_regs now rtc) = c(3 := c 3 + of_int (d div 60 div 60 div 24), 4 := v) \<and> \<not> bit v 0"
proof -
  let ?w = "push_bit 8 (ucast (c 4 AND 0x01)) OR ucast (c 3) :: u32"
  let ?days = "?w + of_int (d div 60 div 60 div 24)"
  let ?v = "ucast (ucast (c 4 AND NOT 0x01) OR (?days AND 0x100)) :: u8"
  have "rtc_regs (update_rtc_regs now rtc) = c(3 := ucast (?days AND 0xff), 4 := if 511 < ?days then ?v OR 0x80 else ?v)"
    using assms(1) unfolding c_def d_def by (auto simp: update_rtc_regs_def Let_def simp del: of_int_diff)
  moreover have "\<not> bit (if 511 < ?days then ?v OR 0x80 else ?v) 0"
    using days_high_bit(1) [of "c 4" ?days] days_high_bit(2) [of ?v] by (auto simp only: split: if_split)
  ultimately show ?thesis unfolding day_byte by blast
qed

text \<open>
  The real-time clock of the MBC3 keeps time: reading it advances seconds, minutes, hours and days by exactly
  the time that has passed, in range, except that the ninth bit of the day counter is lost: days count
  modulo 256 and not, as the cartridge has it, modulo 512.
\<close>

theorem rtc_counts_time:
  assumes "rtc_in_range (rtc_regs rtc)" "rtc_last_time rtc \<le> now"
  shows "let r' = rtc_regs (update_rtc_regs now rtc) in
    rtc_in_range r' \<and> rtc_seconds r' = (rtc_seconds (rtc_regs rtc) + (now - rtc_last_time rtc)) mod (256 * 86400) \<and>
    (rtc_last_time rtc < now \<longrightarrow> \<not> bit (r' MBC3_RTC_DAYS_H) 0)"
proof (cases "rtc_last_time rtc < now")
  case True
  let ?r = "rtc_regs rtc" and ?d = "now - rtc_last_time rtc"
  define x where "x = uint (?r 0) + ?d mod 60"
  define y where "y = uint (?r 1) + ?d div 60 mod 60 + x div 60"
  define z where "z = uint (?r 2) + ?d div 60 div 60 mod 24 + y div 60"
  obtain v where v: "rtc_regs (update_rtc_regs now rtc) =
      ?r(0 := of_int (x mod 60), 1 := of_int (y mod 60), 2 := of_int (z mod 24),
         3 := ?r 3 + of_int (z div 24) + of_int (?d div 60 div 60 div 24), 4 := v)" "\<not> bit v 0"
    using update_rtc_days [OF True] unfolding rtc_carries [OF assms(1) x_def y_def z_def] by (force simp: fun_upd_twist)
  have u: "uint (of_int (x mod 60) :: u8) = x mod 60" "uint (of_int (y mod 60) :: u8) = y mod 60" "uint (of_int (z mod 24) :: u8) = z mod 24"
    by (rule uint_of_int_small; simp add: order_less_trans [OF pos_mod_bound])+
  have l: "uint (?r 3 + of_int (z div 24) + of_int (?d div 60 div 60 div 24)) = (uint (?r 3) + z div 24 + ?d div 60 div 60 div 24) mod 256"
    by (simp add: uint_word_ariths uint_word_of_int mod_simps take_bit_eq_mod)
  show ?thesis
    unfolding v Let_def rtc_in_range_def rtc_seconds_def word_less_def
    using v(2) rtc_carry_seconds [OF x_def y_def z_def refl] by (simp add: u l del: of_int_diff)
next
  case False
  then have "update_rtc_regs now rtc = rtc\<lparr>rtc_last_time := now\<rparr>" by (simp add: update_rtc_regs_def Let_def)
  moreover have "0 \<le> rtc_seconds (rtc_regs rtc)" "rtc_seconds (rtc_regs rtc) < 256 * 86400"
    using assms(1) uint_lt2p [of "rtc_regs rtc 3"] by (simp_all add: rtc_seconds_def rtc_in_range_def word_less_def)
  ultimately show ?thesis using assms False by simp
qed

definition sample_rtc :: mbc3_rtc where
  "sample_rtc = no_rtc\<lparr>rtc_regs := (\<lambda>_. 0)(MBC3_RTC_SECONDS := 59, MBC3_RTC_MINUTES := 59, MBC3_RTC_HOURS := 23,
     MBC3_RTC_DAYS_L := 255), rtc_last_time := 1000\<rparr>"

theorem rtc_counts_time_witness: "rtc_seconds (rtc_regs (update_rtc_regs 1002 sample_rtc)) = 1"
  using rtc_counts_time [of sample_rtc 1002]
  by (simp add: sample_rtc_def no_rtc_def rtc_in_range_def rtc_seconds_def Let_def)

end
