(* ===== verification/Gb_Cart.thy ===== *)
theory Gb_Cart
  imports Cart M64282fp Mbc3_Rtc
begin

text \<open>
  Game Boy cartridges behind the transfer pak (\<^verbatim>\<open>src/src/device/gb/gb_cart.c\<close>) with their memory bank
  controllers and the pocket camera. Cartridge \<open>k\<close> is the one
  in the transfer pak of controller \<open>k\<close>. Files, clock and camera belong to back ends and are arguments. A read
  that leaves the caller's buffer alone returns \<open>None\<close>.
\<close>

abbreviation (input) GED_NONE :: u32 where "GED_NONE \<equiv> 0x00"
abbreviation (input) GED_RAM :: u32 where "GED_RAM \<equiv> 0x01"
abbreviation (input) GED_BATTERY :: u32 where "GED_BATTERY \<equiv> 0x02"
abbreviation (input) GED_RTC :: u32 where "GED_RTC \<equiv> 0x04"
abbreviation (input) GED_RUMBLE :: u32 where "GED_RUMBLE \<equiv> 0x08"
abbreviation (input) GED_ACCELEROMETER :: u32 where "GED_ACCELEROMETER \<equiv> 0x10"
abbreviation (input) GED_CAMERA :: u32 where "GED_CAMERA \<equiv> 0x20"
abbreviation (input) POCKET_CAM_REGS_COUNT :: nat where "POCKET_CAM_REGS_COUNT \<equiv> 0x36"
abbreviation (input) STORE_GB_RAM :: nat where "STORE_GB_RAM \<equiv> 7"

datatype mbc = Nombc | Mbc1 | Mbc2 | Mmm01 | Mbc3 | Mbc5 | Mbc6 | Mbc7 | Pocket_cam | Bandai_tama5 | Huc3 | Huc1

text \<open>A storage back end: \<open>None\<close> as data is the null pointer.\<close>

record storage =
  st_data :: "(nat \<Rightarrow> u8) option"
  st_size :: nat

record gb_cart =
  rom_storage :: "storage option"
  ram_storage :: "storage option"
  rom_bank :: u32
  ram_bank :: u32
  ram_enable :: bool
  mbc1_mode :: u32
  extra_devices :: u32
  gb_rtc :: mbc3_rtc
  cam_regs :: "nat \<Rightarrow> u8"
  gb_mbc :: "mbc option"

record gb_carts = cart +
  gbs :: "nat \<Rightarrow> gb_cart"

text \<open>The clock, and the camera: \<open>None\<close> when no picture can be taken, else its blue, green and red parts.\<close>

record 's gb_host =
  gb_time :: "'s \<Rightarrow> int"
  gb_grab :: "'s \<Rightarrow> (nat \<Rightarrow> nat \<Rightarrow> nat \<Rightarrow> u8) option"

definition upd_gb :: "nat \<Rightarrow> (gb_cart \<Rightarrow> gb_cart) \<Rightarrow> 'a gb_carts_scheme \<Rightarrow> 'a gb_carts_scheme" where
  "upd_gb k f s = s\<lparr>gbs := (gbs s)(k := f (gbs s k))\<rparr>"

section \<open>Access to ROM and RAM\<close>

definition read_rom :: "nat \<Rightarrow> u32 \<Rightarrow> nat \<Rightarrow> 'a gb_carts_scheme \<Rightarrow> (nat \<Rightarrow> u8) option \<times> 'a gb_carts_scheme" where
  "read_rom k address sz s =
     (case rom_storage (gbs s k) of
        None \<Rightarrow> (None, set_fault s)
      | Some st \<Rightarrow>
          if sz = 0 then (None, set_fault s)
          else if st_size st < unat address + sz then (None, s)
          else case st_data st of None \<Rightarrow> (None, set_fault s) | Some d \<Rightarrow> (Some (\<lambda>i. d (unat address + i)), s))"

text \<open>A cartridge without RAM has a null interface pointer, which \<^verbatim>\<open>read_ram\<close> and \<^verbatim>\<open>write_ram\<close> follow.\<close>

definition read_ram :: "nat \<Rightarrow> bool \<Rightarrow> u32 \<Rightarrow> nat \<Rightarrow> u8 \<Rightarrow> 'a gb_carts_scheme \<Rightarrow> (nat \<Rightarrow> u8) option \<times> 'a gb_carts_scheme" where
  "read_ram k enabled address sz msk s =
     (if sz = 0 then (None, set_fault s)
      else if \<not> enabled then (Some (\<lambda>_. 0xff), s)
      else case ram_storage (gbs s k) of
        None \<Rightarrow> (None, set_fault s)
      | Some st \<Rightarrow>
          (case st_data st of
             None \<Rightarrow> (Some (\<lambda>_. 0xff), s)
           | Some d \<Rightarrow>
               if st_size st < unat address + sz then (None, s) else (Some (\<lambda>i. d (unat address + i) AND msk), s)))"

definition write_ram :: "nat \<Rightarrow> bool \<Rightarrow> u16 \<Rightarrow> (nat \<Rightarrow> u8) \<Rightarrow> nat \<Rightarrow> u8 \<Rightarrow> 'a gb_carts_scheme \<Rightarrow> 'a gb_carts_scheme" where
  "write_ram k enabled address f sz msk s =
     (if sz = 0 then set_fault s
      else if \<not> enabled then s
      else case ram_storage (gbs s k) of
        None \<Rightarrow> set_fault s
      | Some st \<Rightarrow>
          (case st_data st of
             None \<Rightarrow> s
           | Some d \<Rightarrow>
               if st_size st < unat address + sz then s
               else call_out (Storage_save (STORE_GB_RAM + k) (unat address) sz)
                      (upd_gb k (\<lambda>g. g\<lparr>ram_storage := Some (st\<lparr>st_data := Some (blit d (unat address) (\<lambda>i. f i AND msk) sz)\<rparr>)\<rparr>) s)))"

definition set_ram_enable :: "nat \<Rightarrow> u8 \<Rightarrow> 'a gb_carts_scheme \<Rightarrow> 'a gb_carts_scheme" where
  "set_ram_enable k v = upd_gb k (\<lambda>g. g\<lparr>ram_enable := (v AND 0x0f = 0x0a)\<rparr>)"

text \<open>The 8 KiB window an address falls into, and the addresses behind the two switched windows.\<close>

definition gb_page :: "u16 \<Rightarrow> nat" where "gb_page address = unat (drop_bit 13 address)"

definition rom_window :: "gb_cart \<Rightarrow> u16 \<Rightarrow> u32" where
  "rom_window g address = (ucast address - 0x4000) + rom_bank g * 0x4000"

definition ram_window :: "u32 \<Rightarrow> u16 \<Rightarrow> u32" where
  "ram_window bank address = (ucast address - 0xa000) + bank * 0x2000"

section \<open>Memory bank controllers\<close>

type_synonym 'a gb_reader = "'a gb_carts_scheme gb_host \<Rightarrow> nat \<Rightarrow> u16 \<Rightarrow> nat \<Rightarrow> 'a gb_carts_scheme \<Rightarrow>
  (nat \<Rightarrow> u8) option \<times> 'a gb_carts_scheme"

type_synonym 'a gb_writer = "'a gb_carts_scheme gb_host \<Rightarrow> nat \<Rightarrow> u16 \<Rightarrow> (nat \<Rightarrow> u8) \<Rightarrow> nat \<Rightarrow> 'a gb_carts_scheme \<Rightarrow> 'a gb_carts_scheme"

text \<open>The ROM part all controllers with banks share.\<close>

definition read_banked :: "nat \<Rightarrow> u16 \<Rightarrow> nat \<Rightarrow> 'a gb_carts_scheme \<Rightarrow>
    ((nat \<Rightarrow> u8) option \<times> 'a gb_carts_scheme) \<Rightarrow> (nat \<Rightarrow> u8) option \<times> 'a gb_carts_scheme" where
  "read_banked k address sz s ram =
     (if gb_page address \<in> {0, 1} then read_rom k (ucast address) sz s
      else if gb_page address \<in> {2, 3} then read_rom k (rom_window (gbs s k) address) sz s
      else if gb_page address = 5 then ram else (None, s))"

definition read_gb_cart_nombc :: "'a gb_reader" where
  "read_gb_cart_nombc h k address sz s =
     (if gb_page address \<in> {0, 1, 2, 3} then read_rom k (ucast address) sz s
      else if gb_page address = 5 then read_ram k True (ram_window 0 address) sz 0xff s
      else (None, s))"

definition write_gb_cart_nombc :: "'a gb_writer" where
  "write_gb_cart_nombc h k address f sz s =
     (if gb_page address = 5 then write_ram k True (ucast (ram_window 0 address)) f sz 0xff s else s)"

definition read_gb_cart_mbc1 :: "'a gb_reader" where
  "read_gb_cart_mbc1 h k address sz s =
     read_banked k address sz s
       (read_ram k (ram_enable (gbs s k)) (ram_window (ram_bank (gbs s k)) address) sz 0xff s)"

text \<open>\<^verbatim>\<open>data[size-1]\<close> is outside the buffer when there is no data.\<close>

definition last_byte :: "((nat \<Rightarrow> u8) \<Rightarrow> nat \<Rightarrow> u8 \<Rightarrow> 'a gb_carts_scheme \<Rightarrow> 'a gb_carts_scheme) \<Rightarrow>
    (nat \<Rightarrow> u8) \<Rightarrow> nat \<Rightarrow> 'a gb_carts_scheme \<Rightarrow> 'a gb_carts_scheme" where
  "last_byte body f sz s = (if sz = 0 then set_fault s else body f sz (f (sz - 1)) s)"

definition write_gb_cart_mbc1 :: "'a gb_writer" where
  "write_gb_cart_mbc1 h k address = last_byte (\<lambda>f sz v s.
     if gb_page address = 0 then set_ram_enable k v s
     else if gb_page address = 1
     then let bank = v AND 0x1f in
          upd_gb k (\<lambda>g. g\<lparr>rom_bank := (rom_bank g AND NOT 0x1f) OR (if bank = 0 then 1 else ucast bank)\<rparr>) s
     else if gb_page address = 2
     then let bank = v AND 0x3 in
          upd_gb k (\<lambda>g. if mbc1_mode g = 0 then g\<lparr>rom_bank := (rom_bank g AND 0x1f) OR push_bit 5 (ucast bank)\<rparr>
                        else g\<lparr>ram_bank := ucast bank\<rparr>) s
     else if gb_page address = 3
     then upd_gb k (\<lambda>g. if v AND 0x1 = 0 then g\<lparr>mbc1_mode := ucast (v AND 0x1), ram_bank := 0\<rparr>
                        else g\<lparr>mbc1_mode := ucast (v AND 0x1), rom_bank := rom_bank g AND 0x1f\<rparr>) s
     else if gb_page address = 5
     then write_ram k (ram_enable (gbs s k)) (ucast (ram_window (ram_bank (gbs s k)) address)) f sz 0xff s
     else s)"

definition read_gb_cart_mbc2 :: "'a gb_reader" where
  "read_gb_cart_mbc2 h k address sz s =
     read_banked k address sz s (read_ram k (ram_enable (gbs s k)) (ram_window 0 address) sz 0x0f s)"

definition write_gb_cart_mbc2 :: "'a gb_writer" where
  "write_gb_cart_mbc2 h k address = last_byte (\<lambda>f sz v s.
     if gb_page address = 0 then if address AND 0x0100 = 0 then set_ram_enable k v s else s
     else if gb_page address = 1
     then if address AND 0x0100 \<noteq> 0
       then let bank = v AND 0x0f in upd_gb k (\<lambda>g. g\<lparr>rom_bank := (if bank = 0 then 1 else ucast bank)\<rparr>) s else s
     else if gb_page address = 5 then write_ram k (ram_enable (gbs s k)) (ucast (ram_window 0 address)) f sz 0x0f s
     else s)"

definition upd_rtc :: "nat \<Rightarrow> mbc3_rtc \<Rightarrow> 'a gb_carts_scheme \<Rightarrow> 'a gb_carts_scheme" where
  "upd_rtc k rtc = upd_gb k (\<lambda>g. g\<lparr>gb_rtc := rtc\<rparr>)"

definition read_gb_cart_mbc3 :: "'a gb_reader" where
  "read_gb_cart_mbc3 h k address sz s =
     (let g = gbs s k in
      read_banked k address sz s
        (if ram_bank g < 0x08 then read_ram k (ram_enable g) (ram_window (ram_bank g) address) sz 0xff s
         else if ram_bank g \<le> 0x0c
         then if \<not> ram_enable g \<or> extra_devices g AND GED_RTC = 0 then (Some (\<lambda>_. 0xff), s)
           else let (v, rtc) = read_mbc3_rtc_regs (gb_time h s) (unat (ram_bank g - 0x08)) (gb_rtc g)
                in (Some (\<lambda>_. v), upd_rtc k rtc s)
         else (None, s)))"

definition write_gb_cart_mbc3 :: "'a gb_writer" where
  "write_gb_cart_mbc3 h k address = last_byte (\<lambda>f sz v s.
     let g = gbs s k in
     if gb_page address = 0 then set_ram_enable k v s
     else if gb_page address = 1
     then let bank = v AND 0x7f in upd_gb k (\<lambda>g. g\<lparr>rom_bank := (if bank = 0 then 1 else ucast bank)\<rparr>) s
     else if gb_page address = 2 then upd_gb k (\<lambda>g. g\<lparr>ram_bank := ucast v\<rparr>) s
     else if gb_page address = 3
     then if extra_devices g AND GED_RTC = 0 then s else upd_rtc k (latch_mbc3_rtc_regs (gb_time h s) v (gb_rtc g)) s
     else if gb_page address = 5
     then if ram_bank g < 0x08 then write_ram k (ram_enable g) (ucast (ram_window (ram_bank g) address)) f sz 0xff s
       else if ram_bank g \<le> 0x0c
       then if \<not> ram_enable g \<or> extra_devices g AND GED_RTC = 0 then s
         else upd_rtc k (write_mbc3_rtc_regs (unat (ram_bank g - 0x08)) v (gb_rtc g)) s
       else s
     else s)"

definition read_gb_cart_mbc5 :: "'a gb_reader" where
  "read_gb_cart_mbc5 h k address sz s =
     read_banked k address sz s
       (read_ram k (ram_enable (gbs s k)) (ram_window (ram_bank (gbs s k) AND 0x7) address) sz 0xff s)"

definition write_gb_cart_mbc5 :: "'a gb_writer" where
  "write_gb_cart_mbc5 h k address = last_byte (\<lambda>f sz v s.
     if gb_page address = 0 then set_ram_enable k v s
     else if gb_page address = 1
     then upd_gb k (\<lambda>g. if address < 0x3000 then g\<lparr>rom_bank := (rom_bank g AND 0xff00) OR ucast v\<rparr>
                        else g\<lparr>rom_bank := (rom_bank g AND 0x00ff) OR push_bit 8 (ucast (v AND 0x01))\<rparr>) s
     else if gb_page address = 2
     then let s = upd_gb k (\<lambda>g. g\<lparr>ram_bank := ucast (v AND 0x0f)\<rparr>) s in
          if extra_devices (gbs s k) AND GED_RUMBLE \<noteq> 0
          then call_out (Rumble_exec k (ram_bank (gbs s k) AND 0x8 \<noteq> 0)) s else s
     else if gb_page address = 5
     then write_ram k (ram_enable (gbs s k)) (ucast (ram_window (ram_bank (gbs s k) AND 0x7) address)) f sz 0xff s
     else s)"

text \<open>The controllers whose functions do nothing.\<close>

definition read_gb_cart_stub :: "'a gb_reader" where "read_gb_cart_stub h k address sz s = (None, s)"

definition write_gb_cart_stub :: "'a gb_writer" where "write_gb_cart_stub h k address f sz s = s"

section \<open>Pocket camera\<close>

definition sensor_regs :: "(nat \<Rightarrow> u8) \<Rightarrow> (nat \<Rightarrow> u8)" where
  "sensor_regs regs =
     (let pm_mode = unat (drop_bit 1 (regs 0) AND 0x3);
          pm = [(0x00, 0x01), (0x01, 0x00), (0x01, 0x02), (0x01, 0x02)] ! pm_mode
      in (\<lambda>_. 0)(M64282FP_Z_O := regs 5, M64282FP_N_VH_G := regs 1, M64282FP_C_LO := regs 3, M64282FP_C_HI := regs 2,
           M64282FP_P := fst pm, M64282FP_M := snd pm, M64282FP_X := 0x01, M64282FP_E_I_V := regs 4))"

definition gray :: "(nat \<Rightarrow> nat \<Rightarrow> nat \<Rightarrow> u8) \<Rightarrow> u8 image" where
  "gray bgr y x = of_nat ((unat (bgr y x 0) + 5 * unat (bgr y x 1) + 2 * unat (bgr y x 2)) div 8)"

text \<open>\<^verbatim>\<open>cam->ram\<close> points to the RAM of the cartridge, of which the picture takes the first 4 KiB.\<close>

definition put_picture :: "nat \<Rightarrow> (nat \<Rightarrow> u8) \<Rightarrow> 'a gb_carts_scheme \<Rightarrow> 'a gb_carts_scheme" where
  "put_picture k tiles s =
     (case ram_storage (gbs s k) of
        None \<Rightarrow> set_fault s
      | Some st \<Rightarrow>
          (case st_data st of
             None \<Rightarrow> set_fault s
           | Some d \<Rightarrow>
               if st_size st < 0x1000 then set_fault s
               else upd_gb k (\<lambda>g. g\<lparr>ram_storage := Some (st\<lparr>st_data := Some (blit d 0 tiles 0x1000)\<rparr>)\<rparr>) s))"

definition grab_pocket_cam_image :: "'a gb_carts_scheme gb_host \<Rightarrow> nat \<Rightarrow> 'a gb_carts_scheme \<Rightarrow> 'a gb_carts_scheme" where
  "grab_pocket_cam_image h k s =
     (let regs = cam_regs (gbs s k) in
      case gb_grab h s of
        None \<Rightarrow> put_picture k (\<lambda>_. 0xff) s
      | Some bgr \<Rightarrow> put_picture k (encode_tiles regs (process_m64282fp_image (sensor_regs regs) (gray bgr))) s)"

definition read_pocket_cam_regs :: "(nat \<Rightarrow> u8) \<Rightarrow> nat \<Rightarrow> u8" where
  "read_pocket_cam_regs regs reg = (if reg = 0 then regs 0 else 0x00)"

definition set_cam_reg :: "nat \<Rightarrow> nat \<Rightarrow> u8 \<Rightarrow> 'a gb_carts_scheme \<Rightarrow> 'a gb_carts_scheme" where
  "set_cam_reg k reg v = upd_gb k (\<lambda>g. g\<lparr>cam_regs := (cam_regs g)(reg := v)\<rparr>)"

definition write_pocket_cam_regs :: "'a gb_carts_scheme gb_host \<Rightarrow> nat \<Rightarrow> nat \<Rightarrow> u8 \<Rightarrow> 'a gb_carts_scheme \<Rightarrow> 'a gb_carts_scheme" where
  "write_pocket_cam_regs h k reg v s =
     (if POCKET_CAM_REGS_COUNT \<le> reg then s
      else if reg = 0
      then let s = set_cam_reg k 0 (v AND 0x7) s in
           if v AND 0x1 \<noteq> 0
           then let s = grab_pocket_cam_image h k s in set_cam_reg k 0 (cam_regs (gbs s k) 0 AND NOT 0x01) s
           else s
      else set_cam_reg k reg v s)"

definition read_gb_cart_pocket_cam :: "'a gb_reader" where
  "read_gb_cart_pocket_cam h k address sz s =
     (let g = gbs s k in
      read_banked k address sz s
        (if ram_bank g AND 0x10 \<noteq> 0
         then (Some (\<lambda>i. read_pocket_cam_regs (cam_regs g) ((unat address + i) mod 0x80)), s)
         else read_ram k True (ram_window (ram_bank g) address) sz 0xff s))"

definition write_gb_cart_pocket_cam :: "'a gb_writer" where
  "write_gb_cart_pocket_cam h k address = last_byte (\<lambda>f sz v s.
     if gb_page address = 0 then set_ram_enable k v s
     else if gb_page address = 1 then upd_gb k (\<lambda>g. g\<lparr>rom_bank := ucast (v AND 0x3f)\<rparr>) s
     else if gb_page address = 2
     then upd_gb k (\<lambda>g. g\<lparr>ram_bank := (if v AND 0x10 \<noteq> 0 then ucast v else ucast (v AND 0x0f))\<rparr>) s
     else if gb_page address = 5
     then if ram_bank (gbs s k) AND 0x10 \<noteq> 0
       then fold (\<lambda>i. write_pocket_cam_regs h k ((unat address + i) mod 0x80) (f i)) [0..<sz] s
       else write_ram k (ram_enable (gbs s k)) (ucast (ram_window (ram_bank (gbs s k)) address)) f sz 0xff s
     else s)"

section \<open>Cartridge types\<close>

definition parse_cart_type :: "u8 \<Rightarrow> (mbc \<times> u32) option" where
  "parse_cart_type t = map_of
     [(0x00, Nombc, GED_NONE), (0x01, Mbc1, GED_NONE), (0x02, Mbc1, GED_RAM), (0x03, Mbc1, GED_RAM OR GED_BATTERY),
      (0x05, Mbc2, GED_NONE), (0x06, Mbc2, GED_RAM OR GED_BATTERY),
      (0x08, Nombc, GED_RAM), (0x09, Nombc, GED_RAM OR GED_BATTERY),
      (0x0b, Mmm01, GED_NONE), (0x0c, Mmm01, GED_RAM), (0x0d, Mmm01, GED_RAM OR GED_BATTERY),
      (0x0f, Mbc3, GED_BATTERY OR GED_RTC), (0x10, Mbc3, GED_RAM OR GED_BATTERY OR GED_RTC),
      (0x11, Mbc3, GED_NONE), (0x12, Mbc3, GED_RAM), (0x13, Mbc3, GED_RAM OR GED_BATTERY),
      (0x19, Mbc5, GED_NONE), (0x1a, Mbc5, GED_RAM), (0x1b, Mbc5, GED_RAM OR GED_BATTERY),
      (0x1c, Mbc5, GED_RUMBLE), (0x1d, Mbc5, GED_RAM OR GED_RUMBLE), (0x1e, Mbc5, GED_RAM OR GED_BATTERY OR GED_RUMBLE),
      (0x20, Mbc6, GED_RAM OR GED_BATTERY), (0x22, Mbc7, GED_RAM OR GED_BATTERY OR GED_ACCELEROMETER),
      (0xfc, Pocket_cam, GED_RAM OR GED_CAMERA), (0xfd, Bandai_tama5, GED_NONE), (0xfe, Huc3, GED_NONE),
      (0xff, Huc1, GED_RAM OR GED_BATTERY)] t"

definition gb_ram_size :: "mbc \<Rightarrow> u8 \<Rightarrow> nat" where
  "gb_ram_size m code =
     (if code = 0x00 then if m = Mbc2 then 0x200 else 0
      else if code = 0x01 then 1 * 0x800
      else if code = 0x02 then 4 * 0x800
      else if code = 0x03 then 16 * 0x800
      else if code = 0x04 then 64 * 0x800
      else if code = 0x05 then 32 * 0x800
      else 0)"

definition no_gb_cart :: gb_cart where
  "no_gb_cart = \<lparr>rom_storage = None, ram_storage = None, rom_bank = 0, ram_bank = 0, ram_enable = False, mbc1_mode = 0,
     extra_devices = 0, gb_rtc = no_rtc, cam_regs = (\<lambda>_. 0), gb_mbc = None\<rparr>"

text \<open>
  \<open>init_rom\<close> is the storage the ROM back end opens, \<open>init_ram\<close> the one the RAM back end opens for a size; on an
  error they are released and the cartridge is cleared.
\<close>

definition init_gb_cart :: "nat \<Rightarrow> storage option \<Rightarrow> (nat \<Rightarrow> storage option) \<Rightarrow> 'a gb_carts_scheme \<Rightarrow> 'a gb_carts_scheme" where
  "init_gb_cart k init_rom init_ram s =
     (let none = upd_gb k (\<lambda>_. no_gb_cart) s in
      case init_rom of
        None \<Rightarrow> none
      | Some rom_st \<Rightarrow>
          (case st_data rom_st of
             None \<Rightarrow> none
           | Some rom_data \<Rightarrow>
               if st_size rom_st < 0x8000 then none
               else (case parse_cart_type (rom_data 0x147) of
                   None \<Rightarrow> none
                 | Some (m, devices) \<Rightarrow>
                     let ram_size = (if devices AND GED_RAM \<noteq> 0 then gb_ram_size m (rom_data 0x149) else 0);
                         ram_st = (if ram_size \<noteq> 0 then init_ram ram_size else None);
                         bad = (ram_size \<noteq> 0 \<and>
                           (case ram_st of None \<Rightarrow> True | Some st \<Rightarrow> st_data st = None \<or> st_size st \<noteq> ram_size));
                         s' = upd_gb k (\<lambda>g. g\<lparr>rom_storage := init_rom, ram_storage := ram_st, extra_devices := devices,
                                gb_rtc := no_rtc, cam_regs := (\<lambda>_. 0), gb_mbc := Some m\<rparr>) s
                     in if bad then none
                        else if devices AND GED_CAMERA \<noteq> 0 \<and> ram_st = None then set_fault s' else s')))"

definition poweron_gb_cart :: "nat \<Rightarrow> 'a gb_carts_scheme \<Rightarrow> 'a gb_carts_scheme" where
  "poweron_gb_cart k s =
     (let s = upd_gb k (\<lambda>g. g\<lparr>rom_bank := 1, ram_bank := 0, ram_enable := False, mbc1_mode := 0\<rparr>) s;
          d = extra_devices (gbs s k);
          s = (if d AND GED_RTC \<noteq> 0 then upd_gb k (\<lambda>g. g\<lparr>gb_rtc := poweron_mbc3_rtc (gb_rtc g)\<rparr>) s else s);
          s = (if d AND GED_CAMERA \<noteq> 0 then upd_gb k (\<lambda>g. g\<lparr>cam_regs := (\<lambda>_. 0)\<rparr>) s else s)
      in if d AND GED_RUMBLE \<noteq> 0 then call_out (Rumble_exec k False) s else s)"

definition mbc_reader :: "mbc \<Rightarrow> 'a gb_reader" where
  "mbc_reader m =
     (case m of Nombc \<Rightarrow> read_gb_cart_nombc | Mbc1 \<Rightarrow> read_gb_cart_mbc1 | Mbc2 \<Rightarrow> read_gb_cart_mbc2
      | Mbc3 \<Rightarrow> read_gb_cart_mbc3 | Mbc5 \<Rightarrow> read_gb_cart_mbc5 | Pocket_cam \<Rightarrow> read_gb_cart_pocket_cam
      | _ \<Rightarrow> read_gb_cart_stub)"

definition mbc_writer :: "mbc \<Rightarrow> 'a gb_writer" where
  "mbc_writer m =
     (case m of Nombc \<Rightarrow> write_gb_cart_nombc | Mbc1 \<Rightarrow> write_gb_cart_mbc1 | Mbc2 \<Rightarrow> write_gb_cart_mbc2
      | Mbc3 \<Rightarrow> write_gb_cart_mbc3 | Mbc5 \<Rightarrow> write_gb_cart_mbc5 | Pocket_cam \<Rightarrow> write_gb_cart_pocket_cam
      | _ \<Rightarrow> write_gb_cart_stub)"

definition read_gb_cart :: "'a gb_reader" where
  "read_gb_cart h k address sz s =
     (case gb_mbc (gbs s k) of None \<Rightarrow> (None, set_fault s) | Some m \<Rightarrow> mbc_reader m h k address sz s)"

definition write_gb_cart :: "'a gb_writer" where
  "write_gb_cart h k address f sz s =
     (case gb_mbc (gbs s k) of None \<Rightarrow> set_fault s | Some m \<Rightarrow> mbc_writer m h k address f sz s)"

section \<open>What an access changes\<close>

text \<open>A cartridge changes its own state, the record of calls and the fault flag, and nothing else of the machine.\<close>

definition gb_frame :: "'a gb_carts_scheme \<Rightarrow> 'a gb_carts_scheme \<Rightarrow> bool" where
  "gb_frame s t \<longleftrightarrow> (\<exists>f e g. t = s\<lparr>fault := f, ext_log := e, gbs := g\<rparr>)"

lemma gb_frameI: "t = s\<lparr>fault := f, ext_log := e, gbs := g\<rparr> \<Longrightarrow> gb_frame s t"
  by (auto simp: gb_frame_def)

lemma gb_frame_refl [simp]: "gb_frame s s"
  by (rule gb_frameI [where f = "fault s" and e = "ext_log s" and g = "gbs s"]) simp

lemma gb_frame_steps [simp]:
  assumes "gb_frame s t"
  shows "gb_frame s (upd_gb k h t)" "gb_frame s (set_fault t)" "gb_frame s (call_out c t)"
proof -
  obtain f e g where t: "t = s\<lparr>fault := f, ext_log := e, gbs := g\<rparr>" using assms by (auto simp: gb_frame_def)
  show "gb_frame s (upd_gb k h t)"
    by (rule gb_frameI [where f = f and e = e and g = "g(k := h (g k))"]) (simp add: t upd_gb_def)
  show "gb_frame s (set_fault t)"
    by (rule gb_frameI [where f = True and e = e and g = g]) (rule gb_carts.equality, simp_all add: t set_fault_def)
  show "gb_frame s (call_out c t)"
    by (rule gb_frameI [where f = f and e = "e @ [c]" and g = g]) (rule gb_carts.equality, simp_all add: t call_out_def)
qed

lemma gb_frame_live: "gb_frame s t \<Longrightarrow> live t = live s"
  by (auto simp: gb_frame_def live_def)

lemma gb_frame_fold: "gb_frame s t \<Longrightarrow> (\<And>i t. gb_frame s t \<Longrightarrow> gb_frame s (F i t)) \<Longrightarrow> gb_frame s (fold F xs t)"
  by (induction xs arbitrary: t) simp_all

lemma gb_memory_frame [simp]:
  assumes "gb_frame s t"
  shows "gb_frame s (snd (read_rom k a n t))" "gb_frame s (snd (read_ram k e a n m t))" "gb_frame s (write_ram k e b f n m t)"
    "gb_frame s (put_picture k p t)" "gb_frame s (set_ram_enable k v t)" "gb_frame s (upd_rtc k r t)" "gb_frame s (set_cam_reg k i v t)"
  using assms by (simp_all add: read_rom_def read_ram_def write_ram_def put_picture_def set_ram_enable_def upd_rtc_def set_cam_reg_def
      split: option.split)

lemma gb_cam_frame [simp]: "gb_frame s t \<Longrightarrow> gb_frame s (write_pocket_cam_regs h k i v t)"
  by (simp add: write_pocket_cam_regs_def grab_pocket_cam_image_def Let_def split: option.split)

lemma gb_write_frame: "gb_frame s t \<Longrightarrow> gb_frame s (write_gb_cart h k a f n t)"
  by (simp add: write_gb_cart_def mbc_writer_def write_gb_cart_nombc_def write_gb_cart_mbc1_def write_gb_cart_mbc2_def
      write_gb_cart_mbc3_def write_gb_cart_mbc5_def write_gb_cart_stub_def write_gb_cart_pocket_cam_def last_byte_def Let_def
      gb_frame_fold split: option.split mbc.split)

lemma gb_banked_frame: "gb_frame s t \<Longrightarrow> gb_frame s (snd r) \<Longrightarrow> gb_frame s (snd (read_banked k a n t r))"
  by (simp add: read_banked_def)

lemma gb_read_frame: "gb_frame s t \<Longrightarrow> gb_frame s (snd (read_gb_cart h k a n t))"
  by (simp add: read_gb_cart_def mbc_reader_def read_gb_cart_nombc_def read_gb_cart_mbc1_def read_gb_cart_mbc2_def
      read_gb_cart_mbc3_def read_gb_cart_mbc5_def read_gb_cart_stub_def read_gb_cart_pocket_cam_def Let_def split_beta
      gb_banked_frame split: option.split mbc.split)

lemma gb_poweron_frame: "gb_frame s t \<Longrightarrow> gb_frame s (poweron_gb_cart k t)"
  by (simp add: poweron_gb_cart_def Let_def)

section \<open>Banks\<close>

lemma upd_gb_simps [simp]:
  "gbs (upd_gb k f s) j = (if j = k then f (gbs s k) else gbs s j)" "fault (upd_gb k f s) = fault s"
  "gbs (set_fault s) = gbs s" "gbs (call_out c s) = gbs s"
  by (simp_all add: upd_gb_def set_fault_def call_out_def)

definition below :: "nat \<Rightarrow> 'a::len word \<Rightarrow> bool" where
  "below n x \<longleftrightarrow> (\<forall>i \<ge> n. \<not> bit x i)"

lemma below_less: "n < LENGTH('a) \<Longrightarrow> below n x \<longleftrightarrow> x < 2 ^ n" for x :: "'a::len word"
proof -
  assume n: "n < LENGTH('a)"
  have "below n x \<longleftrightarrow> take_bit n x = x"
    by (auto simp: below_def bit_eq_iff bit_take_bit_iff not_le dest: bit_imp_le_length)
  also have "\<dots> \<longleftrightarrow> take_bit n (unat x) = unat x"
    by (simp only: unsigned_take_bit_eq [symmetric] word_unat_eq_iff)
  also have "\<dots> \<longleftrightarrow> x < 2 ^ n"
    using n unsigned_of_nat [of "2 ^ n", where 'b = 'a, where 'a = nat]
    by (simp add: take_bit_nat_eq_self_iff word_less_nat_alt take_bit_nat_eq_self)
  finally show ?thesis .
qed

lemma below_bits:
  "below n x \<Longrightarrow> below n (x AND y)" "below n y \<Longrightarrow> below n (x AND y)" "below n x \<Longrightarrow> below n y \<Longrightarrow> below n (x OR y)"
  "below n x \<Longrightarrow> below (k + n) (push_bit k x)" "m \<le> n \<Longrightarrow> below m x \<Longrightarrow> below n x"
  by (auto simp: below_def bit_simps)

lemma below_ucast: "below n x \<Longrightarrow> below n (ucast x :: u32)" for x :: u8
  by (auto simp: below_def bit_simps)

lemma below_all: "below 8 x" for x :: u8
  by (auto simp: below_def bit_simps dest: bit_imp_le_length)

lemma below_ucast8: "below 8 (ucast x :: u32)" for x :: u8
  by (rule below_ucast [OF below_all])

definition banks_ok :: "mbc \<Rightarrow> gb_cart \<Rightarrow> bool" where
  "banks_ok m g \<longleftrightarrow>
     (case m of
        Mbc1 \<Rightarrow> rom_bank g < 0x80 \<and> rom_bank g AND 0x1f \<noteq> 0 \<and> ram_bank g < 0x4
      | Mbc2 \<Rightarrow> rom_bank g < 0x10 \<and> rom_bank g \<noteq> 0
      | Mbc3 \<Rightarrow> rom_bank g < 0x80 \<and> rom_bank g \<noteq> 0 \<and> ram_bank g < 0x100
      | Mbc5 \<Rightarrow> rom_bank g < 0x200 \<and> ram_bank g < 0x10
      | Pocket_cam \<Rightarrow> rom_bank g < 0x40 \<and> ram_bank g < 0x100
      | _ \<Rightarrow> True)"

definition storages_ok :: "mbc \<Rightarrow> gb_cart \<Rightarrow> bool" where
  "storages_ok m g \<longleftrightarrow> gb_mbc g = Some m \<and> (\<exists>st d. rom_storage g = Some st \<and> st_data st = Some d) \<and>
     (\<exists>st d. ram_storage g = Some st \<and> st_data st = Some d \<and> (m = Pocket_cam \<longrightarrow> 0x1000 \<le> st_size st))"

definition gb_safe :: "mbc \<Rightarrow> nat \<Rightarrow> 'a gb_carts_scheme \<Rightarrow> bool" where
  "gb_safe m k s \<longleftrightarrow> storages_ok m (gbs s k) \<and> banks_ok m (gbs s k) \<and> \<not> fault s"

lemma ram_less:
  "below 2 x \<Longrightarrow> x < (0x4 :: u32)" "below 4 x \<Longrightarrow> x < (0x10 :: u32)" "below 6 x \<Longrightarrow> x < (0x40 :: u32)"
  "below 7 x \<Longrightarrow> x < (0x80 :: u32)" "below 8 x \<Longrightarrow> x < (0x100 :: u32)" "below 9 x \<Longrightarrow> x < (0x200 :: u32)"
  by (simp_all add: below_less)

lemma gb_memory_safe:
  assumes "gb_safe m k s" "0 < n"
  shows "gb_safe m k (snd (read_rom k a n s))" "gb_safe m k (snd (read_ram k e a n w s))" "gb_safe m k (write_ram k e b f n w s)"
  using assms
  by (auto simp: gb_safe_def storages_ok_def banks_ok_def read_rom_def read_ram_def write_ram_def split: option.split mbc.splits)

text \<open>Changes of the bank registers only.\<close>

lemma gb_safe_upd:
  assumes "gb_safe m k s" and "storages_ok m (gbs s k) \<Longrightarrow> banks_ok m (gbs s k) \<Longrightarrow> storages_ok m (f (gbs s k)) \<and> banks_ok m (f (gbs s k))"
  shows "gb_safe m k (upd_gb k f s)"
  using assms by (simp add: gb_safe_def)

lemma storages_ok_upd [simp]:
  "storages_ok m (g\<lparr>rom_bank := a\<rparr>) = storages_ok m g" "storages_ok m (g\<lparr>ram_bank := a\<rparr>) = storages_ok m g"
  "storages_ok m (g\<lparr>ram_enable := e\<rparr>) = storages_ok m g" "storages_ok m (g\<lparr>mbc1_mode := a\<rparr>) = storages_ok m g"
  "storages_ok m (g\<lparr>gb_rtc := r\<rparr>) = storages_ok m g" "storages_ok m (g\<lparr>cam_regs := c\<rparr>) = storages_ok m g"
  by (simp_all add: storages_ok_def)

lemma banks_ok_upd [simp]:
  "banks_ok m (g\<lparr>ram_enable := e\<rparr>) = banks_ok m g" "banks_ok m (g\<lparr>mbc1_mode := a\<rparr>) = banks_ok m g"
  "banks_ok m (g\<lparr>gb_rtc := r\<rparr>) = banks_ok m g" "banks_ok m (g\<lparr>cam_regs := c\<rparr>) = banks_ok m g"
  "banks_ok m (g\<lparr>ram_storage := t\<rparr>) = banks_ok m g"
  by (simp_all add: banks_ok_def split: mbc.split)

lemma gb_safe_parts:
  "gb_safe m k s \<Longrightarrow> gb_safe m k (set_ram_enable k v s)" "gb_safe m k s \<Longrightarrow> gb_safe m k (upd_rtc k r s)"
  "gb_safe m k s \<Longrightarrow> gb_safe m k (set_cam_reg k i v s)" "gb_safe m k s \<Longrightarrow> gb_safe m k (call_out c s)"
  by (simp_all add: set_ram_enable_def upd_rtc_def set_cam_reg_def gb_safe_def)

lemma low_mask: "(0x1f :: 'a::len word) = mask 5"
  by (simp add: mask_eq_exp_minus_1)

lemma mbc1_low:
  "((b AND NOT 0x1f) OR v) AND 0x1f = v AND (0x1f :: u32)" "((b AND 0x1f) OR push_bit 5 w) AND 0x1f = b AND (0x1f :: u32)"
  unfolding low_mask by (rule bit_eqI, auto simp: bit_simps)+

lemma below_masked:
  "below n m \<Longrightarrow> n \<le> j \<Longrightarrow> below j (ucast (v AND m) :: u32)" for m :: u8
  using below_bits(5) [OF _ below_ucast [OF below_bits(2)]] by blast

lemma below_numeral: "below 1 (0x1 :: u8)" "below 2 (0x3 :: u8)" "below 4 (0x0f :: u8)" "below 5 (0x1f :: u8)" "below 6 (0x3f :: u8)" "below 7 (0x7f :: u8)"
  by (simp_all add: below_less)

lemma masked_less:
  "ucast (v AND 0x3) < (0x4 :: u32)" "ucast (v AND 0x0f) < (0x10 :: u32)" "ucast (v AND 0x3f) < (0x40 :: u32)"
  "ucast (v AND 0x7f) < (0x80 :: u32)" "ucast v < (0x100 :: u32)" "ucast (v AND 0x0f) < (0x100 :: u32)" for v :: u8
  by (rule ram_less; simp add: below_masked [OF below_numeral(2)] below_masked [OF below_numeral(3)]
      below_masked [OF below_numeral(5)] below_masked [OF below_numeral(6)] below_ucast8)+

lemma ucast_nonzero: "(ucast (v :: u8) = (0 :: u32)) = (v = 0)"
  using bit_imp_le_length [of v] by (fastforce simp: bit_eq_iff bit_simps)

lemma mbc1_bank:
  assumes "b < (0x80 :: u32)" "v AND 0x1f \<noteq> (0 :: u8)"
  shows "(b AND NOT 0x1f) OR ucast (v AND 0x1f) < 0x80" "((b AND NOT 0x1f) OR ucast (v AND 0x1f)) AND 0x1f \<noteq> 0"
proof -
  have "below 7 b" using assms(1) by (simp add: below_less)
  then show "(b AND NOT 0x1f) OR ucast (v AND 0x1f) < 0x80"
    by (intro ram_less(4) below_bits(3) below_bits(1) [of 7 b] below_masked [OF below_numeral(4)]) simp_all
  have "ucast (v AND 0x1f) AND (0x1f :: u32) = ucast (v AND 0x1f)"
    unfolding low_mask by (rule bit_eqI) (auto simp: bit_simps)
  then show "((b AND NOT 0x1f) OR ucast (v AND 0x1f)) AND 0x1f \<noteq> 0"
    unfolding mbc1_low using assms(2) by (simp add: ucast_nonzero)
qed

lemma mbc1_bank_one:
  assumes "b < (0x80 :: u32)"
  shows "(b AND NOT 0x1f) OR 1 < 0x80" "((b AND NOT 0x1f) OR 1) AND 0x1f \<noteq> 0"
proof -
  have "below 7 b" "below 7 (1 :: u32)" using assms by (simp_all add: below_less)
  then show "(b AND NOT 0x1f) OR 1 < 0x80" by (intro ram_less(4) below_bits(3) below_bits(1) [of 7 b]) simp_all
  show "((b AND NOT 0x1f) OR 1) AND 0x1f \<noteq> 0" unfolding mbc1_low by simp
qed

lemma mbc1_upper:
  assumes "b AND 0x1f \<noteq> (0 :: u32)"
  shows "(b AND 0x1f) OR push_bit 5 (ucast (v AND 0x3 :: u8)) < 0x80"
    "((b AND 0x1f) OR push_bit 5 (ucast (v AND 0x3 :: u8))) AND 0x1f \<noteq> 0" "b AND 0x1f < 0x80"
proof -
  have m: "below 7 (b AND 0x1f)" by (rule below_bits(2)) (simp add: below_less)
  moreover have "below 7 (push_bit 5 (ucast (v AND 0x3) :: u32))"
    using below_bits(4) [OF below_masked [OF below_numeral(2), of 2 v], of 5] by simp
  ultimately show "(b AND 0x1f) OR push_bit 5 (ucast (v AND 0x3 :: u8)) < 0x80" by (intro ram_less(4) below_bits(3))
  show "((b AND 0x1f) OR push_bit 5 (ucast (v AND 0x3 :: u8))) AND 0x1f \<noteq> 0" unfolding mbc1_low using assms .
  show "b AND 0x1f < 0x80" using ram_less(4) [OF m] .
qed

lemma mbc5_bank:
  assumes "b < (0x200 :: u32)"
  shows "(b AND 0xff00) OR ucast (v :: u8) < 0x200" "(b AND 0x00ff) OR push_bit 8 (ucast (v AND 0x01)) < 0x200"
proof -
  have b: "below 9 b" using assms by (simp add: below_less)
  show "(b AND 0xff00) OR ucast (v :: u8) < 0x200"
    by (intro ram_less(6) below_bits(3) below_bits(1) [OF b] below_bits(5) [OF _ below_ucast8]) simp
  have "below 9 (push_bit 8 (ucast (v AND 0x01)) :: u32)"
    using below_bits(4) [OF below_masked [OF below_numeral(1), of 1 v], of 8] by simp
  then show "(b AND 0x00ff) OR push_bit 8 (ucast (v AND 0x01)) < 0x200"
    by (intro ram_less(6) below_bits(3) below_bits(1) [OF b])
qed

lemma gb_writer_safe:
  assumes s: "gb_safe m k s" and n: "0 < n"
  shows "m = Nombc \<Longrightarrow> gb_safe m k (write_gb_cart_nombc h k a f n s)" "m = Mbc1 \<Longrightarrow> gb_safe m k (write_gb_cart_mbc1 h k a f n s)"
    "m = Mbc2 \<Longrightarrow> gb_safe m k (write_gb_cart_mbc2 h k a f n s)" "m = Mbc3 \<Longrightarrow> gb_safe m k (write_gb_cart_mbc3 h k a f n s)"
    "m = Mbc5 \<Longrightarrow> gb_safe m k (write_gb_cart_mbc5 h k a f n s)"
  using s n
  by (auto simp: write_gb_cart_nombc_def write_gb_cart_mbc1_def write_gb_cart_mbc2_def write_gb_cart_mbc3_def write_gb_cart_mbc5_def
      last_byte_def Let_def gb_memory_safe gb_safe_parts banks_ok_def mbc1_bank [simplified] mbc1_bank_one [simplified] mbc1_upper
      mbc5_bank masked_less       ucast_nonzero intro!: gb_safe_upd gb_safe_parts)

lemma put_picture_safe: "gb_safe Pocket_cam k s \<Longrightarrow> gb_safe Pocket_cam k (put_picture k p s)"
  by (auto simp: put_picture_def gb_safe_def storages_ok_def split: option.split)

lemma cam_regs_safe: "gb_safe Pocket_cam k s \<Longrightarrow> gb_safe Pocket_cam k (write_pocket_cam_regs h k i v s)"
  by (simp add: write_pocket_cam_regs_def grab_pocket_cam_image_def Let_def gb_safe_parts put_picture_safe split: option.split)

lemma gb_safe_fold: "gb_safe m k s \<Longrightarrow> (\<And>i s. gb_safe m k s \<Longrightarrow> gb_safe m k (F i s)) \<Longrightarrow> gb_safe m k (fold F xs s)"
  by (induction xs arbitrary: s) simp_all

lemma cam_writer_safe:
  assumes "gb_safe Pocket_cam k s" "0 < n"
  shows "gb_safe Pocket_cam k (write_gb_cart_pocket_cam h k a f n s)"
  using assms
  by (auto simp: write_gb_cart_pocket_cam_def last_byte_def gb_memory_safe gb_safe_parts banks_ok_def masked_less cam_regs_safe
      intro!: gb_safe_upd gb_safe_fold)

lemma gb_write_safe: "gb_safe m k s \<Longrightarrow> 0 < n \<Longrightarrow> gb_safe m k (write_gb_cart h k a f n s)"
  using gb_writer_safe [of m k s n h a f] cam_writer_safe [of k s n h a f]
  by (cases m) (simp_all add: write_gb_cart_def mbc_writer_def write_gb_cart_stub_def gb_safe_def storages_ok_def)

lemma gb_banked_safe: "gb_safe m k s \<Longrightarrow> 0 < n \<Longrightarrow> gb_safe m k (snd r) \<Longrightarrow> gb_safe m k (snd (read_banked k a n s r))"
  by (simp add: read_banked_def gb_memory_safe)

lemma gb_read_safe: "gb_safe m k s \<Longrightarrow> 0 < n \<Longrightarrow> gb_safe m k (snd (read_gb_cart h k a n s))"
proof -
  assume s: "gb_safe m k s" "0 < n"
  then have "gb_mbc (gbs s k) = Some m" by (simp add: gb_safe_def storages_ok_def)
  then show ?thesis using s
    by (cases m) (simp_all add: read_gb_cart_def mbc_reader_def read_gb_cart_nombc_def read_gb_cart_mbc1_def read_gb_cart_mbc2_def
        read_gb_cart_mbc3_def read_gb_cart_mbc5_def read_gb_cart_stub_def read_gb_cart_pocket_cam_def Let_def split_beta
        gb_banked_safe gb_memory_safe gb_safe_parts)
qed

lemma gb_poweron_safe:
  assumes "storages_ok m (gbs s k)" "\<not> fault s"
  shows "gb_safe m k (poweron_gb_cart k s)"
  using assms by (simp add: poweron_gb_cart_def Let_def gb_safe_def banks_ok_def split: mbc.split)

section \<open>Properties\<close>

datatype gb_access = Gb_read u16 nat | Gb_write u16 "nat \<Rightarrow> u8" nat

fun gb_accesses :: "'a gb_carts_scheme gb_host \<Rightarrow> nat \<Rightarrow> gb_access list \<Rightarrow> 'a gb_carts_scheme \<Rightarrow> 'a gb_carts_scheme" where
  "gb_accesses h k [] s = s"
| "gb_accesses h k (Gb_read a n # xs) s = gb_accesses h k xs (snd (read_gb_cart h k a (Suc n) s))"
| "gb_accesses h k (Gb_write a f n # xs) s = gb_accesses h k xs (write_gb_cart h k a f (Suc n) s)"

text \<open>What accesses do to the storages: the ROM is never changed, the RAM keeps its size and every byte behind it.\<close>

definition ram_kept :: "storage option \<Rightarrow> storage option \<Rightarrow> bool" where
  "ram_kept r r' \<longleftrightarrow>
     (case r of None \<Rightarrow> r' = None
      | Some st \<Rightarrow> \<exists>x. r' = Some (st\<lparr>st_data := x\<rparr>) \<and>
          (case st_data st of None \<Rightarrow> x = None | Some d \<Rightarrow> \<exists>d'. x = Some d' \<and> (\<forall>j \<ge> st_size st. d' j = d j)))"

definition gb_stores :: "nat \<Rightarrow> 'a gb_carts_scheme \<Rightarrow> 'a gb_carts_scheme \<Rightarrow> bool" where
  "gb_stores k s t \<longleftrightarrow> rom_storage (gbs t k) = rom_storage (gbs s k) \<and> ram_kept (ram_storage (gbs s k)) (ram_storage (gbs t k))"

lemma ram_kept_refl [simp]: "ram_kept r r"
proof (cases r)
  case (Some st)
  then show ?thesis by (auto simp: ram_kept_def split: option.split intro!: exI [of _ "st_data st"])
qed (simp add: ram_kept_def)

lemma ram_kept_write:
  assumes "ram_kept r (Some st)" "st_data st = Some d" "\<And>j. st_size st \<le> j \<Longrightarrow> d' j = d j"
  shows "ram_kept r (Some (st\<lparr>st_data := Some d'\<rparr>))"
  using assms by (auto simp: ram_kept_def split: option.splits)

lemma gb_stores_refl [simp]: "gb_stores k s s"
  by (simp add: gb_stores_def)

lemma gb_stores_steps [simp]:
  "gb_stores k s (set_fault t) = gb_stores k s t" "gb_stores k s (call_out c t) = gb_stores k s t"
  "gb_stores k s t \<Longrightarrow> (\<And>g. rom_storage (f g) = rom_storage g \<and> ram_storage (f g) = ram_storage g) \<Longrightarrow> gb_stores k s (upd_gb k f t)"
  by (simp_all add: gb_stores_def)

lemma gb_stores_memory [simp]:
  assumes "gb_stores k s t"
  shows "gb_stores k s (snd (read_rom k a n t))" "gb_stores k s (snd (read_ram k e a n m t))" "gb_stores k s (write_ram k e b f n m t)"
    "gb_stores k s (put_picture k p t)" "gb_stores k s (set_ram_enable k v t)" "gb_stores k s (upd_rtc k r t)" "gb_stores k s (set_cam_reg k i v t)"
proof -
  have upd: "gb_stores k s (upd_gb k (\<lambda>g. g\<lparr>ram_storage := Some (st\<lparr>st_data := Some (blit d w f n)\<rparr>)\<rparr>) t)"
    if "ram_storage (gbs t k) = Some st" "st_data st = Some d" "w + n \<le> st_size st" for st d w f n
    using assms that by (auto simp: gb_stores_def blit_at intro!: ram_kept_write)
  show "gb_stores k s (write_ram k e b f n m t)" using assms by (auto simp: write_ram_def upd not_less split: option.split)
  show "gb_stores k s (put_picture k p t)" using assms by (auto simp: put_picture_def upd not_less split: option.split)
qed (use assms in \<open>auto simp: read_rom_def read_ram_def set_ram_enable_def upd_rtc_def set_cam_reg_def split: option.split\<close>)

lemma gb_stores_cam [simp]: "gb_stores k s t \<Longrightarrow> gb_stores k s (write_pocket_cam_regs h k i v t)"
  by (simp add: write_pocket_cam_regs_def grab_pocket_cam_image_def Let_def split: option.split)

lemma gb_stores_fold: "gb_stores k s t \<Longrightarrow> (\<And>i t. gb_stores k s t \<Longrightarrow> gb_stores k s (F i t)) \<Longrightarrow> gb_stores k s (fold F xs t)"
  by (induction xs arbitrary: t) simp_all

lemma gb_write_stores: "gb_stores k s t \<Longrightarrow> gb_stores k s (write_gb_cart h k a f n t)"
  by (simp add: write_gb_cart_def mbc_writer_def write_gb_cart_nombc_def write_gb_cart_mbc1_def write_gb_cart_mbc2_def
      write_gb_cart_mbc3_def write_gb_cart_mbc5_def write_gb_cart_stub_def write_gb_cart_pocket_cam_def last_byte_def Let_def
      gb_stores_fold split: option.split mbc.split)

lemma gb_read_stores: "gb_stores k s t \<Longrightarrow> gb_stores k s (snd (read_gb_cart h k a n t))"
  by (simp add: read_gb_cart_def mbc_reader_def read_banked_def read_gb_cart_nombc_def read_gb_cart_mbc1_def read_gb_cart_mbc2_def
      read_gb_cart_mbc3_def read_gb_cart_mbc5_def read_gb_cart_stub_def read_gb_cart_pocket_cam_def Let_def split_beta
      split: option.split mbc.split)

lemma gb_poweron_stores: "gb_stores k s (poweron_gb_cart k s)"
  by (simp add: poweron_gb_cart_def Let_def)

text \<open>Where the bytes of a read come from: the ROM, at the address or in the switched bank; the RAM; a register or nothing.\<close>

definition rom_place :: "mbc \<Rightarrow> gb_cart \<Rightarrow> u16 \<Rightarrow> nat" where
  "rom_place m g a = (if gb_page a < 2 \<or> m = Nombc then unat a else unat a - 0x4000 + unat (rom_bank g) * 0x4000)"

definition within :: "storage option \<Rightarrow> nat \<Rightarrow> nat \<Rightarrow> u8 \<Rightarrow> (nat \<Rightarrow> u8) \<Rightarrow> bool" where
  "within store w n msk r \<longleftrightarrow> (\<exists>st d. store = Some st \<and> st_data st = Some d \<and> w + n \<le> st_size st \<and> r = (\<lambda>i. d (w + i) AND msk))"

definition read_inside :: "mbc \<Rightarrow> gb_cart \<Rightarrow> u16 \<Rightarrow> nat \<Rightarrow> (nat \<Rightarrow> u8) \<Rightarrow> bool" where
  "read_inside m g a n r \<longleftrightarrow>
     (if gb_page a < 4 then within (rom_storage g) (rom_place m g a) n 0xff r
      else gb_page a = 5 \<and>
        (m = Pocket_cam \<and> ram_bank g AND 0x10 \<noteq> 0 \<or> (\<exists>v. r = (\<lambda>_. v)) \<or>
         (\<exists>w. within (ram_storage g) w n (if m = Mbc2 then 0x0f else 0xff) r)))"

lemma and_ones8: "(x :: u8) AND 0xff = x"
proof -
  have "(0xff :: u8) = - 1" by simp
  then show ?thesis by (simp only: and.right_neutral)
qed

lemma read_rom_within: "fst (read_rom k a n s) = Some r \<Longrightarrow> within (rom_storage (gbs s k)) (unat a) n 0xff r"
  by (auto simp: read_rom_def within_def and_ones8 [simplified] split: option.splits if_splits)

lemma read_ram_within:
  "fst (read_ram k e a n m s) = Some r \<Longrightarrow> (\<exists>v. r = (\<lambda>_. v)) \<or> (\<exists>w. within (ram_storage (gbs s k)) w n m r)"
proof -
  assume r: "fst (read_ram k e a n m s) = Some r"
  show ?thesis
  proof (cases "\<exists>v. r = (\<lambda>_. v)")
    case False
    then have "r \<noteq> (\<lambda>_. 0xff)" by blast
    then have "within (ram_storage (gbs s k)) (unat a) n m r"
      using r by (auto simp: read_ram_def within_def split: option.splits if_splits)
    then show ?thesis by blast
  qed simp
qed

lemma banks_below: "banks_ok m g \<Longrightarrow> m \<in> {Mbc1, Mbc2, Mbc3, Mbc5, Pocket_cam} \<Longrightarrow> unat (rom_bank g) < 0x200"
  by (cases m) (simp_all add: banks_ok_def word_less_nat_alt)

lemma page_address: "gb_page a < 4 \<Longrightarrow> unat (ucast a :: u32) = unat a \<and> (2 \<le> gb_page a \<longleftrightarrow> 0x4000 \<le> unat a)"
  by (auto simp: gb_page_def drop_bit_eq_div unat_div unsigned_ucast_eq intro: take_bit_nat_eq_self)

lemma rom_window_place:
  assumes "2 \<le> gb_page a" "gb_page a < 4" "unat (rom_bank g) < 0x200"
  shows "unat (rom_window g a) = unat a - 0x4000 + unat (rom_bank g) * 0x4000"
proof -
  have a: "unat (ucast a :: u32) = unat a" "0x4000 \<le> unat a" "unat a < 0x8000"
    using page_address [OF assms(2)] assms(1,2) by (auto simp: gb_page_def drop_bit_eq_div unat_div)
  have "unat (ucast a - 0x4000 :: u32) = unat a - 0x4000" using a(2) by (subst unat_sub) (simp_all add: word_le_nat_alt a(1))
  moreover have "unat (rom_bank g * 0x4000) = unat (rom_bank g) * 0x4000" using assms(3) by (simp add: unat_word_ariths)
  ultimately show ?thesis unfolding rom_window_def using a assms(3) by (subst unat_add_small) simp_all
qed

lemma banked_inside:
  assumes "gb_safe m k s" "m \<in> {Mbc1, Mbc2, Mbc3, Mbc5, Pocket_cam}" and r: "fst (read_banked k a n s ram) = Some r"
    and ram: "gb_page a = 5 \<Longrightarrow> fst ram = Some r \<Longrightarrow> read_inside m (gbs s k) a n r"
  shows "read_inside m (gbs s k) a n r"
proof -
  have b: "unat (rom_bank (gbs s k)) < 0x200" using assms(1,2) by (intro banks_below [of m]) (simp_all add: gb_safe_def)
  consider "gb_page a < 2" | "2 \<le> gb_page a" "gb_page a < 4" | "gb_page a = 5" | "4 \<le> gb_page a" "gb_page a \<noteq> 5" by linarith
  then show ?thesis
  proof cases
    case 1
    then have "gb_page a = 0 \<or> gb_page a = 1" by linarith
    then show ?thesis using r read_rom_within [of k "ucast a" n s r] page_address [of a]
      by (auto simp: read_banked_def read_inside_def rom_place_def)
  next
    case 2
    then have "gb_page a = 2 \<or> gb_page a = 3" by linarith
    then show ?thesis using r read_rom_within [of k "rom_window (gbs s k) a" n s r] rom_window_place [OF 2 b] assms(2)
      by (auto simp: read_banked_def read_inside_def rom_place_def)
  next
    case 3
    then show ?thesis using r ram by (simp add: read_banked_def)
  next
    case 4
    then show ?thesis using r by (simp add: read_banked_def)
  qed
qed

lemma read_is_inside:
  assumes s: "gb_safe m k s"
  shows "fst (read_gb_cart h k a (Suc n) s) = Some r \<Longrightarrow> read_inside m (gbs s k) a (Suc n) r"
proof -
  assume "fst (read_gb_cart h k a (Suc n) s) = Some r"
  moreover have "gb_mbc (gbs s k) = Some m" using s by (simp add: gb_safe_def storages_ok_def)
  ultimately have r: "fst (mbc_reader m h k a (Suc n) s) = Some r" by (simp add: read_gb_cart_def)
  have ram: "read_inside m (gbs s k) a (Suc n) r"
    if "gb_page a = 5" "fst (read_ram k e b (Suc n) (if m = Mbc2 then 0x0f else 0xff) s) = Some r" for e b
    using that read_ram_within [OF that(2)] by (auto simp: read_inside_def)
  note inside = banked_inside [OF s]
  show ?thesis
  proof (cases m)
    case Nombc
    consider "gb_page a < 4" | "gb_page a = 5" | "4 \<le> gb_page a" "gb_page a \<noteq> 5" by linarith
    then show ?thesis
    proof cases
      case 1
      then have "gb_page a \<in> {0, 1, 2, 3}" by auto
      then show ?thesis using r Nombc read_rom_within [of k "ucast a" "Suc n" s r] page_address [of a]
        by (auto simp: mbc_reader_def read_gb_cart_nombc_def read_inside_def rom_place_def)
    next
      case 2
      then show ?thesis using r Nombc ram by (simp add: mbc_reader_def read_gb_cart_nombc_def)
    qed (use r Nombc in \<open>simp add: mbc_reader_def read_gb_cart_nombc_def\<close>)
  next
    case Mbc1
    show ?thesis
      by (rule inside [OF _ r [unfolded Mbc1 mbc_reader_def mbc.case read_gb_cart_mbc1_def]]) (use ram Mbc1 in simp_all)
  next
    case Mbc3
    show ?thesis
      by (rule inside [OF _ r [unfolded Mbc3 mbc_reader_def mbc.case read_gb_cart_mbc3_def Let_def]])
        (use ram Mbc3 in \<open>auto simp: read_inside_def split: if_splits prod.splits\<close>)
  next
    case Mbc2
    show ?thesis
      by (rule inside [OF _ r [unfolded Mbc2 mbc_reader_def mbc.case read_gb_cart_mbc2_def]]) (use ram Mbc2 in simp_all)
  next
    case Mbc5
    show ?thesis
      by (rule inside [OF _ r [unfolded Mbc5 mbc_reader_def mbc.case read_gb_cart_mbc5_def]]) (use ram Mbc5 in simp_all)
  next
    case Pocket_cam
    show ?thesis
      by (rule inside [OF _ r [unfolded Pocket_cam mbc_reader_def mbc.case read_gb_cart_pocket_cam_def Let_def]])
        (use ram Pocket_cam in \<open>auto simp: read_inside_def split: if_splits\<close>)
  qed (use r in \<open>simp_all add: mbc_reader_def read_gb_cart_stub_def\<close>)
qed


text \<open>The RAM bank an access to the RAM window goes to, for the controllers that have one.\<close>

definition window_bank :: "gb_cart \<Rightarrow> u32 option" where
  "window_bank g =
     (case gb_mbc g of
        Some Nombc \<Rightarrow> Some 0
      | Some Mbc1 \<Rightarrow> if ram_enable g then Some (ram_bank g) else None
      | Some Mbc3 \<Rightarrow> if ram_enable g \<and> ram_bank g < 0x08 then Some (ram_bank g) else None
      | Some Mbc5 \<Rightarrow> if ram_enable g then Some (ram_bank g AND 0x7) else None
      | Some Pocket_cam \<Rightarrow> if ram_enable g \<and> ram_bank g AND 0x10 = 0 then Some (ram_bank g) else None
      | _ \<Rightarrow> None)"

lemma window_access:
  assumes "window_bank (gbs s k) = Some b" "gb_page a = 5" "0 < n"
  shows "write_gb_cart h k a f n s = write_ram k True (ucast (ram_window b a)) f n 0xff s"
    "read_gb_cart h k a n s = read_ram k True (ram_window b a) n 0xff s"
proof -
  obtain m where m: "gb_mbc (gbs s k) = Some m" using assms(1) by (auto simp: window_bank_def split: option.splits)
  show "write_gb_cart h k a f n s = write_ram k True (ucast (ram_window b a)) f n 0xff s"
    using assms m by (cases m) (simp_all add: window_bank_def write_gb_cart_def mbc_writer_def last_byte_def Let_def
        write_gb_cart_nombc_def write_gb_cart_mbc1_def write_gb_cart_mbc3_def write_gb_cart_mbc5_def write_gb_cart_pocket_cam_def
        split: if_splits)
  show "read_gb_cart h k a n s = read_ram k True (ram_window b a) n 0xff s"
    using assms m by (cases m) (simp_all add: window_bank_def read_gb_cart_def mbc_reader_def read_banked_def Let_def
        read_gb_cart_nombc_def read_gb_cart_mbc1_def read_gb_cart_mbc3_def read_gb_cart_mbc5_def read_gb_cart_pocket_cam_def
        split: if_splits)
qed

lemma window_bank_ram [simp]: "window_bank (g\<lparr>ram_storage := x\<rparr>) = window_bank g"
proof (cases "gb_mbc g")
  case (Some m)
  then show ?thesis by (cases m) (simp_all add: window_bank_def)
qed (simp add: window_bank_def)

lemma write_ram_bank [simp]: "window_bank (gbs (write_ram j e b f n m s) k) = window_bank (gbs s k)"
  by (simp add: write_ram_def split: option.split)

lemma page_window:
  assumes "gb_page a = 5" "unat b < 16"
  shows "unat (ram_window b a) = unat a - 0xa000 + unat b * 0x2000" "0xa000 \<le> unat a" "unat a < 0xc000"
proof -
  have "unat a div 0x2000 = 5" using assms(1) by (simp add: gb_page_def drop_bit_eq_div unat_div)
  then show a: "0xa000 \<le> unat a" "unat a < 0xc000" by linarith+
  have u: "unat (ucast a :: u32) = unat a" using a(2) by (simp add: unsigned_ucast_eq take_bit_nat_eq_self)
  have m: "unat (b * 0x2000) = unat b * 0x2000"
    using assms(2) by (simp add: unat_word_ariths)
  have "unat (ucast a - 0xa000 :: u32) = unat a - 0xa000"
    using a(1) by (subst unat_sub) (simp_all add: word_le_nat_alt u)
  then show "unat (ram_window b a) = unat a - 0xa000 + unat b * 0x2000"
    unfolding ram_window_def using m a assms(2) by (subst unat_add_small) simp_all
qed

text \<open>
  Game Boy RAM: with the RAM enabled, what is written to the RAM window is read back through it and no other
  byte of the RAM changes, for every controller and bank below 8; the write is saved to the storage.
\<close>

theorem gb_ram_read_after_write:
  assumes g: "window_bank (gbs s k) = Some b" "b < 8" and a: "gb_page a = 5" "0 < n"
    and st: "ram_storage (gbs s k) = Some st" "st_data st = Some d"
    and size: "unat a - 0xa000 + unat b * 0x2000 + n \<le> st_size st"
  shows "let s' = write_gb_cart h k a f n s; w = unat a - 0xa000 + unat b * 0x2000 in
    (\<exists>r. read_gb_cart h k a n s' = (Some r, s') \<and> (\<forall>i < n. r i = f i)) \<and>
    (\<exists>st' d'. ram_storage (gbs s' k) = Some st' \<and> st_data st' = Some d' \<and> (\<forall>j. j < w \<or> w + n \<le> j \<longrightarrow> d' j = d j)) \<and>
    ext_log s' = ext_log s @ [Storage_save (STORE_GB_RAM + k) w n]"
proof -
  let ?w = "unat a - 0xa000 + unat b * 0x2000"
  have b: "unat b < 8" using g(2) by (simp add: word_less_nat_alt)
  then have w: "unat (ram_window b a) = ?w" and lt: "?w < 0x10000"
    using page_window [OF a(1), of b] by simp_all
  have u: "unat (ucast (ram_window b a) :: u16) = ?w"
    using w lt by (simp add: unsigned_ucast_eq take_bit_nat_eq_self)
  have m: "x AND 0xff = x" for x :: u8 by (rule and_ones8)
  define s1 where "s1 = write_gb_cart h k a f n s"
  have e: "s1 = write_ram k True (ucast (ram_window b a)) f n 0xff s"
    unfolding s1_def by (rule window_access(1) [OF g(1) a])
  then have r: "read_gb_cart h k a n s1 = read_ram k True (ram_window b a) n 0xff s1"
    using g(1) by (intro window_access(2) [OF _ a]) simp
  have s1: "s1 = call_out (Storage_save (STORE_GB_RAM + k) ?w n)
      (upd_gb k (\<lambda>g. g\<lparr>ram_storage := Some (st\<lparr>st_data := Some (blit d ?w f n)\<rparr>)\<rparr>) s)"
    using st size a(2) by (simp add: e write_ram_def u m)
  have "ram_storage (gbs s1 k) = Some (st\<lparr>st_data := Some (blit d ?w f n)\<rparr>)" "ext_log s1 = ext_log s @ [Storage_save (STORE_GB_RAM + k) ?w n]"
    by (simp_all add: s1 upd_gb_def)
  then show ?thesis
    unfolding Let_def s1_def [symmetric] r using size a(2) by (simp add: read_ram_def w m blit_at)
qed

text \<open>
  The camera's RAM has sixteen banks, but the offset of a write is cut to 16 bits: a write to bank 8 to 15 goes to the
  bank 8 below it, and the written bank keeps what it had.
\<close>

theorem camera_ram_banks_alias:
  assumes g: "window_bank (gbs s k) = Some b" "8 \<le> b" "b < 16" and a: "gb_page a = 5" "0 < n" "unat a + n \<le> 0xc000"
    and st: "ram_storage (gbs s k) = Some st" "st_data st = Some d" "0x20000 \<le> st_size st"
  shows "let s' = write_gb_cart h k a f n s; w = unat a - 0xa000 + unat b * 0x2000 in
    (\<exists>st' d'. ram_storage (gbs s' k) = Some st' \<and> st_data st' = Some d' \<and>
      (\<forall>i < n. d' (w - 0x10000 + i) = f i \<and> d' (w + i) = d (w + i)))"
proof -
  let ?w = "unat a - 0xa000 + unat b * 0x2000"
  have b: "8 \<le> unat b" "unat b < 16" using g(2,3) by (simp_all add: word_less_nat_alt word_le_nat_alt)
  have w: "unat (ram_window b a) = ?w" by (rule page_window(1) [OF a(1) b(2)])
  obtain v where v: "?w = 0x10000 + v" "v + n \<le> 0x10000"
    using page_window(2) [OF a(1) b(2)] b a(3) by (intro that [of "?w - 0x10000"]) simp_all
  have "unat (ucast (ram_window b a) :: u16) = (0x10000 + v) mod 0x10000"
    unfolding v(1) [symmetric] using w by (simp add: unsigned_ucast_eq take_bit_eq_mod)
  then have u: "unat (ucast (ram_window b a) :: u16) = v" using v(2) a(2) by simp
  have "write_gb_cart h k a f n s = write_ram k True (ucast (ram_window b a)) f n 0xff s"
    by (rule window_access(1) [OF g(1) a(1,2)])
  then have "ram_storage (gbs (write_gb_cart h k a f n s) k) = Some (st\<lparr>st_data := Some (blit d v f n)\<rparr>)"
    using st v(2) a(2) by (simp add: write_ram_def u and_ones8)
  then show ?thesis unfolding Let_def v(1) using v(2) by (auto simp: blit_at)
qed

section \<open>Witnesses\<close>

definition sample_gb_cart :: "mbc \<Rightarrow> gb_cart" where
  "sample_gb_cart m = no_gb_cart\<lparr>rom_storage := Some \<lparr>st_data = Some (\<lambda>a. of_nat a), st_size = 0x8000\<rparr>,
     ram_storage := Some \<lparr>st_data = Some (\<lambda>a. of_nat (a div 0x2000)), st_size = 0x20000\<rparr>, ram_enable := True, gb_mbc := Some m\<rparr>"

definition sample_gb :: gb_carts where
  "sample_gb = cart.extend sample_cart (gb_carts.fields (\<lambda>k. sample_gb_cart (if k = 0 then Mbc1 else Pocket_cam)))"

definition sample_gb_host :: "gb_carts gb_host" where
  "sample_gb_host = \<lparr>gb_time = (\<lambda>_. 0), gb_grab = (\<lambda>_. None)\<rparr>"

lemma sample_gb_simps:
  "gbs sample_gb = (\<lambda>k. sample_gb_cart (if k = 0 then Mbc1 else Pocket_cam))" "fault sample_gb = fault sample_cart"
  by (simp_all add: sample_gb_def cart.defs gb_carts.defs)

lemma sample_gb_fault: "\<not> fault sample_cart"
proof -
  have "fault sample_cart = fault sample_vi"
    by (simp add: sample_cart_def pi_controller.defs cart.defs sample_pi_def pif.defs sample_pif_def rsp_core.defs
        sample_rsp_def ai_controller.defs sample_ai_def vi_controller.defs)
  then show ?thesis by (simp add: sample_vi_cp0)
qed


theorem gb_ram_read_after_write_witness:
  "\<exists>r. fst (read_gb_cart sample_gb_host 0 0xa123 32 (write_gb_cart sample_gb_host 0 0xa123 (\<lambda>i. of_nat i) 32 sample_gb)) = Some r \<and> r 5 = 5"
proof -
  let ?g = "sample_gb_cart Mbc1"
  have w: "window_bank (gbs sample_gb 0) = Some 0" "gb_page 0xa123 = 5"
    by (simp_all add: sample_gb_simps window_bank_def sample_gb_cart_def no_gb_cart_def gb_page_def drop_bit_eq_div)
  have st: "ram_storage (gbs sample_gb 0) = Some \<lparr>st_data = Some (\<lambda>a. of_nat (a div 0x2000)), st_size = 0x20000\<rparr>"
    by (simp add: sample_gb_simps sample_gb_cart_def)
  show ?thesis
    using gb_ram_read_after_write [OF w(1) _ w(2) _ st, of 32 _ sample_gb_host "\<lambda>i. of_nat i"] by (force simp: Let_def)
qed

theorem camera_ram_banks_alias_witness:
  "let s = upd_gb 1 (\<lambda>g. g\<lparr>ram_bank := 9\<rparr>) sample_gb; s' = write_gb_cart sample_gb_host 1 0xa000 (\<lambda>_. 77) 32 s in
   \<exists>st' d'. ram_storage (gbs s' 1) = Some st' \<and> st_data st' = Some d' \<and> d' 0x2000 = 77 \<and> d' 0x12000 = 9"
proof -
  let ?s = "upd_gb 1 (\<lambda>g. g\<lparr>ram_bank := 9\<rparr>) sample_gb"
  have w: "window_bank (gbs ?s 1) = Some 9" "gb_page 0xa000 = 5"
    by (simp_all add: sample_gb_simps window_bank_def sample_gb_cart_def no_gb_cart_def gb_page_def drop_bit_eq_div)
  have st: "ram_storage (gbs ?s 1) = Some \<lparr>st_data = Some (\<lambda>a. of_nat (a div 0x2000)), st_size = 0x20000\<rparr>"
    by (simp add: sample_gb_simps sample_gb_cart_def)
  show ?thesis
    using camera_ram_banks_alias [OF w(1) _ _ w(2) _ _ st, of 32 _ sample_gb_host "\<lambda>_. 77"] by (force simp: Let_def)
qed

end
