(* ===== verification/Controllers.thy ===== *)
theory Controllers
  imports Gb_Cart
begin

text \<open>
  Game controllers and their paks (\<^verbatim>\<open>src/src/device/controllers/game_controller.c\<close> and \<^verbatim>\<open>paks/\<close>):
  memory pak, rumble pak, bio sensor and transfer pak. Controller \<open>k\<close> owns the \<open>k\<close>-th pak of each
  kind, as the front end sets them up, and a transfer pak the \<open>k\<close>-th Game Boy cartridge. The input back
  end, the clocks of the host and its camera, and the country code of the ROM header are arguments.
\<close>

abbreviation (input) PAK_CHUNK_SIZE :: nat where "PAK_CHUNK_SIZE \<equiv> 0x20"
abbreviation (input) MEMPAK_SIZE :: nat where "MEMPAK_SIZE \<equiv> 0x8000"
abbreviation (input) CONT_STATUS_PAK_PRESENT :: u8 where "CONT_STATUS_PAK_PRESENT \<equiv> 0x01"
abbreviation (input) CONT_STATUS_PAK_CHANGED :: u8 where "CONT_STATUS_PAK_CHANGED \<equiv> 0x02"
abbreviation (input) STORE_MEMPAK :: nat where "STORE_MEMPAK \<equiv> 3"
abbreviation (input) VOICE_STATUS_READY :: u8 where "VOICE_STATUS_READY \<equiv> 0x00"
abbreviation (input) VOICE_STATUS_START :: u8 where "VOICE_STATUS_START \<equiv> 0x01"
abbreviation (input) VOICE_STATUS_BUSY :: u8 where "VOICE_STATUS_BUSY \<equiv> 0x05"

datatype pak_interface = Memory_pak | Rumble_pak | Bio_pak | Transfer_pak

datatype flavor = Standard_controller | Mouse_controller | Vru_controller

record game_controller =
  cont_status :: u8
  cont_flavor :: flavor
  cont_pak :: "pak_interface option"
  voice_state :: u8
  load_offset :: u8
  voice_init :: u8
  vru_word :: "nat \<Rightarrow> u16"

record transferpak =
  tpk_enabled :: bool
  tpk_bank :: u32
  tpk_cart_enabled :: bool
  tpk_reset_state :: u32
  tpk_gb_cart :: bool

record controllers = gb_carts +
  conts :: "nat \<Rightarrow> game_controller"
  mempaks :: "nat \<Rightarrow> nat \<Rightarrow> u8"
  rumbles :: "nat \<Rightarrow> u8"
  bio_bpm :: "nat \<Rightarrow> u32"
  tpaks :: "nat \<Rightarrow> transferpak"

text \<open>
  \<open>in_get_input k s\<close> is \<open>None\<close> when \<^verbatim>\<open>get_input\<close> fails; \<open>in_vru_results\<close> is what \<^verbatim>\<open>readVRUResults\<close> makes of the
  30 bytes it is given.
\<close>

record 's pad_env =
  in_get_input :: "nat \<Rightarrow> 's \<Rightarrow> u32 option"
  in_ticks :: "'s \<Rightarrow> u32"
  in_vru_results :: "'s \<Rightarrow> (nat \<Rightarrow> u8) \<Rightarrow> (nat \<Rightarrow> u8)"
  rom_country :: u8
  pad_gb :: "'s gb_host"

definition flavor_type :: "flavor \<Rightarrow> u16" where
  "flavor_type f = (case f of Standard_controller \<Rightarrow> 0x0001 OR 0x0004 | Mouse_controller \<Rightarrow> 0x0002
     | Vru_controller \<Rightarrow> 0x0100)"

definition upd_cont :: "nat \<Rightarrow> (game_controller \<Rightarrow> game_controller) \<Rightarrow> 'a controllers_scheme \<Rightarrow> 'a controllers_scheme" where
  "upd_cont k f s = s\<lparr>conts := (conts s)(k := f (conts s k))\<rparr>"

definition upd_tpak :: "nat \<Rightarrow> (transferpak \<Rightarrow> transferpak) \<Rightarrow> 'a controllers_scheme \<Rightarrow> 'a controllers_scheme" where
  "upd_tpak k f s = s\<lparr>tpaks := (tpaks s)(k := f (tpaks s k))\<rparr>"

section \<open>Memory pak\<close>

definition load_beu16 :: "(nat \<Rightarrow> u8) \<Rightarrow> nat \<Rightarrow> u16" where
  "load_beu16 m a = push_bit 8 (ucast (m a)) OR ucast (m (a + 1))"

definition store_beu16 :: "u16 \<Rightarrow> (nat \<Rightarrow> u8) \<Rightarrow> nat \<Rightarrow> (nat \<Rightarrow> u8)" where
  "store_beu16 w m a = m(a := ucast (drop_bit 8 w), a + 1 := ucast w)"

definition store_beu32 :: "u32 \<Rightarrow> (nat \<Rightarrow> u8) \<Rightarrow> nat \<Rightarrow> (nat \<Rightarrow> u8)" where
  "store_beu32 w m a = m(a := ucast (drop_bit 24 w), a + 1 := ucast (drop_bit 16 w),
     a + 2 := ucast (drop_bit 8 w), a + 3 := ucast w)"

definition checksum_id_block :: "(nat \<Rightarrow> u8) \<Rightarrow> nat \<Rightarrow> u16 \<times> u16" where
  "checksum_id_block m a =
     (let accu = (\<Sum>i \<leftarrow> [0..<14]. load_beu16 m (a + 2 * i)) in (accu, 0xfff2 - accu))"

definition checksum_index_table :: "nat \<Rightarrow> (nat \<Rightarrow> u8) \<Rightarrow> nat \<Rightarrow> u8" where
  "checksum_index_table n m a = (\<Sum>i \<leftarrow> [0..<n]. m (a + i))"

definition serialize_id_block :: "nat \<Rightarrow> (nat \<Rightarrow> u32) \<Rightarrow> u16 \<Rightarrow> u8 \<Rightarrow> u8 \<Rightarrow> (nat \<Rightarrow> u8) \<Rightarrow> (nat \<Rightarrow> u8)" where
  "serialize_id_block a serial device_id banks version m =
     (let m = fold (\<lambda>i m. store_beu32 (serial i) m (a + 4 * i)) [0..<6] m;
          m = store_beu16 device_id m (a + 24);
          m = m(a + 26 := banks, a + 27 := version);
          (sum, isum) = checksum_id_block m a;
          m = store_beu16 sum m (a + 28)
      in store_beu16 isum m (a + 30))"

definition format_index_table :: "(nat \<Rightarrow> u8) \<Rightarrow> (nat \<Rightarrow> u8)" where
  "format_index_table m = fold (\<lambda>i m. store_beu16 0x0003 m (256 + 2 * i)) [5..<128] m"

definition format_mempak :: "(nat \<Rightarrow> u32) \<Rightarrow> u16 \<Rightarrow> u8 \<Rightarrow> u8 \<Rightarrow> (nat \<Rightarrow> u8) \<Rightarrow> (nat \<Rightarrow> u8)" where
  "format_mempak serial device_id banks version m =
     (let m = serialize_id_block 32 serial device_id banks version m;
          m = blit m 0 (\<lambda>_. 0) 32;
          m = blit m (2 * 32) (\<lambda>_. 0) 32;
          m = blit m (5 * 32) (\<lambda>_. 0) 32;
          m = blit m (7 * 32) (\<lambda>_. 0) 32;
          m = blit m (3 * 32) (\<lambda>i. m (32 + i)) 32;
          m = blit m (4 * 32) (\<lambda>i. m (32 + i)) 32;
          m = blit m (6 * 32) (\<lambda>i. m (32 + i)) 32;
          m = blit m 256 (\<lambda>_. 0) (2 * 5);
          m = format_index_table m;
          m = m(257 := checksum_index_table (2 * (128 - 5)) m (256 + 2 * 5));
          m = blit m 512 (\<lambda>i. m (256 + i)) 256
      in blit m 768 (\<lambda>_. 0) (MEMPAK_SIZE - 3 * 256))"

definition read_mempak :: "nat \<Rightarrow> u16 \<Rightarrow> nat \<Rightarrow> 'a controllers_scheme \<Rightarrow> (nat \<Rightarrow> u8)" where
  "read_mempak k address sz s =
     (if address < 0x8000 then (\<lambda>i. mempaks s k (unat address + i)) else (\<lambda>_. 0))"

definition write_mempak :: "nat \<Rightarrow> u16 \<Rightarrow> (nat \<Rightarrow> u8) \<Rightarrow> nat \<Rightarrow> 'a controllers_scheme \<Rightarrow> 'a controllers_scheme" where
  "write_mempak k address f sz s =
     (if address < 0x8000
      then call_out (Storage_save (STORE_MEMPAK + k) (unat address) sz)
             (s\<lparr>mempaks := (mempaks s)(k := blit (mempaks s k) (unat address) f sz)\<rparr>)
      else s)"

section \<open>Rumble pak and bio sensor\<close>

definition set_rumble_reg :: "nat \<Rightarrow> u8 \<Rightarrow> 'a controllers_scheme \<Rightarrow> 'a controllers_scheme" where
  "set_rumble_reg k v s = call_out (Rumble_exec k (v \<noteq> 0)) (s\<lparr>rumbles := (rumbles s)(k := v)\<rparr>)"

definition poweron_rumblepak :: "nat \<Rightarrow> 'a controllers_scheme \<Rightarrow> 'a controllers_scheme" where
  "poweron_rumblepak k s = set_rumble_reg k 0x00 s"

definition read_rumblepak :: "u16 \<Rightarrow> (nat \<Rightarrow> u8)" where
  "read_rumblepak address = (\<lambda>_. if 0x8000 \<le> address \<and> address < 0x9000 then 0x80 else 0x00)"

definition write_rumblepak :: "nat \<Rightarrow> u16 \<Rightarrow> (nat \<Rightarrow> u8) \<Rightarrow> nat \<Rightarrow> 'a controllers_scheme \<Rightarrow> 'a controllers_scheme" where
  "write_rumblepak k address f sz s = (if address = 0xc000 then set_rumble_reg k (f (sz - 1)) s else s)"

text \<open>\<open>None\<close>: an address the sensor does not answer. A rate of 0, or above 60000, divides by zero.\<close>

definition read_biopak :: "'a controllers_scheme pad_env \<Rightarrow> nat \<Rightarrow> u16 \<Rightarrow> 'a controllers_scheme \<Rightarrow>
    (nat \<Rightarrow> u8) option \<times> 'a controllers_scheme" where
  "read_biopak env k address s =
     (if address = 0xc000
      then if bio_bpm s k = 0 \<or> 60000 div bio_bpm s k = 0 then (None, set_fault s)
        else let period = 60000 div bio_bpm s k; t = in_ticks env s mod period
             in (Some (\<lambda>_. if 2 * t < period then 0x00 else 0x03), s)
      else (None, s))"

section \<open>Transfer pak\<close>

definition gb_cart_address :: "u32 \<Rightarrow> u16 \<Rightarrow> u16" where
  "gb_cart_address bank address = (address AND 0x3fff) OR ucast (bank * 0x4000)"

definition poweron_transferpak :: "nat \<Rightarrow> 'a controllers_scheme \<Rightarrow> 'a controllers_scheme" where
  "poweron_transferpak k s =
     (let s = upd_tpak k (\<lambda>t. t\<lparr>tpk_enabled := False, tpk_bank := 0, tpk_cart_enabled := False, tpk_reset_state := 3\<rparr>) s
      in if tpk_gb_cart (tpaks s k) then poweron_gb_cart k s else s)"

definition change_gb_cart :: "nat \<Rightarrow> bool \<Rightarrow> 'a controllers_scheme \<Rightarrow> 'a controllers_scheme" where
  "change_gb_cart k gb s =
     (let s = upd_tpak k (\<lambda>t. t\<lparr>tpk_enabled := False, tpk_cart_enabled := False, tpk_reset_state := 3, tpk_gb_cart := gb\<rparr>) s
      in if gb then poweron_gb_cart k s else s)"

definition tpak_next_reset :: "transferpak \<Rightarrow> u32" where
  "tpak_next_reset t =
     (if tpk_cart_enabled t \<and> tpk_reset_state t = 3 then 2
      else if \<not> tpk_cart_enabled t \<and> tpk_reset_state t = 2 then 1
      else if \<not> tpk_cart_enabled t \<and> tpk_reset_state t = 1 then 0
      else tpk_reset_state t)"

definition tpak_access_mode :: "transferpak \<Rightarrow> u8" where
  "tpak_access_mode t =
     (if tpk_gb_cart t \<and> tpk_cart_enabled t then 0x01 else 0) OR
     ucast (push_bit 2 (tpk_reset_state t AND 3)) OR (if tpk_enabled t then 0x80 else 0)"

definition read_transferpak :: "'a controllers_scheme pad_env \<Rightarrow> nat \<Rightarrow> u16 \<Rightarrow> nat \<Rightarrow> 'a controllers_scheme \<Rightarrow>
    (nat \<Rightarrow> u8) option \<times> 'a controllers_scheme" where
  "read_transferpak env k address sz s =
     (let t = tpaks s k; page = drop_bit 12 address in
      if page = 0x8 then (Some (\<lambda>_. if tpk_enabled t then 0x84 else 0x00), s)
      else if page = 0xb
      then (Some (\<lambda>_. tpak_access_mode t), upd_tpak k (\<lambda>t. t\<lparr>tpk_reset_state := tpak_next_reset t\<rparr>) s)
      else if 0xc \<le> page
      then if tpk_enabled t \<and> tpk_gb_cart t
        then read_gb_cart (pad_gb env) k (gb_cart_address (tpk_bank t) address) sz s
        else (None, s)
      else (None, s))"

definition write_transferpak :: "'a controllers_scheme pad_env \<Rightarrow> nat \<Rightarrow> u16 \<Rightarrow> (nat \<Rightarrow> u8) \<Rightarrow> nat \<Rightarrow>
    'a controllers_scheme \<Rightarrow> 'a controllers_scheme" where
  "write_transferpak env k address f sz s =
     (let t = tpaks s k; page = drop_bit 12 address; v = f (sz - 1) in
      if page = 0x8
      then if v = 0xfe then upd_tpak k (\<lambda>t. t\<lparr>tpk_enabled := False\<rparr>) s
        else if v = 0x84
        then let s = (if \<not> tpk_enabled t
                      then upd_tpak k (\<lambda>t. t\<lparr>tpk_bank := 3, tpk_cart_enabled := False, tpk_reset_state := 0\<rparr>) s else s)
             in upd_tpak k (\<lambda>t. t\<lparr>tpk_enabled := True\<rparr>) s
        else s
      else if page = 0xa
      then if tpk_enabled t then upd_tpak k (\<lambda>t. t\<lparr>tpk_bank := (if 3 < v then 0 else ucast v)\<rparr>) s else s
      else if page = 0xb
      then if tpk_enabled t then upd_tpak k (\<lambda>t. t\<lparr>tpk_reset_state := 3, tpk_cart_enabled := True\<rparr>) s else s
      else if 0xc \<le> page
      then if tpk_enabled t \<and> tpk_gb_cart t
        then write_gb_cart (pad_gb env) k (gb_cart_address (tpk_bank t) address) f sz s else s
      else s)"

section \<open>Paks\<close>

definition plug_pak :: "nat \<Rightarrow> pak_interface \<Rightarrow> 'a controllers_scheme \<Rightarrow> 'a controllers_scheme" where
  "plug_pak k p s =
     (case p of Memory_pak \<Rightarrow> s | Rumble_pak \<Rightarrow> poweron_rumblepak k s | Bio_pak \<Rightarrow> s
      | Transfer_pak \<Rightarrow> poweron_transferpak k s)"

definition unplug_pak :: "nat \<Rightarrow> pak_interface \<Rightarrow> 'a controllers_scheme \<Rightarrow> 'a controllers_scheme" where
  "unplug_pak k p s =
     (case p of Memory_pak \<Rightarrow> s | Rumble_pak \<Rightarrow> set_rumble_reg k 0x00 s | Bio_pak \<Rightarrow> s | Transfer_pak \<Rightarrow> s)"

definition read_pak :: "'a controllers_scheme pad_env \<Rightarrow> nat \<Rightarrow> pak_interface \<Rightarrow> u16 \<Rightarrow> nat \<Rightarrow> 'a controllers_scheme \<Rightarrow>
    (nat \<Rightarrow> u8) option \<times> 'a controllers_scheme" where
  "read_pak env k p address sz s =
     (case p of
        Memory_pak \<Rightarrow> (Some (read_mempak k address sz s), s)
      | Rumble_pak \<Rightarrow> (Some (read_rumblepak address), s)
      | Bio_pak \<Rightarrow> read_biopak env k address s
      | Transfer_pak \<Rightarrow> read_transferpak env k address sz s)"

definition write_pak :: "'a controllers_scheme pad_env \<Rightarrow> nat \<Rightarrow> pak_interface \<Rightarrow> u16 \<Rightarrow> (nat \<Rightarrow> u8) \<Rightarrow> nat \<Rightarrow>
    'a controllers_scheme \<Rightarrow> 'a controllers_scheme" where
  "write_pak env k p address f sz s =
     (case p of
        Memory_pak \<Rightarrow> write_mempak k address f sz s
      | Rumble_pak \<Rightarrow> write_rumblepak k address f sz s
      | Bio_pak \<Rightarrow> s
      | Transfer_pak \<Rightarrow> write_transferpak env k address f sz s)"

section \<open>Controllers\<close>

definition standard_controller_reset :: "game_controller \<Rightarrow> game_controller" where
  "standard_controller_reset c =
     c\<lparr>cont_status := (case cont_pak c of Some _ \<Rightarrow> CONT_STATUS_PAK_PRESENT | None \<Rightarrow> CONT_STATUS_PAK_CHANGED)\<rparr>"

definition mouse_controller_reset :: "game_controller \<Rightarrow> game_controller" where
  "mouse_controller_reset c = c\<lparr>cont_status := 0x00\<rparr>"

definition vru_japanese :: "'s pad_env \<Rightarrow> bool" where
  "vru_japanese env \<longleftrightarrow> rom_country env = 0x4a \<or> rom_country env = 0x00"

definition vru_controller_reset :: "'s pad_env \<Rightarrow> game_controller \<Rightarrow> game_controller" where
  "vru_controller_reset env c =
     c\<lparr>cont_status := 0x00, voice_state := (if vru_japanese env then VOICE_STATUS_READY else VOICE_STATUS_START),
        load_offset := 0, voice_init := 1, vru_word := (\<lambda>_. 0)\<rparr>"

definition controller_reset :: "'a controllers_scheme pad_env \<Rightarrow> nat \<Rightarrow> 'a controllers_scheme \<Rightarrow> 'a controllers_scheme" where
  "controller_reset env k s =
     upd_cont k (case cont_flavor (conts s k) of
        Standard_controller \<Rightarrow> standard_controller_reset
      | Mouse_controller \<Rightarrow> mouse_controller_reset
      | Vru_controller \<Rightarrow> vru_controller_reset env) s"

definition change_pak :: "nat \<Rightarrow> pak_interface option \<Rightarrow>
    'a controllers_scheme \<Rightarrow> 'a controllers_scheme" where
  "change_pak k new s0 =
     (let old = cont_pak (conts s0 k);
          s = upd_cont k (\<lambda>c. c\<lparr>cont_status := cont_status c AND NOT (CONT_STATUS_PAK_PRESENT OR CONT_STATUS_PAK_CHANGED)\<rparr>) s0;
          s = (case old of None \<Rightarrow> s | Some p \<Rightarrow>
                 upd_cont k (\<lambda>c. c\<lparr>cont_status := cont_status c OR CONT_STATUS_PAK_CHANGED\<rparr>) (unplug_pak k p s));
          s = (case new of None \<Rightarrow> s | Some p \<Rightarrow>
                 upd_cont k (\<lambda>c. c\<lparr>cont_status := cont_status c OR CONT_STATUS_PAK_PRESENT\<rparr>) (plug_pak k p s))
      in upd_cont k (\<lambda>c. c\<lparr>cont_pak := new\<rparr>) s)"

definition poweron_game_controller ::
    "'a controllers_scheme pad_env \<Rightarrow> nat \<Rightarrow> 'a controllers_scheme \<Rightarrow> 'a controllers_scheme" where
  "poweron_game_controller env k s0 =
     (let s = controller_reset env k s0 in
      case (cont_flavor (conts s k), cont_pak (conts s k)) of
        (Standard_controller, Some p) \<Rightarrow> plug_pak k p s
      | _ \<Rightarrow> s)"

text \<open>One round of the checksum loop, most significant bit first.\<close>

definition crc_bit :: "bool \<Rightarrow> u8 \<Rightarrow> u8" where
  "crc_bit b crc =
     (let xor_tap = (if crc AND 0x80 \<noteq> 0 then 0x85 else 0x00);
          crc = push_bit 1 crc;
          crc = (if b then crc OR 1 else crc)
      in crc XOR xor_tap)"

definition byte_bits :: "u8 \<Rightarrow> bool list" where
  "byte_bits x = map (\<lambda>i. x AND push_bit (7 - i) 1 \<noteq> 0) [0..<8]"

definition pak_data_crc :: "(nat \<Rightarrow> u8) \<Rightarrow> nat \<Rightarrow> u8" where
  "pak_data_crc f n =
     fold (\<lambda>i. fold crc_bit (if i \<noteq> n then byte_bits (f i) else replicate 8 False)) [0..<Suc n] 0"

definition pak_address :: "u8 \<Rightarrow> u8 \<Rightarrow> u16" where
  "pak_address hi lo = push_bit 8 (ucast hi) OR ucast (lo AND 0xe0)"

definition pak_read_block :: "'a controllers_scheme pad_env \<Rightarrow> nat \<Rightarrow> nat \<Rightarrow>
    (nat \<Rightarrow> u8) \<times> 'a controllers_scheme \<Rightarrow> (nat \<Rightarrow> u8) \<times> 'a controllers_scheme" where
  "pak_read_block env k rxo = (\<lambda>(v, s).
     case cont_pak (conts s k) of
       Some p \<Rightarrow>
         let (r, s) = read_pak env k p (pak_address (v 3) (v 4)) PAK_CHUNK_SIZE s;
             v = (case r of None \<Rightarrow> v | Some f \<Rightarrow> blit v rxo f PAK_CHUNK_SIZE)
         in (v(rxo + 32 := pak_data_crc (\<lambda>i. v (rxo + i)) PAK_CHUNK_SIZE), s)
     | None \<Rightarrow> (v(rxo + 32 := NOT (pak_data_crc (\<lambda>i. v (rxo + i)) PAK_CHUNK_SIZE)), s))"

definition pak_write_block :: "'a controllers_scheme pad_env \<Rightarrow> nat \<Rightarrow> nat \<Rightarrow>
    (nat \<Rightarrow> u8) \<times> 'a controllers_scheme \<Rightarrow> (nat \<Rightarrow> u8) \<times> 'a controllers_scheme" where
  "pak_write_block env k rxo = (\<lambda>(v, s).
     case cont_pak (conts s k) of
       Some p \<Rightarrow>
         let s = write_pak env k p (pak_address (v 3) (v 4)) (\<lambda>i. v (5 + i)) PAK_CHUNK_SIZE s
         in (v(rxo := pak_data_crc (\<lambda>i. v (5 + i)) PAK_CHUNK_SIZE), s)
     | None \<Rightarrow> (v(rxo := NOT (pak_data_crc (\<lambda>i. v (5 + i)) PAK_CHUNK_SIZE)), s))"

definition controller_status :: "nat \<Rightarrow> nat \<Rightarrow> (nat \<Rightarrow> u8) \<times> 'a controllers_scheme \<Rightarrow> (nat \<Rightarrow> u8) \<times> 'a controllers_scheme" where
  "controller_status k rxo = (\<lambda>(v, s).
     let t = flavor_type (cont_flavor (conts s k)) in
     (put_bytes rxo [ucast t, ucast (drop_bit 8 t), cont_status (conts s k)] v, s))"

definition process_controller_command ::
    "'a controllers_scheme pad_env \<Rightarrow> nat \<Rightarrow> 'a controllers_scheme joybus_op" where
  "process_controller_command env k rxo = (\<lambda>(v, s).
     let cmd = v 2 in
     case in_get_input env k s of
       None \<Rightarrow> (v(1 := v 1 OR 0x80), s)
     | Some input \<Rightarrow>
         if cmd = 0xff then expect 1 3 (controller_status k rxo) (v, controller_reset env k s)
         else if cmd = 0x00 then expect 1 3 (controller_status k rxo) (v, s)
         else if cmd = 0x01 then expect 1 4 (\<lambda>(v, s). (store32 v rxo input, s)) (v, s)
         else if cmd = 0x02 then expect 3 33 (pak_read_block env k rxo) (v, s)
         else if cmd = 0x03 then expect 35 1 (pak_write_block env k rxo) (v, s)
         else (v, s))"

section \<open>The checksum\<close>

lemma bit_85: "bit (0x85 :: int) n = (n = 0 \<or> n = 2 \<or> n = 7)"
proof -
  have "(0x85 :: int) = 2 ^ 0 OR 2 ^ 2 OR 2 ^ 7" by simp
  then show ?thesis by (simp only: bit_or_iff bit_exp_iff) auto
qed

lemma crc_bit_bit:
  "n < 8 \<Longrightarrow> bit (crc_bit b x) n =
     ((0 < n \<and> bit x (n - 1)) \<noteq> ((n = 0 \<and> b) \<noteq> (bit x 7 \<and> bit (0x85 :: int) n)))"
proof -
  assume n: "n < 8"
  have t: "(x AND 0x80 \<noteq> 0) = bit x 7" for x :: u8
    using and_exp_eq_0_iff_not_bit [of x 7] by simp
  have p: "bit (push_bit 1 x) n = (0 < n \<and> bit x (n - 1))" for x :: u8
    using n by (simp only: bit_push_bit_iff) (auto simp: dest: bit_imp_le_length)
  have c: "bit (0x85 :: u8) n = bit (0x85 :: int) n" using n by (simp add: bit_85)
  show ?thesis
    unfolding crc_bit_def Let_def t using n
    by (cases "bit x 7"; cases b) (auto simp only: bit_xor_iff bit_or_iff p c bit_1_iff bit_0_eq bot_apply bot_bool_def if_True if_False)
qed

lemma crc_bit_xor: "crc_bit (a \<noteq> b) (x XOR y) = crc_bit a x XOR crc_bit b y"
  by (rule bit_word_eqI) (auto simp: crc_bit_bit bit_xor_iff)

lemma crc_bit_zero [simp]: "crc_bit False 0 = 0"
  by (simp add: crc_bit_def)

lemma crc_bit_nonzero: "x \<noteq> 0 \<Longrightarrow> crc_bit False x \<noteq> 0"
proof
  assume x: "x \<noteq> 0" and z: "crc_bit False x = 0"
  have h: "\<not> bit x 7" using crc_bit_bit [of 0 False x] z by (simp add: bit_85)
  have "\<not> bit x m" if "m < 7" for m using crc_bit_bit [of "Suc m" False x] z h that by simp
  then have "x = 0" using h by (intro bit_word_eqI) (auto simp: less_Suc_eq numeral_eq_Suc)
  then show False using x by simp
qed

lemma crc_fold_xor:
  "length as = length bs \<Longrightarrow>
   fold crc_bit as x XOR fold crc_bit bs y = fold crc_bit (map2 (\<noteq>) as bs) (x XOR y)"
  by (induction as bs arbitrary: x y rule: list_induct2) (simp_all flip: crc_bit_xor)

lemma crc_fold_same:
  "fold crc_bit bs x XOR fold crc_bit bs y = fold crc_bit (replicate (length bs) False) (x XOR y)"
proof -
  have "map2 (\<noteq>) bs bs = replicate (length bs) False" by (induction bs) simp_all
  then show ?thesis by (simp add: crc_fold_xor)
qed

lemma crc_fold_nonzero: "x \<noteq> 0 \<Longrightarrow> fold crc_bit (replicate n False) x \<noteq> 0"
  by (induction n arbitrary: x) (simp_all add: crc_bit_nonzero)

definition crc_bits :: "(nat \<Rightarrow> u8) \<Rightarrow> nat \<Rightarrow> bool list" where
  "crc_bits f n = concat (map (\<lambda>i. byte_bits (f i)) [0..<n]) @ replicate 8 False"

lemma pak_data_crc_bits: "pak_data_crc f n = fold crc_bit (crc_bits f n) 0"
proof -
  have "fold (\<lambda>i. fold crc_bit (if i \<noteq> n then byte_bits (f i) else replicate 8 False)) [0..<m] x =
      fold crc_bit (concat (map (\<lambda>i. byte_bits (f i)) [0..<m])) x" if "m \<le> n" for m x
    using that by (induction m) simp_all
  then show ?thesis by (simp add: pak_data_crc_def crc_bits_def)
qed

lemma crc_bits_split:
  "j < n \<Longrightarrow> crc_bits f n = concat (map (\<lambda>i. byte_bits (f i)) [0..<j]) @ byte_bits (f j) @
     (concat (map (\<lambda>i. byte_bits (f i)) [Suc j..<n]) @ replicate 8 False)"
proof -
  assume "j < n"
  then have "[0..<n] = [0..<j] @ j # [Suc j..<n]"
    using upt_add_eq_append [of 0 j "n - j"] by (simp add: upt_conv_Cons)
  then show ?thesis by (simp add: crc_bits_def)
qed

lemma byte_bits_xor: "map2 (\<noteq>) (byte_bits x) (byte_bits y) = byte_bits (x XOR y)"
proof -
  have "(z AND push_bit i 1 \<noteq> 0) = bit z i" for z :: u8 and i
    using and_exp_eq_0_iff_not_bit [of z i] by (simp add: push_bit_eq_mult)
  then show ?thesis by (simp add: byte_bits_def map2_map_map bit_xor_iff)
qed

lemma crc_single_bit_byte: "c < 8 \<Longrightarrow> fold crc_bit (byte_bits (push_bit c 1)) 0 \<noteq> 0"
proof -
  assume "c < 8"
  moreover have "\<forall>c \<in> set [0..<8]. fold crc_bit (byte_bits (push_bit c 1)) 0 \<noteq> 0" by code_simp
  ultimately show ?thesis by simp
qed

lemma crc_byte_differs:
  assumes "fold crc_bit (byte_bits (a XOR b)) 0 \<noteq> 0"
  shows "fold crc_bit (xs @ byte_bits a @ ys) 0 \<noteq> fold crc_bit (xs @ byte_bits b @ ys) 0"
proof -
  let ?x = "fold crc_bit xs 0"
  have l: "length (byte_bits a) = length (byte_bits b)" by (simp add: byte_bits_def)
  have d: "fold crc_bit (byte_bits a) ?x XOR fold crc_bit (byte_bits b) ?x = fold crc_bit (byte_bits (a XOR b)) 0"
    by (simp only: crc_fold_xor [OF l] byte_bits_xor xor_self_eq)
  have "fold crc_bit (xs @ byte_bits a @ ys) 0 XOR fold crc_bit (xs @ byte_bits b @ ys) 0 \<noteq> 0"
    using crc_fold_nonzero [OF assms, of "length ys"] by (simp add: crc_fold_same d)
  then show ?thesis by auto
qed

lemma pak_data_crc_cong:
  assumes "\<And>i. i < n \<Longrightarrow> f i = g i"
  shows "pak_data_crc f n = pak_data_crc g n"
proof -
  have "map (\<lambda>i. byte_bits (f i)) [0..<n] = map (\<lambda>i. byte_bits (g i)) [0..<n]" using assms by simp
  then show ?thesis by (simp only: pak_data_crc_bits crc_bits_def)
qed

section \<open>The queue stays well formed\<close>

lemma pad_live_upd [simp]:
  "live (upd_cont k f s) = live s" "live (upd_tpak k g s) = live s" "live (s\<lparr>mempaks := m\<rparr>) = live s"
  "live (s\<lparr>rumbles := r\<rparr>) = live s" "live (set_rumble_reg k v s) = live s" "live (controller_reset env k s) = live s"
  by (simp_all add: live_def upd_cont_def upd_tpak_def set_rumble_reg_def controller_reset_def)

lemma pad_gb_live [simp]:
  "live (poweron_gb_cart k s) = live s" "live (snd (read_gb_cart h k a n s)) = live s" "live (write_gb_cart h k a f n s) = live s"
  for s :: "'a gb_carts_scheme"
  by (rule gb_frame_live, simp add: gb_poweron_frame gb_read_frame gb_write_frame)+

lemma read_pak_live: "live s \<Longrightarrow> live (snd (read_pak env k p a n s))"
  by (simp add: read_pak_def read_biopak_def read_transferpak_def Let_def split: pak_interface.split)

lemma write_pak_live: "live s \<Longrightarrow> live (write_pak env k p a f n s)"
  by (simp add: write_pak_def write_mempak_def write_rumblepak_def write_transferpak_def Let_def
      split: pak_interface.split)

lemma plug_pak_live: "live s \<Longrightarrow> live (plug_pak k p s)"
  by (simp add: plug_pak_def poweron_rumblepak_def poweron_transferpak_def Let_def split: pak_interface.split)

lemma change_pak_live: "live s \<Longrightarrow> live (change_pak k new s)"
  by (simp add: change_pak_def Let_def unplug_pak_def plug_pak_live split: option.split pak_interface.split)

lemma poweron_controller_live: "live s \<Longrightarrow> live (poweron_game_controller env k s)"
  by (simp add: poweron_game_controller_def Let_def plug_pak_live split: option.split flavor.split)

lemma controller_command_live: "live s \<Longrightarrow> live (snd (process_controller_command env k rxo (v, s)))"
  by (auto simp: process_controller_command_def Let_def controller_status_def pak_read_block_def pak_write_block_def
      split_beta read_pak_live write_pak_live intro!: expect_live split: option.split)

section \<open>Properties\<close>

text \<open>
  C28. The checksum of a pak block detects every single-bit error, wherever it is and whatever
  the size of the block.
\<close>

theorem pak_crc_detects_bit_error:
  assumes "j < n" and "c < 8"
  shows "pak_data_crc (f(j := f j XOR push_bit c 1)) n \<noteq> pak_data_crc f n"
proof -
  let ?g = "f(j := f j XOR push_bit c 1)"
  have s: "map (\<lambda>i. byte_bits (?g i)) [0..<j] = map (\<lambda>i. byte_bits (f i)) [0..<j]"
    "map (\<lambda>i. byte_bits (?g i)) [Suc j..<n] = map (\<lambda>i. byte_bits (f i)) [Suc j..<n]" by auto
  have x: "(f j XOR push_bit c 1) XOR f j = push_bit c 1"
    by (simp add: xor.commute [of "f j"] xor.assoc)
  have "fold crc_bit (byte_bits ((f j XOR push_bit c 1) XOR f j)) 0 \<noteq> 0"
    unfolding x by (rule crc_single_bit_byte [OF assms(2)])
  from crc_byte_differs [OF this] show ?thesis
    unfolding pak_data_crc_bits crc_bits_split [OF assms(1)] s fun_upd_same by blast
qed

theorem pak_crc_detects_bit_error_witness:
  "pak_data_crc ((\<lambda>i. of_nat i)(5 := 5 XOR push_bit 3 1)) 32 \<noteq> pak_data_crc (\<lambda>i. of_nat i) 32"
  using pak_crc_detects_bit_error [of 5 32 3 "\<lambda>i. of_nat i"] by simp

text \<open>
  C29. A 32-byte block written to a memory pak over the joybus is returned by a read of the same
  address, with the checksum of the data; the write command answers with the same checksum.
\<close>

theorem mempak_read_after_write:
  assumes pak: "cont_pak (conts s k) = Some Memory_pak" and addr: "pak_address (w 3) (w 4) < 0x8000"
    and poll: "\<And>s. in_get_input env k s \<noteq> None"
    and w: "w 0 = 35" "w 1 = 1" "w 2 = 3" and r: "r 0 = 3" "r 1 = 33" "r 2 = 2" "r 3 = w 3" "r 4 = w 4"
    and ww: "(v, s') = process_controller_command env k 37 (w, s)"
    and rr: "(u, s'') = process_controller_command env k 5 (r, s')"
  shows "(\<forall>i < 32. u (5 + i) = w (5 + i)) \<and> u 37 = pak_data_crc (\<lambda>i. w (5 + i)) 32 \<and> v 37 = u 37"
proof -
  obtain x where x: "in_get_input env k s = Some x" using poll by blast
  have "v = w(37 := pak_data_crc (\<lambda>i. w (5 + i)) 32)"
    and s': "s' = write_mempak k (pak_address (w 3) (w 4)) (\<lambda>i. w (5 + i)) 32 s"
    using ww x w pak
    by (simp_all add: process_controller_command_def expect_def pak_write_block_def write_pak_def)
  moreover obtain y where y: "in_get_input env k s' = Some y" using poll by blast
  have p': "cont_pak (conts s' k) = Some Memory_pak" and m': "mempaks s' k = blit (mempaks s k)
      (unat (pak_address (w 3) (w 4))) (\<lambda>i. w (5 + i)) 32"
    using pak addr by (simp_all add: s' write_mempak_def call_out_def)
  have "u = (blit r 5 (\<lambda>i. mempaks s' k (unat (pak_address (w 3) (w 4)) + i)) 32)
      (37 := pak_data_crc (\<lambda>i. blit r 5 (\<lambda>i. mempaks s' k (unat (pak_address (w 3) (w 4)) + i)) 32 (5 + i)) 32)"
    using rr y r p' addr
    by (simp add: process_controller_command_def expect_def pak_read_block_def read_pak_def read_mempak_def Let_def)
  moreover have "blit r 5 (\<lambda>i. mempaks s' k (unat (pak_address (w 3) (w 4)) + i)) 32 (5 + i) = w (5 + i)"
    if "i < 32" for i using that by (simp add: m' blit_at)
  ultimately show ?thesis
    using pak_data_crc_cong [of 32 "\<lambda>i. blit r 5 (\<lambda>i. mempaks s' k (unat (pak_address (w 3) (w 4)) + i)) 32 (5 + i)"
        "\<lambda>i. w (5 + i)"] by simp
qed

definition sample_pads :: controllers where
  "sample_pads = gb_carts.extend sample_gb
     (controllers.fields (\<lambda>k. \<lparr>cont_status = 1, cont_flavor = (if k = 1 then Vru_controller else Standard_controller),
          cont_pak = (if k = 1 then None else Some Memory_pak),
          voice_state = 0, load_offset = 0, voice_init = 1, vru_word = (\<lambda>_. 0)\<rparr>)
        (\<lambda>_ _. 0) (\<lambda>_. 0) (\<lambda>_. 60)
        (\<lambda>_. \<lparr>tpk_enabled = False, tpk_bank = 0, tpk_cart_enabled = False, tpk_reset_state = 3, tpk_gb_cart = False\<rparr>))"

definition sample_pad_env :: "controllers pad_env" where
  "sample_pad_env = \<lparr>in_get_input = (\<lambda>_ _. Some 0), in_ticks = (\<lambda>_. 0), in_vru_results = (\<lambda>_ f. f), rom_country = 0x4a,
     pad_gb = \<lparr>gb_time = (\<lambda>_. 0), gb_grab = (\<lambda>_. None)\<rparr>\<rparr>"

theorem mempak_read_after_write_witness:
  "fst (process_controller_command sample_pad_env 0 5 ((\<lambda>j. of_nat j)(0 := 3, 1 := 33, 2 := 2),
     snd (process_controller_command sample_pad_env 0 37 ((\<lambda>j. of_nat j)(0 := 35, 1 := 1, 2 := 3), sample_pads)))) (5 + 9) = 14"
proof -
  let ?w = "(\<lambda>j. of_nat j)(0 := 35, 1 := 1, 2 := 3) :: nat \<Rightarrow> u8"
  let ?r = "(\<lambda>j. of_nat j)(0 := 3, 1 := 33, 2 := 2) :: nat \<Rightarrow> u8"
  obtain v s' where v: "(v, s') = process_controller_command sample_pad_env 0 37 (?w, sample_pads)" by (metis surj_pair)
  obtain u s'' where u: "(u, s'') = process_controller_command sample_pad_env 0 5 (?r, s')" by (metis surj_pair)
  have c: "cont_pak (conts sample_pads 0) = Some Memory_pak"
    by (simp add: sample_pads_def gb_carts.defs controllers.defs)
  have "u (5 + 9) = ?w (5 + 9)"
    by (rule mempak_read_after_write [OF c _ _ _ _ _ _ _ _ _ _ v u, THEN conjunct1, rule_format])
      (simp_all add: pak_address_def sample_pad_env_def)
  moreover have "u = fst (process_controller_command sample_pad_env 0 5 (?r, s'))"
    "s' = snd (process_controller_command sample_pad_env 0 37 (?w, sample_pads))"
    by (simp_all only: u [symmetric] v [symmetric] fst_conv snd_conv)
  ultimately show ?thesis by simp
qed

section \<open>Formatting a memory pak\<close>

lemma store_beu16_other: "b \<noteq> a \<Longrightarrow> b \<noteq> a + 1 \<Longrightarrow> store_beu16 w m a b = m b"
  by (simp add: store_beu16_def)

lemma load_store_beu16 [simp]: "load_beu16 (store_beu16 w m a) a = w"
proof (rule bit_word_eqI)
  fix n assume "n < LENGTH(16)"
  then have "n < 16" by simp
  then show "bit (load_beu16 (store_beu16 w m a) a) n = bit w n"
    by (cases "n < 8") (auto simp: load_beu16_def store_beu16_def bit_or_iff bit_push_bit_iff bit_ucast_iff
        bit_drop_bit_eq)
qed

lemma load_beu16_cong: "m a = m' a \<Longrightarrow> m (a + 1) = m' (a + 1) \<Longrightarrow> load_beu16 m a = load_beu16 m' a"
  by (simp add: load_beu16_def)

lemma checksum_id_cong:
  assumes "\<And>i. i < 28 \<Longrightarrow> m (a + i) = m' (a + i)"
  shows "checksum_id_block m a = checksum_id_block m' a"
proof -
  have "load_beu16 m (a + 2 * i) = load_beu16 m' (a + 2 * i)" if "i < 14" for i
    using that assms [of "2 * i"] assms [of "2 * i + 1"] by (intro load_beu16_cong) (simp_all add: add.assoc)
  then have "map (\<lambda>i. load_beu16 m (a + 2 * i)) [0..<14] = map (\<lambda>i. load_beu16 m' (a + 2 * i)) [0..<14]"
    by (intro map_cong) auto
  then show ?thesis by (simp only: checksum_id_block_def)
qed

text \<open>The ID block carries the checksums of its own first 28 bytes.\<close>

lemma serialize_checksums:
  assumes "m' = serialize_id_block a serial device_id banks version m"
  shows "(load_beu16 m' (a + 28), load_beu16 m' (a + 30)) = checksum_id_block m' a"
proof -
  define m1 where "m1 = (store_beu16 device_id (fold (\<lambda>i m. store_beu32 (serial i) m (a + 4 * i)) [0..<6] m) (a + 24))
    (a + 26 := banks, a + 27 := version)"
  obtain sum isum where c: "checksum_id_block m1 a = (sum, isum)" by force
  have m': "m' = store_beu16 isum (store_beu16 sum m1 (a + 28)) (a + 30)"
    using c by (simp add: assms serialize_id_block_def Let_def flip: m1_def)
  have "checksum_id_block m' a = checksum_id_block m1 a"
    by (rule checksum_id_cong) (simp add: m' store_beu16_other)
  moreover have "load_beu16 m' (a + 28) = sum"
    using load_beu16_cong [of m' "a + 28" "store_beu16 sum m1 (a + 28)"]
    by (simp add: m' store_beu16_other)
  ultimately show ?thesis by (simp add: c m')
qed

lemma table_stores_other:
  "b < 266 \<or> 512 \<le> b \<Longrightarrow> \<forall>i \<in> set xs. 5 \<le> i \<and> i < 128 \<Longrightarrow>
   fold (\<lambda>i m. store_beu16 0x0003 m (256 + 2 * i)) xs m b = m b"
  by (induction xs arbitrary: m) (auto simp: store_beu16_other)

lemma index_table_other:
  "b < 266 \<or> 512 \<le> b \<Longrightarrow> format_index_table m b = m b"
  unfolding format_index_table_def by (rule table_stores_other) (auto simp only: set_upt atLeastLessThan_iff)

lemma format_parts:
  assumes m1: "m1 = serialize_id_block 32 serial device_id banks version m0"
    and m: "m = format_mempak serial device_id banks version m0"
  shows "i < 32 \<Longrightarrow> m (32 + i) = m1 (32 + i)"
    "i < 32 \<Longrightarrow> m (96 + i) = m1 (32 + i)" "i < 32 \<Longrightarrow> m (128 + i) = m1 (32 + i)" "i < 32 \<Longrightarrow> m (192 + i) = m1 (32 + i)"
    "i < 256 \<Longrightarrow> m (512 + i) = m (256 + i)"
  unfolding m format_mempak_def Let_def m1 [symmetric]
  by (simp_all add: blit_at index_table_other)

text \<open>
  A freshly formatted memory pak carries an ID block whose two checksums are right, three
  identical copies of it, and a backup of the index page equal to the index page.
\<close>

theorem format_mempak_valid:
  assumes m: "m = format_mempak serial device_id banks version m0"
  shows "(load_beu16 m 60, load_beu16 m 62) = checksum_id_block m 32 \<and>
    load_beu16 m 60 + load_beu16 m 62 = 0xfff2 \<and>
    (\<forall>i < 32. m (96 + i) = m (32 + i) \<and> m (128 + i) = m (32 + i) \<and> m (192 + i) = m (32 + i)) \<and>
    (\<forall>i < 256. m (512 + i) = m (256 + i))"
proof -
  define m1 where "m1 = serialize_id_block 32 serial device_id banks version m0"
  note f = format_parts [OF m1_def m]
  have s: "(load_beu16 m1 60, load_beu16 m1 62) = checksum_id_block m1 32"
    using serialize_checksums [OF m1_def] by simp
  have l: "load_beu16 m 60 = load_beu16 m1 60" "load_beu16 m 62 = load_beu16 m1 62"
    using f(1) [of 28] f(1) [of 29] f(1) [of 30] f(1) [of 31] by (intro load_beu16_cong; simp)+
  have "checksum_id_block m 32 = checksum_id_block m1 32"
    by (rule checksum_id_cong) (simp add: f(1))
  then have c: "(load_beu16 m 60, load_beu16 m 62) = checksum_id_block m 32" using s l by simp
  moreover have "load_beu16 m 60 + load_beu16 m 62 = 0xfff2"
    using c by (simp add: checksum_id_block_def Let_def)
  ultimately show ?thesis using f by simp
qed

theorem format_mempak_valid_witness:
  "format_mempak (\<lambda>i. of_nat i) 1 1 0 (\<lambda>_. 0) (96 + 3) = format_mempak (\<lambda>i. of_nat i) 1 1 0 (\<lambda>_. 0) (32 + 3)"
  using format_mempak_valid [OF refl, of "\<lambda>i. of_nat i" 1 1 0 "\<lambda>_. 0", THEN conjunct2, THEN conjunct2,
      THEN conjunct1, rule_format, of 3] by simp

section \<open>The transfer pak\<close>

definition tpak_ok :: "transferpak \<Rightarrow> bool" where
  "tpak_ok t \<longleftrightarrow> tpk_bank t \<le> 3 \<and> tpk_reset_state t \<le> 3"

lemma upd_tpak_at [simp]: "tpaks (upd_tpak k f s) j = (if j = k then f (tpaks s k) else tpaks s j)"
  by (simp add: upd_tpak_def)

lemma ucast_bank: "\<not> 3 < (v :: u8) \<Longrightarrow> (ucast v :: u32) \<le> 3"
proof -
  assume "\<not> 3 < v"
  then have "unat v \<le> 3" by (simp add: word_less_nat_alt)
  then show ?thesis by (simp add: word_le_nat_alt unsigned_ucast_eq take_bit_nat_eq_self)
qed

lemma gb_window:
  assumes "bank \<le> 3"
  shows "unat (gb_cart_address bank address) = unat bank * 0x4000 + unat address mod 0x4000"
proof -
  have m: "unat (address AND 0x3fff) = unat address mod 0x4000"
  proof -
    have "address AND 0x3fff = take_bit 14 address" by (simp add: take_bit_eq_mask mask_eq_exp_minus_1)
    moreover have "unat (take_bit 14 address) = unat address mod 2 ^ 14"
      unfolding unsigned_take_bit_eq by (rule take_bit_eq_mod)
    ultimately show ?thesis by simp
  qed
  have b: "unat bank \<le> 3" using assms by (simp add: word_le_nat_alt)
  have k: "bit (0x3fff :: int) n = (n < 14)" for n
    using bit_mask_iff [of 14 n, where ?'a = int] by (simp add: mask_eq_exp_minus_1)
  have "bank * 0x4000 = push_bit 14 bank" by (simp add: push_bit_eq_mult)
  then have d: "(address AND 0x3fff) AND ucast (bank * 0x4000) = 0"
    by (intro bit_word_eqI) (auto simp: bit_and_iff bit_ucast_iff bit_push_bit_iff k)
  have u: "unat (ucast (bank * 0x4000) :: u16) = unat bank * 0x4000"
    using b by (simp add: unsigned_ucast_eq unat_word_ariths take_bit_nat_eq_self)
  have "gb_cart_address bank address = (address AND 0x3fff) + ucast (bank * 0x4000)"
    using disjunctive_add_eq_or [OF d] by (simp add: gb_cart_address_def)
  moreover have "unat ((address AND 0x3fff) + ucast (bank * 0x4000)) = unat (address AND 0x3fff) + unat bank * 0x4000"
    using b by (simp add: unat_word_ariths u m)
  ultimately show ?thesis by (simp add: m)
qed

lemma gb_frame_tpaks: "gb_frame s t \<Longrightarrow> tpaks t = tpaks s"
  by (auto simp: gb_frame_def)

lemma gb_tpaks [simp]:
  "tpaks (poweron_gb_cart k s) = tpaks s" "tpaks (snd (read_gb_cart h k a n s)) = tpaks s"
  "tpaks (write_gb_cart h k a f n s) = tpaks s"
  by (rule gb_frame_tpaks, simp add: gb_poweron_frame gb_read_frame gb_write_frame)+

text \<open>
  Whatever the guest reads from and writes to a transfer pak, its bank stays below 4 and its
  reset state in range, and so every access to the Game Boy cartridge goes to the 16 KiB window of
  the selected bank.
\<close>

theorem transferpak_window:
  assumes ok: "tpak_ok (tpaks s k)"
  shows "tpak_ok (tpaks (snd (read_transferpak env k address sz s)) k) \<and>
    tpak_ok (tpaks (write_transferpak env k address f sz s) k) \<and>
    tpak_ok (tpaks (poweron_transferpak k s) k) \<and>
    unat (gb_cart_address (tpk_bank (tpaks s k)) address) = unat (tpk_bank (tpaks s k)) * 0x4000 + unat address mod 0x4000"
proof (intro conjI)
  show "tpak_ok (tpaks (snd (read_transferpak env k address sz s)) k)"
    using ok by (auto simp: read_transferpak_def Let_def split_beta tpak_ok_def tpak_next_reset_def)
  show "tpak_ok (tpaks (write_transferpak env k address f sz s) k)"
    using ok ucast_bank by (auto simp: write_transferpak_def Let_def tpak_ok_def)
  show "tpak_ok (tpaks (poweron_transferpak k s) k)"
    by (simp add: poweron_transferpak_def Let_def tpak_ok_def)
  show "unat (gb_cart_address (tpk_bank (tpaks s k)) address) =
      unat (tpk_bank (tpaks s k)) * 0x4000 + unat address mod 0x4000"
    using ok by (intro gb_window) (simp add: tpak_ok_def)
qed

theorem transferpak_window_witness:
  "unat (gb_cart_address (tpk_bank (tpaks sample_pads 0)) 0xc123) = 0x123"
proof -
  have t: "tpaks sample_pads 0 =
      \<lparr>tpk_enabled = False, tpk_bank = 0, tpk_cart_enabled = False, tpk_reset_state = 3, tpk_gb_cart = False\<rparr>"
    by (simp add: sample_pads_def gb_carts.defs controllers.defs)
  have "tpak_ok (tpaks sample_pads 0)" by (simp add: t tpak_ok_def)
  from transferpak_window [OF this, of sample_pad_env "0xc123"] show ?thesis
    by (simp add: sample_pad_env_def t)
qed

end
