(* ===== verification/Vru.thy ===== *)
theory Vru
  imports Controllers
begin

text \<open>
  The voice recognition unit (\<^verbatim>\<open>src/src/device/controllers/vru_controller.c\<close>): a controller that takes
  dictionary words in 20-byte blocks and hands them, the microphone state and the request for
  results to the input plugin.
\<close>

abbreviation (input) VRU_WORDS :: nat where "VRU_WORDS \<equiv> 40"

definition vru_data_crc :: "(nat \<Rightarrow> u8) \<Rightarrow> nat \<Rightarrow> u8" where
  "vru_data_crc f n =
     fold (\<lambda>i. fold crc_bit (if i \<noteq> n then byte_bits (f i) else replicate 8 False)) [0..<Suc n] 0"

definition poweron_vru_controller :: "'a controllers_scheme pad_env \<Rightarrow> nat \<Rightarrow> 'a controllers_scheme \<Rightarrow> 'a controllers_scheme" where
  "poweron_vru_controller env k s = controller_reset env k s"

type_synonym 'a vru_reply = "(nat \<Rightarrow> u8) \<times> 'a controllers_scheme"

definition vru_status :: "u32 \<Rightarrow> nat \<Rightarrow> nat \<Rightarrow> 'a vru_reply \<Rightarrow> 'a vru_reply" where
  "vru_status input k rxo = (\<lambda>(v, s).
     let c = conts s k; talking = input AND 0x0020 \<noteq> 0;
         s = (if voice_init c = 2 then upd_cont k (\<lambda>c. c\<lparr>voice_state := VOICE_STATUS_START, voice_init := 1\<rparr>) s
              else if talking \<and> voice_state c = VOICE_STATUS_START
              then upd_cont k (\<lambda>c. c\<lparr>voice_state := VOICE_STATUS_BUSY, cont_status := 0\<rparr>) s
              else if \<not> talking \<and> voice_state c = VOICE_STATUS_BUSY
              then upd_cont k (\<lambda>c. c\<lparr>voice_state := VOICE_STATUS_READY, cont_status := 0\<rparr>) s
              else s);
         t = flavor_type (cont_flavor (conts s k))
     in (put_bytes rxo [ucast t, ucast (drop_bit 8 t), cont_status (conts s k)] v, s))"

text \<open>
  The command found in the loaded words: after zero padding, \<open>3\<close> introduces a word. The plugin is
  given its length and the rest of the array. The searches stop at the end of the array, where the
  code reads on.
\<close>

definition vru_padding :: "(nat \<Rightarrow> u16) \<Rightarrow> nat" where
  "vru_padding w = length (takeWhile (\<lambda>i. w i = 0) [0..<VRU_WORDS])"

definition vru_nonzero :: "(nat \<Rightarrow> u16) \<Rightarrow> nat \<Rightarrow> nat" where
  "vru_nonzero w a = length (takeWhile (\<lambda>i. w i \<noteq> 0) [a..<VRU_WORDS])"

definition vru_send :: "'a controllers_scheme pad_env \<Rightarrow> (nat \<Rightarrow> u16) \<Rightarrow> 'a controllers_scheme \<Rightarrow> 'a controllers_scheme" where
  "vru_send env w s =
     (let offset = vru_padding w in
      if offset = VRU_WORDS then set_fault s
      else if w offset = 3
      then let offset = offset + 3 in
        if VRU_WORDS \<le> offset then set_fault s
        else if vru_japanese env
        then let offset = offset - 1; n = vru_nonzero w offset in
          if offset + n = VRU_WORDS then set_fault s
          else call_out (Vru_send_word (of_nat n) (map w [offset..<VRU_WORDS]) 1) s
        else call_out (Vru_send_word (w offset) (map w [offset + 1..<VRU_WORDS]) 0) s
      else s)"

definition vru_read_status :: "'a controllers_scheme pad_env \<Rightarrow> nat \<Rightarrow> nat \<Rightarrow> 'a vru_reply \<Rightarrow> 'a vru_reply" where
  "vru_read_status env k rxo = (\<lambda>(v, s).
     let c = conts s k;
         v = v(rxo := (if voice_init c \<noteq> 0 then voice_state c else 0), rxo + 1 := 0);
         v = v(rxo + 2 := vru_data_crc (\<lambda>i. v (rxo + i)) 2);
         s = (if 0 < load_offset c then upd_cont k (\<lambda>c. c\<lparr>load_offset := 0\<rparr>) (vru_send env (vru_word c) s) else s)
     in (v, upd_cont k (\<lambda>c. c\<lparr>cont_status := 1\<rparr>) s))"

definition vru_write_config :: "nat \<Rightarrow> nat \<Rightarrow> 'a vru_reply \<Rightarrow> 'a vru_reply" where
  "vru_write_config k rxo = (\<lambda>(v, s).
     let v = v(rxo := vru_data_crc (\<lambda>i. v (5 + i)) 4);
         s = (if v rxo = 0x4e then upd_cont k (\<lambda>c. c\<lparr>voice_init := 2\<rparr>) (call_out (Vru_mic_state True) s)
              else if v rxo = 0xef then call_out (Vru_mic_state False) s
              else if v 5 = 0x02 then call_out (Vru_clear_words (v 7)) (upd_cont k (\<lambda>c. c\<lparr>voice_init := 0\<rparr>) s)
              else s)
     in (v, upd_cont k (\<lambda>c. c\<lparr>cont_status := 0\<rparr>) s))"

definition vru_write_init :: "nat \<Rightarrow> 'a vru_reply \<Rightarrow> 'a vru_reply" where
  "vru_write_init rxo = (\<lambda>(v, s).
     (v(rxo := 0), if v 3 = 0 \<and> v 4 = 0 then call_out (Vru_mic_state False) s else s))"

definition vru_read :: "'a controllers_scheme pad_env \<Rightarrow> nat \<Rightarrow> nat \<Rightarrow> 'a vru_reply \<Rightarrow> 'a vru_reply" where
  "vru_read env k rxo = (\<lambda>(v, s).
     let v = put_bytes rxo [0x00, 0x80, 0x00, 0x0f] v;
         v = put_bytes (rxo + 34) [0x40, 0x00] v;
         v = blit v (rxo + 4) (in_vru_results env s (\<lambda>i. v (rxo + 4 + i))) 30;
         v = v(rxo + 36 := vru_data_crc (\<lambda>i. v (rxo + i)) 36)
     in (v, upd_cont k (\<lambda>c. c\<lparr>voice_state := VOICE_STATUS_START\<rparr>) (call_out Vru_read_results s)))"

text \<open>
  The bytes of a block are copied over the array as they are: the words are little endian. The array has 40 words and is the last
  member of a controller, so in C a copy past its end overwrites the next controller. The model does not follow the program there: \<open>vru_write\<close> raises
  \<open>fault\<close>, after which nothing is claimed, and the words from 40 on of the function \<open>vru_word\<close> stand for no memory of the program.
\<close>

definition le16 :: "(nat \<Rightarrow> u8) \<Rightarrow> nat \<Rightarrow> u16" where
  "le16 b j = ucast (b (2 * j)) OR push_bit 8 (ucast (b (2 * j + 1)))"

definition vru_load :: "(nat \<Rightarrow> u8) \<Rightarrow> game_controller \<Rightarrow> game_controller" where
  "vru_load b c =
     c\<lparr>vru_word := (\<lambda>i. if unat (load_offset c) \<le> i \<and> i < unat (load_offset c) + 10 then le16 b (i - unat (load_offset c))
                       else if load_offset c = 0 then 0 else vru_word c i),
        load_offset := load_offset c + 10, cont_status := 0\<rparr>"

definition vru_write :: "nat \<Rightarrow> nat \<Rightarrow> 'a vru_reply \<Rightarrow> 'a vru_reply" where
  "vru_write k rxo = (\<lambda>(v, s).
     let s = (if VRU_WORDS < unat (load_offset (conts s k)) + 10 then set_fault s else s)
     in (v(rxo := vru_data_crc (\<lambda>i. v (5 + i)) 20), upd_cont k (vru_load (\<lambda>i. v (5 + i))) s))"

definition process_vru_command :: "'a controllers_scheme pad_env \<Rightarrow> nat \<Rightarrow> 'a controllers_scheme joybus_op" where
  "process_vru_command env k rxo = (\<lambda>(v, s).
     let cmd = v 2 in
     case in_get_input env k s of
       None \<Rightarrow> (v(1 := v 1 OR 0x80), s)
     | Some input \<Rightarrow>
         if cmd = 0xff then expect 1 3 (vru_status input k rxo) (v, controller_reset env k s)
         else if cmd = 0x00 then expect 1 3 (vru_status input k rxo) (v, s)
         else if cmd = 0x01 then expect 1 4 (\<lambda>(v, s). (v, s)) (v, s)
         else if cmd = 0x0b then expect 3 3 (vru_read_status env k rxo) (v, s)
         else if cmd = 0x0c then expect 7 1 (vru_write_config k rxo) (v, s)
         else if cmd = 0x0d then expect 3 1 (vru_write_init rxo) (v, s)
         else if cmd = 0x09 then expect 3 37 (vru_read env k rxo) (v, s)
         else if cmd = 0x0a then expect 23 1 (vru_write k rxo) (v, s)
         else (v, s))"

section \<open>Helper facts\<close>

lemma vru_data_crc_eq: "vru_data_crc = pak_data_crc"
  by (intro ext) (simp only: vru_data_crc_def pak_data_crc_def)

lemma vru_send_frame [simp]: "conts (vru_send env w s) = conts s" "live (vru_send env w s) = live s"
  by (simp_all add: vru_send_def Let_def set_fault_def call_out_def live_def)

lemma upd_cont_at [simp]:
  "conts (upd_cont k f s) j = (if j = k then f (conts s k) else conts s j)" "fault (upd_cont k f s) = fault s"
  "conts (set_fault s) = conts s" "conts (call_out c s) = conts s"
  by (simp_all add: upd_cont_def set_fault_def call_out_def)

lemma vru_command_live: "live s \<Longrightarrow> live (snd (process_vru_command env k rxo (v, s)))"
  by (auto simp: process_vru_command_def Let_def vru_status_def vru_read_status_def vru_write_config_def vru_write_init_def
      vru_read_def vru_write_def intro!: expect_live split: option.split)

section \<open>Loading words\<close>

definition vru_block :: "(nat \<Rightarrow> u8) \<Rightarrow> (nat \<Rightarrow> u8)" where
  "vru_block b = (\<lambda>i. if i = 0 then 23 else if i = 1 then 1 else if i = 2 then 0x0a else b (i - 5))"

definition vru_writes :: "'a controllers_scheme pad_env \<Rightarrow> nat \<Rightarrow> (nat \<Rightarrow> u8) list \<Rightarrow> 'a controllers_scheme \<Rightarrow> 'a controllers_scheme" where
  "vru_writes env k bs s = fold (\<lambda>b s. snd (process_vru_command env k 25 (vru_block b, s))) bs s"

lemma vru_write_step:
  assumes "in_get_input env k s \<noteq> None"
  shows "snd (process_vru_command env k 25 (vru_block b, s)) =
    upd_cont k (vru_load b) (if VRU_WORDS < unat (load_offset (conts s k)) + 10 then set_fault s else s)"
  using assms by (auto simp: process_vru_command_def expect_def vru_block_def vru_write_def Let_def)

definition vru_filled :: "(nat \<Rightarrow> u8) list \<Rightarrow> game_controller \<Rightarrow> bool" where
  "vru_filled bs c \<longleftrightarrow> unat (load_offset c) = 10 * length bs \<and>
     (\<forall>i < length bs. \<forall>j < 10. vru_word c (10 * i + j) = le16 (bs ! i) j)"

lemma vru_filled_load:
  assumes "vru_filled bs c" and "length bs < 5"
  shows "vru_filled (bs @ [b]) (vru_load b c)"
proof -
  let ?n = "length bs"
  have l: "unat (load_offset c) = 10 * ?n" using assms(1) by (simp add: vru_filled_def)
  have "unat (load_offset c + 10) = 10 * Suc ?n" using l assms(2) by (simp add: unat_word_ariths)
  moreover have "vru_word (vru_load b c) (10 * i + j) = le16 ((bs @ [b]) ! i) j" if i: "i < Suc ?n" and j: "j < 10" for i j
  proof (cases "i = ?n")
    case False
    then have i: "i < ?n" using i by simp
    then have "load_offset c \<noteq> 0" using l by (auto simp: unat_eq_zero)
    moreover have "10 * i + j < 10 * ?n" using i j by linarith
    ultimately show ?thesis using assms(1) i j by (simp add: vru_load_def Let_def l vru_filled_def nth_append)
  qed (use j in \<open>simp add: vru_load_def Let_def l\<close>)
  ultimately show ?thesis by (simp add: vru_filled_def vru_load_def)
qed

lemma vru_writes_append: "vru_writes env k (bs @ cs) s = vru_writes env k cs (vru_writes env k bs s)"
  by (simp add: vru_writes_def)

lemma vru_writes_fault:
  assumes "\<And>s. in_get_input env k s \<noteq> None" and "fault s"
  shows "fault (vru_writes env k bs s)"
  using assms(2) unfolding vru_writes_def
  by (induction bs arbitrary: s) (simp_all add: vru_write_step [OF assms(1)] set_fault_def)

lemma vru_writes_filled:
  assumes poll: "\<And>s. in_get_input env k s \<noteq> None" and s: "load_offset (conts s k) = 0" "\<not> fault s"
  shows "length bs \<le> 4 \<Longrightarrow> vru_filled bs (conts (vru_writes env k bs s) k) \<and> \<not> fault (vru_writes env k bs s)"
proof (induction bs rule: rev_induct)
  case Nil
  then show ?case using s by (simp add: vru_writes_def vru_filled_def)
next
  case (snoc b bs)
  let ?t = "vru_writes env k bs s"
  have h: "vru_filled bs (conts ?t k)" "\<not> fault ?t" "length bs < 4" using snoc by auto
  then have "unat (load_offset (conts ?t k)) + 10 \<le> 40" by (simp add: vru_filled_def)
  then have "vru_writes env k (bs @ [b]) s = upd_cont k (vru_load b) ?t"
    by (simp add: vru_writes_append) (simp add: vru_writes_def vru_write_step [OF poll])
  then show ?case using h vru_filled_load by simp
qed

text \<open>
  The blocks of a dictionary word are stored one behind the other as they arrive. Four of them
  fill the array of the unit; the write of a fifth block before the status is read overruns it.
\<close>

theorem vru_writes_store_word:
  assumes poll: "\<And>s. in_get_input env k s \<noteq> None" and s: "load_offset (conts s k) = 0" "\<not> fault s"
  shows "(fault (vru_writes env k bs s) \<longleftrightarrow> 4 < length bs) \<and>
    (length bs \<le> 4 \<longrightarrow> vru_filled bs (conts (vru_writes env k bs s) k))"
proof (cases "length bs \<le> 4")
  case True
  then show ?thesis using vru_writes_filled [OF poll s True] by simp
next
  case False
  define as where "as = take 4 bs"
  have a: "length as = 4" using False by (simp add: as_def)
  obtain b cs where bs: "bs = as @ b # cs"
    using False id_take_nth_drop [of 4 bs] by (auto simp: as_def)
  let ?t = "vru_writes env k as s"
  have "vru_filled as (conts ?t k)" using vru_writes_filled [OF poll s, of as] a by simp
  then have "unat (load_offset (conts ?t k)) = 40" using a by (simp add: vru_filled_def)
  then have "fault (vru_writes env k [b] ?t)"
    by (simp add: vru_writes_def vru_write_step [OF poll] set_fault_def)
  from vru_writes_fault [OF poll this, of cs] have "fault (vru_writes env k bs s)"
    using vru_writes_append [of env k "[b]" cs ?t] by (simp add: bs vru_writes_append)
  then show ?thesis using False by simp
qed

lemma sample_pads_vru: "load_offset (conts sample_pads 1) = 0" "\<not> fault sample_pads"
  using sample_gb_fault
  by (simp_all add: sample_pads_def gb_carts.defs controllers.defs sample_gb_def cart.defs)

theorem vru_writes_store_word_witness:
  "fault (vru_writes sample_pad_env 1 (replicate 5 (\<lambda>_. 0)) sample_pads) \<and>
   vru_filled [\<lambda>i. of_nat i] (conts (vru_writes sample_pad_env 1 [\<lambda>i. of_nat i] sample_pads) 1)"
proof -
  have p: "in_get_input sample_pad_env 1 s \<noteq> None" for s by (simp add: sample_pad_env_def)
  note w = vru_writes_store_word [OF p sample_pads_vru]
  show ?thesis using w [of "replicate 5 (\<lambda>_. 0)"] w [of "[\<lambda>i. of_nat i]"] by simp
qed

end
