(* ===== verification/Disk.thy ===== *)
theory Disk
  imports Prelude "HOL-Library.Monad_Syntax"
begin

text \<open>
  The geometry of 64DD disks and the three image formats (\<^verbatim>\<open>src/src/device/dd/disk.c\<close>, \<^verbatim>\<open>disk.h\<close>). A logical
  block (LBA) lies on a physical track of one of sixteen zones, past the defective tracks listed in the system
  data; images are addressed through offsets. A read outside one of the tables of the sources is
  \<open>Out_of_bounds\<close>, a null pointer result is \<open>Null_pointer\<close>.
\<close>

abbreviation (input) MAME_FORMAT_DUMP_SIZE :: nat where "MAME_FORMAT_DUMP_SIZE \<equiv> 0x0435b0c0"
abbreviation (input) SDK_FORMAT_DUMP_SIZE :: nat where "SDK_FORMAT_DUMP_SIZE \<equiv> 0x03dec800"
abbreviation (input) DD_REGION_JP :: u32 where "DD_REGION_JP \<equiv> 0xe848d316"
abbreviation (input) DD_REGION_US :: u32 where "DD_REGION_US \<equiv> 0x2263ee56"
abbreviation (input) DD_REGION_DV :: u32 where "DD_REGION_DV \<equiv> 0x00000000"
abbreviation (input) SECTORS_PER_BLOCK :: nat where "SECTORS_PER_BLOCK \<equiv> 85"
abbreviation (input) MAX_LBA :: nat where "MAX_LBA \<equiv> 0x10db"
abbreviation (input) SIZE_LBA :: nat where "SIZE_LBA \<equiv> 0x10dc"
abbreviation (input) SYSTEM_LBAS :: nat where "SYSTEM_LBAS \<equiv> 24"
abbreviation (input) DISKID_LBA :: nat where "DISKID_LBA \<equiv> 14"
abbreviation (input) PROTECT_LBA :: nat where "PROTECT_LBA \<equiv> 12"
abbreviation (input) D64_OFFSET_SYS :: nat where "D64_OFFSET_SYS \<equiv> 0x000"
abbreviation (input) D64_OFFSET_DATA :: nat where "D64_OFFSET_DATA \<equiv> 0x200"

datatype disk_format = DISK_FORMAT_MAME | DISK_FORMAT_SDK | DISK_FORMAT_D64

datatype disk_error = Null_pointer | Out_of_bounds

datatype disk_saver = Disk_read_only | Disk_full | Disk_ram_only

text \<open>The bytes of the image are those of the full storage; \<open>dk_save_size\<close> is the size of the storage that is saved.\<close>

record dd_disk =
  dk_data :: "nat \<Rightarrow> u8"
  dk_size :: nat
  dk_saver :: disk_saver
  dk_save_size :: nat
  lba_phys_table :: "nat \<Rightarrow> u16"
  dk_format :: disk_format
  development :: bool
  offset_sys :: nat
  offset_id :: nat
  offset_ram :: nat

section \<open>Tables\<close>

definition zone_sec_size :: "nat list" where
  "zone_sec_size = [232, 216, 208, 192, 176, 160, 144, 128, 216, 208, 192, 176, 160, 144, 128, 112]"

definition zone_sec_size_phys :: "nat list" where
  "zone_sec_size_phys = [232, 216, 208, 192, 176, 160, 144, 128, 112]"

definition ZoneTracks :: "nat list" where
  "ZoneTracks = [158, 158, 149, 149, 149, 149, 149, 114, 158, 158, 149, 149, 149, 149, 149, 114]"

definition DiskTypeZones :: "nat list list" where
  "DiskTypeZones =
    [[0, 1, 2, 9, 8, 3, 4, 5, 6, 7, 15, 14, 13, 12, 11, 10],
     [0, 1, 2, 3, 10, 9, 8, 4, 5, 6, 7, 15, 14, 13, 12, 11],
     [0, 1, 2, 3, 4, 11, 10, 9, 8, 5, 6, 7, 15, 14, 13, 12],
     [0, 1, 2, 3, 4, 5, 12, 11, 10, 9, 8, 6, 7, 15, 14, 13],
     [0, 1, 2, 3, 4, 5, 6, 13, 12, 11, 10, 9, 8, 7, 15, 14],
     [0, 1, 2, 3, 4, 5, 6, 7, 14, 13, 12, 11, 10, 9, 8, 15],
     [0, 1, 2, 3, 4, 5, 6, 7, 15, 14, 13, 12, 11, 10, 9, 8]]"

definition VZoneLBATable :: "nat list list" where
  "VZoneLBATable =
    [[0x0124, 0x0248, 0x035a, 0x047e, 0x05a2, 0x06b4, 0x07c6, 0x08d8, 0x09ea, 0x0ab6, 0x0b82, 0x0c94, 0x0da6, 0x0eb8, 0x0fca, 0x10dc],
     [0x0124, 0x0248, 0x035a, 0x046c, 0x057e, 0x06a2, 0x07c6, 0x08d8, 0x09ea, 0x0afc, 0x0bc8, 0x0c94, 0x0da6, 0x0eb8, 0x0fca, 0x10dc],
     [0x0124, 0x0248, 0x035a, 0x046c, 0x057e, 0x0690, 0x07a2, 0x08c6, 0x09ea, 0x0afc, 0x0c0e, 0x0cda, 0x0da6, 0x0eb8, 0x0fca, 0x10dc],
     [0x0124, 0x0248, 0x035a, 0x046c, 0x057e, 0x0690, 0x07a2, 0x08b4, 0x09c6, 0x0aea, 0x0c0e, 0x0d20, 0x0dec, 0x0eb8, 0x0fca, 0x10dc],
     [0x0124, 0x0248, 0x035a, 0x046c, 0x057e, 0x0690, 0x07a2, 0x08b4, 0x09c6, 0x0ad8, 0x0bea, 0x0d0e, 0x0e32, 0x0efe, 0x0fca, 0x10dc],
     [0x0124, 0x0248, 0x035a, 0x046c, 0x057e, 0x0690, 0x07a2, 0x086e, 0x0980, 0x0a92, 0x0ba4, 0x0cb6, 0x0dc8, 0x0eec, 0x1010, 0x10dc],
     [0x0124, 0x0248, 0x035a, 0x046c, 0x057e, 0x0690, 0x07a2, 0x086e, 0x093a, 0x0a4c, 0x0b5e, 0x0c70, 0x0d82, 0x0e94, 0x0fb8, 0x10dc]]"

text \<open>
  The two rows of \<^verbatim>\<open>TrackZoneTable\<close>, one behind the other: the code reads the second row as the
  continuation of the first. \<^verbatim>\<open>OUTERCYL_TBL\<close> is the first row.
\<close>

definition TrackZoneTable :: "nat list" where
  "TrackZoneTable = [0x000, 0x09e, 0x13c, 0x1d1, 0x266, 0x2fb, 0x390, 0x425,
                     0x091, 0x12f, 0x1c4, 0x259, 0x2ee, 0x383, 0x418, 0x48a]"

definition at :: "'a list \<Rightarrow> nat \<Rightarrow> 'a option" where
  "at xs i = (if i < length xs then Some (xs ! i) else None)"

definition BLOCKSIZE :: "nat \<Rightarrow> nat" where
  "BLOCKSIZE zone = zone_sec_size ! zone * SECTORS_PER_BLOCK"

section \<open>System data\<close>

definition be16 :: "(nat \<Rightarrow> u8) \<Rightarrow> nat \<Rightarrow> u16" where
  "be16 d a = push_bit 8 (ucast (d a)) OR ucast (d (a + 1))"

definition be32 :: "(nat \<Rightarrow> u8) \<Rightarrow> nat \<Rightarrow> u32" where
  "be32 d a = push_bit 24 (ucast (d a)) OR push_bit 16 (ucast (d (a + 1))) OR push_bit 8 (ucast (d (a + 2))) OR ucast (d (a + 3))"

text \<open>The fields of \<^verbatim>\<open>struct dd_sys_data\<close> at the byte \<open>a\<close> of an image.\<close>

definition sys_type :: "(nat \<Rightarrow> u8) \<Rightarrow> nat \<Rightarrow> u8" where "sys_type d a = d (a + 5)"
definition sys_defect_offset :: "(nat \<Rightarrow> u8) \<Rightarrow> nat \<Rightarrow> nat \<Rightarrow> u8" where "sys_defect_offset d a i = d (a + 8 + i)"
definition sys_defect_info :: "(nat \<Rightarrow> u8) \<Rightarrow> nat \<Rightarrow> nat \<Rightarrow> u8" where "sys_defect_info d a i = d (a + 32 + i)"
definition sys_rom_lba_end :: "(nat \<Rightarrow> u8) \<Rightarrow> nat \<Rightarrow> u16" where "sys_rom_lba_end d a = be16 d (a + 224)"
definition sys_ram_lba_start :: "(nat \<Rightarrow> u8) \<Rightarrow> nat \<Rightarrow> u16" where "sys_ram_lba_start d a = be16 d (a + 226)"
definition sys_ram_lba_end :: "(nat \<Rightarrow> u8) \<Rightarrow> nat \<Rightarrow> u16" where "sys_ram_lba_end d a = be16 d (a + 228)"

definition disk_type_of :: "u8 \<Rightarrow> nat" where "disk_type_of t = unat (t AND 0x0f)"

section \<open>Logical blocks\<close>

text \<open>\<open>None\<close> is a table read out of bounds; a block past the last zone is zone \<^verbatim>\<open>-1\<close>.\<close>

definition LBAToVZoneA :: "u8 \<Rightarrow> u32 \<Rightarrow> u32 option" where
  "LBAToVZoneA t lba =
     do { row \<leftarrow> at VZoneLBATable (disk_type_of t);
          Some (case List.find (\<lambda>z. unat lba < row ! z) [0..<16] of Some z \<Rightarrow> of_nat z | None \<Rightarrow> - 1) }"

definition VZoneToPZone :: "nat \<Rightarrow> nat \<Rightarrow> nat option" where
  "VZoneToPZone x y = do { row \<leftarrow> at DiskTypeZones y; at row x }"

definition block_bytes :: "u8 \<Rightarrow> u32 \<Rightarrow> (u32 \<times> u32) option" where
  "block_bytes t lba =
     do { vzone \<leftarrow> LBAToVZoneA t lba;
          pzone \<leftarrow> VZoneToPZone (unat vzone) (disk_type_of t);
          size \<leftarrow> at zone_sec_size_phys (if 7 < pzone then pzone - 7 else pzone);
          Some (vzone, of_nat (size * SECTORS_PER_BLOCK)) }"

text \<open>The loop of \<^verbatim>\<open>LBAToByteA\<close>: blocks to go, block, zone, size of a block in it, bytes so far, first round.\<close>

fun lba_bytes :: "u8 \<Rightarrow> nat \<Rightarrow> u32 \<Rightarrow> u32 \<Rightarrow> u32 \<Rightarrow> u32 \<Rightarrow> bool \<Rightarrow> u32 option" where
  "lba_bytes t 0 lba vzone blocksize bytes first = Some bytes"
| "lba_bytes t (Suc n) lba vzone blocksize bytes first =
     do { row \<leftarrow> at VZoneLBATable (disk_type_of t);
          (vzone, blocksize) \<leftarrow>
            (if first then block_bytes t lba
             else do { limit \<leftarrow> at row (unat vzone);
                       if of_nat limit = lba then block_bytes t lba else Some (vzone, blocksize) });
          let bytes = bytes + blocksize; lba = lba + 1
          in if n \<noteq> 0 \<and> of_nat MAX_LBA < lba then Some 0xffffffff
             else lba_bytes t n lba vzone blocksize bytes False }"

definition LBAToByteA :: "u8 \<Rightarrow> u32 \<Rightarrow> u32 \<Rightarrow> u32 option" where
  "LBAToByteA t lba nlbas = lba_bytes t (unat nlbas) lba 0 0 0 True"

fun skip_defects :: "(nat \<Rightarrow> u8) \<Rightarrow> nat \<Rightarrow> u16 \<Rightarrow> nat \<Rightarrow> nat \<Rightarrow> u16 \<Rightarrow> u16 option" where
  "skip_defects d a start off 0 track = Some track"
| "skip_defects d a start off (Suc amount) track =
     (if 192 \<le> off then None
      else if unat (sys_defect_info d a off) + unat start \<le> unat track
      then skip_defects d a start (off + 1) amount (track + 1)
      else Some track)"

definition phys_value :: "u16 \<Rightarrow> u16 \<Rightarrow> u16 \<Rightarrow> u16" where
  "phys_value head track block = track OR (head * 0x1000) OR (block * 0x2000)"

definition LBAToPhys :: "(nat \<Rightarrow> u8) \<Rightarrow> nat \<Rightarrow> u32 \<Rightarrow> u16 option" where
  "LBAToPhys d a lba =
     (let t = sys_type d a; disktype = disk_type_of t;
          block = (if lba AND 3 = 0 \<or> lba AND 3 = 3 then 0 else 1)
      in do { vz \<leftarrow> LBAToVZoneA t lba;
              let vzone = unat (ucast vz :: u16);
              pzone \<leftarrow> VZoneToPZone vzone disktype;
              row \<leftarrow> at VZoneLBATable disktype;
              let head = (if 7 < pzone then 1 else 0);
              let vzone_lba = (if vzone \<noteq> 0 then row ! (vzone - 1) else 0);
              let track = (ucast (drop_bit 1 (lba - of_nat vzone_lba)) :: u16);
              let start = TrackZoneTable ! (if 7 < pzone then pzone - 8 else pzone);
              let track = (if 7 < pzone then - track else track) + of_nat (TrackZoneTable ! pzone);
              let off = (if pzone \<noteq> 0 then unat (sys_defect_offset d a (pzone - 1)) else 0);
              let amount = (of_nat (unat (sys_defect_offset d a pzone)) - of_nat off :: u16);
              track \<leftarrow> skip_defects d a (of_nat start) off (unat amount) track;
              Some (phys_value head track block) })"

definition PhysToLBA :: "dd_disk \<Rightarrow> u16 \<Rightarrow> u16 \<Rightarrow> u16 \<Rightarrow> nat" where
  "PhysToLBA k head track block =
     (case List.find (\<lambda>lba. lba_phys_table k lba = phys_value head track block) [0..<SIZE_LBA] of
        Some lba \<Rightarrow> lba | None \<Rightarrow> 0xffff)"

definition GenerateLBAToPhysTable :: "dd_disk \<Rightarrow> dd_disk option" where
  "GenerateLBAToPhysTable k =
     (if dk_format k = DISK_FORMAT_MAME then Some k
      else do { table \<leftarrow> those (map (\<lambda>lba. LBAToPhys (dk_data k) (offset_sys k) (of_nat lba)) [0..<SIZE_LBA]);
                Some (k\<lparr>lba_phys_table := (\<lambda>lba. if lba < SIZE_LBA then table ! lba else lba_phys_table k lba)\<rparr>) })"

section \<open>Sectors\<close>

definition get_zone_from_head_track :: "nat \<Rightarrow> nat \<Rightarrow> nat" where
  "get_zone_from_head_track head track =
     (case List.find (\<lambda>z. TrackZoneTable ! z \<le> track) [7, 6, 5, 4, 3, 2, 1] of Some z \<Rightarrow> z | None \<Rightarrow> 0) + head"

definition sector_size_of :: "dd_disk \<Rightarrow> nat \<Rightarrow> nat \<Rightarrow> nat" where
  "sector_size_of k head track =
     (if development k \<and> head = 0 \<and> track < 6 then 0xc0 else zone_sec_size_phys ! get_zone_from_head_track head track)"

text \<open>
  \<^verbatim>\<open>offset / BLOCKSIZE(0)\<close>, as the macro expands: the division binds to the sector size only.
\<close>

definition lblock_of :: "nat \<Rightarrow> u16" where
  "lblock_of offset = of_nat (offset div 232 * SECTORS_PER_BLOCK)"

definition protected_lblock :: "dd_disk \<Rightarrow> nat \<Rightarrow> bool" where
  "protected_lblock k offset \<longleftrightarrow>
     (let lblock = lblock_of offset in
      (lblock < of_nat PROTECT_LBA \<and> lblock \<noteq> lblock_of (offset_sys k)) \<or>
      (of_nat PROTECT_LBA < lblock \<and> lblock < of_nat (DISKID_LBA + 2) \<and> lblock \<noteq> lblock_of (offset_id k)))"

definition start_offset :: "nat list" where
  "start_offset =
     [0x0000000, 0x05f15e0, 0x0b79d00, 0x10801a0, 0x1523720, 0x1963d80, 0x1d414c0, 0x20bbce0,
      0x23196e0, 0x28a1e00, 0x2df5dc0, 0x3299340, 0x36d99a0, 0x3ab70e0, 0x3e31900, 0x4149200]"

definition mame_offset :: "dd_disk \<Rightarrow> nat \<Rightarrow> nat \<Rightarrow> nat \<Rightarrow> nat \<Rightarrow> u32" where
  "mame_offset k head track block sector =
     (let zone = get_zone_from_head_track head track - head; tr_off = track - TrackZoneTable ! zone;
          zone' = zone + head * 8
      in of_nat (start_offset ! zone' + tr_off * BLOCKSIZE zone' * 2 + block * BLOCKSIZE zone' + sector * sector_size_of k head track))"

definition get_sector_base_mame :: "dd_disk \<Rightarrow> nat \<Rightarrow> nat \<Rightarrow> nat \<Rightarrow> nat \<Rightarrow> disk_error + nat" where
  "get_sector_base_mame k head track block sector =
     (let offset = unat (mame_offset k head track block sector) in
      if sector = 0 \<and> track < SYSTEM_LBAS div 2 \<and> protected_lblock k offset then Inl Null_pointer else Inr offset)"

definition get_sector_base_sdk :: "dd_disk \<Rightarrow> nat \<Rightarrow> nat \<Rightarrow> nat \<Rightarrow> nat \<Rightarrow> disk_error + nat" where
  "get_sector_base_sdk k head track block sector =
     (let lba = PhysToLBA k (of_nat head) (of_nat track) (of_nat block) in
      if MAX_LBA < lba then Inl Null_pointer
      else case LBAToByteA (sys_type (dk_data k) (offset_sys k)) 0 (of_nat lba) of
        None \<Rightarrow> Inl Out_of_bounds
      | Some b \<Rightarrow>
          let offset = unat (b + of_nat (sector * sector_size_of k head track)) in
          if sector = 0 \<and> lba < SYSTEM_LBAS \<and> protected_lblock k offset then Inl Null_pointer else Inr offset)"

definition get_sector_base_d64 :: "dd_disk \<Rightarrow> nat \<Rightarrow> nat \<Rightarrow> nat \<Rightarrow> nat \<Rightarrow> disk_error + nat" where
  "get_sector_base_d64 k head track block sector =
     (let d = dk_data k; a = offset_sys k;
          rom_end = unat (sys_rom_lba_end d a); ram_start = unat (sys_ram_lba_start d a); ram_end = unat (sys_ram_lba_end d a);
          t = sys_type d a AND 0x0f;
          size = zone_sec_size_phys ! get_zone_from_head_track head track;
          lba = PhysToLBA k (of_nat head) (of_nat track) (of_nat block);
          area = (\<lambda>base r. case r of None \<Rightarrow> Inl Out_of_bounds
                    | Some b \<Rightarrow> Inr (unat (of_nat base + b + of_nat (sector * size) :: u32)))
      in if lba < DISKID_LBA then Inr (unat (of_nat (offset_sys k) :: u32))
         else if lba < SYSTEM_LBAS then Inr (unat (of_nat (offset_id k) :: u32))
         else if lba \<le> rom_end + SYSTEM_LBAS
         then area D64_OFFSET_DATA (LBAToByteA t (of_nat SYSTEM_LBAS) (of_nat (lba - SYSTEM_LBAS)))
         else if ram_start \<le> lba - SYSTEM_LBAS \<and> lba - SYSTEM_LBAS \<le> ram_end
         then area (offset_ram k) (LBAToByteA t (of_nat (ram_start + SYSTEM_LBAS)) (of_nat (lba - SYSTEM_LBAS - ram_start)))
         else Inl Null_pointer)"

definition get_sector_base :: "dd_disk \<Rightarrow> nat \<Rightarrow> nat \<Rightarrow> nat \<Rightarrow> nat \<Rightarrow> disk_error + nat" where
  "get_sector_base k head track block sector =
     (case dk_format k of
        DISK_FORMAT_MAME \<Rightarrow> get_sector_base_mame k head track block sector
      | DISK_FORMAT_SDK \<Rightarrow> get_sector_base_sdk k head track block sector
      | DISK_FORMAT_D64 \<Rightarrow> get_sector_base_d64 k head track block sector)"

section \<open>Recognising an image\<close>

definition RAM_START_LBA :: "nat list" where
  "RAM_START_LBA = [0x5a2, 0x7c6, 0x9ea, 0xc0e, 0xe32, 0x1010, 0x10dc]"

definition RAM_SIZES :: "nat list" where
  "RAM_SIZES = [0x24a9dc0, 0x1c226c0, 0x1450f00, 0xd35680, 0x6cfd40, 0x1da240, 0x0]"

definition sys_blocks :: "nat list" where
  "sys_blocks = [0, 1, 2, 3, 8, 9, 10, 11]"

definition sys_valid :: "(nat \<Rightarrow> u8) \<Rightarrow> nat \<Rightarrow> bool" where
  "sys_valid d a \<longleftrightarrow>
     sys_type d a AND 0xef \<le> 6 \<and>
     be16 d (a + 6) \<le> of_nat (MAX_LBA - SYSTEM_LBAS) \<and> be16 d (a + 6) \<noteq> 0 \<and>
     0x80000000 \<le> be32 d (a + 28) \<and> be32 d (a + 28) < 0x80800000 \<and>
     be32 d a \<in> {DD_REGION_JP, DD_REGION_US, DD_REGION_DV}"

text \<open>The \<^verbatim>\<open>memcmp\<close> of each sector of a block with the next.\<close>

definition sectors_repeat :: "(nat \<Rightarrow> u8) \<Rightarrow> nat \<Rightarrow> nat \<Rightarrow> bool" where
  "sectors_repeat d a sz \<longleftrightarrow>
     (\<forall>j \<in> set [1..<SECTORS_PER_BLOCK]. \<forall>i \<in> set [0..<sz]. d (a + (j - 1) * sz + i) = d (a + j * sz + i))"

definition is_dump :: "nat \<Rightarrow> bool" where
  "is_dump sz \<longleftrightarrow> sz = MAME_FORMAT_DUMP_SIZE \<or> sz = SDK_FORMAT_DUMP_SIZE"

text \<open>The search for system data, over the positions still to try in \<open>sys_blocks\<close>; the result is the position.\<close>

fun find_sys_data :: "(nat \<Rightarrow> u8) \<Rightarrow> nat \<Rightarrow> nat list \<Rightarrow> nat option" where
  "find_sys_data d sz [] = None"
| "find_sys_data d sz (i # is) =
     (let b = sys_blocks ! i; offset = BLOCKSIZE 0 * b in
      if sz \<le> offset + 0x20 \<or> (sz < MAME_FORMAT_DUMP_SIZE \<and> sz < SDK_FORMAT_DUMP_SIZE \<and> 0 < i) then None
      else if sys_valid d offset \<and>
          (is_dump sz \<longrightarrow> sectors_repeat d offset (zone_sec_size ! (if b \<in> {2, 3, 10, 11} then 3 else 0)))
      then Some i
      else find_sys_data d sz is)"

definition find_disk_id :: "(nat \<Rightarrow> u8) \<Rightarrow> nat option" where
  "find_disk_id d = List.find (\<lambda>i. sectors_repeat d (i * BLOCKSIZE 0) (zone_sec_size ! 0)) [14, 15]"

text \<open>
  What \<^verbatim>\<open>scan_and_expand_disk_format\<close> returns and stores through its arguments; the fields it leaves
  alone keep the 0 of the caller.
\<close>

record disk_scan =
  sc_data :: "nat \<Rightarrow> u8"
  sc_size :: nat
  sc_format :: disk_format
  sc_development :: bool
  sc_offset_sys :: nat
  sc_offset_id :: nat
  sc_offset_ram :: nat
  sc_size_ram :: nat

definition put16 :: "nat \<Rightarrow> u16 \<Rightarrow> (nat \<Rightarrow> u8) \<Rightarrow> (nat \<Rightarrow> u8)" where
  "put16 a v d = d(a := ucast (drop_bit 8 v), a + 1 := ucast v)"

definition expand_d64 :: "nat \<Rightarrow> nat \<Rightarrow> (nat \<Rightarrow> u8) \<Rightarrow> (nat \<Rightarrow> u8)" where
  "expand_d64 t d64_size d =
     (let b = (\<lambda>i. if i < d64_size then d i else 0);
          b = b(D64_OFFSET_SYS + 4 := 0x10, D64_OFFSET_SYS + 5 := b (D64_OFFSET_SYS + 5) OR 0x10)
      in if t < 6
         then put16 (D64_OFFSET_SYS + 228) (of_nat (MAX_LBA - SYSTEM_LBAS))
                (put16 (D64_OFFSET_SYS + 226) (of_nat (RAM_START_LBA ! t - SYSTEM_LBAS)) b)
         else put16 (D64_OFFSET_SYS + 228) 0xffff (put16 (D64_OFFSET_SYS + 226) 0xffff b))"

text \<open>The check of a D64 image; \<open>None\<close> as a result rejects it, \<open>alloc\<close> says whether \<^verbatim>\<open>malloc\<close> succeeds.\<close>

definition check_d64 :: "bool \<Rightarrow> (nat \<Rightarrow> u8) \<Rightarrow> nat \<Rightarrow> disk_error + ((nat \<Rightarrow> u8) \<times> nat) option" where
  "check_d64 alloc d sz =
     (let a = D64_OFFSET_SYS; t8 = sys_type d a AND 0x0f; t = unat t8;
          rom_end = sys_rom_lba_end d a; ram_start = sys_ram_lba_start d a; ram_end = sys_ram_lba_end d a;
          rom_bytes = LBAToByteA t8 24 (of_nat (unat rom_end + 1));
          ram_bytes = (if ram_start \<noteq> 0xffff \<and> ram_end \<noteq> 0xffff
            then LBAToByteA t8 (of_nat (SYSTEM_LBAS + unat ram_start)) (of_nat (unat ram_end + 1) - of_nat (unat ram_start)) else Some 0)
      in case (rom_bytes, ram_bytes, at RAM_SIZES t) of
           (Some rom_size, Some ram_size, Some full) \<Rightarrow>
             let d64_size = D64_OFFSET_DATA + unat rom_size + unat ram_size;
                 full_d64_size = D64_OFFSET_DATA + unat rom_size + full
             in if int (unat ram_start) \<noteq> int (RAM_START_LBA ! t) - 24 \<and> ram_start \<noteq> 0xffff then Inr None
                else if sz \<noteq> d64_size then Inr None
                else if \<not> alloc then Inl Null_pointer
                else if full_d64_size < d64_size then Inl Out_of_bounds
                else Inr (Some (expand_d64 t d64_size d, full_d64_size))
         | _ \<Rightarrow> Inl Out_of_bounds)"

definition scan_result :: "(nat \<Rightarrow> u8) \<Rightarrow> nat \<Rightarrow> int \<Rightarrow> int \<Rightarrow> disk_error + disk_scan" where
  "scan_result d sz valid ident =
     (let base = \<lparr>sc_data = d, sc_size = sz, sc_format = DISK_FORMAT_MAME, sc_development = valid = 2 \<or> valid = 3,
            sc_offset_sys = nat (0x4d08 * valid mod 2 ^ 64), sc_offset_id = nat (0x4d08 * ident mod 2 ^ 64),
            sc_offset_ram = 0, sc_size_ram = 0\<rparr>
      in if sz = MAME_FORMAT_DUMP_SIZE then Inr base
         else if sz = SDK_FORMAT_DUMP_SIZE
         then let t = sys_type d (sc_offset_sys base) AND 0x0f in
           (case (at RAM_START_LBA (unat t), at RAM_SIZES (unat t)) of
              (Some l, Some n) \<Rightarrow>
                (case LBAToByteA t 0 (of_nat l) of
                   None \<Rightarrow> Inl Out_of_bounds
                 | Some b \<Rightarrow> Inr (base\<lparr>sc_format := DISK_FORMAT_SDK, sc_offset_ram := unat b, sc_size_ram := n\<rparr>))
            | _ \<Rightarrow> Inl Out_of_bounds)
         else if valid = -1 then Inl Null_pointer
         else let t = sys_type d 0 AND 0x0f in
           (case (LBAToByteA t 24 (of_nat (unat (sys_rom_lba_end d 0) + 1)), at RAM_SIZES (unat t)) of
              (Some b, Some n) \<Rightarrow>
                Inr (base\<lparr>sc_format := DISK_FORMAT_D64, sc_development := True, sc_offset_sys := 0, sc_offset_id := 0x100,
                       sc_offset_ram := D64_OFFSET_DATA + unat b, sc_size_ram := n\<rparr>)
            | _ \<Rightarrow> Inl Out_of_bounds))"

definition scan_and_expand_disk_format :: "bool \<Rightarrow> (nat \<Rightarrow> u8) \<Rightarrow> nat \<Rightarrow> disk_error + disk_scan" where
  "scan_and_expand_disk_format alloc d sz =
     (case find_sys_data d sz [0..<8] of
        None \<Rightarrow> Inl Null_pointer
      | Some i \<Rightarrow>
          if is_dump sz
          then (case find_disk_id d of
                  None \<Rightarrow> Inl Null_pointer
                | Some j \<Rightarrow> scan_result d sz (int i) (int j))
          else (case check_d64 alloc d sz of
                  Inl e \<Rightarrow> Inl e
                | Inr None \<Rightarrow> scan_result d sz (- 1) (- 1)
                | Inr (Some (d', sz')) \<Rightarrow> scan_result d' sz' (int i) (- 1)))"

end
