(* ===== verification/Disk_Layout.thy ===== *)
theory Disk_Layout
  imports Disk
begin

text \<open>
  Where the sectors of a disk lie in an image: an interface for layouts whose sectors do not overlap, the
  layouts of the MAME and SDK formats as instances of it, and the correspondence of logical
  blocks and physical tracks.
\<close>

section \<open>Layouts\<close>

text \<open>
  A layout places the sector \<open>x\<close> at the bytes from \<open>base x\<close> on. A sector that is written is read back
  and no other sector changes.
\<close>

locale sector_layout =
  fixes sectors :: "'x set" and base :: "'x \<Rightarrow> nat" and len :: "'x \<Rightarrow> nat" and image_size :: nat
  assumes inside: "x \<in> sectors \<Longrightarrow> base x + len x \<le> image_size"
    and disjoint: "x \<in> sectors \<Longrightarrow> y \<in> sectors \<Longrightarrow> x \<noteq> y \<Longrightarrow> base x + len x \<le> base y \<or> base y + len y \<le> base x"
begin

definition put :: "'x \<Rightarrow> (nat \<Rightarrow> u8) \<Rightarrow> (nat \<Rightarrow> u8) \<Rightarrow> (nat \<Rightarrow> u8)" where
  "put x f d = (\<lambda>i. if base x \<le> i \<and> i < base x + len x then f (i - base x) else d i)"

lemma put_same: "i < len x \<Longrightarrow> put x f d (base x + i) = f i"
  by (simp add: put_def)

lemma put_other: "x \<in> sectors \<Longrightarrow> y \<in> sectors \<Longrightarrow> x \<noteq> y \<Longrightarrow> i < len y \<Longrightarrow> put x f d (base y + i) = d (base y + i)"
  using disjoint [of x y] by (auto simp: put_def)

lemma base_inj: "x \<in> sectors \<Longrightarrow> y \<in> sectors \<Longrightarrow> 0 < len x \<Longrightarrow> 0 < len y \<Longrightarrow> base x = base y \<Longrightarrow> x = y"
  using disjoint [of x y] by auto

end

section \<open>The MAME format\<close>

lemma zone_of_track:
  assumes "track < 0x497"
  obtains z where "get_zone_from_head_track head track = z + head" "z < 8" "TrackZoneTable ! z \<le> track"
    "track - TrackZoneTable ! z < ZoneTracks ! z"
proof -
  define z where "z = get_zone_from_head_track 0 track"
  have "get_zone_from_head_track head track = z + head" by (simp add: z_def get_zone_from_head_track_def)
  moreover have "z < 8" "TrackZoneTable ! z \<le> track" "track - TrackZoneTable ! z < ZoneTracks ! z"
    using assms by (auto simp: z_def get_zone_from_head_track_def TrackZoneTable_def ZoneTracks_def)
  ultimately show ?thesis by (rule that)
qed

lemma zone_tables:
  "z < 8 \<Longrightarrow> ZoneTracks ! (z + 8) = ZoneTracks ! z"
  "z < 8 \<Longrightarrow> zone_sec_size_phys ! z = zone_sec_size ! z" "z < 8 \<Longrightarrow> zone_sec_size_phys ! (z + 1) = zone_sec_size ! (z + 8)"
proof -
  have "\<forall>z < 16. z < 8 \<longrightarrow> ZoneTracks ! (z + 8) = ZoneTracks ! z \<and> zone_sec_size_phys ! z = zone_sec_size ! z \<and>
      zone_sec_size_phys ! (z + 1) = zone_sec_size ! (z + 8)"
    unfolding less16 by (simp add: ZoneTracks_def zone_sec_size_def zone_sec_size_phys_def)
  then show "z < 8 \<Longrightarrow> ZoneTracks ! (z + 8) = ZoneTracks ! z"
    "z < 8 \<Longrightarrow> zone_sec_size_phys ! z = zone_sec_size ! z" "z < 8 \<Longrightarrow> zone_sec_size_phys ! (z + 1) = zone_sec_size ! (z + 8)"
    by simp_all
qed

definition zone_end :: "nat \<Rightarrow> nat" where
  "zone_end i = start_offset ! i + ZoneTracks ! i * (BLOCKSIZE i * 2)"

lemma zone_ends: "i < 16 \<Longrightarrow> zone_end i = (if i = 15 then MAME_FORMAT_DUMP_SIZE else start_offset ! Suc i)"
proof -
  have "\<forall>i < 16. zone_end i = (if i = 15 then MAME_FORMAT_DUMP_SIZE else start_offset ! Suc i)"
    unfolding less16 by (simp add: zone_end_def ZoneTracks_def zone_sec_size_def BLOCKSIZE_def start_offset_def)
  then show "i < 16 \<Longrightarrow> zone_end i = (if i = 15 then MAME_FORMAT_DUMP_SIZE else start_offset ! Suc i)" by blast
qed

lemma zones_ordered: "i < j \<Longrightarrow> j < 16 \<Longrightarrow> zone_end i \<le> start_offset ! j"
proof (induction j)
  case (Suc j)
  have e: "zone_end j = start_offset ! Suc j" using zone_ends [of j] Suc by simp
  then have "start_offset ! j \<le> start_offset ! Suc j" by (simp add: zone_end_def)
  then show ?case using Suc e by (cases "i = j") auto
qed simp

lemma zone_end_le: "i < 16 \<Longrightarrow> zone_end i \<le> MAME_FORMAT_DUMP_SIZE"
  using zone_ends [of i] zones_ordered [of i 15] zone_ends [of 15] by (cases "i = 15") (auto simp: zone_end_def)

definition mame_sectors :: "(nat \<times> nat \<times> nat \<times> nat) set" where
  "mame_sectors = {(head, track, block, sector). head < 2 \<and> track < 0x497 \<and> block < 2 \<and> sector < SECTORS_PER_BLOCK}"

definition mame_base :: "dd_disk \<Rightarrow> nat \<times> nat \<times> nat \<times> nat \<Rightarrow> nat" where
  "mame_base k = (\<lambda>(head, track, block, sector). unat (mame_offset k head track block sector))"

definition mame_len :: "dd_disk \<Rightarrow> nat \<times> nat \<times> nat \<times> nat \<Rightarrow> nat" where
  "mame_len k = (\<lambda>(head, track, block, sector). sector_size_of k head track)"

definition mame_zone :: "nat \<Rightarrow> nat \<Rightarrow> nat" where
  "mame_zone head track = get_zone_from_head_track 0 track + 8 * head"

definition mame_block :: "nat \<Rightarrow> nat \<Rightarrow> nat" where
  "mame_block track block = 2 * (track - TrackZoneTable ! get_zone_from_head_track 0 track) + block"

lemma get_zone_head: "get_zone_from_head_track head track = get_zone_from_head_track 0 track + head"
  by (simp add: get_zone_from_head_track_def)

lemma sector_size_le:
  assumes "head < 2" and "track < 0x497"
  shows "0 < sector_size_of k head track" "sector_size_of k head track \<le> zone_sec_size ! mame_zone head track"
proof -
  obtain z where z: "get_zone_from_head_track 0 track = z" "z < 8" "TrackZoneTable ! z \<le> track"
    using zone_of_track [OF assms(2), of 0] by (metis add_0_right)
  have h: "head = 0 \<or> head = 1" using assms by auto
  have s: "zone_sec_size_phys ! (z + head) = zone_sec_size ! (z + 8 * head)"
    using zone_tables [OF z(2)] h by auto
  have d: "track < 6 \<Longrightarrow> z = 0" using z by (simp add: get_zone_from_head_track_def TrackZoneTable_def)
  have "\<forall>i < 16. 0 < zone_sec_size ! i" unfolding less16 by (simp add: zone_sec_size_def)
  then have p: "0 < zone_sec_size ! (z + 8 * head)" using z(2) h by auto
  show "0 < sector_size_of k head track" "sector_size_of k head track \<le> zone_sec_size ! mame_zone head track"
    using s d p by (auto simp: sector_size_of_def mame_zone_def get_zone_head [of head] z zone_sec_size_def)
qed

lemma unat_of_small: "n < 2 ^ 32 \<Longrightarrow> unat (of_nat n :: u32) = n"
  by (simp add: unsigned_of_nat take_bit_nat_eq_self)

lemma mame_position:
  assumes "(head, track, block, sector) \<in> mame_sectors"
  defines "i \<equiv> mame_zone head track" and "n \<equiv> mame_block track block"
  shows "i < 16" "n < 2 * ZoneTracks ! i" "mame_base k (head, track, block, sector) =
      start_offset ! i + n * BLOCKSIZE i + sector * sector_size_of k head track"
    "mame_base k (head, track, block, sector) + sector_size_of k head track \<le> start_offset ! i + Suc n * BLOCKSIZE i"
    "start_offset ! i + Suc n * BLOCKSIZE i \<le> zone_end i"
proof -
  have v: "head < 2" "track < 0x497" "block < 2" "sector < 85" using assms by (auto simp: mame_sectors_def)
  obtain z where z: "get_zone_from_head_track 0 track = z" "z < 8" "TrackZoneTable ! z \<le> track"
      "track - TrackZoneTable ! z < ZoneTracks ! z"
    using zone_of_track [OF v(2), of 0] by (metis add_0_right)
  have i: "i = z + 8 * head" by (simp add: i_def mame_zone_def z)
  show b: "i < 16" using i z v by simp
  have "ZoneTracks ! i = ZoneTracks ! z" using zone_tables(1) [OF z(2)] v(1) by (cases head) (auto simp: i less_Suc_eq)
  then show n: "n < 2 * ZoneTracks ! i" using z v(3) by (simp add: n_def mame_block_def)
  let ?s = "sector_size_of k head track" and ?o = "start_offset ! i + n * BLOCKSIZE i + sector * sector_size_of k head track"
  have l: "sector * ?s + ?s \<le> BLOCKSIZE i"
  proof -
    have "Suc sector * ?s \<le> 85 * zone_sec_size ! i"
      using v(4) sector_size_le(2) [OF v(1,2), of k] by (intro mult_le_mono) (auto simp: i_def)
    then show ?thesis by (simp add: BLOCKSIZE_def)
  qed
  have "Suc n * BLOCKSIZE i \<le> 2 * ZoneTracks ! i * BLOCKSIZE i" using n by (intro mult_le_mono) auto
  then show e: "start_offset ! i + Suc n * BLOCKSIZE i \<le> zone_end i" by (simp add: zone_end_def ac_simps)
  have "?o + ?s \<le> zone_end i" using l e by simp
  then have "?o < 2 ^ 32" using zone_end_le [OF b] sector_size_le(1) [OF v(1,2), of k] by simp
  moreover have "start_offset ! i + (track - TrackZoneTable ! z) * BLOCKSIZE i * 2 + block * BLOCKSIZE i + sector * ?s = ?o"
  proof -
    define tr where "tr = track - TrackZoneTable ! z"
    show ?thesis by (simp add: n_def mame_block_def z tr_def [symmetric] algebra_simps)
  qed
  then have "mame_base k (head, track, block, sector) = unat (of_nat ?o :: u32)"
    by (simp only: mame_base_def mame_offset_def Let_def get_zone_head [of head] z i prod.case add_diff_cancel_right' mult.commute [of head])
  ultimately show o: "mame_base k (head, track, block, sector) = ?o" by (simp only: unat_of_small)
  show "mame_base k (head, track, block, sector) + ?s \<le> start_offset ! i + Suc n * BLOCKSIZE i"
    using l by (simp add: o)
qed

lemma mame_disjoint:
  assumes x: "(h, t, b, s) \<in> mame_sectors" and y: "(h', t', b', s') \<in> mame_sectors" and ne: "(h, t, b, s) \<noteq> (h', t', b', s')"
  shows "mame_base k (h, t, b, s) + sector_size_of k h t \<le> mame_base k (h', t', b', s') \<or>
    mame_base k (h', t', b', s') + sector_size_of k h' t' \<le> mame_base k (h, t, b, s)"
proof -
  let ?i = "mame_zone h t" and ?j = "mame_zone h' t'" and ?n = "mame_block t b" and ?m = "mame_block t' b'"
  note p = mame_position(1) [OF x] mame_position(2) [OF x] mame_position(3,4) [OF x, of k] mame_position(5) [OF x]
  note q = mame_position(1) [OF y] mame_position(2) [OF y] mame_position(3,4) [OF y, of k] mame_position(5) [OF y]
  consider "?i \<noteq> ?j" | "?i = ?j" "?n \<noteq> ?m" | "?i = ?j" "?n = ?m" by blast
  then show ?thesis
  proof cases
    case 1
    then have "zone_end ?i \<le> start_offset ! ?j \<or> zone_end ?j \<le> start_offset ! ?i"
      using zones_ordered [of ?i ?j] zones_ordered [of ?j ?i] p(1) q(1) by linarith
    then show ?thesis using p q by linarith
  next
    case 2
    have "Suc ?n * BLOCKSIZE ?j \<le> ?m * BLOCKSIZE ?j \<or> Suc ?m * BLOCKSIZE ?j \<le> ?n * BLOCKSIZE ?j"
      using 2 by (metis mult_le_mono1 not_less_eq_eq le_antisym nat_le_linear Suc_leI le_neq_implies_less)
    then show ?thesis using p(3,4) q(3,4) unfolding 2(1) by (elim disjE) linarith+
  next
    case 3
    have v: "h < 2" "t < 0x497" "b < 2" "h' < 2" "t' < 0x497" "b' < 2" using x y by (auto simp: mame_sectors_def)
    obtain z where z: "get_zone_from_head_track 0 t = z" "z < 8" "TrackZoneTable ! z \<le> t"
      using zone_of_track [OF v(2), of 0] by (metis add_0_right)
    obtain z' where z': "get_zone_from_head_track 0 t' = z'" "z' < 8" "TrackZoneTable ! z' \<le> t'"
      using zone_of_track [OF v(5), of 0] by (metis add_0_right)
    have "h = h'" "z = z'" using 3(1) z(2) z'(2) v(1,4) by (auto simp: mame_zone_def z(1) z'(1) less_2_cases_iff)
    moreover from this have "t = t'" "b = b'"
      using 3(2) z(3) z'(3) v(3,6) by (auto simp: mame_block_def z(1) z'(1) less_2_cases_iff; presburger)+
    ultimately have e: "h = h'" "t = t'" "b = b'" "s \<noteq> s'" using ne by auto
    have "Suc s * sector_size_of k h t \<le> s' * sector_size_of k h t \<or> Suc s' * sector_size_of k h t \<le> s * sector_size_of k h t"
      using e(4) by (metis mult_le_mono1 not_less_eq_eq le_antisym nat_le_linear Suc_leI le_neq_implies_less)
    then show ?thesis using p(3) q(3) e by (elim disjE) simp_all
  qed
qed

interpretation mame: sector_layout mame_sectors "mame_base k" "mame_len k" MAME_FORMAT_DUMP_SIZE for k
proof
  fix x assume x: "x \<in> mame_sectors"
  obtain h t b s where e: "x = (h, t, b, s)" by (cases x)
  show "mame_base k x + mame_len k x \<le> MAME_FORMAT_DUMP_SIZE"
    using mame_position(1,5) [OF x [unfolded e]] mame_position(4) [OF x [unfolded e], of k] zone_end_le [of "mame_zone h t"] by (simp add: e mame_len_def)
next
  fix x y assume "x \<in> mame_sectors" "y \<in> mame_sectors" "x \<noteq> y"
  then show "mame_base k x + mame_len k x \<le> mame_base k y \<or> mame_base k y + mame_len k y \<le> mame_base k x"
    using mame_disjoint by (cases x; cases y) (auto simp: mame_len_def)
qed

section \<open>Logical blocks and physical tracks\<close>

text \<open>First block and number of tracks of a zone, in the order of the logical blocks.\<close>

definition vz_base :: "nat \<Rightarrow> nat \<Rightarrow> nat" where
  "vz_base t v = (if v \<noteq> 0 then VZoneLBATable ! t ! (v - 1) else 0)"

definition vz_tracks :: "nat \<Rightarrow> nat \<Rightarrow> nat" where
  "vz_tracks t v = (VZoneLBATable ! t ! v - vz_base t v) div 2"

lemma less7: "(\<forall>i < 7. P i) \<longleftrightarrow> P 0 \<and> P 1 \<and> P 2 \<and> P 3 \<and> P 4 \<and> P 5 \<and> P (6 :: nat)"
  by (simp add: numeral_eq_Suc All_less_Suc) (auto simp: numeral_eq_Suc)

lemma vz_tables:
  "\<forall>t < 7. \<forall>v < 16. even (vz_base t v) \<and> VZoneLBATable ! t ! v = vz_base t v + 2 * vz_tracks t v \<and>
     vz_tracks t v + 12 = ZoneTracks ! (DiskTypeZones ! t ! v) \<and> DiskTypeZones ! t ! v < 16"
  unfolding less7 less16 by (simp add: vz_base_def vz_tracks_def VZoneLBATable_def DiskTypeZones_def ZoneTracks_def)

lemma vz_start:
  "\<forall>t < 7. \<forall>v < 16. 7 < DiskTypeZones ! t ! v \<longrightarrow>
     TrackZoneTable ! (DiskTypeZones ! t ! v) + 1 = TrackZoneTable ! (DiskTypeZones ! t ! v - 8) + vz_tracks t v"
  unfolding less7 less16 by (simp add: vz_base_def vz_tracks_def VZoneLBATable_def DiskTypeZones_def TrackZoneTable_def)

lemma zone_lists: "t < 7 \<Longrightarrow> distinct (DiskTypeZones ! t)" "t < 7 \<Longrightarrow> length (DiskTypeZones ! t) = 16"
  "t < 7 \<Longrightarrow> length (VZoneLBATable ! t) = 16" "t < 7 \<Longrightarrow> VZoneLBATable ! t ! 15 = SIZE_LBA"
  "length DiskTypeZones = 7" "length VZoneLBATable = 7"
proof -
  have "\<forall>t < 7. distinct (DiskTypeZones ! t) \<and> length (DiskTypeZones ! t) = 16 \<and> length (VZoneLBATable ! t) = 16 \<and>
      VZoneLBATable ! t ! 15 = SIZE_LBA"
    unfolding less7 by (simp add: DiskTypeZones_def VZoneLBATable_def)
  then show "t < 7 \<Longrightarrow> distinct (DiskTypeZones ! t)" "t < 7 \<Longrightarrow> length (DiskTypeZones ! t) = 16"
    "t < 7 \<Longrightarrow> length (VZoneLBATable ! t) = 16" "t < 7 \<Longrightarrow> VZoneLBATable ! t ! 15 = SIZE_LBA" by blast+
qed (simp_all add: DiskTypeZones_def VZoneLBATable_def)

lemma LBAToVZone_cases:
  assumes "disk_type_of ty < 7" and "n < SIZE_LBA"
  obtains v where "LBAToVZoneA ty (of_nat n) = Some (of_nat v)" "v < 16"
    "vz_base (disk_type_of ty) v \<le> n" "n < VZoneLBATable ! disk_type_of ty ! v"
proof -
  let ?t = "disk_type_of ty" and ?P = "\<lambda>z. n < VZoneLBATable ! disk_type_of ty ! z"
  have u: "unat (of_nat n :: u32) = n" using assms(2) by (intro unat_of_small) simp
  have "List.find ?P [0..<16] \<noteq> None"
    using assms zone_lists(4) [OF assms(1)] by (auto simp: find_None_iff intro!: exI [of _ 15])
  then obtain v where f: "List.find ?P [0..<16] = Some v" by blast
  then have v: "v < 16" "?P v" "\<forall>j < v. \<not> ?P j" by (auto simp: find_Some_iff)
  have "vz_base ?t v \<le> n" using v(3) by (cases v) (auto simp: vz_base_def)
  moreover have "LBAToVZoneA ty (of_nat n) = Some (of_nat v)"
    using f u assms(1) by (simp add: LBAToVZoneA_def at_def zone_lists)
  ultimately show ?thesis using v that by blast
qed

text \<open>The loop over the defects, on unbounded numbers: it keeps the order of tracks.\<close>

fun nskip :: "(nat \<Rightarrow> nat) \<Rightarrow> nat \<Rightarrow> nat \<Rightarrow> nat \<Rightarrow> nat" where
  "nskip info off 0 track = track"
| "nskip info off (Suc m) track = (if info off \<le> track then nskip info (off + 1) m (track + 1) else track)"

lemma nskip_bounds: "track \<le> nskip info off m track" "nskip info off m track \<le> track + m"
proof (induction m arbitrary: off track)
  case (Suc m)
  { case 1 show ?case using Suc(1) [of "track + 1" "off + 1"] by auto }
  { case 2 show ?case using Suc(2) [of "off + 1" "track + 1"] by auto }
qed auto

lemma nskip_mono: "t < t' \<Longrightarrow> nskip info off m t < nskip info off m t'"
proof (induction m arbitrary: off t t')
  case (Suc m)
  show ?case
  proof (cases "info off \<le> t")
    case True
    then show ?thesis using Suc by simp
  next
    case False
    then show ?thesis using Suc.prems nskip_bounds(1) [of t' info off "Suc m"] by simp
  qed
qed simp

lemma skip_defects_nskip:
  "off + m \<le> 192 \<Longrightarrow> n + m < 2 ^ 16 \<Longrightarrow>
   skip_defects d a start off m (of_nat n) = Some (of_nat (nskip (\<lambda>i. unat (sys_defect_info d a i) + unat start) off m n))"
proof (induction m arbitrary: off n)
  case (Suc m)
  have "unat (of_nat n :: u16) = n" using Suc.prems by (simp add: unsigned_of_nat take_bit_nat_eq_self)
  then show ?case using Suc.IH [of "off + 1" "n + 1"] Suc.prems by (simp add: add.commute)
qed simp

text \<open>What the system data has to satisfy: at most twelve defects in a zone, and as many in all as there is room for.\<close>

definition defect_start :: "(nat \<Rightarrow> u8) \<Rightarrow> nat \<Rightarrow> nat \<Rightarrow> nat" where
  "defect_start d a p = (if p \<noteq> 0 then unat (sys_defect_offset d a (p - 1)) else 0)"

definition defects_ok :: "(nat \<Rightarrow> u8) \<Rightarrow> nat \<Rightarrow> bool" where
  "defects_ok d a \<longleftrightarrow> (\<forall>p < 16. defect_start d a p \<le> unat (sys_defect_offset d a p) \<and>
     unat (sys_defect_offset d a p) \<le> defect_start d a p + 12 \<and> unat (sys_defect_offset d a p) \<le> 192)"

definition zone_track :: "nat \<Rightarrow> nat \<Rightarrow> nat" where
  "zone_track p j = (if 7 < p then TrackZoneTable ! p - j else TrackZoneTable ! p + j)"

definition outer_track :: "nat \<Rightarrow> nat" where
  "outer_track p = TrackZoneTable ! (if 7 < p then p - 8 else p)"

definition final_track :: "(nat \<Rightarrow> u8) \<Rightarrow> nat \<Rightarrow> nat \<Rightarrow> nat \<Rightarrow> nat" where
  "final_track d a p j =
     nskip (\<lambda>i. unat (sys_defect_info d a i) + outer_track p) (defect_start d a p)
       (unat (sys_defect_offset d a p) - defect_start d a p) (zone_track p j)"

definition lba_block :: "nat \<Rightarrow> nat" where
  "lba_block n = (if n mod 4 = 0 \<or> n mod 4 = 3 then 0 else 1)"

lemma track_tables: "p < 16 \<Longrightarrow> TrackZoneTable ! p < 0x497"
proof -
  have "\<forall>p < 16. TrackZoneTable ! p < 0x497" unfolding less16 by (simp add: TrackZoneTable_def)
  then show "p < 16 \<Longrightarrow> TrackZoneTable ! p < 0x497" by blast
qed

lemma final_track_range:
  assumes t: "t < 7" and v: "v < 16" and p: "p = DiskTypeZones ! t ! v" and j: "j < vz_tracks t v" and d: "defects_ok d a"
  shows "outer_track p \<le> final_track d a p j" "final_track d a p j < outer_track p + ZoneTracks ! p"
    "zone_track p j < 0x600"
proof -
  have z: "vz_tracks t v + 12 = ZoneTracks ! p" "p < 16" using vz_tables t v p by auto
  have "outer_track p \<le> zone_track p j \<and> zone_track p j < outer_track p + vz_tracks t v"
    using vz_start t v p j by (fastforce simp: outer_track_def zone_track_def)
  moreover have "unat (sys_defect_offset d a p) - defect_start d a p \<le> 12" using d z(2) by (auto simp: defects_ok_def)
  ultimately show "outer_track p \<le> final_track d a p j" "final_track d a p j < outer_track p + ZoneTracks ! p"
    unfolding final_track_def
    using z nskip_bounds [where track = "zone_track p j" and info = "\<lambda>i. unat (sys_defect_info d a i) + outer_track p"
        and off = "defect_start d a p" and m = "unat (sys_defect_offset d a p) - defect_start d a p"] by linarith+
  have "vz_tracks t v < 0x160"
  proof -
    have "\<forall>p < 16. ZoneTracks ! p < 0x160" unfolding less16 by (simp add: ZoneTracks_def)
    then show ?thesis using z by (metis add_lessD1)
  qed
  then show "zone_track p j < 0x600" using track_tables [OF z(2)] j by (auto simp: zone_track_def)
qed

lemma unat16_diff: "a \<le> b \<Longrightarrow> b < 2 ^ 16 \<Longrightarrow> unat (of_nat b - of_nat a :: u16) = b - a"
  by (simp add: unsigned_of_nat take_bit_nat_eq_self flip: of_nat_diff)

lemma half_block: "n < 2 ^ 16 \<Longrightarrow> (ucast (drop_bit 1 (of_nat n :: u32)) :: u16) = of_nat (n div 2)"
proof -
  assume n: "n < 2 ^ 16"
  then have "unat (of_nat n :: u32) = n" by (intro unat_of_small) simp
  then have "unat (ucast (drop_bit 1 (of_nat n :: u32)) :: u16) = n div 2"
    using n by (simp add: unsigned_ucast_eq drop_bit_eq_div unat_div take_bit_nat_eq_self)
  moreover have "unat (of_nat (n div 2) :: u16) = n div 2" using n by (simp add: unsigned_of_nat take_bit_nat_eq_self)
  ultimately show ?thesis by (simp add: word_unat_eq_iff)
qed

lemma LBAToPhys_eq:
  assumes t: "disk_type_of (sys_type d a) < 7" and n: "n < SIZE_LBA" and d: "defects_ok d a"
    and v: "LBAToVZoneA (sys_type d a) (of_nat n) = Some (of_nat v)" "v < 16" "vz_base (disk_type_of (sys_type d a)) v \<le> n"
      "n < VZoneLBATable ! disk_type_of (sys_type d a) ! v"
  defines "p \<equiv> DiskTypeZones ! disk_type_of (sys_type d a) ! v" and "j \<equiv> (n - vz_base (disk_type_of (sys_type d a)) v) div 2"
  shows "LBAToPhys d a (of_nat n) =
    Some (phys_value (if 7 < p then 1 else 0) (of_nat (final_track d a p j)) (of_nat (lba_block n)))"
proof -
  let ?t = "disk_type_of (sys_type d a)" and ?ty = "sys_type d a"
  have z: "vz_tracks ?t v + 12 = ZoneTracks ! p" "p < 16" "VZoneLBATable ! ?t ! v = vz_base ?t v + 2 * vz_tracks ?t v"
    using vz_tables t v(2) by (auto simp: p_def)
  have j: "j < vz_tracks ?t v" using v z(3) by (auto simp: j_def)
  have u: "unat (ucast (of_nat v :: u32) :: u16) = v"
    using v(2) by (simp add: unsigned_ucast_eq unsigned_of_nat take_bit_nat_eq_self)
  have b: "(of_nat n AND 3 :: u32) = of_nat (n mod 4)"
  proof -
    have "(of_nat n AND 3 :: u32) = take_bit 2 (of_nat n)" by (simp add: take_bit_eq_mask mask_eq_exp_minus_1)
    then show ?thesis by (simp only: take_bit_of_nat) (simp add: take_bit_eq_mod)
  qed
  have bl: "(if of_nat n AND 3 = (0 :: u32) \<or> of_nat n AND 3 = (3 :: u32) then 0 else 1 :: u16) = of_nat (lba_block n)"
  proof -
    have "n mod 4 = 0 \<or> n mod 4 = 1 \<or> n mod 4 = 2 \<or> n mod 4 = 3" by presburger
    then show ?thesis unfolding b lba_block_def by (elim disjE) simp_all
  qed
  have tr: "(ucast (drop_bit 1 (of_nat n - of_nat (vz_base ?t v) :: u32)) :: u16) = of_nat j"
    using v(3) n by (simp add: j_def half_block del: One_nat_def flip: of_nat_diff)
  have am: "unat (of_nat (unat (sys_defect_offset d a p)) - of_nat (defect_start d a p) :: u16) =
      unat (sys_defect_offset d a p) - defect_start d a p"
  proof -
    have "defect_start d a p \<le> unat (sys_defect_offset d a p)" "unat (sys_defect_offset d a p) < 2 ^ 16"
      using d z(2) by (auto simp: defects_ok_def intro: le_less_trans)
    then show ?thesis by (rule unat16_diff)
  qed
  have tk: "(if 7 < p then - (of_nat j) else of_nat j) + of_nat (TrackZoneTable ! p) = (of_nat (zone_track p j) :: u16)"
  proof (cases "7 < p")
    case True
    then have "j \<le> TrackZoneTable ! p" using vz_start t v(2) j by (fastforce simp: p_def)
    then show ?thesis using True by (simp add: zone_track_def of_nat_diff)
  qed (simp add: zone_track_def)
  have sk: "skip_defects d a (of_nat (outer_track p)) (defect_start d a p)
      (unat (sys_defect_offset d a p) - defect_start d a p) (of_nat (zone_track p j)) = Some (of_nat (final_track d a p j))"
  proof -
    have "outer_track p < 0x497" unfolding outer_track_def using z(2) by (intro track_tables) auto
    then have o: "unat (of_nat (outer_track p) :: u16) = outer_track p" by (simp add: unsigned_of_nat take_bit_nat_eq_self)
    have "defect_start d a p + (unat (sys_defect_offset d a p) - defect_start d a p) \<le> 192"
      "unat (sys_defect_offset d a p) - defect_start d a p \<le> 12" using d z(2) by (auto simp: defects_ok_def)
    then show ?thesis
      using final_track_range(3) [OF t v(2) meta_eq_to_obj_eq [OF p_def] j d] by (simp add: skip_defects_nskip o final_track_def)
  qed
  have l: "VZoneToPZone v ?t = Some p" "at VZoneLBATable ?t = Some (VZoneLBATable ! ?t)"
    using t v(2) by (simp_all add: VZoneToPZone_def at_def zone_lists p_def)
  show ?thesis
    by (simp only: LBAToPhys_def Let_def v(1) bind.bind_lunit u l bl tr tk am sk
        vz_base_def [symmetric] defect_start_def [symmetric] outer_track_def [symmetric])
qed

lemma phys_value_parts:
  assumes "h \<in> {0, 1}" and "b \<in> {0, 1}" and "t < 0x1000"
  shows "take_bit 12 (phys_value h t b) = t" "drop_bit 12 (phys_value h t b) = h OR b * 2"
proof -
  have "unat (take_bit 12 t) = unat t"
    using assms(3) by (simp add: unsigned_take_bit_eq take_bit_nat_eq_self word_less_nat_alt)
  then have t: "take_bit 12 t = t" by (simp only: word_unat_eq_iff)
  then have d: "drop_bit 12 t = 0" using drop_bit_take_bit [of 12 12 t] by simp
  show "take_bit 12 (phys_value h t b) = t" "drop_bit 12 (phys_value h t b) = h OR b * 2"
    using assms(1,2) by (auto simp: phys_value_def take_bit_or drop_bit_or t d)
qed

lemma phys_value_inj:
  assumes "phys_value h t b = phys_value h' t' b'"
    and "h \<in> {0, 1}" "b \<in> {0, 1}" "t < 0x1000" "h' \<in> {0, 1}" "b' \<in> {0, 1}" "t' < 0x1000"
  shows "h = h' \<and> t = t' \<and> b = b'"
  using phys_value_parts [OF assms(2-4)] phys_value_parts [OF assms(5-7)] assms by auto

lemma outer_ranges:
  "p < 16 \<Longrightarrow> p' < 16 \<Longrightarrow> (7 < p) = (7 < p') \<Longrightarrow> outer_track p \<le> t \<Longrightarrow> t < outer_track p + ZoneTracks ! p \<Longrightarrow>
   outer_track p' \<le> t \<Longrightarrow> t < outer_track p' + ZoneTracks ! p' \<Longrightarrow> p = p'"
proof (induction p p' rule: linorder_wlog)
  case (le p p')
  have "\<forall>p < 16. p \<noteq> 7 \<and> p \<noteq> 15 \<longrightarrow> outer_track p + ZoneTracks ! p = outer_track (Suc p)"
    unfolding less16 by (simp add: outer_track_def TrackZoneTable_def ZoneTracks_def)
  then have s: "outer_track p + ZoneTracks ! p = outer_track (Suc p)" if "p < 16" "p \<noteq> 7" "p \<noteq> 15" for p using that by blast
  have "outer_track p + ZoneTracks ! p \<le> outer_track q" if "p < q" "q < 16" "(7 < p) = (7 < q)" for q
    using that
  proof (induction q)
    case (Suc q)
    have e: "outer_track q + ZoneTracks ! q = outer_track (Suc q)" using s [of q] Suc.prems by fastforce
    show ?case
    proof (cases "p = q")
      case False
      then have "outer_track p + ZoneTracks ! p \<le> outer_track q" using Suc by auto
      then show ?thesis using e by simp
    qed (use e in simp)
  qed simp
  then show ?case using le by (metis le_neq_implies_less not_le order_trans less_le_trans)
qed auto

lemma final_track_inj:
  assumes "t < 7" "v < 16" "p = DiskTypeZones ! t ! v" "i < vz_tracks t v" "j < vz_tracks t v" "final_track d a p i = final_track d a p j"
  shows "i = j"
proof -
  have m: "zone_track p i = zone_track p j"
  proof (rule ccontr)
    assume "zone_track p i \<noteq> zone_track p j"
    then have "zone_track p i < zone_track p j \<or> zone_track p j < zone_track p i" by linarith
    then show False using nskip_mono assms(6) unfolding final_track_def by (metis less_irrefl)
  qed
  have "7 < p \<Longrightarrow> i \<le> TrackZoneTable ! p \<and> j \<le> TrackZoneTable ! p" using vz_start assms by fastforce
  then show ?thesis using m by (auto simp: zone_track_def split: if_splits)
qed

lemma lba_block_pair: "even n \<Longrightarrow> lba_block n \<noteq> lba_block (Suc n)"
  unfolding lba_block_def by presburger

lemma same_pair:
  assumes "even b" and "b \<le> n" and "b \<le> m" and "(n - b) div 2 = (m - b) div 2"
  shows "n = m \<or> (even n \<and> m = Suc n) \<or> (even m \<and> n = Suc m)"
proof -
  obtain x y where e: "n = b + x" "m = b + y" using assms(2,3) by (metis le_Suc_ex)
  then have "x div 2 = y div 2" using assms(4) by simp
  then have "x = y \<or> (even x \<and> y = Suc x) \<or> (even y \<and> x = Suc y)" by presburger
  then show ?thesis using assms(1) e by auto
qed

lemma LBAToPhys_inj:
  assumes t: "disk_type_of (sys_type d a) < 7" and d: "defects_ok d a" and n: "n < SIZE_LBA" and m: "m < SIZE_LBA"
    and eq: "LBAToPhys d a (of_nat n) = LBAToPhys d a (of_nat m)"
  shows "n = m"
proof -
  let ?t = "disk_type_of (sys_type d a)"
  obtain v where v: "LBAToVZoneA (sys_type d a) (of_nat n) = Some (of_nat v)" "v < 16" "vz_base ?t v \<le> n" "n < VZoneLBATable ! ?t ! v"
    using LBAToVZone_cases [OF t n] .
  obtain w where w: "LBAToVZoneA (sys_type d a) (of_nat m) = Some (of_nat w)" "w < 16" "vz_base ?t w \<le> m" "m < VZoneLBATable ! ?t ! w"
    using LBAToVZone_cases [OF t m] .
  define p where "p = DiskTypeZones ! ?t ! v"
  define q where "q = DiskTypeZones ! ?t ! w"
  define i where "i = (n - vz_base ?t v) div 2"
  define j where "j = (m - vz_base ?t w) div 2"
  have z: "p < 16" "VZoneLBATable ! ?t ! v = vz_base ?t v + 2 * vz_tracks ?t v" "even (vz_base ?t v)"
      "q < 16" "VZoneLBATable ! ?t ! w = vz_base ?t w + 2 * vz_tracks ?t w"
    using vz_tables t v(2) w(2) by (auto simp: p_def q_def)
  have ij: "i < vz_tracks ?t v" "j < vz_tracks ?t w" using v w z by (auto simp: i_def j_def)
  note ri = final_track_range [OF t v(2) p_def ij(1) d] and rj = final_track_range [OF t w(2) q_def ij(2) d]
  have "outer_track p' + ZoneTracks ! p' < 0x1000" if "p' < 16" for p'
  proof -
    have "\<forall>p < 16. outer_track p + ZoneTracks ! p < 0x1000"
      unfolding less16 by (simp add: outer_track_def TrackZoneTable_def ZoneTracks_def)
    then show ?thesis using that by blast
  qed
  then have f: "final_track d a p i < 0x1000" "final_track d a q j < 0x1000" using ri(2) rj(2) z(1,4) by (meson less_trans)+
  have "phys_value (if 7 < p then 1 else 0) (of_nat (final_track d a p i)) (of_nat (lba_block n)) =
      phys_value (if 7 < q then 1 else 0) (of_nat (final_track d a q j)) (of_nat (lba_block m))"
    using eq unfolding LBAToPhys_eq [OF t n d v] LBAToPhys_eq [OF t m d w] by (simp only: option.inject p_def q_def i_def j_def)
  then have "(if 7 < p then 1 else 0 :: u16) = (if 7 < q then 1 else 0) \<and>
      (of_nat (final_track d a p i) :: u16) = of_nat (final_track d a q j) \<and> (of_nat (lba_block n) :: u16) = of_nat (lba_block m)"
    using f by (intro phys_value_inj) (auto simp: word_less_nat_alt unsigned_of_nat take_bit_nat_eq_self lba_block_def)
  then have e: "(7 < p) = (7 < q)" "final_track d a p i = final_track d a q j" "lba_block n = lba_block m"
    using f by (auto simp: word_unat_eq_iff unsigned_of_nat take_bit_nat_eq_self lba_block_def split: if_splits)
  have "p = q" using outer_ranges [OF z(1,4) e(1) ri(1,2)] rj(1,2) e(2) by simp
  then have vw: "v = w"
    using nth_eq_iff_index_eq [OF zone_lists(1) [OF t]] zone_lists(2) [OF t] v(2) w(2) by (simp add: p_def q_def)
  then have "i = j" using final_track_inj [OF t v(2) p_def] ij e(2) \<open>p = q\<close> by simp
  then have "n = m \<or> (even n \<and> m = Suc n) \<or> (even m \<and> n = Suc m)"
    using same_pair [OF z(3) v(3)] w(3) vw by (simp add: i_def j_def)
  then show ?thesis using e(3) lba_block_pair by metis
qed

section \<open>The SDK format\<close>

text \<open>The reference: the bytes of a sector of a logical block, and of all blocks before it.\<close>

definition vz_of :: "nat \<Rightarrow> nat \<Rightarrow> nat" where
  "vz_of t n = (case List.find (\<lambda>z. n < VZoneLBATable ! t ! z) [0..<16] of Some z \<Rightarrow> z | None \<Rightarrow> 16)"

definition pzone_bytes :: "nat \<Rightarrow> nat" where
  "pzone_bytes p = zone_sec_size_phys ! (if 7 < p then p - 7 else p)"

definition lba_sector_size :: "nat \<Rightarrow> nat \<Rightarrow> nat" where
  "lba_sector_size t n = pzone_bytes (DiskTypeZones ! t ! vz_of t n)"

definition blocks_before :: "nat \<Rightarrow> nat \<Rightarrow> nat" where
  "blocks_before t n = (\<Sum>i < n. lba_sector_size t i * SECTORS_PER_BLOCK)"

lemma row_sorted: "t < 7 \<Longrightarrow> i < v \<Longrightarrow> v < 16 \<Longrightarrow> VZoneLBATable ! t ! i \<le> vz_base t v"
proof -
  have "\<forall>t < 7. sorted (VZoneLBATable ! t)" unfolding less7 by (simp add: VZoneLBATable_def)
  then show "t < 7 \<Longrightarrow> i < v \<Longrightarrow> v < 16 \<Longrightarrow> VZoneLBATable ! t ! i \<le> vz_base t v"
    using zone_lists(3) by (auto simp: vz_base_def intro: sorted_nth_mono)
qed

lemma vz_of_unique: "t < 7 \<Longrightarrow> v < 16 \<Longrightarrow> vz_base t v \<le> n \<Longrightarrow> n < VZoneLBATable ! t ! v \<Longrightarrow> vz_of t n = v"
proof -
  assume a: "t < 7" "v < 16" "vz_base t v \<le> n" "n < VZoneLBATable ! t ! v"
  then have "\<not> n < VZoneLBATable ! t ! i" if "i < v" for i using row_sorted [of t i v] that by simp
  then have "List.find (\<lambda>z. n < VZoneLBATable ! t ! z) [0..<16] = Some v"
    using a unfolding find_Some_iff by (intro exI [of _ v]) auto
  then show ?thesis by (simp add: vz_of_def)
qed

lemma vz_of_cases:
  assumes "t < 7" and "n < SIZE_LBA"
  shows "vz_of t n < 16" "vz_base t (vz_of t n) \<le> n" "n < VZoneLBATable ! t ! vz_of t n"
proof -
  have "disk_type_of (of_nat t) = t"
  proof -
    have "\<forall>t < 7. disk_type_of (of_nat t) = t" unfolding less7 by (simp add: disk_type_of_def)
    then show ?thesis using assms by blast
  qed
  then obtain v where "v < 16" "vz_base t v \<le> n" "n < VZoneLBATable ! t ! v"
    using LBAToVZone_cases [of "of_nat t" n] assms by metis
  then show "vz_of t n < 16" "vz_base t (vz_of t n) \<le> n" "n < VZoneLBATable ! t ! vz_of t n"
    using vz_of_unique [of t v n] assms by simp_all
qed

lemma vz_of_LBA: "disk_type_of ty < 7 \<Longrightarrow> n < SIZE_LBA \<Longrightarrow> LBAToVZoneA ty (of_nat n) = Some (of_nat (vz_of (disk_type_of ty) n))"
  using LBAToVZone_cases [of ty n] vz_of_unique [of "disk_type_of ty"] by metis

lemma sizes_bounded: "p < 16 \<Longrightarrow> 0 < pzone_bytes p \<and> pzone_bytes p \<le> 232"
proof -
  have "\<forall>p < 16. 0 < pzone_bytes p \<and> pzone_bytes p \<le> 232"
    unfolding less16 by (simp add: pzone_bytes_def zone_sec_size_phys_def)
  then show "p < 16 \<Longrightarrow> 0 < pzone_bytes p \<and> pzone_bytes p \<le> 232" by blast
qed

lemma lba_size_bounded: "t < 7 \<Longrightarrow> n < SIZE_LBA \<Longrightarrow> 0 < lba_sector_size t n \<and> lba_sector_size t n \<le> 232"
  using sizes_bounded vz_tables vz_of_cases(1) by (metis lba_sector_size_def)

lemma block_bytes_eq:
  assumes "disk_type_of ty < 7" and "n < SIZE_LBA"
  shows "block_bytes ty (of_nat n) =
    Some (of_nat (vz_of (disk_type_of ty) n), of_nat (lba_sector_size (disk_type_of ty) n * SECTORS_PER_BLOCK))"
proof -
  let ?t = "disk_type_of ty" and ?v = "vz_of (disk_type_of ty) n"
  have v: "?v < 16" using vz_of_cases [OF assms] by simp
  have p: "DiskTypeZones ! ?t ! ?v < 16" using vz_tables assms(1) v by blast
  have u: "unat (of_nat ?v :: u32) = ?v" using v by (intro unat_of_small) simp
  have "at zone_sec_size_phys (if 7 < p then p - 7 else p) = Some (pzone_bytes p)" if "p < 16" for p
    using that by (auto simp: at_def pzone_bytes_def zone_sec_size_phys_def)
  then show ?thesis
    using assms(1) v p u by (simp add: block_bytes_def vz_of_LBA [OF assms] VZoneToPZone_def at_def [of DiskTypeZones]
        at_def [of "DiskTypeZones ! ?t"] zone_lists lba_sector_size_def)
qed

lemma lba_step_zone:
  assumes t: "disk_type_of ty < 7" and n: "0 < n" "n < SIZE_LBA"
  defines "v \<equiv> vz_of (disk_type_of ty) (n - 1)"
  shows "(do { limit \<leftarrow> at (VZoneLBATable ! disk_type_of ty) (unat (of_nat v :: u32));
      if of_nat limit = (of_nat n :: u32) then block_bytes ty (of_nat n)
      else Some (of_nat v, of_nat (lba_sector_size (disk_type_of ty) (n - 1) * SECTORS_PER_BLOCK)) }) =
    Some (of_nat (vz_of (disk_type_of ty) n), of_nat (lba_sector_size (disk_type_of ty) n * SECTORS_PER_BLOCK))"
proof -
  let ?t = "disk_type_of ty"
  have v: "v < 16" "vz_base ?t v \<le> n - 1" "n - 1 < VZoneLBATable ! ?t ! v"
    using vz_of_cases [OF t, of "n - 1"] n by (auto simp: v_def)
  have u: "unat (of_nat v :: u32) = v" using v by (intro unat_of_small) simp
  have l: "VZoneLBATable ! ?t ! v \<le> SIZE_LBA"
    using row_sorted [OF t, of v 15] zone_lists(4) [OF t] v(1) vz_tables t by (cases "v = 15") fastforce+
  have e: "(of_nat (VZoneLBATable ! ?t ! v) = (of_nat n :: u32)) = (VZoneLBATable ! ?t ! v = n)"
    using l n by (simp add: word_unat_eq_iff unat_of_small)
  have "vz_of ?t n = v \<and> lba_sector_size ?t n = lba_sector_size ?t (n - 1)" if "VZoneLBATable ! ?t ! v \<noteq> n"
  proof -
    have "vz_of ?t n = v" using that v by (intro vz_of_unique [OF t]) auto
    then show ?thesis by (simp add: lba_sector_size_def v_def)
  qed
  then show ?thesis using v(1) by (auto simp: at_def zone_lists(3) [OF t] u e block_bytes_eq [OF t n(2)])
qed

lemma lba_bytes_loop:
  assumes "disk_type_of ty < 7"
  shows "0 < n \<Longrightarrow> n + m \<le> SIZE_LBA \<Longrightarrow>
    lba_bytes ty m (of_nat n) (of_nat (vz_of (disk_type_of ty) (n - 1)))
      (of_nat (lba_sector_size (disk_type_of ty) (n - 1) * SECTORS_PER_BLOCK)) x False =
    Some (x + of_nat (\<Sum>i = n..<n + m. lba_sector_size (disk_type_of ty) i * SECTORS_PER_BLOCK))"
proof (induction m arbitrary: n x)
  case (Suc m)
  let ?t = "disk_type_of ty" and ?s = "\<lambda>i. lba_sector_size (disk_type_of ty) i * SECTORS_PER_BLOCK"
  have r: "at VZoneLBATable ?t = Some (VZoneLBATable ! ?t)" using assms by (simp add: at_def zone_lists)
  have b: "\<not> (m \<noteq> 0 \<and> of_nat MAX_LBA < (of_nat n + 1 :: u32))"
  proof -
    have "unat (of_nat (n + 1) :: u32) = n + 1" using Suc.prems by (intro unat_of_small) simp
    then have "unat (of_nat n + 1 :: u32) = n + 1" by (simp add: add.commute)
    then show ?thesis using Suc.prems by (auto simp: word_less_nat_alt)
  qed
  have "(\<Sum>i = n..<n + Suc m. ?s i) = ?s n + (\<Sum>i = Suc n..<Suc n + m. ?s i)"
    by (subst sum.atLeast_Suc_lessThan) simp_all
  moreover have "lba_bytes ty m (of_nat (Suc n)) (of_nat (vz_of ?t n)) (of_nat (?s n)) (x + of_nat (?s n)) False =
      Some (x + of_nat (?s n) + of_nat (\<Sum>i = Suc n..<Suc n + m. ?s i))"
    using Suc.IH [of "Suc n"] Suc.prems by simp
  moreover have "lba_bytes ty (Suc m) (of_nat n) (of_nat (vz_of ?t (n - 1))) (of_nat (?s (n - 1))) x False =
      lba_bytes ty m (of_nat (Suc n)) (of_nat (vz_of ?t n)) (of_nat (?s n)) (x + of_nat (?s n)) False"
    using Suc.prems b
    by (simp only: lba_bytes.simps r bind.bind_lunit if_False lba_step_zone [OF assms] Let_def prod.case if_False)
      (simp add: add.commute)
  ultimately show ?case by (simp add: add.assoc)
qed simp

lemma LBAToByteA_sum:
  assumes t: "disk_type_of ty < 7" and n: "n < SIZE_LBA" "n + m \<le> SIZE_LBA"
  shows "LBAToByteA ty (of_nat n) (of_nat m) =
    Some (of_nat (\<Sum>i = n..<n + m. lba_sector_size (disk_type_of ty) i * SECTORS_PER_BLOCK))"
proof (cases m)
  case 0
  then show ?thesis by (simp add: LBAToByteA_def)
next
  case (Suc l)
  let ?t = "disk_type_of ty" and ?s = "\<lambda>i. lba_sector_size (disk_type_of ty) i * SECTORS_PER_BLOCK"
  have r: "at VZoneLBATable ?t = Some (VZoneLBATable ! ?t)" using t by (simp add: at_def zone_lists)
  have u: "unat (of_nat m :: u32) = Suc l" using n(2) by (simp only: Suc [symmetric]) (intro unat_of_small, simp)
  have b: "\<not> (l \<noteq> 0 \<and> of_nat MAX_LBA < (of_nat n + 1 :: u32))"
  proof -
    have "unat (of_nat (n + 1) :: u32) = n + 1" using n by (intro unat_of_small) simp
    then have "unat (of_nat n + 1 :: u32) = n + 1" by (simp add: add.commute)
    then show ?thesis using n Suc by (auto simp: word_less_nat_alt)
  qed
  have "(\<Sum>i = n..<n + m. ?s i) = ?s n + (\<Sum>i = Suc n..<Suc n + l. ?s i)"
    using Suc by (subst sum.atLeast_Suc_lessThan) simp_all
  moreover have "lba_bytes ty l (of_nat (Suc n)) (of_nat (vz_of ?t n)) (of_nat (?s n)) (of_nat (?s n)) False =
      Some (of_nat (?s n) + of_nat (\<Sum>i = Suc n..<Suc n + l. ?s i))"
    using lba_bytes_loop [OF t, of "Suc n" l] n Suc by simp
  moreover have "LBAToByteA ty (of_nat n) (of_nat m) =
      lba_bytes ty l (of_nat (Suc n)) (of_nat (vz_of ?t n)) (of_nat (?s n)) (of_nat (?s n)) False"
    using b by (simp only: LBAToByteA_def u lba_bytes.simps r bind.bind_lunit if_True block_bytes_eq [OF t n(1)] Let_def prod.case if_False)
      (simp add: add.commute)
  ultimately show ?thesis by simp
qed

lemma zone_blocks:
  assumes "t < 7" and "v < 16"
  shows "blocks_before t (VZoneLBATable ! t ! v) =
    blocks_before t (vz_base t v) + 2 * vz_tracks t v * (pzone_bytes (DiskTypeZones ! t ! v) * SECTORS_PER_BLOCK)"
proof -
  have e: "VZoneLBATable ! t ! v = vz_base t v + 2 * vz_tracks t v" using vz_tables assms by blast
  let ?s = "\<lambda>i. lba_sector_size t i * SECTORS_PER_BLOCK"
  have "(\<Sum>i < vz_base t v + m. ?s i) = (\<Sum>i < vz_base t v. ?s i) + m * (pzone_bytes (DiskTypeZones ! t ! v) * SECTORS_PER_BLOCK)"
    if "m \<le> 2 * vz_tracks t v" for m
    using that
  proof (induction m)
    case (Suc m)
    have "lba_sector_size t (vz_base t v + m) = pzone_bytes (DiskTypeZones ! t ! v)"
      using vz_of_unique [OF assms, of "vz_base t v + m"] e Suc.prems by (simp add: lba_sector_size_def)
    then show ?case using Suc by simp
  qed simp
  then show ?thesis unfolding blocks_before_def e by blast
qed

lemma zones_blocks:
  assumes "t < 7"
  shows "v < 16 \<Longrightarrow> blocks_before t (VZoneLBATable ! t ! v) =
    (\<Sum>u < Suc v. 2 * vz_tracks t u * (pzone_bytes (DiskTypeZones ! t ! u) * SECTORS_PER_BLOCK))"
proof (induction v)
  case 0
  show ?case using zone_blocks [OF assms, of 0] by (simp add: vz_base_def blocks_before_def)
next
  case (Suc v)
  have "vz_base t (Suc v) = VZoneLBATable ! t ! v" by (simp add: vz_base_def)
  then show ?case using zone_blocks [OF assms Suc.prems] Suc by simp
qed

lemma blocks_fill_image: "t < 7 \<Longrightarrow> blocks_before t SIZE_LBA = SDK_FORMAT_DUMP_SIZE"
proof -
  assume t: "t < 7"
  have s: "(\<Sum>u < 16. f u) = f 0 + f 1 + f 2 + f 3 + f 4 + f 5 + f 6 + f 7 + f 8 + f 9 + f 10 + f 11 + f 12 + f 13 + f 14 + f (15 :: nat)"
    for f :: "nat \<Rightarrow> nat" by (simp add: numeral_eq_Suc)
  have "\<forall>t < 7. (\<Sum>u < 16. 2 * vz_tracks t u * (pzone_bytes (DiskTypeZones ! t ! u) * SECTORS_PER_BLOCK)) = SDK_FORMAT_DUMP_SIZE"
    unfolding less7 s
    by (simp add: vz_base_def vz_tracks_def VZoneLBATable_def DiskTypeZones_def pzone_bytes_def zone_sec_size_phys_def)
  then show ?thesis using zones_blocks [OF t, of 15] zone_lists(4) [OF t] t by simp
qed

lemma blocks_mono: "n \<le> m \<Longrightarrow> blocks_before t n \<le> blocks_before t m"
  unfolding blocks_before_def by (intro sum_mono2) auto

definition sdk_sectors :: "nat \<Rightarrow> (nat \<times> nat) set" where
  "sdk_sectors t = {(lba, sector). t < 7 \<and> lba < SIZE_LBA \<and> sector < SECTORS_PER_BLOCK}"

definition sdk_base :: "nat \<Rightarrow> nat \<times> nat \<Rightarrow> nat" where
  "sdk_base t = (\<lambda>(lba, sector). blocks_before t lba + sector * lba_sector_size t lba)"

definition sdk_len :: "nat \<Rightarrow> nat \<times> nat \<Rightarrow> nat" where
  "sdk_len t = (\<lambda>(lba, sector). lba_sector_size t lba)"

lemma sdk_sector_end:
  assumes "(n, s) \<in> sdk_sectors t"
  shows "blocks_before t n \<le> sdk_base t (n, s)" "sdk_base t (n, s) + sdk_len t (n, s) \<le> blocks_before t (Suc n)"
proof -
  have "Suc s * lba_sector_size t n \<le> 85 * lba_sector_size t n" using assms by (intro mult_le_mono1) (simp add: sdk_sectors_def)
  then show "blocks_before t n \<le> sdk_base t (n, s)" "sdk_base t (n, s) + sdk_len t (n, s) \<le> blocks_before t (Suc n)"
    by (simp_all add: sdk_base_def sdk_len_def blocks_before_def)
qed

interpretation sdk: sector_layout "sdk_sectors t" "sdk_base t" "sdk_len t" SDK_FORMAT_DUMP_SIZE for t
proof
  fix x assume x: "x \<in> sdk_sectors t"
  obtain n s where e: "x = (n, s)" by (cases x)
  have "t < 7" "Suc n \<le> SIZE_LBA" using x by (simp_all add: e sdk_sectors_def)
  then show "sdk_base t x + sdk_len t x \<le> SDK_FORMAT_DUMP_SIZE"
    using sdk_sector_end [of n s t] x blocks_mono [of "Suc n" SIZE_LBA t] blocks_fill_image [of t] by (simp add: e)
next
  fix x y assume a: "x \<in> sdk_sectors t" "y \<in> sdk_sectors t" "x \<noteq> y"
  obtain n s m r where e: "x = (n, s)" "y = (m, r)" by (cases x; cases y)
  consider "n < m" | "m < n" | "n = m" "s < r" | "n = m" "r < s" using a(3) e by (metis nat_neq_iff)
  then show "sdk_base t x + sdk_len t x \<le> sdk_base t y \<or> sdk_base t y + sdk_len t y \<le> sdk_base t x"
  proof cases
    case 1
    then show ?thesis using sdk_sector_end [of n s t] sdk_sector_end [of m r t] a blocks_mono [of "Suc n" m t] by (simp add: e)
  next
    case 2
    then show ?thesis using sdk_sector_end [of n s t] sdk_sector_end [of m r t] a blocks_mono [of "Suc m" n t] by (simp add: e)
  next
    case 3
    then have "Suc s * lba_sector_size t n \<le> r * lba_sector_size t n" by (intro mult_le_mono1) simp
    then show ?thesis using 3 by (simp add: e sdk_base_def sdk_len_def)
  next
    case 4
    then have "Suc r * lba_sector_size t n \<le> s * lba_sector_size t n" by (intro mult_le_mono1) simp
    then show ?thesis using 4 by (simp add: e sdk_base_def sdk_len_def)
  qed
qed

text \<open>
  The offset of a logical block, which the code adds up with the zone looked up only at zone
  boundaries, is the sum of the sizes of the blocks before it, from any first block; all blocks together are as long as
  an image in SDK format.
\<close>

theorem lba_bytes_exact:
  assumes t: "disk_type_of ty < 7" and n: "n < SIZE_LBA" "n + m \<le> SIZE_LBA"
  shows "LBAToByteA ty (of_nat n) (of_nat m) =
      Some (of_nat (\<Sum>i = n..<n + m. lba_sector_size (disk_type_of ty) i * SECTORS_PER_BLOCK)) \<and>
    blocks_before (disk_type_of ty) SIZE_LBA = SDK_FORMAT_DUMP_SIZE"
  using LBAToByteA_sum [OF assms] blocks_fill_image [OF t] by blast

theorem lba_bytes_exact_witness:
  "LBAToByteA 0 (of_nat 290) (of_nat 4) = Some (of_nat (\<Sum>i = 290..<290 + 4. lba_sector_size (disk_type_of 0) i * SECTORS_PER_BLOCK))"
  by (rule lba_bytes_exact [THEN conjunct1]) (simp_all add: disk_type_of_def)

lemma phys_sector_size:
  assumes t: "t < 7" "v < 16" and p: "p = DiskTypeZones ! t ! v" and tr: "outer_track p \<le> track" "track < outer_track p + ZoneTracks ! p"
  shows "zone_sec_size_phys ! get_zone_from_head_track (if 7 < p then 1 else 0) track = pzone_bytes p" "track < 0x497"
proof -
  have p16: "p < 16" using vz_tables t p by blast
  define z where "z = (if 7 < p then p - 8 else p)"
  have z: "z < 8" "outer_track z = outer_track p" "ZoneTracks ! z = ZoneTracks ! p"
    using p16 zone_tables(1) [of "p - 8"] by (auto simp: z_def outer_track_def)
  have "\<forall>p < 16. outer_track p + ZoneTracks ! p \<le> 0x497"
    unfolding less16 by (simp add: outer_track_def TrackZoneTable_def ZoneTracks_def)
  then show b: "track < 0x497" using tr(2) p16 by (meson less_le_trans)
  obtain y where y: "get_zone_from_head_track 0 track = y" "y < 8" "TrackZoneTable ! y \<le> track" "track - TrackZoneTable ! y < ZoneTracks ! y"
    using zone_of_track [OF b, of 0] by (metis add_0_right)
  have "y = z" using tr z y by (intro outer_ranges [where t = track]) (auto simp: outer_track_def)
  then show "zone_sec_size_phys ! get_zone_from_head_track (if 7 < p then 1 else 0) track = pzone_bytes p"
    using y(1) get_zone_head [of 1 track] by (cases "7 < p") (simp_all add: pzone_bytes_def z_def del: One_nat_def)
qed

lemma LBAToPhys_position:
  assumes "disk_type_of (sys_type d a) < 7" and "defects_ok d a" and "n < SIZE_LBA"
  obtains h t b where "LBAToPhys d a (of_nat n) = Some (phys_value h t b)" "h = 0 \<or> h = 1" "b = 0 \<or> b = 1" "unat t < 0x497"
    "zone_sec_size_phys ! get_zone_from_head_track (unat h) (unat t) = lba_sector_size (disk_type_of (sys_type d a)) n"
proof -
  let ?t = "disk_type_of (sys_type d a)" and ?v = "vz_of (disk_type_of (sys_type d a)) n"
  note v = vz_of_cases [OF assms(1,3)] and l = vz_of_LBA [OF assms(1,3)]
  define p where "p = DiskTypeZones ! ?t ! ?v"
  define j where "j = (n - vz_base ?t ?v) div 2"
  have "VZoneLBATable ! ?t ! ?v = vz_base ?t ?v + 2 * vz_tracks ?t ?v" using vz_tables assms(1) v(1) by blast
  then have j: "j < vz_tracks ?t ?v" using v by (auto simp: j_def)
  define tr where "tr = final_track d a p j"
  note r = final_track_range(1,2) [OF assms(1) v(1) p_def j assms(2), folded tr_def]
  note z = phys_sector_size [OF assms(1) v(1) p_def r]
  have u: "unat (of_nat tr :: u16) = tr" using z(2) by (simp add: unsigned_of_nat take_bit_nat_eq_self)
  have f: "LBAToPhys d a (of_nat n) = Some (phys_value (if 7 < p then 1 else 0) (of_nat tr) (of_nat (lba_block n)))"
    using LBAToPhys_eq [OF assms(1,3,2) l v] by (simp only: p_def j_def tr_def)
  show ?thesis
  proof (rule that [OF f])
    show "zone_sec_size_phys ! get_zone_from_head_track (unat (if 7 < p then 1 else 0 :: u16)) (unat (of_nat tr :: u16)) =
        lba_sector_size ?t n"
      using z(1) by (auto simp: u lba_sector_size_def p_def split: if_splits)
  qed (use z(2) u in \<open>auto simp: lba_block_def\<close>)
qed

section \<open>The table of positions\<close>

lemma table_upd: "lba_phys_table (k\<lparr>lba_phys_table := f\<rparr>) = f"
  by simp

lemma those_map: "(\<And>x. x \<in> set xs \<Longrightarrow> f x \<noteq> None) \<Longrightarrow> those (map f xs) = Some (map (the \<circ> f) xs)"
  by (induction xs) (fastforce split: option.split)+

lemma find_in_table:
  assumes "i < n" and "f i = Some x" and "\<forall>m < i. f m \<noteq> None \<and> f m \<noteq> Some x"
  shows "List.find (\<lambda>l. (if l < n then map (the \<circ> f) [0..<n] ! l else g l) = x) [0..<n] = Some i"
  unfolding find_Some_iff
proof (intro exI conjI allI impI)
  show "i < length [0..<n]" "i = [0..<n] ! i" using assms(1) by simp_all
  show "(if [0..<n] ! i < n then map (the \<circ> f) [0..<n] ! ([0..<n] ! i) else g ([0..<n] ! i)) = x" using assms(1,2) by simp
  fix m assume m: "m < i"
  then show "(if [0..<n] ! m < n then map (the \<circ> f) [0..<n] ! ([0..<n] ! m) else g ([0..<n] ! m)) \<noteq> x"
    using assms(1) assms(3) [rule_format, OF m] by auto
qed

lemma generated_table:
  assumes "dk_format k \<noteq> DISK_FORMAT_MAME" and t: "disk_type_of (sys_type (dk_data k) (offset_sys k)) < 7"
    and d: "defects_ok (dk_data k) (offset_sys k)"
  obtains f where "GenerateLBAToPhysTable k = Some (k\<lparr>lba_phys_table := f\<rparr>)"
    "\<And>lba h tr b. lba < SIZE_LBA \<Longrightarrow> LBAToPhys (dk_data k) (offset_sys k) (of_nat lba) = Some (phys_value h tr b) \<Longrightarrow>
       PhysToLBA (k\<lparr>lba_phys_table := f\<rparr>) h tr b = lba"
proof -
  let ?f = "\<lambda>lba. LBAToPhys (dk_data k) (offset_sys k) (of_nat lba)"
  let ?g = "\<lambda>lba. if lba < SIZE_LBA then map (the \<circ> ?f) [0..<SIZE_LBA] ! lba else lba_phys_table k lba"
  have "?f lba \<noteq> None" if "lba < SIZE_LBA" for lba using LBAToPhys_position [OF t d that] by (metis option.discI)
  then have "those (map ?f [0..<SIZE_LBA]) = Some (map (the \<circ> ?f) [0..<SIZE_LBA])"
    by (intro those_map) (simp only: set_upt atLeastLessThan_iff not_False_eq_True)
  then have g: "GenerateLBAToPhysTable k = Some (k\<lparr>lba_phys_table := ?g\<rparr>)"
    using assms(1) by (simp only: GenerateLBAToPhysTable_def if_False bind.bind_lunit)
  have "PhysToLBA (k\<lparr>lba_phys_table := ?g\<rparr>) h tr b = lba"
    if l: "lba < SIZE_LBA" and f: "?f lba = Some (phys_value h tr b)" for lba h tr b
  proof -
    have "\<forall>m < lba. ?f m \<noteq> None \<and> ?f m \<noteq> Some (phys_value h tr b)"
      using LBAToPhys_inj [OF t d, of _ lba] LBAToPhys_position [OF t d] l f by (metis less_trans less_irrefl option.discI)
    from find_in_table [where f = ?f and g = "lba_phys_table k", OF l f this] show ?thesis
      unfolding PhysToLBA_def by (simp only: table_upd option.case)
  qed
  then show ?thesis by (rule that [OF g])
qed

text \<open>
  C35. For every disk type and every list of defective tracks that leaves each zone its share, the table of
  physical positions is generated without leaving a table of the sources, every position is on
  the disk, and searching it for the position of a logical block finds that block again.
\<close>

theorem lba_table_inverts:
  assumes k: "dk_format k \<noteq> DISK_FORMAT_MAME" and t: "disk_type_of (sys_type (dk_data k) (offset_sys k)) < 7"
    and d: "defects_ok (dk_data k) (offset_sys k)"
  shows "\<exists>k'. GenerateLBAToPhysTable k = Some k' \<and>
    (\<forall>lba < SIZE_LBA. \<exists>head track block. LBAToPhys (dk_data k) (offset_sys k) (of_nat lba) = Some (phys_value head track block) \<and>
       head \<le> 1 \<and> unat track < 0x497 \<and> block \<le> 1 \<and> PhysToLBA k' head track block = lba)"
proof -
  let ?f = "\<lambda>lba. LBAToPhys (dk_data k) (offset_sys k) (of_nat lba)"
  obtain g where g: "GenerateLBAToPhysTable k = Some (k\<lparr>lba_phys_table := g\<rparr>)"
    and find: "\<And>lba h tr b. lba < SIZE_LBA \<Longrightarrow> ?f lba = Some (phys_value h tr b) \<Longrightarrow> PhysToLBA (k\<lparr>lba_phys_table := g\<rparr>) h tr b = lba"
    using generated_table [OF k t d] by blast
  show ?thesis
  proof (intro exI [of _ "k\<lparr>lba_phys_table := g\<rparr>"] conjI allI impI)
    show "GenerateLBAToPhysTable k = Some (k\<lparr>lba_phys_table := g\<rparr>)" by (fact g)
    fix lba assume l: "lba < SIZE_LBA"
    obtain h tr b where f: "?f lba = Some (phys_value h tr b)" and r: "h = 0 \<or> h = 1" "b = 0 \<or> b = 1" "unat tr < 0x497"
      using LBAToPhys_position [OF t d l] by blast
    have "h \<le> 1" "b \<le> 1" using r by auto
    then show "\<exists>head track block. ?f lba = Some (phys_value head track block) \<and> head \<le> 1 \<and> unat track < 0x497 \<and>
        block \<le> 1 \<and> PhysToLBA (k\<lparr>lba_phys_table := g\<rparr>) head track block = lba"
      using f r(3) find [OF l f] by blast
  qed
qed

definition blank_disk :: "disk_format \<Rightarrow> dd_disk" where
  "blank_disk f = \<lparr>dk_data = (\<lambda>_. 0), dk_size = MAME_FORMAT_DUMP_SIZE, dk_saver = Disk_full, dk_save_size = MAME_FORMAT_DUMP_SIZE,
     lba_phys_table = (\<lambda>_. 0), dk_format = f, development = False, offset_sys = 0, offset_id = 14 * 0x4d08, offset_ram = 0\<rparr>"

theorem lba_table_inverts_witness:
  "\<exists>k'. GenerateLBAToPhysTable (blank_disk DISK_FORMAT_SDK) = Some k' \<and>
    (\<exists>head track block. LBAToPhys (\<lambda>_. 0) 0 300 = Some (phys_value head track block) \<and> PhysToLBA k' head track block = 300)"
proof -
  have "disk_type_of (sys_type (\<lambda>_. 0) 0) < 7" "defects_ok (\<lambda>_. 0) 0"
    by (simp_all add: disk_type_of_def sys_type_def defects_ok_def defect_start_def sys_defect_offset_def)
  then obtain k' where k: "GenerateLBAToPhysTable (blank_disk DISK_FORMAT_SDK) = Some k'"
    and f: "\<forall>lba < SIZE_LBA. \<exists>head track block. LBAToPhys (\<lambda>_. 0) 0 (of_nat lba) = Some (phys_value head track block) \<and>
       head \<le> 1 \<and> unat track < 0x497 \<and> block \<le> 1 \<and> PhysToLBA k' head track block = lba"
    using lba_table_inverts [of "blank_disk DISK_FORMAT_SDK"] by (auto simp: blank_disk_def)
  show ?thesis using k f [rule_format, of 300] by auto
qed

text \<open>
  In an SDK image the sector of a logical block, sought through its head, track and block, is the one the
  reference places there, and no two sectors overlap: the table, the offsets and the sector sizes,
  computed apart from each other, agree.
\<close>

theorem sdk_sector_found:
  assumes k: "dk_format k = DISK_FORMAT_SDK" "\<not> development k" and t: "disk_type_of (sys_type (dk_data k) (offset_sys k)) < 7"
    and d: "defects_ok (dk_data k) (offset_sys k)" and g: "GenerateLBAToPhysTable k = Some k'"
    and l: "lba < SIZE_LBA" "sector < SECTORS_PER_BLOCK" "sector \<noteq> 0 \<or> SYSTEM_LBAS \<le> lba"
  defines "ty \<equiv> disk_type_of (sys_type (dk_data k) (offset_sys k))"
  shows "(\<exists>head track block. LBAToPhys (dk_data k) (offset_sys k) (of_nat lba) = Some (phys_value head track block) \<and>
      get_sector_base k' (unat head) (unat track) (unat block) sector = Inr (sdk_base ty (lba, sector))) \<and>
    (\<forall>lba' < SIZE_LBA. \<forall>sector' < SECTORS_PER_BLOCK. (lba', sector') \<noteq> (lba, sector) \<longrightarrow>
      sdk_base ty (lba, sector) + lba_sector_size ty lba \<le> sdk_base ty (lba', sector') \<or>
      sdk_base ty (lba', sector') + lba_sector_size ty lba' \<le> sdk_base ty (lba, sector))"
proof (intro conjI allI impI)
  obtain f where k': "k' = k\<lparr>lba_phys_table := f\<rparr>" and find: "\<And>lba h tr b. lba < SIZE_LBA \<Longrightarrow>
      LBAToPhys (dk_data k) (offset_sys k) (of_nat lba) = Some (phys_value h tr b) \<Longrightarrow> PhysToLBA k' h tr b = lba"
    using generated_table [of k] k(1) t d g by (metis disk_format.distinct(1) option.inject)
  obtain h tr b where p: "LBAToPhys (dk_data k) (offset_sys k) (of_nat lba) = Some (phys_value h tr b)"
    and r: "zone_sec_size_phys ! get_zone_from_head_track (unat h) (unat tr) = lba_sector_size ty lba"
    unfolding ty_def using LBAToPhys_position [OF t d l(1)] by blast
  have m: "(lba, sector) \<in> sdk_sectors ty" using t l by (simp add: sdk_sectors_def ty_def)
  have "sdk_base ty (lba, sector) < 2 ^ 32" using sdk.inside [OF m] by simp
  then have u: "unat (of_nat (blocks_before ty lba) + of_nat (sector * lba_sector_size ty lba) :: u32) = sdk_base ty (lba, sector)"
    using unat_of_small [of "sdk_base ty (lba, sector)"] by (simp add: sdk_base_def)
  have s: "LBAToByteA (sys_type (dk_data k) (offset_sys k)) 0 (of_nat lba) = Some (of_nat (blocks_before ty lba))"
    using LBAToByteA_sum [OF t, of 0 lba] l(1) by (simp add: blocks_before_def ty_def lessThan_atLeast0)
  have "PhysToLBA k' h tr b = lba" by (rule find [OF l(1) p])
  then have "get_sector_base k' (unat h) (unat tr) (unat b) sector = Inr (sdk_base ty (lba, sector))"
    using k l r s u by (auto simp: k' get_sector_base_def get_sector_base_sdk_def Let_def sector_size_of_def)
  then show "\<exists>head track block. LBAToPhys (dk_data k) (offset_sys k) (of_nat lba) = Some (phys_value head track block) \<and>
      get_sector_base k' (unat head) (unat track) (unat block) sector = Inr (sdk_base ty (lba, sector))"
    using p by blast
  fix lba' sector' assume "lba' < SIZE_LBA" "sector' < SECTORS_PER_BLOCK" "(lba', sector') \<noteq> (lba, sector)"
  then show "sdk_base ty (lba, sector) + lba_sector_size ty lba \<le> sdk_base ty (lba', sector') \<or>
      sdk_base ty (lba', sector') + lba_sector_size ty lba' \<le> sdk_base ty (lba, sector)"
    using sdk.disjoint [OF m, of "(lba', sector')"] t by (auto simp: sdk_sectors_def sdk_len_def ty_def)
qed

theorem sdk_sector_found_witness:
  "\<exists>k'. GenerateLBAToPhysTable (blank_disk DISK_FORMAT_SDK) = Some k' \<and>
    (\<exists>head track block. get_sector_base k' (unat (head :: u16)) (unat (track :: u16)) (unat (block :: u16)) 7 = Inr (sdk_base 0 (300, 7)))"
proof -
  let ?k = "blank_disk DISK_FORMAT_SDK"
  have t: "disk_type_of (sys_type (dk_data ?k) (offset_sys ?k)) = 0" and d: "defects_ok (dk_data ?k) (offset_sys ?k)"
    by (simp_all add: blank_disk_def disk_type_of_def sys_type_def defects_ok_def defect_start_def sys_defect_offset_def)
  have k: "dk_format ?k = DISK_FORMAT_SDK" "\<not> development ?k" by (simp_all add: blank_disk_def)
  obtain k' where g: "GenerateLBAToPhysTable ?k = Some k'"
    using generated_table [of ?k] k(1) t d by (metis disk_format.distinct(1) zero_less_numeral)
  have "\<exists>head track block. get_sector_base k' (unat (head :: u16)) (unat (track :: u16)) (unat (block :: u16)) 7 = Inr (sdk_base 0 (300, 7))"
    using sdk_sector_found [OF k _ d g, of 300 7, unfolded t] by auto
  then show ?thesis using g by blast
qed

section \<open>Protected blocks and recognition\<close>

lemma protected_lblock_number:
  assumes "0 < l" and "l < 24"
  shows "16 \<le> unat (lblock_of (l * 19720))"
proof -
  have "l * 19720 div 232 * 85 = l * 7225" by simp
  then have "unat (lblock_of (l * 19720)) = l * 7225 mod 65536"
    by (simp only: lblock_of_def unsigned_of_nat take_bit_nat_def) simp
  moreover have "16 \<le> l * 7225 mod 65536"
  proof -
    consider "l \<le> 9" | "10 \<le> l" "l \<le> 18" | "19 \<le> l" "l \<le> 23" using assms(2) by linarith
    then show ?thesis using assms(1) by cases (simp_all add: le_mod_geq)
  qed
  ultimately show ?thesis by simp
qed

text \<open>
  The check that should refuse the system blocks that hold no system data (and the reserved blocks after
  them) never refuses any of the blocks 1 to 23: because of the precedence of the division in the
  expanded macro, only block 0 can be refused.
\<close>

theorem protected_blocks_readable:
  assumes "dk_format k = DISK_FORMAT_MAME" and "0 < l" and "l < SYSTEM_LBAS"
  shows "get_sector_base k 0 (l div 2) (l mod 2) 0 = Inr (l * 19720)"
proof -
  have t: "l div 2 < 12" "l = 2 * (l div 2) + l mod 2" "l < 24" using assms by auto
  have "get_zone_from_head_track 0 (l div 2) = 0" using t(1) by (simp add: get_zone_from_head_track_def TrackZoneTable_def)
  then have "unat (mame_offset k 0 (l div 2) (l mod 2) 0) = unat (of_nat (l div 2 * 19720 * 2 + l mod 2 * 19720) :: u32)"
    by (simp add: mame_offset_def Let_def TrackZoneTable_def start_offset_def BLOCKSIZE_def zone_sec_size_def)
  also have "l div 2 * 19720 * 2 + l mod 2 * 19720 = l * 19720"
  proof -
    have "q * 19720 * 2 + r * 19720 = (2 * q + r) * 19720" for q r :: nat by simp
    then show ?thesis by (simp only: t(2) [symmetric])
  qed
  also have "unat (of_nat (l * 19720) :: u32) = l * 19720" using assms(3) by (intro unat_of_small) simp
  finally have o: "unat (mame_offset k 0 (l div 2) (l mod 2) 0) = l * 19720" .
  have "16 \<le> unat (lblock_of (l * 19720))" using protected_lblock_number assms by simp
  then have "\<not> protected_lblock k (l * 19720)"
    by (simp add: protected_lblock_def Let_def word_less_nat_alt)
  then show ?thesis using assms(1) by (simp add: get_sector_base_def get_sector_base_mame_def Let_def o)
qed

theorem protected_blocks_readable_witness: "get_sector_base (blank_disk DISK_FORMAT_MAME) 0 2 1 0 = Inr 98600"
  using protected_blocks_readable [of "blank_disk DISK_FORMAT_MAME" 5] by (simp add: blank_disk_def)

text \<open>
  When a full dump in MAME format is recognised by system data at one of the eight places it may be at, the
  offset of the system data that is stored is the offset of that place exactly for the first four
  places; for the others the code uses the number of the place for the number of the block.
\<close>

theorem scan_system_offset:
  assumes i: "find_sys_data d MAME_FORMAT_DUMP_SIZE [0..<8] = Some i" and j: "find_disk_id d = Some j"
  shows "\<exists>r. scan_and_expand_disk_format alloc d MAME_FORMAT_DUMP_SIZE = Inr r \<and> sc_format r = DISK_FORMAT_MAME \<and>
    sc_offset_sys r = 0x4d08 * i \<and> sc_offset_id r = BLOCKSIZE 0 * j \<and>
    sys_valid d (BLOCKSIZE 0 * sys_blocks ! i) \<and> (sc_offset_sys r = BLOCKSIZE 0 * sys_blocks ! i \<longleftrightarrow> i < 4)"
proof -
  have f: "find_sys_data d MAME_FORMAT_DUMP_SIZE is = Some i \<Longrightarrow> i \<in> set is \<and> sys_valid d (BLOCKSIZE 0 * sys_blocks ! i)" for "is"
    by (induction "is") (auto simp: Let_def split: if_splits)
  have v: "i < 8" "sys_valid d (BLOCKSIZE 0 * sys_blocks ! i)" using f [OF i] by (simp_all only: set_upt atLeastLessThan_iff)
  have jj: "j = 14 \<or> j = 15" using j by (auto simp: find_disk_id_def split: if_splits)
  have b: "BLOCKSIZE 0 = 0x4d08" by (simp add: BLOCKSIZE_def zone_sec_size_def)
  have "\<forall>i < 16. i < 8 \<longrightarrow> ((0x4d08 * i = 0x4d08 * sys_blocks ! i) \<longleftrightarrow> i < 4)" unfolding less16 by (simp add: sys_blocks_def)
  then have e: "(0x4d08 * i = 0x4d08 * sys_blocks ! i) \<longleftrightarrow> i < 4" using v(1) by simp
  have m: "nat (0x4d08 * int n mod 2 ^ 64) = 0x4d08 * n" if "n < 16" for n using that by (simp add: nat_mult_distrib)
  have "scan_and_expand_disk_format alloc d MAME_FORMAT_DUMP_SIZE = scan_result d MAME_FORMAT_DUMP_SIZE (int i) (int j)"
    by (simp only: scan_and_expand_disk_format_def i j option.case is_dump_def simp_thms if_True)
  then show ?thesis
    using m [of i] m [of j] v e jj by (auto simp: scan_result_def Let_def b)
qed

definition sample_sys :: "nat \<Rightarrow> u8" where
  "sample_sys i = (if i = 7 then 1 else if i = 28 then 0x80 else 0)"

definition sample_dump :: "nat \<Rightarrow> u8" where
  "sample_dump a = (if 8 * 19720 \<le> a \<and> a < 9 * 19720 then sample_sys ((a - 8 * 19720) mod 232) else 0xff)"

lemma sample_dump_repeats: "sectors_repeat sample_dump (8 * 19720) 232" "sectors_repeat sample_dump (14 * 19720) 232"
proof -
  have "sample_dump (8 * 19720 + j * 232 + i) = sample_sys i" if "j < 85" "i < 232" for i j
  proof -
    have "j * 232 + i < 85 * 232" using that by linarith
    then show ?thesis using that by (simp add: sample_dump_def add.assoc)
  qed
  then show "sectors_repeat sample_dump (8 * 19720) 232" unfolding sectors_repeat_def by auto
  show "sectors_repeat sample_dump (14 * 19720) 232" unfolding sectors_repeat_def by (auto simp: sample_dump_def)
qed

theorem scan_system_offset_witness:
  "\<exists>r. scan_and_expand_disk_format True sample_dump MAME_FORMAT_DUMP_SIZE = Inr r \<and> sc_offset_sys r = 4 * 0x4d08 \<and>
    sys_valid sample_dump (8 * 0x4d08)"
proof -
  have "\<not> sys_valid sample_dump a" if "a < 4 * 19720" for a using that by (simp add: sys_valid_def sys_type_def sample_dump_def)
  moreover have "sys_valid sample_dump (8 * 19720)"
    by (simp add: sys_valid_def sys_type_def sample_dump_def sample_sys_def be16_def be32_def)
  ultimately have i: "find_sys_data sample_dump MAME_FORMAT_DUMP_SIZE [0..<8] = Some 4"
    using sample_dump_repeats(1)
    by (simp add: upt_rec sys_blocks_def BLOCKSIZE_def zone_sec_size_def Let_def is_dump_def)
  have "find_disk_id sample_dump = Some 14"
    using sample_dump_repeats(2) by (simp add: find_disk_id_def BLOCKSIZE_def zone_sec_size_def)
  from scan_system_offset [OF i this, of True] show ?thesis by (auto simp: sys_blocks_def BLOCKSIZE_def zone_sec_size_def)
qed

end
