(* ===== verification/Dd.thy ===== *)
theory Dd
  imports Vru Disk_Layout
begin

text \<open>
  The controller of the 64DD disk drive (\<^verbatim>\<open>src/src/device/dd/dd_controller.c\<close>): its registers and commands,
  the motor timers, the clock, the buffer manager that moves sectors between the disk and
  the sector buffers, and the DMA to them and to the drive's ROM. The image is a \<open>dd_disk\<close>; without one the
  pointers of its \<^verbatim>\<open>struct dd_disk\<close> are null, and using them is a fault. The drive is connected
  when it has a ROM.
\<close>

abbreviation (input) DD_ASIC_DATA :: nat where "DD_ASIC_DATA \<equiv> 0"
abbreviation (input) DD_ASIC_CMD_STATUS :: nat where "DD_ASIC_CMD_STATUS \<equiv> 2"
abbreviation (input) DD_ASIC_CUR_TK :: nat where "DD_ASIC_CUR_TK \<equiv> 3"
abbreviation (input) DD_ASIC_BM_STATUS_CTL :: nat where "DD_ASIC_BM_STATUS_CTL \<equiv> 4"
abbreviation (input) DD_ASIC_CUR_SECTOR :: nat where "DD_ASIC_CUR_SECTOR \<equiv> 7"
abbreviation (input) DD_ASIC_HARD_RESET :: nat where "DD_ASIC_HARD_RESET \<equiv> 8"
abbreviation (input) DD_ASIC_HOST_SECBYTE :: nat where "DD_ASIC_HOST_SECBYTE \<equiv> 10"
abbreviation (input) DD_ASIC_SEC_BYTE :: nat where "DD_ASIC_SEC_BYTE \<equiv> 12"
abbreviation (input) DD_ASIC_ID_REG :: nat where "DD_ASIC_ID_REG \<equiv> 16"
abbreviation (input) DD_ASIC_REGS_COUNT :: nat where "DD_ASIC_REGS_COUNT \<equiv> 19"
abbreviation (input) DD_STATUS_DATA_RQ :: u32 where "DD_STATUS_DATA_RQ \<equiv> 0x40000000"
abbreviation (input) DD_STATUS_C2_XFER :: u32 where "DD_STATUS_C2_XFER \<equiv> 0x10000000"
abbreviation (input) DD_STATUS_BM_ERR :: u32 where "DD_STATUS_BM_ERR \<equiv> 0x08000000"
abbreviation (input) DD_STATUS_BM_INT :: u32 where "DD_STATUS_BM_INT \<equiv> 0x04000000"
abbreviation (input) DD_STATUS_MECHA_INT :: u32 where "DD_STATUS_MECHA_INT \<equiv> 0x02000000"
abbreviation (input) DD_STATUS_DISK_PRES :: u32 where "DD_STATUS_DISK_PRES \<equiv> 0x01000000"
abbreviation (input) DD_STATUS_BUSY_STATE :: u32 where "DD_STATUS_BUSY_STATE \<equiv> 0x00800000"
abbreviation (input) DD_STATUS_RST_STATE :: u32 where "DD_STATUS_RST_STATE \<equiv> 0x00400000"
abbreviation (input) DD_STATUS_MTR_N_SPIN :: u32 where "DD_STATUS_MTR_N_SPIN \<equiv> 0x00100000"
abbreviation (input) DD_STATUS_HEAD_RTRCT :: u32 where "DD_STATUS_HEAD_RTRCT \<equiv> 0x00080000"
abbreviation (input) DD_STATUS_WR_PR_ERR :: u32 where "DD_STATUS_WR_PR_ERR \<equiv> 0x00040000"
abbreviation (input) DD_STATUS_DISK_CHNG :: u32 where "DD_STATUS_DISK_CHNG \<equiv> 0x00010000"
abbreviation (input) DD_BM_STATUS_RUNNING :: u32 where "DD_BM_STATUS_RUNNING \<equiv> 0x80000000"
abbreviation (input) DD_BM_STATUS_MICRO :: u32 where "DD_BM_STATUS_MICRO \<equiv> 0x02000000"
abbreviation (input) DD_BM_STATUS_BLOCK :: u32 where "DD_BM_STATUS_BLOCK \<equiv> 0x01000000"
abbreviation (input) DD_BM_CTL_START :: u32 where "DD_BM_CTL_START \<equiv> 0x80000000"
abbreviation (input) DD_BM_CTL_RESET :: u32 where "DD_BM_CTL_RESET \<equiv> 0x10000000"
abbreviation (input) DD_BM_CTL_BLK_TRANS :: u32 where "DD_BM_CTL_BLK_TRANS \<equiv> 0x02000000"
abbreviation (input) DD_BM_CTL_MECHA_RST :: u32 where "DD_BM_CTL_MECHA_RST \<equiv> 0x01000000"
abbreviation (input) DD_TRACK_LOCK :: u32 where "DD_TRACK_LOCK \<equiv> 0x60000000"
abbreviation (input) MM_DD_C2S_BUFFER :: u32 where "MM_DD_C2S_BUFFER \<equiv> 0x05000000"
abbreviation (input) MM_DD_DS_BUFFER :: u32 where "MM_DD_DS_BUFFER \<equiv> 0x05000400"
abbreviation (input) MM_DD_REGS :: u32 where "MM_DD_REGS \<equiv> 0x05000500"
abbreviation (input) MM_DD_MS_RAM :: u32 where "MM_DD_MS_RAM \<equiv> 0x05000580"
abbreviation (input) MM_DD_ROM :: u32 where "MM_DD_ROM \<equiv> 0x06000000"
abbreviation (input) DD_ROM_SPACE :: nat where "DD_ROM_SPACE \<equiv> 0x400000"
abbreviation (input) STORE_DISK :: nat where "STORE_DISK \<equiv> 11"

record dd_controller = controllers +
  dd_regs :: regfile
  c2s_buf :: "nat \<Rightarrow> u8"
  ds_buf :: "nat \<Rightarrow> u8"
  ms_ram :: "nat \<Rightarrow> u8"
  disk_type :: u8
  timer_standby :: int
  timer_sleep :: int
  bm_write :: bool
  bm_reset_held :: bool
  bm_zone :: nat
  dd_now :: int
  dd_last_update :: int
  dd_rom :: "nat \<Rightarrow> u32"
  dd_rom_size :: nat
  dd_idisk :: "dd_disk option"

type_synonym 'a drive = "'a dd_controller_scheme"

definition set_dd :: "nat \<Rightarrow> u32 \<Rightarrow> 'a drive \<Rightarrow> 'a drive" where
  "set_dd r v s = s\<lparr>dd_regs := (dd_regs s)(r := v)\<rparr>"

definition raise_dd :: "nat \<Rightarrow> u32 \<Rightarrow> 'a drive \<Rightarrow> 'a drive" where
  "raise_dd r m s = set_dd r (dd_regs s r OR m) s"

definition clear_dd :: "nat \<Rightarrow> u32 \<Rightarrow> 'a drive \<Rightarrow> 'a drive" where
  "clear_dd r m s = set_dd r (dd_regs s r AND NOT m) s"

definition dd_reg :: "u32 \<Rightarrow> nat" where
  "dd_reg address = reg_index 0xff address"

definition dd_rom_address :: "u32 \<Rightarrow> nat" where
  "dd_rom_address address = reg_index 0x3fffff address"

definition dd_development :: "'a drive \<Rightarrow> bool" where
  "dd_development s = (case dd_idisk s of None \<Rightarrow> False | Some k \<Rightarrow> development k)"

section \<open>Clock and interrupts\<close>

definition dd_time2data :: "int \<Rightarrow> int \<Rightarrow> u32" where
  "dd_time2data hi lo = push_bit 24 (ucast (byte2bcd hi)) OR push_bit 16 (ucast (byte2bcd lo))"

definition dd_update_rtc :: "'a drive clock \<Rightarrow> 'a drive \<Rightarrow> 'a drive" where
  "dd_update_rtc ck s =
     (let now = clock_get_time ck s in s\<lparr>dd_now := dd_now s + (now - dd_last_update s), dd_last_update := now\<rparr>)"

definition signal_dd_interrupt :: "u32 \<Rightarrow> 'a drive \<Rightarrow> 'a drive" where
  "signal_dd_interrupt bm_int s = r4300_check_interrupt CP0_CAUSE_IP3 True (raise_dd DD_ASIC_CMD_STATUS bm_int s)"

definition clear_dd_interrupt :: "u32 \<Rightarrow> 'a drive \<Rightarrow> 'a drive" where
  "clear_dd_interrupt bm_int s = r4300_check_interrupt CP0_CAUSE_IP3 False (clear_dd DD_ASIC_CMD_STATUS bm_int s)"

definition dd_mecha_int_handler :: "'a drive \<Rightarrow> 'a drive" where
  "dd_mecha_int_handler s = signal_dd_interrupt DD_STATUS_MECHA_INT (clear_dd DD_ASIC_CMD_STATUS DD_STATUS_BUSY_STATE s)"

section \<open>Motor\<close>

text \<open>The product \<^verbatim>\<open>46875000 * timer\<close> is passed on as an unsigned delay.\<close>

definition motor_timer :: "int \<Rightarrow> 'a drive \<Rightarrow> 'a drive" where
  "motor_timer timer s = (if 0 \<le> timer then add_interrupt_event DD_DV_INT (word_of_int (46875000 * timer)) s else s)"

definition dd_dv_active :: "'a drive \<Rightarrow> 'a drive" where
  "dd_dv_active s =
     (let s = clear_dd DD_ASIC_CMD_STATUS (DD_STATUS_MTR_N_SPIN OR DD_STATUS_HEAD_RTRCT) s
      in motor_timer (timer_standby s) (remove_event_s DD_DV_INT s))"

definition dd_dv_standby :: "'a drive \<Rightarrow> 'a drive" where
  "dd_dv_standby s =
     (let s = raise_dd DD_ASIC_CMD_STATUS DD_STATUS_HEAD_RTRCT (clear_dd DD_ASIC_CMD_STATUS DD_STATUS_MTR_N_SPIN s)
      in motor_timer (timer_sleep s) (remove_event_s DD_DV_INT s))"

definition dd_dv_sleep :: "'a drive \<Rightarrow> 'a drive" where
  "dd_dv_sleep s =
     remove_event_s DD_DV_INT (raise_dd DD_ASIC_CMD_STATUS (DD_STATUS_MTR_N_SPIN OR DD_STATUS_HEAD_RTRCT) s)"

definition dd_dv_int_handler :: "'a drive \<Rightarrow> 'a drive" where
  "dd_dv_int_handler s0 =
     (let motorNotSpinning = dd_regs s0 DD_ASIC_CMD_STATUS AND DD_STATUS_MTR_N_SPIN \<noteq> 0;
          headRetracted = dd_regs s0 DD_ASIC_CMD_STATUS AND DD_STATUS_HEAD_RTRCT \<noteq> 0;
          s = (if \<not> motorNotSpinning \<and> headRetracted then dd_dv_sleep s0 else s0)
      in if \<not> motorNotSpinning \<and> \<not> headRetracted then dd_dv_standby s else s)"

section \<open>Sectors\<close>

definition cur_sector :: "'a drive \<Rightarrow> u32" where
  "cur_sector s = drop_bit 16 (dd_regs s DD_ASIC_CUR_SECTOR) AND 0xff"

definition cur_head :: "u32 \<Rightarrow> u32" where
  "cur_head tk = drop_bit 28 (tk AND 0x10000000)"

definition cur_track :: "u32 \<Rightarrow> u32" where
  "cur_track tk = drop_bit 16 (tk AND 0x0fff0000)"

definition read_C2 :: "'a drive \<Rightarrow> 'a drive" where
  "read_C2 s0 =
     (let len = zone_sec_size ! bm_zone s0;
          sector = cur_sector s0 mod 90;
          offset = unat (0x40 * (sector - of_nat SECTORS_PER_BLOCK));
          s = check_bounds (bm_zone s0 < 16 \<and> offset + len \<le> 0x400) s0
      in s\<lparr>c2s_buf := from_dram offset (\<lambda>_. 0) len (c2s_buf s)\<rparr>)"

definition seek_sector :: "'a drive \<Rightarrow> nat option \<times> 'a drive" where
  "seek_sector s =
     (let head = cur_head (dd_regs s DD_ASIC_CUR_TK);
          track = cur_track (dd_regs s DD_ASIC_CUR_TK);
          sector = cur_sector s - (if bm_write s then 1 else 0);
          block = sector div 90;
          sector = sector mod 90
      in case dd_idisk s of
           None \<Rightarrow> (None, set_fault s)
         | Some k \<Rightarrow>
             (case get_sector_base k (unat head) (unat track) (unat block) (unat sector) of
                Inl Null_pointer \<Rightarrow> (None, raise_dd DD_ASIC_BM_STATUS_CTL DD_BM_STATUS_MICRO s)
              | Inl Out_of_bounds \<Rightarrow> (None, set_fault s)
              | Inr base \<Rightarrow> (Some base, s)))"

definition disk_image :: "'a drive \<Rightarrow> (nat \<Rightarrow> u8)" where
  "disk_image s = (case dd_idisk s of None \<Rightarrow> (\<lambda>_. 0) | Some k \<Rightarrow> dk_data k)"

definition image_size :: "'a drive \<Rightarrow> nat" where
  "image_size s = (case dd_idisk s of None \<Rightarrow> 0 | Some k \<Rightarrow> dk_size k)"

definition sector_length :: "'a drive \<Rightarrow> nat" where
  "sector_length s = unat (dd_regs s DD_ASIC_HOST_SECBYTE + 1)"

definition read_sector :: "'a drive \<Rightarrow> 'a drive" where
  "read_sector s0 =
     (case seek_sector s0 of
        (None, s) \<Rightarrow> s
      | (Some base, s) \<Rightarrow>
          let len = sector_length s;
              s = check_bounds (len \<le> 0x100 \<and> base + len \<le> image_size s) s
          in s\<lparr>ds_buf := from_dram 0 (\<lambda>i. disk_image s (base + i)) len (ds_buf s)\<rparr>)"

text \<open>The three storage interfaces of a disk (\<^verbatim>\<open>disk.c\<close>): what is saved of a range of the image.\<close>

definition storage_disk_save :: "dd_disk \<Rightarrow> nat \<Rightarrow> nat \<Rightarrow> 'a drive \<Rightarrow> 'a drive" where
  "storage_disk_save k start len s =
     (case dk_saver k of
        Disk_read_only \<Rightarrow> s
      | Disk_full \<Rightarrow> call_out (Storage_save STORE_DISK start len) s
      | Disk_ram_only \<Rightarrow>
          if offset_ram k \<le> start \<and> start - offset_ram k + len \<le> dk_save_size k
          then call_out (Storage_save STORE_DISK (start - offset_ram k) len) s else s)"

definition write_sector :: "'a drive \<Rightarrow> 'a drive" where
  "write_sector s0 =
     (case seek_sector s0 of
        (None, s) \<Rightarrow> s
      | (Some base, s) \<Rightarrow>
          let len = sector_length s;
              s = check_bounds (len \<le> 0x100 \<and> base + len \<le> image_size s) s
          in (case dd_idisk s of
                None \<Rightarrow> s
              | Some k \<Rightarrow>
                  let k' = k\<lparr>dk_data := blit (dk_data k) base (\<lambda>i. ds_buf s (i XOR 3)) len\<rparr>
                  in storage_disk_save k' base len (s\<lparr>dd_idisk := Some k'\<rparr>)))"

section \<open>The buffer manager\<close>

definition next_sector :: "'a drive \<Rightarrow> 'a drive" where
  "next_sector s = set_dd DD_ASIC_CUR_SECTOR (dd_regs s DD_ASIC_CUR_SECTOR + 0x10000) s"

text \<open>The two branches of \<^verbatim>\<open>dd_update_bm\<close>, given the block and the sector in it.\<close>

definition bm_write_sector :: "u32 \<Rightarrow> u32 \<Rightarrow> 'a drive \<Rightarrow> 'a drive" where
  "bm_write_sector block sector s =
     (if dd_regs s DD_ASIC_CMD_STATUS AND DD_STATUS_WR_PR_ERR \<noteq> 0
      then clear_dd DD_ASIC_BM_STATUS_CTL DD_BM_STATUS_RUNNING (raise_dd DD_ASIC_BM_STATUS_CTL DD_BM_STATUS_MICRO
             (raise_dd DD_ASIC_CMD_STATUS DD_STATUS_BM_ERR s))
      else if sector = 0 then raise_dd DD_ASIC_CMD_STATUS DD_STATUS_DATA_RQ (next_sector s)
      else if sector < of_nat SECTORS_PER_BLOCK
      then raise_dd DD_ASIC_CMD_STATUS DD_STATUS_DATA_RQ (next_sector (write_sector s))
      else if sector < of_nat SECTORS_PER_BLOCK + 1
      then let s = write_sector s in
        if dd_regs s DD_ASIC_BM_STATUS_CTL AND DD_BM_STATUS_BLOCK \<noteq> 0
        then raise_dd DD_ASIC_CMD_STATUS DD_STATUS_DATA_RQ (clear_dd DD_ASIC_BM_STATUS_CTL DD_BM_STATUS_BLOCK
               (set_dd DD_ASIC_CUR_SECTOR (push_bit 16 ((1 - block) * 90 + 1)) s))
        else clear_dd DD_ASIC_BM_STATUS_CTL DD_BM_STATUS_RUNNING (next_sector s)
      else s)"

definition bm_read_sector :: "u32 \<Rightarrow> u32 \<Rightarrow> 'a drive \<Rightarrow> 'a drive" where
  "bm_read_sector block sector s =
     (if drop_bit 16 (dd_regs s DD_ASIC_CUR_TK) AND 0x1fff = 6 \<and> block = 0 \<and> \<not> dd_development s
      then raise_dd DD_ASIC_BM_STATUS_CTL DD_BM_STATUS_MICRO (clear_dd DD_ASIC_CMD_STATUS DD_STATUS_DATA_RQ s)
      else if sector < of_nat SECTORS_PER_BLOCK
      then raise_dd DD_ASIC_CMD_STATUS DD_STATUS_DATA_RQ (next_sector (read_sector s))
      else if sector < of_nat SECTORS_PER_BLOCK + 3 then next_sector (read_C2 s)
      else if sector = of_nat SECTORS_PER_BLOCK + 3
      then let s = raise_dd DD_ASIC_CMD_STATUS DD_STATUS_C2_XFER (read_C2 s) in
        if dd_regs s DD_ASIC_BM_STATUS_CTL AND DD_BM_STATUS_BLOCK \<noteq> 0
        then clear_dd DD_ASIC_BM_STATUS_CTL DD_BM_STATUS_BLOCK
               (set_dd DD_ASIC_CUR_SECTOR (push_bit 16 ((1 - block) * 90 + 0)) s)
        else clear_dd DD_ASIC_BM_STATUS_CTL DD_BM_STATUS_RUNNING s
      else s)"

definition dd_update_bm :: "'a drive \<Rightarrow> 'a drive" where
  "dd_update_bm s0 =
     (if dd_regs s0 DD_ASIC_BM_STATUS_CTL AND DD_BM_STATUS_RUNNING = 0 then s0
      else
        let s = clear_dd DD_ASIC_CMD_STATUS (DD_STATUS_DATA_RQ OR DD_STATUS_C2_XFER) s0;
            sector = cur_sector s;
            block = sector div 90;
            sector = sector mod 90;
            s = (if bm_write s then bm_write_sector block sector s else bm_read_sector block sector s)
        in signal_dd_interrupt DD_STATUS_BM_INT (dd_dv_active s))"

definition dd_bm_int_handler :: "'a drive \<Rightarrow> 'a drive" where
  "dd_bm_int_handler s = dd_update_bm s"

section \<open>Power\<close>

definition init_dd :: "(nat \<Rightarrow> u32) \<Rightarrow> nat \<Rightarrow> dd_disk option \<Rightarrow> 'a drive \<Rightarrow> 'a drive" where
  "init_dd rm rm_size disk s = s\<lparr>dd_rom := rm, dd_rom_size := rm_size, dd_idisk := disk\<rparr>"

definition poweron_dd :: "'a drive \<Rightarrow> 'a drive" where
  "poweron_dd s0 =
     (let s = s0\<lparr>dd_regs := (\<lambda>_. 0), c2s_buf := (\<lambda>_. 0), ds_buf := (\<lambda>_. 0), ms_ram := (\<lambda>_. 0),
            bm_write := False, bm_reset_held := False, bm_zone := 0, dd_now := 0, dd_last_update := 0,
            timer_sleep := 1, timer_standby := 3\<rparr>;
          s = dd_dv_sleep s;
          s = set_dd DD_ASIC_ID_REG 0x00030000 s;
          s = raise_dd DD_ASIC_CMD_STATUS DD_STATUS_RST_STATE s
      in case dd_idisk s of
           None \<Rightarrow> s
         | Some k \<Rightarrow>
             let s = raise_dd DD_ASIC_CMD_STATUS DD_STATUS_DISK_PRES s
             in if development k then set_dd DD_ASIC_ID_REG 0x00040000 s else s)"

section \<open>Registers\<close>

definition read_dd_regs :: "u32 \<Rightarrow> 'a drive \<Rightarrow> u32 option \<times> 'a drive" where
  "read_dd_regs address s0 =
     (if address < MM_DD_REGS \<or> MM_DD_MS_RAM \<le> address then (Some 0, s0)
      else
        let reg = dd_reg address;
            s = check_bounds (reg < DD_ASIC_REGS_COUNT) s0;
            s = (if reg = DD_ASIC_CMD_STATUS
                 then if dd_idisk s \<noteq> None then raise_dd reg DD_STATUS_DISK_PRES s else clear_dd reg DD_STATUS_DISK_PRES s
                 else s);
            v = dd_regs s reg
        in (Some v,
            if reg = DD_ASIC_CMD_STATUS \<and> v AND DD_STATUS_BM_INT \<noteq> 0
            then add_interrupt_event DD_BM_INT (8020 + cur_track (dd_regs s DD_ASIC_CUR_TK) div 56)
                   (clear_dd_interrupt DD_STATUS_BM_INT s)
            else s))"

text \<open>The common part of the commands that move the head: motor, track, zone and time.\<close>

definition move_head :: "u32 \<Rightarrow> bool \<Rightarrow> 'a drive \<Rightarrow> u32 \<times> 'a drive" where
  "move_head tk wr s0 =
     (let cycles = 248250 + (if dd_regs s0 DD_ASIC_CMD_STATUS AND (DD_STATUS_MTR_N_SPIN OR DD_STATUS_HEAD_RTRCT) \<noteq> 0
                             then 501750 else 0);
          s = dd_dv_active s0;
          old_track = int (unat (cur_track (dd_regs s DD_ASIC_CUR_TK)));
          s = set_dd DD_ASIC_CUR_TK (tk OR DD_TRACK_LOCK) s;
          s = s\<lparr>bm_write := wr\<rparr>;
          head = unat (cur_head (dd_regs s DD_ASIC_CUR_TK));
          track = unat (cur_track (dd_regs s DD_ASIC_CUR_TK));
          s = s\<lparr>bm_zone := get_zone_from_head_track head track - head + 8 * head\<rparr>
      in (cycles + word_of_int (4825 * \<bar>int track - old_track\<bar>), s))"

definition startTrackZones :: "nat list" where
  "startTrackZones = [0x000, 0x09e, 0x13c, 0x1d1, 0x266, 0x2fb, 0x390, 0x425, 0x497]"

definition seek_track :: "u32 \<Rightarrow> 'a drive \<Rightarrow> u32 \<times> 'a drive" where
  "seek_track value s0 =
     (let (cycles, s) = move_head (dd_regs s0 DD_ASIC_DATA) (drop_bit 17 value AND 0x1 \<noteq> 0) s0;
          head = cur_head (dd_regs s DD_ASIC_CUR_TK);
          track = unat (cur_track (dd_regs s DD_ASIC_CUR_TK));
          s = clear_dd DD_ASIC_CMD_STATUS DD_STATUS_WR_PR_ERR s
      in (cycles,
          if bm_write s
          then case at startTrackZones (unat ((ucast (disk_type s) AND 0xf) - head + 3 :: u32)) of
                 None \<Rightarrow> set_fault s
               | Some z \<Rightarrow> if track < z then raise_dd DD_ASIC_CMD_STATUS DD_STATUS_WR_PR_ERR s else s
          else s))"

definition dd_delay :: "'a drive \<Rightarrow> int" where
  "dd_delay s =
     (if dd_regs s DD_ASIC_DATA AND 0x01000000 = 0
      then int (unat (drop_bit 16 (dd_regs s DD_ASIC_DATA) AND 0xff)) else - 1)"

definition set_disk_type :: "'a drive \<Rightarrow> 'a drive" where
  "set_disk_type s =
     (let t = ucast (drop_bit 16 (dd_regs s DD_ASIC_DATA) AND 0xf) in s\<lparr>disk_type := if 6 < t then 6 else t\<rparr>)"

text \<open>A command: the cycles until the drive reports that it is done, and the state.\<close>

definition dd_command :: "'a drive clock \<Rightarrow> u32 \<Rightarrow> 'a drive \<Rightarrow> u32 \<times> 'a drive" where
  "dd_command ck value s =
     (let c = drop_bit 16 value AND 0xff;
          tm = clock_localtime ck (dd_now s);
          stopped = dd_regs s DD_ASIC_CMD_STATUS AND (DD_STATUS_MTR_N_SPIN OR DD_STATUS_HEAD_RTRCT) \<noteq> 0
      in if c = 0x01 \<or> c = 0x02 then seek_track value s
         else if c = 0x03 \<or> c = 0x05 then move_head 0 True s
         else if c = 0x04 then (if stopped then 207500 else 2000, dd_dv_sleep s)
         else if c = 0x0d then (if stopped then 160000 else 2000, dd_dv_standby s)
         else (2000,
           if c = 0x06 then s\<lparr>timer_standby := dd_delay s\<rparr>
           else if c = 0x07 then s\<lparr>timer_sleep := dd_delay s\<rparr>
           else if c = 0x08 then clear_dd DD_ASIC_CMD_STATUS DD_STATUS_DISK_CHNG s
           else if c = 0x09
           then clear_dd DD_ASIC_CMD_STATUS DD_STATUS_DISK_CHNG (clear_dd DD_ASIC_CMD_STATUS DD_STATUS_RST_STATE s)
           else if c = 0x0a
           then set_dd DD_ASIC_DATA (if dd_regs s DD_ASIC_DATA = 0
                  then if dd_development s then 0x01140000 OR 0x10000000 else 0x01140000 else 0x53000000) s
           else if c = 0x0b then set_disk_type s
           else if c = 0x0c then set_dd DD_ASIC_DATA 0 s
           else if c = 0x12 then set_dd DD_ASIC_DATA (dd_time2data (tm_year tm) (tm_mon tm + 1)) s
           else if c = 0x13 then set_dd DD_ASIC_DATA (dd_time2data (tm_mday tm) (tm_hour tm)) s
           else if c = 0x14 then set_dd DD_ASIC_DATA (dd_time2data (tm_min tm) (tm_sec tm)) s
           else if c = 0x1b then set_dd DD_ASIC_DATA 0x00030000 s
           else s))"

definition write_dd_command :: "'a drive clock \<Rightarrow> u32 \<Rightarrow> 'a drive \<Rightarrow> 'a drive" where
  "write_dd_command ck value s0 =
     (let s = dd_update_rtc ck s0;
          s = raise_dd DD_ASIC_CMD_STATUS DD_STATUS_BUSY_STATE s;
          (cycles, s) = dd_command ck value s
      in add_interrupt_event DD_MC_INT cycles (cp0_update_count s))"

definition release_bm_reset :: "'a drive \<Rightarrow> 'a drive" where
  "release_bm_reset s =
     (let s = s\<lparr>bm_reset_held := False\<rparr>;
          s = clear_dd DD_ASIC_CMD_STATUS (DD_STATUS_DATA_RQ OR DD_STATUS_C2_XFER OR DD_STATUS_BM_ERR OR DD_STATUS_BM_INT) s;
          s = set_dd DD_ASIC_BM_STATUS_CTL 0 s;
          s = set_dd DD_ASIC_CUR_SECTOR 0 s
      in remove_event_s DD_BM_INT s)"

definition write_bm_control :: "u32 \<Rightarrow> 'a drive \<Rightarrow> 'a drive" where
  "write_bm_control value s0 =
     (let s = set_dd DD_ASIC_CUR_SECTOR (value AND 0x00ff0000) s0;
          s = (if value AND DD_BM_CTL_MECHA_RST \<noteq> 0
               then remove_event_s DD_MC_INT (clear_dd DD_ASIC_CMD_STATUS DD_STATUS_MECHA_INT s) else s);
          s = (if value AND DD_BM_CTL_BLK_TRANS \<noteq> 0 then raise_dd DD_ASIC_BM_STATUS_CTL DD_BM_STATUS_BLOCK s else s);
          s = (if value AND DD_BM_CTL_RESET \<noteq> 0 then s\<lparr>bm_reset_held := True\<rparr> else s);
          s = (if value AND DD_BM_CTL_RESET = 0 \<and> bm_reset_held s then release_bm_reset s else s);
          s = (if dd_regs s DD_ASIC_CMD_STATUS AND (DD_STATUS_BM_INT OR DD_STATUS_MECHA_INT) = 0
               then clear_dd_interrupt DD_STATUS_BM_INT s else s)
      in if value AND DD_BM_CTL_START \<noteq> 0
         then add_interrupt_event DD_BM_INT 12500 (raise_dd DD_ASIC_BM_STATUS_CTL DD_BM_STATUS_RUNNING s) else s)"

definition dd_hard_reset :: "'a drive \<Rightarrow> 'a drive" where
  "dd_hard_reset s0 =
     (let s = remove_event_s DD_BM_INT (remove_event_s DD_MC_INT s0);
          s = clear_dd DD_ASIC_CMD_STATUS (DD_STATUS_DATA_RQ OR DD_STATUS_C2_XFER OR DD_STATUS_BM_ERR OR DD_STATUS_BM_INT
                OR DD_STATUS_BUSY_STATE) s;
          s = set_dd DD_ASIC_BM_STATUS_CTL 0 s;
          s = set_dd DD_ASIC_CUR_SECTOR 0 s;
          s = dd_dv_sleep (s\<lparr>timer_sleep := 1, timer_standby := 3\<rparr>);
          s = clear_dd_interrupt DD_STATUS_MECHA_INT s
      in raise_dd DD_ASIC_CMD_STATUS DD_STATUS_RST_STATE s)"

text \<open>A write narrower than a word fails the \<^verbatim>\<open>assert\<close> on the mask.\<close>

definition write_dd_regs :: "'a drive clock \<Rightarrow> u32 \<Rightarrow> u32 \<Rightarrow> u32 \<Rightarrow> 'a drive \<Rightarrow> 'a drive" where
  "write_dd_regs ck address value msk s =
     (let reg = dd_reg address in
      if address < MM_DD_REGS \<or> MM_DD_MS_RAM \<le> address then s
      else if msk \<noteq> 0xFFFFFFFF then set_fault s
      else if reg = DD_ASIC_CMD_STATUS then write_dd_command ck value s
      else if reg = DD_ASIC_BM_STATUS_CTL then write_bm_control value s
      else if reg = DD_ASIC_HARD_RESET then dd_hard_reset s
      else if reg = DD_ASIC_HOST_SECBYTE then check_bounds (bm_zone s < 16) (set_dd reg (drop_bit 16 value AND 0xff) s)
      else if reg = DD_ASIC_SEC_BYTE then set_dd reg (drop_bit 24 value AND 0xff) s
      else if reg = DD_ASIC_CUR_TK \<or> reg = DD_ASIC_CUR_SECTOR then s
      else if reg < DD_ASIC_REGS_COUNT then set_dd reg value s
      else set_fault s)"

section \<open>ROM and DMA\<close>

definition read_dd_rom :: "u32 \<Rightarrow> 'a drive \<Rightarrow> u32" where
  "read_dd_rom address s = dd_rom s (dd_rom_address address)"

definition write_dd_rom :: "u32 \<Rightarrow> u32 \<Rightarrow> u32 \<Rightarrow> 'a drive \<Rightarrow> 'a drive" where
  "write_dd_rom address value msk s = s"

definition dd_dma_cycles :: "u32 \<Rightarrow> u32" where
  "dd_dma_cycles len = len * 63 div 25"

definition dd_dom_dma_read :: "'a drive dma_op" where
  "dd_dom_dma_read dram_addr cart_addr len s =
     (dd_dma_cycles len,
      if cart_addr = MM_DD_DS_BUFFER
      then let d = unat dram_addr; n = unat len;
               s = check_bounds (n \<le> 0x100 \<and> d + n \<le> 0x800000) s
           in s\<lparr>ds_buf := from_dram 0 (\<lambda>i. get8 (dram s) ((d + i) XOR 3)) n (ds_buf s)\<rparr>
      else s)"

text \<open>
  Without a drive the pointers to the ROM and to the processor, whose cached code is invalidated, are
  null.
\<close>

definition dd_dom_dma_write :: "'a drive dma_op" where
  "dd_dom_dma_write dram_addr cart_addr len s =
     (let d = unat dram_addr; n = unat len;
          copy = (\<lambda>src limit c s.
            let s = check_bounds (0 < dd_rom_size s \<and> c + n \<le> limit \<and> d + n \<le> 0x800000) s
            in s\<lparr>dram := to_dram d (\<lambda>i. src ((c + i) XOR 3)) n (dram s)\<rparr>)
      in (dd_dma_cycles len,
          if cart_addr < MM_DD_ROM
          then if cart_addr = MM_DD_C2S_BUFFER then copy (c2s_buf s) 0x400 0 s
            else if cart_addr = MM_DD_DS_BUFFER then copy (ds_buf s) 0x100 0 s
            else s
          else copy (get8 (dd_rom s)) DD_ROM_SPACE (unat (cart_addr - MM_DD_ROM)) s))"

section \<open>Frames\<close>

text \<open>The event queue and the processor are no part of the drive.\<close>

definition drive_of :: "'a drive \<Rightarrow> regfile \<times> (nat \<Rightarrow> u8) \<times> (nat \<Rightarrow> u8) \<times> u8 \<times> int \<times> int \<times> bool \<times> nat \<times> dd_disk option" where
  "drive_of s = (dd_regs s, c2s_buf s, ds_buf s, disk_type s, timer_standby s, timer_sleep s, bm_write s, bm_zone s, dd_idisk s)"

lemma drive_of_fields:
  assumes "drive_of s = drive_of t"
  shows "dd_regs s = dd_regs t" "c2s_buf s = c2s_buf t" "ds_buf s = ds_buf t" "disk_type s = disk_type t"
    "timer_standby s = timer_standby t" "timer_sleep s = timer_sleep t" "bm_write s = bm_write t" "bm_zone s = bm_zone t"
    "dd_idisk s = dd_idisk t"
  using assms by (simp_all add: drive_of_def)

lemma drive_of_queue:
  "drive_of (remove_event_s ty s) = drive_of s" "drive_of (add_interrupt_event ty d s) = drive_of s"
  "drive_of (r4300_check_interrupt ip b s) = drive_of s" "drive_of (cp0_update_count s) = drive_of s"
  "drive_of (motor_timer m s) = drive_of s" "drive_of (check_bounds ok s) = drive_of s" "drive_of (set_fault s) = drive_of s"
  "drive_of (storage_disk_save k a n s) = drive_of s"
  by (simp_all add: drive_of_def remove_event_s_def add_interrupt_event_def add_interrupt_event_count_def r4300_check_interrupt_def
      cp0_update_count_def set_cp0_def set_fault_def call_out_def motor_timer_def check_bounds_def storage_disk_save_def Let_def
      split: option.split disk_saver.split)

lemmas queue_frame [simp] =
  drive_of_queue [THEN drive_of_fields(1)]
  drive_of_queue [THEN drive_of_fields(2)]
  drive_of_queue [THEN drive_of_fields(3)]
  drive_of_queue [THEN drive_of_fields(4)]
  drive_of_queue [THEN drive_of_fields(5)]
  drive_of_queue [THEN drive_of_fields(6)]
  drive_of_queue [THEN drive_of_fields(7)]
  drive_of_queue [THEN drive_of_fields(8)]
  drive_of_queue [THEN drive_of_fields(9)]

lemma dd_fields [simp]:
  "dd_regs (set_dd r v s) = (dd_regs s)(r := v)" "c2s_buf (set_dd r v s) = c2s_buf s" "ds_buf (set_dd r v s) = ds_buf s"
  "disk_type (set_dd r v s) = disk_type s" "timer_standby (set_dd r v s) = timer_standby s"
  "timer_sleep (set_dd r v s) = timer_sleep s" "bm_write (set_dd r v s) = bm_write s" "bm_zone (set_dd r v s) = bm_zone s"
  "dd_idisk (set_dd r v s) = dd_idisk s" "live (set_dd r v s) = live s" "fault (set_dd r v s) = fault s"
  by (simp_all add: set_dd_def live_def)

lemma dd_live_upd [simp]:
  "live (s\<lparr>dd_regs := r\<rparr>) = live s" "live (s\<lparr>c2s_buf := f\<rparr>) = live s" "live (s\<lparr>ds_buf := f\<rparr>) = live s"
  "live (s\<lparr>timer_standby := n\<rparr>) = live s" "live (s\<lparr>timer_sleep := n\<rparr>) = live s" "live (s\<lparr>disk_type := t\<rparr>) = live s"
  "live (s\<lparr>bm_write := b\<rparr>) = live s" "live (s\<lparr>bm_reset_held := b\<rparr>) = live s" "live (s\<lparr>bm_zone := z\<rparr>) = live s"
  "live (s\<lparr>dd_now := n, dd_last_update := m\<rparr>) = live s" "live (s\<lparr>dd_idisk := k\<rparr>) = live s"
  by (simp_all add: live_def)

lemmas dd_bits = raise_dd_def clear_dd_def

section \<open>The queue stays well formed\<close>

lemma motor_live: "live s \<Longrightarrow> live (dd_dv_active s)" "live s \<Longrightarrow> live (dd_dv_standby s)" "live s \<Longrightarrow> live (dd_dv_sleep s)"
  by (simp_all add: dd_dv_active_def dd_dv_standby_def dd_dv_sleep_def motor_timer_def dd_bits Let_def add_interrupt_event_live remove_event_live)

lemma dd_interrupt_live:
  "live s \<Longrightarrow> live (signal_dd_interrupt m s)" "live s \<Longrightarrow> live (clear_dd_interrupt m s)"
  by (simp_all add: signal_dd_interrupt_def clear_dd_interrupt_def dd_bits r4300_check_interrupt_live)

lemma sector_live:
  assumes "live s"
  shows "live (snd (seek_sector s))" "live (read_sector s)" "live (write_sector s)" "live (read_C2 s)"
proof -
  have k: "live (storage_disk_save k a n s) = live s" for k a n and s :: "'a drive"
    by (simp add: storage_disk_save_def split: disk_saver.split)
  show seek: "live (snd (seek_sector s))"
    using assms by (simp add: seek_sector_def Let_def dd_bits split: option.split sum.split disk_error.split)
  obtain b t where e: "seek_sector s = (b, t)" by fastforce
  then have "live t" using seek by simp
  then show "live (read_sector s)" "live (write_sector s)"
    by (simp_all add: read_sector_def write_sector_def e Let_def k split: option.split)
  show "live (read_C2 s)" using assms by (simp add: read_C2_def Let_def)
qed

lemma dd_update_bm_live: "live s \<Longrightarrow> live (dd_update_bm s)"
  by (simp add: dd_update_bm_def bm_write_sector_def bm_read_sector_def next_sector_def dd_bits Let_def
      dd_interrupt_live motor_live sector_live)

lemma dd_events_live:
  "live s \<Longrightarrow> live (dd_mecha_int_handler s)" "live s \<Longrightarrow> live (dd_bm_int_handler s)" "live s \<Longrightarrow> live (dd_dv_int_handler s)"
  by (simp_all add: dd_mecha_int_handler_def dd_bm_int_handler_def dd_dv_int_handler_def dd_bits Let_def
      dd_interrupt_live motor_live dd_update_bm_live)

lemma poweron_dd_live: "live s \<Longrightarrow> live (poweron_dd s)"
proof -
  assume "live s"
  then have "live (dd_dv_sleep (s\<lparr>dd_regs := (\<lambda>_. 0), c2s_buf := (\<lambda>_. 0), ds_buf := (\<lambda>_. 0), ms_ram := (\<lambda>_. 0),
      bm_write := False, bm_reset_held := False, bm_zone := 0, dd_now := 0, dd_last_update := 0, timer_sleep := 1, timer_standby := 3\<rparr>))"
    by (intro motor_live) (simp add: live_def)
  then show ?thesis by (simp add: poweron_dd_def dd_bits Let_def split: option.split)
qed

lemma read_dd_regs_live: "live s \<Longrightarrow> live (snd (read_dd_regs a s))"
  by (simp add: read_dd_regs_def dd_bits Let_def add_interrupt_event_live dd_interrupt_live)

lemma move_head_live: "live s \<Longrightarrow> live (snd (move_head tk wr s))"
  by (simp add: move_head_def Let_def motor_live)

lemma seek_track_live: "live s \<Longrightarrow> live (snd (seek_track v s))"
  using move_head_live [of s] by (simp add: seek_track_def Let_def split_beta dd_bits split: option.split)

lemma dd_command_live: "live s \<Longrightarrow> live (snd (dd_command ck v s))"
  by (simp add: dd_command_def Let_def dd_bits motor_live move_head_live seek_track_live set_disk_type_def)

lemma write_dd_command_live: "live s \<Longrightarrow> live (write_dd_command ck v s)"
  by (simp add: write_dd_command_def dd_update_rtc_def Let_def split_beta dd_bits add_interrupt_event_live dd_command_live)

lemma write_bm_control_live: "live s \<Longrightarrow> live (write_bm_control v s)"
  by (simp add: write_bm_control_def release_bm_reset_def Let_def dd_bits add_interrupt_event_live remove_event_live dd_interrupt_live)

lemma dd_hard_reset_live: "live s \<Longrightarrow> live (dd_hard_reset s)"
proof -
  assume "live s"
  then have "live (s\<lparr>dd_regs := r, timer_sleep := n, timer_standby := m\<rparr>)" for r n m by (simp add: live_def)
  then show ?thesis using \<open>live s\<close>
    by (simp add: dd_hard_reset_def Let_def dd_bits motor_live remove_event_live dd_interrupt_live)
qed

lemma write_dd_regs_live: "live s \<Longrightarrow> live (write_dd_regs ck a v m s)"
  by (simp add: write_dd_regs_def Let_def write_dd_command_live write_bm_control_live dd_hard_reset_live)

lemma dd_dma_live: "live s \<Longrightarrow> live (snd (dd_dom_dma_read d c n s))" "live s \<Longrightarrow> live (snd (dd_dom_dma_write d c n s))"
  by (simp_all add: dd_dom_dma_read_def dd_dom_dma_write_def Let_def)

section \<open>Well-formed drives\<close>

lemma motor_fields [simp]:
  "dd_regs (dd_dv_active s) = (dd_regs s)(2 := dd_regs s 2 AND NOT (DD_STATUS_MTR_N_SPIN OR DD_STATUS_HEAD_RTRCT))"
  "dd_regs (dd_dv_sleep s) = (dd_regs s)(2 := dd_regs s 2 OR (DD_STATUS_MTR_N_SPIN OR DD_STATUS_HEAD_RTRCT))"
  "dd_regs (dd_dv_standby s) = (dd_regs s)(2 := dd_regs s 2 AND NOT DD_STATUS_MTR_N_SPIN OR DD_STATUS_HEAD_RTRCT)"
  by (simp_all add: dd_dv_active_def dd_dv_sleep_def dd_dv_standby_def dd_bits Let_def)

lemma motor_frame [simp]:
  "c2s_buf (dd_dv_active s) = c2s_buf s" "ds_buf (dd_dv_active s) = ds_buf s" "bm_write (dd_dv_active s) = bm_write s"
  "dd_idisk (dd_dv_active s) = dd_idisk s" "dd_idisk (dd_dv_standby s) = dd_idisk s" "dd_idisk (dd_dv_sleep s) = dd_idisk s"
  "disk_type (dd_dv_active s) = disk_type s" "timer_standby (dd_dv_active s) = timer_standby s"
  "timer_sleep (dd_dv_active s) = timer_sleep s" "bm_zone (dd_dv_active s) = bm_zone s"
  by (simp_all add: dd_dv_active_def dd_dv_standby_def dd_dv_sleep_def dd_bits Let_def)

lemma interrupt_fields [simp]:
  "dd_regs (signal_dd_interrupt m s) = (dd_regs s)(2 := dd_regs s 2 OR m)"
  "dd_regs (clear_dd_interrupt m s) = (dd_regs s)(2 := dd_regs s 2 AND NOT m)"
  "ds_buf (signal_dd_interrupt m s) = ds_buf s" "bm_write (signal_dd_interrupt m s) = bm_write s"
  "dd_idisk (signal_dd_interrupt m s) = dd_idisk s" "dd_idisk (clear_dd_interrupt m s) = dd_idisk s"
  "ds_buf (clear_dd_interrupt m s) = ds_buf s" "bm_write (clear_dd_interrupt m s) = bm_write s"
  by (simp_all add: signal_dd_interrupt_def clear_dd_interrupt_def dd_bits)

text \<open>The ranges that the comments of \<^verbatim>\<open>struct dd_controller\<close> give, and the sector size the host may set.\<close>

definition drive_ok :: "'a drive \<Rightarrow> bool" where
  "drive_ok s \<longleftrightarrow> bm_zone s < 16 \<and> disk_type s \<le> 6 \<and> dd_regs s DD_ASIC_HOST_SECBYTE \<le> 0xff \<and>
     timer_standby s \<in> {-1..255} \<and> timer_sleep s \<in> {-1..255}"

lemma drive_ok_frame [simp]:
  "drive_ok (remove_event_s ty s) = drive_ok s" "drive_ok (add_interrupt_event ty d s) = drive_ok s"
  "drive_ok (r4300_check_interrupt ip b s) = drive_ok s" "drive_ok (cp0_update_count s) = drive_ok s"
  "drive_ok (motor_timer m s) = drive_ok s" "drive_ok (check_bounds ok s) = drive_ok s" "drive_ok (set_fault s) = drive_ok s"
  "drive_ok (storage_disk_save k a n s) = drive_ok s"
  by (simp_all add: drive_ok_def)

lemma drive_ok_upd [simp]:
  "r \<noteq> 10 \<Longrightarrow> drive_ok (set_dd r v s) = drive_ok s" "drive_ok (s\<lparr>ds_buf := f\<rparr>) = drive_ok s" "drive_ok (s\<lparr>c2s_buf := f\<rparr>) = drive_ok s"
  "drive_ok (s\<lparr>dd_idisk := k\<rparr>) = drive_ok s" "drive_ok (s\<lparr>bm_write := b\<rparr>) = drive_ok s" "drive_ok (s\<lparr>bm_reset_held := b\<rparr>) = drive_ok s"
  "drive_ok (s\<lparr>dd_now := x, dd_last_update := y\<rparr>) = drive_ok s" "drive_ok (s\<lparr>dram := w\<rparr>) = drive_ok s"
  by (simp_all add: drive_ok_def)

lemma drive_ok_bits [simp]: "r \<noteq> 10 \<Longrightarrow> drive_ok (raise_dd r m s) = drive_ok s" "r \<noteq> 10 \<Longrightarrow> drive_ok (clear_dd r m s) = drive_ok s"
  by (simp_all add: dd_bits)

lemma drive_ok_motor [simp]:
  "drive_ok (dd_dv_active s) = drive_ok s" "drive_ok (dd_dv_standby s) = drive_ok s" "drive_ok (dd_dv_sleep s) = drive_ok s"
  "drive_ok (signal_dd_interrupt m s) = drive_ok s" "drive_ok (clear_dd_interrupt m s) = drive_ok s"
  by (simp_all add: dd_dv_active_def dd_dv_standby_def dd_dv_sleep_def signal_dd_interrupt_def clear_dd_interrupt_def Let_def)

lemma drive_ok_sector [simp]:
  "drive_ok (snd (seek_sector s)) = drive_ok s" "drive_ok (read_sector s) = drive_ok s"
  "drive_ok (write_sector s) = drive_ok s" "drive_ok (read_C2 s) = drive_ok s"
proof -
  show seek: "drive_ok (snd (seek_sector s)) = drive_ok s"
    by (simp add: seek_sector_def Let_def split: option.split sum.split disk_error.split)
  obtain b t where e: "seek_sector s = (b, t)" by fastforce
  then have "drive_ok t = drive_ok s" using seek by simp
  then show "drive_ok (read_sector s) = drive_ok s" "drive_ok (write_sector s) = drive_ok s"
    by (simp_all add: read_sector_def write_sector_def e Let_def split: option.split)
  show "drive_ok (read_C2 s) = drive_ok s" by (simp add: read_C2_def Let_def)
qed

lemma zone_of_head:
  assumes "head < 2"
  shows "get_zone_from_head_track head track - head + 8 * head < 16"
proof -
  have "get_zone_from_head_track 0 track < 8" by (simp add: get_zone_from_head_track_def)
  then show ?thesis using assms get_zone_head [of head track] by (auto simp: less_2_cases_iff)
qed

lemma cur_head_less: "unat (cur_head tk) < 2"
proof -
  have "tk AND 0x10000000 \<le> 0x10000000" by (rule word_and_le1)
  then have "unat (tk AND 0x10000000) \<le> 0x10000000" by (simp add: word_le_nat_alt)
  then show ?thesis by (simp add: cur_head_def drop_bit_eq_div unat_div)
qed

lemma drive_ok_move: "drive_ok s \<Longrightarrow> drive_ok (snd (move_head tk wr s))"
  using zone_of_head [OF cur_head_less] by (simp add: move_head_def Let_def drive_ok_def)

lemma drive_ok_seek: "drive_ok s \<Longrightarrow> drive_ok (snd (seek_track v s))"
  using drive_ok_move [of s] by (simp add: seek_track_def Let_def split_beta split: option.split)

lemma dd_delay_range: "dd_delay s \<in> {-1..255}"
proof -
  have "uint (w AND 0xff :: u32) \<le> 0xff" for w using word_and_le1 [of w "0xff"] by (simp add: word_le_def)
  moreover have "- 1 \<le> uint w" for w :: u32 by (rule order_trans [of _ 0]) simp_all
  ultimately show ?thesis by (simp add: dd_delay_def)
qed

lemma drive_ok_command: "drive_ok s \<Longrightarrow> drive_ok (snd (dd_command ck v s))"
proof -
  assume d: "drive_ok s"
  have "drive_ok (s\<lparr>timer_standby := dd_delay s\<rparr>)" "drive_ok (s\<lparr>timer_sleep := dd_delay s\<rparr>)" "drive_ok (set_disk_type s)"
    using d dd_delay_range [of s] by (auto simp: drive_ok_def set_disk_type_def Let_def not_less)
  then show ?thesis using d by (simp add: dd_command_def Let_def drive_ok_move drive_ok_seek)
qed

text \<open>What the guest and the events of the machine can do to the drive.\<close>

inductive dd_step :: "'a drive clock \<Rightarrow> 'a drive \<Rightarrow> 'a drive \<Rightarrow> bool" for ck where
  dd_poweron: "dd_step ck s (poweron_dd s)"
| dd_read: "dd_step ck s (snd (read_dd_regs a s))"
| dd_write: "dd_step ck s (write_dd_regs ck a v m s)"
| dd_dma_in: "dd_step ck s (snd (dd_dom_dma_read d c n s))"
| dd_dma_out: "dd_step ck s (snd (dd_dom_dma_write d c n s))"
| dd_mecha: "dd_step ck s (dd_mecha_int_handler s)"
| dd_bm: "dd_step ck s (dd_bm_int_handler s)"
| dd_dv: "dd_step ck s (dd_dv_int_handler s)"

inductive_cases dd_stepE: "dd_step ck s t"

lemma drive_ok_update: "drive_ok s \<Longrightarrow> drive_ok (dd_update_bm s)"
  by (simp add: dd_update_bm_def bm_write_sector_def bm_read_sector_def next_sector_def Let_def)

lemma drive_ok_write: "drive_ok s \<Longrightarrow> drive_ok (write_dd_regs ck a v m s)"
proof -
  assume d: "drive_ok s"
  have "drive_ok (write_dd_command ck v s)"
    using d by (simp add: write_dd_command_def dd_update_rtc_def Let_def split_beta drive_ok_command)
  moreover have "drive_ok (write_bm_control v s)"
    using d by (simp add: write_bm_control_def release_bm_reset_def Let_def)
  moreover have "drive_ok (dd_hard_reset s)"
  proof -
    have "drive_ok (u\<lparr>timer_sleep := 1, timer_standby := 3\<rparr>)" if "drive_ok u" for u :: "'a drive" using that by (simp add: drive_ok_def)
    then show ?thesis using d by (simp add: dd_hard_reset_def Let_def)
  qed
  moreover have "drive_ok (set_dd 10 (drop_bit 16 v AND 0xff) s)" using d by (simp add: drive_ok_def word_and_le1)
  ultimately show ?thesis using d by (simp add: write_dd_regs_def Let_def)
qed

lemma drive_ok_poweron: "drive_ok s \<Longrightarrow> drive_ok (poweron_dd s)"
  by (simp add: poweron_dd_def Let_def split: option.split) (simp add: drive_ok_def)

lemma dd_step_ok:
  assumes "dd_step ck s t" and "drive_ok s"
  shows "drive_ok t"
  using assms
  by cases (simp_all add: drive_ok_poweron drive_ok_write drive_ok_update read_dd_regs_def dd_dom_dma_read_def dd_dom_dma_write_def
      dd_mecha_int_handler_def dd_bm_int_handler_def dd_dv_int_handler_def Let_def)

section \<open>Transfers\<close>

definition running :: "'a drive \<Rightarrow> bool" where
  "running s \<longleftrightarrow> dd_regs s DD_ASIC_BM_STATUS_CTL AND DD_BM_STATUS_RUNNING \<noteq> 0"

definition more_blocks :: "'a drive \<Rightarrow> bool" where
  "more_blocks s \<longleftrightarrow> dd_regs s DD_ASIC_BM_STATUS_CTL AND DD_BM_STATUS_BLOCK \<noteq> 0"

text \<open>What a transfer depends on; the guest leaves it alone while it waits for sectors.\<close>

definition bm_view :: "'a drive \<Rightarrow> u32 \<times> u32 \<times> u32 \<times> u32 \<times> bool \<times> dd_disk option" where
  "bm_view s = (dd_regs s DD_ASIC_CUR_TK, dd_regs s DD_ASIC_BM_STATUS_CTL, dd_regs s DD_ASIC_CUR_SECTOR,
     dd_regs s DD_ASIC_HOST_SECBYTE, bm_write s, dd_idisk s)"

text \<open>A read that has come to sector \<open>n\<close> of block \<open>b\<close>, which is not the block retail units refuse.\<close>

definition reading :: "nat \<Rightarrow> nat \<Rightarrow> bool \<Rightarrow> 'a drive \<Rightarrow> bool" where
  "reading b n mb s \<longleftrightarrow>
     \<not> bm_write s \<and> running s \<and> more_blocks s = mb \<and> dd_regs s DD_ASIC_CUR_SECTOR = of_nat ((90 * b + n) * 0x10000) \<and>
     (drop_bit 16 (dd_regs s DD_ASIC_CUR_TK) AND 0x1fff \<noteq> 6 \<or> dd_development s)"

lemma reading_cong: "bm_view s = bm_view t \<Longrightarrow> reading b n mb s = reading b n mb t"
  by (simp add: bm_view_def reading_def running_def more_blocks_def dd_development_def)

lemma guest_keeps_transfer:
  "bm_view (snd (read_dd_regs a s)) = bm_view s" "bm_view (snd (dd_dom_dma_read d c n s)) = bm_view s"
  "bm_view (snd (dd_dom_dma_write d c n s)) = bm_view s"
  by (simp_all add: bm_view_def read_dd_regs_def dd_dom_dma_read_def dd_dom_dma_write_def dd_bits Let_def)

lemma low_byte: "unat (drop_bit 16 w AND 0xff :: u32) = unat w div 0x10000 mod 0x100"
proof -
  have "drop_bit 16 w AND 0xff = take_bit 8 (drop_bit 16 w)" by (simp add: take_bit_eq_mask mask_eq_exp_minus_1)
  then show ?thesis by (simp add: unsigned_take_bit_eq take_bit_nat_def drop_bit_eq_div unat_div)
qed

lemma cur_sector_at:
  assumes "dd_regs s DD_ASIC_CUR_SECTOR = of_nat (m * 0x10000)" and "m < 0x100"
  shows "cur_sector s = of_nat m"
proof -
  have "unat (dd_regs s DD_ASIC_CUR_SECTOR) = m * 0x10000" unfolding assms(1) using assms(2) by (intro unat_of_small) simp
  then have "unat (cur_sector s) = m" using assms(2) by (simp add: cur_sector_def low_byte)
  then show ?thesis using assms(2) unat_of_small [of m] by (simp add: word_unat_eq_iff)
qed

lemma sector_split:
  assumes "n < 90" and "b < 2"
  shows "(of_nat (90 * b + n) :: u32) div 90 = of_nat b" "(of_nat (90 * b + n) :: u32) mod 90 = of_nat n"
proof -
  have u: "unat (of_nat m :: u32) = m" if "m < 0x100" for m using that by (intro unat_of_small) simp
  show "(of_nat (90 * b + n) :: u32) div 90 = of_nat b" "(of_nat (90 * b + n) :: u32) mod 90 = of_nat n"
    using assms u [of "90 * b + n"] u [of b] u [of n] by (simp_all only: word_unat_eq_iff unat_div unat_mod) simp_all
qed

lemma sector_frame [simp]:
  "bm_write (read_sector s) = bm_write s" "dd_idisk (read_sector s) = dd_idisk s" "running (read_sector s) = running s"
  "more_blocks (read_sector s) = more_blocks s" "r \<noteq> 4 \<Longrightarrow> dd_regs (read_sector s) r = dd_regs s r"
proof -
  obtain a t where e: "seek_sector s = (a, t)" by fastforce
  have "t = s \<or> t = set_fault s \<or> t = raise_dd 4 DD_BM_STATUS_MICRO s"
    using e by (auto simp: seek_sector_def Let_def split: option.splits sum.splits disk_error.splits)
  then have t: "bm_write t = bm_write s" "dd_idisk t = dd_idisk s" "running t = running s" "more_blocks t = more_blocks s"
    "r \<noteq> 4 \<Longrightarrow> dd_regs t r = dd_regs s r" for r
    by (auto simp: dd_bits running_def more_blocks_def bit.conj_disj_distrib2)
  show "bm_write (read_sector s) = bm_write s" "dd_idisk (read_sector s) = dd_idisk s" "running (read_sector s) = running s"
    "more_blocks (read_sector s) = more_blocks s" "r \<noteq> 4 \<Longrightarrow> dd_regs (read_sector s) r = dd_regs s r"
    using t by (auto simp: read_sector_def e Let_def running_def more_blocks_def split: option.split)
qed

lemma read_C2_frame [simp]:
  "dd_regs (read_C2 s) = dd_regs s" "bm_write (read_C2 s) = bm_write s" "dd_idisk (read_C2 s) = dd_idisk s" "ds_buf (read_C2 s) = ds_buf s"
  by (simp_all add: read_C2_def Let_def)

lemma bm_view_status: "bm_view (set_dd 2 v s) = bm_view s" "bm_view (signal_dd_interrupt m (dd_dv_active s)) = bm_view s"
  by (simp_all add: bm_view_def)

lemma update_reading:
  assumes "reading b n mb s" and "b < 2" and "n < 89"
  obtains s1 where "bm_view s1 = bm_view s" "ds_buf s1 = ds_buf s" "reading b n mb s1"
    "dd_update_bm s = signal_dd_interrupt DD_STATUS_BM_INT (dd_dv_active (bm_read_sector (of_nat b) (of_nat n) s1))"
proof -
  let ?s1 = "clear_dd 2 (DD_STATUS_DATA_RQ OR DD_STATUS_C2_XFER) s"
  have v: "bm_view ?s1 = bm_view s" by (simp only: clear_dd_def bm_view_status)
  then have r: "reading b n mb ?s1" using assms(1) reading_cong by blast
  have "90 * b + n < 256" using assms(2,3) by simp
  then have "cur_sector ?s1 = of_nat (90 * b + n)" using r by (intro cur_sector_at) (simp_all only: reading_def)
  then have "cur_sector ?s1 div 90 = of_nat b" "cur_sector ?s1 mod 90 = of_nat n"
    using assms(2,3) sector_split [of n b] by auto
  moreover have "\<not> bm_write ?s1" "dd_regs s 4 AND DD_BM_STATUS_RUNNING \<noteq> 0"
    using assms(1) r by (simp_all only: reading_def running_def simp_thms)
  ultimately have "dd_update_bm s = signal_dd_interrupt DD_STATUS_BM_INT (dd_dv_active (bm_read_sector (of_nat b) (of_nat n) ?s1))"
    by (simp only: dd_update_bm_def Let_def if_False)
  with v r show ?thesis by (intro that [of ?s1]) (simp_all add: clear_dd_def)
qed

lemma bm_read_data:
  assumes "reading b n mb s" and "b < 2" and "n < 85"
  shows "bm_read_sector (of_nat b) (of_nat n) s = raise_dd DD_ASIC_CMD_STATUS DD_STATUS_DATA_RQ (next_sector (read_sector s))"
proof -
  have "(of_nat n :: u32) < 85" using assms(3) unat_of_small [of n] by (simp add: word_less_nat_alt)
  moreover have "\<not> (drop_bit 16 (dd_regs s 3) AND 0x1fff = 6 \<and> \<not> dd_development s)" using assms(1) by (simp add: reading_def)
  ultimately show ?thesis by (auto simp: bm_read_sector_def)
qed

lemma reading_next:
  assumes "reading b n mb s" and "\<And>r. r \<noteq> 4 \<Longrightarrow> dd_regs t r = dd_regs s r" "running t = running s" "more_blocks t = more_blocks s"
    "bm_write t = bm_write s" "dd_idisk t = dd_idisk s"
  shows "reading b (n + 1) mb (next_sector t)"
proof -
  have "dd_regs s 7 + 0x10000 = of_nat ((90 * b + (n + 1)) * 0x10000)" using assms(1) by (simp add: reading_def)
  then show ?thesis
    using assms by (simp add: reading_def next_sector_def running_def more_blocks_def dd_development_def)
qed

lemma read_step:
  assumes r: "reading b n mb s" and b: "b < 2" and n: "n < 89"
  shows "n < 88 \<Longrightarrow> reading b (n + 1) mb (dd_update_bm s)"
    "n = 88 \<Longrightarrow> mb \<Longrightarrow> reading (1 - b) 0 False (dd_update_bm s)"
    "n = 88 \<Longrightarrow> \<not> mb \<Longrightarrow> \<not> running (dd_update_bm s)"
proof -
  obtain s1 where s1: "reading b n mb s1" and
    u: "dd_update_bm s = signal_dd_interrupt DD_STATUS_BM_INT (dd_dv_active (bm_read_sector (of_nat b) (of_nat n) s1))"
    using update_reading [OF assms] by blast
  let ?t = "bm_read_sector (of_nat b) (of_nat n) s1"
  have v: "bm_view (dd_update_bm s) = bm_view ?t" by (simp only: u bm_view_status)
  have ok: "\<not> (drop_bit 16 (dd_regs s1 3) AND 0x1fff = 6 \<and> \<not> dd_development s1)" using s1 by (simp add: reading_def)
  have w: "(of_nat n :: u32) < of_nat m \<longleftrightarrow> n < m" if "m < 100" for m
    using that n unat_of_small [of n] unat_of_small [of m] by (simp add: word_less_nat_alt)
  show "reading b (n + 1) mb (dd_update_bm s)" if m: "n < 88"
  proof (cases "n < 85")
    case True
    have "bm_view ?t = bm_view (next_sector (read_sector s1))" by (simp only: bm_read_data [OF s1 b True] raise_dd_def bm_view_status)
    moreover have "reading b (n + 1) mb (next_sector (read_sector s1))" by (rule reading_next [OF s1]) simp_all
    ultimately show ?thesis using v reading_cong by metis
  next
    case False
    then have "?t = next_sector (read_C2 s1)"
      using ok m w [of 85] w [of 88] by (auto simp: bm_read_sector_def)
    moreover have "reading b (n + 1) mb (next_sector (read_C2 s1))" 
      by (rule reading_next [OF s1]) (simp_all add: running_def more_blocks_def)
    ultimately show ?thesis using v reading_cong by metis
  qed
  have "?t = (if more_blocks s1
     then clear_dd 4 DD_BM_STATUS_BLOCK (set_dd 7 (push_bit 16 ((1 - of_nat b) * 90)) (raise_dd 2 DD_STATUS_C2_XFER (read_C2 s1)))
     else clear_dd 4 DD_BM_STATUS_RUNNING (raise_dd 2 DD_STATUS_C2_XFER (read_C2 s1)))" if "n = 88"
    using ok that by (auto simp: bm_read_sector_def Let_def more_blocks_def dd_bits)
  then show "reading (1 - b) 0 False (dd_update_bm s)" if "n = 88" mb
    using that s1 b v by (subst reading_cong [OF v])
      (auto simp: reading_def running_def more_blocks_def dd_bits less_2_cases_iff dd_development_def bit.conj_disj_distrib and.assoc)
  show "\<not> running (dd_update_bm s)" if "n = 88" "\<not> mb"
    using \<open>n = 88 \<Longrightarrow> ?t = _\<close> that s1 v by (auto simp: bm_view_def running_def reading_def dd_bits and.assoc)
qed

lemma reading_run:
  assumes "reading b 0 mb (r m)" and "b < 2" and s: "\<And>i. bm_view (r (Suc i)) = bm_view (dd_bm_int_handler (r i))" and "n < 89"
  shows "reading b n mb (r (m + n))"
  using assms(4)
proof (induction n)
  case (Suc n)
  then have "reading b (n + 1) mb (dd_update_bm (r (m + n)))" using read_step(1) [of b n mb] assms(2) by simp
  then show ?case using reading_cong [OF s [of "m + n"]] by (simp add: dd_bm_int_handler_def)
qed (use assms(1) in simp)

lemma update_frame:
  assumes "\<not> bm_write s"
  shows "dd_idisk (dd_update_bm s) = dd_idisk s" "dd_regs (dd_update_bm s) 3 = dd_regs s 3" "dd_regs (dd_update_bm s) 10 = dd_regs s 10"
  using assms by (simp_all add: dd_update_bm_def bm_read_sector_def next_sector_def dd_bits Let_def)

lemma unat_sector: "m < 0x100 \<Longrightarrow> unat (of_nat m :: u32) = m"
  by (rule unat_of_small) simp

lemma read_delivers:
  assumes r: "reading b n mb s" and b: "b < 2" and n: "n < 85" and k: "dd_idisk s = Some k"
    and a: "get_sector_base k (unat (cur_head (dd_regs s DD_ASIC_CUR_TK))) (unat (cur_track (dd_regs s DD_ASIC_CUR_TK))) b n = Inr a"
    and j: "j < sector_length s"
  shows "ds_buf (dd_update_bm s) (j XOR 3) = dk_data k (a + j)"
proof -
  obtain s1 where v: "bm_view s1 = bm_view s" and s1: "reading b n mb s1" and
    u: "dd_update_bm s = signal_dd_interrupt DD_STATUS_BM_INT (dd_dv_active (bm_read_sector (of_nat b) (of_nat n) s1))"
    using update_reading [OF r b] n by auto
  have lt: "90 * b + n < 0x100" using b n by simp
  have c: "cur_sector s1 = of_nat (90 * b + n)" using s1 lt by (intro cur_sector_at) (simp_all only: reading_def)
  have e: "dd_regs s1 3 = dd_regs s 3" "dd_idisk s1 = Some k" "sector_length s1 = sector_length s" "\<not> bm_write s1"
    using v k s1 by (simp_all add: bm_view_def sector_length_def reading_def)
  have "seek_sector s1 = (Some a, s1)"
    using a c e b n by (simp only: seek_sector_def Let_def if_False diff_zero sector_split option.case) (simp add: sector_split unat_sector)
  then have "ds_buf (read_sector s1) (j XOR 3) = dk_data k (a + j)"
    using e j by (simp add: read_sector_def Let_def from_dram_at disk_image_def)
  then show ?thesis by (simp only: u bm_read_data [OF s1 b n]) (simp add: next_sector_def dd_bits)
qed

section \<open>Properties\<close>

text \<open>
  C30. A read of two blocks that the guest has started comes to its end: whatever the guest does between two
  events of the buffer manager that leaves the transfer alone (it may read registers and fetch the
  buffers), every event delivers the next sector of the image in the data buffer, the second block
  follows the first, and after the 89 sectors of each block the transfer is over.
\<close>

theorem block_read_completes:
  assumes b: "b < 2" and start: "reading b 0 True (r 0)" and disk: "dd_idisk (r 0) = Some k"
    and steps: "\<And>i. bm_view (r (Suc i)) = bm_view (dd_bm_int_handler (r i))"
  shows "(\<forall>i < 178. running (r i)) \<and> \<not> running (r 178) \<and>
    (\<forall>i < 178. \<forall>a j. let block = (if i < 89 then b else 1 - b); sector = i mod 89; tk = dd_regs (r 0) DD_ASIC_CUR_TK in
       sector < SECTORS_PER_BLOCK \<and> get_sector_base k (unat (cur_head tk)) (unat (cur_track tk)) block sector = Inr a \<and>
       j < sector_length (r 0) \<longrightarrow> ds_buf (dd_bm_int_handler (r i)) (j XOR 3) = dk_data k (a + j))"
proof -
  have one: "reading b n True (r n)" if "n < 89" for n using reading_run [where r = r, OF start b steps that] by simp
  have "reading (1 - b) 0 False (r 89)"
    using read_step(2) [OF one [of 88] b] reading_cong [OF steps [of 88]] by (simp add: dd_bm_int_handler_def)
  then have two: "reading (1 - b) n False (r (89 + n))" if "n < 89" for n using reading_run [where r = r, OF _ _ steps that, of "1 - b" False 89] by simp
  have all: "reading (if i < 89 then b else 1 - b) (i mod 89) (i < 89) (r i)" if "i < 178" for i
    using one [of i] two [of "i - 89"] that by (cases "i < 89") (simp_all add: le_mod_geq)
  have last: "\<not> running (r 178)"
    using read_step(3) [OF two [of 88]] b steps [of 177] by (simp add: dd_bm_int_handler_def bm_view_def running_def)
  have same: "dd_idisk (r i) = Some k \<and> dd_regs (r i) 3 = dd_regs (r 0) 3 \<and> sector_length (r i) = sector_length (r 0)" if "i < 178" for i
    using that
  proof (induction i)
    case (Suc i)
    then have "\<not> bm_write (r i)" using all [of i] by (simp add: reading_def)
    then show ?case
      using Suc steps [of i] update_frame [of "r i"] by (simp add: dd_bm_int_handler_def bm_view_def sector_length_def)
  qed (simp add: disk)
  show ?thesis
  proof (intro conjI allI impI last)
    show "running (r i)" if "i < 178" for i using all [OF that] by (simp add: reading_def)
    fix i a j assume i: "i < (178::nat)"
    show "let block = (if i < 89 then b else 1 - b); sector = i mod 89; tk = dd_regs (r 0) DD_ASIC_CUR_TK in
       sector < SECTORS_PER_BLOCK \<and> get_sector_base k (unat (cur_head tk)) (unat (cur_track tk)) block sector = Inr a \<and>
       j < sector_length (r 0) \<longrightarrow> ds_buf (dd_bm_int_handler (r i)) (j XOR 3) = dk_data k (a + j)"
      unfolding Let_def dd_bm_int_handler_def
      using read_delivers [OF all [OF i]] b same [OF i] by auto
  qed
qed


lemma mame_sector_image:
  assumes "dk_format k = DISK_FORMAT_MAME" and "get_sector_base k head track b n = Inr a"
  shows "a = mame_base k (head, track, b, n)" "get_sector_base (k\<lparr>dk_data := d\<rparr>) head track b n = Inr a"
  using assms by (auto simp: get_sector_base_def get_sector_base_mame_def mame_base_def mame_offset_def sector_size_of_def
      protected_lblock_def Let_def split: if_splits)

text \<open>
  C32. A sector that is written to a disk in MAME format is read back as it was, every other sector of the disk
  keeps its bytes, and the write stays inside the image.
\<close>

theorem sector_write_read:
  assumes k: "dd_idisk s = Some k" "dk_format k = DISK_FORMAT_MAME" "dk_size k = MAME_FORMAT_DUMP_SIZE"
    and w: "bm_write s" "cur_sector s = of_nat (90 * b + n) + 1" "sector_length s = sector_size_of k head track"
    and h: "head = unat (cur_head (dd_regs s DD_ASIC_CUR_TK))" "track = unat (cur_track (dd_regs s DD_ASIC_CUR_TK))"
    and x: "(head, track, b, n) \<in> mame_sectors" and a: "get_sector_base k head track b n = Inr a"
  shows "fault (write_sector s) = fault s \<and>
    (\<forall>u j. dd_idisk u = dd_idisk (write_sector s) \<and> \<not> bm_write u \<and> dd_regs u DD_ASIC_CUR_TK = dd_regs s DD_ASIC_CUR_TK \<and>
       sector_length u = sector_length s \<and> cur_sector u = of_nat (90 * b + n) \<and> j < sector_length s \<longrightarrow>
       ds_buf (read_sector u) (j XOR 3) = ds_buf s (j XOR 3)) \<and>
    (\<forall>y \<in> mame_sectors. y \<noteq> (head, track, b, n) \<longrightarrow> (\<forall>j < mame_len k y.
       disk_image (write_sector s) (mame_base k y + j) = disk_image s (mame_base k y + j)))"
proof -
  have v: "head < 2" "track < 0x497" "b < 2" "n < 90" using x by (auto simp: mame_sectors_def)
  have lt: "90 * b + n < 0x100" "b < 0x100" "n < 0x100" using v by simp_all
  note sp = sector_split [OF v(4,3)]
  let ?len = "sector_length s" and ?d = "blit (dk_data k) a (\<lambda>i. ds_buf s (i XOR 3)) (sector_length s)"
  have base: "a = mame_base k (head, track, b, n)" by (rule mame_sector_image(1) [OF k(2) a])
  have "0 < zone_sec_size ! mame_zone head track \<and> zone_sec_size ! mame_zone head track \<le> 232"
  proof -
    have "\<forall>z < 16. 0 < zone_sec_size ! z \<and> zone_sec_size ! z \<le> 232" unfolding less16 by (simp add: zone_sec_size_def)
    then show ?thesis using mame_position(1) [OF x] by blast
  qed
  then have len: "?len \<le> 0x100" using sector_size_le(2) [OF v(1,2), of k] w(3) by simp
  have ins: "a + ?len \<le> MAME_FORMAT_DUMP_SIZE" using mame.inside [OF x, of k] w(3) by (simp add: base mame_len_def)
  have seek: "seek_sector s = (Some a, s)"
    using a k(1) w(1,2) lt by (simp only: seek_sector_def Let_def if_True add_diff_cancel_right' sp h [symmetric] option.case unat_sector sum.case)
  then have wr: "write_sector s = storage_disk_save (k\<lparr>dk_data := ?d\<rparr>) a ?len (s\<lparr>dd_idisk := Some (k\<lparr>dk_data := ?d\<rparr>)\<rparr>)"
    using k len ins by (simp add: write_sector_def Let_def check_bounds_def image_size_def)
  have f: "fault (storage_disk_save k' c m u) = fault u" for k' c m and u :: "'a drive"
    by (simp add: storage_disk_save_def split: disk_saver.split)
  have disk: "dd_idisk (write_sector s) = Some (k\<lparr>dk_data := ?d\<rparr>)" by (simp add: wr)
  have rd: "ds_buf (read_sector u) (j XOR 3) = ds_buf s (j XOR 3)"
    if u: "dd_idisk u = dd_idisk (write_sector s)" "\<not> bm_write u" "dd_regs u 3 = dd_regs s 3" "sector_length u = ?len"
      "cur_sector u = of_nat (90 * b + n)" "j < ?len" for u j
  proof -
    have "seek_sector u = (Some a, u)"
      using mame_sector_image(2) [OF k(2) a] u(1,2,3,5) disk lt
      by (simp only: seek_sector_def Let_def if_False diff_zero sp h [symmetric] option.case unat_sector sum.case)
    then show ?thesis using u disk by (simp add: read_sector_def Let_def from_dram_at disk_image_def blit_def)
  qed
  have "disk_image (write_sector s) (mame_base k y + j) = disk_image s (mame_base k y + j)"
    if "y \<in> mame_sectors" "y \<noteq> (head, track, b, n)" "j < mame_len k y" for y j
  proof -
    have "mame_base k y + mame_len k y \<le> a \<or> a + ?len \<le> mame_base k y"
      using mame.disjoint [OF that(1) x that(2), of k] by (simp add: base w(3) mame_len_def)
    then show ?thesis using that(3) k(1) disk by (auto simp: disk_image_def blit_def)
  qed
  then show ?thesis using rd by (auto simp: wr f)
qed

lemma lock_bits: "cur_head (w OR DD_TRACK_LOCK) = cur_head w" "cur_track (w OR DD_TRACK_LOCK) = cur_track w"
  by (simp_all add: cur_head_def cur_track_def bit.conj_disj_distrib2)

lemma move_head_fields [simp]:
  "dd_regs (snd (move_head tk wr s)) 3 = tk OR DD_TRACK_LOCK" "bm_write (snd (move_head tk wr s)) = wr"
  "dd_idisk (snd (move_head tk wr s)) = dd_idisk s" "disk_type (snd (move_head tk wr s)) = disk_type s"
  by (simp_all add: move_head_def Let_def)

lemma write_bm_control_keeps:
  assumes "value AND DD_BM_CTL_START \<noteq> 0"
  shows "dd_regs (write_bm_control value s) 2 AND DD_STATUS_WR_PR_ERR = dd_regs s 2 AND DD_STATUS_WR_PR_ERR"
    "bm_write (write_bm_control value s) = bm_write s" "dd_idisk (write_bm_control value s) = dd_idisk s" "running (write_bm_control value s)"
  using assms by (simp_all add: write_bm_control_def release_bm_reset_def Let_def dd_bits and.assoc running_def bit.conj_disj_distrib2)

lemma protected_stops:
  assumes "running s" and "bm_write s" and "dd_regs s 2 AND DD_STATUS_WR_PR_ERR \<noteq> 0"
  shows "dd_idisk (dd_update_bm s) = dd_idisk s" "\<not> running (dd_update_bm s)" "dd_regs (dd_update_bm s) 2 AND DD_STATUS_BM_ERR \<noteq> 0"
  using assms by (simp_all add: dd_update_bm_def bm_write_sector_def running_def Let_def dd_bits and.assoc bit.conj_disj_distrib2)

text \<open>
  C33. A seek for writing to a track before the writable area of the disk type keeps the disk as it is: when the
  guest then starts the buffer manager, with whatever options, the transfer ends at once with an
  error and not a byte of the image has changed.
\<close>

theorem write_protection:
  fixes s :: "'a drive"
  defines "head \<equiv> cur_head (dd_regs s DD_ASIC_DATA)" and "track \<equiv> cur_track (dd_regs s DD_ASIC_DATA)"
  assumes z: "at startTrackZones (unat ((ucast (disk_type s) AND 0xf) - head + 3 :: u32)) = Some z" "unat track < z"
    and v: "value AND DD_BM_CTL_START \<noteq> 0"
  shows "let s1 = write_dd_regs ck 0x05000508 0x00020001 0xFFFFFFFF s;
             s2 = dd_bm_int_handler (write_dd_regs ck 0x05000510 value 0xFFFFFFFF s1)
         in dd_idisk s2 = dd_idisk s \<and> \<not> running s2 \<and> dd_regs s2 DD_ASIC_CMD_STATUS AND DD_STATUS_BM_ERR \<noteq> 0"
proof -
  let ?s0 = "raise_dd 2 DD_STATUS_BUSY_STATE (dd_update_rtc ck s)"
  have r: "dd_reg 0x05000508 = 2" "dd_reg 0x05000510 = 4" by (simp_all add: dd_reg_def reg_index_def)
  have d: "dd_regs ?s0 0 = dd_regs s 0" "disk_type ?s0 = disk_type s" "dd_idisk ?s0 = dd_idisk s"
    by (simp_all add: dd_bits dd_update_rtc_def Let_def)
  define t where "t = snd (seek_track 0x00020001 ?s0)"
  have t: "dd_idisk t = dd_idisk s" "bm_write t" "dd_regs t 2 AND DD_STATUS_WR_PR_ERR \<noteq> 0"
    using z d by (simp_all add: t_def seek_track_def Let_def split_beta dd_bits lock_bits head_def track_def bit.conj_disj_distrib2)
  obtain c where "seek_track 0x00020001 ?s0 = (c, t)" unfolding t_def by (metis prod.collapse)
  then have s1: "write_dd_regs ck 0x05000508 0x00020001 0xFFFFFFFF s = add_interrupt_event DD_MC_INT c (cp0_update_count t)"
    by (simp add: write_dd_regs_def r write_dd_command_def dd_command_def Let_def)
  have s2: "write_dd_regs ck 0x05000510 value 0xFFFFFFFF u = write_bm_control value u" for u
    by (simp add: write_dd_regs_def r Let_def)
  let ?u = "write_bm_control value (add_interrupt_event DD_MC_INT c (cp0_update_count t))"
  have "running ?u" "bm_write ?u" "dd_regs ?u 2 AND DD_STATUS_WR_PR_ERR \<noteq> 0" "dd_idisk ?u = dd_idisk s"
    using write_bm_control_keeps [OF v, of "add_interrupt_event DD_MC_INT c (cp0_update_count t)"] t by simp_all
  then show ?thesis using protected_stops [of ?u] by (simp add: s1 s2 dd_bm_int_handler_def Let_def)
qed

text \<open>
  For disk type 6, which has no writable area, a seek for writing on the lower head reads past the end
  of the table of zone starts.
\<close>

theorem seek_past_zone_table:
  assumes "disk_type s = 6" and "cur_head (dd_regs s DD_ASIC_DATA) = 0"
  shows "fault (snd (seek_track 0x00020001 s))"
  using assms by (simp add: seek_track_def Let_def split_beta dd_bits lock_bits at_def startTrackZones_def)

lemma pending_room:
  assumes "live s"
  shows "length (pending (r4300_check_interrupt ip b s)) \<le> Suc (length (pending s))"
    "length (pending (remove_event_s ty s)) \<le> length (pending s)"
    "length (pending (add_interrupt_event ty d s)) \<le> Suc (length (pending s))"
proof -
  have w: "wf_queue (cp0_q s)" using assms by (simp add: live_def)
  have "length (q_events q) \<le> Suc (length (pending s))" if "push_node t c (cp0_q s) = Some q" for t c q
    using iq.push_room [OF w, of t c] iq.push_full [OF w, of t c] iq.within [OF w] that
    by (cases "length (pending s) < INTERRUPT_NODES_POOL_CAPACITY") auto
  then show "length (pending (r4300_check_interrupt ip b s)) \<le> Suc (length (pending s))"
    by (auto simp: r4300_check_interrupt_def Let_def split: option.split)
  obtain q' where "q_events q' = del_event ty (pending s)" "remove_event_s ty s = s\<lparr>cp0_q := q'\<rparr>"
    using remove_event_effect [OF w] by blast
  then show "length (pending (remove_event_s ty s)) \<le> length (pending s)" by (simp add: del_event_length)
  show "length (pending (add_interrupt_event ty d s)) \<le> Suc (length (pending s))"
  proof (cases "length (pending s) < 16")
    case True
    then obtain q' where "q_events q' = ins_event (before_at (event_base s) (count_reg s + d)) (ty, count_reg s + d) (pending s)"
      "add_interrupt_event_count ty (count_reg s + d) s = with_queue q' s"
      using add_event_effect [OF w] by blast
    then show ?thesis by (simp add: add_interrupt_event_def)
  next
    case False
    then have "length (pending s) = 16" using iq.within [OF w] by (simp add: INTERRUPT_NODES_POOL_CAPACITY_def)
    then show ?thesis using add_event_full [OF w] by (simp add: add_interrupt_event_def)
  qed
qed

lemma dd_queue_frame [simp]:
  "cp0_q (set_dd r v s) = cp0_q s" "cp0_q (check_bounds ok s) = cp0_q s" "cp0_q (storage_disk_save k a n s) = cp0_q s"
  "cp0_q (read_C2 s) = cp0_q s"
  by (simp_all add: set_dd_def check_bounds_def set_fault_def storage_disk_save_def call_out_def read_C2_def Let_def split: disk_saver.split)

lemma sector_queue [simp]: "cp0_q (read_sector s) = cp0_q s" "cp0_q (write_sector s) = cp0_q s"
proof -
  obtain b t where e: "seek_sector s = (b, t)" by fastforce
  then have "cp0_q t = cp0_q s"
    by (auto simp: seek_sector_def Let_def dd_bits set_fault_def split: option.splits sum.splits disk_error.splits)
  then show "cp0_q (read_sector s) = cp0_q s" "cp0_q (write_sector s) = cp0_q s"
    by (simp_all add: read_sector_def write_sector_def e Let_def split: option.split)
qed

lemma bm_queue [simp]: "cp0_q (bm_write_sector b n s) = cp0_q s" "cp0_q (bm_read_sector b n s) = cp0_q s"
  by (simp_all add: bm_write_sector_def bm_read_sector_def next_sector_def dd_bits Let_def)

lemma add_event_pending:
  assumes "live s" and "length (pending s) < 16"
  shows "t \<in> fst ` set (pending (add_interrupt_event t d s))"
proof -
  obtain q' where "q_events q' = ins_event (before_at (event_base s) (count_reg s + d)) (t, count_reg s + d) (pending s)"
    "add_interrupt_event_count t (count_reg s + d) s = with_queue q' s"
    using add_event_effect [of s "count_reg s + d" t] assms unfolding live_def by blast
  then show ?thesis by (auto simp: add_interrupt_event_def)
qed

lemma active_room:
  assumes "live s"
  shows "length (pending (dd_dv_active s)) \<le> Suc (length (pending s))"
proof -
  let ?s = "clear_dd 2 (DD_STATUS_MTR_N_SPIN OR DD_STATUS_HEAD_RTRCT) s"
  have l: "live ?s" "pending ?s = pending s" using assms by (simp_all add: clear_dd_def)
  have r: "live (remove_event_s DD_DV_INT ?s)" using remove_event_live [OF l(1)] by simp
  have "length (pending (motor_timer m (remove_event_s DD_DV_INT ?s))) \<le> Suc (length (pending s))" for m
    using pending_room(3) [OF r, of DD_DV_INT "word_of_int (46875000 * m)"] pending_room(2) [OF l(1), of DD_DV_INT] l(2)
    by (auto simp: motor_timer_def)
  then show ?thesis by (simp only: dd_dv_active_def Let_def)
qed

text \<open>
  C31. The guest keeps a transfer going by reading the status register: with room in the queue, after every
  step of a running transfer that read acknowledges the interrupt and queues the event of the next step.
\<close>

theorem bm_event_scheduled:
  assumes l: "live s" and room: "length (pending s) < 13" and r: "running s"
  shows "let t = snd (read_dd_regs 0x05000508 (dd_bm_int_handler s)) in
    DD_BM_INT \<in> fst ` set (pending t) \<and> live t \<and> dd_regs t DD_ASIC_CMD_STATUS AND DD_STATUS_BM_INT = 0"
proof -
  define s1 where "s1 = clear_dd 2 (DD_STATUS_DATA_RQ OR DD_STATUS_C2_XFER) s"
  define u where "u = (if bm_write s1 then bm_write_sector (cur_sector s1 div 90) (cur_sector s1 mod 90) s1
    else bm_read_sector (cur_sector s1 div 90) (cur_sector s1 mod 90) s1)"
  have q: "cp0_q u = cp0_q s" by (simp add: u_def s1_def clear_dd_def)
  have h: "dd_bm_int_handler s = signal_dd_interrupt DD_STATUS_BM_INT (dd_dv_active u)"
    using r by (simp add: dd_bm_int_handler_def dd_update_bm_def running_def Let_def u_def s1_def)
  have a: "live (dd_dv_active u)" "length (pending (dd_dv_active u)) < 14"
    using l room live_cong [OF q] active_room [of u] q by (simp_all add: motor_live)
  define t where "t = dd_bm_int_handler s"
  have t: "live t" "length (pending t) < 15" "dd_regs t 2 AND DD_STATUS_BM_INT \<noteq> 0"
    using a pending_room(1) [of "raise_dd 2 DD_STATUS_BM_INT (dd_dv_active u)" CP0_CAUSE_IP3 True]
    by (auto simp: t_def h dd_interrupt_live) (simp_all add: signal_dd_interrupt_def dd_bits bit.conj_disj_distrib2)
  define v where "v = (if dd_idisk t \<noteq> None then raise_dd 2 DD_STATUS_DISK_PRES t else clear_dd 2 DD_STATUS_DISK_PRES t)"
  have v: "live v" "length (pending v) < 15" "dd_regs v 2 AND DD_STATUS_BM_INT \<noteq> 0"
    using t by (simp_all add: v_def dd_bits and.assoc bit.conj_disj_distrib2)
  define w where "w = clear_dd_interrupt DD_STATUS_BM_INT v"
  have w: "live w" "length (pending w) < 16"
    using v pending_room(1) [of "clear_dd 2 DD_STATUS_BM_INT v" CP0_CAUSE_IP3 False]
    by (simp_all add: w_def dd_interrupt_live) (simp add: clear_dd_interrupt_def clear_dd_def)
  have "snd (read_dd_regs 0x05000508 t) = add_interrupt_event DD_BM_INT (8020 + cur_track (dd_regs v 3) div 56) w"
    using v(3) by (auto simp: read_dd_regs_def dd_reg_def reg_index_def v_def w_def check_bounds_def Let_def split: if_splits)
  then show ?thesis
    using add_event_pending [OF w] add_interrupt_event_live [OF w(1)] by (simp add: t_def [symmetric] w_def and.assoc)
qed

section \<open>Witnesses\<close>

definition sample_image :: dd_disk where
  "sample_image = (blank_disk DISK_FORMAT_MAME)\<lparr>dk_data := of_nat\<rparr>"

text \<open>A drive that has started to read the two blocks of track 100 in zone 0.\<close>

definition sample_dd :: dd_controller where
  "sample_dd = controllers.extend sample_pads
     (dd_controller.fields ((\<lambda>_. 0)(3 := 0x00640000, 4 := 0x81000000, 10 := 231)) (\<lambda>_. 0) (\<lambda>_. 7) (\<lambda>_. 0) 0 3 1 False False 0 0 0
        (\<lambda>_. 0) 0x400000 (Some sample_image))"

definition sample_dd_clock :: "dd_controller clock" where
  "sample_dd_clock = \<lparr>clock_get_time = (\<lambda>_. 0), clock_localtime =
     (\<lambda>_. \<lparr>tm_sec = 0, tm_min = 0, tm_hour = 0, tm_mday = 1, tm_wday = 4, tm_mon = 0, tm_year = 70\<rparr>)\<rparr>"

lemma sample_dd_simps [simp]:
  "dd_regs sample_dd = (\<lambda>_. 0)(3 := 0x00640000, 4 := 0x81000000, 10 := 231)" "dd_idisk sample_dd = Some sample_image"
  "\<not> bm_write sample_dd" "disk_type sample_dd = 0" "bm_zone sample_dd = 0" "timer_standby sample_dd = 3" "timer_sleep sample_dd = 1"
  "ds_buf sample_dd = (\<lambda>_. 7)"
  by (simp_all add: sample_dd_def controllers.defs dd_controller.defs)

lemma sample_image_simps [simp]:
  "dk_format sample_image = DISK_FORMAT_MAME" "dk_size sample_image = MAME_FORMAT_DUMP_SIZE" "dk_data sample_image = of_nat"
  "\<not> development sample_image"
  by (simp_all add: sample_image_def blank_disk_def)

lemma sample_dd_reading: "reading 0 0 True sample_dd"
  by (simp add: reading_def running_def more_blocks_def)

theorem block_read_completes_witness:
  "\<not> running (((\<lambda>s. snd (read_dd_regs 0x05000508 (dd_bm_int_handler s))) ^^ 178) sample_dd)"
proof -
  let ?r = "\<lambda>i. ((\<lambda>s. snd (read_dd_regs 0x05000508 (dd_bm_int_handler s))) ^^ i) sample_dd"
  have "bm_view (?r (Suc i)) = bm_view (dd_bm_int_handler (?r i))" for i by (simp add: guest_keeps_transfer)
  then have "(\<forall>i < 178. running (?r i)) \<and> \<not> running (?r 178)"
    using block_read_completes [of 0 ?r sample_image] sample_dd_reading by simp
  then show ?thesis by blast
qed


lemma sample_sector: "get_sector_base sample_image 0 100 0 0 = Inr 3944000" "sector_size_of sample_image 0 100 = 232"
  by (simp_all add: get_sector_base_def get_sector_base_mame_def mame_offset_def get_zone_from_head_track_def TrackZoneTable_def
      start_offset_def BLOCKSIZE_def zone_sec_size_def zone_sec_size_phys_def sector_size_of_def Let_def)

theorem sector_write_read_witness:
  "let s = (set_dd 7 0x10000 sample_dd)\<lparr>bm_write := True\<rparr> in fault (write_sector s) = fault s"
proof -
  let ?s = "(set_dd 7 0x10000 sample_dd)\<lparr>bm_write := True\<rparr>"
  have r: "dd_regs ?s 3 = 0x00640000" "cur_sector ?s = 1" "sector_length ?s = 232" "dd_idisk ?s = Some sample_image"
    by (simp_all add: cur_sector_def sector_length_def)
  have "(0, 100, 0, 0) \<in> mame_sectors" by (simp add: mame_sectors_def)
  then have "fault (write_sector ?s) = fault ?s"
    by (intro conjunct1 [OF sector_write_read [where k = sample_image and b = 0 and n = 0 and head = 0 and track = 100 and a = 3944000]])
      (simp_all only: r sample_sector, simp_all add: cur_head_def cur_track_def)
  then show ?thesis by (simp only: Let_def)
qed

theorem write_protection_witness:
  "let s1 = write_dd_regs sample_dd_clock 0x05000508 0x00020001 0xFFFFFFFF sample_dd;
       s2 = dd_bm_int_handler (write_dd_regs sample_dd_clock 0x05000510 0x80000000 0xFFFFFFFF s1)
   in dd_idisk s2 = dd_idisk sample_dd \<and> \<not> running s2 \<and> dd_regs s2 DD_ASIC_CMD_STATUS AND DD_STATUS_BM_ERR \<noteq> 0"
  by (rule write_protection [of sample_dd "0x1d1"]) (simp_all add: at_def startTrackZones_def cur_head_def cur_track_def)

theorem seek_past_zone_table_witness: "fault (snd (seek_track 0x00020001 (sample_dd\<lparr>disk_type := 6\<rparr>)))"
  by (rule seek_past_zone_table) (simp_all add: cur_head_def)

lemma sample_dd_queue: "live sample_dd" "length (pending sample_dd) = 2"
proof -
  have q: "cp0_q sample_dd = cp0_q sample_vi"
    by (simp add: sample_dd_def controllers.defs sample_pads_def gb_carts.defs sample_gb_def cart.defs sample_cart_def pi_controller.defs
        sample_pi_def pif.defs sample_pif_def rsp_core.defs sample_rsp_def ai_controller.defs sample_ai_def vi_controller.defs)
  show "live sample_dd" "length (pending sample_dd) = 2"
    using sample_vi_queue by (simp_all add: q live_def queue_ok_def)
qed

theorem bm_event_scheduled_witness:
  "DD_BM_INT \<in> fst ` set (pending (snd (read_dd_regs 0x05000508 (dd_bm_int_handler sample_dd))))"
  using bm_event_scheduled [of sample_dd] sample_dd_queue by (simp add: running_def Let_def)

end
