(* ===== verification/Is_Viewer.thy ===== *)
theory Is_Viewer
  imports Dd
begin

text \<open>
  The debug output port (\<^verbatim>\<open>src/src/device/cart/is_viewer.c\<close>): the guest fills a buffer and asks for its
  first bytes to be appended to the output, which is printed line by line. The overlapping \<^verbatim>\<open>memcpy\<close>
  that drops a printed line is modelled as the move it is meant to be.
\<close>

abbreviation (input) IS_BUFFER_SIZE :: nat where "IS_BUFFER_SIZE \<equiv> 0x1000"

record is_viewer = dd_controller +
  is_data :: "nat \<Rightarrow> u8"
  is_output :: "nat \<Rightarrow> u8"
  is_pos :: nat

definition poweron_is_viewer :: "'a is_viewer_scheme \<Rightarrow> 'a is_viewer_scheme" where
  "poweron_is_viewer s = s\<lparr>is_data := (\<lambda>_. 0), is_output := (\<lambda>_. 0), is_pos := 0\<rparr>"

definition read_is_viewer :: "u32 \<Rightarrow> 'a is_viewer_scheme \<Rightarrow> u32" where
  "read_is_viewer address s = tohl (load32 (is_data s) (unat (address AND 0xfff)))"

text \<open>\<^verbatim>\<open>memchr(output_buffer, '\n', buffer_pos)\<close>\<close>

definition newline_at :: "(nat \<Rightarrow> u8) \<Rightarrow> nat \<Rightarrow> nat option" where
  "newline_at out n = (case filter (\<lambda>i. out i = 10) [0..<n] of [] \<Rightarrow> None | i # _ \<Rightarrow> Some i)"

text \<open>The C string that starts the buffer once the newline at \<open>i\<close> is a terminator.\<close>

definition line_of :: "(nat \<Rightarrow> u8) \<Rightarrow> nat \<Rightarrow> u8 list" where
  "line_of out i = takeWhile (\<lambda>b. b \<noteq> 0) (map out [0..<i])"

lemma newline_at_less: "newline_at out n = Some i \<Longrightarrow> i < n \<and> out i = 10"
proof -
  assume "newline_at out n = Some i"
  then obtain xs where "filter (\<lambda>i. out i = 10) [0..<n] = i # xs"
    by (auto simp: newline_at_def split: list.splits)
  then have "i \<in> set (filter (\<lambda>i. out i = 10) [0..<n])" by simp
  then show ?thesis by simp
qed

lemma newline_at_None: "newline_at out n = None \<longleftrightarrow> (\<forall>i < n. out i \<noteq> 10)"
proof -
  have "newline_at out n = None \<longleftrightarrow> filter (\<lambda>i. out i = 10) [0..<n] = []"
    by (simp add: newline_at_def split: list.split)
  then show ?thesis by (auto simp: filter_empty_conv)
qed

function flush_lines :: "(nat \<Rightarrow> u8) \<Rightarrow> nat \<Rightarrow> u8 list list \<Rightarrow> (nat \<Rightarrow> u8) \<times> nat \<times> u8 list list" where
  "flush_lines out n ls =
     (case newline_at out n of
        None \<Rightarrow> (out, n, ls)
      | Some i \<Rightarrow>
          let out1 = out(i := 0);
              out2 = blit out1 0 (\<lambda>j. out1 (i + 1 + j)) (IS_BUFFER_SIZE - (i + 1))
          in flush_lines out2 (n - (i + 1)) (ls @ [line_of out i]))"
  by pat_completeness auto

termination
  by (relation "measure (\<lambda>(out, n, ls). n)") (auto dest: newline_at_less)

declare flush_lines.simps [simp del]

definition print_lines :: "u8 list list \<Rightarrow> 'a is_viewer_scheme \<Rightarrow> 'a is_viewer_scheme" where
  "print_lines ls s = fold (\<lambda>l. call_out (Debug_print l)) ls s"

definition append_output :: "nat \<Rightarrow> 'a is_viewer_scheme \<Rightarrow> 'a is_viewer_scheme" where
  "append_output n s0 =
     (let s = check_bounds (0x20 + n \<le> IS_BUFFER_SIZE) s0;
          out = blit (is_output s) (is_pos s) (\<lambda>i. is_data s (0x20 + i)) n;
          (out', pos', ls) = flush_lines out (is_pos s + n) []
      in print_lines ls (s\<lparr>is_output := out', is_pos := pos'\<rparr>))"

definition write_is_viewer :: "u32 \<Rightarrow> u32 \<Rightarrow> u32 \<Rightarrow> 'a is_viewer_scheme \<Rightarrow> 'a is_viewer_scheme" where
  "write_is_viewer address0 value msk s =
     (let address = address0 AND 0xfff; w = value AND msk in
      if address = 0x14
      then if 0 < w
        then if IS_BUFFER_SIZE < is_pos s \<or> IS_BUFFER_SIZE < unat w \<or> IS_BUFFER_SIZE < is_pos s + unat w
          then s\<lparr>is_output := (\<lambda>_. 0), is_pos := 0\<rparr>
          else append_output (unat w) s
        else s
      else s\<lparr>is_data := store32 (is_data s) (unat address) (tohl w)\<rparr>)"

section \<open>Lemmas\<close>

lemma flush_lines_done:
  assumes "flush_lines out n ls = (out', n', ls')"
  shows "n' \<le> n \<and> newline_at out' n' = None"
  using assms
proof (induction out n ls arbitrary: out' n' ls' rule: flush_lines.induct)
  case (1 out n ls)
  show ?case
  proof (cases "newline_at out n")
    case None
    then show ?thesis using 1(2) by (subst (asm) flush_lines.simps) simp
  next
    case (Some i)
    then have "flush_lines (blit (out(i := 0)) 0 (\<lambda>j. (out(i := 0)) (i + 1 + j)) (IS_BUFFER_SIZE - (i + 1)))
        (n - (i + 1)) (ls @ [line_of out i]) = (out', n', ls')"
      using 1(2) by (subst (asm) flush_lines.simps) (simp add: Let_def)
    then show ?thesis using 1(1) [OF Some refl refl] by fastforce
  qed
qed

lemma print_lines_frame [simp]:
  "is_pos (print_lines ls s) = is_pos s" "is_output (print_lines ls s) = is_output s" "live (print_lines ls s) = live s"
proof -
  have c: "is_pos (call_out c t) = is_pos t" "is_output (call_out c t) = is_output t" for c and t :: "'a is_viewer_scheme"
    by (simp_all add: call_out_def)
  show "is_pos (print_lines ls s) = is_pos s" "is_output (print_lines ls s) = is_output s" "live (print_lines ls s) = live s"
    unfolding print_lines_def by (induction ls arbitrary: s) (simp_all add: c)
qed

lemma is_viewer_live_upd [simp]:
  "live (s\<lparr>is_output := x, is_pos := p\<rparr>) = live s" "live (s\<lparr>is_data := d\<rparr>) = live s"
  "is_pos (check_bounds ok s) = is_pos s"
  by (simp_all add: live_def check_bounds_def set_fault_def)

lemma write_is_viewer_live: "live s \<Longrightarrow> live (write_is_viewer a v m s)"
  by (simp add: write_is_viewer_def append_output_def Let_def split_beta)

section \<open>Properties\<close>

text \<open>
  However the guest drives the port, the buffered output stays within its 4096 bytes, and
  after a request every complete line has been printed: the buffer holds no newline.
\<close>

theorem is_viewer_buffer_bounded:
  assumes "is_pos s \<le> IS_BUFFER_SIZE" and "newline_at (is_output s) (is_pos s) = None"
  shows "is_pos (write_is_viewer address value msk s) \<le> IS_BUFFER_SIZE \<and>
    newline_at (is_output (write_is_viewer address value msk s)) (is_pos (write_is_viewer address value msk s)) = None"
proof -
  have "is_pos (append_output n s) \<le> IS_BUFFER_SIZE \<and>
      newline_at (is_output (append_output n s)) (is_pos (append_output n s)) = None" if "is_pos s + n \<le> IS_BUFFER_SIZE" for n
  proof -
    obtain out' pos' ls where f: "flush_lines (blit (is_output (check_bounds (0x20 + n \<le> IS_BUFFER_SIZE) s)) (is_pos s)
        (\<lambda>i. is_data (check_bounds (0x20 + n \<le> IS_BUFFER_SIZE) s) (0x20 + i)) n) (is_pos s + n) [] = (out', pos', ls)"
      by (metis surj_pair)
    then show ?thesis using flush_lines_done [OF f] that by (simp add: append_output_def Let_def)
  qed
  moreover have "newline_at (\<lambda>_. 0) 0 = None" by (simp add: newline_at_None)
  ultimately show ?thesis using assms by (auto simp: write_is_viewer_def Let_def)
qed

text \<open>
  The length check forgets that the text starts at offset 0x20 of its buffer: a request for
  more than 0xfe0 bytes reads past the end of it.
\<close>

theorem is_viewer_reads_past_buffer:
  assumes "address AND 0xfff = 0x14" and "is_pos s = 0" and "0xfe0 < unat (value AND msk)" and "unat (value AND msk) \<le> 0x1000"
  shows "fault (write_is_viewer address value msk s)"
proof -
  have "fault (print_lines ls t) = fault t" for ls and t :: "'a is_viewer_scheme"
    unfolding print_lines_def by (induction ls arbitrary: t) simp_all
  moreover have "0 < value AND msk" using assms(3) by (simp add: word_less_nat_alt)
  ultimately show ?thesis using assms
    by (simp add: write_is_viewer_def append_output_def Let_def split_beta)
qed

definition sample_is :: is_viewer where
  "sample_is = dd_controller.extend sample_dd (is_viewer.fields (\<lambda>_. 65) (\<lambda>_. 0) 0)"

lemma sample_is_simps: "is_pos sample_is = 0" "is_output sample_is = (\<lambda>_. 0)"
  by (simp_all add: sample_is_def dd_controller.defs is_viewer.defs)

theorem is_viewer_buffer_bounded_witness: "is_pos (write_is_viewer 0x13ff0014 5 0xFFFFFFFF sample_is) \<le> IS_BUFFER_SIZE"
  using is_viewer_buffer_bounded [of sample_is "0x13ff0014" 5 "0xFFFFFFFF"] by (simp add: sample_is_simps newline_at_None)

theorem is_viewer_reads_past_buffer_witness: "fault (write_is_viewer 0x13ff0014 0x1000 0xFFFFFFFF sample_is)"
  by (rule is_viewer_reads_past_buffer) (simp_all add: sample_is_simps)

end
