(* ===== verification/Fpu.thy ===== *)
theory Fpu
  imports Cp1
begin

text \<open>
  Floating point operations (\<^verbatim>\<open>src/src/device/r4300/fpu.h\<close>) in the build without \<^verbatim>\<open>ACCURATE_FPU_BEHAVIOR\<close>, where
  the functions that track IEEE exceptions are empty. Singles and doubles are their IEEE 754 encodings in 32
  and 64 bits. Sign, order and the recognition of NaNs are computed on the encoding; the arithmetic of the
  host, its conversions and \<^verbatim>\<open>math.h\<close> are the parameter \<open>h\<close>, given the rounding direction where it matters.

  A function of the source that writes \<^verbatim>\<open>*dest\<close> returns the value; those that change \<^verbatim>\<open>*fcr31\<close> or the
  rounding direction of the host return the coprocessor too.
\<close>

abbreviation (input) FCR31_CMP_BIT :: u32 where "FCR31_CMP_BIT \<equiv> 0x800000"
abbreviation (input) FCR31_CAUSE_INVALIDOP_BIT :: u32 where "FCR31_CAUSE_INVALIDOP_BIT \<equiv> 0x010000"
abbreviation (input) FCR31_CAUSE_UNIMPLOP_BIT :: u32 where "FCR31_CAUSE_UNIMPLOP_BIT \<equiv> 0x020000"
abbreviation (input) FCR31_FLAG_INVALIDOP_BIT :: u32 where "FCR31_FLAG_INVALIDOP_BIT \<equiv> 0x000040"

section \<open>Encodings\<close>

definition f32_isnan :: "u32 \<Rightarrow> bool" where "f32_isnan x \<longleftrightarrow> x AND 0x7FFFFFFF > 0x7F800000"

definition f64_isnan :: "u64 \<Rightarrow> bool" where "f64_isnan x \<longleftrightarrow> x AND 0x7FFFFFFFFFFFFFFF > 0x7FF0000000000000"

text \<open>The order of numbers is that of their magnitudes as integers, with the sign.\<close>

definition f32_key :: "u32 \<Rightarrow> int" where
  "f32_key x = (if bit x 31 then - uint (x AND 0x7FFFFFFF) else uint (x AND 0x7FFFFFFF))"

definition f64_key :: "u64 \<Rightarrow> int" where
  "f64_key x = (if bit x 63 then - uint (x AND 0x7FFFFFFFFFFFFFFF) else uint (x AND 0x7FFFFFFFFFFFFFFF))"

definition f32_eq :: "u32 \<Rightarrow> u32 \<Rightarrow> bool" where
  "f32_eq x y \<longleftrightarrow> \<not> f32_isnan x \<and> \<not> f32_isnan y \<and> f32_key x = f32_key y"

definition f32_lt :: "u32 \<Rightarrow> u32 \<Rightarrow> bool" where
  "f32_lt x y \<longleftrightarrow> \<not> f32_isnan x \<and> \<not> f32_isnan y \<and> f32_key x < f32_key y"

definition f32_le :: "u32 \<Rightarrow> u32 \<Rightarrow> bool" where
  "f32_le x y \<longleftrightarrow> \<not> f32_isnan x \<and> \<not> f32_isnan y \<and> f32_key x \<le> f32_key y"

definition f64_eq :: "u64 \<Rightarrow> u64 \<Rightarrow> bool" where
  "f64_eq x y \<longleftrightarrow> \<not> f64_isnan x \<and> \<not> f64_isnan y \<and> f64_key x = f64_key y"

definition f64_lt :: "u64 \<Rightarrow> u64 \<Rightarrow> bool" where
  "f64_lt x y \<longleftrightarrow> \<not> f64_isnan x \<and> \<not> f64_isnan y \<and> f64_key x < f64_key y"

definition f64_le :: "u64 \<Rightarrow> u64 \<Rightarrow> bool" where
  "f64_le x y \<longleftrightarrow> \<not> f64_isnan x \<and> \<not> f64_isnan y \<and> f64_key x \<le> f64_key y"

section \<open>The host\<close>

record host_fpu =
  f32_add :: "u32 \<Rightarrow> u32 \<Rightarrow> u32 \<Rightarrow> u32"
  f32_sub :: "u32 \<Rightarrow> u32 \<Rightarrow> u32 \<Rightarrow> u32"
  f32_mul :: "u32 \<Rightarrow> u32 \<Rightarrow> u32 \<Rightarrow> u32"
  f32_div :: "u32 \<Rightarrow> u32 \<Rightarrow> u32 \<Rightarrow> u32"
  f32_sqrt :: "u32 \<Rightarrow> u32 \<Rightarrow> u32"
  f32_of_int :: "u32 \<Rightarrow> int \<Rightarrow> u32"
  f32_floor :: "u32 \<Rightarrow> u32"
  f32_ceil :: "u32 \<Rightarrow> u32"
  f32_trunc :: "u32 \<Rightarrow> u32"
  f32_round :: "u32 \<Rightarrow> u32"
  f32_to_i32 :: "u32 \<Rightarrow> u32"
  f32_to_i64 :: "u32 \<Rightarrow> u64"
  f64_add :: "u32 \<Rightarrow> u64 \<Rightarrow> u64 \<Rightarrow> u64"
  f64_sub :: "u32 \<Rightarrow> u64 \<Rightarrow> u64 \<Rightarrow> u64"
  f64_mul :: "u32 \<Rightarrow> u64 \<Rightarrow> u64 \<Rightarrow> u64"
  f64_div :: "u32 \<Rightarrow> u64 \<Rightarrow> u64 \<Rightarrow> u64"
  f64_sqrt :: "u32 \<Rightarrow> u64 \<Rightarrow> u64"
  f64_of_int :: "u32 \<Rightarrow> int \<Rightarrow> u64"
  f64_floor :: "u64 \<Rightarrow> u64"
  f64_ceil :: "u64 \<Rightarrow> u64"
  f64_trunc :: "u64 \<Rightarrow> u64"
  f64_round :: "u64 \<Rightarrow> u64"
  f64_to_i32 :: "u64 \<Rightarrow> u32"
  f64_to_i64 :: "u64 \<Rightarrow> u64"
  f64_of_f32 :: "u32 \<Rightarrow> u64"
  f32_of_f64 :: "u32 \<Rightarrow> u64 \<Rightarrow> u32"

definition set_rounding :: "cp1 \<Rightarrow> cp1" where
  "set_rounding c = c\<lparr>fe_round := fcr31 c AND 3\<rparr>"

section \<open>Conversions\<close>

definition cvt_s_w :: "host_fpu \<Rightarrow> u32 \<Rightarrow> cp1 \<Rightarrow> u32 \<times> cp1" where
  "cvt_s_w h source c0 = (let c = set_rounding c0 in (f32_of_int h (fe_round c) (sint source), c))"

definition cvt_d_w :: "host_fpu \<Rightarrow> u32 \<Rightarrow> cp1 \<Rightarrow> u64 \<times> cp1" where
  "cvt_d_w h source c = (f64_of_int h (fe_round c) (sint source), c)"

definition cvt_s_l :: "host_fpu \<Rightarrow> u64 \<Rightarrow> cp1 \<Rightarrow> u32 \<times> cp1" where
  "cvt_s_l h source c0 = (let c = set_rounding c0 in (f32_of_int h (fe_round c) (sint source), c))"

definition cvt_d_l :: "host_fpu \<Rightarrow> u64 \<Rightarrow> cp1 \<Rightarrow> u64 \<times> cp1" where
  "cvt_d_l h source c0 = (let c = set_rounding c0 in (f64_of_int h (fe_round c) (sint source), c))"

definition cvt_d_s :: "host_fpu \<Rightarrow> u32 \<Rightarrow> cp1 \<Rightarrow> u64 \<times> cp1" where
  "cvt_d_s h source c = (f64_of_f32 h source, c)"

definition cvt_s_d :: "host_fpu \<Rightarrow> u64 \<Rightarrow> cp1 \<Rightarrow> u32 \<times> cp1" where
  "cvt_s_d h source c0 = (let c = set_rounding c0 in (f32_of_f64 h (fe_round c) source, c))"

text \<open>Rounding to the nearest integer, ties to even; 0.5 is \<open>0x3F000000\<close> as a single and \<open>0x3FE0000000000000\<close> as a double.\<close>

definition round_l_s :: "host_fpu \<Rightarrow> u32 \<Rightarrow> cp1 \<Rightarrow> u64" where
  "round_l_s h source c =
     (let remainder = f32_sub h (fe_round c) source (f32_floor h source);
          to_odd = odd (sint (f32_to_i64 h (f32_trunc h source)))
      in if f32_eq remainder 0x3F000000
         then if f32_lt source 0
              then if to_odd then f32_to_i64 h (f32_floor h source) else f32_to_i64 h (f32_ceil h source)
              else if to_odd then f32_to_i64 h (f32_ceil h source) else f32_to_i64 h (f32_floor h source)
         else f32_to_i64 h (f32_round h source))"

definition round_w_s :: "host_fpu \<Rightarrow> u32 \<Rightarrow> cp1 \<Rightarrow> u32" where
  "round_w_s h source c =
     (let remainder = f32_sub h (fe_round c) source (f32_floor h source);
          to_odd = odd (sint (f32_to_i32 h (f32_trunc h source)))
      in if f32_eq remainder 0x3F000000
         then if f32_lt source 0
              then if to_odd then f32_to_i32 h (f32_floor h source) else f32_to_i32 h (f32_ceil h source)
              else if to_odd then f32_to_i32 h (f32_ceil h source) else f32_to_i32 h (f32_floor h source)
         else f32_to_i32 h (f32_round h source))"

definition trunc_l_s :: "host_fpu \<Rightarrow> u32 \<Rightarrow> u64" where "trunc_l_s h source = f32_to_i64 h (f32_trunc h source)"

definition trunc_w_s :: "host_fpu \<Rightarrow> u32 \<Rightarrow> u32" where "trunc_w_s h source = f32_to_i32 h (f32_trunc h source)"

definition ceil_l_s :: "host_fpu \<Rightarrow> u32 \<Rightarrow> u64" where "ceil_l_s h source = f32_to_i64 h (f32_ceil h source)"

definition ceil_w_s :: "host_fpu \<Rightarrow> u32 \<Rightarrow> u32" where "ceil_w_s h source = f32_to_i32 h (f32_ceil h source)"

definition floor_l_s :: "host_fpu \<Rightarrow> u32 \<Rightarrow> u64" where "floor_l_s h source = f32_to_i64 h (f32_floor h source)"

definition floor_w_s :: "host_fpu \<Rightarrow> u32 \<Rightarrow> u32" where "floor_w_s h source = f32_to_i32 h (f32_floor h source)"

definition round_l_d :: "host_fpu \<Rightarrow> u64 \<Rightarrow> cp1 \<Rightarrow> u64" where
  "round_l_d h source c =
     (let remainder = f64_sub h (fe_round c) source (f64_floor h source);
          to_odd = odd (sint (f64_to_i64 h (f64_trunc h source)))
      in if f64_eq remainder 0x3FE0000000000000
         then if f64_lt source 0
              then if to_odd then f64_to_i64 h (f64_floor h source) else f64_to_i64 h (f64_ceil h source)
              else if to_odd then f64_to_i64 h (f64_ceil h source) else f64_to_i64 h (f64_floor h source)
         else f64_to_i64 h (f64_round h source))"

definition round_w_d :: "host_fpu \<Rightarrow> u64 \<Rightarrow> cp1 \<Rightarrow> u32" where
  "round_w_d h source c =
     (let remainder = f64_sub h (fe_round c) source (f64_floor h source);
          to_odd = odd (sint (f64_to_i32 h (f64_trunc h source)))
      in if f64_eq remainder 0x3FE0000000000000
         then if f64_lt source 0
              then if to_odd then f64_to_i32 h (f64_floor h source) else f64_to_i32 h (f64_ceil h source)
              else if to_odd then f64_to_i32 h (f64_ceil h source) else f64_to_i32 h (f64_floor h source)
         else f64_to_i32 h (f64_round h source))"

definition trunc_l_d :: "host_fpu \<Rightarrow> u64 \<Rightarrow> u64" where "trunc_l_d h source = f64_to_i64 h (f64_trunc h source)"

definition trunc_w_d :: "host_fpu \<Rightarrow> u64 \<Rightarrow> u32" where "trunc_w_d h source = f64_to_i32 h (f64_trunc h source)"

definition ceil_l_d :: "host_fpu \<Rightarrow> u64 \<Rightarrow> u64" where "ceil_l_d h source = f64_to_i64 h (f64_ceil h source)"

definition ceil_w_d :: "host_fpu \<Rightarrow> u64 \<Rightarrow> u32" where "ceil_w_d h source = f64_to_i32 h (f64_ceil h source)"

definition floor_l_d :: "host_fpu \<Rightarrow> u64 \<Rightarrow> u64" where "floor_l_d h source = f64_to_i64 h (f64_floor h source)"

definition floor_w_d :: "host_fpu \<Rightarrow> u64 \<Rightarrow> u32" where "floor_w_d h source = f64_to_i32 h (f64_floor h source)"

definition cvt_w_s :: "host_fpu \<Rightarrow> u32 \<Rightarrow> cp1 \<Rightarrow> u32" where
  "cvt_w_s h source c =
     (let m = fcr31 c AND 3 in
      if m = 0 then round_w_s h source c else if m = 1 then trunc_w_s h source
      else if m = 2 then ceil_w_s h source else floor_w_s h source)"

definition cvt_l_s :: "host_fpu \<Rightarrow> u32 \<Rightarrow> cp1 \<Rightarrow> u64" where
  "cvt_l_s h source c =
     (let m = fcr31 c AND 3 in
      if m = 0 then round_l_s h source c else if m = 1 then trunc_l_s h source
      else if m = 2 then ceil_l_s h source else floor_l_s h source)"

definition cvt_w_d :: "host_fpu \<Rightarrow> u64 \<Rightarrow> cp1 \<Rightarrow> u32" where
  "cvt_w_d h source c =
     (let m = fcr31 c AND 3 in
      if m = 0 then round_w_d h source c else if m = 1 then trunc_w_d h source
      else if m = 2 then ceil_w_d h source else floor_w_d h source)"

definition cvt_l_d :: "host_fpu \<Rightarrow> u64 \<Rightarrow> cp1 \<Rightarrow> u64" where
  "cvt_l_d h source c =
     (let m = fcr31 c AND 3 in
      if m = 0 then round_l_d h source c else if m = 1 then trunc_l_d h source
      else if m = 2 then ceil_l_d h source else floor_l_d h source)"

section \<open>Comparisons\<close>

text \<open>\<^verbatim>\<open>*fcr31 | FCR31_CMP_BIT\<close> or \<^verbatim>\<open>*fcr31 & ~FCR31_CMP_BIT\<close>, and the two bits of an invalid operation.\<close>

definition set_cmp :: "bool \<Rightarrow> cp1 \<Rightarrow> cp1" where
  "set_cmp b c = c\<lparr>fcr31 := (if b then fcr31 c OR FCR31_CMP_BIT else fcr31 c AND NOT FCR31_CMP_BIT)\<rparr>"

definition set_invalid :: "cp1 \<Rightarrow> cp1" where
  "set_invalid c = c\<lparr>fcr31 := fcr31 c OR FCR31_CAUSE_INVALIDOP_BIT OR FCR31_FLAG_INVALIDOP_BIT\<rparr>"

definition c_f_s :: "u32 \<Rightarrow> u32 \<Rightarrow> cp1 \<Rightarrow> cp1" where
  "c_f_s source target c =
     (if f32_isnan source \<or> f32_isnan target then set_invalid (set_cmp False c) else set_cmp False c)"

definition c_un_s :: "u32 \<Rightarrow> u32 \<Rightarrow> cp1 \<Rightarrow> cp1" where
  "c_un_s source target c =
     (if f32_isnan source \<or> f32_isnan target then set_cmp True c else set_cmp (f32_isnan source \<or> f32_isnan target) c)"

definition c_eq_s :: "u32 \<Rightarrow> u32 \<Rightarrow> cp1 \<Rightarrow> cp1" where
  "c_eq_s source target c =
     (if f32_isnan source \<or> f32_isnan target then set_cmp False c else set_cmp (f32_eq source target) c)"

definition c_ueq_s :: "u32 \<Rightarrow> u32 \<Rightarrow> cp1 \<Rightarrow> cp1" where
  "c_ueq_s source target c =
     (if f32_isnan source \<or> f32_isnan target then set_cmp True c else set_cmp (f32_eq source target) c)"

definition c_olt_s :: "u32 \<Rightarrow> u32 \<Rightarrow> cp1 \<Rightarrow> cp1" where
  "c_olt_s source target c =
     (if f32_isnan source \<or> f32_isnan target then set_cmp False c else set_cmp (f32_lt source target) c)"

definition c_ult_s :: "u32 \<Rightarrow> u32 \<Rightarrow> cp1 \<Rightarrow> cp1" where
  "c_ult_s source target c =
     (if f32_isnan source \<or> f32_isnan target then set_cmp True c else set_cmp (f32_lt source target) c)"

definition c_ole_s :: "u32 \<Rightarrow> u32 \<Rightarrow> cp1 \<Rightarrow> cp1" where
  "c_ole_s source target c =
     (if f32_isnan source \<or> f32_isnan target then set_cmp False c else set_cmp (f32_le source target) c)"

definition c_ule_s :: "u32 \<Rightarrow> u32 \<Rightarrow> cp1 \<Rightarrow> cp1" where
  "c_ule_s source target c =
     (if f32_isnan source \<or> f32_isnan target then set_cmp True c else set_cmp (f32_le source target) c)"

definition c_sf_s :: "u32 \<Rightarrow> u32 \<Rightarrow> cp1 \<Rightarrow> cp1" where
  "c_sf_s source target c =
     (if f32_isnan source \<or> f32_isnan target then set_invalid (set_cmp False c) else set_cmp False c)"

definition c_ngle_s :: "u32 \<Rightarrow> u32 \<Rightarrow> cp1 \<Rightarrow> cp1" where
  "c_ngle_s source target c =
     (if f32_isnan source \<or> f32_isnan target then set_invalid (set_cmp True c) else set_cmp False c)"

definition c_seq_s :: "u32 \<Rightarrow> u32 \<Rightarrow> cp1 \<Rightarrow> cp1" where
  "c_seq_s source target c =
     (if f32_isnan source \<or> f32_isnan target then set_invalid (set_cmp False c) else set_cmp (f32_eq source target) c)"

definition c_ngl_s :: "u32 \<Rightarrow> u32 \<Rightarrow> cp1 \<Rightarrow> cp1" where
  "c_ngl_s source target c =
     (if f32_isnan source \<or> f32_isnan target then set_invalid (set_cmp True c) else set_cmp (f32_eq source target) c)"

definition c_lt_s :: "u32 \<Rightarrow> u32 \<Rightarrow> cp1 \<Rightarrow> cp1" where
  "c_lt_s source target c =
     (if f32_isnan source \<or> f32_isnan target then set_invalid (set_cmp False c) else set_cmp (f32_lt source target) c)"

definition c_nge_s :: "u32 \<Rightarrow> u32 \<Rightarrow> cp1 \<Rightarrow> cp1" where
  "c_nge_s source target c =
     (if f32_isnan source \<or> f32_isnan target then set_invalid (set_cmp True c) else set_cmp (f32_lt source target) c)"

definition c_le_s :: "u32 \<Rightarrow> u32 \<Rightarrow> cp1 \<Rightarrow> cp1" where
  "c_le_s source target c =
     (if f32_isnan source \<or> f32_isnan target then set_invalid (set_cmp False c) else set_cmp (f32_le source target) c)"

definition c_ngt_s :: "u32 \<Rightarrow> u32 \<Rightarrow> cp1 \<Rightarrow> cp1" where
  "c_ngt_s source target c =
     (if f32_isnan source \<or> f32_isnan target then set_invalid (set_cmp True c) else set_cmp (f32_le source target) c)"

definition c_f_d :: "cp1 \<Rightarrow> cp1" where "c_f_d c = set_cmp False c"

definition c_un_d :: "u64 \<Rightarrow> u64 \<Rightarrow> cp1 \<Rightarrow> cp1" where
  "c_un_d source target c =
     (if f64_isnan source \<or> f64_isnan target then set_cmp False c else set_cmp (f64_isnan source \<or> f64_isnan target) c)"

definition c_eq_d :: "u64 \<Rightarrow> u64 \<Rightarrow> cp1 \<Rightarrow> cp1" where
  "c_eq_d source target c =
     (if f64_isnan source \<or> f64_isnan target then set_cmp False c else set_cmp (f64_eq source target) c)"

definition c_ueq_d :: "u64 \<Rightarrow> u64 \<Rightarrow> cp1 \<Rightarrow> cp1" where
  "c_ueq_d source target c =
     (if f64_isnan source \<or> f64_isnan target then set_cmp True c else set_cmp (f64_eq source target) c)"

definition c_olt_d :: "u64 \<Rightarrow> u64 \<Rightarrow> cp1 \<Rightarrow> cp1" where
  "c_olt_d source target c =
     (if f64_isnan source \<or> f64_isnan target then set_cmp False c else set_cmp (f64_lt source target) c)"

definition c_ult_d :: "u64 \<Rightarrow> u64 \<Rightarrow> cp1 \<Rightarrow> cp1" where
  "c_ult_d source target c =
     (if f64_isnan source \<or> f64_isnan target then set_cmp True c else set_cmp (f64_lt source target) c)"

definition c_ole_d :: "u64 \<Rightarrow> u64 \<Rightarrow> cp1 \<Rightarrow> cp1" where
  "c_ole_d source target c =
     (if f64_isnan source \<or> f64_isnan target then set_cmp False c else set_cmp (f64_le source target) c)"

definition c_ule_d :: "u64 \<Rightarrow> u64 \<Rightarrow> cp1 \<Rightarrow> cp1" where
  "c_ule_d source target c =
     (if f64_isnan source \<or> f64_isnan target then set_cmp True c else set_cmp (f64_le source target) c)"

definition c_sf_d :: "u64 \<Rightarrow> u64 \<Rightarrow> cp1 \<Rightarrow> cp1" where
  "c_sf_d source target c =
     (if f64_isnan source \<or> f64_isnan target then set_invalid (set_cmp False c) else set_cmp False c)"

definition c_ngle_d :: "u64 \<Rightarrow> u64 \<Rightarrow> cp1 \<Rightarrow> cp1" where
  "c_ngle_d source target c =
     (if f64_isnan source \<or> f64_isnan target then set_invalid (set_cmp True c) else set_cmp False c)"

definition c_seq_d :: "u64 \<Rightarrow> u64 \<Rightarrow> cp1 \<Rightarrow> cp1" where
  "c_seq_d source target c =
     (if f64_isnan source \<or> f64_isnan target then set_invalid (set_cmp False c) else set_cmp (f64_eq source target) c)"

definition c_ngl_d :: "u64 \<Rightarrow> u64 \<Rightarrow> cp1 \<Rightarrow> cp1" where
  "c_ngl_d source target c =
     (if f64_isnan source \<or> f64_isnan target then set_invalid (set_cmp True c) else set_cmp (f64_eq source target) c)"

definition c_lt_d :: "u64 \<Rightarrow> u64 \<Rightarrow> cp1 \<Rightarrow> cp1" where
  "c_lt_d source target c =
     (if f64_isnan source \<or> f64_isnan target then set_invalid (set_cmp False c) else set_cmp (f64_lt source target) c)"

definition c_nge_d :: "u64 \<Rightarrow> u64 \<Rightarrow> cp1 \<Rightarrow> cp1" where
  "c_nge_d source target c =
     (if f64_isnan source \<or> f64_isnan target then set_invalid (set_cmp True c) else set_cmp (f64_lt source target) c)"

definition c_le_d :: "u64 \<Rightarrow> u64 \<Rightarrow> cp1 \<Rightarrow> cp1" where
  "c_le_d source target c =
     (if f64_isnan source \<or> f64_isnan target then set_invalid (set_cmp False c) else set_cmp (f64_le source target) c)"

definition c_ngt_d :: "u64 \<Rightarrow> u64 \<Rightarrow> cp1 \<Rightarrow> cp1" where
  "c_ngt_d source target c =
     (if f64_isnan source \<or> f64_isnan target then set_invalid (set_cmp True c) else set_cmp (f64_le source target) c)"

section \<open>Arithmetic\<close>

definition add_s :: "host_fpu \<Rightarrow> u32 \<Rightarrow> u32 \<Rightarrow> cp1 \<Rightarrow> u32 \<times> cp1" where
  "add_s h source1 source2 c0 = (let c = set_rounding c0 in (f32_add h (fe_round c) source1 source2, c))"

definition sub_s :: "host_fpu \<Rightarrow> u32 \<Rightarrow> u32 \<Rightarrow> cp1 \<Rightarrow> u32 \<times> cp1" where
  "sub_s h source1 source2 c0 = (let c = set_rounding c0 in (f32_sub h (fe_round c) source1 source2, c))"

definition mul_s :: "host_fpu \<Rightarrow> u32 \<Rightarrow> u32 \<Rightarrow> cp1 \<Rightarrow> u32 \<times> cp1" where
  "mul_s h source1 source2 c0 = (let c = set_rounding c0 in (f32_mul h (fe_round c) source1 source2, c))"

definition div_s :: "host_fpu \<Rightarrow> u32 \<Rightarrow> u32 \<Rightarrow> cp1 \<Rightarrow> u32 \<times> cp1" where
  "div_s h source1 source2 c0 = (let c = set_rounding c0 in (f32_div h (fe_round c) source1 source2, c))"

definition sqrt_s :: "host_fpu \<Rightarrow> u32 \<Rightarrow> cp1 \<Rightarrow> u32 \<times> cp1" where
  "sqrt_s h source c0 = (let c = set_rounding c0 in (f32_sqrt h (fe_round c) source, c))"

definition abs_s :: "u32 \<Rightarrow> u32" where "abs_s source = source AND 0x7FFFFFFF"

definition mov_s :: "u32 \<Rightarrow> u32" where "mov_s source = source"

definition neg_s :: "u32 \<Rightarrow> u32" where "neg_s source = source XOR 0x80000000"

definition add_d :: "host_fpu \<Rightarrow> u64 \<Rightarrow> u64 \<Rightarrow> cp1 \<Rightarrow> u64 \<times> cp1" where
  "add_d h source1 source2 c0 = (let c = set_rounding c0 in (f64_add h (fe_round c) source1 source2, c))"

definition sub_d :: "host_fpu \<Rightarrow> u64 \<Rightarrow> u64 \<Rightarrow> cp1 \<Rightarrow> u64 \<times> cp1" where
  "sub_d h source1 source2 c0 = (let c = set_rounding c0 in (f64_sub h (fe_round c) source1 source2, c))"

definition mul_d :: "host_fpu \<Rightarrow> u64 \<Rightarrow> u64 \<Rightarrow> cp1 \<Rightarrow> u64 \<times> cp1" where
  "mul_d h source1 source2 c0 = (let c = set_rounding c0 in (f64_mul h (fe_round c) source1 source2, c))"

definition div_d :: "host_fpu \<Rightarrow> u64 \<Rightarrow> u64 \<Rightarrow> cp1 \<Rightarrow> u64 \<times> cp1" where
  "div_d h source1 source2 c0 = (let c = set_rounding c0 in (f64_div h (fe_round c) source1 source2, c))"

definition sqrt_d :: "host_fpu \<Rightarrow> u64 \<Rightarrow> cp1 \<Rightarrow> u64 \<times> cp1" where
  "sqrt_d h source c0 = (let c = set_rounding c0 in (f64_sqrt h (fe_round c) source, c))"

definition abs_d :: "u64 \<Rightarrow> u64" where "abs_d source = source AND 0x7FFFFFFFFFFFFFFF"

definition mov_d :: "u64 \<Rightarrow> u64" where "mov_d source = source"

definition neg_d :: "u64 \<Rightarrow> u64" where "neg_d source = source XOR 0x8000000000000000"

section \<open>The condition bit\<close>

text \<open>
  The meaning of condition \<open>k\<close> in the MIPS architecture: bit 0 accepts unordered operands, bit 1 equal ones and
  bit 2 a smaller first operand.
\<close>

definition mips_condition :: "nat \<Rightarrow> bool \<Rightarrow> bool \<Rightarrow> bool \<Rightarrow> bool" where
  "mips_condition k lt eq un \<longleftrightarrow> (bit k 0 \<and> un) \<or> (bit k 1 \<and> eq) \<or> (bit k 2 \<and> lt)"

definition cmp_bit :: "cp1 \<Rightarrow> bool" where
  "cmp_bit c \<longleftrightarrow> fcr31 c AND FCR31_CMP_BIT \<noteq> 0"

lemma cmp_bit_iff: "cmp_bit c = bit (fcr31 c) 23"
  using and_exp_eq_0_iff_not_bit [of "fcr31 c" 23] by (simp add: cmp_bit_def)

lemma cmp_bit_set [simp]: "cmp_bit (set_cmp b c) = b"
proof -
  have e: "(0x800000 :: u32) = 2 ^ 23" by simp
  show ?thesis unfolding cmp_bit_iff set_cmp_def e by (simp add: bit_or_iff bit_and_iff bit_not_iff bit_exp_iff)
qed

lemma cmp_bit_invalid [simp]: "cmp_bit (set_invalid c) = cmp_bit c"
proof -
  have e: "(0x010000 :: u32) = 2 ^ 16" "(0x40 :: u32) = 2 ^ 6" by simp_all
  show ?thesis unfolding cmp_bit_iff set_invalid_def e by (simp add: bit_or_iff bit_exp_iff)
qed

definition single_conditions :: "(u32 \<Rightarrow> u32 \<Rightarrow> cp1 \<Rightarrow> cp1) list" where
  "single_conditions = [c_f_s, c_un_s, c_eq_s, c_ueq_s, c_olt_s, c_ult_s, c_ole_s, c_ule_s,
     c_sf_s, c_ngle_s, c_seq_s, c_ngl_s, c_lt_s, c_nge_s, c_le_s, c_ngt_s]"

definition double_conditions :: "(u64 \<Rightarrow> u64 \<Rightarrow> cp1 \<Rightarrow> cp1) list" where
  "double_conditions = [\<lambda>_ _. c_f_d, c_un_d, c_eq_d, c_ueq_d, c_olt_d, c_ult_d, c_ole_d, c_ule_d,
     c_sf_d, c_ngle_d, c_seq_d, c_ngl_d, c_lt_d, c_nge_d, c_le_d, c_ngt_d]"

lemma enumerate_nth: "list_all (\<lambda>(k, f). P k f) (enumerate 0 fs) \<Longrightarrow> k < length fs \<Longrightarrow> P k (fs ! k)"
  by (auto simp: list_all_length nth_enumerate_eq)

lemma single_table:
  "list_all (\<lambda>(k, f). cmp_bit (f a b c) = mips_condition k (f32_lt a b) (f32_eq a b) (f32_isnan a \<or> f32_isnan b))
     (enumerate 0 single_conditions)"
  by (auto simp: single_conditions_def mips_condition_def f32_lt_def f32_eq_def f32_le_def bit_nat_def
      c_f_s_def c_un_s_def c_eq_s_def c_ueq_s_def c_olt_s_def c_ult_s_def c_ole_s_def c_ule_s_def
      c_sf_s_def c_ngle_s_def c_seq_s_def c_ngl_s_def c_lt_s_def c_nge_s_def c_le_s_def c_ngt_s_def)

lemma double_table:
  "list_all (\<lambda>(k, f). cmp_bit (f a b c) = (k \<noteq> 1 \<and> mips_condition k (f64_lt a b) (f64_eq a b) (f64_isnan a \<or> f64_isnan b)))
     (enumerate 0 double_conditions)"
  by (auto simp: double_conditions_def mips_condition_def f64_lt_def f64_eq_def f64_le_def bit_nat_def
      c_f_d_def c_un_d_def c_eq_d_def c_ueq_d_def c_olt_d_def c_ult_d_def c_ole_d_def c_ule_d_def
      c_sf_d_def c_ngle_d_def c_seq_d_def c_ngl_d_def c_lt_d_def c_nge_d_def c_le_d_def c_ngt_d_def)

text \<open>
  C21. Comparisons agree with the architecture: the condition bit that each of the sixteen comparisons of singles
  leaves is the one the MIPS manual defines from \<open>less\<close>, \<open>equal\<close> and \<open>unordered\<close>, and so it is for doubles,
  except that \<^verbatim>\<open>C.UN.D\<close> never reports unordered operands.
\<close>

theorem float_conditions:
  "(\<forall>k < 16. cmp_bit ((single_conditions ! k) a b c) =
      mips_condition k (f32_lt a b) (f32_eq a b) (f32_isnan a \<or> f32_isnan b)) \<and>
   (\<forall>k < 16. cmp_bit ((double_conditions ! k) x y c) =
      (k \<noteq> 1 \<and> mips_condition k (f64_lt x y) (f64_eq x y) (f64_isnan x \<or> f64_isnan y)))"
proof -
  have "length single_conditions = 16" "length double_conditions = 16"
    by (simp_all add: single_conditions_def double_conditions_def)
  then show ?thesis using enumerate_nth [OF single_table] enumerate_nth [OF double_table] by simp
qed

theorem float_conditions_witness:
  "\<forall>c. cmp_bit (c_un_s 0x7FC00000 0 c) \<and> \<not> cmp_bit (c_un_d 0x7FF8000000000000 0 c)"
proof
  fix c
  note float_conditions [of "0x7FC00000" 0 c "0x7FF8000000000000" 0]
  then have "cmp_bit ((single_conditions ! 1) 0x7FC00000 0 c) = mips_condition 1 (f32_lt 0x7FC00000 0) (f32_eq 0x7FC00000 0) True"
      "\<not> cmp_bit ((double_conditions ! 1) 0x7FF8000000000000 0 c)"
    by (simp_all add: f32_isnan_def)
  then show "cmp_bit (c_un_s 0x7FC00000 0 c) \<and> \<not> cmp_bit (c_un_d 0x7FF8000000000000 0 c)"
    by (simp add: single_conditions_def double_conditions_def mips_condition_def bit_0)
qed

end
