(* ===== verification/Device.thy ===== *)
theory Device
  imports Is_Viewer Fpu
begin

text \<open>
  The whole machine (\<^verbatim>\<open>src/src/device/device.c\<close>, \<^verbatim>\<open>device.h\<close>), the processor's access to it
  (\<^verbatim>\<open>r4300_read_aligned_word\<close> and its relatives in \<^verbatim>\<open>r4300_core.c\<close>), the emulated boot ROM
  (\<^verbatim>\<open>bootrom_hle.c\<close>) and the two reset handlers of \<^verbatim>\<open>interrupt.c\<close>.

  Memory handlers, interrupt handlers, DMA handlers and joybus devices are the tables of the sources,
  here functions from their index to the operations of the component theories. What the machine is
  connected to (plugins, input, clock, save states and the disk drive, which this development does
  not model) is the argument \<open>env\<close>.
\<close>

abbreviation (input) MM_RDRAM_DRAM :: u32 where "MM_RDRAM_DRAM \<equiv> 0x00000000"
abbreviation (input) MM_RDRAM_REGS :: u32 where "MM_RDRAM_REGS \<equiv> 0x03f00000"
abbreviation (input) MM_RSP_MEM :: u32 where "MM_RSP_MEM \<equiv> 0x04000000"
abbreviation (input) MM_RSP_REGS :: u32 where "MM_RSP_REGS \<equiv> 0x04040000"
abbreviation (input) MM_RSP_REGS2 :: u32 where "MM_RSP_REGS2 \<equiv> 0x04080000"
abbreviation (input) MM_DPC_REGS :: u32 where "MM_DPC_REGS \<equiv> 0x04100000"
abbreviation (input) MM_DPS_REGS :: u32 where "MM_DPS_REGS \<equiv> 0x04200000"
abbreviation (input) MM_MI_REGS :: u32 where "MM_MI_REGS \<equiv> 0x04300000"
abbreviation (input) MM_VI_REGS :: u32 where "MM_VI_REGS \<equiv> 0x04400000"
abbreviation (input) MM_AI_REGS :: u32 where "MM_AI_REGS \<equiv> 0x04500000"
abbreviation (input) MM_PI_REGS :: u32 where "MM_PI_REGS \<equiv> 0x04600000"
abbreviation (input) MM_RI_REGS :: u32 where "MM_RI_REGS \<equiv> 0x04700000"
abbreviation (input) MM_SI_REGS :: u32 where "MM_SI_REGS \<equiv> 0x04800000"
abbreviation (input) MM_DOM2_ADDR1 :: u32 where "MM_DOM2_ADDR1 \<equiv> 0x05000000"
abbreviation (input) MM_DOM2_ADDR2 :: u32 where "MM_DOM2_ADDR2 \<equiv> 0x08000000"
abbreviation (input) MM_CART_ROM :: u32 where "MM_CART_ROM \<equiv> 0x10000000"
abbreviation (input) MM_IS_VIEWER :: u32 where "MM_IS_VIEWER \<equiv> 0x13ff0000"
abbreviation (input) MM_PIF_MEM :: u32 where "MM_PIF_MEM \<equiv> 0x1fc00000"
abbreviation (input) MM_CART_DOM3 :: u32 where "MM_CART_DOM3 \<equiv> 0x1fd00000"
abbreviation (input) R4300_KSEG1 :: u32 where "R4300_KSEG1 \<equiv> 0xa0000000"
abbreviation (input) GAME_CONTROLLERS_COUNT :: nat where "GAME_CONTROLLERS_COUNT \<equiv> 4"

section \<open>What the machine is connected to\<close>

text \<open>
  \<open>m_stack\<close> is what an uninitialised local variable holds: a load from a register that no handler
  answers passes it on. \<open>m_fpu\<close> is the floating point arithmetic of the host. \<open>m_full_mem\<close> tells whether the block
  for the emulated memory could be allocated with its holes (\<^verbatim>\<open>init_mem_base\<close>), and \<open>m_backing\<close> is what those hold.
\<close>

record 's machine =
  m_rsp :: "'s rsp_plugin"
  m_pads :: "'s pad_env"
  m_clock :: "'s clock"
  m_new_vi :: "'s \<Rightarrow> 's"
  m_controllerCommand :: "'s \<Rightarrow> 's"
  m_readController :: "'s \<Rightarrow> 's"
  m_tv_type :: u32
  m_job :: "'s \<Rightarrow> savestates_job"
  m_load :: "'s \<Rightarrow> 's"
  m_save :: "'s \<Rightarrow> 's"
  m_stack :: "'s \<Rightarrow> u32"
  m_fpu :: host_fpu
  m_full_mem :: bool
  m_backing :: "u32 \<Rightarrow> u32"

type_synonym 'a dev = "'a is_viewer_scheme"

section \<open>Tables\<close>

text \<open>
  The front end gives a voice recognition unit its own joybus interface, and every other controller
  the standard one.
\<close>

definition process_pad_command :: "'a dev machine \<Rightarrow> nat \<Rightarrow> 'a dev joybus_op" where
  "process_pad_command env k rxo = (\<lambda>(v, s).
     if cont_flavor (conts s k) = Vru_controller then process_vru_command (m_pads env) k rxo (v, s)
     else process_controller_command (m_pads env) k rxo (v, s))"

definition poweron_pad :: "'a dev machine \<Rightarrow> nat \<Rightarrow> 'a dev \<Rightarrow> 'a dev" where
  "poweron_pad env k s =
     (if cont_flavor (conts s k) = Vru_controller then poweron_vru_controller (m_pads env) k s
      else poweron_game_controller (m_pads env) k s)"

definition dev_joybus :: "'a dev machine \<Rightarrow> 'a dev joybus" where
  "dev_joybus env =
     \<lparr>jb_device = (\<lambda>k.
        if k < GAME_CONTROLLERS_COUNT
        then Some \<lparr>jd_process = process_pad_command env k, jd_post_setup = None\<rparr>
        else if k < PIF_CHANNELS_COUNT
        then Some \<lparr>jd_process = process_cart_command (m_clock env), jd_post_setup = None\<rparr>
        else None),
      jb_controllerCommand = m_controllerCommand env, jb_readController = m_readController env\<rparr>"

definition get_pi_dma_handler :: "'a dev machine \<Rightarrow> 'a dev pi_dma_handler_getter" where
  "get_pi_dma_handler env address s =
     (if address \<ge> MM_CART_ROM
      then if address \<ge> MM_CART_DOM3
        then Some \<lparr>pi_dma_read = cart_dom3_dma_read, pi_dma_write = cart_dom3_dma_write\<rparr>
        else Some \<lparr>pi_dma_read = cart_rom_dma_read, pi_dma_write = cart_rom_dma_write\<rparr>
      else if address \<ge> MM_DOM2_ADDR2
      then Some \<lparr>pi_dma_read = cart_dom2_dma_read, pi_dma_write = cart_dom2_dma_write\<rparr>
      else if address \<ge> MM_DOM2_ADDR1 then Some \<lparr>pi_dma_read = dd_dom_dma_read, pi_dma_write = dd_dom_dma_write\<rparr>
      else None)"

definition read_open_bus :: "u32 \<Rightarrow> u32" where
  "read_open_bus address = (let v = address AND 0xffff in v OR push_bit 16 v)"

text \<open>\<^verbatim>\<open>A(x, m)\<close> is the range from \<^verbatim>\<open>x\<close> to \<^verbatim>\<open>x | m\<close>.\<close>

definition A :: "u32 \<Rightarrow> u32 \<Rightarrow> mem_handler \<Rightarrow> mem_mapping" where
  "A x m h = \<lparr>map_begin = x, map_end = x OR m, map_handler = h\<rparr>"

definition device_mappings :: "nat \<Rightarrow> nat \<Rightarrow> mem_mapping list" where
  "device_mappings n dd_size =
     [\<lparr>map_begin = 0x00000000, map_end = 0xffffffff, map_handler = H_open_bus\<rparr>,
      A MM_RDRAM_DRAM 0x3efffff H_rdram_dram,
      A MM_RDRAM_REGS 0xfffff H_rdram_regs,
      A MM_RSP_MEM 0xffff H_rsp_mem,
      A MM_RSP_REGS 0xffff H_rsp_regs,
      A MM_RSP_REGS2 0xffff H_rsp_regs2,
      A MM_DPC_REGS 0xffff H_dpc_regs,
      A MM_DPS_REGS 0xffff H_dps_regs,
      A MM_MI_REGS 0xffff H_mi_regs,
      A MM_VI_REGS 0xffff H_vi_regs,
      A MM_AI_REGS 0xffff H_ai_regs,
      A MM_PI_REGS 0xffff H_pi_regs,
      A MM_RI_REGS 0xffff H_ri_regs,
      A MM_SI_REGS 0xffff H_si_regs,
      (if 0 < dd_size then A MM_DOM2_ADDR1 0xffffff H_dd_regs else A MM_DOM2_ADDR1 0xffffff H_open_bus),
      (if 0 < dd_size then A MM_DD_ROM (of_nat (dd_size - 1)) H_dd_rom else A MM_DD_ROM 0x1ffffff H_open_bus),
      A MM_DOM2_ADDR2 0x1ffff H_cart_dom2,
      A MM_IS_VIEWER 0xfff H_is_viewer,
      A MM_CART_ROM (if n = 0 then 0xfbfffff else of_nat (min (n - 1) 0xfbfffff)) H_cart_rom,
      A MM_PIF_MEM 0xffff H_pif_mem]"

text \<open>\<open>None\<close> leaves the caller's variable alone.\<close>

definition mem_read32 :: "'a dev machine \<Rightarrow> mem_handler \<Rightarrow> u32 \<Rightarrow> 'a dev \<Rightarrow> u32 option \<times> 'a dev" where
  "mem_read32 env h a s =
     (case h of
        H_open_bus \<Rightarrow> (Some (read_open_bus a), s)
      | H_rdram_dram \<Rightarrow> (Some (read_rdram_dram a s), s)
      | H_rdram_dram_corrupted \<Rightarrow> (Some (read_rdram_dram_corrupted a s), s)
      | H_rdram_fb \<Rightarrow> (let (v, s) = read_rdram_fb a s in (Some v, s))
      | H_rdram_regs \<Rightarrow> (read_rdram_regs a s, s)
      | H_rsp_mem \<Rightarrow> (Some (read_rsp_mem a s), s)
      | H_rsp_regs \<Rightarrow> (let (v, s) = read_rsp_regs a s in (Some v, s))
      | H_rsp_regs2 \<Rightarrow> (read_rsp_regs2 a s, s)
      | H_dpc_regs \<Rightarrow> (Some (read_dpc_regs a s), s)
      | H_dps_regs \<Rightarrow> (read_dps_regs a s, s)
      | H_mi_regs \<Rightarrow> (Some (read_mi_regs a s), s)
      | H_vi_regs \<Rightarrow> read_vi_regs a s
      | H_ai_regs \<Rightarrow> read_ai_regs a s
      | H_pi_regs \<Rightarrow> (read_pi_regs a s, s)
      | H_ri_regs \<Rightarrow> (Some (read_ri_regs a s), s)
      | H_si_regs \<Rightarrow> (read_si_regs a s, s)
      | H_dd_regs \<Rightarrow> read_dd_regs a s
      | H_dd_rom \<Rightarrow> (Some (read_dd_rom a s), s)
      | H_cart_dom2 \<Rightarrow> read_cart_dom2 a s
      | H_is_viewer \<Rightarrow> (Some (read_is_viewer a s), s)
      | H_cart_rom \<Rightarrow> (Some (read_cart_rom a s), s)
      | H_pif_mem \<Rightarrow> (Some (read_pif_mem a s), s))"

text \<open>\<open>gen\<close> is \<^verbatim>\<open>gen_interrupt\<close>, which a write to the interrupt mask may call.\<close>

definition mem_write32 ::
    "'a dev machine \<Rightarrow> ('a dev \<Rightarrow> 'a dev) \<Rightarrow> mem_handler \<Rightarrow> u32 \<Rightarrow> u32 \<Rightarrow> u32 \<Rightarrow> 'a dev \<Rightarrow> 'a dev" where
  "mem_write32 env gen h a v m s =
     (case h of
        H_open_bus \<Rightarrow> s
      | H_rdram_dram \<Rightarrow> write_rdram_dram a v m s
      | H_rdram_dram_corrupted \<Rightarrow> write_rdram_dram a v m s
      | H_rdram_fb \<Rightarrow> write_rdram_fb a v m s
      | H_rdram_regs \<Rightarrow> write_rdram_regs a v m s
      | H_rsp_mem \<Rightarrow> write_rsp_mem a v m s
      | H_rsp_regs \<Rightarrow> write_rsp_regs (m_rsp env) a v m s
      | H_rsp_regs2 \<Rightarrow> write_rsp_regs2 a v m s
      | H_dpc_regs \<Rightarrow> write_dpc_regs (rsp_gfx (m_rsp env)) a v m s
      | H_dps_regs \<Rightarrow> write_dps_regs a v m s
      | H_mi_regs \<Rightarrow> write_mi_regs gen a v m s
      | H_vi_regs \<Rightarrow> write_vi_regs a v m s
      | H_ai_regs \<Rightarrow> write_ai_regs a v m s
      | H_pi_regs \<Rightarrow> write_pi_regs (get_pi_dma_handler env) a v m s
      | H_ri_regs \<Rightarrow> write_ri_regs a v m s
      | H_si_regs \<Rightarrow> write_si_regs (dev_joybus env) a v m s
      | H_dd_regs \<Rightarrow> write_dd_regs (m_clock env) a v m s
      | H_dd_rom \<Rightarrow> write_dd_rom a v m s
      | H_cart_dom2 \<Rightarrow> write_cart_dom2 a v m s
      | H_is_viewer \<Rightarrow> write_is_viewer a v m s
      | H_cart_rom \<Rightarrow> write_cart_rom a v m s
      | H_pif_mem \<Rightarrow> write_pif_mem a v m s)"

section \<open>Access by the processor\<close>

text \<open>The physical address of an access, or \<open>None\<close> after a TLB refill exception.\<close>

definition physical :: "u32 \<Rightarrow> nat \<Rightarrow> 'a dev \<Rightarrow> u32 option \<times> 'a dev" where
  "physical address w s0 =
     (let (p, s) = (if address AND 0xc0000000 \<noteq> 0x80000000 then virtual_to_physical_address address w s0 else (address, s0))
      in (if address AND 0xc0000000 \<noteq> 0x80000000 \<and> p = 0 then None else Some (p AND 0x1ffffffc), s))"

text \<open>The reads return whether they succeeded, with what is in \<^verbatim>\<open>*value\<close> afterwards.\<close>

definition r4300_read_aligned_word ::
    "'a dev machine \<Rightarrow> u32 \<Rightarrow> u32 \<Rightarrow> 'a dev \<Rightarrow> bool \<times> u32 \<times> 'a dev" where
  "r4300_read_aligned_word env address old s0 =
     (let (p, s) = physical address 0 s0 in
      case p of None \<Rightarrow> (False, old, s)
      | Some a \<Rightarrow>
          let (v, s) = mem_read32 env (mem_get_handler a s) a s
          in (True, case v of None \<Rightarrow> old | Some v \<Rightarrow> v, s))"

definition r4300_read_aligned_dword ::
    "'a dev machine \<Rightarrow> u32 \<Rightarrow> u32 \<times> u32 \<Rightarrow> u64 \<Rightarrow> 'a dev \<Rightarrow> bool \<times> u64 \<times> 'a dev" where
  "r4300_read_aligned_dword env address w old s0 =
     (let (p, s) = physical address 0 s0 in
      case p of None \<Rightarrow> (False, old, s)
      | Some a \<Rightarrow>
          let h = mem_get_handler a s;
              (v0, s) = mem_read32 env h a s;
              (v1, s) = mem_read32 env h (a + 4) s;
              w0 = (case v0 of None \<Rightarrow> fst w | Some v \<Rightarrow> v);
              w1 = (case v1 of None \<Rightarrow> snd w | Some v \<Rightarrow> v)
          in (True, push_bit 32 (ucast w0) OR ucast w1, s))"

definition r4300_write_aligned_word ::
    "'a dev machine \<Rightarrow> ('a dev \<Rightarrow> 'a dev) \<Rightarrow> u32 \<Rightarrow> u32 \<Rightarrow> u32 \<Rightarrow> 'a dev \<Rightarrow> bool \<times> 'a dev" where
  "r4300_write_aligned_word env gen address v m s0 =
     (let (p, s) = physical address 1 s0 in
      case p of None \<Rightarrow> (False, s)
      | Some a \<Rightarrow> (True, mem_write32 env gen (mem_get_handler a s) a v m s))"

definition r4300_write_aligned_dword ::
    "'a dev machine \<Rightarrow> ('a dev \<Rightarrow> 'a dev) \<Rightarrow> u32 \<Rightarrow> u64 \<Rightarrow> u64 \<Rightarrow> 'a dev \<Rightarrow> bool \<times> 'a dev" where
  "r4300_write_aligned_dword env gen address v m s0 =
     (let (p, s) = physical address 1 s0 in
      case p of None \<Rightarrow> (False, s)
      | Some a \<Rightarrow>
          let h = mem_get_handler a s;
              s = mem_write32 env gen h a (ucast (drop_bit 32 v)) (ucast (drop_bit 32 m)) s
          in (True, mem_write32 env gen h (a + 4) (ucast v) (ucast m) s))"

section \<open>Boot ROM\<close>

text \<open>
  The boot ROM only writes registers of the signal processor, the peripheral, video and audio
  interfaces: with the machine's memory map none of its writes reaches the interrupt mask, and a map
  that sent one there would make the C code call \<^verbatim>\<open>gen_interrupt\<close> from inside a handler of it, which
  the model marks as a fault.
\<close>

definition boot_write :: "'a dev machine \<Rightarrow> u32 \<Rightarrow> u32 \<Rightarrow> 'a dev \<Rightarrow> 'a dev" where
  "boot_write env address v s = snd (r4300_write_aligned_word env set_fault (R4300_KSEG1 + address) v 0xFFFFFFFF s)"

definition set_gpr :: "nat \<Rightarrow> u64 \<Rightarrow> 'a dev \<Rightarrow> 'a dev" where
  "set_gpr r v s = s\<lparr>gpr := (gpr s)(r := v)\<rparr>"

definition boot_stop_devices :: "'a dev machine \<Rightarrow> 'a dev \<Rightarrow> 'a dev" where
  "boot_stop_devices env s0 =
     (let s = boot_write env (MM_RSP_REGS + 4 * of_nat SP_STATUS_REG) 0x0a s0;
          s = boot_write env (MM_PI_REGS + 4 * of_nat PI_STATUS_REG) 0x3 s;
          s = boot_write env (MM_VI_REGS + 4 * of_nat VI_V_INTR_REG) 1023 s;
          s = boot_write env (MM_VI_REGS + 4 * of_nat VI_CURRENT_REG) 0 s;
          s = boot_write env (MM_VI_REGS + 4 * 9) 0 s;
          s = boot_write env (MM_AI_REGS + 4 * of_nat AI_DRAM_ADDR_REG) 0 s
      in boot_write env (MM_AI_REGS + 4 * of_nat AI_LEN_REG) 0 s)"

definition boot_configure_rom :: "'a dev machine \<Rightarrow> u32 \<Rightarrow> 'a dev \<Rightarrow> 'a dev" where
  "boot_configure_rom env c s0 =
     (let s = boot_write env (MM_PI_REGS + 4 * 5) (c AND 0xff) s0;
          s = boot_write env (MM_PI_REGS + 4 * 6) (drop_bit 8 c AND 0xff) s;
          s = boot_write env (MM_PI_REGS + 4 * 7) (drop_bit 16 c AND 0x0f) s
      in boot_write env (MM_PI_REGS + 4 * 8) (drop_bit 20 c AND 0x03) s)"

definition boot_imem :: "u32 list" where
  "boot_imem = [0x3c0dbfc0, 0x8da807fc, 0x25ad07c0, 0x31080080, 0x5500fffc, 0x3c0dbfc0, 0x8da80024, 0x3c0bb000]"

text \<open>IPL3 from the ROM to DMEM, the start of IPL2 to IMEM.\<close>

definition boot_sp_mem :: "(nat \<Rightarrow> u32) \<Rightarrow> (nat \<Rightarrow> u32) \<Rightarrow> (nat \<Rightarrow> u32)" where
  "boot_sp_mem src mem =
     (\<lambda>w. if 0x10 \<le> w \<and> w < 0x400 then src w
          else if 0x400 \<le> w \<and> w < 0x408 then boot_imem ! (w - 0x400) else mem w)"

definition pif_bootrom_hle_execute :: "'a dev machine \<Rightarrow> 'a dev \<Rightarrow> 'a dev" where
  "pif_bootrom_hle_execute env s0 =
     (if start_address s0 = 0xbfc00000 then s0
      else
        let s = set_cp0 CP0_STATUS_REG 0x34000000 s0;
            s = set_cp0 CP0_CONFIG_REG 0x7006e463 s;
            s = boot_stop_devices env s;
            (_, pif24, s) = r4300_read_aligned_word env (R4300_KSEG1 + MM_PIF_MEM + 0x7c0 + 0x24) 0 s;
            rom_type = drop_bit 19 pif24 AND 0x01;
            s = set_gpr 19 (ucast rom_type) s;
            s = set_gpr 20 (ucast (m_tv_type env)) s;
            s = set_gpr 21 (ucast (drop_bit 17 pif24 AND 0x01)) s;
            s = set_gpr 22 (ucast (drop_bit 8 pif24 AND 0xff)) s;
            s = set_gpr 23 (ucast (drop_bit 18 pif24 AND 0x01)) s;
            rom_base = (if rom_type = 0 then MM_CART_ROM else MM_DD_ROM);
            (_, c, s) = r4300_read_aligned_word env (R4300_KSEG1 + rom_base) 0 s;
            s = boot_configure_rom env c s;
            src = (if rom_type = 0 then (\<lambda>w. load32 (rom s) (4 * w)) else dd_rom s);
            s = s\<lparr>sp_mem := boot_sp_mem src (sp_mem s)\<rparr>;
            s = set_gpr 11 0xffffffffa4000040 s;
            s = set_gpr 29 0xffffffffa4001ff0 s;
            s = set_gpr 31 0xffffffffa4001550 s
        in s\<lparr>last_addr := 0xa4000040\<rparr>)"

section \<open>Power and reset\<close>

definition poweron_device :: "'a dev machine \<Rightarrow> 'a dev \<Rightarrow> 'a dev" where
  "poweron_device env s0 =
     (let s = poweron_rdram s0;
          s = poweron_r4300 s;
          s = poweron_rdp s;
          s = poweron_rsp s;
          s = poweron_ai s;
          s = poweron_mi s;
          s = poweron_pi s;
          s = poweron_ri s;
          s = poweron_si s;
          s = poweron_vi s;
          s = poweron_pif s;
          s = poweron_cart s;
          s = poweron_is_viewer s;
          s = fold (poweron_pad env) [0..<GAME_CONTROLLERS_COUNT] s
      in if 0 < dd_rom_size s then poweron_dd s else s)"

definition stop_device :: "'a dev \<Rightarrow> 'a dev" where
  "stop_device s = s\<lparr>stop := 1\<rparr>"

definition hard_reset_device :: "'a dev \<Rightarrow> 'a dev" where
  "hard_reset_device s = s\<lparr>reset_hard_job := True\<rparr>"

definition soft_reset_device :: "'a dev \<Rightarrow> 'a dev" where
  "soft_reset_device s = add_interrupt_event NMI_INT 50000000 (add_interrupt_event HW2_INT 0 s)"

definition nmi_int_handler :: "'a dev machine \<Rightarrow> 'a dev \<Rightarrow> 'a dev" where
  "nmi_int_handler env s0 =
     (let s = reset_pif 1 s0;
          s = set_cp0 CP0_STATUS_REG ((cp0_regs s CP0_STATUS_REG AND NOT (CP0_STATUS_SR OR CP0_STATUS_TS OR 0x00080000))
                OR (CP0_STATUS_ERL OR CP0_STATUS_BEV OR CP0_STATUS_SR)) s;
          s = set_cp0 CP0_CAUSE_REG 0 s;
          s = pif_bootrom_hle_execute env s;
          s = set_cp0 CP0_COUNT_REG 0 s;
          s = s\<lparr>gs_vi_counter := 0\<rparr>;
          s = init_interrupt s;
          s = add_interrupt_event VI_INT (vi_delay s) s;
          s = set_ai AI_STATUS_REG 0 s;
          s = set_cp0 CP0_ERROREPC_REG (pc_addr s) s;
          s = (if delay_slot s = 1 \<or> delay_slot s = 3
               then set_cp0 CP0_ERROREPC_REG (cp0_regs s CP0_ERROREPC_REG - 4) s else s);
          s = s\<lparr>delay_slot := 0, last_addr := start_address s\<rparr>
      in generic_jump_to (start_address s) s)"

definition reset_hard_handler :: "'a dev machine \<Rightarrow> 'a dev \<Rightarrow> 'a dev" where
  "reset_hard_handler env s0 =
     (let s = poweron_device env s0;
          s = pif_bootrom_hle_execute env s;
          s = s\<lparr>last_addr := start_address s, next_interrupt := 624999, cycle_count := 0\<rparr>;
          s = init_interrupt s
      in generic_jump_to (last_addr s) s)"

section \<open>Interrupts\<close>

definition interrupt_handlers_table :: "'a dev machine \<Rightarrow> ('a dev \<Rightarrow> 'a dev) list" where
  "interrupt_handlers_table env =
     [vi_vertical_interrupt_event (m_new_vi env), compare_int_handler, check_int_handler,
       si_end_of_dma_event (dev_joybus env), pi_end_of_dma_event, special_int_handler, ai_end_of_dma_event,
       rsp_interrupt_event, rdp_interrupt_event, hw2_int_handler, nmi_int_handler env, reset_hard_handler env,
       rsp_end_of_dma_event, dd_mecha_int_handler, dd_bm_int_handler,
       dd_dv_int_handler]"

definition machine_env :: "'a dev machine \<Rightarrow> 'a dev gen_env" where
  "machine_env env =
     \<lparr>ge_handlers = (\<lambda>i. interrupt_handlers_table env ! i), ge_job = m_job env, ge_load = m_load env, ge_save = m_save env\<rparr>"

definition dev_write_word :: "'a dev machine \<Rightarrow> u32 \<Rightarrow> u32 \<Rightarrow> u32 \<Rightarrow> 'a dev \<Rightarrow> bool \<times> 'a dev" where
  "dev_write_word env = r4300_write_aligned_word env (gen_interrupt (machine_env env))"

section \<open>A sample state\<close>

lemma init_interrupt_tlb [simp]: "cp0_tlb (init_interrupt s) = cp0_tlb s"
  by (simp add: init_interrupt_def add_interrupt_event_count_def set_fault_def split: option.split)

lemma sample_is_chain:
  "cp0_tlb sample_is = cp0_tlb sample_cp0" "dram_size sample_is = 0x800000" "mem_handlers sample_is = (\<lambda>_. H_rdram_dram)"
  by (simp_all add: sample_is_def dd_controller.defs is_viewer.defs sample_dd_def controllers.defs sample_pads_def gb_carts.defs sample_gb_def cart.defs sample_cart_def pi_controller.defs
      sample_pi_def pif.defs sample_pif_def rsp_core.defs sample_rsp_def ai_controller.defs sample_ai_def vi_controller.defs
      sample_vi_def rdp_core.defs sample_rdp_def rdram.defs sample_rdram_def memory.defs sample_memory_def
      mi_controller.defs sample_mi_def r4300_core.defs sample_r4300_def cp0.defs sample_cp0_def)

lemma sample_is_tlb: "cp0_tlb sample_is = sample_tlb"
  by (simp add: sample_is_chain sample_cp0_def)

lemmas sample_is_map = sample_is_chain(3)

lemma sample_is_pool: "length (nodes (q_pool (cp0_q sample_is))) = 16"
proof -
  have "cp0_q sample_is = cp0_q sample_vi"
    by (simp add: sample_is_def dd_controller.defs is_viewer.defs sample_dd_def controllers.defs sample_pads_def gb_carts.defs sample_gb_def cart.defs sample_cart_def pi_controller.defs
        sample_pi_def pif.defs sample_pif_def rsp_core.defs sample_rsp_def ai_controller.defs sample_ai_def vi_controller.defs)
  then show ?thesis using sample_vi_queue(1) by (simp add: queue_ok_def wf_queue_nodes)
qed

end
