(* ===== verification/Alu.thy ===== *)
theory Alu
  imports Device
begin

text \<open>
  Computational instructions of the R4300 (\<^verbatim>\<open>src/src/device/r4300/mips_instructions.def\<close>), with the operand
  macros that \<^verbatim>\<open>pure_interp.c\<close> gives them. An instruction is a function of its opcode word and of the
  machine; general registers hold 64 bits, which the C code reads as signed or unsigned values of 64 or 32
  bits. The negation of the least number in \<^verbatim>\<open>DMULT\<close> and conversions to narrower signed types wrap, as on
  every host the emulator is built for.
\<close>

section \<open>Operands\<close>

definition RD_OF :: "u32 \<Rightarrow> nat" where "RD_OF op = unat (drop_bit 11 op AND 0x1F)"

definition RS_OF :: "u32 \<Rightarrow> nat" where "RS_OF op = unat (drop_bit 21 op AND 0x1F)"

definition RT_OF :: "u32 \<Rightarrow> nat" where "RT_OF op = unat (drop_bit 16 op AND 0x1F)"

definition SA_OF :: "u32 \<Rightarrow> nat" where "SA_OF op = unat (drop_bit 6 op AND 0x1F)"

definition IMM16S_OF :: "u32 \<Rightarrow> u16" where "IMM16S_OF op = ucast op"

definition JUMP_OF :: "u32 \<Rightarrow> u32" where "JUMP_OF op = op AND 0x3FFFFFF"

definition SE8 :: "u8 \<Rightarrow> u64" where "SE8 a = scast a"

definition SE16 :: "u16 \<Rightarrow> u64" where "SE16 a = scast a"

definition SE32 :: "u32 \<Rightarrow> u64" where "SE32 a = scast a"

definition rrs :: "u32 \<Rightarrow> 'a dev \<Rightarrow> u64" where "rrs op s = gpr s (RS_OF op)"

definition rrt :: "u32 \<Rightarrow> 'a dev \<Rightarrow> u64" where "rrt op s = gpr s (RT_OF op)"

definition rrs32 :: "u32 \<Rightarrow> 'a dev \<Rightarrow> u32" where "rrs32 op s = ucast (rrs op s)"

definition rrt32 :: "u32 \<Rightarrow> 'a dev \<Rightarrow> u32" where "rrt32 op s = ucast (rrt op s)"

definition ADD_TO_PC :: "u32 \<Rightarrow> 'a dev \<Rightarrow> 'a dev" where
  "ADD_TO_PC x s = s\<lparr>pc_addr := pc_addr s + x * 4\<rparr>"

text \<open>\<^verbatim>\<open>rrd = v; ADD_TO_PC(1);\<close> and \<^verbatim>\<open>irt = v; ADD_TO_PC(1);\<close>\<close>

definition to_rd :: "u32 \<Rightarrow> u64 \<Rightarrow> 'a dev \<Rightarrow> 'a dev" where
  "to_rd op v s = ADD_TO_PC 1 (set_gpr (RD_OF op) v s)"

definition to_rt :: "u32 \<Rightarrow> u64 \<Rightarrow> 'a dev \<Rightarrow> 'a dev" where
  "to_rt op v s = ADD_TO_PC 1 (set_gpr (RT_OF op) v s)"

definition set_hi_lo :: "u64 \<Rightarrow> u64 \<Rightarrow> 'a dev \<Rightarrow> 'a dev" where
  "set_hi_lo hi lo s = ADD_TO_PC 1 (s\<lparr>mult_hi := hi, mult_lo := lo\<rparr>)"

section \<open>Arithmetic and logic\<close>

definition i_ADD :: "u32 \<Rightarrow> 'a dev \<Rightarrow> 'a dev" where "i_ADD op s = to_rd op (SE32 (rrs32 op s + rrt32 op s)) s"

definition i_ADDU :: "u32 \<Rightarrow> 'a dev \<Rightarrow> 'a dev" where "i_ADDU op s = to_rd op (SE32 (rrs32 op s + rrt32 op s)) s"

definition i_ADDI :: "u32 \<Rightarrow> 'a dev \<Rightarrow> 'a dev" where
  "i_ADDI op s = to_rt op (SE32 (rrs32 op s + scast (IMM16S_OF op))) s"

definition i_ADDIU :: "u32 \<Rightarrow> 'a dev \<Rightarrow> 'a dev" where
  "i_ADDIU op s = to_rt op (SE32 (rrs32 op s + scast (IMM16S_OF op))) s"

definition i_DADD :: "u32 \<Rightarrow> 'a dev \<Rightarrow> 'a dev" where "i_DADD op s = to_rd op (rrs op s + rrt op s) s"

definition i_DADDU :: "u32 \<Rightarrow> 'a dev \<Rightarrow> 'a dev" where "i_DADDU op s = to_rd op (rrs op s + rrt op s) s"

definition i_DADDI :: "u32 \<Rightarrow> 'a dev \<Rightarrow> 'a dev" where "i_DADDI op s = to_rt op (rrs op s + SE16 (IMM16S_OF op)) s"

definition i_DADDIU :: "u32 \<Rightarrow> 'a dev \<Rightarrow> 'a dev" where "i_DADDIU op s = to_rt op (rrs op s + SE16 (IMM16S_OF op)) s"

definition i_SUB :: "u32 \<Rightarrow> 'a dev \<Rightarrow> 'a dev" where "i_SUB op s = to_rd op (SE32 (rrs32 op s - rrt32 op s)) s"

definition i_SUBU :: "u32 \<Rightarrow> 'a dev \<Rightarrow> 'a dev" where "i_SUBU op s = to_rd op (SE32 (rrs32 op s - rrt32 op s)) s"

definition i_DSUB :: "u32 \<Rightarrow> 'a dev \<Rightarrow> 'a dev" where "i_DSUB op s = to_rd op (rrs op s - rrt op s) s"

definition i_DSUBU :: "u32 \<Rightarrow> 'a dev \<Rightarrow> 'a dev" where "i_DSUBU op s = to_rd op (rrs op s - rrt op s) s"

definition i_SLT :: "u32 \<Rightarrow> 'a dev \<Rightarrow> 'a dev" where
  "i_SLT op s = to_rd op (if rrs op s <s rrt op s then 1 else 0) s"

definition i_SLTU :: "u32 \<Rightarrow> 'a dev \<Rightarrow> 'a dev" where
  "i_SLTU op s = to_rd op (if rrs op s < rrt op s then 1 else 0) s"

definition i_SLTI :: "u32 \<Rightarrow> 'a dev \<Rightarrow> 'a dev" where
  "i_SLTI op s = to_rt op (if rrs op s <s SE16 (IMM16S_OF op) then 1 else 0) s"

definition i_SLTIU :: "u32 \<Rightarrow> 'a dev \<Rightarrow> 'a dev" where
  "i_SLTIU op s = to_rt op (if rrs op s < SE16 (IMM16S_OF op) then 1 else 0) s"

definition i_AND :: "u32 \<Rightarrow> 'a dev \<Rightarrow> 'a dev" where "i_AND op s = to_rd op (rrs op s AND rrt op s) s"

definition i_ANDI :: "u32 \<Rightarrow> 'a dev \<Rightarrow> 'a dev" where "i_ANDI op s = to_rt op (rrs op s AND ucast (IMM16S_OF op)) s"

definition i_OR :: "u32 \<Rightarrow> 'a dev \<Rightarrow> 'a dev" where "i_OR op s = to_rd op (rrs op s OR rrt op s) s"

definition i_ORI :: "u32 \<Rightarrow> 'a dev \<Rightarrow> 'a dev" where "i_ORI op s = to_rt op (rrs op s OR ucast (IMM16S_OF op)) s"

definition i_XOR :: "u32 \<Rightarrow> 'a dev \<Rightarrow> 'a dev" where "i_XOR op s = to_rd op (rrs op s XOR rrt op s) s"

definition i_XORI :: "u32 \<Rightarrow> 'a dev \<Rightarrow> 'a dev" where "i_XORI op s = to_rt op (rrs op s XOR ucast (IMM16S_OF op)) s"

definition i_NOR :: "u32 \<Rightarrow> 'a dev \<Rightarrow> 'a dev" where "i_NOR op s = to_rd op (NOT (rrs op s OR rrt op s)) s"

definition i_LUI :: "u32 \<Rightarrow> 'a dev \<Rightarrow> 'a dev" where
  "i_LUI op s = to_rt op (SE32 (push_bit 16 (scast (IMM16S_OF op)))) s"

section \<open>Shifts\<close>

definition i_NOP :: "'a dev \<Rightarrow> 'a dev" where "i_NOP s = ADD_TO_PC 1 s"

definition i_SLL :: "u32 \<Rightarrow> 'a dev \<Rightarrow> 'a dev" where "i_SLL op s = to_rd op (SE32 (push_bit (SA_OF op) (rrt32 op s))) s"

definition i_SLLV :: "u32 \<Rightarrow> 'a dev \<Rightarrow> 'a dev" where
  "i_SLLV op s = to_rd op (SE32 (push_bit (unat (rrs32 op s AND 0x1F)) (rrt32 op s))) s"

definition i_DSLL :: "u32 \<Rightarrow> 'a dev \<Rightarrow> 'a dev" where "i_DSLL op s = to_rd op (push_bit (SA_OF op) (rrt op s)) s"

definition i_DSLLV :: "u32 \<Rightarrow> 'a dev \<Rightarrow> 'a dev" where
  "i_DSLLV op s = to_rd op (push_bit (unat (rrs32 op s AND 0x3F)) (rrt op s)) s"

definition i_DSLL32 :: "u32 \<Rightarrow> 'a dev \<Rightarrow> 'a dev" where "i_DSLL32 op s = to_rd op (push_bit (32 + SA_OF op) (rrt op s)) s"

definition i_SRL :: "u32 \<Rightarrow> 'a dev \<Rightarrow> 'a dev" where "i_SRL op s = to_rd op (SE32 (drop_bit (SA_OF op) (rrt32 op s))) s"

definition i_SRLV :: "u32 \<Rightarrow> 'a dev \<Rightarrow> 'a dev" where
  "i_SRLV op s = to_rd op (SE32 (drop_bit (unat (rrs32 op s AND 0x1F)) (rrt32 op s))) s"

definition i_DSRL :: "u32 \<Rightarrow> 'a dev \<Rightarrow> 'a dev" where "i_DSRL op s = to_rd op (drop_bit (SA_OF op) (rrt op s)) s"

definition i_DSRLV :: "u32 \<Rightarrow> 'a dev \<Rightarrow> 'a dev" where
  "i_DSRLV op s = to_rd op (drop_bit (unat (rrs32 op s AND 0x3F)) (rrt op s)) s"

definition i_DSRL32 :: "u32 \<Rightarrow> 'a dev \<Rightarrow> 'a dev" where "i_DSRL32 op s = to_rd op (drop_bit (32 + SA_OF op) (rrt op s)) s"

text \<open>The arithmetic shifts of a word shift all 64 bits of the register and keep the lower half.\<close>

definition i_SRA :: "u32 \<Rightarrow> 'a dev \<Rightarrow> 'a dev" where
  "i_SRA op s = to_rd op (SE32 (ucast (signed_drop_bit (SA_OF op) (rrt op s)))) s"

definition i_SRAV :: "u32 \<Rightarrow> 'a dev \<Rightarrow> 'a dev" where
  "i_SRAV op s = to_rd op (SE32 (ucast (signed_drop_bit (unat (rrs32 op s AND 0x1F)) (rrt op s)))) s"

definition i_DSRA :: "u32 \<Rightarrow> 'a dev \<Rightarrow> 'a dev" where "i_DSRA op s = to_rd op (signed_drop_bit (SA_OF op) (rrt op s)) s"

definition i_DSRAV :: "u32 \<Rightarrow> 'a dev \<Rightarrow> 'a dev" where
  "i_DSRAV op s = to_rd op (signed_drop_bit (unat (rrs32 op s AND 0x3F)) (rrt op s)) s"

definition i_DSRA32 :: "u32 \<Rightarrow> 'a dev \<Rightarrow> 'a dev" where
  "i_DSRA32 op s = to_rd op (signed_drop_bit (32 + SA_OF op) (rrt op s)) s"

section \<open>Multiplication and division\<close>

definition i_MULT :: "u32 \<Rightarrow> 'a dev \<Rightarrow> 'a dev" where
  "i_MULT op s =
     (let temp = SE32 (rrs32 op s) * SE32 (rrt32 op s)
      in set_hi_lo (signed_drop_bit 32 temp) (SE32 (ucast temp)) s)"

definition i_MULTU :: "u32 \<Rightarrow> 'a dev \<Rightarrow> 'a dev" where
  "i_MULTU op s =
     (let temp = ucast (rrs32 op s) * ucast (rrt32 op s) :: u64
      in set_hi_lo (signed_drop_bit 32 temp) (SE32 (ucast temp)) s)"

text \<open>The schoolbook product of two 64-bit numbers from 32-bit halves, as (high, low).\<close>

definition mul_halves :: "u64 \<Rightarrow> u64 \<Rightarrow> u64 \<times> u64" where
  "mul_halves a b =
     (let op1 = a AND 0xFFFFFFFF;
          op2 = drop_bit 32 a AND 0xFFFFFFFF;
          op3 = b AND 0xFFFFFFFF;
          op4 = drop_bit 32 b AND 0xFFFFFFFF;
          temp1 = op1 * op3;
          temp2 = drop_bit 32 temp1 + op1 * op4;
          temp3 = op2 * op3;
          temp4 = drop_bit 32 temp3 + op2 * op4;
          result1 = temp1 AND 0xFFFFFFFF;
          result2 = temp2 + (temp3 AND 0xFFFFFFFF);
          result3 = drop_bit 32 result2 + temp4;
          result4 = drop_bit 32 result3
      in ((result3 AND 0xFFFFFFFF) OR push_bit 32 result4, result1 OR push_bit 32 result2))"

definition i_DMULTU :: "u32 \<Rightarrow> 'a dev \<Rightarrow> 'a dev" where
  "i_DMULTU op s = (let (hi, lo) = mul_halves (rrs op s) (rrt op s) in set_hi_lo hi lo s)"

definition i_DMULT :: "u32 \<Rightarrow> 'a dev \<Rightarrow> 'a dev" where
  "i_DMULT op s =
     (let a = rrs op s; b = rrt op s;
          op2 = (if a <s 0 then - a else a);
          op4 = (if b <s 0 then - b else b);
          (hi, lo) = mul_halves op2 op4
      in if (a <s 0) \<noteq> (b <s 0)
         then if lo = 0 then set_hi_lo (NOT hi + 1) lo s else set_hi_lo (NOT hi) (NOT lo + 1) s
         else set_hi_lo hi lo s)"

definition i_DIV :: "u32 \<Rightarrow> 'a dev \<Rightarrow> 'a dev" where
  "i_DIV op s =
     (let a = rrs32 op s; b = rrt32 op s in
      if b \<noteq> 0
      then if a = 0x80000000 \<and> b = -1 then set_hi_lo 0 (SE32 a) s
           else set_hi_lo (SE32 (word_of_int (sint a smod sint b))) (SE32 (word_of_int (sint a sdiv sint b))) s
      else set_hi_lo (SE32 a) (if a <s 0 then 1 else -1) s)"

definition i_DIVU :: "u32 \<Rightarrow> 'a dev \<Rightarrow> 'a dev" where
  "i_DIVU op s =
     (let a = rrs32 op s; b = rrt32 op s in
      if b \<noteq> 0 then set_hi_lo (SE32 (a mod b)) (SE32 (a div b)) s else set_hi_lo (SE32 a) (-1) s)"

definition i_DDIV :: "u32 \<Rightarrow> 'a dev \<Rightarrow> 'a dev" where
  "i_DDIV op s =
     (let a = rrs op s; b = rrt op s in
      if b \<noteq> 0
      then if a = 0x8000000000000000 \<and> b = -1 then set_hi_lo 0 a s
           else set_hi_lo (word_of_int (sint a smod sint b)) (word_of_int (sint a sdiv sint b)) s
      else set_hi_lo a (if a <s 0 then 1 else -1) s)"

definition i_DDIVU :: "u32 \<Rightarrow> 'a dev \<Rightarrow> 'a dev" where
  "i_DDIVU op s =
     (let a = rrs op s; b = rrt op s in
      if b \<noteq> 0 then set_hi_lo (a mod b) (a div b) s else set_hi_lo a (-1) s)"

definition i_MFHI :: "u32 \<Rightarrow> 'a dev \<Rightarrow> 'a dev" where "i_MFHI op s = to_rd op (mult_hi s) s"

definition i_MTHI :: "u32 \<Rightarrow> 'a dev \<Rightarrow> 'a dev" where "i_MTHI op s = ADD_TO_PC 1 (s\<lparr>mult_hi := rrs op s\<rparr>)"

definition i_MFLO :: "u32 \<Rightarrow> 'a dev \<Rightarrow> 'a dev" where "i_MFLO op s = to_rd op (mult_lo s) s"

definition i_MTLO :: "u32 \<Rightarrow> 'a dev \<Rightarrow> 'a dev" where "i_MTLO op s = ADD_TO_PC 1 (s\<lparr>mult_lo := rrs op s\<rparr>)"

section \<open>Exceptions raised by instructions\<close>

abbreviation (input) CP0_CAUSE_EXCCODE_SYS :: u32 where "CP0_CAUSE_EXCCODE_SYS \<equiv> 0x20"
abbreviation (input) CP0_CAUSE_EXCCODE_BP :: u32 where "CP0_CAUSE_EXCCODE_BP \<equiv> 0x24"
abbreviation (input) CP0_CAUSE_EXCCODE_RI :: u32 where "CP0_CAUSE_EXCCODE_RI \<equiv> 0x28"
abbreviation (input) CP0_CAUSE_EXCCODE_TR :: u32 where "CP0_CAUSE_EXCCODE_TR \<equiv> 0x34"

definition i_NI :: "'a dev \<Rightarrow> 'a dev" where "i_NI s = s\<lparr>stop := 1\<rparr>"

definition i_RESERVED :: "'a dev \<Rightarrow> 'a dev" where
  "i_RESERVED s = exception_general (set_cp0 CP0_CAUSE_REG CP0_CAUSE_EXCCODE_RI s)"

definition i_RESERVED_COP2 :: "'a dev \<Rightarrow> 'a dev" where
  "i_RESERVED_COP2 s0 =
     (let (unusable, s) = check_cop2_unusable s0 in
      if unusable then s else exception_general (set_cp0 CP0_CAUSE_REG (CP0_CAUSE_EXCCODE_RI OR CP0_CAUSE_CE2) s))"

definition i_BREAK :: "'a dev \<Rightarrow> 'a dev" where
  "i_BREAK s = exception_general (set_cp0 CP0_CAUSE_REG CP0_CAUSE_EXCCODE_BP s)"

definition i_SYSCALL :: "'a dev \<Rightarrow> 'a dev" where
  "i_SYSCALL s = exception_general (set_cp0 CP0_CAUSE_REG CP0_CAUSE_EXCCODE_SYS s)"

definition i_SYNC :: "'a dev \<Rightarrow> 'a dev" where "i_SYNC s = ADD_TO_PC 1 s"

definition i_CACHE :: "'a dev \<Rightarrow> 'a dev" where "i_CACHE s = ADD_TO_PC 1 s"

definition DECLARE_TRAP :: "bool \<Rightarrow> 'a dev \<Rightarrow> 'a dev" where
  "DECLARE_TRAP cond s =
     (if cond then exception_general (set_cp0 CP0_CAUSE_REG CP0_CAUSE_EXCCODE_TR s) else ADD_TO_PC 1 s)"

definition i_TGE :: "u32 \<Rightarrow> 'a dev \<Rightarrow> 'a dev" where "i_TGE op s = DECLARE_TRAP (rrt op s \<le>s rrs op s) s"

definition i_TGEU :: "u32 \<Rightarrow> 'a dev \<Rightarrow> 'a dev" where "i_TGEU op s = DECLARE_TRAP (rrt op s \<le> rrs op s) s"

definition i_TGEI :: "u32 \<Rightarrow> 'a dev \<Rightarrow> 'a dev" where "i_TGEI op s = DECLARE_TRAP (SE16 (IMM16S_OF op) \<le>s rrs op s) s"

definition i_TGEIU :: "u32 \<Rightarrow> 'a dev \<Rightarrow> 'a dev" where "i_TGEIU op s = DECLARE_TRAP (SE16 (IMM16S_OF op) \<le> rrs op s) s"

definition i_TLT :: "u32 \<Rightarrow> 'a dev \<Rightarrow> 'a dev" where "i_TLT op s = DECLARE_TRAP (rrs op s <s rrt op s) s"

definition i_TLTU :: "u32 \<Rightarrow> 'a dev \<Rightarrow> 'a dev" where "i_TLTU op s = DECLARE_TRAP (rrs op s < rrt op s) s"

definition i_TLTI :: "u32 \<Rightarrow> 'a dev \<Rightarrow> 'a dev" where "i_TLTI op s = DECLARE_TRAP (rrs op s <s SE16 (IMM16S_OF op)) s"

definition i_TLTIU :: "u32 \<Rightarrow> 'a dev \<Rightarrow> 'a dev" where "i_TLTIU op s = DECLARE_TRAP (rrs op s < SE16 (IMM16S_OF op)) s"

definition i_TEQ :: "u32 \<Rightarrow> 'a dev \<Rightarrow> 'a dev" where "i_TEQ op s = DECLARE_TRAP (rrs op s = rrt op s) s"

definition i_TEQI :: "u32 \<Rightarrow> 'a dev \<Rightarrow> 'a dev" where "i_TEQI op s = DECLARE_TRAP (rrs op s = SE16 (IMM16S_OF op)) s"

definition i_TNE :: "u32 \<Rightarrow> 'a dev \<Rightarrow> 'a dev" where "i_TNE op s = DECLARE_TRAP (rrs op s \<noteq> rrt op s) s"

definition i_TNEI :: "u32 \<Rightarrow> 'a dev \<Rightarrow> 'a dev" where "i_TNEI op s = DECLARE_TRAP (rrs op s \<noteq> SE16 (IMM16S_OF op)) s"

section \<open>Products\<close>

lemma mask32: "x AND 0xFFFFFFFF = take_bit 32 (x :: u64)"
  by (simp add: take_bit_eq_mask mask_eq_exp_minus_1)

lemma unat64: "unat (x :: u64) < 18446744073709551616"
  by (rule order_less_le_trans [OF unsigned_less]) simp

lemma unat_low: "unat (x AND 0xFFFFFFFF :: u64) = unat x mod 4294967296"
  by (simp add: mask32 take_bit_eq_mod unat_mod)

lemma unat_high: "unat (drop_bit 32 x :: u64) = unat x div 4294967296"
  by (simp add: drop_bit_eq_div unat_div)

lemma high_mask: "drop_bit 32 x AND 0xFFFFFFFF = (drop_bit 32 x :: u64)"
proof (rule word_unat_eq_iff [THEN iffD2])
  show "unat (drop_bit 32 x AND 0xFFFFFFFF) = unat (drop_bit 32 x)" using unat64 [of x] by (simp add: unat_low unat_high)
qed

lemma unat_or_push: "unat ((a AND 0xFFFFFFFF) OR push_bit 32 b :: u64) = unat a mod 4294967296 + 4294967296 * (unat b mod 4294967296)"
proof -
  have "(a AND 0xFFFFFFFF) OR push_bit 32 b = (a AND 0xFFFFFFFF) + push_bit 32 b"
    by (rule disjunctive_add_eq_or [symmetric]) (auto intro!: bit_eqI simp: mask32 bit_simps)
  moreover have "unat (push_bit 32 b) = 4294967296 * (unat b mod 4294967296)"
    using mult_mod_right [of "4294967296 :: nat" "unat b" "4294967296"]
    by (simp add: push_bit_eq_mult unat_word_ariths mult.commute)
  moreover have "unat a mod 4294967296 + 4294967296 * (unat b mod 4294967296) < 18446744073709551616"
    using mod_less_divisor [of 4294967296 "unat a"] mod_less_divisor [of 4294967296 "unat b"] by linarith
  ultimately show ?thesis by (simp add: unat_word_ariths unat_low)
qed

lemma unat_mult_halves:
  "unat x < 4294967296 \<Longrightarrow> unat y < 4294967296 \<Longrightarrow> unat (x * y :: u64) = unat x * unat y"
proof -
  assume "unat x < 4294967296" "unat y < 4294967296"
  then have "unat x * unat y \<le> 4294967295 * 4294967295" by (intro mult_le_mono) simp_all
  then show ?thesis by (simp add: unat_word_ariths)
qed

lemma unat_add64_small: "unat x + unat y < 18446744073709551616 \<Longrightarrow> unat (x + y :: u64) = unat x + unat y"
  by (simp add: unat_word_ariths)

lemma halves_product_le:
  "x < 4294967296 \<Longrightarrow> y < 4294967296 \<Longrightarrow> x * y \<le> (18446744065119617025 :: nat)"
  using mult_le_mono [of x 4294967295 y 4294967295] by simp

text \<open>None of the partial sums overflows 64 bits.\<close>

lemma mul_halves_product:
  "unat (fst (mul_halves a b)) * 2 ^ 64 + unat (snd (mul_halves a b)) = unat a * unat b"
proof -
  let ?M = "4294967296 :: nat"
  define a1 a2 b1 b2 where d: "a1 = unat a mod ?M" "a2 = unat a div ?M" "b1 = unat b mod ?M" "b2 = unat b div ?M"
  have lt: "a1 < ?M" "a2 < ?M" "b1 < ?M" "b2 < ?M"
    using unat64 [of a] unat64 [of b] by (simp_all add: d less_mult_imp_div_less)
  have ab: "unat a = a1 + ?M * a2" "unat b = b1 + ?M * b2" by (simp_all add: d)
  note le = halves_product_le [OF lt(1,3)] halves_product_le [OF lt(1,4)] halves_product_le [OF lt(2,3)] halves_product_le [OF lt(2,4)]
  define r2 where "r2 = (a1 * b1) div ?M + a1 * b2 + (a2 * b1) mod ?M"
  define r3 where "r3 = r2 div ?M + ((a2 * b1) div ?M + a2 * b2)"
  have bnd: "(a1 * b1) div ?M + a1 * b2 < 18446744073709551616" "r2 < 18446744073709551616"
      "(a2 * b1) div ?M + a2 * b2 < 18446744073709551616" "r3 < 18446744073709551616"
    using le mod_less_divisor [of ?M "a2 * b1"] by (simp_all add: r2_def r3_def)
  have u: "unat (a AND 0xFFFFFFFF) = a1" "unat (drop_bit 32 a) = a2" "unat (b AND 0xFFFFFFFF) = b1" "unat (drop_bit 32 b) = b2"
    by (simp_all add: unat_low unat_high d)
  define t1 t3 where t: "t1 = (a AND 0xFFFFFFFF) * (b AND 0xFFFFFFFF)" "t3 = drop_bit 32 a * (b AND 0xFFFFFFFF)"
  define s2 where "s2 = drop_bit 32 t1 + (a AND 0xFFFFFFFF) * drop_bit 32 b + (t3 AND 0xFFFFFFFF)"
  define s3 where "s3 = drop_bit 32 s2 + (drop_bit 32 t3 + drop_bit 32 a * drop_bit 32 b)"
  have ut: "unat t1 = a1 * b1" "unat t3 = a2 * b1"
      "unat ((a AND 0xFFFFFFFF) * drop_bit 32 b) = a1 * b2" "unat (drop_bit 32 a * drop_bit 32 b) = a2 * b2"
    using lt by (simp_all add: t unat_mult_halves u)
  have us2: "unat s2 = r2"
    using bnd(1,2) unfolding s2_def r2_def by (simp add: unat_add64_small ut unat_low unat_high)
  have us3: "unat s3 = r3"
    using bnd(3,4) unfolding s3_def r3_def by (simp add: unat_add64_small ut us2 unat_high)
  have m: "mul_halves a b = ((s3 AND 0xFFFFFFFF) OR push_bit 32 (drop_bit 32 s3), (t1 AND 0xFFFFFFFF) OR push_bit 32 s2)"
    by (simp add: mul_halves_def Let_def high_mask s2_def s3_def t)
  have r: "unat (fst (mul_halves a b)) = r3" "unat (snd (mul_halves a b)) = (a1 * b1) mod ?M + ?M * (r2 mod ?M)"
    using bnd(4) by (simp_all add: m unat_or_push us2 us3 ut unat_high)
  have "unat a * unat b = a1 * b1 + ?M * (a1 * b2) + ?M * (a2 * b1) + 18446744073709551616 * (a2 * b2)"
    by (simp add: ab algebra_simps)
  moreover have "a1 * b1 = ?M * (a1 * b1 div ?M) + a1 * b1 mod ?M" "a2 * b1 = ?M * (a2 * b1 div ?M) + a2 * b1 mod ?M"
      "r2 = ?M * (r2 div ?M) + r2 mod ?M" by simp_all
  moreover note r2_def r3_def
  ultimately have "r3 * 18446744073709551616 + (a1 * b1 mod ?M + ?M * (r2 mod ?M)) = unat a * unat b" by linarith
  then show ?thesis by (simp add: r)
qed

text \<open>The negation of a 128-bit number held in two halves.\<close>

definition wide :: "u64 \<Rightarrow> u64 \<Rightarrow> int" where
  "wide hi lo = sint hi * 2 ^ 64 + uint lo"

lemma sint_of_int64: "- 9223372036854775808 \<le> k \<Longrightarrow> k < 9223372036854775808 \<Longrightarrow> sint (word_of_int k :: u64) = k"
  by (simp add: signed_of_int signed_take_bit_int_eq_self)

lemma wide_neg:
  assumes "uint hi * 2 ^ 64 + uint lo = n" "0 \<le> n" "n \<le> 2 ^ 126"
  shows "wide (if lo = 0 then NOT hi + 1 else NOT hi) (if lo = 0 then lo else NOT lo + 1) = - n"
    and "wide hi lo = n"
proof -
  have "uint hi * 18446744073709551616 + uint lo \<le> 85070591730234615865843651857942052864" using assms by simp
  moreover have "0 \<le> uint lo" by simp
  ultimately have hi: "uint hi \<le> 4611686018427387904" by linarith
  moreover have "0 \<le> uint hi" by simp
  ultimately have s: "sint hi = uint hi" by (simp add: sint_uint, subst signed_take_bit_int_eq_self) (rule order_trans [of _ 0], simp_all)
  show w: "wide hi lo = n" using assms(1) by (simp add: wide_def s)
  have nonneg: "0 \<le> uint hi" by simp
  have w: "- hi = word_of_int (- uint hi)" "NOT hi = word_of_int (- uint hi - 1)" by (simp_all add: not_eq_complement)
  have "sint (word_of_int (- uint hi) :: u64) = - uint hi" "sint (word_of_int (- uint hi - 1) :: u64) = - uint hi - 1"
    by (rule sint_of_int64; use hi nonneg in linarith)+
  then have neg: "sint (- hi) = - uint hi" "sint (NOT hi) = - uint hi - 1" by (simp_all only: w)
  have l: "uint (- lo) = 2 ^ 64 - uint lo" if "lo \<noteq> 0"
    using that unsigned_less [of lo, where 'a = int] by (simp add: uint_word_ariths zmod_zminus1_eq_if unsigned_eq_0_iff)
  show "wide (if lo = 0 then NOT hi + 1 else NOT hi) (if lo = 0 then lo else NOT lo + 1) = - n"
    using assms(1) minus_eq_not_plus_1 [of hi] minus_eq_not_plus_1 [of lo] neg l by (auto simp: wide_def)
qed

lemma hi_lo_simps [simp]:
  "mult_hi (set_hi_lo hi lo s) = hi" "mult_lo (set_hi_lo hi lo s) = lo" "pc_addr (set_hi_lo hi lo s) = pc_addr s + 4"
  "gpr (set_hi_lo hi lo s) = gpr s" "gpr (ADD_TO_PC x s) = gpr s" "pc_addr (ADD_TO_PC x s) = pc_addr s + x * 4"
  by (simp_all add: set_hi_lo_def ADD_TO_PC_def)

lemma abs_sint: "uint (if x <s 0 then - x else x :: u64) = \<bar>sint x\<bar>" "uint (if x <s 0 then - x else x :: u64) \<le> 2 ^ 63"
proof -
  have r: "- (2 ^ 63) \<le> sint x" "sint x < 2 ^ 63" using sint_range_size [of x] by (simp_all add: word_size)
  have n: "uint (- x) = - sint x" if "sint x < 0"
    using that r uint_word_of_int_eq [of "- sint x", where 'a = 64] by (simp add: take_bit_int_eq_self)
  have p: "uint x = sint x" if "\<not> sint x < 0"
    using that r uint_word_of_int_eq [of "sint x", where 'a = 64] by (simp add: take_bit_int_eq_self)
  show "uint (if x <s 0 then - x else x) = \<bar>sint x\<bar>"
    by (simp add: word_sless_alt n p)
  then show "uint (if x <s 0 then - x else x) \<le> 2 ^ 63" using r by simp
qed

lemma mul_halves_uint: "uint (fst (mul_halves a b)) * 2 ^ 64 + uint (snd (mul_halves a b)) = uint a * uint b"
  unfolding uint_nat using mul_halves_product [of a b, THEN arg_cong [where f = int]]
  by (simp only: of_nat_add of_nat_mult of_nat_power of_nat_numeral)

text \<open>
  C18. The doubleword multiplications are exact: \<^verbatim>\<open>HI\<close> and \<^verbatim>\<open>LO\<close> hold the 128-bit product, of the unsigned
  operands for \<^verbatim>\<open>DMULTU\<close> and of the signed ones for \<^verbatim>\<open>DMULT\<close>; no intermediate sum of halves is truncated.
\<close>

theorem doubleword_products_exact:
  "uint (mult_hi (i_DMULTU op s)) * 2 ^ 64 + uint (mult_lo (i_DMULTU op s)) = uint (rrs op s) * uint (rrt op s) \<and>
   sint (mult_hi (i_DMULT op s)) * 2 ^ 64 + uint (mult_lo (i_DMULT op s)) = sint (rrs op s) * sint (rrt op s)"
proof
  show "uint (mult_hi (i_DMULTU op s)) * 2 ^ 64 + uint (mult_lo (i_DMULTU op s)) = uint (rrs op s) * uint (rrt op s)"
    using mul_halves_uint [of "rrs op s" "rrt op s"] by (simp add: i_DMULTU_def split_beta)
  let ?a = "if rrs op s <s 0 then - rrs op s else rrs op s" and ?b = "if rrt op s <s 0 then - rrt op s else rrt op s"
  have "uint ?a * uint ?b \<le> 2 ^ 63 * 2 ^ 63" by (intro mult_mono abs_sint(2)) simp_all
  then have le: "uint ?a * uint ?b \<le> 2 ^ 126" by simp
  have nn: "0 \<le> uint ?a * uint ?b" by simp
  note n = wide_neg [OF mul_halves_uint [of ?a ?b] nn le]
  have m: "uint ?a * uint ?b = \<bar>sint (rrs op s)\<bar> * \<bar>sint (rrt op s)\<bar>" by (simp only: abs_sint(1))
  have d: "sint (mult_hi (i_DMULT op s)) * 2 ^ 64 + uint (mult_lo (i_DMULT op s)) =
      (let (hi, lo) = mul_halves ?a ?b in
       if (rrs op s <s 0) \<noteq> (rrt op s <s 0)
       then wide (if lo = 0 then NOT hi + 1 else NOT hi) (if lo = 0 then lo else NOT lo + 1) else wide hi lo)"
    by (simp add: i_DMULT_def wide_def Let_def split_beta)
  show "sint (mult_hi (i_DMULT op s)) * 2 ^ 64 + uint (mult_lo (i_DMULT op s)) = sint (rrs op s) * sint (rrt op s)"
    unfolding d Let_def split_beta n(1) n(2) m
    by (simp add: m word_sless_alt abs_if)
qed

definition trunc_division :: "int \<Rightarrow> int \<Rightarrow> int \<Rightarrow> int \<Rightarrow> bool" where
  "trunc_division a b q r \<longleftrightarrow> q * b + r = a \<and> \<bar>r\<bar> < \<bar>b\<bar> \<and> (r = 0 \<or> (r < 0 \<longleftrightarrow> a < 0))"

lemma trunc_division_sdiv: "b \<noteq> 0 \<Longrightarrow> trunc_division a b (a sdiv b) (a smod b)"
proof -
  assume b: "b \<noteq> 0"
  have m: "0 \<le> \<bar>a\<bar> mod \<bar>b\<bar>" "\<bar>a\<bar> mod \<bar>b\<bar> < \<bar>b\<bar>" using b by simp_all
  then show ?thesis
    by (simp add: trunc_division_def sdiv_mult_smod_eq) (auto simp: signed_modulo_int_def abs_mult sgn_if)
qed

lemma smod_range: "- R \<le> a \<Longrightarrow> a < R \<Longrightarrow> b \<noteq> 0 \<Longrightarrow> - R \<le> a smod b \<and> a smod b < (R :: int)"
proof -
  assume a: "- R \<le> a" "a < R" "b \<noteq> 0"
  define m where "m = \<bar>a\<bar> mod \<bar>b\<bar>"
  have "m \<le> \<bar>a\<bar>" "0 \<le> m" using a(3) by (simp_all add: m_def zmod_le_nonneg_dividend)
  then show ?thesis using a by (auto simp: signed_modulo_int_def sgn_if simp flip: m_def)
qed

lemma sdiv_range:
  assumes "- R \<le> a" "a < R" "b \<noteq> 0" "\<not> (a = - R \<and> b = - 1)"
  shows "- R \<le> a sdiv b \<and> a sdiv b < (R :: int)"
proof (cases "\<bar>b\<bar> = 1")
  case True
  then have "b = 1 \<or> b = - 1" by linarith
  then show ?thesis using assms by (auto simp: signed_divide_int_def mult_sgn_abs sgn_if)
next
  case False
  then have "2 \<le> \<bar>b\<bar>" using assms(3) by linarith
  then have "\<bar>a\<bar> div \<bar>b\<bar> \<le> \<bar>a\<bar> div 2" by (intro zdiv_mono2) simp_all
  moreover have "0 \<le> \<bar>a\<bar> div \<bar>b\<bar>" by (simp add: div_int_pos_iff)
  moreover have "sgn a * sgn b \<in> {-1, 0, 1}" by (simp add: sgn_if)
  ultimately show ?thesis using assms(1,2) by (auto simp: signed_divide_int_def)
qed
lemma sint_of_int32: "- 2147483648 \<le> k \<Longrightarrow> k < 2147483648 \<Longrightarrow> sint (word_of_int k :: u32) = k"
  by (simp add: signed_of_int signed_take_bit_int_eq_self)

lemma sint64_range: "- 9223372036854775808 \<le> sint (x :: u64)" "sint x < 9223372036854775808"
  using sint_range_size [of x] by (simp_all add: word_size)

lemma sint32_range: "- 2147483648 \<le> sint (x :: u32)" "sint x < 2147483648"
  using sint_range_size [of x] by (simp_all add: word_size)

lemma sint_SE32 [simp]: "sint (SE32 x) = sint x"
  unfolding SE32_def scast_eq by (rule sint_of_int64; use sint32_range [of x] in linarith)

text \<open>
  C19. Division. With a nonzero divisor, and unless the most negative number is divided by $-1$, \<^verbatim>\<open>LO\<close> holds the
  quotient truncated towards 0 and \<^verbatim>\<open>HI\<close> the remainder, which has the sign of the dividend, in \<^verbatim>\<open>DIV\<close>
  and \<^verbatim>\<open>DDIV\<close>; the excluded quotient overflows to the dividend with remainder 0, and dividing by zero
  leaves the dividend as remainder. The host never computes an undefined quotient.
\<close>

theorem division_results:
  "(let a = sint (rrs32 op s); b = sint (rrt32 op s); q = sint (mult_lo (i_DIV op s)); r = sint (mult_hi (i_DIV op s)) in
     if b = 0 then q = (if a < 0 then 1 else - 1) \<and> r = a
     else if a = - (2 ^ 31) \<and> b = - 1 then q = a \<and> r = 0 else trunc_division a b q r) \<and>
   (let a = sint (rrs op s); b = sint (rrt op s); q = sint (mult_lo (i_DDIV op s)); r = sint (mult_hi (i_DDIV op s)) in
     if b = 0 then q = (if a < 0 then 1 else - 1) \<and> r = a
     else if a = - (2 ^ 63) \<and> b = - 1 then q = a \<and> r = 0 else trunc_division a b q r)"
proof
  let ?a = "sint (rrs32 op s)" and ?b = "sint (rrt32 op s)"
  have z: "(rrt32 op s = 0) = (?b = 0)" "(rrs32 op s = 0x80000000) = (?a = - 2147483648)" "(rrt32 op s = - 1) = (?b = - 1)"
    by (auto dest: arg_cong [of _ _ sint] intro: signed_word_eqI)
  show "let a = sint (rrs32 op s); b = sint (rrt32 op s); q = sint (mult_lo (i_DIV op s)); r = sint (mult_hi (i_DIV op s)) in
     if b = 0 then q = (if a < 0 then 1 else - 1) \<and> r = a
     else if a = - (2 ^ 31) \<and> b = - 1 then q = a \<and> r = 0 else trunc_division a b q r"
    using sdiv_range [OF sint32_range [of "rrs32 op s"], of ?b] smod_range [OF sint32_range [of "rrs32 op s"], of ?b]
      trunc_division_sdiv [of ?b ?a]
    by (simp add: i_DIV_def Let_def z word_sless_alt sint_of_int32)
next
  let ?a = "sint (rrs op s)" and ?b = "sint (rrt op s)"
  have z: "(rrt op s = 0) = (?b = 0)" "(rrs op s = 0x8000000000000000) = (?a = - 9223372036854775808)" "(rrt op s = - 1) = (?b = - 1)"
    by (auto dest: arg_cong [of _ _ sint] intro: signed_word_eqI)
  show "let a = sint (rrs op s); b = sint (rrt op s); q = sint (mult_lo (i_DDIV op s)); r = sint (mult_hi (i_DDIV op s)) in
     if b = 0 then q = (if a < 0 then 1 else - 1) \<and> r = a
     else if a = - (2 ^ 63) \<and> b = - 1 then q = a \<and> r = 0 else trunc_division a b q r"
    using sdiv_range [OF sint64_range [of "rrs op s"], of ?b] smod_range [OF sint64_range [of "rrs op s"], of ?b]
      trunc_division_sdiv [of ?b ?a]
    by (simp add: i_DDIV_def Let_def z word_sless_alt sint_of_int64)
qed

end
