(* ===== verification/Load_Store.thy ===== *)
theory Load_Store
  imports Alu
begin

text \<open>
  Loads and stores of the R4300 (\<^verbatim>\<open>src/src/device/r4300/mips_instructions.def\<close>). Every one of them advances the
  program counter before it accesses memory; an access that raises a TLB exception leaves the destination
  alone. \<open>env\<close> is what the machine is connected to: a store to the interrupt mask may dispatch an interrupt.
\<close>

section \<open>Helpers\<close>

definition BITS_BELOW_MASK32 :: "nat \<Rightarrow> u32" where "BITS_BELOW_MASK32 x = push_bit x 1 - 1"

definition BITS_ABOVE_MASK32 :: "nat \<Rightarrow> u32" where "BITS_ABOVE_MASK32 x = NOT (BITS_BELOW_MASK32 x)"

definition BITS_BELOW_MASK64 :: "nat \<Rightarrow> u64" where "BITS_BELOW_MASK64 x = push_bit x 1 - 1"

definition BITS_ABOVE_MASK64 :: "nat \<Rightarrow> u64" where "BITS_ABOVE_MASK64 x = NOT (BITS_BELOW_MASK64 x)"

definition bshift :: "u32 \<Rightarrow> nat" where "bshift address = unat (push_bit 3 ((address AND 3) XOR 3))"

definition hshift :: "u32 \<Rightarrow> nat" where "hshift address = unat (push_bit 3 ((address AND 2) XOR 2))"

definition lsaddr :: "u32 \<Rightarrow> 'a dev \<Rightarrow> u32" where "lsaddr op s = rrs32 op s + scast (IMM16S_OF op)"

text \<open>
  The steps every load shares: \<open>f\<close> is the new value of the destination from its old one and the word read.
\<close>

definition load_word :: "'a dev machine \<Rightarrow> u32 \<Rightarrow> (u64 \<Rightarrow> u32 \<Rightarrow> u64) \<Rightarrow> 'a dev \<Rightarrow> 'a dev" where
  "load_word env op f s0 =
     (let (ok, value, s) = r4300_read_aligned_word env (lsaddr op s0) (m_stack env s0) (ADD_TO_PC 1 s0)
      in if ok then set_gpr (RT_OF op) (f (rrt op s) value) s else s)"

definition load_dword :: "'a dev machine \<Rightarrow> u32 \<Rightarrow> u32 \<Rightarrow> (u64 \<Rightarrow> u64 \<Rightarrow> u64) \<Rightarrow> 'a dev \<Rightarrow> 'a dev" where
  "load_dword env op address f s0 =
     (let (ok, value, s) = r4300_read_aligned_dword env address (m_stack env s0, m_stack env s0) (rrt op s0) (ADD_TO_PC 1 s0)
      in if ok then set_gpr (RT_OF op) (f (rrt op s) value) s else s)"

abbreviation dev_gen :: "'a dev machine \<Rightarrow> 'a dev \<Rightarrow> 'a dev" where
  "dev_gen env \<equiv> gen_interrupt (machine_env env)"

definition store_word :: "'a dev machine \<Rightarrow> u32 \<Rightarrow> u32 \<Rightarrow> u32 \<Rightarrow> 'a dev \<Rightarrow> bool \<times> 'a dev" where
  "store_word env address value msk s = r4300_write_aligned_word env (dev_gen env) address value msk (ADD_TO_PC 1 s)"

definition store_dword :: "'a dev machine \<Rightarrow> u32 \<Rightarrow> u64 \<Rightarrow> u64 \<Rightarrow> 'a dev \<Rightarrow> bool \<times> 'a dev" where
  "store_dword env address value msk s = r4300_write_aligned_dword env (dev_gen env) address value msk (ADD_TO_PC 1 s)"

section \<open>Loads\<close>

definition i_LB :: "'a dev machine \<Rightarrow> u32 \<Rightarrow> 'a dev \<Rightarrow> 'a dev" where
  "i_LB env op s = load_word env op (\<lambda>_ v. SE8 (ucast (drop_bit (bshift (lsaddr op s)) v))) s"

definition i_LBU :: "'a dev machine \<Rightarrow> u32 \<Rightarrow> 'a dev \<Rightarrow> 'a dev" where
  "i_LBU env op s = load_word env op (\<lambda>_ v. ucast (drop_bit (bshift (lsaddr op s)) v AND 0xff)) s"

definition i_LH :: "'a dev machine \<Rightarrow> u32 \<Rightarrow> 'a dev \<Rightarrow> 'a dev" where
  "i_LH env op s = load_word env op (\<lambda>_ v. SE16 (ucast (drop_bit (hshift (lsaddr op s)) v))) s"

definition i_LHU :: "'a dev machine \<Rightarrow> u32 \<Rightarrow> 'a dev \<Rightarrow> 'a dev" where
  "i_LHU env op s = load_word env op (\<lambda>_ v. ucast (drop_bit (hshift (lsaddr op s)) v AND 0xffff)) s"

definition i_LL :: "'a dev machine \<Rightarrow> u32 \<Rightarrow> 'a dev \<Rightarrow> 'a dev" where
  "i_LL env op s0 =
     (let (ok, value, s) = r4300_read_aligned_word env (lsaddr op s0) (m_stack env s0) (ADD_TO_PC 1 s0)
      in if ok then (set_gpr (RT_OF op) (SE32 value) s)\<lparr>llbit := 1\<rparr> else s)"

definition i_LW :: "'a dev machine \<Rightarrow> u32 \<Rightarrow> 'a dev \<Rightarrow> 'a dev" where
  "i_LW env op s = load_word env op (\<lambda>_ v. SE32 v) s"

definition i_LWU :: "'a dev machine \<Rightarrow> u32 \<Rightarrow> 'a dev \<Rightarrow> 'a dev" where
  "i_LWU env op s = load_word env op (\<lambda>_ v. ucast v) s"

definition i_LWL :: "'a dev machine \<Rightarrow> u32 \<Rightarrow> 'a dev \<Rightarrow> 'a dev" where
  "i_LWL env op s =
     (let n = unat (lsaddr op s AND 3); shift = 8 * n; msk = BITS_BELOW_MASK32 (8 * n)
      in load_word env op (\<lambda>rt v. SE32 ((ucast rt AND msk) OR push_bit shift v)) s)"

definition i_LWR :: "'a dev machine \<Rightarrow> u32 \<Rightarrow> 'a dev \<Rightarrow> 'a dev" where
  "i_LWR env op s =
     (let n = unat (lsaddr op s AND 3); shift = 8 * (3 - n); msk = (if n = 3 then 0 else BITS_ABOVE_MASK32 (8 * (n + 1)))
      in load_word env op (\<lambda>rt v. SE32 ((ucast rt AND msk) OR drop_bit shift v)) s)"

definition i_LD :: "'a dev machine \<Rightarrow> u32 \<Rightarrow> 'a dev \<Rightarrow> 'a dev" where
  "i_LD env op s = load_dword env op (lsaddr op s) (\<lambda>_ v. v) s"

definition i_LDL :: "'a dev machine \<Rightarrow> u32 \<Rightarrow> 'a dev \<Rightarrow> 'a dev" where
  "i_LDL env op s =
     (let n = unat (lsaddr op s AND 7); shift = 8 * n; msk = BITS_BELOW_MASK64 (8 * n)
      in load_dword env op (lsaddr op s AND NOT 7) (\<lambda>rt v. (rt AND msk) OR push_bit shift v) s)"

definition i_LDR :: "'a dev machine \<Rightarrow> u32 \<Rightarrow> 'a dev \<Rightarrow> 'a dev" where
  "i_LDR env op s =
     (let n = unat (lsaddr op s AND 7); shift = 8 * (7 - n); msk = (if n = 7 then 0 else BITS_ABOVE_MASK64 (8 * (n + 1)))
      in load_dword env op (lsaddr op s AND NOT 7) (\<lambda>rt v. (rt AND msk) OR drop_bit shift v) s)"

section \<open>Stores\<close>

definition i_SB :: "'a dev machine \<Rightarrow> u32 \<Rightarrow> 'a dev \<Rightarrow> 'a dev" where
  "i_SB env op s =
     (let shift = bshift (lsaddr op s) in snd (store_word env (lsaddr op s) (push_bit shift (rrt32 op s)) (push_bit shift 0xff) s))"

definition i_SH :: "'a dev machine \<Rightarrow> u32 \<Rightarrow> 'a dev \<Rightarrow> 'a dev" where
  "i_SH env op s =
     (let shift = hshift (lsaddr op s) in snd (store_word env (lsaddr op s) (push_bit shift (rrt32 op s)) (push_bit shift 0xffff) s))"

definition i_SC :: "'a dev machine \<Rightarrow> u32 \<Rightarrow> 'a dev \<Rightarrow> 'a dev" where
  "i_SC env op s0 =
     (if llbit s0 \<noteq> 0
      then let (ok, s) = store_word env (lsaddr op s0) (rrt32 op s0) 0xFFFFFFFF s0
           in if ok then set_gpr (RT_OF op) 1 (s\<lparr>llbit := 0\<rparr>) else s
      else set_gpr (RT_OF op) 0 (ADD_TO_PC 1 s0))"

definition i_SW :: "'a dev machine \<Rightarrow> u32 \<Rightarrow> 'a dev \<Rightarrow> 'a dev" where
  "i_SW env op s = snd (store_word env (lsaddr op s) (rrt32 op s) 0xFFFFFFFF s)"

definition i_SWL :: "'a dev machine \<Rightarrow> u32 \<Rightarrow> 'a dev \<Rightarrow> 'a dev" where
  "i_SWL env op s =
     (let n = unat (lsaddr op s AND 3); shift = 8 * n;
          msk = (if n = 0 then 0xFFFFFFFF else BITS_BELOW_MASK32 (8 * (4 - n)))
      in snd (store_word env (lsaddr op s AND NOT 3) (drop_bit shift (rrt32 op s)) msk s))"

definition i_SWR :: "'a dev machine \<Rightarrow> u32 \<Rightarrow> 'a dev \<Rightarrow> 'a dev" where
  "i_SWR env op s =
     (let n = unat (lsaddr op s AND 3); shift = 8 * (3 - n); msk = BITS_ABOVE_MASK32 (8 * (3 - n))
      in snd (store_word env (lsaddr op s AND NOT 3) (push_bit shift (rrt32 op s)) msk s))"

definition i_SD :: "'a dev machine \<Rightarrow> u32 \<Rightarrow> 'a dev \<Rightarrow> 'a dev" where
  "i_SD env op s = snd (store_dword env (lsaddr op s) (rrt op s) 0xFFFFFFFFFFFFFFFF s)"

definition i_SDL :: "'a dev machine \<Rightarrow> u32 \<Rightarrow> 'a dev \<Rightarrow> 'a dev" where
  "i_SDL env op s =
     (let n = unat (lsaddr op s AND 7); shift = 8 * n;
          msk = (if n = 0 then 0xFFFFFFFFFFFFFFFF else BITS_BELOW_MASK64 (8 * (8 - n)))
      in snd (store_dword env (lsaddr op s AND NOT 7) (drop_bit shift (rrt op s)) msk s))"

definition i_SDR :: "'a dev machine \<Rightarrow> u32 \<Rightarrow> 'a dev \<Rightarrow> 'a dev" where
  "i_SDR env op s =
     (let n = unat (lsaddr op s AND 7); shift = 8 * (7 - n); msk = BITS_ABOVE_MASK64 (8 * (7 - n))
      in snd (store_dword env (lsaddr op s AND NOT 7) (push_bit shift (rrt op s)) msk s))"

section \<open>Main memory seen by the processor\<close>

lemma word_aligned_div: "unat (a AND 0x1ffffffc :: u32) = 4 * (unat (a AND 0x1ffffffc) div 4)"
proof -
  have "take_bit 2 (0x1ffffffc :: u32) = 0" by simp
  then have "take_bit 2 (a AND 0x1ffffffc) = 0" by (simp add: take_bit_and)
  then have "unat (take_bit 2 (a AND 0x1ffffffc)) = 0" by simp
  then have "unat (a AND 0x1ffffffc) mod 4 = 0" by (simp add: take_bit_eq_mod unat_mod)
  then show ?thesis by presburger
qed

lemma physical_direct: "a AND 0xc0000000 = 0x80000000 \<Longrightarrow> physical a w s = (Some (a AND 0x1ffffffc), s)"
  by (simp add: physical_def)

lemma write_dram_frame [simp]:
  "mem_get_handler b (write_rdram_dram a v m s) = mem_get_handler b s" "dram_size (write_rdram_dram a v m s) = dram_size s"
  by (simp_all add: write_rdram_dram_def mem_get_handler_def Let_def)

lemma read_word_dram:
  "a AND 0xc0000000 = 0x80000000 \<Longrightarrow> mem_get_handler (a AND 0x1ffffffc) s = H_rdram_dram \<Longrightarrow>
    r4300_read_aligned_word env a old s = (True, read_rdram_dram (a AND 0x1ffffffc) s, s)"
  by (simp add: r4300_read_aligned_word_def physical_direct mem_read32_def)

lemma write_word_dram:
  "a AND 0xc0000000 = 0x80000000 \<Longrightarrow> mem_get_handler (a AND 0x1ffffffc) s = H_rdram_dram \<Longrightarrow>
    r4300_write_aligned_word env gen a v m s = (True, write_rdram_dram (a AND 0x1ffffffc) v m s)"
  by (simp add: r4300_write_aligned_word_def physical_direct mem_write32_def)

lemma set_gpr_frame [simp]:
  "gpr (set_gpr r v s) = (gpr s)(r := v)" "mem_get_handler a (set_gpr r v s) = mem_get_handler a s"
  "read_rdram_dram a (set_gpr r v s) = read_rdram_dram a s" "dram_size (set_gpr r v s) = dram_size s"
  by (simp_all add: set_gpr_def mem_get_handler_def read_rdram_dram_def)

lemma add_to_pc_frame [simp]:
  "mem_get_handler a (ADD_TO_PC x s) = mem_get_handler a s" "read_rdram_dram a (ADD_TO_PC x s) = read_rdram_dram a s"
  "dram_size (ADD_TO_PC x s) = dram_size s"
  by (simp_all add: ADD_TO_PC_def mem_get_handler_def read_rdram_dram_def)

lemma write_dram_gpr [simp]: "gpr (write_rdram_dram a v m s) = gpr s"
  by (simp add: write_rdram_dram_def Let_def)

lemma bus_word: "unat (a AND 0x1ffffffc :: u32) = 4 * ((unat a div 4) mod 0x8000000)"
proof -
  have "a AND 0x1ffffffc = push_bit 2 (take_bit 27 (drop_bit 2 a))"
  proof (rule bit_word_eqI)
    fix n assume "n < LENGTH(32)"
    have m: "(0x1ffffffc :: u32) = push_bit 2 (mask 27)" by (simp add: mask_eq_exp_minus_1 push_bit_eq_mult)
    show "bit (a AND 0x1ffffffc) n = bit (push_bit 2 (take_bit 27 (drop_bit 2 a))) n"
      unfolding m by (cases "2 \<le> n") (auto simp: bit_simps le_add_diff_inverse simp flip: numeral_2_eq_2 dest: le_Suc_ex)
  qed
  moreover have "unat (take_bit 27 (drop_bit 2 a)) = (unat a div 4) mod 0x8000000"
    by (simp add: take_bit_eq_mod drop_bit_eq_div unat_mod unat_div)
  ultimately show ?thesis by (simp add: push_bit_eq_mult unat_word_ariths)
qed

lemma unat_add3:
  "(unat (a + 3 :: u32) div 4) mod 0x8000000 = ((unat a + 3) div 4) mod 0x8000000" "unat ((a + 3) AND 3 :: u32) = (unat a + 3) mod 4"
proof -
  have "take_bit 27 (drop_bit 2 (take_bit 32 x)) = take_bit 27 (drop_bit 2 x)" for x :: nat
    by (rule bit_eqI) (auto simp: bit_simps)
  then have "(x mod 4294967296 div 4) mod 0x8000000 = (x div 4) mod 0x8000000" for x :: nat
    by (simp add: take_bit_eq_mod drop_bit_eq_div)
  then show "(unat (a + 3) div 4) mod 0x8000000 = ((unat a + 3) div 4) mod 0x8000000"
    by (simp add: unat_word_ariths)
  have "(a + 3) AND 3 = take_bit 2 (a + 3)" by (simp add: take_bit_eq_mask mask_eq_exp_minus_1)
  then show "unat ((a + 3) AND 3) = (unat a + 3) mod 4"
    by (simp add: take_bit_eq_mod unat_mod unat_word_ariths mod_mod_cancel)
qed

lemma unat_and3: "unat (a AND 3 :: u32) = unat a mod 4"
proof -
  have "a AND 3 = take_bit 2 a" by (simp add: take_bit_eq_mask mask_eq_exp_minus_1)
  then show ?thesis by (simp add: take_bit_eq_mod unat_mod)
qed

lemma below_mask: "BITS_BELOW_MASK32 x = mask x"
  by (simp add: BITS_BELOW_MASK32_def mask_eq_exp_minus_1 push_bit_eq_mult)

text \<open>An unaligned word that lies in two words of memory, \<open>k\<close> bits of it in the second.\<close>

lemma split_word:
  assumes "0 < k" "k < 32"
  shows "((((old AND mask k) OR push_bit k (masked_write w (drop_bit k v) (mask (32 - k)))) AND NOT (mask k))
     OR drop_bit (32 - k) (masked_write x (push_bit (32 - k) v) (NOT (mask (32 - k))))) = (v :: u32)"
proof (rule bit_word_eqI)
  fix n assume "n < LENGTH(32)"
  then show "bit ((((old AND mask k) OR push_bit k (masked_write w (drop_bit k v) (mask (32 - k)))) AND NOT (mask k))
     OR drop_bit (32 - k) (masked_write x (push_bit (32 - k) v) (NOT (mask (32 - k))))) n = bit v n"
    using assms by (cases "n < k") (auto simp: bit_simps masked_write_bit dest: bit_imp_le_length)
qed

lemma load_word_dram:
  "lsaddr op s AND 0xc0000000 = 0x80000000 \<Longrightarrow> mem_get_handler (lsaddr op s AND 0x1ffffffc) s = H_rdram_dram \<Longrightarrow>
    load_word env op f s = set_gpr (RT_OF op) (f (rrt op s) (read_rdram_dram (lsaddr op s AND 0x1ffffffc) s)) (ADD_TO_PC 1 s)"
  by (simp add: load_word_def read_word_dram rrt_def)

lemma align_word:
  "((a AND NOT 3) AND 0xc0000000 :: u32) = a AND 0xc0000000" "((a AND NOT 3) AND 0x1ffffffc :: u32) = a AND 0x1ffffffc"
  by (simp_all add: and.assoc)

lemma store_word_dram:
  "a AND 0xc0000000 = 0x80000000 \<Longrightarrow> mem_get_handler (a AND 0x1ffffffc) s = H_rdram_dram \<Longrightarrow>
    snd (store_word env (a AND NOT 3) v m s) = write_rdram_dram (a AND 0x1ffffffc) v m (ADD_TO_PC 1 s)"
  using write_word_dram [of "a AND NOT 3" "ADD_TO_PC 1 s" env "dev_gen env" v m, unfolded align_word] by (simp add: store_word_def)

lemma lsaddr_cong: "gpr s' (RS_OF op) = gpr s (RS_OF op) \<Longrightarrow> lsaddr op s' = lsaddr op s"
  by (simp add: lsaddr_def rrs32_def rrs_def)

lemma ucast_SE32 [simp]: "ucast (SE32 x) = x"
  by (rule bit_word_eqI) (simp add: SE32_def bit_simps)

lemma next_word:
  assumes "unat a mod 4 \<noteq> 0"
  shows "unat (a AND 0x1ffffffc) div 4 \<noteq> unat ((a + 3) AND 0x1ffffffc :: u32) div 4" "(unat a + 3) mod 4 = unat a mod 4 - 1"
proof -
  have "(unat a + 3) div 4 = unat a div 4 + 1" using assms by presburger
  moreover have "(x :: nat) mod 0x8000000 \<noteq> (x + 1) mod 0x8000000" for x by (simp add: mod_Suc)
  ultimately show "unat (a AND 0x1ffffffc) div 4 \<noteq> unat ((a + 3) AND 0x1ffffffc) div 4"
    by (simp add: bus_word unat_add3)
  show "(unat a + 3) mod 4 = unat a mod 4 - 1" using assms by presburger
qed

text \<open>The four instructions at an address of directly mapped RDRAM.\<close>

lemma swl_dram:
  assumes "lsaddr op s AND 0xc0000000 = 0x80000000" "mem_get_handler (lsaddr op s AND 0x1ffffffc) s = H_rdram_dram"
  shows "i_SWL env op s = (let n = unat (lsaddr op s) mod 4 in
    write_rdram_dram (lsaddr op s AND 0x1ffffffc) (drop_bit (8 * n) (rrt32 op s))
      (if n = 0 then 0xFFFFFFFF else mask (8 * (4 - n))) (ADD_TO_PC 1 s))"
  using store_word_dram [OF assms] by (simp add: i_SWL_def Let_def unat_and3 below_mask)

lemma swr_dram:
  assumes "lsaddr op s AND 0xc0000000 = 0x80000000" "mem_get_handler (lsaddr op s AND 0x1ffffffc) s = H_rdram_dram"
  shows "i_SWR env op s = (let n = unat (lsaddr op s) mod 4 in
    write_rdram_dram (lsaddr op s AND 0x1ffffffc) (push_bit (8 * (3 - n)) (rrt32 op s)) (NOT (mask (8 * (3 - n)))) (ADD_TO_PC 1 s))"
  using store_word_dram [OF assms] by (simp add: i_SWR_def Let_def unat_and3 BITS_ABOVE_MASK32_def below_mask)

lemma lwl_dram:
  assumes "lsaddr op s AND 0xc0000000 = 0x80000000" "mem_get_handler (lsaddr op s AND 0x1ffffffc) s = H_rdram_dram"
  shows "i_LWL env op s = (let n = unat (lsaddr op s) mod 4 in
    set_gpr (RT_OF op) (SE32 ((rrt32 op s AND mask (8 * n)) OR push_bit (8 * n) (read_rdram_dram (lsaddr op s AND 0x1ffffffc) s)))
      (ADD_TO_PC 1 s))"
  using assms by (simp add: i_LWL_def Let_def unat_and3 below_mask load_word_dram rrt32_def)

lemma lwr_dram:
  assumes "lsaddr op s AND 0xc0000000 = 0x80000000" "mem_get_handler (lsaddr op s AND 0x1ffffffc) s = H_rdram_dram"
  shows "i_LWR env op s = (let n = unat (lsaddr op s) mod 4 in
    set_gpr (RT_OF op) (SE32 ((rrt32 op s AND (if n = 3 then 0 else NOT (mask (8 * (n + 1)))))
      OR drop_bit (8 * (3 - n)) (read_rdram_dram (lsaddr op s AND 0x1ffffffc) s))) (ADD_TO_PC 1 s))"
  using assms by (simp add: i_LWR_def Let_def unat_and3 BITS_ABOVE_MASK32_def below_mask load_word_dram rrt32_def)

text \<open>The two words around an unaligned address, after both parts of a word were stored there.\<close>

lemma unaligned_words:
  assumes size: "dram_size s \<le> 0x1000000" "unat (a AND 0x1ffffffc) < dram_size s" "unat ((a + 3) AND 0x1ffffffc) < dram_size s"
    and n2_def: "n2 = unat (a + 3) mod 4"
    and s1: "s1 = write_rdram_dram (a AND 0x1ffffffc) (drop_bit (8 * (unat a mod 4)) v)
      (if unat a mod 4 = 0 then 0xFFFFFFFF else mask (8 * (4 - unat a mod 4))) (ADD_TO_PC 1 s)"
    and s2: "s2 = write_rdram_dram ((a + 3) AND 0x1ffffffc) (push_bit (8 * (3 - n2)) v) (NOT (mask (8 * (3 - n2)))) (ADD_TO_PC 1 s1)"
  shows "(((w AND mask (8 * (unat a mod 4))) OR push_bit (8 * (unat a mod 4)) (read_rdram_dram (a AND 0x1ffffffc) s2)) AND
      (if n2 = 3 then 0 else NOT (mask (8 * (n2 + 1))))) OR drop_bit (8 * (3 - n2)) (read_rdram_dram ((a + 3) AND 0x1ffffffc) s2) = v"
proof -
  let ?A = "a AND 0x1ffffffc" and ?B = "(a + 3) AND 0x1ffffffc" and ?n = "unat a mod 4"
  have f1: "dram_size s1 = dram_size s" by (simp add: s1)
  show ?thesis
  proof (cases "?n = 0")
    case True
    then have n2: "n2 = 3" using unat_add3(2) [of a] by (simp add: n2_def unat_and3) presburger
    have "read_rdram_dram ?B s2 = v"
      using rdram_read_law [of "ADD_TO_PC 1 s1" ?B ?B] size by (simp add: s2 f1 n2)
    then show ?thesis by (simp add: n2)
  next
    case False
    let ?k = "8 * ?n"
    have n2: "n2 = ?n - 1" using unat_add3(2) [of a] next_word(2) [OF False] by (simp add: n2_def unat_and3)
    have k: "0 < ?k" "?k < 32" "8 * (4 - ?n) = 32 - ?k" "8 * (3 - n2) = 32 - ?k" "8 * (n2 + 1) = ?k" "n2 \<noteq> 3"
      using False mod_less_divisor [of 4 "unat a"] by (simp_all add: n2)
    have ra: "read_rdram_dram ?A s2 = masked_write (read_rdram_dram ?A s) (drop_bit ?k v) (mask (32 - ?k))"
      using rdram_read_law [of "ADD_TO_PC 1 s1" ?B ?A] rdram_read_law [of "ADD_TO_PC 1 s" ?A ?A] size next_word(1) [OF False] False
      by (simp add: s2 f1, simp add: s1 k)
    have rb: "read_rdram_dram ?B s2 = masked_write (read_rdram_dram ?B s) (push_bit (32 - ?k) v) (NOT (mask (32 - ?k)))"
      using rdram_read_law [of "ADD_TO_PC 1 s1" ?B ?B] rdram_read_law [of "ADD_TO_PC 1 s" ?A ?B] size next_word(1) [OF False]
      by (simp add: s2 f1 k, simp add: s1)
    show ?thesis using split_word [OF k(1,2)] k by (simp add: ra rb)
  qed
qed

text \<open>
  C20. Unaligned words: a register stored at any address of directly mapped RDRAM by the pair \<^verbatim>\<open>SWL\<close> at the
  address and \<^verbatim>\<open>SWR\<close> three bytes on is loaded back, sign-extended, by the pair \<^verbatim>\<open>LWL\<close> and \<^verbatim>\<open>LWR\<close>.
\<close>

theorem unaligned_word_round_trip:
  assumes seg: "a AND 0xc0000000 = 0x80000000" "(a + 3) AND 0xc0000000 = 0x80000000"
    and size: "dram_size s \<le> 0x1000000" "unat (a AND 0x1ffffffc) < dram_size s" "unat ((a + 3) AND 0x1ffffffc) < dram_size s"
    and h: "mem_get_handler (a AND 0x1ffffffc) s = H_rdram_dram" "mem_get_handler ((a + 3) AND 0x1ffffffc) s = H_rdram_dram"
    and ad: "lsaddr sl s = a" "lsaddr sr s = a + 3" "lsaddr ll s = a" "lsaddr lr s = a + 3"
    and rt: "RT_OF sr = RT_OF sl" "RT_OF lr = RT_OF ll" "RS_OF lr \<noteq> RT_OF ll"
  shows "gpr (i_LWR env lr (i_LWL env ll (i_SWR env sr (i_SWL env sl s)))) (RT_OF ll) = SE32 (rrt32 sl s)"
proof -
  let ?A = "a AND 0x1ffffffc" and ?B = "(a + 3) AND 0x1ffffffc" and ?n = "unat a mod 4" and ?v = "rrt32 sl s"
  define n2 where "n2 = unat (a + 3) mod 4"
  define s1 where "s1 = i_SWL env sl s"
  define s2 where "s2 = i_SWR env sr s1"
  define s3 where "s3 = i_LWL env ll s2"
  have s1: "s1 = write_rdram_dram ?A (drop_bit (8 * ?n) ?v) (if ?n = 0 then 0xFFFFFFFF else mask (8 * (4 - ?n))) (ADD_TO_PC 1 s)"
    using swl_dram [of sl s] seg(1) h(1) ad(1) by (simp add: s1_def Let_def)
  have f1: "gpr s1 = gpr s" "mem_get_handler b s1 = mem_get_handler b s" "dram_size s1 = dram_size s" for b by (simp_all add: s1)
  have a1: "lsaddr sr s1 = a + 3" "rrt32 sr s1 = ?v"
    using ad(2) rt(1) by (simp_all add: lsaddr_cong [of s1 sr s] f1 rrt32_def rrt_def)
  have s2: "s2 = write_rdram_dram ?B (push_bit (8 * (3 - n2)) ?v) (NOT (mask (8 * (3 - n2)))) (ADD_TO_PC 1 s1)"
    using swr_dram [of sr s1] seg(2) h(2) by (simp add: s2_def Let_def a1 f1 n2_def)
  have f2: "gpr s2 = gpr s" "mem_get_handler b s2 = mem_get_handler b s" "dram_size s2 = dram_size s" for b by (simp_all add: s2 f1)
  have a2: "lsaddr ll s2 = a" using ad(3) by (simp add: lsaddr_cong [of s2 ll s] f2)
  have s3: "s3 = set_gpr (RT_OF ll) (SE32 ((rrt32 ll s2 AND mask (8 * ?n)) OR push_bit (8 * ?n) (read_rdram_dram ?A s2))) (ADD_TO_PC 1 s2)"
    using lwl_dram [of ll s2] seg(1) h(1) by (simp add: s3_def Let_def a2 f2)
  have "gpr s3 (RS_OF lr) = gpr s (RS_OF lr)" using rt(3) by (simp add: s3 f2)
  then have a3: "lsaddr lr s3 = a + 3" using ad(4) lsaddr_cong [of s3 lr s] by simp
  have r3: "rrt32 lr s3 = (rrt32 ll s2 AND mask (8 * ?n)) OR push_bit (8 * ?n) (read_rdram_dram ?A s2)"
    by (simp add: rrt32_def [of lr] rrt_def rt(2) s3)
  have m3: "mem_get_handler ?B s3 = H_rdram_dram" "read_rdram_dram ?B s3 = read_rdram_dram ?B s2" using h(2) by (simp_all add: s3 f2)
  have "i_LWR env lr s3 = set_gpr (RT_OF ll) (SE32 ((rrt32 lr s3 AND (if n2 = 3 then 0 else NOT (mask (8 * (n2 + 1)))))
      OR drop_bit (8 * (3 - n2)) (read_rdram_dram ?B s2))) (ADD_TO_PC 1 s3)"
    using lwr_dram [of lr s3] seg(2) m3 by (simp add: Let_def a3 n2_def rt(2))
  moreover have "(rrt32 lr s3 AND (if n2 = 3 then 0 else NOT (mask (8 * (n2 + 1))))) OR drop_bit (8 * (3 - n2)) (read_rdram_dram ?B s2) = ?v"
    unfolding r3 by (rule unaligned_words [OF size n2_def s1 s2])
  ultimately show ?thesis by (simp add: s1_def s2_def s3_def)
qed

theorem unaligned_word_round_trip_witness:
  "\<forall>env. gpr (i_LWR env 0x00860003 (i_LWL env 0x00860000 (i_SWR env 0x00850003 (i_SWL env 0x00850000
     (sample_is\<lparr>gpr := (\<lambda>_. 0)(4 := 0xffffffff80000101, 5 := 0x1234567889abcdef)\<rparr>))))) 6 = 0xffffffff89abcdef"
proof
  fix env
  let ?s = "sample_is\<lparr>gpr := (\<lambda>_. 0)(4 := 0xffffffff80000101, 5 := 0x1234567889abcdef)\<rparr>"
  have c: "lsaddr 0x00850000 ?s = 0x80000101" "lsaddr 0x00850003 ?s = 0x80000104" "lsaddr 0x00860000 ?s = 0x80000101"
    "lsaddr 0x00860003 ?s = 0x80000104" "RT_OF 0x00850000 = 5" "RT_OF 0x00850003 = 5" "RT_OF 0x00860000 = 6" "RT_OF 0x00860003 = 6"
    "RS_OF 0x00860003 = 4" "rrt32 0x00850000 ?s = 0x89abcdef"
    by (simp_all add: lsaddr_def rrs32_def rrs_def rrt32_def rrt_def RS_OF_def RT_OF_def IMM16S_OF_def drop_bit_eq_div)
  have "mem_get_handler x ?s = H_rdram_dram" "dram_size ?s = 0x800000" for x
    by (simp_all add: mem_get_handler_def sample_is_chain)
  then show "gpr (i_LWR env 0x00860003 (i_LWL env 0x00860000 (i_SWR env 0x00850003 (i_SWL env 0x00850000 ?s)))) 6 = 0xffffffff89abcdef"
    using unaligned_word_round_trip [of "0x80000101" ?s "0x00850000" "0x00850003" "0x00860000" "0x00860003" env]
    by (simp add: c SE32_def)
qed

end
