(* ===== verification/Cop0.thy ===== *)
theory Cop0
  imports Load_Store
begin

text \<open>
  The instructions of coprocessor 0 and the TLB instructions
  (\<^verbatim>\<open>src/src/device/r4300/mips_instructions.def\<close>) for the pure interpreter, where \<^verbatim>\<open>TLBWrite\<close> does not touch the
  caches of compiled code.

  A write of a TLB entry may never return, because the loops of \<open>Tlb\<close> may not: the
  instructions that write one have \<open>None\<close> for that. An index beyond the table is a fault.
\<close>

section \<open>TLB instructions\<close>

definition tlb_entry_matches :: "u32 \<Rightarrow> tlb_entry \<Rightarrow> bool" where
  "tlb_entry_matches entryhi e \<longleftrightarrow>
     vpn2 e AND NOT (scast (te_mask e)) = drop_bit 13 (entryhi AND 0xFFFFE000) AND NOT (scast (te_mask e)) \<and>
     (te_g e \<noteq> 0 \<or> ucast (asid e) = entryhi AND 0xFF)"

definition i_TLBP :: "'a dev \<Rightarrow> 'a dev" where
  "i_TLBP s0 =
     (let s = set_cp0 CP0_INDEX_REG (cp0_regs s0 CP0_INDEX_REG OR 0x80000000) s0;
          s = (case find (\<lambda>i. tlb_entry_matches (cp0_regs s CP0_ENTRYHI_REG) (entries (cp0_tlb s) ! i)) [0..<32] of
                 Some i \<Rightarrow> set_cp0 CP0_INDEX_REG (of_nat i) s
               | None \<Rightarrow> s)
      in ADD_TO_PC 1 s)"

definition tlb_index :: "'a dev \<Rightarrow> nat" where
  "tlb_index s = unat (cp0_regs s CP0_INDEX_REG AND 0x3F)"

definition i_TLBR :: "'a dev \<Rightarrow> 'a dev" where
  "i_TLBR s0 =
     (let index = tlb_index s0; e = entries (cp0_tlb s0) ! index;
          s = (if index < CP0_REGS_COUNT
               then let s = set_cp0 CP0_PAGEMASK_REG (push_bit 13 (scast (te_mask e))) s0;
                        s = set_cp0 CP0_ENTRYHI_REG (push_bit 13 (vpn2 e) OR ucast (asid e)) s;
                        s = set_cp0 CP0_ENTRYLO0_REG (push_bit 6 (pfn_even e) OR push_bit 3 (scast (c_even e))
                              OR push_bit 2 (scast (d_even e)) OR push_bit 1 (scast (v_even e)) OR scast (te_g e)) s
                    in set_cp0 CP0_ENTRYLO1_REG (push_bit 6 (pfn_odd e) OR push_bit 3 (scast (c_odd e))
                              OR push_bit 2 (scast (d_odd e)) OR push_bit 1 (scast (v_odd e)) OR scast (te_g e)) s
               else s0)
      in ADD_TO_PC 1 s)"

text \<open>The entry \<^verbatim>\<open>TLBWrite\<close> fills from the registers.\<close>

definition entry_of_regs :: "regfile \<Rightarrow> tlb_entry \<Rightarrow> tlb_entry" where
  "entry_of_regs regs e0 =
     (let lo0 = regs CP0_ENTRYLO0_REG; lo1 = regs CP0_ENTRYLO1_REG; hi = regs CP0_ENTRYHI_REG;
          e = e0\<lparr>te_g := ucast (lo0 AND lo1 AND 1),
                 pfn_even := drop_bit 6 (lo0 AND 0x3FFFFFC0), pfn_odd := drop_bit 6 (lo1 AND 0x3FFFFFC0),
                 c_even := ucast (drop_bit 3 (lo0 AND 0x38)), c_odd := ucast (drop_bit 3 (lo1 AND 0x38)),
                 d_even := ucast (drop_bit 2 (lo0 AND 0x4)), d_odd := ucast (drop_bit 2 (lo1 AND 0x4)),
                 v_even := ucast (drop_bit 1 (lo0 AND 0x2)), v_odd := ucast (drop_bit 1 (lo1 AND 0x2)),
                 asid := ucast (hi AND 0xFF), vpn2 := drop_bit 13 (hi AND 0xFFFFE000),
                 te_mask := ucast (drop_bit 13 (regs CP0_PAGEMASK_REG AND 0x1FFE000))\<rparr>;
          size = push_bit 12 (scast (te_mask e)) :: u32;
          e = e\<lparr>start_even := push_bit 13 (vpn2 e)\<rparr>;
          e = e\<lparr>end_even := start_even e + size + 0xFFF\<rparr>;
          e = e\<lparr>phys_even := push_bit 12 (pfn_even e)\<rparr>;
          e = e\<lparr>start_odd := end_even e + 1\<rparr>;
          e = e\<lparr>end_odd := start_odd e + size + 0xFFF\<rparr>
      in e\<lparr>phys_odd := push_bit 12 (pfn_odd e)\<rparr>)"

text \<open>The instruction is ignored when it would replace the page it is fetched from.\<close>

definition in_tlb_page :: "u32 \<Rightarrow> tlb_entry \<Rightarrow> bool" where
  "in_tlb_page pc e \<longleftrightarrow>
     (pc \<ge> start_even e \<and> pc < end_even e \<and> v_even e \<noteq> 0) \<or> (pc \<ge> start_odd e \<and> pc < end_odd e \<and> v_odd e \<noteq> 0)"

definition TLBWrite :: "nat \<Rightarrow> 'a dev \<Rightarrow> 'a dev option" where
  "TLBWrite idx s =
     (if \<not> idx < 32 then Some (set_fault s)
      else if in_tlb_page (pc_addr s) (entries (cp0_tlb s) ! idx) then Some s
      else case tlb_unmap (cp0_tlb s) idx of None \<Rightarrow> None
      | Some t \<Rightarrow>
          case tlb_map (t\<lparr>entries := (entries t)[idx := entry_of_regs (cp0_regs s) (entries t ! idx)]\<rparr>) idx of None \<Rightarrow> None
          | Some t \<Rightarrow> Some (s\<lparr>cp0_tlb := t\<rparr>))"

definition update_random :: "'a dev \<Rightarrow> 'a dev" where
  "update_random s0 =
     (let s = cp0_update_count s0; n = count_reg s div count_per_op s; w = cp0_regs s CP0_WIRED_REG in
      if count_per_op s = 0 then set_fault s
      else set_cp0 CP0_RANDOM_REG (if w \<ge> 32 then n mod 64 else n mod (32 - w) + w) s)"

definition i_TLBWR :: "'a dev \<Rightarrow> 'a dev option" where
  "i_TLBWR s0 =
     (let s = update_random s0 in map_option (ADD_TO_PC 1) (TLBWrite (unat (cp0_regs s CP0_RANDOM_REG)) s))"

definition i_TLBWI :: "'a dev \<Rightarrow> 'a dev option" where
  "i_TLBWI s = map_option (ADD_TO_PC 1) (if tlb_index s < CP0_REGS_COUNT then TLBWrite (tlb_index s) s else Some s)"

section \<open>Moves\<close>

definition cp0_unused :: "nat \<Rightarrow> bool" where
  "cp0_unused r \<longleftrightarrow> r = 7 \<or> (21 \<le> r \<and> r \<le> 25) \<or> r = 31"

definition i_MFC0 :: "u32 \<Rightarrow> 'a dev \<Rightarrow> 'a dev" where
  "i_MFC0 op s0 =
     (let r = RD_OF op in
      if r = CP0_RANDOM_REG then let s = update_random s0 in to_rt op (SE32 (cp0_regs s r)) s
      else if r = CP0_COUNT_REG then let s = cp0_update_count s0 in to_rt op (SE32 (cp0_regs s r)) s
      else if cp0_unused r then to_rt op (cp0_latch s0) s0
      else to_rt op (SE32 (cp0_regs s0 r)) s0)"

definition i_DMFC0 :: "u32 \<Rightarrow> 'a dev \<Rightarrow> 'a dev" where
  "i_DMFC0 op s0 =
     (let r = RD_OF op in
      if r = CP0_RANDOM_REG then let s = update_random s0 in to_rt op (ucast (cp0_regs s r)) s
      else if r = CP0_COUNT_REG then let s = cp0_update_count s0 in to_rt op (ucast (cp0_regs s r)) s
      else if r = CP0_EPC_REG then to_rt op (SE32 (cp0_regs s0 r)) s0
      else if cp0_unused r then to_rt op (cp0_latch s0) s0
      else to_rt op (ucast (cp0_regs s0 r)) s0)"

text \<open>\<^verbatim>\<open>if (*cp0_cycle_count >= 0) { gen_interrupt(r4300); }\<close>\<close>

definition check_cycle_count :: "'a dev machine \<Rightarrow> 'a dev \<Rightarrow> 'a dev" where
  "check_cycle_count env s = (if 0 \<le>s cycle_count s then dev_gen env s else s)"

definition unsafe_check :: "'a dev machine \<Rightarrow> 'a dev \<Rightarrow> 'a dev" where
  "unsafe_check env s0 =
     (let s = check_cycle_count env (s0\<lparr>interrupt_unsafe_state := interrupt_unsafe_state s0 OR INTR_UNSAFE_R4300\<rparr>)
      in s\<lparr>interrupt_unsafe_state := interrupt_unsafe_state s AND NOT INTR_UNSAFE_R4300\<rparr>)"

definition check_mi_interrupt :: "'a dev \<Rightarrow> 'a dev" where
  "check_mi_interrupt s =
     r4300_check_interrupt CP0_CAUSE_IP2 (mi_regs s MI_INTR_REG AND mi_regs s MI_INTR_MASK_REG \<noteq> 0) s"

definition mtc0_count :: "'a dev machine \<Rightarrow> u32 \<Rightarrow> 'a dev \<Rightarrow> 'a dev" where
  "mtc0_count env op s0 =
     (let s = unsafe_check env (cp0_update_count s0) in translate_event_queue (rrt32 op s) s)"

definition mtc0_compare :: "u32 \<Rightarrow> 'a dev \<Rightarrow> 'a dev" where
  "mtc0_compare op s0 =
     (let s = cp0_update_count s0;
          s = remove_event_s COMPARE_INT s;
          s = add_compare_event (rrt32 op s) s;
          s = set_cp0 CP0_COMPARE_REG (rrt32 op s) s
      in set_cp0 CP0_CAUSE_REG (cp0_regs s CP0_CAUSE_REG AND NOT CP0_CAUSE_IP7) s)"

text \<open>\<^verbatim>\<open>rrt32 &= ~0x080000\<close> clears the bit in the register itself.\<close>

definition mtc0_status :: "'a dev machine \<Rightarrow> u32 \<Rightarrow> 'a dev \<Rightarrow> 'a dev" where
  "mtc0_status env op s0 =
     (let s = set_gpr (RT_OF op) (set_half 0 (rrt32 op s0 AND NOT 0x080000) (rrt op s0)) s0;
          v = rrt32 op s;
          s = (if v AND CP0_STATUS_FR \<noteq> cp0_regs s CP0_STATUS_REG AND CP0_STATUS_FR
               then s\<lparr>cp1 := set_fpr_pointers v (cp1 s)\<rparr> else s);
          s = set_cp0 CP0_STATUS_REG v s;
          s = ADD_TO_PC 1 s;
          s = cp0_update_count s;
          s = check_mi_interrupt s
      in unsafe_check env s)"

definition mtc0_reg :: "u32 \<Rightarrow> nat \<Rightarrow> 'a dev \<Rightarrow> 'a dev" where
  "mtc0_reg v r s =
     (if r = CP0_INDEX_REG then set_cp0 r (v AND 0x8000003F) s
      else if r = CP0_ENTRYLO0_REG \<or> r = CP0_ENTRYLO1_REG then set_cp0 r (v AND 0x3FFFFFFF) s
      else if r = CP0_CONTEXT_REG then set_cp0 r ((v AND 0xFF800000) OR (cp0_regs s r AND 0x007FFFF0)) s
      else if r = CP0_PAGEMASK_REG then set_cp0 r (v AND 0x01FFE000) s
      else if r = CP0_WIRED_REG then set_cp0 CP0_RANDOM_REG 31 (set_cp0 r (v AND 0x3F) s)
      else if r = CP0_ENTRYHI_REG then set_cp0 r (v AND 0xFFFFE0FF) s
      else if r = CP0_CAUSE_REG
      then set_cp0 r ((cp0_regs s r AND NOT (CP0_CAUSE_IP0 OR CP0_CAUSE_IP1)) OR (v AND (CP0_CAUSE_IP0 OR CP0_CAUSE_IP1))) s
      else if r = CP0_CONFIG_REG
      then set_cp0 r ((v AND 0x0000000F) OR (cp0_regs s r AND 0x00008000) OR (cp0_regs s r AND 0x7FFFFFFF)) s
      else if r = CP0_EPC_REG \<or> r = CP0_LLADDR_REG \<or> r = CP0_WATCHLO_REG \<or> r = CP0_WATCHHI_REG \<or> r = CP0_ERROREPC_REG
      then set_cp0 r v s
      else if r = CP0_PARITYERR_REG then set_cp0 r (v AND 0xFF) s
      else if r = CP0_TAGLO_REG then set_cp0 r (v AND 0x0FFFFFC0) s
      else if r = CP0_TAGHI_REG then set_cp0 r 0 s
      else s)"

definition i_MTC0 :: "'a dev machine \<Rightarrow> u32 \<Rightarrow> 'a dev \<Rightarrow> 'a dev" where
  "i_MTC0 env op s0 =
     (let s = s0\<lparr>cp0_latch := SE32 (rrt32 op s0)\<rparr>; r = RD_OF op in
      if r = CP0_STATUS_REG then mtc0_status env op s
      else ADD_TO_PC 1
        (if r = CP0_COUNT_REG then mtc0_count env op s
         else if r = CP0_COMPARE_REG then mtc0_compare op s
         else mtc0_reg (rrt32 op s) r s))"

definition i_ERET :: "'a dev machine \<Rightarrow> 'a dev \<Rightarrow> 'a dev" where
  "i_ERET env s0 =
     (let s = cp0_update_count s0;
          s = (if cp0_regs s CP0_STATUS_REG AND CP0_STATUS_ERL \<noteq> 0 then s\<lparr>stop := 1\<rparr>
               else let s = set_cp0 CP0_STATUS_REG (cp0_regs s CP0_STATUS_REG AND NOT CP0_STATUS_EXL) s
                    in generic_jump_to (cp0_regs s CP0_EPC_REG) s);
          s = s\<lparr>llbit := 0\<rparr>;
          s = check_mi_interrupt s;
          s = s\<lparr>last_addr := pc_addr s\<rparr>
      in check_cycle_count env s)"

section \<open>Fields of a register\<close>

definition field :: "nat \<Rightarrow> nat \<Rightarrow> u32 \<Rightarrow> u32" where
  "field k n x = take_bit n (drop_bit k x)"

lemma field_mask: "x AND push_bit k (mask n) = push_bit k (field k n x)"
  by (rule bit_word_eqI) (auto simp: field_def bit_simps)

lemma drop_field: "drop_bit k (x AND push_bit k (mask n)) = field k n x" if "k + n \<le> 32"
  using that by (intro bit_word_eqI) (auto simp: field_def bit_simps)

lemma field_masks:
  "(0x1FFE000 :: u32) = push_bit 13 (mask 12)" "(0xFFFFE000 :: u32) = push_bit 13 (mask 19)" "(0xFF :: u32) = push_bit 0 (mask 8)"
  "(0x3FFFFFC0 :: u32) = push_bit 6 (mask 24)" "(0x38 :: u32) = push_bit 3 (mask 3)" "(4 :: u32) = push_bit 2 (mask 1)"
  "(2 :: u32) = push_bit 1 (mask 1)"
  by (simp_all add: mask_eq_exp_minus_1 push_bit_eq_mult)

lemma field_drops:
  "drop_bit 13 (x AND 0x1FFE000) = field 13 12 x" "drop_bit 13 (x AND 0xFFFFE000) = field 13 19 x"
  "drop_bit 6 (x AND 0x3FFFFFC0) = field 6 24 x" "drop_bit 3 (x AND 0x38) = field 3 3 x"
  "drop_bit 2 (x AND 4) = field 2 1 x" "drop_bit 1 (x AND 2) = field 1 1 x"
  unfolding field_masks by (rule drop_field, simp)+

lemma field_low: "x AND 0xFF = field 0 8 x"
  unfolding field_masks(3) field_mask by simp

lemma narrow_field:
  "n < 8 \<Longrightarrow> scast (ucast (field k n x) :: u8) = field k n x" "n < 16 \<Longrightarrow> scast (ucast (field k n x) :: u16) = field k n x"
  "ucast (ucast (field k 8 x) :: u8) = field k 8 x"
  by (rule bit_word_eqI; simp add: field_def bit_simps min_def)+

lemma bit_push_field: "bit (push_bit k (field k n x)) j \<longleftrightarrow> k \<le> j \<and> j < k + n \<and> bit x j"
  by (cases "k \<le> j") (auto simp: field_def bit_push_bit_iff bit_take_bit_iff bit_drop_bit_eq dest: bit_imp_le_length)

lemma entry_lo_bits:
  "push_bit 6 (field 6 24 x) OR push_bit 3 (field 3 3 x) OR push_bit 2 (field 2 1 x) OR push_bit 1 (field 1 1 x) = x AND 0x3FFFFFFE"
proof -
  have m: "(0x3FFFFFFE :: u32) = mask 30 AND NOT (mask 1)" by (simp add: mask_eq_exp_minus_1)
  show ?thesis
  proof (rule bit_word_eqI)
    fix j assume j: "j < LENGTH(32)"
    show "bit (push_bit 6 (field 6 24 x) OR push_bit 3 (field 3 3 x) OR push_bit 2 (field 2 1 x) OR push_bit 1 (field 1 1 x)) j
      = bit (x AND 0x3FFFFFFE) j"
      unfolding m bit_or_iff bit_push_field bit_and_iff bit_not_iff bit_mask_iff using j by auto
  qed
qed

lemma entry_hi_bits: "push_bit 13 (field 13 19 x) OR field 0 8 x = x AND 0xFFFFE0FF"
proof -
  have m: "(0xFFFFE0FF :: u32) = push_bit 13 (mask 19) OR mask 8" by (simp add: mask_eq_exp_minus_1 push_bit_eq_mult)
  show ?thesis
    unfolding m by (rule bit_word_eqI) (simp only: bit_or_iff bit_and_iff bit_push_field, auto simp: field_def bit_simps)
qed

lemma page_mask_bits: "push_bit 13 (field 13 12 x) = x AND 0x1FFE000"
  unfolding field_masks(1) field_mask by simp

lemma and_one_field: "x AND y AND 1 = field 0 1 (x AND y)"
  unfolding field_def by (simp add: take_bit_eq_mask mask_eq_exp_minus_1 and.assoc)

lemmas entry_fields = field_drops field_low and_one_field narrow_field

text \<open>The fields of the entry that \<^verbatim>\<open>TLBWrite\<close> builds.\<close>

lemma entry_of_regs_fields:
  fixes regs :: regfile and e0 :: tlb_entry
  defines "e \<equiv> entry_of_regs regs e0"
  shows "scast (te_mask e) = field 13 12 (regs CP0_PAGEMASK_REG)" "vpn2 e = field 13 19 (regs CP0_ENTRYHI_REG)"
    "ucast (asid e) = field 0 8 (regs CP0_ENTRYHI_REG)"
    "scast (te_g e) = field 0 1 (regs CP0_ENTRYLO0_REG AND regs CP0_ENTRYLO1_REG)"
    "pfn_even e = field 6 24 (regs CP0_ENTRYLO0_REG)" "scast (c_even e) = field 3 3 (regs CP0_ENTRYLO0_REG)"
    "scast (d_even e) = field 2 1 (regs CP0_ENTRYLO0_REG)" "scast (v_even e) = field 1 1 (regs CP0_ENTRYLO0_REG)"
    "pfn_odd e = field 6 24 (regs CP0_ENTRYLO1_REG)" "scast (c_odd e) = field 3 3 (regs CP0_ENTRYLO1_REG)"
    "scast (d_odd e) = field 2 1 (regs CP0_ENTRYLO1_REG)" "scast (v_odd e) = field 1 1 (regs CP0_ENTRYLO1_REG)"
  by (simp_all add: e_def entry_of_regs_def Let_def entry_fields del: drop_bit_and One_nat_def)

section \<open>Writing an entry\<close>

text \<open>An entry can be replaced when its mapping can be removed.\<close>

definition replaceable :: "tlb_entry \<Rightarrow> bool" where
  "replaceable e \<longleftrightarrow> wf_entry e \<or> (v_even e = 0 \<and> v_odd e = 0)"

lemma unmap_replaceable:
  assumes "i < 32" "replaceable (entries t ! i)"
  shows "\<exists>t'. tlb_unmap t i = Some t' \<and> entries t' = entries t \<and>
    (\<forall>a w. lut_translate t' a w = (if entry_translate (entries t ! i) w a \<noteq> None then None else lut_translate t a w))"
proof (cases "wf_entry (entries t ! i)")
  case True
  then show ?thesis by (rule tlb_unmap_effect [OF assms(1)])
next
  case False
  then have "v_even (entries t ! i) = 0" "v_odd (entries t ! i) = 0" using assms(2) by (auto simp: replaceable_def)
  then show ?thesis using assms(1) by (simp add: tlb_unmap_def Let_def unmap_page_def entry_translate_def)
qed

lemma TLBWrite_effect:
  assumes "i < 32" "wf_tlb (cp0_tlb s)" "replaceable (entries (cp0_tlb s) ! i)" "\<not> in_tlb_page (pc_addr s) (entries (cp0_tlb s) ! i)"
    and "wf_entry (entry_of_regs (cp0_regs s) (entries (cp0_tlb s) ! i))"
  shows "\<exists>t. TLBWrite i s = Some (s\<lparr>cp0_tlb := t\<rparr>) \<and>
    entries t = (entries (cp0_tlb s))[i := entry_of_regs (cp0_regs s) (entries (cp0_tlb s) ! i)] \<and>
    (\<forall>a w. lut_translate t a w =
      (case entry_translate (entry_of_regs (cp0_regs s) (entries (cp0_tlb s) ! i)) w a of Some p \<Rightarrow> Some p
       | None \<Rightarrow> if entry_translate (entries (cp0_tlb s) ! i) w a \<noteq> None then None else lut_translate (cp0_tlb s) a w))"
proof -
  let ?e = "entry_of_regs (cp0_regs s) (entries (cp0_tlb s) ! i)"
  obtain t0 where t0: "tlb_unmap (cp0_tlb s) i = Some t0" "entries t0 = entries (cp0_tlb s)"
      "\<forall>a w. lut_translate t0 a w = (if entry_translate (entries (cp0_tlb s) ! i) w a \<noteq> None then None else lut_translate (cp0_tlb s) a w)"
    using unmap_replaceable [OF assms(1,3)] by blast
  define t1 where "t1 = t0\<lparr>entries := (entries (cp0_tlb s))[i := ?e]\<rparr>"
  have n: "entries t1 = (entries (cp0_tlb s))[i := ?e]" "entries t1 ! i = ?e"
    using assms(1,2) t0(2) by (simp_all add: t1_def wf_tlb_def)
  obtain t where t: "tlb_map t1 i = Some t" "entries t = entries t1"
      "\<forall>a w. lut_translate t a w = (case entry_translate ?e w a of Some p \<Rightarrow> Some p | None \<Rightarrow> lut_translate t1 a w)"
    using tlb_map_effect [OF assms(1), of t1] assms(5) by (auto simp only: n(2))
  have l: "lut_translate t1 a w = lut_translate t0 a w" for a w by (simp add: t1_def lut_translate_def Let_def)
  have "TLBWrite i s = Some (s\<lparr>cp0_tlb := t\<rparr>)" using assms(1,4) t0(1,2) t(1) by (simp add: TLBWrite_def t1_def)
  then show ?thesis using t(2,3) t0(3) by (intro exI [of _ t]) (simp only: n l simp_thms)
qed

text \<open>
  C17. Writing a TLB entry and reading it back: if the pages that the registers describe can be mapped (\<open>wf_entry\<close>: no overlap, and none that
  makes the loop of \<open>Tlb\<close> endless), the pages of the replaced entry are such pages or invalid, and the instruction is not itself in a page of the replaced
  entry, then \<^verbatim>\<open>TLBWI\<close> of an index inside the table returns, and a following
  \<^verbatim>\<open>TLBR\<close> finds in the four registers what was written, less the bits the entry does not have; the global bit
  is the conjunction of the two. Without these conditions the write may be ignored or never return.
\<close>

theorem tlb_write_read_back:
  assumes "tlb_index s < 32" "wf_tlb (cp0_tlb s)" "replaceable (entries (cp0_tlb s) ! tlb_index s)"
    and "\<not> in_tlb_page (pc_addr s) (entries (cp0_tlb s) ! tlb_index s)"
    and "wf_entry (entry_of_regs (cp0_regs s) (entries (cp0_tlb s) ! tlb_index s))"
  shows "\<exists>s'. i_TLBWI s = Some s' \<and> pc_addr s' = pc_addr s + 4 \<and>
    (let r = cp0_regs s; r' = cp0_regs (i_TLBR s'); g = r CP0_ENTRYLO0_REG AND r CP0_ENTRYLO1_REG AND 1 in
      r' CP0_PAGEMASK_REG = r CP0_PAGEMASK_REG AND 0x1FFE000 \<and> r' CP0_ENTRYHI_REG = r CP0_ENTRYHI_REG AND 0xFFFFE0FF \<and>
      r' CP0_ENTRYLO0_REG = (r CP0_ENTRYLO0_REG AND 0x3FFFFFFE) OR g \<and>
      r' CP0_ENTRYLO1_REG = (r CP0_ENTRYLO1_REG AND 0x3FFFFFFE) OR g)"
proof -
  let ?i = "tlb_index s" and ?e = "entry_of_regs (cp0_regs s) (entries (cp0_tlb s) ! tlb_index s)"
  obtain t where t: "TLBWrite ?i s = Some (s\<lparr>cp0_tlb := t\<rparr>)" "entries t = (entries (cp0_tlb s))[?i := ?e]"
    using TLBWrite_effect [OF assms] by blast
  let ?s = "ADD_TO_PC 1 (s\<lparr>cp0_tlb := t\<rparr>)"
  have i: "i_TLBWI s = Some ?s" using t(1) assms(1) by (simp add: i_TLBWI_def)
  have e: "entries (cp0_tlb ?s) ! tlb_index ?s = ?e" "tlb_index ?s < 32"
    using t(2) assms(1,2) by (simp_all add: ADD_TO_PC_def tlb_index_def wf_tlb_def)
  have r: "cp0_regs (ADD_TO_PC 1 u) = cp0_regs u" for u by (simp add: ADD_TO_PC_def)
  have g: "x AND y AND 1 = field 0 1 (x AND y)" for x y by (rule and_one_field)
  show ?thesis
    using e
    by (intro exI [of _ ?s] conjI i)
      (simp_all add: i_TLBR_def Let_def r g entry_of_regs_fields page_mask_bits entry_hi_bits entry_lo_bits [symmetric] or.assoc)
qed

text \<open>
  C16. Virtual memory: when \<^verbatim>\<open>TLBWI\<close> writes an entry with a valid and dirty page, a store to an address of that
  page succeeds and is the store to the physical address of the page plus the offset in it, whichever device
  the memory map puts there.
\<close>

theorem tlb_write_maps_store:
  assumes "tlb_index s < 32" "wf_tlb (cp0_tlb s)" "replaceable (entries (cp0_tlb s) ! tlb_index s)"
    and "\<not> in_tlb_page (pc_addr s) (entries (cp0_tlb s) ! tlb_index s)"
    and "wf_entry (entry_of_regs (cp0_regs s) (entries (cp0_tlb s) ! tlb_index s))"
    and "entry_translate (entry_of_regs (cp0_regs s) (entries (cp0_tlb s) ! tlb_index s)) 1 a = Some p"
    and "a AND 0xc0000000 \<noteq> 0x80000000"
  shows "\<exists>s'. i_TLBWI s = Some s' \<and>
    r4300_write_aligned_word env gen a v m s' =
      (True, mem_write32 env gen (mem_get_handler (p AND 0x1ffffffc) s') (p AND 0x1ffffffc) v m s')"
proof -
  obtain t where t: "TLBWrite (tlb_index s) s = Some (s\<lparr>cp0_tlb := t\<rparr>)" "lut_translate t a 1 = Some p"
    using TLBWrite_effect [OF assms(1-5)] assms(6) by force
  let ?s = "ADD_TO_PC 1 (s\<lparr>cp0_tlb := t\<rparr>)"
  have "bit p 31" using assms(6) by (auto simp: entry_translate_def bit_simps split: if_splits)
  then have "p \<noteq> 0" by auto
  moreover have "lut_translate (cp0_tlb ?s) a 1 = Some p" using t(2) by (simp add: ADD_TO_PC_def)
  ultimately have "r4300_write_aligned_word env gen a v m ?s =
      (True, mem_write32 env gen (mem_get_handler (p AND 0x1ffffffc) ?s) (p AND 0x1ffffffc) v m ?s)"
    using assms(7) by (simp add: r4300_write_aligned_word_def physical_def virtual_to_physical_address_def)
  moreover have "i_TLBWI s = Some ?s" using t(1) assms(1) by (simp add: i_TLBWI_def)
  ultimately show ?thesis by blast
qed

section \<open>Witnesses\<close>

definition tlb_sample :: is_viewer where
  "tlb_sample = sample_is\<lparr>cp0_regs := (\<lambda>_. 0)(CP0_INDEX_REG := 3, CP0_ENTRYHI_REG := 0x4007, CP0_ENTRYLO0_REG := 0x147,
     CP0_ENTRYLO1_REG := 0x1C6), pc_addr := 0x80000400\<rparr>"

lemma tlb_sample_facts:
  "tlb_index tlb_sample = 3" "wf_tlb (cp0_tlb tlb_sample)" "replaceable (entries (cp0_tlb tlb_sample) ! 3)"
  "\<not> in_tlb_page (pc_addr tlb_sample) (entries (cp0_tlb tlb_sample) ! 3)"
  "wf_entry (entry_of_regs (cp0_regs tlb_sample) (entries (cp0_tlb tlb_sample) ! 3))"
  "entry_translate (entry_of_regs (cp0_regs tlb_sample) (entries (cp0_tlb tlb_sample) ! 3)) 1 0x4234 = Some 0x80005234"
  using sample_entry_wf
  by (simp_all add: tlb_sample_def tlb_index_def sample_is_tlb wf_tlb_def replaceable_def in_tlb_page_def)
    (simp_all add: sample_tlb_def sample_entry_def tlb_entry_zero_def entry_of_regs_def Let_def wf_entry_def mappable_def
      entry_translate_def in_pages_def drop_bit_eq_div push_bit_eq_mult)

theorem tlb_write_read_back_witness:
  "\<exists>s'. i_TLBWI tlb_sample = Some s' \<and> cp0_regs (i_TLBR s') CP0_ENTRYHI_REG = 0x4007 \<and>
     cp0_regs (i_TLBR s') CP0_ENTRYLO0_REG = 0x146"
  using tlb_write_read_back [of tlb_sample] tlb_sample_facts
  by (auto simp: Let_def) (simp_all add: tlb_sample_def)

theorem tlb_write_maps_store_witness:
  "\<forall>env. \<exists>s'. i_TLBWI tlb_sample = Some s' \<and>
     r4300_write_aligned_word env set_fault 0x4234 7 0xFFFFFFFF s' =
       (True, mem_write32 env set_fault (mem_get_handler 0x5234 s') 0x5234 7 0xFFFFFFFF s')"
  using tlb_write_maps_store [of tlb_sample "0x4234" "0x80005234" _ set_fault 7 "0xFFFFFFFF"] tlb_sample_facts by simp

end
