(* ===== verification/Cop1.thy ===== *)
theory Cop1
  imports Cop0 Fpu
begin

text \<open>
  The instructions of the coprocessors 1 and 2 (\<^verbatim>\<open>src/src/device/r4300/mips_instructions.def\<close>). Those of coprocessor 1
  check that it is usable before they do anything, except four comparisons of doubles, which the sources leave
  unchecked; operands go through the register tables of \<open>Cp1\<close>, the arithmetic is that of \<open>Fpu\<close>.
\<close>

abbreviation (input) CP0_CAUSE_EXCCODE_FPE :: u32 where "CP0_CAUSE_EXCCODE_FPE \<equiv> 0x3C"

section \<open>Operands\<close>

definition FD_OF :: "u32 \<Rightarrow> nat" where "FD_OF op = unat (drop_bit 6 op AND 0x1F)"

definition FS_OF :: "u32 \<Rightarrow> nat" where "FS_OF op = unat (drop_bit 11 op AND 0x1F)"

definition FT_OF :: "u32 \<Rightarrow> nat" where "FT_OF op = unat (drop_bit 16 op AND 0x1F)"

text \<open>\<^verbatim>\<open>if (check_cop1_unusable(r4300)) { return; }\<close> and the same for coprocessor 2, before the body.\<close>

definition with_cop1 :: "('a dev \<Rightarrow> 'a dev) \<Rightarrow> 'a dev \<Rightarrow> 'a dev" where
  "with_cop1 body s0 = (let (unusable, s) = check_cop1_unusable s0 in if unusable then s else body s)"

definition with_cop2 :: "('a dev \<Rightarrow> 'a dev) \<Rightarrow> 'a dev \<Rightarrow> 'a dev" where
  "with_cop2 body s0 = (let (unusable, s) = check_cop2_unusable s0 in if unusable then s else body s)"

definition upd_cp1 :: "(cp1 \<Rightarrow> cp1) \<Rightarrow> 'a dev \<Rightarrow> 'a dev" where
  "upd_cp1 f s = ADD_TO_PC 1 (s\<lparr>cp1 := f (cp1 s)\<rparr>)"

text \<open>Store the value an operation returns, with the coprocessor it returns.\<close>

definition to_simple :: "u32 \<Rightarrow> u32 \<times> cp1 \<Rightarrow> cp1" where
  "to_simple op r = put_simple (FD_OF op) (fst r) (snd r)"

definition to_double :: "u32 \<Rightarrow> u64 \<times> cp1 \<Rightarrow> cp1" where
  "to_double op r = put_double (FD_OF op) (fst r) (snd r)"

section \<open>Loads, stores and moves\<close>

definition i_LWC1 :: "'a dev machine \<Rightarrow> u32 \<Rightarrow> 'a dev \<Rightarrow> 'a dev" where
  "i_LWC1 env op s0 =
     with_cop1 (\<lambda>s. let (ok, v, s) = r4300_read_aligned_word env (lsaddr op s0) (get_simple (FT_OF op) (cp1 s)) (ADD_TO_PC 1 s)
                    in if ok then s\<lparr>cp1 := put_simple (FT_OF op) v (cp1 s)\<rparr> else s) s0"

definition i_LDC1 :: "'a dev machine \<Rightarrow> u32 \<Rightarrow> 'a dev \<Rightarrow> 'a dev" where
  "i_LDC1 env op s0 =
     with_cop1 (\<lambda>s. let (ok, v, s) = r4300_read_aligned_dword env (lsaddr op s0) (m_stack env s0, m_stack env s0)
                                       (get_double (FT_OF op) (cp1 s)) (ADD_TO_PC 1 s)
                    in if ok then s\<lparr>cp1 := put_double (FT_OF op) v (cp1 s)\<rparr> else s) s0"

definition i_SWC1 :: "'a dev machine \<Rightarrow> u32 \<Rightarrow> 'a dev \<Rightarrow> 'a dev" where
  "i_SWC1 env op s0 =
     with_cop1 (\<lambda>s. snd (store_word env (lsaddr op s0) (get_simple (FT_OF op) (cp1 s)) 0xFFFFFFFF s)) s0"

definition i_SDC1 :: "'a dev machine \<Rightarrow> u32 \<Rightarrow> 'a dev \<Rightarrow> 'a dev" where
  "i_SDC1 env op s0 =
     with_cop1 (\<lambda>s. snd (store_dword env (lsaddr op s0) (get_double (FT_OF op) (cp1 s)) 0xFFFFFFFFFFFFFFFF s)) s0"

definition i_MFC1 :: "u32 \<Rightarrow> 'a dev \<Rightarrow> 'a dev" where
  "i_MFC1 op = with_cop1 (\<lambda>s. to_rt op (SE32 (get_simple (FS_OF op) (cp1 s))) s)"

definition i_DMFC1 :: "u32 \<Rightarrow> 'a dev \<Rightarrow> 'a dev" where
  "i_DMFC1 op = with_cop1 (\<lambda>s. to_rt op (get_double (FS_OF op) (cp1 s)) s)"

definition i_CFC1 :: "u32 \<Rightarrow> 'a dev \<Rightarrow> 'a dev" where
  "i_CFC1 op = with_cop1 (\<lambda>s. if FS_OF op = 31 then to_rt op (SE32 (fcr31 (cp1 s))) s
                               else if FS_OF op = 0 then to_rt op (SE32 (fcr0 (cp1 s))) s else ADD_TO_PC 1 s)"

text \<open>The control moves that do not exist raise an unimplemented operation; \<^verbatim>\<open>fpu_reset_cause\<close> is empty in this build.\<close>

definition unimplemented_op :: "'a dev \<Rightarrow> 'a dev" where
  "unimplemented_op s0 =
     (let s = s0\<lparr>cp1 := (cp1 s0)\<lparr>fcr31 := fcr31 (cp1 s0) OR FCR31_CAUSE_UNIMPLOP_BIT\<rparr>\<rparr>
      in exception_general (set_cp0 CP0_CAUSE_REG CP0_CAUSE_EXCCODE_FPE s))"

definition i_DCFC1 :: "'a dev \<Rightarrow> 'a dev" where "i_DCFC1 = with_cop1 unimplemented_op"

definition i_MTC1 :: "u32 \<Rightarrow> 'a dev \<Rightarrow> 'a dev" where
  "i_MTC1 op = with_cop1 (\<lambda>s. upd_cp1 (put_simple (FS_OF op) (rrt32 op s)) s)"

definition i_DMTC1 :: "u32 \<Rightarrow> 'a dev \<Rightarrow> 'a dev" where
  "i_DMTC1 op = with_cop1 (\<lambda>s. upd_cp1 (put_double (FS_OF op) (rrt op s)) s)"

definition i_CTC1 :: "u32 \<Rightarrow> 'a dev \<Rightarrow> 'a dev" where
  "i_CTC1 op = with_cop1 (\<lambda>s. upd_cp1 (\<lambda>c. if FS_OF op = 31 then update_x86_rounding_mode (c\<lparr>fcr31 := rrt32 op s\<rparr>) else c) s)"

definition i_DCTC1 :: "'a dev \<Rightarrow> 'a dev" where "i_DCTC1 = with_cop1 unimplemented_op"

section \<open>Coprocessor 2\<close>

definition i_MFC2 :: "u32 \<Rightarrow> 'a dev \<Rightarrow> 'a dev" where
  "i_MFC2 op = with_cop2 (\<lambda>s. to_rt op (SE32 (ucast (cp2_latch s))) s)"

definition i_DMFC2 :: "u32 \<Rightarrow> 'a dev \<Rightarrow> 'a dev" where "i_DMFC2 op = with_cop2 (\<lambda>s. to_rt op (cp2_latch s) s)"

definition i_CFC2 :: "u32 \<Rightarrow> 'a dev \<Rightarrow> 'a dev" where
  "i_CFC2 op = with_cop2 (\<lambda>s. to_rt op (SE32 (ucast (cp2_latch s))) s)"

definition i_MTC2 :: "u32 \<Rightarrow> 'a dev \<Rightarrow> 'a dev" where
  "i_MTC2 op = with_cop2 (\<lambda>s. ADD_TO_PC 1 (s\<lparr>cp2_latch := rrt op s\<rparr>))"

definition i_DMTC2 :: "u32 \<Rightarrow> 'a dev \<Rightarrow> 'a dev" where
  "i_DMTC2 op = with_cop2 (\<lambda>s. ADD_TO_PC 1 (s\<lparr>cp2_latch := rrt op s\<rparr>))"

definition i_CTC2 :: "u32 \<Rightarrow> 'a dev \<Rightarrow> 'a dev" where
  "i_CTC2 op = with_cop2 (\<lambda>s. ADD_TO_PC 1 (s\<lparr>cp2_latch := rrt op s\<rparr>))"

section \<open>Floating point\<close>

definition i_ADD_S :: "host_fpu \<Rightarrow> u32 \<Rightarrow> 'a dev \<Rightarrow> 'a dev" where
  "i_ADD_S h op = with_cop1 (upd_cp1 (\<lambda>c. to_simple op (add_s h (get_simple (FS_OF op) c) (get_simple (FT_OF op) c) c)))"

definition i_ADD_D :: "host_fpu \<Rightarrow> u32 \<Rightarrow> 'a dev \<Rightarrow> 'a dev" where
  "i_ADD_D h op = with_cop1 (upd_cp1 (\<lambda>c. to_double op (add_d h (get_double (FS_OF op) c) (get_double (FT_OF op) c) c)))"

definition i_SUB_S :: "host_fpu \<Rightarrow> u32 \<Rightarrow> 'a dev \<Rightarrow> 'a dev" where
  "i_SUB_S h op = with_cop1 (upd_cp1 (\<lambda>c. to_simple op (sub_s h (get_simple (FS_OF op) c) (get_simple (FT_OF op) c) c)))"

definition i_SUB_D :: "host_fpu \<Rightarrow> u32 \<Rightarrow> 'a dev \<Rightarrow> 'a dev" where
  "i_SUB_D h op = with_cop1 (upd_cp1 (\<lambda>c. to_double op (sub_d h (get_double (FS_OF op) c) (get_double (FT_OF op) c) c)))"

definition i_MUL_S :: "host_fpu \<Rightarrow> u32 \<Rightarrow> 'a dev \<Rightarrow> 'a dev" where
  "i_MUL_S h op = with_cop1 (upd_cp1 (\<lambda>c. to_simple op (mul_s h (get_simple (FS_OF op) c) (get_simple (FT_OF op) c) c)))"

definition i_MUL_D :: "host_fpu \<Rightarrow> u32 \<Rightarrow> 'a dev \<Rightarrow> 'a dev" where
  "i_MUL_D h op = with_cop1 (upd_cp1 (\<lambda>c. to_double op (mul_d h (get_double (FS_OF op) c) (get_double (FT_OF op) c) c)))"

definition i_DIV_S :: "host_fpu \<Rightarrow> u32 \<Rightarrow> 'a dev \<Rightarrow> 'a dev" where
  "i_DIV_S h op = with_cop1 (upd_cp1 (\<lambda>c. to_simple op (div_s h (get_simple (FS_OF op) c) (get_simple (FT_OF op) c) c)))"

definition i_DIV_D :: "host_fpu \<Rightarrow> u32 \<Rightarrow> 'a dev \<Rightarrow> 'a dev" where
  "i_DIV_D h op = with_cop1 (upd_cp1 (\<lambda>c. to_double op (div_d h (get_double (FS_OF op) c) (get_double (FT_OF op) c) c)))"

definition i_SQRT_S :: "host_fpu \<Rightarrow> u32 \<Rightarrow> 'a dev \<Rightarrow> 'a dev" where
  "i_SQRT_S h op = with_cop1 (upd_cp1 (\<lambda>c. to_simple op (sqrt_s h (get_simple (FS_OF op) c) c)))"

definition i_SQRT_D :: "host_fpu \<Rightarrow> u32 \<Rightarrow> 'a dev \<Rightarrow> 'a dev" where
  "i_SQRT_D h op = with_cop1 (upd_cp1 (\<lambda>c. to_double op (sqrt_d h (get_double (FS_OF op) c) c)))"

definition i_ABS_S :: "u32 \<Rightarrow> 'a dev \<Rightarrow> 'a dev" where
  "i_ABS_S op = with_cop1 (upd_cp1 (\<lambda>c. to_simple op (abs_s (get_simple (FS_OF op) c), c)))"

definition i_ABS_D :: "u32 \<Rightarrow> 'a dev \<Rightarrow> 'a dev" where
  "i_ABS_D op = with_cop1 (upd_cp1 (\<lambda>c. to_double op (abs_d (get_double (FS_OF op) c), c)))"

definition i_MOV_S :: "u32 \<Rightarrow> 'a dev \<Rightarrow> 'a dev" where
  "i_MOV_S op = with_cop1 (upd_cp1 (\<lambda>c. to_simple op (mov_s (get_simple (FS_OF op) c), c)))"

definition i_MOV_D :: "u32 \<Rightarrow> 'a dev \<Rightarrow> 'a dev" where
  "i_MOV_D op = with_cop1 (upd_cp1 (\<lambda>c. to_double op (mov_d (get_double (FS_OF op) c), c)))"

definition i_NEG_S :: "u32 \<Rightarrow> 'a dev \<Rightarrow> 'a dev" where
  "i_NEG_S op = with_cop1 (upd_cp1 (\<lambda>c. to_simple op (neg_s (get_simple (FS_OF op) c), c)))"

definition i_NEG_D :: "u32 \<Rightarrow> 'a dev \<Rightarrow> 'a dev" where
  "i_NEG_D op = with_cop1 (upd_cp1 (\<lambda>c. to_double op (neg_d (get_double (FS_OF op) c), c)))"

definition i_ROUND_W_S :: "host_fpu \<Rightarrow> u32 \<Rightarrow> 'a dev \<Rightarrow> 'a dev" where
  "i_ROUND_W_S h op = with_cop1 (upd_cp1 (\<lambda>c. to_simple op (round_w_s h (get_simple (FS_OF op) c) c, c)))"

definition i_ROUND_W_D :: "host_fpu \<Rightarrow> u32 \<Rightarrow> 'a dev \<Rightarrow> 'a dev" where
  "i_ROUND_W_D h op = with_cop1 (upd_cp1 (\<lambda>c. to_simple op (round_w_d h (get_double (FS_OF op) c) c, c)))"

definition i_ROUND_L_S :: "host_fpu \<Rightarrow> u32 \<Rightarrow> 'a dev \<Rightarrow> 'a dev" where
  "i_ROUND_L_S h op = with_cop1 (upd_cp1 (\<lambda>c. to_double op (round_l_s h (get_simple (FS_OF op) c) c, c)))"

definition i_ROUND_L_D :: "host_fpu \<Rightarrow> u32 \<Rightarrow> 'a dev \<Rightarrow> 'a dev" where
  "i_ROUND_L_D h op = with_cop1 (upd_cp1 (\<lambda>c. to_double op (round_l_d h (get_double (FS_OF op) c) c, c)))"

definition i_TRUNC_W_S :: "host_fpu \<Rightarrow> u32 \<Rightarrow> 'a dev \<Rightarrow> 'a dev" where
  "i_TRUNC_W_S h op = with_cop1 (upd_cp1 (\<lambda>c. to_simple op (trunc_w_s h (get_simple (FS_OF op) c), c)))"

definition i_TRUNC_W_D :: "host_fpu \<Rightarrow> u32 \<Rightarrow> 'a dev \<Rightarrow> 'a dev" where
  "i_TRUNC_W_D h op = with_cop1 (upd_cp1 (\<lambda>c. to_simple op (trunc_w_d h (get_double (FS_OF op) c), c)))"

definition i_TRUNC_L_S :: "host_fpu \<Rightarrow> u32 \<Rightarrow> 'a dev \<Rightarrow> 'a dev" where
  "i_TRUNC_L_S h op = with_cop1 (upd_cp1 (\<lambda>c. to_double op (trunc_l_s h (get_simple (FS_OF op) c), c)))"

definition i_TRUNC_L_D :: "host_fpu \<Rightarrow> u32 \<Rightarrow> 'a dev \<Rightarrow> 'a dev" where
  "i_TRUNC_L_D h op = with_cop1 (upd_cp1 (\<lambda>c. to_double op (trunc_l_d h (get_double (FS_OF op) c), c)))"

definition i_CEIL_W_S :: "host_fpu \<Rightarrow> u32 \<Rightarrow> 'a dev \<Rightarrow> 'a dev" where
  "i_CEIL_W_S h op = with_cop1 (upd_cp1 (\<lambda>c. to_simple op (ceil_w_s h (get_simple (FS_OF op) c), c)))"

definition i_CEIL_W_D :: "host_fpu \<Rightarrow> u32 \<Rightarrow> 'a dev \<Rightarrow> 'a dev" where
  "i_CEIL_W_D h op = with_cop1 (upd_cp1 (\<lambda>c. to_simple op (ceil_w_d h (get_double (FS_OF op) c), c)))"

definition i_CEIL_L_S :: "host_fpu \<Rightarrow> u32 \<Rightarrow> 'a dev \<Rightarrow> 'a dev" where
  "i_CEIL_L_S h op = with_cop1 (upd_cp1 (\<lambda>c. to_double op (ceil_l_s h (get_simple (FS_OF op) c), c)))"

definition i_CEIL_L_D :: "host_fpu \<Rightarrow> u32 \<Rightarrow> 'a dev \<Rightarrow> 'a dev" where
  "i_CEIL_L_D h op = with_cop1 (upd_cp1 (\<lambda>c. to_double op (ceil_l_d h (get_double (FS_OF op) c), c)))"

definition i_FLOOR_W_S :: "host_fpu \<Rightarrow> u32 \<Rightarrow> 'a dev \<Rightarrow> 'a dev" where
  "i_FLOOR_W_S h op = with_cop1 (upd_cp1 (\<lambda>c. to_simple op (floor_w_s h (get_simple (FS_OF op) c), c)))"

definition i_FLOOR_W_D :: "host_fpu \<Rightarrow> u32 \<Rightarrow> 'a dev \<Rightarrow> 'a dev" where
  "i_FLOOR_W_D h op = with_cop1 (upd_cp1 (\<lambda>c. to_simple op (floor_w_d h (get_double (FS_OF op) c), c)))"

definition i_FLOOR_L_S :: "host_fpu \<Rightarrow> u32 \<Rightarrow> 'a dev \<Rightarrow> 'a dev" where
  "i_FLOOR_L_S h op = with_cop1 (upd_cp1 (\<lambda>c. to_double op (floor_l_s h (get_simple (FS_OF op) c), c)))"

definition i_FLOOR_L_D :: "host_fpu \<Rightarrow> u32 \<Rightarrow> 'a dev \<Rightarrow> 'a dev" where
  "i_FLOOR_L_D h op = with_cop1 (upd_cp1 (\<lambda>c. to_double op (floor_l_d h (get_double (FS_OF op) c), c)))"

definition i_CVT_S_D :: "host_fpu \<Rightarrow> u32 \<Rightarrow> 'a dev \<Rightarrow> 'a dev" where
  "i_CVT_S_D h op = with_cop1 (upd_cp1 (\<lambda>c. to_simple op (cvt_s_d h (get_double (FS_OF op) c) c)))"

definition i_CVT_S_W :: "host_fpu \<Rightarrow> u32 \<Rightarrow> 'a dev \<Rightarrow> 'a dev" where
  "i_CVT_S_W h op = with_cop1 (upd_cp1 (\<lambda>c. to_simple op (cvt_s_w h (get_simple (FS_OF op) c) c)))"

definition i_CVT_S_L :: "host_fpu \<Rightarrow> u32 \<Rightarrow> 'a dev \<Rightarrow> 'a dev" where
  "i_CVT_S_L h op = with_cop1 (upd_cp1 (\<lambda>c. to_simple op (cvt_s_l h (get_double (FS_OF op) c) c)))"

definition i_CVT_D_S :: "host_fpu \<Rightarrow> u32 \<Rightarrow> 'a dev \<Rightarrow> 'a dev" where
  "i_CVT_D_S h op = with_cop1 (upd_cp1 (\<lambda>c. to_double op (cvt_d_s h (get_simple (FS_OF op) c) c)))"

definition i_CVT_D_W :: "host_fpu \<Rightarrow> u32 \<Rightarrow> 'a dev \<Rightarrow> 'a dev" where
  "i_CVT_D_W h op = with_cop1 (upd_cp1 (\<lambda>c. to_double op (cvt_d_w h (get_simple (FS_OF op) c) c)))"

definition i_CVT_D_L :: "host_fpu \<Rightarrow> u32 \<Rightarrow> 'a dev \<Rightarrow> 'a dev" where
  "i_CVT_D_L h op = with_cop1 (upd_cp1 (\<lambda>c. to_double op (cvt_d_l h (get_double (FS_OF op) c) c)))"

definition i_CVT_W_S :: "host_fpu \<Rightarrow> u32 \<Rightarrow> 'a dev \<Rightarrow> 'a dev" where
  "i_CVT_W_S h op = with_cop1 (upd_cp1 (\<lambda>c. to_simple op (cvt_w_s h (get_simple (FS_OF op) c) c, c)))"

definition i_CVT_W_D :: "host_fpu \<Rightarrow> u32 \<Rightarrow> 'a dev \<Rightarrow> 'a dev" where
  "i_CVT_W_D h op = with_cop1 (upd_cp1 (\<lambda>c. to_simple op (cvt_w_d h (get_double (FS_OF op) c) c, c)))"

definition i_CVT_L_S :: "host_fpu \<Rightarrow> u32 \<Rightarrow> 'a dev \<Rightarrow> 'a dev" where
  "i_CVT_L_S h op = with_cop1 (upd_cp1 (\<lambda>c. to_double op (cvt_l_s h (get_simple (FS_OF op) c) c, c)))"

definition i_CVT_L_D :: "host_fpu \<Rightarrow> u32 \<Rightarrow> 'a dev \<Rightarrow> 'a dev" where
  "i_CVT_L_D h op = with_cop1 (upd_cp1 (\<lambda>c. to_double op (cvt_l_d h (get_double (FS_OF op) c) c, c)))"

text \<open>\<^verbatim>\<open>C.F.S\<close> names the destination field as its second operand; four comparisons of doubles are not guarded.\<close>

definition i_C_F_S :: "u32 \<Rightarrow> 'a dev \<Rightarrow> 'a dev" where
  "i_C_F_S op = with_cop1 (upd_cp1 (\<lambda>c. c_f_s (get_simple (FS_OF op) c) (get_simple (FD_OF op) c) c))"

definition i_C_F_D :: "u32 \<Rightarrow> 'a dev \<Rightarrow> 'a dev" where
  "i_C_F_D op = with_cop1 (upd_cp1 c_f_d)"

definition i_C_UN_S :: "u32 \<Rightarrow> 'a dev \<Rightarrow> 'a dev" where
  "i_C_UN_S op = with_cop1 (upd_cp1 (\<lambda>c. c_un_s (get_simple (FS_OF op) c) (get_simple (FT_OF op) c) c))"

definition i_C_UN_D :: "u32 \<Rightarrow> 'a dev \<Rightarrow> 'a dev" where
  "i_C_UN_D op = with_cop1 (upd_cp1 (\<lambda>c. c_un_d (get_double (FS_OF op) c) (get_double (FT_OF op) c) c))"

definition i_C_EQ_S :: "u32 \<Rightarrow> 'a dev \<Rightarrow> 'a dev" where
  "i_C_EQ_S op = with_cop1 (upd_cp1 (\<lambda>c. c_eq_s (get_simple (FS_OF op) c) (get_simple (FT_OF op) c) c))"

definition i_C_EQ_D :: "u32 \<Rightarrow> 'a dev \<Rightarrow> 'a dev" where
  "i_C_EQ_D op = with_cop1 (upd_cp1 (\<lambda>c. c_eq_d (get_double (FS_OF op) c) (get_double (FT_OF op) c) c))"

definition i_C_UEQ_S :: "u32 \<Rightarrow> 'a dev \<Rightarrow> 'a dev" where
  "i_C_UEQ_S op = with_cop1 (upd_cp1 (\<lambda>c. c_ueq_s (get_simple (FS_OF op) c) (get_simple (FT_OF op) c) c))"

definition i_C_UEQ_D :: "u32 \<Rightarrow> 'a dev \<Rightarrow> 'a dev" where
  "i_C_UEQ_D op = with_cop1 (upd_cp1 (\<lambda>c. c_ueq_d (get_double (FS_OF op) c) (get_double (FT_OF op) c) c))"

definition i_C_OLT_S :: "u32 \<Rightarrow> 'a dev \<Rightarrow> 'a dev" where
  "i_C_OLT_S op = with_cop1 (upd_cp1 (\<lambda>c. c_olt_s (get_simple (FS_OF op) c) (get_simple (FT_OF op) c) c))"

definition i_C_OLT_D :: "u32 \<Rightarrow> 'a dev \<Rightarrow> 'a dev" where
  "i_C_OLT_D op = with_cop1 (upd_cp1 (\<lambda>c. c_olt_d (get_double (FS_OF op) c) (get_double (FT_OF op) c) c))"

definition i_C_ULT_S :: "u32 \<Rightarrow> 'a dev \<Rightarrow> 'a dev" where
  "i_C_ULT_S op = with_cop1 (upd_cp1 (\<lambda>c. c_ult_s (get_simple (FS_OF op) c) (get_simple (FT_OF op) c) c))"

definition i_C_ULT_D :: "u32 \<Rightarrow> 'a dev \<Rightarrow> 'a dev" where
  "i_C_ULT_D op = with_cop1 (upd_cp1 (\<lambda>c. c_ult_d (get_double (FS_OF op) c) (get_double (FT_OF op) c) c))"

definition i_C_OLE_S :: "u32 \<Rightarrow> 'a dev \<Rightarrow> 'a dev" where
  "i_C_OLE_S op = with_cop1 (upd_cp1 (\<lambda>c. c_ole_s (get_simple (FS_OF op) c) (get_simple (FT_OF op) c) c))"

definition i_C_OLE_D :: "u32 \<Rightarrow> 'a dev \<Rightarrow> 'a dev" where
  "i_C_OLE_D op = with_cop1 (upd_cp1 (\<lambda>c. c_ole_d (get_double (FS_OF op) c) (get_double (FT_OF op) c) c))"

definition i_C_ULE_S :: "u32 \<Rightarrow> 'a dev \<Rightarrow> 'a dev" where
  "i_C_ULE_S op = with_cop1 (upd_cp1 (\<lambda>c. c_ule_s (get_simple (FS_OF op) c) (get_simple (FT_OF op) c) c))"

definition i_C_ULE_D :: "u32 \<Rightarrow> 'a dev \<Rightarrow> 'a dev" where
  "i_C_ULE_D op = with_cop1 (upd_cp1 (\<lambda>c. c_ule_d (get_double (FS_OF op) c) (get_double (FT_OF op) c) c))"

definition i_C_SF_S :: "u32 \<Rightarrow> 'a dev \<Rightarrow> 'a dev" where
  "i_C_SF_S op = with_cop1 (upd_cp1 (\<lambda>c. c_sf_s (get_simple (FS_OF op) c) (get_simple (FT_OF op) c) c))"

definition i_C_SF_D :: "u32 \<Rightarrow> 'a dev \<Rightarrow> 'a dev" where
  "i_C_SF_D op = upd_cp1 (\<lambda>c. c_sf_d (get_double (FS_OF op) c) (get_double (FT_OF op) c) c)"

definition i_C_NGLE_S :: "u32 \<Rightarrow> 'a dev \<Rightarrow> 'a dev" where
  "i_C_NGLE_S op = with_cop1 (upd_cp1 (\<lambda>c. c_ngle_s (get_simple (FS_OF op) c) (get_simple (FT_OF op) c) c))"

definition i_C_NGLE_D :: "u32 \<Rightarrow> 'a dev \<Rightarrow> 'a dev" where
  "i_C_NGLE_D op = upd_cp1 (\<lambda>c. c_ngle_d (get_double (FS_OF op) c) (get_double (FT_OF op) c) c)"

definition i_C_SEQ_S :: "u32 \<Rightarrow> 'a dev \<Rightarrow> 'a dev" where
  "i_C_SEQ_S op = with_cop1 (upd_cp1 (\<lambda>c. c_seq_s (get_simple (FS_OF op) c) (get_simple (FT_OF op) c) c))"

definition i_C_SEQ_D :: "u32 \<Rightarrow> 'a dev \<Rightarrow> 'a dev" where
  "i_C_SEQ_D op = upd_cp1 (\<lambda>c. c_seq_d (get_double (FS_OF op) c) (get_double (FT_OF op) c) c)"

definition i_C_NGL_S :: "u32 \<Rightarrow> 'a dev \<Rightarrow> 'a dev" where
  "i_C_NGL_S op = with_cop1 (upd_cp1 (\<lambda>c. c_ngl_s (get_simple (FS_OF op) c) (get_simple (FT_OF op) c) c))"

definition i_C_NGL_D :: "u32 \<Rightarrow> 'a dev \<Rightarrow> 'a dev" where
  "i_C_NGL_D op = upd_cp1 (\<lambda>c. c_ngl_d (get_double (FS_OF op) c) (get_double (FT_OF op) c) c)"

definition i_C_LT_S :: "u32 \<Rightarrow> 'a dev \<Rightarrow> 'a dev" where
  "i_C_LT_S op = with_cop1 (upd_cp1 (\<lambda>c. c_lt_s (get_simple (FS_OF op) c) (get_simple (FT_OF op) c) c))"

definition i_C_LT_D :: "u32 \<Rightarrow> 'a dev \<Rightarrow> 'a dev" where
  "i_C_LT_D op = with_cop1 (upd_cp1 (\<lambda>c. c_lt_d (get_double (FS_OF op) c) (get_double (FT_OF op) c) c))"

definition i_C_NGE_S :: "u32 \<Rightarrow> 'a dev \<Rightarrow> 'a dev" where
  "i_C_NGE_S op = with_cop1 (upd_cp1 (\<lambda>c. c_nge_s (get_simple (FS_OF op) c) (get_simple (FT_OF op) c) c))"

definition i_C_NGE_D :: "u32 \<Rightarrow> 'a dev \<Rightarrow> 'a dev" where
  "i_C_NGE_D op = with_cop1 (upd_cp1 (\<lambda>c. c_nge_d (get_double (FS_OF op) c) (get_double (FT_OF op) c) c))"

definition i_C_LE_S :: "u32 \<Rightarrow> 'a dev \<Rightarrow> 'a dev" where
  "i_C_LE_S op = with_cop1 (upd_cp1 (\<lambda>c. c_le_s (get_simple (FS_OF op) c) (get_simple (FT_OF op) c) c))"

definition i_C_LE_D :: "u32 \<Rightarrow> 'a dev \<Rightarrow> 'a dev" where
  "i_C_LE_D op = with_cop1 (upd_cp1 (\<lambda>c. c_le_d (get_double (FS_OF op) c) (get_double (FT_OF op) c) c))"

definition i_C_NGT_S :: "u32 \<Rightarrow> 'a dev \<Rightarrow> 'a dev" where
  "i_C_NGT_S op = with_cop1 (upd_cp1 (\<lambda>c. c_ngt_s (get_simple (FS_OF op) c) (get_simple (FT_OF op) c) c))"

definition i_C_NGT_D :: "u32 \<Rightarrow> 'a dev \<Rightarrow> 'a dev" where
  "i_C_NGT_D op = with_cop1 (upd_cp1 (\<lambda>c. c_ngt_d (get_double (FS_OF op) c) (get_double (FT_OF op) c) c))"

end
