(* ===== verification/Interp.thy ===== *)
theory Interp
  imports Cop1
begin

text \<open>
  The pure interpreter (\<^verbatim>\<open>src/src/device/r4300/pure_interp.c\<close>): instruction fetch (\<^verbatim>\<open>fast_mem_access\<close> of
  \<^verbatim>\<open>r4300_core.c\<close>, \<^verbatim>\<open>mem_base_u32\<close> of \<^verbatim>\<open>memory.c\<close>), decoding, jumps with their delay slot, and the main loop.

  The nested \<^verbatim>\<open>switch\<close> statements are tables from the value of an opcode field to the instruction; a value
  that is not in a table is the \<^verbatim>\<open>default\<close> case. A jump interprets its delay slot by a recursive call, so that
  a chain of jumps in delay slots recurses without bound: \<open>None\<close> stands for a call that does not return.
\<close>

section \<open>Instruction fetch\<close>

text \<open>The word behind the pointer, \<open>None\<close> for the null pointer; reading behind the cartridge is a fault.\<close>

definition rom_word :: "'a dev machine \<Rightarrow> u32 \<Rightarrow> 'a dev \<Rightarrow> u32 option \<times> 'a dev" where
  "rom_word env address s =
     (let off = unat (address - MM_CART_ROM) in
      if off < rom_size s then (Some (load32 (rom s) off), s) else (Some (m_backing env address), set_fault s))"

definition base_word :: "'a dev machine \<Rightarrow> u32 \<Rightarrow> 'a dev \<Rightarrow> u32" where
  "base_word env address s =
     (if address < 0x800000 then dram s (unat address div 4)
      else if address AND 0xffffe000 = MM_RSP_MEM then sp_mem s (unat (address - MM_RSP_MEM) div 4)
      else if MM_DD_ROM \<le> address \<and> address < MM_DD_ROM + 0x400000 then dd_rom s (unat (address - MM_DD_ROM) div 4)
      else if address AND 0xfff00000 = MM_PIF_MEM then load32 (pif_base s) (unat (address - MM_PIF_MEM))
      else m_backing env address)"

definition mem_base_u32 :: "'a dev machine \<Rightarrow> u32 \<Rightarrow> 'a dev \<Rightarrow> u32 option \<times> 'a dev" where
  "mem_base_u32 env address s =
     (if MM_CART_ROM \<le> address \<and> address AND 0xfff00000 \<noteq> MM_PIF_MEM then rom_word env address s
      else if m_full_mem env \<or> address < 0x800000 \<or> MM_CART_ROM \<le> address \<or> address AND 0xfe000000 = MM_DD_ROM \<or>
              address AND 0xffffe000 = MM_RSP_MEM
      then (Some (base_word env address s), s)
      else (None, s))"

definition fast_mem_access :: "'a dev machine \<Rightarrow> u32 \<Rightarrow> 'a dev \<Rightarrow> u32 option \<times> 'a dev" where
  "fast_mem_access env address s0 =
     (let (p, s) = physical address 2 s0 in
      case p of None \<Rightarrow> (None, s) | Some a \<Rightarrow> mem_base_u32 env a s)"

text \<open>\<^verbatim>\<open>*fast_mem_access(...) == 0\<close> where the pointer is not checked.\<close>

definition next_is_nop :: "'a dev machine \<Rightarrow> u32 \<Rightarrow> 'a dev \<Rightarrow> bool \<times> 'a dev" where
  "next_is_nop env address s0 =
     (let (w, s) = fast_mem_access env address s0 in
      case w of None \<Rightarrow> (False, set_fault s) | Some v \<Rightarrow> (v = 0, s))"

definition IS_RELATIVE_IDLE_LOOP :: "'a dev machine \<Rightarrow> u32 \<Rightarrow> u32 \<Rightarrow> 'a dev \<Rightarrow> bool \<times> 'a dev" where
  "IS_RELATIVE_IDLE_LOOP env op addr s = (if IMM16S_OF op = - 1 then next_is_nop env (addr + 4) s else (False, s))"

definition IS_ABSOLUTE_IDLE_LOOP :: "'a dev machine \<Rightarrow> u32 \<Rightarrow> u32 \<Rightarrow> 'a dev \<Rightarrow> bool \<times> 'a dev" where
  "IS_ABSOLUTE_IDLE_LOOP env op addr s =
     (if JUMP_OF op = drop_bit 2 (addr AND 0x0FFFFFFF) \<and> addr AND 0x0FFFFFFF \<noteq> 0x0FFFFFFC
      then next_is_nop env (addr + 4) s else (False, s))"

section \<open>Jumps\<close>

text \<open>The arguments of \<^verbatim>\<open>DECLARE_JUMP\<close>, evaluated; register 0 as link register means no link.\<close>

record jump =
  j_target :: u32
  j_take :: bool
  j_link :: nat
  j_likely :: bool
  j_cop1 :: bool

definition branch_target :: "u32 \<Rightarrow> 'a dev \<Rightarrow> u32" where
  "branch_target op s = pc_addr s + (scast (IMM16S_OF op) + 1) * 4"

definition region_target :: "u32 \<Rightarrow> 'a dev \<Rightarrow> u32" where
  "region_target op s = push_bit 2 (JUMP_OF op) OR ((pc_addr s + 4) AND 0xF0000000)"

definition branch :: "u32 \<Rightarrow> ('a dev \<Rightarrow> bool) \<Rightarrow> nat \<Rightarrow> bool \<Rightarrow> 'a dev \<Rightarrow> jump" where
  "branch op c link likely s = \<lparr>j_target = branch_target op s, j_take = c s, j_link = link, j_likely = likely, j_cop1 = False\<rparr>"

definition j_J :: "u32 \<Rightarrow> 'a dev \<Rightarrow> jump" where
  "j_J op s = \<lparr>j_target = region_target op s, j_take = True, j_link = 0, j_likely = False, j_cop1 = False\<rparr>"

definition j_JAL :: "u32 \<Rightarrow> 'a dev \<Rightarrow> jump" where
  "j_JAL op s = \<lparr>j_target = region_target op s, j_take = True, j_link = 31, j_likely = False, j_cop1 = False\<rparr>"

definition j_JR :: "u32 \<Rightarrow> 'a dev \<Rightarrow> jump" where
  "j_JR op s = \<lparr>j_target = rrs32 op s, j_take = True, j_link = 0, j_likely = False, j_cop1 = False\<rparr>"

definition j_JALR :: "u32 \<Rightarrow> 'a dev \<Rightarrow> jump" where
  "j_JALR op s = \<lparr>j_target = rrs32 op s, j_take = True, j_link = RD_OF op, j_likely = False, j_cop1 = False\<rparr>"

definition j_BEQ :: "u32 \<Rightarrow> 'a dev \<Rightarrow> jump" where "j_BEQ op = branch op (\<lambda>s. rrs op s = rrt op s) 0 False"

definition j_BEQL :: "u32 \<Rightarrow> 'a dev \<Rightarrow> jump" where "j_BEQL op = branch op (\<lambda>s. rrs op s = rrt op s) 0 True"

definition j_BNE :: "u32 \<Rightarrow> 'a dev \<Rightarrow> jump" where "j_BNE op = branch op (\<lambda>s. rrs op s \<noteq> rrt op s) 0 False"

definition j_BNEL :: "u32 \<Rightarrow> 'a dev \<Rightarrow> jump" where "j_BNEL op = branch op (\<lambda>s. rrs op s \<noteq> rrt op s) 0 True"

definition j_BLEZ :: "u32 \<Rightarrow> 'a dev \<Rightarrow> jump" where "j_BLEZ op = branch op (\<lambda>s. rrs op s \<le>s 0) 0 False"

definition j_BLEZL :: "u32 \<Rightarrow> 'a dev \<Rightarrow> jump" where "j_BLEZL op = branch op (\<lambda>s. rrs op s \<le>s 0) 0 True"

definition j_BGTZ :: "u32 \<Rightarrow> 'a dev \<Rightarrow> jump" where "j_BGTZ op = branch op (\<lambda>s. 0 <s rrs op s) 0 False"

definition j_BGTZL :: "u32 \<Rightarrow> 'a dev \<Rightarrow> jump" where "j_BGTZL op = branch op (\<lambda>s. 0 <s rrs op s) 0 True"

definition j_BLTZ :: "u32 \<Rightarrow> 'a dev \<Rightarrow> jump" where "j_BLTZ op = branch op (\<lambda>s. rrs op s <s 0) 0 False"

definition j_BLTZAL :: "u32 \<Rightarrow> 'a dev \<Rightarrow> jump" where "j_BLTZAL op = branch op (\<lambda>s. rrs op s <s 0) 31 False"

definition j_BLTZL :: "u32 \<Rightarrow> 'a dev \<Rightarrow> jump" where "j_BLTZL op = branch op (\<lambda>s. rrs op s <s 0) 0 True"

definition j_BLTZALL :: "u32 \<Rightarrow> 'a dev \<Rightarrow> jump" where "j_BLTZALL op = branch op (\<lambda>s. rrs op s <s 0) 31 True"

definition j_BGEZ :: "u32 \<Rightarrow> 'a dev \<Rightarrow> jump" where "j_BGEZ op = branch op (\<lambda>s. 0 \<le>s rrs op s) 0 False"

definition j_BGEZAL :: "u32 \<Rightarrow> 'a dev \<Rightarrow> jump" where "j_BGEZAL op = branch op (\<lambda>s. 0 \<le>s rrs op s) 31 False"

definition j_BGEZL :: "u32 \<Rightarrow> 'a dev \<Rightarrow> jump" where "j_BGEZL op = branch op (\<lambda>s. 0 \<le>s rrs op s) 0 True"

definition j_BGEZALL :: "u32 \<Rightarrow> 'a dev \<Rightarrow> jump" where "j_BGEZALL op = branch op (\<lambda>s. 0 \<le>s rrs op s) 31 True"

definition j_BC1F :: "u32 \<Rightarrow> 'a dev \<Rightarrow> jump" where
  "j_BC1F op s = \<lparr>j_target = branch_target op s, j_take = (\<not> cmp_bit (cp1 s)), j_link = 0, j_likely = False, j_cop1 = True\<rparr>"

definition j_BC1FL :: "u32 \<Rightarrow> 'a dev \<Rightarrow> jump" where
  "j_BC1FL op s = \<lparr>j_target = branch_target op s, j_take = (\<not> cmp_bit (cp1 s)), j_link = 0, j_likely = True, j_cop1 = True\<rparr>"

definition j_BC1T :: "u32 \<Rightarrow> 'a dev \<Rightarrow> jump" where
  "j_BC1T op s = \<lparr>j_target = branch_target op s, j_take = (cmp_bit (cp1 s)), j_link = 0, j_likely = False, j_cop1 = True\<rparr>"

definition j_BC1TL :: "u32 \<Rightarrow> 'a dev \<Rightarrow> jump" where
  "j_BC1TL op s = \<lparr>j_target = branch_target op s, j_take = (cmp_bit (cp1 s)), j_link = 0, j_likely = True, j_cop1 = True\<rparr>"

text \<open>The statements of a jump up to its delay slot, from there on, and those around a skipped delay slot.\<close>

definition jump_guard :: "jump \<Rightarrow> 'a dev \<Rightarrow> bool \<times> 'a dev" where
  "jump_guard j s = (if j_cop1 j then check_cop1_unusable s else (False, s))"

definition jump_link :: "jump \<Rightarrow> 'a dev \<Rightarrow> 'a dev" where
  "jump_link j s = (if j_link j \<noteq> 0 then set_gpr (j_link j) (SE32 (pc_addr s + 8)) s else s)"

definition enter_delay_slot :: "'a dev \<Rightarrow> 'a dev" where
  "enter_delay_slot s = s\<lparr>pc_addr := pc_addr s + 4, delay_slot := 1\<rparr>"

definition leave_delay_slot :: "jump \<Rightarrow> 'a dev \<Rightarrow> 'a dev" where
  "leave_delay_slot j s0 =
     (let s = (cp0_update_count s0)\<lparr>delay_slot := 0\<rparr>
      in if j_take j \<and> skip_jump s = 0 then s\<lparr>pc_addr := j_target j\<rparr> else s)"

definition skip_delay_slot :: "'a dev \<Rightarrow> 'a dev" where
  "skip_delay_slot s = cp0_update_count (s\<lparr>pc_addr := pc_addr s + 8\<rparr>)"

definition finish_jump :: "'a dev machine \<Rightarrow> 'a dev \<Rightarrow> 'a dev" where
  "finish_jump env s = check_cycle_count env (s\<lparr>last_addr := pc_addr s\<rparr>)"

text \<open>What the \<^verbatim>\<open>_IDLE\<close> variant does before the jump: it lets the time pass until the next event.\<close>

definition idle_wait :: "jump \<Rightarrow> 'a dev \<Rightarrow> 'a dev" where
  "idle_wait j s0 =
     (if j_take j
      then let s = cp0_update_count s0 in
           if cycle_count s <s 0
           then (set_cp0 CP0_COUNT_REG (count_reg s - cycle_count s) s)\<lparr>cycle_count := 0\<rparr> else s
      else s0)"

section \<open>Decoding\<close>

datatype idle_check = No_idle | Relative_idle | Absolute_idle

type_synonym 'a instr = "u32 \<Rightarrow> 'a dev \<Rightarrow> 'a dev option"

definition plain :: "(u32 \<Rightarrow> 'a dev \<Rightarrow> 'a dev) \<Rightarrow> 'a instr" where
  "plain f op s = Some (f op s)"

definition none_op :: "('a dev \<Rightarrow> 'a dev) \<Rightarrow> 'a instr" where
  "none_op f op s = Some (f s)"

text \<open>\<^verbatim>\<open>if (RD_OF(op) != 0) X(r4300, op); else NOP(r4300, 0);\<close> and the same for \<^verbatim>\<open>RT_OF\<close>.\<close>

definition rd_dest :: "(u32 \<Rightarrow> 'a dev \<Rightarrow> 'a dev) \<Rightarrow> 'a instr" where
  "rd_dest f op s = Some (if RD_OF op \<noteq> 0 then f op s else i_NOP s)"

definition rt_dest :: "(u32 \<Rightarrow> 'a dev \<Rightarrow> 'a dev) \<Rightarrow> 'a instr" where
  "rt_dest f op s = Some (if RT_OF op \<noteq> 0 then f op s else i_NOP s)"

definition switch :: "(nat \<times> 'a instr) list \<Rightarrow> 'a instr \<Rightarrow> nat \<Rightarrow> 'a instr" where
  "switch cases default_case x = (case map_of cases x of Some f \<Rightarrow> f | None \<Rightarrow> default_case)"

definition OPCODE_OF :: "u32 \<Rightarrow> nat" where "OPCODE_OF op = unat (drop_bit 26 op AND 0x3F)"

definition FUNCT_OF :: "u32 \<Rightarrow> nat" where "FUNCT_OF op = unat (op AND 0x3F)"

definition special_table :: "(nat \<times> 'a instr) list" where
  "special_table =
     [(0, rd_dest i_SLL), (2, rd_dest i_SRL), (3, rd_dest i_SRA), (4, rd_dest i_SLLV), (6, rd_dest i_SRLV),
      (7, rd_dest i_SRAV), (12, none_op i_SYSCALL), (13, none_op i_BREAK), (15, none_op i_SYNC),
      (16, rd_dest i_MFHI), (17, plain i_MTHI), (18, rd_dest i_MFLO), (19, plain i_MTLO), (20, rd_dest i_DSLLV),
      (22, rd_dest i_DSRLV), (23, rd_dest i_DSRAV), (24, plain i_MULT), (25, plain i_MULTU), (26, plain i_DIV),
      (27, plain i_DIVU), (28, plain i_DMULT), (29, plain i_DMULTU), (30, plain i_DDIV), (31, plain i_DDIVU),
      (32, rd_dest i_ADD), (33, rd_dest i_ADDU), (34, rd_dest i_SUB), (35, rd_dest i_SUBU), (36, rd_dest i_AND),
      (37, rd_dest i_OR), (38, rd_dest i_XOR), (39, rd_dest i_NOR), (42, rd_dest i_SLT), (43, rd_dest i_SLTU),
      (44, rd_dest i_DADD), (45, rd_dest i_DADDU), (46, rd_dest i_DSUB), (47, rd_dest i_DSUBU),
      (48, plain i_TGE), (49, plain i_TGEU), (50, plain i_TLT), (51, plain i_TLTU), (52, plain i_TEQ),
      (54, plain i_TNE), (56, rd_dest i_DSLL), (58, rd_dest i_DSRL), (59, rd_dest i_DSRA),
      (60, rd_dest i_DSLL32), (62, rd_dest i_DSRL32), (63, rd_dest i_DSRA32)]"

definition regimm_table :: "(nat \<times> 'a instr) list" where
  "regimm_table =
     [(8, plain i_TGEI), (9, plain i_TGEIU), (10, plain i_TLTI), (11, plain i_TLTIU), (12, plain i_TEQI),
      (14, plain i_TNEI)]"

definition cop0_tlb_table :: "'a dev machine \<Rightarrow> (nat \<times> 'a instr) list" where
  "cop0_tlb_table env =
     [(1, none_op i_TLBR), (2, \<lambda>_. i_TLBWI), (6, \<lambda>_. i_TLBWR), (8, none_op i_TLBP),
      (24, none_op (i_ERET env))]"

text \<open>Codes 2, 3 and 6 to 15 are reserved, the others from 16 on are TLB instructions.\<close>

definition cop0_instr :: "'a dev machine \<Rightarrow> 'a instr" where
  "cop0_instr env op =
     (let c = RS_OF op in
      if 16 \<le> c then switch (cop0_tlb_table env) (none_op i_NOP) (FUNCT_OF op) op
      else switch [(0, rt_dest i_MFC0), (1, rt_dest i_DMFC0), (4, plain (i_MTC0 env)), (5, plain (i_MTC0 env))]
             (none_op i_RESERVED) c op)"

definition cop1_s_table :: "host_fpu \<Rightarrow> (nat \<times> 'a instr) list" where
  "cop1_s_table h =
     [(0, plain (i_ADD_S h)), (1, plain (i_SUB_S h)), (2, plain (i_MUL_S h)), (3, plain (i_DIV_S h)),
      (4, plain (i_SQRT_S h)), (5, plain i_ABS_S), (6, plain i_MOV_S), (7, plain i_NEG_S),
      (8, plain (i_ROUND_L_S h)), (9, plain (i_TRUNC_L_S h)), (10, plain (i_CEIL_L_S h)),
      (11, plain (i_FLOOR_L_S h)), (12, plain (i_ROUND_W_S h)), (13, plain (i_TRUNC_W_S h)),
      (14, plain (i_CEIL_W_S h)), (15, plain (i_FLOOR_W_S h)), (33, plain (i_CVT_D_S h)),
      (36, plain (i_CVT_W_S h)), (37, plain (i_CVT_L_S h)), (48, plain i_C_F_S), (49, plain i_C_UN_S),
      (50, plain i_C_EQ_S), (51, plain i_C_UEQ_S), (52, plain i_C_OLT_S), (53, plain i_C_ULT_S),
      (54, plain i_C_OLE_S), (55, plain i_C_ULE_S), (56, plain i_C_SF_S), (57, plain i_C_NGLE_S),
      (58, plain i_C_SEQ_S), (59, plain i_C_NGL_S), (60, plain i_C_LT_S), (61, plain i_C_NGE_S),
      (62, plain i_C_LE_S), (63, plain i_C_NGT_S)]"

definition cop1_d_table :: "host_fpu \<Rightarrow> (nat \<times> 'a instr) list" where
  "cop1_d_table h =
     [(0, plain (i_ADD_D h)), (1, plain (i_SUB_D h)), (2, plain (i_MUL_D h)), (3, plain (i_DIV_D h)),
      (4, plain (i_SQRT_D h)), (5, plain i_ABS_D), (6, plain i_MOV_D), (7, plain i_NEG_D),
      (8, plain (i_ROUND_L_D h)), (9, plain (i_TRUNC_L_D h)), (10, plain (i_CEIL_L_D h)),
      (11, plain (i_FLOOR_L_D h)), (12, plain (i_ROUND_W_D h)), (13, plain (i_TRUNC_W_D h)),
      (14, plain (i_CEIL_W_D h)), (15, plain (i_FLOOR_W_D h)), (32, plain (i_CVT_S_D h)),
      (36, plain (i_CVT_W_D h)), (37, plain (i_CVT_L_D h)), (48, plain i_C_F_D), (49, plain i_C_UN_D),
      (50, plain i_C_EQ_D), (51, plain i_C_UEQ_D), (52, plain i_C_OLT_D), (53, plain i_C_ULT_D),
      (54, plain i_C_OLE_D), (55, plain i_C_ULE_D), (56, plain i_C_SF_D), (57, plain i_C_NGLE_D),
      (58, plain i_C_SEQ_D), (59, plain i_C_NGL_D), (60, plain i_C_LT_D), (61, plain i_C_NGE_D),
      (62, plain i_C_LE_D), (63, plain i_C_NGT_D)]"

definition cop1_instr :: "'a dev machine \<Rightarrow> 'a instr" where
  "cop1_instr env op =
     (let h = m_fpu env in
      switch [(0, rt_dest i_MFC1), (1, rt_dest i_DMFC1), (2, rt_dest i_CFC1), (3, rt_dest (\<lambda>_. i_DCFC1)),
              (4, plain i_MTC1), (5, plain i_DMTC1), (6, plain i_CTC1), (7, none_op i_DCTC1),
              (16, switch (cop1_s_table h) (none_op i_RESERVED) (FUNCT_OF op)),
              (17, switch (cop1_d_table h) (none_op i_RESERVED) (FUNCT_OF op)),
              (20, switch [(32, plain (i_CVT_S_W h)), (33, plain (i_CVT_D_W h))] (none_op i_RESERVED) (FUNCT_OF op)),
              (21, switch [(32, plain (i_CVT_S_L h)), (33, plain (i_CVT_D_L h))] (none_op i_RESERVED) (FUNCT_OF op))]
        (none_op i_RESERVED) (RS_OF op) op)"

definition cop2_instr :: "'a instr" where
  "cop2_instr op =
     switch [(0, rt_dest i_MFC2), (1, rt_dest i_DMFC2), (2, rt_dest i_CFC2), (4, plain i_MTC2), (5, plain i_DMTC2), (6, plain i_CTC2)]
       (none_op i_RESERVED_COP2) (RS_OF op) op"

definition opcode_table :: "'a dev machine \<Rightarrow> (nat \<times> 'a instr) list" where
  "opcode_table env =
     [(0, \<lambda>op. switch special_table (none_op i_RESERVED) (FUNCT_OF op) op),
      (1, \<lambda>op. switch regimm_table (none_op i_RESERVED) (RT_OF op) op), (8, rt_dest i_ADDI),
      (9, rt_dest i_ADDIU), (10, rt_dest i_SLTI), (11, rt_dest i_SLTIU), (12, rt_dest i_ANDI),
      (13, rt_dest i_ORI), (14, rt_dest i_XORI), (15, rt_dest i_LUI), (16, cop0_instr env),
      (17, cop1_instr env), (18, cop2_instr), (24, rt_dest i_DADDI), (25, rt_dest i_DADDIU),
      (26, rt_dest (i_LDL env)), (27, rt_dest (i_LDR env)), (32, rt_dest (i_LB env)), (33, rt_dest (i_LH env)),
      (34, rt_dest (i_LWL env)), (35, rt_dest (i_LW env)), (36, rt_dest (i_LBU env)), (37, rt_dest (i_LHU env)),
      (38, rt_dest (i_LWR env)), (39, rt_dest (i_LWU env)), (40, plain (i_SB env)), (41, plain (i_SH env)),
      (42, plain (i_SWL env)), (43, plain (i_SW env)), (44, plain (i_SDL env)), (45, plain (i_SDR env)),
      (46, plain (i_SWR env)), (47, none_op i_CACHE), (48, rt_dest (i_LL env)), (49, plain (i_LWC1 env)),
      (52, none_op i_NI), (53, plain (i_LDC1 env)), (55, rt_dest (i_LD env)), (56, rt_dest (i_SC env)),
      (57, plain (i_SWC1 env)), (60, none_op i_NI), (61, plain (i_SDC1 env)), (63, plain (i_SD env))]"

definition exec_instruction :: "'a dev machine \<Rightarrow> 'a instr" where
  "exec_instruction env op = switch (opcode_table env) (none_op i_RESERVED) (OPCODE_OF op) op"

definition regimm_jumps :: "(nat \<times> idle_check \<times> (u32 \<Rightarrow> 'a dev \<Rightarrow> jump)) list" where
  "regimm_jumps =
     [(0, Relative_idle, j_BLTZ), (1, Relative_idle, j_BGEZ), (2, Relative_idle, j_BLTZL),
      (3, Relative_idle, j_BGEZL), (16, Relative_idle, j_BLTZAL), (17, Relative_idle, j_BGEZAL),
      (18, Relative_idle, j_BLTZALL), (19, Relative_idle, j_BGEZALL)]"

definition opcode_jumps :: "(nat \<times> idle_check \<times> (u32 \<Rightarrow> 'a dev \<Rightarrow> jump)) list" where
  "opcode_jumps =
     [(2, Absolute_idle, j_J), (3, Absolute_idle, j_JAL), (4, Relative_idle, j_BEQ), (5, Relative_idle, j_BNE),
      (6, Relative_idle, j_BLEZ), (7, Relative_idle, j_BGTZ), (20, Relative_idle, j_BEQL),
      (21, Relative_idle, j_BNEL), (22, Relative_idle, j_BLEZL), (23, Relative_idle, j_BGTZL)]"

definition decode_jump :: "u32 \<Rightarrow> (idle_check \<times> (u32 \<Rightarrow> 'a dev \<Rightarrow> jump)) option" where
  "decode_jump op =
     (let m = OPCODE_OF op in
      if m = 0 then map_of [(8, No_idle, j_JR), (9, No_idle, j_JALR)] (FUNCT_OF op)
      else if m = 1 then map_of regimm_jumps (RT_OF op)
      else if m = 17 \<and> RS_OF op = 8
      then map_of [(0, Relative_idle, j_BC1F), (1, Relative_idle, j_BC1T), (2, Relative_idle, j_BC1FL), (3, Relative_idle, j_BC1TL)]
             (unat (drop_bit 16 op AND 0x3))
      else map_of opcode_jumps m)"

definition is_idle :: "'a dev machine \<Rightarrow> idle_check \<Rightarrow> u32 \<Rightarrow> 'a dev \<Rightarrow> bool \<times> 'a dev" where
  "is_idle env k op s =
     (case k of No_idle \<Rightarrow> (False, s)
      | Relative_idle \<Rightarrow> IS_RELATIVE_IDLE_LOOP env op (pc_addr s) s
      | Absolute_idle \<Rightarrow> IS_ABSOLUTE_IDLE_LOOP env op (pc_addr s) s)"

text \<open>
  A jump before its delay slot: \<open>Inl\<close> when it has returned already, \<open>Inr\<close> with the jump and the state
  otherwise. The idle variant tests whether the coprocessor is usable, waits and then runs the jump.
\<close>

definition begin_jump :: "'a dev machine \<Rightarrow> idle_check \<Rightarrow> (u32 \<Rightarrow> 'a dev \<Rightarrow> jump) \<Rightarrow> u32 \<Rightarrow> 'a dev \<Rightarrow> 'a dev + jump \<times> 'a dev" where
  "begin_jump env k mk op s0 =
     (let (idle, s) = is_idle env k op s0;
          (left, s) = (if idle then let j = mk op s; (unusable, s) = jump_guard j s in (unusable, if unusable then s else idle_wait j s)
                       else (False, s))
      in if left then Inl s
         else let j = mk op s; (unusable, s) = jump_guard j s in
              if unusable then Inl s else Inr (j, jump_link j s))"

section \<open>Interpretation\<close>

partial_function (option) InterpretOpcode :: "'a dev machine \<Rightarrow> 'a dev \<Rightarrow> 'a dev option" where
  "InterpretOpcode env s0 =
     (case fast_mem_access env (pc_addr s0) s0 of
        (None, s) \<Rightarrow> Some s
      | (Some op, s) \<Rightarrow>
          (case decode_jump op of
             None \<Rightarrow> exec_instruction env op s
           | Some (k, mk) \<Rightarrow>
               (case begin_jump env k mk op s of
                  Inl s \<Rightarrow> Some s
                | Inr (j, s) \<Rightarrow>
                    (if \<not> j_likely j \<or> j_take j
                     then Option.bind (InterpretOpcode env (enter_delay_slot s))
                            (\<lambda>s. Some (finish_jump env (leave_delay_slot j s)))
                     else Some (finish_jump env (skip_delay_slot s))))))"

text \<open>\<^verbatim>\<open>while (!*r4300_stop(r4300)) InterpretOpcode(r4300);\<close>\<close>

partial_function (option) interpreter_loop :: "'a dev machine \<Rightarrow> 'a dev \<Rightarrow> 'a dev option" where
  "interpreter_loop env s =
     (if stop s \<noteq> 0 then Some s else Option.bind (InterpretOpcode env s) (interpreter_loop env))"

definition run_pure_interpreter :: "'a dev machine \<Rightarrow> 'a dev \<Rightarrow> 'a dev option" where
  "run_pure_interpreter env s = interpreter_loop env (s\<lparr>stop := 0, last_addr := start_address s, pc_addr := start_address s\<rparr>)"

section \<open>One step\<close>

lemma interpret_nothing: "fast_mem_access env (pc_addr s) s = (None, t) \<Longrightarrow> InterpretOpcode env s = Some t"
  by (subst InterpretOpcode.simps) simp

lemma interpret_plain:
  "fast_mem_access env (pc_addr s) s = (Some op, t) \<Longrightarrow>
    (decode_jump op :: (idle_check \<times> (u32 \<Rightarrow> 'a dev \<Rightarrow> jump)) option) = None \<Longrightarrow>
    InterpretOpcode env s = exec_instruction env op (t :: 'a dev)"
  by (subst InterpretOpcode.simps) simp

lemma interpret_jump:
  "fast_mem_access env (pc_addr s) s = (Some op, t) \<Longrightarrow> decode_jump op = Some (k, mk) \<Longrightarrow>
    InterpretOpcode env s =
      (case begin_jump env k mk op t of Inl u \<Rightarrow> Some u
       | Inr (j, u) \<Rightarrow> if \<not> j_likely j \<or> j_take j
           then Option.bind (InterpretOpcode env (enter_delay_slot u)) (\<lambda>v. Some (finish_jump env (leave_delay_slot j v)))
           else Some (finish_jump env (skip_delay_slot u)))"
  by (subst InterpretOpcode.simps) simp

section \<open>A sample state\<close>

definition jump_sample :: is_viewer where
  "jump_sample = sample_is\<lparr>dram := (\<lambda>_. 0)(0x100 := 0x08000200), pc_addr := 0x80000400, last_addr := 0x80000400,
     cycle_count := - 10, count_per_op := 2, count_per_op_denom_pot := 0, skip_jump := 0, delay_slot := 0\<rparr>"

lemma fetch_dram:
  assumes "pc AND 0xc0000000 = 0x80000000" "pc AND 0x1ffffffc < 0x800000"
  shows "fast_mem_access env pc s = (Some (dram s (unat (pc AND 0x1ffffffc) div 4)), s)"
proof -
  have "\<not> 0x10000000 \<le> pc AND 0x1ffffffc"
    using assms(2) by (simp add: word_less_nat_alt word_le_nat_alt)
  then show ?thesis
    using assms by (simp add: fast_mem_access_def physical_direct mem_base_u32_def base_word_def)
qed

lemma nop_decodes: "decode_jump 0 = None" "exec_instruction env 0 s = Some (ADD_TO_PC 1 s)"
  by (simp_all add: decode_jump_def OPCODE_OF_def FUNCT_OF_def exec_instruction_def switch_def opcode_table_def
      special_table_def rd_dest_def RD_OF_def i_NOP_def)

end
