(* ===== verification/Memory_Map.thy ===== *)
theory Memory_Map
  imports Device
begin

text \<open>
  The memory map that \<^verbatim>\<open>init_device\<close> of \<^verbatim>\<open>src/src/device/device.c\<close> builds, as disjoint intervals of 64 KiB
  regions, and the proof that the table of overlapping mappings gives exactly these.
\<close>

section \<open>Regions\<close>

lemma region_div: "region_of a = unat a div 0x10000"
  by (simp add: region_of_def drop_bit_eq_div unat_div)

lemma region_above:
  assumes "k < 2 ^ n" "take_bit n a = 0" "unat a + k < 2 ^ 32" "unat a mod 0x10000 = 0"
  shows "region_of (a OR of_nat k) = region_of a + k div 0x10000"
proof -
  have k: "take_bit n (of_nat k :: u32) = of_nat k"
    using assms(1) by (simp add: take_bit_nat_eq_self flip: of_nat_take_bit)
  have "a AND take_bit n (of_nat k) = take_bit n a AND of_nat k"
    by (auto intro!: bit_eqI simp: bit_simps)
  then have "a AND of_nat k = 0" using k assms(2) by simp
  then have "a OR of_nat k = a + of_nat k" by (simp add: disjunctive_add_eq_or)
  moreover have "unat (a + of_nat k) = unat a + k"
    using assms(3) by (simp add: unat_word_ariths unat_of_nat)
  ultimately show ?thesis using assms(4) by (simp add: region_div div_add1_eq [of "unat a" k])
qed

text \<open>The last mapping that covers a region decides: the first one from the end of the table.\<close>

fun region_lookup :: "(nat \<times> nat \<times> mem_handler) list \<Rightarrow> nat \<Rightarrow> mem_handler option" where
  "region_lookup [] r = None"
| "region_lookup ((lo, hi, h) # ts) r = (if lo \<le> r \<and> r \<le> hi then Some h else region_lookup ts r)"

definition mapping_regions :: "mem_mapping \<Rightarrow> nat \<times> nat \<times> mem_handler" where
  "mapping_regions m = (region_of (map_begin m), region_of (map_end m), map_handler m)"

lemma init_memory_lookup:
  "mem_handlers (init_memory (rev ms) s) r =
     (case region_lookup (map mapping_regions ms) r of Some h \<Rightarrow> h | None \<Rightarrow> mem_handlers s r)"
proof (induction ms)
  case Nil
  then show ?case by (simp add: init_memory_def)
next
  case (Cons m ms)
  then show ?case by (simp add: init_memory_append apply_mem_mapping_handlers mapping_regions_def)
qed

text \<open>
  The bus as disjoint intervals of 64 KiB regions, for \<open>n\<close> bytes of cartridge and \<open>d\<close> bytes of drive
  ROM; a cartridge beyond 63.9 MiB hides the debug port.
\<close>

definition bus_intervals :: "nat \<Rightarrow> nat \<Rightarrow> (nat \<times> nat \<times> mem_handler) list" where
  "bus_intervals n d =
     [(0x000, 0x3ef, H_rdram_dram), (0x3f0, 0x3ff, H_rdram_regs), (0x400, 0x400, H_rsp_mem), (0x404, 0x404, H_rsp_regs),
      (0x408, 0x408, H_rsp_regs2), (0x410, 0x410, H_dpc_regs), (0x420, 0x420, H_dps_regs), (0x430, 0x430, H_mi_regs),
      (0x440, 0x440, H_vi_regs), (0x450, 0x450, H_ai_regs), (0x460, 0x460, H_pi_regs), (0x470, 0x470, H_ri_regs),
      (0x480, 0x480, H_si_regs), (0x800, 0x801, H_cart_dom2), (0x1000, 0x1000 + (n - 1) div 0x10000, H_cart_rom),
      (0x1fc0, 0x1fc0, H_pif_mem)] @
     (if 0 < d then [(0x500, 0x5ff, H_dd_regs), (0x600, 0x600 + (d - 1) div 0x10000, H_dd_rom)] else []) @
     (if n \<le> 0x3ff0000 then [(0x13ff, 0x13ff, H_is_viewer)] else [])"

lemma mapping_ends:
  assumes "0 < n" "n \<le> 0xfc00000"
  shows "region_of (0x10000000 OR of_nat (n - 1)) = 0x1000 + (n - 1) div 0x10000" "min (n - 1) 0xfbfffff = n - 1"
proof -
  show "region_of (0x10000000 OR of_nat (n - 1)) = 0x1000 + (n - 1) div 0x10000"
    using assms region_above [of "n - 1" 28 "0x10000000"] by (simp add: region_div)
qed (use assms in simp)

lemma dd_mapping_end: "d \<le> 0x2000000 \<Longrightarrow> region_of (0x6000000 OR of_nat (d - 1)) = 0x600 + (d - 1) div 0x10000"
  using region_above [of "d - 1" 25 "0x6000000"] by (simp add: region_div)

lemma region_numeral: "region_of (numeral k) = unat (numeral k :: u32) div 0x10000" "region_of 0 = 0"
  by (simp_all add: region_div)

definition device_regions :: "nat \<Rightarrow> nat \<Rightarrow> (nat \<times> nat \<times> mem_handler) list" where
  "device_regions n d =
     [(0x1fc0, 0x1fc0, H_pif_mem), (0x1000, 0x1000 + (n - 1) div 0x10000, H_cart_rom), (0x13ff, 0x13ff, H_is_viewer),
      (0x800, 0x801, H_cart_dom2),
      (if 0 < d then (0x600, 0x600 + (d - 1) div 0x10000, H_dd_rom) else (0x600, 0x7ff, H_open_bus)),
      (if 0 < d then (0x500, 0x5ff, H_dd_regs) else (0x500, 0x5ff, H_open_bus)),
      (0x480, 0x480, H_si_regs), (0x470, 0x470, H_ri_regs), (0x460, 0x460, H_pi_regs), (0x450, 0x450, H_ai_regs),
      (0x440, 0x440, H_vi_regs), (0x430, 0x430, H_mi_regs), (0x420, 0x420, H_dps_regs), (0x410, 0x410, H_dpc_regs),
      (0x408, 0x408, H_rsp_regs2), (0x404, 0x404, H_rsp_regs), (0x400, 0x400, H_rsp_mem), (0x3f0, 0x3ff, H_rdram_regs),
      (0, 0x3ef, H_rdram_dram), (0, 0xffff, H_open_bus)]"

lemma device_mapping_regions:
  assumes n: "0 < n" "n \<le> 0xfc00000" and d: "d \<le> 0x2000000"
  shows "map mapping_regions (rev (device_mappings n d)) = device_regions n d"
  using n d
  by (simp add: device_mappings_def device_regions_def mapping_regions_def A_def
      mapping_ends [OF n, unfolded One_nat_def] dd_mapping_end [OF d, unfolded One_nat_def] region_numeral del: of_nat_diff)

lemma device_map_lookup:
  assumes "0 < n" "n \<le> 0xfc00000" "d \<le> 0x2000000"
  shows "mem_get_handler a (init_memory (device_mappings n d) s) =
    the (region_lookup (device_regions n d) (region_of a))"
proof -
  have "region_of a \<le> 0xffff" using region_bound [of a] by simp
  then have "region_lookup (device_regions n d) (region_of a) \<noteq> None" by (simp add: device_regions_def)
  then show ?thesis
    using init_memory_lookup [of "rev (device_mappings n d)" s "region_of a"] device_mapping_regions [OF assms]
    by (auto simp: mem_get_handler_def)
qed

lemma lookup_interval:
  assumes "0 < n" "n \<le> 0xfc00000" "d \<le> 0x2000000" "(lo, hi, h) \<in> set (bus_intervals n d)" "lo \<le> r" "r \<le> hi"
  shows "region_lookup (device_regions n d) r = Some h"
proof -
  define N where "N = (n - 1) div 0x10000"
  define D where "D = (d - 1) div 0x10000"
  have N: "N \<le> 0xfbf" using assms(1,2) unfolding N_def by linarith
  have D: "D \<le> 0x1ff" using assms(3) unfolding D_def by linarith
  have I: "n \<le> 0x3ff0000 \<Longrightarrow> N < 0x3ff" using assms(1) unfolding N_def by linarith
  show ?thesis
    using assms(4-6) N D I unfolding bus_intervals_def device_regions_def N_def [symmetric] D_def [symmetric]
    by (cases "0 < d"; cases "n \<le> 0x3ff0000") (simp_all, (elim disjE conjE; simp)+)
qed

lemma region_lookup_row: "region_lookup ts r = Some h \<Longrightarrow> \<exists>lo hi. (lo, hi, h) \<in> set ts \<and> lo \<le> r \<and> r \<le> hi"
  by (induction ts r rule: region_lookup.induct) (auto split: if_splits)

lemma device_row:
  assumes "(lo, hi, h) \<in> set (device_regions n d)" "h \<noteq> H_open_bus" "n \<le> 0x3ff0000 \<or> h \<noteq> H_is_viewer"
  shows "(lo, hi, h) \<in> set (bus_intervals n d)"
  using assms unfolding device_regions_def bus_intervals_def
  by (cases "0 < d"; cases "n \<le> 0x3ff0000") (simp_all, (elim disjE conjE; simp)+)

lemma lookup_nothing:
  assumes "0 < n" "r \<le> 0xffff" and no: "\<And>lo hi h. (lo, hi, h) \<in> set (bus_intervals n d) \<Longrightarrow> \<not> (lo \<le> r \<and> r \<le> hi)"
  shows "region_lookup (device_regions n d) r = Some H_open_bus"
proof -
  have "region_lookup (device_regions n d) r \<noteq> None" using assms(2) by (simp add: device_regions_def)
  then obtain h where h: "region_lookup (device_regions n d) r = Some h" by auto
  then obtain lo hi where row: "(lo, hi, h) \<in> set (device_regions n d)" "lo \<le> r" "r \<le> hi"
    using region_lookup_row by blast
  have "h = H_open_bus"
  proof (cases "n \<le> 0x3ff0000 \<or> h \<noteq> H_is_viewer")
    case True
    then show ?thesis using device_row [OF row(1)] no row by blast
  next
    case False
    then have "r = 0x13ff" using row by (auto simp: device_regions_def split: if_splits)
    moreover have "0x3ff \<le> (n - 1) div 0x10000" using False assms(1) by linarith
    ultimately show ?thesis
      using no [of "0x1000" "0x1000 + (n - 1) div 0x10000" H_cart_rom] by (simp add: bus_intervals_def)
  qed
  then show ?thesis using h by simp
qed

text \<open>
  C15. The memory map of the machine: with a cartridge of \<open>n\<close> bytes (at most 252 MiB) and a drive ROM of \<open>d\<close>
  bytes, the handler that serves an address is that of the interval its 64 KiB region lies in, and the
  open bus everywhere else; later entries of the table in \<^verbatim>\<open>init_device\<close> override earlier ones.
\<close>

theorem device_memory_map:
  assumes "0 < n" "n \<le> 0xfc00000" "d \<le> 0x2000000"
  shows "(\<forall>(lo, hi, h) \<in> set (bus_intervals n d). lo \<le> region_of a \<and> region_of a \<le> hi \<longrightarrow>
            mem_get_handler a (init_memory (device_mappings n d) s) = h) \<and>
         ((\<forall>(lo, hi, h) \<in> set (bus_intervals n d). \<not> (lo \<le> region_of a \<and> region_of a \<le> hi)) \<longrightarrow>
            mem_get_handler a (init_memory (device_mappings n d) s) = H_open_bus)"
proof -
  have r: "region_of a \<le> 0xffff" using region_bound [of a] by simp
  have "mem_get_handler a (init_memory (device_mappings n d) s) = H_open_bus"
    if "\<forall>(lo, hi, h) \<in> set (bus_intervals n d). \<not> (lo \<le> region_of a \<and> region_of a \<le> hi)"
    using lookup_nothing [OF assms(1) r, of d] that by (fastforce simp: device_map_lookup [OF assms])
  then show ?thesis
    using lookup_interval [OF assms, of _ _ _ "region_of a"] by (auto simp: device_map_lookup [OF assms])
qed

theorem device_memory_map_witness:
  "mem_get_handler 0x0460000c (init_memory (device_mappings 0x800000 0) sample_is) = H_pi_regs \<and>
   mem_get_handler 0x10800000 (init_memory (device_mappings 0x800000 0) sample_is) = H_open_bus"
proof -
  have "region_of 0x0460000c = 0x460" "region_of 0x10800000 = 0x1080" by (simp_all add: region_div)
  then show ?thesis
    using device_memory_map [where n = "0x800000" and d = 0 and a = "0x0460000c" and s = sample_is]
      device_memory_map [where n = "0x800000" and d = 0 and a = "0x10800000" and s = sample_is]
    by (simp add: bus_intervals_def)
qed

end
