(* ===== verification/Cheat.thy ===== *)
theory Cheat
  imports Cart
begin

text \<open>
  The cheat engine of the front end (\<^verbatim>\<open>src/src/main/cheat.c\<close>, \<^verbatim>\<open>gs_apply_cheats\<close> of \<^verbatim>\<open>main.c\<close>): GameShark codes that
  are applied to RDRAM at every vertical interrupt, their list, and the parser of the codes of a ROM's
  data base entry. The linked lists of the code are lists; whether the lock is obtained and whether the GameShark button
  is held are arguments. A code that addresses more than the RDRAM array is a fault.
\<close>

abbreviation (input) CHEAT_CODE_MAGIC_VALUE :: u32 where "CHEAT_CODE_MAGIC_VALUE \<equiv> 0xDEAD0000"
abbreviation (input) RDRAM_BYTES :: nat where "RDRAM_BYTES \<equiv> 0x800000"

datatype cheat_entry = ENTRY_BOOT | ENTRY_VI

record cheat_code =
  cc_address :: u32
  cc_value :: u32
  cc_old_value :: u32

record cheat =
  ch_name :: string
  ch_enabled :: int
  ch_was_enabled :: int
  cheat_codes :: "cheat_code list"

record cheat_ctx =
  cx_mutex :: bool
  active_cheats :: "cheat list"

section \<open>Memory\<close>

text \<open>
  An update also calls \<^verbatim>\<open>invalidate_r4300_cached_code\<close> for the bytes written. The call is left out here: it changes only the tables of the
  cached interpreter, which the machine with the pure interpreter does not have, so that the effect on memory is all there is.
\<close>

definition offset_8bit :: "u32 \<Rightarrow> nat" where
  "offset_8bit address = unat ((address AND 0xFFFFFF) XOR 3)"

definition offset_16bit :: "u32 \<Rightarrow> nat" where
  "offset_16bit address = unat ((address AND 0xFFFFFF) XOR 2)"

definition in_rdram :: "nat \<Rightarrow> nat \<Rightarrow> 'a rdram_scheme \<Rightarrow> 'a rdram_scheme" where
  "in_rdram offset n s = check_bounds (offset + n \<le> RDRAM_BYTES) s"

definition read_address_16bit :: "u32 \<Rightarrow> 'a rdram_scheme \<Rightarrow> u16" where
  "read_address_16bit address s =
     (let b = offset_16bit address in ucast (get8 (dram s) b) OR push_bit 8 (ucast (get8 (dram s) (b + 1))))"

definition read_address_8bit :: "u32 \<Rightarrow> 'a rdram_scheme \<Rightarrow> u8" where
  "read_address_8bit address s = get8 (dram s) (offset_8bit address)"

definition update_address_16bit :: "u32 \<Rightarrow> u16 \<Rightarrow> 'a rdram_scheme \<Rightarrow> 'a rdram_scheme" where
  "update_address_16bit address new_value s =
     (let b = offset_16bit address in
      (in_rdram b 2 s)\<lparr>dram := set8 (set8 (dram s) b (ucast new_value)) (b + 1) (ucast (drop_bit 8 new_value))\<rparr>)"

definition update_address_8bit :: "u32 \<Rightarrow> u8 \<Rightarrow> 'a rdram_scheme \<Rightarrow> 'a rdram_scheme" where
  "update_address_8bit address new_value s =
     (let b = offset_8bit address in (in_rdram b 1 s)\<lparr>dram := set8 (dram s) b new_value\<rparr>)"

definition address_equal_to_8bit :: "u32 \<Rightarrow> u8 \<Rightarrow> 'a rdram_scheme \<Rightarrow> bool" where
  "address_equal_to_8bit address value s \<longleftrightarrow> read_address_8bit address s = value"

definition address_equal_to_16bit :: "u32 \<Rightarrow> u16 \<Rightarrow> 'a rdram_scheme \<Rightarrow> bool" where
  "address_equal_to_16bit address value s \<longleftrightarrow> read_address_16bit address s = value"

section \<open>Codes\<close>

definition code_class :: "u32 \<Rightarrow> u32" where
  "code_class address = address AND 0xFF000000"

definition code_group :: "u32 \<Rightarrow> u32" where
  "code_group address = address AND 0xF0000000"

text \<open>
  The effect of a code: whether the next one is to be run, the saved value behind \<^verbatim>\<open>old_value\<close> (\<open>None\<close> for the null
  pointer), the state.
\<close>

definition execute_cheat :: "u32 \<Rightarrow> u32 \<Rightarrow> u32 option \<Rightarrow> 'a rdram_scheme \<Rightarrow> bool \<times> u32 option \<times> 'a rdram_scheme" where
  "execute_cheat address value old s =
     (let c = code_class address;
          s8 = in_rdram (offset_8bit address) 1 s;
          s16 = in_rdram (offset_16bit address) 2 s
      in if c \<in> {0x80000000, 0x88000000, 0xA0000000, 0xA8000000, 0xF0000000}
         then (True, if old = Some CHEAT_CODE_MAGIC_VALUE then Some (ucast (read_address_8bit address s)) else old,
               update_address_8bit address (ucast value) s)
         else if c \<in> {0x81000000, 0x89000000, 0xA1000000, 0xA9000000, 0xF1000000}
         then (True, if old = Some CHEAT_CODE_MAGIC_VALUE then Some (ucast (read_address_16bit address s)) else old,
               update_address_16bit address (ucast value) s)
         else if c \<in> {0xD0000000, 0xD8000000} then (address_equal_to_8bit address (ucast value) s, old, s8)
         else if c \<in> {0xD1000000, 0xD9000000} then (address_equal_to_16bit address (ucast value) s, old, s16)
         else if c \<in> {0xD2000000, 0xDB000000} then (\<not> address_equal_to_8bit address (ucast value) s, old, s8)
         else if c \<in> {0xD3000000, 0xDA000000} then (\<not> address_equal_to_16bit address (ucast value) s, old, s16)
         else if c = 0xEE000000
         then (True, old, update_address_16bit 0xF100031A 0x0000 (update_address_16bit 0xF1000318 0x0040 s))
         else (True, old, s))"

definition run_code :: "cheat_code \<Rightarrow> 'a rdram_scheme \<Rightarrow> cheat_code \<times> 'a rdram_scheme" where
  "run_code c s =
     (let (_, old, s) = execute_cheat (cc_address c) (cc_value c) (Some (cc_old_value c)) s
      in (c\<lparr>cc_old_value := the old\<rparr>, s))"

fun apply_boot :: "cheat_code list \<Rightarrow> 'a rdram_scheme \<Rightarrow> cheat_code list \<times> 'a rdram_scheme" where
  "apply_boot [] s = ([], s)"
| "apply_boot (c # cs) s =
     (let (c, s) = (if code_group (cc_address c) = 0xF0000000 then run_code c s else (c, s));
          (cs, s) = apply_boot cs s
      in (c # cs, s))"

text \<open>The loop over the codes of an enabled cheat; the flag is \<^verbatim>\<open>cond_failed\<close>.\<close>

definition test_code :: "bool \<Rightarrow> cheat_code \<Rightarrow> 'a rdram_scheme \<Rightarrow> bool \<times> 'a rdram_scheme" where
  "test_code gs c s =
     (let (ok, _, s) = execute_cheat (cc_address c) (cc_value c) None s
      in (ok \<and> (code_class (cc_address c) \<in> {0xD8000000, 0xD9000000, 0xDA000000, 0xDB000000} \<longrightarrow> gs), s))"

definition plain_code :: "bool \<Rightarrow> cheat_code \<Rightarrow> 'a rdram_scheme \<Rightarrow> cheat_code \<times> 'a rdram_scheme" where
  "plain_code gs c s =
     (if code_class (cc_address c) \<in> {0x88000000, 0x89000000, 0xA8000000, 0xA9000000}
      then (c, if gs then snd (snd (execute_cheat (cc_address c) (cc_value c) None s)) else s)
      else if code_group (cc_address c) \<noteq> 0xF0000000 then run_code c s
      else (c, s))"

fun apply_vi :: "bool \<Rightarrow> bool \<Rightarrow> cheat_code list \<Rightarrow> 'a rdram_scheme \<Rightarrow> cheat_code list \<times> 'a rdram_scheme" where
  "apply_vi gs cond_failed [] s = ([], s)"
| "apply_vi gs cond_failed (c # cs) s =
     (if code_group (cc_address c) = 0xD0000000
      then let (ok, s) = test_code gs c s; (cs, s) = apply_vi gs (cond_failed \<or> \<not> ok) cs s in (c # cs, s)
      else if cond_failed
      then let (cs, s) = apply_vi gs False cs s in (c # cs, s)
      else let (c, s) = plain_code gs c s; (cs, s) = apply_vi gs False cs s in (c # cs, s))"

fun restore_codes :: "cheat_code list \<Rightarrow> 'a rdram_scheme \<Rightarrow> cheat_code list \<times> 'a rdram_scheme" where
  "restore_codes [] s = ([], s)"
| "restore_codes (c # cs) s =
     (let (c, s) = (if cc_old_value c \<noteq> CHEAT_CODE_MAGIC_VALUE
                    then (c\<lparr>cc_old_value := CHEAT_CODE_MAGIC_VALUE\<rparr>, snd (snd (execute_cheat (cc_address c) (cc_old_value c) None s)))
                    else (c, s));
          (cs, s) = restore_codes cs s
      in (c # cs, s))"

definition apply_cheat :: "bool \<Rightarrow> cheat_entry \<Rightarrow> cheat \<Rightarrow> 'a rdram_scheme \<Rightarrow> cheat \<times> 'a rdram_scheme" where
  "apply_cheat gs entry ch s =
     (if ch_enabled ch \<noteq> 0
      then let ch = ch\<lparr>ch_was_enabled := 1\<rparr>;
               (cs, s) = (case entry of ENTRY_BOOT \<Rightarrow> apply_boot (cheat_codes ch) s | ENTRY_VI \<Rightarrow> apply_vi gs False (cheat_codes ch) s)
           in (ch\<lparr>cheat_codes := cs\<rparr>, s)
      else if ch_was_enabled ch \<noteq> 0
      then let ch = ch\<lparr>ch_was_enabled := 0\<rparr>
           in (case entry of ENTRY_BOOT \<Rightarrow> (ch, s)
               | ENTRY_VI \<Rightarrow> let (cs, s) = restore_codes (cheat_codes ch) s in (ch\<lparr>cheat_codes := cs\<rparr>, s))
      else (ch, s))"

fun apply_all :: "bool \<Rightarrow> cheat_entry \<Rightarrow> cheat list \<Rightarrow> 'a rdram_scheme \<Rightarrow> cheat list \<times> 'a rdram_scheme" where
  "apply_all gs entry [] s = ([], s)"
| "apply_all gs entry (ch # chs) s =
     (let (ch, s) = apply_cheat gs entry ch s; (chs, s) = apply_all gs entry chs s in (ch # chs, s))"

section \<open>The list of cheats\<close>

definition cheat_init :: "bool \<Rightarrow> cheat_ctx" where
  "cheat_init created = \<lparr>cx_mutex = created, active_cheats = []\<rparr>"

definition cheat_uninit :: "cheat_ctx \<Rightarrow> cheat_ctx" where
  "cheat_uninit ctx = ctx\<lparr>cx_mutex := False\<rparr>"

definition cheat_apply_cheats ::
    "bool \<Rightarrow> bool \<Rightarrow> cheat_entry \<Rightarrow> cheat_ctx \<Rightarrow> 'a rdram_scheme \<Rightarrow> cheat_ctx \<times> 'a rdram_scheme" where
  "cheat_apply_cheats lock gs entry ctx s =
     (if active_cheats ctx = [] \<or> \<not> cx_mutex ctx \<or> \<not> lock then (ctx, s)
      else let (chs, s) = apply_all gs entry (active_cheats ctx) s in (ctx\<lparr>active_cheats := chs\<rparr>, s))"

definition cheat_delete_all :: "bool \<Rightarrow> cheat_ctx \<Rightarrow> cheat_ctx" where
  "cheat_delete_all lock ctx =
     (if active_cheats ctx = [] \<or> \<not> cx_mutex ctx \<or> \<not> lock then ctx else ctx\<lparr>active_cheats := []\<rparr>)"

text \<open>The first cheat of a name is the one that is changed.\<close>

fun update_first :: "string \<Rightarrow> (cheat \<Rightarrow> cheat) \<Rightarrow> cheat list \<Rightarrow> cheat list option" where
  "update_first name f [] = None"
| "update_first name f (ch # chs) =
     (if ch_name ch = name then Some (f ch # chs) else map_option ((#) ch) (update_first name f chs))"

definition cheat_set_enabled :: "bool \<Rightarrow> string \<Rightarrow> int \<Rightarrow> cheat_ctx \<Rightarrow> bool \<times> cheat_ctx" where
  "cheat_set_enabled lock name enabled ctx =
     (if active_cheats ctx = [] \<or> \<not> cx_mutex ctx \<or> \<not> lock then (False, ctx)
      else case update_first name (\<lambda>ch. ch\<lparr>ch_enabled := enabled\<rparr>) (active_cheats ctx) of
        None \<Rightarrow> (False, ctx)
      | Some chs \<Rightarrow> (True, ctx\<lparr>active_cheats := chs\<rparr>))"

definition new_code :: "u32 \<Rightarrow> u32 \<Rightarrow> cheat_code" where
  "new_code address value = \<lparr>cc_address = address, cc_value = value, cc_old_value = CHEAT_CODE_MAGIC_VALUE\<rparr>"

fun patch_codes :: "nat \<Rightarrow> u32 \<Rightarrow> u32 \<Rightarrow> u32 \<Rightarrow> u32 \<Rightarrow> cheat_code list" where
  "patch_codes 0 incr_addr incr_value cur_addr cur_value = []"
| "patch_codes (Suc n) incr_addr incr_value cur_addr cur_value =
     new_code cur_addr cur_value # patch_codes n incr_addr incr_value (cur_addr + incr_addr) (cur_value + incr_value)"

text \<open>The loop of \<^verbatim>\<open>cheat_add_new\<close> over pairs of address and value; a patch code takes the next one with it.\<close>

fun expand_codes :: "(u32 \<times> u32) list \<Rightarrow> cheat_code list" where
  "expand_codes [] = []"
| "expand_codes [c] = [new_code (fst c) (snd c)]"
| "expand_codes (c # d # cs) =
     (if fst c AND 0xFFFF0000 = 0x50000000
      then patch_codes (unat (drop_bit 8 (fst c AND 0xFF00))) (fst c AND 0xFF) (snd c) (fst d) (snd d) @ expand_codes cs
      else new_code (fst c) (snd c) # expand_codes (d # cs))"

text \<open>\<^verbatim>\<open>find_or_create_cheat\<close> with the filling of the cheat it returns.\<close>

definition find_or_create_cheat :: "string \<Rightarrow> (cheat \<Rightarrow> cheat) \<Rightarrow> cheat list \<Rightarrow> cheat list" where
  "find_or_create_cheat name fill chs =
     (case update_first name (\<lambda>ch. fill (ch\<lparr>ch_enabled := 0, ch_was_enabled := 0, cheat_codes := []\<rparr>)) chs of
        Some chs' \<Rightarrow> chs'
      | None \<Rightarrow> chs @ [fill \<lparr>ch_name = name, ch_enabled = 0, ch_was_enabled = 0, cheat_codes = []\<rparr>])"

definition cheat_add_new :: "bool \<Rightarrow> string \<Rightarrow> (u32 \<times> u32) list \<Rightarrow> cheat_ctx \<Rightarrow> bool \<times> cheat_ctx" where
  "cheat_add_new lock name codes ctx =
     (if \<not> cx_mutex ctx \<or> \<not> lock then (False, ctx)
      else (True, ctx\<lparr>active_cheats := find_or_create_cheat name
              (\<lambda>ch. ch\<lparr>ch_enabled := 1, cheat_codes := expand_codes codes\<rparr>) (active_cheats ctx)\<rparr>))"

definition gs_apply_cheats :: "bool \<Rightarrow> bool \<Rightarrow> cheat_ctx \<Rightarrow> 'a rdram_scheme \<Rightarrow> cheat_ctx \<times> 'a rdram_scheme" where
  "gs_apply_cheats lock gs ctx s =
     (if gs_vi_counter s < 60
      then let (ctx, s) = (if gs_vi_counter s = 0 then cheat_apply_cheats lock gs ENTRY_BOOT ctx s else (ctx, s))
           in (ctx, s\<lparr>gs_vi_counter := gs_vi_counter s + 1\<rparr>)
      else cheat_apply_cheats lock gs ENTRY_VI ctx s)"

section \<open>Parsing\<close>

text \<open>
  \<^verbatim>\<open>strtok_compat\<close> for one delimiter, on the string it continues with (\<open>None\<close> is the null pointer): the token and
  what is left.
\<close>

definition strtok_compat :: "char \<Rightarrow> string option \<Rightarrow> (string \<times> string option) option" where
  "strtok_compat delim str =
     (case str of
        None \<Rightarrow> None
      | Some s \<Rightarrow>
          let s = dropWhile (\<lambda>c. c = delim) s; p = dropWhile (\<lambda>c. c \<noteq> delim) s
          in Some (takeWhile (\<lambda>c. c \<noteq> delim) s, if p = [] then None else Some (tl p)))"

lemma strtok_shorter: "strtok_compat d (Some s) = Some (t, Some s') \<Longrightarrow> length s' < length s"
proof -
  assume a: "strtok_compat d (Some s) = Some (t, Some s')"
  define p where "p = dropWhile (\<lambda>c. c \<noteq> d) (dropWhile (\<lambda>c. c = d) s)"
  have "(if p = [] then None else Some (tl p)) = Some s'"
    using a by (simp only: strtok_compat_def Let_def option.case option.inject prod.inject p_def)
  then have "length s' < length p" by (cases p) auto
  also have "length p \<le> length s" unfolding p_def by (rule order_trans [OF length_dropWhile_le length_dropWhile_le])
  finally show ?thesis .
qed

text \<open>The loop \<^verbatim>\<open>while ((token = strtok_compat(...)))\<close>: the tokens it sees.\<close>

function tokens :: "char \<Rightarrow> string option \<Rightarrow> string list" where
  "tokens delim str = (case strtok_compat delim str of None \<Rightarrow> [] | Some (t, rest) \<Rightarrow> t # tokens delim rest)"
  by pat_completeness auto

termination
proof (relation "measure (\<lambda>(d, str). case str of None \<Rightarrow> 0 | Some s \<Rightarrow> Suc (length s))")
  fix d str x t rest
  assume a: "strtok_compat d str = Some x" "(t, rest) = x"
  then obtain s where "str = Some s" by (cases str) (auto simp: strtok_compat_def)
  then show "((d, rest), (d, str)) \<in> measure (\<lambda>(d, str). case str of None \<Rightarrow> 0 | Some s \<Rightarrow> Suc (length s))"
    using a strtok_shorter [of d s t] by (cases rest) auto
qed simp

declare tokens.simps [simp del]

fun count_codes :: "string \<Rightarrow> nat" where
  "count_codes [] = 0"
| "count_codes (c # cs) = (if CHR '','' \<in> set (c # cs) then Suc (count_codes cs) else 0)"

text \<open>
  What the two conversions of the \<^verbatim>\<open>sscanf\<close> format accept: white space, then at most \<open>w\<close> characters
  of an optional sign, an optional prefix and hexadecimal digits, of which there is at least one.
\<close>

definition is_space :: "char \<Rightarrow> bool" where
  "is_space c \<longleftrightarrow> c = CHR '' '' \<or> (9 \<le> (of_char c :: nat) \<and> (of_char c :: nat) \<le> 13)"

definition hex_digit :: "char \<Rightarrow> u32 option" where
  "hex_digit c =
     (let n = of_char c :: nat in
      if 48 \<le> n \<and> n \<le> 57 then Some (of_nat (n - 48))
      else if 65 \<le> n \<and> n \<le> 70 then Some (of_nat (n - 55))
      else if 97 \<le> n \<and> n \<le> 102 then Some (of_nat (n - 87))
      else None)"

fun hex_digits :: "nat \<Rightarrow> string \<Rightarrow> u32 \<Rightarrow> bool \<Rightarrow> (u32 \<times> string) option" where
  "hex_digits (Suc w) (c # cs) v some =
     (case hex_digit c of
        Some d \<Rightarrow> hex_digits w cs (16 * v + d) True
      | None \<Rightarrow> if some then Some (v, c # cs) else None)"
| "hex_digits w cs v some = (if some then Some (v, cs) else None)"

definition scan_sign :: "nat \<Rightarrow> string \<Rightarrow> bool \<times> nat \<times> string" where
  "scan_sign w s =
     (case s of
        [] \<Rightarrow> (False, w, s)
      | c # cs \<Rightarrow> if w \<noteq> 0 \<and> (c = CHR ''+'' \<or> c = CHR ''-'') then (c = CHR ''-'', w - 1, cs) else (False, w, s))"

definition scan_prefix :: "nat \<Rightarrow> string \<Rightarrow> nat \<times> string" where
  "scan_prefix w s =
     (case s of
        z # x # cs \<Rightarrow> if 2 \<le> w \<and> z = CHR ''0'' \<and> (x = CHR ''x'' \<or> x = CHR ''X'') then (w - 2, cs) else (w, s)
      | _ \<Rightarrow> (w, s))"

definition scan_hex :: "nat \<Rightarrow> string \<Rightarrow> (u32 \<times> string) option" where
  "scan_hex w s0 =
     (let (neg, w, s) = scan_sign w (dropWhile is_space s0);
          (w, s) = scan_prefix w s
      in case hex_digits w s 0 False of
           None \<Rightarrow> None
         | Some (v, rest) \<Rightarrow> Some (if neg then - v else v, rest))"

definition scan_code :: "string \<Rightarrow> (u32 \<times> u32) option" where
  "scan_code token =
     (case scan_hex 8 token of
        None \<Rightarrow> None
      | Some (address, rest) \<Rightarrow> map_option (\<lambda>(value, _). (address, value)) (scan_hex 4 rest))"

text \<open>The codes, with the number of entries that are allocated for them; \<open>alloc\<close> says whether \<^verbatim>\<open>malloc\<close> succeeds.\<close>

definition cheat_parse_hacks_code :: "bool \<Rightarrow> string \<Rightarrow> nat \<times> (u32 \<times> u32) list" where
  "cheat_parse_hacks_code alloc code =
     (Suc (count_codes code), if alloc then List.map_filter scan_code (tokens (CHR '','') (Some code)) else [])"

fun dec_string :: "nat \<Rightarrow> string" where
  "dec_string n = (if n < 10 then [char_of (48 + n)] else dec_string (n div 10) @ [char_of (48 + n mod 10)])"

declare dec_string.simps [simp del]

fun add_hacks :: "bool \<Rightarrow> bool \<Rightarrow> nat \<Rightarrow> string list \<Rightarrow> cheat_ctx \<Rightarrow> cheat_ctx" where
  "add_hacks alloc lock i [] ctx = ctx"
| "add_hacks alloc lock i (t # ts) ctx =
     (let codes = snd (cheat_parse_hacks_code alloc t) in
      if codes = [] then add_hacks alloc lock i ts ctx
      else add_hacks alloc lock (i + 1) ts (snd (cheat_add_new lock (''HACK'' @ dec_string i) codes ctx)))"

definition cheat_add_hacks :: "bool \<Rightarrow> bool \<Rightarrow> string option \<Rightarrow> cheat_ctx \<Rightarrow> cheat_ctx" where
  "cheat_add_hacks alloc lock rom_cheats ctx =
     (case rom_cheats of
        None \<Rightarrow> ctx
      | Some s \<Rightarrow> if alloc then add_hacks alloc lock 0 (tokens (CHR '';'') (Some s)) ctx else ctx)"

section \<open>Conditional codes\<close>

definition holds :: "bool \<Rightarrow> 'a rdram_scheme \<Rightarrow> cheat_code \<Rightarrow> bool" where
  "holds gs s c \<longleftrightarrow> fst (test_code gs c s)"

definition is_test :: "cheat_code \<Rightarrow> bool" where
  "is_test c \<longleftrightarrow> code_group (cc_address c) = 0xD0000000"

lemma class_group:
  "code_class a = code_class b \<Longrightarrow> code_group a = code_group b"
proof -
  assume "code_class a = code_class b"
  then have "code_class a AND 0xF0000000 = code_class b AND 0xF0000000" by simp
  then show ?thesis by (simp add: code_class_def code_group_def and.assoc)
qed

lemma class_of_group: "code_class a = c \<Longrightarrow> code_group a = c AND 0xF0000000"
  by (auto simp: code_class_def code_group_def and.assoc)

definition fits :: "cheat_code \<Rightarrow> bool" where
  "fits c \<longleftrightarrow> offset_8bit (cc_address c) + 1 \<le> RDRAM_BYTES \<and> offset_16bit (cc_address c) + 2 \<le> RDRAM_BYTES"

text \<open>A test only looks.\<close>

lemma test_code_frame:
  assumes "is_test c" and "fits c"
  shows "snd (test_code gs c s) = s"
proof -
  have "code_class (cc_address c) \<notin> {0x80000000, 0x88000000, 0xA0000000, 0xA8000000, 0xF0000000, 0x81000000, 0x89000000,
      0xA1000000, 0xA9000000, 0xF1000000, 0xEE000000}"
    using assms(1) by (auto simp: is_test_def dest!: class_of_group)
  then show ?thesis using assms(2)
    by (simp add: test_code_def execute_cheat_def Let_def split_beta in_rdram_def check_bounds_def fits_def)
qed

lemma apply_vi_tests:
  assumes "\<forall>t \<in> set ts. is_test t \<and> fits t" and "\<not> is_test c"
  shows "apply_vi gs f (ts @ c # cs) s =
    (let (c', s') = (if \<not> f \<and> (\<forall>t \<in> set ts. holds gs s t) then plain_code gs c s else (c, s));
         (cs', s'') = apply_vi gs False cs s'
     in (ts @ c' # cs', s''))"
  using assms(1)
proof (induction ts arbitrary: f)
  case Nil
  then show ?case using assms(2) by (simp add: is_test_def)
next
  case (Cons t ts)
  have t: "code_group (cc_address t) = 0xD0000000" "test_code gs t s = (holds gs s t, s)"
    using Cons.prems test_code_frame [of t gs s] by (simp_all add: is_test_def holds_def prod_eq_iff)
  show ?case using Cons.IH [of "f \<or> \<not> holds gs s t"] Cons.prems t by (auto simp: Let_def split_beta)
qed

section \<open>Saving and restoring\<close>

definition code_8bit :: "cheat_code \<Rightarrow> bool" where
  "code_8bit c \<longleftrightarrow> code_class (cc_address c) \<in> {0x80000000, 0xA0000000}"

definition code_16bit :: "cheat_code \<Rightarrow> bool" where
  "code_16bit c \<longleftrightarrow> code_class (cc_address c) \<in> {0x81000000, 0xA1000000}"

definition touched :: "cheat_code \<Rightarrow> nat list" where
  "touched c =
     (if code_8bit c then [offset_8bit (cc_address c)] else [offset_16bit (cc_address c), offset_16bit (cc_address c) + 1])"

definition saved :: "cheat_code \<Rightarrow> 'a rdram_scheme \<Rightarrow> u32" where
  "saved c s =
     (if code_8bit c then ucast (read_address_8bit (cc_address c) s) else ucast (read_address_16bit (cc_address c) s))"

definition write_code :: "cheat_code \<Rightarrow> u32 \<Rightarrow> 'a rdram_scheme \<Rightarrow> 'a rdram_scheme" where
  "write_code c v s =
     (if code_8bit c then update_address_8bit (cc_address c) (ucast v) s else update_address_16bit (cc_address c) (ucast v) s)"

lemma execute_normal:
  assumes "code_8bit c \<or> code_16bit c"
  shows "execute_cheat (cc_address c) v old s =
    (True, if old = Some CHEAT_CODE_MAGIC_VALUE then Some (saved c s) else old, write_code c v s)"
  using assms by (auto simp: execute_cheat_def Let_def code_8bit_def code_16bit_def saved_def write_code_def)

definition keep_old :: "'a rdram_scheme \<Rightarrow> cheat_code \<Rightarrow> cheat_code" where
  "keep_old s c = c\<lparr>cc_old_value := if cc_old_value c = CHEAT_CODE_MAGIC_VALUE then saved c s else cc_old_value c\<rparr>"

lemma plain_normal:
  assumes "code_8bit c \<or> code_16bit c"
  shows "plain_code gs c s = (keep_old s c, write_code c (cc_value c) s)" "\<not> is_test c"
proof -
  have "code_class (cc_address c) \<notin> {0x88000000, 0x89000000, 0xA8000000, 0xA9000000}"
    using assms by (auto simp: code_8bit_def code_16bit_def)
  moreover have "code_group (cc_address c) = 0x80000000 \<or> code_group (cc_address c) = 0xA0000000"
    using assms by (auto simp: code_8bit_def code_16bit_def dest!: class_of_group)
  then have "code_group (cc_address c) \<noteq> 0xF0000000" "\<not> is_test c" by (auto simp: is_test_def)
  ultimately show "plain_code gs c s = (keep_old s c, write_code c (cc_value c) s)" "\<not> is_test c"
    using assms by (simp_all add: plain_code_def run_code_def execute_normal keep_old_def)
qed

lemma dram_check [simp]: "dram (check_bounds ok s) = dram s"
  by (simp add: check_bounds_def set_fault_def)

lemma write_other: "b \<notin> set (touched c) \<Longrightarrow> get8 (dram (write_code c v s)) b = get8 (dram s) b"
  by (auto simp: write_code_def touched_def update_address_8bit_def update_address_16bit_def in_rdram_def Let_def get8_set8_other
      split: if_splits)

lemma saved_cong:
  "(\<And>b. b \<in> set (touched c) \<Longrightarrow> get8 (dram s) b = get8 (dram t) b) \<Longrightarrow> saved c s = saved c t"
  by (simp add: saved_def touched_def read_address_8bit_def read_address_16bit_def Let_def split: if_splits)

lemma byte_bits_end [simp]: "\<not> bit (x :: u8) (8 + n)"
  by (auto dest: bit_imp_le_length)

lemma byte_ucast: "ucast (ucast (x :: u8) :: u32) = x"
  by (rule bit_word_eqI) (auto simp: bit_ucast_iff)

lemma halves:
  fixes x y :: u8
  defines "w \<equiv> (ucast x OR push_bit 8 (ucast y) :: u16)"
  shows "ucast (ucast (ucast w :: u32) :: u16) = x" "ucast (drop_bit 8 (ucast (ucast w :: u32) :: u16)) = y"
  by (auto intro!: bit_word_eqI simp: w_def bit_ucast_iff bit_or_iff bit_push_bit_iff bit_drop_bit_eq)

lemma write_saved: "b \<in> set (touched c) \<Longrightarrow> get8 (dram (write_code c (saved c s0) s)) b = get8 (dram s0) b"
  using halves [of "get8 (dram s0) (offset_16bit (cc_address c))" "get8 (dram s0) (offset_16bit (cc_address c) + 1)"]
  by (auto simp: write_code_def touched_def saved_def update_address_8bit_def update_address_16bit_def read_address_8bit_def
      read_address_16bit_def in_rdram_def Let_def get8_set8_other get8_set8_same byte_ucast split: if_splits)

lemma saved_not_magic: "saved c s \<noteq> CHEAT_CODE_MAGIC_VALUE"
proof -
  have "\<not> bit (saved c s) 31" by (auto simp: saved_def bit_ucast_iff dest: bit_imp_le_length)
  moreover have "bit CHEAT_CODE_MAGIC_VALUE 31" by simp
  ultimately show ?thesis by metis
qed

definition bytes_of :: "cheat_code list \<Rightarrow> nat set" where
  "bytes_of cs = (\<Union>c \<in> set cs. set (touched c))"

lemma apply_normal:
  assumes "\<forall>c \<in> set cs. code_8bit c \<or> code_16bit c" and "distinct (concat (map touched cs))"
  shows "fst (apply_vi gs False cs s) = map (keep_old s) cs"
  using assms
proof (induction cs arbitrary: s)
  case (Cons c cs)
  note p = plain_normal(1) [of c gs s] plain_normal(2) [of c]
  let ?s = "write_code c (cc_value c) s"
  have "saved d ?s = saved d s" if "d \<in> set cs" for d
    using that Cons.prems(2) by (intro saved_cong write_other) auto
  then have "map (keep_old ?s) cs = map (keep_old s) cs" by (simp add: keep_old_def)
  then show ?case using Cons p by (simp add: Let_def split_beta is_test_def)
qed simp

lemma restore_normal:
  assumes "\<forall>c \<in> set cs. (code_8bit c \<or> code_16bit c) \<and> cc_old_value c = saved c s0"
  shows "fst (restore_codes cs s) = map (\<lambda>c. c\<lparr>cc_old_value := CHEAT_CODE_MAGIC_VALUE\<rparr>) cs \<and>
    (\<forall>b. get8 (dram (snd (restore_codes cs s))) b = (if b \<in> bytes_of cs then get8 (dram s0) b else get8 (dram s) b))"
  using assms
proof (induction cs arbitrary: s)
  case (Cons c cs)
  have c: "cc_old_value c \<noteq> CHEAT_CODE_MAGIC_VALUE" "cc_old_value c = saved c s0" "code_8bit c \<or> code_16bit c"
    using Cons.prems saved_not_magic by auto
  let ?s = "write_code c (saved c s0) s"
  have r: "restore_codes (c # cs) s =
      (c\<lparr>cc_old_value := CHEAT_CODE_MAGIC_VALUE\<rparr> # fst (restore_codes cs ?s), snd (restore_codes cs ?s))"
    using c by (simp add: execute_normal Let_def split_beta)
  have "get8 (dram ?s) b = (if b \<in> set (touched c) then get8 (dram s0) b else get8 (dram s) b)" for b
    by (simp add: write_saved write_other)
  then show ?case using Cons.IH [of ?s] Cons.prems by (auto simp: r bytes_of_def simp del: restore_codes.simps)
qed (simp add: bytes_of_def)

lemma keep_old_again: "keep_old t (keep_old s c) = keep_old s c"
  by (simp add: keep_old_def saved_not_magic)

lemma touched_keep [simp]: "touched (keep_old s c) = touched c" "code_8bit (keep_old s c) = code_8bit c"
  "code_16bit (keep_old s c) = code_16bit c" "saved (keep_old s c) t = saved c t"
  by (simp_all add: touched_def keep_old_def code_8bit_def code_16bit_def saved_def)

section \<open>Parsing\<close>

lemma count_codes_commas: "count_list s (CHR '','') \<le> count_codes s"
proof (induction s)
  case (Cons c s)
  then show ?case by (cases "CHR '','' \<in> set s") (auto simp: count_list_0_iff)
qed simp

lemma count_drop: "count_list (dropWhile P s) d \<le> count_list s d"
  by (induction s) auto

lemma tokens_bound: "length (tokens d (Some s)) \<le> Suc (count_list s d)"
proof (induction "length s" arbitrary: s rule: less_induct)
  case less
  define u where "u = dropWhile (\<lambda>c. c = d) s"
  define p where "p = dropWhile (\<lambda>c. c \<noteq> d) u"
  have t: "tokens d (Some s) = takeWhile (\<lambda>c. c \<noteq> d) u # tokens d (if p = [] then None else Some (tl p))"
    by (subst tokens.simps) (simp only: strtok_compat_def Let_def option.case prod.case u_def p_def)
  show ?case
  proof (cases p)
    case Nil
    then show ?thesis by (simp add: t tokens.simps [of d None] strtok_compat_def)
  next
    case (Cons x q)
    then have x: "x = d" using hd_dropWhile [of "\<lambda>c. c \<noteq> d" u] by (simp add: p_def)
    have "length p \<le> length s" unfolding p_def u_def by (rule order_trans [OF length_dropWhile_le length_dropWhile_le])
    then have "length (tokens d (Some q)) \<le> Suc (count_list q d)" using less Cons by simp
    moreover have "count_list p d \<le> count_list s d" unfolding p_def u_def by (rule order_trans [OF count_drop count_drop])
    ultimately show ?thesis using Cons x by (simp add: t)
  qed
qed

lemma tokens_join:
  assumes "t \<noteq> []" and "d \<notin> set t"
  shows "tokens d (Some (t @ d # r)) = t # tokens d (Some r)" "tokens d (Some t) = [t]"
proof -
  have a: "dropWhile (\<lambda>c. c = d) (t @ r') = t @ r'" for r' using assms by (cases t) auto
  have b: "takeWhile (\<lambda>c. c \<noteq> d) (t @ d # r) = t" "dropWhile (\<lambda>c. c \<noteq> d) (t @ d # r) = d # r"
    "takeWhile (\<lambda>c. c \<noteq> d) t = t" "dropWhile (\<lambda>c. c \<noteq> d) t = []"
    using assms(2) by (auto simp: takeWhile_eq_all_conv takeWhile_append dropWhile_append)
  show "tokens d (Some (t @ d # r)) = t # tokens d (Some r)"
    by (subst tokens.simps) (simp add: strtok_compat_def Let_def a b)
  show "tokens d (Some t) = [t]"
    using a [of "[]"] assms(2) by (subst tokens.simps) (simp add: strtok_compat_def Let_def b tokens.simps [of d None])
qed

text \<open>How a code is written in the data base: eight and four hexadecimal digits, separated by commas.\<close>

definition hex_char :: "nat \<Rightarrow> char" where
  "hex_char n = char_of (if n < 10 then 48 + n else 55 + n)"

fun hex_string :: "nat \<Rightarrow> nat \<Rightarrow> string" where
  "hex_string 0 v = []"
| "hex_string (Suc w) v = hex_char (v div 16 ^ w mod 16) # hex_string w v"

definition print_code :: "u32 \<times> u32 \<Rightarrow> string" where
  "print_code c = hex_string 8 (unat (fst c)) @ CHR '' '' # hex_string 4 (unat (snd c))"

fun print_codes :: "(u32 \<times> u32) list \<Rightarrow> string" where
  "print_codes [] = []"
| "print_codes [c] = print_code c"
| "print_codes (c # cs) = print_code c @ CHR '','' # print_codes cs"

lemma hex_char_props:
  assumes "n < 16"
  shows "hex_digit (hex_char n) = Some (of_nat n)" "\<not> is_space (hex_char n)"
    "hex_char n \<notin> {CHR ''+'', CHR ''-'', CHR ''x'', CHR ''X'', CHR '','', CHR '' ''}"
proof -
  have "\<forall>n < 16. hex_digit (hex_char n) = Some (of_nat n) \<and> \<not> is_space (hex_char n) \<and>
      hex_char n \<notin> {CHR ''+'', CHR ''-'', CHR ''x'', CHR ''X'', CHR '','', CHR '' ''}"
    unfolding less16 by (simp add: hex_digit_def hex_char_def is_space_def of_char_def char_of_def bit_0)
  then show "hex_digit (hex_char n) = Some (of_nat n)" "\<not> is_space (hex_char n)"
    "hex_char n \<notin> {CHR ''+'', CHR ''-'', CHR ''x'', CHR ''X'', CHR '','', CHR '' ''}" using assms by simp_all
qed

lemma hex_string_length [simp]: "length (hex_string w v) = w"
  by (induction w) auto

lemma hex_string_chars: "c \<in> set (hex_string w v) \<Longrightarrow> \<exists>n < 16. c = hex_char n"
proof (induction w)
  case (Suc w)
  then show ?case by (cases "c = hex_char (v div 16 ^ w mod 16)") (auto intro: exI [of _ "v div 16 ^ w mod 16"])
qed simp

lemma hex_digits_print: "hex_digits w (hex_string w v @ r) u True = Some (16 ^ w * u + of_nat (v mod 16 ^ w), r)"
proof (induction w arbitrary: u)
  case (Suc w)
  let ?d = "v div 16 ^ w mod 16"
  have "v mod 16 ^ Suc w = 16 ^ w * ?d + v mod 16 ^ w" by (simp add: mod_mult2_eq mult.commute [of 16])
  then have "16 ^ w * (16 * u + of_nat ?d) + of_nat (v mod 16 ^ w) = 16 ^ Suc w * u + of_nat (v mod 16 ^ Suc w)"
    by (simp add: algebra_simps)
  then show ?case using Suc.IH [of "16 * u + of_nat ?d"] by (simp add: hex_char_props(1))
qed simp

lemma hex_digits_start: "0 < w \<Longrightarrow> hex_digits w (hex_string w v @ r) u False = hex_digits w (hex_string w v @ r) u True"
  by (cases w) (simp_all add: hex_char_props(1))

lemma scan_hex_print:
  assumes "2 \<le> w"
  shows "scan_hex w (hex_string w v @ r) = Some (of_nat (v mod 16 ^ w), r)"
proof -
  obtain n where w: "w = Suc (Suc n)" using assms that [of "w - 2"] by simp
  let ?a = "v div 16 ^ Suc n mod 16" and ?b = "v div 16 ^ n mod 16"
  have h: "hex_string w v @ r = hex_char ?a # hex_char ?b # hex_string n v @ r" by (simp add: w)
  have p: "\<not> is_space (hex_char ?a)" "hex_char ?a \<noteq> CHR ''+''" "hex_char ?a \<noteq> CHR ''-''" "hex_char ?b \<noteq> CHR ''x''" "hex_char ?b \<noteq> CHR ''X''"
    using hex_char_props(2,3) [of ?a] hex_char_props(3) [of ?b] by simp_all
  have "scan_sign w (dropWhile is_space (hex_string w v @ r)) = (False, w, hex_string w v @ r)"
    unfolding h using p(1-3) by (simp add: scan_sign_def)
  moreover have "scan_prefix w (hex_string w v @ r) = (w, hex_string w v @ r)"
    unfolding h using p(4,5) by (simp add: scan_prefix_def)
  moreover have "hex_digits w (hex_string w v @ r) 0 False = Some (of_nat (v mod 16 ^ w), r)"
    using assms hex_digits_print [of w v r 0] hex_digits_start [of w v r 0] by simp
  ultimately show ?thesis by (simp add: scan_hex_def)
qed

lemma scan_print:
  assumes "snd c < 0x10000"
  shows "scan_code (print_code c) = Some c"
proof -
  have "unat (fst c) mod 16 ^ 8 = unat (fst c)" using unsigned_less [of "fst c", where ?'a = nat] by simp
  then have "(of_nat (unat (fst c) mod 16 ^ 8) :: u32) = fst c" by simp
  moreover have "unat (snd c) < 16 ^ 4" using assms by (simp add: word_less_nat_alt)
  then have "unat (snd c) mod 16 ^ 4 = unat (snd c)" by simp
  then have "(of_nat (unat (snd c) mod 16 ^ 4) :: u32) = snd c" by simp
  moreover have "scan_hex 4 (CHR '' '' # hex_string 4 (unat (snd c))) = scan_hex 4 (hex_string 4 (unat (snd c)))"
    by (simp add: scan_hex_def is_space_def)
  ultimately show ?thesis
    using scan_hex_print [of 8 "unat (fst c)" "CHR '' '' # hex_string 4 (unat (snd c))"] scan_hex_print [of 4 "unat (snd c)" "[]"]
    by (simp add: scan_code_def print_code_def)
qed

lemma print_code_no_comma: "CHR '','' \<notin> set (print_code c)" "print_code c \<noteq> []"
proof -
  have "CHR '','' \<notin> set (hex_string w v)" for w v
    using hex_string_chars [of "CHR '',''" w v] hex_char_props(3) by fastforce
  then show "CHR '','' \<notin> set (print_code c)" by (simp add: print_code_def)
  show "print_code c \<noteq> []" by (simp add: print_code_def)
qed

lemma tokens_print: "cs \<noteq> [] \<Longrightarrow> tokens (CHR '','') (Some (print_codes cs)) = map print_code cs"
proof (induction cs rule: print_codes.induct)
  case (2 c)
  then show ?case using tokens_join(2) print_code_no_comma [of c] by simp
next
  case (3 c d cs)
  then show ?case using tokens_join(1) print_code_no_comma [of c] by simp
qed simp

section \<open>The engine and the rest of the machine\<close>

text \<open>Cheats reach memory and nothing else; the queue of events in particular.\<close>

lemma execute_queue: "cp0_q (snd (snd (execute_cheat a v old s))) = cp0_q s"
  by (simp add: execute_cheat_def Let_def update_address_8bit_def update_address_16bit_def in_rdram_def check_bounds_def set_fault_def)

lemma codes_queue:
  "cp0_q (snd (apply_boot cs s)) = cp0_q s" "cp0_q (snd (apply_vi gs f cs s)) = cp0_q s" "cp0_q (snd (restore_codes cs s)) = cp0_q s"
proof -
  have r: "cp0_q (snd (run_code c s)) = cp0_q s" for c and s :: "'a rdram_scheme"
    using execute_queue [of "cc_address c" "cc_value c" "Some (cc_old_value c)" s] by (simp add: run_code_def split_beta)
  have p: "cp0_q (snd (plain_code gs c s)) = cp0_q s" "cp0_q (snd (test_code gs c s)) = cp0_q s" for gs c and s :: "'a rdram_scheme"
    using execute_queue [of "cc_address c" "cc_value c" None s] r by (simp_all add: plain_code_def test_code_def Let_def split_beta)
  show "cp0_q (snd (apply_boot cs s)) = cp0_q s"
    by (induction cs arbitrary: s) (simp_all add: Let_def split_beta r)
  show "cp0_q (snd (apply_vi gs f cs s)) = cp0_q s"
    by (induction cs arbitrary: f s) (simp_all add: Let_def split_beta p)
  show "cp0_q (snd (restore_codes cs s)) = cp0_q s"
    by (induction cs arbitrary: s) (simp_all add: Let_def split_beta execute_queue)
qed

lemma gs_apply_cheats_queue: "cp0_q (snd (gs_apply_cheats lock gs ctx s)) = cp0_q s"
proof -
  have c: "cp0_q (snd (apply_cheat gs entry ch s)) = cp0_q s" for entry ch and s :: "'a rdram_scheme"
    by (simp add: apply_cheat_def Let_def split_beta codes_queue split: cheat_entry.split)
  have "cp0_q (snd (apply_all gs entry chs s)) = cp0_q s" for entry chs and s :: "'a rdram_scheme"
    by (induction chs arbitrary: s) (simp_all add: Let_def split_beta c)
  then show ?thesis by (simp add: gs_apply_cheats_def cheat_apply_cheats_def Let_def split_beta)
qed

section \<open>Properties\<close>

text \<open>
  C36. Disabling a cheat of plain writes gives the game its memory back: when all codes of the cheat are unconditional writes of a byte or
  a half word (classes 80, 81, A0 and A1), freshly entered and to different bytes, then after
  any number of vertical interrupts, with the game changing memory in any way between them, disabling the
  cheat restores exactly the bytes its codes cover to what they were before the cheat first ran, leaves all other bytes alone,
  and forgets the saved values. Codes for the GameShark button (88, 89, A8, A9), which save no old value and are not restored, boot
  codes (F0, F1) and conditions (D0 to D3, D8 to DB) with the codes behind them are not covered.
\<close>

theorem disable_restores_memory:
  fixes s t :: "'a rdram_scheme" and vis :: "(bool \<times> 'a rdram_scheme) list"
  assumes codes: "\<forall>c \<in> set (cheat_codes ch). (code_8bit c \<or> code_16bit c) \<and> cc_old_value c = CHEAT_CODE_MAGIC_VALUE"
    and dist: "distinct (concat (map touched (cheat_codes ch)))" and en: "ch_enabled ch \<noteq> 0"
  shows "let first = fst (apply_cheat gs ENTRY_VI ch s);
             later = fold (\<lambda>(g, u) c. fst (apply_cheat g ENTRY_VI c u)) vis first;
             (ch', s') = apply_cheat gs' ENTRY_VI (later\<lparr>ch_enabled := 0\<rparr>) t
         in cheat_codes ch' = cheat_codes ch \<and>
            (\<forall>b. get8 (dram s') b = (if b \<in> bytes_of (cheat_codes ch) then get8 (dram s) b else get8 (dram t) b))"
proof -
  let ?cs = "map (keep_old s) (cheat_codes ch)"
  define first where "first = fst (apply_cheat gs ENTRY_VI ch s)"
  have f: "cheat_codes first = ?cs \<and> ch_enabled first \<noteq> 0 \<and> ch_was_enabled first \<noteq> 0"
    using en codes apply_normal [of "cheat_codes ch" gs s] dist by (simp add: first_def apply_cheat_def Let_def split_beta)
  have step: "cheat_codes (fst (apply_cheat g ENTRY_VI c u)) = ?cs \<and> ch_enabled (fst (apply_cheat g ENTRY_VI c u)) \<noteq> 0 \<and>
      ch_was_enabled (fst (apply_cheat g ENTRY_VI c u)) \<noteq> 0"
    if "cheat_codes c = ?cs \<and> ch_enabled c \<noteq> 0 \<and> ch_was_enabled c \<noteq> 0" for g and u :: "'a rdram_scheme" and c :: cheat
  proof -
    have "distinct (concat (map touched ?cs))" "\<forall>c \<in> set ?cs. code_8bit c \<or> code_16bit c" using dist codes by (simp_all add: comp_def)
    then have "fst (apply_vi g False ?cs u) = ?cs" using apply_normal [of ?cs g u] by (simp add: keep_old_again)
    then show ?thesis using that by (simp add: apply_cheat_def Let_def split_beta)
  qed
  define later where "later = fold (\<lambda>(g, u) c. fst (apply_cheat g ENTRY_VI c u)) vis first"
  have "cheat_codes later = ?cs \<and> ch_enabled later \<noteq> 0 \<and> ch_was_enabled later \<noteq> 0"
    unfolding later_def by (rule fold_invariant [where Q = "\<lambda>_. True"]) (use f step in \<open>auto simp del: map_map\<close>)
  then have a: "apply_cheat gs' ENTRY_VI (later\<lparr>ch_enabled := 0\<rparr>) t =
      (later\<lparr>ch_enabled := 0, ch_was_enabled := 0, cheat_codes := fst (restore_codes ?cs t)\<rparr>, snd (restore_codes ?cs t))"
    by (simp add: apply_cheat_def Let_def split_beta)
  have b: "bytes_of ?cs = bytes_of (cheat_codes ch)" by (simp add: bytes_of_def)
  have r: "fst (restore_codes ?cs t) = map (\<lambda>c. c\<lparr>cc_old_value := CHEAT_CODE_MAGIC_VALUE\<rparr>) ?cs \<and>
      (\<forall>b. get8 (dram (snd (restore_codes ?cs t))) b = (if b \<in> bytes_of ?cs then get8 (dram s) b else get8 (dram t) b))"
    using codes by (intro restore_normal) (auto simp: keep_old_def code_8bit_def code_16bit_def saved_def)
  have "map (\<lambda>c. c\<lparr>cc_old_value := CHEAT_CODE_MAGIC_VALUE\<rparr>) ?cs = cheat_codes ch"
    using codes by (simp add: keep_old_def map_idI)
  then show ?thesis using r unfolding Let_def first_def [symmetric] later_def [symmetric] a by (simp add: b)
qed

text \<open>
  When two codes of a cheat write the same byte, disabling it leaves the value of the first code there: the
  saved values are written back in the order of the codes, not in the reverse order.
\<close>

theorem overlapping_codes_not_restored:
  fixes s :: "'a rdram_scheme" and t :: "'b rdram_scheme"
  assumes "code_class a \<in> {0x80000000, 0xA0000000}"
  shows "get8 (dram (snd (restore_codes (fst (apply_vi gs False [new_code a v, new_code a w] s)) t))) (offset_8bit a) = ucast v"
proof -
  let ?c = "new_code a v" and ?d = "new_code a w"
  have c: "code_8bit ?c" "code_8bit ?d" using assms by (simp_all add: code_8bit_def new_code_def)
  have g: "\<not> code_group a = 0xD0000000" using plain_normal(2) [of ?c] c by (simp add: is_test_def new_code_def)
  have "fst (apply_vi gs False [?c, ?d] s) = [keep_old s ?c, keep_old (write_code ?c v s) ?d]"
    using c g plain_normal(1) [of ?c gs s] plain_normal(1) [of ?d gs "write_code ?c v s"] by (simp add: new_code_def Let_def split_beta)
  moreover have sv: "saved ?d (write_code ?c v s) = ucast (ucast v :: u8)"
    using c by (simp add: saved_def write_code_def read_address_8bit_def update_address_8bit_def in_rdram_def Let_def get8_set8_same new_code_def)
  moreover have ex: "snd (snd (execute_cheat a x None u)) = write_code ?d x u" for x and u :: "'b rdram_scheme"
    using execute_normal [of ?d x None u] c(2) by (simp add: new_code_def)
  then have "snd (restore_codes [keep_old s ?c, keep_old (write_code ?c v s) ?d] t) =
      write_code ?d (saved ?d (write_code ?c v s)) (write_code ?d (saved ?c s) t)"
    using saved_not_magic [of ?c s] saved_not_magic [of ?d "write_code ?c v s"]
    by (simp add: Let_def split_beta keep_old_def new_code_def)
  ultimately show ?thesis
    using c(2) by (simp add: sv write_code_def update_address_8bit_def in_rdram_def Let_def get8_set8_same byte_ucast)
      (simp add: new_code_def get8_set8_same)
qed

text \<open>
  A run of conditional codes guards exactly the next code: it is run when all of them hold (and, for those that ask
  for it, the GameShark button is held), and skipped otherwise; the codes after it start afresh.
\<close>

theorem conditions_guard_next_code:
  assumes "\<forall>t \<in> set ts. is_test t \<and> fits t" and "\<not> is_test c"
  shows "apply_vi gs False (ts @ c # cs) s =
    (let (c', s') = (if \<forall>t \<in> set ts. holds gs s t then plain_code gs c s else (c, s));
         (cs', s'') = apply_vi gs False cs s'
     in (ts @ c' # cs', s''))"
  using apply_vi_tests [OF assms, of gs False cs s] by simp

text \<open>
  C37. The codes of a ROM are parsed as they are written in the data base, and however the text looks, the codes that are found
  fit the array that was allocated for them.
\<close>

theorem hack_codes_parsed:
  "length (snd (cheat_parse_hacks_code alloc line)) \<le> fst (cheat_parse_hacks_code alloc line) \<and>
   (cs \<noteq> [] \<and> (\<forall>c \<in> set cs. snd c < 0x10000) \<longrightarrow> snd (cheat_parse_hacks_code True (print_codes cs)) = cs)"
proof (intro conjI impI)
  have "length (List.map_filter scan_code ts) \<le> length ts" for ts by (simp add: List.map_filter_def)
  moreover have "length (tokens (CHR '','') (Some line)) \<le> Suc (count_codes line)"
    using tokens_bound [of "CHR '',''" line] count_codes_commas [of line] by simp
  ultimately show "length (snd (cheat_parse_hacks_code alloc line)) \<le> fst (cheat_parse_hacks_code alloc line)"
    by (auto simp: cheat_parse_hacks_code_def intro: order_trans)
  assume cs: "cs \<noteq> [] \<and> (\<forall>c \<in> set cs. snd c < 0x10000)"
  then have "\<forall>c \<in> set cs. snd c < 0x10000" by simp
  then have "List.map_filter scan_code (map print_code cs) = cs"
    by (induction cs) (auto simp: List.map_filter_simps scan_print)
  then show "snd (cheat_parse_hacks_code True (print_codes cs)) = cs"
    using cs by (simp add: cheat_parse_hacks_code_def tokens_print)
qed

lemma patch_codes_closed:
  "patch_codes n incr_addr incr_value a v =
     map (\<lambda>j. new_code (a + of_nat j * incr_addr) (v + of_nat j * incr_value)) [0..<n]"
proof (induction n arbitrary: a v)
  case (Suc n)
  then show ?case by (simp add: upt_conv_Cons map_Suc_upt [symmetric] algebra_simps del: upt_Suc)
qed simp

section \<open>Witnesses\<close>

definition sample_cheat :: cheat where
  "sample_cheat = \<lparr>ch_name = ''a'', ch_enabled = 1, ch_was_enabled = 0,
     cheat_codes = [new_code 0x80000100 5, new_code 0x81000200 0x1234]\<rparr>"

lemma sample_cheat_codes:
  "code_8bit (new_code 0x80000100 5)" "\<not> code_8bit (new_code 0x81000200 0x1234)" "code_16bit (new_code 0x81000200 0x1234)"
  "touched (new_code 0x80000100 5) = [0x103]" "touched (new_code 0x81000200 0x1234) = [0x202, 0x203]"
  by (simp_all add: code_8bit_def code_16bit_def touched_def new_code_def code_class_def offset_8bit_def offset_16bit_def)

theorem disable_restores_memory_witness:
  "let (ch', s') = apply_cheat True ENTRY_VI ((fst (apply_cheat True ENTRY_VI sample_cheat sample_rdram))\<lparr>ch_enabled := 0\<rparr>) sample_rdram
   in \<forall>b. get8 (dram s') b = get8 (dram sample_rdram) b"
proof -
  have "\<forall>c \<in> set (cheat_codes sample_cheat). (code_8bit c \<or> code_16bit c) \<and> cc_old_value c = CHEAT_CODE_MAGIC_VALUE"
    "distinct (concat (map touched (cheat_codes sample_cheat)))" "ch_enabled sample_cheat \<noteq> 0"
    using sample_cheat_codes by (simp_all add: sample_cheat_def) (simp_all add: new_code_def)
  from disable_restores_memory [OF this, of True sample_rdram "[]" True sample_rdram] show ?thesis
    by (simp add: Let_def split_beta)
qed

theorem overlapping_codes_not_restored_witness:
  "get8 (dram (snd (restore_codes (fst (apply_vi True False [new_code 0x80000100 5, new_code 0x80000100 6] sample_rdram)) sample_rdram)))
     (offset_8bit 0x80000100) = 5"
  using overlapping_codes_not_restored [of "0x80000100" True 5 6 sample_rdram sample_rdram] by (simp add: code_class_def)

theorem conditions_guard_next_code_witness:
  "fst (apply_vi True False [new_code 0xD0000100 1, new_code 0x80000200 5] sample_rdram) =
     [new_code 0xD0000100 1, if holds True sample_rdram (new_code 0xD0000100 1)
        then fst (plain_code True (new_code 0x80000200 5) sample_rdram) else new_code 0x80000200 5]"
  using conditions_guard_next_code [of "[new_code 0xD0000100 1]" "new_code 0x80000200 5" True "[]" sample_rdram]
  by (simp add: is_test_def fits_def new_code_def code_group_def offset_8bit_def offset_16bit_def Let_def split_beta)

theorem hack_codes_parsed_witness:
  "snd (cheat_parse_hacks_code True (print_codes [(0x8010ABCD, 0x2400)])) = [(0x8010ABCD, 0x2400)]"
  using hack_codes_parsed [of True "[]" "[(0x8010ABCD, 0x2400)]"] by simp

end
