(* ===== verification/Machine.thy ===== *)
theory Machine
  imports Interp Memory_Map Cheat
begin

text \<open>
  The machine as a whole: what its connections have to respect (\<open>machine_ok\<close>), that the tables of
  \<open>Device\<close> satisfy the contracts of the interrupt, joybus, DMA and controller interfaces, the machine
  with the dummy plugins of \<^verbatim>\<open>src/src/plugin\<close>, and the properties that span components.
\<close>

section \<open>Dummy plugins\<close>

definition dummyrsp_DoRspCycles :: "'a dev \<Rightarrow> 'a dev" where
  "dummyrsp_DoRspCycles s = s"

definition dummyvideo_ProcessRDPList :: "'a dev \<Rightarrow> 'a dev" where
  "dummyvideo_ProcessRDPList s = s"

text \<open>The frame buffer descriptions are left as they are.\<close>

definition dummyvideo_FBGetFrameBufferInfo :: "'a dev \<Rightarrow> fb_info list" where
  "dummyvideo_FBGetFrameBufferInfo s = fb_infos s"

definition dummyinput_GetKeys :: u32 where
  "dummyinput_GetKeys = 0x0000"

definition dummyinput_ControllerCommand :: "'a dev \<Rightarrow> 'a dev" where
  "dummyinput_ControllerCommand s = s"

definition dummyinput_ReadController :: "'a dev \<Rightarrow> 'a dev" where
  "dummyinput_ReadController s = s"

text \<open>A host without floating point.\<close>

definition no_fpu :: host_fpu where
  "no_fpu = \<lparr>f32_add = (\<lambda>_ _ _. 0), f32_sub = (\<lambda>_ _ _. 0), f32_mul = (\<lambda>_ _ _. 0), f32_div = (\<lambda>_ _ _. 0), f32_sqrt = (\<lambda>_ _. 0),
     f32_of_int = (\<lambda>_ _. 0), f32_floor = (\<lambda>x. x), f32_ceil = (\<lambda>x. x), f32_trunc = (\<lambda>x. x), f32_round = (\<lambda>x. x),
     f32_to_i32 = (\<lambda>_. 0), f32_to_i64 = (\<lambda>_. 0),
     f64_add = (\<lambda>_ _ _. 0), f64_sub = (\<lambda>_ _ _. 0), f64_mul = (\<lambda>_ _ _. 0), f64_div = (\<lambda>_ _ _. 0), f64_sqrt = (\<lambda>_ _. 0),
     f64_of_int = (\<lambda>_ _. 0), f64_floor = (\<lambda>x. x), f64_ceil = (\<lambda>x. x), f64_trunc = (\<lambda>x. x), f64_round = (\<lambda>x. x),
     f64_to_i32 = (\<lambda>_. 0), f64_to_i64 = (\<lambda>_. 0), f64_of_f32 = (\<lambda>_. 0), f32_of_f64 = (\<lambda>_ _. 0)\<rparr>"

definition dummy_machine :: "'a dev machine" where
  "dummy_machine =
     \<lparr>m_rsp = \<lparr>rsp_doRspCycles = dummyrsp_DoRspCycles,
                rsp_gfx = \<lparr>gfx_processRDPList = dummyvideo_ProcessRDPList,
                            gfx_fb = (\<lambda>s. Some (dummyvideo_FBGetFrameBufferInfo s))\<rparr>\<rparr>,
      m_pads = \<lparr>in_get_input = (\<lambda>k _. if k = 0 then Some dummyinput_GetKeys else None), in_ticks = (\<lambda>_. 0),
                 in_vru_results = (\<lambda>_ f. f), rom_country = 0, pad_gb = \<lparr>gb_time = (\<lambda>_. 0), gb_grab = (\<lambda>_. None)\<rparr>\<rparr>,
      m_clock = \<lparr>clock_get_time = (\<lambda>_. 0), clock_localtime =
        (\<lambda>_. \<lparr>tm_sec = 0, tm_min = 0, tm_hour = 0, tm_mday = 1, tm_wday = 4, tm_mon = 0, tm_year = 70\<rparr>)\<rparr>,
      m_new_vi = call_out New_vi,
      m_controllerCommand = dummyinput_ControllerCommand, m_readController = dummyinput_ReadController,
      m_tv_type = 1, m_job = (\<lambda>_. savestates_job_nothing), m_load = (\<lambda>s. s), m_save = (\<lambda>s. s), m_stack = (\<lambda>_. 0),
      m_fpu = no_fpu, m_full_mem = True, m_backing = (\<lambda>_. 0)\<rparr>"

section \<open>What the connections respect\<close>

text \<open>
  Plugins and the save states may add and remove events of their
  own, but they keep the queue usable; the front end's frame hook leaves it alone.
\<close>

locale machine_ok =
  fixes env :: "'a dev machine"
  assumes rsp: "live s \<Longrightarrow> live (rsp_doRspCycles (m_rsp env) s)"
    and rdp_list: "live s \<Longrightarrow> live (gfx_processRDPList (rsp_gfx (m_rsp env)) s)"
    and new_vi: "cp0_q (m_new_vi env s) = cp0_q s"
    and command: "live s \<Longrightarrow> live (m_controllerCommand env s)"
    and read_controller: "live s \<Longrightarrow> live (m_readController env s)"
    and load: "live s \<Longrightarrow> live (m_load env s)"
    and save: "live s \<Longrightarrow> live (m_save env s)"

sublocale machine_ok \<subseteq> jb: joybus_devices "dev_joybus env"
proof
  fix k d rxo v and s :: "'a dev"
  assume "jb_device (dev_joybus env) k = Some d" "live s"
  then show "live (snd (jd_process d rxo (v, s)))"
    by (auto simp: dev_joybus_def cart_command_live process_pad_command_def controller_command_live vru_command_live split: if_splits)
next
  fix k d rxo v f and s :: "'a dev"
  assume "jb_device (dev_joybus env) k = Some d" "jd_post_setup d = Some f" "live s"
  then show "live (snd (f rxo (v, s)))" by (auto simp: dev_joybus_def split: if_splits)
qed (simp_all add: dev_joybus_def command read_controller)

sublocale machine_ok \<subseteq> pih: pi_handlers "get_pi_dma_handler env"
proof
  fix a s' h d c n and s :: "'a dev"
  assume "get_pi_dma_handler env a s' = Some h" "live s"
  then show "live (snd (pi_dma_read h d c n s))"
    by (auto simp: get_pi_dma_handler_def dd_dma_live cart_dom_dma_live cart_dma_live cart_rom_dma_read_def split: if_splits)
next
  fix a s' h d c n and s :: "'a dev"
  assume "get_pi_dma_handler env a s' = Some h" "live s"
  then show "live (snd (pi_dma_write h d c n s))"
    by (auto simp: get_pi_dma_handler_def dd_dma_live cart_dom_dma_live cart_dma_live split: if_splits)
qed

lemma dev_live_upd [simp]:
  "live (s\<lparr>ri_regs := r\<rparr>) = live s" "live (s\<lparr>rdram_regs := rr\<rparr>) = live s" "live (s\<lparr>corrupted_handler := c\<rparr>) = live s"
  "live (s\<lparr>dram := w\<rparr>) = live s"
  by (simp_all add: live_def)

lemma rdp_live_upd [simp]:
  "live (s\<lparr>dps_regs := r\<rparr>) = live s" "live (s\<lparr>fb_dirty := fd\<rparr>) = live s" "live (s\<lparr>dpc_regs := r\<rparr>) = live s"
  "live (s\<lparr>do_on_unfreeze := u\<rparr>) = live s" "live (s\<lparr>fb_infos := fi\<rparr>) = live s" "live (s\<lparr>fb_once := fo\<rparr>) = live s"
  by (simp_all add: live_def)

lemma rsp_live_upd [simp]:
  "live (s\<lparr>sp_mem := w\<rparr>) = live s" "live (s\<lparr>sp_regs := r\<rparr>) = live s" "live (s\<lparr>sp_regs2 := r\<rparr>) = live s"
  "live (s\<lparr>sp_fifo0 := e\<rparr>) = live s" "live (s\<lparr>sp_fifo1 := e\<rparr>) = live s"
  by (simp_all add: live_def)

lemma cp0_live_upd [simp]:
  "live (s\<lparr>last_addr := x\<rparr>) = live s" "live (s\<lparr>next_interrupt := x\<rparr>) = live s" "live (s\<lparr>cycle_count := cc\<rparr>) = live s"
  "live (s\<lparr>gs_vi_counter := x\<rparr>) = live s" "live (s\<lparr>cp0_tlb := t\<rparr>) = live s"
  by (simp_all add: live_def)

lemma cpu_live_upd [simp]:
  "live (generic_jump_to x s) = live s" "live (exception_epilog s) = live s"
  "live (s\<lparr>gpr := g\<rparr>) = live s" "live (s\<lparr>delay_slot := dl\<rparr>) = live s"
  "live (s\<lparr>cp1 := c\<rparr>) = live s" "live (s\<lparr>cp2_latch := v\<rparr>) = live s"
  by (simp_all add: live_def generic_jump_to_def exception_epilog_def)

lemma init_interrupt_again: "live s \<Longrightarrow> live (init_interrupt s)"
  by (intro init_interrupt_live) (simp add: live_def wf_queue_nodes)

lemma reset_pif_live: "live s \<Longrightarrow> live (reset_pif t s)"
  by (simp add: reset_pif_def Let_def fold_live)

lemma poweron_r4300_live: "length (nodes (q_pool (cp0_q s))) = 16 \<Longrightarrow> live (poweron_r4300 s)"
  by (simp add: poweron_r4300_def poweron_cp0_def Let_def init_interrupt_live)


lemma simple_writes_live:
  "live s \<Longrightarrow> live (write_ri_regs a v m s)" "live s \<Longrightarrow> live (write_dps_regs a v m s)"
  "live s \<Longrightarrow> live (write_rsp_mem a v m s)" "live s \<Longrightarrow> live (write_rsp_regs2 a v m s)"
  "live s \<Longrightarrow> live (snd (read_rsp_regs a s))" "live s \<Longrightarrow> live (write_rdram_dram a v m s)"
  by (simp_all add: write_rdram_dram_def write_ri_regs_def write_dps_regs_def write_rsp_mem_def
      write_rsp_regs2_def read_rsp_regs_def Let_def)

lemma write_rdram_regs_live: "live s \<Longrightarrow> live (write_rdram_regs a v m s)"
proof -
  assume l: "live s"
  have w: "live (write_module_reg i r v m s) = live s" for i r and s :: "'a rdram_scheme"
    by (simp add: write_module_reg_def)
  have f: "live (fold (\<lambda>i. write_module_reg i r v m) is s)" for r "is"
    using l by (intro fold_live) (simp_all add: w)
  show "live (write_rdram_regs a v m s)"
    using l f by (simp add: write_rdram_regs_def map_corrupt_rdram_def Let_def w)
qed

lemma fb_access_live:
  fixes s :: "'a pi_controller_scheme"
  shows "live s \<Longrightarrow> live (snd (read_rdram_fb a s))" "live s \<Longrightarrow> live (write_rdram_fb a v m s)"
  by (simp_all add: read_rdram_fb_def write_rdram_fb_def Let_def split_beta simple_writes_live)

lemma refill_live: "live s \<Longrightarrow> live (TLB_refill_exception a w s)"
  by (simp add: TLB_refill_exception_def Let_def)

lemma physical_live: "live s \<Longrightarrow> live (snd (physical a w s))"
  by (simp add: physical_def virtual_to_physical_address_def split_beta Let_def refill_live split: option.split)

context machine_ok
begin

lemma mem_read32_live: "live s \<Longrightarrow> live (snd (mem_read32 env h a s))"
  by (simp add: mem_read32_def read_dd_regs_live split_beta Let_def fb_access_live simple_writes_live read_vi_regs_live read_ai_regs_live cart_mem_live split: mem_handler.split)

lemma mem_write32_live:
  assumes "live s" and "\<And>s. live s \<Longrightarrow> live (gen s)"
  shows "live (mem_write32 env gen h a v m s)"
  using assms(1)
  by (simp add: mem_write32_def write_dd_regs_live write_dd_rom_def simple_writes_live write_rdram_regs_live fb_access_live write_rsp_regs_live rsp
      write_dpc_regs_live rdp_list write_mi_regs_live assms(2) write_vi_regs_live write_ai_regs_live pih.write_pi_regs_live
      jb.write_si_regs_live cart_mem_live write_is_viewer_live write_pif_mem_live split: mem_handler.split)

lemma read_word_live: "live s \<Longrightarrow> live (snd (snd (r4300_read_aligned_word env a old s)))"
  using physical_live [of s a 0]
  by (simp add: r4300_read_aligned_word_def split_beta Let_def mem_read32_live split: option.split)

lemma write_word_live:
  assumes "live s" and "\<And>s. live s \<Longrightarrow> live (gen s)"
  shows "live (snd (r4300_write_aligned_word env gen a v m s))"
  using physical_live [OF assms(1), of a 1]
  by (simp add: r4300_write_aligned_word_def split_beta Let_def mem_write32_live assms(2) split: option.split)

lemma boot_write_live: "live s \<Longrightarrow> live (boot_write env a v s)"
  by (simp add: boot_write_def write_word_live)

lemma boot_live: "live s \<Longrightarrow> live (pif_bootrom_hle_execute env s)"
proof -
  have g: "live (set_gpr r v s) = live s" for r v and s :: "'a dev" by (simp add: set_gpr_def)
  have rd: "live s \<Longrightarrow> r4300_read_aligned_word env a old s = (b, x, s') \<Longrightarrow> live s'" for a old b x and s s' :: "'a dev"
    using read_word_live [of s a old] by simp
  assume "live s"
  then show ?thesis
    by (auto simp: pif_bootrom_hle_execute_def boot_configure_rom_def boot_stop_devices_def Let_def g boot_write_live
        intro!: boot_write_live dest!: rd [rotated] split: prod.split)
qed

lemma poweron_device_live:
  assumes l: "length (nodes (q_pool (cp0_q s))) = 16"
  shows "live (poweron_device env s)"
proof -
  have r: "live (poweron_r4300 (poweron_rdram s))"
    using l by (intro poweron_r4300_live) (simp add: poweron_rdram_def)
  have "live (fold (poweron_pad env) ks s)" if "live s" for ks and s :: "'a dev"
    using that by (intro fold_live) (simp add: poweron_pad_def poweron_vru_controller_def poweron_controller_live)
  moreover have "live (poweron_pif s) \<and> live (poweron_vi s) \<and> live (poweron_cart s) \<and> live (poweron_is_viewer s) \<and>
      live (poweron_ai s) \<and> live (poweron_mi s) \<and> live (poweron_pi s) \<and> live (poweron_ri s) \<and> live (poweron_si s) \<and>
      live (poweron_rsp s) \<and> live (poweron_rdp s)" if "live s" for s :: "'a dev"
    using that
    by (intro conjI) (simp add: poweron_pif_def reset_pif_live fold_live,
      simp_all add: live_def poweron_rdp_def poweron_fb_def poweron_rsp_def poweron_ai_def set_task_locked_def
        poweron_mi_def poweron_pi_def poweron_ri_def poweron_si_def poweron_vi_def poweron_cart_def poweron_flashram_def
        poweron_cart_rom_def poweron_af_rtc_def upd_flash_def poweron_is_viewer_def Let_def)
  ultimately show ?thesis
    using r by (simp add: poweron_device_def Let_def poweron_dd_live)
qed

lemma poweron_live: "live s \<Longrightarrow> live (poweron_device env s)"
  by (rule poweron_device_live) (simp add: live_def wf_queue_nodes)

lemma nmi_live: "live s \<Longrightarrow> live (nmi_int_handler env s)"
  by (simp add: nmi_int_handler_def Let_def reset_pif_live boot_live init_interrupt_again add_interrupt_event_live)

lemma reset_hard_live: "live s \<Longrightarrow> live (reset_hard_handler env s)"
  by (simp add: reset_hard_handler_def Let_def boot_live poweron_live init_interrupt_again)

end

sublocale machine_ok \<subseteq> ints: interrupt_handlers "machine_env env"
proof
  fix s :: "'a dev"
  assume l: "live s" "fst (hd (pending s)) = VI_INT"
  have "live (m_new_vi env s)" if "live s" for s using that live_cong [OF new_vi] by simp
  then show "live (ge_handlers (machine_env env) 0 s)"
    using l by (simp add: machine_env_def interrupt_handlers_table_def vi_event_live new_vi)
next
  fix i :: nat and s :: "'a dev"
  assume l: "live s" and i: "0 < i" "i < 16"
  let ?hs = "interrupt_handlers_table env"
  have hs: "?hs = hd ?hs # tl ?hs" "length (tl ?hs) = 15" by (simp_all add: interrupt_handlers_table_def)
  have all: "list_all (\<lambda>h. live (h s)) (tl ?hs)"
    using l
    by (simp add: interrupt_handlers_table_def dd_events_live compare_int_handler_live check_int_handler_live
        jb.si_end_of_dma_event_live pi_end_of_dma_event_live special_int_handler_live ai_end_of_dma_event_live
        rsp_interrupt_event_live rdp_interrupt_event_live hw2_int_handler_live nmi_live reset_hard_live
        rsp_end_of_dma_event_live)
  obtain j where j: "i = Suc j" "j < 15" using i by (cases i) auto
  then have "?hs ! i = tl ?hs ! j" by (subst hs(1)) simp
  then show "live (ge_handlers (machine_env env) i s)"
    using all j hs(2) by (simp add: machine_env_def list_all_length)
qed (simp_all add: machine_env_def load save)

interpretation dummy: machine_ok dummy_machine
  by unfold_locales (simp_all add: dummy_machine_def dummyrsp_DoRspCycles_def dummyvideo_ProcessRDPList_def
    dummyinput_ControllerCommand_def dummyinput_ReadController_def call_out_def)

text \<open>A front end that applies its cheats at every vertical interrupt respects the contract as well.\<close>

interpretation cheats: machine_ok "dummy_machine\<lparr>m_new_vi := \<lambda>s. snd (gs_apply_cheats lock gs ctx s)\<rparr>" for lock gs ctx
  by unfold_locales (simp_all add: dummy_machine_def dummyrsp_DoRspCycles_def dummyvideo_ProcessRDPList_def
    dummyinput_ControllerCommand_def dummyinput_ReadController_def gs_apply_cheats_queue)

section \<open>Instructions and the interrupt queue\<close>

lemma instr_live_upd [simp]:
  "live (ADD_TO_PC x s) = live s" "live (set_gpr r v s) = live s" "live (to_rd op v s) = live s" "live (to_rt op v s) = live s"
  "live (set_hi_lo v v' s) = live s" "live (s\<lparr>mult_hi := v\<rparr>) = live s" "live (s\<lparr>mult_lo := v\<rparr>) = live s"
  "live (s\<lparr>llbit := b\<rparr>) = live s"
  "live (s\<lparr>cp0_latch := v\<rparr>) = live s" "live (s\<lparr>interrupt_unsafe_state := b\<rparr>) = live s" "live (s\<lparr>stop := b\<rparr>) = live s"
  "live (s\<lparr>pc_addr := b\<rparr>) = live s" "live (upd_cp1 f s) = live s"
  by (simp_all add: live_def ADD_TO_PC_def set_gpr_def to_rd_def to_rt_def set_hi_lo_def upd_cp1_def)

lemma set_fault_dev_live [simp]: "live (set_fault s) = live s"
  by (simp add: live_def set_fault_def)

lemma length_del_event: "t \<in> fst ` set es \<Longrightarrow> length (del_event t es) < length es"
  by (induction t es rule: del_event.induct) auto

lemma translate_event_queue_live:
  assumes "live s"
  shows "live (translate_event_queue base s)"
proof -
  define s1 where "s1 = remove_event_s COMPARE_INT s"
  have l1: "live s1" using remove_event_live [OF assms, of COMPARE_INT] by (simp add: s1_def)
  obtain q2 where q2: "wf_queue q2" "q_events q2 = del_event SPECIAL_INT (pending s1)" "remove_event_s SPECIAL_INT s1 = s1\<lparr>cp0_q := q2\<rparr>"
    using remove_event_effect [of s1 SPECIAL_INT] l1 by (auto simp: live_def)
  have n2: "length (q_events q2) < 16"
    using length_del_event [of SPECIAL_INT "pending s1"] l1 q2(2) iq.within [of "cp0_q s1"]
    by (simp add: live_def INTERRUPT_NODES_POOL_CAPACITY_def)
  obtain q3 where q3: "map_counts (\<lambda>c. (c - count_reg s1) + base) q2 = Some q3" "wf_queue q3" "length (q_events q3) = length (q_events q2)"
    using map_counts_wf [OF q2(1)] by fastforce
  let ?s4 = "set_cp0 CP0_COUNT_REG base (s1\<lparr>cp0_q := q3\<rparr>)"
  have "live (add_interrupt_event_count SPECIAL_INT (special_count (count_reg ?s4)) ?s4)"
    using q3 n2 by (intro add_special_live) simp_all
  then show ?thesis
    using q3(1) by (simp add: translate_event_queue_def Let_def s1_def [symmetric] q2(3) add_compare_event_live)
qed

definition keeps_live :: "'a instr \<Rightarrow> bool" where
  "keeps_live i \<longleftrightarrow> (\<forall>op s s'. live s \<longrightarrow> i op s = Some s' \<longrightarrow> live s')"

lemma keeps_liveI: "(\<And>op s s'. i op s = Some s' \<Longrightarrow> live s \<Longrightarrow> live s') \<Longrightarrow> keeps_live i"
  by (auto simp: keeps_live_def)

lemma keeps_liveD: "keeps_live i \<Longrightarrow> i op s = Some s' \<Longrightarrow> live s \<Longrightarrow> live s'"
  by (auto simp: keeps_live_def)

lemma keeps_live_wrap:
  "(\<And>op s. live s \<Longrightarrow> live (f op s)) \<Longrightarrow> keeps_live (plain f)" "(\<And>s. live s \<Longrightarrow> live (g s)) \<Longrightarrow> keeps_live (none_op g)"
  "(\<And>op s. live s \<Longrightarrow> live (f op s)) \<Longrightarrow> keeps_live (rd_dest f)" "(\<And>op s. live s \<Longrightarrow> live (f op s)) \<Longrightarrow> keeps_live (rt_dest f)"
  by (auto simp: keeps_live_def plain_def none_op_def rd_dest_def rt_dest_def i_NOP_def)

lemma keeps_live_switch:
  assumes "list_all (\<lambda>(_, f). keeps_live f) cases" "keeps_live d"
  shows "keeps_live (switch cases d x)"
proof (cases "map_of cases x")
  case None
  then show ?thesis using assms(2) by (simp add: switch_def)
next
  case (Some f)
  then have "(x, f) \<in> set cases" by (rule map_of_SomeD)
  then show ?thesis using assms(1) Some by (auto simp: switch_def list_all_iff)
qed

lemma keeps_live_switchD:
  "switch cases d x op s = Some s' \<Longrightarrow> list_all (\<lambda>(_, f). keeps_live f) cases \<Longrightarrow> keeps_live d \<Longrightarrow> live s \<Longrightarrow> live s'"
  using keeps_live_switch keeps_liveD by blast

lemma exceptions_live:
  "live s \<Longrightarrow> live (i_RESERVED s)" "live s \<Longrightarrow> live (i_RESERVED_COP2 s)" "live s \<Longrightarrow> live (i_BREAK s)" "live s \<Longrightarrow> live (i_SYSCALL s)"
  "live s \<Longrightarrow> live (i_NOP s)" "live s \<Longrightarrow> live (i_SYNC s)" "live s \<Longrightarrow> live (i_CACHE s)" "live s \<Longrightarrow> live (i_NI s)"
  "live s \<Longrightarrow> live (DECLARE_TRAP b s)" "live s \<Longrightarrow> live (snd (check_cop1_unusable s))" "live s \<Longrightarrow> live (snd (check_cop2_unusable s))"
  by (simp_all add: i_RESERVED_def i_RESERVED_COP2_def i_BREAK_def i_SYSCALL_def i_NOP_def i_SYNC_def i_CACHE_def i_NI_def
      DECLARE_TRAP_def check_cop1_unusable_def check_cop2_unusable_def)

lemmas alu_defs = i_ADD_def i_ADDU_def i_ADDI_def i_ADDIU_def i_DADD_def i_DADDU_def i_DADDI_def i_DADDIU_def i_SUB_def i_SUBU_def
  i_DSUB_def i_DSUBU_def i_SLT_def i_SLTU_def i_SLTI_def i_SLTIU_def i_AND_def i_ANDI_def i_OR_def i_ORI_def i_XOR_def i_XORI_def
  i_NOR_def i_LUI_def i_SLL_def i_SLLV_def i_DSLL_def i_DSLLV_def i_DSLL32_def i_SRL_def i_SRLV_def i_DSRL_def i_DSRLV_def i_DSRL32_def
  i_SRA_def i_SRAV_def i_DSRA_def i_DSRAV_def i_DSRA32_def i_MFHI_def i_MTHI_def i_MFLO_def i_MTLO_def

lemmas mul_div_defs = i_MULT_def i_MULTU_def i_DMULT_def i_DMULTU_def i_DIV_def i_DIVU_def i_DDIV_def i_DDIVU_def

lemmas trap_defs = i_TGE_def i_TGEU_def i_TLT_def i_TLTU_def i_TEQ_def i_TNE_def i_TGEI_def i_TGEIU_def i_TLTI_def i_TLTIU_def i_TEQI_def i_TNEI_def

lemma alu_live:
  "list_all (\<lambda>(_, f). keeps_live f) special_table" "list_all (\<lambda>(_, f). keeps_live f) regimm_table"
  by (simp_all add: special_table_def regimm_table_def keeps_live_wrap alu_defs mul_div_defs trap_defs exceptions_live Let_def split_beta)

lemma tlb_instr_live:
  "live s \<Longrightarrow> live (i_TLBP s)" "live s \<Longrightarrow> live (i_TLBR s)" "live s \<Longrightarrow> live (update_random s)"
  "live s \<Longrightarrow> live (i_MFC0 op s)" "live s \<Longrightarrow> live (i_DMFC0 op s)" "live s \<Longrightarrow> live (mtc0_reg v r s)" "live s \<Longrightarrow> live (check_mi_interrupt s)"
  by (simp_all add: i_TLBP_def i_TLBR_def update_random_def i_MFC0_def i_DMFC0_def mtc0_reg_def check_mi_interrupt_def Let_def
      r4300_check_interrupt_live split: option.split)

lemma TLBWrite_live: "live s \<Longrightarrow> TLBWrite i s = Some s' \<Longrightarrow> live s'"
  by (auto simp: TLBWrite_def split: if_splits option.splits)

lemma tlb_write_keeps_live: "keeps_live (\<lambda>_. i_TLBWI)" "keeps_live (\<lambda>_. i_TLBWR)"
  using TLBWrite_live tlb_instr_live(3) by (fastforce simp: keeps_live_def i_TLBWI_def i_TLBWR_def Let_def split: if_splits)+

lemma with_cop_live:
  "(\<And>s. live s \<Longrightarrow> live (f s)) \<Longrightarrow> live s \<Longrightarrow> live (with_cop1 f s)" "(\<And>s. live s \<Longrightarrow> live (f s)) \<Longrightarrow> live s \<Longrightarrow> live (with_cop2 f s)"
  using exceptions_live(10,11) [of s] by (simp_all add: with_cop1_def with_cop2_def split_beta)

lemma unimplemented_op_live: "live s \<Longrightarrow> live (unimplemented_op s)"
  by (simp add: unimplemented_op_def Let_def)

lemma cop_moves_live:
  "live s \<Longrightarrow> live (i_MFC1 op s)" "live s \<Longrightarrow> live (i_DMFC1 op s)" "live s \<Longrightarrow> live (i_CFC1 op s)" "live s \<Longrightarrow> live (i_DCFC1 s)"
  "live s \<Longrightarrow> live (i_MTC1 op s)" "live s \<Longrightarrow> live (i_DMTC1 op s)" "live s \<Longrightarrow> live (i_CTC1 op s)" "live s \<Longrightarrow> live (i_DCTC1 s)"
  "live s \<Longrightarrow> live (i_MFC2 op s)" "live s \<Longrightarrow> live (i_DMFC2 op s)" "live s \<Longrightarrow> live (i_CFC2 op s)" "live s \<Longrightarrow> live (i_MTC2 op s)"
  "live s \<Longrightarrow> live (i_DMTC2 op s)" "live s \<Longrightarrow> live (i_CTC2 op s)"
  by (simp_all add: i_MFC1_def i_DMFC1_def i_CFC1_def i_DCFC1_def i_MTC1_def i_DMTC1_def i_CTC1_def i_DCTC1_def i_MFC2_def i_DMFC2_def
      i_CFC2_def i_MTC2_def i_DMTC2_def i_CTC2_def with_cop_live unimplemented_op_live)

text \<open>Every floating point instruction updates coprocessor 1 alone, after the check.\<close>

definition fpu_only :: "(u32 \<Rightarrow> 'a dev \<Rightarrow> 'a dev) \<Rightarrow> bool" where
  "fpu_only i \<longleftrightarrow> (\<forall>op. \<exists>f. i op = upd_cp1 f \<or> i op = with_cop1 (upd_cp1 f))"

lemma fpu_only_live: "fpu_only i \<Longrightarrow> keeps_live (plain i)"
  unfolding fpu_only_def by (rule keeps_live_wrap(1)) (metis instr_live_upd(13) with_cop_live(1))

lemmas fpu_s_defs = i_ADD_S_def i_SUB_S_def i_MUL_S_def i_DIV_S_def i_SQRT_S_def i_ABS_S_def i_MOV_S_def i_NEG_S_def
  i_ROUND_L_S_def i_TRUNC_L_S_def i_CEIL_L_S_def i_FLOOR_L_S_def i_ROUND_W_S_def i_TRUNC_W_S_def i_CEIL_W_S_def i_FLOOR_W_S_def
  i_CVT_D_S_def i_CVT_W_S_def i_CVT_L_S_def i_CVT_S_W_def i_CVT_S_L_def
  i_C_F_S_def i_C_UN_S_def i_C_EQ_S_def i_C_UEQ_S_def i_C_OLT_S_def i_C_ULT_S_def i_C_OLE_S_def i_C_ULE_S_def
  i_C_SF_S_def i_C_NGLE_S_def i_C_SEQ_S_def i_C_NGL_S_def i_C_LT_S_def i_C_NGE_S_def i_C_LE_S_def i_C_NGT_S_def

lemmas fpu_d_defs = i_ADD_D_def i_SUB_D_def i_MUL_D_def i_DIV_D_def i_SQRT_D_def i_ABS_D_def i_MOV_D_def i_NEG_D_def
  i_ROUND_L_D_def i_TRUNC_L_D_def i_CEIL_L_D_def i_FLOOR_L_D_def i_ROUND_W_D_def i_TRUNC_W_D_def i_CEIL_W_D_def i_FLOOR_W_D_def
  i_CVT_S_D_def i_CVT_W_D_def i_CVT_L_D_def i_CVT_D_W_def i_CVT_D_L_def
  i_C_F_D_def i_C_UN_D_def i_C_EQ_D_def i_C_UEQ_D_def i_C_OLT_D_def i_C_ULT_D_def i_C_OLE_D_def i_C_ULE_D_def
  i_C_SF_D_def i_C_NGLE_D_def i_C_SEQ_D_def i_C_NGL_D_def i_C_LT_D_def i_C_NGE_D_def i_C_LE_D_def i_C_NGT_D_def

lemma fpu_live:
  "list_all (\<lambda>(_, f). keeps_live f) (cop1_s_table h)" "list_all (\<lambda>(_, f). keeps_live f) (cop1_d_table h)"
  "keeps_live (plain (i_CVT_S_W h))" "keeps_live (plain (i_CVT_D_W h))" "keeps_live (plain (i_CVT_S_L h))" "keeps_live (plain (i_CVT_D_L h))"
  by (simp_all add: cop1_s_table_def cop1_d_table_def fpu_s_defs fpu_d_defs keeps_live_wrap with_cop_live)

context machine_ok
begin

lemma gen_live: "live s \<Longrightarrow> live (gen_interrupt (machine_env env) s)"
  by (rule ints.gen_interrupt_live)

lemma read_dword_live: "live s \<Longrightarrow> live (snd (snd (r4300_read_aligned_dword env a w old s)))"
  using physical_live [of s a 0]
  by (simp add: r4300_read_aligned_dword_def split_beta Let_def mem_read32_live split: option.split)

lemma write_dword_live: "live s \<Longrightarrow> live (snd (r4300_write_aligned_dword env (gen_interrupt (machine_env env)) a v m s))"
  using physical_live [of s a 1]
  by (simp add: r4300_write_aligned_dword_def split_beta Let_def mem_write32_live gen_live split: option.split)

lemma access_live:
  "live s \<Longrightarrow> live (load_word env op f s)" "live s \<Longrightarrow> live (load_dword env op a g s)"
  "live s \<Longrightarrow> live (snd (store_word env a v m s))" "live s \<Longrightarrow> live (snd (store_dword env a v64 m64 s))"
  using read_word_live [of "ADD_TO_PC 1 s"] read_dword_live [of "ADD_TO_PC 1 s"]
  by (simp_all add: load_word_def load_dword_def store_word_def store_dword_def split_beta Let_def write_word_live write_dword_live gen_live)

lemmas access_defs = i_LB_def i_LBU_def i_LH_def i_LHU_def i_LW_def i_LWU_def i_LWL_def i_LWR_def i_LD_def i_LDL_def i_LDR_def
  i_SB_def i_SH_def i_SW_def i_SWL_def i_SWR_def i_SD_def i_SDL_def i_SDR_def

lemma atomic_live: "live s \<Longrightarrow> live (i_LL env op s)" "live s \<Longrightarrow> live (i_SC env op s)"
  using read_word_live [of "ADD_TO_PC 1 s"] access_live(3) [of s]
  by (simp_all add: i_LL_def i_SC_def split_beta Let_def)

lemma cop1_access_live:
  "live s \<Longrightarrow> live (i_LWC1 env op s)" "live s \<Longrightarrow> live (i_LDC1 env op s)" "live s \<Longrightarrow> live (i_SWC1 env op s)" "live s \<Longrightarrow> live (i_SDC1 env op s)"
  by (simp_all add: i_LWC1_def i_LDC1_def i_SWC1_def i_SDC1_def)
    (rule with_cop_live(1), simp_all add: split_beta Let_def read_word_live read_dword_live access_live)+

lemma check_live: "live s \<Longrightarrow> live (check_cycle_count env s)" "live s \<Longrightarrow> live (unsafe_check env s)"
  by (simp_all add: check_cycle_count_def unsafe_check_def Let_def gen_live)

lemma mtc0_live:
  "live s \<Longrightarrow> live (mtc0_status env op s)" "live s \<Longrightarrow> live (mtc0_count env op s)" "live s \<Longrightarrow> live (mtc0_compare op s)"
proof -
  assume l: "live s"
  then show "live (mtc0_status env op s)"
    unfolding mtc0_status_def Let_def by (intro check_live tlb_instr_live) simp
  show "live (mtc0_count env op s)"
    using l unfolding mtc0_count_def Let_def by (intro translate_event_queue_live check_live) simp
  have "live (remove_event_s COMPARE_INT (cp0_update_count s))" using l by (intro remove_event_live) simp_all
  then show "live (mtc0_compare op s)" unfolding mtc0_compare_def Let_def by (simp add: add_compare_event_live)
qed

lemma cop0_moves_live: "live s \<Longrightarrow> live (i_MTC0 env op s)" "live s \<Longrightarrow> live (i_ERET env s)"
proof -
  assume l: "live s"
  then show "live (i_MTC0 env op s)" by (simp add: i_MTC0_def Let_def mtc0_live tlb_instr_live)
  let ?s = "cp0_update_count s"
  have "live (if cp0_regs ?s CP0_STATUS_REG AND CP0_STATUS_ERL \<noteq> 0 then ?s\<lparr>stop := 1\<rparr>
    else let s = set_cp0 CP0_STATUS_REG (cp0_regs ?s CP0_STATUS_REG AND NOT CP0_STATUS_EXL) ?s in generic_jump_to (cp0_regs s CP0_EPC_REG) s)"
    using l by (simp add: Let_def)
  then show "live (i_ERET env s)"
    unfolding i_ERET_def Let_def by (intro check_live cp0_live_upd(1) [THEN iffD2] tlb_instr_live instr_live_upd(8) [THEN iffD2])
qed

lemma cop0_live: "keeps_live (cop0_instr env)"
proof -
  have a: "keeps_live (switch (cop0_tlb_table env) (none_op i_NOP) x)" for x
    by (rule keeps_live_switch)
      (simp_all add: cop0_tlb_table_def keeps_live_wrap tlb_write_keeps_live tlb_instr_live cop0_moves_live exceptions_live)
  have b: "keeps_live (switch [(0, rt_dest i_MFC0), (1, rt_dest i_DMFC0), (4, plain (i_MTC0 env)), (5, plain (i_MTC0 env))]
      (none_op i_RESERVED) x)" for x
    by (rule keeps_live_switch) (simp_all add: keeps_live_wrap tlb_instr_live cop0_moves_live exceptions_live)
  show ?thesis
  proof (rule keeps_liveI)
    fix op and s s' :: "'a dev"
    assume "cop0_instr env op s = Some s'" "live s"
    then show "live s'"
      using keeps_liveD [OF a, of "FUNCT_OF op" op s s'] keeps_liveD [OF b, of "RS_OF op" op s s']
      by (cases "16 \<le> RS_OF op") (simp_all add: cop0_instr_def Let_def)
  qed
qed

lemma cop1_live: "keeps_live (cop1_instr env)"
proof (rule keeps_liveI)
  fix op and s s' :: "'a dev"
  let ?r = "none_op i_RESERVED :: 'a instr" and ?h = "m_fpu env"
  have r: "keeps_live ?r" by (simp add: keeps_live_wrap exceptions_live)
  have s: "keeps_live (switch (cop1_s_table ?h) ?r x)" "keeps_live (switch (cop1_d_table ?h) ?r x)"
    "keeps_live (switch [(32, plain (i_CVT_S_W ?h)), (33, plain (i_CVT_D_W ?h))] ?r x)"
    "keeps_live (switch [(32, plain (i_CVT_S_L ?h)), (33, plain (i_CVT_D_L ?h))] ?r x)" for x
    by (rule keeps_live_switch; simp add: fpu_live r)+
  assume c: "cop1_instr env op s = Some s'" and l: "live s"
  from c [unfolded cop1_instr_def Let_def] show "live s'"
    by (rule keeps_live_switchD) (simp_all add: keeps_live_wrap cop_moves_live s r l)
qed

lemma cop2_live: "keeps_live (cop2_instr :: 'a instr)"
proof (rule keeps_liveI)
  fix op and s s' :: "'a dev"
  assume c: "cop2_instr op s = Some s'" and l: "live s"
  from c [unfolded cop2_instr_def] show "live s'"
    by (rule keeps_live_switchD) (simp_all add: keeps_live_wrap cop_moves_live exceptions_live l)
qed

lemma exec_live: "exec_instruction env op s = Some s' \<Longrightarrow> live s \<Longrightarrow> live s'"
proof -
  have r: "keeps_live (none_op i_RESERVED :: 'a instr)" by (simp add: keeps_live_wrap exceptions_live)
  have sw: "keeps_live (\<lambda>op. switch special_table (none_op i_RESERVED) (FUNCT_OF op) op :: 'a dev \<Rightarrow> 'a dev option)"
      "keeps_live (\<lambda>op. switch regimm_table (none_op i_RESERVED) (RT_OF op) op :: 'a dev \<Rightarrow> 'a dev option)"
    using keeps_live_switch [OF alu_live(1) r] keeps_live_switch [OF alu_live(2) r] unfolding keeps_live_def by blast+
  have "list_all (\<lambda>(_, f). keeps_live f) (opcode_table env)"
    by (simp add: opcode_table_def sw cop0_live cop1_live cop2_live keeps_live_wrap alu_defs access_defs Let_def access_live atomic_live
        cop1_access_live exceptions_live)
  from keeps_live_switch [OF this r] show "exec_instruction env op s = Some s' \<Longrightarrow> live s \<Longrightarrow> live s'"
    unfolding exec_instruction_def by (rule keeps_liveD)
qed

lemma fetch_live: "live s \<Longrightarrow> live (snd (fast_mem_access env a s))"
  using physical_live [of s a 2]
  by (simp add: fast_mem_access_def mem_base_u32_def rom_word_def split_beta Let_def split: option.split)

lemma idle_live: "live s \<Longrightarrow> live (snd (is_idle env k op s))"
proof -
  have "live s \<Longrightarrow> live (snd (next_is_nop env a s))" for a and s :: "'a dev"
    using fetch_live [of s a] by (simp add: next_is_nop_def split_beta split: option.split)
  then show "live s \<Longrightarrow> live (snd (is_idle env k op s))"
    by (simp add: is_idle_def IS_RELATIVE_IDLE_LOOP_def IS_ABSOLUTE_IDLE_LOOP_def split: idle_check.split)
qed

lemma jump_parts_live:
  "live s \<Longrightarrow> live (snd (jump_guard j s))" "live s \<Longrightarrow> live (jump_link j s)" "live s \<Longrightarrow> live (enter_delay_slot s)"
  "live s \<Longrightarrow> live (leave_delay_slot j s)" "live s \<Longrightarrow> live (skip_delay_slot s)" "live s \<Longrightarrow> live (idle_wait j s)"
  "live s \<Longrightarrow> live (finish_jump env s)"
  by (simp_all add: jump_guard_def exceptions_live jump_link_def enter_delay_slot_def leave_delay_slot_def skip_delay_slot_def
      idle_wait_def finish_jump_def check_live Let_def)

lemma begin_jump_live:
  assumes "live s"
  shows "begin_jump env k mk op s = Inl s' \<Longrightarrow> live s'" "begin_jump env k mk op s = Inr (j, s') \<Longrightarrow> live s'"
proof -
  define s1 where "s1 = snd (is_idle env k op s)"
  have l1: "live s1" using idle_live [OF assms] by (simp add: s1_def)
  note g = jump_parts_live(1) [OF l1]
  note w = jump_parts_live(6) [OF g]
  have f: "live (snd (jump_guard j (idle_wait i (snd (jump_guard i s1)))))" for i j by (rule jump_parts_live(1) [OF w])
  show "begin_jump env k mk op s = Inl s' \<Longrightarrow> live s'" "begin_jump env k mk op s = Inr (j, s') \<Longrightarrow> live s'"
    using g f by (auto simp: begin_jump_def Let_def split_beta s1_def [symmetric] jump_parts_live(2) split: if_splits)
qed

lemma interpret_live:
  assumes "InterpretOpcode env s = Some s'" "live s"
  shows "live s'"
proof -
  have "live s \<longrightarrow> live s'"
  proof (rule InterpretOpcode.raw_induct [where P = "\<lambda>e s s'. e = env \<longrightarrow> live s \<longrightarrow> live s'", THEN mp, OF _ assms(1) refl])
    fix f :: "'a dev machine \<Rightarrow> 'a dev \<Rightarrow> 'a dev option" and e and s r :: "'a dev"
    assume IH: "\<And>e s r. f e s = Some r \<Longrightarrow> e = env \<longrightarrow> live s \<longrightarrow> live r"
      and eq: "(case fast_mem_access e (pc_addr s) s of (None, s) \<Rightarrow> Some s
        | (Some op, s) \<Rightarrow> (case decode_jump op of None \<Rightarrow> exec_instruction e op s
            | Some (k, mk) \<Rightarrow> (case begin_jump e k mk op s of Inl s \<Rightarrow> Some s
              | Inr (j, s) \<Rightarrow> if \<not> j_likely j \<or> j_take j
                  then Option.bind (f e (enter_delay_slot s)) (\<lambda>s. Some (finish_jump e (leave_delay_slot j s)))
                  else Some (finish_jump e (skip_delay_slot s))))) = Some r"
    show "e = env \<longrightarrow> live s \<longrightarrow> live r"
    proof (intro impI)
      assume e: "e = env" and l: "live s"
      obtain w t where ft: "fast_mem_access env (pc_addr s) s = (w, t)" by force
      have lt: "live t" using fetch_live [OF l, of "pc_addr s"] by (simp add: ft)
      show "live r"
      proof (cases w)
        case None
        then show ?thesis using eq e ft lt by simp
      next
        case (Some op)
        show ?thesis
        proof (cases "decode_jump op :: (idle_check \<times> (u32 \<Rightarrow> 'a dev \<Rightarrow> jump)) option")
          case None
          then show ?thesis using eq e ft lt Some exec_live by simp
        next
          case (Some d)
          obtain k mk where d: "d = (k, mk)" by force
          show ?thesis
          proof (cases "begin_jump env k mk op t")
            case (Inl u)
            then show ?thesis using eq e ft Some d \<open>w = Some op\<close> begin_jump_live(1) [OF lt] by simp
          next
            case (Inr ju)
            obtain j u where ju: "ju = (j, u)" by force
            have lu: "live u" using begin_jump_live(2) [OF lt] Inr ju by simp
            have slot: "live v" if "f env (enter_delay_slot u) = Some v" for v
              using IH [OF that] jump_parts_live(3) [OF lu] by simp
            show ?thesis
              using eq e ft Some d \<open>w = Some op\<close> Inr ju lu slot
              by (auto simp: jump_parts_live bind_eq_Some_conv split: if_splits)
          qed
        qed
      qed
    qed
  qed
  then show ?thesis using assms(2) by simp
qed

end

section \<open>Runs of the machine\<close>

text \<open>
  What the processor and the front end do to the machine: the interpretation of an instruction, with its delay
  slot when it is a jump; single memory accesses; the interrupt check and the reset, stop and interrupt operations
  of \<^verbatim>\<open>device.c\<close> and \<^verbatim>\<open>interrupt.c\<close>.
\<close>

inductive machine_step :: "'a dev machine \<Rightarrow> 'a dev \<Rightarrow> 'a dev \<Rightarrow> bool" for env where
  step_read: "machine_step env s (snd (snd (r4300_read_aligned_word env a old s)))"
| step_read_dword: "machine_step env s (snd (snd (r4300_read_aligned_dword env a w old64 s)))"
| step_write: "machine_step env s (snd (dev_write_word env a v m s))"
| step_write_dword: "machine_step env s (snd (r4300_write_aligned_dword env (gen_interrupt (machine_env env)) a v64 m64 s))"
| step_gen_interrupt: "machine_step env s (gen_interrupt (machine_env env) s)"
| step_raise: "machine_step env s (raise_maskable_interrupt ip s)"
| step_check: "machine_step env s (r4300_check_interrupt ip b s)"
| step_compare: "machine_step env s (add_compare_event c s)"
| step_soft_reset: "machine_step env s (soft_reset_device s)"
| step_hard_reset: "machine_step env s (hard_reset_device s)"
| step_stop: "machine_step env s (stop_device s)"
| step_instruction: "InterpretOpcode env s = Some s' \<Longrightarrow> machine_step env s s'"

inductive_cases machine_stepE: "machine_step env s s'"

context machine_ok
begin

lemma machine_step_live: "machine_step env s s' \<Longrightarrow> live s \<Longrightarrow> live s'"
proof (induction rule: machine_step.induct)
  case (step_hard_reset s)
  then show ?case by (simp add: hard_reset_device_def live_def)
next
  case (step_stop s)
  then show ?case by (simp add: stop_device_def live_def)
next
  case (step_instruction s s')
  then show ?case using interpret_live by blast
qed (simp_all add: read_word_live read_dword_live dev_write_word_def write_word_live gen_live write_dword_live
      r4300_check_interrupt_live add_compare_event_live soft_reset_device_def add_interrupt_event_live)

lemma run_live: "(machine_step env)\<^sup>*\<^sup>* s s' \<Longrightarrow> live s \<Longrightarrow> live s'"
  by (induction rule: rtranclp_induct) (auto intro: machine_step_live)

end

lemma live_bounds: "live s \<Longrightarrow> first (cp0_q s) \<noteq> None" "live s \<Longrightarrow> length (pending s) \<le> 16"
proof -
  assume l: "live s"
  show "first (cp0_q s) \<noteq> None" using live_first [OF l] by auto
  show "length (pending s) \<le> 16"
    using l iq.within [of "cp0_q s"] by (simp add: live_def INTERRUPT_NODES_POOL_CAPACITY_def)
qed

text \<open>
  C2. However the processor, the front end and the devices interact after the machine is powered on
  (any sequence of instructions of the interpreter, memory reads and writes, with all the DMA, interrupts and plugin
  calls they cause, interrupt dispatch, timer programming and resets), the interrupt queue stays a well-formed list of at most sixteen
  events with the special event among them: the dispatcher never finds it empty and the counter
  comparison it relies on is never left without a reference. The hypothesis on the connections is that
  plugins, cartridge add-ons and save states leave the queue usable when they find it so.
\<close>

theorem machine_never_loses_special_event:
  assumes "machine_ok env" and "length (nodes (q_pool (cp0_q s0))) = 16"
    and "(machine_step env)\<^sup>*\<^sup>* (poweron_device env s0) s"
  shows "wf_queue (cp0_q s) \<and> SPECIAL_INT \<in> fst ` set (pending s) \<and> first (cp0_q s) \<noteq> None \<and> length (pending s) \<le> 16"
proof -
  have "live (poweron_device env s0)" by (rule machine_ok.poweron_device_live [OF assms(1,2)])
  then have "live s" by (rule machine_ok.run_live [OF assms(1,3)])
  then show ?thesis using live_bounds [of s] by (simp add: live_def)
qed

theorem machine_never_loses_special_event_witness:
  "SPECIAL_INT \<in> fst ` set (pending (gen_interrupt (machine_env dummy_machine)
     (snd (dev_write_word dummy_machine 0xa4400018 0x20c 0xFFFFFFFF (poweron_device dummy_machine sample_is)))))"
proof -
  let ?s = "poweron_device dummy_machine sample_is"
  have "(machine_step dummy_machine)\<^sup>*\<^sup>* ?s (gen_interrupt (machine_env dummy_machine)
     (snd (dev_write_word dummy_machine 0xa4400018 0x20c 0xFFFFFFFF ?s)))"
    by (rule rtranclp.rtrancl_into_rtrancl, rule r_into_rtranclp, rule step_write, rule step_gen_interrupt)
  from machine_never_loses_special_event [OF dummy.machine_ok_axioms sample_is_pool this]
  show ?thesis by simp
qed

section \<open>Main memory seen by the processor\<close>

text \<open>
  C22. The two directly mapped segments are the same memory: a word the processor writes at an address of
  KSEG0 or KSEG1 that the memory map sends to RDRAM is read back, under the write's mask, from every
  address of either segment with the same physical word, and a read of another RDRAM word does not change.
\<close>

theorem kseg_read_after_write:
  assumes "a AND 0xc0000000 = 0x80000000" "b AND 0xc0000000 = 0x80000000"
    and "dram_size s \<le> 0x1000000" "unat (a AND 0x1ffffffc) < dram_size s" "unat (b AND 0x1ffffffc) < dram_size s"
    and "mem_get_handler (a AND 0x1ffffffc) s = H_rdram_dram" "mem_get_handler (b AND 0x1ffffffc) s = H_rdram_dram"
  shows "r4300_read_aligned_word env b old (snd (r4300_write_aligned_word env gen a v m s)) =
    (True, if a AND 0x1ffffffc = b AND 0x1ffffffc then masked_write (read_rdram_dram (b AND 0x1ffffffc) s) v m
           else read_rdram_dram (b AND 0x1ffffffc) s,
     write_rdram_dram (a AND 0x1ffffffc) v m s)"
proof -
  let ?a = "a AND 0x1ffffffc" and ?b = "b AND 0x1ffffffc"
  have e: "?a = ?b \<longleftrightarrow> unat ?a div 4 = unat ?b div 4"
    using word_aligned_div [of a] word_aligned_div [of b] by (metis word_unat_eq_iff)
  have w: "snd (r4300_write_aligned_word env gen a v m s) = write_rdram_dram ?a v m s"
    using assms by (simp add: r4300_write_aligned_word_def physical_direct mem_write32_def)
  have r: "mem_read32 env H_rdram_dram ?b t = (Some (read_rdram_dram ?b t), t)" for t by (simp add: mem_read32_def)
  show ?thesis
    using assms rdram_read_law [of s ?a ?b v m]
    by (simp add: w r4300_read_aligned_word_def physical_direct r e)
qed

theorem kseg_read_after_write_witness:
  "\<exists>s'. r4300_read_aligned_word dummy_machine 0xa0000100 0 (snd (dev_write_word dummy_machine 0x80000100 0xDEADBEEF 0xFFFF0000 sample_is)) =
     (True, masked_write (read_rdram_dram 0x100 sample_is) 0xDEADBEEF 0xFFFF0000, s')"
proof -
  note sample_is_chain(2,3)
  then show ?thesis
    using kseg_read_after_write [of "0x80000100" "0xa0000100" sample_is dummy_machine 0 "gen_interrupt (machine_env dummy_machine)"
        "0xDEADBEEF" "0xFFFF0000"]
    by (simp add: dev_write_word_def mem_get_handler_def)
qed

lemma set_cp0_cpu [simp]:
  "pc_addr (set_cp0 r v s) = pc_addr s" "delay_slot (set_cp0 r v s) = delay_slot s" "in_delay_slot (set_cp0 r v s) = in_delay_slot s"
  "skip_jump (set_cp0 r v s) = skip_jump s"
  by (simp_all add: set_cp0_def in_delay_slot_def)

lemma set_cp0_dram [simp]: "dram (set_cp0 r v s) = dram s"
  by (simp add: set_cp0_def)

lemma update_count_frame [simp]:
  "pc_addr (cp0_update_count s) = pc_addr s" "delay_slot (cp0_update_count s) = delay_slot s"
  "cp0_q (cp0_update_count s) = cp0_q s" "r \<noteq> CP0_COUNT_REG \<Longrightarrow> cp0_regs (cp0_update_count s) r = cp0_regs s r"
  by (simp_all add: cp0_update_count_def Let_def)

lemma update_count_dram [simp]: "dram (cp0_update_count s) = dram s"
  by (simp add: cp0_update_count_def Let_def)

lemma epilog_frame [simp]:
  "cp0_regs (exception_epilog s) = cp0_regs s" "cp0_q (exception_epilog s) = cp0_q s"
  "pc_addr (exception_epilog s) = pc_addr s"
  by (simp_all add: exception_epilog_def)

lemma epilog_dram [simp]: "dram (exception_epilog s) = dram s" "dram (generic_jump_to x s) = dram s"
  by (simp_all add: exception_epilog_def generic_jump_to_def)

lemma jump_frame [simp]:
  "cp0_regs (generic_jump_to x s) = cp0_regs s" "cp0_q (generic_jump_to x s) = cp0_q s" "pc_addr (generic_jump_to x s) = x"
  "in_delay_slot (generic_jump_to x s) = in_delay_slot s"
  by (simp_all add: generic_jump_to_def in_delay_slot_def)

lemma refill_facts:
  "dram (TLB_refill_exception a 1 s) = dram s" "cp0_q (TLB_refill_exception a 1 s) = cp0_q s"
  "cp0_regs (TLB_refill_exception a 1 s) CP0_BADVADDR_REG = a"
  "cp0_regs (TLB_refill_exception a 1 s) CP0_ENTRYHI_REG = a AND 0xFFFFE000"
  "cp0_regs (TLB_refill_exception a 1 s) CP0_STATUS_REG = cp0_regs s CP0_STATUS_REG OR CP0_STATUS_EXL"
  "cp0_regs (TLB_refill_exception a 1 s) CP0_CAUSE_REG AND 0x7c = CP0_CAUSE_EXCCODE_TLBS"
  "pc_addr (TLB_refill_exception a 1 s) \<in> {0x80000000, 0x80000180}"
proof -
  have exl: "x AND 2 \<noteq> 0 \<Longrightarrow> x OR 2 = x" for x :: u32
  proof (rule bit_eqI)
    fix n assume "x AND 2 \<noteq> 0"
    then have "bit x 1" using and_exp_eq_0_iff_not_bit [of x 1] by simp
    then show "bit (x OR 2) n = bit x n" using bit_exp_iff [of 1 n, where 'a = u32] by (auto simp: bit_or_iff)
  qed
  show "cp0_regs (TLB_refill_exception a 1 s) CP0_STATUS_REG = cp0_regs s CP0_STATUS_REG OR CP0_STATUS_EXL"
    by (simp add: TLB_refill_exception_def Let_def exl)
qed (simp_all add: TLB_refill_exception_def Let_def)

text \<open>
  C23. A store through a page that is not mapped (or not dirty) fails: memory is untouched, the
  address is recorded in \<^verbatim>\<open>BADVADDR\<close> and \<^verbatim>\<open>ENTRYHI\<close>, the cause is a TLB store miss, exceptions are
  masked by \<^verbatim>\<open>EXL\<close> and execution continues at one of the two refill vectors.
\<close>

theorem unmapped_store_refills:
  assumes "lut_translate (cp0_tlb s) a 1 = None" "a AND 0xc0000000 \<noteq> 0x80000000"
  shows "\<exists>s'. r4300_write_aligned_word env gen a v m s = (False, s') \<and> dram s' = dram s \<and> cp0_q s' = cp0_q s \<and>
    cp0_regs s' CP0_BADVADDR_REG = a \<and> cp0_regs s' CP0_ENTRYHI_REG = a AND 0xFFFFE000 \<and>
    cp0_regs s' CP0_STATUS_REG = cp0_regs s CP0_STATUS_REG OR CP0_STATUS_EXL \<and>
    cp0_regs s' CP0_CAUSE_REG AND 0x7c = CP0_CAUSE_EXCCODE_TLBS \<and> pc_addr s' \<in> {0x80000000, 0x80000180}"
proof -
  have "r4300_write_aligned_word env gen a v m s = (False, TLB_refill_exception a 1 s)"
    using assms by (simp add: r4300_write_aligned_word_def physical_def virtual_to_physical_address_def)
  then show ?thesis using refill_facts [of a s] by blast
qed

theorem unmapped_store_refills_witness:
  "\<exists>s'. r4300_write_aligned_word dummy_machine set_fault 0x3000 7 0xFFFFFFFF sample_is = (False, s') \<and>
     dram s' = dram sample_is \<and> cp0_regs s' CP0_BADVADDR_REG = 0x3000"
proof -
  have "lut_translate (cp0_tlb sample_is) 0x3000 1 = None" by (simp add: sample_is_tlb lut_translate_def sample_tlb_def)
  from unmapped_store_refills [OF this, of dummy_machine set_fault 7 "0xFFFFFFFF"] show ?thesis by auto
qed

lemma fresh_queue:
  assumes "live s"
  shows "set (pending (init_interrupt s)) = {(SPECIAL_INT, 0x80000000), (COMPARE_INT, 0)}"
    "queue_ok (init_interrupt s)" "length (pending (init_interrupt s)) < 16"
proof -
  have n: "length (nodes (q_pool (cp0_q s))) = 16" using assms by (simp add: live_def wf_queue_nodes)
  note i = init_interrupt_inv [OF n]
  show "set (pending (init_interrupt s)) = {(SPECIAL_INT, 0x80000000), (COMPARE_INT, 0)}" by (rule i(3))
  show "queue_ok (init_interrupt s)" using i(1) by (simp add: event_inv_def)
  let ?s = "s\<lparr>cp0_q := clear_queue (cp0_q s)\<rparr>"
  have e: "queue_ok ?s" "pending ?s = []" using clear_queue_wf [OF n] by (simp_all add: queue_ok_def)
  note 1 = add_event_ok [OF e(1), of SPECIAL_INT "0x80000000", simplified e(2), simplified]
  show "length (pending (init_interrupt s)) < 16"
    using 1 add_event_ok(3) [OF 1(1), of COMPARE_INT 0, simplified 1(3), simplified] by (simp add: init_interrupt_def)
qed

lemma add_event_frame [simp]:
  "cp0_regs (add_interrupt_event t d s) = cp0_regs s"
  "cp0_regs (init_interrupt s) = cp0_regs s" "last_addr (init_interrupt s) = last_addr s"
  by (simp_all add: add_interrupt_event_def init_interrupt_def add_interrupt_event_count_def set_fault_def split: option.split)

lemma init_interrupt_start [simp]: "start_address (init_interrupt s) = start_address s"
  by (simp add: init_interrupt_def add_interrupt_event_count_def set_fault_def split: option.split)

lemma add_event_vi_frame [simp]: "vi_delay (add_interrupt_event t d s) = vi_delay s"
  by (simp add: add_interrupt_event_def add_interrupt_event_count_def set_fault_def split: option.split)

lemma set_ai_frame [simp]:
  "cp0_regs (set_ai r v s) = cp0_regs s" "vi_delay (set_ai r v s) = vi_delay s" "cp0_q (set_ai r v s) = cp0_q s"
  "ai_regs (set_ai r v s) = (ai_regs s)(r := v)"
  by (simp_all add: set_ai_def)

lemma set_cp0_dev_frame [simp]:
  "vi_delay (set_cp0 r v s) = vi_delay s" "vi_delay (generic_jump_to x s) = vi_delay s"
  by (simp_all add: set_cp0_def generic_jump_to_def)

lemma set_cp0_ai_frame [simp]:
  "ai_regs (set_cp0 r v s) = ai_regs s" "ai_regs (generic_jump_to x s) = ai_regs s"
  by (simp_all add: set_cp0_def generic_jump_to_def)

lemma generic_jump_simps [simp]:
  "start_address (generic_jump_to x s) = start_address s" "delay_slot (generic_jump_to x s) = delay_slot s"
  "last_addr (generic_jump_to x s) = last_addr s"
  by (simp_all add: generic_jump_to_def)

text \<open>
  Both resets restart the machine with a fresh queue: after a soft reset (NMI) the count register is 0
  and exactly the special, timer and vertical interrupt events are pending, after a hard reset
  exactly the first two; the processor continues at the start address outside any delay slot.
\<close>

theorem resets_restart_events:
  assumes "machine_ok env" "live s"
  shows "(let s' = nmi_int_handler env s in
           set (pending s') = {(SPECIAL_INT, 0x80000000), (COMPARE_INT, 0), (VI_INT, vi_delay s')} \<and>
           count_reg s' = 0 \<and> ai_regs s' AI_STATUS_REG = 0 \<and> delay_slot s' = 0 \<and>
           pc_addr s' = start_address s' \<and> last_addr s' = start_address s') \<and>
         (let s' = reset_hard_handler env s in
           set (pending s') = {(SPECIAL_INT, 0x80000000), (COMPARE_INT, 0)} \<and> pc_addr s' = start_address s' \<and>
           last_addr s' = start_address s')"
proof
  let ?b = "set_cp0 CP0_COUNT_REG 0 (pif_bootrom_hle_execute env (set_cp0 CP0_CAUSE_REG 0 (set_cp0 CP0_STATUS_REG
      ((cp0_regs (reset_pif 1 s) CP0_STATUS_REG AND NOT (CP0_STATUS_SR OR CP0_STATUS_TS OR 0x00080000))
        OR (CP0_STATUS_ERL OR CP0_STATUS_BEV OR CP0_STATUS_SR)) (reset_pif 1 s))))\<lparr>gs_vi_counter := 0\<rparr>"
  have "live ?b" using assms(2) by (simp add: machine_ok.boot_live [OF assms(1)] reset_pif_live)
  note f = fresh_queue [OF this]
  let ?t = "init_interrupt ?b"
  have "pending (add_interrupt_event VI_INT (vi_delay ?t) ?t) =
      ins_event (before_at (event_base ?t) (vi_delay ?t)) (VI_INT, vi_delay ?t) (pending ?t)"
    using add_event_ok(3) [OF f(2,3), of VI_INT "vi_delay ?t"] by (simp add: add_interrupt_event_def)
  then show "let s' = nmi_int_handler env s in
           set (pending s') = {(SPECIAL_INT, 0x80000000), (COMPARE_INT, 0), (VI_INT, vi_delay s')} \<and>
           count_reg s' = 0 \<and> ai_regs s' AI_STATUS_REG = 0 \<and> delay_slot s' = 0 \<and>
           pc_addr s' = start_address s' \<and> last_addr s' = start_address s'"
    using f(1) unfolding nmi_int_handler_def Let_def by (simp add: insert_commute)
next
  let ?p = "pif_bootrom_hle_execute env (poweron_device env s)"
  have h: "live (?p\<lparr>last_addr := start_address ?p, next_interrupt := 624999, cycle_count := 0\<rparr>)"
    using assms(2) by (simp add: machine_ok.boot_live [OF assms(1)] machine_ok.poweron_live [OF assms(1)])
  show "let s' = reset_hard_handler env s in
           set (pending s') = {(SPECIAL_INT, 0x80000000), (COMPARE_INT, 0)} \<and> pc_addr s' = start_address s' \<and>
           last_addr s' = start_address s'"
    using fresh_queue(1) [OF h] unfolding reset_hard_handler_def Let_def by simp
qed

theorem resets_restart_events_witness:
  "SPECIAL_INT \<in> fst ` set (pending (nmi_int_handler dummy_machine (poweron_device dummy_machine sample_is)))"
  using resets_restart_events [OF dummy.machine_ok_axioms dummy.poweron_device_live [OF sample_is_pool]]
  by (simp add: Let_def)

end
