(* ===== verification/Idec.thy ===== *)
theory Idec
  imports Prelude
begin

text \<open>
  The instruction decoder tables (\<^verbatim>\<open>src/src/device/r4300/idec.c\<close>, \<^verbatim>\<open>idec.h\<close>, \<^verbatim>\<open>opcodes.md\<close>): the decoder of an
  instruction word gives its opcode, the shape of its immediate and where its register fields are.
  An opcode is its position in the enumeration, which the code computes with: the idle and the out variant
  of a jump follow it. What \<^verbatim>\<open>idec_u53\<close> returns as an offset into the core is the register at that offset.
\<close>

section \<open>Opcodes\<close>

abbreviation (input) R4300_OP_RESERVED :: nat where "R4300_OP_RESERVED \<equiv> 0"
abbreviation (input) R4300_OP_ADD :: nat where "R4300_OP_ADD \<equiv> 1"
abbreviation (input) R4300_OP_ADDI :: nat where "R4300_OP_ADDI \<equiv> 2"
abbreviation (input) R4300_OP_ADDIU :: nat where "R4300_OP_ADDIU \<equiv> 3"
abbreviation (input) R4300_OP_ADDU :: nat where "R4300_OP_ADDU \<equiv> 4"
abbreviation (input) R4300_OP_AND :: nat where "R4300_OP_AND \<equiv> 5"
abbreviation (input) R4300_OP_ANDI :: nat where "R4300_OP_ANDI \<equiv> 6"
abbreviation (input) R4300_OP_BC0F :: nat where "R4300_OP_BC0F \<equiv> 7"
abbreviation (input) R4300_OP_BC0F_IDLE :: nat where "R4300_OP_BC0F_IDLE \<equiv> 8"
abbreviation (input) R4300_OP_BC0F_OUT :: nat where "R4300_OP_BC0F_OUT \<equiv> 9"
abbreviation (input) R4300_OP_BC0FL :: nat where "R4300_OP_BC0FL \<equiv> 10"
abbreviation (input) R4300_OP_BC0FL_IDLE :: nat where "R4300_OP_BC0FL_IDLE \<equiv> 11"
abbreviation (input) R4300_OP_BC0FL_OUT :: nat where "R4300_OP_BC0FL_OUT \<equiv> 12"
abbreviation (input) R4300_OP_BC0T :: nat where "R4300_OP_BC0T \<equiv> 13"
abbreviation (input) R4300_OP_BC0T_IDLE :: nat where "R4300_OP_BC0T_IDLE \<equiv> 14"
abbreviation (input) R4300_OP_BC0T_OUT :: nat where "R4300_OP_BC0T_OUT \<equiv> 15"
abbreviation (input) R4300_OP_BC0TL :: nat where "R4300_OP_BC0TL \<equiv> 16"
abbreviation (input) R4300_OP_BC0TL_IDLE :: nat where "R4300_OP_BC0TL_IDLE \<equiv> 17"
abbreviation (input) R4300_OP_BC0TL_OUT :: nat where "R4300_OP_BC0TL_OUT \<equiv> 18"
abbreviation (input) R4300_OP_BC1F :: nat where "R4300_OP_BC1F \<equiv> 19"
abbreviation (input) R4300_OP_BC1F_IDLE :: nat where "R4300_OP_BC1F_IDLE \<equiv> 20"
abbreviation (input) R4300_OP_BC1F_OUT :: nat where "R4300_OP_BC1F_OUT \<equiv> 21"
abbreviation (input) R4300_OP_BC1FL :: nat where "R4300_OP_BC1FL \<equiv> 22"
abbreviation (input) R4300_OP_BC1FL_IDLE :: nat where "R4300_OP_BC1FL_IDLE \<equiv> 23"
abbreviation (input) R4300_OP_BC1FL_OUT :: nat where "R4300_OP_BC1FL_OUT \<equiv> 24"
abbreviation (input) R4300_OP_BC1T :: nat where "R4300_OP_BC1T \<equiv> 25"
abbreviation (input) R4300_OP_BC1T_IDLE :: nat where "R4300_OP_BC1T_IDLE \<equiv> 26"
abbreviation (input) R4300_OP_BC1T_OUT :: nat where "R4300_OP_BC1T_OUT \<equiv> 27"
abbreviation (input) R4300_OP_BC1TL :: nat where "R4300_OP_BC1TL \<equiv> 28"
abbreviation (input) R4300_OP_BC1TL_IDLE :: nat where "R4300_OP_BC1TL_IDLE \<equiv> 29"
abbreviation (input) R4300_OP_BC1TL_OUT :: nat where "R4300_OP_BC1TL_OUT \<equiv> 30"
abbreviation (input) R4300_OP_BC2F :: nat where "R4300_OP_BC2F \<equiv> 31"
abbreviation (input) R4300_OP_BC2F_IDLE :: nat where "R4300_OP_BC2F_IDLE \<equiv> 32"
abbreviation (input) R4300_OP_BC2F_OUT :: nat where "R4300_OP_BC2F_OUT \<equiv> 33"
abbreviation (input) R4300_OP_BC2FL :: nat where "R4300_OP_BC2FL \<equiv> 34"
abbreviation (input) R4300_OP_BC2FL_IDLE :: nat where "R4300_OP_BC2FL_IDLE \<equiv> 35"
abbreviation (input) R4300_OP_BC2FL_OUT :: nat where "R4300_OP_BC2FL_OUT \<equiv> 36"
abbreviation (input) R4300_OP_BC2T :: nat where "R4300_OP_BC2T \<equiv> 37"
abbreviation (input) R4300_OP_BC2T_IDLE :: nat where "R4300_OP_BC2T_IDLE \<equiv> 38"
abbreviation (input) R4300_OP_BC2T_OUT :: nat where "R4300_OP_BC2T_OUT \<equiv> 39"
abbreviation (input) R4300_OP_BC2TL :: nat where "R4300_OP_BC2TL \<equiv> 40"
abbreviation (input) R4300_OP_BC2TL_IDLE :: nat where "R4300_OP_BC2TL_IDLE \<equiv> 41"
abbreviation (input) R4300_OP_BC2TL_OUT :: nat where "R4300_OP_BC2TL_OUT \<equiv> 42"
abbreviation (input) R4300_OP_BEQ :: nat where "R4300_OP_BEQ \<equiv> 43"
abbreviation (input) R4300_OP_BEQ_IDLE :: nat where "R4300_OP_BEQ_IDLE \<equiv> 44"
abbreviation (input) R4300_OP_BEQ_OUT :: nat where "R4300_OP_BEQ_OUT \<equiv> 45"
abbreviation (input) R4300_OP_BEQL :: nat where "R4300_OP_BEQL \<equiv> 46"
abbreviation (input) R4300_OP_BEQL_IDLE :: nat where "R4300_OP_BEQL_IDLE \<equiv> 47"
abbreviation (input) R4300_OP_BEQL_OUT :: nat where "R4300_OP_BEQL_OUT \<equiv> 48"
abbreviation (input) R4300_OP_BGEZ :: nat where "R4300_OP_BGEZ \<equiv> 49"
abbreviation (input) R4300_OP_BGEZ_IDLE :: nat where "R4300_OP_BGEZ_IDLE \<equiv> 50"
abbreviation (input) R4300_OP_BGEZ_OUT :: nat where "R4300_OP_BGEZ_OUT \<equiv> 51"
abbreviation (input) R4300_OP_BGEZAL :: nat where "R4300_OP_BGEZAL \<equiv> 52"
abbreviation (input) R4300_OP_BGEZAL_IDLE :: nat where "R4300_OP_BGEZAL_IDLE \<equiv> 53"
abbreviation (input) R4300_OP_BGEZAL_OUT :: nat where "R4300_OP_BGEZAL_OUT \<equiv> 54"
abbreviation (input) R4300_OP_BGEZALL :: nat where "R4300_OP_BGEZALL \<equiv> 55"
abbreviation (input) R4300_OP_BGEZALL_IDLE :: nat where "R4300_OP_BGEZALL_IDLE \<equiv> 56"
abbreviation (input) R4300_OP_BGEZALL_OUT :: nat where "R4300_OP_BGEZALL_OUT \<equiv> 57"
abbreviation (input) R4300_OP_BGEZL :: nat where "R4300_OP_BGEZL \<equiv> 58"
abbreviation (input) R4300_OP_BGEZL_IDLE :: nat where "R4300_OP_BGEZL_IDLE \<equiv> 59"
abbreviation (input) R4300_OP_BGEZL_OUT :: nat where "R4300_OP_BGEZL_OUT \<equiv> 60"
abbreviation (input) R4300_OP_BGTZ :: nat where "R4300_OP_BGTZ \<equiv> 61"
abbreviation (input) R4300_OP_BGTZ_IDLE :: nat where "R4300_OP_BGTZ_IDLE \<equiv> 62"
abbreviation (input) R4300_OP_BGTZ_OUT :: nat where "R4300_OP_BGTZ_OUT \<equiv> 63"
abbreviation (input) R4300_OP_BGTZL :: nat where "R4300_OP_BGTZL \<equiv> 64"
abbreviation (input) R4300_OP_BGTZL_IDLE :: nat where "R4300_OP_BGTZL_IDLE \<equiv> 65"
abbreviation (input) R4300_OP_BGTZL_OUT :: nat where "R4300_OP_BGTZL_OUT \<equiv> 66"
abbreviation (input) R4300_OP_BLEZ :: nat where "R4300_OP_BLEZ \<equiv> 67"
abbreviation (input) R4300_OP_BLEZ_IDLE :: nat where "R4300_OP_BLEZ_IDLE \<equiv> 68"
abbreviation (input) R4300_OP_BLEZ_OUT :: nat where "R4300_OP_BLEZ_OUT \<equiv> 69"
abbreviation (input) R4300_OP_BLEZL :: nat where "R4300_OP_BLEZL \<equiv> 70"
abbreviation (input) R4300_OP_BLEZL_IDLE :: nat where "R4300_OP_BLEZL_IDLE \<equiv> 71"
abbreviation (input) R4300_OP_BLEZL_OUT :: nat where "R4300_OP_BLEZL_OUT \<equiv> 72"
abbreviation (input) R4300_OP_BLTZ :: nat where "R4300_OP_BLTZ \<equiv> 73"
abbreviation (input) R4300_OP_BLTZ_IDLE :: nat where "R4300_OP_BLTZ_IDLE \<equiv> 74"
abbreviation (input) R4300_OP_BLTZ_OUT :: nat where "R4300_OP_BLTZ_OUT \<equiv> 75"
abbreviation (input) R4300_OP_BLTZAL :: nat where "R4300_OP_BLTZAL \<equiv> 76"
abbreviation (input) R4300_OP_BLTZAL_IDLE :: nat where "R4300_OP_BLTZAL_IDLE \<equiv> 77"
abbreviation (input) R4300_OP_BLTZAL_OUT :: nat where "R4300_OP_BLTZAL_OUT \<equiv> 78"
abbreviation (input) R4300_OP_BLTZALL :: nat where "R4300_OP_BLTZALL \<equiv> 79"
abbreviation (input) R4300_OP_BLTZALL_IDLE :: nat where "R4300_OP_BLTZALL_IDLE \<equiv> 80"
abbreviation (input) R4300_OP_BLTZALL_OUT :: nat where "R4300_OP_BLTZALL_OUT \<equiv> 81"
abbreviation (input) R4300_OP_BLTZL :: nat where "R4300_OP_BLTZL \<equiv> 82"
abbreviation (input) R4300_OP_BLTZL_IDLE :: nat where "R4300_OP_BLTZL_IDLE \<equiv> 83"
abbreviation (input) R4300_OP_BLTZL_OUT :: nat where "R4300_OP_BLTZL_OUT \<equiv> 84"
abbreviation (input) R4300_OP_BNE :: nat where "R4300_OP_BNE \<equiv> 85"
abbreviation (input) R4300_OP_BNE_IDLE :: nat where "R4300_OP_BNE_IDLE \<equiv> 86"
abbreviation (input) R4300_OP_BNE_OUT :: nat where "R4300_OP_BNE_OUT \<equiv> 87"
abbreviation (input) R4300_OP_BNEL :: nat where "R4300_OP_BNEL \<equiv> 88"
abbreviation (input) R4300_OP_BNEL_IDLE :: nat where "R4300_OP_BNEL_IDLE \<equiv> 89"
abbreviation (input) R4300_OP_BNEL_OUT :: nat where "R4300_OP_BNEL_OUT \<equiv> 90"
abbreviation (input) R4300_OP_BREAK :: nat where "R4300_OP_BREAK \<equiv> 91"
abbreviation (input) R4300_OP_CACHE :: nat where "R4300_OP_CACHE \<equiv> 92"
abbreviation (input) R4300_OP_CFC0 :: nat where "R4300_OP_CFC0 \<equiv> 93"
abbreviation (input) R4300_OP_CFC1 :: nat where "R4300_OP_CFC1 \<equiv> 94"
abbreviation (input) R4300_OP_DCFC1 :: nat where "R4300_OP_DCFC1 \<equiv> 95"
abbreviation (input) R4300_OP_CFC2 :: nat where "R4300_OP_CFC2 \<equiv> 96"
abbreviation (input) R4300_OP_DCFC2 :: nat where "R4300_OP_DCFC2 \<equiv> 97"
abbreviation (input) R4300_OP_CP1_ABS :: nat where "R4300_OP_CP1_ABS \<equiv> 98"
abbreviation (input) R4300_OP_CP1_ADD :: nat where "R4300_OP_CP1_ADD \<equiv> 99"
abbreviation (input) R4300_OP_CP1_CEIL_L :: nat where "R4300_OP_CP1_CEIL_L \<equiv> 100"
abbreviation (input) R4300_OP_CP1_CEIL_W :: nat where "R4300_OP_CP1_CEIL_W \<equiv> 101"
abbreviation (input) R4300_OP_CP1_C_EQ :: nat where "R4300_OP_CP1_C_EQ \<equiv> 102"
abbreviation (input) R4300_OP_CP1_C_F :: nat where "R4300_OP_CP1_C_F \<equiv> 103"
abbreviation (input) R4300_OP_CP1_C_LE :: nat where "R4300_OP_CP1_C_LE \<equiv> 104"
abbreviation (input) R4300_OP_CP1_C_LT :: nat where "R4300_OP_CP1_C_LT \<equiv> 105"
abbreviation (input) R4300_OP_CP1_C_NGE :: nat where "R4300_OP_CP1_C_NGE \<equiv> 106"
abbreviation (input) R4300_OP_CP1_C_NGL :: nat where "R4300_OP_CP1_C_NGL \<equiv> 107"
abbreviation (input) R4300_OP_CP1_C_NGLE :: nat where "R4300_OP_CP1_C_NGLE \<equiv> 108"
abbreviation (input) R4300_OP_CP1_C_NGT :: nat where "R4300_OP_CP1_C_NGT \<equiv> 109"
abbreviation (input) R4300_OP_CP1_C_OLE :: nat where "R4300_OP_CP1_C_OLE \<equiv> 110"
abbreviation (input) R4300_OP_CP1_C_OLT :: nat where "R4300_OP_CP1_C_OLT \<equiv> 111"
abbreviation (input) R4300_OP_CP1_C_SEQ :: nat where "R4300_OP_CP1_C_SEQ \<equiv> 112"
abbreviation (input) R4300_OP_CP1_C_SF :: nat where "R4300_OP_CP1_C_SF \<equiv> 113"
abbreviation (input) R4300_OP_CP1_C_UEQ :: nat where "R4300_OP_CP1_C_UEQ \<equiv> 114"
abbreviation (input) R4300_OP_CP1_C_ULE :: nat where "R4300_OP_CP1_C_ULE \<equiv> 115"
abbreviation (input) R4300_OP_CP1_C_ULT :: nat where "R4300_OP_CP1_C_ULT \<equiv> 116"
abbreviation (input) R4300_OP_CP1_C_UN :: nat where "R4300_OP_CP1_C_UN \<equiv> 117"
abbreviation (input) R4300_OP_CP1_CVT_D :: nat where "R4300_OP_CP1_CVT_D \<equiv> 118"
abbreviation (input) R4300_OP_CP1_CVT_L :: nat where "R4300_OP_CP1_CVT_L \<equiv> 119"
abbreviation (input) R4300_OP_CP1_CVT_S :: nat where "R4300_OP_CP1_CVT_S \<equiv> 120"
abbreviation (input) R4300_OP_CP1_CVT_W :: nat where "R4300_OP_CP1_CVT_W \<equiv> 121"
abbreviation (input) R4300_OP_CP1_DIV :: nat where "R4300_OP_CP1_DIV \<equiv> 122"
abbreviation (input) R4300_OP_CP1_FLOOR_L :: nat where "R4300_OP_CP1_FLOOR_L \<equiv> 123"
abbreviation (input) R4300_OP_CP1_FLOOR_W :: nat where "R4300_OP_CP1_FLOOR_W \<equiv> 124"
abbreviation (input) R4300_OP_CP1_MOV :: nat where "R4300_OP_CP1_MOV \<equiv> 125"
abbreviation (input) R4300_OP_CP1_MUL :: nat where "R4300_OP_CP1_MUL \<equiv> 126"
abbreviation (input) R4300_OP_CP1_NEG :: nat where "R4300_OP_CP1_NEG \<equiv> 127"
abbreviation (input) R4300_OP_CP1_ROUND_L :: nat where "R4300_OP_CP1_ROUND_L \<equiv> 128"
abbreviation (input) R4300_OP_CP1_ROUND_W :: nat where "R4300_OP_CP1_ROUND_W \<equiv> 129"
abbreviation (input) R4300_OP_CP1_SQRT :: nat where "R4300_OP_CP1_SQRT \<equiv> 130"
abbreviation (input) R4300_OP_CP1_SUB :: nat where "R4300_OP_CP1_SUB \<equiv> 131"
abbreviation (input) R4300_OP_CP1_TRUNC_L :: nat where "R4300_OP_CP1_TRUNC_L \<equiv> 132"
abbreviation (input) R4300_OP_CP1_TRUNC_W :: nat where "R4300_OP_CP1_TRUNC_W \<equiv> 133"
abbreviation (input) R4300_OP_CTC0 :: nat where "R4300_OP_CTC0 \<equiv> 134"
abbreviation (input) R4300_OP_CTC1 :: nat where "R4300_OP_CTC1 \<equiv> 135"
abbreviation (input) R4300_OP_DCTC1 :: nat where "R4300_OP_DCTC1 \<equiv> 136"
abbreviation (input) R4300_OP_CTC2 :: nat where "R4300_OP_CTC2 \<equiv> 137"
abbreviation (input) R4300_OP_DCTC2 :: nat where "R4300_OP_DCTC2 \<equiv> 138"
abbreviation (input) R4300_OP_DADD :: nat where "R4300_OP_DADD \<equiv> 139"
abbreviation (input) R4300_OP_DADDI :: nat where "R4300_OP_DADDI \<equiv> 140"
abbreviation (input) R4300_OP_DADDIU :: nat where "R4300_OP_DADDIU \<equiv> 141"
abbreviation (input) R4300_OP_DADDU :: nat where "R4300_OP_DADDU \<equiv> 142"
abbreviation (input) R4300_OP_DDIV :: nat where "R4300_OP_DDIV \<equiv> 143"
abbreviation (input) R4300_OP_DDIVU :: nat where "R4300_OP_DDIVU \<equiv> 144"
abbreviation (input) R4300_OP_DIV :: nat where "R4300_OP_DIV \<equiv> 145"
abbreviation (input) R4300_OP_DIVU :: nat where "R4300_OP_DIVU \<equiv> 146"
abbreviation (input) R4300_OP_DMFC0 :: nat where "R4300_OP_DMFC0 \<equiv> 147"
abbreviation (input) R4300_OP_DMFC1 :: nat where "R4300_OP_DMFC1 \<equiv> 148"
abbreviation (input) R4300_OP_DMFC2 :: nat where "R4300_OP_DMFC2 \<equiv> 149"
abbreviation (input) R4300_OP_DMTC0 :: nat where "R4300_OP_DMTC0 \<equiv> 150"
abbreviation (input) R4300_OP_DMTC1 :: nat where "R4300_OP_DMTC1 \<equiv> 151"
abbreviation (input) R4300_OP_DMTC2 :: nat where "R4300_OP_DMTC2 \<equiv> 152"
abbreviation (input) R4300_OP_DMULT :: nat where "R4300_OP_DMULT \<equiv> 153"
abbreviation (input) R4300_OP_DMULTU :: nat where "R4300_OP_DMULTU \<equiv> 154"
abbreviation (input) R4300_OP_DSLL :: nat where "R4300_OP_DSLL \<equiv> 155"
abbreviation (input) R4300_OP_DSLL32 :: nat where "R4300_OP_DSLL32 \<equiv> 156"
abbreviation (input) R4300_OP_DSLLV :: nat where "R4300_OP_DSLLV \<equiv> 157"
abbreviation (input) R4300_OP_DSRA :: nat where "R4300_OP_DSRA \<equiv> 158"
abbreviation (input) R4300_OP_DSRA32 :: nat where "R4300_OP_DSRA32 \<equiv> 159"
abbreviation (input) R4300_OP_DSRAV :: nat where "R4300_OP_DSRAV \<equiv> 160"
abbreviation (input) R4300_OP_DSRL :: nat where "R4300_OP_DSRL \<equiv> 161"
abbreviation (input) R4300_OP_DSRL32 :: nat where "R4300_OP_DSRL32 \<equiv> 162"
abbreviation (input) R4300_OP_DSRLV :: nat where "R4300_OP_DSRLV \<equiv> 163"
abbreviation (input) R4300_OP_DSUB :: nat where "R4300_OP_DSUB \<equiv> 164"
abbreviation (input) R4300_OP_DSUBU :: nat where "R4300_OP_DSUBU \<equiv> 165"
abbreviation (input) R4300_OP_ERET :: nat where "R4300_OP_ERET \<equiv> 166"
abbreviation (input) R4300_OP_J :: nat where "R4300_OP_J \<equiv> 167"
abbreviation (input) R4300_OP_J_IDLE :: nat where "R4300_OP_J_IDLE \<equiv> 168"
abbreviation (input) R4300_OP_J_OUT :: nat where "R4300_OP_J_OUT \<equiv> 169"
abbreviation (input) R4300_OP_JAL :: nat where "R4300_OP_JAL \<equiv> 170"
abbreviation (input) R4300_OP_JAL_IDLE :: nat where "R4300_OP_JAL_IDLE \<equiv> 171"
abbreviation (input) R4300_OP_JAL_OUT :: nat where "R4300_OP_JAL_OUT \<equiv> 172"
abbreviation (input) R4300_OP_JALR :: nat where "R4300_OP_JALR \<equiv> 173"
abbreviation (input) R4300_OP_JALR_IDLE :: nat where "R4300_OP_JALR_IDLE \<equiv> 174"
abbreviation (input) R4300_OP_JALR_OUT :: nat where "R4300_OP_JALR_OUT \<equiv> 175"
abbreviation (input) R4300_OP_JR :: nat where "R4300_OP_JR \<equiv> 176"
abbreviation (input) R4300_OP_JR_IDLE :: nat where "R4300_OP_JR_IDLE \<equiv> 177"
abbreviation (input) R4300_OP_JR_OUT :: nat where "R4300_OP_JR_OUT \<equiv> 178"
abbreviation (input) R4300_OP_LB :: nat where "R4300_OP_LB \<equiv> 179"
abbreviation (input) R4300_OP_LBU :: nat where "R4300_OP_LBU \<equiv> 180"
abbreviation (input) R4300_OP_LD :: nat where "R4300_OP_LD \<equiv> 181"
abbreviation (input) R4300_OP_LDC1 :: nat where "R4300_OP_LDC1 \<equiv> 182"
abbreviation (input) R4300_OP_LDC2 :: nat where "R4300_OP_LDC2 \<equiv> 183"
abbreviation (input) R4300_OP_LDL :: nat where "R4300_OP_LDL \<equiv> 184"
abbreviation (input) R4300_OP_LDR :: nat where "R4300_OP_LDR \<equiv> 185"
abbreviation (input) R4300_OP_LH :: nat where "R4300_OP_LH \<equiv> 186"
abbreviation (input) R4300_OP_LHU :: nat where "R4300_OP_LHU \<equiv> 187"
abbreviation (input) R4300_OP_LL :: nat where "R4300_OP_LL \<equiv> 188"
abbreviation (input) R4300_OP_LLD :: nat where "R4300_OP_LLD \<equiv> 189"
abbreviation (input) R4300_OP_LUI :: nat where "R4300_OP_LUI \<equiv> 190"
abbreviation (input) R4300_OP_LW :: nat where "R4300_OP_LW \<equiv> 191"
abbreviation (input) R4300_OP_LWC1 :: nat where "R4300_OP_LWC1 \<equiv> 192"
abbreviation (input) R4300_OP_LWC2 :: nat where "R4300_OP_LWC2 \<equiv> 193"
abbreviation (input) R4300_OP_LWL :: nat where "R4300_OP_LWL \<equiv> 194"
abbreviation (input) R4300_OP_LWR :: nat where "R4300_OP_LWR \<equiv> 195"
abbreviation (input) R4300_OP_LWU :: nat where "R4300_OP_LWU \<equiv> 196"
abbreviation (input) R4300_OP_MFC0 :: nat where "R4300_OP_MFC0 \<equiv> 197"
abbreviation (input) R4300_OP_MFC1 :: nat where "R4300_OP_MFC1 \<equiv> 198"
abbreviation (input) R4300_OP_MFC2 :: nat where "R4300_OP_MFC2 \<equiv> 199"
abbreviation (input) R4300_OP_MFHI :: nat where "R4300_OP_MFHI \<equiv> 200"
abbreviation (input) R4300_OP_MFLO :: nat where "R4300_OP_MFLO \<equiv> 201"
abbreviation (input) R4300_OP_MTC0 :: nat where "R4300_OP_MTC0 \<equiv> 202"
abbreviation (input) R4300_OP_MTC1 :: nat where "R4300_OP_MTC1 \<equiv> 203"
abbreviation (input) R4300_OP_MTC2 :: nat where "R4300_OP_MTC2 \<equiv> 204"
abbreviation (input) R4300_OP_MTHI :: nat where "R4300_OP_MTHI \<equiv> 205"
abbreviation (input) R4300_OP_MTLO :: nat where "R4300_OP_MTLO \<equiv> 206"
abbreviation (input) R4300_OP_MULT :: nat where "R4300_OP_MULT \<equiv> 207"
abbreviation (input) R4300_OP_MULTU :: nat where "R4300_OP_MULTU \<equiv> 208"
abbreviation (input) R4300_OP_NOP :: nat where "R4300_OP_NOP \<equiv> 209"
abbreviation (input) R4300_OP_NOR :: nat where "R4300_OP_NOR \<equiv> 210"
abbreviation (input) R4300_OP_OR :: nat where "R4300_OP_OR \<equiv> 211"
abbreviation (input) R4300_OP_ORI :: nat where "R4300_OP_ORI \<equiv> 212"
abbreviation (input) R4300_OP_SB :: nat where "R4300_OP_SB \<equiv> 213"
abbreviation (input) R4300_OP_SC :: nat where "R4300_OP_SC \<equiv> 214"
abbreviation (input) R4300_OP_SCD :: nat where "R4300_OP_SCD \<equiv> 215"
abbreviation (input) R4300_OP_SD :: nat where "R4300_OP_SD \<equiv> 216"
abbreviation (input) R4300_OP_SDC1 :: nat where "R4300_OP_SDC1 \<equiv> 217"
abbreviation (input) R4300_OP_SDC2 :: nat where "R4300_OP_SDC2 \<equiv> 218"
abbreviation (input) R4300_OP_SDL :: nat where "R4300_OP_SDL \<equiv> 219"
abbreviation (input) R4300_OP_SDR :: nat where "R4300_OP_SDR \<equiv> 220"
abbreviation (input) R4300_OP_SH :: nat where "R4300_OP_SH \<equiv> 221"
abbreviation (input) R4300_OP_SLL :: nat where "R4300_OP_SLL \<equiv> 222"
abbreviation (input) R4300_OP_SLLV :: nat where "R4300_OP_SLLV \<equiv> 223"
abbreviation (input) R4300_OP_SLT :: nat where "R4300_OP_SLT \<equiv> 224"
abbreviation (input) R4300_OP_SLTI :: nat where "R4300_OP_SLTI \<equiv> 225"
abbreviation (input) R4300_OP_SLTIU :: nat where "R4300_OP_SLTIU \<equiv> 226"
abbreviation (input) R4300_OP_SLTU :: nat where "R4300_OP_SLTU \<equiv> 227"
abbreviation (input) R4300_OP_SRA :: nat where "R4300_OP_SRA \<equiv> 228"
abbreviation (input) R4300_OP_SRAV :: nat where "R4300_OP_SRAV \<equiv> 229"
abbreviation (input) R4300_OP_SRL :: nat where "R4300_OP_SRL \<equiv> 230"
abbreviation (input) R4300_OP_SRLV :: nat where "R4300_OP_SRLV \<equiv> 231"
abbreviation (input) R4300_OP_SUB :: nat where "R4300_OP_SUB \<equiv> 232"
abbreviation (input) R4300_OP_SUBU :: nat where "R4300_OP_SUBU \<equiv> 233"
abbreviation (input) R4300_OP_SW :: nat where "R4300_OP_SW \<equiv> 234"
abbreviation (input) R4300_OP_SWC1 :: nat where "R4300_OP_SWC1 \<equiv> 235"
abbreviation (input) R4300_OP_SWC2 :: nat where "R4300_OP_SWC2 \<equiv> 236"
abbreviation (input) R4300_OP_SWL :: nat where "R4300_OP_SWL \<equiv> 237"
abbreviation (input) R4300_OP_SWR :: nat where "R4300_OP_SWR \<equiv> 238"
abbreviation (input) R4300_OP_SYNC :: nat where "R4300_OP_SYNC \<equiv> 239"
abbreviation (input) R4300_OP_SYSCALL :: nat where "R4300_OP_SYSCALL \<equiv> 240"
abbreviation (input) R4300_OP_TEQ :: nat where "R4300_OP_TEQ \<equiv> 241"
abbreviation (input) R4300_OP_TEQI :: nat where "R4300_OP_TEQI \<equiv> 242"
abbreviation (input) R4300_OP_TGE :: nat where "R4300_OP_TGE \<equiv> 243"
abbreviation (input) R4300_OP_TGEI :: nat where "R4300_OP_TGEI \<equiv> 244"
abbreviation (input) R4300_OP_TGEIU :: nat where "R4300_OP_TGEIU \<equiv> 245"
abbreviation (input) R4300_OP_TGEU :: nat where "R4300_OP_TGEU \<equiv> 246"
abbreviation (input) R4300_OP_TLBP :: nat where "R4300_OP_TLBP \<equiv> 247"
abbreviation (input) R4300_OP_TLBR :: nat where "R4300_OP_TLBR \<equiv> 248"
abbreviation (input) R4300_OP_TLBWI :: nat where "R4300_OP_TLBWI \<equiv> 249"
abbreviation (input) R4300_OP_TLBWR :: nat where "R4300_OP_TLBWR \<equiv> 250"
abbreviation (input) R4300_OP_TLT :: nat where "R4300_OP_TLT \<equiv> 251"
abbreviation (input) R4300_OP_TLTI :: nat where "R4300_OP_TLTI \<equiv> 252"
abbreviation (input) R4300_OP_TLTIU :: nat where "R4300_OP_TLTIU \<equiv> 253"
abbreviation (input) R4300_OP_TLTU :: nat where "R4300_OP_TLTU \<equiv> 254"
abbreviation (input) R4300_OP_TNE :: nat where "R4300_OP_TNE \<equiv> 255"
abbreviation (input) R4300_OP_TNEI :: nat where "R4300_OP_TNEI \<equiv> 256"
abbreviation (input) R4300_OP_XOR :: nat where "R4300_OP_XOR \<equiv> 257"
abbreviation (input) R4300_OP_XORI :: nat where "R4300_OP_XORI \<equiv> 258"

section \<open>Register and immediate fields\<close>

datatype r4300_register_type =
    IDEC_REGTYPE_NONE | IDEC_REGTYPE_GPR | IDEC_REGTYPE_CPR0 | IDEC_REGTYPE_FPR | IDEC_REGTYPE_FPR32 | IDEC_REGTYPE_FPR64
  | IDEC_REGTYPE_FCR

fun regtype_code :: "r4300_register_type \<Rightarrow> u8" where
  "regtype_code IDEC_REGTYPE_NONE = 0"
| "regtype_code IDEC_REGTYPE_GPR = 1"
| "regtype_code IDEC_REGTYPE_CPR0 = 2"
| "regtype_code IDEC_REGTYPE_FPR = 3"
| "regtype_code IDEC_REGTYPE_FPR32 = 4"
| "regtype_code IDEC_REGTYPE_FPR64 = 5"
| "regtype_code IDEC_REGTYPE_FCR = 6"

definition U53 :: "r4300_register_type \<Rightarrow> u8 \<Rightarrow> u8" where
  "U53 t s = push_bit 3 s OR (regtype_code t AND 0x7)"

definition U53_SHIFT :: "u8 \<Rightarrow> nat" where
  "U53_SHIFT u = unat (drop_bit 3 u AND 0x1f)"

text \<open>Code 7 is no register type.\<close>

definition U53_TYPE :: "u8 \<Rightarrow> r4300_register_type option" where
  "U53_TYPE u =
     map_of [(0, IDEC_REGTYPE_NONE), (1, IDEC_REGTYPE_GPR), (2, IDEC_REGTYPE_CPR0), (3, IDEC_REGTYPE_FPR),
             (4, IDEC_REGTYPE_FPR32), (5, IDEC_REGTYPE_FPR64), (6, IDEC_REGTYPE_FCR)] (u AND 0x7)"

definition U53_NONE :: u8 where "U53_NONE = U53 IDEC_REGTYPE_NONE 0"
definition U53_SA :: u8 where "U53_SA = U53 IDEC_REGTYPE_NONE 6"
definition U53_RD :: u8 where "U53_RD = U53 IDEC_REGTYPE_GPR 11"
definition U53_RT :: u8 where "U53_RT = U53 IDEC_REGTYPE_GPR 16"
definition U53_RS :: u8 where "U53_RS = U53 IDEC_REGTYPE_GPR 21"
definition U53_FD :: u8 where "U53_FD = U53 IDEC_REGTYPE_FPR 6"
definition U53_FDS :: u8 where "U53_FDS = U53 IDEC_REGTYPE_FPR32 6"
definition U53_FDD :: u8 where "U53_FDD = U53 IDEC_REGTYPE_FPR64 6"
definition U53_FDW :: u8 where "U53_FDW = U53 IDEC_REGTYPE_FPR32 6"
definition U53_FDL :: u8 where "U53_FDL = U53 IDEC_REGTYPE_FPR64 6"
definition U53_FCR :: u8 where "U53_FCR = U53 IDEC_REGTYPE_FCR 11"
definition U53_FS :: u8 where "U53_FS = U53 IDEC_REGTYPE_FPR 11"
definition U53_FS32 :: u8 where "U53_FS32 = U53 IDEC_REGTYPE_FPR32 11"
definition U53_FS64 :: u8 where "U53_FS64 = U53 IDEC_REGTYPE_FPR64 11"
definition U53_FT :: u8 where "U53_FT = U53 IDEC_REGTYPE_FPR 16"
definition U53_FT32 :: u8 where "U53_FT32 = U53 IDEC_REGTYPE_FPR32 16"
definition U53_FT64 :: u8 where "U53_FT64 = U53 IDEC_REGTYPE_FPR64 16"
definition U53_FMT :: u8 where "U53_FMT = U53 IDEC_REGTYPE_NONE 21"
definition U53_CACHEOP :: u8 where "U53_CACHEOP = U53 IDEC_REGTYPE_NONE 16"
definition U53_CPR0 :: u8 where "U53_CPR0 = U53 IDEC_REGTYPE_CPR0 11"
definition U53_CCR0 :: u8 where "U53_CCR0 = U53 IDEC_REGTYPE_NONE 11"
definition U53_CCR2 :: u8 where "U53_CCR2 = U53 IDEC_REGTYPE_NONE 11"
definition U53_CPR2D :: u8 where "U53_CPR2D = U53 IDEC_REGTYPE_NONE 11"
definition U53_CPR2T :: u8 where "U53_CPR2T = U53 IDEC_REGTYPE_NONE 16"

record r4300_idec =
  opcode :: nat
  i_mask :: u32
  i_smask :: u16
  i_lshift :: nat
  u53 :: "u8 list"

text \<open>Mask, sign bit and shift of an immediate.\<close>

type_synonym imm_field = "u32 \<times> u16 \<times> nat"

definition IMM_NONE :: imm_field where "IMM_NONE = (0, 0, 0)"
definition IMM_OFFSET :: imm_field where "IMM_OFFSET = (0xffff, 0x8000, 0)"
definition IMM_OFFSET4 :: imm_field where "IMM_OFFSET4 = (0xffff, 0x8000, 2)"
definition IMM_LUI :: imm_field where "IMM_LUI = (0xffff, 0x8000, 16)"
definition IMM_SIMM :: imm_field where "IMM_SIMM = (0xffff, 0x8000, 0)"
definition IMM_ZIMM :: imm_field where "IMM_ZIMM = (0xffff, 0x0000, 0)"
definition IMM_TARGET :: imm_field where "IMM_TARGET = (0x3ffffff, 0x0000, 2)"

section \<open>Decoders\<close>

type_synonym idec_shape = "imm_field \<times> u8 list"

definition IDEC_NONE :: idec_shape where "IDEC_NONE = (IMM_NONE, [U53_NONE, U53_NONE, U53_NONE, U53_NONE])"
definition IDEC_CACHEOP_BASE_OFFSET :: idec_shape where "IDEC_CACHEOP_BASE_OFFSET = (IMM_OFFSET, [U53_NONE, U53_CACHEOP, U53_RS, U53_NONE])"
definition IDEC_FD_FS_FMT :: idec_shape where "IDEC_FD_FS_FMT = (IMM_NONE, [U53_FD, U53_NONE, U53_FS, U53_FMT])"
definition IDEC_FDS_FS_FMT :: idec_shape where "IDEC_FDS_FS_FMT = (IMM_NONE, [U53_FDS, U53_NONE, U53_FS, U53_FMT])"
definition IDEC_FDD_FS_FMT :: idec_shape where "IDEC_FDD_FS_FMT = (IMM_NONE, [U53_FDD, U53_NONE, U53_FS, U53_FMT])"
definition IDEC_FDW_FS_FMT :: idec_shape where "IDEC_FDW_FS_FMT = (IMM_NONE, [U53_FDW, U53_NONE, U53_FS, U53_FMT])"
definition IDEC_FDL_FS_FMT :: idec_shape where "IDEC_FDL_FS_FMT = (IMM_NONE, [U53_FDL, U53_NONE, U53_FS, U53_FMT])"
definition IDEC_FD_FS_FT_FMT :: idec_shape where "IDEC_FD_FS_FT_FMT = (IMM_NONE, [U53_FD, U53_FT, U53_FS, U53_FMT])"
definition IDEC_FS_FT_FMT :: idec_shape where "IDEC_FS_FT_FMT = (IMM_NONE, [U53_NONE, U53_FT, U53_FS, U53_FMT])"
definition IDEC_OFFSET :: idec_shape where "IDEC_OFFSET = (IMM_OFFSET4, [U53_NONE, U53_NONE, U53_NONE, U53_NONE])"
definition IDEC_RD :: idec_shape where "IDEC_RD = (IMM_NONE, [U53_RD, U53_NONE, U53_NONE, U53_NONE])"
definition IDEC_RD_RS :: idec_shape where "IDEC_RD_RS = (IMM_NONE, [U53_RD, U53_NONE, U53_RS, U53_NONE])"
definition IDEC_RD_RS_RT :: idec_shape where "IDEC_RD_RS_RT = (IMM_NONE, [U53_RD, U53_RT, U53_RS, U53_NONE])"
definition IDEC_RD_RT_RS :: idec_shape where "IDEC_RD_RT_RS = (IMM_NONE, [U53_RD, U53_RT, U53_RS, U53_NONE])"
definition IDEC_RD_RT_SA :: idec_shape where "IDEC_RD_RT_SA = (IMM_NONE, [U53_RD, U53_RT, U53_NONE, U53_SA])"
definition IDEC_RS :: idec_shape where "IDEC_RS = (IMM_NONE, [U53_NONE, U53_NONE, U53_RS, U53_NONE])"
definition IDEC_RS_OFFSET :: idec_shape where "IDEC_RS_OFFSET = (IMM_OFFSET4, [U53_NONE, U53_NONE, U53_RS, U53_NONE])"
definition IDEC_RS_RT :: idec_shape where "IDEC_RS_RT = (IMM_NONE, [U53_NONE, U53_RT, U53_RS, U53_NONE])"
definition IDEC_RS_RT_OFFSET :: idec_shape where "IDEC_RS_RT_OFFSET = (IMM_OFFSET4, [U53_NONE, U53_RT, U53_RS, U53_NONE])"
definition IDEC_RS_SIMM :: idec_shape where "IDEC_RS_SIMM = (IMM_SIMM, [U53_NONE, U53_NONE, U53_RS, U53_NONE])"
definition IDEC_RT_BASE_OFFSET :: idec_shape where "IDEC_RT_BASE_OFFSET = (IMM_OFFSET, [U53_NONE, U53_RT, U53_RS, U53_NONE])"
definition IDEC_CPR2_BASE_OFFSET :: idec_shape where "IDEC_CPR2_BASE_OFFSET = (IMM_OFFSET, [U53_NONE, U53_CPR2T, U53_RS, U53_NONE])"
definition IDEC_FT32_BASE_OFFSET :: idec_shape where "IDEC_FT32_BASE_OFFSET = (IMM_OFFSET, [U53_NONE, U53_FT32, U53_RS, U53_NONE])"
definition IDEC_FT64_BASE_OFFSET :: idec_shape where "IDEC_FT64_BASE_OFFSET = (IMM_OFFSET, [U53_NONE, U53_FT64, U53_RS, U53_NONE])"
definition IDEC_RT_LUI :: idec_shape where "IDEC_RT_LUI = (IMM_LUI, [U53_NONE, U53_RT, U53_NONE, U53_NONE])"
definition IDEC_RT_CPR0 :: idec_shape where "IDEC_RT_CPR0 = (IMM_NONE, [U53_CPR0, U53_RT, U53_NONE, U53_NONE])"
definition IDEC_RT_FS32 :: idec_shape where "IDEC_RT_FS32 = (IMM_NONE, [U53_FS32, U53_RT, U53_NONE, U53_NONE])"
definition IDEC_RT_FS64 :: idec_shape where "IDEC_RT_FS64 = (IMM_NONE, [U53_FS64, U53_RT, U53_NONE, U53_NONE])"
definition IDEC_RT_CPR2 :: idec_shape where "IDEC_RT_CPR2 = (IMM_NONE, [U53_CPR2D, U53_RT, U53_NONE, U53_NONE])"
definition IDEC_RT_CCR0 :: idec_shape where "IDEC_RT_CCR0 = (IMM_NONE, [U53_CCR0, U53_RT, U53_NONE, U53_NONE])"
definition IDEC_RT_FCR :: idec_shape where "IDEC_RT_FCR = (IMM_NONE, [U53_FCR, U53_RT, U53_NONE, U53_NONE])"
definition IDEC_RT_CCR2 :: idec_shape where "IDEC_RT_CCR2 = (IMM_NONE, [U53_CCR2, U53_RT, U53_NONE, U53_NONE])"
definition IDEC_RT_RS_SIMM :: idec_shape where "IDEC_RT_RS_SIMM = (IMM_SIMM, [U53_NONE, U53_RT, U53_RS, U53_NONE])"
definition IDEC_RT_RS_ZIMM :: idec_shape where "IDEC_RT_RS_ZIMM = (IMM_ZIMM, [U53_NONE, U53_RT, U53_RS, U53_NONE])"
definition IDEC_TARGET :: idec_shape where "IDEC_TARGET = (IMM_TARGET, [U53_NONE, U53_NONE, U53_NONE, U53_NONE])"

text \<open>The initialiser \<^verbatim>\<open>{ opcode, IMM, { u53 } }\<close>.\<close>

definition mk_idec :: "nat \<Rightarrow> idec_shape \<Rightarrow> r4300_idec" where
  "mk_idec op shape =
     (case shape of ((msk, smask, lshift), us) \<Rightarrow>
        \<lparr>opcode = op, i_mask = msk, i_smask = smask, i_lshift = lshift, u53 = us\<rparr>)"

definition d_RESERVED :: r4300_idec where "d_RESERVED = mk_idec R4300_OP_RESERVED IDEC_NONE"
definition d_ADD :: r4300_idec where "d_ADD = mk_idec R4300_OP_ADD IDEC_RD_RS_RT"
definition d_ADDI :: r4300_idec where "d_ADDI = mk_idec R4300_OP_ADDI IDEC_RT_RS_SIMM"
definition d_ADDIU :: r4300_idec where "d_ADDIU = mk_idec R4300_OP_ADDIU IDEC_RT_RS_SIMM"
definition d_ADDU :: r4300_idec where "d_ADDU = mk_idec R4300_OP_ADDU IDEC_RD_RS_RT"
definition d_AND :: r4300_idec where "d_AND = mk_idec R4300_OP_AND IDEC_RD_RS_RT"
definition d_ANDI :: r4300_idec where "d_ANDI = mk_idec R4300_OP_ANDI IDEC_RT_RS_ZIMM"
definition d_BC0F :: r4300_idec where "d_BC0F = mk_idec R4300_OP_BC0F IDEC_OFFSET"
definition d_BC1F :: r4300_idec where "d_BC1F = mk_idec R4300_OP_BC1F IDEC_OFFSET"
definition d_BC2F :: r4300_idec where "d_BC2F = mk_idec R4300_OP_BC2F IDEC_OFFSET"
definition d_BC0FL :: r4300_idec where "d_BC0FL = mk_idec R4300_OP_BC0FL IDEC_OFFSET"
definition d_BC1FL :: r4300_idec where "d_BC1FL = mk_idec R4300_OP_BC1FL IDEC_OFFSET"
definition d_BC2FL :: r4300_idec where "d_BC2FL = mk_idec R4300_OP_BC2FL IDEC_OFFSET"
definition d_BC0T :: r4300_idec where "d_BC0T = mk_idec R4300_OP_BC0T IDEC_OFFSET"
definition d_BC1T :: r4300_idec where "d_BC1T = mk_idec R4300_OP_BC1T IDEC_OFFSET"
definition d_BC2T :: r4300_idec where "d_BC2T = mk_idec R4300_OP_BC2T IDEC_OFFSET"
definition d_BC0TL :: r4300_idec where "d_BC0TL = mk_idec R4300_OP_BC0TL IDEC_OFFSET"
definition d_BC1TL :: r4300_idec where "d_BC1TL = mk_idec R4300_OP_BC1TL IDEC_OFFSET"
definition d_BC2TL :: r4300_idec where "d_BC2TL = mk_idec R4300_OP_BC2TL IDEC_OFFSET"
definition d_BEQ :: r4300_idec where "d_BEQ = mk_idec R4300_OP_BEQ IDEC_RS_RT_OFFSET"
definition d_BEQL :: r4300_idec where "d_BEQL = mk_idec R4300_OP_BEQL IDEC_RS_RT_OFFSET"
definition d_BGEZ :: r4300_idec where "d_BGEZ = mk_idec R4300_OP_BGEZ IDEC_RS_OFFSET"
definition d_BGEZAL :: r4300_idec where "d_BGEZAL = mk_idec R4300_OP_BGEZAL IDEC_RS_OFFSET"
definition d_BGEZALL :: r4300_idec where "d_BGEZALL = mk_idec R4300_OP_BGEZALL IDEC_RS_OFFSET"
definition d_BGEZL :: r4300_idec where "d_BGEZL = mk_idec R4300_OP_BGEZL IDEC_RS_OFFSET"
definition d_BGTZ :: r4300_idec where "d_BGTZ = mk_idec R4300_OP_BGTZ IDEC_RS_OFFSET"
definition d_BGTZL :: r4300_idec where "d_BGTZL = mk_idec R4300_OP_BGTZL IDEC_RS_OFFSET"
definition d_BLEZ :: r4300_idec where "d_BLEZ = mk_idec R4300_OP_BLEZ IDEC_RS_OFFSET"
definition d_BLEZL :: r4300_idec where "d_BLEZL = mk_idec R4300_OP_BLEZL IDEC_RS_OFFSET"
definition d_BLTZ :: r4300_idec where "d_BLTZ = mk_idec R4300_OP_BLTZ IDEC_RS_OFFSET"
definition d_BLTZAL :: r4300_idec where "d_BLTZAL = mk_idec R4300_OP_BLTZAL IDEC_RS_OFFSET"
definition d_BLTZALL :: r4300_idec where "d_BLTZALL = mk_idec R4300_OP_BLTZALL IDEC_RS_OFFSET"
definition d_BLTZL :: r4300_idec where "d_BLTZL = mk_idec R4300_OP_BLTZL IDEC_RS_OFFSET"
definition d_BNE :: r4300_idec where "d_BNE = mk_idec R4300_OP_BNE IDEC_RS_RT_OFFSET"
definition d_BNEL :: r4300_idec where "d_BNEL = mk_idec R4300_OP_BNEL IDEC_RS_RT_OFFSET"
definition d_BREAK :: r4300_idec where "d_BREAK = mk_idec R4300_OP_BREAK IDEC_NONE"
definition d_CACHE :: r4300_idec where "d_CACHE = mk_idec R4300_OP_CACHE IDEC_CACHEOP_BASE_OFFSET"
definition d_CFC0 :: r4300_idec where "d_CFC0 = mk_idec R4300_OP_CFC0 IDEC_RT_CCR0"
definition d_CFC1 :: r4300_idec where "d_CFC1 = mk_idec R4300_OP_CFC1 IDEC_RT_FCR"
definition d_DCFC1 :: r4300_idec where "d_DCFC1 = mk_idec R4300_OP_DCFC1 IDEC_RT_FCR"
definition d_CFC2 :: r4300_idec where "d_CFC2 = mk_idec R4300_OP_CFC2 IDEC_RT_CCR2"
definition d_DCFC2 :: r4300_idec where "d_DCFC2 = mk_idec R4300_OP_DCFC2 IDEC_RT_CCR2"
definition d_CP1_ABS :: r4300_idec where "d_CP1_ABS = mk_idec R4300_OP_CP1_ABS IDEC_FD_FS_FMT"
definition d_CP1_ADD :: r4300_idec where "d_CP1_ADD = mk_idec R4300_OP_CP1_ADD IDEC_FD_FS_FT_FMT"
definition d_CP1_C_EQ :: r4300_idec where "d_CP1_C_EQ = mk_idec R4300_OP_CP1_C_EQ IDEC_FS_FT_FMT"
definition d_CP1_C_F :: r4300_idec where "d_CP1_C_F = mk_idec R4300_OP_CP1_C_F IDEC_FS_FT_FMT"
definition d_CP1_C_LE :: r4300_idec where "d_CP1_C_LE = mk_idec R4300_OP_CP1_C_LE IDEC_FS_FT_FMT"
definition d_CP1_C_LT :: r4300_idec where "d_CP1_C_LT = mk_idec R4300_OP_CP1_C_LT IDEC_FS_FT_FMT"
definition d_CP1_C_NGE :: r4300_idec where "d_CP1_C_NGE = mk_idec R4300_OP_CP1_C_NGE IDEC_FS_FT_FMT"
definition d_CP1_C_NGLE :: r4300_idec where "d_CP1_C_NGLE = mk_idec R4300_OP_CP1_C_NGLE IDEC_FS_FT_FMT"
definition d_CP1_C_NGL :: r4300_idec where "d_CP1_C_NGL = mk_idec R4300_OP_CP1_C_NGL IDEC_FS_FT_FMT"
definition d_CP1_C_NGT :: r4300_idec where "d_CP1_C_NGT = mk_idec R4300_OP_CP1_C_NGT IDEC_FS_FT_FMT"
definition d_CP1_C_OLE :: r4300_idec where "d_CP1_C_OLE = mk_idec R4300_OP_CP1_C_OLE IDEC_FS_FT_FMT"
definition d_CP1_C_OLT :: r4300_idec where "d_CP1_C_OLT = mk_idec R4300_OP_CP1_C_OLT IDEC_FS_FT_FMT"
definition d_CP1_C_SEQ :: r4300_idec where "d_CP1_C_SEQ = mk_idec R4300_OP_CP1_C_SEQ IDEC_FS_FT_FMT"
definition d_CP1_C_SF :: r4300_idec where "d_CP1_C_SF = mk_idec R4300_OP_CP1_C_SF IDEC_FS_FT_FMT"
definition d_CP1_C_UEQ :: r4300_idec where "d_CP1_C_UEQ = mk_idec R4300_OP_CP1_C_UEQ IDEC_FS_FT_FMT"
definition d_CP1_C_ULE :: r4300_idec where "d_CP1_C_ULE = mk_idec R4300_OP_CP1_C_ULE IDEC_FS_FT_FMT"
definition d_CP1_C_ULT :: r4300_idec where "d_CP1_C_ULT = mk_idec R4300_OP_CP1_C_ULT IDEC_FS_FT_FMT"
definition d_CP1_C_UN :: r4300_idec where "d_CP1_C_UN = mk_idec R4300_OP_CP1_C_UN IDEC_FS_FT_FMT"
definition d_CP1_CEIL_L :: r4300_idec where "d_CP1_CEIL_L = mk_idec R4300_OP_CP1_CEIL_L IDEC_FDL_FS_FMT"
definition d_CP1_CEIL_W :: r4300_idec where "d_CP1_CEIL_W = mk_idec R4300_OP_CP1_CEIL_W IDEC_FDW_FS_FMT"
definition d_CP1_CVT_D :: r4300_idec where "d_CP1_CVT_D = mk_idec R4300_OP_CP1_CVT_D IDEC_FDD_FS_FMT"
definition d_CP1_CVT_L :: r4300_idec where "d_CP1_CVT_L = mk_idec R4300_OP_CP1_CVT_L IDEC_FDL_FS_FMT"
definition d_CP1_CVT_S :: r4300_idec where "d_CP1_CVT_S = mk_idec R4300_OP_CP1_CVT_S IDEC_FDS_FS_FMT"
definition d_CP1_CVT_W :: r4300_idec where "d_CP1_CVT_W = mk_idec R4300_OP_CP1_CVT_W IDEC_FDW_FS_FMT"
definition d_CP1_DIV :: r4300_idec where "d_CP1_DIV = mk_idec R4300_OP_CP1_DIV IDEC_FD_FS_FT_FMT"
definition d_CP1_FLOOR_L :: r4300_idec where "d_CP1_FLOOR_L = mk_idec R4300_OP_CP1_FLOOR_L IDEC_FDL_FS_FMT"
definition d_CP1_FLOOR_W :: r4300_idec where "d_CP1_FLOOR_W = mk_idec R4300_OP_CP1_FLOOR_W IDEC_FDW_FS_FMT"
definition d_CP1_MOV :: r4300_idec where "d_CP1_MOV = mk_idec R4300_OP_CP1_MOV IDEC_FD_FS_FMT"
definition d_CP1_MUL :: r4300_idec where "d_CP1_MUL = mk_idec R4300_OP_CP1_MUL IDEC_FD_FS_FT_FMT"
definition d_CP1_NEG :: r4300_idec where "d_CP1_NEG = mk_idec R4300_OP_CP1_NEG IDEC_FD_FS_FMT"
definition d_CP1_ROUND_L :: r4300_idec where "d_CP1_ROUND_L = mk_idec R4300_OP_CP1_ROUND_L IDEC_FDL_FS_FMT"
definition d_CP1_ROUND_W :: r4300_idec where "d_CP1_ROUND_W = mk_idec R4300_OP_CP1_ROUND_W IDEC_FDW_FS_FMT"
definition d_CP1_SQRT :: r4300_idec where "d_CP1_SQRT = mk_idec R4300_OP_CP1_SQRT IDEC_FD_FS_FMT"
definition d_CP1_SUB :: r4300_idec where "d_CP1_SUB = mk_idec R4300_OP_CP1_SUB IDEC_FD_FS_FT_FMT"
definition d_CP1_TRUNC_L :: r4300_idec where "d_CP1_TRUNC_L = mk_idec R4300_OP_CP1_TRUNC_L IDEC_FDL_FS_FMT"
definition d_CP1_TRUNC_W :: r4300_idec where "d_CP1_TRUNC_W = mk_idec R4300_OP_CP1_TRUNC_W IDEC_FDW_FS_FMT"
definition d_CTC0 :: r4300_idec where "d_CTC0 = mk_idec R4300_OP_CTC0 IDEC_RT_CCR0"
definition d_CTC1 :: r4300_idec where "d_CTC1 = mk_idec R4300_OP_CTC1 IDEC_RT_FCR"
definition d_DCTC1 :: r4300_idec where "d_DCTC1 = mk_idec R4300_OP_DCTC1 IDEC_RT_FCR"
definition d_CTC2 :: r4300_idec where "d_CTC2 = mk_idec R4300_OP_CTC2 IDEC_RT_CCR2"
definition d_DCTC2 :: r4300_idec where "d_DCTC2 = mk_idec R4300_OP_DCTC2 IDEC_RT_CCR2"
definition d_DADD :: r4300_idec where "d_DADD = mk_idec R4300_OP_DADD IDEC_RD_RS_RT"
definition d_DADDI :: r4300_idec where "d_DADDI = mk_idec R4300_OP_DADDI IDEC_RT_RS_SIMM"
definition d_DADDIU :: r4300_idec where "d_DADDIU = mk_idec R4300_OP_DADDIU IDEC_RT_RS_SIMM"
definition d_DADDU :: r4300_idec where "d_DADDU = mk_idec R4300_OP_DADDU IDEC_RD_RS_RT"
definition d_DDIV :: r4300_idec where "d_DDIV = mk_idec R4300_OP_DDIV IDEC_RS_RT"
definition d_DDIVU :: r4300_idec where "d_DDIVU = mk_idec R4300_OP_DDIVU IDEC_RS_RT"
definition d_DIV :: r4300_idec where "d_DIV = mk_idec R4300_OP_DIV IDEC_RS_RT"
definition d_DIVU :: r4300_idec where "d_DIVU = mk_idec R4300_OP_DIVU IDEC_RS_RT"
definition d_DMFC0 :: r4300_idec where "d_DMFC0 = mk_idec R4300_OP_DMFC0 IDEC_RT_CPR0"
definition d_DMFC1 :: r4300_idec where "d_DMFC1 = mk_idec R4300_OP_DMFC1 IDEC_RT_FS64"
definition d_DMFC2 :: r4300_idec where "d_DMFC2 = mk_idec R4300_OP_DMFC2 IDEC_RT_CPR2"
definition d_DMTC0 :: r4300_idec where "d_DMTC0 = mk_idec R4300_OP_DMTC0 IDEC_RT_CPR0"
definition d_DMTC1 :: r4300_idec where "d_DMTC1 = mk_idec R4300_OP_DMTC1 IDEC_RT_FS64"
definition d_DMTC2 :: r4300_idec where "d_DMTC2 = mk_idec R4300_OP_DMTC2 IDEC_RT_CPR2"
definition d_DMULT :: r4300_idec where "d_DMULT = mk_idec R4300_OP_DMULT IDEC_RS_RT"
definition d_DMULTU :: r4300_idec where "d_DMULTU = mk_idec R4300_OP_DMULTU IDEC_RS_RT"
definition d_DSLL :: r4300_idec where "d_DSLL = mk_idec R4300_OP_DSLL IDEC_RD_RT_SA"
definition d_DSLLV :: r4300_idec where "d_DSLLV = mk_idec R4300_OP_DSLLV IDEC_RD_RT_RS"
definition d_DSLL32 :: r4300_idec where "d_DSLL32 = mk_idec R4300_OP_DSLL32 IDEC_RD_RT_SA"
definition d_DSRA :: r4300_idec where "d_DSRA = mk_idec R4300_OP_DSRA IDEC_RD_RT_SA"
definition d_DSRAV :: r4300_idec where "d_DSRAV = mk_idec R4300_OP_DSRAV IDEC_RD_RT_RS"
definition d_DSRA32 :: r4300_idec where "d_DSRA32 = mk_idec R4300_OP_DSRA32 IDEC_RD_RT_SA"
definition d_DSRL :: r4300_idec where "d_DSRL = mk_idec R4300_OP_DSRL IDEC_RD_RT_SA"
definition d_DSRLV :: r4300_idec where "d_DSRLV = mk_idec R4300_OP_DSRLV IDEC_RD_RT_RS"
definition d_DSRL32 :: r4300_idec where "d_DSRL32 = mk_idec R4300_OP_DSRL32 IDEC_RD_RT_SA"
definition d_DSUB :: r4300_idec where "d_DSUB = mk_idec R4300_OP_DSUB IDEC_RD_RS_RT"
definition d_DSUBU :: r4300_idec where "d_DSUBU = mk_idec R4300_OP_DSUBU IDEC_RD_RS_RT"
definition d_ERET :: r4300_idec where "d_ERET = mk_idec R4300_OP_ERET IDEC_NONE"
definition d_J :: r4300_idec where "d_J = mk_idec R4300_OP_J IDEC_TARGET"
definition d_JAL :: r4300_idec where "d_JAL = mk_idec R4300_OP_JAL IDEC_TARGET"
definition d_JALR :: r4300_idec where "d_JALR = mk_idec R4300_OP_JALR IDEC_RD_RS"
definition d_JR :: r4300_idec where "d_JR = mk_idec R4300_OP_JR IDEC_RS"
definition d_LB :: r4300_idec where "d_LB = mk_idec R4300_OP_LB IDEC_RT_BASE_OFFSET"
definition d_LBU :: r4300_idec where "d_LBU = mk_idec R4300_OP_LBU IDEC_RT_BASE_OFFSET"
definition d_LD :: r4300_idec where "d_LD = mk_idec R4300_OP_LD IDEC_RT_BASE_OFFSET"
definition d_LDC1 :: r4300_idec where "d_LDC1 = mk_idec R4300_OP_LDC1 IDEC_FT64_BASE_OFFSET"
definition d_LDC2 :: r4300_idec where "d_LDC2 = mk_idec R4300_OP_LDC2 IDEC_CPR2_BASE_OFFSET"
definition d_LDL :: r4300_idec where "d_LDL = mk_idec R4300_OP_LDL IDEC_RT_BASE_OFFSET"
definition d_LDR :: r4300_idec where "d_LDR = mk_idec R4300_OP_LDR IDEC_RT_BASE_OFFSET"
definition d_LH :: r4300_idec where "d_LH = mk_idec R4300_OP_LH IDEC_RT_BASE_OFFSET"
definition d_LHU :: r4300_idec where "d_LHU = mk_idec R4300_OP_LHU IDEC_RT_BASE_OFFSET"
definition d_LL :: r4300_idec where "d_LL = mk_idec R4300_OP_LL IDEC_RT_BASE_OFFSET"
definition d_LLD :: r4300_idec where "d_LLD = mk_idec R4300_OP_LLD IDEC_RT_BASE_OFFSET"
definition d_LUI :: r4300_idec where "d_LUI = mk_idec R4300_OP_LUI IDEC_RT_LUI"
definition d_LW :: r4300_idec where "d_LW = mk_idec R4300_OP_LW IDEC_RT_BASE_OFFSET"
definition d_LWC1 :: r4300_idec where "d_LWC1 = mk_idec R4300_OP_LWC1 IDEC_FT32_BASE_OFFSET"
definition d_LWC2 :: r4300_idec where "d_LWC2 = mk_idec R4300_OP_LWC2 IDEC_CPR2_BASE_OFFSET"
definition d_LWL :: r4300_idec where "d_LWL = mk_idec R4300_OP_LWL IDEC_RT_BASE_OFFSET"
definition d_LWR :: r4300_idec where "d_LWR = mk_idec R4300_OP_LWR IDEC_RT_BASE_OFFSET"
definition d_LWU :: r4300_idec where "d_LWU = mk_idec R4300_OP_LWU IDEC_RT_BASE_OFFSET"
definition d_MFC0 :: r4300_idec where "d_MFC0 = mk_idec R4300_OP_MFC0 IDEC_RT_CPR0"
definition d_MFC1 :: r4300_idec where "d_MFC1 = mk_idec R4300_OP_MFC1 IDEC_RT_FS32"
definition d_MFC2 :: r4300_idec where "d_MFC2 = mk_idec R4300_OP_MFC2 IDEC_RT_CPR2"
definition d_MFHI :: r4300_idec where "d_MFHI = mk_idec R4300_OP_MFHI IDEC_RD"
definition d_MFLO :: r4300_idec where "d_MFLO = mk_idec R4300_OP_MFLO IDEC_RD"
definition d_MTC0 :: r4300_idec where "d_MTC0 = mk_idec R4300_OP_MTC0 IDEC_RT_CPR0"
definition d_MTC1 :: r4300_idec where "d_MTC1 = mk_idec R4300_OP_MTC1 IDEC_RT_FS32"
definition d_MTC2 :: r4300_idec where "d_MTC2 = mk_idec R4300_OP_MTC2 IDEC_RT_CPR2"
definition d_MTHI :: r4300_idec where "d_MTHI = mk_idec R4300_OP_MTHI IDEC_RS"
definition d_MTLO :: r4300_idec where "d_MTLO = mk_idec R4300_OP_MTLO IDEC_RS"
definition d_MULT :: r4300_idec where "d_MULT = mk_idec R4300_OP_MULT IDEC_RS_RT"
definition d_MULTU :: r4300_idec where "d_MULTU = mk_idec R4300_OP_MULTU IDEC_RS_RT"
definition d_NOP :: r4300_idec where "d_NOP = mk_idec R4300_OP_NOP IDEC_NONE"
definition d_NOR :: r4300_idec where "d_NOR = mk_idec R4300_OP_NOR IDEC_RD_RS_RT"
definition d_OR :: r4300_idec where "d_OR = mk_idec R4300_OP_OR IDEC_RD_RS_RT"
definition d_ORI :: r4300_idec where "d_ORI = mk_idec R4300_OP_ORI IDEC_RT_RS_ZIMM"
definition d_SB :: r4300_idec where "d_SB = mk_idec R4300_OP_SB IDEC_RT_BASE_OFFSET"
definition d_SC :: r4300_idec where "d_SC = mk_idec R4300_OP_SC IDEC_RT_BASE_OFFSET"
definition d_SCD :: r4300_idec where "d_SCD = mk_idec R4300_OP_SCD IDEC_RT_BASE_OFFSET"
definition d_SD :: r4300_idec where "d_SD = mk_idec R4300_OP_SD IDEC_RT_BASE_OFFSET"
definition d_SDC1 :: r4300_idec where "d_SDC1 = mk_idec R4300_OP_SDC1 IDEC_FT64_BASE_OFFSET"
definition d_SDC2 :: r4300_idec where "d_SDC2 = mk_idec R4300_OP_SDC2 IDEC_CPR2_BASE_OFFSET"
definition d_SDL :: r4300_idec where "d_SDL = mk_idec R4300_OP_SDL IDEC_RT_BASE_OFFSET"
definition d_SDR :: r4300_idec where "d_SDR = mk_idec R4300_OP_SDR IDEC_RT_BASE_OFFSET"
definition d_SH :: r4300_idec where "d_SH = mk_idec R4300_OP_SH IDEC_RT_BASE_OFFSET"
definition d_SLL :: r4300_idec where "d_SLL = mk_idec R4300_OP_SLL IDEC_RD_RT_SA"
definition d_SLLV :: r4300_idec where "d_SLLV = mk_idec R4300_OP_SLLV IDEC_RD_RT_RS"
definition d_SLT :: r4300_idec where "d_SLT = mk_idec R4300_OP_SLT IDEC_RD_RS_RT"
definition d_SLTI :: r4300_idec where "d_SLTI = mk_idec R4300_OP_SLTI IDEC_RT_RS_SIMM"
definition d_SLTIU :: r4300_idec where "d_SLTIU = mk_idec R4300_OP_SLTIU IDEC_RT_RS_SIMM"
definition d_SLTU :: r4300_idec where "d_SLTU = mk_idec R4300_OP_SLTU IDEC_RD_RS_RT"
definition d_SRA :: r4300_idec where "d_SRA = mk_idec R4300_OP_SRA IDEC_RD_RT_SA"
definition d_SRAV :: r4300_idec where "d_SRAV = mk_idec R4300_OP_SRAV IDEC_RD_RT_RS"
definition d_SRL :: r4300_idec where "d_SRL = mk_idec R4300_OP_SRL IDEC_RD_RT_SA"
definition d_SRLV :: r4300_idec where "d_SRLV = mk_idec R4300_OP_SRLV IDEC_RD_RT_RS"
definition d_SUB :: r4300_idec where "d_SUB = mk_idec R4300_OP_SUB IDEC_RD_RS_RT"
definition d_SUBU :: r4300_idec where "d_SUBU = mk_idec R4300_OP_SUBU IDEC_RD_RS_RT"
definition d_SW :: r4300_idec where "d_SW = mk_idec R4300_OP_SW IDEC_RT_BASE_OFFSET"
definition d_SWC1 :: r4300_idec where "d_SWC1 = mk_idec R4300_OP_SWC1 IDEC_FT32_BASE_OFFSET"
definition d_SWC2 :: r4300_idec where "d_SWC2 = mk_idec R4300_OP_SWC2 IDEC_CPR2_BASE_OFFSET"
definition d_SWL :: r4300_idec where "d_SWL = mk_idec R4300_OP_SWL IDEC_RT_BASE_OFFSET"
definition d_SWR :: r4300_idec where "d_SWR = mk_idec R4300_OP_SWR IDEC_RT_BASE_OFFSET"
definition d_SYNC :: r4300_idec where "d_SYNC = mk_idec R4300_OP_SYNC IDEC_NONE"
definition d_SYSCALL :: r4300_idec where "d_SYSCALL = mk_idec R4300_OP_SYSCALL IDEC_NONE"
definition d_TEQ :: r4300_idec where "d_TEQ = mk_idec R4300_OP_TEQ IDEC_RS_RT"
definition d_TEQI :: r4300_idec where "d_TEQI = mk_idec R4300_OP_TEQI IDEC_RS_SIMM"
definition d_TGE :: r4300_idec where "d_TGE = mk_idec R4300_OP_TGE IDEC_RS_RT"
definition d_TGEI :: r4300_idec where "d_TGEI = mk_idec R4300_OP_TGEI IDEC_RS_SIMM"
definition d_TGEIU :: r4300_idec where "d_TGEIU = mk_idec R4300_OP_TGEIU IDEC_RS_SIMM"
definition d_TGEU :: r4300_idec where "d_TGEU = mk_idec R4300_OP_TGEU IDEC_RS_RT"
definition d_TLBP :: r4300_idec where "d_TLBP = mk_idec R4300_OP_TLBP IDEC_NONE"
definition d_TLBR :: r4300_idec where "d_TLBR = mk_idec R4300_OP_TLBR IDEC_NONE"
definition d_TLBWI :: r4300_idec where "d_TLBWI = mk_idec R4300_OP_TLBWI IDEC_NONE"
definition d_TLBWR :: r4300_idec where "d_TLBWR = mk_idec R4300_OP_TLBWR IDEC_NONE"
definition d_TLT :: r4300_idec where "d_TLT = mk_idec R4300_OP_TLT IDEC_RS_RT"
definition d_TLTI :: r4300_idec where "d_TLTI = mk_idec R4300_OP_TLTI IDEC_RS_SIMM"
definition d_TLTIU :: r4300_idec where "d_TLTIU = mk_idec R4300_OP_TLTIU IDEC_RS_SIMM"
definition d_TLTU :: r4300_idec where "d_TLTU = mk_idec R4300_OP_TLTU IDEC_RS_RT"
definition d_TNE :: r4300_idec where "d_TNE = mk_idec R4300_OP_TNE IDEC_RS_RT"
definition d_TNEI :: r4300_idec where "d_TNEI = mk_idec R4300_OP_TNEI IDEC_RS_SIMM"
definition d_XOR :: r4300_idec where "d_XOR = mk_idec R4300_OP_XOR IDEC_RD_RS_RT"
definition d_XORI :: r4300_idec where "d_XORI = mk_idec R4300_OP_XORI IDEC_RT_RS_ZIMM"

section \<open>Tables\<close>

definition main_ops :: "r4300_idec list" where
  "main_ops =
     [d_RESERVED, d_RESERVED, d_J, d_JAL, d_BEQ, d_BNE, d_BLEZ, d_BGTZ,
      d_ADDI, d_ADDIU, d_SLTI, d_SLTIU, d_ANDI, d_ORI, d_XORI, d_LUI,
      d_RESERVED, d_RESERVED, d_RESERVED, d_RESERVED, d_BEQL, d_BNEL, d_BLEZL, d_BGTZL,
      d_DADDI, d_DADDIU, d_LDL, d_LDR, d_RESERVED, d_RESERVED, d_RESERVED, d_RESERVED,
      d_LB, d_LH, d_LWL, d_LW, d_LBU, d_LHU, d_LWR, d_LWU,
      d_SB, d_SH, d_SWL, d_SW, d_SDL, d_SDR, d_SWR, d_CACHE,
      d_LL, d_LWC1, d_LWC2, d_RESERVED, d_LLD, d_LDC1, d_LDC2, d_LD,
      d_SC, d_SWC1, d_SWC2, d_RESERVED, d_SCD, d_SDC1, d_SDC2, d_SD]"

definition special_ops :: "r4300_idec list" where
  "special_ops =
     [d_SLL, d_RESERVED, d_SRL, d_SRA, d_SLLV, d_RESERVED, d_SRLV, d_SRAV,
      d_JR, d_JALR, d_RESERVED, d_RESERVED, d_SYSCALL, d_BREAK, d_RESERVED, d_SYNC,
      d_MFHI, d_MTHI, d_MFLO, d_MTLO, d_DSLLV, d_RESERVED, d_DSRLV, d_DSRAV,
      d_MULT, d_MULTU, d_DIV, d_DIVU, d_DMULT, d_DMULTU, d_DDIV, d_DDIVU,
      d_ADD, d_ADDU, d_SUB, d_SUBU, d_AND, d_OR, d_XOR, d_NOR,
      d_RESERVED, d_RESERVED, d_SLT, d_SLTU, d_DADD, d_DADDU, d_DSUB, d_DSUBU,
      d_TGE, d_TGEU, d_TLT, d_TLTU, d_TEQ, d_RESERVED, d_TNE, d_RESERVED,
      d_DSLL, d_RESERVED, d_DSRL, d_DSRA, d_DSLL32, d_RESERVED, d_DSRL32, d_DSRA32]"

definition regimm_ops :: "r4300_idec list" where
  "regimm_ops =
     [d_BLTZ, d_BGEZ, d_BLTZL, d_BGEZL, d_RESERVED, d_RESERVED, d_RESERVED, d_RESERVED,
      d_TGEI, d_TGEIU, d_TLTI, d_TLTIU, d_TEQI, d_RESERVED, d_TNEI, d_RESERVED,
      d_BLTZAL, d_BGEZAL, d_BLTZALL, d_BGEZALL, d_RESERVED, d_RESERVED, d_RESERVED, d_RESERVED,
      d_RESERVED, d_RESERVED, d_RESERVED, d_RESERVED, d_RESERVED, d_RESERVED, d_RESERVED, d_RESERVED]"

definition cop0_ops :: "r4300_idec list" where
  "cop0_ops =
     [d_MFC0, d_DMFC0, d_CFC0, d_RESERVED, d_MTC0, d_DMTC0, d_CTC0, d_RESERVED]"

definition bc0_ops :: "r4300_idec list" where
  "bc0_ops =
     [d_BC0F, d_BC0T, d_BC0FL, d_BC0TL, d_RESERVED, d_RESERVED, d_RESERVED, d_RESERVED]"

definition tlb_ops :: "r4300_idec list" where
  "tlb_ops =
     [d_NOP, d_TLBR, d_TLBWI, d_NOP, d_NOP, d_NOP, d_TLBWR, d_NOP,
      d_TLBP, d_NOP, d_NOP, d_NOP, d_NOP, d_NOP, d_NOP, d_NOP,
      d_NOP, d_NOP, d_NOP, d_NOP, d_NOP, d_NOP, d_NOP, d_NOP,
      d_ERET, d_NOP, d_NOP, d_NOP, d_NOP, d_NOP, d_NOP, d_NOP,
      d_NOP, d_NOP, d_NOP, d_NOP, d_NOP, d_NOP, d_NOP, d_NOP,
      d_NOP, d_NOP, d_NOP, d_NOP, d_NOP, d_NOP, d_NOP, d_NOP,
      d_NOP, d_NOP, d_NOP, d_NOP, d_NOP, d_NOP, d_NOP, d_NOP,
      d_NOP, d_NOP, d_NOP, d_NOP, d_NOP, d_NOP, d_NOP, d_NOP]"

definition cop1_ops :: "r4300_idec list" where
  "cop1_ops =
     [d_MFC1, d_DMFC1, d_CFC1, d_DCFC1, d_MTC1, d_DMTC1, d_CTC1, d_DCTC1]"

definition bc1_ops :: "r4300_idec list" where
  "bc1_ops =
     [d_BC1F, d_BC1T, d_BC1FL, d_BC1TL, d_RESERVED, d_RESERVED, d_RESERVED, d_RESERVED]"

definition fpu_ops :: "r4300_idec list" where
  "fpu_ops =
     [d_CP1_ADD, d_CP1_SUB, d_CP1_MUL, d_CP1_DIV, d_CP1_SQRT, d_CP1_ABS, d_CP1_MOV, d_CP1_NEG,
      d_CP1_ROUND_L, d_CP1_TRUNC_L, d_CP1_CEIL_L, d_CP1_FLOOR_L, d_CP1_ROUND_W, d_CP1_TRUNC_W, d_CP1_CEIL_W, d_CP1_FLOOR_W,
      d_RESERVED, d_RESERVED, d_RESERVED, d_RESERVED, d_RESERVED, d_RESERVED, d_RESERVED, d_RESERVED,
      d_RESERVED, d_RESERVED, d_RESERVED, d_RESERVED, d_RESERVED, d_RESERVED, d_RESERVED, d_RESERVED,
      d_CP1_CVT_S, d_CP1_CVT_D, d_RESERVED, d_RESERVED, d_CP1_CVT_W, d_CP1_CVT_L, d_RESERVED, d_RESERVED,
      d_RESERVED, d_RESERVED, d_RESERVED, d_RESERVED, d_RESERVED, d_RESERVED, d_RESERVED, d_RESERVED,
      d_CP1_C_F, d_CP1_C_UN, d_CP1_C_EQ, d_CP1_C_UEQ, d_CP1_C_OLT, d_CP1_C_ULT, d_CP1_C_OLE, d_CP1_C_ULE,
      d_CP1_C_SF, d_CP1_C_NGLE, d_CP1_C_SEQ, d_CP1_C_NGL, d_CP1_C_LT, d_CP1_C_NGE, d_CP1_C_LE, d_CP1_C_NGT]"

definition cop2_ops :: "r4300_idec list" where
  "cop2_ops =
     [d_MFC2, d_DMFC2, d_CFC2, d_DCFC2, d_MTC2, d_DMTC2, d_CTC2, d_DCTC2]"

definition bc2_ops :: "r4300_idec list" where
  "bc2_ops =
     [d_BC2F, d_BC2T, d_BC2FL, d_BC2TL, d_RESERVED, d_RESERVED, d_RESERVED, d_RESERVED]"

definition r4300_op_table :: "r4300_idec list" where
  "r4300_op_table =
     main_ops @ special_ops @ regimm_ops @ cop0_ops @ bc0_ops @ tlb_ops @ cop1_ops @ bc1_ops @ fpu_ops @ cop2_ops @ bc2_ops @ [d_NOP]"

record r4300_op_escape =
  e_offset :: nat
  e_shift :: nat
  e_mask :: u32

definition E_INV :: r4300_op_escape where "E_INV = \<lparr>e_offset = 0, e_shift = 0, e_mask = 0x00\<rparr>"
definition E_MAIN :: r4300_op_escape where "E_MAIN = \<lparr>e_offset = 0, e_shift = 26, e_mask = 0x3f\<rparr>"
definition E_SPECIAL :: r4300_op_escape where "E_SPECIAL = \<lparr>e_offset = 64, e_shift = 0, e_mask = 0x3f\<rparr>"
definition E_REGIMM :: r4300_op_escape where "E_REGIMM = \<lparr>e_offset = 128, e_shift = 16, e_mask = 0x1f\<rparr>"
definition E_COP0 :: r4300_op_escape where "E_COP0 = \<lparr>e_offset = 160, e_shift = 21, e_mask = 0x07\<rparr>"
definition E_BC0 :: r4300_op_escape where "E_BC0 = \<lparr>e_offset = 168, e_shift = 16, e_mask = 0x07\<rparr>"
definition E_TLB :: r4300_op_escape where "E_TLB = \<lparr>e_offset = 176, e_shift = 0, e_mask = 0x3f\<rparr>"
definition E_COP1 :: r4300_op_escape where "E_COP1 = \<lparr>e_offset = 240, e_shift = 21, e_mask = 0x07\<rparr>"
definition E_BC1 :: r4300_op_escape where "E_BC1 = \<lparr>e_offset = 248, e_shift = 16, e_mask = 0x07\<rparr>"
definition E_FPU :: r4300_op_escape where "E_FPU = \<lparr>e_offset = 256, e_shift = 0, e_mask = 0x3f\<rparr>"
definition E_COP2 :: r4300_op_escape where "E_COP2 = \<lparr>e_offset = 320, e_shift = 21, e_mask = 0x07\<rparr>"
definition E_BC2 :: r4300_op_escape where "E_BC2 = \<lparr>e_offset = 328, e_shift = 16, e_mask = 0x07\<rparr>"

definition r4300_escapes_table :: "r4300_op_escape list" where
  "r4300_escapes_table =
     replicate 4 E_SPECIAL @ replicate 4 E_REGIMM @ replicate 56 E_MAIN @
     [E_COP0, E_BC0, E_TLB, E_TLB, E_COP1, E_BC1, E_FPU, E_FPU, E_COP2, E_BC2, E_INV, E_INV] @ replicate 180 E_MAIN"

section \<open>Decoding a word\<close>

definition r4300_get_idec :: "u32 \<Rightarrow> r4300_idec" where
  "r4300_get_idec iw =
     (if iw = 0 then r4300_op_table ! 336
      else let escape = r4300_escapes_table ! unat (drop_bit 24 iw)
           in r4300_op_table ! (e_offset escape + unat (drop_bit (e_shift escape) iw AND e_mask escape)))"

definition sign_extend :: "u32 \<Rightarrow> u16 \<Rightarrow> u64" where
  "sign_extend x m = ucast (x XOR ucast m) - ucast m"

definition idec_imm :: "u32 \<Rightarrow> r4300_idec \<Rightarrow> u64" where
  "idec_imm iw idec = push_bit (i_lshift idec) (sign_extend (iw AND i_mask idec) (i_smask idec))"

text \<open>Where in the core a register field points to; \<open>At_none\<close> is offset 0.\<close>

datatype core_ref = At_none | At_reg nat | At_cp0 nat | At_cp1_s nat | At_cp1_d nat | At_fcr0 | At_fcr31

text \<open>\<^verbatim>\<open>idec_u53\<close> returns the offset and the number of the register; \<open>None\<close> is the failed assertion.\<close>

definition idec_u53 :: "u32 \<Rightarrow> u8 \<Rightarrow> (core_ref \<times> nat) option" where
  "idec_u53 iw u =
     (let r = unat (drop_bit (U53_SHIFT u) iw AND 0x1f) in
      case U53_TYPE u of
        None \<Rightarrow> None
      | Some IDEC_REGTYPE_NONE \<Rightarrow> Some (At_none, r)
      | Some IDEC_REGTYPE_GPR \<Rightarrow> Some (At_reg r, r)
      | Some IDEC_REGTYPE_CPR0 \<Rightarrow> Some (At_cp0 r, r)
      | Some IDEC_REGTYPE_FPR32 \<Rightarrow> Some (At_cp1_s r, r)
      | Some IDEC_REGTYPE_FPR64 \<Rightarrow> Some (At_cp1_d r, r)
      | Some IDEC_REGTYPE_FPR \<Rightarrow>
          (let fmt = unat (drop_bit (U53_SHIFT U53_FMT) iw AND 0x1f) in
           if fmt = 16 \<or> fmt = 20 then Some (At_cp1_s r, r)
           else if fmt = 17 \<or> fmt = 21 then Some (At_cp1_d r, r)
           else Some (At_none, r))
      | Some IDEC_REGTYPE_FCR \<Rightarrow> Some (if r = 0 then At_fcr0 else At_fcr31, r))"

section \<open>Evaluation\<close>

lemma u53_shift [simp]:
  "U53_SHIFT U53_NONE = 0"
  "U53_SHIFT U53_SA = 6"
  "U53_SHIFT U53_RD = 11"
  "U53_SHIFT U53_RT = 16"
  "U53_SHIFT U53_RS = 21"
  "U53_SHIFT U53_FD = 6"
  "U53_SHIFT U53_FDS = 6"
  "U53_SHIFT U53_FDD = 6"
  "U53_SHIFT U53_FDW = 6"
  "U53_SHIFT U53_FDL = 6"
  "U53_SHIFT U53_FCR = 11"
  "U53_SHIFT U53_FS = 11"
  "U53_SHIFT U53_FS32 = 11"
  "U53_SHIFT U53_FS64 = 11"
  "U53_SHIFT U53_FT = 16"
  "U53_SHIFT U53_FT32 = 16"
  "U53_SHIFT U53_FT64 = 16"
  "U53_SHIFT U53_FMT = 21"
  "U53_SHIFT U53_CACHEOP = 16"
  "U53_SHIFT U53_CPR0 = 11"
  "U53_SHIFT U53_CCR0 = 11"
  "U53_SHIFT U53_CCR2 = 11"
  "U53_SHIFT U53_CPR2D = 11"
  "U53_SHIFT U53_CPR2T = 16"
  by (simp_all add: U53_SHIFT_def U53_def U53_NONE_def U53_SA_def U53_RD_def U53_RT_def U53_RS_def U53_FD_def U53_FDS_def U53_FDD_def U53_FDW_def U53_FDL_def U53_FCR_def U53_FS_def U53_FS32_def U53_FS64_def U53_FT_def U53_FT32_def U53_FT64_def U53_FMT_def U53_CACHEOP_def U53_CPR0_def U53_CCR0_def U53_CCR2_def U53_CPR2D_def U53_CPR2T_def)

lemma u53_type [simp]:
  "U53_TYPE U53_NONE = Some IDEC_REGTYPE_NONE"
  "U53_TYPE U53_SA = Some IDEC_REGTYPE_NONE"
  "U53_TYPE U53_RD = Some IDEC_REGTYPE_GPR"
  "U53_TYPE U53_RT = Some IDEC_REGTYPE_GPR"
  "U53_TYPE U53_RS = Some IDEC_REGTYPE_GPR"
  "U53_TYPE U53_FD = Some IDEC_REGTYPE_FPR"
  "U53_TYPE U53_FDS = Some IDEC_REGTYPE_FPR32"
  "U53_TYPE U53_FDD = Some IDEC_REGTYPE_FPR64"
  "U53_TYPE U53_FDW = Some IDEC_REGTYPE_FPR32"
  "U53_TYPE U53_FDL = Some IDEC_REGTYPE_FPR64"
  "U53_TYPE U53_FCR = Some IDEC_REGTYPE_FCR"
  "U53_TYPE U53_FS = Some IDEC_REGTYPE_FPR"
  "U53_TYPE U53_FS32 = Some IDEC_REGTYPE_FPR32"
  "U53_TYPE U53_FS64 = Some IDEC_REGTYPE_FPR64"
  "U53_TYPE U53_FT = Some IDEC_REGTYPE_FPR"
  "U53_TYPE U53_FT32 = Some IDEC_REGTYPE_FPR32"
  "U53_TYPE U53_FT64 = Some IDEC_REGTYPE_FPR64"
  "U53_TYPE U53_FMT = Some IDEC_REGTYPE_NONE"
  "U53_TYPE U53_CACHEOP = Some IDEC_REGTYPE_NONE"
  "U53_TYPE U53_CPR0 = Some IDEC_REGTYPE_CPR0"
  "U53_TYPE U53_CCR0 = Some IDEC_REGTYPE_NONE"
  "U53_TYPE U53_CCR2 = Some IDEC_REGTYPE_NONE"
  "U53_TYPE U53_CPR2D = Some IDEC_REGTYPE_NONE"
  "U53_TYPE U53_CPR2T = Some IDEC_REGTYPE_NONE"
  by (simp_all add: U53_TYPE_def U53_def U53_NONE_def U53_SA_def U53_RD_def U53_RT_def U53_RS_def U53_FD_def U53_FDS_def U53_FDD_def U53_FDW_def U53_FDL_def U53_FCR_def U53_FS_def U53_FS32_def U53_FS64_def U53_FT_def U53_FT32_def U53_FT64_def U53_FMT_def U53_CACHEOP_def U53_CPR0_def U53_CCR0_def U53_CCR2_def U53_CPR2D_def U53_CPR2T_def)

lemmas shape_defs = mk_idec_def IDEC_NONE_def IDEC_CACHEOP_BASE_OFFSET_def IDEC_FD_FS_FMT_def IDEC_FDS_FS_FMT_def IDEC_FDD_FS_FMT_def IDEC_FDW_FS_FMT_def IDEC_FDL_FS_FMT_def IDEC_FD_FS_FT_FMT_def IDEC_FS_FT_FMT_def IDEC_OFFSET_def IDEC_RD_def IDEC_RD_RS_def IDEC_RD_RS_RT_def IDEC_RD_RT_RS_def IDEC_RD_RT_SA_def IDEC_RS_def IDEC_RS_OFFSET_def IDEC_RS_RT_def IDEC_RS_RT_OFFSET_def IDEC_RS_SIMM_def IDEC_RT_BASE_OFFSET_def IDEC_CPR2_BASE_OFFSET_def IDEC_FT32_BASE_OFFSET_def IDEC_FT64_BASE_OFFSET_def IDEC_RT_LUI_def IDEC_RT_CPR0_def IDEC_RT_FS32_def IDEC_RT_FS64_def IDEC_RT_CPR2_def IDEC_RT_CCR0_def IDEC_RT_FCR_def IDEC_RT_CCR2_def IDEC_RT_RS_SIMM_def IDEC_RT_RS_ZIMM_def IDEC_TARGET_def

lemmas imm_defs = IMM_NONE_def IMM_OFFSET_def IMM_OFFSET4_def IMM_LUI_def IMM_SIMM_def IMM_ZIMM_def IMM_TARGET_def

lemma decoder_fields [simp]:
  "opcode d_RESERVED = 0"
  "opcode d_ADD = 1"
  "opcode d_ADDI = 2"
  "opcode d_ADDIU = 3"
  "opcode d_ADDU = 4"
  "opcode d_AND = 5"
  "opcode d_ANDI = 6"
  "opcode d_BC0F = 7"
  "opcode d_BC1F = 19"
  "opcode d_BC2F = 31"
  "opcode d_BC0FL = 10"
  "opcode d_BC1FL = 22"
  "opcode d_BC2FL = 34"
  "opcode d_BC0T = 13"
  "opcode d_BC1T = 25"
  "opcode d_BC2T = 37"
  "opcode d_BC0TL = 16"
  "opcode d_BC1TL = 28"
  "opcode d_BC2TL = 40"
  "opcode d_BEQ = 43"
  "opcode d_BEQL = 46"
  "opcode d_BGEZ = 49"
  "opcode d_BGEZAL = 52"
  "opcode d_BGEZALL = 55"
  "opcode d_BGEZL = 58"
  "opcode d_BGTZ = 61"
  "opcode d_BGTZL = 64"
  "opcode d_BLEZ = 67"
  "opcode d_BLEZL = 70"
  "opcode d_BLTZ = 73"
  "opcode d_BLTZAL = 76"
  "opcode d_BLTZALL = 79"
  "opcode d_BLTZL = 82"
  "opcode d_BNE = 85"
  "opcode d_BNEL = 88"
  "opcode d_BREAK = 91"
  "opcode d_CACHE = 92"
  "opcode d_CFC0 = 93"
  "opcode d_CFC1 = 94"
  "opcode d_DCFC1 = 95"
  "opcode d_CFC2 = 96"
  "opcode d_DCFC2 = 97"
  "opcode d_CP1_ABS = 98"
  "opcode d_CP1_ADD = 99"
  "opcode d_CP1_C_EQ = 102"
  "opcode d_CP1_C_F = 103"
  "opcode d_CP1_C_LE = 104"
  "opcode d_CP1_C_LT = 105"
  "opcode d_CP1_C_NGE = 106"
  "opcode d_CP1_C_NGLE = 108"
  "opcode d_CP1_C_NGL = 107"
  "opcode d_CP1_C_NGT = 109"
  "opcode d_CP1_C_OLE = 110"
  "opcode d_CP1_C_OLT = 111"
  "opcode d_CP1_C_SEQ = 112"
  "opcode d_CP1_C_SF = 113"
  "opcode d_CP1_C_UEQ = 114"
  "opcode d_CP1_C_ULE = 115"
  "opcode d_CP1_C_ULT = 116"
  "opcode d_CP1_C_UN = 117"
  "opcode d_CP1_CEIL_L = 100"
  "opcode d_CP1_CEIL_W = 101"
  "opcode d_CP1_CVT_D = 118"
  "opcode d_CP1_CVT_L = 119"
  "opcode d_CP1_CVT_S = 120"
  "opcode d_CP1_CVT_W = 121"
  "opcode d_CP1_DIV = 122"
  "opcode d_CP1_FLOOR_L = 123"
  "opcode d_CP1_FLOOR_W = 124"
  "opcode d_CP1_MOV = 125"
  "opcode d_CP1_MUL = 126"
  "opcode d_CP1_NEG = 127"
  "opcode d_CP1_ROUND_L = 128"
  "opcode d_CP1_ROUND_W = 129"
  "opcode d_CP1_SQRT = 130"
  "opcode d_CP1_SUB = 131"
  "opcode d_CP1_TRUNC_L = 132"
  "opcode d_CP1_TRUNC_W = 133"
  "opcode d_CTC0 = 134"
  "opcode d_CTC1 = 135"
  "opcode d_DCTC1 = 136"
  "opcode d_CTC2 = 137"
  "opcode d_DCTC2 = 138"
  "opcode d_DADD = 139"
  "opcode d_DADDI = 140"
  "opcode d_DADDIU = 141"
  "opcode d_DADDU = 142"
  "opcode d_DDIV = 143"
  "opcode d_DDIVU = 144"
  "opcode d_DIV = 145"
  "opcode d_DIVU = 146"
  "opcode d_DMFC0 = 147"
  "opcode d_DMFC1 = 148"
  "opcode d_DMFC2 = 149"
  "opcode d_DMTC0 = 150"
  "opcode d_DMTC1 = 151"
  "opcode d_DMTC2 = 152"
  "opcode d_DMULT = 153"
  "opcode d_DMULTU = 154"
  "opcode d_DSLL = 155"
  "opcode d_DSLLV = 157"
  "opcode d_DSLL32 = 156"
  "opcode d_DSRA = 158"
  "opcode d_DSRAV = 160"
  "opcode d_DSRA32 = 159"
  "opcode d_DSRL = 161"
  "opcode d_DSRLV = 163"
  "opcode d_DSRL32 = 162"
  "opcode d_DSUB = 164"
  "opcode d_DSUBU = 165"
  "opcode d_ERET = 166"
  "opcode d_J = 167"
  "opcode d_JAL = 170"
  "opcode d_JALR = 173"
  "opcode d_JR = 176"
  "opcode d_LB = 179"
  "opcode d_LBU = 180"
  "opcode d_LD = 181"
  "opcode d_LDC1 = 182"
  "opcode d_LDC2 = 183"
  "opcode d_LDL = 184"
  "opcode d_LDR = 185"
  "opcode d_LH = 186"
  "opcode d_LHU = 187"
  "opcode d_LL = 188"
  "opcode d_LLD = 189"
  "opcode d_LUI = 190"
  "opcode d_LW = 191"
  "opcode d_LWC1 = 192"
  "opcode d_LWC2 = 193"
  "opcode d_LWL = 194"
  "opcode d_LWR = 195"
  "opcode d_LWU = 196"
  "opcode d_MFC0 = 197"
  "opcode d_MFC1 = 198"
  "opcode d_MFC2 = 199"
  "opcode d_MFHI = 200"
  "opcode d_MFLO = 201"
  "opcode d_MTC0 = 202"
  "opcode d_MTC1 = 203"
  "opcode d_MTC2 = 204"
  "opcode d_MTHI = 205"
  "opcode d_MTLO = 206"
  "opcode d_MULT = 207"
  "opcode d_MULTU = 208"
  "opcode d_NOP = 209"
  "opcode d_NOR = 210"
  "opcode d_OR = 211"
  "opcode d_ORI = 212"
  "opcode d_SB = 213"
  "opcode d_SC = 214"
  "opcode d_SCD = 215"
  "opcode d_SD = 216"
  "opcode d_SDC1 = 217"
  "opcode d_SDC2 = 218"
  "opcode d_SDL = 219"
  "opcode d_SDR = 220"
  "opcode d_SH = 221"
  "opcode d_SLL = 222"
  "opcode d_SLLV = 223"
  "opcode d_SLT = 224"
  "opcode d_SLTI = 225"
  "opcode d_SLTIU = 226"
  "opcode d_SLTU = 227"
  "opcode d_SRA = 228"
  "opcode d_SRAV = 229"
  "opcode d_SRL = 230"
  "opcode d_SRLV = 231"
  "opcode d_SUB = 232"
  "opcode d_SUBU = 233"
  "opcode d_SW = 234"
  "opcode d_SWC1 = 235"
  "opcode d_SWC2 = 236"
  "opcode d_SWL = 237"
  "opcode d_SWR = 238"
  "opcode d_SYNC = 239"
  "opcode d_SYSCALL = 240"
  "opcode d_TEQ = 241"
  "opcode d_TEQI = 242"
  "opcode d_TGE = 243"
  "opcode d_TGEI = 244"
  "opcode d_TGEIU = 245"
  "opcode d_TGEU = 246"
  "opcode d_TLBP = 247"
  "opcode d_TLBR = 248"
  "opcode d_TLBWI = 249"
  "opcode d_TLBWR = 250"
  "opcode d_TLT = 251"
  "opcode d_TLTI = 252"
  "opcode d_TLTIU = 253"
  "opcode d_TLTU = 254"
  "opcode d_TNE = 255"
  "opcode d_TNEI = 256"
  "opcode d_XOR = 257"
  "opcode d_XORI = 258"
  by (simp_all add: mk_idec_def split_beta d_RESERVED_def d_ADD_def d_ADDI_def d_ADDIU_def d_ADDU_def d_AND_def d_ANDI_def d_BC0F_def d_BC1F_def d_BC2F_def d_BC0FL_def d_BC1FL_def d_BC2FL_def d_BC0T_def d_BC1T_def d_BC2T_def d_BC0TL_def d_BC1TL_def d_BC2TL_def d_BEQ_def d_BEQL_def d_BGEZ_def d_BGEZAL_def d_BGEZALL_def d_BGEZL_def d_BGTZ_def d_BGTZL_def d_BLEZ_def d_BLEZL_def d_BLTZ_def d_BLTZAL_def d_BLTZALL_def d_BLTZL_def d_BNE_def d_BNEL_def d_BREAK_def d_CACHE_def d_CFC0_def d_CFC1_def d_DCFC1_def d_CFC2_def d_DCFC2_def d_CP1_ABS_def d_CP1_ADD_def d_CP1_C_EQ_def d_CP1_C_F_def d_CP1_C_LE_def d_CP1_C_LT_def d_CP1_C_NGE_def d_CP1_C_NGLE_def d_CP1_C_NGL_def d_CP1_C_NGT_def d_CP1_C_OLE_def d_CP1_C_OLT_def d_CP1_C_SEQ_def d_CP1_C_SF_def d_CP1_C_UEQ_def d_CP1_C_ULE_def d_CP1_C_ULT_def d_CP1_C_UN_def d_CP1_CEIL_L_def d_CP1_CEIL_W_def d_CP1_CVT_D_def d_CP1_CVT_L_def d_CP1_CVT_S_def d_CP1_CVT_W_def d_CP1_DIV_def d_CP1_FLOOR_L_def d_CP1_FLOOR_W_def d_CP1_MOV_def d_CP1_MUL_def d_CP1_NEG_def d_CP1_ROUND_L_def d_CP1_ROUND_W_def d_CP1_SQRT_def d_CP1_SUB_def d_CP1_TRUNC_L_def d_CP1_TRUNC_W_def d_CTC0_def d_CTC1_def d_DCTC1_def d_CTC2_def d_DCTC2_def d_DADD_def d_DADDI_def d_DADDIU_def d_DADDU_def d_DDIV_def d_DDIVU_def d_DIV_def d_DIVU_def d_DMFC0_def d_DMFC1_def d_DMFC2_def d_DMTC0_def d_DMTC1_def d_DMTC2_def d_DMULT_def d_DMULTU_def d_DSLL_def d_DSLLV_def d_DSLL32_def d_DSRA_def d_DSRAV_def d_DSRA32_def d_DSRL_def d_DSRLV_def d_DSRL32_def d_DSUB_def d_DSUBU_def d_ERET_def d_J_def d_JAL_def d_JALR_def d_JR_def d_LB_def d_LBU_def d_LD_def d_LDC1_def d_LDC2_def d_LDL_def d_LDR_def d_LH_def d_LHU_def d_LL_def d_LLD_def d_LUI_def d_LW_def d_LWC1_def d_LWC2_def d_LWL_def d_LWR_def d_LWU_def d_MFC0_def d_MFC1_def d_MFC2_def d_MFHI_def d_MFLO_def d_MTC0_def d_MTC1_def d_MTC2_def d_MTHI_def d_MTLO_def d_MULT_def d_MULTU_def d_NOP_def d_NOR_def d_OR_def d_ORI_def d_SB_def d_SC_def d_SCD_def d_SD_def d_SDC1_def d_SDC2_def d_SDL_def d_SDR_def d_SH_def d_SLL_def d_SLLV_def d_SLT_def d_SLTI_def d_SLTIU_def d_SLTU_def d_SRA_def d_SRAV_def d_SRL_def d_SRLV_def d_SUB_def d_SUBU_def d_SW_def d_SWC1_def d_SWC2_def d_SWL_def d_SWR_def d_SYNC_def d_SYSCALL_def d_TEQ_def d_TEQI_def d_TGE_def d_TGEI_def d_TGEIU_def d_TGEU_def d_TLBP_def d_TLBR_def d_TLBWI_def d_TLBWR_def d_TLT_def d_TLTI_def d_TLTIU_def d_TLTU_def d_TNE_def d_TNEI_def d_XOR_def d_XORI_def)

lemmas decoder_defs = d_RESERVED_def d_ADD_def d_ADDI_def d_ADDIU_def d_ADDU_def d_AND_def d_ANDI_def d_BC0F_def d_BC1F_def d_BC2F_def d_BC0FL_def d_BC1FL_def d_BC2FL_def d_BC0T_def d_BC1T_def d_BC2T_def d_BC0TL_def d_BC1TL_def d_BC2TL_def d_BEQ_def d_BEQL_def d_BGEZ_def d_BGEZAL_def d_BGEZALL_def d_BGEZL_def d_BGTZ_def d_BGTZL_def d_BLEZ_def d_BLEZL_def d_BLTZ_def d_BLTZAL_def d_BLTZALL_def d_BLTZL_def d_BNE_def d_BNEL_def d_BREAK_def d_CACHE_def d_CFC0_def d_CFC1_def d_DCFC1_def d_CFC2_def d_DCFC2_def d_CP1_ABS_def d_CP1_ADD_def d_CP1_C_EQ_def d_CP1_C_F_def d_CP1_C_LE_def d_CP1_C_LT_def d_CP1_C_NGE_def d_CP1_C_NGLE_def d_CP1_C_NGL_def d_CP1_C_NGT_def d_CP1_C_OLE_def d_CP1_C_OLT_def d_CP1_C_SEQ_def d_CP1_C_SF_def d_CP1_C_UEQ_def d_CP1_C_ULE_def d_CP1_C_ULT_def d_CP1_C_UN_def d_CP1_CEIL_L_def d_CP1_CEIL_W_def d_CP1_CVT_D_def d_CP1_CVT_L_def d_CP1_CVT_S_def d_CP1_CVT_W_def d_CP1_DIV_def d_CP1_FLOOR_L_def d_CP1_FLOOR_W_def d_CP1_MOV_def d_CP1_MUL_def d_CP1_NEG_def d_CP1_ROUND_L_def d_CP1_ROUND_W_def d_CP1_SQRT_def d_CP1_SUB_def d_CP1_TRUNC_L_def d_CP1_TRUNC_W_def d_CTC0_def d_CTC1_def d_DCTC1_def d_CTC2_def d_DCTC2_def d_DADD_def d_DADDI_def d_DADDIU_def d_DADDU_def d_DDIV_def d_DDIVU_def d_DIV_def d_DIVU_def d_DMFC0_def d_DMFC1_def d_DMFC2_def d_DMTC0_def d_DMTC1_def d_DMTC2_def d_DMULT_def d_DMULTU_def d_DSLL_def d_DSLLV_def d_DSLL32_def d_DSRA_def d_DSRAV_def d_DSRA32_def d_DSRL_def d_DSRLV_def d_DSRL32_def d_DSUB_def d_DSUBU_def d_ERET_def d_J_def d_JAL_def d_JALR_def d_JR_def d_LB_def d_LBU_def d_LD_def d_LDC1_def d_LDC2_def d_LDL_def d_LDR_def d_LH_def d_LHU_def d_LL_def d_LLD_def d_LUI_def d_LW_def d_LWC1_def d_LWC2_def d_LWL_def d_LWR_def d_LWU_def d_MFC0_def d_MFC1_def d_MFC2_def d_MFHI_def d_MFLO_def d_MTC0_def d_MTC1_def d_MTC2_def d_MTHI_def d_MTLO_def d_MULT_def d_MULTU_def d_NOP_def d_NOR_def d_OR_def d_ORI_def d_SB_def d_SC_def d_SCD_def d_SD_def d_SDC1_def d_SDC2_def d_SDL_def d_SDR_def d_SH_def d_SLL_def d_SLLV_def d_SLT_def d_SLTI_def d_SLTIU_def d_SLTU_def d_SRA_def d_SRAV_def d_SRL_def d_SRLV_def d_SUB_def d_SUBU_def d_SW_def d_SWC1_def d_SWC2_def d_SWL_def d_SWR_def d_SYNC_def d_SYSCALL_def d_TEQ_def d_TEQI_def d_TGE_def d_TGEI_def d_TGEIU_def d_TGEU_def d_TLBP_def d_TLBR_def d_TLBWI_def d_TLBWR_def d_TLT_def d_TLTI_def d_TLTIU_def d_TLTU_def d_TNE_def d_TNEI_def d_XOR_def d_XORI_def

lemma table_sizes [simp]:
  "length main_ops = 64"
  "length special_ops = 64"
  "length regimm_ops = 32"
  "length cop0_ops = 8"
  "length bc0_ops = 8"
  "length tlb_ops = 64"
  "length cop1_ops = 8"
  "length bc1_ops = 8"
  "length fpu_ops = 64"
  "length cop2_ops = 8"
  "length bc2_ops = 8"
  by (simp_all add: main_ops_def special_ops_def regimm_ops_def cop0_ops_def bc0_ops_def tlb_ops_def cop1_ops_def bc1_ops_def fpu_ops_def cop2_ops_def bc2_ops_def)

end
