(* ===== verification/Cached_Table.thy ===== *)
theory Cached_Table
  imports Idec Interp
begin

text \<open>
  Decoding in the cached interpreter (\<^verbatim>\<open>src/src/device/r4300/cached_interp.c\<close>): \<^verbatim>\<open>r4300_decode\<close> turns an instruction word
  into a handler and its operands, once, so that the loop of the interpreter only calls handlers. The handlers are the
  instructions of \<^verbatim>\<open>mips_instructions.def\<close>, compiled a second time with macros that read the decoded operands; the model runs the
  same instructions on a word that holds these operands.

  The theorems compare this with the pure interpreter: on every word outside \<open>decoders_differ\<close> both select the same
  instruction with the same operands, and the jumps that stay inside a block do so.
\<close>

section \<open>Decoded instructions\<close>

text \<open>The union \<^verbatim>\<open>f\<close> of \<^verbatim>\<open>precomp_instr\<close>: its member \<^verbatim>\<open>i\<close>, \<^verbatim>\<open>j\<close>, \<^verbatim>\<open>r\<close>, \<^verbatim>\<open>lf\<close> or \<^verbatim>\<open>cf\<close> that was written last.\<close>

datatype operands =
    F_none
  | F_i core_ref core_ref u16
  | F_j u32
  | F_r core_ref core_ref core_ref nat nat
  | F_lf nat nat u16
  | F_cf nat nat nat

text \<open>
  The values of \<^verbatim>\<open>ops\<close>: the null pointer, the three functions for the flow of control, the entry of \<^verbatim>\<open>ci_table\<close> for
  an opcode, and the function for an opcode and a floating point format.
\<close>

datatype ops_fun = No_ops | NOTCOMPILED | NOTCOMPILED2 | FIN_BLOCK | Ops nat | Ops_fmt nat nat

record precomp_instr =
  ops :: ops_fun
  f_args :: operands
  addr :: u32

record precomp_block =
  blk :: "precomp_instr list option"
  blk_start :: u32
  blk_end :: u32
  xxhash :: u64

section \<open>Decoding\<close>

text \<open>0 is a regular jump, 1 an idle loop, 2 a jump out of the block.\<close>

definition infer_jump_sub_type :: "u32 \<Rightarrow> u32 \<Rightarrow> u32 \<Rightarrow> precomp_block \<Rightarrow> nat" where
  "infer_jump_sub_type target pc next_iw block =
     (if target = pc then (if next_iw = 0 then 1 else 0)
      else if target < blk_start block \<or> target \<ge> blk_end block \<or> pc = blk_end block - 4 then 2
      else 0)"

text \<open>The groups of \<^verbatim>\<open>case\<close> labels of \<^verbatim>\<open>r4300_decode\<close>.\<close>

datatype decode_kind = K_jalr | K_jr | K_jump | K_branch | K_rd | K_rt_i | K_lf | K_rt_r | K_cp1 | K_cvt_d | K_cvt_s | K_r | K_i | K_none

definition K_jalr_ops :: "nat list" where
  "K_jalr_ops =
     [R4300_OP_JALR]"

definition K_jr_ops :: "nat list" where
  "K_jr_ops =
     [R4300_OP_JR]"

definition K_jump_ops :: "nat list" where
  "K_jump_ops =
     [R4300_OP_J, R4300_OP_JAL]"

definition K_branch_ops :: "nat list" where
  "K_branch_ops =
     [R4300_OP_BC0F, R4300_OP_BC0FL, R4300_OP_BC0T, R4300_OP_BC0TL, R4300_OP_BC1F, R4300_OP_BC1FL, R4300_OP_BC1T,
     R4300_OP_BC1TL, R4300_OP_BC2F, R4300_OP_BC2FL, R4300_OP_BC2T, R4300_OP_BC2TL, R4300_OP_BEQ, R4300_OP_BEQL,
     R4300_OP_BGEZ, R4300_OP_BGEZAL, R4300_OP_BGEZALL, R4300_OP_BGEZL, R4300_OP_BGTZ, R4300_OP_BGTZL, R4300_OP_BLEZ,
     R4300_OP_BLEZL, R4300_OP_BLTZ, R4300_OP_BLTZAL, R4300_OP_BLTZALL, R4300_OP_BLTZL, R4300_OP_BNE, R4300_OP_BNEL]"

definition K_rd_ops :: "nat list" where
  "K_rd_ops =
     [R4300_OP_ADD, R4300_OP_ADDU, R4300_OP_AND, R4300_OP_DADD, R4300_OP_DADDU, R4300_OP_DSLL, R4300_OP_DSLL32,
     R4300_OP_DSLLV, R4300_OP_DSRA, R4300_OP_DSRA32, R4300_OP_DSRAV, R4300_OP_DSRL, R4300_OP_DSRL32, R4300_OP_DSRLV,
     R4300_OP_DSUB, R4300_OP_DSUBU, R4300_OP_MFHI, R4300_OP_MFLO, R4300_OP_NOR, R4300_OP_OR, R4300_OP_SLL,
     R4300_OP_SLLV, R4300_OP_SLT, R4300_OP_SLTU, R4300_OP_SRA, R4300_OP_SRAV, R4300_OP_SRL, R4300_OP_SRLV,
     R4300_OP_SUB, R4300_OP_SUBU, R4300_OP_XOR]"

definition K_rt_i_ops :: "nat list" where
  "K_rt_i_ops =
     [R4300_OP_ADDI, R4300_OP_ADDIU, R4300_OP_ANDI, R4300_OP_DADDI, R4300_OP_DADDIU, R4300_OP_LB, R4300_OP_LBU,
     R4300_OP_LD, R4300_OP_LDL, R4300_OP_LDR, R4300_OP_LH, R4300_OP_LHU, R4300_OP_LL, R4300_OP_LLD, R4300_OP_LUI,
     R4300_OP_LW, R4300_OP_LWL, R4300_OP_LWR, R4300_OP_LWU, R4300_OP_ORI, R4300_OP_SC, R4300_OP_SLTI, R4300_OP_SLTIU,
     R4300_OP_XORI]"

definition K_lf_ops :: "nat list" where
  "K_lf_ops =
     [R4300_OP_LDC1, R4300_OP_LWC1, R4300_OP_SDC1, R4300_OP_SWC1]"

definition K_rt_r_ops :: "nat list" where
  "K_rt_r_ops =
     [R4300_OP_CFC0, R4300_OP_CFC1, R4300_OP_CFC2, R4300_OP_DCFC1, R4300_OP_DCFC2, R4300_OP_DMFC0, R4300_OP_DMFC1,
     R4300_OP_DMFC2, R4300_OP_MFC0, R4300_OP_MFC1, R4300_OP_MFC2]"

definition K_cp1_ops :: "nat list" where
  "K_cp1_ops =
     [R4300_OP_CP1_ABS, R4300_OP_CP1_ADD, R4300_OP_CP1_CEIL_L, R4300_OP_CP1_CEIL_W, R4300_OP_CP1_C_EQ,
     R4300_OP_CP1_C_F, R4300_OP_CP1_C_LE, R4300_OP_CP1_C_LT, R4300_OP_CP1_C_NGE, R4300_OP_CP1_C_NGL,
     R4300_OP_CP1_C_NGLE, R4300_OP_CP1_C_NGT, R4300_OP_CP1_C_OLE, R4300_OP_CP1_C_OLT, R4300_OP_CP1_C_SEQ,
     R4300_OP_CP1_C_SF, R4300_OP_CP1_C_UEQ, R4300_OP_CP1_C_ULE, R4300_OP_CP1_C_ULT, R4300_OP_CP1_C_UN,
     R4300_OP_CP1_CVT_L, R4300_OP_CP1_CVT_W, R4300_OP_CP1_DIV, R4300_OP_CP1_FLOOR_L, R4300_OP_CP1_FLOOR_W,
     R4300_OP_CP1_MOV, R4300_OP_CP1_MUL, R4300_OP_CP1_NEG, R4300_OP_CP1_ROUND_L, R4300_OP_CP1_ROUND_W,
     R4300_OP_CP1_SQRT, R4300_OP_CP1_SUB, R4300_OP_CP1_TRUNC_L, R4300_OP_CP1_TRUNC_W]"

definition K_cvt_d_ops :: "nat list" where
  "K_cvt_d_ops =
     [R4300_OP_CP1_CVT_D]"

definition K_cvt_s_ops :: "nat list" where
  "K_cvt_s_ops =
     [R4300_OP_CP1_CVT_S]"

definition K_r_ops :: "nat list" where
  "K_r_ops =
     [R4300_OP_CTC0, R4300_OP_CTC1, R4300_OP_DCTC1, R4300_OP_CTC2, R4300_OP_DCTC2, R4300_OP_DDIV, R4300_OP_DDIVU,
     R4300_OP_DIV, R4300_OP_DIVU, R4300_OP_DMTC0, R4300_OP_DMTC1, R4300_OP_DMTC2, R4300_OP_DMULT, R4300_OP_DMULTU,
     R4300_OP_MTC0, R4300_OP_MTC1, R4300_OP_MTC2, R4300_OP_MTHI, R4300_OP_MTLO, R4300_OP_MULT, R4300_OP_MULTU,
     R4300_OP_NOP, R4300_OP_TEQ, R4300_OP_TGE, R4300_OP_TGEU, R4300_OP_TLT, R4300_OP_TLTU, R4300_OP_TNE]"

definition K_i_ops :: "nat list" where
  "K_i_ops =
     [R4300_OP_LDC2, R4300_OP_LWC2, R4300_OP_SB, R4300_OP_SCD, R4300_OP_SD, R4300_OP_SDC2, R4300_OP_SDL,
     R4300_OP_SDR, R4300_OP_SH, R4300_OP_SW, R4300_OP_SWC2, R4300_OP_SWL, R4300_OP_SWR, R4300_OP_TEQI, R4300_OP_TGEI,
     R4300_OP_TGEIU, R4300_OP_TLTI, R4300_OP_TLTIU, R4300_OP_TNEI]"

definition K_none_ops :: "nat list" where
  "K_none_ops =
     [R4300_OP_BREAK, R4300_OP_CACHE, R4300_OP_ERET, R4300_OP_SYNC, R4300_OP_SYSCALL, R4300_OP_TLBP, R4300_OP_TLBR,
     R4300_OP_TLBWI, R4300_OP_TLBWR, R4300_OP_RESERVED]"

definition decode_kind :: "nat \<Rightarrow> decode_kind option" where
  "decode_kind op =
     map_option snd (find (\<lambda>(labels, _). op \<in> set labels)
       [(K_jalr_ops, K_jalr), (K_jr_ops, K_jr), (K_jump_ops, K_jump), (K_branch_ops, K_branch), (K_rd_ops, K_rd),
        (K_rt_i_ops, K_rt_i), (K_lf_ops, K_lf), (K_rt_r_ops, K_rt_r), (K_cp1_ops, K_cp1), (K_cvt_d_ops, K_cvt_d),
        (K_cvt_s_ops, K_cvt_s), (K_r_ops, K_r), (K_i_ops, K_i), (K_none_ops, K_none)])"

text \<open>The members of the union, with the number that is left in \<^verbatim>\<open>dummy\<close>: \<^verbatim>\<open>rt\<close>, or the format.\<close>

definition r_operands :: "r4300_idec \<Rightarrow> u32 \<Rightarrow> (operands \<times> nat) option" where
  "r_operands idec iw =
     (case (idec_u53 iw (u53 idec ! 2), idec_u53 iw (u53 idec ! 1), idec_u53 iw (u53 idec ! 0), idec_u53 iw (u53 idec ! 3)) of
        (Some (rs, _), Some (rt, nrt), Some (rd, nrd), Some (_, sa)) \<Rightarrow> Some (F_r rs rt rd sa nrd, nrt)
      | _ \<Rightarrow> None)"

definition i_operands :: "r4300_idec \<Rightarrow> u32 \<Rightarrow> (operands \<times> nat) option" where
  "i_operands idec iw =
     (case (idec_u53 iw (u53 idec ! 2), idec_u53 iw (u53 idec ! 1)) of
        (Some (rs, _), Some (rt, nrt)) \<Rightarrow> Some (F_i rs rt (ucast iw), nrt)
      | _ \<Rightarrow> None)"

definition lf_operands :: "r4300_idec \<Rightarrow> u32 \<Rightarrow> operands option" where
  "lf_operands idec iw =
     (case (idec_u53 iw (u53 idec ! 2), idec_u53 iw (u53 idec ! 1)) of
        (Some (_, base), Some (_, ft)) \<Rightarrow> Some (F_lf base ft (ucast iw))
      | _ \<Rightarrow> None)"

definition cf_operands :: "r4300_idec \<Rightarrow> u32 \<Rightarrow> (operands \<times> nat) option" where
  "cf_operands idec iw =
     (case (idec_u53 iw (u53 idec ! 3), idec_u53 iw (u53 idec ! 2), idec_u53 iw (u53 idec ! 1), idec_u53 iw (u53 idec ! 0)) of
        (Some (_, fmt), Some (_, fs), Some (_, ft), Some (_, fd)) \<Rightarrow> Some (F_cf ft fs fd, fmt)
      | _ \<Rightarrow> None)"

text \<open>The end of \<^verbatim>\<open>r4300_decode\<close>, \<^verbatim>\<open>inst->ops = ci_table[opcode]\<close>, and the return from inside the floating point cases.\<close>

definition with_ops :: "precomp_instr \<Rightarrow> operands \<Rightarrow> nat \<Rightarrow> precomp_instr \<times> nat" where
  "with_ops inst f op = (inst\<lparr>ops := Ops op, f_args := f\<rparr>, op)"

definition with_format :: "precomp_instr \<Rightarrow> r4300_idec \<Rightarrow> nat list \<Rightarrow> operands \<times> nat \<Rightarrow> precomp_instr \<times> nat" where
  "with_format inst idec fmts ff =
     (case ff of (f, fmt) \<Rightarrow>
        if fmt \<in> set fmts then (inst\<lparr>ops := Ops_fmt (opcode idec) fmt, f_args := f\<rparr>, opcode idec)
        else with_ops inst f R4300_OP_RESERVED)"

definition jump_sub :: "precomp_instr \<Rightarrow> u32 \<Rightarrow> u32 \<Rightarrow> precomp_block \<Rightarrow> operands \<times> nat \<Rightarrow> nat \<Rightarrow> precomp_instr \<times> nat" where
  "jump_sub inst iw next_iw block ff op =
     with_ops inst (fst ff) (op + infer_jump_sub_type (addr inst + scast (ucast iw :: u16) * 4 + 4) (addr inst) next_iw block)"

text \<open>\<open>None\<close> is a failed assertion: an invalid opcode or register type.\<close>

definition r4300_decode :: "precomp_instr \<Rightarrow> r4300_idec \<Rightarrow> u32 \<Rightarrow> u32 \<Rightarrow> precomp_block \<Rightarrow> (precomp_instr \<times> nat) option" where
  "r4300_decode inst idec iw next_iw block =
     (let op = opcode idec in
      case decode_kind op of
        None \<Rightarrow> None
      | Some K_jalr \<Rightarrow> map_option (\<lambda>(f, _). with_ops inst f (op + 2)) (r_operands idec iw)
      | Some K_jr \<Rightarrow> map_option (\<lambda>(f, _). with_ops inst f (op + 2)) (i_operands idec iw)
      | Some K_jump \<Rightarrow>
          Some (with_ops inst (F_j (iw AND 0x3ffffff))
            (op + infer_jump_sub_type ((addr inst AND NOT 0xfffffff) OR (ucast (idec_imm iw idec) AND 0xfffffff)) (addr inst) next_iw block))
      | Some K_branch \<Rightarrow> map_option (\<lambda>ff. jump_sub inst iw next_iw block ff op) (i_operands idec iw)
      | Some K_rd \<Rightarrow>
          map_option (\<lambda>(f, _). with_ops inst f (case f of F_r _ _ _ _ nrd \<Rightarrow> if nrd = 0 then R4300_OP_NOP else op | _ \<Rightarrow> op))
            (r_operands idec iw)
      | Some K_rt_i \<Rightarrow> map_option (\<lambda>(f, rt). with_ops inst f (if rt = 0 then R4300_OP_NOP else op)) (i_operands idec iw)
      | Some K_lf \<Rightarrow> map_option (\<lambda>f. with_ops inst f op) (lf_operands idec iw)
      | Some K_rt_r \<Rightarrow> map_option (\<lambda>(f, rt). with_ops inst f (if rt = 0 then R4300_OP_NOP else op)) (r_operands idec iw)
      | Some K_cp1 \<Rightarrow> map_option (with_format inst idec [0x10, 0x11]) (cf_operands idec iw)
      | Some K_cvt_d \<Rightarrow> map_option (with_format inst idec [0x10, 0x14, 0x15]) (cf_operands idec iw)
      | Some K_cvt_s \<Rightarrow> map_option (with_format inst idec [0x11, 0x14, 0x15]) (cf_operands idec iw)
      | Some K_r \<Rightarrow> map_option (\<lambda>(f, _). with_ops inst f op) (r_operands idec iw)
      | Some K_i \<Rightarrow> map_option (\<lambda>(f, _). with_ops inst f op) (i_operands idec iw)
      | Some K_none \<Rightarrow> Some (with_ops inst (f_args inst) op))"

section \<open>Handlers\<close>

text \<open>
  The macros \<^verbatim>\<open>rrs\<close>, \<^verbatim>\<open>irs\<close>, \<^verbatim>\<open>rrt\<close>, \<^verbatim>\<open>irt\<close>, \<^verbatim>\<open>rrd\<close>, \<^verbatim>\<open>rfs\<close>, \<^verbatim>\<open>rsa\<close>, \<^verbatim>\<open>iimmediate\<close>, \<^verbatim>\<open>jinst_index\<close>, \<^verbatim>\<open>lfbase\<close>, \<^verbatim>\<open>lfft\<close>,
  \<^verbatim>\<open>lfoffset\<close>, \<^verbatim>\<open>cfft\<close>, \<^verbatim>\<open>cffs\<close> and \<^verbatim>\<open>cffd\<close>. The members \<^verbatim>\<open>i\<close> and \<^verbatim>\<open>r\<close> of the union begin with the same two pointers.
\<close>

datatype operand = RS | RT | RD | NRD | SA | IMM | INDEX | BASE | LFT | OFFSET | FT | FS | FD

text \<open>Whether a macro reads what the decoder has written, and for pointers, a general purpose register.\<close>

fun is_reg :: "core_ref \<Rightarrow> bool" where
  "is_reg (At_reg n) = True"
| "is_reg _ = False"

fun readable :: "operands \<Rightarrow> operand \<Rightarrow> bool" where
  "readable (F_i rs rt imm) RS = is_reg rs"
| "readable (F_i rs rt imm) RT = is_reg rt"
| "readable (F_i rs rt imm) IMM = True"
| "readable (F_r rs rt rd sa nrd) RS = is_reg rs"
| "readable (F_r rs rt rd sa nrd) RT = is_reg rt"
| "readable (F_r rs rt rd sa nrd) RD = is_reg rd"
| "readable (F_r rs rt rd sa nrd) NRD = True"
| "readable (F_r rs rt rd sa nrd) SA = True"
| "readable (F_j idx) INDEX = True"
| "readable (F_lf base ft off) BASE = True"
| "readable (F_lf base ft off) LFT = True"
| "readable (F_lf base ft off) OFFSET = True"
| "readable (F_cf ft fs fd) FT = True"
| "readable (F_cf ft fs fd) FS = True"
| "readable (F_cf ft fs fd) FD = True"
| "readable _ _ = False"

text \<open>An instruction word with the decoded operands in their fields.\<close>

fun ref_number :: "core_ref \<Rightarrow> nat" where
  "ref_number (At_reg n) = n"
| "ref_number _ = 0"

fun operand_word :: "operands \<Rightarrow> u32" where
  "operand_word F_none = 0"
| "operand_word (F_i rs rt imm) = push_bit 21 (of_nat (ref_number rs)) OR push_bit 16 (of_nat (ref_number rt)) OR ucast imm"
| "operand_word (F_j idx) = idx"
| "operand_word (F_r rs rt rd sa nrd) =
     push_bit 21 (of_nat (ref_number rs)) OR push_bit 16 (of_nat (ref_number rt)) OR
     push_bit 11 (of_nat (if is_reg rd then ref_number rd else nrd)) OR push_bit 6 (of_nat sa)"
| "operand_word (F_lf base ft off) = push_bit 21 (of_nat base) OR push_bit 16 (of_nat ft) OR ucast off"
| "operand_word (F_cf ft fs fd) = push_bit 16 (of_nat ft) OR push_bit 11 (of_nat fs) OR push_bit 6 (of_nat fd)"

text \<open>
  The table of handlers, with the macros each of them reads: the floating point opcodes, whose handlers depend on the
  format, are reserved in it, and what is not implemented has its own handler.
\<close>

type_synonym 'a handler = "operand list \<times> 'a instr"

definition reserved_handlers :: "(nat \<times> 'a handler) list" where
  "reserved_handlers =
     [(R4300_OP_CP1_ABS, [], none_op i_RESERVED),
      (R4300_OP_CP1_ADD, [], none_op i_RESERVED),
      (R4300_OP_CP1_CEIL_L, [], none_op i_RESERVED),
      (R4300_OP_CP1_CEIL_W, [], none_op i_RESERVED),
      (R4300_OP_CP1_C_EQ, [], none_op i_RESERVED),
      (R4300_OP_CP1_C_F, [], none_op i_RESERVED),
      (R4300_OP_CP1_C_LE, [], none_op i_RESERVED),
      (R4300_OP_CP1_C_LT, [], none_op i_RESERVED),
      (R4300_OP_CP1_C_NGE, [], none_op i_RESERVED),
      (R4300_OP_CP1_C_NGL, [], none_op i_RESERVED),
      (R4300_OP_CP1_C_NGLE, [], none_op i_RESERVED),
      (R4300_OP_CP1_C_NGT, [], none_op i_RESERVED),
      (R4300_OP_CP1_C_OLE, [], none_op i_RESERVED),
      (R4300_OP_CP1_C_OLT, [], none_op i_RESERVED),
      (R4300_OP_CP1_C_SEQ, [], none_op i_RESERVED),
      (R4300_OP_CP1_C_SF, [], none_op i_RESERVED),
      (R4300_OP_CP1_C_UEQ, [], none_op i_RESERVED),
      (R4300_OP_CP1_C_ULE, [], none_op i_RESERVED),
      (R4300_OP_CP1_C_ULT, [], none_op i_RESERVED),
      (R4300_OP_CP1_C_UN, [], none_op i_RESERVED),
      (R4300_OP_CP1_CVT_D, [], none_op i_RESERVED),
      (R4300_OP_CP1_CVT_L, [], none_op i_RESERVED),
      (R4300_OP_CP1_CVT_S, [], none_op i_RESERVED),
      (R4300_OP_CP1_CVT_W, [], none_op i_RESERVED),
      (R4300_OP_CP1_DIV, [], none_op i_RESERVED),
      (R4300_OP_CP1_FLOOR_L, [], none_op i_RESERVED),
      (R4300_OP_CP1_FLOOR_W, [], none_op i_RESERVED),
      (R4300_OP_CP1_MOV, [], none_op i_RESERVED),
      (R4300_OP_CP1_MUL, [], none_op i_RESERVED),
      (R4300_OP_CP1_NEG, [], none_op i_RESERVED),
      (R4300_OP_CP1_ROUND_L, [], none_op i_RESERVED),
      (R4300_OP_CP1_ROUND_W, [], none_op i_RESERVED),
      (R4300_OP_CP1_SQRT, [], none_op i_RESERVED),
      (R4300_OP_CP1_SUB, [], none_op i_RESERVED),
      (R4300_OP_CP1_TRUNC_L, [], none_op i_RESERVED),
      (R4300_OP_CP1_TRUNC_W, [], none_op i_RESERVED)]"

definition missing_handlers :: "(nat \<times> 'a handler) list" where
  "missing_handlers =
     [(R4300_OP_BC0F, [], none_op i_NI),
      (R4300_OP_BC0F_IDLE, [], none_op i_NI),
      (R4300_OP_BC0F_OUT, [], none_op i_NI),
      (R4300_OP_BC0FL, [], none_op i_NI),
      (R4300_OP_BC0FL_IDLE, [], none_op i_NI),
      (R4300_OP_BC0FL_OUT, [], none_op i_NI),
      (R4300_OP_BC0T, [], none_op i_NI),
      (R4300_OP_BC0T_IDLE, [], none_op i_NI),
      (R4300_OP_BC0T_OUT, [], none_op i_NI),
      (R4300_OP_BC0TL, [], none_op i_NI),
      (R4300_OP_BC0TL_IDLE, [], none_op i_NI),
      (R4300_OP_BC0TL_OUT, [], none_op i_NI),
      (R4300_OP_BC2F, [], none_op i_NI),
      (R4300_OP_BC2F_IDLE, [], none_op i_NI),
      (R4300_OP_BC2F_OUT, [], none_op i_NI),
      (R4300_OP_BC2FL, [], none_op i_NI),
      (R4300_OP_BC2FL_IDLE, [], none_op i_NI),
      (R4300_OP_BC2FL_OUT, [], none_op i_NI),
      (R4300_OP_BC2T, [], none_op i_NI),
      (R4300_OP_BC2T_IDLE, [], none_op i_NI),
      (R4300_OP_BC2T_OUT, [], none_op i_NI),
      (R4300_OP_BC2TL, [], none_op i_NI),
      (R4300_OP_BC2TL_IDLE, [], none_op i_NI),
      (R4300_OP_BC2TL_OUT, [], none_op i_NI),
      (R4300_OP_CFC0, [], none_op i_NI),
      (R4300_OP_CTC0, [], none_op i_NI),
      (R4300_OP_JALR_IDLE, [], none_op i_NI),
      (R4300_OP_JR_IDLE, [], none_op i_NI),
      (R4300_OP_LLD, [], none_op i_NI),
      (R4300_OP_SCD, [], none_op i_NI)]"

definition cop2_handlers :: "(nat \<times> 'a handler) list" where
  "cop2_handlers =
     [(R4300_OP_DCFC2, [], none_op i_RESERVED_COP2),
      (R4300_OP_DCTC2, [], none_op i_RESERVED_COP2),
      (R4300_OP_LDC2, [], none_op i_RESERVED_COP2),
      (R4300_OP_LWC2, [], none_op i_RESERVED_COP2),
      (R4300_OP_SDC2, [], none_op i_RESERVED_COP2),
      (R4300_OP_SWC2, [], none_op i_RESERVED_COP2)]"

definition instr_handlers :: "'a dev machine \<Rightarrow> (nat \<times> 'a handler) list" where
  "instr_handlers env =
     [(R4300_OP_RESERVED, [], none_op i_RESERVED),
      (R4300_OP_ADD, [RS, RT, RD], plain i_ADD),
      (R4300_OP_ADDI, [RS, RT, IMM], plain i_ADDI),
      (R4300_OP_ADDIU, [RS, RT, IMM], plain i_ADDIU),
      (R4300_OP_ADDU, [RS, RT, RD], plain i_ADDU),
      (R4300_OP_AND, [RS, RT, RD], plain i_AND),
      (R4300_OP_ANDI, [RS, RT, IMM], plain i_ANDI),
      (R4300_OP_BREAK, [], none_op i_BREAK),
      (R4300_OP_CACHE, [], none_op i_CACHE),
      (R4300_OP_CFC1, [RT, NRD], plain i_CFC1),
      (R4300_OP_DCFC1, [], plain (\<lambda>_. i_DCFC1)),
      (R4300_OP_CFC2, [RT], plain i_CFC2),
      (R4300_OP_CTC1, [RT, NRD], plain i_CTC1),
      (R4300_OP_DCTC1, [], none_op i_DCTC1),
      (R4300_OP_CTC2, [RT], plain i_CTC2),
      (R4300_OP_DADD, [RS, RT, RD], plain i_DADD),
      (R4300_OP_DADDI, [RS, RT, IMM], plain i_DADDI),
      (R4300_OP_DADDIU, [RS, RT, IMM], plain i_DADDIU),
      (R4300_OP_DADDU, [RS, RT, RD], plain i_DADDU),
      (R4300_OP_DDIV, [RS, RT], plain i_DDIV),
      (R4300_OP_DDIVU, [RS, RT], plain i_DDIVU),
      (R4300_OP_DIV, [RS, RT], plain i_DIV),
      (R4300_OP_DIVU, [RS, RT], plain i_DIVU),
      (R4300_OP_DMFC0, [RT, NRD], plain i_DMFC0),
      (R4300_OP_DMFC1, [RT, NRD], plain i_DMFC1),
      (R4300_OP_DMFC2, [RT], plain i_DMFC2),
      (R4300_OP_DMTC0, [RT, NRD], plain (i_MTC0 env)),
      (R4300_OP_DMTC1, [RT, NRD], plain i_DMTC1),
      (R4300_OP_DMTC2, [RT], plain i_DMTC2),
      (R4300_OP_DMULT, [RS, RT], plain i_DMULT),
      (R4300_OP_DMULTU, [RS, RT], plain i_DMULTU),
      (R4300_OP_DSLL, [RT, RD, SA], plain i_DSLL),
      (R4300_OP_DSLL32, [RT, RD, SA], plain i_DSLL32),
      (R4300_OP_DSLLV, [RS, RT, RD], plain i_DSLLV),
      (R4300_OP_DSRA, [RT, RD, SA], plain i_DSRA),
      (R4300_OP_DSRA32, [RT, RD, SA], plain i_DSRA32),
      (R4300_OP_DSRAV, [RS, RT, RD], plain i_DSRAV),
      (R4300_OP_DSRL, [RT, RD, SA], plain i_DSRL),
      (R4300_OP_DSRL32, [RT, RD, SA], plain i_DSRL32),
      (R4300_OP_DSRLV, [RS, RT, RD], plain i_DSRLV),
      (R4300_OP_DSUB, [RS, RT, RD], plain i_DSUB),
      (R4300_OP_DSUBU, [RS, RT, RD], plain i_DSUBU),
      (R4300_OP_ERET, [], none_op (i_ERET env)),
      (R4300_OP_LB, [RS, RT, IMM], plain (i_LB env)),
      (R4300_OP_LBU, [RS, RT, IMM], plain (i_LBU env)),
      (R4300_OP_LD, [RS, RT, IMM], plain (i_LD env)),
      (R4300_OP_LDC1, [BASE, LFT, OFFSET], plain (i_LDC1 env)),
      (R4300_OP_LDL, [RS, RT, IMM], plain (i_LDL env)),
      (R4300_OP_LDR, [RS, RT, IMM], plain (i_LDR env)),
      (R4300_OP_LH, [RS, RT, IMM], plain (i_LH env)),
      (R4300_OP_LHU, [RS, RT, IMM], plain (i_LHU env)),
      (R4300_OP_LL, [RS, RT, IMM], plain (i_LL env)),
      (R4300_OP_LUI, [RT, IMM], plain i_LUI),
      (R4300_OP_LW, [RS, RT, IMM], plain (i_LW env)),
      (R4300_OP_LWC1, [BASE, LFT, OFFSET], plain (i_LWC1 env)),
      (R4300_OP_LWL, [RS, RT, IMM], plain (i_LWL env)),
      (R4300_OP_LWR, [RS, RT, IMM], plain (i_LWR env)),
      (R4300_OP_LWU, [RS, RT, IMM], plain (i_LWU env)),
      (R4300_OP_MFC0, [RT, NRD], plain i_MFC0),
      (R4300_OP_MFC1, [RT, NRD], plain i_MFC1),
      (R4300_OP_MFC2, [RT], plain i_MFC2),
      (R4300_OP_MFHI, [RD], plain i_MFHI),
      (R4300_OP_MFLO, [RD], plain i_MFLO),
      (R4300_OP_MTC0, [RT, NRD], plain (i_MTC0 env)),
      (R4300_OP_MTC1, [RT, NRD], plain i_MTC1),
      (R4300_OP_MTC2, [RT], plain i_MTC2),
      (R4300_OP_MTHI, [RS], plain i_MTHI),
      (R4300_OP_MTLO, [RS], plain i_MTLO),
      (R4300_OP_MULT, [RS, RT], plain i_MULT),
      (R4300_OP_MULTU, [RS, RT], plain i_MULTU),
      (R4300_OP_NOP, [], none_op i_NOP),
      (R4300_OP_NOR, [RS, RT, RD], plain i_NOR),
      (R4300_OP_OR, [RS, RT, RD], plain i_OR),
      (R4300_OP_ORI, [RS, RT, IMM], plain i_ORI),
      (R4300_OP_SB, [RS, RT, IMM], plain (i_SB env)),
      (R4300_OP_SC, [RS, RT, IMM], plain (i_SC env)),
      (R4300_OP_SD, [RS, RT, IMM], plain (i_SD env)),
      (R4300_OP_SDC1, [BASE, LFT, OFFSET], plain (i_SDC1 env)),
      (R4300_OP_SDL, [RS, RT, IMM], plain (i_SDL env)),
      (R4300_OP_SDR, [RS, RT, IMM], plain (i_SDR env)),
      (R4300_OP_SH, [RS, RT, IMM], plain (i_SH env)),
      (R4300_OP_SLL, [RT, RD, SA], plain i_SLL),
      (R4300_OP_SLLV, [RS, RT, RD], plain i_SLLV),
      (R4300_OP_SLT, [RS, RT, RD], plain i_SLT),
      (R4300_OP_SLTI, [RS, RT, IMM], plain i_SLTI),
      (R4300_OP_SLTIU, [RS, RT, IMM], plain i_SLTIU),
      (R4300_OP_SLTU, [RS, RT, RD], plain i_SLTU),
      (R4300_OP_SRA, [RT, RD, SA], plain i_SRA),
      (R4300_OP_SRAV, [RS, RT, RD], plain i_SRAV),
      (R4300_OP_SRL, [RT, RD, SA], plain i_SRL),
      (R4300_OP_SRLV, [RS, RT, RD], plain i_SRLV),
      (R4300_OP_SUB, [RS, RT, RD], plain i_SUB),
      (R4300_OP_SUBU, [RS, RT, RD], plain i_SUBU),
      (R4300_OP_SW, [RS, RT, IMM], plain (i_SW env)),
      (R4300_OP_SWC1, [BASE, LFT, OFFSET], plain (i_SWC1 env)),
      (R4300_OP_SWL, [RS, RT, IMM], plain (i_SWL env)),
      (R4300_OP_SWR, [RS, RT, IMM], plain (i_SWR env)),
      (R4300_OP_SYNC, [], none_op i_SYNC),
      (R4300_OP_SYSCALL, [], none_op i_SYSCALL),
      (R4300_OP_TEQ, [RS, RT], plain i_TEQ),
      (R4300_OP_TEQI, [RS, IMM], plain i_TEQI),
      (R4300_OP_TGE, [RS, RT], plain i_TGE),
      (R4300_OP_TGEI, [RS, IMM], plain i_TGEI),
      (R4300_OP_TGEIU, [RS, IMM], plain i_TGEIU),
      (R4300_OP_TGEU, [RS, RT], plain i_TGEU),
      (R4300_OP_TLBP, [], none_op i_TLBP),
      (R4300_OP_TLBR, [], none_op i_TLBR),
      (R4300_OP_TLBWI, [], \<lambda>_. i_TLBWI),
      (R4300_OP_TLBWR, [], \<lambda>_. i_TLBWR),
      (R4300_OP_TLT, [RS, RT], plain i_TLT),
      (R4300_OP_TLTI, [RS, IMM], plain i_TLTI),
      (R4300_OP_TLTIU, [RS, IMM], plain i_TLTIU),
      (R4300_OP_TLTU, [RS, RT], plain i_TLTU),
      (R4300_OP_TNE, [RS, RT], plain i_TNE),
      (R4300_OP_TNEI, [RS, IMM], plain i_TNEI),
      (R4300_OP_XOR, [RS, RT, RD], plain i_XOR),
      (R4300_OP_XORI, [RS, RT, IMM], plain i_XORI)]"

definition ci_table :: "'a dev machine \<Rightarrow> nat \<Rightarrow> 'a handler option" where
  "ci_table env = map_of (instr_handlers env @ missing_handlers @ cop2_handlers @ reserved_handlers)"

definition format_handlers :: "'a dev machine \<Rightarrow> ((nat \<times> nat) \<times> 'a handler) list" where
  "format_handlers env =
     [((R4300_OP_CP1_ABS, 16), [FS, FD], plain i_ABS_S),
      ((R4300_OP_CP1_ABS, 17), [FS, FD], plain i_ABS_D),
      ((R4300_OP_CP1_ADD, 16), [FT, FS, FD], plain (i_ADD_S (m_fpu env))),
      ((R4300_OP_CP1_ADD, 17), [FT, FS, FD], plain (i_ADD_D (m_fpu env))),
      ((R4300_OP_CP1_CEIL_L, 16), [FS, FD], plain (i_CEIL_L_S (m_fpu env))),
      ((R4300_OP_CP1_CEIL_L, 17), [FS, FD], plain (i_CEIL_L_D (m_fpu env))),
      ((R4300_OP_CP1_CEIL_W, 16), [FS, FD], plain (i_CEIL_W_S (m_fpu env))),
      ((R4300_OP_CP1_CEIL_W, 17), [FS, FD], plain (i_CEIL_W_D (m_fpu env))),
      ((R4300_OP_CP1_C_EQ, 16), [FT, FS], plain i_C_EQ_S),
      ((R4300_OP_CP1_C_EQ, 17), [FT, FS], plain i_C_EQ_D),
      ((R4300_OP_CP1_C_F, 16), [FS, FD], plain i_C_F_S),
      ((R4300_OP_CP1_C_F, 17), [], plain i_C_F_D),
      ((R4300_OP_CP1_C_LE, 16), [FT, FS], plain i_C_LE_S),
      ((R4300_OP_CP1_C_LE, 17), [FT, FS], plain i_C_LE_D),
      ((R4300_OP_CP1_C_LT, 16), [FT, FS], plain i_C_LT_S),
      ((R4300_OP_CP1_C_LT, 17), [FT, FS], plain i_C_LT_D),
      ((R4300_OP_CP1_C_NGE, 16), [FT, FS], plain i_C_NGE_S),
      ((R4300_OP_CP1_C_NGE, 17), [FT, FS], plain i_C_NGE_D),
      ((R4300_OP_CP1_C_NGL, 16), [FT, FS], plain i_C_NGL_S),
      ((R4300_OP_CP1_C_NGL, 17), [FT, FS], plain i_C_NGL_D),
      ((R4300_OP_CP1_C_NGLE, 16), [FT, FS], plain i_C_NGLE_S),
      ((R4300_OP_CP1_C_NGLE, 17), [FT, FS], plain i_C_NGLE_D),
      ((R4300_OP_CP1_C_NGT, 16), [FT, FS], plain i_C_NGT_S),
      ((R4300_OP_CP1_C_NGT, 17), [FT, FS], plain i_C_NGT_D),
      ((R4300_OP_CP1_C_OLE, 16), [FT, FS], plain i_C_OLE_S),
      ((R4300_OP_CP1_C_OLE, 17), [FT, FS], plain i_C_OLE_D),
      ((R4300_OP_CP1_C_OLT, 16), [FT, FS], plain i_C_OLT_S),
      ((R4300_OP_CP1_C_OLT, 17), [FT, FS], plain i_C_OLT_D),
      ((R4300_OP_CP1_C_SEQ, 16), [FT, FS], plain i_C_SEQ_S),
      ((R4300_OP_CP1_C_SEQ, 17), [FT, FS], plain i_C_SEQ_D),
      ((R4300_OP_CP1_C_SF, 16), [FT, FS], plain i_C_SF_S),
      ((R4300_OP_CP1_C_SF, 17), [FT, FS], plain i_C_SF_D),
      ((R4300_OP_CP1_C_UEQ, 16), [FT, FS], plain i_C_UEQ_S),
      ((R4300_OP_CP1_C_UEQ, 17), [FT, FS], plain i_C_UEQ_D),
      ((R4300_OP_CP1_C_ULE, 16), [FT, FS], plain i_C_ULE_S),
      ((R4300_OP_CP1_C_ULE, 17), [FT, FS], plain i_C_ULE_D),
      ((R4300_OP_CP1_C_ULT, 16), [FT, FS], plain i_C_ULT_S),
      ((R4300_OP_CP1_C_ULT, 17), [FT, FS], plain i_C_ULT_D),
      ((R4300_OP_CP1_C_UN, 16), [FT, FS], plain i_C_UN_S),
      ((R4300_OP_CP1_C_UN, 17), [FT, FS], plain i_C_UN_D),
      ((R4300_OP_CP1_CVT_L, 16), [FS, FD], plain (i_CVT_L_S (m_fpu env))),
      ((R4300_OP_CP1_CVT_L, 17), [FS, FD], plain (i_CVT_L_D (m_fpu env))),
      ((R4300_OP_CP1_CVT_W, 16), [FS, FD], plain (i_CVT_W_S (m_fpu env))),
      ((R4300_OP_CP1_CVT_W, 17), [FS, FD], plain (i_CVT_W_D (m_fpu env))),
      ((R4300_OP_CP1_DIV, 16), [FT, FS, FD], plain (i_DIV_S (m_fpu env))),
      ((R4300_OP_CP1_DIV, 17), [FT, FS, FD], plain (i_DIV_D (m_fpu env))),
      ((R4300_OP_CP1_FLOOR_L, 16), [FS, FD], plain (i_FLOOR_L_S (m_fpu env))),
      ((R4300_OP_CP1_FLOOR_L, 17), [FS, FD], plain (i_FLOOR_L_D (m_fpu env))),
      ((R4300_OP_CP1_FLOOR_W, 16), [FS, FD], plain (i_FLOOR_W_S (m_fpu env))),
      ((R4300_OP_CP1_FLOOR_W, 17), [FS, FD], plain (i_FLOOR_W_D (m_fpu env))),
      ((R4300_OP_CP1_MOV, 16), [FS, FD], plain i_MOV_S),
      ((R4300_OP_CP1_MOV, 17), [FS, FD], plain i_MOV_D),
      ((R4300_OP_CP1_MUL, 16), [FT, FS, FD], plain (i_MUL_S (m_fpu env))),
      ((R4300_OP_CP1_MUL, 17), [FT, FS, FD], plain (i_MUL_D (m_fpu env))),
      ((R4300_OP_CP1_NEG, 16), [FS, FD], plain i_NEG_S),
      ((R4300_OP_CP1_NEG, 17), [FS, FD], plain i_NEG_D),
      ((R4300_OP_CP1_ROUND_L, 16), [FS, FD], plain (i_ROUND_L_S (m_fpu env))),
      ((R4300_OP_CP1_ROUND_L, 17), [FS, FD], plain (i_ROUND_L_D (m_fpu env))),
      ((R4300_OP_CP1_ROUND_W, 16), [FS, FD], plain (i_ROUND_W_S (m_fpu env))),
      ((R4300_OP_CP1_ROUND_W, 17), [FS, FD], plain (i_ROUND_W_D (m_fpu env))),
      ((R4300_OP_CP1_SQRT, 16), [FS, FD], plain (i_SQRT_S (m_fpu env))),
      ((R4300_OP_CP1_SQRT, 17), [FS, FD], plain (i_SQRT_D (m_fpu env))),
      ((R4300_OP_CP1_SUB, 16), [FT, FS, FD], plain (i_SUB_S (m_fpu env))),
      ((R4300_OP_CP1_SUB, 17), [FT, FS, FD], plain (i_SUB_D (m_fpu env))),
      ((R4300_OP_CP1_TRUNC_L, 16), [FS, FD], plain (i_TRUNC_L_S (m_fpu env))),
      ((R4300_OP_CP1_TRUNC_L, 17), [FS, FD], plain (i_TRUNC_L_D (m_fpu env))),
      ((R4300_OP_CP1_TRUNC_W, 16), [FS, FD], plain (i_TRUNC_W_S (m_fpu env))),
      ((R4300_OP_CP1_TRUNC_W, 17), [FS, FD], plain (i_TRUNC_W_D (m_fpu env))),
      ((R4300_OP_CP1_CVT_D, 16), [FS, FD], plain (i_CVT_D_S (m_fpu env))),
      ((R4300_OP_CP1_CVT_D, 20), [FS, FD], plain (i_CVT_D_W (m_fpu env))),
      ((R4300_OP_CP1_CVT_D, 21), [FS, FD], plain (i_CVT_D_L (m_fpu env))),
      ((R4300_OP_CP1_CVT_S, 17), [FS, FD], plain (i_CVT_S_D (m_fpu env))),
      ((R4300_OP_CP1_CVT_S, 20), [FS, FD], plain (i_CVT_S_W (m_fpu env))),
      ((R4300_OP_CP1_CVT_S, 21), [FS, FD], plain (i_CVT_S_L (m_fpu env)))]"

text \<open>The jumps, each followed in the enumeration by its idle and its out variant.\<close>

definition jump_handlers :: "(nat \<times> operand list \<times> (u32 \<Rightarrow> 'a dev \<Rightarrow> jump)) list" where
  "jump_handlers =
     [(R4300_OP_BC1F, [IMM], j_BC1F),
      (R4300_OP_BC1FL, [IMM], j_BC1FL),
      (R4300_OP_BC1T, [IMM], j_BC1T),
      (R4300_OP_BC1TL, [IMM], j_BC1TL),
      (R4300_OP_BEQ, [RS, RT, IMM], j_BEQ),
      (R4300_OP_BEQL, [RS, RT, IMM], j_BEQL),
      (R4300_OP_BGEZ, [RS, IMM], j_BGEZ),
      (R4300_OP_BGEZAL, [RS, IMM], j_BGEZAL),
      (R4300_OP_BGEZALL, [RS, IMM], j_BGEZALL),
      (R4300_OP_BGEZL, [RS, IMM], j_BGEZL),
      (R4300_OP_BGTZ, [RS, IMM], j_BGTZ),
      (R4300_OP_BGTZL, [RS, IMM], j_BGTZL),
      (R4300_OP_BLEZ, [RS, IMM], j_BLEZ),
      (R4300_OP_BLEZL, [RS, IMM], j_BLEZL),
      (R4300_OP_BLTZ, [RS, IMM], j_BLTZ),
      (R4300_OP_BLTZAL, [RS, IMM], j_BLTZAL),
      (R4300_OP_BLTZALL, [RS, IMM], j_BLTZALL),
      (R4300_OP_BLTZL, [RS, IMM], j_BLTZL),
      (R4300_OP_BNE, [RS, RT, IMM], j_BNE),
      (R4300_OP_BNEL, [RS, RT, IMM], j_BNEL),
      (R4300_OP_J, [INDEX], j_J),
      (R4300_OP_JAL, [INDEX], j_JAL),
      (R4300_OP_JALR, [RS, RD], j_JALR),
      (R4300_OP_JR, [RS], j_JR)]"

definition format_table :: "'a dev machine \<Rightarrow> nat \<times> nat \<Rightarrow> 'a handler option" where
  "format_table env = map_of (format_handlers env)"

definition jump_table :: "nat \<Rightarrow> (operand list \<times> (u32 \<Rightarrow> 'a dev \<Rightarrow> jump)) option" where
  "jump_table = map_of jump_handlers"

definition handler_of :: "'a dev machine \<Rightarrow> ops_fun \<Rightarrow> 'a handler option" where
  "handler_of env p =
     (case p of Ops op \<Rightarrow> ci_table env op | Ops_fmt op fmt \<Rightarrow> format_table env (op, fmt) | _ \<Rightarrow> None)"

text \<open>
  Calling the handler of an instruction that is no jump; \<open>None\<close> when there is no such handler or it does not
  return. Reading an operand that was not decoded is a fault.
\<close>

definition run_decoded :: "'a dev machine \<Rightarrow> precomp_instr \<Rightarrow> 'a dev \<Rightarrow> 'a dev option" where
  "run_decoded env inst s =
     (case handler_of env (ops inst) of
        None \<Rightarrow> None
      | Some (rds, i) \<Rightarrow>
          if list_all (readable (f_args inst)) rds then i (operand_word (f_args inst)) s else Some (set_fault s))"

section \<open>Evaluation of the tables\<close>

lemmas kind_defs = K_jalr_ops_def K_jr_ops_def K_jump_ops_def K_branch_ops_def K_rd_ops_def K_rt_i_ops_def K_lf_ops_def K_rt_r_ops_def K_cp1_ops_def K_cvt_d_ops_def K_cvt_s_ops_def K_r_ops_def K_i_ops_def K_none_ops_def

lemma decode_kinds [simp]:
  "decode_kind 173 = Some K_jalr"
  "decode_kind 176 = Some K_jr"
  "decode_kind 167 = Some K_jump"
  "decode_kind 170 = Some K_jump"
  "decode_kind 7 = Some K_branch"
  "decode_kind 10 = Some K_branch"
  "decode_kind 13 = Some K_branch"
  "decode_kind 16 = Some K_branch"
  "decode_kind 19 = Some K_branch"
  "decode_kind 22 = Some K_branch"
  "decode_kind 25 = Some K_branch"
  "decode_kind 28 = Some K_branch"
  "decode_kind 31 = Some K_branch"
  "decode_kind 34 = Some K_branch"
  "decode_kind 37 = Some K_branch"
  "decode_kind 40 = Some K_branch"
  "decode_kind 43 = Some K_branch"
  "decode_kind 46 = Some K_branch"
  "decode_kind 49 = Some K_branch"
  "decode_kind 52 = Some K_branch"
  "decode_kind 55 = Some K_branch"
  "decode_kind 58 = Some K_branch"
  "decode_kind 61 = Some K_branch"
  "decode_kind 64 = Some K_branch"
  "decode_kind 67 = Some K_branch"
  "decode_kind 70 = Some K_branch"
  "decode_kind 73 = Some K_branch"
  "decode_kind 76 = Some K_branch"
  "decode_kind 79 = Some K_branch"
  "decode_kind 82 = Some K_branch"
  "decode_kind 85 = Some K_branch"
  "decode_kind 88 = Some K_branch"
  "decode_kind 1 = Some K_rd"
  "decode_kind 4 = Some K_rd"
  "decode_kind 5 = Some K_rd"
  "decode_kind 139 = Some K_rd"
  "decode_kind 142 = Some K_rd"
  "decode_kind 155 = Some K_rd"
  "decode_kind 156 = Some K_rd"
  "decode_kind 157 = Some K_rd"
  "decode_kind 158 = Some K_rd"
  "decode_kind 159 = Some K_rd"
  "decode_kind 160 = Some K_rd"
  "decode_kind 161 = Some K_rd"
  "decode_kind 162 = Some K_rd"
  "decode_kind 163 = Some K_rd"
  "decode_kind 164 = Some K_rd"
  "decode_kind 165 = Some K_rd"
  "decode_kind 200 = Some K_rd"
  "decode_kind 201 = Some K_rd"
  "decode_kind 210 = Some K_rd"
  "decode_kind 211 = Some K_rd"
  "decode_kind 222 = Some K_rd"
  "decode_kind 223 = Some K_rd"
  "decode_kind 224 = Some K_rd"
  "decode_kind 227 = Some K_rd"
  "decode_kind 228 = Some K_rd"
  "decode_kind 229 = Some K_rd"
  "decode_kind 230 = Some K_rd"
  "decode_kind 231 = Some K_rd"
  "decode_kind 232 = Some K_rd"
  "decode_kind 233 = Some K_rd"
  "decode_kind 257 = Some K_rd"
  "decode_kind 2 = Some K_rt_i"
  "decode_kind 3 = Some K_rt_i"
  "decode_kind 6 = Some K_rt_i"
  "decode_kind 140 = Some K_rt_i"
  "decode_kind 141 = Some K_rt_i"
  "decode_kind 179 = Some K_rt_i"
  "decode_kind 180 = Some K_rt_i"
  "decode_kind 181 = Some K_rt_i"
  "decode_kind 184 = Some K_rt_i"
  "decode_kind 185 = Some K_rt_i"
  "decode_kind 186 = Some K_rt_i"
  "decode_kind 187 = Some K_rt_i"
  "decode_kind 188 = Some K_rt_i"
  "decode_kind 189 = Some K_rt_i"
  "decode_kind 190 = Some K_rt_i"
  "decode_kind 191 = Some K_rt_i"
  "decode_kind 194 = Some K_rt_i"
  "decode_kind 195 = Some K_rt_i"
  "decode_kind 196 = Some K_rt_i"
  "decode_kind 212 = Some K_rt_i"
  "decode_kind 214 = Some K_rt_i"
  "decode_kind 225 = Some K_rt_i"
  "decode_kind 226 = Some K_rt_i"
  "decode_kind 258 = Some K_rt_i"
  "decode_kind 182 = Some K_lf"
  "decode_kind 192 = Some K_lf"
  "decode_kind 217 = Some K_lf"
  "decode_kind 235 = Some K_lf"
  "decode_kind 93 = Some K_rt_r"
  "decode_kind 94 = Some K_rt_r"
  "decode_kind 96 = Some K_rt_r"
  "decode_kind 95 = Some K_rt_r"
  "decode_kind 97 = Some K_rt_r"
  "decode_kind 147 = Some K_rt_r"
  "decode_kind 148 = Some K_rt_r"
  "decode_kind 149 = Some K_rt_r"
  "decode_kind 197 = Some K_rt_r"
  "decode_kind 198 = Some K_rt_r"
  "decode_kind 199 = Some K_rt_r"
  "decode_kind 98 = Some K_cp1"
  "decode_kind 99 = Some K_cp1"
  "decode_kind 100 = Some K_cp1"
  "decode_kind 101 = Some K_cp1"
  "decode_kind 102 = Some K_cp1"
  "decode_kind 103 = Some K_cp1"
  "decode_kind 104 = Some K_cp1"
  "decode_kind 105 = Some K_cp1"
  "decode_kind 106 = Some K_cp1"
  "decode_kind 107 = Some K_cp1"
  "decode_kind 108 = Some K_cp1"
  "decode_kind 109 = Some K_cp1"
  "decode_kind 110 = Some K_cp1"
  "decode_kind 111 = Some K_cp1"
  "decode_kind 112 = Some K_cp1"
  "decode_kind 113 = Some K_cp1"
  "decode_kind 114 = Some K_cp1"
  "decode_kind 115 = Some K_cp1"
  "decode_kind 116 = Some K_cp1"
  "decode_kind 117 = Some K_cp1"
  "decode_kind 119 = Some K_cp1"
  "decode_kind 121 = Some K_cp1"
  "decode_kind 122 = Some K_cp1"
  "decode_kind 123 = Some K_cp1"
  "decode_kind 124 = Some K_cp1"
  "decode_kind 125 = Some K_cp1"
  "decode_kind 126 = Some K_cp1"
  "decode_kind 127 = Some K_cp1"
  "decode_kind 128 = Some K_cp1"
  "decode_kind 129 = Some K_cp1"
  "decode_kind 130 = Some K_cp1"
  "decode_kind 131 = Some K_cp1"
  "decode_kind 132 = Some K_cp1"
  "decode_kind 133 = Some K_cp1"
  "decode_kind 118 = Some K_cvt_d"
  "decode_kind 120 = Some K_cvt_s"
  "decode_kind 134 = Some K_r"
  "decode_kind 135 = Some K_r"
  "decode_kind 136 = Some K_r"
  "decode_kind 137 = Some K_r"
  "decode_kind 138 = Some K_r"
  "decode_kind 143 = Some K_r"
  "decode_kind 144 = Some K_r"
  "decode_kind 145 = Some K_r"
  "decode_kind 146 = Some K_r"
  "decode_kind 150 = Some K_r"
  "decode_kind 151 = Some K_r"
  "decode_kind 152 = Some K_r"
  "decode_kind 153 = Some K_r"
  "decode_kind 154 = Some K_r"
  "decode_kind 202 = Some K_r"
  "decode_kind 203 = Some K_r"
  "decode_kind 204 = Some K_r"
  "decode_kind 205 = Some K_r"
  "decode_kind 206 = Some K_r"
  "decode_kind 207 = Some K_r"
  "decode_kind 208 = Some K_r"
  "decode_kind 209 = Some K_r"
  "decode_kind 241 = Some K_r"
  "decode_kind 243 = Some K_r"
  "decode_kind 246 = Some K_r"
  "decode_kind 251 = Some K_r"
  "decode_kind 254 = Some K_r"
  "decode_kind 255 = Some K_r"
  "decode_kind 183 = Some K_i"
  "decode_kind 193 = Some K_i"
  "decode_kind 213 = Some K_i"
  "decode_kind 215 = Some K_i"
  "decode_kind 216 = Some K_i"
  "decode_kind 218 = Some K_i"
  "decode_kind 219 = Some K_i"
  "decode_kind 220 = Some K_i"
  "decode_kind 221 = Some K_i"
  "decode_kind 234 = Some K_i"
  "decode_kind 236 = Some K_i"
  "decode_kind 237 = Some K_i"
  "decode_kind 238 = Some K_i"
  "decode_kind 242 = Some K_i"
  "decode_kind 244 = Some K_i"
  "decode_kind 245 = Some K_i"
  "decode_kind 252 = Some K_i"
  "decode_kind 253 = Some K_i"
  "decode_kind 256 = Some K_i"
  "decode_kind 91 = Some K_none"
  "decode_kind 92 = Some K_none"
  "decode_kind 166 = Some K_none"
  "decode_kind 239 = Some K_none"
  "decode_kind 240 = Some K_none"
  "decode_kind 247 = Some K_none"
  "decode_kind 248 = Some K_none"
  "decode_kind 249 = Some K_none"
  "decode_kind 250 = Some K_none"
  "decode_kind 0 = Some K_none"
  by (simp_all add: decode_kind_def kind_defs)

lemma map_of_entries: "distinct (map fst xs) \<Longrightarrow> list_all (\<lambda>(k, v). map_of xs k = Some v) xs"
  by (auto simp: list_all_iff)

lemma ci_table_all: "list_all (\<lambda>(k, v). ci_table env k = Some v) (instr_handlers env @ missing_handlers @ cop2_handlers @ reserved_handlers)"
  unfolding ci_table_def
  by (rule map_of_entries) (simp add: instr_handlers_def missing_handlers_def cop2_handlers_def reserved_handlers_def)

lemmas ci_table_entries [simp] =
  ci_table_all [unfolded instr_handlers_def missing_handlers_def cop2_handlers_def reserved_handlers_def append.simps list.pred_inject prod.case]

lemma format_all: "list_all (\<lambda>(k, v). format_table env k = Some v) (format_handlers env)"
  unfolding format_table_def by (rule map_of_entries) (simp add: format_handlers_def)

lemmas format_entries [simp] = format_all [unfolded format_handlers_def list.pred_inject prod.case]

lemma jump_all: "list_all (\<lambda>(k, v). jump_table k = Some v) jump_handlers"
  unfolding jump_table_def by (rule map_of_entries) (simp add: jump_handlers_def)

lemmas jump_entries [simp] = jump_all [unfolded jump_handlers_def list.pred_inject prod.case]

end
