(* ===== verification/Cached_Decode.thy ===== *)
theory Cached_Decode
  imports Cached_Table
begin

section \<open>Handlers read the operands they are listed with\<close>

fun operand_field :: "operand \<Rightarrow> u32 \<Rightarrow> nat" where
  "operand_field RS w = RS_OF w"
| "operand_field RT w = RT_OF w"
| "operand_field RD w = RD_OF w"
| "operand_field NRD w = RD_OF w"
| "operand_field SA w = SA_OF w"
| "operand_field IMM w = unat (IMM16S_OF w)"
| "operand_field INDEX w = unat (JUMP_OF w)"
| "operand_field BASE w = RS_OF w"
| "operand_field LFT w = RT_OF w"
| "operand_field OFFSET w = unat (IMM16S_OF w)"
| "operand_field FT w = RT_OF w"
| "operand_field FS w = RD_OF w"
| "operand_field FD w = SA_OF w"

definition reads_only :: "'a handler \<Rightarrow> bool" where
  "reads_only h \<longleftrightarrow> (\<forall>v w s. list_all (\<lambda>r. operand_field r v = operand_field r w) (fst h) \<longrightarrow> snd h v s = snd h w s)"

lemma cop1_fields: "FD_OF = SA_OF" "FS_OF = RD_OF" "FT_OF = RT_OF"
  by (simp_all add: fun_eq_iff FD_OF_def SA_OF_def FS_OF_def RD_OF_def FT_OF_def RT_OF_def)

lemmas operand_defs = rrs_def rrt_def rrs32_def rrt32_def to_rd_def to_rt_def lsaddr_def load_word_def load_dword_def
  to_simple_def to_double_def cop1_fields plain_def none_op_def
  mtc0_status_def mtc0_count_def mtc0_compare_def

lemmas jump_defs = branch_def branch_target_def region_target_def j_J_def j_JAL_def j_JR_def j_JALR_def j_BEQ_def j_BEQL_def
  j_BNE_def j_BNEL_def j_BLEZ_def j_BLEZL_def j_BGTZ_def j_BGTZL_def j_BLTZ_def j_BLTZAL_def j_BLTZL_def j_BLTZALL_def
  j_BGEZ_def j_BGEZAL_def j_BGEZL_def j_BGEZALL_def j_BC1F_def j_BC1FL_def j_BC1T_def j_BC1TL_def

lemmas instr_defs = i_ABS_D_def i_ABS_S_def i_ADD_def i_ADDI_def i_ADDIU_def i_ADDU_def i_ADD_D_def i_ADD_S_def i_AND_def i_ANDI_def i_BREAK_def i_CACHE_def i_CEIL_L_D_def i_CEIL_L_S_def i_CEIL_W_D_def i_CEIL_W_S_def i_CFC1_def i_CFC2_def i_CTC1_def i_CTC2_def i_CVT_D_L_def i_CVT_D_S_def i_CVT_D_W_def i_CVT_L_D_def i_CVT_L_S_def i_CVT_S_D_def i_CVT_S_L_def i_CVT_S_W_def i_CVT_W_D_def i_CVT_W_S_def i_C_EQ_D_def i_C_EQ_S_def i_C_F_D_def i_C_F_S_def i_C_LE_D_def i_C_LE_S_def i_C_LT_D_def i_C_LT_S_def i_C_NGE_D_def i_C_NGE_S_def i_C_NGLE_D_def i_C_NGLE_S_def i_C_NGL_D_def i_C_NGL_S_def i_C_NGT_D_def i_C_NGT_S_def i_C_OLE_D_def i_C_OLE_S_def i_C_OLT_D_def i_C_OLT_S_def i_C_SEQ_D_def i_C_SEQ_S_def i_C_SF_D_def i_C_SF_S_def i_C_UEQ_D_def i_C_UEQ_S_def i_C_ULE_D_def i_C_ULE_S_def i_C_ULT_D_def i_C_ULT_S_def i_C_UN_D_def i_C_UN_S_def i_DADD_def i_DADDI_def i_DADDIU_def i_DADDU_def i_DCFC1_def i_DCTC1_def i_DDIV_def i_DDIVU_def i_DIV_def i_DIVU_def i_DIV_D_def i_DIV_S_def i_DMFC0_def i_DMFC1_def i_DMFC2_def i_DMTC1_def i_DMTC2_def i_DMULT_def i_DMULTU_def i_DSLL_def i_DSLL32_def i_DSLLV_def i_DSRA_def i_DSRA32_def i_DSRAV_def i_DSRL_def i_DSRL32_def i_DSRLV_def i_DSUB_def i_DSUBU_def i_ERET_def i_FLOOR_L_D_def i_FLOOR_L_S_def i_FLOOR_W_D_def i_FLOOR_W_S_def i_LB_def i_LBU_def i_LD_def i_LDC1_def i_LDL_def i_LDR_def i_LH_def i_LHU_def i_LL_def i_LUI_def i_LW_def i_LWC1_def i_LWL_def i_LWR_def i_LWU_def i_MFC0_def i_MFC1_def i_MFC2_def i_MFHI_def i_MFLO_def i_MOV_D_def i_MOV_S_def i_MTC0_def i_MTC1_def i_MTC2_def i_MTHI_def i_MTLO_def i_MULT_def i_MULTU_def i_MUL_D_def i_MUL_S_def i_NEG_D_def i_NEG_S_def i_NI_def i_NOP_def i_NOR_def i_OR_def i_ORI_def i_RESERVED_def i_RESERVED_COP2_def i_ROUND_L_D_def i_ROUND_L_S_def i_ROUND_W_D_def i_ROUND_W_S_def i_SB_def i_SC_def i_SD_def i_SDC1_def i_SDL_def i_SDR_def i_SH_def i_SLL_def i_SLLV_def i_SLT_def i_SLTI_def i_SLTIU_def i_SLTU_def i_SQRT_D_def i_SQRT_S_def i_SRA_def i_SRAV_def i_SRL_def i_SRLV_def i_SUB_def i_SUBU_def i_SUB_D_def i_SUB_S_def i_SW_def i_SWC1_def i_SWL_def i_SWR_def i_SYNC_def i_SYSCALL_def i_TEQ_def i_TEQI_def i_TGE_def i_TGEI_def i_TGEIU_def i_TGEU_def i_TLBP_def i_TLBR_def i_TLBWI_def i_TLBWR_def i_TLT_def i_TLTI_def i_TLTIU_def i_TLTU_def i_TNE_def i_TNEI_def i_TRUNC_L_D_def i_TRUNC_L_S_def i_TRUNC_W_D_def i_TRUNC_W_S_def i_XOR_def i_XORI_def

lemma instr_handlers_read: "list_all (\<lambda>(_, h). reads_only h) (instr_handlers env)"
  unfolding instr_handlers_def list.pred_inject prod.case reads_only_def fst_conv snd_conv
  by (intro conjI allI impI; simp add: operand_defs instr_defs word_unat_eq_iff [symmetric] cong: if_cong)

lemma format_handlers_read: "list_all (\<lambda>(_, h). reads_only h) (format_handlers env)"
  unfolding format_handlers_def list.pred_inject prod.case reads_only_def fst_conv snd_conv
  by (intro conjI allI impI; simp add: operand_defs instr_defs cong: if_cong)

lemma missing_handlers_read: "list_all (\<lambda>(_, h). reads_only h) (missing_handlers @ cop2_handlers @ reserved_handlers)"
  by (simp add: missing_handlers_def cop2_handlers_def reserved_handlers_def reads_only_def none_op_def)

lemma handler_reads: "handler_of env p = Some h \<Longrightarrow> reads_only h"
proof -
  have all: "list_all (\<lambda>(_, h). reads_only h) (instr_handlers env @ missing_handlers @ cop2_handlers @ reserved_handlers)"
    using instr_handlers_read [of env] missing_handlers_read by (simp only: list_all_append)
  assume "handler_of env p = Some h"
  then show ?thesis
    using all format_handlers_read [of env]
    by (auto simp: handler_of_def ci_table_def format_table_def list_all_iff split: ops_fun.splits dest!: map_of_SomeD)
qed

lemma jump_handlers_read:
  "list_all (\<lambda>(_, rds, mk). \<forall>v w s. list_all (\<lambda>r. operand_field r v = operand_field r w) rds \<longrightarrow> mk v s = mk w s)
     (jump_handlers :: (nat \<times> operand list \<times> (u32 \<Rightarrow> 'a dev \<Rightarrow> jump)) list)"
  unfolding jump_handlers_def list.pred_inject prod.case
  by (intro conjI allI impI; simp add: jump_defs operand_defs word_unat_eq_iff [symmetric])

section \<open>Operand words\<close>

lemma field_bounds [simp]: "RS_OF w < 32" "RT_OF w < 32" "RD_OF w < 32" "SA_OF w < 32" "unat (w AND 0x1F) < 32" for w :: u32
proof -
  have m: "unat (x AND 0x1F) < 32" for x :: u32
    using word_and_le1 [of x "0x1F"] by (simp add: word_le_nat_alt)
  then show "RS_OF w < 32" "RT_OF w < 32" "RD_OF w < 32" "SA_OF w < 32" "unat (w AND 0x1F) < 32"
    by (simp_all add: RS_OF_def RT_OF_def RD_OF_def SA_OF_def)
qed

text \<open>A word put together from five-bit fields and an immediate gives them back.\<close>

definition fields_word :: "nat \<Rightarrow> nat \<Rightarrow> nat \<Rightarrow> nat \<Rightarrow> u32" where
  "fields_word a b c d = push_bit 21 (of_nat a) OR push_bit 16 (of_nat b) OR push_bit 11 (of_nat c) OR push_bit 6 (of_nat d)"

definition imm_word :: "nat \<Rightarrow> nat \<Rightarrow> u16 \<Rightarrow> u32" where
  "imm_word a b i = push_bit 21 (of_nat a) OR push_bit 16 (of_nat b) OR ucast i"

lemma mask5: "0x1F = (mask 5 :: u32)"
  by (simp add: mask_eq_exp_minus_1)

lemma small_field: "a < 32 \<Longrightarrow> unat (of_nat a AND 0x1F :: u32) = a" "a < 32 \<Longrightarrow> i \<ge> 5 \<Longrightarrow> \<not> bit a i" for a i :: nat
proof -
  assume a: "a < 32"
  have t: "take_bit 5 a = a" using a by (simp add: take_bit_nat_eq_self_iff)
  show "unat (of_nat a AND 0x1F :: u32) = a"
    unfolding mask5 take_bit_eq_mask [symmetric] using a t by (simp add: take_bit_of_nat unsigned_of_nat take_bit_nat_eq_self_iff)
  show "\<not> bit a i" if "i \<ge> 5" using that t by (metis bit_take_bit_iff linorder_not_less)
qed

lemma fields_word:
  assumes "a < 32" "b < 32" "c < 32" "d < 32"
  shows "RS_OF (fields_word a b c d) = a" "RT_OF (fields_word a b c d) = b" "RD_OF (fields_word a b c d) = c"
    "SA_OF (fields_word a b c d) = d"
proof -
  note n = assms [THEN small_field(2)]
  have "drop_bit 21 (fields_word a b c d) AND 0x1F = of_nat a AND 0x1F"
    unfolding mask5 fields_word_def by (rule bit_word_eqI) (auto simp: bit_simps n)
  then show "RS_OF (fields_word a b c d) = a" using small_field(1) [OF assms(1)] by (simp add: RS_OF_def)
  have "drop_bit 16 (fields_word a b c d) AND 0x1F = of_nat b AND 0x1F"
    unfolding mask5 fields_word_def by (rule bit_word_eqI) (auto simp: bit_simps n)
  then show "RT_OF (fields_word a b c d) = b" using small_field(1) [OF assms(2)] by (simp add: RT_OF_def)
  have "drop_bit 11 (fields_word a b c d) AND 0x1F = of_nat c AND 0x1F"
    unfolding mask5 fields_word_def by (rule bit_word_eqI) (auto simp: bit_simps n)
  then show "RD_OF (fields_word a b c d) = c" using small_field(1) [OF assms(3)] by (simp add: RD_OF_def)
  have "drop_bit 6 (fields_word a b c d) AND 0x1F = of_nat d AND 0x1F"
    unfolding mask5 fields_word_def by (rule bit_word_eqI) (auto simp: bit_simps n)
  then show "SA_OF (fields_word a b c d) = d" using small_field(1) [OF assms(4)] by (simp add: SA_OF_def)
qed

lemma imm_word:
  assumes "a < 32" "b < 32"
  shows "RS_OF (imm_word a b i) = a" "RT_OF (imm_word a b i) = b" "IMM16S_OF (imm_word a b i) = i"
proof -
  note n = assms [THEN small_field(2)]
  have "drop_bit 21 (imm_word a b i) AND 0x1F = of_nat a AND 0x1F"
    unfolding mask5 imm_word_def by (rule bit_word_eqI) (auto simp: bit_simps n dest: bit_imp_le_length)
  then show "RS_OF (imm_word a b i) = a" using small_field(1) [OF assms(1)] by (simp add: RS_OF_def)
  have "drop_bit 16 (imm_word a b i) AND 0x1F = of_nat b AND 0x1F"
    unfolding mask5 imm_word_def by (rule bit_word_eqI) (auto simp: bit_simps n dest: bit_imp_le_length)
  then show "RT_OF (imm_word a b i) = b" using small_field(1) [OF assms(2)] by (simp add: RT_OF_def)
  show "IMM16S_OF (imm_word a b i) = i"
    unfolding IMM16S_OF_def imm_word_def by (rule bit_word_eqI) (auto simp: bit_simps n)
qed

lemma operand_words:
  "operand_word (F_i rs rt imm) = imm_word (ref_number rs) (ref_number rt) imm"
  "operand_word (F_r rs rt rd sa nrd) = fields_word (ref_number rs) (ref_number rt) (if is_reg rd then ref_number rd else nrd) sa"
  "operand_word (F_lf base ft off) = imm_word base ft off"
  "operand_word (F_cf ft fs fd) = fields_word 0 ft fs fd"
  by (simp_all add: imm_word_def fields_word_def)

section \<open>Decoders are consistent with handlers\<close>

text \<open>
  What a decoder has to look like for its handler: every operand the handler reads is in the member of the union that is
  written, and comes from the field of the instruction word the operand is named after.
\<close>

fun operand_decoded :: "u8 list \<Rightarrow> operand \<Rightarrow> bool" where
  "operand_decoded us RS = (U53_TYPE (us ! 2) = Some IDEC_REGTYPE_GPR \<and> U53_SHIFT (us ! 2) = 21)"
| "operand_decoded us RT = (U53_TYPE (us ! 1) = Some IDEC_REGTYPE_GPR \<and> U53_SHIFT (us ! 1) = 16)"
| "operand_decoded us RD = (U53_TYPE (us ! 0) = Some IDEC_REGTYPE_GPR \<and> U53_SHIFT (us ! 0) = 11)"
| "operand_decoded us NRD = (U53_SHIFT (us ! 0) = 11)"
| "operand_decoded us SA = (U53_SHIFT (us ! 3) = 6)"
| "operand_decoded us BASE = (U53_SHIFT (us ! 2) = 21)"
| "operand_decoded us LFT = (U53_SHIFT (us ! 1) = 16)"
| "operand_decoded us FT = (U53_SHIFT (us ! 1) = 16)"
| "operand_decoded us FS = (U53_SHIFT (us ! 2) = 11)"
| "operand_decoded us FD = (U53_SHIFT (us ! 0) = 6)"
| "operand_decoded us _ = True"

definition member_r :: "operand list" where "member_r = [RS, RT, RD, NRD, SA]"
definition member_i :: "operand list" where "member_i = [RS, RT, IMM]"
definition member_lf :: "operand list" where "member_lf = [BASE, LFT, OFFSET]"
definition member_cf :: "operand list" where "member_cf = [FT, FS, FD]"

definition valid_u53 :: "u8 list \<Rightarrow> bool" where
  "valid_u53 us \<longleftrightarrow> length us = 4 \<and> list_all (\<lambda>u. U53_TYPE u \<noteq> None) us"

definition reads_decoded :: "operand list \<Rightarrow> u8 list \<Rightarrow> 'a handler option \<Rightarrow> bool" where
  "reads_decoded m us h =
     (case h of None \<Rightarrow> False | Some (rds, _) \<Rightarrow> list_all (\<lambda>r. r \<in> set m \<and> operand_decoded us r) rds)"

definition formats :: "decode_kind \<Rightarrow> nat list" where
  "formats k = (case k of K_cp1 \<Rightarrow> [0x10, 0x11] | K_cvt_d \<Rightarrow> [0x10, 0x14, 0x15] | K_cvt_s \<Rightarrow> [0x11, 0x14, 0x15] | _ \<Rightarrow> [])"

definition well_decoded :: "'a dev machine \<Rightarrow> r4300_idec \<Rightarrow> bool" where
  "well_decoded env d \<longleftrightarrow>
     (let us = u53 d; h = ci_table env (opcode d) in
      valid_u53 us \<and>
      (case decode_kind (opcode d) of
         None \<Rightarrow> False
       | Some K_rd \<Rightarrow> reads_decoded member_r us h \<and> operand_decoded us NRD
       | Some K_rt_i \<Rightarrow> reads_decoded member_i us h \<and> operand_decoded us LFT
       | Some K_rt_r \<Rightarrow> reads_decoded member_r us h \<and> operand_decoded us LFT
       | Some K_r \<Rightarrow> reads_decoded member_r us h
       | Some K_i \<Rightarrow> reads_decoded member_i us h
       | Some K_lf \<Rightarrow> reads_decoded member_lf us h
       | Some K_none \<Rightarrow> reads_decoded [] us h
       | Some k \<Rightarrow> k \<in> {K_cp1, K_cvt_d, K_cvt_s} \<and> U53_SHIFT (us ! 3) = 21 \<and>
           list_all (\<lambda>fmt. reads_decoded member_cf us (format_table env (opcode d, fmt))) (formats k)))"

text \<open>The instruction a decoder stands for, on the word it was selected by.\<close>

definition exec_of :: "'a dev machine \<Rightarrow> r4300_idec \<Rightarrow> 'a instr" where
  "exec_of env d iw =
     (let h = snd (the (ci_table env (opcode d))) iw in
      case decode_kind (opcode d) of
        Some K_rd \<Rightarrow> if RD_OF iw = 0 then none_op i_NOP iw else h
      | Some K_rt_i \<Rightarrow> if RT_OF iw = 0 then none_op i_NOP iw else h
      | Some K_rt_r \<Rightarrow> if RT_OF iw = 0 then none_op i_NOP iw else h
      | Some k \<Rightarrow>
          if k \<in> {K_cp1, K_cvt_d, K_cvt_s}
          then if RS_OF iw \<in> set (formats k) then snd (the (format_table env (opcode d, RS_OF iw))) iw else none_op i_RESERVED iw
          else h
      | None \<Rightarrow> h)"

definition number_at :: "u32 \<Rightarrow> u8 \<Rightarrow> nat" where
  "number_at iw u = unat (drop_bit (U53_SHIFT u) iw AND 0x1F)"

lemma number_at: "number_at iw u < 32" "U53_SHIFT u = 21 \<Longrightarrow> number_at iw u = RS_OF iw" "U53_SHIFT u = 16 \<Longrightarrow> number_at iw u = RT_OF iw"
  "U53_SHIFT u = 11 \<Longrightarrow> number_at iw u = RD_OF iw" "U53_SHIFT u = 6 \<Longrightarrow> number_at iw u = SA_OF iw"
  by (simp_all add: number_at_def RS_OF_def RT_OF_def RD_OF_def SA_OF_def)

lemma idec_u53_valid:
  "U53_TYPE u \<noteq> None \<Longrightarrow>
   \<exists>p. idec_u53 iw u = Some (p, number_at iw u) \<and> (if U53_TYPE u = Some IDEC_REGTYPE_GPR then p = At_reg (number_at iw u) else \<not> is_reg p)"
  by (auto simp: idec_u53_def number_at_def Let_def split: option.splits r4300_register_type.splits)

lemma ref_bound: "(if c then p = At_reg n else \<not> is_reg p) \<Longrightarrow> n < 32 \<Longrightarrow> ref_number p < 32"
  by (cases p) (auto split: if_splits)

definition holds_fields :: "operand list \<Rightarrow> operands \<Rightarrow> u32 \<Rightarrow> bool" where
  "holds_fields rds f iw \<longleftrightarrow> list_all (\<lambda>r. readable f r \<and> operand_field r (operand_word f) = operand_field r iw) rds"

lemma run_decoded_handler:
  assumes "handler_of env (ops inst) = Some (rds, i)" "holds_fields rds (f_args inst) iw"
  shows "run_decoded env inst s = i iw s"
  using assms handler_reads [OF assms(1)]
  by (simp add: run_decoded_def holds_fields_def reads_only_def list_all_iff)

text \<open>The members that are written hold the operands of a consistent decoder.\<close>

lemma r_operands_hold:
  assumes "valid_u53 (u53 d)"
  shows "\<exists>rs rt rd sa nrd n. r_operands d iw = Some (F_r rs rt rd sa nrd, n) \<and> (operand_decoded (u53 d) LFT \<longrightarrow> n = RT_OF iw) \<and>
    (operand_decoded (u53 d) NRD \<longrightarrow> nrd = RD_OF iw) \<and>
    (\<forall>rds. list_all (\<lambda>r. r \<in> set member_r \<and> operand_decoded (u53 d) r) rds \<longrightarrow> holds_fields rds (F_r rs rt rd sa nrd) iw)"
proof -
  have v: "U53_TYPE (u53 d ! 0) \<noteq> None" "U53_TYPE (u53 d ! 1) \<noteq> None" "U53_TYPE (u53 d ! 2) \<noteq> None" "U53_TYPE (u53 d ! 3) \<noteq> None"
    using assms by (auto simp: valid_u53_def list_all_length)
  obtain p0 p1 p2 p3 where p: "idec_u53 iw (u53 d ! 0) = Some (p0, number_at iw (u53 d ! 0))"
    "idec_u53 iw (u53 d ! 1) = Some (p1, number_at iw (u53 d ! 1))" "idec_u53 iw (u53 d ! 2) = Some (p2, number_at iw (u53 d ! 2))"
    "idec_u53 iw (u53 d ! 3) = Some (p3, number_at iw (u53 d ! 3))"
    and r: "if U53_TYPE (u53 d ! 0) = Some IDEC_REGTYPE_GPR then p0 = At_reg (number_at iw (u53 d ! 0)) else \<not> is_reg p0"
    "if U53_TYPE (u53 d ! 1) = Some IDEC_REGTYPE_GPR then p1 = At_reg (number_at iw (u53 d ! 1)) else \<not> is_reg p1"
    "if U53_TYPE (u53 d ! 2) = Some IDEC_REGTYPE_GPR then p2 = At_reg (number_at iw (u53 d ! 2)) else \<not> is_reg p2"
    using v [THEN idec_u53_valid] by blast
  have b: "ref_number p0 < 32" "ref_number p1 < 32" "ref_number p2 < 32"
    using r [THEN ref_bound] number_at(1) [of iw] by blast+
  let ?f = "F_r p2 p1 p0 (number_at iw (u53 d ! 3)) (number_at iw (u53 d ! 0))"
  have "r_operands d iw = Some (?f, number_at iw (u53 d ! 1))" using p by (simp add: r_operands_def)
  moreover have "readable ?f x \<and> operand_field x (operand_word ?f) = operand_field x iw" if "x \<in> set member_r" "operand_decoded (u53 d) x" for x
    using that r b number_at by (auto simp: member_r_def operand_words fields_word split: if_splits simp del: operand_word.simps)
  ultimately show ?thesis by (auto simp: holds_fields_def list_all_iff number_at)
qed

lemma i_operands_hold:
  assumes "valid_u53 (u53 d)"
  shows "\<exists>rs rt n. i_operands d iw = Some (F_i rs rt (ucast iw), n) \<and> (operand_decoded (u53 d) LFT \<longrightarrow> n = RT_OF iw) \<and>
    (\<forall>rds. list_all (\<lambda>r. r \<in> set member_i \<and> operand_decoded (u53 d) r) rds \<longrightarrow> holds_fields rds (F_i rs rt (ucast iw)) iw)"
proof -
  have v: "U53_TYPE (u53 d ! 1) \<noteq> None" "U53_TYPE (u53 d ! 2) \<noteq> None"
    using assms by (auto simp: valid_u53_def list_all_length)
  obtain p1 p2 where p: "idec_u53 iw (u53 d ! 1) = Some (p1, number_at iw (u53 d ! 1))"
    "idec_u53 iw (u53 d ! 2) = Some (p2, number_at iw (u53 d ! 2))"
    and r: "if U53_TYPE (u53 d ! 1) = Some IDEC_REGTYPE_GPR then p1 = At_reg (number_at iw (u53 d ! 1)) else \<not> is_reg p1"
    "if U53_TYPE (u53 d ! 2) = Some IDEC_REGTYPE_GPR then p2 = At_reg (number_at iw (u53 d ! 2)) else \<not> is_reg p2"
    using v [THEN idec_u53_valid] by blast
  have b: "ref_number p1 < 32" "ref_number p2 < 32" using r [THEN ref_bound] number_at(1) by blast+
  let ?f = "F_i p2 p1 (ucast iw)"
  have "i_operands d iw = Some (?f, number_at iw (u53 d ! 1))" using p by (simp add: i_operands_def)
  moreover have "readable ?f x \<and> operand_field x (operand_word ?f) = operand_field x iw" if "x \<in> set member_i" "operand_decoded (u53 d) x" for x
    using that r b number_at
    by (auto simp: member_i_def operand_words imm_word IMM16S_OF_def [of iw] split: if_splits simp del: operand_word.simps)
  ultimately show ?thesis by (auto simp: holds_fields_def list_all_iff number_at)
qed

lemma lf_operands_hold:
  assumes "valid_u53 (u53 d)"
  shows "\<exists>f. lf_operands d iw = Some f \<and>
    (\<forall>rds. list_all (\<lambda>r. r \<in> set member_lf \<and> operand_decoded (u53 d) r) rds \<longrightarrow> holds_fields rds f iw)"
proof -
  have v: "U53_TYPE (u53 d ! 1) \<noteq> None" "U53_TYPE (u53 d ! 2) \<noteq> None"
    using assms by (auto simp: valid_u53_def list_all_length)
  let ?f = "F_lf (number_at iw (u53 d ! 2)) (number_at iw (u53 d ! 1)) (ucast iw)"
  have "lf_operands d iw = Some ?f" using v [THEN idec_u53_valid, of iw] by (auto simp: lf_operands_def)
  moreover have "readable ?f x \<and> operand_field x (operand_word ?f) = operand_field x iw" if "x \<in> set member_lf" "operand_decoded (u53 d) x" for x
    using that number_at
    by (auto simp: member_lf_def operand_words imm_word IMM16S_OF_def [of iw] simp del: operand_word.simps)
  ultimately show ?thesis by (auto simp: holds_fields_def list_all_iff)
qed

lemma cf_operands_hold:
  assumes "valid_u53 (u53 d)" "U53_SHIFT (u53 d ! 3) = 21"
  shows "\<exists>f. cf_operands d iw = Some (f, RS_OF iw) \<and>
    (\<forall>rds. list_all (\<lambda>r. r \<in> set member_cf \<and> operand_decoded (u53 d) r) rds \<longrightarrow> holds_fields rds f iw)"
proof -
  have v: "U53_TYPE (u53 d ! 0) \<noteq> None" "U53_TYPE (u53 d ! 1) \<noteq> None" "U53_TYPE (u53 d ! 2) \<noteq> None" "U53_TYPE (u53 d ! 3) \<noteq> None"
    using assms by (auto simp: valid_u53_def list_all_length)
  let ?f = "F_cf (number_at iw (u53 d ! 1)) (number_at iw (u53 d ! 2)) (number_at iw (u53 d ! 0))"
  have "cf_operands d iw = Some (?f, RS_OF iw)"
    using v [THEN idec_u53_valid, of iw] assms(2) by (auto simp: cf_operands_def number_at)
  moreover have "readable ?f x \<and> operand_field x (operand_word ?f) = operand_field x iw" if "x \<in> set member_cf" "operand_decoded (u53 d) x" for x
    using that number_at
    by (auto simp: member_cf_def operand_words fields_word simp del: operand_word.simps)
  ultimately show ?thesis by (auto simp: holds_fields_def list_all_iff)
qed

lemma holds_nothing [simp]: "holds_fields [] f iw"
  by (simp add: holds_fields_def)

lemma with_ops_exec:
  assumes "ci_table env op = Some h" "holds_fields (fst h) f iw"
  shows "\<exists>inst' op'. Some (with_ops inst f op) = Some (inst', op') \<and> (\<forall>s. run_decoded env inst' s = snd h iw s)"
  using assms run_decoded_handler [of env "inst\<lparr>ops := Ops op, f_args := f\<rparr>" "fst h" "snd h" iw]
  by (simp add: with_ops_def handler_of_def)

lemma nop_exec: "\<exists>inst' op'. Some (with_ops inst f R4300_OP_NOP) = Some (inst', op') \<and> (\<forall>s. run_decoded env inst' s = none_op i_NOP iw s)"
  using with_ops_exec [of env R4300_OP_NOP "([], none_op i_NOP)" f iw inst] by simp

lemma reserved_exec:
  "\<exists>inst' op'. Some (with_ops inst f R4300_OP_RESERVED) = Some (inst', op') \<and> (\<forall>s. run_decoded env inst' s = none_op i_RESERVED iw s)"
  using with_ops_exec [of env R4300_OP_RESERVED "([], none_op i_RESERVED)" f iw inst] by simp

lemma with_format_exec:
  assumes "list_all (\<lambda>fmt. reads_decoded member_cf (u53 d) (format_table env (opcode d, fmt))) fmts"
    and "\<forall>rds. list_all (\<lambda>r. r \<in> set member_cf \<and> operand_decoded (u53 d) r) rds \<longrightarrow> holds_fields rds f iw"
  shows "\<exists>inst' op'. Some (with_format inst d fmts (f, fmt)) = Some (inst', op') \<and>
    (\<forall>s. run_decoded env inst' s = (if fmt \<in> set fmts then snd (the (format_table env (opcode d, fmt))) iw else none_op i_RESERVED iw) s)"
proof (cases "fmt \<in> set fmts")
  case True
  then obtain h where h: "format_table env (opcode d, fmt) = Some h" "holds_fields (fst h) f iw"
    using assms by (fastforce simp: list_all_iff reads_decoded_def split: option.splits)
  then show ?thesis
    using True run_decoded_handler [of env "inst\<lparr>ops := Ops_fmt (opcode d) fmt, f_args := f\<rparr>" "fst h" "snd h" iw]
    by (simp add: with_format_def handler_of_def)
next
  case False
  then show ?thesis using reserved_exec [of inst f env iw] by (simp add: with_format_def)
qed

lemma reads_decodedE:
  assumes "reads_decoded m us h"
  obtains x where "h = Some x" "list_all (\<lambda>r. r \<in> set m \<and> operand_decoded us r) (fst x)"
  using assms by (auto simp: reads_decoded_def split: option.splits)

text \<open>A consistent decoder gives the instruction it stands for; first by the member of the union.\<close>

definition decodes_to :: "'a dev machine \<Rightarrow> r4300_idec \<Rightarrow> u32 \<Rightarrow> ('a dev \<Rightarrow> 'a dev option) \<Rightarrow> bool" where
  "decodes_to env d iw e \<longleftrightarrow>
     (\<forall>inst next_iw block. \<exists>inst' op. r4300_decode inst d iw next_iw block = Some (inst', op) \<and> (\<forall>s. run_decoded env inst' s = e s))"

lemmas decode_simps = decodes_to_def r4300_decode_def exec_of_def Let_def

lemma decode_exec_r:
  assumes "decode_kind (opcode d) = Some k" "k \<in> {K_rd, K_rt_r, K_r}" "valid_u53 (u53 d)"
    and "reads_decoded member_r (u53 d) (ci_table env (opcode d))"
    and "k = K_rd \<Longrightarrow> operand_decoded (u53 d) NRD" "k = K_rt_r \<Longrightarrow> operand_decoded (u53 d) LFT"
  shows "decodes_to env d iw (exec_of env d iw)"
proof -
  from assms(4) obtain h where h: "ci_table env (opcode d) = Some h" "list_all (\<lambda>r. r \<in> set member_r \<and> operand_decoded (u53 d) r) (fst h)"
    by (elim reads_decodedE)
  obtain a b c e m n where f: "r_operands d iw = Some (F_r a b c e m, n)" "k = K_rd \<longrightarrow> m = RD_OF iw" "k = K_rt_r \<longrightarrow> n = RT_OF iw"
    "holds_fields (fst h) (F_r a b c e m) iw"
    using r_operands_hold [OF assms(3), of iw] h(2) assms(5,6) by blast
  show ?thesis
    using nop_exec [of _ _ env iw] with_ops_exec [OF h(1) f(4)] assms(1,2) f(1-3) by (auto simp: decode_simps h(1))
qed

lemma decode_exec_i:
  assumes "decode_kind (opcode d) = Some k" "k \<in> {K_rt_i, K_i}" "valid_u53 (u53 d)"
    and "reads_decoded member_i (u53 d) (ci_table env (opcode d))" "k = K_rt_i \<Longrightarrow> operand_decoded (u53 d) LFT"
  shows "decodes_to env d iw (exec_of env d iw)"
proof -
  from assms(4) obtain h where h: "ci_table env (opcode d) = Some h" "list_all (\<lambda>r. r \<in> set member_i \<and> operand_decoded (u53 d) r) (fst h)"
    by (elim reads_decodedE)
  obtain f n where f: "i_operands d iw = Some (f, n)" "k = K_rt_i \<longrightarrow> n = RT_OF iw" "holds_fields (fst h) f iw"
    using i_operands_hold [OF assms(3), of iw] h(2) assms(5) by blast
  show ?thesis
    using nop_exec [of _ _ env iw] with_ops_exec [OF h(1) f(3)] assms(1,2) f(1,2) by (auto simp: decode_simps h(1))
qed

lemma decode_exec_lf:
  assumes "decode_kind (opcode d) = Some K_lf" "valid_u53 (u53 d)" "reads_decoded member_lf (u53 d) (ci_table env (opcode d))"
  shows "decodes_to env d iw (exec_of env d iw)"
proof -
  from assms(3) obtain h where h: "ci_table env (opcode d) = Some h" "list_all (\<lambda>r. r \<in> set member_lf \<and> operand_decoded (u53 d) r) (fst h)"
    by (elim reads_decodedE)
  obtain f where f: "lf_operands d iw = Some f" "holds_fields (fst h) f iw" using lf_operands_hold [OF assms(2), of iw] h(2) by blast
  show ?thesis using with_ops_exec [OF h(1) f(2)] assms(1) f(1) by (simp add: decode_simps h(1))
qed

lemma decode_exec_none:
  assumes "decode_kind (opcode d) = Some K_none" "reads_decoded [] (u53 d) (ci_table env (opcode d))"
  shows "decodes_to env d iw (exec_of env d iw)"
proof -
  from assms(2) obtain h where h: "ci_table env (opcode d) = Some h" "fst h = []" by (auto elim!: reads_decodedE simp: list_all_iff)
  show ?thesis using with_ops_exec [OF h(1)] assms(1) by (simp add: decode_simps h)
qed

lemma decode_exec_cf:
  assumes k: "decode_kind (opcode d) = Some k" "k \<in> {K_cp1, K_cvt_d, K_cvt_s}" and v: "valid_u53 (u53 d)" "U53_SHIFT (u53 d ! 3) = 21"
    and l: "list_all (\<lambda>fmt. reads_decoded member_cf (u53 d) (format_table env (opcode d, fmt))) (formats k)"
  shows "decodes_to env d iw (exec_of env d iw)"
proof -
  obtain f where f: "cf_operands d iw = Some (f, RS_OF iw)"
    "\<forall>rds. list_all (\<lambda>r. r \<in> set member_cf \<and> operand_decoded (u53 d) r) rds \<longrightarrow> holds_fields rds f iw"
    using cf_operands_hold [OF v] by blast
  have "r4300_decode inst d iw next_iw block = Some (with_format inst d (formats k) (f, RS_OF iw))" for inst next_iw block
    using k f(1) by (auto simp: r4300_decode_def Let_def formats_def)
  moreover have "exec_of env d iw =
      (if RS_OF iw \<in> set (formats k) then snd (the (format_table env (opcode d, RS_OF iw))) iw else none_op i_RESERVED iw)"
    using k by (auto simp: exec_of_def Let_def)
  ultimately show ?thesis using with_format_exec [OF l f(2), of _ "RS_OF iw"] by (simp add: decodes_to_def)
qed

lemma decode_exec:
  assumes "well_decoded env d"
  shows "decodes_to env d iw (exec_of env d iw)"
proof -
  obtain k where k: "decode_kind (opcode d) = Some k" using assms by (auto simp: well_decoded_def Let_def split: option.splits)
  then show ?thesis
    using assms decode_exec_r [OF k, of env iw] decode_exec_i [OF k, of env iw] decode_exec_lf [of d env iw] decode_exec_none [of d env iw]
      decode_exec_cf [OF k, of env iw]
    by (cases k) (simp_all add: well_decoded_def Let_def)
qed

end
