(* ===== verification/Cached_Agree.thy ===== *)
theory Cached_Agree
  imports Cached_Decode
begin

text \<open>
  The cached interpreter against the pure interpreter: the decoder tables of \<open>Idec\<close> with the handlers of
  \<open>Cached_Table\<close> select the instruction that \<open>Interp\<close> selects from the same word.
\<close>

section \<open>The decoder tables are consistent with the handlers\<close>

lemma decoder_registers [simp]:
  "u53 d_RESERVED = [U53_NONE, U53_NONE, U53_NONE, U53_NONE]"
  "u53 d_ADD = [U53_RD, U53_RT, U53_RS, U53_NONE]"
  "u53 d_ADDI = [U53_NONE, U53_RT, U53_RS, U53_NONE]"
  "u53 d_ADDIU = [U53_NONE, U53_RT, U53_RS, U53_NONE]"
  "u53 d_ADDU = [U53_RD, U53_RT, U53_RS, U53_NONE]"
  "u53 d_AND = [U53_RD, U53_RT, U53_RS, U53_NONE]"
  "u53 d_ANDI = [U53_NONE, U53_RT, U53_RS, U53_NONE]"
  "u53 d_BC0F = [U53_NONE, U53_NONE, U53_NONE, U53_NONE]"
  "u53 d_BC1F = [U53_NONE, U53_NONE, U53_NONE, U53_NONE]"
  "u53 d_BC2F = [U53_NONE, U53_NONE, U53_NONE, U53_NONE]"
  "u53 d_BC0FL = [U53_NONE, U53_NONE, U53_NONE, U53_NONE]"
  "u53 d_BC1FL = [U53_NONE, U53_NONE, U53_NONE, U53_NONE]"
  "u53 d_BC2FL = [U53_NONE, U53_NONE, U53_NONE, U53_NONE]"
  "u53 d_BC0T = [U53_NONE, U53_NONE, U53_NONE, U53_NONE]"
  "u53 d_BC1T = [U53_NONE, U53_NONE, U53_NONE, U53_NONE]"
  "u53 d_BC2T = [U53_NONE, U53_NONE, U53_NONE, U53_NONE]"
  "u53 d_BC0TL = [U53_NONE, U53_NONE, U53_NONE, U53_NONE]"
  "u53 d_BC1TL = [U53_NONE, U53_NONE, U53_NONE, U53_NONE]"
  "u53 d_BC2TL = [U53_NONE, U53_NONE, U53_NONE, U53_NONE]"
  "u53 d_BEQ = [U53_NONE, U53_RT, U53_RS, U53_NONE]"
  "u53 d_BEQL = [U53_NONE, U53_RT, U53_RS, U53_NONE]"
  "u53 d_BGEZ = [U53_NONE, U53_NONE, U53_RS, U53_NONE]"
  "u53 d_BGEZAL = [U53_NONE, U53_NONE, U53_RS, U53_NONE]"
  "u53 d_BGEZALL = [U53_NONE, U53_NONE, U53_RS, U53_NONE]"
  "u53 d_BGEZL = [U53_NONE, U53_NONE, U53_RS, U53_NONE]"
  "u53 d_BGTZ = [U53_NONE, U53_NONE, U53_RS, U53_NONE]"
  "u53 d_BGTZL = [U53_NONE, U53_NONE, U53_RS, U53_NONE]"
  "u53 d_BLEZ = [U53_NONE, U53_NONE, U53_RS, U53_NONE]"
  "u53 d_BLEZL = [U53_NONE, U53_NONE, U53_RS, U53_NONE]"
  "u53 d_BLTZ = [U53_NONE, U53_NONE, U53_RS, U53_NONE]"
  "u53 d_BLTZAL = [U53_NONE, U53_NONE, U53_RS, U53_NONE]"
  "u53 d_BLTZALL = [U53_NONE, U53_NONE, U53_RS, U53_NONE]"
  "u53 d_BLTZL = [U53_NONE, U53_NONE, U53_RS, U53_NONE]"
  "u53 d_BNE = [U53_NONE, U53_RT, U53_RS, U53_NONE]"
  "u53 d_BNEL = [U53_NONE, U53_RT, U53_RS, U53_NONE]"
  "u53 d_BREAK = [U53_NONE, U53_NONE, U53_NONE, U53_NONE]"
  "u53 d_CACHE = [U53_NONE, U53_CACHEOP, U53_RS, U53_NONE]"
  "u53 d_CFC0 = [U53_CCR0, U53_RT, U53_NONE, U53_NONE]"
  "u53 d_CFC1 = [U53_FCR, U53_RT, U53_NONE, U53_NONE]"
  "u53 d_DCFC1 = [U53_FCR, U53_RT, U53_NONE, U53_NONE]"
  "u53 d_CFC2 = [U53_CCR2, U53_RT, U53_NONE, U53_NONE]"
  "u53 d_DCFC2 = [U53_CCR2, U53_RT, U53_NONE, U53_NONE]"
  "u53 d_CP1_ABS = [U53_FD, U53_NONE, U53_FS, U53_FMT]"
  "u53 d_CP1_ADD = [U53_FD, U53_FT, U53_FS, U53_FMT]"
  "u53 d_CP1_C_EQ = [U53_NONE, U53_FT, U53_FS, U53_FMT]"
  "u53 d_CP1_C_F = [U53_NONE, U53_FT, U53_FS, U53_FMT]"
  "u53 d_CP1_C_LE = [U53_NONE, U53_FT, U53_FS, U53_FMT]"
  "u53 d_CP1_C_LT = [U53_NONE, U53_FT, U53_FS, U53_FMT]"
  "u53 d_CP1_C_NGE = [U53_NONE, U53_FT, U53_FS, U53_FMT]"
  "u53 d_CP1_C_NGLE = [U53_NONE, U53_FT, U53_FS, U53_FMT]"
  "u53 d_CP1_C_NGL = [U53_NONE, U53_FT, U53_FS, U53_FMT]"
  "u53 d_CP1_C_NGT = [U53_NONE, U53_FT, U53_FS, U53_FMT]"
  "u53 d_CP1_C_OLE = [U53_NONE, U53_FT, U53_FS, U53_FMT]"
  "u53 d_CP1_C_OLT = [U53_NONE, U53_FT, U53_FS, U53_FMT]"
  "u53 d_CP1_C_SEQ = [U53_NONE, U53_FT, U53_FS, U53_FMT]"
  "u53 d_CP1_C_SF = [U53_NONE, U53_FT, U53_FS, U53_FMT]"
  "u53 d_CP1_C_UEQ = [U53_NONE, U53_FT, U53_FS, U53_FMT]"
  "u53 d_CP1_C_ULE = [U53_NONE, U53_FT, U53_FS, U53_FMT]"
  "u53 d_CP1_C_ULT = [U53_NONE, U53_FT, U53_FS, U53_FMT]"
  "u53 d_CP1_C_UN = [U53_NONE, U53_FT, U53_FS, U53_FMT]"
  "u53 d_CP1_CEIL_L = [U53_FDL, U53_NONE, U53_FS, U53_FMT]"
  "u53 d_CP1_CEIL_W = [U53_FDW, U53_NONE, U53_FS, U53_FMT]"
  "u53 d_CP1_CVT_D = [U53_FDD, U53_NONE, U53_FS, U53_FMT]"
  "u53 d_CP1_CVT_L = [U53_FDL, U53_NONE, U53_FS, U53_FMT]"
  "u53 d_CP1_CVT_S = [U53_FDS, U53_NONE, U53_FS, U53_FMT]"
  "u53 d_CP1_CVT_W = [U53_FDW, U53_NONE, U53_FS, U53_FMT]"
  "u53 d_CP1_DIV = [U53_FD, U53_FT, U53_FS, U53_FMT]"
  "u53 d_CP1_FLOOR_L = [U53_FDL, U53_NONE, U53_FS, U53_FMT]"
  "u53 d_CP1_FLOOR_W = [U53_FDW, U53_NONE, U53_FS, U53_FMT]"
  "u53 d_CP1_MOV = [U53_FD, U53_NONE, U53_FS, U53_FMT]"
  "u53 d_CP1_MUL = [U53_FD, U53_FT, U53_FS, U53_FMT]"
  "u53 d_CP1_NEG = [U53_FD, U53_NONE, U53_FS, U53_FMT]"
  "u53 d_CP1_ROUND_L = [U53_FDL, U53_NONE, U53_FS, U53_FMT]"
  "u53 d_CP1_ROUND_W = [U53_FDW, U53_NONE, U53_FS, U53_FMT]"
  "u53 d_CP1_SQRT = [U53_FD, U53_NONE, U53_FS, U53_FMT]"
  "u53 d_CP1_SUB = [U53_FD, U53_FT, U53_FS, U53_FMT]"
  "u53 d_CP1_TRUNC_L = [U53_FDL, U53_NONE, U53_FS, U53_FMT]"
  "u53 d_CP1_TRUNC_W = [U53_FDW, U53_NONE, U53_FS, U53_FMT]"
  "u53 d_CTC0 = [U53_CCR0, U53_RT, U53_NONE, U53_NONE]"
  "u53 d_CTC1 = [U53_FCR, U53_RT, U53_NONE, U53_NONE]"
  "u53 d_DCTC1 = [U53_FCR, U53_RT, U53_NONE, U53_NONE]"
  "u53 d_CTC2 = [U53_CCR2, U53_RT, U53_NONE, U53_NONE]"
  "u53 d_DCTC2 = [U53_CCR2, U53_RT, U53_NONE, U53_NONE]"
  "u53 d_DADD = [U53_RD, U53_RT, U53_RS, U53_NONE]"
  "u53 d_DADDI = [U53_NONE, U53_RT, U53_RS, U53_NONE]"
  "u53 d_DADDIU = [U53_NONE, U53_RT, U53_RS, U53_NONE]"
  "u53 d_DADDU = [U53_RD, U53_RT, U53_RS, U53_NONE]"
  "u53 d_DDIV = [U53_NONE, U53_RT, U53_RS, U53_NONE]"
  "u53 d_DDIVU = [U53_NONE, U53_RT, U53_RS, U53_NONE]"
  "u53 d_DIV = [U53_NONE, U53_RT, U53_RS, U53_NONE]"
  "u53 d_DIVU = [U53_NONE, U53_RT, U53_RS, U53_NONE]"
  "u53 d_DMFC0 = [U53_CPR0, U53_RT, U53_NONE, U53_NONE]"
  "u53 d_DMFC1 = [U53_FS64, U53_RT, U53_NONE, U53_NONE]"
  "u53 d_DMFC2 = [U53_CPR2D, U53_RT, U53_NONE, U53_NONE]"
  "u53 d_DMTC0 = [U53_CPR0, U53_RT, U53_NONE, U53_NONE]"
  "u53 d_DMTC1 = [U53_FS64, U53_RT, U53_NONE, U53_NONE]"
  "u53 d_DMTC2 = [U53_CPR2D, U53_RT, U53_NONE, U53_NONE]"
  "u53 d_DMULT = [U53_NONE, U53_RT, U53_RS, U53_NONE]"
  "u53 d_DMULTU = [U53_NONE, U53_RT, U53_RS, U53_NONE]"
  "u53 d_DSLL = [U53_RD, U53_RT, U53_NONE, U53_SA]"
  "u53 d_DSLLV = [U53_RD, U53_RT, U53_RS, U53_NONE]"
  "u53 d_DSLL32 = [U53_RD, U53_RT, U53_NONE, U53_SA]"
  "u53 d_DSRA = [U53_RD, U53_RT, U53_NONE, U53_SA]"
  "u53 d_DSRAV = [U53_RD, U53_RT, U53_RS, U53_NONE]"
  "u53 d_DSRA32 = [U53_RD, U53_RT, U53_NONE, U53_SA]"
  "u53 d_DSRL = [U53_RD, U53_RT, U53_NONE, U53_SA]"
  "u53 d_DSRLV = [U53_RD, U53_RT, U53_RS, U53_NONE]"
  "u53 d_DSRL32 = [U53_RD, U53_RT, U53_NONE, U53_SA]"
  "u53 d_DSUB = [U53_RD, U53_RT, U53_RS, U53_NONE]"
  "u53 d_DSUBU = [U53_RD, U53_RT, U53_RS, U53_NONE]"
  "u53 d_ERET = [U53_NONE, U53_NONE, U53_NONE, U53_NONE]"
  "u53 d_J = [U53_NONE, U53_NONE, U53_NONE, U53_NONE]"
  "u53 d_JAL = [U53_NONE, U53_NONE, U53_NONE, U53_NONE]"
  "u53 d_JALR = [U53_RD, U53_NONE, U53_RS, U53_NONE]"
  "u53 d_JR = [U53_NONE, U53_NONE, U53_RS, U53_NONE]"
  "u53 d_LB = [U53_NONE, U53_RT, U53_RS, U53_NONE]"
  "u53 d_LBU = [U53_NONE, U53_RT, U53_RS, U53_NONE]"
  "u53 d_LD = [U53_NONE, U53_RT, U53_RS, U53_NONE]"
  "u53 d_LDC1 = [U53_NONE, U53_FT64, U53_RS, U53_NONE]"
  "u53 d_LDC2 = [U53_NONE, U53_CPR2T, U53_RS, U53_NONE]"
  "u53 d_LDL = [U53_NONE, U53_RT, U53_RS, U53_NONE]"
  "u53 d_LDR = [U53_NONE, U53_RT, U53_RS, U53_NONE]"
  "u53 d_LH = [U53_NONE, U53_RT, U53_RS, U53_NONE]"
  "u53 d_LHU = [U53_NONE, U53_RT, U53_RS, U53_NONE]"
  "u53 d_LL = [U53_NONE, U53_RT, U53_RS, U53_NONE]"
  "u53 d_LLD = [U53_NONE, U53_RT, U53_RS, U53_NONE]"
  "u53 d_LUI = [U53_NONE, U53_RT, U53_NONE, U53_NONE]"
  "u53 d_LW = [U53_NONE, U53_RT, U53_RS, U53_NONE]"
  "u53 d_LWC1 = [U53_NONE, U53_FT32, U53_RS, U53_NONE]"
  "u53 d_LWC2 = [U53_NONE, U53_CPR2T, U53_RS, U53_NONE]"
  "u53 d_LWL = [U53_NONE, U53_RT, U53_RS, U53_NONE]"
  "u53 d_LWR = [U53_NONE, U53_RT, U53_RS, U53_NONE]"
  "u53 d_LWU = [U53_NONE, U53_RT, U53_RS, U53_NONE]"
  "u53 d_MFC0 = [U53_CPR0, U53_RT, U53_NONE, U53_NONE]"
  "u53 d_MFC1 = [U53_FS32, U53_RT, U53_NONE, U53_NONE]"
  "u53 d_MFC2 = [U53_CPR2D, U53_RT, U53_NONE, U53_NONE]"
  "u53 d_MFHI = [U53_RD, U53_NONE, U53_NONE, U53_NONE]"
  "u53 d_MFLO = [U53_RD, U53_NONE, U53_NONE, U53_NONE]"
  "u53 d_MTC0 = [U53_CPR0, U53_RT, U53_NONE, U53_NONE]"
  "u53 d_MTC1 = [U53_FS32, U53_RT, U53_NONE, U53_NONE]"
  "u53 d_MTC2 = [U53_CPR2D, U53_RT, U53_NONE, U53_NONE]"
  "u53 d_MTHI = [U53_NONE, U53_NONE, U53_RS, U53_NONE]"
  "u53 d_MTLO = [U53_NONE, U53_NONE, U53_RS, U53_NONE]"
  "u53 d_MULT = [U53_NONE, U53_RT, U53_RS, U53_NONE]"
  "u53 d_MULTU = [U53_NONE, U53_RT, U53_RS, U53_NONE]"
  "u53 d_NOP = [U53_NONE, U53_NONE, U53_NONE, U53_NONE]"
  "u53 d_NOR = [U53_RD, U53_RT, U53_RS, U53_NONE]"
  "u53 d_OR = [U53_RD, U53_RT, U53_RS, U53_NONE]"
  "u53 d_ORI = [U53_NONE, U53_RT, U53_RS, U53_NONE]"
  "u53 d_SB = [U53_NONE, U53_RT, U53_RS, U53_NONE]"
  "u53 d_SC = [U53_NONE, U53_RT, U53_RS, U53_NONE]"
  "u53 d_SCD = [U53_NONE, U53_RT, U53_RS, U53_NONE]"
  "u53 d_SD = [U53_NONE, U53_RT, U53_RS, U53_NONE]"
  "u53 d_SDC1 = [U53_NONE, U53_FT64, U53_RS, U53_NONE]"
  "u53 d_SDC2 = [U53_NONE, U53_CPR2T, U53_RS, U53_NONE]"
  "u53 d_SDL = [U53_NONE, U53_RT, U53_RS, U53_NONE]"
  "u53 d_SDR = [U53_NONE, U53_RT, U53_RS, U53_NONE]"
  "u53 d_SH = [U53_NONE, U53_RT, U53_RS, U53_NONE]"
  "u53 d_SLL = [U53_RD, U53_RT, U53_NONE, U53_SA]"
  "u53 d_SLLV = [U53_RD, U53_RT, U53_RS, U53_NONE]"
  "u53 d_SLT = [U53_RD, U53_RT, U53_RS, U53_NONE]"
  "u53 d_SLTI = [U53_NONE, U53_RT, U53_RS, U53_NONE]"
  "u53 d_SLTIU = [U53_NONE, U53_RT, U53_RS, U53_NONE]"
  "u53 d_SLTU = [U53_RD, U53_RT, U53_RS, U53_NONE]"
  "u53 d_SRA = [U53_RD, U53_RT, U53_NONE, U53_SA]"
  "u53 d_SRAV = [U53_RD, U53_RT, U53_RS, U53_NONE]"
  "u53 d_SRL = [U53_RD, U53_RT, U53_NONE, U53_SA]"
  "u53 d_SRLV = [U53_RD, U53_RT, U53_RS, U53_NONE]"
  "u53 d_SUB = [U53_RD, U53_RT, U53_RS, U53_NONE]"
  "u53 d_SUBU = [U53_RD, U53_RT, U53_RS, U53_NONE]"
  "u53 d_SW = [U53_NONE, U53_RT, U53_RS, U53_NONE]"
  "u53 d_SWC1 = [U53_NONE, U53_FT32, U53_RS, U53_NONE]"
  "u53 d_SWC2 = [U53_NONE, U53_CPR2T, U53_RS, U53_NONE]"
  "u53 d_SWL = [U53_NONE, U53_RT, U53_RS, U53_NONE]"
  "u53 d_SWR = [U53_NONE, U53_RT, U53_RS, U53_NONE]"
  "u53 d_SYNC = [U53_NONE, U53_NONE, U53_NONE, U53_NONE]"
  "u53 d_SYSCALL = [U53_NONE, U53_NONE, U53_NONE, U53_NONE]"
  "u53 d_TEQ = [U53_NONE, U53_RT, U53_RS, U53_NONE]"
  "u53 d_TEQI = [U53_NONE, U53_NONE, U53_RS, U53_NONE]"
  "u53 d_TGE = [U53_NONE, U53_RT, U53_RS, U53_NONE]"
  "u53 d_TGEI = [U53_NONE, U53_NONE, U53_RS, U53_NONE]"
  "u53 d_TGEIU = [U53_NONE, U53_NONE, U53_RS, U53_NONE]"
  "u53 d_TGEU = [U53_NONE, U53_RT, U53_RS, U53_NONE]"
  "u53 d_TLBP = [U53_NONE, U53_NONE, U53_NONE, U53_NONE]"
  "u53 d_TLBR = [U53_NONE, U53_NONE, U53_NONE, U53_NONE]"
  "u53 d_TLBWI = [U53_NONE, U53_NONE, U53_NONE, U53_NONE]"
  "u53 d_TLBWR = [U53_NONE, U53_NONE, U53_NONE, U53_NONE]"
  "u53 d_TLT = [U53_NONE, U53_RT, U53_RS, U53_NONE]"
  "u53 d_TLTI = [U53_NONE, U53_NONE, U53_RS, U53_NONE]"
  "u53 d_TLTIU = [U53_NONE, U53_NONE, U53_RS, U53_NONE]"
  "u53 d_TLTU = [U53_NONE, U53_RT, U53_RS, U53_NONE]"
  "u53 d_TNE = [U53_NONE, U53_RT, U53_RS, U53_NONE]"
  "u53 d_TNEI = [U53_NONE, U53_NONE, U53_RS, U53_NONE]"
  "u53 d_XOR = [U53_RD, U53_RT, U53_RS, U53_NONE]"
  "u53 d_XORI = [U53_NONE, U53_RT, U53_RS, U53_NONE]"
  by (simp_all add: decoder_defs shape_defs split_beta)

lemmas table_defs = main_ops_def special_ops_def regimm_ops_def cop0_ops_def bc0_ops_def tlb_ops_def cop1_ops_def bc1_ops_def
  fpu_ops_def cop2_ops_def bc2_ops_def

lemma first_opcode [simp]: "decode_kind (Suc 0) = Some K_rd" "ci_table env (Suc 0) = Some ([RS, RT, RD], plain i_ADD)"
  using decode_kinds ci_table_entries by simp_all

definition jump_kind :: "nat \<Rightarrow> bool" where
  "jump_kind op \<longleftrightarrow> decode_kind op \<in> {Some K_jalr, Some K_jr, Some K_jump, Some K_branch}"

lemma member_simps [simp]:
  "set member_r = {RS, RT, RD, NRD, SA}" "set member_i = {RS, RT, IMM}" "set member_lf = {BASE, LFT, OFFSET}" "set member_cf = {FT, FS, FD}"
  by (simp_all add: member_r_def member_i_def member_lf_def member_cf_def)

lemma tables_well_decoded:
  "list_all (\<lambda>d. jump_kind (opcode d) \<or> opcode d = R4300_OP_CP1_C_F \<or> well_decoded env d) r4300_op_table"
  unfolding r4300_op_table_def table_defs append.simps list.pred_inject
  by (intro conjI; simp add: jump_kind_def well_decoded_def valid_u53_def reads_decoded_def formats_def)

section \<open>Selecting a decoder\<close>

lemma unat_shift: "unat (drop_bit n w) = unat w div 2 ^ n"
proof -
  have "unat (drop_bit n w) = drop_bit n (unat w)" by (rule unat_drop_bit_eq)
  then show ?thesis by (simp only: drop_bit_eq_div [of n "unat w"])
qed

lemma field_nat: "unat (drop_bit n w AND mask k) = unat w div 2 ^ n mod 2 ^ k" for w :: "'w :: len word"
proof -
  have "unat (drop_bit n w AND mask k) = take_bit k (unat (drop_bit n w))"
    by (simp only: take_bit_eq_mask [symmetric] unsigned_take_bit_eq)
  then show ?thesis by (simp only: take_bit_eq_mod unat_shift)
qed

lemmas masks = mask_eq_exp_minus_1

lemma field_values:
  "OPCODE_OF iw = unat iw div 2 ^ 26 mod 64" "FUNCT_OF iw = unat iw mod 64" "RS_OF iw = unat iw div 2 ^ 21 mod 32"
  "RT_OF iw = unat iw div 2 ^ 16 mod 32" "unat (drop_bit 24 iw) = unat iw div 2 ^ 24"
  "unat (drop_bit 21 iw AND 0x7) = unat iw div 2 ^ 21 mod 8" "unat (drop_bit 16 iw AND 0x7) = unat iw div 2 ^ 16 mod 8"
  using field_nat [of 26 iw 6] field_nat [of 0 iw 6] field_nat [of 21 iw 5] field_nat [of 16 iw 5] field_nat [of 21 iw 3] field_nat [of 16 iw 3]
  by (simp_all add: OPCODE_OF_def FUNCT_OF_def RS_OF_def RT_OF_def masks unat_shift)

lemma unat_less_u32: "unat w < 2 ^ 32" for w :: u32
  using unsigned_less [of w] by simp

lemma escape_index:
  "unat (drop_bit 24 iw) = 4 * OPCODE_OF iw + RS_OF iw div 8" "unat (drop_bit 21 iw AND 0x7) = RS_OF iw mod 8"
  "unat (drop_bit 16 iw AND 0x7) = RT_OF iw mod 8" "OPCODE_OF iw < 64" "FUNCT_OF iw < 64" for iw :: u32
proof -
  define u where "u = unat iw div 2 ^ 21"
  have u: "u < 2048" using unat_less_u32 [of iw] unfolding u_def by (simp add: less_mult_imp_div_less)
  have d: "unat iw div 2 ^ 24 = u div 8" "unat iw div 2 ^ 26 = u div 32" unfolding u_def by (simp_all add: div_mult2_eq [symmetric])
  have "u div 8 = (u mod 32 + 4 * (u div 32) * 8) div 8" by simp
  also have "\<dots> = 4 * (u div 32) + u mod 32 div 8" by (subst div_mult_self1) simp_all
  also have "u div 32 = u div 32 mod 64" using u by (simp add: less_mult_imp_div_less)
  finally have "u div 8 = 4 * (u div 32 mod 64) + u mod 32 div 8" .
  then show "unat (drop_bit 24 iw) = 4 * OPCODE_OF iw + RS_OF iw div 8" by (simp only: field_values d u_def [symmetric])
  have m: "v mod 8 = v mod 32 mod 8" for v :: nat by (simp add: mod_mod_cancel)
  show "unat (drop_bit 21 iw AND 0x7) = RS_OF iw mod 8" unfolding field_values by (rule m)
  show "unat (drop_bit 16 iw AND 0x7) = RT_OF iw mod 8" unfolding field_values by (rule m)
  show "OPCODE_OF iw < 64" "FUNCT_OF iw < 64" unfolding field_values by simp_all
qed

lemma escape_main: "8 \<le> k \<and> k < 64 \<or> 76 \<le> k \<and> k < 256 \<Longrightarrow> r4300_escapes_table ! k = E_MAIN"
  by (auto simp: r4300_escapes_table_def nth_append)

lemma escape_values:
  "n < 4 \<Longrightarrow> r4300_escapes_table ! n = E_SPECIAL" "n < 4 \<Longrightarrow> r4300_escapes_table ! (4 + n) = E_REGIMM"
  "r4300_escapes_table ! 64 = E_COP0" "r4300_escapes_table ! 65 = E_BC0"
  "r4300_escapes_table ! 66 = E_TLB" "r4300_escapes_table ! 67 = E_TLB"
  "r4300_escapes_table ! 68 = E_COP1" "r4300_escapes_table ! 69 = E_BC1"
  "r4300_escapes_table ! 70 = E_FPU" "r4300_escapes_table ! 71 = E_FPU"
  "r4300_escapes_table ! 72 = E_COP2" "r4300_escapes_table ! 73 = E_BC2"
  "r4300_escapes_table ! 74 = E_INV" "r4300_escapes_table ! 75 = E_INV"
  by (simp_all add: r4300_escapes_table_def nth_append)

lemma op_table_values:
  "k < 64 \<Longrightarrow> r4300_op_table ! k = main_ops ! k" "k < 64 \<Longrightarrow> r4300_op_table ! (64 + k) = special_ops ! k"
  "k < 32 \<Longrightarrow> r4300_op_table ! (128 + k) = regimm_ops ! k" "k < 8 \<Longrightarrow> r4300_op_table ! (160 + k) = cop0_ops ! k"
  "k < 8 \<Longrightarrow> r4300_op_table ! (168 + k) = bc0_ops ! k" "k < 64 \<Longrightarrow> r4300_op_table ! (176 + k) = tlb_ops ! k"
  "k < 8 \<Longrightarrow> r4300_op_table ! (240 + k) = cop1_ops ! k" "k < 8 \<Longrightarrow> r4300_op_table ! (248 + k) = bc1_ops ! k"
  "k < 64 \<Longrightarrow> r4300_op_table ! (256 + k) = fpu_ops ! k" "k < 8 \<Longrightarrow> r4300_op_table ! (320 + k) = cop2_ops ! k"
  "k < 8 \<Longrightarrow> r4300_op_table ! (328 + k) = bc2_ops ! k" "r4300_op_table ! 336 = d_NOP"
  by (simp_all add: r4300_op_table_def nth_append)

lemma main_first: "main_ops ! 0 = d_RESERVED"
  by (simp add: main_ops_def)

definition sub_decoder :: "r4300_idec list \<Rightarrow> r4300_idec list \<Rightarrow> (nat \<Rightarrow> r4300_idec) \<Rightarrow> u32 \<Rightarrow> r4300_idec" where
  "sub_decoder moves branches others iw =
     (if RS_OF iw < 8 then moves ! RS_OF iw else if RS_OF iw < 16 then branches ! (RT_OF iw mod 8) else others (FUNCT_OF iw))"

lemma get_idec:
  assumes "iw \<noteq> 0"
  shows "r4300_get_idec iw =
    (let m = OPCODE_OF iw in
     if m = 0 then special_ops ! FUNCT_OF iw else if m = 1 then regimm_ops ! RT_OF iw
     else if m = 16 then sub_decoder cop0_ops bc0_ops ((!) tlb_ops) iw
     else if m = 17 then sub_decoder cop1_ops bc1_ops ((!) fpu_ops) iw
     else if m = 18 then sub_decoder cop2_ops bc2_ops (\<lambda>_. d_RESERVED) iw
     else main_ops ! m)"
proof -
  note defs = r4300_get_idec_def Let_def escape_index(1) E_SPECIAL_def E_REGIMM_def E_MAIN_def E_COP0_def E_BC0_def E_TLB_def
    E_COP1_def E_BC1_def E_FPU_def E_COP2_def E_BC2_def E_INV_def
  have f: "unat (iw AND 0x3F) = FUNCT_OF iw" "unat (drop_bit 26 iw AND 0x3F) = OPCODE_OF iw" "unat (drop_bit 16 iw AND 0x1F) = RT_OF iw"
    by (simp_all add: FUNCT_OF_def OPCODE_OF_def RT_OF_def)
  have "RS_OF iw < 32" by simp
  then have r: "RS_OF iw div 8 < 4" by arith
  consider "OPCODE_OF iw = 0" | "OPCODE_OF iw = 1" | "OPCODE_OF iw \<in> {16, 17, 18}" | "2 \<le> OPCODE_OF iw" "OPCODE_OF iw \<notin> {16, 17, 18}"
    by force
  then show ?thesis
  proof cases
    case 1
    then show ?thesis using assms r by (simp add: defs f escape_values op_table_values escape_index)
  next
    case 2
    then show ?thesis using assms r by (simp add: defs f escape_values op_table_values)
  next
    case 4
    then have "r4300_escapes_table ! (4 * OPCODE_OF iw + RS_OF iw div 8) = E_MAIN"
      using r escape_index(4) [of iw] by (intro escape_main) auto
    then show ?thesis using 4 assms escape_index(4) [of iw] by (auto simp: defs f op_table_values)
  next
    case 3
    consider "RS_OF iw div 8 = 0" | "RS_OF iw div 8 = 1" | "RS_OF iw div 8 = 2" | "RS_OF iw div 8 = 3" using r by linarith
    then show ?thesis
      using 3 assms by cases (auto simp: main_first defs f escape_values op_table_values escape_index sub_decoder_def)
  qed
qed

end
