(* ===== verification/Cached_Equiv.thy ===== *)
theory Cached_Equiv
  imports Cached_Agree
begin

section \<open>The instructions of both interpreters\<close>

lemma dest_if:
  "rd_dest f iw = (if RD_OF iw = 0 then none_op i_NOP iw else plain f iw)"
  "rt_dest f iw = (if RT_OF iw = 0 then none_op i_NOP iw else plain f iw)"
  by (auto simp: fun_eq_iff rd_dest_def rt_dest_def none_op_def plain_def)

definition same_exec :: "'a dev machine \<Rightarrow> u32 \<Rightarrow> (nat \<times> 'a instr) list \<Rightarrow> 'a instr \<Rightarrow> nat \<times> r4300_idec \<Rightarrow> bool" where
  "same_exec env iw cases dflt kd \<longleftrightarrow>
     jump_kind (opcode (snd kd)) \<or> exec_of env (snd kd) iw = switch cases dflt (fst kd) iw"

lemma same_execD:
  "list_all (same_exec env iw cases dflt) (enumerate 0 ds) \<Longrightarrow> k < length ds \<Longrightarrow> \<not> jump_kind (opcode (ds ! k)) \<Longrightarrow>
     exec_of env (ds ! k) iw = switch cases dflt k iw"
  by (auto simp: list_all_length same_exec_def nth_enumerate_eq)

lemmas exec_simps = same_exec_def exec_of_def jump_kind_def switch_def dest_if formats_def

lemma special_exec: "list_all (same_exec env iw special_table (none_op i_RESERVED)) (enumerate 0 special_ops)"
  unfolding special_ops_def enumerate_simps list.pred_inject
  by (intro conjI; simp add: exec_simps special_table_def)

lemma regimm_exec: "list_all (same_exec env iw regimm_table (none_op i_RESERVED)) (enumerate 0 regimm_ops)"
  unfolding regimm_ops_def enumerate_simps list.pred_inject
  by (intro conjI; simp add: exec_simps regimm_table_def)

lemma tlb_exec: "list_all (same_exec env iw (cop0_tlb_table env) (none_op i_NOP)) (enumerate 0 tlb_ops)"
  unfolding tlb_ops_def enumerate_simps list.pred_inject
  by (intro conjI; simp add: exec_simps cop0_tlb_table_def)

text \<open>The floating point instructions of the two formats that have all of them, and of the others.\<close>

lemma fpu_exec_s:
  assumes "RS_OF iw = 16"
  shows "list_all (same_exec env iw (cop1_s_table (m_fpu env)) (none_op i_RESERVED)) (enumerate 0 fpu_ops)"
  unfolding fpu_ops_def enumerate_simps list.pred_inject
  by (intro conjI; simp add: exec_simps cop1_s_table_def assms)

lemma fpu_exec_d:
  assumes "RS_OF iw = 17"
  shows "list_all (same_exec env iw (cop1_d_table (m_fpu env)) (none_op i_RESERVED)) (enumerate 0 fpu_ops)"
  unfolding fpu_ops_def enumerate_simps list.pred_inject
  by (intro conjI; simp add: exec_simps cop1_d_table_def assms)

lemma fpu_exec_w:
  assumes "RS_OF iw = 20"
  shows "list_all (same_exec env iw [(32, plain (i_CVT_S_W (m_fpu env))), (33, plain (i_CVT_D_W (m_fpu env)))] (none_op i_RESERVED)) (enumerate 0 fpu_ops)"
  unfolding fpu_ops_def enumerate_simps list.pred_inject
  by (intro conjI; simp add: exec_simps assms)

lemma fpu_exec_l:
  assumes "RS_OF iw = 21"
  shows "list_all (same_exec env iw [(32, plain (i_CVT_S_L (m_fpu env))), (33, plain (i_CVT_D_L (m_fpu env)))] (none_op i_RESERVED)) (enumerate 0 fpu_ops)"
  unfolding fpu_ops_def enumerate_simps list.pred_inject
  by (intro conjI; simp add: exec_simps assms)

lemma fpu_exec_other:
  assumes "RS_OF iw \<notin> {16, 17, 20, 21}"
  shows "list_all (same_exec env iw [] (none_op i_RESERVED)) (enumerate 0 fpu_ops)"
  unfolding fpu_ops_def enumerate_simps list.pred_inject
  using assms by (intro conjI; simp add: exec_simps)

lemma fpu_no_jumps: "list_all (\<lambda>d. \<not> jump_kind (opcode d)) fpu_ops" "list_all (\<lambda>d. \<not> jump_kind (opcode d)) tlb_ops"
  by (simp_all add: fpu_ops_def tlb_ops_def jump_kind_def)

lemma cop1_exec:
  assumes "16 \<le> RS_OF iw"
  shows "exec_of env (fpu_ops ! FUNCT_OF iw) iw = cop1_instr env iw"
proof -
  have k: "FUNCT_OF iw < length fpu_ops" "\<not> jump_kind (opcode (fpu_ops ! FUNCT_OF iw))"
    using escape_index(5) [of iw] fpu_no_jumps(1) by (simp_all add: list_all_length)
  note e = same_execD [OF _ k]
  consider "RS_OF iw = 16" | "RS_OF iw = 17" | "RS_OF iw = 20" | "RS_OF iw = 21" | "RS_OF iw \<notin> {16, 17, 20, 21}" by blast
  then show ?thesis
  proof cases
    case 1
    then show ?thesis using e [OF fpu_exec_s [OF 1, of env]] by (simp add: cop1_instr_def switch_def)
  next
    case 2
    then show ?thesis using e [OF fpu_exec_d [OF 2, of env]] by (simp add: cop1_instr_def switch_def)
  next
    case 3
    then show ?thesis using e [OF fpu_exec_w [OF 3, of env]] by (simp add: cop1_instr_def switch_def)
  next
    case 4
    then show ?thesis using e [OF fpu_exec_l [OF 4, of env]] by (simp add: cop1_instr_def switch_def)
  next
    case 5
    then show ?thesis using assms e [OF fpu_exec_other [OF 5, of env]] by (simp add: cop1_instr_def switch_def)
  qed
qed

text \<open>The moves of the coprocessors.\<close>

lemma less8: "n < 8 \<longleftrightarrow> n = 0 \<or> n = Suc 0 \<or> n = 2 \<or> n = 3 \<or> n = 4 \<or> n = 5 \<or> n = 6 \<or> n = 7" for n :: nat
  by auto

lemma cop0_moves:
  "RS_OF iw < 8 \<Longrightarrow> RS_OF iw \<noteq> 2 \<Longrightarrow> RS_OF iw \<noteq> 6 \<Longrightarrow> exec_of env (cop0_ops ! RS_OF iw) iw = cop0_instr env iw"
  unfolding less8 by (elim disjE) (simp_all add: cop0_ops_def exec_simps cop0_instr_def)

lemma cop1_moves: "RS_OF iw < 8 \<Longrightarrow> exec_of env (cop1_ops ! RS_OF iw) iw = cop1_instr env iw"
  unfolding less8 by (elim disjE) (simp_all add: cop1_ops_def exec_simps cop1_instr_def)

lemma cop2_moves: "RS_OF iw < 8 \<Longrightarrow> RS_OF iw \<noteq> 3 \<or> RT_OF iw \<noteq> 0 \<Longrightarrow> exec_of env (cop2_ops ! RS_OF iw) iw = cop2_instr iw"
  unfolding less8 by (elim disjE) (simp_all add: cop2_ops_def exec_simps cop2_instr_def)

lemma reserved_branches:
  "4 \<le> b \<Longrightarrow> b < 8 \<Longrightarrow> bc0_ops ! b = d_RESERVED" "4 \<le> b \<Longrightarrow> b < 8 \<Longrightarrow> bc1_ops ! b = d_RESERVED"
  unfolding less8 by (auto simp: bc0_ops_def bc1_ops_def)

text \<open>The major opcodes that are instructions of their own, without the ones both interpreters decode differently.\<close>

lemma main_exec:
  "list_all (\<lambda>kd. fst kd \<in> {0, 1, 16, 17, 18, 50, 54, 58, 62} \<or> fst kd = 52 \<and> RT_OF iw = 0 \<or>
     same_exec env iw (opcode_table env) (none_op i_RESERVED) kd) (enumerate 0 main_ops)"
  unfolding main_ops_def enumerate_simps list.pred_inject
  by (intro conjI; simp add: exec_simps opcode_table_def)

lemma main_execD:
  assumes "m < 64" "m \<notin> {0, 1, 16, 17, 18, 50, 54, 58, 62}" "m = 52 \<Longrightarrow> RT_OF iw \<noteq> 0" "\<not> jump_kind (opcode (main_ops ! m))"
  shows "exec_of env (main_ops ! m) iw = switch (opcode_table env) (none_op i_RESERVED) m iw"
  using main_exec [of iw env] assms by (auto simp: list_all_length nth_enumerate_eq same_exec_def)

section \<open>Where the decoders differ\<close>

text \<open>
  The words on which the two interpreters do not select the same instruction: moves and branches of coprocessors 0 and 2 that do
  not exist (the cached interpreter stops the emulator, the pure interpreter raises an exception), reserved codes of
  branches on coprocessor 1, the single precision comparison \<^verbatim>\<open>C.F\<close>, which reads a register that the decoder does
  not decode, the loads and stores of coprocessor 2, and two instructions that the cached interpreter drops for \<^verbatim>\<open>rt = 0\<close>.
\<close>

definition decoders_differ :: "u32 \<Rightarrow> bool" where
  "decoders_differ iw \<longleftrightarrow>
     (let m = OPCODE_OF iw; r = RS_OF iw; b = RT_OF iw mod 8 in
      m = 16 \<and> (r = 2 \<or> r = 6 \<or> 8 \<le> r \<and> r < 16 \<and> b < 4) \<or>
      m = 17 \<and> (r = 8 \<and> 4 \<le> b \<or> 8 < r \<and> r < 16 \<and> b < 4 \<or> r = 16 \<and> FUNCT_OF iw = 48) \<or>
      m = 18 \<and> (r = 3 \<and> RT_OF iw = 0 \<or> 8 \<le> r) \<or>
      m \<in> {50, 54, 58, 62} \<or> m = 52 \<and> RT_OF iw = 0)"

lemma sub_tables:
  "set special_ops \<subseteq> set r4300_op_table" "set regimm_ops \<subseteq> set r4300_op_table" "set cop0_ops \<subseteq> set r4300_op_table"
  "set bc0_ops \<subseteq> set r4300_op_table" "set tlb_ops \<subseteq> set r4300_op_table" "set cop1_ops \<subseteq> set r4300_op_table"
  "set bc1_ops \<subseteq> set r4300_op_table" "set fpu_ops \<subseteq> set r4300_op_table" "set cop2_ops \<subseteq> set r4300_op_table"
  "set bc2_ops \<subseteq> set r4300_op_table" "set main_ops \<subseteq> set r4300_op_table" "d_NOP \<in> set r4300_op_table"
  by (auto simp: r4300_op_table_def)

lemma reserved_mem: "d_RESERVED \<in> set r4300_op_table"
  using sub_tables(11) by (auto simp: main_ops_def)

lemma get_idec_mem: "r4300_get_idec iw \<in> set r4300_op_table"
proof (cases "iw = 0")
  case True
  then show ?thesis by (simp add: r4300_get_idec_def op_table_values sub_tables)
next
  case False
  have mem: "k < length t \<Longrightarrow> set t \<subseteq> set r4300_op_table \<Longrightarrow> t ! k \<in> set r4300_op_table" for t and k :: nat
    using nth_mem by blast
  have sub: "sub_decoder a b c iw \<in> set r4300_op_table"
    if "set a \<subseteq> set r4300_op_table" "length a = 8" "set b \<subseteq> set r4300_op_table" "length b = 8" "c (FUNCT_OF iw) \<in> set r4300_op_table" for a b c
    using that by (simp add: sub_decoder_def mem)
  show ?thesis
    unfolding get_idec [OF False] Let_def using escape_index(4,5) [of iw] by (simp add: mem sub sub_tables reserved_mem)
qed

lemma only_c_f:
  "list_all (\<lambda>d. opcode d \<noteq> R4300_OP_CP1_C_F)
     (main_ops @ special_ops @ regimm_ops @ cop0_ops @ bc0_ops @ tlb_ops @ cop1_ops @ bc1_ops @ cop2_ops @ bc2_ops)"
  "list_all (\<lambda>kd. opcode (snd kd) = R4300_OP_CP1_C_F \<longrightarrow> fst kd = 48) (enumerate 0 fpu_ops)"
  by (simp_all add: table_defs enumerate_simps)

lemma jumps_where:
  "list_all (\<lambda>kd. jump_kind (opcode (snd kd)) \<longrightarrow> fst kd \<in> {8, 9}) (enumerate 0 special_ops)"
  "list_all (\<lambda>kd. jump_kind (opcode (snd kd)) \<longrightarrow> fst kd \<in> fst ` set regimm_jumps) (enumerate 0 regimm_ops)"
  "list_all (\<lambda>kd. jump_kind (opcode (snd kd)) \<longrightarrow> fst kd \<in> fst ` set opcode_jumps) (enumerate 0 main_ops)"
  by (simp_all add: special_ops_def regimm_ops_def main_ops_def enumerate_simps jump_kind_def regimm_jumps_def opcode_jumps_def)

lemma move_kinds:
  "list_all (\<lambda>d. \<not> jump_kind (opcode d)) cop0_ops" "list_all (\<lambda>d. \<not> jump_kind (opcode d)) cop1_ops"
  "list_all (\<lambda>d. \<not> jump_kind (opcode d)) cop2_ops" "\<not> jump_kind (opcode d_RESERVED)"
  by (simp_all add: cop0_ops_def cop1_ops_def cop2_ops_def jump_kind_def)

lemma enumerate_nth_all: "list_all P (enumerate 0 ds) \<Longrightarrow> k < length ds \<Longrightarrow> P (k, ds ! k)"
  by (simp add: list_all_length nth_enumerate_eq)

text \<open>Outside these words, the decoder of a word that is no jump stands for the instruction of the pure interpreter.\<close>

lemma reserved_exec_of: "exec_of env d_RESERVED iw = none_op i_RESERVED iw"
  by (simp add: exec_of_def)

lemma switch_default: "map_of cases x = None \<Longrightarrow> switch cases d x = d"
  by (simp add: switch_def)

lemma sub_cases:
  obtains "RS_OF iw < 8" | "8 \<le> RS_OF iw" "RS_OF iw < 16" | "16 \<le> RS_OF iw"
  by linarith

lemma cop0_exec_of:
  assumes "OPCODE_OF iw = 16" "\<not> decoders_differ iw"
  shows "let d = sub_decoder cop0_ops bc0_ops ((!) tlb_ops) iw in \<not> jump_kind (opcode d) \<and> exec_of env d iw = cop0_instr env iw"
proof (cases rule: sub_cases [of iw])
  case 1
  then show ?thesis using assms move_kinds(1) cop0_moves [of iw env] by (auto simp: sub_decoder_def list_all_length decoders_differ_def Let_def)
next
  case 2
  then have "4 \<le> RT_OF iw mod 8" using assms by (auto simp: decoders_differ_def Let_def)
  then have "bc0_ops ! (RT_OF iw mod 8) = d_RESERVED" by (simp add: reserved_branches)
  moreover have "cop0_instr env iw = none_op i_RESERVED iw" using 2 by (auto simp: cop0_instr_def switch_def Let_def)
  ultimately show ?thesis using 2 by (simp add: sub_decoder_def reserved_exec_of jump_kind_def)
next
  case 3
  have "\<not> jump_kind (opcode (tlb_ops ! FUNCT_OF iw))" using escape_index(5) [of iw] fpu_no_jumps(2) by (simp add: list_all_length)
  then show ?thesis
    using 3 same_execD [OF tlb_exec, of "FUNCT_OF iw" env iw] escape_index(5) [of iw] by (simp add: sub_decoder_def cop0_instr_def)
qed

lemma cop1_exec_of:
  assumes "OPCODE_OF iw = 17" "\<not> decoders_differ iw" "RS_OF iw \<noteq> 8"
  shows "let d = sub_decoder cop1_ops bc1_ops ((!) fpu_ops) iw in \<not> jump_kind (opcode d) \<and> exec_of env d iw = cop1_instr env iw"
proof (cases rule: sub_cases [of iw])
  case 1
  then show ?thesis using assms move_kinds(2) cop1_moves [of iw env] by (auto simp: sub_decoder_def list_all_length)
next
  case 2
  then have "4 \<le> RT_OF iw mod 8" using assms by (auto simp: decoders_differ_def Let_def)
  then have "bc1_ops ! (RT_OF iw mod 8) = d_RESERVED" by (simp add: reserved_branches)
  moreover have "cop1_instr env iw = none_op i_RESERVED iw" using 2 by (auto simp: cop1_instr_def switch_def Let_def)
  ultimately show ?thesis using 2 by (simp add: sub_decoder_def reserved_exec_of jump_kind_def)
next
  case 3
  have "\<not> jump_kind (opcode (fpu_ops ! FUNCT_OF iw))" using escape_index(5) [of iw] fpu_no_jumps(1) by (simp add: list_all_length)
  then show ?thesis using 3 cop1_exec [OF 3, of env] by (simp add: sub_decoder_def)
qed

lemma cop2_exec_of:
  assumes "OPCODE_OF iw = 18" "\<not> decoders_differ iw"
  shows "let d = sub_decoder cop2_ops bc2_ops (\<lambda>_. d_RESERVED) iw in \<not> jump_kind (opcode d) \<and> exec_of env d iw = cop2_instr iw"
proof -
  have "RS_OF iw < 8" "RS_OF iw \<noteq> 3 \<or> RT_OF iw \<noteq> 0" using assms by (auto simp: decoders_differ_def Let_def)
  then show ?thesis using move_kinds(3) cop2_moves [of iw env] by (simp add: sub_decoder_def list_all_length)
qed

text \<open>A branch of coprocessor 1 is one for every code of its field.\<close>

lemma bc1_is_jump: "OPCODE_OF iw = 17 \<Longrightarrow> RS_OF iw = 8 \<Longrightarrow> decode_jump iw \<noteq> None"
proof -
  assume a: "OPCODE_OF iw = 17" "RS_OF iw = 8"
  have "unat (drop_bit 16 iw AND 0x3) < 4" using field_nat [of 16 iw 2] by (simp add: masks)
  then consider "unat (drop_bit 16 iw AND 0x3) = 0" | "unat (drop_bit 16 iw AND 0x3) = 1" | "unat (drop_bit 16 iw AND 0x3) = 2"
    | "unat (drop_bit 16 iw AND 0x3) = 3" by linarith
  then show ?thesis using a by cases (simp_all add: decode_jump_def)
qed

lemma exec_major:
  "exec_instruction env iw = (case map_of (opcode_table env) (OPCODE_OF iw) of Some f \<Rightarrow> f iw | None \<Rightarrow> none_op i_RESERVED iw)"
  by (simp add: exec_instruction_def switch_def split: option.splits)

lemma exec_of_idec:
  assumes "decode_jump iw = (None :: (idle_check \<times> (u32 \<Rightarrow> 'a dev \<Rightarrow> jump)) option)" "\<not> decoders_differ iw"
  shows "\<not> jump_kind (opcode (r4300_get_idec iw)) \<and>
    exec_of env (r4300_get_idec iw) iw = exec_instruction (env :: 'a dev machine) iw"
proof (cases "iw = 0")
  case True
  then show ?thesis
    by (simp add: r4300_get_idec_def op_table_values exec_of_def exec_instruction_def switch_def opcode_table_def special_table_def dest_if
        OPCODE_OF_def FUNCT_OF_def RD_OF_def jump_kind_def)
next
  case False
  note g = get_idec [OF False] and lt = escape_index(4,5) [of iw]
  consider "OPCODE_OF iw = 0" | "OPCODE_OF iw = 1" | "OPCODE_OF iw = 16" | "OPCODE_OF iw = 17" | "OPCODE_OF iw = 18"
    | "OPCODE_OF iw \<notin> {0, 1, 16, 17, 18}" by auto
  then show ?thesis
  proof cases
    case 1
    have "FUNCT_OF iw \<notin> {8, 9}" using assms(1) 1 by (auto simp: decode_jump_def)
    then have "\<not> jump_kind (opcode (special_ops ! FUNCT_OF iw))" using enumerate_nth_all [OF jumps_where(1)] lt(2) by fastforce
    then show ?thesis using same_execD [OF special_exec, of "FUNCT_OF iw" env iw] lt(2) 1
      by (simp add: g exec_major opcode_table_def)
  next
    case 2
    have "RT_OF iw \<notin> fst ` set (regimm_jumps :: (nat \<times> idle_check \<times> (u32 \<Rightarrow> 'a dev \<Rightarrow> jump)) list)"
      using assms(1) 2 by (simp add: decode_jump_def map_of_eq_None_iff)
    then have "\<not> jump_kind (opcode (regimm_ops ! RT_OF iw))" using enumerate_nth_all [OF jumps_where(2), of "RT_OF iw"] by auto
    then show ?thesis using same_execD [OF regimm_exec, of "RT_OF iw" env iw] 2
      by (simp add: g exec_major opcode_table_def)
  next
    case 6
    have "OPCODE_OF iw \<notin> fst ` set (opcode_jumps :: (nat \<times> idle_check \<times> (u32 \<Rightarrow> 'a dev \<Rightarrow> jump)) list)"
      using assms(1) 6 by (simp add: decode_jump_def map_of_eq_None_iff)
    then have n: "\<not> jump_kind (opcode (main_ops ! OPCODE_OF iw))"
      using enumerate_nth_all [OF jumps_where(3), of "OPCODE_OF iw"] lt(1) by auto
    have "exec_of env (main_ops ! OPCODE_OF iw) iw = switch (opcode_table env) (none_op i_RESERVED) (OPCODE_OF iw) iw"
      using 6 assms(2) lt(1) n by (intro main_execD) (auto simp: decoders_differ_def Let_def)
    then show ?thesis using 6 n by (simp add: g exec_instruction_def)
  next
    case 3
    then show ?thesis using cop0_exec_of [OF 3 assms(2), of env]
      by (simp add: g exec_major opcode_table_def Let_def)
  next
    case 4
    have "RS_OF iw \<noteq> 8" using bc1_is_jump [OF 4] assms(1) by metis
    then show ?thesis using cop1_exec_of [OF 4 assms(2), of env] 4
      by (simp add: g exec_major opcode_table_def Let_def)
  next
    case 5
    then show ?thesis using cop2_exec_of [OF 5 assms(2), of env]
      by (simp add: g exec_major opcode_table_def Let_def)
  qed
qed

text \<open>The one comparison that reads an operand its decoder does not have; it is harmless in the other formats.\<close>

lemma c_f_decodes:
  assumes "RS_OF iw \<noteq> 16"
  shows "decodes_to env d_CP1_C_F iw (exec_of env d_CP1_C_F iw)"
proof -
  have v: "valid_u53 (u53 d_CP1_C_F)" "U53_SHIFT (u53 d_CP1_C_F ! 3) = 21" by (simp_all add: valid_u53_def)
  obtain f where f: "cf_operands d_CP1_C_F iw = Some (f, RS_OF iw)"
    "\<forall>rds. list_all (\<lambda>r. r \<in> set member_cf \<and> operand_decoded (u53 d_CP1_C_F) r) rds \<longrightarrow> holds_fields rds f iw"
    using cf_operands_hold [OF v] by blast
  have "\<exists>inst' op'. Some (with_format inst d_CP1_C_F [0x11] (f, RS_OF iw)) = Some (inst', op') \<and> (\<forall>s. run_decoded env inst' s =
      (if RS_OF iw = 0x11 then snd (the (format_table env (opcode d_CP1_C_F, RS_OF iw))) iw else none_op i_RESERVED iw) s)" for inst
    using with_format_exec [of d_CP1_C_F env "[0x11]" f iw inst "RS_OF iw"] f(2) by (simp add: reads_decoded_def)
  moreover have "r4300_decode inst d_CP1_C_F iw next_iw block = Some (with_format inst d_CP1_C_F [0x11] (f, RS_OF iw))" for inst next_iw block
    using assms f(1) by (simp add: r4300_decode_def with_format_def)
  ultimately show ?thesis using assms by (simp add: decodes_to_def exec_of_def formats_def)
qed

lemma c_f_word:
  assumes "opcode (r4300_get_idec iw) = R4300_OP_CP1_C_F" "\<not> decoders_differ iw"
  shows "r4300_get_idec iw = d_CP1_C_F \<and> RS_OF iw \<noteq> 16"
proof (cases "iw = 0")
  case True
  then show ?thesis using assms(1) by (simp add: r4300_get_idec_def op_table_values)
next
  case False
  note g = get_idec [OF False] and lt = escape_index(4,5) [of iw] and c = only_c_f(1) [unfolded list_all_append, THEN conjunct1]
  have no: "opcode (t ! k) \<noteq> R4300_OP_CP1_C_F" if "list_all (\<lambda>d. opcode d \<noteq> R4300_OP_CP1_C_F) t" "k < length t" for t k
    using that by (simp add: list_all_length)
  have m: "OPCODE_OF iw = 17" "16 \<le> RS_OF iw"
    using assms(1) only_c_f(1) lt unfolding g by (auto simp: Let_def sub_decoder_def no split: if_splits)
  then have d: "r4300_get_idec iw = fpu_ops ! FUNCT_OF iw" by (simp add: g sub_decoder_def)
  then have "FUNCT_OF iw = 48" using assms(1) enumerate_nth_all [OF only_c_f(2), of "FUNCT_OF iw"] lt(2) by simp
  then show ?thesis using assms(2) m d by (auto simp: decoders_differ_def fpu_ops_def)
qed

lemma decodes_idec:
  assumes "\<not> jump_kind (opcode (r4300_get_idec iw))" "\<not> decoders_differ iw"
  shows "decodes_to env (r4300_get_idec iw) iw (exec_of env (r4300_get_idec iw) iw)"
proof (cases "opcode (r4300_get_idec iw) = R4300_OP_CP1_C_F")
  case True
  then show ?thesis using c_f_word [OF _ assms(2)] c_f_decodes [of iw env] by simp
next
  case False
  then have "well_decoded env (r4300_get_idec iw)"
    using assms(1) tables_well_decoded [of env] get_idec_mem [of iw] unfolding list_all_iff by blast
  then show ?thesis by (rule decode_exec)
qed

text \<open>
  C5. The cached interpreter decodes every word that is no jump, and outside \<open>decoders_differ\<close> the handler it stores, run on the
  operands it stores, does what the pure interpreter does when it interprets the word from memory.
\<close>

theorem cached_decode_agrees:
  assumes "decode_jump iw = (None :: (idle_check \<times> (u32 \<Rightarrow> 'a dev \<Rightarrow> jump)) option)" "\<not> decoders_differ iw"
  shows "\<exists>inst' op. r4300_decode inst (r4300_get_idec iw) iw next_iw block = Some (inst', op) \<and>
    (\<forall>s t. fast_mem_access env (pc_addr s) s = (Some iw, t) \<longrightarrow> InterpretOpcode (env :: 'a dev machine) s = run_decoded env inst' t)"
proof -
  obtain inst' op where "r4300_decode inst (r4300_get_idec iw) iw next_iw block = Some (inst', op)"
    "\<forall>s. run_decoded env inst' s = exec_instruction env iw s"
    using exec_of_idec [OF assms, of env] decodes_idec [of iw env] assms(2) by (fastforce simp: decodes_to_def)
  then show ?thesis using assms(1) by (auto simp: InterpretOpcode.simps)
qed

text \<open>Where they differ: the cached interpreter stops the emulator on words the pure interpreter raises an exception for.\<close>

theorem missing_move_stops:
  assumes "OPCODE_OF iw = 16" "RS_OF iw = 6"
  shows "exec_of env (r4300_get_idec iw) iw = none_op i_NI iw \<and> exec_instruction env iw = none_op i_RESERVED iw"
proof -
  have "iw \<noteq> 0" using assms by (auto simp: OPCODE_OF_def)
  then show ?thesis
    using assms by (simp add: get_idec sub_decoder_def cop0_ops_def exec_of_def exec_major opcode_table_def cop0_instr_def switch_def)
qed

theorem cop2_load_differs:
  assumes "OPCODE_OF iw = 50"
  shows "exec_of env (r4300_get_idec iw) iw = none_op i_RESERVED_COP2 iw \<and> exec_instruction env iw = none_op i_RESERVED iw"
proof -
  have "iw \<noteq> 0" using assms by (auto simp: OPCODE_OF_def)
  then show ?thesis
    using assms by (simp add: get_idec main_ops_def exec_of_def exec_major opcode_table_def)
qed

section \<open>Witnesses\<close>

lemma add_word: "OPCODE_OF 0x00851020 = 0" "FUNCT_OF 0x00851020 = 32"
  by (simp_all add: OPCODE_OF_def FUNCT_OF_def drop_bit_eq_div)

theorem cached_decode_agrees_witness:
  "\<forall>env inst block. \<exists>inst' op. r4300_decode inst (r4300_get_idec 0x00851020) 0x00851020 0 block = Some (inst', op) \<and>
    (\<forall>(s :: is_viewer) t. fast_mem_access env (pc_addr s) s = (Some 0x00851020, t) \<longrightarrow> InterpretOpcode env s = run_decoded env inst' t)"
  by (intro allI cached_decode_agrees) (simp_all add: decode_jump_def decoders_differ_def add_word)

theorem missing_move_stops_witness:
  "\<forall>env :: is_viewer machine. exec_of env (r4300_get_idec 0x40C00000) 0x40C00000 = none_op i_NI 0x40C00000"
  by (rule allI, rule missing_move_stops [THEN conjunct1]) (simp_all add: OPCODE_OF_def RS_OF_def drop_bit_eq_div)

theorem cop2_load_differs_witness:
  "\<forall>env :: is_viewer machine. exec_of env (r4300_get_idec 0xC8000000) 0xC8000000 = none_op i_RESERVED_COP2 0xC8000000"
  by (rule allI, rule cop2_load_differs [THEN conjunct1]) (simp_all add: OPCODE_OF_def drop_bit_eq_div)

end
