(* ===== verification/Cached_Jumps.thy ===== *)
theory Cached_Jumps
  imports Cached_Equiv
begin

text \<open>
  Jumps in the cached interpreter: each has a regular handler that stays in its block, an idle and an out variant
  (\<^verbatim>\<open>DECLARE_JUMP\<close> of \<^verbatim>\<open>cached_interp.c\<close>). The decoder picks the jump of the pure interpreter, picks the idle variant exactly
  where the pure interpreter recognises an idle loop, and never lets a regular jump leave its block.
\<close>

section \<open>Variants\<close>

text \<open>The variants of a jump by opcode; the idle variants of the register jumps are not implemented.\<close>

definition jump_variants :: "(nat \<times> nat \<times> operand list \<times> (u32 \<Rightarrow> 'a dev \<Rightarrow> jump)) list" where
  "jump_variants =
     concat (map (\<lambda>(op, h). if op = R4300_OP_JR \<or> op = R4300_OP_JALR then [(op, 0, h), (op + 2, 2, h)]
                            else [(op, 0, h), (op + 1, 1, h), (op + 2, 2, h)]) jump_handlers)"

definition jump_handler :: "ops_fun \<Rightarrow> (nat \<times> operand list \<times> (u32 \<Rightarrow> 'a dev \<Rightarrow> jump)) option" where
  "jump_handler p = (case p of Ops op \<Rightarrow> map_of jump_variants op | _ \<Rightarrow> None)"

lemma variants_all: "list_all (\<lambda>(k, v). jump_handler (Ops k) = Some v) jump_variants"
  unfolding jump_handler_def ops_fun.case by (rule map_of_entries) (simp add: jump_variants_def jump_handlers_def)

lemmas variant_entries [simp] = variants_all [unfolded jump_variants_def jump_handlers_def, simplified]

text \<open>The decoders of jumps that are implemented, and what the operands of each are read from.\<close>

definition jump_member :: "nat \<Rightarrow> operand list" where
  "jump_member op = (if decode_kind op = Some K_jalr then member_r else if decode_kind op = Some K_jump then [INDEX] else member_i)"

definition well_decoded_jump :: "r4300_idec \<Rightarrow> bool" where
  "well_decoded_jump d \<longleftrightarrow> valid_u53 (u53 d) \<and>
     list_all (\<lambda>r. r \<in> set (jump_member (opcode d)) \<and> operand_decoded (u53 d) r)
       (fst (the (jump_table (opcode d) :: (operand list \<times> (u32 \<Rightarrow> is_viewer \<Rightarrow> jump)) option)))"

lemma jumps_well_decoded:
  "list_all (\<lambda>d. jump_kind (opcode d) \<and> d \<notin> {d_BC0F, d_BC0T, d_BC0FL, d_BC0TL, d_BC2F, d_BC2T, d_BC2FL, d_BC2TL} \<longrightarrow> well_decoded_jump d)
     r4300_op_table"
  unfolding r4300_op_table_def table_defs append.simps list.pred_inject
  by (intro conjI; simp add: jump_kind_def well_decoded_jump_def valid_u53_def jump_member_def)

section \<open>Decoding a jump\<close>

lemma variant_of:
  assumes "jump_table op = Some h" "v = 0 \<or> v = 2 \<or> v = 1 \<and> op \<noteq> R4300_OP_JR \<and> op \<noteq> R4300_OP_JALR"
  shows "jump_handler (Ops (op + v)) = Some (v, h)"
proof -
  have "(op, h) \<in> set jump_handlers" using assms(1) by (simp add: jump_table_def map_of_SomeD)
  then have "(op + v, v, h) \<in> set jump_variants"
    unfolding jump_variants_def set_concat set_map image_image
    by (rule UN_I) (use assms(2) in \<open>auto simp only: prod.case list.set insert_iff split: if_splits\<close>)
  from bspec [OF variants_all [unfolded list_all_iff] this] show ?thesis by (simp only: prod.case)
qed

definition sub_type :: "idle_check \<Rightarrow> r4300_idec \<Rightarrow> u32 \<Rightarrow> u32 \<Rightarrow> u32 \<Rightarrow> precomp_block \<Rightarrow> nat" where
  "sub_type k d iw a next_iw block =
     (case k of
        No_idle \<Rightarrow> 2
      | Relative_idle \<Rightarrow> infer_jump_sub_type (a + scast (ucast iw :: u16) * 4 + 4) a next_iw block
      | Absolute_idle \<Rightarrow> infer_jump_sub_type ((a AND NOT 0xfffffff) OR (ucast (idec_imm iw d) AND 0xfffffff)) a next_iw block)"

lemma sub_type_cases:
  "sub_type k d iw a next_iw block = 0 \<or> sub_type k d iw a next_iw block = 2 \<or> sub_type k d iw a next_iw block = 1 \<and> k \<noteq> No_idle"
  by (auto simp: sub_type_def infer_jump_sub_type_def split: idle_check.splits)

definition kind_of_check :: "idle_check \<Rightarrow> decode_kind option \<Rightarrow> bool" where
  "kind_of_check k dk \<longleftrightarrow>
     (case k of No_idle \<Rightarrow> dk \<in> {Some K_jr, Some K_jalr} | Relative_idle \<Rightarrow> dk = Some K_branch | Absolute_idle \<Rightarrow> dk = Some K_jump)"

text \<open>What the decoder stores for a jump: the variant, and operands on which the handler is the jump of the word.\<close>

definition decodes_jump :: "idle_check \<Rightarrow> r4300_idec \<Rightarrow> u32 \<Rightarrow> (u32 \<Rightarrow> 'a dev \<Rightarrow> jump) \<Rightarrow> bool" where
  "decodes_jump k d iw mk \<longleftrightarrow>
     (\<forall>inst next_iw block. \<exists>inst' op rds mk'. r4300_decode inst d iw next_iw block = Some (inst', op) \<and>
        jump_handler (ops inst') = Some (sub_type k d iw (addr inst) next_iw block, rds, mk') \<and>
        list_all (readable (f_args inst')) rds \<and> (\<forall>s. mk' (operand_word (f_args inst')) s = mk iw s))"

lemma jump_reads:
  assumes "jump_table op = Some (rds, mk)" "holds_fields rds f iw"
  shows "list_all (readable f) rds \<and> (\<forall>s. mk (operand_word f) s = mk iw s)"
proof -
  have "(op, rds, mk) \<in> set jump_handlers" using assms(1) by (simp add: jump_table_def map_of_SomeD)
  then show ?thesis using jump_handlers_read assms(2) by (fastforce simp: list_all_iff holds_fields_def)
qed

lemma index_holds: "rds = [] \<or> rds = [INDEX] \<Longrightarrow> holds_fields rds (F_j (iw AND 0x3ffffff)) iw"
  by (auto simp: holds_fields_def JUMP_OF_def and.assoc)

lemma decode_jump_ok:
  assumes "jump_table (opcode d) = Some (rds, mk)" "kind_of_check k (decode_kind (opcode d))" "valid_u53 (u53 d)"
    and l: "list_all (\<lambda>r. r \<in> set (jump_member (opcode d)) \<and> operand_decoded (u53 d) r) rds" and "k = Absolute_idle \<Longrightarrow> rds = [INDEX]"
    and jr: "opcode d = R4300_OP_JR \<or> opcode d = R4300_OP_JALR \<longleftrightarrow> k = No_idle"
  shows "decodes_jump k d iw mk"
proof -
  have h: "jump_handler (Ops (opcode d + sub_type k d iw a next_iw block)) = Some (sub_type k d iw a next_iw block, rds, mk)" for a next_iw block
    using sub_type_cases [of k d iw a next_iw block] jr by (intro variant_of [OF assms(1)]) blast
  note defs = decodes_jump_def r4300_decode_def with_ops_def jump_sub_def Let_def
  consider "decode_kind (opcode d) = Some K_jalr" "k = No_idle" | "decode_kind (opcode d) = Some K_jr" "k = No_idle"
    | "decode_kind (opcode d) = Some K_branch" "k = Relative_idle" | "decode_kind (opcode d) = Some K_jump" "k = Absolute_idle"
    using assms(2) by (cases k) (auto simp: kind_of_check_def)
  then show ?thesis
  proof cases
    case 1
    then obtain f n where "r_operands d iw = Some (f, n)" "holds_fields rds f iw"
      using r_operands_hold [OF assms(3), of iw] l by (auto simp: jump_member_def)
    then show ?thesis using 1 h jump_reads [OF assms(1)] by (simp add: defs sub_type_def)
  next
    case 2
    then obtain f n where "i_operands d iw = Some (f, n)" "holds_fields rds f iw"
      using i_operands_hold [OF assms(3), of iw] l by (auto simp: jump_member_def)
    then show ?thesis using 2 h jump_reads [OF assms(1)] by (simp add: defs sub_type_def)
  next
    case 3
    then obtain f n where "i_operands d iw = Some (f, n)" "holds_fields rds f iw"
      using i_operands_hold [OF assms(3), of iw] l by (auto simp: jump_member_def)
    then show ?thesis using 3 h jump_reads [OF assms(1)] by (simp add: defs sub_type_def)
  next
    case 4
    then show ?thesis using h jump_reads [OF assms(1) index_holds] assms(5) by (simp add: defs sub_type_def)
  qed
qed

section \<open>The jumps of both interpreters\<close>

definition jump_ok :: "idle_check \<Rightarrow> (u32 \<Rightarrow> 'a dev \<Rightarrow> jump) \<Rightarrow> r4300_idec \<Rightarrow> bool" where
  "jump_ok k mk d \<longleftrightarrow>
     (case jump_table (opcode d) of
        None \<Rightarrow> False
      | Some (rds, mk') \<Rightarrow> mk' = mk \<and> kind_of_check k (decode_kind (opcode d)) \<and> valid_u53 (u53 d) \<and>
          list_all (\<lambda>r. r \<in> set (jump_member (opcode d)) \<and> operand_decoded (u53 d) r) rds \<and>
          (k = Absolute_idle \<longrightarrow> rds = [INDEX] \<and> i_lshift d = 2 \<and> i_mask d = 0x3ffffff \<and> i_smask d = 0) \<and>
          (opcode d = R4300_OP_JR \<or> opcode d = R4300_OP_JALR \<longleftrightarrow> k = No_idle))"

lemma jump_ok_decodes: "jump_ok k mk d \<Longrightarrow> decodes_jump k d iw mk"
  by (auto simp: jump_ok_def split: option.splits intro: decode_jump_ok)

lemmas jump_ok_simps = jump_ok_def kind_of_check_def valid_u53_def jump_member_def

lemma target_fields: "i_lshift d_J = 2" "i_mask d_J = 0x3ffffff" "i_smask d_J = 0"
  "i_lshift d_JAL = 2" "i_mask d_JAL = 0x3ffffff" "i_smask d_JAL = 0"
  by (simp_all add: d_J_def d_JAL_def shape_defs IMM_TARGET_def)

lemma special_jumps_ok: "jump_ok No_idle j_JR (special_ops ! 8)" "jump_ok No_idle j_JALR (special_ops ! 9)"
  by (simp_all add: special_ops_def jump_ok_simps)

lemma regimm_jumps_ok: "list_all (\<lambda>(c, k, mk). jump_ok k mk (regimm_ops ! c)) regimm_jumps"
  by (simp add: regimm_jumps_def regimm_ops_def jump_ok_simps)

lemma bc1_jumps_ok: "jump_ok Relative_idle j_BC1F (bc1_ops ! 0)" "jump_ok Relative_idle j_BC1T (bc1_ops ! 1)"
  "jump_ok Relative_idle j_BC1FL (bc1_ops ! 2)" "jump_ok Relative_idle j_BC1TL (bc1_ops ! 3)"
  by (simp_all add: bc1_ops_def jump_ok_simps)

lemma main_jumps_ok: "list_all (\<lambda>(c, k, mk). jump_ok k mk (main_ops ! c)) opcode_jumps"
  by (simp add: opcode_jumps_def main_ops_def jump_ok_simps target_fields)

lemma jump_not_zero: "decode_jump iw = Some x \<Longrightarrow> iw \<noteq> 0"
  by (auto simp: decode_jump_def OPCODE_OF_def FUNCT_OF_def)

lemma bc1_index: "RT_OF iw mod 8 < 4 \<Longrightarrow> unat (drop_bit 16 iw AND 0x3) = RT_OF iw mod 8"
proof -
  assume l: "RT_OF iw mod 8 < 4"
  have m: "v mod 4 = v mod 32 mod 8 mod 4" for v :: nat by (simp add: mod_mod_cancel)
  have "unat (drop_bit 16 iw AND 0x3) = RT_OF iw mod 8 mod 4"
    using field_nat [of 16 iw 2] m [of "unat iw div 2 ^ 16"] by (simp add: masks field_values)
  then show ?thesis using l by simp
qed

lemma jump_idec:
  assumes "decode_jump iw = Some (k, mk)" "\<not> decoders_differ iw"
  shows "jump_ok k mk (r4300_get_idec iw)"
proof -
  note g = get_idec [OF jump_not_zero [OF assms(1)]]
  consider "OPCODE_OF iw = 0" | "OPCODE_OF iw = 1" | "OPCODE_OF iw = 17" "RS_OF iw = 8"
    | "OPCODE_OF iw \<notin> {0, 1}" "\<not> (OPCODE_OF iw = 17 \<and> RS_OF iw = 8)" by auto
  then show ?thesis
  proof cases
    case 1
    then have "FUNCT_OF iw = 8 \<and> k = No_idle \<and> mk = j_JR \<or> FUNCT_OF iw = 9 \<and> k = No_idle \<and> mk = j_JALR"
      using assms(1) by (auto simp: decode_jump_def split: if_splits)
    then show ?thesis using 1 special_jumps_ok by (auto simp: g)
  next
    case 2
    then have "(RT_OF iw, k, mk) \<in> set regimm_jumps" using assms(1) by (simp add: decode_jump_def map_of_SomeD)
    then show ?thesis using 2 bspec [OF regimm_jumps_ok [unfolded list_all_iff]] by (fastforce simp: g)
  next
    case 3
    then have b: "RT_OF iw mod 8 < 4" using assms(2) by (auto simp: decoders_differ_def Let_def)
    then consider "RT_OF iw mod 8 = 0" | "RT_OF iw mod 8 = 1" | "RT_OF iw mod 8 = 2" | "RT_OF iw mod 8 = 3" by linarith
    then show ?thesis using 3 assms(1) bc1_jumps_ok bc1_index [OF b] by cases (auto simp: g decode_jump_def sub_decoder_def)
  next
    case 4
    then have m: "(OPCODE_OF iw, k, mk) \<in> set opcode_jumps" using assms(1) by (auto simp: decode_jump_def map_of_SomeD)
    then have "OPCODE_OF iw \<notin> {0, 1, 16, 17, 18}" by (auto simp: opcode_jumps_def)
    then show ?thesis using bspec [OF main_jumps_ok [unfolded list_all_iff] m] by (simp add: g)
  qed
qed

section \<open>Targets\<close>

lemma relative_self: "scast (i :: u16) * 4 + 4 = (0 :: u32) \<longleftrightarrow> i = - 1"
proof -
  have b: "- (2 ^ 15) \<le> sint i" "sint i < 2 ^ 15" using sint_ge [of i] sint_less [of i] by simp_all
  have "scast i * 4 + 4 = (of_int (sint i) * 4 + 1 * 4 :: u32)" by (simp only: scast_eq mult_1)
  also have "\<dots> = of_int ((sint i + 1) * 4)" by (simp only: of_int_mult of_int_add of_int_1 of_int_numeral distrib_right)
  also have "\<dots> = 0 \<longleftrightarrow> 2 ^ 32 dvd (sint i + 1) * 4" by (subst word_of_int_eq_0_iff) simp
  also have "\<dots> \<longleftrightarrow> sint i = - 1"
  proof
    assume "2 ^ 32 dvd (sint i + 1) * 4"
    then obtain k where k: "(sint i + 1) * 4 = 2 ^ 32 * k" by (elim dvdE)
    then have "k < 1" "- 1 < k" using b by simp_all
    then show "sint i = - 1" using k by simp
  qed simp
  also have "\<dots> \<longleftrightarrow> i = - 1" using signed_word_eqI [of i "- 1"] by auto
  finally show ?thesis .
qed

definition segment_end :: "u32 \<Rightarrow> bool" where
  "segment_end a \<longleftrightarrow> a AND 0x0FFFFFFF = 0x0FFFFFFC"

lemma mask28: "0x0FFFFFFF = (mask 28 :: u32)" "0xF0000000 = (NOT (mask 28) :: u32)" "0x3FFFFFF = (mask 26 :: u32)"
  by (simp_all add: mask_eq_exp_minus_1)

lemma high_bits: "x AND 0xF0000000 = push_bit 28 (drop_bit 28 x)" for x :: u32
  unfolding mask28 by (rule bit_word_eqI) (auto simp: bit_simps)

lemma same_segment:
  fixes a :: u32
  assumes "a AND 3 = 0" "\<not> segment_end a"
  shows "(a + 4) AND 0xF0000000 = a AND 0xF0000000"
proof -
  have m: "unat a mod 2 ^ 28 \<noteq> 2 ^ 28 - 4" 
  proof
    assume e: "unat a mod 2 ^ 28 = 2 ^ 28 - 4"
    have "unat (a AND 0x0FFFFFFF) = unat a mod 2 ^ 28" using field_nat [of 0 a 28] by (simp add: masks)
    with e have "unat (a AND 0x0FFFFFFF) = unat (0x0FFFFFFC :: u32)" by simp
    then show False using assms(2) by (simp add: segment_end_def word_unat_eq_iff)
  qed
  have four: "unat a mod 4 = 0" using assms(1) field_nat [of 0 a 2] by (simp add: masks)
  define q r where "q = unat a div 2 ^ 28" and "r = unat a mod 2 ^ 28"
  have qr: "unat a = q * 2 ^ 28 + r" "r < 2 ^ 28" unfolding q_def r_def by (simp_all add: mult.commute)
  have "r mod 4 = 0" using four unfolding r_def by (simp add: mod_mod_cancel)
  moreover have "r \<noteq> 2 ^ 28 - 4" using m by (simp add: r_def)
  ultimately have r4: "r + 4 < 2 ^ 28" using qr(2) by auto
  have q: "q < 16" using unat_less_u32 [of a] unfolding q_def by (simp add: less_mult_imp_div_less)
  have "unat (a + 4) = unat a + 4" using qr(1) r4 q by (intro unat_plus_if' [THEN trans]) simp
  then have "unat (a + 4) = r + 4 + q * 2 ^ 28" using qr(1) by simp
  then have "unat (a + 4) div 2 ^ 28 = q" using r4 by (simp only: div_mult_self1) simp
  then have "unat (drop_bit 28 (a + 4)) = unat (drop_bit 28 a)" by (simp only: unat_shift q_def)
  then have "drop_bit 28 (a + 4) = drop_bit 28 a" by (simp only: word_unat_eq_iff)
  then show ?thesis by (simp only: high_bits)
qed

lemma jump_field: "JUMP_OF iw AND 0x3FFFFFF = JUMP_OF iw"
  by (simp add: JUMP_OF_def and.assoc)

lemma high_const: "NOT 0xfffffff = (0xF0000000 :: u32)"
  by simp

lemma aligned_bits: "a AND 3 = 0 \<Longrightarrow> bit a k \<Longrightarrow> 2 \<le> k" for a :: u32
proof -
  assume a: "a AND 3 = 0" "bit a k"
  have "(3 :: u32) = mask 2" by (simp add: mask_eq_exp_minus_1)
  then have "take_bit 2 a = 0" using a(1) by (simp add: take_bit_eq_mask)
  then show ?thesis using a(2) by (metis bit_0_eq bit_take_bit_iff bot_apply bot_bool_def linorder_not_less)
qed

text \<open>The target the decoder computes for an absolute jump is that of the jump, except at the end of a segment.\<close>

lemma absolute_imm:
  assumes "i_lshift d = 2" "i_mask d = 0x3ffffff" "i_smask d = 0"
  shows "ucast (idec_imm iw d) AND 0xfffffff = push_bit 2 (JUMP_OF iw)"
proof -
  have "idec_imm iw d = push_bit 2 (ucast (JUMP_OF iw))" using assms by (simp add: idec_imm_def sign_extend_def JUMP_OF_def)
  moreover have "ucast (push_bit 2 (ucast j :: u64)) AND 0xfffffff = push_bit 2 (j AND 0x3FFFFFF)" for j :: u32
    unfolding mask28 by (rule bit_word_eqI) (auto simp: bit_simps dest: bit_imp_le_length)
  ultimately show ?thesis by (simp only: jump_field)
qed

lemma absolute_target:
  assumes "pc_addr s AND 3 = 0" "\<not> segment_end (pc_addr s)" "i_lshift d = 2" "i_mask d = 0x3ffffff" "i_smask d = 0"
  shows "(pc_addr s AND NOT 0xfffffff) OR (ucast (idec_imm iw d) AND 0xfffffff) = region_target iw s"
  using same_segment [OF assms(1,2)]
  unfolding absolute_imm [OF assms(3-5)] region_target_def high_const by (simp add: or.commute)

lemma absolute_self:
  fixes a j :: u32
  assumes "a AND 3 = 0" "j AND 0x3FFFFFF = j"
  shows "(a AND NOT 0xfffffff) OR push_bit 2 j = a \<longleftrightarrow> j = drop_bit 2 (a AND 0x0FFFFFFF)"
proof
  assume e: "(a AND NOT 0xfffffff) OR push_bit 2 j = a"
  have "drop_bit 2 (((a AND NOT 0xfffffff) OR push_bit 2 j) AND 0x0FFFFFFF) = j AND 0x3FFFFFF"
    unfolding mask28 by (rule bit_word_eqI) (auto simp: bit_simps)
  then show "j = drop_bit 2 (a AND 0x0FFFFFFF)" by (simp only: e assms(2))
next
  assume j: "j = drop_bit 2 (a AND 0x0FFFFFFF)"
  show "(a AND NOT 0xfffffff) OR push_bit 2 j = a"
    unfolding j mask28
  proof (rule bit_word_eqI)
    fix n
    show "bit ((a AND NOT (mask 28)) OR push_bit 2 (drop_bit 2 (a AND mask 28))) n = bit a n" if "n < LENGTH(32)"
    proof (cases "2 \<le> n")
      case True
      then have "2 + (n - 2) = n" by simp
      then show ?thesis using True that by (auto simp: bit_simps)
    next
      case False
      then show ?thesis using aligned_bits [OF assms(1), of n] by (auto simp: bit_simps)
    qed
  qed
qed

section \<open>The decoder of jumps\<close>

text \<open>The test of the pure interpreter for an idle loop, on the word after the jump.\<close>

definition idle_word :: "idle_check \<Rightarrow> u32 \<Rightarrow> u32 \<Rightarrow> u32 \<Rightarrow> bool" where
  "idle_word k op a next_iw \<longleftrightarrow>
     (case k of No_idle \<Rightarrow> False
      | Relative_idle \<Rightarrow> IMM16S_OF op = - 1 \<and> next_iw = 0
      | Absolute_idle \<Rightarrow> JUMP_OF op = drop_bit 2 (a AND 0x0FFFFFFF) \<and> \<not> segment_end a \<and> next_iw = 0)"

lemma is_idle_word:
  assumes "fast_mem_access env (pc_addr s + 4) s = (Some next_iw, s)"
  shows "is_idle env k op s = (idle_word k op (pc_addr s) next_iw, s)"
  using assms
  by (auto simp: is_idle_def idle_word_def IS_RELATIVE_IDLE_LOOP_def IS_ABSOLUTE_IDLE_LOOP_def next_is_nop_def segment_end_def
      split: idle_check.splits)

lemma jump_targets:
  "list_all (\<lambda>(op, _, mk). (decode_kind op = Some K_branch \<longrightarrow> (\<forall>iw s. j_target (mk iw s) = branch_target iw s)) \<and>
                            (decode_kind op = Some K_jump \<longrightarrow> (\<forall>iw s. j_target (mk iw s) = region_target iw s)))
     (jump_handlers :: (nat \<times> operand list \<times> (u32 \<Rightarrow> 'a dev \<Rightarrow> jump)) list)"
  unfolding jump_handlers_def list.pred_inject prod.case
  by (intro conjI; simp add: j_J_def j_JAL_def j_BEQ_def j_BEQL_def j_BNE_def j_BNEL_def j_BLEZ_def j_BLEZL_def j_BGTZ_def
      j_BGTZL_def j_BLTZ_def j_BLTZAL_def j_BLTZL_def j_BLTZALL_def j_BGEZ_def j_BGEZAL_def j_BGEZL_def j_BGEZALL_def j_BC1F_def
      j_BC1FL_def j_BC1T_def j_BC1TL_def branch_def)

lemma jump_ok_target:
  assumes "jump_ok k mk d"
  shows "k = Relative_idle \<Longrightarrow> j_target (mk iw s) = branch_target iw s" "k = Absolute_idle \<Longrightarrow> j_target (mk iw s) = region_target iw s"
proof -
  obtain rds where "jump_table (opcode d) = Some (rds, mk)" and k: "kind_of_check k (decode_kind (opcode d))"
    using assms by (auto simp: jump_ok_def split: option.splits)
  then have "(opcode d, rds, mk) \<in> set jump_handlers" by (simp add: jump_table_def map_of_SomeD)
  from bspec [OF jump_targets [unfolded list_all_iff] this] k
  show "k = Relative_idle \<Longrightarrow> j_target (mk iw s) = branch_target iw s" "k = Absolute_idle \<Longrightarrow> j_target (mk iw s) = region_target iw s"
    by (simp_all add: kind_of_check_def)
qed

text \<open>The target that decides the variant is the target of the jump.\<close>

lemma sub_type_target:
  assumes "jump_ok k mk d" "pc_addr s AND 3 = 0" "\<not> segment_end (pc_addr s)" "k \<noteq> No_idle"
  shows "sub_type k d iw (pc_addr s) next_iw block = infer_jump_sub_type (j_target (mk iw s)) (pc_addr s) next_iw block"
proof (cases k)
  case Relative_idle
  then show ?thesis
    using jump_ok_target(1) [OF assms(1) Relative_idle] by (simp add: sub_type_def branch_target_def IMM16S_OF_def distrib_right add.assoc)
next
  case Absolute_idle
  then have "i_lshift d = 2" "i_mask d = 0x3ffffff" "i_smask d = 0" using assms(1) by (auto simp: jump_ok_def split: option.splits)
  then show ?thesis
    using Absolute_idle jump_ok_target(2) [OF assms(1) Absolute_idle] absolute_target [OF assms(2,3)] by (simp add: sub_type_def)
qed (use assms in simp)

lemma target_self:
  assumes "jump_ok k mk d" "pc_addr s AND 3 = 0" "\<not> segment_end (pc_addr s)" "k \<noteq> No_idle"
  shows "j_target (mk iw s) = pc_addr s \<and> next_iw = 0 \<longleftrightarrow> idle_word k iw (pc_addr s) next_iw"
proof (cases k)
  case Relative_idle
  have "branch_target iw s = pc_addr s \<longleftrightarrow> scast (IMM16S_OF iw) * 4 + 4 = (0 :: u32)"
    by (simp add: branch_target_def distrib_right)
  then show ?thesis
    using jump_ok_target(1) [OF assms(1) Relative_idle] relative_self [of "IMM16S_OF iw"] by (simp add: Relative_idle idle_word_def)
next
  case Absolute_idle
  have "region_target iw s = pc_addr s \<longleftrightarrow> JUMP_OF iw = drop_bit 2 (pc_addr s AND 0x0FFFFFFF)"
    using absolute_self [OF assms(2) jump_field, of iw] same_segment [OF assms(2,3)]
    unfolding high_const region_target_def by (simp add: or.commute)
  then show ?thesis using jump_ok_target(2) [OF assms(1) Absolute_idle] assms(3) by (simp add: Absolute_idle idle_word_def)
qed (use assms in simp)

text \<open>
  C6. The cached interpreter decodes a jump to a handler that is the jump of the pure interpreter, to its idle variant exactly when
  the pure interpreter would recognise an idle loop, and to the variant that leaves the block unless the target is the
  jump itself or lies in the block. The jump must not be the last word of a 256 MiB segment.
\<close>

theorem cached_jumps_agree:
  fixes mk :: "u32 \<Rightarrow> 'a dev \<Rightarrow> jump"
  assumes "decode_jump iw = Some (k, mk)" "\<not> decoders_differ iw" "pc_addr s AND 3 = 0" "\<not> segment_end (pc_addr s)" "addr inst = pc_addr s"
  shows "\<exists>inst' op v rds mk'.
    r4300_decode inst (r4300_get_idec iw) iw next_iw block = Some (inst', op) \<and> jump_handler (ops inst') = Some (v, rds, mk') \<and>
    list_all (readable (f_args inst')) rds \<and> mk' (operand_word (f_args inst')) s = mk iw s \<and>
    (v = 1 \<longleftrightarrow> idle_word k iw (pc_addr s) next_iw) \<and>
    (v \<noteq> 2 \<longrightarrow> j_target (mk iw s) = pc_addr s \<or> blk_start block \<le> j_target (mk iw s) \<and> j_target (mk iw s) < blk_end block)"
proof -
  let ?d = "r4300_get_idec iw" and ?t = "j_target (mk iw s)" and ?v = "sub_type k (r4300_get_idec iw) iw (pc_addr s) next_iw block"
  have ok: "jump_ok k mk ?d" by (rule jump_idec [OF assms(1,2)])
  obtain inst' op rds mk' where d: "r4300_decode inst ?d iw next_iw block = Some (inst', op)" "jump_handler (ops inst') = Some (?v, rds, mk')"
    "list_all (readable (f_args inst')) rds" "\<forall>s. mk' (operand_word (f_args inst')) s = mk iw s"
    using jump_ok_decodes [OF ok, of iw] assms(5) unfolding decodes_jump_def by metis
  have "?v = 1 \<longleftrightarrow> idle_word k iw (pc_addr s) next_iw"
  proof (cases "k = No_idle")
    case True
    then show ?thesis by (simp add: sub_type_def idle_word_def)
  next
    case False
    then show ?thesis
      using sub_type_target [OF ok assms(3,4) False, of iw next_iw block] target_self [OF ok assms(3,4) False, of iw next_iw]
      by (auto simp: infer_jump_sub_type_def)
  qed
  moreover have "?v \<noteq> 2 \<longrightarrow> ?t = pc_addr s \<or> blk_start block \<le> ?t \<and> ?t < blk_end block"
  proof (cases "k = No_idle")
    case True
    then show ?thesis by (simp add: sub_type_def)
  next
    case False
    then show ?thesis
      using sub_type_target [OF ok assms(3,4) False, of iw next_iw block] by (auto simp: infer_jump_sub_type_def not_less not_le)
  qed
  ultimately show ?thesis using d by blast
qed

text \<open>
  In the last word of a segment the decoder takes a jump for an idle loop that leads to the next segment, and the idle
  variant does not leave the block.
\<close>

theorem segment_end_jump_misread:
  fixes s :: "'a dev"
  assumes "pc_addr s = 0x8FFFFFFC"
  shows "sub_type Absolute_idle (r4300_get_idec 0x0BFFFFFF) 0x0BFFFFFF (pc_addr s) 0 block = 1 \<and> region_target 0x0BFFFFFF s = 0x9FFFFFFC"
proof -
  have "r4300_get_idec 0x0BFFFFFF = d_J" by (simp add: get_idec OPCODE_OF_def drop_bit_eq_div main_ops_def)
  moreover have "idec_imm 0x0BFFFFFF d_J = 0xFFFFFFC" by (simp add: idec_imm_def sign_extend_def target_fields push_bit_eq_mult)
  ultimately show ?thesis
    using assms by (simp add: sub_type_def infer_jump_sub_type_def region_target_def JUMP_OF_def push_bit_eq_mult)
qed

section \<open>Witnesses\<close>

lemma branch_word: "decode_jump 0x1000FFFF = Some (Relative_idle, j_BEQ)" "\<not> decoders_differ 0x1000FFFF"
  by (simp_all add: decode_jump_def decoders_differ_def OPCODE_OF_def opcode_jumps_def drop_bit_eq_div)

definition branch_inst :: precomp_instr where
  "branch_inst = \<lparr>ops = NOTCOMPILED, f_args = F_none, addr = 0x80000400\<rparr>"

theorem cached_jumps_agree_witness:
  "\<forall>block. \<exists>inst' op v rds mk'.
    r4300_decode branch_inst (r4300_get_idec 0x1000FFFF) 0x1000FFFF 0 block = Some (inst', op) \<and> jump_handler (ops inst') = Some (v, rds, mk') \<and>
    list_all (readable (f_args inst')) rds \<and>
    mk' (operand_word (f_args inst')) (jump_sample\<lparr>pc_addr := 0x80000400\<rparr>) = j_BEQ 0x1000FFFF (jump_sample\<lparr>pc_addr := 0x80000400\<rparr>) \<and> v = 1"
proof
  fix block
  let ?s = "jump_sample\<lparr>pc_addr := 0x80000400\<rparr>"
  have "pc_addr ?s AND 3 = 0" "\<not> segment_end (pc_addr ?s)" "addr branch_inst = pc_addr ?s" "idle_word Relative_idle 0x1000FFFF (pc_addr ?s) 0"
    by (simp_all add: segment_end_def branch_inst_def idle_word_def IMM16S_OF_def)
  then show "\<exists>inst' op v rds mk'.
    r4300_decode branch_inst (r4300_get_idec 0x1000FFFF) 0x1000FFFF 0 block = Some (inst', op) \<and> jump_handler (ops inst') = Some (v, rds, mk') \<and>
    list_all (readable (f_args inst')) rds \<and> mk' (operand_word (f_args inst')) ?s = j_BEQ 0x1000FFFF ?s \<and> v = 1"
    using cached_jumps_agree [OF branch_word, of ?s branch_inst 0 block] by metis
qed

theorem segment_end_jump_misread_witness:
  "sub_type Absolute_idle (r4300_get_idec 0x0BFFFFFF) 0x0BFFFFFF 0x8FFFFFFC 0 \<lparr>blk = None, blk_start = 0, blk_end = 0, xxhash = 0\<rparr> = 1"
  using segment_end_jump_misread [of "jump_sample\<lparr>pc_addr := 0x8FFFFFFC\<rparr>"] by simp

end
