(* ===== verification/Delay_Slot.thy ===== *)
theory Delay_Slot
  imports Cached_Jumps
begin

text \<open>
  Jumps and their delay slots in the pure interpreter, against the architecture: which words are jumps, their target,
  condition and link register are described once more by the numbers of the opcode fields, as the manual of the
  processor tabulates them. The bits of an opcode that select the variant of a branch (sense of the condition, likely, link) are read
  as such. An interpreted jump is then the sequence of state changes the manual asks for, with an exception in the
  delay slot as the interesting case.
\<close>

section \<open>The jumps of the architecture\<close>

definition branch_condition :: "nat \<Rightarrow> u64 \<Rightarrow> u64 \<Rightarrow> bool" where
  "branch_condition c x y = (if c = 0 then x = y else if c = 1 then x \<noteq> y else if c = 2 then x <s 0 \<or> x = 0 else \<not> x <s 0 \<and> x \<noteq> 0)"

definition isa_jump :: "u32 \<Rightarrow> 'a dev \<Rightarrow> jump option" where
  "isa_jump op s =
     (let m = OPCODE_OF op; f = FUNCT_OF op; r = RT_OF op; x = gpr s (RS_OF op); y = gpr s r;
          near = pc_addr s + 4 + 4 * scast (ucast op :: u16);
          region = ((pc_addr s + 4) AND 0xF0000000) OR 4 * (op AND 0x03FFFFFF)
      in if m = 0 \<and> (f = 8 \<or> f = 9)
         then Some \<lparr>j_target = ucast x, j_take = True, j_link = (if f = 9 then RD_OF op else 0), j_likely = False, j_cop1 = False\<rparr>
         else if m = 1 \<and> (r < 4 \<or> 16 \<le> r \<and> r < 20)
         then Some \<lparr>j_target = near, j_take = (odd r \<longleftrightarrow> \<not> x <s 0), j_link = (if 16 \<le> r then 31 else 0),
                j_likely = odd (r div 2), j_cop1 = False\<rparr>
         else if m = 2 \<or> m = 3
         then Some \<lparr>j_target = region, j_take = True, j_link = (if m = 3 then 31 else 0), j_likely = False, j_cop1 = False\<rparr>
         else if 4 \<le> m \<and> m < 8 \<or> 20 \<le> m \<and> m < 24
         then Some \<lparr>j_target = near, j_take = branch_condition (m mod 4) x y, j_link = 0, j_likely = (20 \<le> m), j_cop1 = False\<rparr>
         else if m = 17 \<and> RS_OF op = 8
         then Some \<lparr>j_target = near, j_take = (odd r \<longleftrightarrow> cmp_bit (cp1 s)), j_link = 0, j_likely = odd (r div 2), j_cop1 = True\<rparr>
         else None)"

lemma signed_sides: "0 \<le>s x \<longleftrightarrow> \<not> x <s 0" "x \<le>s 0 \<longleftrightarrow> x <s 0 \<or> x = 0" "0 <s x \<longleftrightarrow> \<not> x <s 0 \<and> x \<noteq> 0" for x :: "'w :: len word"
proof -
  have "x = 0 \<longleftrightarrow> sint x = 0" using signed_word_eqI [of x 0] by auto
  then show "0 \<le>s x \<longleftrightarrow> \<not> x <s 0" "x \<le>s 0 \<longleftrightarrow> x <s 0 \<or> x = 0" "0 <s x \<longleftrightarrow> \<not> x <s 0 \<and> x \<noteq> 0"
    by (auto simp only: word_sle_eq word_sless_alt sint_0)
qed

lemma targets:
  "branch_target op s = pc_addr s + 4 + 4 * scast (ucast op :: u16)"
  "region_target op s = ((pc_addr s + 4) AND 0xF0000000) OR 4 * (op AND 0x03FFFFFF)"
  by (simp_all add: branch_target_def region_target_def IMM16S_OF_def JUMP_OF_def push_bit_eq_mult or.commute algebra_simps)

lemmas jump_defs = j_J_def j_JAL_def j_JR_def j_JALR_def j_BEQ_def j_BEQL_def j_BNE_def j_BNEL_def j_BLEZ_def j_BLEZL_def j_BGTZ_def
  j_BGTZL_def j_BLTZ_def j_BLTZAL_def j_BLTZL_def j_BLTZALL_def j_BGEZ_def j_BGEZAL_def j_BGEZL_def j_BGEZALL_def j_BC1F_def
  j_BC1FL_def j_BC1T_def j_BC1TL_def branch_def

lemma condition_bits: "unat (drop_bit 16 op AND 0x3) = RT_OF op mod 4" for op :: u32
proof -
  have "(drop_bit 16 op AND mask 5) AND mask 2 = drop_bit 16 op AND mask 2" by (rule bit_word_eqI) (auto simp: bit_simps)
  then show ?thesis using field_nat [of 0 "drop_bit 16 op AND mask 5" 2] by (simp add: RT_OF_def masks)
qed

lemma odd_mod4: "odd (r :: nat) = odd (r mod 4)" "odd (r div 2) = odd (r mod 4 div 2)"
  by presburger+

text \<open>The tables of the interpreter decode exactly these words, to these jumps.\<close>

lemma isa_jump_decoded:
  fixes s :: "'a dev"
  shows "isa_jump op s = map_option (\<lambda>(k, mk). mk op s) (decode_jump op)"
proof -
  let ?m = "OPCODE_OF op" and ?f = "FUNCT_OF op" and ?r = "RT_OF op"
  consider "?m = 0" | "?m = 1" | "?m = 17 \<and> RS_OF op = 8" | "?m \<noteq> 0 \<and> ?m \<noteq> 1 \<and> \<not> (?m = 17 \<and> RS_OF op = 8)" by blast
  then show ?thesis
  proof cases
    case 1
    then show ?thesis by (simp add: isa_jump_def decode_jump_def jump_defs rrs32_def rrs_def Let_def)
  next
    case 2
    have "?r \<in> {0, 1, 2, 3, 16, 17, 18, 19} \<or> \<not> (?r < 4 \<or> 16 \<le> ?r \<and> ?r < 20)" by auto
    then show ?thesis
      using 2 by (auto simp: isa_jump_def decode_jump_def regimm_jumps_def jump_defs targets signed_sides rrs_def Let_def)
  next
    case 3
    have "?r mod 4 \<in> {0, 1, 2, 3}" by auto
    then show ?thesis
      using 3 odd_mod4 [of ?r] by (auto simp: isa_jump_def decode_jump_def condition_bits jump_defs targets Let_def)
  next
    case 4
    then have other: "?m \<noteq> 0" "?m \<noteq> 1" "\<not> (?m = 17 \<and> RS_OF op = 8)" by blast+
    consider "?m \<in> {2, 3, 4, 5}" | "?m \<in> {6, 7, 20, 21}" | "?m \<in> {22, 23}" | "?m \<notin> {2, 3, 4, 5, 6, 7, 20, 21, 22, 23}" by blast
    then show ?thesis
    proof cases
      case 1
      then show ?thesis using 4 unfolding isa_jump_def decode_jump_def opcode_jumps_def Let_def
        by (elim insertE emptyE) (simp_all add: jump_defs targets branch_condition_def rrs_def rrt_def)
    next
      case 2
      then show ?thesis using 4 unfolding isa_jump_def decode_jump_def opcode_jumps_def Let_def
        by (elim insertE emptyE) (simp_all add: jump_defs targets signed_sides branch_condition_def rrs_def rrt_def)
    next
      case 3
      then show ?thesis using 4 unfolding isa_jump_def decode_jump_def opcode_jumps_def Let_def
        by (elim insertE emptyE) (simp_all add: jump_defs targets signed_sides branch_condition_def rrs_def rrt_def)
    next
      case 4
      then have "\<not> (?m = 2 \<or> ?m = 3)" "\<not> (4 \<le> ?m \<and> ?m < 8 \<or> 20 \<le> ?m \<and> ?m < 24)" 
        "map_of opcode_jumps ?m = (None :: (idle_check \<times> (u32 \<Rightarrow> 'a dev \<Rightarrow> jump)) option)"
        by (auto simp: opcode_jumps_def)
      then show ?thesis using other by (simp only: isa_jump_def decode_jump_def Let_def simp_thms if_False option.map)
    qed
  qed
qed

lemma isa_jump_some:
  assumes "isa_jump op s = Some j"
  obtains k mk where "decode_jump op = Some (k, mk)" "mk op s = j"
  using assms by (auto simp: isa_jump_decoded)

lemma table_targets:
  "list_all (\<lambda>(_, k, mk). k = Relative_idle \<and> (\<forall>op s. j_target (mk op s) = branch_target op s)) regimm_jumps"
  "list_all (\<lambda>(_, k, mk). (k = Relative_idle \<and> (\<forall>op s. j_target (mk op s) = branch_target op s)) \<or>
     (k = Absolute_idle \<and> (\<forall>op s. j_target (mk op s) = region_target op s))) opcode_jumps"
  by (simp_all add: regimm_jumps_def opcode_jumps_def jump_defs)

lemma jump_kind_target:
  assumes "decode_jump op = Some (k, mk)"
  shows "k = No_idle \<or> k = Relative_idle \<and> j_target (mk op s) = branch_target op s \<or>
    k = Absolute_idle \<and> j_target (mk op s) = region_target op s"
proof -
  let ?m = "OPCODE_OF op"
  consider "?m = 0" | "?m = 1" | "?m = 17 \<and> RS_OF op = 8" | "map_of opcode_jumps ?m = Some (k, mk)"
    using assms by (auto simp: decode_jump_def Let_def split: if_splits)
  then show ?thesis
  proof cases
    case 1
    then show ?thesis using assms by (auto simp: decode_jump_def split: if_splits)
  next
    case 2
    then have "(RT_OF op, k, mk) \<in> set regimm_jumps" using assms by (simp add: decode_jump_def map_of_SomeD)
    then show ?thesis using bspec [OF table_targets(1) [unfolded list_all_iff]] by fastforce
  next
    case 3
    then show ?thesis using assms by (auto simp: decode_jump_def jump_defs split: if_splits)
  next
    case 4
    then have "(?m, k, mk) \<in> set opcode_jumps" by (rule map_of_SomeD)
    then show ?thesis using bspec [OF table_targets(2) [unfolded list_all_iff]] by fastforce
  qed
qed

text \<open>A jump to itself waits for the next event only with a \<^verbatim>\<open>NOP\<close> in its delay slot.\<close>

definition idle_loop :: "'a dev machine \<Rightarrow> jump \<Rightarrow> 'a dev \<Rightarrow> bool" where
  "idle_loop env j s \<longleftrightarrow> j_target j = pc_addr s \<and> \<not> (\<exists>w. fast_mem_access env (pc_addr s + 4) s = (Some w, s) \<and> w \<noteq> 0)"

lemma not_idle:
  assumes "decode_jump op = Some (k, mk)" "pc_addr s AND 3 = 0" "\<not> idle_loop env (mk op s) s"
  shows "is_idle env k op s = (False, s)"
proof (cases "j_target (mk op s) = pc_addr s")
  case True
  then show ?thesis using assms(3)
    by (auto simp: idle_loop_def is_idle_def IS_RELATIVE_IDLE_LOOP_def IS_ABSOLUTE_IDLE_LOOP_def next_is_nop_def split: idle_check.split)
next
  case False
  have "IMM16S_OF op \<noteq> - 1" if "k = Relative_idle"
    using that False jump_kind_target [OF assms(1), of s] by (auto simp: branch_target_def)
  moreover have "\<not> (JUMP_OF op = drop_bit 2 (pc_addr s AND 0x0FFFFFFF) \<and> \<not> segment_end (pc_addr s))" if "k = Absolute_idle"
  proof
    assume a: "JUMP_OF op = drop_bit 2 (pc_addr s AND 0x0FFFFFFF) \<and> \<not> segment_end (pc_addr s)"
    then have "(pc_addr s AND 0xF0000000) OR push_bit 2 (JUMP_OF op) = pc_addr s"
      using absolute_self [OF assms(2) jump_field, of op] unfolding high_const by blast
    then have "region_target op s = pc_addr s" using same_segment [OF assms(2)] a by (simp add: region_target_def or.commute)
    then show False using False that jump_kind_target [OF assms(1), of s] by simp
  qed
  ultimately show ?thesis
    by (auto simp: is_idle_def IS_RELATIVE_IDLE_LOOP_def IS_ABSOLUTE_IDLE_LOOP_def segment_end_def split: idle_check.split)
qed

section \<open>Interpreting a jump\<close>

text \<open>The end of every jump: the time base restarts here, and events that are due are dispatched.\<close>

definition resume_at :: "'a dev machine \<Rightarrow> u32 \<Rightarrow> 'a dev \<Rightarrow> 'a dev" where
  "resume_at env a s =
     (if cycle_count s <s 0 then s\<lparr>pc_addr := a, last_addr := a\<rparr>
      else gen_interrupt (machine_env env) (s\<lparr>pc_addr := a, last_addr := a\<rparr>))"

lemma count_keeps [simp]: "skip_jump (cp0_update_count s) = skip_jump s" "pc_addr (cp0_update_count s) = pc_addr s"
    "delay_slot (cp0_update_count s) = delay_slot s"
  by (simp_all add: cp0_update_count_def Let_def)

lemma finish_resumes: "finish_jump env s = resume_at env (pc_addr s) s"
  using signed_sides(1) [of "cycle_count s"] by (simp add: finish_jump_def check_cycle_count_def resume_at_def)

lemma resume_pc [simp]: "resume_at env a (s\<lparr>pc_addr := b\<rparr>) = resume_at env a s"
  by (simp add: resume_at_def)

lemma jump_interpreted:
  assumes "fast_mem_access env (pc_addr s) s = (Some op, s)" "pc_addr s AND 3 = 0" "isa_jump op s = Some j" "\<not> idle_loop env j s"
    and cop1: "j_cop1 j \<longrightarrow> cp0_regs s CP0_STATUS_REG AND CP0_STATUS_CU1 \<noteq> 0"
  shows "InterpretOpcode env s =
    (if j_likely j \<and> \<not> j_take j then Some (finish_jump env (skip_delay_slot (jump_link j s)))
     else Option.bind (InterpretOpcode env (enter_delay_slot (jump_link j s))) (\<lambda>s. Some (finish_jump env (leave_delay_slot j s))))"
proof -
  obtain k mk where d: "decode_jump op = Some (k, mk)" and j: "mk op s = j" using isa_jump_some [OF assms(3)] .
  have "is_idle env k op s = (False, s)" using not_idle [OF d assms(2)] assms(4) j by simp
  moreover have "jump_guard j s = (False, s)" using cop1 by (auto simp: jump_guard_def check_cop1_unusable_def)
  ultimately have "begin_jump env k mk op s = Inr (j, jump_link j s)" by (simp add: begin_jump_def j Let_def)
  then show ?thesis by (simp add: interpret_jump [OF assms(1) d])
qed

text \<open>
  C3. A jump of the architecture (\<open>isa_jump\<close>: target, condition, link register and kind by the fields of the opcode) that is no idle loop, a
  branch on coprocessor 1 provided the coprocessor is usable: the link register receives the address behind the
  delay slot; a likely branch that is not taken goes on behind the delay slot; otherwise the instruction in the delay slot is
  interpreted once, at the address behind the jump, with the delay-slot flag set, and if it returns, time is accounted, the flag cleared, and control
  goes to the target if the jump is taken and no exception was raised in the delay slot, and stays where the instruction left
  it otherwise. Events that are due by then are dispatched.
\<close>

theorem jump_with_delay_slot:
  assumes fetch: "fast_mem_access env (pc_addr s) s = (Some op, s)" "pc_addr s AND 3 = 0" and jump: "isa_jump op s = Some j"
    and not_idle: "\<not> idle_loop env j s" and cop1: "j_cop1 j \<longrightarrow> cp0_regs s CP0_STATUS_REG AND CP0_STATUS_CU1 \<noteq> 0"
  shows "InterpretOpcode env s =
    (let linked = (if j_link j = 0 then s else s\<lparr>gpr := (gpr s)(j_link j := scast (pc_addr s + 8))\<rparr>)
     in if j_likely j \<and> \<not> j_take j
        then Some (resume_at env (pc_addr s + 8) (cp0_update_count (linked\<lparr>pc_addr := pc_addr s + 8\<rparr>)))
        else case InterpretOpcode env (linked\<lparr>pc_addr := pc_addr s + 4, delay_slot := 1\<rparr>) of
            None \<Rightarrow> None
          | Some s1 \<Rightarrow> Some (resume_at env (if j_take j \<and> skip_jump s1 = 0 then j_target j else pc_addr s1)
                          ((cp0_update_count s1)\<lparr>delay_slot := 0\<rparr>)))"
proof -
  have l: "jump_link j s = (if j_link j = 0 then s else s\<lparr>gpr := (gpr s)(j_link j := scast (pc_addr s + 8))\<rparr>)"
    by (simp add: jump_link_def set_gpr_def SE32_def)
  have p: "pc_addr (jump_link j s) = pc_addr s" by (simp add: l)
  have leave: "finish_jump env (leave_delay_slot j s1) =
      resume_at env (if j_take j \<and> skip_jump s1 = 0 then j_target j else pc_addr s1) ((cp0_update_count s1)\<lparr>delay_slot := 0\<rparr>)" for s1
    by (simp add: finish_resumes leave_delay_slot_def Let_def)
  have skip: "finish_jump env (skip_delay_slot u) = resume_at env (pc_addr u + 8) (cp0_update_count (u\<lparr>pc_addr := pc_addr u + 8\<rparr>))" for u
    by (simp add: finish_resumes skip_delay_slot_def)
  show ?thesis
    unfolding jump_interpreted [OF fetch jump not_idle cop1] leave skip enter_delay_slot_def p l [symmetric] Let_def
    by (cases "InterpretOpcode env ((jump_link j s)\<lparr>pc_addr := pc_addr s + 4, delay_slot := 1\<rparr>)") auto
qed

section \<open>An exception in the delay slot\<close>

lemma trap_words:
  assumes "OPCODE_OF w = 0" "FUNCT_OF w = 12 \<and> c = 0x20 \<or> FUNCT_OF w = 13 \<and> c = 0x24"
  shows "decode_jump w = None" "exec_instruction env w s = Some (exception_general (set_cp0 CP0_CAUSE_REG c s))"
  using assms by (auto simp: decode_jump_def exec_instruction_def switch_def opcode_table_def special_table_def none_op_def i_SYSCALL_def i_BREAK_def)

lemma trap_in_slot:
  assumes "delay_slot s = 1"
  shows "exception_general (set_cp0 CP0_CAUSE_REG c s) =
    (let u = cp0_update_count s in u\<lparr>cp0_regs := (cp0_regs u)(CP0_STATUS_REG := cp0_regs s CP0_STATUS_REG OR CP0_STATUS_EXL,
        CP0_EPC_REG := pc_addr s - 4, CP0_CAUSE_REG := c OR CP0_CAUSE_BD),
      pc_addr := 0x80000180, last_addr := 0x80000180, skip_jump := 0x80000180, next_interrupt := 0, cycle_count := 0\<rparr>)"
  using assms by (simp add: exception_general_def exception_epilog_def in_delay_slot_def set_cp0_def cp0_update_count_def generic_jump_to_def Let_def fun_upd_twist)

lemma no_time_passes:
  assumes "pc_addr s = last_addr s"
  shows "cp0_update_count s = s"
proof -
  have "drop_bit d (push_bit d 1 - 1) = (0 :: u32)" for d 
    by (simp add: push_bit_of_1 flip: mask_eq_exp_minus_1) (rule bit_word_eqI, simp add: bit_simps)
  then show ?thesis using assms by (simp add: cp0_update_count_def Let_def)
qed

lemma take_skip_fields:
  fixes s :: "'a dev"
  shows "pc_addr (take_skip_jump s) = skip_jump s" "last_addr (take_skip_jump s) = skip_jump s" "skip_jump (take_skip_jump s) = 0"
    "cp0_regs (take_skip_jump s) = cp0_regs s" "delay_slot (take_skip_jump s) = delay_slot s" "gpr (take_skip_jump s) = gpr s"
    "dram (take_skip_jump s) = dram s" "cp0_q (take_skip_jump s) = cp0_q s"
  by (simp_all add: take_skip_jump_def generic_jump_to_def Let_def split: option.split)


section \<open>Witnesses\<close>

text \<open>A call of 0x80000800, with a \<^verbatim>\<open>NOP\<close> or a \<^verbatim>\<open>SYSCALL\<close> in its delay slot.\<close>

definition call_sample :: "u32 \<Rightarrow> is_viewer" where
  "call_sample w = jump_sample\<lparr>dram := (\<lambda>_. 0)(0x100 := 0x0C000200, 0x101 := w), reset_hard_job := False\<rparr>"

lemma call_sample_fields:
  "pc_addr (call_sample w) = 0x80000400" "dram (call_sample w) = (\<lambda>_. 0)(0x100 := 0x0C000200, 0x101 := w)" "reset_hard_job (call_sample w) = False"
  "isa_jump 0x0C000200 (call_sample w) =
     Some \<lparr>j_target = 0x80000800, j_take = True, j_link = 31, j_likely = False, j_cop1 = False\<rparr>"
  by (simp_all add: call_sample_def jump_sample_def isa_jump_def OPCODE_OF_def drop_bit_eq_div Let_def)

theorem jump_with_delay_slot_witness:
  "\<forall>env. \<exists>s'. InterpretOpcode env (call_sample 0) = Some s' \<and> pc_addr s' = 0x80000800 \<and> delay_slot s' = 0 \<and>
     gpr s' 31 = 0xFFFFFFFF80000408"
proof
  fix env
  let ?s = "call_sample 0"
  let ?j = "\<lparr>j_target = 0x80000800, j_take = True, j_link = 31, j_likely = False, j_cop1 = False\<rparr>"
  let ?e = "?s\<lparr>gpr := (gpr ?s)(31 := scast (pc_addr ?s + 8)), pc_addr := pc_addr ?s + 4, delay_slot := 1\<rparr>"
  have "fast_mem_access env (pc_addr ?s) ?s = (Some 0x0C000200, ?s)" by (simp add: fetch_dram call_sample_fields)
  moreover have "\<not> idle_loop env ?j ?s" by (simp add: idle_loop_def call_sample_fields)
  moreover have "fast_mem_access env (pc_addr ?e) ?e = (Some 0, ?e)" by (simp add: fetch_dram call_sample_fields)
  then have "InterpretOpcode env ?e = Some (ADD_TO_PC 1 ?e)" by (simp add: interpret_plain nop_decodes)
  ultimately have i: "InterpretOpcode env ?s = Some (resume_at env (if skip_jump (ADD_TO_PC 1 ?e) = 0 then 0x80000800 else 0x80000408)
      ((cp0_update_count (ADD_TO_PC 1 ?e))\<lparr>delay_slot := 0\<rparr>))"
    using jump_with_delay_slot [of env ?s "0x0C000200" ?j] by (simp add: call_sample_fields ADD_TO_PC_def)
  show "\<exists>s'. InterpretOpcode env ?s = Some s' \<and> pc_addr s' = 0x80000800 \<and> delay_slot s' = 0 \<and> gpr s' 31 = 0xFFFFFFFF80000408"
    unfolding i by (simp add: resume_at_def ADD_TO_PC_def call_sample_def jump_sample_def cp0_update_count_def word_sless_alt Let_def)
qed


end
