(* ===== verification/Cached_Blocks.thy ===== *)
theory Cached_Blocks
  imports Cached_Jumps
begin

text \<open>
  The blocks of the cached interpreter (\<^verbatim>\<open>src/src/device/r4300/cached_interp.c\<close>): one per 4 KiB page of virtual addresses, with
  the decoded instructions of the page and room for a quarter more behind it, and a flag per page that says whether
  the block may be used. A pointer to a block is the number of its page, the pointer \<^verbatim>\<open>r4300->pc\<close> the page and an index.
  What memory returned by \<^verbatim>\<open>malloc\<close> holds and whether there is any are arguments.
\<close>

record cached_interp =
  invalid_code :: "u32 \<Rightarrow> bool"
  blocks :: "u32 \<Rightarrow> precomp_block option"
  actual :: "u32 option"
  pc_index :: "nat"

definition zero_instr :: precomp_instr where
  "zero_instr = \<lparr>ops = No_ops, f_args = F_none, addr = 0\<rparr>"

definition page_of :: "u32 \<Rightarrow> u32" where "page_of a = drop_bit 12 a"

definition init_blocks :: "cached_interp \<Rightarrow> cached_interp" where
  "init_blocks c = c\<lparr>invalid_code := \<lambda>_. True, blocks := \<lambda>_. None\<rparr>"

definition cached_interp_free_block :: "precomp_block \<Rightarrow> precomp_block" where
  "cached_interp_free_block b = b\<lparr>blk := None\<rparr>"

definition free_blocks :: "cached_interp \<Rightarrow> cached_interp" where
  "free_blocks c = c\<lparr>blocks := \<lambda>_. None\<rparr>"

section \<open>Validity of pages\<close>

text \<open>
  Keeping the flags of the aliases of a page alike; the recursion is on the physical address. The calls
  return the address, or 0 after a TLB exception.
\<close>

definition sync_pages :: "u32 \<Rightarrow> u32 \<Rightarrow> (u32 \<Rightarrow> bool) \<Rightarrow> u32 \<Rightarrow> bool" where
  "sync_pages p q flags = (if flags p then flags(q := True) else flags)"

definition update_alias :: "u32 \<Rightarrow> (u32 \<Rightarrow> bool) \<Rightarrow> u32 \<Rightarrow> bool" where
  "update_alias a flags =
     (let p = page_of a; q = page_of (a XOR 0x20000000) in sync_pages q p (sync_pages p q flags))"

partial_function (option) update_invalid_addr ::
    "u32 \<Rightarrow> cached_interp \<Rightarrow> 'a dev \<Rightarrow> (u32 \<times> cached_interp \<times> 'a dev) option" where
  "update_invalid_addr a c s0 =
     (if a AND 0xc0000000 = 0x80000000
      then Some (a, c\<lparr>invalid_code := update_alias a (invalid_code c)\<rparr>, s0)
      else let (paddr, s) = virtual_to_physical_address a 2 s0 in
           if paddr = 0 then Some (paddr, c, s)
           else let beg = paddr - (a - (a AND NOT 0xfff)) in
                Option.bind (update_invalid_addr paddr c s) (\<lambda>(_, c, s).
                let flags = sync_pages (page_of beg) (page_of a) (invalid_code c);
                    flags = sync_pages (page_of (beg + 0xffc)) (page_of a) flags;
                    flags = sync_pages (page_of a) (page_of beg) flags;
                    flags = sync_pages (page_of a) (page_of (beg + 0xffc)) flags
                in Some (paddr, c\<lparr>invalid_code := flags\<rparr>, s)))"

definition get_block_length :: "precomp_block \<Rightarrow> nat" where
  "get_block_length b = unat (blk_end b - blk_start b) div 4"

text \<open>In instructions, not in bytes.\<close>

definition get_block_memsize :: "precomp_block \<Rightarrow> nat" where
  "get_block_memsize b = get_block_length b + 1 + get_block_length b div 4"

definition new_block :: "u64 \<Rightarrow> u32 \<Rightarrow> precomp_block" where
  "new_block junk address =
     \<lparr>blk = None, blk_start = address AND NOT 0xfff, blk_end = (address AND NOT 0xfff) + 0x1000, xxhash = junk\<rparr>"

text \<open>The loop that resets the instructions; the operands are left as they are.\<close>

definition reset_instrs :: "precomp_block \<Rightarrow> precomp_instr list \<Rightarrow> precomp_instr list" where
  "reset_instrs b insts =
     map (\<lambda>i. if i < get_block_length b then (insts ! i)\<lparr>ops := NOTCOMPILED, addr := blk_start b + 4 * of_nat i\<rparr> else insts ! i)
       [0..<length insts]"

partial_function (option) cached_interp_init_block ::
    "u64 \<Rightarrow> bool \<Rightarrow> u32 \<Rightarrow> cached_interp \<Rightarrow> 'a dev \<Rightarrow> (cached_interp \<times> 'a dev) option" where
  "cached_interp_init_block junk alloc address c s0 =
     (let p = page_of address;
          b = (case blocks c p of None \<Rightarrow> new_block junk address | Some b \<Rightarrow> b)
      in if blk b = None \<and> \<not> alloc then Some (c\<lparr>blocks := (blocks c)(p := Some b)\<rparr>, s0)
         else let insts = (case blk b of None \<Rightarrow> replicate (get_block_memsize b) zero_instr | Some l \<Rightarrow> l);
                  c = c\<lparr>blocks := (blocks c)(p := Some (b\<lparr>blk := Some (reset_instrs b insts)\<rparr>)),
                        invalid_code := (invalid_code c)(page_of (blk_start b) := False)\<rparr>
              in if blk_end b < 0x80000000 \<or> blk_start b \<ge> 0xc0000000
                 then let (paddr, s) = virtual_to_physical_address (blk_start b) 2 s0;
                          last = paddr + (blk_end b - blk_start b - 4)
                      in Option.bind (cached_interp_init_block junk alloc paddr (c\<lparr>invalid_code := (invalid_code c)(page_of paddr := False)\<rparr>) s)
                           (\<lambda>(c, s). cached_interp_init_block junk alloc last (c\<lparr>invalid_code := (invalid_code c)(page_of last := False)\<rparr>) s)
                 else let alt = blk_start b XOR 0x20000000
                      in if invalid_code c (page_of alt) then cached_interp_init_block junk alloc alt c s0 else Some (c, s0))"

definition get_instr :: "precomp_block \<Rightarrow> nat \<Rightarrow> precomp_instr" where
  "get_instr b i = (case blk b of None \<Rightarrow> zero_instr | Some l \<Rightarrow> if i < length l then l ! i else zero_instr)"

text \<open>
  \<open>None\<close> is not returning; the null pointer for a block that was not allocated is a fault. The program counter becomes the decoded
  instruction, so its address is the one stored there.
\<close>

definition cached_interpreter_jump_to ::
    "u64 \<Rightarrow> bool \<Rightarrow> u32 \<Rightarrow> cached_interp \<Rightarrow> 'a dev \<Rightarrow> (cached_interp \<times> 'a dev) option" where
  "cached_interpreter_jump_to junk alloc address c s0 =
     (if skip_jump s0 \<noteq> 0 then Some (c, s0)
      else Option.bind (update_invalid_addr address c s0) (\<lambda>(r, c, s).
        if r = 0 then Some (c, s)
        else Option.bind (if invalid_code c (page_of address) then cached_interp_init_block junk alloc address c s else Some (c, s)) (\<lambda>(c, s).
          (case blocks c (page_of address) of
             None \<Rightarrow> Some (c\<lparr>actual := None\<rparr>, set_fault s)
           | Some b \<Rightarrow>
               let i = unat (address - blk_start b) div 4
               in Some (c\<lparr>actual := Some (page_of address), pc_index := i\<rparr>,
                        check_bounds (blk b \<noteq> None) (s\<lparr>pc_addr := addr (get_instr b i)\<rparr>))))))"

section \<open>Invalidation\<close>

definition is_not_compiled :: "precomp_block option \<Rightarrow> nat \<Rightarrow> bool" where
  "is_not_compiled b i =
     (case b of None \<Rightarrow> False | Some b \<Rightarrow> (case blk b of None \<Rightarrow> False | Some l \<Rightarrow> ops (l ! i) = NOTCOMPILED))"

text \<open>The loop over the words of the range; the rest of a page that is invalid is passed over.\<close>

partial_function (option) invalidate_loop :: "u32 \<Rightarrow> u32 \<Rightarrow> cached_interp \<Rightarrow> cached_interp option" where
  "invalidate_loop a addr_max c =
     (if \<not> a < addr_max then Some c
      else let i = page_of a; next_page = (a AND NOT 0xfff) OR 0xffc in
           if \<not> invalid_code c i
           then if is_not_compiled (blocks c i) (unat (a AND 0xfff) div 4) then invalidate_loop (a + 4) addr_max c
                else invalidate_loop (next_page + 4) addr_max (c\<lparr>invalid_code := (invalid_code c)(i := True)\<rparr>)
           else invalidate_loop (next_page + 4) addr_max c)"

definition invalidate_cached_code_hacktarux :: "u32 \<Rightarrow> u64 \<Rightarrow> cached_interp \<Rightarrow> cached_interp option" where
  "invalidate_cached_code_hacktarux address sz c =
     (if sz = 0 then Some (c\<lparr>invalid_code := \<lambda>_. True\<rparr>)
      else invalidate_loop address (ucast (ucast address + sz)) c)"

section \<open>Decoding a block\<close>

definition put_instr :: "nat \<Rightarrow> precomp_instr \<Rightarrow> precomp_block \<Rightarrow> precomp_block" where
  "put_instr i x b = b\<lparr>blk := map_option (\<lambda>l. l[i := x]) (blk b)\<rparr>"

definition in_block :: "precomp_block \<Rightarrow> nat \<Rightarrow> bool" where
  "in_block b i \<longleftrightarrow> (case blk b of None \<Rightarrow> False | Some l \<Rightarrow> i < length l)"

text \<open>For a block of mapped addresses: the instruction at the physical address is marked.\<close>

definition mark_physical :: "u32 \<Rightarrow> cached_interp \<Rightarrow> 'a dev \<Rightarrow> cached_interp \<times> 'a dev" where
  "mark_physical a c s0 =
     (let (address2, s) = virtual_to_physical_address a 0 s0;
          q = page_of address2; k = unat (address2 AND 0xFFF) div 4
      in case blocks c q of
           None \<Rightarrow> (c, set_fault s)
         | Some b \<Rightarrow>
             (if ops (get_instr b k) = NOTCOMPILED
              then c\<lparr>blocks := (blocks c)(q := Some (put_instr k ((get_instr b k)\<lparr>ops := NOTCOMPILED2\<rparr>) b))\<rparr> else c,
              check_bounds (in_block b k) s))"

definition ends_block :: "nat \<Rightarrow> bool" where
  "ends_block op \<longleftrightarrow> op \<in> {R4300_OP_J, R4300_OP_J_OUT, R4300_OP_JR, R4300_OP_JR_OUT}"

text \<open>The ending conditions, from the position, the opcode and what \<^verbatim>\<open>finished\<close> was.\<close>

definition next_finished :: "precomp_block \<Rightarrow> nat \<Rightarrow> nat \<Rightarrow> nat \<Rightarrow> nat" where
  "next_finished b i op finished =
     (let len = get_block_length b; length2 = len - 2 + len div 4;
          not_in_tlb = (blk_start b \<ge> 0xc0000000 \<or> blk_end b < 0x80000000);
          at_end = (i \<ge> len - 1);
          f = (if i \<ge> length2 then 2 else finished);
          f = (if at_end \<and> (blk_start b = 0xa4000000 \<or> not_in_tlb) then 2 else f);
          f = (if op = R4300_OP_ERET \<or> f = 1 then 2 else f)
      in if ends_block op \<and> \<not> (at_end \<and> not_in_tlb) then 1 else f)"

text \<open>
  One round of the loop of \<^verbatim>\<open>cached_interp_recompile_block\<close> on the block of page \<open>p\<close>; \<open>iw\<close> is the array of instruction words behind the
  pointer.
\<close>

definition recompile_step ::
    "u32 \<Rightarrow> (nat \<Rightarrow> u32) \<Rightarrow> nat \<Rightarrow> nat \<Rightarrow> cached_interp \<Rightarrow> 'a dev \<Rightarrow> nat \<times> cached_interp \<times> 'a dev" where
  "recompile_step p iw i finished c0 s0 =
     (let b0 = the (blocks c0 p); a = blk_start b0 + of_nat i * 4;
          c1 = c0\<lparr>blocks := (blocks c0)(p := Some (put_instr i ((get_instr b0 i)\<lparr>addr := a\<rparr>) b0))\<rparr>;
          s1 = check_bounds (in_block b0 i) s0;
          (c2, s2) = (if blk_start b0 AND 0xc0000000 \<noteq> 0x80000000 then mark_physical a c1 s1 else (c1, s1));
          b2 = the (blocks c2 p)
      in case r4300_decode (get_instr b2 i) (r4300_get_idec (iw i)) (iw i) (iw (i + 1)) b2 of
           None \<Rightarrow> (2, c2, set_fault s2)
         | Some (inst, op) \<Rightarrow>
             (next_finished b2 i op finished, c2\<lparr>blocks := (blocks c2)(p := Some (put_instr i inst b2))\<rparr>, s2))"

partial_function (option) recompile_loop ::
    "u32 \<Rightarrow> (nat \<Rightarrow> u32) \<Rightarrow> nat \<Rightarrow> nat \<Rightarrow> cached_interp \<Rightarrow> 'a dev \<Rightarrow> (nat \<times> cached_interp \<times> 'a dev) option" where
  "recompile_loop p iw i finished c s =
     (if finished = 2 then Some (i, c, s)
      else case recompile_step p iw i finished c s of (f, c, s) \<Rightarrow> recompile_loop p iw (i + 1) f c s)"

definition put_fin_block :: "u32 \<Rightarrow> nat \<Rightarrow> cached_interp \<Rightarrow> 'a dev \<Rightarrow> cached_interp \<times> 'a dev" where
  "put_fin_block p i c s =
     (let b = the (blocks c p); x = (get_instr b i)\<lparr>ops := FIN_BLOCK, addr := blk_start b + of_nat i * 4\<rparr>
      in (c\<lparr>blocks := (blocks c)(p := Some (put_instr i x b))\<rparr>, check_bounds (in_block b i) s))"

definition cached_interp_recompile_block ::
    "(nat \<Rightarrow> u32) \<Rightarrow> u32 \<Rightarrow> u32 \<Rightarrow> cached_interp \<Rightarrow> 'a dev \<Rightarrow> (cached_interp \<times> 'a dev) option" where
  "cached_interp_recompile_block iw p func c0 s0 =
     (let b = the (blocks c0 p); len = get_block_length b; length2 = len - 2 + len div 4;
          c1 = c0\<lparr>blocks := (blocks c0)(p := Some (b\<lparr>xxhash := 0\<rparr>))\<rparr>
      in Option.bind (recompile_loop p iw (unat (func AND 0xFFF) div 4) 0 c1 s0) (\<lambda>(i, c, s).
           if i \<ge> len
           then let (c, s) = put_fin_block p i c s in Some (if i + 1 \<le> length2 then put_fin_block p (i + 1) c s else (c, s))
           else Some (c, s)))"

end
