(* ===== verification/Cached_Code.thy ===== *)
theory Cached_Code
  imports Cached_Blocks
begin

text \<open>
  What the block cache of \<open>Cached_Blocks\<close> guarantees: a write that invalidates a range leaves no decoded word of it in a
  valid block, a jump finds a block that is valid or fresh, and decoding a page ends within its array and stores
  for each word what running it means, unless jumps follow each other.
\<close>

section \<open>Pages\<close>

lemma unat_page: "unat (page_of a) = unat a div 4096"
  by (simp add: page_of_def unat_shift)

lemma unat_offset: "unat (a AND 0xfff) = unat a mod 4096" for a :: u32
  using field_nat [of 0 a 12] by (simp add: masks)

lemma page_eq: "page_of a = page_of b \<longleftrightarrow> unat a div 4096 = unat b div 4096"
  by (simp add: word_unat_eq_iff unat_page)

lemma unat_page_start: "unat (a AND NOT 0xfff) = unat a div 4096 * 4096" for a :: u32
proof -
  have m: "(0xfff :: u32) = mask 12" by (simp add: mask_eq_exp_minus_1)
  have "a AND NOT (mask 12) = push_bit 12 (drop_bit 12 a)" by (rule bit_word_eqI) (auto simp: bit_simps)
  moreover have "unat (push_bit 12 (drop_bit 12 a)) = take_bit 32 (push_bit 12 (unat (drop_bit 12 a)))"
    by (rule trans [OF unsigned_push_bit_eq]) simp_all
  then have "unat (push_bit 12 (drop_bit 12 a)) = take_bit 32 (unat a div 4096 * 4096)"
    by (simp only: unat_shift push_bit_eq_mult [of 12 "unat a div 2 ^ 12"]) simp
  moreover have "unat a div 4096 * 4096 < 2 ^ 32" using unat_less_u32 [of a] by (simp add: less_mult_imp_div_less)
  ultimately show ?thesis by (simp add: m take_bit_nat_eq_self)
qed

lemma next_page: "unat a < 0xFFFFF000 \<Longrightarrow> unat (((a AND NOT 0xfff) OR 0xffc) + 4) = unat a div 4096 * 4096 + 4096" for a :: u32
proof -
  assume a: "unat a < 0xFFFFF000"
  have d: "(a AND NOT 0xfff) AND 0xffc = 0" by (simp add: and.assoc)
  have "unat a div 4096 * 4096 + 4096 < 2 ^ 32" using a by simp
  then have "unat ((a AND NOT 0xfff) + 0x1000) = unat a div 4096 * 4096 + 4096"
    using unat_page_start [of a] by (simp add: unat_word_ariths)
  moreover have "((a AND NOT 0xfff) OR 0xffc) + 4 = (a AND NOT 0xfff) + 0x1000"
    using d by (simp add: disjunctive_add_eq_or [symmetric])
  ultimately show ?thesis by (simp add: add.commute)
qed

section \<open>Invalidation\<close>

text \<open>The word at an address is not in use: its page is invalid, or it has not been decoded.\<close>

definition not_in_use :: "cached_interp \<Rightarrow> u32 \<Rightarrow> bool" where
  "not_in_use c x \<longleftrightarrow> invalid_code c (page_of x) \<or> is_not_compiled (blocks c (page_of x)) (unat (x AND 0xfff) div 4)"

lemma not_in_use_word: "unat x div 4 = unat y div 4 \<Longrightarrow> not_in_use c x \<longleftrightarrow> not_in_use c y"
proof -
  assume e: "unat x div 4 = unat y div 4"
  have d: "n div 4096 = n div 4 div 1024" "n mod 4096 div 4 = n div 4 mod 1024" for n :: nat
    using mod_mult2_eq [of n 4 1024] by (simp_all add: div_mult2_eq [symmetric])
  have "page_of x = page_of y" "unat (x AND 0xfff) div 4 = unat (y AND 0xfff) div 4"
    by (simp_all add: page_eq unat_offset d e)
  then show ?thesis by (simp add: not_in_use_def)
qed

lemma same_word: "a mod 4 = 0 \<Longrightarrow> x < a + 4 \<Longrightarrow> a \<le> x \<Longrightarrow> x div 4 = a div 4" for a x :: nat
  using div_mult_mod_eq [of a 4] by (intro div_nat_eqI) simp_all

lemma invalidate_loop_simps:
  "\<not> a < m \<Longrightarrow> invalidate_loop a m c = Some c"
  "a < m \<Longrightarrow> invalidate_loop a m c =
     (if \<not> invalid_code c (page_of a) \<and> is_not_compiled (blocks c (page_of a)) (unat (a AND 0xfff) div 4) then invalidate_loop (a + 4) m c
      else invalidate_loop (((a AND NOT 0xfff) OR 0xffc) + 4) m (c\<lparr>invalid_code := (invalid_code c)(page_of a := True)\<rparr>))"
  by (subst invalidate_loop.simps, simp, subst invalidate_loop.simps) (auto simp: Let_def fun_upd_idem)

lemma invalidate_loop_covers:
  assumes "unat m \<le> 0xFFFFF000" "unat a mod 4 = 0"
  shows "\<exists>c'. invalidate_loop a m c = Some c' \<and> blocks c' = blocks c \<and> (\<forall>p. invalid_code c p \<longrightarrow> invalid_code c' p) \<and>
    (\<forall>x. a \<le> x \<and> x < m \<longrightarrow> not_in_use c' x)"
  using assms(2)
proof (induction "unat m - unat a" arbitrary: a c rule: less_induct)
  case less
  show ?case
  proof (cases "a < m")
    case False
    then show ?thesis by (auto simp: invalidate_loop_simps(1))
  next
    case True
    then have lt: "unat a < unat m" by (simp add: word_less_nat_alt)
    then have small: "unat a < 0xFFFFF000" using assms(1) by simp
    show ?thesis
    proof (cases "\<not> invalid_code c (page_of a) \<and> is_not_compiled (blocks c (page_of a)) (unat (a AND 0xfff) div 4)")
      case nc: True
      have n: "unat (a + 4) = unat a + 4" using small by (simp add: unat_word_ariths)
      have "unat (a + 4) mod 4 = 0" using less.prems n by simp
      then obtain c' where c': "invalidate_loop (a + 4) m c = Some c'" "blocks c' = blocks c" "\<forall>p. invalid_code c p \<longrightarrow> invalid_code c' p"
        "\<forall>x. a + 4 \<le> x \<and> x < m \<longrightarrow> not_in_use c' x"
        using less.hyps [OF _ \<open>unat (a + 4) mod 4 = 0\<close>, of c] diff_less_mono2 [OF _ lt, of "unat (a + 4)"] n by auto
      have "not_in_use c' x" if "a \<le> x" "x < m" for x
      proof (cases "a + 4 \<le> x")
        case False
        then have "unat x < unat a + 4" "unat a \<le> unat x" using n that(1) by (simp_all add: word_le_nat_alt)
        then have "unat x div 4 = unat a div 4" by (rule same_word [OF less.prems])
        moreover have "not_in_use c' a" using nc c'(2) by (simp add: not_in_use_def)
        ultimately show ?thesis using not_in_use_word by blast
      qed (use c'(4) that(2) in blast)
      then show ?thesis using nc True c' by (auto simp: invalidate_loop_simps(2))
    next
      case c: False
      let ?n = "((a AND NOT 0xfff) OR 0xffc) + 4" and ?c = "c\<lparr>invalid_code := (invalid_code c)(page_of a := True)\<rparr>"
      have n: "unat ?n = unat a div 4096 * 4096 + 4096" by (rule next_page [OF small])
      have m: "unat ?n mod 4 = 0" "unat a < unat ?n" unfolding n using div_mult_mod_eq [of "unat a" 4096] mod_less_divisor [of 4096 "unat a"]
        by (simp add: mod_eq_0_iff_dvd, linarith)
      then obtain c' where c': "invalidate_loop ?n m ?c = Some c'" "blocks c' = blocks c" "\<forall>p. invalid_code ?c p \<longrightarrow> invalid_code c' p"
        "\<forall>x. ?n \<le> x \<and> x < m \<longrightarrow> not_in_use c' x"
        using less.hyps [OF diff_less_mono2 [OF m(2) lt] m(1), of ?c] by auto
      have "not_in_use c' x" if "a \<le> x" "x < m" for x
      proof (cases "?n \<le> x")
        case False
        then have "unat x < unat a div 4096 * 4096 + 4096" "unat a \<le> unat x" using n that(1) by (simp_all add: word_le_nat_alt)
        then have "unat x div 4096 = unat a div 4096"
          using div_le_mono [of "unat a" "unat x" 4096] less_mult_imp_div_less [of "unat x" "unat a div 4096 + 1" 4096] by simp
        then have "page_of x = page_of a" by (simp add: page_eq)
        then show ?thesis using c'(3) by (simp add: not_in_use_def)
      qed (use c'(4) that(2) in blast)
      moreover have "invalidate_loop a m c = Some c'" unfolding invalidate_loop_simps(2) [OF True] if_not_P [OF c] by (rule c'(1))
      ultimately show ?thesis using c'(2,3) by auto
    qed
  qed
qed

text \<open>
  Invalidating a range. After \<open>invalidate_cached_code_hacktarux\<close> on a range of bytes that begins on a word and ends before the last page, no address of the range
  is in use: its page is invalid, or its word has not been decoded. The call returns, keeps the blocks, and makes no page
  valid.
\<close>

theorem invalidation_covers:
  assumes "sz \<noteq> 0" "unat address mod 4 = 0" "unat address + unat sz \<le> 0xFFFFF000"
  shows "\<exists>c'. invalidate_cached_code_hacktarux address sz c = Some c' \<and> blocks c' = blocks c \<and>
    (\<forall>p. invalid_code c p \<longrightarrow> invalid_code c' p) \<and>
    (\<forall>x. unat address \<le> unat x \<and> unat x < unat address + unat sz \<longrightarrow> not_in_use c' x)"
proof -
  have "unat (ucast address :: u64) = unat address" using unat_less_u32 [of address] by (simp add: unsigned_ucast_eq take_bit_nat_eq_self)
  then have "unat (ucast address + sz) = unat address + unat sz" using assms(3) by (simp add: unat_word_ariths)
  then have m: "unat (ucast (ucast address + sz) :: u32) = unat address + unat sz" using assms(3) by (simp add: unsigned_ucast_eq take_bit_nat_eq_self)
  then show ?thesis using invalidate_loop_covers [of "ucast (ucast address + sz)" address c] assms
    by (simp add: invalidate_cached_code_hacktarux_def word_le_nat_alt word_less_nat_alt)
qed

definition two_pages :: cached_interp where
  "two_pages = \<lparr>invalid_code = \<lambda>_. False,
     blocks = \<lambda>p. Some \<lparr>blk = Some (map (\<lambda>i. zero_instr\<lparr>ops := if p = 0x80000 then NOTCOMPILED else No_ops,
                                              addr := push_bit 12 p + of_nat i * 4\<rparr>) [0..<1281]),
                       blk_start = push_bit 12 p, blk_end = push_bit 12 p + 0x1000, xxhash = 0\<rparr>,
     actual = None, pc_index = 0\<rparr>"

theorem invalidation_covers_witness:
  "\<exists>c'. invalidate_cached_code_hacktarux 0x80000FF8 16 two_pages = Some c' \<and> blocks c' = blocks two_pages \<and>
    (\<forall>p. invalid_code two_pages p \<longrightarrow> invalid_code c' p) \<and>
    (\<forall>x. unat (0x80000FF8 :: u32) \<le> unat x \<and> unat x < unat (0x80000FF8 :: u32) + unat (16 :: u64) \<longrightarrow> not_in_use c' x)"
  by (rule invalidation_covers) simp_all

end
