(* ===== verification/Cached_Compile.thy ===== *)
theory Cached_Compile
  imports Cached_Code
begin

text \<open>
  Decoding a page of directly mapped addresses: the loop of \<^verbatim>\<open>cached_interp_recompile_block\<close> stays in the array of the block unless
  jumps follow each other, and stores for each word what the pure interpreter does with it.
\<close>

section \<open>Every word is decoded\<close>

lemma tables_valid: "list_all (\<lambda>d. decode_kind (opcode d) \<noteq> None \<and> valid_u53 (u53 d)) r4300_op_table"
  unfolding r4300_op_table_def table_defs append.simps list.pred_inject
  by (intro conjI; simp add: valid_u53_def)

definition block_end_op :: "r4300_idec \<Rightarrow> bool" where
  "block_end_op d \<longleftrightarrow> opcode d = R4300_OP_J \<or> opcode d = R4300_OP_JR"

lemma tables_block_ends:
  "list_all (\<lambda>d. block_end_op d \<or> \<not> ends_block (opcode d) \<and>
     (jump_kind (opcode d) \<longrightarrow> \<not> ends_block (opcode d + 1) \<and> \<not> ends_block (opcode d + 2))) r4300_op_table"
  unfolding r4300_op_table_def table_defs append.simps list.pred_inject
  by (intro conjI; simp add: block_end_op_def ends_block_def jump_kind_def)

lemma cf_operands_some: "valid_u53 (u53 d) \<Longrightarrow> \<exists>f n. cf_operands d iw = Some (f, n)"
proof -
  assume "valid_u53 (u53 d)"
  then have v: "U53_TYPE (u53 d ! 0) \<noteq> None" "U53_TYPE (u53 d ! 1) \<noteq> None" "U53_TYPE (u53 d ! 2) \<noteq> None" "U53_TYPE (u53 d ! 3) \<noteq> None"
    by (auto simp: valid_u53_def list_all_length)
  then show ?thesis using v [THEN idec_u53_valid, of iw] by (auto simp: cf_operands_def)
qed

text \<open>What \<open>r4300_decode\<close> returns for a decoder of the tables.\<close>

lemma decode_result:
  assumes "decode_kind (opcode d) \<noteq> None" "valid_u53 (u53 d)"
  shows "\<exists>inst' op. r4300_decode inst d iw next_iw b = Some (inst', op) \<and> addr inst' = addr inst \<and>
    (op = opcode d \<or> op = R4300_OP_NOP \<or> op = R4300_OP_RESERVED \<or> jump_kind (opcode d) \<and> (op = opcode d + 1 \<or> op = opcode d + 2))"
proof -
  obtain k where k: "decode_kind (opcode d) = Some k" using assms(1) by blast
  obtain rs rt rd sa nrd n where r: "r_operands d iw = Some (F_r rs rt rd sa nrd, n)" using r_operands_hold [OF assms(2), of iw] by blast
  obtain fi ni where i: "i_operands d iw = Some (fi, ni)" using i_operands_hold [OF assms(2), of iw] by blast
  obtain fl where l: "lf_operands d iw = Some fl" using lf_operands_hold [OF assms(2), of iw] by blast
  obtain fc nc where c: "cf_operands d iw = Some (fc, nc)" using cf_operands_some [OF assms(2), of iw] by blast
  show ?thesis
    using k by (cases k) (auto simp: r4300_decode_def Let_def r i l c with_ops_def with_format_def jump_sub_def infer_jump_sub_type_def jump_kind_def)
qed

lemma decode_word:
  "\<exists>inst' op. r4300_decode inst (r4300_get_idec iw) iw next_iw b = Some (inst', op) \<and> addr inst' = addr inst \<and>
     (ends_block op \<longrightarrow> block_end_op (r4300_get_idec iw))"
proof -
  let ?d = "r4300_get_idec iw"
  have v: "decode_kind (opcode ?d) \<noteq> None" "valid_u53 (u53 ?d)" using tables_valid get_idec_mem [of iw] by (auto simp: list_all_iff)
  obtain inst' op where d: "r4300_decode inst ?d iw next_iw b = Some (inst', op)" "addr inst' = addr inst"
    "op = opcode ?d \<or> op = R4300_OP_NOP \<or> op = R4300_OP_RESERVED \<or> jump_kind (opcode ?d) \<and> (op = opcode ?d + 1 \<or> op = opcode ?d + 2)"
    using decode_result [OF v] by metis
  have "\<not> ends_block R4300_OP_NOP" "\<not> ends_block R4300_OP_RESERVED" by (simp_all add: ends_block_def)
  then have "ends_block op \<longrightarrow> block_end_op ?d"
    using d(3) tables_block_ends get_idec_mem [of iw] unfolding list_all_iff by blast
  then show ?thesis using d by blast
qed

section \<open>Blocks of directly mapped addresses\<close>

text \<open>The entries for the words of the page hold the addresses of the words.\<close>

definition addressed :: "u32 \<Rightarrow> precomp_instr list \<Rightarrow> bool" where
  "addressed a l \<longleftrightarrow> (\<forall>i < 1024. addr (l ! i) = a + of_nat i * 4)"

lemma addressed_update [intro]: "addressed a l \<Longrightarrow> addr x = a + of_nat i * 4 \<Longrightarrow> length l = 1281 \<Longrightarrow> addressed a (l[i := x])"
  unfolding addressed_def by (metis nth_list_update_eq nth_list_update_neq list_update_beyond leI)

definition kseg_block :: "u32 \<Rightarrow> precomp_block \<Rightarrow> bool" where
  "kseg_block p b \<longleftrightarrow> page_of (blk_start b) = p \<and> blk_start b AND 0xfff = 0 \<and> 0x80000000 \<le> blk_start b \<and> blk_start b < 0xc0000000 \<and>
     blk_end b = blk_start b + 0x1000 \<and> (\<exists>l. blk b = Some l \<and> length l = 1281 \<and> addressed (blk_start b) l)"

lemma kseg_class: "0x80000000 \<le> a \<Longrightarrow> a < 0xc0000000 \<Longrightarrow> a AND 0xc0000000 = 0x80000000" for a :: u32
proof -
  assume a: "0x80000000 \<le> a" "a < 0xc0000000"
  have "unat (drop_bit 30 a) = unat a div 2 ^ 30" by (rule unat_shift)
  moreover have "unat a div 2 ^ 30 = 2" using a by (intro div_nat_eqI) (simp_all add: word_le_nat_alt word_less_nat_alt)
  ultimately have d: "drop_bit 30 a = 2" by (simp add: word_unat_eq_iff)
  have "a AND 0xc0000000 = a AND push_bit 30 (mask 2)" by (simp add: masks push_bit_eq_mult)
  also have "\<dots> = push_bit 30 (drop_bit 30 a AND mask 2)" by (rule bit_word_eqI) (auto simp: bit_simps)
  finally show ?thesis unfolding d by (simp add: masks push_bit_eq_mult)
qed

lemma kseg_block_facts:
  assumes "kseg_block p b"
  shows "get_block_length b = 1024" "blk_start b AND 0xc0000000 = 0x80000000" "\<not> 0xc0000000 \<le> blk_start b" "\<not> blk_end b < 0x80000000"
proof -
  have s: "0x80000000 \<le> blk_start b" "blk_start b < 0xc0000000" "blk_end b = blk_start b + 0x1000" using assms by (simp_all add: kseg_block_def)
  then have "unat (blk_end b) = unat (blk_start b) + 0x1000" by (simp add: unat_word_ariths word_less_nat_alt word_le_nat_alt)
  then show "\<not> blk_end b < 0x80000000" using s by (simp add: word_less_nat_alt word_le_nat_alt)
  show "get_block_length b = 1024" "\<not> 0xc0000000 \<le> blk_start b" using s by (simp_all add: get_block_length_def not_le)
  show "blk_start b AND 0xc0000000 = 0x80000000" using kseg_class s(1,2) by blast
qed

lemma kseg_block_update [simp]:
  "kseg_block p b \<Longrightarrow> length l = 1281 \<Longrightarrow> addressed (blk_start b) l \<Longrightarrow> kseg_block p (b\<lparr>blk := Some l\<rparr>)" "kseg_block p (b\<lparr>xxhash := h\<rparr>) = kseg_block p b"
  by (simp_all add: kseg_block_def)

lemma kseg_finished:
  assumes "kseg_block p b"
  shows "next_finished b i op f =
    (if ends_block op then 1
     else if op = R4300_OP_ERET \<or> f = 1 \<or> 1278 \<le> i \<or> 1023 \<le> i \<and> blk_start b = 0xa4000000 then 2 else f)"
  using kseg_block_facts [OF assms] by (auto simp: next_finished_def Let_def)

lemma kseg_step:
  assumes "blocks c p = Some b" "kseg_block p b" "blk b = Some l" "i < 1281"
    and d: "r4300_decode ((l ! i)\<lparr>addr := blk_start b + of_nat i * 4\<rparr>) (r4300_get_idec (iw i)) (iw i) (iw (i + 1))
      (b\<lparr>blk := Some (l[i := (l ! i)\<lparr>addr := blk_start b + of_nat i * 4\<rparr>])\<rparr>) = Some (inst, op)"
  shows "recompile_step p iw i f c s = (next_finished b i op f, c\<lparr>blocks := (blocks c)(p \<mapsto> b\<lparr>blk := Some (l[i := inst])\<rparr>)\<rparr>, s)"
proof -
  have l: "length l = 1281" "addressed (blk_start b) l" using assms(2,3) by (simp_all add: kseg_block_def)
  let ?x = "(l ! i)\<lparr>addr := blk_start b + of_nat i * 4\<rparr>" and ?b = "\<lambda>x. b\<lparr>blk := Some (l[i := x])\<rparr>"
  have "kseg_block p (?b ?x)" using assms(2) l by (simp add: addressed_update)
  from kseg_finished [OF this] kseg_finished [OF assms(2)] have "next_finished (?b ?x) i op f = next_finished b i op f" by simp
  then show ?thesis
    using assms(1,3,4) l kseg_block_facts(2) [OF assms(2)] d
    by (simp add: recompile_step_def Let_def get_instr_def put_instr_def in_block_def check_bounds_def)
qed

lemma decoded_block:
  assumes "r4300_decode inst d iw next_iw b' = Some (inst', op)" "d = r4300_get_idec iw" "addr inst = blk_start b + of_nat i * 4"
    and "kseg_block p b" "length l = 1281" "addressed (blk_start b) l"
  shows "addr inst' = blk_start b + of_nat i * 4" "kseg_block p (b\<lparr>blk := Some (l[i := inst'])\<rparr>)"
proof -
  show a: "addr inst' = blk_start b + of_nat i * 4" using decode_word [of inst iw next_iw b'] assms(1-3) by auto
  show "kseg_block p (b\<lparr>blk := Some (l[i := inst'])\<rparr>)" using assms(4-6) addressed_update [OF assms(6) a assms(5)] by simp
qed

text \<open>An entry of the array is what the decoder makes of a word of the page.\<close>

definition stores_word :: "(nat \<Rightarrow> u32) \<Rightarrow> precomp_block \<Rightarrow> nat \<Rightarrow> precomp_instr \<Rightarrow> bool" where
  "stores_word iw b j x \<longleftrightarrow>
     (\<exists>inst op b'. r4300_decode inst (r4300_get_idec (iw j)) (iw j) (iw (j + 1)) b' = Some (x, op) \<and>
        addr inst = blk_start b + of_nat j * 4 \<and> blk_start b' = blk_start b \<and> blk_end b' = blk_end b)"

text \<open>No word from a position on that ends a block is followed by another one.\<close>

definition jumps_apart :: "(nat \<Rightarrow> u32) \<Rightarrow> nat \<Rightarrow> bool" where
  "jumps_apart iw i \<longleftrightarrow>
     list_all (\<lambda>j. block_end_op (r4300_get_idec (iw j)) \<longrightarrow> \<not> block_end_op (r4300_get_idec (iw (j + 1)))) [i..<1279]"

lemma recompile_loop_kseg:
  assumes "jumps_apart iw i0" "i0 \<le> i" "blocks c p = Some b" "kseg_block p b" "blk b = Some l"
    and "f = 0 \<and> i \<le> 1278 \<or> f = 1 \<and> i \<le> 1279 \<and> \<not> block_end_op (r4300_get_idec (iw i))"
  shows "\<exists>n l'. recompile_loop p iw i f c s = Some (n, c\<lparr>blocks := (blocks c)(p \<mapsto> b\<lparr>blk := Some l'\<rparr>)\<rparr>, s) \<and> i < n \<and> n \<le> 1280 \<and>
    length l' = 1281 \<and> (\<forall>j. i \<le> j \<and> j < n \<longrightarrow> stores_word iw b j (l' ! j)) \<and> (\<forall>j. j < i \<or> n \<le> j \<longrightarrow> l' ! j = l ! j)"
  using assms(2-)
proof (induction "1280 - i" arbitrary: i f c b l rule: less_induct)
  case less
  let ?a = "blk_start b + of_nat i * 4" and ?w = "r4300_get_idec (iw i)"
  have l: "length l = 1281" "i < 1281" "addressed (blk_start b) l" using less.prems by (auto simp: kseg_block_def)
  obtain inst op where d: "r4300_decode ((l ! i)\<lparr>addr := ?a\<rparr>) ?w (iw i) (iw (i + 1)) (b\<lparr>blk := Some (l[i := (l ! i)\<lparr>addr := ?a\<rparr>])\<rparr>) = Some (inst, op)"
    and op: "ends_block op \<longrightarrow> block_end_op ?w"
    using decode_word by blast
  have st: "stores_word iw b i inst" unfolding stores_word_def
    by (intro exI conjI, rule d) simp_all
  let ?b = "b\<lparr>blk := Some (l[i := inst])\<rparr>" and ?f = "next_finished b i op f"
  let ?c = "c\<lparr>blocks := (blocks c)(p \<mapsto> ?b)\<rparr>"
  have kb: "kseg_block p ?b" using decoded_block(2) [OF d refl _ less.prems(3) l(1,3)] by simp
  have step: "recompile_loop p iw i f c s = recompile_loop p iw (i + 1) ?f ?c s"
    using less.prems(5) by (subst recompile_loop.simps) (auto simp: kseg_step [where iw = iw, OF less.prems(2-4) l(2) d])
  show ?case
  proof (cases "?f = 2")
    case True
    then have "recompile_loop p iw i f c s = Some (i + 1, ?c, s)" unfolding step by (subst recompile_loop.simps) simp
    then show ?thesis using st l less.prems(5)
      by (intro exI [of _ "i + 1"] exI [of _ "l[i := inst]"]) (auto simp: less_Suc_eq_le nth_list_update dest: le_antisym)
  next
    case False
    note fin = kseg_finished [OF less.prems(3), of i op f]
    have lt: "i \<le> 1278" "?f = 0 \<and> i + 1 \<le> 1278 \<or> ?f = 1 \<and> block_end_op ?w" using False less.prems(5) op unfolding fin by (auto split: if_splits)
    have "?f = 0 \<and> i + 1 \<le> 1278 \<or> ?f = 1 \<and> i + 1 \<le> 1279 \<and> \<not> block_end_op (r4300_get_idec (iw (i + 1)))"
      using lt assms(1) less.prems(1) by (auto simp: jumps_apart_def list_all_iff)
    then obtain n l' where n: "recompile_loop p iw (i + 1) ?f ?c s = Some (n, ?c\<lparr>blocks := (blocks ?c)(p \<mapsto> ?b\<lparr>blk := Some l'\<rparr>)\<rparr>, s)"
      "i + 1 < n" "n \<le> 1280" "length l' = 1281" "\<forall>j. i + 1 \<le> j \<and> j < n \<longrightarrow> stores_word iw ?b j (l' ! j)"
      "\<forall>j. j < i + 1 \<or> n \<le> j \<longrightarrow> l' ! j = l[i := inst] ! j"
      using less.hyps [of "i + 1" ?c ?b "l[i := inst]" ?f] lt(1) less.prems(1) kb l by fastforce
    have "stores_word iw b j (l' ! j)" if "i \<le> j" "j < n" for j
      using n(5,6) st that l by (cases "j = i") (auto simp: stores_word_def)
    moreover have "l' ! j = l ! j" if "j < i \<or> n \<le> j" for j using n(2,6) that by auto
    ultimately show ?thesis using n(1-4) unfolding step by (intro exI [of _ n] exI [of _ l']) simp
  qed
qed

section \<open>Decoding a block\<close>

definition block_result :: "(nat \<Rightarrow> u32) \<Rightarrow> precomp_block \<Rightarrow> nat \<Rightarrow> precomp_instr list \<Rightarrow> nat \<Rightarrow> precomp_instr list \<Rightarrow> bool" where
  "block_result iw b i l n l' \<longleftrightarrow> i < n \<and> n \<le> 1280 \<and> length l' = 1281 \<and> (\<forall>j. i \<le> j \<and> j < n \<longrightarrow> stores_word iw b j (l' ! j)) \<and>
     (\<forall>j. j < i \<or> n + 2 \<le> j \<or> n \<le> j \<and> n < 1024 \<longrightarrow> l' ! j = l ! j) \<and>
     (1024 \<le> n \<longrightarrow> ops (l' ! n) = FIN_BLOCK \<and> addr (l' ! n) = blk_start b + of_nat n * 4)"

lemma recompile_block_kseg:
  assumes "jumps_apart iw i" "blocks c p = Some b" "kseg_block p b" "blk b = Some l" "i = unat (func AND 0xfff) div 4"
  shows "\<exists>n l'. cached_interp_recompile_block iw p func c s = Some (c\<lparr>blocks := (blocks c)(p \<mapsto> b\<lparr>xxhash := 0, blk := Some l'\<rparr>)\<rparr>, s) \<and>
    block_result iw b i l n l'"
proof -
  let ?b = "b\<lparr>xxhash := 0\<rparr>"
  let ?c = "c\<lparr>blocks := (blocks c)(p \<mapsto> ?b)\<rparr>"
  have "i < 1024" unfolding assms(5) unat_offset using mod_less_divisor [of 4096 "unat func"] by (simp add: less_mult_imp_div_less)
  then obtain n l' where n: "recompile_loop p iw i 0 ?c s = Some (n, ?c\<lparr>blocks := (blocks ?c)(p \<mapsto> ?b\<lparr>blk := Some l'\<rparr>)\<rparr>, s)"
    "i < n" "n \<le> 1280" "length l' = 1281" "\<forall>j. i \<le> j \<and> j < n \<longrightarrow> stores_word iw ?b j (l' ! j)" "\<forall>j. j < i \<or> n \<le> j \<longrightarrow> l' ! j = l ! j"
    using recompile_loop_kseg [OF assms(1) order_refl, of ?c p ?b l 0 s] assms(3,4) by auto
  have st: "\<forall>j. i \<le> j \<and> j < n \<longrightarrow> stores_word iw b j (l' ! j)" using n(5) by (simp add: stores_word_def)
  let ?fin = "\<lambda>k l. l[k := (l ! k)\<lparr>ops := FIN_BLOCK, addr := blk_start b + of_nat k * 4\<rparr>]"
  let ?l = "if n < 1024 then l' else if n < 1278 then ?fin (n + 1) (?fin n l') else ?fin n l'"
  have "block_result iw b i l n ?l" using n(2-4,6) st by (auto simp: block_result_def nth_list_update)
  moreover have "cached_interp_recompile_block iw p func c s = Some (c\<lparr>blocks := (blocks c)(p \<mapsto> b\<lparr>xxhash := 0, blk := Some ?l\<rparr>)\<rparr>, s)"
    using n(1,3,4) assms(2,5) kseg_block_facts(1) [OF assms(3)]
    by (simp add: cached_interp_recompile_block_def Let_def put_fin_block_def get_instr_def put_instr_def in_block_def check_bounds_def
        get_block_length_def)
  ultimately show ?thesis by blast
qed

section \<open>Running what was decoded\<close>

text \<open>
  A decoded instruction runs as its word: an instruction that is no jump does what the pure interpreter does with the word, a jump has
  the condition, the target and the kind of the jump of the pure interpreter.
\<close>

definition runs_as :: "'a dev machine \<Rightarrow> u32 \<Rightarrow> precomp_instr \<Rightarrow> bool" where
  "runs_as env iw x \<longleftrightarrow>
     (case decode_jump iw :: (idle_check \<times> (u32 \<Rightarrow> 'a dev \<Rightarrow> jump)) option of
        None \<Rightarrow> \<forall>s t. fast_mem_access env (pc_addr s) s = (Some iw, t) \<longrightarrow> InterpretOpcode env s = run_decoded env x t
      | Some (k, mk) \<Rightarrow>
          \<exists>v rds mk'. jump_handler (ops x) = Some (v, rds, mk') \<and> list_all (readable (f_args x)) rds \<and>
            (\<forall>s. mk' (operand_word (f_args x)) s = mk iw s))"

lemma stored_runs:
  assumes "stores_word iw b j x" "\<not> decoders_differ (iw j)"
  shows "runs_as (env :: 'a dev machine) (iw j) x"
proof -
  obtain inst op b' where d: "r4300_decode inst (r4300_get_idec (iw j)) (iw j) (iw (j + 1)) b' = Some (x, op)"
    using assms(1) by (auto simp: stores_word_def)
  show ?thesis
  proof (cases "decode_jump (iw j) :: (idle_check \<times> (u32 \<Rightarrow> 'a dev \<Rightarrow> jump)) option")
    case None
    have e: "\<not> jump_kind (opcode (r4300_get_idec (iw j)))" "exec_of env (r4300_get_idec (iw j)) (iw j) = exec_instruction env (iw j)"
      using exec_of_idec [OF None assms(2), of env] by simp_all
    obtain x' op' where "r4300_decode inst (r4300_get_idec (iw j)) (iw j) (iw (j + 1)) b' = Some (x', op')"
      "\<forall>s. run_decoded env x' s = exec_instruction env (iw j) s"
      using decodes_idec [OF e(1) assms(2), of env] unfolding decodes_to_def e(2) by blast
    then have "\<forall>s. run_decoded env x s = exec_instruction env (iw j) s" using d by simp
    then show ?thesis using None by (simp add: runs_as_def InterpretOpcode.simps)
  next
    case (Some a)
    obtain k mk where a: "a = (k, mk)" by (cases a)
    have "decodes_jump k (r4300_get_idec (iw j)) (iw j) mk" using Some assms(2) unfolding a by (intro jump_ok_decodes jump_idec)
    then obtain x' op' rds mk' where x: "r4300_decode inst (r4300_get_idec (iw j)) (iw j) (iw (j + 1)) b' = Some (x', op')"
      "jump_handler (ops x') = Some (sub_type k (r4300_get_idec (iw j)) (iw j) (addr inst) (iw (j + 1)) b', rds, mk')"
      "list_all (readable (f_args x')) rds" "\<forall>s. mk' (operand_word (f_args x')) s = mk (iw j) s"
      unfolding decodes_jump_def by blast
    have "x' = x" using x(1) d by simp
    then show ?thesis using x(2-4) by (simp add: runs_as_def Some a)
  qed
qed

lemma stored_address: "stores_word iw b j x \<Longrightarrow> addr x = blk_start b + of_nat j * 4"
  using decode_word unfolding stores_word_def by (metis option.inject prod.inject)

text \<open>
  C7. Decoding a block of directly mapped addresses ends, without a write outside the array of the block, if no two words that end a block follow
  each other. From the given address up to where it stops, each entry has its address and runs as the word of the
  page, except for the words on which the interpreters differ; behind the page the block is closed.
\<close>

theorem compiled_block_runs:
  fixes env :: "'a dev machine" and s :: "'a dev"
  assumes "blocks c p = Some b" "kseg_block p b" "jumps_apart iw (unat (func AND 0xfff) div 4)"
  shows "\<exists>n b'. cached_interp_recompile_block iw p func c s = Some (c\<lparr>blocks := (blocks c)(p \<mapsto> b')\<rparr>, s) \<and> kseg_block p b' \<and>
    unat (func AND 0xfff) div 4 < n \<and> n \<le> 1280 \<and>
    (\<forall>j. unat (func AND 0xfff) div 4 \<le> j \<and> j < n \<longrightarrow>
       addr (get_instr b' j) = blk_start b + of_nat j * 4 \<and> (\<not> decoders_differ (iw j) \<longrightarrow> runs_as env (iw j) (get_instr b' j))) \<and>
    (1024 \<le> n \<longrightarrow> ops (get_instr b' n) = FIN_BLOCK)"
proof -
  obtain l where l: "blk b = Some l" using assms(2) by (auto simp: kseg_block_def)
  obtain n l' where r: "cached_interp_recompile_block iw p func c s = Some (c\<lparr>blocks := (blocks c)(p \<mapsto> b\<lparr>xxhash := 0, blk := Some l'\<rparr>)\<rparr>, s)"
    and n: "block_result iw b (unat (func AND 0xfff) div 4) l n l'" using recompile_block_kseg [OF assms(3,1,2) l refl] by blast
  have a: "addressed (blk_start b) l'"
    unfolding addressed_def
  proof (intro allI impI)
    fix j :: nat
    assume j: "j < 1024"
    show "addr (l' ! j) = blk_start b + of_nat j * 4"
    proof (cases "unat (func AND 0xfff) div 4 \<le> j \<and> j < n")
      case True
      then show ?thesis using n stored_address unfolding block_result_def by blast
    next
      case False
      then have "l' ! j = l ! j" using n j unfolding block_result_def by auto
      then show ?thesis using assms(2) l j by (simp add: kseg_block_def addressed_def)
    qed
  qed
  have "\<forall>j. unat (func AND 0xfff) div 4 \<le> j \<and> j < n \<longrightarrow> addr (l' ! j) = blk_start b + of_nat j * 4 \<and>
      (\<not> decoders_differ (iw j) \<longrightarrow> runs_as env (iw j) (l' ! j))"
    using n stored_runs stored_address unfolding block_result_def by blast
  then show ?thesis using r n assms(2) a
    by (intro exI [of _ n] exI [of _ "b\<lparr>xxhash := 0, blk := Some l'\<rparr>"]) (auto simp: block_result_def get_instr_def)
qed

lemma add_apart: "jumps_apart (\<lambda>_. 0x00851020) i"
  by (simp add: jumps_apart_def list_all_iff block_end_op_def get_idec add_word special_ops_def)

theorem compiled_block_runs_witness:
  "\<forall>(env :: is_viewer machine) (s :: is_viewer). \<exists>b'.
     cached_interp_recompile_block (\<lambda>_. 0x00851020) 0x80000 0x80000004 two_pages s = Some (two_pages\<lparr>blocks := (blocks two_pages)(0x80000 \<mapsto> b')\<rparr>, s) \<and>
     runs_as env 0x00851020 (get_instr b' 1)"
proof (intro allI)
  fix env :: "is_viewer machine" and s :: is_viewer
  let ?b = "the (blocks two_pages 0x80000)"
  have b: "blocks two_pages 0x80000 = Some ?b" "kseg_block 0x80000 ?b"
    by (simp_all add: two_pages_def kseg_block_def addressed_def page_of_def push_bit_eq_mult drop_bit_eq_div del: upt_rec_numeral)
  have i: "unat (0x80000004 AND 0xfff :: u32) div 4 = 1" by simp
  have "\<not> decoders_differ 0x00851020" by (simp add: decoders_differ_def add_word)
  then show "\<exists>b'.
     cached_interp_recompile_block (\<lambda>_. 0x00851020) 0x80000 0x80000004 two_pages s = Some (two_pages\<lparr>blocks := (blocks two_pages)(0x80000 \<mapsto> b')\<rparr>, s) \<and>
     runs_as env 0x00851020 (get_instr b' 1)"
    using compiled_block_runs [OF b add_apart, where func = "0x80000004" and s = s and env = env] unfolding i by (metis order_refl)
qed

section \<open>Jumping to a page\<close>

lemma class_kseg: "a AND 0xc0000000 = 0x80000000 \<Longrightarrow> 0x80000000 \<le> a \<and> a < 0xc0000000" for a :: u32
proof -
  assume a: "a AND 0xc0000000 = 0x80000000"
  have "drop_bit 30 a = drop_bit 30 (a AND push_bit 30 (mask 2))"
    by (rule bit_word_eqI) (auto simp: bit_simps dest: bit_imp_le_length)
  then have "drop_bit 30 a = 2" using a by (simp add: masks push_bit_eq_mult drop_bit_eq_div)
  then have "unat a div 2 ^ 30 = 2" using unat_shift [of 30 a] by simp
  then have "2 * 2 ^ 30 \<le> unat a" "unat a < 3 * 2 ^ 30" using div_mult_mod_eq [of "unat a" "2 ^ 30"] mod_less_divisor [of "2 ^ 30" "unat a"] by simp_all
  then show ?thesis by (simp add: word_le_nat_alt word_less_nat_alt)
qed

lemma kseg_iff: "a AND 0xc0000000 = 0x80000000 \<longleftrightarrow> 0x80000000 \<le> a \<and> a < 0xc0000000" for a :: u32
  using kseg_class class_kseg by blast

text \<open>The other page of a pair that names the same memory.\<close>

definition other_page :: "u32 \<Rightarrow> u32" where "other_page p = p XOR 0x20000"

lemma other_page_other [simp]: "other_page (other_page p) = p" "other_page p \<noteq> p" "p \<noteq> other_page p"
proof -
  show "other_page (other_page p) = p" by (simp add: other_page_def xor.assoc)
  have "bit (p XOR 0x20000) 17 \<noteq> bit p 17" by (simp add: bit_simps)
  then show "other_page p \<noteq> p" "p \<noteq> other_page p" by (auto simp: other_page_def)
qed

lemma alias_page: "page_of (a XOR 0x20000000) = other_page (page_of a)"
proof -
  have "drop_bit 12 (a XOR 0x20000000) = drop_bit 12 a XOR drop_bit 12 0x20000000" by (rule drop_bit_xor)
  then show ?thesis by (simp add: page_of_def other_page_def drop_bit_eq_div)
qed

lemma alias_kseg: "0x80000000 \<le> a \<Longrightarrow> a < 0xc0000000 \<Longrightarrow> 0x80000000 \<le> a XOR 0x20000000 \<and> a XOR 0x20000000 < 0xc0000000" for a :: u32
  using kseg_iff [of a] kseg_iff [of "a XOR 0x20000000"] by (simp only: bit.conj_xor_distrib2) simp

lemma page_start:
  assumes "0x80000000 \<le> a" "a < 0xc0000000"
  shows "page_of (a AND NOT 0xfff) = page_of a" "(a AND NOT 0xfff) AND 0xfff = 0" "0x80000000 \<le> a AND NOT 0xfff" "a AND NOT 0xfff < 0xc0000000"
proof -
  have u: "unat (a AND NOT 0xfff) = unat a div 4096 * 4096" by (rule unat_page_start)
  show "page_of (a AND NOT 0xfff) = page_of a" by (simp only: page_eq u)
  show "(a AND NOT 0xfff) AND 0xfff = 0" by (simp add: and.assoc)
  show "0x80000000 \<le> a AND NOT 0xfff" "a AND NOT 0xfff < 0xc0000000"
    using assms div_le_mono [of "0x80000000" "unat a" 4096] div_mult_mod_eq [of "unat a" 4096] unfolding word_le_nat_alt word_less_nat_alt u by simp_all
qed

text \<open>The state of the cache on the pages of directly mapped addresses: blocks are the blocks of their pages, and a valid page has one.\<close>

definition kseg_ok :: "cached_interp \<Rightarrow> bool" where
  "kseg_ok c \<longleftrightarrow> (\<forall>a. 0x80000000 \<le> a \<and> a < 0xc0000000 \<longrightarrow>
     (case blocks c (page_of a) of None \<Rightarrow> invalid_code c (page_of a) | Some b \<Rightarrow> kseg_block (page_of a) b))"

definition fresh_block :: "u32 \<Rightarrow> precomp_block \<Rightarrow> bool" where
  "fresh_block p b \<longleftrightarrow> kseg_block p b \<and> (\<forall>i < 1024. ops (get_instr b i) = NOTCOMPILED \<and> addr (get_instr b i) = blk_start b + 4 * of_nat i)"

text \<open>One call of \<^verbatim>\<open>cached_interp_init_block\<close> up to the call for the other page.\<close>

definition init_page :: "u64 \<Rightarrow> u32 \<Rightarrow> cached_interp \<Rightarrow> cached_interp" where
  "init_page junk a c =
     (let p = page_of a; b = (case blocks c p of None \<Rightarrow> new_block junk a | Some b \<Rightarrow> b);
          insts = (case blk b of None \<Rightarrow> replicate (get_block_memsize b) zero_instr | Some l \<Rightarrow> l)
      in c\<lparr>blocks := (blocks c)(p \<mapsto> b\<lparr>blk := Some (reset_instrs b insts)\<rparr>), invalid_code := (invalid_code c)(p := False)\<rparr>)"

lemma init_block_kseg:
  assumes "kseg_ok c" "0x80000000 \<le> a" "a < 0xc0000000"
  shows "cached_interp_init_block junk True a c s =
      (if invalid_code c (other_page (page_of a))
       then cached_interp_init_block junk True (blk_start (the (blocks (init_page junk a c) (page_of a))) XOR 0x20000000) (init_page junk a c) s
       else Some (init_page junk a c, s)) \<and>
    (\<exists>b. init_page junk a c = c\<lparr>blocks := (blocks c)(page_of a \<mapsto> b), invalid_code := (invalid_code c)(page_of a := False)\<rparr> \<and>
       fresh_block (page_of a) b)"
proof -
  define b where "b = (case blocks c (page_of a) of None \<Rightarrow> new_block junk a | Some b \<Rightarrow> b)"
  define l where "l = (case blk b of None \<Rightarrow> replicate (get_block_memsize b) zero_instr | Some l \<Rightarrow> l)"
  let ?b = "b\<lparr>blk := Some (reset_instrs b l)\<rparr>"
  have s: "page_of (blk_start b) = page_of a" "blk_start b AND 0xfff = 0" "0x80000000 \<le> blk_start b" "blk_start b < 0xc0000000"
    "blk_end b = blk_start b + 0x1000"
    using assms page_start [OF assms(2,3)]
    by (auto simp: b_def new_block_def kseg_ok_def kseg_block_def split: option.splits)
  have len: "get_block_length b = 1024" using s(5) by (simp add: get_block_length_def)
  have l: "length l = 1281"
    using assms len unfolding l_def b_def kseg_ok_def
    by (auto simp: new_block_def get_block_memsize_def kseg_block_def split: option.splits)
  then have k: "kseg_block (page_of a) ?b" using s len by (simp add: kseg_block_def reset_instrs_def addressed_def mult.commute)
  have f: "fresh_block (page_of a) ?b"
    using k l len by (auto simp: fresh_block_def get_instr_def reset_instrs_def)
  have init: "init_page junk a c = c\<lparr>blocks := (blocks c)(page_of a \<mapsto> ?b), invalid_code := (invalid_code c)(page_of a := False)\<rparr>"
    unfolding init_page_def Let_def b_def [symmetric] l_def [symmetric] by (rule refl)
  have "page_of (blk_start b XOR 0x20000000) = other_page (page_of a)" by (simp add: alias_page s(1))
  moreover have "\<not> (blk_end b < 0x80000000 \<or> 0xc0000000 \<le> blk_start b)" using kseg_block_facts(3,4) [OF k] by simp
  ultimately have "cached_interp_init_block junk True a c s =
      (if invalid_code c (other_page (page_of a)) then cached_interp_init_block junk True (blk_start b XOR 0x20000000) (init_page junk a c) s
       else Some (init_page junk a c, s))"
    unfolding init by (subst cached_interp_init_block.simps, unfold Let_def b_def [symmetric] l_def [symmetric]) (simp add: s(1))
  then show ?thesis using f init by auto
qed

lemma kseg_ok_init:
  assumes "kseg_ok c" "kseg_block p b"
  shows "kseg_ok (c\<lparr>blocks := (blocks c)(p \<mapsto> b), invalid_code := (invalid_code c)(p := False)\<rparr>)"
  using assms by (auto simp: kseg_ok_def split: option.splits)

lemma kseg_ok_invalid: "kseg_ok c \<Longrightarrow> (\<And>p. invalid_code c p \<Longrightarrow> f p) \<Longrightarrow> kseg_ok (c\<lparr>invalid_code := f\<rparr>)"
  by (auto simp: kseg_ok_def split: option.splits)

lemma kseg_ok_pc [simp]: "kseg_ok (c\<lparr>actual := x, pc_index := y\<rparr>) = kseg_ok c"
  by (simp add: kseg_ok_def cong: option.case_cong)

lemma update_alias_flags:
  "update_alias a flags = (let p = page_of a in
     if flags p \<or> flags (other_page p) then flags(p := True, other_page p := True) else flags)"
  by (auto simp: update_alias_def Let_def sync_pages_def alias_page fun_eq_iff)

text \<open>Both pages of a pair are made anew when the first is entered while both are invalid.\<close>

lemma init_both:
  assumes "kseg_ok c" "0x80000000 \<le> a" "a < 0xc0000000" "invalid_code c (page_of a)" "invalid_code c (other_page (page_of a))"
  shows "\<exists>c' b. cached_interp_init_block junk True a c s = Some (c', s) \<and> kseg_ok c' \<and> \<not> invalid_code c' (page_of a) \<and>
    \<not> invalid_code c' (other_page (page_of a)) \<and> blocks c' (page_of a) = Some b \<and> fresh_block (page_of a) b \<and>
    (\<forall>p. p \<notin> {page_of a, other_page (page_of a)} \<longrightarrow> blocks c' p = blocks c p \<and> invalid_code c' p = invalid_code c p)"
proof -
  let ?p = "page_of a"
  obtain b where i1: "init_page junk a c = c\<lparr>blocks := (blocks c)(?p \<mapsto> b), invalid_code := (invalid_code c)(?p := False)\<rparr>"
    and b: "fresh_block ?p b"
    and r: "cached_interp_init_block junk True a c s = cached_interp_init_block junk True (blk_start b XOR 0x20000000) (init_page junk a c) s"
    using init_block_kseg [OF assms(1-3), of junk s] assms(5) by auto
  have kb: "kseg_block ?p b" using b by (simp add: fresh_block_def)
  let ?a = "blk_start b XOR 0x20000000"
  have s: "page_of (blk_start b) = ?p" "0x80000000 \<le> blk_start b" "blk_start b < 0xc0000000" using kb by (simp_all add: kseg_block_def)
  have p': "page_of ?a = other_page ?p" by (simp add: alias_page s(1))
  let ?c = "init_page junk a c"
  have ok: "kseg_ok ?c" unfolding i1 by (rule kseg_ok_init [OF assms(1) kb])
  have inv: "\<not> invalid_code ?c (other_page (page_of ?a))" by (simp add: p' i1)
  obtain b' where i2: "init_page junk ?a ?c = ?c\<lparr>blocks := (blocks ?c)(other_page ?p \<mapsto> b'), invalid_code := (invalid_code ?c)(other_page ?p := False)\<rparr>"
    and b': "fresh_block (other_page ?p) b'" and r': "cached_interp_init_block junk True ?a ?c s = Some (init_page junk ?a ?c, s)"
    using init_block_kseg [OF ok alias_kseg [OF s(2,3), THEN conjunct1] alias_kseg [OF s(2,3), THEN conjunct2], of junk s] inv
    unfolding p' by auto
  have "kseg_ok (init_page junk ?a ?c)" unfolding i2 using b' by (intro kseg_ok_init [OF ok]) (simp add: fresh_block_def)
  then show ?thesis using r r' b by (intro exI [of _ "init_page junk ?a ?c"] exI [of _ b]) (simp add: i2, simp add: i1)
qed

lemma unat_aligned: "unat (a AND NOT 3) = unat a div 4 * 4" for a :: u32
proof -
  have m: "(3 :: u32) = mask 2" by (simp add: mask_eq_exp_minus_1)
  have "a AND NOT (mask 2) = push_bit 2 (drop_bit 2 a)" 
  proof (rule bit_word_eqI)
    fix n :: nat
    have "2 + (n - 2) = n" if "2 \<le> n" using that by simp
    then show "bit (a AND NOT (mask 2)) n = bit (push_bit 2 (drop_bit 2 a)) n" if "n < LENGTH(32)"
      using that by (cases "2 \<le> n") (auto simp: bit_simps)
  qed
  moreover have "unat (push_bit 2 (drop_bit 2 a)) = take_bit 32 (push_bit 2 (unat (drop_bit 2 a)))"
    by (rule trans [OF unsigned_push_bit_eq]) simp_all
  then have "unat (push_bit 2 (drop_bit 2 a)) = take_bit 32 (unat a div 4 * 4)"
    by (simp only: unat_shift push_bit_eq_mult [of 2 "unat a div 2 ^ 2"]) simp
  moreover have "unat a div 4 * 4 < 2 ^ 32" using unat_less_u32 [of a] by (simp add: less_mult_imp_div_less)
  ultimately show ?thesis unfolding m by (simp only: take_bit_nat_eq_self)
qed

lemma kseg_offset:
  assumes "kseg_block (page_of a) b"
  shows "unat (a - blk_start b) div 4 = unat a mod 4096 div 4" "addr (get_instr b (unat a mod 4096 div 4)) = a AND NOT 3"
proof -
  have st: "unat (blk_start b) = unat a div 4096 * 4096"
    using assms unat_offset [of "blk_start b"] page_eq [of "blk_start b" a] div_mult_mod_eq [of "unat (blk_start b)" 4096]
    by (simp add: kseg_block_def)
  then have "blk_start b \<le> a" using div_mult_mod_eq [of "unat a" 4096] by (simp add: word_le_nat_alt)
  then have "unat (a - blk_start b) = unat a mod 4096" using st minus_div_mult_eq_mod [of "unat a" 4096] by (simp add: unat_sub)
  then show "unat (a - blk_start b) div 4 = unat a mod 4096 div 4" by simp
  define q r where "q = unat a div 4096" and "r = unat a mod 4096"
  have qr: "unat a = q * 4096 + r" "r < 4096" by (simp_all add: q_def r_def)
  have "r div 4 * 4 \<le> r" by simp
  then have "q * 4096 + r div 4 * 4 < 2 ^ 32" using unat_less_u32 [of a] qr by linarith
  moreover have "r div 4 * 4 < 2 ^ 32" using qr(2) \<open>r div 4 * 4 \<le> r\<close> by simp
  ultimately have u: "unat (blk_start b + of_nat (r div 4) * 4) = q * 4096 + r div 4 * 4"
    using st by (simp add: unat_word_ariths unat_of_nat q_def [symmetric])
  have "unat a div 4 = q * 1024 + r div 4" using div_mult_self1 [of 4 r "q * 1024"] by (simp add: qr(1) add.commute)
  then have "unat (a AND NOT 3) = q * 4096 + r div 4 * 4" unfolding unat_aligned by (simp add: distrib_right)
  then have e: "blk_start b + of_nat (r div 4) * 4 = a AND NOT 3" using u by (simp add: word_unat_eq_iff)
  have "r div 4 < 1024" using qr(2) by (simp add: less_mult_imp_div_less)
  then show "addr (get_instr b (unat a mod 4096 div 4)) = a AND NOT 3"
    using assms e unfolding r_def [symmetric] by (auto simp: kseg_block_def addressed_def get_instr_def)
qed

text \<open>
  A jump to a directly mapped address returns, with the program counter on the decoded instruction of the address and the page
  and its alias alike. If one of the two pages was invalid, the block of the page is fresh: no word decoded before is left.
  Otherwise no block is changed.
\<close>

theorem jump_to_kseg:
  fixes s :: "'a dev"
  assumes "kseg_ok c" "0x80000000 \<le> a" "a < 0xc0000000" "skip_jump s = 0"
  shows "\<exists>c' b. cached_interpreter_jump_to junk True a c s = Some (c', s\<lparr>pc_addr := a AND NOT 3\<rparr>) \<and> kseg_ok c' \<and>
    actual c' = Some (page_of a) \<and> blocks c' (page_of a) = Some b \<and> kseg_block (page_of a) b \<and> pc_index c' = unat a mod 4096 div 4 \<and>
    \<not> invalid_code c' (page_of a) \<and> \<not> invalid_code c' (other_page (page_of a)) \<and>
    (if invalid_code c (page_of a) \<or> invalid_code c (other_page (page_of a)) then fresh_block (page_of a) b else blocks c' = blocks c)"
proof -
  let ?p = "page_of a"
  have u: "update_invalid_addr a c s = Some (a, c\<lparr>invalid_code := update_alias a (invalid_code c)\<rparr>, s)"
    using kseg_class [OF assms(2,3)] by (subst update_invalid_addr.simps) simp
  have nz: "a \<noteq> 0" using assms(2) by auto
  note idx = kseg_offset
  show ?thesis
  proof (cases "invalid_code c ?p \<or> invalid_code c (other_page ?p)")
    case True
    let ?c = "c\<lparr>invalid_code := (invalid_code c)(?p := True, other_page ?p := True)\<rparr>"
    have ok: "kseg_ok ?c" by (rule kseg_ok_invalid [OF assms(1)]) simp
    obtain c' b where i: "cached_interp_init_block junk True a ?c s = Some (c', s)" "kseg_ok c'" "\<not> invalid_code c' ?p"
      "\<not> invalid_code c' (other_page ?p)" "blocks c' ?p = Some b" "fresh_block ?p b"
      using init_both [OF ok assms(2,3), of junk s] by auto
    have k: "kseg_block ?p b" "blk b \<noteq> None" using i(6) by (auto simp: fresh_block_def kseg_block_def)
    let ?c' = "c'\<lparr>actual := Some ?p, pc_index := unat a mod 4096 div 4\<rparr>"
    have ok': "kseg_ok ?c'" using i(2) by simp
    have "cached_interpreter_jump_to junk True a c s = Some (?c', s\<lparr>pc_addr := a AND NOT 3\<rparr>)"
      using True u nz i(1,5) k(2) idx [OF k(1)] assms(4)
      by (simp add: cached_interpreter_jump_to_def update_alias_flags Let_def check_bounds_def)
    then show ?thesis using True i ok' k(1) by (intro exI [of _ ?c'] exI [of _ b]) simp
  next
    case False
    obtain b where b: "blocks c ?p = Some b" "kseg_block ?p b"
      using assms(1-3) False unfolding kseg_ok_def by (cases "blocks c ?p") fastforce+
    have k: "blk b \<noteq> None" using b(2) by (auto simp: kseg_block_def)
    let ?c' = "c\<lparr>actual := Some ?p, pc_index := unat a mod 4096 div 4\<rparr>"
    have ok': "kseg_ok ?c'" using assms(1) by simp
    have "cached_interpreter_jump_to junk True a c s = Some (?c', s\<lparr>pc_addr := a AND NOT 3\<rparr>)"
      using False u nz b(1) k idx [OF b(2)] assms(4)
      by (simp add: cached_interpreter_jump_to_def update_alias_flags Let_def check_bounds_def)
    then show ?thesis using False b ok' by (intro exI [of _ ?c'] exI [of _ b]) simp
  qed
qed

lemma kseg_ok_mono:
  "kseg_ok c \<Longrightarrow> blocks c' = blocks c \<Longrightarrow> (\<forall>p. invalid_code c p \<longrightarrow> invalid_code c' p) \<Longrightarrow> kseg_ok c'"
  unfolding kseg_ok_def by (auto split: option.splits)

text \<open>A jump to a word that is not in use finds it undecoded.\<close>

lemma jump_to_unused:
  fixes s :: "'a dev"
  assumes "kseg_ok c" "not_in_use c x" "0x80000000 \<le> x" "x < 0xc0000000" "skip_jump s = 0"
  shows "\<exists>c2 b. cached_interpreter_jump_to junk True x c s = Some (c2, s\<lparr>pc_addr := x AND NOT 3\<rparr>) \<and>
    actual c2 = Some (page_of x) \<and> blocks c2 (page_of x) = Some b \<and> ops (get_instr b (pc_index c2)) = NOTCOMPILED"
proof -
  obtain c2 b where c2: "cached_interpreter_jump_to junk True x c s = Some (c2, s\<lparr>pc_addr := x AND NOT 3\<rparr>)" "actual c2 = Some (page_of x)"
    "blocks c2 (page_of x) = Some b" "kseg_block (page_of x) b" "pc_index c2 = unat x mod 4096 div 4"
    "if invalid_code c (page_of x) \<or> invalid_code c (other_page (page_of x)) then fresh_block (page_of x) b else blocks c2 = blocks c"
    using jump_to_kseg [OF assms(1,3-5), of junk] by blast
  have "unat x mod 4096 div 4 < 1024" using mod_less_divisor [of 4096 "unat x"] by (simp add: less_mult_imp_div_less)
  then have "ops (get_instr b (unat x mod 4096 div 4)) = NOTCOMPILED"
    using c2(3,4,6) assms(2)
    by (auto simp: fresh_block_def not_in_use_def is_not_compiled_def get_instr_def unat_offset kseg_block_def split: if_splits)
  then show ?thesis using c2 by auto
qed

text \<open>
  Code that was overwritten is decoded again: after the invalidation of a range of bytes, a jump to a directly mapped address of the range
  arrives at an instruction that has not been decoded, whatever had been decoded there before.
\<close>

theorem invalidated_code_not_decoded:
  fixes s :: "'a dev"
  assumes "kseg_ok c" "sz \<noteq> 0" "unat address mod 4 = 0" "unat address + unat sz \<le> 0xFFFFF000"
    and "unat address \<le> unat x" "unat x < unat address + unat sz" "0x80000000 \<le> x" "x < 0xc0000000" "skip_jump s = 0"
  shows "\<exists>c1 c2 b. invalidate_cached_code_hacktarux address sz c = Some c1 \<and>
    cached_interpreter_jump_to junk True x c1 s = Some (c2, s\<lparr>pc_addr := x AND NOT 3\<rparr>) \<and>
    actual c2 = Some (page_of x) \<and> blocks c2 (page_of x) = Some b \<and> ops (get_instr b (pc_index c2)) = NOTCOMPILED"
proof -
  obtain c1 where c1: "invalidate_cached_code_hacktarux address sz c = Some c1" "blocks c1 = blocks c"
    "\<forall>p. invalid_code c p \<longrightarrow> invalid_code c1 p" "not_in_use c1 x"
    using invalidation_covers [OF assms(2-4), of c] assms(5,6) by blast
  show ?thesis using c1(1) jump_to_unused [OF kseg_ok_mono [OF assms(1) c1(2,3)] c1(4) assms(7-9), of junk] by blast
qed

definition decoded_page :: cached_interp where
  "decoded_page = \<lparr>invalid_code = \<lambda>p. p \<noteq> 0x80000 \<and> p \<noteq> 0xA0000,
     blocks = \<lambda>p. if p = 0x80000 \<or> p = 0xA0000
       then Some \<lparr>blk = Some (map (\<lambda>i. zero_instr\<lparr>addr := push_bit 12 p + of_nat i * 4\<rparr>) [0..<1281]), blk_start = push_bit 12 p, blk_end = push_bit 12 p + 0x1000, xxhash = 0\<rparr> else None,
     actual = None, pc_index = 0\<rparr>"

lemma decoded_page_ok: "kseg_ok decoded_page"
proof -
  have "p = 0x80000 \<or> p = 0xA0000 \<Longrightarrow> kseg_block p \<lparr>blk = Some (map (\<lambda>i. zero_instr\<lparr>addr := push_bit 12 p + of_nat i * 4\<rparr>) [0..<1281]), blk_start = push_bit 12 p, blk_end = push_bit 12 p + 0x1000, xxhash = 0\<rparr>" for p
    by (auto simp: kseg_block_def addressed_def page_of_def push_bit_eq_mult drop_bit_eq_div del: upt_rec_numeral)
  then show ?thesis by (auto simp: kseg_ok_def decoded_page_def)
qed

theorem invalidated_code_not_decoded_witness:
  "\<exists>c1 c2 b. invalidate_cached_code_hacktarux 0x80000100 8 decoded_page = Some c1 \<and>
    cached_interpreter_jump_to 0 True 0x80000104 c1 jump_sample = Some (c2, jump_sample\<lparr>pc_addr := 0x80000104 AND NOT 3\<rparr>) \<and>
    actual c2 = Some (page_of 0x80000104) \<and> blocks c2 (page_of 0x80000104) = Some b \<and> ops (get_instr b (pc_index c2)) = NOTCOMPILED"
  by (rule invalidated_code_not_decoded [OF decoded_page_ok]) (simp_all add: jump_sample_def)

section \<open>Where the loop leaves the array\<close>

text \<open>\<^verbatim>\<open>JR r31\<close> always ends a block, also the block that another one has ended.\<close>

lemma jr_word: "r4300_get_idec 0x03E00008 = d_JR" "r4300_get_idec 0 = d_NOP"
  by (simp add: get_idec OPCODE_OF_def FUNCT_OF_def drop_bit_eq_div special_ops_def)
    (simp add: r4300_get_idec_def op_table_values)

lemma nop_step:
  assumes "blocks c p = Some b" "kseg_block p b" "blk_start b \<noteq> 0xa4000000" "i < 1278" "iw i = 0"
  shows "\<exists>b'. recompile_step p iw i 0 c s = (0, c\<lparr>blocks := (blocks c)(p \<mapsto> b')\<rparr>, s) \<and> kseg_block p b' \<and> blk_start b' = blk_start b"
proof -
  obtain l where l: "blk b = Some l" "length l = 1281" "addressed (blk_start b) l" using assms(2) by (auto simp: kseg_block_def)
  obtain inst op where d: "r4300_decode ((l ! i)\<lparr>addr := blk_start b + of_nat i * 4\<rparr>) (r4300_get_idec (iw i)) (iw i) (iw (i + 1))
      (b\<lparr>blk := Some (l[i := (l ! i)\<lparr>addr := blk_start b + of_nat i * 4\<rparr>])\<rparr>) = Some (inst, op)" "ends_block op \<longrightarrow> block_end_op (r4300_get_idec (iw i))"
    using decode_word by blast
  have "op = R4300_OP_NOP" using d(1) assms(5) jr_word(2) by (auto simp: r4300_decode_def Let_def with_ops_def split: option.splits operands.splits if_splits)
  then have "next_finished b i op 0 = 0" using kseg_finished [OF assms(2), of i op 0] assms(3,4) by (simp add: ends_block_def)
  then show ?thesis using kseg_step [OF assms(1,2) l(1) _ d(1), where f = 0 and s = s] assms(4) decoded_block(2) [OF d(1) refl _ assms(2) l(2,3)] by auto
qed

lemma nop_run:
  assumes "blocks c p = Some b" "kseg_block p b" "blk_start b \<noteq> 0xa4000000" "i \<le> 1278" "\<And>j. j < 1278 \<Longrightarrow> iw j = 0"
  shows "\<exists>c' b'. recompile_loop p iw i 0 c s = recompile_loop p iw 1278 0 c' s \<and> blocks c' p = Some b' \<and> kseg_block p b' \<and>
    blk_start b' = blk_start b"
  using assms(1-4)
proof (induction "1278 - i" arbitrary: i c b)
  case 0
  then show ?case by (intro exI [of _ c] exI [of _ b]) simp
next
  case (Suc n)
  have lt: "i < 1278" using Suc.hyps(2) by simp
  obtain b' where b': "recompile_step p iw i 0 c s = (0, c\<lparr>blocks := (blocks c)(p \<mapsto> b')\<rparr>, s)" "kseg_block p b'" "blk_start b' = blk_start b"
    using nop_step [OF Suc.prems(1-3), where iw = iw and s = s and i = i] assms(5) [of i] lt by blast
  have "recompile_loop p iw i 0 c s = recompile_loop p iw (i + 1) 0 (c\<lparr>blocks := (blocks c)(p \<mapsto> b')\<rparr>) s"
    by (subst recompile_loop.simps) (simp add: b'(1))
  moreover have "\<exists>c2 b2. recompile_loop p iw (i + 1) 0 (c\<lparr>blocks := (blocks c)(p \<mapsto> b')\<rparr>) s = recompile_loop p iw 1278 0 c2 s \<and>
      blocks c2 p = Some b2 \<and> kseg_block p b2 \<and> blk_start b2 = blk_start b'"
    using Suc.hyps(1) [of "i + 1" "c\<lparr>blocks := (blocks c)(p \<mapsto> b')\<rparr>" b'] Suc.hyps(2) b'(2,3) Suc.prems(3) by fastforce
  ultimately show ?case using b'(3) by metis
qed

lemma jr_step:
  assumes "blocks c p = Some b" "kseg_block p b" "i < 1281" "iw i = 0x03E00008"
  shows "\<exists>b'. recompile_step p iw i f c s = (1, c\<lparr>blocks := (blocks c)(p \<mapsto> b')\<rparr>, s) \<and> kseg_block p b'"
proof -
  obtain l where l: "blk b = Some l" "length l = 1281" "addressed (blk_start b) l" using assms(2) by (auto simp: kseg_block_def)
  obtain inst op where d: "r4300_decode ((l ! i)\<lparr>addr := blk_start b + of_nat i * 4\<rparr>) (r4300_get_idec (iw i)) (iw i) (iw (i + 1))
      (b\<lparr>blk := Some (l[i := (l ! i)\<lparr>addr := blk_start b + of_nat i * 4\<rparr>])\<rparr>) = Some (inst, op)" "ends_block op \<longrightarrow> block_end_op (r4300_get_idec (iw i))"
    using decode_word by blast
  have "op = R4300_OP_JR_OUT"
    using d(1) assms(4) jr_word(1) by (auto simp: r4300_decode_def Let_def with_ops_def split: option.splits operands.splits if_splits)
  then have "next_finished b i op f = 1" using kseg_finished [OF assms(2), of i op f] by (simp add: ends_block_def)
  then show ?thesis using kseg_step [OF assms(1,2) l(1) assms(3) d(1), where f = f and s = s] decoded_block(2) [OF d(1) refl _ assms(2) l(2,3)] by auto
qed

lemma last_step:
  assumes "blocks c p = Some b" "kseg_block p b" "i < 1281" "iw i = 0"
  shows "\<exists>b'. recompile_step p iw i 1 c s = (2, c\<lparr>blocks := (blocks c)(p \<mapsto> b')\<rparr>, s) \<and> kseg_block p b'"
proof -
  obtain l where l: "blk b = Some l" "length l = 1281" "addressed (blk_start b) l" using assms(2) by (auto simp: kseg_block_def)
  obtain inst op where d: "r4300_decode ((l ! i)\<lparr>addr := blk_start b + of_nat i * 4\<rparr>) (r4300_get_idec (iw i)) (iw i) (iw (i + 1))
      (b\<lparr>blk := Some (l[i := (l ! i)\<lparr>addr := blk_start b + of_nat i * 4\<rparr>])\<rparr>) = Some (inst, op)" "ends_block op \<longrightarrow> block_end_op (r4300_get_idec (iw i))"
    using decode_word by blast
  have "\<not> ends_block op" using d(2) assms(4) jr_word(2) by (simp add: block_end_op_def)
  then have "next_finished b i op 1 = 2" using kseg_finished [OF assms(2), of i op 1] by simp
  then show ?thesis using kseg_step [OF assms(1,2) l(1) assms(3) d(1), where f = 1 and s = s] decoded_block(2) [OF d(1) refl _ assms(2) l(2,3)] by auto
qed

text \<open>
  Two jumps at the end of the room behind a page: the loop goes on to the last entry, and the mark of the end of the block is
  written behind the array.
\<close>

theorem jumps_overrun_block:
  fixes s :: "'a dev"
  assumes "blocks c p = Some b" "kseg_block p b" "blk_start b \<noteq> 0xa4000000"
    and iw: "\<And>j. iw j = (if j = 1278 \<or> j = 1279 then 0x03E00008 else 0)"
  shows "\<exists>c'. cached_interp_recompile_block iw p func c s = Some (c', set_fault s)"
proof -
  let ?b = "b\<lparr>xxhash := 0\<rparr>" and ?i = "unat (func AND 0xfff) div 4"
  let ?c = "c\<lparr>blocks := (blocks c)(p \<mapsto> ?b)\<rparr>"
  have "?i < 1024" unfolding unat_offset using mod_less_divisor [of 4096 "unat func"] by (simp add: less_mult_imp_div_less)
  then obtain c1 b1 where 1: "recompile_loop p iw ?i 0 ?c s = recompile_loop p iw 1278 0 c1 s" "blocks c1 p = Some b1" "kseg_block p b1"
    using nop_run [of ?c p ?b ?i iw s] assms(2,3) iw by auto
  obtain b2 where 2: "recompile_step p iw 1278 0 c1 s = (1, c1\<lparr>blocks := (blocks c1)(p \<mapsto> b2)\<rparr>, s)" "kseg_block p b2"
    using jr_step [OF 1(2,3), of 1278 iw 0 s] iw by auto
  obtain b3 where 3: "recompile_step p iw 1279 1 (c1\<lparr>blocks := (blocks c1)(p \<mapsto> b2)\<rparr>) s = (1, c1\<lparr>blocks := (blocks c1)(p \<mapsto> b3)\<rparr>, s)" "kseg_block p b3"
    using jr_step [of "c1\<lparr>blocks := (blocks c1)(p \<mapsto> b2)\<rparr>" p b2 1279 iw 1 s] iw 2(2) by auto
  obtain b4 where 4: "recompile_step p iw 1280 1 (c1\<lparr>blocks := (blocks c1)(p \<mapsto> b3)\<rparr>) s = (2, c1\<lparr>blocks := (blocks c1)(p \<mapsto> b4)\<rparr>, s)" "kseg_block p b4"
    using last_step [of "c1\<lparr>blocks := (blocks c1)(p \<mapsto> b3)\<rparr>" p b3 1280 iw s] iw 3(2) by auto
  have "recompile_loop p iw 1278 0 c1 s = Some (1281, c1\<lparr>blocks := (blocks c1)(p \<mapsto> b4)\<rparr>, s)"
    by (subst recompile_loop.simps, simp add: 2(1), subst recompile_loop.simps, simp add: 3(1) [simplified], subst recompile_loop.simps,
        simp add: 4(1) [simplified], subst recompile_loop.simps, simp)
  moreover have "\<not> in_block b4 1281" using 4(2) by (auto simp: in_block_def kseg_block_def)
  ultimately show ?thesis using 1(1) assms(1) kseg_block_facts(1) [OF assms(2)]
    by (simp add: cached_interp_recompile_block_def Let_def put_fin_block_def check_bounds_def get_block_length_def)
qed

theorem jumps_overrun_block_witness:
  "\<exists>c'. cached_interp_recompile_block (\<lambda>j. if j = 1278 \<or> j = 1279 then 0x03E00008 else 0) 0x80000 0x80000000 decoded_page jump_sample =
     Some (c', set_fault jump_sample)"
  by (rule jumps_overrun_block [where b = "the (blocks decoded_page 0x80000)"])
    (simp_all add: decoded_page_def kseg_block_def addressed_def page_of_def push_bit_eq_mult drop_bit_eq_div del: upt_rec_numeral)

end
