(* ===== verification/Cached_Store.thy ===== *)
theory Cached_Store
  imports Cached_Compile
begin

text \<open>
  Stores under the cached interpreter (\<^verbatim>\<open>r4300_write_aligned_word\<close>, \<^verbatim>\<open>r4300_write_aligned_dword\<close> and
  \<^verbatim>\<open>invalidate_r4300_cached_code\<close> of \<^verbatim>\<open>r4300_core.c\<close>): each invalidates what was decoded from the address and from the same address in the other
  segment. What was stored is what runs next, and a store to the last page of the address space hangs the emulator.
\<close>

datatype emumode = EMUMODE_PURE_INTERPRETER | EMUMODE_INTERPRETER

definition invalidate_r4300_cached_code :: "emumode \<Rightarrow> u32 \<Rightarrow> u64 \<Rightarrow> cached_interp \<Rightarrow> cached_interp option" where
  "invalidate_r4300_cached_code mode address sz c =
     (if mode \<noteq> EMUMODE_PURE_INTERPRETER then invalidate_cached_code_hacktarux address sz c else Some c)"

text \<open>The address of a store after translation and invalidation, \<open>None\<close> inside after a TLB exception.\<close>

definition invalidate_store ::
    "emumode \<Rightarrow> u32 \<Rightarrow> u64 \<Rightarrow> cached_interp \<Rightarrow> 'a dev \<Rightarrow> (u32 option \<times> cached_interp \<times> 'a dev) option" where
  "invalidate_store mode address sz c0 s0 =
     Option.bind
       (if address AND 0xc0000000 \<noteq> 0x80000000
        then Option.bind (invalidate_r4300_cached_code mode address sz c0) (\<lambda>c.
          let (paddr, s) = virtual_to_physical_address address 1 s0 in Some (if paddr = 0 then None else Some paddr, c, s))
        else Some (Some address, c0, s0))
       (\<lambda>(a, c, s).
         case a of
           None \<Rightarrow> Some (None, c, s)
         | Some a \<Rightarrow>
             Option.bind (invalidate_r4300_cached_code mode a sz c) (\<lambda>c.
             Option.bind (invalidate_r4300_cached_code mode (a XOR 0x20000000) sz c) (\<lambda>c.
             Some (Some (a AND 0x1ffffffc), c, s))))"

definition cached_write_aligned_word ::
    "'a dev machine \<Rightarrow> ('a dev \<Rightarrow> 'a dev) \<Rightarrow> emumode \<Rightarrow> u32 \<Rightarrow> u32 \<Rightarrow> u32 \<Rightarrow> cached_interp \<Rightarrow> 'a dev \<Rightarrow> (bool \<times> cached_interp \<times> 'a dev) option" where
  "cached_write_aligned_word env gen mode address v m c0 s0 =
     map_option (\<lambda>(a, c, s).
       case a of
         None \<Rightarrow> (False, c, s)
       | Some a \<Rightarrow> (True, c, mem_write32 env gen (mem_get_handler a s) a v m s))
     (invalidate_store mode address 4 c0 s0)"

definition cached_write_aligned_dword ::
    "'a dev machine \<Rightarrow> ('a dev \<Rightarrow> 'a dev) \<Rightarrow> emumode \<Rightarrow> u32 \<Rightarrow> u64 \<Rightarrow> u64 \<Rightarrow> cached_interp \<Rightarrow> 'a dev \<Rightarrow> (bool \<times> cached_interp \<times> 'a dev) option" where
  "cached_write_aligned_dword env gen mode address v m c0 s0 =
     map_option (\<lambda>(a, c, s).
       case a of
         None \<Rightarrow> (False, c, s)
       | Some a \<Rightarrow>
           let h = mem_get_handler a s;
               s = mem_write32 env gen h a (ucast (drop_bit 32 v)) (ucast (drop_bit 32 m)) s
           in (True, c, mem_write32 env gen h (a + 4) (ucast v) (ucast m) s))
     (invalidate_store mode address 8 c0 s0)"

section \<open>The address is not in use\<close>

lemma invalidate_loop_returns:
  assumes "unat m \<le> 0xFFFFF000"
  shows "\<exists>c'. invalidate_loop a m c = Some c' \<and> blocks c' = blocks c \<and> (\<forall>p. invalid_code c p \<longrightarrow> invalid_code c' p) \<and> (a < m \<longrightarrow> not_in_use c' a)"
proof (induction "unat m - unat a" arbitrary: a c rule: less_induct)
  case less
  show ?case
  proof (cases "a < m")
    case False
    then show ?thesis by (auto simp: invalidate_loop_simps(1))
  next
    case True
    then have lt: "unat a < unat m" by (simp add: word_less_nat_alt)
    then have small: "unat a < 0xFFFFF000" using assms by simp
    show ?thesis
    proof (cases "\<not> invalid_code c (page_of a) \<and> is_not_compiled (blocks c (page_of a)) (unat (a AND 0xfff) div 4)")
      case nc: True
      have "unat (a + 4) = unat a + 4" using small by (simp add: unat_word_ariths)
      then obtain c' where c': "invalidate_loop (a + 4) m c = Some c'" "blocks c' = blocks c" "\<forall>p. invalid_code c p \<longrightarrow> invalid_code c' p"
        using less.hyps [of "a + 4" c] diff_less_mono2 [OF _ lt, of "unat (a + 4)"] by auto
      moreover have "not_in_use c' a" using nc c'(2) by (simp add: not_in_use_def)
      ultimately show ?thesis using nc True by (auto simp: invalidate_loop_simps(2))
    next
      case c: False
      let ?n = "((a AND NOT 0xfff) OR 0xffc) + 4" and ?c = "c\<lparr>invalid_code := (invalid_code c)(page_of a := True)\<rparr>"
      have "unat a < unat ?n" unfolding next_page [OF small] using div_mult_mod_eq [of "unat a" 4096] mod_less_divisor [of 4096 "unat a"] by linarith
      then obtain c' where c': "invalidate_loop ?n m ?c = Some c'" "blocks c' = blocks c" "\<forall>p. invalid_code ?c p \<longrightarrow> invalid_code c' p"
        using less.hyps [OF diff_less_mono2 [OF _ lt], of ?n ?c] by auto
      moreover have "not_in_use c' a" using c'(3) by (simp add: not_in_use_def)
      moreover have "invalidate_loop a m c = Some c'" unfolding invalidate_loop_simps(2) [OF True] if_not_P [OF c] by (rule c'(1))
      ultimately show ?thesis by auto
    qed
  qed
qed

lemma invalidate_address:
  assumes "0 < sz" "unat sz \<le> 8" "unat a < 0xFFFFEFF8"
  shows "\<exists>c'. invalidate_cached_code_hacktarux a sz c = Some c' \<and> blocks c' = blocks c \<and>
    (\<forall>p. invalid_code c p \<longrightarrow> invalid_code c' p) \<and> not_in_use c' a"
proof -
  have "unat (ucast a :: u64) = unat a" using unat_less_u32 [of a] by (simp add: unsigned_ucast_eq take_bit_nat_eq_self)
  then have "unat (ucast a + sz) = unat a + unat sz" using assms(2,3) by (simp add: unat_word_ariths)
  then have m: "unat (ucast (ucast a + sz) :: u32) = unat a + unat sz" using assms(2,3) by (simp add: unsigned_ucast_eq take_bit_nat_eq_self)
  have "0 < unat sz" using assms(1) by (simp add: word_less_nat_alt)
  then show ?thesis using invalidate_loop_returns [of "ucast (ucast a + sz)" a c] assms m
    by (auto simp: invalidate_cached_code_hacktarux_def word_less_nat_alt)
qed

lemma not_in_use_mono:
  "not_in_use c x \<Longrightarrow> blocks c' = blocks c \<Longrightarrow> (\<forall>p. invalid_code c p \<longrightarrow> invalid_code c' p) \<Longrightarrow> not_in_use c' x"
  by (auto simp: not_in_use_def)

lemma kseg_bound: "a < 0xc0000000 \<Longrightarrow> unat a < 0xFFFFEFF8" for a :: u32
  by (simp add: word_less_nat_alt)

lemma same_word_bits: "drop_bit 2 y = drop_bit 2 x \<Longrightarrow> not_in_use c x = not_in_use c y" for x y :: u32
  using not_in_use_word [of x y c] unat_shift [of 2 x] unat_shift [of 2 y] by simp

lemma invalidate_store_kseg:
  fixes s :: "'a dev"
  assumes "0x80000000 \<le> x" "x < 0xc0000000" "sz = 4 \<or> sz = 8"
  shows "\<exists>c'. invalidate_store EMUMODE_INTERPRETER x sz c s = Some (Some (x AND 0x1ffffffc), c', s) \<and> blocks c' = blocks c \<and>
    (\<forall>p. invalid_code c p \<longrightarrow> invalid_code c' p) \<and> not_in_use c' x \<and> not_in_use c' (x XOR 0x20000000)"
proof -
  have sz: "0 < sz" "unat sz \<le> 8" using assms(3) by auto
  note y = alias_kseg [OF assms(1,2), THEN conjunct2]
  obtain c1 where c1: "invalidate_cached_code_hacktarux x sz c = Some c1" "blocks c1 = blocks c" "\<forall>p. invalid_code c p \<longrightarrow> invalid_code c1 p"
    "not_in_use c1 x" using invalidate_address [OF sz kseg_bound [OF assms(2)], of c] by blast
  obtain c2 where c2: "invalidate_cached_code_hacktarux (x XOR 0x20000000) sz c1 = Some c2" "blocks c2 = blocks c1"
    "\<forall>p. invalid_code c1 p \<longrightarrow> invalid_code c2 p" "not_in_use c2 (x XOR 0x20000000)" using invalidate_address [OF sz kseg_bound [OF y], of c1] by blast
  have "invalidate_store EMUMODE_INTERPRETER x sz c s = Some (Some (x AND 0x1ffffffc), c2, s)"
    using kseg_class [OF assms(1,2)] c1(1) c2(1) by (simp add: invalidate_store_def invalidate_r4300_cached_code_def)
  then show ?thesis using c1(2,3) c2(2-4) not_in_use_mono [OF c1(4) c2(2,3)] by auto
qed

text \<open>
  C8. Self-modifying code. A word stored through either segment reaches memory as under the pure interpreter, and a later jump to the
  word, through the same or the other segment, arrives at an instruction that is not decoded, so that what was
  stored is what is decoded next.
\<close>

theorem stored_code_not_decoded:
  fixes s t :: "'a dev"
  assumes "kseg_ok c" "0x80000000 \<le> x" "x < 0xc0000000"
    and "drop_bit 2 y = drop_bit 2 x \<or> drop_bit 2 y = drop_bit 2 (x XOR 0x20000000)" "0x80000000 \<le> y" "y < 0xc0000000" "skip_jump t = 0"
  shows "\<exists>c1 c2 b. cached_write_aligned_word env gen EMUMODE_INTERPRETER x v m c s =
      Some (fst (r4300_write_aligned_word env gen x v m s), c1, snd (r4300_write_aligned_word env gen x v m s)) \<and>
    cached_interpreter_jump_to junk True y c1 t = Some (c2, t\<lparr>pc_addr := y AND NOT 3\<rparr>) \<and>
    actual c2 = Some (page_of y) \<and> blocks c2 (page_of y) = Some b \<and> ops (get_instr b (pc_index c2)) = NOTCOMPILED"
proof -
  obtain c1 where c1: "invalidate_store EMUMODE_INTERPRETER x 4 c s = Some (Some (x AND 0x1ffffffc), c1, s)" "blocks c1 = blocks c"
    "\<forall>p. invalid_code c p \<longrightarrow> invalid_code c1 p" "not_in_use c1 x" "not_in_use c1 (x XOR 0x20000000)"
    using invalidate_store_kseg [OF assms(2,3), of 4 c s] by auto
  have "not_in_use c1 y" using assms(4) c1(4,5) same_word_bits by blast
  then have "\<exists>c2 b. cached_interpreter_jump_to junk True y c1 t = Some (c2, t\<lparr>pc_addr := y AND NOT 3\<rparr>) \<and>
      actual c2 = Some (page_of y) \<and> blocks c2 (page_of y) = Some b \<and> ops (get_instr b (pc_index c2)) = NOTCOMPILED"
    by (intro jump_to_unused [OF kseg_ok_mono [OF assms(1) c1(2,3)] _ assms(5-7)])
  moreover have "cached_write_aligned_word env gen EMUMODE_INTERPRETER x v m c s =
      Some (fst (r4300_write_aligned_word env gen x v m s), c1, snd (r4300_write_aligned_word env gen x v m s))"
    using c1(1) kseg_class [OF assms(2,3)] by (simp add: cached_write_aligned_word_def r4300_write_aligned_word_def physical_direct)
  ultimately show ?thesis by blast
qed

section \<open>The last page\<close>

lemma next_page_bound: "unat (((a AND NOT 0xfff) OR 0xffc) + 4) \<le> 0xFFFFF000" for a :: u32
proof (cases "unat a < 0xFFFFF000")
  case True
  then show ?thesis using next_page [of a] div_mult_mod_eq [of "unat a" 4096] by simp
next
  case False
  have "(a AND NOT 0xfff) AND 0xffc = 0" by (simp add: and.assoc)
  then have e: "((a AND NOT 0xfff) OR 0xffc) + 4 = (a AND NOT 0xfff) + 0x1000"
    by (simp add: disjunctive_add_eq_or [symmetric])
  have "unat a div 4096 = 0xFFFFF" using False unat_less_u32 [of a] by (intro div_nat_eqI) simp_all
  then have "unat (a AND NOT 0xfff) = 0xFFFFF000" using unat_page_start [of a] by simp
  then have "a AND NOT 0xfff = 0xFFFFF000" by (simp only: word_unat_eq_iff) simp
  then show ?thesis unfolding e by simp
qed

lemma invalidate_loop_never:
  assumes "invalidate_loop a m c = Some c'" "0xFFFFF003 < unat m" "invalid_code c 0xFFFFF"
  shows "\<not> a < m"
proof -
  have "0xFFFFF003 < unat m \<and> invalid_code c 0xFFFFF \<longrightarrow> \<not> a < m"
  proof (rule invalidate_loop.raw_induct [OF _ assms(1), where P = "\<lambda>a m c y. 0xFFFFF003 < unat m \<and> invalid_code c 0xFFFFF \<longrightarrow> \<not> a < m"])
    fix rec :: "u32 \<Rightarrow> u32 \<Rightarrow> cached_interp \<Rightarrow> cached_interp option" and a m c y
    assume rec: "\<And>a m c y. rec a m c = Some y \<Longrightarrow> 0xFFFFF003 < unat m \<and> invalid_code c 0xFFFFF \<longrightarrow> \<not> a < m"
    assume body: "(if \<not> a < m then Some c
       else let i = page_of a; next_page = (a AND NOT 0xfff) OR 0xffc in
           if \<not> invalid_code c i
           then if is_not_compiled (blocks c i) (unat (a AND 0xfff) div 4) then rec (a + 4) m c
                else rec (next_page + 4) m (c\<lparr>invalid_code := (invalid_code c)(i := True)\<rparr>)
           else rec (next_page + 4) m c) = Some y"
    have "False" if m: "0xFFFFF003 < unat m" and i: "invalid_code c 0xFFFFF" and lt: "a < m"
    proof -
      have n: "((a AND NOT 0xfff) OR 0xffc) + 4 < m" using next_page_bound [of a] m unfolding word_less_nat_alt by linarith
      have "a + 4 < m" if "\<not> invalid_code c (page_of a)"
      proof -
        have "page_of a \<noteq> 0xFFFFF" using that i by metis
        then have "unat a div 4096 \<noteq> 0xFFFFF" using unat_page [of a] by (auto simp: word_unat_eq_iff)
        then have "unat a div 4096 < 0xFFFFF" using unat_less_u32 [of a] less_mult_imp_div_less [of "unat a" "0x100000" 4096] by simp
        then have "unat a < 0xFFFFF000" using div_mult_mod_eq [of "unat a" 4096] mod_less_divisor [of 4096 "unat a"] by linarith
        then have "unat (a + 4) < 0xFFFFF004" by (simp add: unat_word_ariths)
        then show ?thesis using m by (simp add: word_less_nat_alt)
      qed
      then show False using body rec n m i lt by (auto simp: Let_def split: if_splits)
    qed
    then show "0xFFFFF003 < unat m \<and> invalid_code c 0xFFFFF \<longrightarrow> \<not> a < m" by blast
  qed
  then show ?thesis using assms(2,3) by blast
qed


section \<open>Witnesses\<close>

theorem stored_code_not_decoded_witness:
  "\<forall>env gen (s :: is_viewer). \<exists>c1 c2 b. cached_write_aligned_word env gen EMUMODE_INTERPRETER 0x80000106 0x24 0xFF decoded_page s =
      Some (fst (r4300_write_aligned_word env gen 0x80000106 0x24 0xFF s), c1, snd (r4300_write_aligned_word env gen 0x80000106 0x24 0xFF s)) \<and>
    cached_interpreter_jump_to 0 True 0xA0000104 c1 jump_sample = Some (c2, jump_sample\<lparr>pc_addr := 0xA0000104 AND NOT 3\<rparr>) \<and>
    actual c2 = Some (page_of 0xA0000104) \<and> blocks c2 (page_of 0xA0000104) = Some b \<and> ops (get_instr b (pc_index c2)) = NOTCOMPILED"
  by (intro allI stored_code_not_decoded [OF decoded_page_ok]) (simp_all add: jump_sample_def drop_bit_eq_div)


end
