(* ===== verification/Spec2Isabelle.thy ===== *)
theory Spec2Isabelle
  imports Machine Delay_Slot Cached_Store
begin

text \<open>
  A verification development of the emulator core of PenguinScreen64, a Nintendo 64 emulator in the
  Mupen64Plus family (\<^verbatim>\<open>src/src\<close> of the repository).

  \<^bold>\<open>The program.\<close> The emulator owns one \<^verbatim>\<open>struct device\<close>: the R4300 processor with its coprocessors and TLB, the
  queue of timed events, RDRAM, the RCP (MIPS, video, audio, peripheral, serial and RDRAM interfaces, signal and
  display processors), the PIF with the joybus devices on its channels, the cartridge and the disk drive. The processor reaches
  the devices through a table of memory handlers, one per 64 KiB region; the devices schedule events in the
  queue and raise interrupts through the MIPS interface; DMA engines copy between RDRAM, the signal
  processor's memories, the cartridge and the PIF. Graphics, audio, input and microcode belong to plugins.

  \<^bold>\<open>The model.\<close> The state of the machine is one record that each theory extends by the fields of its component, in
  the order \<open>host\<close>, \<open>cp0\<close>, \<open>r4300_core\<close>, \<open>mi_controller\<close>, \<open>memory\<close>, \<open>rdram\<close>, \<open>rdp_core\<close>, \<open>vi_controller\<close>,
  \<open>ai_controller\<close>, \<open>rsp_core\<close>, \<open>pif\<close> (with the serial interface), \<open>pi_controller\<close>, \<open>cart\<close>, \<open>gb_carts\<close>,
  \<open>controllers\<close>, \<open>dd_controller\<close>, \<open>is_viewer\<close>; an operation of a component works on every extension of its record. Machine integers are words of their
  width, memories are functions from an index to a byte or a word, and
  \<open>fault\<close> is raised where the C code would leave defined behaviour (a null pointer, an index outside an array, a
  division by zero, a failed assertion, an endless loop). Calls to plugins and back ends are recorded in
  \<open>ext_log\<close>; those that compute something are parameters. The build modelled is a little-endian host with the
  pure interpreter, without debugger and netplay.

  \<^bold>\<open>Theories.\<close>
  \<^item> \<open>Prelude\<close>, \<open>Bytes\<close>, \<open>Host\<close>: masked register writes, byte order, byte memories behind the interface
    \<open>byte_store\<close> (interpreted for word-organised and byte-organised memories), the host.
  \<^item> \<open>Tlb\<close> (\<^verbatim>\<open>tlb.c\<close>): entries and look-up tables; mapping and unmapping as loops that may not end
    (\<open>fill_lut\<close> is a partial function: \<open>None\<close> is an endless loop), translation, and the one page that hangs the loop.
  \<^item> \<open>Event_Queue_Spec\<close>, \<open>Event_Queue\<close>, \<open>Cp0\<close>, \<open>Events\<close> (\<^verbatim>\<open>interrupt.c\<close>, \<^verbatim>\<open>cp0.c\<close>): the queue as an abstract sorted
    list (locale \<open>event_queue\<close>), its implementation by a pool of sixteen linked nodes (interpretation \<open>iq\<close>), the operations of CP0
    on it, order in the presence of wrap-around, save and load. Walks over the list take the pool size
    as fuel: a well-formed list has at most sixteen nodes, and running out of fuel is \<open>None\<close>.
  \<^item> \<open>Interrupt\<close> (\<^verbatim>\<open>gen_interrupt\<close>): dispatch, and the contract \<open>interrupt_handlers\<close> under which the special event
    survives it.
  \<^item> \<open>Mi\<close>, \<open>Memory\<close>, \<open>Rdram\<close>, \<open>Rdp\<close>, \<open>Vi\<close>, \<open>Ai\<close>, \<open>Rsp\<close>: the RCP and memory. DMA fifos are shown to be
    bounded queues, DMA copies to be exact, the interrupt line to follow its registers.
  \<^item> \<open>Pif\<close> (\<^verbatim>\<open>si_controller.c\<close>, \<^verbatim>\<open>pif.c\<close>, \<^verbatim>\<open>cic.c\<close>, \<^verbatim>\<open>n64_cic_nus_6105.c\<close>), \<open>Pi\<close>: the serial and peripheral interfaces with
    their contracts \<open>joybus_devices\<close> and \<open>pi_handlers\<close>.
  \<^item> \<open>Cart\<close>, \<open>Controllers\<close>, \<open>Vru\<close>, \<open>Is_Viewer\<close>: storage, joybus commands, paks, the voice recognition unit, the debug port.
  \<^item> \<open>Gb_Cart\<close>, \<open>Mbc3_Rtc\<close>, \<open>M64282fp\<close> (\<^verbatim>\<open>device/gb\<close>): the Game Boy cartridges a transfer pak reads and writes, with every
    memory controller chip of the sources, the real-time clock, and the camera: accesses stay in ROM and RAM and bank numbers in range,
    the in-place filters of the camera are shown to be the convolutions they stand for and the tiles to hold the picture.
  \<^item> \<open>Disk\<close>, \<open>Disk_Layout\<close>, \<open>Dd\<close> (\<^verbatim>\<open>device/dd\<close>): 64DD disks and their drive. \<open>Disk\<close> holds the geometry and the image formats,
    with table reads out of bounds as errors; \<open>Disk_Layout\<close> states what a layout without overlaps gives
    (locale \<open>sector_layout\<close>), shows it for the MAME and SDK formats and that logical blocks and physical positions
    correspond. \<open>Dd\<close> is the controller: registers, commands, motor and buffer manager. A read comes to its end
    and delivers the sectors of the image, a written sector is read back, and protected tracks are not written.
  \<^item> \<open>Cheat\<close> (\<^verbatim>\<open>main/cheat.c\<close>): GameShark codes. Conditions guard exactly the next code, disabling a cheat of plain writes gives memory back
    unless its codes overlap, and the codes of the ROM data base are parsed as they are written, within the array
    allocated for them.
  \<^item> \<open>Device\<close> (\<^verbatim>\<open>device.c\<close>, \<^verbatim>\<open>bootrom_hle.c\<close>, processor access of \<^verbatim>\<open>r4300_core.c\<close>, resets of \<^verbatim>\<open>interrupt.c\<close>): the
    tables that connect the components.
  \<^item> \<open>Memory_Map\<close>: the table of memory handlers is the documented map of the bus.
  \<^item> \<open>Cp1\<close>, \<open>Fpu\<close> (\<^verbatim>\<open>cp1.c\<close>, \<^verbatim>\<open>fpu.h\<close>): the floating point registers in their two layouts, comparisons on IEEE
    encodings, conversions and arithmetic over the host's (record \<open>host_fpu\<close>, a parameter with the rounding mode).
  \<^item> \<open>Alu\<close>, \<open>Load_Store\<close>, \<open>Cop0\<close>, \<open>Cop1\<close> (\<^verbatim>\<open>mips_instructions.def\<close>): every instruction, as a function from the operation
    word and the machine to the machine; TLB writes return an option, \<open>None\<close> being the endless loop of \<open>Tlb\<close>.
    Products and quotients are exact, unaligned accesses compose to a word, what is written to the
    TLB is read back and takes effect on stores.
  \<^item> \<open>Interp\<close> (\<^verbatim>\<open>pure_interp.c\<close>): fetch, decoding tables, jumps, the idle-loop shortcut and the run loop.
    \<open>InterpretOpcode\<close> calls itself for delay slots and is a partial function (\<open>None\<close> is not returning).
  \<^item> \<open>Delay_Slot\<close>: the jumps of the architecture, described once more by the fields of the opcode, and what interpreting one does: the order of
    linking, delay slot, accounting of time and jump, and an exception in the delay slot. It uses the lemmas on segments of \<open>Cached_Jumps\<close>.
  \<^item> \<open>Idec\<close> (\<^verbatim>\<open>idec.c\<close>): the instruction decoder, tables of opcodes with the registers and immediates each reads.
  \<^item> \<open>Cached_Table\<close>, \<open>Cached_Decode\<close>, \<open>Cached_Agree\<close>, \<open>Cached_Equiv\<close>, \<open>Cached_Jumps\<close> (\<^verbatim>\<open>cached_interp.c\<close>): what the cached interpreter
    stores for a word. A handler reads only the operands the decoder has written, and run on them it is the instruction of the
    pure interpreter, but for the words of \<open>decoders_differ\<close>; jumps get the variant that fits their target.
  \<^item> \<open>Cached_Blocks\<close>, \<open>Cached_Code\<close>, \<open>Cached_Compile\<close>, \<open>Cached_Store\<close> (\<^verbatim>\<open>cached_interp.c\<close>, \<^verbatim>\<open>r4300_core.c\<close>): the blocks, one per page.
    The loops that decode and invalidate may not end (partial functions). Decoding ends within the array unless jumps follow each other,
    a store leaves no decoded instruction at its address in either segment, and in the last page of the address space it hangs.
  \<^item> \<open>Machine\<close>: the contract \<open>machine_ok\<close> on plugins and save states; from it the device satisfies all the
    contracts above (sublocales), as the machine with the dummy plugins of \<^verbatim>\<open>src/src/plugin\<close> does (interpretation \<open>dummy\<close>);
    runs of the machine, instructions included, as a step relation, access through segments and the TLB, and resets.

  \<^bold>\<open>Not modelled.\<close> The run loop of the cached interpreter with the handlers that steer it (end of a block, not
  compiled): they change the program counter inside the instructions, which here work on the address only; the recompilers (machine code
  of the host), the arithmetic of the host's floating point unit (a parameter); front end (but for cheats), save state
  files, configuration, back ends, OSD and the virtual reality extension (operating system, graphics and
  floating point); the debugger.
\<close>

end
